(* ===== verification/Binapi_Prelude.thy ===== *)
theory Binapi_Prelude
  imports Main "HOL-Library.Word"
begin

text \<open>
  Shared vocabulary of the development: the fixed-width types of the C++ sources, the
  exceptions they throw, a bind for computations that may throw, decimal digit strings
  (what \<^verbatim>\<open>std::to_string\<close> prints for an unsigned number) and the generic lemmas on
  lists and words that the component theories use. The collections declared here gather
  the facts each family of proofs rewrites with.
\<close>

named_theorems range_simps \<open>ranges of the fixed-width integers\<close>
named_theorems book_simps \<open>laws of the ordered maps that hold the sides of a book\<close>
named_theorems wire_defs \<open>definitions of the wire-name tables\<close>

unbundle bit_operations_syntax

section \<open>Fixed-width integers\<close>

type_synonym u8 = "8 word"
type_synonym u32 = "32 word"
type_synonym u64 = "64 word"
type_synonym u128 = "128 word"

text \<open>
  A signed 128-bit value is an \<^typ>\<open>int\<close>; leaving its range is undefined behaviour in C++
  and an explicit outcome of the model.
\<close>

definition i128_ok :: "int \<Rightarrow> bool" where
  "i128_ok v \<longleftrightarrow> - (2 ^ 127) \<le> v \<and> v \<le> 2 ^ 127 - 1"

text \<open>The exceptions of the sources, and undefined behaviour as one more way not to return.\<close>

datatype cpp_exn =
    Invalid_argument string
  | Overflow_error string
  | Domain_error string
  | Runtime_error string
  | Out_of_range string
  | Undefined_behaviour

type_synonym 'a may_throw = "cpp_exn + 'a"

definition bind_exn :: "'e + 'a \<Rightarrow> ('a \<Rightarrow> 'e + 'b) \<Rightarrow> 'e + 'b" where
  "bind_exn m f = (case m of Inl e \<Rightarrow> Inl e | Inr x \<Rightarrow> f x)"

lemma bind_exn_simps [simp]:
  "bind_exn (Inl e) f = Inl e"
  "bind_exn (Inr x) f = f x"
  by (simp_all add: bind_exn_def)

lemma bind_exn_Inr_iff:
  "bind_exn m f = Inr y \<longleftrightarrow> (\<exists>x. m = Inr x \<and> f x = Inr y)"
  by (cases m) auto

text \<open>A signed 128-bit operation: its value, or undefined behaviour when it does not fit.\<close>

definition i128 :: "int \<Rightarrow> int may_throw" where
  "i128 v = (if i128_ok v then Inr v else Inl Undefined_behaviour)"

lemma i128_Inr [simp]: "i128_ok v \<Longrightarrow> i128 v = Inr v"
  by (simp add: i128_def)

lemma i128_eq_Inr: "i128 v = Inr w \<longleftrightarrow> i128_ok v \<and> w = v"
  by (auto simp: i128_def)

lemma i128_okI: "- (2 ^ 127) \<le> v \<Longrightarrow> v < 2 ^ 127 \<Longrightarrow> i128_ok v"
  by (simp add: i128_ok_def)

lemma pow10_le_i128 [range_simps]: "(10::int) ^ 38 < 2 ^ 127"
  by simp

lemma i128_ok_int: "n < 10 ^ 38 \<Longrightarrow> i128_ok (int n)"
proof -
  assume "n < 10 ^ 38"
  then have "int n < int (10 ^ 38)" by (simp only: of_nat_less_iff)
  then show ?thesis unfolding i128_ok_def by simp
qed

text \<open>Truncating division and remainder of C++.\<close>

definition cpp_div :: "int \<Rightarrow> int \<Rightarrow> int" where
  "cpp_div a b = sgn a * sgn b * (\<bar>a\<bar> div \<bar>b\<bar>)"

lemma cpp_div_nonneg: "0 \<le> a \<Longrightarrow> 0 < b \<Longrightarrow> cpp_div a b = a div b"
  by (cases "a = 0") (simp_all add: cpp_div_def)

section \<open>Decimal digits\<close>

definition digit_char :: "nat \<Rightarrow> char" where
  "digit_char d = char_of (48 + d)"

definition is_digit :: "char \<Rightarrow> bool" where
  "is_digit c \<longleftrightarrow> 48 \<le> (of_char c :: nat) \<and> (of_char c :: nat) \<le> 57"

definition digit_val :: "char \<Rightarrow> nat" where
  "digit_val c = of_char c - 48"

lemma of_char_digit_char [simp]: "d < 10 \<Longrightarrow> of_char (digit_char d) = (48 + d :: nat)"
  by (simp add: digit_char_def)

lemma is_digit_digit_char [simp]: "d < 10 \<Longrightarrow> is_digit (digit_char d)"
  by (simp add: is_digit_def)

lemma digit_val_digit_char [simp]: "d < 10 \<Longrightarrow> digit_val (digit_char d) = d"
  by (simp add: digit_val_def)

lemma digit_val_less: "is_digit c \<Longrightarrow> digit_val c < 10"
  by (auto simp: is_digit_def digit_val_def)

lemma digit_char_digit_val: "is_digit c \<Longrightarrow> digit_char (digit_val c) = c"
  by (simp add: is_digit_def digit_val_def digit_char_def)

lemma digit_char_eq_iff: "d < 10 \<Longrightarrow> e < 10 \<Longrightarrow> digit_char d = digit_char e \<longleftrightarrow> d = e"
  by (metis digit_val_digit_char)

lemma digit_char_0: "digit_char 0 = CHR ''0''"
  by code_simp

text \<open>The digits of a number, most significant first: \<^verbatim>\<open>std::to_string\<close> on unsigned.\<close>

fun dec_digits :: "nat \<Rightarrow> string" where
  "dec_digits n =
     (if n < 10 then [digit_char n] else dec_digits (n div 10) @ [digit_char (n mod 10)])"

declare dec_digits.simps [simp del]

text \<open>The value of a digit string, most significant first.\<close>

definition digits_val :: "string \<Rightarrow> nat" where
  "digits_val s = foldl (\<lambda>n c. n * 10 + digit_val c) 0 s"

lemma digits_val_Nil [simp]: "digits_val [] = 0"
  by (simp add: digits_val_def)

lemma digits_val_snoc [simp]: "digits_val (s @ [c]) = digits_val s * 10 + digit_val c"
  by (simp add: digits_val_def)

lemma digits_val_append: "digits_val (s @ t) = digits_val s * 10 ^ length t + digits_val t"
  by (induction t rule: rev_induct) (simp_all add: algebra_simps flip: append_assoc)

lemma digits_val_Cons: "digits_val (c # s) = digit_val c * 10 ^ length s + digits_val s"
  using digits_val_append [of "[c]" s] digits_val_snoc [of "[]" c] by simp

lemma digits_val_zeros [simp]: "digits_val (replicate n (CHR ''0'')) = 0"
  by (induction n) (simp_all add: digit_val_def flip: replicate_append_same)

lemma digits_val_bound: "list_all is_digit s \<Longrightarrow> digits_val s < 10 ^ length s"
proof (induction s rule: rev_induct)
  case (snoc c s)
  then have "digits_val s < 10 ^ length s" "digit_val c < 10"
    by (simp_all add: digit_val_less)
  then show ?case by simp
qed simp

lemma digits_val_dec_digits [simp]: "digits_val (dec_digits n) = n"
proof (induction n rule: dec_digits.induct)
  case (1 n)
  then show ?case
    by (cases "n < 10") (simp_all add: dec_digits.simps [of n] digits_val_def)
qed

lemma is_digit_dec_digits [simp]: "list_all is_digit (dec_digits n)"
proof (induction n rule: dec_digits.induct)
  case (1 n)
  then show ?case
    by (cases "n < 10") (simp_all add: dec_digits.simps [of n])
qed

lemma dec_digits_not_Nil [simp]: "dec_digits n \<noteq> []"
  by (subst dec_digits.simps) simp

lemma length_dec_digits: "n < 10 ^ k \<Longrightarrow> 0 < k \<Longrightarrow> length (dec_digits n) \<le> k"
proof (induction n arbitrary: k rule: dec_digits.induct)
  case (1 n)
  show ?case
  proof (cases "n < 10")
    case True
    with 1 show ?thesis by (simp add: dec_digits.simps)
  next
    case False
    with "1.prems" obtain k' where k: "k = Suc k'" "0 < k'"
      by (cases k; cases "k - 1") auto
    with "1.prems" have "n div 10 < 10 ^ k'" by (simp add: less_mult_imp_div_less mult.commute)
    with "1.IH" [OF False this] k False show ?thesis
      by (simp add: dec_digits.simps [of n])
  qed
qed

lemma length_dec_digits_ge: "10 ^ k \<le> n \<Longrightarrow> k < length (dec_digits n)"
  using digits_val_bound [of "dec_digits n"]
  by (metis digits_val_dec_digits is_digit_dec_digits order_trans
      linorder_not_less power_increasing one_le_numeral)

lemma dec_digits_inject [simp]: "dec_digits m = dec_digits n \<longleftrightarrow> m = n"
  by (metis digits_val_dec_digits)

text \<open>\<^verbatim>\<open>std::to_string\<close> on signed numbers.\<close>

definition int_to_string :: "int \<Rightarrow> string" where
  "int_to_string i = (if i < 0 then CHR ''-'' # dec_digits (nat (- i)) else dec_digits (nat i))"

lemma int_to_string_not_Nil [simp]: "int_to_string i \<noteq> []"
  by (simp add: int_to_string_def)

lemma int_to_string_chars: "c \<in> set (int_to_string i) \<Longrightarrow> is_digit c \<or> c = CHR ''-''"
  using is_digit_dec_digits by (auto simp: int_to_string_def list_all_iff split: if_splits)

lemma int_to_string_inject [simp]: "int_to_string i = int_to_string j \<longleftrightarrow> i = j"
proof -
  have no_minus: "CHR ''-'' # ds \<noteq> dec_digits n" for ds n
  proof
    assume "CHR ''-'' # ds = dec_digits n"
    then have "is_digit (CHR ''-'')" using is_digit_dec_digits [of n] by (metis list.pred_inject(2))
    then show False by (simp add: is_digit_def)
  qed
  show ?thesis using no_minus no_minus [symmetric] by (auto simp: int_to_string_def)
qed

section \<open>Lists\<close>

lemma replicate_numeral: "replicate (numeral k) x = x # replicate (pred_numeral k) x"
  by (simp add: numeral_eq_Suc)

lemma takeWhile_append_stop:
  "list_all P xs \<Longrightarrow> \<not> P y \<Longrightarrow> takeWhile P (xs @ y # ys) = xs"
  by (induction xs) auto

lemma foldl_invariant:
  assumes "P s" and "\<And>s x. P s \<Longrightarrow> x \<in> set xs \<Longrightarrow> P (f s x)"
  shows "P (foldl f s xs)"
  using assms by (induction xs arbitrary: s) auto

end
