(* ===== verification/Ordered_Map.thy ===== *)
theory Ordered_Map
  imports Binapi_Prelude
begin

text \<open>
  The standard library's \<^verbatim>\<open>std::map<K, V, Compare>\<close> as the list of its elements in
  iteration order. The comparator is a parameter, since the sources use the map with
  \<^verbatim>\<open>std::greater\<close> (bids), \<^verbatim>\<open>std::less\<close> on decimals (asks) and
  \<^verbatim>\<open>std::less\<close> on strings (query parameters). The locale \<open>assoc_map\<close> states what a client
  may rely on; \<open>std_map\<close> derives it for every strict total order.
\<close>

section \<open>The operations\<close>

type_synonym ('k, 'v) smap = "('k \<times> 'v) list"

text \<open>\<^verbatim>\<open>m[k] = v\<close>: an existing key keeps its node, only the mapped value changes.\<close>

fun map_put :: "('k \<Rightarrow> 'k \<Rightarrow> bool) \<Rightarrow> 'k \<Rightarrow> 'v \<Rightarrow> ('k, 'v) smap \<Rightarrow> ('k, 'v) smap" where
  "map_put lt k v [] = [(k, v)]"
| "map_put lt k v ((k', v') # m) =
     (if lt k k' then (k, v) # (k', v') # m
      else if lt k' k then (k', v') # map_put lt k v m
      else (k', v) # m)"

text \<open>\<^verbatim>\<open>m.emplace(k, v)\<close>: no effect when the key is present.\<close>

fun map_emplace :: "('k \<Rightarrow> 'k \<Rightarrow> bool) \<Rightarrow> 'k \<Rightarrow> 'v \<Rightarrow> ('k, 'v) smap \<Rightarrow> ('k, 'v) smap" where
  "map_emplace lt k v [] = [(k, v)]"
| "map_emplace lt k v ((k', v') # m) =
     (if lt k k' then (k, v) # (k', v') # m
      else if lt k' k then (k', v') # map_emplace lt k v m
      else (k', v') # m)"

text \<open>\<^verbatim>\<open>m.erase(k)\<close>.\<close>

fun map_erase :: "('k \<Rightarrow> 'k \<Rightarrow> bool) \<Rightarrow> 'k \<Rightarrow> ('k, 'v) smap \<Rightarrow> ('k, 'v) smap" where
  "map_erase lt k [] = []"
| "map_erase lt k ((k', v') # m) =
     (if lt k k' then (k', v') # m
      else if lt k' k then (k', v') # map_erase lt k m
      else m)"

text \<open>\<^verbatim>\<open>m.find(k)\<close>.\<close>

fun map_find :: "('k \<Rightarrow> 'k \<Rightarrow> bool) \<Rightarrow> ('k, 'v) smap \<Rightarrow> 'k \<Rightarrow> 'v option" where
  "map_find lt [] k = None"
| "map_find lt ((k', v') # m) k =
     (if lt k k' then None else if lt k' k then map_find lt m k else Some v')"

text \<open>The invariant of a map: strictly increasing keys in the comparator's order.\<close>

definition map_ordered :: "('k \<Rightarrow> 'k \<Rightarrow> bool) \<Rightarrow> ('k, 'v) smap \<Rightarrow> bool" where
  "map_ordered lt m \<longleftrightarrow> sorted_wrt lt (map fst m)"

lemma map_put_entries: "e \<in> set (map_put lt k v m) \<Longrightarrow> snd e = v \<or> e \<in> set m"
  by (induction m) (auto split: if_splits)

lemma map_erase_entries: "e \<in> set (map_erase lt k m) \<Longrightarrow> e \<in> set m"
  by (induction m) (auto split: if_splits)

section \<open>The interface a client relies on\<close>

locale assoc_map =
  fixes empty :: 'm
    and put :: "'k \<Rightarrow> 'v \<Rightarrow> 'm \<Rightarrow> 'm"
    and emplace :: "'k \<Rightarrow> 'v \<Rightarrow> 'm \<Rightarrow> 'm"
    and erase :: "'k \<Rightarrow> 'm \<Rightarrow> 'm"
    and find :: "'m \<Rightarrow> 'k \<Rightarrow> 'v option"
    and invar :: "'m \<Rightarrow> bool"
  assumes find_empty: "find empty = Map.empty"
    and find_put: "invar m \<Longrightarrow> find (put k v m) = (find m)(k \<mapsto> v)"
    and find_emplace: "invar m \<Longrightarrow> find (emplace k v m) = (if k \<in> dom (find m) then find m
                                                         else (find m)(k \<mapsto> v))"
    and find_erase: "invar m \<Longrightarrow> find (erase k m) = (find m)(k := None)"
    and invar_empty: "invar empty"
    and invar_put: "invar m \<Longrightarrow> invar (put k v m)"
    and invar_emplace: "invar m \<Longrightarrow> invar (emplace k v m)"
    and invar_erase: "invar m \<Longrightarrow> invar (erase k m)"
begin

lemmas invars = invar_empty invar_put invar_emplace invar_erase
lemmas finds = find_empty find_put find_emplace find_erase

text \<open>
  Clients update a map in a loop over keyed entries; an entry either stores a value or
  erases its key. The result depends on the last entry of each key only.
\<close>

definition upsert :: "('x \<Rightarrow> 'k) \<Rightarrow> ('x \<Rightarrow> 'v option) \<Rightarrow> 'm \<Rightarrow> 'x \<Rightarrow> 'm" where
  "upsert key val m x = (case val x of None \<Rightarrow> erase (key x) m | Some v \<Rightarrow> put (key x) v m)"

lemma upsert_invar: "invar m \<Longrightarrow> invar (upsert key val m x)"
  by (simp add: upsert_def invars split: option.split)

lemma upsert_find: "invar m \<Longrightarrow> find (upsert key val m x) = (find m)(key x := val x)"
  by (simp add: upsert_def finds split: option.split)

lemma upserts_invar: "invar m \<Longrightarrow> invar (foldl (upsert key val) m xs)"
  by (induction xs arbitrary: m) (simp_all add: upsert_invar)

lemma upserts_find:
  "invar m \<Longrightarrow> find (foldl (upsert key val) m xs) =
     (\<lambda>k. case map_of (rev (map (\<lambda>x. (key x, val x)) xs)) k of None \<Rightarrow> find m k | Some w \<Rightarrow> w)"
proof (induction xs rule: rev_induct)
  case (snoc x xs)
  then show ?case
    by (auto simp: fun_eq_iff upsert_find upserts_invar)
qed simp

end

section \<open>Sorted lists provide the interface\<close>

locale std_map =
  fixes lt :: "'k \<Rightarrow> 'k \<Rightarrow> bool"
  assumes lt_irrefl: "\<not> lt k k"
    and lt_trans: "lt a b \<Longrightarrow> lt b c \<Longrightarrow> lt a c"
    and lt_total: "lt a b \<or> a = b \<or> lt b a"
begin

lemma lt_asym: "lt a b \<Longrightarrow> \<not> lt b a"
  using lt_irrefl lt_trans by blast

lemma ordered_Nil [simp]: "map_ordered lt []"
  by (simp add: map_ordered_def)

lemma ordered_Cons:
  "map_ordered lt ((k, v) # m) \<longleftrightarrow> (\<forall>e \<in> set m. lt k (fst e)) \<and> map_ordered lt m"
  by (auto simp: map_ordered_def)

lemma keys_put: "e \<in> set (map_put lt k v m) \<Longrightarrow> fst e = k \<or> fst e \<in> fst ` set m"
  by (induction m) (auto split: if_splits)

lemma keys_emplace: "e \<in> set (map_emplace lt k v m) \<Longrightarrow> fst e = k \<or> fst e \<in> fst ` set m"
  by (induction m) (auto split: if_splits)

lemma keys_erase: "e \<in> set (map_erase lt k m) \<Longrightarrow> e \<in> set m"
  by (induction m) (auto split: if_splits)

lemma ordered_put: "map_ordered lt m \<Longrightarrow> map_ordered lt (map_put lt k v m)"
proof (induction m)
  case (Cons e m)
  then show ?case
    by (cases e) (auto simp: ordered_Cons dest!: keys_put dest: lt_trans)
qed (simp add: ordered_Cons)

lemma ordered_emplace: "map_ordered lt m \<Longrightarrow> map_ordered lt (map_emplace lt k v m)"
proof (induction m)
  case (Cons e m)
  then show ?case
    by (cases e) (auto simp: ordered_Cons dest!: keys_emplace dest: lt_trans)
qed (simp add: ordered_Cons)

lemma ordered_erase: "map_ordered lt m \<Longrightarrow> map_ordered lt (map_erase lt k m)"
proof (induction m)
  case (Cons e m)
  then show ?case
    by (cases e) (auto simp: ordered_Cons dest!: keys_erase)
qed simp

lemma find_below: "map_ordered lt ((k', v) # m) \<Longrightarrow> lt k k' \<or> k = k' \<Longrightarrow> map_find lt m k = None"
  by (cases m) (auto simp: ordered_Cons dest: lt_trans)

lemma find_put_eq:
  "map_find lt (map_put lt k v m) q = (if q = k then Some v else map_find lt m q)"
proof (induction m)
  case Nil
  then show ?case using lt_irrefl lt_total by fastforce
next
  case (Cons e m)
  then show ?case using lt_total lt_asym
    by (cases e) (auto simp: lt_irrefl intro: lt_trans)
qed

lemma find_emplace_eq:
  "map_find lt (map_emplace lt k v m) q =
     (if q = k \<and> map_find lt m k = None then Some v else map_find lt m q)"
proof (induction m)
  case Nil
  then show ?case using lt_irrefl lt_total by fastforce
next
  case (Cons e m)
  then show ?case using lt_total lt_asym
    by (cases e) (auto simp: lt_irrefl intro: lt_trans)
qed

lemma find_erase_eq:
  "map_ordered lt m \<Longrightarrow>
     map_find lt (map_erase lt k m) q = (if q = k then None else map_find lt m q)"
proof (induction m)
  case (Cons e m)
  obtain k' v where e: "e = (k', v)" by (cases e)
  with Cons show ?case using lt_total [of k k'] lt_total [of q k'] lt_asym find_below [of k' v m]
    by (auto simp: ordered_Cons lt_irrefl dest: lt_trans)
qed simp

lemma erase_put_same:
  "map_ordered lt m \<Longrightarrow> map_find lt m k = None \<Longrightarrow> map_erase lt k (map_put lt k v m) = m"
proof (induction m)
  case (Cons e m)
  obtain k' w where e: "e = (k', w)" by (cases e)
  with Cons lt_total [of k k'] show ?case by (auto simp: ordered_Cons lt_irrefl dest: lt_asym split: if_splits)
qed (simp add: lt_irrefl)

lemma find_map_of: "map_ordered lt m \<Longrightarrow> map_find lt m k = map_of m k"
proof (induction m)
  case (Cons e m)
  obtain k' v where e: "e = (k', v)" by (cases e)
  have "lt k k' \<Longrightarrow> map_of m k = None"
    using Cons.prems by (auto simp: e ordered_Cons map_of_eq_None_iff dest: lt_asym)
  with Cons show ?case using lt_total [of k k'] by (auto simp: e ordered_Cons lt_irrefl)
qed simp

lemma ordered_distinct: "map_ordered lt m \<Longrightarrow> distinct (map fst m)"
proof (induction m)
  case (Cons e m)
  then show ?case by (cases e) (auto simp: ordered_Cons lt_irrefl image_iff)
qed simp

lemma find_tail:
  "map_ordered lt ((k, v) # m) \<Longrightarrow>
     map_find lt m q = (if lt q k \<or> q = k then None else map_find lt ((k, v) # m) q)"
  using find_below [of k v m q] lt_total [of q k] lt_asym [of k q] lt_irrefl by auto

lemma ordered_ext:
  assumes "map_ordered lt m" "map_ordered lt n" "\<And>q. map_find lt m q = map_find lt n q"
  shows "m = n"
  using assms
proof (induction m arbitrary: n)
  case Nil
  show ?case
  proof (cases n)
    case (Cons e n')
    then show ?thesis using Nil(3) [of "fst e"] by (cases e) (simp add: lt_irrefl)
  qed simp
next
  case (Cons e m)
  obtain k v where e: "e = (k, v)" by (cases e)
  obtain k' v' n' where n: "n = (k', v') # n'"
    using Cons.prems(3) [of k] by (cases n) (auto simp: e lt_irrefl)
  have "\<not> lt k k'" using Cons.prems(3) [of k] by (auto simp: e n lt_irrefl)
  moreover have "\<not> lt k' k" using Cons.prems(3) [of k'] by (auto simp: e n lt_irrefl)
  ultimately have "k = k'" using lt_total by blast
  moreover have "v = v'" using Cons.prems(3) [of k] \<open>k = k'\<close> by (simp add: e n lt_irrefl)
  moreover have "m = n'"
  proof (rule Cons.IH)
    show "map_ordered lt m" "map_ordered lt n'" using Cons.prems(1,2) by (simp_all add: e n ordered_Cons)
    show "map_find lt m q = map_find lt n' q" for q
      using Cons.prems(3) [of q] find_tail [OF Cons.prems(1) [unfolded e], of q]
        find_tail [OF Cons.prems(2) [unfolded n], of q] \<open>k = k'\<close>
      unfolding e n by metis
  qed
  ultimately show ?case by (simp add: e n)
qed

lemma assoc_map_laws:
  "assoc_map [] (map_put lt) (map_emplace lt) (map_erase lt) (map_find lt) (map_ordered lt)"
proof (unfold_locales, goal_cases)
  case 1
  then show ?case by (simp add: fun_eq_iff)
qed (auto simp: fun_eq_iff find_put_eq find_emplace_eq find_erase_eq ordered_put
     ordered_emplace ordered_erase domIff)

end

sublocale std_map \<subseteq> assoc_map "[]" "map_put lt" "map_emplace lt" "map_erase lt" "map_find lt" "map_ordered lt"
  by (rule assoc_map_laws)

end
