(* ===== verification/Decimal.thy ===== *)
theory Decimal
  imports Ordered_Map
begin

text \<open>
  The fixed-point type \<^verbatim>\<open>decimal_t\<close> of \<^verbatim>\<open>types/detail/decimal.hpp\<close> and
  \<^verbatim>\<open>decimal.cpp\<close>: a signed 128-bit integer at scale 18, with sums and differences on
  the 128-bit value, and products and quotients through a hand-written 256-bit
  multiplication and bit-by-bit division. Signed values are integers with the 128-bit
  range checked; unsigned ones are 128-bit words.
\<close>

section \<open>Data\<close>

datatype decimal_t = Decimal_t (raw_value: int)

definition scale :: int where
  "scale = 18"

definition scale_factor :: int where
  "scale_factor = 1000000000 * 1000000000"

definition max_raw :: int where
  "max_raw = scale_factor * (10000000000 * 1000000000)"

definition min_raw :: int where
  "min_raw = - max_raw"

definition decimal_max :: decimal_t where
  "decimal_max = Decimal_t max_raw"

definition decimal_min :: decimal_t where
  "decimal_min = Decimal_t min_raw"

record decimal_result_t =
  res_value :: decimal_t
  res_error :: int
  res_overflow :: int

definition is_exact :: "decimal_result_t \<Rightarrow> bool" where
  "is_exact r \<longleftrightarrow> res_error r = 0 \<and> res_overflow r = 0"

definition has_overflow :: "decimal_result_t \<Rightarrow> bool" where
  "has_overflow r \<longleftrightarrow> res_overflow r \<noteq> 0"

section \<open>Construction from a scaled integer, queries, sums\<close>

fun scale_up :: "nat \<Rightarrow> int \<Rightarrow> int may_throw" where
  "scale_up 0 v = Inr v"
| "scale_up (Suc n) v = bind_exn (i128 (v * 10)) (scale_up n)"

fun scale_down :: "nat \<Rightarrow> int \<Rightarrow> int" where
  "scale_down 0 v = v"
| "scale_down (Suc n) v = scale_down n (cpp_div v 10)"

text \<open>
  The subtraction that bounds the first loop is done in \<^verbatim>\<open>int\<close>, hence the check.
\<close>

definition decimal_of_scaled :: "int \<Rightarrow> int \<Rightarrow> decimal_t may_throw" where
  "decimal_of_scaled r input_scale =
     (if input_scale < scale then
        (if scale - input_scale > 2 ^ 31 - 1 then Inl Undefined_behaviour
         else bind_exn (scale_up (nat (scale - input_scale)) r) (\<lambda>v. Inr (Decimal_t v)))
      else if input_scale > scale then Inr (Decimal_t (scale_down (nat (input_scale - scale)) r))
      else Inr (Decimal_t r))"

definition is_zero :: "decimal_t \<Rightarrow> bool" where
  "is_zero d \<longleftrightarrow> raw_value d = 0"

definition is_negative :: "decimal_t \<Rightarrow> bool" where
  "is_negative d \<longleftrightarrow> raw_value d < 0"

definition is_positive :: "decimal_t \<Rightarrow> bool" where
  "is_positive d \<longleftrightarrow> raw_value d > 0"

definition is_valid :: "decimal_t \<Rightarrow> bool" where
  "is_valid d \<longleftrightarrow> raw_value d \<ge> min_raw \<and> raw_value d \<le> max_raw"

definition decimal_add :: "decimal_t \<Rightarrow> decimal_t \<Rightarrow> decimal_t may_throw" where
  "decimal_add a b = bind_exn (i128 (raw_value a + raw_value b)) (\<lambda>v. Inr (Decimal_t v))"

definition decimal_sub :: "decimal_t \<Rightarrow> decimal_t \<Rightarrow> decimal_t may_throw" where
  "decimal_sub a b = bind_exn (i128 (raw_value a - raw_value b)) (\<lambda>v. Inr (Decimal_t v))"

definition decimal_neg :: "decimal_t \<Rightarrow> decimal_t may_throw" where
  "decimal_neg a = bind_exn (i128 (- raw_value a)) (\<lambda>v. Inr (Decimal_t v))"

text \<open>The comparison is that of the raw values, and a linear order of the class.\<close>

definition decimal_le :: "decimal_t \<Rightarrow> decimal_t \<Rightarrow> bool" where
  "decimal_le a b \<longleftrightarrow> raw_value a \<le> raw_value b"

definition decimal_less :: "decimal_t \<Rightarrow> decimal_t \<Rightarrow> bool" where
  "decimal_less a b \<longleftrightarrow> raw_value a < raw_value b"

instantiation decimal_t :: linorder
begin

definition less_eq_decimal_t :: "decimal_t \<Rightarrow> decimal_t \<Rightarrow> bool" where
  "less_eq_decimal_t = decimal_le"

definition less_decimal_t :: "decimal_t \<Rightarrow> decimal_t \<Rightarrow> bool" where
  "less_decimal_t = decimal_less"

instance
  by standard (auto simp: less_eq_decimal_t_def less_decimal_t_def decimal_le_def decimal_less_def intro: decimal_t.expand)

end

section \<open>256-bit helpers\<close>

record uint256_t =
  lo :: u128
  hi :: u128

record divmod_result =
  quotient :: uint256_t
  remainder :: u128

definition to_unsigned :: "int \<Rightarrow> u128" where
  "to_unsigned v = (if v \<ge> 0 then word_of_int v else NOT (word_of_int v) + 1)"

definition mul256 :: "u128 \<Rightarrow> u128 \<Rightarrow> uint256_t" where
  "mul256 a b =
     (let a0 = (ucast a :: u64); a1 = (ucast (drop_bit 64 a) :: u64);
          b0 = (ucast b :: u64); b1 = (ucast (drop_bit 64 b) :: u64);
          p00 = (ucast a0 :: u128) * ucast b0;
          p01 = (ucast a0 :: u128) * ucast b1;
          p10 = (ucast a1 :: u128) * ucast b0;
          p11 = (ucast a1 :: u128) * ucast b1;
          mid = p01 + p10;
          mid_carry = (if mid < p01 then 1 else 0 :: u128);
          l = p00 + push_bit 64 mid;
          lo_carry = (if l < p00 then 1 else 0);
          h = p11 + drop_bit 64 mid + push_bit 64 mid_carry + lo_carry
      in \<lparr>lo = l, hi = h\<rparr>)"

definition set_quotient_bit :: "nat \<Rightarrow> uint256_t \<Rightarrow> uint256_t" where
  "set_quotient_bit i q =
     (if i \<ge> 128 then q\<lparr>hi := hi q OR push_bit (i - 128) 1\<rparr>
      else q\<lparr>lo := lo q OR push_bit i 1\<rparr>)"

fun divmod_loop :: "uint256_t \<Rightarrow> u128 \<Rightarrow> nat \<Rightarrow> uint256_t \<Rightarrow> u128 \<Rightarrow> divmod_result" where
  "divmod_loop n d 0 q rem = \<lparr>quotient = q, remainder = rem\<rparr>"
| "divmod_loop n d (Suc i) q rem =
     (let rem_high = (drop_bit 127 rem AND 1 \<noteq> 0);
          rem1 = push_bit 1 rem;
          b = (if i \<ge> 128 then drop_bit (i - 128) (hi n) AND 1 else drop_bit i (lo n) AND 1);
          rem2 = rem1 OR b
      in if rem_high \<or> rem2 \<ge> d
         then divmod_loop n d i (set_quotient_bit i q) (rem2 - d)
         else divmod_loop n d i q rem2)"

definition divmod256 :: "uint256_t \<Rightarrow> u128 \<Rightarrow> divmod_result" where
  "divmod256 n d =
     (if hi n = 0 \<and> lo n < d then \<lparr>quotient = \<lparr>lo = 0, hi = 0\<rparr>, remainder = lo n\<rparr>
      else if hi n = 0 then
        \<lparr>quotient = \<lparr>lo = lo n div d, hi = 0\<rparr>, remainder = lo n mod d\<rparr>
      else divmod_loop n d 256 \<lparr>lo = 0, hi = 0\<rparr> 0)"

definition pack_result :: "uint256_t \<Rightarrow> u128 \<Rightarrow> bool \<Rightarrow> decimal_result_t may_throw" where
  "pack_result quot rem negative =
     (let int128_max = drop_bit 1 (NOT 0) :: u128;
          fits = (hi quot = 0 \<and> lo quot \<le> int128_max);
          result_raw = (if fits then sint (lo quot) else sint (lo quot AND int128_max));
          overflow = (if fits then 0 else if hi quot \<noteq> 0 then sint (hi quot) else 1);
          rem_signed = sint rem
      in if negative
         then bind_exn (i128 (- result_raw)) (\<lambda>r.
              bind_exn (i128 (- overflow)) (\<lambda>v.
              bind_exn (i128 (- rem_signed)) (\<lambda>e.
              Inr \<lparr>res_value = Decimal_t r, res_error = e, res_overflow = v\<rparr>)))
         else Inr \<lparr>res_value = Decimal_t result_raw, res_error = rem_signed,
                   res_overflow = overflow\<rparr>)"

section \<open>Products and quotients\<close>

definition decimal_mul :: "decimal_t \<Rightarrow> decimal_t \<Rightarrow> decimal_result_t may_throw" where
  "decimal_mul a b =
     (let negative = ((raw_value a < 0) \<noteq> (raw_value b < 0));
          abs_a = to_unsigned (raw_value a);
          abs_b = to_unsigned (raw_value b);
          product = mul256 abs_a abs_b;
          r = divmod256 product (word_of_int scale_factor)
      in pack_result (quotient r) (remainder r) negative)"

definition decimal_div :: "decimal_t \<Rightarrow> decimal_t \<Rightarrow> decimal_result_t may_throw" where
  "decimal_div a b =
     (if raw_value b = 0 then Inl (Domain_error ''decimal: division by zero'')
      else
        let negative = ((raw_value a < 0) \<noteq> (raw_value b < 0));
            abs_a = to_unsigned (raw_value a);
            abs_b = to_unsigned (raw_value b);
            numerator = mul256 abs_a (word_of_int scale_factor);
            r = divmod256 numerator abs_b
        in pack_result (quotient r) (remainder r) negative)"

definition decimal_times :: "decimal_t \<Rightarrow> decimal_t \<Rightarrow> decimal_t may_throw" where
  "decimal_times a b =
     bind_exn (decimal_mul a b) (\<lambda>r.
       if has_overflow r then Inl (Overflow_error ''decimal: multiplication overflow'')
       else Inr (res_value r))"

section \<open>The comparators of the order book's maps\<close>

interpretation dec_less: std_map "(<) :: decimal_t \<Rightarrow> decimal_t \<Rightarrow> bool"
  by unfold_locales auto

interpretation dec_greater: std_map "(>) :: decimal_t \<Rightarrow> decimal_t \<Rightarrow> bool"
  by unfold_locales auto

section \<open>Sums\<close>

lemma max_raw_eq: "max_raw = 10 ^ 37"
  by (simp add: max_raw_def scale_factor_def)

lemma scale_factor_eq: "scale_factor = 10 ^ 18"
  by (simp add: scale_factor_def)

lemma is_valid_abs: "is_valid d \<longleftrightarrow> \<bar>raw_value d\<bar> \<le> 10 ^ 37"
  by (auto simp: is_valid_def min_raw_def max_raw_eq)

lemma i128_ok_smaller:
  assumes "i128_ok (v * k)" "1 \<le> k"
  shows "i128_ok v"
proof (cases "v \<le> 0")
  case True
  with assms(2) have "v * k \<le> v * 1" by (intro mult_left_mono_neg)
  with True assms(1) show ?thesis unfolding i128_ok_def by linarith
next
  case False
  with assms(2) have "v * 1 \<le> v * k" by (intro mult_left_mono) auto
  with False assms(1) show ?thesis unfolding i128_ok_def by linarith
qed

lemma scale_up_exact:
  "i128_ok (v * 10 ^ n) \<Longrightarrow> scale_up n v = Inr (v * 10 ^ n)"
proof (induction n arbitrary: v)
  case (Suc n)
  then have "i128_ok (v * 10 * 10 ^ n)" by (simp add: algebra_simps)
  moreover from this have "i128_ok (v * 10)" by (rule i128_ok_smaller) simp
  ultimately show ?case using Suc.IH by (simp add: algebra_simps)
qed simp

lemma cpp_div_mult: "0 < b \<Longrightarrow> 0 < c \<Longrightarrow> cpp_div (cpp_div a b) c = cpp_div a (b * c)"
proof -
  assume b: "0 < b" and c: "0 < c"
  have "cpp_div (cpp_div a b) c = sgn a * (\<bar>a\<bar> div b div c)"
  proof (cases "\<bar>a\<bar> div b = 0")
    case False
    with b have "\<bar>a\<bar> div b > 0" by (simp add: pos_imp_zdiv_nonneg_iff order_neq_le_trans)
    with b c show ?thesis by (auto simp: cpp_div_def sgn_mult abs_mult)
  qed (use b c in \<open>simp add: cpp_div_def\<close>)
  with b c show ?thesis by (simp add: cpp_div_def zdiv_zmult2_eq sgn_mult)
qed

lemma scale_down_eq: "scale_down n v = cpp_div v (10 ^ n)"
proof (induction n arbitrary: v)
  case 0
  then show ?case by (simp add: cpp_div_def mult_sgn_abs)
next
  case (Suc n)
  then show ?case by (simp add: cpp_div_mult)
qed

section \<open>Words as numbers\<close>

lemma unat_word_of_int: "0 \<le> v \<Longrightarrow> v < 2 ^ 128 \<Longrightarrow> unat (word_of_int v :: u128) = nat v"
  using word_of_int_inverse [of v "word_of_int v :: u128"]
  by (simp add: unat_eq_nat_uint)

lemma unat_to_unsigned:
  assumes "i128_ok v"
  shows "unat (to_unsigned v) = nat \<bar>v\<bar>"
proof (cases "v \<ge> 0")
  case True
  with assms show ?thesis by (simp add: to_unsigned_def i128_ok_def unat_word_of_int)
next
  case False
  have "to_unsigned v = word_of_int (- v)"
    using False by (simp add: to_unsigned_def not_eq_complement)
  moreover have "unat (word_of_int (- v) :: u128) = nat (- v)"
    using False assms unfolding i128_ok_def by (intro unat_word_of_int) auto
  ultimately show ?thesis using False by simp
qed

lemma unat_add_carry:
  fixes x y :: "'a::len word"
  shows "unat (x + y) + 2 ^ LENGTH('a) * (if x + y < x then 1 else 0) = unat x + unat y"
proof (cases "unat x + unat y < 2 ^ LENGTH('a)")
  case True
  then show ?thesis by (simp add: unat_plus_if' word_less_nat_alt)
next
  case False
  then have "unat (x + y) = unat x + unat y - 2 ^ LENGTH('a)" by (simp add: unat_plus_if')
  moreover from this have "unat (x + y) < unat x"
    using False unsigned_less [of y, where ?'a = nat] by linarith
  ultimately show ?thesis using False by (simp add: word_less_nat_alt)
qed

lemma unat_u128_less: "unat (w :: u128) < 2 ^ 128"
  using unsigned_less [of w, where ?'a = nat] by simp

lemma unat_widen: "unat (ucast (x :: u64) :: u128) = unat x"
  using unsigned_less [of x, where ?'a = nat] by (simp add: unsigned_ucast_eq take_bit_nat_eq_self)

lemma unat_half_product:
  fixes x y :: u64
  shows "unat ((ucast x :: u128) * ucast y) = unat x * unat y"
proof -
  have "unat x * unat y < 2 ^ 64 * 2 ^ 64"
    using unsigned_less [of x, where ?'a = nat] unsigned_less [of y, where ?'a = nat]
    by (intro mult_strict_mono) auto
  then show ?thesis using unat_mult_lem [of "ucast x :: u128" "ucast y"]
    by (simp add: unat_widen)
qed

lemma unat_low_half: "unat (ucast (a :: u128) :: u64) = unat a mod 2 ^ 64"
  by (simp add: unsigned_ucast_eq take_bit_eq_mod)

lemma unat_drop64: "unat (drop_bit 64 (m :: u128)) = unat m div 2 ^ 64"
  by (simp only: unat_drop_bit_eq) (simp add: drop_bit_eq_div)

lemma unat_high_half: "unat (ucast (drop_bit 64 (a :: u128)) :: u64) = unat a div 2 ^ 64"
proof -
  have "unat a div 2 ^ 64 < 2 ^ 64"
    using unsigned_less [of a, where ?'a = nat] by (simp add: less_mult_imp_div_less)
  then show ?thesis by (simp add: unsigned_ucast_eq unat_drop64 take_bit_nat_eq_self)
qed

lemma unat_push64: "unat (push_bit 64 (m :: u128)) = 2 ^ 64 * (unat m mod 2 ^ 64)"
proof -
  have "unat (push_bit 64 m) = take_bit 128 (push_bit 64 (unat m))"
    by (simp add: unsigned_push_bit_eq)
  also have "\<dots> = push_bit 64 (take_bit 64 (unat m))"
    by (simp add: take_bit_push_bit)
  finally show ?thesis by (simp add: push_bit_eq_mult take_bit_eq_mod)
qed

definition val256 :: "uint256_t \<Rightarrow> nat" where
  "val256 n = unat (lo n) + 2 ^ 128 * unat (hi n)"

lemma val256_less: "val256 n < 2 ^ 256"
  using unsigned_less [of "lo n", where ?'a = nat] unsigned_less [of "hi n", where ?'a = nat]
  by (simp add: val256_def)

lemma schoolbook_total:
  fixes A0 A1 B0 B1 m l mc lc M :: nat
  assumes mid: "m + M * M * mc = A0 * B1 + A1 * B0"
    and low: "l + M * M * lc = A0 * B0 + M * (m mod M)"
  shows "(A0 + M * A1) * (B0 + M * B1) = l + M * M * (A1 * B1 + m div M + M * mc + lc)"
proof -
  have "(A0 + M * A1) * (B0 + M * B1) = A0 * B0 + M * (A0 * B1 + A1 * B0) + M * M * (A1 * B1)"
    by (simp add: algebra_simps)
  also have "A0 * B1 + A1 * B0 = m mod M + M * (m div M) + M * M * mc"
    using mid by simp
  also have "A0 * B0 + M * (m mod M + M * (m div M) + M * M * mc) =
      (A0 * B0 + M * (m mod M)) + M * M * (m div M + M * mc)"
    by (simp only: algebra_simps)
  also have "A0 * B0 + M * (m mod M) = l + M * M * lc" using low by simp
  finally show ?thesis by (simp only: algebra_simps)
qed

lemma val256_mul256: "val256 (mul256 a b) = unat a * unat b"
proof -
  define A0 A1 B0 B1 where "A0 = unat a mod 2 ^ 64" and "A1 = unat a div 2 ^ 64"
    and "B0 = unat b mod 2 ^ 64" and "B1 = unat b div 2 ^ 64"
  define p00 p01 p10 p11 :: u128 where
    "p00 = ucast (ucast a :: u64) * ucast (ucast b :: u64)" and
    "p01 = ucast (ucast a :: u64) * ucast (ucast (drop_bit 64 b) :: u64)" and
    "p10 = ucast (ucast (drop_bit 64 a) :: u64) * ucast (ucast b :: u64)" and
    "p11 = ucast (ucast (drop_bit 64 a) :: u64) * ucast (ucast (drop_bit 64 b) :: u64)"
  define mid l where "mid = p01 + p10" and "l = p00 + push_bit 64 mid"
  define mc lc :: nat where "mc = (if mid < p01 then 1 else 0)" and "lc = (if l < p00 then 1 else 0)"
  define h where "h = p11 + drop_bit 64 mid + push_bit 64 (if mid < p01 then 1 else 0) + (if l < p00 then 1 else 0)"
  have ps: "unat p00 = A0 * B0" "unat p01 = A0 * B1" "unat p10 = A1 * B0" "unat p11 = A1 * B1"
    unfolding p00_def p01_def p10_def p11_def unat_half_product unat_high_half
    unfolding unat_low_half A0_def A1_def B0_def B1_def by (rule refl)+
  have mid: "unat mid + 2 ^ 128 * mc = A0 * B1 + A1 * B0"
    using unat_add_carry [of p01 p10] by (simp add: mid_def mc_def ps)
  have lo: "unat l + 2 ^ 128 * lc = A0 * B0 + 2 ^ 64 * (unat mid mod 2 ^ 64)"
    using unat_add_carry [of p00 "push_bit 64 mid"] by (simp only: l_def lc_def ps unat_push64) simp
  define H where "H = A1 * B1 + unat mid div 2 ^ 64 + 2 ^ 64 * mc + lc"
  have total: "unat a * unat b = unat l + 2 ^ 128 * H"
    using schoolbook_total [of "unat mid" "2 ^ 64" mc A0 B1 A1 B0 "unat l" lc] mid lo
    unfolding H_def A0_def A1_def B0_def B1_def by simp
  have "unat a * unat b < 2 ^ 128 * 2 ^ 128"
    using unsigned_less [of a, where ?'a = nat] unsigned_less [of b, where ?'a = nat]
    by (intro mult_strict_mono) auto
  with total have H: "H < 2 ^ 128" by simp
  have c: "unat (push_bit 64 (if mid < p01 then 1 else 0 :: u128)) = 2 ^ 64 * mc"
    by (simp add: mc_def)
  have "unat h = H mod 2 ^ 128"
    unfolding h_def H_def
    by (simp only: unat_word_ariths c unat_drop64 ps) (simp add: mod_simps lc_def)
  with H have "unat h = H" by simp
  moreover have "mul256 a b = \<lparr>lo = l, hi = h\<rparr>"
    unfolding mul256_def Let_def l_def h_def mid_def p00_def p01_def p10_def p11_def ..
  ultimately show ?thesis using total by (simp add: val256_def)
qed

section \<open>Long division\<close>

definition bit256 :: "uint256_t \<Rightarrow> nat \<Rightarrow> nat" where
  "bit256 n i = val256 n div 2 ^ i mod 2"

lemma unat_bit_word: "unat (drop_bit i (w :: u128) AND 1) = unat w div 2 ^ i mod 2"
proof -
  have "drop_bit i w AND 1 = take_bit 1 (drop_bit i w)" by (simp add: take_bit_eq_mask mask_eq_exp_minus_1)
  then have "unat (drop_bit i w AND 1) = take_bit 1 (unat (drop_bit i w))"
    by (simp add: unsigned_take_bit_eq del: take_bit_Suc_0)
  then show ?thesis by (simp only: unat_drop_bit_eq) (simp add: drop_bit_eq_div)
qed

lemma loop_bit:
  assumes "i < 256"
  shows "unat (if i \<ge> 128 then drop_bit (i - 128) (hi n) AND 1 else drop_bit i (lo n) AND 1 :: u128)
           = bit256 n i"
proof (cases "i \<ge> 128")
  case True
  then have "(2::nat) ^ i = 2 ^ 128 * 2 ^ (i - 128)"
    by (metis le_add_diff_inverse power_add)
  then have "val256 n div 2 ^ i = val256 n div 2 ^ 128 div 2 ^ (i - 128)"
    by (simp only: div_mult2_eq)
  also have "val256 n div 2 ^ 128 = unat (hi n)"
    using unsigned_less [of "lo n", where ?'a = nat] by (simp add: val256_def)
  finally show ?thesis using True by (simp add: bit256_def unat_bit_word)
next
  case False
  then have "(2::nat) ^ 128 = 2 ^ i * (2 * 2 ^ (127 - i))"
    by (simp flip: power_Suc power_add)
  then have "val256 n = unat (lo n) + 2 ^ i * (2 * (2 ^ (127 - i) * unat (hi n)))"
    by (simp add: val256_def)
  then have "val256 n div 2 ^ i mod 2 = unat (lo n) div 2 ^ i mod 2"
    by simp
  with False show ?thesis by (simp add: bit256_def unat_bit_word)
qed

lemma shift_in:
  fixes rem b d :: u128
  assumes "unat rem < unat d" and "unat b \<le> 1"
  defines "r \<equiv> 2 * unat rem + unat b" and "rem2 \<equiv> push_bit 1 rem OR b"
  defines "taken \<equiv> drop_bit 127 rem AND 1 \<noteq> 0 \<or> rem2 \<ge> d"
  shows "taken \<longleftrightarrow> unat d \<le> r" and "taken \<Longrightarrow> unat (rem2 - d) = r - unat d"
    and "\<not> taken \<Longrightarrow> unat rem2 = r"
proof -
  have rem: "unat rem < 2 ^ 128" and d: "unat d < 2 ^ 128"
    using unsigned_less [of rem, where ?'a = nat] unsigned_less [of d, where ?'a = nat] by simp_all
  have "b = 0 \<or> b = 1" using assms(2) by (metis le_Suc_eq le_zero_eq One_nat_def unsigned_eq_0_iff unsigned_1 word_unat_eq_iff)
  then have "rem2 = 2 * rem + b" by (auto simp: rem2_def or_one_eq)
  then have rem2: "unat rem2 = r mod 2 ^ 128"
    by (simp add: r_def unat_word_ariths mod_simps)
  have high: "drop_bit 127 rem AND 1 \<noteq> 0 \<longleftrightarrow> 2 ^ 127 \<le> unat rem"
  proof -
    have "drop_bit 127 rem AND 1 \<noteq> 0 \<longleftrightarrow> unat rem div 2 ^ 127 mod 2 \<noteq> 0"
      by (metis unat_bit_word unsigned_eq_0_iff)
    also have "unat rem div 2 ^ 127 mod 2 = unat rem div 2 ^ 127"
      using rem by (simp add: less_mult_imp_div_less)
    also have "unat rem div 2 ^ 127 \<noteq> 0 \<longleftrightarrow> 2 ^ 127 \<le> unat rem"
      by (simp add: div_eq_0_iff linorder_not_less)
    finally show ?thesis .
  qed
  have r: "r < 2 * 2 ^ 128" using rem assms(2) by (simp add: r_def)
  have wrap: "2 ^ 127 \<le> unat rem \<Longrightarrow> r = unat rem2 + 2 ^ 128"
  proof -
    assume "2 ^ 127 \<le> unat rem"
    then have ge: "2 ^ 128 \<le> r" by (simp add: r_def)
    then have "r mod 2 ^ 128 = (r - 2 ^ 128) mod 2 ^ 128" by (rule le_mod_geq)
    also have "\<dots> = r - 2 ^ 128" using r by simp
    finally show "r = unat rem2 + 2 ^ 128" using ge by (simp add: rem2)
  qed
  have nowrap: "unat rem < 2 ^ 127 \<Longrightarrow> unat rem2 = r"
    using assms(2) by (simp add: rem2 r_def)
  show t: "taken \<longleftrightarrow> unat d \<le> r"
    unfolding taken_def high word_le_nat_alt using wrap nowrap d by (cases "2 ^ 127 \<le> unat rem") auto
  show "\<not> taken \<Longrightarrow> unat rem2 = r"
    unfolding taken_def high using nowrap by auto
  have "r < 2 * unat d" using assms(1,2) by (simp add: r_def)
  then show "taken \<Longrightarrow> unat (rem2 - d) = r - unat d"
    unfolding t unat_sub_if' using wrap nowrap d by (cases "2 ^ 127 \<le> unat rem") auto
qed

lemma unat_or_bit:
  fixes w :: u128
  assumes "i < 128" and "2 ^ Suc i dvd unat w"
  shows "unat (w OR push_bit i 1) = unat w + 2 ^ i"
proof -
  obtain k where k: "unat w = 2 ^ Suc i * k" using assms(2) by (auto elim: dvdE)
  have "(2::nat) ^ 128 = 2 ^ Suc i * 2 ^ (127 - i)"
    using assms(1) by (simp flip: power_Suc power_add)
  then have "2 ^ Suc i * k < 2 ^ Suc i * (2::nat) ^ (127 - i)"
    using unat_u128_less [of w] k by (simp only:)
  then have "Suc k \<le> 2 ^ (127 - i)" by (simp only: mult_less_cancel1 Suc_le_eq)
  then have "2 ^ Suc i * Suc k \<le> 2 ^ Suc i * (2::nat) ^ (127 - i)"
    by (rule mult_le_mono2)
  with \<open>2 ^ 128 = _\<close> have "unat w + 2 ^ Suc i \<le> 2 ^ 128" using k by simp
  then have room: "unat w + 2 ^ i < 2 ^ 128"
    by (rule order_less_le_trans [rotated]) simp
  have bit: "unat (push_bit i (1 :: u128)) = 2 ^ i"
  proof -
    have "unat (push_bit i (1 :: u128)) = take_bit 128 (push_bit i 1)"
      by (simp only: unsigned_push_bit_eq) simp
    moreover have "(2::nat) ^ i < 2 ^ 128" using assms(1) by (rule power_strict_increasing) simp
    ultimately show ?thesis using assms(1) by (simp add: take_bit_nat_eq_self push_bit_eq_mult)
  qed
  have "\<not> bit (unat w) i"
    using k by (simp add: bit_iff_odd)
  then have "w AND push_bit i 1 = 0"
    by (intro bit_word_eqI) (auto simp: bit_simps bit_unsigned_iff)
  then have "w OR push_bit i 1 = w + push_bit i 1" by (simp add: disjunctive_add_eq_or)
  then show ?thesis using room bit by (simp add: unat_plus_if')
qed

lemma set_quotient_bit_val:
  assumes "i < 256" and dvd: "2 ^ Suc i dvd val256 q"
  shows "val256 (set_quotient_bit i q) = val256 q + 2 ^ i"
proof (cases "i \<ge> 128")
  case True
  define j where "j = i - 128"
  with True have i: "i = 128 + j" by simp
  have "2 ^ 128 dvd val256 q" using dvd by (rule dvd_trans [rotated]) (rule le_imp_power_dvd, simp add: i)
  then have "2 ^ 128 dvd unat (lo q)" by (simp add: val256_def dvd_add_left_iff)
  then have "unat (lo q) = 0"
    using unat_u128_less [of "lo q"] by (metis nat_dvd_not_less not_gr_zero)
  then have "2 ^ 128 * 2 ^ Suc j dvd 2 ^ 128 * unat (hi q)"
    using dvd by (simp only: val256_def i flip: power_add add_Suc_right) simp
  then have "2 ^ Suc j dvd unat (hi q)" by (subst (asm) nat_mult_dvd_cancel1) simp_all
  with assms(1) have "unat (hi q OR push_bit j 1) = unat (hi q) + 2 ^ j"
    by (intro unat_or_bit) (simp_all add: i)
  then show ?thesis by (simp add: set_quotient_bit_def val256_def i power_add)
next
  case False
  then have "2 ^ Suc i dvd (2::nat) ^ 128 * unat (hi q)"
    by (intro dvd_mult2 le_imp_power_dvd) simp
  with dvd have "2 ^ Suc i dvd unat (lo q)" by (simp only: val256_def dvd_add_left_iff)
  with False have "unat (lo q OR push_bit i 1) = unat (lo q) + 2 ^ i"
    by (intro unat_or_bit) simp_all
  with False show ?thesis by (simp add: set_quotient_bit_def val256_def)
qed

lemma div_mod_step:
  fixes X b d :: nat
  assumes "0 < d" "b \<le> 1"
  defines "r \<equiv> 2 * (X mod d) + b"
  shows "(2 * X + b) div d = 2 * (X div d) + (if d \<le> r then 1 else 0)"
    and "(2 * X + b) mod d = (if d \<le> r then r - d else r)"
proof -
  have X: "2 * X + b = d * (2 * (X div d)) + r"
  proof -
    have "2 * X = 2 * (d * (X div d) + X mod d)" by simp
    then show ?thesis by (simp only: r_def algebra_simps)
  qed
  have "X mod d < d" using assms(1) by simp
  with assms(2) have r: "r < 2 * d" by (simp add: r_def)
  have "2 * X + b = d * (2 * (X div d) + (if d \<le> r then 1 else 0)) + (if d \<le> r then r - d else r)"
    using X by (simp add: algebra_simps)
  moreover have "(if d \<le> r then r - d else r) < d" using r by auto
  ultimately show "(2 * X + b) div d = 2 * (X div d) + (if d \<le> r then 1 else 0)"
    and "(2 * X + b) mod d = (if d \<le> r then r - d else r)"
    by (simp_all only: div_mult_self4 mod_mult_self4 div_less mod_less)
qed

lemma divmod_loop_invariant:
  assumes "unat d \<noteq> 0" "k \<le> 256"
    and "unat rem = val256 n div 2 ^ k mod unat d"
    and "val256 q = val256 n div 2 ^ k div unat d * 2 ^ k"
  shows "unat (remainder (divmod_loop n d k q rem)) = val256 n mod unat d
       \<and> val256 (quotient (divmod_loop n d k q rem)) = val256 n div unat d"
  using assms(2-)
proof (induction k arbitrary: q rem)
  case 0
  then show ?case by simp
next
  case (Suc i)
  define b :: u128 where "b = (if i \<ge> 128 then drop_bit (i - 128) (hi n) AND 1 else drop_bit i (lo n) AND 1)"
  define X where "X = val256 n div 2 ^ Suc i"
  have b: "unat b = bit256 n i" using Suc.prems(1) by (simp only: b_def loop_bit)
  then have b1: "unat b \<le> 1" by (simp add: bit256_def)
  have Xi: "val256 n div 2 ^ i = 2 * X + unat b"
    by (simp only: b bit256_def X_def power_Suc2 div_mult2_eq) simp
  have rem: "unat rem < unat d" "unat rem = X mod unat d"
    using Suc.prems(2) assms(1) by (simp_all add: X_def)
  note step = shift_in [OF rem(1) b1]
  note dm = div_mod_step [of "unat d" "unat b" X, folded rem(2)]
  have q: "val256 q = X div unat d * 2 ^ Suc i" using Suc.prems(3) by (simp add: X_def)
  then have dvd: "2 ^ Suc i dvd val256 q" by simp
  have i: "i < 256" "i \<le> 256" using Suc.prems(1) by simp_all
  show ?case
  proof (cases "drop_bit 127 rem AND 1 \<noteq> 0 \<or> push_bit 1 rem OR b \<ge> d")
    case True
    with step dm b1 assms(1) have
      "unat ((push_bit 1 rem OR b) - d) = val256 n div 2 ^ i mod unat d"
      "val256 n div 2 ^ i div unat d = 2 * (X div unat d) + 1"
      by (simp_all add: Xi)
    then have "unat ((push_bit 1 rem OR b) - d) = val256 n div 2 ^ i mod unat d"
      "val256 (set_quotient_bit i q) = val256 n div 2 ^ i div unat d * 2 ^ i"
      by (simp_all add: set_quotient_bit_val [OF i(1) dvd] q)
    with Suc.IH [OF i(2) this] True show ?thesis by (simp add: Let_def flip: b_def)
  next
    case False
    with step dm b1 assms(1) have
      "unat (push_bit 1 rem OR b) = val256 n div 2 ^ i mod unat d"
      "val256 q = val256 n div 2 ^ i div unat d * 2 ^ i"
      by (simp_all add: Xi q)
    with Suc.IH [OF i(2) this] False show ?thesis by (simp add: Let_def flip: b_def)
  qed
qed

lemma divmod256_correct:
  assumes "d \<noteq> 0"
  shows "val256 (quotient (divmod256 n d)) = val256 n div unat d"
    and "unat (remainder (divmod256 n d)) = val256 n mod unat d"
proof -
  have d: "unat d \<noteq> 0" using assms by (simp add: unat_eq_zero)
  have hi0: "hi n = 0 \<Longrightarrow> val256 n = unat (lo n)" by (simp add: val256_def)
  have loop: "unat (remainder (divmod_loop n d 256 \<lparr>lo = 0, hi = 0\<rparr> 0)) = val256 n mod unat d
       \<and> val256 (quotient (divmod_loop n d 256 \<lparr>lo = 0, hi = 0\<rparr> 0)) = val256 n div unat d"
    by (rule divmod_loop_invariant) (use d val256_less [of n] in \<open>simp_all add: val256_def\<close>)
  show "val256 (quotient (divmod256 n d)) = val256 n div unat d"
    using loop by (auto simp: divmod256_def hi0 word_less_nat_alt unat_div_distrib) (simp_all add: val256_def unat_div_distrib)
  show "unat (remainder (divmod256 n d)) = val256 n mod unat d"
    using loop by (auto simp: divmod256_def hi0 word_less_nat_alt unat_mod_distrib)
qed

section \<open>Packing the signed result\<close>

lemma int128_max: "unat (drop_bit 1 (NOT 0) :: u128) = 2 ^ 127 - 1"
  by (simp only: unat_drop_bit_eq) (simp add: drop_bit_eq_div unsigned_minus_1_eq_mask mask_eq_exp_minus_1)

lemma sint_small: "unat (w :: u128) < 2 ^ 127 \<Longrightarrow> sint w = int (unat w)"
proof -
  assume "unat w < 2 ^ 127"
  then have "int (unat w) < int (2 ^ 127)" by (simp only: of_nat_less_iff)
  then have "uint w < 2 ^ 127" by simp
  then have "signed_take_bit 127 (uint w) = uint w"
    by (intro signed_take_bit_int_eq_self) (auto intro: order_trans [of _ 0])
  then have "sint w = uint w" by (simp add: sint_uint)
  then show ?thesis by (simp only: uint_nat)
qed

lemma val256_fits:
  "hi q = 0 \<and> lo q \<le> drop_bit 1 (NOT 0) \<longleftrightarrow> val256 q < 2 ^ 127"
proof -
  have "lo q \<le> drop_bit 1 (NOT 0) \<longleftrightarrow> unat (lo q) < 2 ^ 127"
    by (simp only: word_le_nat_alt int128_max) auto
  moreover have "hi q \<noteq> 0 \<Longrightarrow> 0 < unat (hi q)" by (simp add: unat_gt_0)
  ultimately show ?thesis by (cases "hi q = 0") (auto simp: val256_def)
qed

definition sign_mag :: "bool \<Rightarrow> nat \<Rightarrow> int" where
  "sign_mag negative n = (if negative then - int n else int n)"

lemma signed_ok: "n < 2 ^ 127 \<Longrightarrow> i128_ok (sign_mag negative n)"
proof -
  assume "n < 2 ^ 127"
  then have "int n < 2 ^ 127" by (simp add: of_nat_less_iff [of _ "2 ^ 127", simplified])
  then show ?thesis by (simp add: sign_mag_def i128_ok_def)
qed

lemma pack_result_fits:
  assumes "val256 q < 2 ^ 127" "unat rem < 2 ^ 127"
  shows "pack_result q rem negative =
    Inr \<lparr>res_value = Decimal_t (sign_mag negative (val256 q)),
         res_error = sign_mag negative (unat rem), res_overflow = 0\<rparr>"
proof -
  have "hi q = 0" "unat (lo q) = val256 q" using assms(1) val256_fits [of q] by (simp_all add: val256_def)
  then have "sint (lo q) = int (val256 q)" "sint rem = int (unat rem)"
    using assms by (simp_all only: sint_small)
  then show ?thesis
    using assms signed_ok [OF assms(1), of True] signed_ok [OF assms(2), of True]
    unfolding pack_result_def val256_fits Let_def sign_mag_def by (simp add: i128_def [of 0] i128_ok_def [of 0])
qed

lemma pack_result_overflow:
  assumes "2 ^ 127 \<le> val256 q" "unat (hi q) < 2 ^ 127" "unat rem < 2 ^ 127"
  shows "\<exists>r. pack_result q rem negative = Inr r \<and> has_overflow r
           \<and> res_error r = sign_mag negative (unat rem) \<and> i128_ok (raw_value (res_value r))"
proof -
  let ?max = "drop_bit 1 (NOT 0) :: u128"
  have "unat (lo q AND ?max) \<le> unat ?max"
    by (metis word_and_le1 word_le_nat_alt)
  then have "unat (lo q AND ?max) < 2 ^ 127" by (simp only: int128_max) simp
  then have low: "sint (lo q AND ?max) = int (unat (lo q AND ?max))"
    "i128_ok (sign_mag True (unat (lo q AND ?max)))" "i128_ok (sign_mag False (unat (lo q AND ?max)))"
    by (simp_all only: sint_small signed_ok)
  have high: "sint (hi q) = int (unat (hi q))" "i128_ok (sign_mag True (unat (hi q)))" "i128_ok (sign_mag True 1)"
    using assms(2) by (simp_all only: sint_small signed_ok) (simp add: signed_ok)
  have rem: "sint rem = int (unat rem)" "i128_ok (sign_mag True (unat rem))"
    using assms(3) by (simp_all only: sint_small signed_ok)
  have "hi q \<noteq> 0 \<Longrightarrow> uint (hi q) \<noteq> 0" by (simp add: uint_0_iff)
  with low high rem assms(1) show ?thesis
    unfolding pack_result_def val256_fits Let_def sign_mag_def has_overflow_def
    by (cases negative; cases "hi q = 0") (simp_all add: has_overflow_def)
qed

section \<open>Products and quotients are exact\<close>

text \<open>
  What \<open>mul\<close> and \<open>div\<close> share: the magnitude \<open>D\<close> divided by \<open>m\<close>, with the quotient
  in the value, the rest in the error and the sign on both.
\<close>

definition quot_spec :: "bool \<Rightarrow> nat \<Rightarrow> nat \<Rightarrow> decimal_result_t \<Rightarrow> bool" where
  "quot_spec neg D m r \<longleftrightarrow>
     (has_overflow r \<longleftrightarrow> 2 ^ 127 \<le> D div m) \<and>
     (\<not> has_overflow r \<longrightarrow> raw_value (res_value r) = sign_mag neg (D div m)) \<and>
     res_error r = sign_mag neg (D mod m)"

lemma divide_and_pack:
  assumes "val256 n = D" "unat d = m" "0 < m" "m \<le> 2 ^ 127" "D < m * 2 ^ 255"
  shows "\<exists>r. pack_result (quotient (divmod256 n d)) (remainder (divmod256 n d)) neg = Inr r
           \<and> quot_spec neg D m r"
proof -
  let ?q = "quotient (divmod256 n d)" and ?r = "remainder (divmod256 n d)"
  have "d \<noteq> 0" using assms(2,3) by auto
  note qr = divmod256_correct [OF this, of n, unfolded assms(1,2)]
  have "D mod m < m" using assms(3) by simp
  with assms(4) qr(2) have r: "unat ?r < 2 ^ 127" by (simp only:)
  show ?thesis
  proof (cases "D div m < 2 ^ 127")
    case True
    with qr(1) have "val256 ?q < 2 ^ 127" by (simp only:)
    from pack_result_fits [OF this r, of neg] True qr show ?thesis
      by (simp add: quot_spec_def has_overflow_def)
  next
    case False
    have "val256 ?q < 2 ^ 255"
      using qr(1) assms(3,5) by (simp add: less_mult_imp_div_less mult.commute)
    then have h: "unat (hi ?q) < 2 ^ 127" by (simp add: val256_def)
    have "2 ^ 127 \<le> val256 ?q" using False qr(1) by (simp only: linorder_not_less)
    from pack_result_overflow [OF this h r, of neg] False qr(2) show ?thesis
      by (auto simp: quot_spec_def)
  qed
qed

lemma nat_abs_less: "i128_ok v \<Longrightarrow> nat \<bar>v\<bar> \<le> 2 ^ 127"
  unfolding i128_ok_def by (simp add: nat_le_iff abs_le_iff)

lemma scale_word: "unat (word_of_int scale_factor :: u128) = 10 ^ 18"
  using unat_word_of_int [of scale_factor] by (simp add: scale_factor_def)

lemma signed_sign: "sign_mag ((a < 0) \<noteq> (b < 0)) (nat \<bar>a\<bar> * k) = a * sgn b * int k"
  if "b \<noteq> 0" for a b :: int
  using that by (auto simp: sign_mag_def sgn_if)

lemma signed_sgn: "a * b \<noteq> 0 \<Longrightarrow> sign_mag ((a < 0) \<noteq> (b < 0)) k = sgn (a * b) * int k" for a b :: int
  by (auto simp: sign_mag_def sgn_if zero_less_mult_iff)

lemma signed_add: "sign_mag n (k + l) = sign_mag n k + sign_mag n l"
  and signed_mult: "sign_mag n (k * l) = sign_mag n k * int l"
  and abs_signed: "\<bar>sign_mag n k\<bar> = int k"
  by (auto simp: sign_mag_def)

lemma decimal_mul_spec:
  assumes "i128_ok (raw_value a)" "i128_ok (raw_value b)"
  shows "\<exists>r. decimal_mul a b = Inr r \<and>
    quot_spec ((raw_value a < 0) \<noteq> (raw_value b < 0)) (nat \<bar>raw_value a\<bar> * nat \<bar>raw_value b\<bar>) (10 ^ 18) r"
proof -
  have "nat \<bar>raw_value a\<bar> * nat \<bar>raw_value b\<bar> \<le> 2 ^ 127 * 2 ^ 127"
    by (intro mult_le_mono nat_abs_less assms)
  then have "nat \<bar>raw_value a\<bar> * nat \<bar>raw_value b\<bar> < 10 ^ 18 * 2 ^ 255" by simp
  then show ?thesis unfolding decimal_mul_def Let_def
    by (intro divide_and_pack) (simp_all add: val256_mul256 unat_to_unsigned assms scale_word)
qed

lemma decimal_div_spec:
  assumes "i128_ok (raw_value a)" "i128_ok (raw_value b)" "raw_value b \<noteq> 0"
  shows "\<exists>r. decimal_div a b = Inr r \<and>
    quot_spec ((raw_value a < 0) \<noteq> (raw_value b < 0)) (nat \<bar>raw_value a\<bar> * 10 ^ 18) (nat \<bar>raw_value b\<bar>) r"
proof -
  have "nat \<bar>raw_value a\<bar> * 10 ^ 18 \<le> 2 ^ 127 * 10 ^ 18"
    by (intro mult_le_mono nat_abs_less assms) simp
  also have "\<dots> < 1 * 2 ^ 255" by simp
  also have "1 * 2 ^ 255 \<le> nat \<bar>raw_value b\<bar> * 2 ^ 255"
    using assms(3) by (intro mult_le_mono1) simp
  finally have "nat \<bar>raw_value a\<bar> * 10 ^ 18 < nat \<bar>raw_value b\<bar> * 2 ^ 255" .
  then show ?thesis using assms(3) unfolding decimal_div_def Let_def
    by (simp del: mult_le_cancel2 only: if_False)
       (intro divide_and_pack, simp_all only: val256_mul256 unat_to_unsigned assms scale_word nat_abs_less, simp_all)
qed

section \<open>Properties\<close>

lemma is_valid_i128: "is_valid d \<Longrightarrow> i128_ok (raw_value d)"
  unfolding is_valid_abs i128_ok_def by (auto simp: abs_le_iff)

text \<open>
  C30: sums, differences and negations of valid decimals (raw value within
  \<open>\<plusminus> 10 ^ 37\<close>) never overflow the 128-bit integer, and are exact.
\<close>

theorem valid_sums_exact:
  assumes "is_valid a" "is_valid b"
  shows "decimal_add a b = Inr (Decimal_t (raw_value a + raw_value b))
       \<and> decimal_sub a b = Inr (Decimal_t (raw_value a - raw_value b))
       \<and> decimal_neg a = Inr (Decimal_t (- raw_value a))"
proof -
  have "i128_ok (raw_value a + raw_value b)" "i128_ok (raw_value a - raw_value b)" "i128_ok (- raw_value a)"
    using assms unfolding is_valid_abs i128_ok_def by (auto simp: abs_le_iff)
  then show ?thesis by (simp add: decimal_add_def decimal_sub_def decimal_neg_def)
qed

theorem valid_sums_exact_witness:
  "is_valid decimal_max \<and> decimal_add decimal_max decimal_max = Inr (Decimal_t (2 * 10 ^ 37))"
proof -
  have v: "is_valid decimal_max" by (simp add: is_valid_def decimal_max_def max_raw_eq min_raw_def)
  then show ?thesis using valid_sums_exact [OF v v] by (simp add: decimal_max_def max_raw_eq)
qed

text \<open>
  C2: \<open>mul\<close> returns for every pair of 128-bit values. It reports overflow exactly when the
  truncated product does not fit; otherwise value and error together are the product
  without any loss: \<open>value * 10 ^ 18 + error = a * b\<close>, with the error below one unit and
  of the sign of the product.
\<close>

theorem decimal_mul_exact:
  assumes "i128_ok (raw_value a)" "i128_ok (raw_value b)"
  shows "\<exists>r. decimal_mul a b = Inr r \<and>
     (has_overflow r \<longleftrightarrow> 2 ^ 127 \<le> \<bar>raw_value a * raw_value b\<bar> div 10 ^ 18) \<and>
     (\<not> has_overflow r \<longrightarrow>
        raw_value (res_value r) * 10 ^ 18 + res_error r = raw_value a * raw_value b \<and>
        \<bar>res_error r\<bar> < 10 ^ 18 \<and> 0 \<le> res_error r * (raw_value a * raw_value b))"
proof -
  define neg D where "neg = ((raw_value a < 0) \<noteq> (raw_value b < 0))"
    and "D = nat \<bar>raw_value a\<bar> * nat \<bar>raw_value b\<bar>"
  obtain r where r: "decimal_mul a b = Inr r" "quot_spec neg D (10 ^ 18) r"
    using decimal_mul_spec [OF assms] by (auto simp: neg_def D_def)
  have ab: "sign_mag neg D = raw_value a * raw_value b" "int D = \<bar>raw_value a * raw_value b\<bar>"
    by (auto simp: neg_def D_def sign_mag_def abs_mult)
  have "sign_mag neg (D div 10 ^ 18) * 10 ^ 18 + sign_mag neg (D mod 10 ^ 18) = sign_mag neg D"
    by (simp flip: signed_add add: signed_mult [where l = "10 ^ 18", simplified, symmetric])
  moreover have "0 \<le> sign_mag neg (D mod 10 ^ 18) * sign_mag neg D" by (simp add: sign_mag_def)
  moreover have "2 ^ 127 \<le> D div 10 ^ 18 \<longleftrightarrow> 2 ^ 127 \<le> int D div 10 ^ 18"
    by (metis of_nat_le_iff of_nat_numeral of_nat_power zdiv_int)
  ultimately show ?thesis using r by (auto simp: quot_spec_def ab abs_signed)
qed

theorem decimal_mul_exact_witness:
  "i128_ok (raw_value (Decimal_t 1500000000000000000)) \<and>
   (\<exists>r. decimal_mul (Decimal_t 1500000000000000000) (Decimal_t (- 3)) = Inr r \<and>
        raw_value (res_value r) * 10 ^ 18 + res_error r = - 4500000000000000000 \<and> \<not> has_overflow r)"
proof -
  have ok: "i128_ok (raw_value (Decimal_t 1500000000000000000))" "i128_ok (raw_value (Decimal_t (- 3)))"
    by (simp_all add: i128_ok_def)
  show ?thesis using ok decimal_mul_exact [OF ok] by auto
qed

text \<open>
  C3: \<open>div\<close> throws on a zero divisor and otherwise returns. Without overflow, the value
  and the error recompose the scaled dividend: \<open>value * |b| + error = a * sgn b * 10 ^ 18\<close>
  with the error below the divisor and of the sign of the quotient, so that the value is the quotient truncated toward
  zero; overflow is reported exactly when the quotient
  does not fit.
\<close>

theorem decimal_div_exact:
  assumes "i128_ok (raw_value a)" "i128_ok (raw_value b)"
  shows "if raw_value b = 0 then decimal_div a b = Inl (Domain_error ''decimal: division by zero'')
    else \<exists>r. decimal_div a b = Inr r \<and>
     (has_overflow r \<longleftrightarrow> 2 ^ 127 \<le> \<bar>raw_value a\<bar> * 10 ^ 18 div \<bar>raw_value b\<bar>) \<and>
     (\<not> has_overflow r \<longrightarrow>
        raw_value (res_value r) * \<bar>raw_value b\<bar> + res_error r = raw_value a * sgn (raw_value b) * 10 ^ 18 \<and>
        \<bar>res_error r\<bar> < \<bar>raw_value b\<bar> \<and> 0 \<le> res_error r * (raw_value a * raw_value b) \<and>
        raw_value (res_value r) = sgn (raw_value a * raw_value b) * (\<bar>raw_value a\<bar> * 10 ^ 18 div \<bar>raw_value b\<bar>))"
proof (cases "raw_value b = 0")
  case False
  define neg D m where "neg = ((raw_value a < 0) \<noteq> (raw_value b < 0))"
    and "D = nat \<bar>raw_value a\<bar> * 10 ^ 18" and "m = nat \<bar>raw_value b\<bar>"
  obtain r where r: "decimal_div a b = Inr r" "quot_spec neg D m r"
    using decimal_div_spec [OF assms False] by (auto simp: neg_def D_def m_def)
  have ab: "sign_mag neg D = raw_value a * sgn (raw_value b) * 10 ^ 18" "int D = \<bar>raw_value a\<bar> * 10 ^ 18"
    "int m = \<bar>raw_value b\<bar>" "0 < m"
    using signed_sign [OF False, of "raw_value a" "10 ^ 18"] False by (auto simp: neg_def D_def m_def)
  have "sign_mag neg (D div m) * int m + sign_mag neg (D mod m) = sign_mag neg D"
    by (simp flip: signed_add signed_mult)
  moreover have "2 ^ 127 \<le> D div m \<longleftrightarrow> 2 ^ 127 \<le> int D div int m"
    by (metis of_nat_le_iff of_nat_numeral of_nat_power zdiv_int)
  moreover have "int (D mod m) < int m" using ab(4) by simp
  moreover have "0 \<le> sign_mag neg (D mod m) * (raw_value a * raw_value b)"
    by (auto simp: sign_mag_def neg_def mult_nonneg_nonneg mult_nonpos_nonpos mult_nonneg_nonpos mult_nonpos_nonneg not_less intro: less_imp_le)
  moreover have "sign_mag neg (D div m) = sgn (raw_value a * raw_value b) * (int D div int m)"
  proof (cases "raw_value a = 0")
    case False
    with \<open>raw_value b \<noteq> 0\<close> show ?thesis
      by (cases "raw_value a < 0"; cases "raw_value b < 0") (simp_all add: sign_mag_def neg_def sgn_mult zdiv_int)
  qed (simp add: sign_mag_def D_def)
  ultimately show ?thesis using r False by (auto simp: quot_spec_def ab abs_signed)
qed (simp add: decimal_div_def)

theorem decimal_div_exact_witness:
  "i128_ok (raw_value (Decimal_t 10)) \<and> i128_ok (raw_value (Decimal_t (- 3))) \<and>
   (\<exists>r. decimal_div (Decimal_t 10) (Decimal_t (- 3)) = Inr r \<and>
        raw_value (res_value r) * 3 + res_error r = - 10000000000000000000 \<and> \<bar>res_error r\<bar> < 3)"
proof -
  have ok: "i128_ok (raw_value (Decimal_t 10))" "i128_ok (raw_value (Decimal_t (- 3)))"
    by (simp_all add: i128_ok_def)
  show ?thesis using ok decimal_div_exact [OF ok] by auto
qed

text \<open>
  \<open>operator*\<close> is multiplication rounded towards zero at the 18th decimal, or the
  overflow exception when the result does not fit 128 bits.
\<close>

lemma decimal_times_truncates:
  assumes "i128_ok (raw_value a)" "i128_ok (raw_value b)"
  shows "decimal_times a b =
    (if \<bar>raw_value a * raw_value b\<bar> div 10 ^ 18 \<ge> 2 ^ 127
     then Inl (Overflow_error ''decimal: multiplication overflow'')
     else Inr (Decimal_t (cpp_div (raw_value a * raw_value b) (10 ^ 18))))"
proof -
  define neg D where "neg = ((raw_value a < 0) \<noteq> (raw_value b < 0))"
    and "D = nat \<bar>raw_value a\<bar> * nat \<bar>raw_value b\<bar>"
  obtain r where r: "decimal_mul a b = Inr r" "quot_spec neg D (10 ^ 18) r"
    using decimal_mul_spec [OF assms] by (auto simp: neg_def D_def)
  have D: "int D = \<bar>raw_value a * raw_value b\<bar>" by (simp add: D_def abs_mult)
  have "2 ^ 127 \<le> D div 10 ^ 18 \<longleftrightarrow> 2 ^ 127 \<le> int D div 10 ^ 18"
    by (metis of_nat_le_iff of_nat_numeral of_nat_power zdiv_int)
  moreover have "sign_mag neg (D div 10 ^ 18) = cpp_div (raw_value a * raw_value b) (10 ^ 18)"
  proof -
    have "int (D div 10 ^ 18) = \<bar>raw_value a * raw_value b\<bar> div 10 ^ 18" by (simp add: zdiv_int D)
    then show ?thesis
    proof (cases "raw_value a * raw_value b = 0")
      case False
      with \<open>int (D div 10 ^ 18) = _\<close> show ?thesis
        using signed_sgn [OF False, of "D div 10 ^ 18"] by (simp add: neg_def cpp_div_def)
    qed (auto simp: cpp_div_def sign_mag_def)
  qed
  ultimately show ?thesis
    using r by (auto simp: decimal_times_def quot_spec_def D intro: decimal_t.expand)
qed

text \<open>
  The constructor from an integer at another scale multiplies exactly when the
  scaled value fits, and truncates towards zero when digits have to be dropped.
\<close>

lemma decimal_of_scaled_value:
  assumes "- 1000000 \<le> s" and "s \<le> 18 \<longrightarrow> i128_ok (r * 10 ^ nat (18 - s))"
  shows "decimal_of_scaled r s =
    Inr (Decimal_t (if s \<le> 18 then r * 10 ^ nat (18 - s) else cpp_div r (10 ^ nat (s - 18))))"
  using assms by (auto simp: decimal_of_scaled_def scale_def scale_up_exact scale_down_eq)

end
