(* ===== verification/Fapi_Result.thy ===== *)
theory Fapi_Result
  imports Binapi_Prelude
begin

text \<open>
  Errors and results: \<^verbatim>\<open>error.hpp\<close>, \<^verbatim>\<open>result.hpp\<close> and the response decoder of
  \<^verbatim>\<open>detail/decode.hpp\<close>. A result is the pair of an optional value and an error, and it
  counts as a success exactly when the error code is \<^verbatim>\<open>none\<close>, whether or not a value is
  there; dereferencing a result without a value is undefined behaviour. The invariant
  \<open>result_wf\<close> says the two agree. JSON decoding (glaze) is a parameter.
\<close>

section \<open>Errors\<close>

datatype error_code =
    Ec_none
  | Ec_invalid_argument
  | Ec_transport
  | Ec_http_status
  | Ec_json
  | Ec_binance
  | Ec_websocket
  | Ec_internal

record error =
  error_code_of :: error_code
  http_status :: int
  binance_code :: int
  message :: string
  payload :: string

definition no_error :: error where
  "no_error = \<lparr>error_code_of = Ec_none, http_status = 0, binance_code = 0, message = [], payload = []\<rparr>"

definition mk_error :: "error_code \<Rightarrow> int \<Rightarrow> int \<Rightarrow> string \<Rightarrow> string \<Rightarrow> error" where
  "mk_error c h b m p =
     \<lparr>error_code_of = c, http_status = h, binance_code = b, message = m, payload = p\<rparr>"

lemma error_code_of_mk [simp]: "error_code_of (mk_error c h b m p) = c"
  by (simp add: mk_error_def)

lemma error_code_of_no_error [simp]: "error_code_of no_error = Ec_none"
  by (simp add: no_error_def)

section \<open>Results\<close>

record 'a result =
  result_value :: "'a option"
  err :: error

definition is_ok :: "'a result \<Rightarrow> bool" where
  "is_ok r \<longleftrightarrow> error_code_of (err r) = Ec_none"

text \<open>\<^verbatim>\<open>operator*\<close>: undefined without a value.\<close>

definition deref :: "'a result \<Rightarrow> 'a may_throw" where
  "deref r = (case result_value r of None \<Rightarrow> Inl Undefined_behaviour | Some v \<Rightarrow> Inr v)"

definition success :: "'a \<Rightarrow> 'a result" where
  "success v = \<lparr>result_value = Some v, err = no_error\<rparr>"

definition failure :: "error \<Rightarrow> 'a result" where
  "failure e = \<lparr>result_value = None, err = e\<rparr>"

definition result_wf :: "'a result \<Rightarrow> bool" where
  "result_wf r \<longleftrightarrow> (is_ok r \<longleftrightarrow> result_value r \<noteq> None)"

lemma result_simps [simp]:
  "is_ok (success v)" "is_ok (failure e) \<longleftrightarrow> error_code_of e = Ec_none"
  "deref (success v) = Inr v" "deref (failure e) = Inl Undefined_behaviour"
  "result_value (success v) = Some v" "result_value (failure e) = None"
  "err (failure e) = e" "err (success v) = no_error"
  by (simp_all add: success_def failure_def is_ok_def deref_def)

lemma result_wf_simps [simp]:
  "result_wf (success v)" "result_wf (failure e) \<longleftrightarrow> error_code_of e \<noteq> Ec_none"
  by (simp_all add: result_wf_def)

lemma success_inject [simp]: "success a = success b \<longleftrightarrow> a = b"
  by (simp add: success_def)

lemma success_not_failure [simp]: "success a \<noteq> failure e" "failure e \<noteq> success a"
  by (simp_all add: success_def failure_def)

lemma result_wf_cases:
  assumes "result_wf r"
  obtains (ok) v where "is_ok r" "deref r = Inr v" | (failed) "\<not> is_ok r" "result_value r = None"
  using assms by (cases "result_value r") (auto simp: result_wf_def deref_def)

text \<open>The specialisation \<^verbatim>\<open>result<void>\<close> has no value: it is its error.\<close>

definition void_success :: error where
  "void_success = no_error"

definition void_failure :: "error \<Rightarrow> error" where
  "void_failure e = e"

definition void_ok :: "error \<Rightarrow> bool" where
  "void_ok e \<longleftrightarrow> error_code_of e = Ec_none"

section \<open>Decoding an HTTP response\<close>

record http_response =
  status :: int
  body :: string

record binance_error_document_t =
  doc_code :: int
  doc_msg :: string

text \<open>
  \<open>read_doc\<close> and \<open>read_value\<close> stand for \<^verbatim>\<open>glz::read\<close> at the two types (the left summand
  is the formatted parse error); \<open>empty_value\<close> is the value of \<^verbatim>\<open>empty_response_t\<close> when
  the response type is that one, in which case the body is not read.
\<close>

definition decode_response ::
  "(string \<Rightarrow> string + binance_error_document_t) \<Rightarrow> 'a option \<Rightarrow> (string \<Rightarrow> string + 'a) \<Rightarrow>
   http_response \<Rightarrow> 'a result" where
  "decode_response read_doc empty_value read_value response =
     (if status response < 200 \<or> status response \<ge> 300 then
        (case read_doc (body response) of
           Inr error_doc \<Rightarrow> failure (mk_error Ec_binance (status response) (doc_code error_doc)
                              (doc_msg error_doc) (body response))
         | Inl _ \<Rightarrow> failure (mk_error Ec_http_status (status response) 0 ''HTTP request failed''
                              (body response)))
      else
        (case empty_value of
           Some v \<Rightarrow> success v
         | None \<Rightarrow>
             (case read_value (body response) of
                Inl ec \<Rightarrow> failure (mk_error Ec_json (status response) 0 ec (body response))
              | Inr v \<Rightarrow> success v)))"

lemma decode_response_wf [simp]: "result_wf (decode_response read_doc empty_value read_value r)"
  by (simp add: decode_response_def split: sum.split option.split)

text \<open>
  The decoder classifies every response. A success is exactly a 2xx status whose body
  reads (or need not be read), and it always carries the value; every failure carries
  the status and the raw body, with the Binance error document when there is one.
\<close>

lemma decode_response_classifies:
  "let d = decode_response read_doc empty_value read_value r; ok = 200 \<le> status r \<and> status r < 300 in
   result_wf d \<and>
   (is_ok d \<longleftrightarrow> ok \<and> (empty_value \<noteq> None \<or> (\<exists>v. read_value (body r) = Inr v))) \<and>
   (is_ok d \<or> (http_status (err d) = status r \<and> payload (err d) = body r)) \<and>
   error_code_of (err d) \<in> {Ec_none, Ec_binance, Ec_http_status, Ec_json} \<and>
   (error_code_of (err d) = Ec_binance \<longleftrightarrow> \<not> ok \<and> (\<exists>doc. read_doc (body r) = Inr doc)) \<and>
   (error_code_of (err d) = Ec_http_status \<longleftrightarrow> \<not> ok \<and> (\<exists>e. read_doc (body r) = Inl e))"
  unfolding Let_def decode_response_def
  by (auto simp: mk_error_def split: sum.split option.split)

end
