(* ===== verification/Wire_Types.thy ===== *)
theory Wire_Types
  imports Decimal Fapi_Result
begin

text \<open>
  The value types that requests, responses and stream events are made of: symbols and
  pairs (upper-cased on construction), millisecond timestamps, and the order-book
  payloads of \<^verbatim>\<open>types/common.hpp\<close>, \<^verbatim>\<open>types/market_data.hpp\<close> and
  \<^verbatim>\<open>types/market_stream_events.hpp\<close>.
\<close>

section \<open>Symbols, pairs, timestamps\<close>

definition upper_char :: "char \<Rightarrow> char" where
  "upper_char c =
     (if 97 \<le> (of_char c :: nat) \<and> (of_char c :: nat) \<le> 122 then char_of ((of_char c :: nat) - 32) else c)"

definition to_upper :: "string \<Rightarrow> string" where
  "to_upper s = map upper_char s"

datatype symbol_t = Symbol_t (str: string)

definition symbol_of :: "string \<Rightarrow> symbol_t" where
  "symbol_of s = Symbol_t (to_upper s)"

datatype pair_t = Pair_t (pair_str: string)

definition pair_of :: "string \<Rightarrow> pair_t" where
  "pair_of s = Pair_t (to_upper s)"

datatype timestamp_ms_t = Timestamp_ms (ms: u64)

definition timestamp_to_string :: "timestamp_ms_t \<Rightarrow> string" where
  "timestamp_to_string t = dec_digits (unat (ms t))"

lemma upper_char_idem [simp]: "upper_char (upper_char c) = upper_char c"
proof (cases "97 \<le> (of_char c :: nat) \<and> (of_char c :: nat) \<le> 122")
  case True
  then have "of_char (char_of ((of_char c :: nat) - 32) :: char) = (of_char c :: nat) - 32"
    by auto
  with True show ?thesis unfolding upper_char_def by auto
qed (auto simp: upper_char_def)

lemma to_upper_idem [simp]: "to_upper (to_upper s) = to_upper s"
  by (simp add: to_upper_def)

section \<open>Order-book payloads\<close>

record price_level_t =
  price :: decimal_t
  quantity :: decimal_t

record depth_stream_event_t =
  event_time :: timestamp_ms_t
  transaction_time :: timestamp_ms_t
  event_symbol :: symbol_t
  first_update_id :: u64
  final_update_id :: u64
  prev_final_update_id :: u64
  event_bids :: "price_level_t list"
  event_asks :: "price_level_t list"

record order_book_response_t =
  lastUpdateId :: u64
  response_output_time :: timestamp_ms_t
  response_transaction_time :: timestamp_ms_t
  response_bids :: "price_level_t list"
  response_asks :: "price_level_t list"

end
