(* ===== verification/Order_Book.thy ===== *)
theory Order_Book
  imports Ordered_Map Wire_Types
begin

text \<open>
  The locally maintained order book: \<^verbatim>\<open>order_book/local_order_book.cpp\<close> and the logic
  stage of \<^verbatim>\<open>order_book/pipeline_order_book.cpp\<close>. The state of one run is the record
  \<open>sync_state\<close> (the coroutine's locals, the member \<^verbatim>\<open>book_\<close> and the log of snapshots
  handed to the callback). One iteration of the loop is a function of the event just read
  and of the answer the REST service would give, which is consumed only when the iteration
  fetches. The abstract step relation \<open>sync_step\<close> says what any such loop may do; both
  loops refine it, and the invariants are proved once for it in the locale \<open>book_sync\<close>.
\<close>

section \<open>The book\<close>

record order_book_snapshot =
  last_update_id :: u64
  book_bids :: "(decimal_t, decimal_t) smap"
  book_asks :: "(decimal_t, decimal_t) smap"

abbreviation bid_order :: "decimal_t \<Rightarrow> decimal_t \<Rightarrow> bool" where
  "bid_order a b \<equiv> b < a"

abbreviation ask_order :: "decimal_t \<Rightarrow> decimal_t \<Rightarrow> bool" where
  "ask_order a b \<equiv> a < b"

definition empty_book :: order_book_snapshot where
  "empty_book = \<lparr>last_update_id = 0, book_bids = [], book_asks = []\<rparr>"

definition apply_level ::
  "(decimal_t \<Rightarrow> decimal_t \<Rightarrow> bool) \<Rightarrow> (decimal_t, decimal_t) smap \<Rightarrow> price_level_t \<Rightarrow> (decimal_t, decimal_t) smap" where
  "apply_level lt side level =
     (if is_zero (quantity level) then map_erase lt (price level) side
      else map_put lt (price level) (quantity level) side)"

definition apply_levels ::
  "(decimal_t \<Rightarrow> decimal_t \<Rightarrow> bool) \<Rightarrow> price_level_t list \<Rightarrow> (decimal_t, decimal_t) smap \<Rightarrow> (decimal_t, decimal_t) smap" where
  "apply_levels lt levels side = foldl (apply_level lt) side levels"

definition apply_event :: "depth_stream_event_t \<Rightarrow> order_book_snapshot \<Rightarrow> order_book_snapshot" where
  "apply_event event b =
     \<lparr>last_update_id = final_update_id event,
      book_bids = apply_levels bid_order (event_bids event) (book_bids b),
      book_asks = apply_levels ask_order (event_asks event) (book_asks b)\<rparr>"

text \<open>The loop that fills one side from the REST snapshot.\<close>

definition load_level ::
  "(decimal_t \<Rightarrow> decimal_t \<Rightarrow> bool) \<Rightarrow> (decimal_t, decimal_t) smap \<Rightarrow> price_level_t \<Rightarrow> (decimal_t, decimal_t) smap" where
  "load_level lt side level =
     (if \<not> is_zero (quantity level) then map_put lt (price level) (quantity level) side else side)"

definition load_snapshot :: "order_book_response_t \<Rightarrow> order_book_snapshot" where
  "load_snapshot snap =
     \<lparr>last_update_id = lastUpdateId snap,
      book_bids = foldl (load_level bid_order) [] (response_bids snap),
      book_asks = foldl (load_level ask_order) [] (response_asks snap)\<rparr>"

section \<open>The synchronisation loop\<close>

record sync_state =
  synced :: bool
  last_u :: u64
  buffer :: "depth_stream_event_t list"
  events_until_snap :: nat
  book :: order_book_snapshot
  on_snapshot :: bool
  published :: "order_book_snapshot list"

definition publish :: "sync_state \<Rightarrow> sync_state" where
  "publish st = (if on_snapshot st then st\<lparr>published := published st @ [book st]\<rparr> else st)"

text \<open>\<^verbatim>\<open>std::erase_if\<close> on the buffer, and the bracket test on what remains.\<close>

definition discard_old :: "u64 \<Rightarrow> depth_stream_event_t list \<Rightarrow> depth_stream_event_t list" where
  "discard_old snapshot_id buf = filter (\<lambda>ev. \<not> final_update_id ev < snapshot_id) buf"

definition bracket_fails :: "u64 \<Rightarrow> depth_stream_event_t list \<Rightarrow> bool" where
  "bracket_fails snapshot_id buf \<longleftrightarrow>
     (case buf of [] \<Rightarrow> True
      | front # _ \<Rightarrow> first_update_id front > snapshot_id \<or> final_update_id front < snapshot_id)"

definition apply_buffered ::
  "u64 \<Rightarrow> order_book_snapshot \<times> u64 \<Rightarrow> depth_stream_event_t \<Rightarrow> order_book_snapshot \<times> u64" where
  "apply_buffered snapshot_id s buffered =
     (if final_update_id buffered \<le> snapshot_id then (fst s, final_update_id buffered)
      else (apply_event buffered (fst s), final_update_id buffered))"

text \<open>The critical section that initialises the book and applies the buffered events.\<close>

definition install_snapshot ::
  "order_book_response_t \<Rightarrow> depth_stream_event_t list \<Rightarrow> sync_state \<Rightarrow> sync_state" where
  "install_snapshot snap buf st =
     (let (b, u) = foldl (apply_buffered (lastUpdateId snap)) (load_snapshot snap, lastUpdateId snap) buf
      in (publish (st\<lparr>book := b, last_u := u\<rparr>))\<lparr>buffer := [], synced := True\<rparr>)"

text \<open>The synchronised branch: apply the event, or start over when its predecessor is not the last one applied.\<close>

definition live_step :: "depth_stream_event_t \<Rightarrow> sync_state \<Rightarrow> sync_state" where
  "live_step event st =
     (if prev_final_update_id event \<noteq> last_u st then st\<lparr>synced := False, buffer := [event]\<rparr>
      else publish (st\<lparr>book := apply_event event (book st), last_u := final_update_id event\<rparr>))"

definition max_wait :: nat where
  "max_wait = 50"

definition next_wait :: "nat \<Rightarrow> nat" where
  "next_wait w = min max_wait (max w 1 * 2)"

definition local_step ::
  "order_book_response_t result \<Rightarrow> depth_stream_event_t \<Rightarrow> sync_state \<Rightarrow> sync_state may_throw" where
  "local_step rest event st =
     (if \<not> synced st then
        let st = st\<lparr>buffer := buffer st @ [event]\<rparr> in
        if events_until_snap st > 0 then Inr (st\<lparr>events_until_snap := events_until_snap st - 1\<rparr>)
        else if \<not> is_ok rest then Inr (st\<lparr>events_until_snap := next_wait (events_until_snap st)\<rparr>)
        else bind_exn (deref rest) (\<lambda>snap.
          let st = st\<lparr>buffer := discard_old (lastUpdateId snap) (buffer st)\<rparr> in
          if bracket_fails (lastUpdateId snap) (buffer st)
          then Inr (st\<lparr>events_until_snap := next_wait (events_until_snap st)\<rparr>)
          else Inr (install_snapshot snap (buffer st) st))
      else Inr (live_step event st))"

definition pipeline_step ::
  "order_book_response_t result \<Rightarrow> depth_stream_event_t \<Rightarrow> sync_state \<Rightarrow> sync_state may_throw" where
  "pipeline_step rest event st =
     (if \<not> synced st then
        let st = st\<lparr>buffer := buffer st @ [event]\<rparr> in
        if length (buffer st) = 1 then
          if \<not> is_ok rest then Inr st
          else bind_exn (deref rest) (\<lambda>snap.
            let st = st\<lparr>buffer := discard_old (lastUpdateId snap) (buffer st)\<rparr> in
            if bracket_fails (lastUpdateId snap) (buffer st) then Inr (st\<lparr>buffer := []\<rparr>)
            else Inr (install_snapshot snap (buffer st) st))
        else Inr st
      else Inr (live_step event st))"

text \<open>
  What the loop condition and the generator deliver at each turn: \<^verbatim>\<open>stop()\<close> was called, the
  generator ended, or it yielded an item (with the answer REST would give in that turn).
  The result is \<open>None\<close> while the loop is still waiting for input.
\<close>

datatype loop_input =
    Stopped
  | Ended
  | Item "depth_stream_event_t result" "order_book_response_t result"

fun local_loop :: "sync_state \<Rightarrow> loop_input list \<Rightarrow> (error option \<times> sync_state) may_throw" where
  "local_loop st [] = Inr (None, st)"
| "local_loop st (Stopped # _) = Inr (Some void_success, st)"
| "local_loop st (Ended # _) = Inr (Some void_success, st)"
| "local_loop st (Item ev_result rest # inputs) =
     (if \<not> is_ok ev_result then Inr (Some (void_failure (err ev_result)), st)
      else bind_exn (deref ev_result) (\<lambda>event.
        bind_exn (local_step rest event st) (\<lambda>st. local_loop st inputs)))"

fun pipeline_loop :: "sync_state \<Rightarrow> loop_input list \<Rightarrow> (error option \<times> sync_state) may_throw" where
  "pipeline_loop st [] = Inr (None, st)"
| "pipeline_loop st (Stopped # _) = Inr (Some void_success, st)"
| "pipeline_loop st (Ended # _) = Inr (Some void_success, st)"
| "pipeline_loop st (Item ev_result rest # inputs) =
     (if \<not> is_ok ev_result then Inr (Some void_success, st)
      else bind_exn (deref ev_result) (\<lambda>event.
        bind_exn (pipeline_step rest event st) (\<lambda>st. pipeline_loop st inputs)))"

text \<open>Each run starts with fresh locals and the book the object already holds.\<close>

definition start_sync :: "bool \<Rightarrow> order_book_snapshot \<Rightarrow> sync_state" where
  "start_sync callback b =
     \<lparr>synced = False, last_u = 0, buffer = [], events_until_snap = 0, book = b,
      on_snapshot = callback, published = []\<rparr>"

definition local_async_run ::
  "bool \<Rightarrow> order_book_snapshot \<Rightarrow> loop_input list \<Rightarrow> (error option \<times> sync_state) may_throw" where
  "local_async_run callback b inputs = local_loop (start_sync callback b) inputs"

definition pipeline_async_run ::
  "bool \<Rightarrow> order_book_snapshot \<Rightarrow> loop_input list \<Rightarrow> (error option \<times> sync_state) may_throw" where
  "pipeline_async_run callback b inputs = pipeline_loop (start_sync callback b) inputs"

section \<open>What a loop may do with one event\<close>

text \<open>
  The abstract step: keep the event buffered (possibly dropping old or all buffered
  events), install a snapshot that brackets the first remaining event, or run the
  synchronised branch.
\<close>

inductive sync_step :: "sync_state \<Rightarrow> depth_stream_event_t \<Rightarrow> order_book_response_t result \<Rightarrow> sync_state \<Rightarrow> bool" where
  keep: "\<not> synced st \<Longrightarrow>
     sync_step st ev rest (st\<lparr>buffer := buffer st @ [ev], events_until_snap := w\<rparr>)"
| discard: "\<not> synced st \<Longrightarrow>
     sync_step st ev rest (st\<lparr>buffer := discard_old sid (buffer st @ [ev]), events_until_snap := w\<rparr>)"
| reset: "\<not> synced st \<Longrightarrow> sync_step st ev rest (st\<lparr>buffer := []\<rparr>)"
| install: "\<not> synced st \<Longrightarrow> is_ok rest \<Longrightarrow> deref rest = Inr snap \<Longrightarrow>
     buf = discard_old (lastUpdateId snap) (buffer st @ [ev]) \<Longrightarrow>
     \<not> bracket_fails (lastUpdateId snap) buf \<Longrightarrow>
     sync_step st ev rest (install_snapshot snap buf (st\<lparr>buffer := buf\<rparr>))"
| live: "synced st \<Longrightarrow> sync_step st ev rest (live_step ev st)"

text \<open>The fetch of a snapshot, shared by the two loops: drop, test the bracket, install or retry.\<close>

lemma sync_step_fetch:
  assumes "\<not> synced st" "is_ok rest" "deref rest = Inr snap"
    and "buf = discard_old (lastUpdateId snap) (buffer st @ [ev])"
    and "st' = (if bracket_fails (lastUpdateId snap) buf then retry
                else install_snapshot snap buf (st\<lparr>buffer := buf\<rparr>))"
    and "sync_step st ev rest retry"
  shows "sync_step st ev rest st'"
  using assms sync_step.install [of st rest snap buf ev] by simp

lemma sync_step_local: "local_step rest ev st = Inr st' \<Longrightarrow> sync_step st ev rest st'"
proof (cases "synced st")
  case True
  then show "local_step rest ev st = Inr st' \<Longrightarrow> ?thesis" by (auto simp: local_step_def sync_step.live)
next
  case False
  assume step: "local_step rest ev st = Inr st'"
  show ?thesis
  proof (cases "events_until_snap st > 0 \<or> \<not> is_ok rest")
    case True
    with False step show ?thesis by (auto simp: local_step_def Let_def intro: sync_step.keep split: if_splits)
  next
    case fetch: False
    then obtain snap where snap: "deref rest = Inr snap"
      using False step by (auto simp: local_step_def bind_exn_Inr_iff)
    from fetch show ?thesis
      using False step
      by (intro sync_step_fetch [OF False _ snap refl _ sync_step.discard [OF False, where w = "next_wait 0"]])
        (auto simp: local_step_def snap Let_def split: if_splits)
  qed
qed

lemma sync_step_pipeline: "pipeline_step rest ev st = Inr st' \<Longrightarrow> sync_step st ev rest st'"
proof (cases "synced st")
  case True
  then show "pipeline_step rest ev st = Inr st' \<Longrightarrow> ?thesis" by (auto simp: pipeline_step_def sync_step.live)
next
  case False
  assume step: "pipeline_step rest ev st = Inr st'"
  show ?thesis
  proof (cases "buffer st \<noteq> [] \<or> \<not> is_ok rest")
    case True
    with False step have "st' = st\<lparr>buffer := buffer st @ [ev], events_until_snap := events_until_snap st\<rparr>"
      by (auto simp: pipeline_step_def Let_def split: if_splits)
    then show ?thesis by (simp only: sync_step.keep [OF False])
  next
    case fetch: False
    then obtain snap where snap: "deref rest = Inr snap"
      using False step by (auto simp: pipeline_step_def bind_exn_Inr_iff)
    from fetch show ?thesis
      using False step
      by (intro sync_step_fetch [OF False _ snap refl _ sync_step.reset [OF False]])
        (auto simp: pipeline_step_def snap Let_def split: if_splits)
  qed
qed

section \<open>Well-formed books\<close>

definition side_wf :: "(decimal_t \<Rightarrow> decimal_t \<Rightarrow> bool) \<Rightarrow> (decimal_t, decimal_t) smap \<Rightarrow> bool" where
  "side_wf lt side \<longleftrightarrow> map_ordered lt side \<and> list_all (\<lambda>e. \<not> is_zero (snd e)) side"

definition book_wf :: "order_book_snapshot \<Rightarrow> bool" where
  "book_wf b \<longleftrightarrow> side_wf bid_order (book_bids b) \<and> side_wf ask_order (book_asks b)"

lemma side_wf_Nil [simp]: "side_wf lt []"
  by (simp add: side_wf_def map_ordered_def)

definition level_change :: "price_level_t \<Rightarrow> decimal_t option" where
  "level_change l = (if is_zero (quantity l) then None else Some (quantity l))"

text \<open>What one side of a book has to provide, for either direction of the price order.\<close>

locale book_side = std_map lt for lt :: "decimal_t \<Rightarrow> decimal_t \<Rightarrow> bool"
begin

lemma apply_level_upsert: "apply_level lt = upsert price level_change"
  by (auto simp: fun_eq_iff apply_level_def upsert_def level_change_def)

lemma apply_level_wf: "side_wf lt side \<Longrightarrow> side_wf lt (apply_level lt side l)"
  by (auto simp: side_wf_def apply_level_def list_all_iff invars
      dest!: map_put_entries map_erase_entries)

lemma load_level_wf: "side_wf lt side \<Longrightarrow> side_wf lt (load_level lt side l)"
  by (auto simp: side_wf_def load_level_def list_all_iff invars dest!: map_put_entries)

lemma apply_levels_wf: "side_wf lt side \<Longrightarrow> side_wf lt (apply_levels lt levels side)"
  unfolding apply_levels_def by (rule foldl_invariant) (simp_all add: apply_level_wf)

lemma load_levels_wf: "side_wf lt (foldl (load_level lt) [] levels)"
  by (rule foldl_invariant) (simp_all add: load_level_wf)

lemma apply_levels_find:
  "map_ordered lt side \<Longrightarrow> map_find lt (apply_levels lt levels side) =
     (\<lambda>p. case map_of (rev (map (\<lambda>l. (price l, level_change l)) levels)) p of
            None \<Rightarrow> map_find lt side p | Some w \<Rightarrow> w)"
  unfolding apply_levels_def apply_level_upsert by (rule upserts_find)

lemma load_levels_apply:
  "foldl (load_level lt) side levels =
     apply_levels lt (filter (\<lambda>l. \<not> is_zero (quantity l)) levels) side"
  by (induction levels arbitrary: side) (simp_all add: apply_levels_def load_level_def apply_level_def)

end

interpretation bid_side: book_side bid_order
  by unfold_locales

interpretation ask_side: book_side ask_order
  by unfold_locales

lemma empty_book_wf: "book_wf empty_book"
  by (simp add: book_wf_def empty_book_def)

lemma apply_event_wf: "book_wf b \<Longrightarrow> book_wf (apply_event ev b)"
  by (simp add: book_wf_def apply_event_def bid_side.apply_levels_wf ask_side.apply_levels_wf)

lemma load_snapshot_wf: "book_wf (load_snapshot snap)"
  by (simp add: book_wf_def load_snapshot_def bid_side.load_levels_wf ask_side.load_levels_wf)

lemma apply_buffered_wf:
  "book_wf (fst s) \<Longrightarrow> book_wf (fst (foldl (apply_buffered sid) s buf))"
  by (rule foldl_invariant [where P = "\<lambda>s. book_wf (fst s)"])
    (simp_all add: apply_buffered_def apply_event_wf)

section \<open>The exchange's book as the specification\<close>

text \<open>
  \<open>server j\<close> is the exchange's own book (bids, asks) after update \<open>j\<close>; \<open>cov\<close> is the set of
  prices a REST snapshot covers (it is truncated to the depth limit). A depth event carries the
  final quantity of every level changed after its predecessor, so laying it over any book
  between the two gives the book at its final update; a REST snapshot shows the covered levels.
\<close>

type_synonym server = "u64 \<Rightarrow> (decimal_t \<rightharpoonup> decimal_t) \<times> (decimal_t \<rightharpoonup> decimal_t)"

definition overlay :: "price_level_t list \<Rightarrow> (decimal_t \<rightharpoonup> decimal_t) \<Rightarrow> (decimal_t \<rightharpoonup> decimal_t)" where
  "overlay levels m =
     (\<lambda>p. case map_of (rev (map (\<lambda>l. (price l, level_change l)) levels)) p of
            None \<Rightarrow> m p | Some w \<Rightarrow> w)"

definition event_ok :: "server \<Rightarrow> decimal_t set \<Rightarrow> depth_stream_event_t \<Rightarrow> bool" where
  "event_ok server cov ev \<longleftrightarrow>
     prev_final_update_id ev \<le> first_update_id ev \<and> first_update_id ev \<le> final_update_id ev \<and>
     (\<forall>j. prev_final_update_id ev \<le> j \<and> j \<le> final_update_id ev \<longrightarrow>
        (\<forall>p\<in>cov. overlay (event_bids ev) (fst (server j)) p = fst (server (final_update_id ev)) p \<and>
                 overlay (event_asks ev) (snd (server j)) p = snd (server (final_update_id ev)) p))"

definition snapshot_ok :: "server \<Rightarrow> decimal_t set \<Rightarrow> order_book_response_t \<Rightarrow> bool" where
  "snapshot_ok server cov snap \<longleftrightarrow>
     (\<forall>p\<in>cov. overlay (filter (\<lambda>l. \<not> is_zero (quantity l)) (response_bids snap)) Map.empty p =
                fst (server (lastUpdateId snap)) p \<and>
              overlay (filter (\<lambda>l. \<not> is_zero (quantity l)) (response_asks snap)) Map.empty p =
                snd (server (lastUpdateId snap)) p)"

definition agrees :: "server \<Rightarrow> decimal_t set \<Rightarrow> order_book_snapshot \<Rightarrow> bool" where
  "agrees server cov b \<longleftrightarrow>
     (\<forall>p\<in>cov. map_find bid_order (book_bids b) p = fst (server (last_update_id b)) p \<and>
              map_find ask_order (book_asks b) p = snd (server (last_update_id b)) p)"

lemma overlay_cong: "m p = m' p \<Longrightarrow> overlay levels m p = overlay levels m' p"
  by (simp add: overlay_def split: option.split)

lemma map_find_Nil: "map_find lt [] = Map.empty"
  by (simp add: fun_eq_iff)

lemma apply_levels_overlay [book_simps]:
  "side_wf bid_order side \<Longrightarrow> map_find bid_order (apply_levels bid_order levels side) =
     overlay levels (map_find bid_order side)"
  "side_wf ask_order side \<Longrightarrow> map_find ask_order (apply_levels ask_order levels side) =
     overlay levels (map_find ask_order side)"
  by (simp_all add: side_wf_def overlay_def bid_side.apply_levels_find ask_side.apply_levels_find)

lemma load_levels_overlay [book_simps]:
  "map_find bid_order (foldl (load_level bid_order) [] levels) =
     overlay (filter (\<lambda>l. \<not> is_zero (quantity l)) levels) Map.empty"
  "map_find ask_order (foldl (load_level ask_order) [] levels) =
     overlay (filter (\<lambda>l. \<not> is_zero (quantity l)) levels) Map.empty"
  unfolding bid_side.load_levels_apply ask_side.load_levels_apply
  by (simp_all add: apply_levels_overlay map_find_Nil)

lemma load_snapshot_agrees: "snapshot_ok server cov snap \<Longrightarrow> agrees server cov (load_snapshot snap)"
  by (simp add: agrees_def snapshot_ok_def load_snapshot_def book_simps)

lemma apply_event_agrees:
  assumes "book_wf b" "agrees server cov b" "event_ok server cov ev"
    and "prev_final_update_id ev \<le> last_update_id b" "last_update_id b \<le> final_update_id ev"
  shows "agrees server cov (apply_event ev b)"
  unfolding agrees_def
proof
  fix p assume "p \<in> cov"
  with assms(2)
  have "overlay levels (map_find bid_order (book_bids b)) p = overlay levels (fst (server (last_update_id b))) p"
    "overlay levels (map_find ask_order (book_asks b)) p = overlay levels (snd (server (last_update_id b))) p"
    for levels by (auto simp: agrees_def intro: overlay_cong)
  then
  show "map_find bid_order (book_bids (apply_event ev b)) p = fst (server (last_update_id (apply_event ev b))) p \<and>
    map_find ask_order (book_asks (apply_event ev b)) p = snd (server (last_update_id (apply_event ev b))) p"
    using assms \<open>p \<in> cov\<close> by (simp add: event_ok_def book_wf_def apply_event_def book_simps)
qed

text \<open>Events follow each other without a gap.\<close>

definition chain :: "depth_stream_event_t list \<Rightarrow> bool" where
  "chain buf \<longleftrightarrow> successively (\<lambda>a b. prev_final_update_id b = final_update_id a) buf"

lemma chain_simps [simp]:
  "chain []" "chain [ev]"
  "chain (a # b # buf) \<longleftrightarrow> prev_final_update_id b = final_update_id a \<and> chain (b # buf)"
  by (simp_all add: chain_def)

lemma chain_snoc: "chain (buf @ [ev]) \<longleftrightarrow>
    chain buf \<and> (buf \<noteq> [] \<longrightarrow> prev_final_update_id ev = final_update_id (last buf))"
  by (auto simp: chain_def successively_append_iff)

lemma chain_suffix: "chain (xs @ ys) \<Longrightarrow> chain ys"
  by (simp add: chain_def successively_append_iff)

lemma event_ok_mono: "event_ok server cov ev \<Longrightarrow> prev_final_update_id ev \<le> final_update_id ev"
  by (auto simp: event_ok_def)

lemma discard_old_dropWhile:
  assumes "chain buf" "\<forall>ev \<in> set buf. event_ok server cov ev"
  shows "discard_old sid buf = dropWhile (\<lambda>ev. final_update_id ev < sid) buf"
proof -
  have above: "chain (a # buf) \<Longrightarrow> \<forall>ev \<in> set (a # buf). event_ok server cov ev \<Longrightarrow> sid \<le> final_update_id a \<Longrightarrow>
      \<forall>ev \<in> set buf. sid \<le> final_update_id ev" for a and buf
  proof (induction buf arbitrary: a)
    case (Cons b buf)
    have "final_update_id a \<le> final_update_id b"
      using Cons.prems(1,2) event_ok_mono [of server cov b] by simp
    with Cons.prems(3) have "sid \<le> final_update_id b" by (rule order_trans)
    with Cons.IH [of b] Cons.prems show ?case by simp
  qed simp
  show ?thesis using assms
  proof (induction buf)
    case (Cons a buf)
    show ?case
    proof (cases "final_update_id a < sid")
      case True
      with Cons chain_suffix [of "[a]" buf] show ?thesis by (simp add: discard_old_def)
    next
      case False
      then have "\<forall>ev \<in> set buf. \<not> final_update_id ev < sid"
        using above [OF Cons.prems] by (simp add: linorder_not_less)
      with False show ?thesis by (simp add: discard_old_def filter_id_conv)
    qed
  qed (simp add: discard_old_def)
qed

lemma discard_old_chain:
  assumes "chain buf" "\<forall>ev \<in> set buf. event_ok server cov ev"
  shows "chain (discard_old sid buf)"
proof -
  have "chain (takeWhile P buf @ dropWhile P buf)" for P using assms(1) by simp
  then show ?thesis unfolding discard_old_dropWhile [OF assms] by (rule chain_suffix)
qed

text \<open>
  Applying the buffered events keeps the pair of book and last update consistent with the
  exchange, once the first event brackets the snapshot.
\<close>

definition tracks :: "server \<Rightarrow> decimal_t set \<Rightarrow> u64 \<Rightarrow> order_book_snapshot \<times> u64 \<Rightarrow> bool" where
  "tracks server cov sid s \<longleftrightarrow> book_wf (fst s) \<and> agrees server cov (fst s) \<and>
     last_update_id (fst s) = snd s \<and> sid \<le> snd s"

lemma apply_buffered_tracks:
  assumes "tracks server cov sid s" "event_ok server cov ev"
    and "prev_final_update_id ev \<le> snd s" "snd s \<le> final_update_id ev"
  shows "tracks server cov sid (apply_buffered sid s ev)" "snd (apply_buffered sid s ev) = final_update_id ev"
proof -
  show "snd (apply_buffered sid s ev) = final_update_id ev" by (simp add: apply_buffered_def)
  show "tracks server cov sid (apply_buffered sid s ev)"
  proof (cases "final_update_id ev \<le> sid")
    case True
    with assms have "final_update_id ev = snd s" by (auto simp: tracks_def)
    with True assms(1) show ?thesis by (simp add: apply_buffered_def tracks_def)
  next
    case False
    with assms show ?thesis
      by (auto simp: apply_buffered_def tracks_def apply_event_wf intro!: apply_event_agrees)
         (simp add: apply_event_def)
  qed
qed

lemma apply_buffer_tracks:
  assumes "tracks server cov sid s" "chain buf" "\<forall>ev \<in> set buf. event_ok server cov ev"
    and "buf \<noteq> [] \<Longrightarrow> prev_final_update_id (hd buf) \<le> snd s" "buf \<noteq> [] \<Longrightarrow> snd s \<le> final_update_id (hd buf)"
  shows "tracks server cov sid (foldl (apply_buffered sid) s buf)"
  using assms
proof (induction buf arbitrary: s)
  case (Cons ev buf)
  let ?s = "apply_buffered sid s ev"
  note step = apply_buffered_tracks [OF Cons.prems(1), of ev]
  have ok: "event_ok server cov ev" "prev_final_update_id ev \<le> snd s" "snd s \<le> final_update_id ev"
    using Cons.prems by simp_all
  have next_id: "prev_final_update_id (hd buf) = snd ?s \<and> snd ?s \<le> final_update_id (hd buf)" if ne: "buf \<noteq> []"
  proof -
    obtain b rest where "buf = b # rest" using ne by (cases buf) auto
    with Cons.prems(2,3) step(2) [OF ok] event_ok_mono [of server cov b] show ?thesis by simp
  qed
  have "chain buf" using chain_suffix [of "[ev]" buf] Cons.prems(2) by simp
  with Cons.IH [OF step(1) [OF ok]] Cons.prems(3) next_id show ?case by simp
qed simp

lemma install_tracks:
  assumes "snapshot_ok server cov snap" "chain buf" "\<forall>ev \<in> set buf. event_ok server cov ev"
    and "\<not> bracket_fails (lastUpdateId snap) buf"
  shows "tracks server cov (lastUpdateId snap)
    (foldl (apply_buffered (lastUpdateId snap)) (load_snapshot snap, lastUpdateId snap) buf)"
proof (rule apply_buffer_tracks [OF _ assms(2,3)])
  show "tracks server cov (lastUpdateId snap) (load_snapshot snap, lastUpdateId snap)"
    using assms(1) by (simp add: tracks_def load_snapshot_wf load_snapshot_agrees) (simp add: load_snapshot_def)
  assume "buf \<noteq> []"
  with assms(3,4) show "prev_final_update_id (hd buf) \<le> snd (load_snapshot snap, lastUpdateId snap)"
    "snd (load_snapshot snap, lastUpdateId snap) \<le> final_update_id (hd buf)"
    by (auto simp: bracket_fails_def event_ok_def neq_Nil_conv intro: order_trans)
qed

section \<open>Invariants of every loop that refines the abstract step\<close>

definition sync_wf :: "sync_state \<Rightarrow> bool" where
  "sync_wf st \<longleftrightarrow> book_wf (book st) \<and> list_all book_wf (published st)"

definition sync_ok :: "server \<Rightarrow> decimal_t set \<Rightarrow> sync_state \<Rightarrow> bool" where
  "sync_ok server cov st \<longleftrightarrow>
     sync_wf st \<and> chain (buffer st) \<and> (\<forall>ev \<in> set (buffer st). event_ok server cov ev) \<and>
     (synced st \<longrightarrow> buffer st = [] \<and> last_update_id (book st) = last_u st \<and> agrees server cov (book st)) \<and>
     (\<forall>b \<in> set (published st). agrees server cov b)"

text \<open>
  What is assumed of one turn: the event and, if it is fetched, the snapshot are the
  exchange's, and no event is lost while events are being buffered.
\<close>

definition input_ok ::
  "server \<Rightarrow> decimal_t set \<Rightarrow> sync_state \<Rightarrow> depth_stream_event_t \<Rightarrow> order_book_response_t result \<Rightarrow> bool" where
  "input_ok server cov st ev rest \<longleftrightarrow>
     event_ok server cov ev \<and>
     (is_ok rest \<longrightarrow> (case deref rest of Inl _ \<Rightarrow> True | Inr snap \<Rightarrow> snapshot_ok server cov snap)) \<and>
     (\<not> synced st \<and> buffer st \<noteq> [] \<longrightarrow> prev_final_update_id ev = final_update_id (last (buffer st)))"

lemma publish_simps [simp]:
  "book (publish st) = book st" "buffer (publish st) = buffer st" "synced (publish st) = synced st"
  "last_u (publish st) = last_u st" "events_until_snap (publish st) = events_until_snap st"
  "set (published (publish st)) = set (published st) \<union> (if on_snapshot st then {book st} else {})"
  by (simp_all add: publish_def)

lemma install_simps [simp]:
  "synced (install_snapshot snap buf st)" "buffer (install_snapshot snap buf st) = []"
  "events_until_snap (install_snapshot snap buf st) = events_until_snap st"
  by (simp_all add: install_snapshot_def split: prod.split)

lemma live_step_wf: "sync_wf st \<Longrightarrow> sync_wf (live_step ev st)"
  by (simp add: sync_wf_def live_step_def publish_def apply_event_wf)

lemma install_wf: "sync_wf st \<Longrightarrow> sync_wf (install_snapshot snap buf st)"
  using apply_buffered_wf [of "(load_snapshot snap, lastUpdateId snap)" "lastUpdateId snap" buf]
  by (auto simp: sync_wf_def install_snapshot_def publish_def load_snapshot_wf split: prod.split)

lemma sync_step_wf: "sync_step st ev rest st' \<Longrightarrow> sync_wf st \<Longrightarrow> sync_wf st'"
proof (induction rule: sync_step.induct)
  case (install st rest snap buf ev)
  then show ?case by (intro install_wf) (simp add: sync_wf_def)
qed (simp_all add: sync_wf_def [of "_\<lparr>buffer := _\<rparr>"] sync_wf_def live_step_wf [unfolded sync_wf_def])

lemma live_step_ok:
  assumes "sync_ok server cov st" "synced st" "event_ok server cov ev"
  shows "sync_ok server cov (live_step ev st)"
proof (cases "prev_final_update_id ev = last_u st")
  case True
  have "agrees server cov (apply_event ev (book st))"
    using assms True event_ok_mono [OF assms(3)]
    by (intro apply_event_agrees) (simp_all add: sync_ok_def sync_wf_def)
  moreover have "last_update_id (apply_event ev (book st)) = final_update_id ev" by (simp add: apply_event_def)
  ultimately show ?thesis
    using assms True live_step_wf [of st ev] by (auto simp: sync_ok_def live_step_def)
next
  case False
  with assms live_step_wf [of st ev] show ?thesis by (simp add: sync_ok_def live_step_def)
qed

lemma install_ok:
  assumes "sync_ok server cov st" "snapshot_ok server cov snap" "chain buf"
    and "\<forall>ev \<in> set buf. event_ok server cov ev" "\<not> bracket_fails (lastUpdateId snap) buf"
  shows "sync_ok server cov (install_snapshot snap buf st)"
proof -
  obtain b u where bu: "foldl (apply_buffered (lastUpdateId snap)) (load_snapshot snap, lastUpdateId snap) buf = (b, u)"
    by (cases "foldl (apply_buffered (lastUpdateId snap)) (load_snapshot snap, lastUpdateId snap) buf")
  have "agrees server cov b" "last_update_id b = u"
    using install_tracks [OF assms(2-5)] by (simp_all add: bu tracks_def)
  with assms(1) install_wf [of st snap buf] show ?thesis
    by (auto simp: sync_ok_def install_snapshot_def bu)
qed

lemma sync_step_ok:
  "sync_step st ev rest st' \<Longrightarrow> sync_ok server cov st \<Longrightarrow> input_ok server cov st ev rest \<Longrightarrow> sync_ok server cov st'"
proof (induction rule: sync_step.induct)
  case (live st ev rest)
  then show ?case by (intro live_step_ok) (simp_all add: input_ok_def)
next
  case (install st rest snap buf ev)
  have buf: "chain (buffer st @ [ev])" "\<forall>e \<in> set (buffer st @ [ev]). event_ok server cov e"
    using install by (auto simp: sync_ok_def input_ok_def chain_snoc)
  have "chain buf" unfolding install(4) by (rule discard_old_chain [OF buf])
  moreover have "\<forall>e \<in> set buf. event_ok server cov e" using buf(2) by (auto simp: install(4) discard_old_def)
  ultimately show ?case
    using install by (intro install_ok) (auto simp: sync_ok_def sync_wf_def input_ok_def)
next
  case (discard st ev rest w sid)
  have buf: "chain (buffer st @ [ev])" "\<forall>e \<in> set (buffer st @ [ev]). event_ok server cov e"
    using discard by (auto simp: sync_ok_def input_ok_def chain_snoc)
  from discard_old_chain [OF buf, of sid] buf(2) discard show ?case
    by (auto simp: sync_ok_def sync_wf_def discard_old_def)
qed (auto simp: sync_ok_def sync_wf_def input_ok_def chain_snoc)

text \<open>The assumption on a whole run, threaded through the loop's own states.\<close>

fun feed_ok ::
  "(order_book_response_t result \<Rightarrow> depth_stream_event_t \<Rightarrow> sync_state \<Rightarrow> sync_state may_throw) \<Rightarrow>
   server \<Rightarrow> decimal_t set \<Rightarrow> sync_state \<Rightarrow> loop_input list \<Rightarrow> bool" where
  "feed_ok step server cov st (Item ev_result rest # inputs) =
     (is_ok ev_result \<longrightarrow>
        (case deref ev_result of Inl _ \<Rightarrow> True
         | Inr ev \<Rightarrow> input_ok server cov st ev rest \<and>
             (case step rest ev st of Inl _ \<Rightarrow> True
              | Inr st' \<Rightarrow> feed_ok step server cov st' inputs)))"
| "feed_ok step server cov st inputs = True"

definition items_wf :: "loop_input list \<Rightarrow> bool" where
  "items_wf inputs \<longleftrightarrow>
     list_all (\<lambda>i. case i of Item ev rest \<Rightarrow> result_wf ev \<and> result_wf rest | _ \<Rightarrow> True) inputs"

text \<open>A result that counts as a success without a value, which the stream generators can yield.\<close>

definition hollow :: "'a result \<Rightarrow> bool" where
  "hollow r \<longleftrightarrow> is_ok r \<and> result_value r = None"

lemma deref_Inl: "deref r = Inl e \<longleftrightarrow> e = Undefined_behaviour \<and> result_value r = None"
  by (auto simp: deref_def split: option.split)

locale book_sync =
  fixes step :: "order_book_response_t result \<Rightarrow> depth_stream_event_t \<Rightarrow> sync_state \<Rightarrow> sync_state may_throw"
    and loop :: "sync_state \<Rightarrow> loop_input list \<Rightarrow> (error option \<times> sync_state) may_throw"
  assumes step_refines: "step rest ev st = Inr st' \<Longrightarrow> sync_step st ev rest st'"
    and step_total: "result_wf rest \<Longrightarrow> \<exists>st'. step rest ev st = Inr st'"
    and step_undefined: "step rest ev st = Inl e \<Longrightarrow> e = Undefined_behaviour \<and> hollow rest"
    and loop_wait: "loop st [] = Inr (None, st)"
    and loop_stop: "\<exists>e. loop st (Stopped # inputs) = Inr (Some e, st)"
    and loop_end: "\<exists>e. loop st (Ended # inputs) = Inr (Some e, st)"
    and loop_error: "\<not> is_ok item \<Longrightarrow> \<exists>e. loop st (Item item rest # inputs) = Inr (Some e, st)"
    and loop_event: "is_ok item \<Longrightarrow> loop st (Item item rest # inputs) =
       bind_exn (deref item) (\<lambda>event. bind_exn (step rest event st) (\<lambda>st. loop st inputs))"
begin

lemma loop_cases:
  assumes "loop st inputs = Inr (r, st')"
  obtains (stays) "st' = st"
  | (steps) ev event rest rest_inputs st1
    where "inputs = Item ev rest # rest_inputs" "is_ok ev" "deref ev = Inr event" "step rest event st = Inr st1"
      "loop st1 rest_inputs = Inr (r, st')"
proof (cases inputs)
  case Nil
  with assms stays show thesis by (simp add: loop_wait)
next
  case (Cons i tail)
  show thesis
  proof (cases i)
    case (Item ev rest)
    show thesis
    proof (cases "is_ok ev")
      case True
      with assms Cons Item steps show thesis by (auto simp: loop_event bind_exn_Inr_iff)
    next
      case False
      with assms Cons Item stays loop_error [OF False] show thesis by (metis Inr_inject prod.inject)
    qed
  qed (use assms Cons stays loop_stop loop_end in \<open>metis Inr_inject prod.inject\<close>)+
qed

lemma loop_invariant:
  assumes "\<And>rest ev st st'. step rest ev st = Inr st' \<Longrightarrow> P st \<Longrightarrow> P st'"
  shows "loop st inputs = Inr (r, st') \<Longrightarrow> P st \<Longrightarrow> P st'"
proof (induction inputs arbitrary: st)
  case Nil
  then show ?case by (simp add: loop_wait)
next
  case (Cons i inputs)
  from Cons.prems(1) show ?case
  proof (cases rule: loop_cases)
    case stays
    with Cons.prems show ?thesis by simp
  next
    case steps
    with assms Cons show ?thesis by blast
  qed
qed

lemma loop_wf: "loop st inputs = Inr (r, st') \<Longrightarrow> sync_wf st \<Longrightarrow> sync_wf st'"
  by (rule loop_invariant) (auto dest: step_refines sync_step_wf)

lemma loop_ok:
  "loop st inputs = Inr (r, st') \<Longrightarrow> feed_ok step server cov st inputs \<Longrightarrow> sync_ok server cov st \<Longrightarrow>
     sync_ok server cov st'"
proof (induction inputs arbitrary: st)
  case Nil
  then show ?case by (simp add: loop_wait)
next
  case (Cons i inputs)
  from Cons.prems(1) show ?case
  proof (cases rule: loop_cases)
    case stays
    with Cons.prems show ?thesis by simp
  next
    case (steps ev event rest rest_inputs st1)
    with Cons.prems(2) have "input_ok server cov st event rest" "feed_ok step server cov st1 inputs" by auto
    with steps Cons.IH [of st1] Cons.prems(3) sync_step_ok [OF step_refines] show ?thesis by blast
  qed
qed

lemma loop_defined: "items_wf inputs \<Longrightarrow> \<exists>r st'. loop st inputs = Inr (r, st')"
proof (induction inputs arbitrary: st)
  case Nil
  then show ?case by (simp add: loop_wait)
next
  case (Cons i inputs)
  show ?case
  proof (cases i)
    case (Item ev rest)
    with Cons.prems have wf: "result_wf ev" "result_wf rest" "items_wf inputs" by (simp_all add: items_wf_def)
    from wf(1) show ?thesis
    proof (cases rule: result_wf_cases)
      case (ok event)
      obtain st1 where "step rest event st = Inr st1" using step_total [OF wf(2)] by blast
      with ok Item Cons.IH [OF wf(3), of st1] show ?thesis by (simp add: loop_event)
    qed (use Item loop_error in blast)
  qed (use loop_stop loop_end in blast)+
qed

lemma loop_undefined:
  "loop st inputs = Inl e \<Longrightarrow> e = Undefined_behaviour \<and> (\<exists>ev rest. Item ev rest \<in> set inputs \<and> (hollow ev \<or> hollow rest))"
proof (induction inputs arbitrary: st)
  case Nil
  then show ?case by (simp add: loop_wait)
next
  case (Cons i inputs)
  show ?case
  proof (cases i)
    case Stopped
    then show ?thesis using Cons.prems loop_stop [of st inputs] by auto
  next
    case Ended
    then show ?thesis using Cons.prems loop_end [of st inputs] by auto
  next
    case (Item ev rest)
    show ?thesis
    proof (cases "is_ok ev")
      case False
      then show ?thesis using Cons.prems Item loop_error [of ev st rest inputs] by auto
    next
      case True
      show ?thesis
      proof (cases "deref ev")
        case (Inl e')
        have "loop st (i # inputs) = Inl e'" by (simp add: Item loop_event True Inl)
        then have "e = Undefined_behaviour" "hollow ev"
          using Cons.prems True Inl by (simp_all add: deref_Inl hollow_def)
        then show ?thesis using Item by auto
      next
        case (Inr event)
        then show ?thesis
          using Cons.prems Item True Cons.IH step_undefined [of rest event st]
          by (cases "step rest event st") (fastforce simp: loop_event)+
      qed
    qed
  qed
qed

end

lemma local_step_total: "result_wf rest \<Longrightarrow> \<exists>st'. local_step rest ev st = Inr st'"
  by (cases rule: result_wf_cases [of rest]) (auto simp: local_step_def Let_def)

lemma pipeline_step_total: "result_wf rest \<Longrightarrow> \<exists>st'. pipeline_step rest ev st = Inr st'"
  by (cases rule: result_wf_cases [of rest]) (auto simp: pipeline_step_def Let_def)

lemma local_step_undefined: "local_step rest ev st = Inl e \<Longrightarrow> e = Undefined_behaviour \<and> hollow rest"
  by (cases "result_value rest") (auto simp: local_step_def Let_def hollow_def deref_def split: if_splits)

lemma pipeline_step_undefined: "pipeline_step rest ev st = Inl e \<Longrightarrow> e = Undefined_behaviour \<and> hollow rest"
  by (cases "result_value rest") (auto simp: pipeline_step_def Let_def hollow_def deref_def split: if_splits)

interpretation lb: book_sync local_step local_loop
  by unfold_locales (auto simp: sync_step_local local_step_total local_step_undefined)

interpretation pb: book_sync pipeline_step pipeline_loop
  by unfold_locales (auto simp: sync_step_pipeline pipeline_step_total pipeline_step_undefined)

section \<open>Properties\<close>

lemma start_sync_ok: "book_wf b \<Longrightarrow> sync_ok server cov (start_sync callback b)"
  by (simp add: sync_ok_def sync_wf_def start_sync_def)

lemma start_sync_wf: "book_wf b \<Longrightarrow> sync_wf (start_sync callback b)"
  by (simp add: sync_wf_def start_sync_def)

text \<open>A small exchange for the concrete runs: one bid level that changes at update 12.\<close>

definition sample_level :: "int \<Rightarrow> int \<Rightarrow> price_level_t" where
  "sample_level p q = \<lparr>price = Decimal_t p, quantity = Decimal_t q\<rparr>"

definition sample_event :: "u64 \<Rightarrow> u64 \<Rightarrow> u64 \<Rightarrow> price_level_t list \<Rightarrow> depth_stream_event_t" where
  "sample_event pu f u levels =
     \<lparr>event_time = Timestamp_ms 0, transaction_time = Timestamp_ms 0, event_symbol = symbol_of ''btcusdt'',
      first_update_id = f, final_update_id = u, prev_final_update_id = pu,
      event_bids = levels, event_asks = []\<rparr>"

definition sample_response :: "u64 \<Rightarrow> price_level_t list \<Rightarrow> order_book_response_t result" where
  "sample_response i levels =
     success \<lparr>lastUpdateId = i, response_output_time = Timestamp_ms 0,
              response_transaction_time = Timestamp_ms 0, response_bids = levels, response_asks = []\<rparr>"

definition sample_server :: server where
  "sample_server j = ([Decimal_t 100 \<mapsto> Decimal_t (if j < 12 then 5 else 7)], Map.empty)"

definition sample_inputs :: "loop_input list" where
  "sample_inputs =
     [Item (success (sample_event 9 10 11 [sample_level 100 5])) (sample_response 10 [sample_level 100 5]),
      Item (success (sample_event 11 12 13 [sample_level 100 7, sample_level 99 0]))
        (failure (mk_error Ec_transport 0 0 [] []))]"

lemmas sample_defs = sample_level_def sample_event_def sample_response_def sample_inputs_def start_sync_def

lemma sample_event_ok:
  "event_ok sample_server UNIV (sample_event 9 10 11 [sample_level 100 5])"
  "event_ok sample_server UNIV (sample_event 11 12 13 [sample_level 100 7, sample_level 99 0])"
proof -
  have "j \<le> 11 \<Longrightarrow> j < 12" for j :: u64 by (erule le_less_trans) simp
  then show "event_ok sample_server UNIV (sample_event 9 10 11 [sample_level 100 5])"
    by (auto simp: event_ok_def sample_defs sample_server_def overlay_def level_change_def is_zero_def fun_eq_iff)
  show "event_ok sample_server UNIV (sample_event 11 12 13 [sample_level 100 7, sample_level 99 0])"
    by (auto simp: event_ok_def sample_defs sample_server_def overlay_def level_change_def is_zero_def fun_eq_iff)
qed

lemma sample_snapshot_ok:
  "snapshot_ok sample_server UNIV \<lparr>lastUpdateId = 10, response_output_time = Timestamp_ms 0,
     response_transaction_time = Timestamp_ms 0, response_bids = [sample_level 100 5], response_asks = []\<rparr>"
  by (auto simp: snapshot_ok_def sample_defs sample_server_def overlay_def level_change_def is_zero_def fun_eq_iff)

text \<open>
  C1: on a feed whose events and snapshots are the exchange's, and that loses no event while
  the loop is buffering, the local order book is right: whenever it is synchronised its last update
  id is the one of the last event and the book shows exactly the exchange's quantities at that
  update on every covered price, and every snapshot handed to the callback is well-formed and
  shows the exchange's book at the snapshot's own update id. Gaps in the live phase are allowed.
\<close>

theorem local_book_tracks_server:
  assumes "book_wf b" "feed_ok local_step server cov (start_sync callback b) inputs"
    and "local_async_run callback b inputs = Inr (r, st)"
  shows "(synced st \<longrightarrow> last_update_id (book st) = last_u st \<and> agrees server cov (book st)) \<and>
    (\<forall>s \<in> set (published st). book_wf s \<and> agrees server cov s)"
  using lb.loop_ok [OF assms(3) [unfolded local_async_run_def] assms(2) start_sync_ok [OF assms(1)]]
  by (auto simp: sync_ok_def sync_wf_def list_all_iff)

lemma sample_feed_ok: "feed_ok local_step sample_server UNIV (start_sync True empty_book) sample_inputs"
  unfolding sample_inputs_def sample_response_def
  by (simp add: input_ok_def sample_event_ok sample_snapshot_ok start_sync_def local_step_def Let_def
      discard_old_def bracket_fails_def) (simp add: sample_event_def)

theorem local_book_tracks_server_witness:
  "\<exists>r st. local_async_run True empty_book sample_inputs = Inr (r, st) \<and> synced st \<and> last_u st = 13 \<and>
     length (published st) = 2 \<and> agrees sample_server UNIV (book st)"
proof -
  obtain r st where st: "local_async_run True empty_book sample_inputs = Inr (r, st)"
    "synced st" "last_u st = 13" "length (published st) = 2"
    by (simp add: local_async_run_def sample_defs local_step_def Let_def discard_old_def bracket_fails_def
        install_snapshot_def apply_buffered_def publish_def live_step_def)
  with local_book_tracks_server [OF empty_book_wf sample_feed_ok st(1)] show ?thesis by blast
qed

text \<open>
  C13: the logic stage of the pipelined order book keeps the same promise on the same
  assumptions: a synchronised book and every published snapshot show the exchange's book.
\<close>

theorem pipeline_book_tracks_server:
  assumes "book_wf b" "feed_ok pipeline_step server cov (start_sync callback b) inputs"
    and "pipeline_async_run callback b inputs = Inr (r, st)"
  shows "(synced st \<longrightarrow> last_update_id (book st) = last_u st \<and> agrees server cov (book st)) \<and>
    (\<forall>s \<in> set (published st). book_wf s \<and> agrees server cov s)"
  using pb.loop_ok [OF assms(3) [unfolded pipeline_async_run_def] assms(2) start_sync_ok [OF assms(1)]]
  by (auto simp: sync_ok_def sync_wf_def list_all_iff)

lemma sample_pipeline_feed_ok: "feed_ok pipeline_step sample_server UNIV (start_sync True empty_book) sample_inputs"
  unfolding sample_inputs_def sample_response_def
  by (simp add: input_ok_def sample_event_ok sample_snapshot_ok start_sync_def pipeline_step_def Let_def
      discard_old_def bracket_fails_def)

theorem pipeline_book_tracks_server_witness:
  "\<exists>r st. pipeline_async_run True empty_book sample_inputs = Inr (r, st) \<and> synced st \<and> last_u st = 13 \<and>
     length (published st) = 2 \<and> agrees sample_server UNIV (book st)"
proof -
  obtain r st where st: "pipeline_async_run True empty_book sample_inputs = Inr (r, st)"
    "synced st" "last_u st = 13" "length (published st) = 2"
    by (simp add: pipeline_async_run_def sample_defs pipeline_step_def Let_def discard_old_def bracket_fails_def
        install_snapshot_def apply_buffered_def publish_def live_step_def)
  with pipeline_book_tracks_server [OF empty_book_wf sample_pipeline_feed_ok st(1)] show ?thesis by blast
qed

text \<open>
  C27: Whatever the feed and the REST service deliver, both loops, started on a book in order, such as the empty one of a
  new object, leave a book in order, and every published snapshot is: strictly descending bids, strictly ascending asks
  and no level of zero quantity. The one exception is a result that counts as a success without holding a value: if one of
  the items or replies is such a hollow success, and only then, a loop may dereference it, which is undefined.
\<close>

theorem books_always_well_formed:
  assumes "book_wf b"
  shows "(case local_async_run callback b inputs of
       Inr (r, st) \<Rightarrow> book_wf (book st) \<and> list_all book_wf (published st)
     | Inl e \<Rightarrow> e = Undefined_behaviour \<and> (\<exists>ev rest. Item ev rest \<in> set inputs \<and> (hollow ev \<or> hollow rest))) \<and>
    (case pipeline_async_run callback b inputs of
       Inr (r, st) \<Rightarrow> book_wf (book st) \<and> list_all book_wf (published st)
     | Inl e \<Rightarrow> e = Undefined_behaviour \<and> (\<exists>ev rest. Item ev rest \<in> set inputs \<and> (hollow ev \<or> hollow rest)))"
  unfolding local_async_run_def pipeline_async_run_def
  using lb.loop_undefined [of "start_sync callback b" inputs] lb.loop_wf [OF _ start_sync_wf [OF assms]]
    pb.loop_undefined [of "start_sync callback b" inputs] pb.loop_wf [OF _ start_sync_wf [OF assms]]
  unfolding sync_wf_def by (intro conjI) (auto split: sum.split prod.split)

theorem books_always_well_formed_witness:
  "\<exists>r st. local_async_run True empty_book sample_inputs = Inr (r, st) \<and> book_wf (book st)"
  using books_always_well_formed [OF empty_book_wf, where callback = True and inputs = sample_inputs]
    lb.loop_defined [of sample_inputs "start_sync True empty_book"]
  by (auto simp: items_wf_def sample_inputs_def sample_response_def local_async_run_def)

lemma wait_le_2: "local_step rest ev st = Inr st' \<Longrightarrow> events_until_snap st \<le> 2 \<Longrightarrow> events_until_snap st' \<le> 2"
  by (auto simp: local_step_def Let_def next_wait_def max_wait_def live_step_def bind_exn_Inr_iff split: if_splits)

lemma foldl_apply_buffered_last:
  "buf \<noteq> [] \<Longrightarrow> snd (foldl (apply_buffered sid) s buf) = final_update_id (last buf)"
  by (induction buf arbitrary: s rule: rev_induct) (simp_all add: apply_buffered_def)

lemma install_last_u: "buf \<noteq> [] \<Longrightarrow> last_u (install_snapshot snap buf st) = final_update_id (last buf)"
  using foldl_apply_buffered_last [of buf "lastUpdateId snap" "(load_snapshot snap, lastUpdateId snap)"]
  by (auto simp: install_snapshot_def split: prod.split)

lemma local_loop_waits:
  assumes "\<not> synced st" "length waiting = events_until_snap st"
  shows "local_loop st (map (\<lambda>(ev, rest). Item (success ev) rest) waiting @ inputs) =
    local_loop (st\<lparr>buffer := buffer st @ map fst waiting, events_until_snap := 0\<rparr>) inputs"
  using assms
proof (induction waiting arbitrary: st)
  case (Cons w waiting)
  then show ?case by (cases w) (simp add: local_step_def Let_def)
next
  case Nil
  then have "st\<lparr>events_until_snap := 0\<rparr> = st" by (cases st) simp
  then show ?case by simp
qed

text \<open>
  The wait of the local loop never grows: in every reachable state at most two more events are
  awaited before the next fetch, and after that many events a snapshot that brackets the first
  buffered event synchronises the book up to the last buffered event.
\<close>

lemma local_resync_within_three_events:
  assumes "local_async_run callback b inputs = Inr (None, st)" "\<not> synced st"
    and "length waiting = events_until_snap st"
    and "buf = discard_old (lastUpdateId snap) (buffer st @ map fst waiting @ [ev])"
    and "\<not> bracket_fails (lastUpdateId snap) buf"
  shows "events_until_snap st \<le> 2 \<and>
    (\<exists>st'. local_loop st (map (\<lambda>(ev, rest). Item (success ev) rest) waiting @ [Item (success ev) (success snap)]) =
             Inr (None, st') \<and> synced st' \<and> last_u st' = final_update_id (last buf))"
proof
  show "events_until_snap st \<le> 2"
    using lb.loop_invariant [where P = "\<lambda>st. events_until_snap st \<le> 2", OF wait_le_2
        assms(1) [unfolded local_async_run_def]]
    by (simp add: start_sync_def)
  have "buf \<noteq> []" using assms(5) by (auto simp: bracket_fails_def)
  with assms show "\<exists>st'. local_loop st (map (\<lambda>(ev, rest). Item (success ev) rest) waiting @
      [Item (success ev) (success snap)]) = Inr (None, st') \<and> synced st' \<and> last_u st' = final_update_id (last buf)"
    by (simp add: local_loop_waits local_step_def Let_def install_last_u)
qed

lemma pipeline_step_stuck:
  "\<not> synced st \<Longrightarrow> buffer st \<noteq> [] \<Longrightarrow> pipeline_step rest ev st = Inr (st\<lparr>buffer := buffer st @ [ev]\<rparr>)"
  by (simp add: pipeline_step_def)

lemma pipeline_loop_stuck:
  "\<not> synced st \<Longrightarrow> buffer st \<noteq> [] \<Longrightarrow> pipeline_loop st inputs = Inr (r, st') \<Longrightarrow>
     \<not> synced st' \<and> book st' = book st \<and> published st' = published st"
proof (induction inputs arbitrary: st)
  case (Cons i inputs)
  from Cons.prems(3) show ?case
  proof (cases rule: pb.loop_cases)
    case (steps ev event rest rest_inputs st1)
    then have "st1 = st\<lparr>buffer := buffer st @ [event]\<rparr>"
      using pipeline_step_stuck [of st rest event] Cons.prems(1,2) by simp
    with steps Cons.IH [of st1] Cons.prems(1) show ?thesis by simp
  qed (use Cons.prems in simp)
qed simp

text \<open>
  C28: the logic stage of the pipelined order book fetches a snapshot only when its buffer
  holds exactly one event, so once an event was buffered without being consumed (the REST
  call failed, or a gap put the loop back into the buffering phase) it never synchronises
  again, whatever events and REST answers follow, and the book stays frozen.
\<close>

theorem pipeline_never_recovers:
  assumes "pipeline_step rest ev st = Inr st1"
    and "(\<not> synced st \<and> \<not> is_ok rest) \<or> (synced st \<and> prev_final_update_id ev \<noteq> last_u st)"
    and "pipeline_loop st1 inputs = Inr (r, st2)"
  shows "\<not> synced st2 \<and> book st2 = book st \<and> published st2 = published st"
proof -
  have "\<not> synced st1" "buffer st1 \<noteq> []" "book st1 = book st" "published st1 = published st"
    using assms(1,2) by (auto simp: pipeline_step_def live_step_def Let_def split: if_splits)
  with pipeline_loop_stuck [OF _ _ assms(3)] show ?thesis by simp
qed

theorem pipeline_never_recovers_witness:
  "\<exists>st1 r st2. pipeline_step (failure (mk_error Ec_transport 0 0 [] [])) (sample_event 8 9 9 [])
        (start_sync True empty_book) = Inr st1 \<and>
     pipeline_loop st1 sample_inputs = Inr (r, st2) \<and> \<not> synced st2"
proof -
  obtain st1 where st1: "pipeline_step (failure (mk_error Ec_transport 0 0 [] [])) (sample_event 8 9 9 [])
      (start_sync True empty_book) = Inr st1"
    by (simp add: pipeline_step_def start_sync_def)
  moreover obtain r st2 where "pipeline_loop st1 sample_inputs = Inr (r, st2)"
    using pb.loop_defined [of sample_inputs st1] by (auto simp: items_wf_def sample_inputs_def sample_response_def)
  ultimately show ?thesis using pipeline_never_recovers [OF st1] by (fastforce simp: start_sync_def)
qed

text \<open>While the local loop stays synchronised the two loops take the same steps.\<close>

definition in_step :: "sync_state \<Rightarrow> bool" where
  "in_step st \<longleftrightarrow> synced st \<or> buffer st = [] \<and> events_until_snap st = 0"

lemma steps_agree:
  assumes "in_step st" "local_step rest ev st = Inr st'" "synced st'"
  shows "pipeline_step rest ev st = Inr st'"
proof (cases "synced st")
  case True
  with assms(2) show ?thesis by (simp add: local_step_def pipeline_step_def)
next
  case False
  with assms show ?thesis
    by (cases "deref rest") (auto simp: in_step_def local_step_def pipeline_step_def Let_def split: if_splits)
qed

lemma loops_agree:
  assumes "in_step st" "\<And>k. k < length inputs \<Longrightarrow> \<exists>st'. local_loop st (take (Suc k) inputs) = Inr (None, st') \<and> synced st'"
  shows "pipeline_loop st inputs = local_loop st inputs"
  using assms
proof (induction inputs arbitrary: st)
  case (Cons i inputs)
  from Cons.prems(2) [of 0] obtain st1 where "local_loop st [i] = Inr (None, st1)" "synced st1" by auto
  then obtain ev_result rest event where i: "i = Item ev_result rest" "is_ok ev_result" "deref ev_result = Inr event"
      and step: "local_step rest event st = Inr st1" "synced st1"
    by (cases i) (auto simp: bind_exn_Inr_iff split: if_splits)
  have "pipeline_loop st1 inputs = local_loop st1 inputs"
  proof (rule Cons.IH)
    show "in_step st1" using step(2) by (simp add: in_step_def)
    show "\<exists>st'. local_loop st1 (take (Suc k) inputs) = Inr (None, st') \<and> synced st'" if "k < length inputs" for k
      using Cons.prems(2) [of "Suc k"] that i step(1) by simp
  qed
  with steps_agree [OF Cons.prems(1) step] i step(1) show ?case by simp
qed simp

text \<open>
  C14: the pipelined order book does exactly what the local one does for as long as the local one is
  synchronised: if the first snapshot brackets the first event and no event is missed afterwards, both
  runs end in the same state, with the same book and the same published snapshots.
\<close>

theorem books_agree_while_synced:
  assumes "\<And>k. k < length inputs \<Longrightarrow>
    \<exists>st. local_async_run callback b (take (Suc k) inputs) = Inr (None, st) \<and> synced st"
  shows "pipeline_async_run callback b inputs = local_async_run callback b inputs"
  using assms unfolding pipeline_async_run_def local_async_run_def
  by (intro loops_agree) (simp_all add: in_step_def start_sync_def)

theorem books_agree_while_synced_witness:
  "pipeline_async_run True empty_book sample_inputs = local_async_run True empty_book sample_inputs"
proof (rule books_agree_while_synced)
  fix k assume "k < length sample_inputs"
  then consider "k = 0" | "k = 1" by (auto simp: sample_inputs_def less_Suc_eq)
  then show "\<exists>st. local_async_run True empty_book (take (Suc k) sample_inputs) = Inr (None, st) \<and> synced st"
    by cases (simp_all add: local_async_run_def sample_defs local_step_def Let_def discard_old_def bracket_fails_def
        install_snapshot_def apply_buffered_def publish_def live_step_def)
qed

text \<open>An input that delivers an event and, when REST answers, a snapshot of the exchange.\<close>

definition genuine :: "server \<Rightarrow> decimal_t set \<Rightarrow> loop_input \<Rightarrow> bool" where
  "genuine server cov i =
     (case i of Item ev rest \<Rightarrow>
        (\<exists>e. ev = success e \<and> event_ok server cov e) \<and>
        (\<forall>snap. deref rest = Inr snap \<longrightarrow> snapshot_ok server cov snap)
      | _ \<Rightarrow> False)"

text \<open>
  C29: the local loop checks continuity only between live events, not inside the buffer: there is a
  feed of the exchange's own events and snapshots with one event lost while the loop waits
  to retry, after which the book reports itself synchronised and publishes a wrong quantity.
\<close>

theorem buffer_gap_undetected:
  "\<exists>inputs st. local_async_run True empty_book inputs = Inr (None, st) \<and>
     list_all (genuine sample_server UNIV) inputs \<and>
     synced st \<and> \<not> agrees sample_server UNIV (book st)"
proof -
  let ?fail = "failure (mk_error Ec_transport 0 0 [] []) :: order_book_response_t result"
  let ?e1 = "sample_event 9 10 11 [sample_level 100 5]"
  let ?e3 = "sample_event 13 14 15 []" and ?e4 = "sample_event 15 16 17 []"
  let ?inputs = "[Item (success ?e1) ?fail, Item (success ?e3) ?fail, Item (success ?e4) ?fail,
    Item (success (sample_event 17 18 19 [])) (sample_response 10 [sample_level 100 5])]"
  have late: "event_ok sample_server UNIV (sample_event a b c [])" if "12 \<le> a" "a \<le> b" "b \<le> c" for a b c
    using that by (auto simp: event_ok_def sample_server_def sample_event_def overlay_def)
  obtain st where st: "local_async_run True empty_book ?inputs = Inr (None, st)" "synced st" "last_update_id (book st) = 19"
    "map_find bid_order (book_bids (book st)) (Decimal_t 100) = Some (Decimal_t 5)"
    by (simp add: local_async_run_def sample_defs local_step_def Let_def discard_old_def bracket_fails_def next_wait_def
        max_wait_def install_snapshot_def apply_buffered_def publish_def live_step_def load_snapshot_def load_level_def
        apply_event_def apply_levels_def apply_level_def is_zero_def)
  then have "\<not> agrees sample_server UNIV (book st)"
    by (auto simp: agrees_def sample_server_def intro!: exI [of _ "Decimal_t 100"])
  with st(1,2) show ?thesis
    by (intro exI [of _ ?inputs] exI [of _ st])
      (auto simp: genuine_def sample_event_ok sample_snapshot_ok sample_response_def late)
qed

end
