(* ===== verification/Decimal_Text.thy ===== *)
theory Decimal_Text
  imports Decimal
begin

text \<open>
  Text of decimals: \<^verbatim>\<open>parse_decimal_t\<close>, \<^verbatim>\<open>decimal_t::to_string\<close> and the
  scientific notation of error and overflow values, all from \<^verbatim>\<open>decimal.cpp\<close>. The
  position in the input is the remaining suffix; the fractional digit counter is the
  8-bit counter of the source; signed accumulators are range-checked.
\<close>

section \<open>Parsing\<close>

definition quoted :: "string \<Rightarrow> string \<Rightarrow> string" where
  "quoted msg s = msg @ CHR 0x27 # s @ [CHR 0x27]"

definition invalid_character :: "string \<Rightarrow> cpp_exn" where
  "invalid_character s = Invalid_argument (quoted ''decimal: invalid character in '' s)"

definition integer_too_large :: "string \<Rightarrow> cpp_exn" where
  "integer_too_large s = Overflow_error (quoted ''decimal: integer part too large in '' s)"

definition too_many_fraction_digits :: "string \<Rightarrow> cpp_exn" where
  "too_many_fraction_digits s = Invalid_argument (quoted ''decimal: more than 18 fractional digits in '' s)"

definition max_integer_digits :: nat where
  "max_integer_digits = 20"

fun parse_integer :: "string \<Rightarrow> string \<Rightarrow> int \<Rightarrow> nat \<Rightarrow> (int \<times> string) may_throw" where
  "parse_integer s [] integer_part integer_digits = Inr (integer_part, [])"
| "parse_integer s (c # cs) integer_part integer_digits =
     (if c = CHR ''.'' then Inr (integer_part, c # cs)
      else if \<not> is_digit c then Inl (invalid_character s)
      else bind_exn (i128 (integer_part * 10 + int (digit_val c))) (\<lambda>v.
        if integer_digits + 1 > max_integer_digits then Inl (integer_too_large s)
        else parse_integer s cs v (integer_digits + 1)))"

fun parse_fraction :: "string \<Rightarrow> string \<Rightarrow> int \<Rightarrow> u8 \<Rightarrow> (int \<times> u8) may_throw" where
  "parse_fraction s [] frac_part frac_digits = Inr (frac_part, frac_digits)"
| "parse_fraction s (c # cs) frac_part frac_digits =
     (if \<not> is_digit c then Inl (invalid_character s)
      else bind_exn (i128 (frac_part * 10 + int (digit_val c))) (\<lambda>v.
        parse_fraction s cs v (frac_digits + 1)))"

definition scale_parts :: "string \<Rightarrow> int \<Rightarrow> int \<Rightarrow> u8 \<Rightarrow> int may_throw" where
  "scale_parts s integer_part frac_part frac_digits =
     (if int (unat frac_digits) > scale then Inl (too_many_fraction_digits s)
      else
        bind_exn (i128 (integer_part * scale_factor)) (\<lambda>result.
        bind_exn (scale_up (nat (scale - int (unat frac_digits))) 1) (\<lambda>frac_scale.
        bind_exn (i128 (frac_part * frac_scale)) (\<lambda>frac.
        bind_exn (i128 (result + frac)) (\<lambda>result.
        if integer_part \<noteq> 0 \<and> cpp_div result scale_factor \<noteq> integer_part
        then Inl (Overflow_error (quoted ''decimal: value too large in '' s))
        else Inr result)))))"

definition parse_decimal_t :: "string \<Rightarrow> int may_throw" where
  "parse_decimal_t s =
     (if s = [] then Inr 0
      else
        let negative = (hd s = CHR ''-'');
            rest = (if hd s = CHR ''-'' \<or> hd s = CHR ''+'' then tl s else s)
        in bind_exn (parse_integer s rest 0 0) (\<lambda>(integer_part, rest).
           bind_exn (case rest of c # cs \<Rightarrow> parse_fraction s cs 0 0 | [] \<Rightarrow> Inr (0, 0))
             (\<lambda>(frac_part, frac_digits).
           bind_exn (scale_parts s integer_part frac_part frac_digits) (\<lambda>result.
           if negative then i128 (- result) else Inr result))))"

definition decimal_of_string :: "string \<Rightarrow> decimal_t may_throw" where
  "decimal_of_string s = bind_exn (parse_decimal_t s) (\<lambda>v. Inr (Decimal_t v))"

section \<open>Printing\<close>

text \<open>The loop that pushes the digits of the integer part, least significant first.\<close>

fun rev_digits :: "nat \<Rightarrow> string" where
  "rev_digits n = (if n > 0 then digit_char (n mod 10) # rev_digits (n div 10) else [])"

declare rev_digits.simps [simp del]

text \<open>The loop that fills the fraction buffer from its end.\<close>

fun fill_frac :: "nat \<Rightarrow> nat \<Rightarrow> string \<Rightarrow> string" where
  "fill_frac 0 frac_part buf = buf"
| "fill_frac (Suc i) frac_part buf =
     (if frac_part > 0 then fill_frac i (frac_part div 10) (buf[i := digit_char (frac_part mod 10)])
      else buf)"

definition trim_zeros :: "string \<Rightarrow> string" where
  "trim_zeros s = rev (dropWhile (\<lambda>c. c = CHR ''0'') (rev s))"

definition to_string :: "decimal_t \<Rightarrow> string may_throw" where
  "to_string d =
     (if raw_value d = 0 then Inr ''0.0''
      else bind_exn (i128 (if raw_value d < 0 then - raw_value d else raw_value d)) (\<lambda>abs_val.
        let int_part = nat (abs_val div scale_factor);
            frac_part = nat (abs_val mod scale_factor);
            sign = (if raw_value d < 0 then ''-'' else []);
            int_str = (if int_part = 0 then ''0'' else rev (rev_digits int_part))
        in if frac_part = 0 then Inr (sign @ int_str @ ''.0'')
           else
             let frac_str = fill_frac (nat scale) frac_part (replicate (nat scale) (CHR ''0''));
                 frac_str = (if list_all (\<lambda>c. c = CHR ''0'') frac_str then frac_str
                             else trim_zeros frac_str)
             in Inr (sign @ int_str @ ''.'' @ frac_str)))"

definition int128_to_scientific :: "int \<Rightarrow> string" where
  "int128_to_scientific v =
     (if v = 0 then ''0.0e+0''
      else
        let digits = rev_digits (unat (to_unsigned v));
            n = length digits;
            sign = (if v < 0 then ''-'' else []);
            result = sign @ [digits ! (n - 1)] @ ''.'';
            result = (if n > 1 then
                        let long = result @ rev (take (n - 1) digits);
                            kept = length (trim_zeros long)
                        in if long ! (kept - 1) = CHR ''.'' then take (kept + 1) long
                           else take kept long
                      else result @ ''0'')
        in result @ ''e+'' @ dec_digits (n - 1))"

section \<open>What the parser computes\<close>

lemma parse_integer_digits:
  assumes "list_all is_digit ds" "rest = [] \<or> hd rest = CHR ''.''"
    and "n + length ds \<le> 20" "acc < 10 ^ n"
  shows "parse_integer s (ds @ rest) (int acc) n = Inr (int (acc * 10 ^ length ds + digits_val ds), rest)"
  using assms
proof (induction ds arbitrary: acc n)
  case Nil
  then show ?case by (cases rest) auto
next
  case (Cons c ds)
  define acc' where "acc' = acc * 10 + digit_val c"
  have c: "is_digit c" "c \<noteq> CHR ''.''" using Cons.prems(1) by (auto simp: is_digit_def)
  have acc': "acc' < 10 ^ Suc n"
    using Cons.prems(4) digit_val_less [OF c(1)] by (simp add: acc'_def)
  also have "(10::nat) ^ Suc n \<le> 10 ^ 20" using Cons.prems(3) by (intro power_increasing) simp_all
  finally have "i128_ok (int acc')" by (simp add: i128_ok_def)
  moreover have "parse_integer s (ds @ rest) (int acc') (Suc n) =
      Inr (int (acc' * 10 ^ length ds + digits_val ds), rest)"
    using Cons.prems acc' by (intro Cons.IH) auto
  ultimately show ?case
    using c Cons.prems(3) by (simp add: max_integer_digits_def acc'_def digits_val_Cons algebra_simps)
qed

lemma parse_integer_too_long:
  assumes "list_all is_digit ds" "n + length ds > 20" "n \<le> 20" "acc < 10 ^ n"
  shows "parse_integer s (ds @ rest) (int acc) n = Inl (integer_too_large s)"
  using assms
proof (induction ds arbitrary: acc n)
  case (Cons c ds)
  define acc' where "acc' = acc * 10 + digit_val c"
  have c: "is_digit c" "c \<noteq> CHR ''.''" using Cons.prems(1) by (auto simp: is_digit_def)
  have acc': "acc' < 10 ^ Suc n"
    using Cons.prems(4) digit_val_less [OF c(1)] by (simp add: acc'_def)
  also have "(10::nat) ^ Suc n \<le> 10 ^ 21" using Cons.prems(3) by (intro power_increasing) simp_all
  finally have "i128_ok (int acc')" by (simp add: i128_ok_def)
  moreover have "Suc n \<le> 20 \<Longrightarrow> parse_integer s (ds @ rest) (int acc') (Suc n) = Inl (integer_too_large s)"
    using Cons.prems acc' by (intro Cons.IH) auto
  ultimately show ?case
    using c by (simp add: max_integer_digits_def acc'_def)
qed simp

lemma parse_fraction_digits:
  assumes "list_all is_digit ds" "n + length ds \<le> 38" "acc < 10 ^ n"
  shows "parse_fraction s ds (int acc) fd =
    Inr (int (acc * 10 ^ length ds + digits_val ds), fd + of_nat (length ds))"
  using assms
proof (induction ds arbitrary: acc n fd)
  case (Cons c ds)
  define acc' where "acc' = acc * 10 + digit_val c"
  have c: "is_digit c" using Cons.prems(1) by simp
  have acc': "acc' < 10 ^ Suc n"
    using Cons.prems(3) digit_val_less [OF c] by (simp add: acc'_def)
  also have "(10::nat) ^ Suc n \<le> 10 ^ 38" using Cons.prems(2) by (intro power_increasing) simp_all
  finally have "i128_ok (int acc')" by (simp add: i128_ok_def)
  moreover have "parse_fraction s ds (int acc') (fd + 1) =
      Inr (int (acc' * 10 ^ length ds + digits_val ds), fd + 1 + of_nat (length ds))"
    using Cons.prems acc' by (intro Cons.IH [of "Suc n"]) auto
  ultimately show ?case using c by (simp add: acc'_def digits_val_Cons algebra_simps)
qed simp

lemma frac_bound:
  assumes "k \<le> 18" "fp < 10 ^ k"
  shows "fp * 10 ^ (18 - k) < (10::nat) ^ 18"
proof -
  have "fp * 10 ^ (18 - k) < 10 ^ k * 10 ^ (18 - k)" using assms(2) by simp
  also have "\<dots> = (10::nat) ^ 18" using assms(1) by (simp flip: power_add)
  finally show ?thesis .
qed

lemma parts_bound:
  assumes "ip < 10 ^ 20" "k \<le> 18" "fp < 10 ^ k"
  shows "ip * 10 ^ 18 + fp * 10 ^ (18 - k) < (10::nat) ^ 38"
proof -
  have "ip * 10 ^ 18 + fp * 10 ^ (18 - k) < (ip + 1) * 10 ^ 18"
    using frac_bound [OF assms(2,3)] by simp
  also have "\<dots> \<le> 10 ^ 20 * 10 ^ 18" using assms(1) by (intro mult_le_mono1) simp
  finally show ?thesis by simp
qed

lemma scale_parts_value:
  assumes "ip < 10 ^ 20" "k \<le> 18" "fp < 10 ^ k" "unat fd = k"
  shows "scale_parts s (int ip) (int fp) fd = Inr (int (ip * 10 ^ 18 + fp * 10 ^ (18 - k)))"
proof -
  note f = frac_bound [OF assms(2,3)] and total = parts_bound [OF assms(1-3)]
  have pow: "(10::nat) ^ (18 - k) \<le> 10 ^ 18" by (intro power_increasing) simp_all
  have "i128_ok (int (ip * 10 ^ 18))" "i128_ok (int (10 ^ (18 - k)))" "i128_ok (int (fp * 10 ^ (18 - k)))"
    "i128_ok (int (ip * 10 ^ 18 + fp * 10 ^ (18 - k)))"
    using total pow by (intro i128_ok_int; simp)+
  then have oks: "i128_ok (int ip * 10 ^ 18)" "i128_ok (10 ^ (18 - k))" "i128_ok (int fp * 10 ^ (18 - k))"
    "i128_ok (int ip * 10 ^ 18 + int fp * 10 ^ (18 - k))"
    by simp_all
  have "scale_up (18 - k) 1 = Inr (10 ^ (18 - k))"
    using scale_up_exact [of 1 "18 - k"] oks(2) by simp
  moreover have "cpp_div (int ip * 10 ^ 18 + int fp * 10 ^ (18 - k)) (10 ^ 18) = int ip"
  proof -
    have "cpp_div (int (ip * 10 ^ 18 + fp * 10 ^ (18 - k))) (10 ^ 18) =
        int ((ip * 10 ^ 18 + fp * 10 ^ (18 - k)) div 10 ^ 18)"
      by (subst cpp_div_nonneg) (simp_all add: zdiv_int)
    also have "(ip * 10 ^ 18 + fp * 10 ^ (18 - k)) div 10 ^ 18 = ip" using f by simp
    finally show ?thesis by simp
  qed
  moreover have "nat (18 - int k) = 18 - k" by simp
  ultimately show ?thesis
    using oks assms(2,4) by (simp add: scale_parts_def scale_def scale_factor_eq)
qed

lemma scale_parts_rejects:
  assumes "18 < unat fd"
  shows "scale_parts s ip fp fd = Inl (too_many_fraction_digits s)"
proof -
  have "scale < int (unat fd)" using assms unfolding scale_def by linarith
  then show ?thesis by (simp only: scale_parts_def if_True)
qed

lemma i128_ok_neg: "n < 10 ^ 38 \<Longrightarrow> i128_ok (- int n)"
  using i128_ok_int [of n] by (simp add: i128_ok_def)

lemma unat_u8: "n < 256 \<Longrightarrow> unat (of_nat n :: u8) = n"
  by (simp add: unsigned_of_nat take_bit_nat_eq_self)

lemma digits_val_less: "list_all is_digit ds \<Longrightarrow> length ds \<le> k \<Longrightarrow> digits_val ds < 10 ^ k"
  using digits_val_bound [of ds] by (meson order_less_le_trans power_increasing one_le_numeral)

text \<open>The sign prefix is stripped, and a missing sign is not mistaken for one.\<close>

definition signs :: "string set" where
  "signs = {[], ''-'', ''+''}"

lemma hd_not_sign:
  assumes "list_all is_digit ds" "tail = [] \<or> hd tail = CHR ''.''" "ds @ tail \<noteq> []"
  shows "hd (ds @ tail) \<noteq> CHR ''-''" "hd (ds @ tail) \<noteq> CHR ''+''"
  using assms by (cases ds; auto simp: is_digit_def)+

lemma parse_decimal_strip:
  assumes "sign \<in> signs" "list_all is_digit ds" "tail = [] \<or> hd tail = CHR ''.''" "sign @ ds @ tail \<noteq> []"
  shows "parse_decimal_t (sign @ ds @ tail) =
    bind_exn (parse_integer (sign @ ds @ tail) (ds @ tail) 0 0) (\<lambda>(integer_part, rest).
      bind_exn (case rest of c # cs \<Rightarrow> parse_fraction (sign @ ds @ tail) cs 0 0 | [] \<Rightarrow> Inr (0, 0))
        (\<lambda>(frac_part, frac_digits).
      bind_exn (scale_parts (sign @ ds @ tail) integer_part frac_part frac_digits) (\<lambda>result.
      if sign = ''-'' then i128 (- result) else Inr result)))"
  using assms hd_not_sign [of ds tail] by (auto simp: parse_decimal_t_def signs_def Let_def)

lemma parse_parts:
  assumes "sign \<in> signs" "list_all is_digit ds" "length ds \<le> 20"
    and frac: "parse_fraction (sign @ ds @ CHR ''.'' # fs) fs 0 0 = Inr (int fp, fd)"
    and "unat fd = k" "k \<le> 18" "fp < 10 ^ k"
  shows "parse_decimal_t (sign @ ds @ CHR ''.'' # fs) =
    Inr ((if sign = ''-'' then - 1 else 1) * int (digits_val ds * 10 ^ 18 + fp * 10 ^ (18 - k)))"
proof -
  let ?s = "sign @ ds @ CHR ''.'' # fs"
  have "parse_integer ?s (ds @ CHR ''.'' # fs) 0 0 = Inr (int (digits_val ds), CHR ''.'' # fs)"
    using parse_integer_digits [of ds "CHR ''.'' # fs" 0 0 ?s] assms by simp
  moreover have ip: "digits_val ds < 10 ^ 20" using assms by (intro digits_val_less)
  note sp = scale_parts_value [OF ip assms(6,7,5), of ?s]
  moreover have "digits_val ds * 10 ^ 18 + fp * 10 ^ (18 - k) < 10 ^ 38"
    using ip assms(6,7) by (rule parts_bound)
  then have "i128_ok (- int (digits_val ds * 10 ^ 18 + fp * 10 ^ (18 - k)))"
    by (rule i128_ok_neg)
  ultimately show ?thesis
    using parse_decimal_strip [of sign ds "CHR ''.'' # fs"] assms(1,2) frac by simp
qed

lemma parse_value:
  assumes "sign \<in> signs" "list_all is_digit ds" "list_all is_digit fs" "length ds \<le> 20" "length fs \<le> 18"
  shows "parse_decimal_t (sign @ ds @ CHR ''.'' # fs) =
    Inr ((if sign = ''-'' then - 1 else 1) *
      int (digits_val ds * 10 ^ 18 + digits_val fs * 10 ^ (18 - length fs)))"
proof -
  have "parse_fraction (sign @ ds @ CHR ''.'' # fs) fs 0 0 = Inr (int (digits_val fs), of_nat (length fs))"
    using parse_fraction_digits [of fs 0 0 "sign @ ds @ CHR ''.'' # fs" 0] assms by simp
  moreover have "unat (of_nat (length fs) :: u8) = length fs"
    using assms(5) by (intro unat_u8) simp
  ultimately show ?thesis
    using assms digits_val_bound [of fs] by (simp add: parse_parts)
qed

lemma parse_too_large:
  assumes "sign \<in> signs" "list_all is_digit ds" "20 < length ds"
  shows "parse_decimal_t (sign @ ds @ CHR ''.'' # fs) = Inl (integer_too_large (sign @ ds @ CHR ''.'' # fs))"
proof -
  let ?s = "sign @ ds @ CHR ''.'' # fs"
  have "parse_integer ?s (ds @ CHR ''.'' # fs) 0 0 = Inl (integer_too_large ?s)"
    using parse_integer_too_long [of ds 0 0 ?s "CHR ''.'' # fs"] assms by simp
  then show ?thesis
    using parse_decimal_strip [of sign ds "CHR ''.'' # fs"] assms by simp
qed

text \<open>
  A literal with an optional sign, up to 20 integer digits and up to 18 fractional
  digits is read exactly: no exception, no undefined behaviour, and the raw value is the
  signed integer \<open>ds * 10 ^ 18 + fs * 10 ^ (18 - length fs)\<close>.
\<close>

lemma parse_decimal_value:
  assumes "sign \<in> signs" "list_all is_digit ds" "list_all is_digit fs" "length ds \<le> 20" "length fs \<le> 18"
  shows "decimal_of_string (sign @ ds @ CHR ''.'' # fs) =
    Inr (Decimal_t ((if sign = ''-'' then - 1 else 1) *
      int (digits_val ds * 10 ^ 18 + digits_val fs * 10 ^ (18 - length fs))))"
  unfolding decimal_of_string_def parse_value [OF assms] by simp

text \<open>
  An integer part of more than 20 digits is rejected with the overflow exception, and
  19 to 38 fractional digits are rejected with the invalid-argument exception; both are
  raised before any 128-bit overflow.
\<close>

lemma parse_decimal_rejects:
  assumes "sign \<in> signs" "list_all is_digit ds" "list_all is_digit fs"
  shows "(20 < length ds \<longrightarrow> decimal_of_string (sign @ ds @ CHR ''.'' # fs) =
            Inl (integer_too_large (sign @ ds @ CHR ''.'' # fs)))
       \<and> (length ds \<le> 20 \<and> 18 < length fs \<and> length fs \<le> 38 \<longrightarrow>
            decimal_of_string (sign @ ds @ CHR ''.'' # fs) =
            Inl (too_many_fraction_digits (sign @ ds @ CHR ''.'' # fs)))"
proof (intro conjI impI)
  assume "20 < length ds"
  from parse_too_large [OF assms(1,2) this]
  show "decimal_of_string (sign @ ds @ CHR ''.'' # fs) = Inl (integer_too_large (sign @ ds @ CHR ''.'' # fs))"
    by (simp add: decimal_of_string_def)
next
  let ?s = "sign @ ds @ CHR ''.'' # fs"
  assume len: "length ds \<le> 20 \<and> 18 < length fs \<and> length fs \<le> 38"
  then have "parse_integer ?s (ds @ CHR ''.'' # fs) 0 0 = Inr (int (digits_val ds), CHR ''.'' # fs)"
    using parse_integer_digits [of ds "CHR ''.'' # fs" 0 0 ?s] assms by simp
  moreover have "parse_fraction ?s fs 0 0 = Inr (int (digits_val fs), of_nat (length fs))"
    using parse_fraction_digits [of fs 0 0 ?s 0] assms len by simp
  moreover have "unat (of_nat (length fs) :: u8) = length fs"
    using len by (intro unat_u8) simp
  ultimately show "decimal_of_string ?s = Inl (too_many_fraction_digits ?s)"
    using parse_decimal_strip [of sign ds "CHR ''.'' # fs"] assms len
    by (simp add: decimal_of_string_def scale_parts_rejects)
qed

lemma parse_fraction_zeros:
  "parse_fraction s (replicate k (CHR ''0'') @ cs) 0 fd = parse_fraction s cs 0 (fd + of_nat k)"
proof (induction k arbitrary: fd)
  case (Suc k)
  then show ?case by (simp add: is_digit_def digit_val_def i128_def i128_ok_def add.assoc)
qed simp

text \<open>
  The fractional digit counter is 8 bits wide, so 256 extra zeros after the point go
  unnoticed: a fraction of 256 zeros followed by \<open>fs\<close> is read as the fraction \<open>fs\<close>
  instead of being rejected for having more than 18 fractional digits.
\<close>

lemma fraction_counter_wraps:
  assumes "list_all is_digit fs" "length fs \<le> 18"
  shows "decimal_of_string (''0.'' @ replicate 256 (CHR ''0'') @ fs) =
    Inr (Decimal_t (int (digits_val fs * 10 ^ (18 - length fs))))"
proof -
  let ?fs = "replicate 256 (CHR ''0'') @ fs"
  have "parse_fraction ([] @ ''0'' @ CHR ''.'' # ?fs) ?fs 0 0 = Inr (int (digits_val fs), of_nat (length fs))"
    unfolding parse_fraction_zeros
    using parse_fraction_digits [of fs 0 0 _ "0 + of_nat 256"] assms by simp
  moreover have "unat (of_nat (length fs) :: u8) = length fs"
    using assms(2) by (intro unat_u8) simp
  moreover have "digits_val ''0'' = 0" by (simp add: digits_val_def digit_val_def)
  ultimately show ?thesis
    using parse_parts [of "[]" "''0''" ?fs "digits_val fs" "of_nat (length fs)" "length fs"]
      assms digits_val_bound [of fs]
    by (simp add: signs_def is_digit_def decimal_of_string_def)
qed

section \<open>What the printer produces\<close>

lemma fill_frac_numeral:
  "fill_frac (numeral k) f buf =
     (if f > 0 then fill_frac (pred_numeral k) (f div 10) (buf[pred_numeral k := digit_char (f mod 10)])
      else buf)"
  by (simp add: numeral_eq_Suc)

lemma rev_digits_dec: "0 < n \<Longrightarrow> rev (rev_digits n) = dec_digits n"
proof (induction n rule: dec_digits.induct)
  case (1 n)
  then show ?case
    by (cases "n < 10") (auto simp: rev_digits.simps [of n] rev_digits.simps [of 0] dec_digits.simps [of n])
qed

lemma fill_frac_digits:
  assumes "f < 10 ^ i"
  shows "\<exists>ds. fill_frac i f (replicate i (CHR ''0'') @ rest) = ds @ rest \<and> length ds = i \<and>
    list_all is_digit ds \<and> digits_val ds = f"
  using assms
proof (induction i arbitrary: f rest)
  case 0
  then show ?case by simp
next
  case (Suc i)
  let ?c = "digit_char (f mod 10)"
  show ?case
  proof (cases "f = 0")
    case True
    then show ?thesis
      by (intro exI [of _ "replicate (Suc i) (CHR ''0'')"])
        (simp del: replicate_Suc add: list_all_iff is_digit_def)
  next
    case False
    have "f div 10 < 10 ^ i" using Suc.prems by (simp add: less_mult_imp_div_less mult.commute)
    then obtain ds where ds: "fill_frac i (f div 10) (replicate i (CHR ''0'') @ ?c # rest) = ds @ ?c # rest"
      "length ds = i" "list_all is_digit ds" "digits_val ds = f div 10"
      using Suc.IH by blast
    have "(replicate (Suc i) (CHR ''0'') @ rest)[i := ?c] = replicate i (CHR ''0'') @ ?c # rest"
      by (simp add: list_update_append flip: replicate_append_same)
    with False ds show ?thesis
      by (intro exI [of _ "ds @ [?c]"]) (simp del: replicate_Suc)
  qed
qed

lemma trim_zeros_append:
  "s = trim_zeros s @ replicate (length s - length (trim_zeros s)) (CHR ''0'')"
proof -
  let ?z = "takeWhile (\<lambda>c. c = CHR ''0'') (rev s)"
  have "\<And>c. c \<in> set ?z \<Longrightarrow> c = CHR ''0''" by (rule set_takeWhileD [THEN conjunct2])
  then have "?z = replicate (length ?z) (CHR ''0'')" by (intro replicate_eqI) simp_all
  moreover have "s = trim_zeros s @ rev ?z"
    unfolding trim_zeros_def by (metis rev_append rev_rev_ident takeWhile_dropWhile_id)
  moreover from this have "length ?z = length s - length (trim_zeros s)"
    by (metis add_diff_cancel_left' length_append length_rev)
  ultimately show ?thesis by (metis rev_replicate)
qed

lemma trim_zeros_digits:
  assumes "list_all is_digit s" "length s = n"
  shows "list_all is_digit (trim_zeros s)" "length (trim_zeros s) \<le> n"
    "digits_val (trim_zeros s) * 10 ^ (n - length (trim_zeros s)) = digits_val s"
proof -
  note tz = trim_zeros_append [of s]
  show "list_all is_digit (trim_zeros s)" using assms(1) by (subst (asm) tz) simp
  show "length (trim_zeros s) \<le> n" using assms(2) by (subst (asm) tz) simp
  show "digits_val (trim_zeros s) * 10 ^ (n - length (trim_zeros s)) = digits_val s"
    using assms(2) by (subst tz, subst digits_val_append) simp
qed

lemma trim_zeros_last: "list_all is_digit s \<Longrightarrow> trim_zeros s = [] \<or> last (trim_zeros s) \<noteq> CHR ''0''"
  using hd_dropWhile [of "\<lambda>c. c = CHR ''0''" "rev s"]
  by (auto simp: trim_zeros_def last_rev)

definition abs_raw :: "decimal_t \<Rightarrow> nat" where
  "abs_raw d = nat \<bar>raw_value d\<bar>"

lemma int_str_digits: "(if n = 0 then ''0'' else rev (rev_digits n)) = dec_digits n"
  by (simp add: rev_digits_dec dec_digits.simps [of 0] digit_char_0)

lemma frac_str_digits:
  assumes "0 < f" "f < 10 ^ 18"
  shows "\<exists>fs. (let fs = fill_frac 18 f (replicate 18 (CHR ''0''))
               in if list_all (\<lambda>c. c = CHR ''0'') fs then fs else trim_zeros fs) = fs \<and>
           list_all is_digit fs \<and> fs \<noteq> [] \<and> length fs \<le> 18 \<and> digits_val fs * 10 ^ (18 - length fs) = f"
proof -
  obtain ds where ds: "fill_frac 18 f (replicate 18 (CHR ''0'')) = ds" "length ds = 18"
    "list_all is_digit ds" "digits_val ds = f"
    using fill_frac_digits [OF assms(2), of "[]"] by auto
  have "\<not> list_all (\<lambda>c. c = CHR ''0'') ds"
  proof
    assume "list_all (\<lambda>c. c = CHR ''0'') ds"
    then have "ds = replicate 18 (CHR ''0'')" using ds(2) by (intro replicate_eqI) (simp_all add: list_all_iff)
    then show False using ds(4) assms(1) digits_val_zeros [of 18] by simp
  qed
  with trim_zeros_digits [OF ds(3,2)] ds assms(1) show ?thesis
    by (intro exI [of _ "trim_zeros ds"]) (auto simp: Let_def)
qed

lemma to_string_shape:
  assumes "i128_ok (raw_value d)" "raw_value d \<noteq> - (2 ^ 127)"
  shows "\<exists>fs. to_string d = Inr ((if raw_value d < 0 then ''-'' else []) @
            dec_digits (abs_raw d div 10 ^ 18) @ CHR ''.'' # fs) \<and>
          list_all is_digit fs \<and> fs \<noteq> [] \<and> length fs \<le> 18 \<and>
          digits_val fs * 10 ^ (18 - length fs) = abs_raw d mod 10 ^ 18"
proof -
  let ?v = "raw_value d" and ?sign = "if raw_value d < 0 then ''-'' else []"
  let ?n = "abs_raw d"
  have z: "list_all is_digit ''0'' \<and> ''0'' \<noteq> [] \<and> length ''0'' \<le> 18 \<and> digits_val ''0'' = 0"
    by (simp add: is_digit_def digits_val_def digit_val_def)
  have "i128_ok \<bar>?v\<bar>" using assms unfolding i128_ok_def by linarith
  then have ok: "i128 (if ?v < 0 then - ?v else ?v) = Inr (int ?n)"
    by (simp add: abs_raw_def abs_if)
  have parts: "nat (int ?n div 10 ^ 18) = ?n div 10 ^ 18" "nat (int ?n mod 10 ^ 18) = ?n mod 10 ^ 18"
    by (metis nat_int of_nat_numeral of_nat_power zdiv_int)
       (metis nat_int of_nat_numeral of_nat_power zmod_int)
  consider (zero) "?v = 0" | (whole) "?v \<noteq> 0" "?n mod 10 ^ 18 = 0" | (frac) "?v \<noteq> 0" "0 < ?n mod 10 ^ 18"
    by fastforce
  then show ?thesis
  proof cases
    case zero
    with z show ?thesis
      by (intro exI [of _ "''0''"])
        (simp add: to_string_def abs_raw_def dec_digits.simps [of 0] digit_char_0)
  next
    case whole
    then have "to_string d = Inr (?sign @ dec_digits (?n div 10 ^ 18) @ ''.0'')"
      unfolding to_string_def ok bind_exn_simps scale_factor_eq Let_def parts int_str_digits
      by simp
    with z whole show ?thesis by (intro exI [of _ "''0''"]) simp
  next
    case frac
    obtain fs where fs: "(let fs = fill_frac 18 (?n mod 10 ^ 18) (replicate 18 (CHR ''0''))
               in if list_all (\<lambda>c. c = CHR ''0'') fs then fs else trim_zeros fs) = fs"
      "list_all is_digit fs" "fs \<noteq> []" "length fs \<le> 18"
      "digits_val fs * 10 ^ (18 - length fs) = ?n mod 10 ^ 18"
      using frac_str_digits [OF frac(2)] by auto
    have sc: "nat scale = 18" "(?n mod 10 ^ 18 = 0) = False" using frac(2) by (simp_all add: scale_def)
    have "to_string d = Inr (?sign @ dec_digits (?n div 10 ^ 18) @ CHR ''.'' # fs)"
      using frac(1) fs(1) unfolding to_string_def ok bind_exn_simps scale_factor_eq Let_def parts int_str_digits sc
      by (simp del: power_numeral)
    with fs show ?thesis by blast
  qed
qed

text \<open>
  C10: printing and parsing are inverse to each other. Every raw value but the least
  128-bit integer prints, and what it prints reads back as the same decimal as long as it
  has at most 20 integer digits; beyond that range the parser reports the overflow.
\<close>

theorem decimal_text_roundtrip:
  assumes "i128_ok (raw_value d)" "raw_value d \<noteq> - (2 ^ 127)"
  shows "\<exists>s. to_string d = Inr s \<and>
    decimal_of_string s = (if \<bar>raw_value d\<bar> < 10 ^ 38 then Inr d else Inl (integer_too_large s))"
proof -
  let ?sign = "if raw_value d < 0 then ''-'' else []" and ?ds = "dec_digits (abs_raw d div 10 ^ 18)"
  obtain fs where fs: "to_string d = Inr (?sign @ ?ds @ CHR ''.'' # fs)" "list_all is_digit fs"
    "length fs \<le> 18" "digits_val fs * 10 ^ (18 - length fs) = abs_raw d mod 10 ^ 18"
    using to_string_shape [OF assms] by blast
  have sign: "?sign \<in> signs" "(if ?sign = ''-'' then - 1 else 1) * int (abs_raw d) = raw_value d"
    by (simp_all add: signs_def abs_raw_def)
  have range: "\<bar>raw_value d\<bar> < 10 ^ 38 \<longleftrightarrow> abs_raw d div 10 ^ 18 < 10 ^ 20"
    by (simp add: abs_raw_def div_less_iff_less_mult nat_less_iff)
  have "decimal_of_string (?sign @ ?ds @ CHR ''.'' # fs) =
    (if \<bar>raw_value d\<bar> < 10 ^ 38 then Inr d else Inl (integer_too_large (?sign @ ?ds @ CHR ''.'' # fs)))"
  proof (cases "abs_raw d div 10 ^ 18 < 10 ^ 20")
    case True
    then have "length ?ds \<le> 20" by (rule length_dec_digits) simp
    from parse_value [OF sign(1) is_digit_dec_digits fs(2) this fs(3)]
    have "parse_decimal_t (?sign @ ?ds @ CHR ''.'' # fs) = Inr (raw_value d)"
      unfolding fs(4) digits_val_dec_digits div_mult_mod_eq sign(2) .
    with True range show ?thesis by (simp only: decimal_of_string_def bind_exn_simps if_True decimal_t.collapse)
  next
    case False
    then have "20 < length ?ds" by (intro length_dec_digits_ge) linarith
    from parse_too_large [OF sign(1) is_digit_dec_digits this]
    show ?thesis using False range by (simp only: decimal_of_string_def bind_exn_simps if_False)
  qed
  with fs(1) show ?thesis by blast
qed

theorem decimal_text_roundtrip_witness:
  "(\<exists>s. to_string (Decimal_t (- 1500000000000000000)) = Inr s \<and>
        decimal_of_string s = Inr (Decimal_t (- 1500000000000000000))) \<and>
   to_string (Decimal_t (- 1500000000000000000)) = Inr ''-1.5''"
proof (rule conjI)
  show "to_string (Decimal_t (- 1500000000000000000)) = Inr ''-1.5''"
    by (simp add: to_string_def i128_def i128_ok_def scale_factor_eq scale_def fill_frac_numeral
        rev_digits.simps [of "Suc 0"] rev_digits.simps [of 0] digit_char_def char_of_def trim_zeros_def
        replicate_numeral Let_def bit_0)
qed (use decimal_text_roundtrip [of "Decimal_t (- 1500000000000000000)"] in \<open>simp add: i128_ok_def\<close>)

section \<open>Scientific notation\<close>

lemma trim_zeros_split: "c \<noteq> CHR ''0'' \<Longrightarrow> trim_zeros (xs @ c # ys) = xs @ c # trim_zeros ys"
  by (simp add: trim_zeros_def dropWhile_append)

lemma scientific_tail:
  assumes "list_all is_digit ys" "ys \<noteq> []" "long = xs @ CHR ''.'' # ys" "kept = length (trim_zeros long)"
  shows "\<exists>fs. (if long ! (kept - 1) = CHR ''.'' then take (kept + 1) long else take kept long) =
      xs @ CHR ''.'' # fs \<and> fs \<noteq> [] \<and> list_all is_digit fs \<and> length fs \<le> length ys \<and>
      digits_val fs * 10 ^ (length ys - length fs) = digits_val ys"
proof -
  note tz = trim_zeros_digits [OF assms(1) refl]
  have kept: "kept = Suc (length xs + length (trim_zeros ys))"
    by (simp add: assms(3,4) trim_zeros_split)
  have tk: "take kept long = xs @ CHR ''.'' # trim_zeros ys"
    unfolding kept assms(3) by simp (metis append_eq_conv_conj trim_zeros_append)
  show ?thesis
  proof (cases "trim_zeros ys = []")
    case True
    with tz(3) have "digits_val ys = 0" by simp
    moreover obtain n where n: "ys = replicate (Suc n) (CHR ''0'')"
      using True trim_zeros_append [of ys] assms(2) by (cases ys) auto
    moreover have "digits_val ''0'' = 0" using digits_val_zeros [of 1] by simp
    ultimately show ?thesis using True kept assms(3)
      by (intro exI [of _ "''0''"]) (simp add: nth_append is_digit_def)
  next
    case False
    then have "long ! (kept - 1) = trim_zeros ys ! (length (trim_zeros ys) - 1)"
      using kept arg_cong [OF tk, of "\<lambda>l. l ! (kept - 1)"] by (simp add: nth_append nth_Cons')
    moreover have "is_digit (trim_zeros ys ! (length (trim_zeros ys) - 1))"
      using False tz(1) by (simp add: list_all_length)
    ultimately have "long ! (kept - 1) \<noteq> CHR ''.''" by (auto simp: is_digit_def)
    with tz tk False show ?thesis by (intro exI [of _ "trim_zeros ys"]) simp
  qed
qed

lemma rev_digits_rev:
  assumes "0 < n" "dec_digits n = m # ys"
  shows "rev_digits n = rev ys @ [m]"
  using rev_digits_dec [OF assms(1)] assms(2) by (metis rev.simps(2) rev_rev_ident)

lemma scientific_long:
  assumes "i128_ok v" "v \<noteq> 0" and my: "dec_digits (nat \<bar>v\<bar>) = m # ys" and "ys \<noteq> []"
  shows "int128_to_scientific v =
    (let long = ((if v < 0 then ''-'' else []) @ [m]) @ CHR ''.'' # ys; kept = length (trim_zeros long)
     in if long ! (kept - 1) = CHR ''.'' then take (kept + 1) long else take kept long)
    @ ''e+'' @ dec_digits (length ys)"
proof -
  note rd = rev_digits_rev [OF _ my]
  have n: "rev_digits (nat \<bar>v\<bar>) = rev ys @ [m]" using rd assms(2) by simp
  have simps: "length (rev ys @ [m]) - 1 = length ys" "(rev ys @ [m]) ! length ys = m"
    "rev (take (length ys) (rev ys @ [m])) = ys" "(1 < length (rev ys @ [m])) = True" "(v = 0) = False"
    using assms by (simp_all add: nth_append)
  show ?thesis
    unfolding int128_to_scientific_def unat_to_unsigned [OF assms(1)] n Let_def simps if_True if_False
    by (simp only: append_assoc append_Cons append_Nil)
qed

text \<open>
  The scientific notation of an error or overflow value is exact: it is one nonzero
  digit, a point, a nonempty fraction and the exponent, and mantissa times power of ten is
  the absolute value (also for the least 128-bit integer).
\<close>

lemma scientific_exact:
  assumes "i128_ok v" "v \<noteq> 0"
  shows "\<exists>m fs e. int128_to_scientific v = (if v < 0 then ''-'' else []) @ m # CHR ''.'' # fs @ ''e+'' @ dec_digits e \<and>
    is_digit m \<and> fs \<noteq> [] \<and> list_all is_digit fs \<and>
    digits_val (m # fs) * 10 ^ e = nat \<bar>v\<bar> * 10 ^ length fs"
proof -
  let ?n = "nat \<bar>v\<bar>" and ?sign = "if v < 0 then ''-'' else []"
  obtain m ys where my: "dec_digits ?n = m # ys" by (cases "dec_digits ?n") auto
  have dig: "is_digit m" "list_all is_digit ys" "digits_val (m # ys) = ?n"
    using is_digit_dec_digits [of ?n] digits_val_dec_digits [of ?n] unfolding my by simp_all
  have rd: "rev_digits ?n = rev ys @ [m]" using rev_digits_rev [OF _ my] assms(2) by simp
  have out: "\<exists>fs. int128_to_scientific v = ?sign @ m # CHR ''.'' # fs @ ''e+'' @ dec_digits (length ys) \<and>
      fs \<noteq> [] \<and> list_all is_digit fs \<and> digits_val fs * 10 ^ length ys = digits_val ys * 10 ^ length fs"
  proof (cases "ys = []")
    case True
    then show ?thesis using assms rd digits_val_zeros [of 1]
      by (intro exI [of _ "''0''"])
        (simp add: int128_to_scientific_def unat_to_unsigned is_digit_def)
  next
    case False
    let ?long = "(?sign @ [m]) @ CHR ''.'' # ys"
    obtain fs where fs: "(if ?long ! (length (trim_zeros ?long) - 1) = CHR ''.''
          then take (length (trim_zeros ?long) + 1) ?long else take (length (trim_zeros ?long)) ?long) =
        (?sign @ [m]) @ CHR ''.'' # fs" "fs \<noteq> []" "list_all is_digit fs" "length fs \<le> length ys"
      "digits_val fs * 10 ^ (length ys - length fs) = digits_val ys"
      using scientific_tail [OF dig(2) False refl refl, of "?sign @ [m]"] by blast
    have "digits_val fs * 10 ^ length ys = digits_val fs * 10 ^ (length ys - length fs) * 10 ^ length fs"
      using fs(4) by (simp flip: power_add)
    moreover have "int128_to_scientific v = ?sign @ m # CHR ''.'' # fs @ ''e+'' @ dec_digits (length ys)"
      unfolding scientific_long [OF assms my False] Let_def fs(1) by (simp only: append_assoc append_Cons append_Nil)
    ultimately show ?thesis using fs by auto
  qed
  then obtain fs where fs: "int128_to_scientific v = ?sign @ m # CHR ''.'' # fs @ ''e+'' @ dec_digits (length ys)"
    "fs \<noteq> []" "list_all is_digit fs" "digits_val fs * 10 ^ length ys = digits_val ys * 10 ^ length fs"
    by blast
  moreover have "digits_val (m # fs) * 10 ^ length ys = ?n * 10 ^ length fs"
    using fs(4) unfolding dig(3) [symmetric] digits_val_Cons by (simp add: algebra_simps)
  ultimately show ?thesis using dig(1) by blast
qed

end
