(* ===== verification/Enums.thy ===== *)
theory Enums
  imports Binapi_Prelude
begin

text \<open>
  The wire enumerations of \<^verbatim>\<open>types/enums.hpp\<close>. For each C++ enumeration there is a
  datatype with its enumerators, the function to their declared integer values, and the
  table of its \<^verbatim>\<open>glz::meta\<close> specialisation, which maps wire names to enumerators (a
  value may have several names). \<open>enum_to_string\<close> is the generic \<^verbatim>\<open>to_string\<close>: the first
  name of the value, or an exception. The locale \<open>wire_enum\<close> holds what a table must
  satisfy, and it is interpreted for every enumeration.
\<close>

section \<open>The generic conversion\<close>

text \<open>The fold over the table: the name of the first entry with the value, empty if there is none.\<close>

fun enum_to_sv_impl :: "'e \<Rightarrow> (string \<times> 'e) list \<Rightarrow> string" where
  "enum_to_sv_impl v [] = []"
| "enum_to_sv_impl v ((n, w) # table) = (if w = v then n else enum_to_sv_impl v table)"

definition enum_to_string :: "(string \<times> 'e) list \<Rightarrow> ('e \<Rightarrow> nat) \<Rightarrow> 'e \<Rightarrow> string may_throw" where
  "enum_to_string table val v =
     (let sv = enum_to_sv_impl v table
      in if sv \<noteq> [] then Inr sv
         else Inl (Invalid_argument (''invalid enum value: '' @ dec_digits (val v))))"

text \<open>Reading a name is the lookup in the same table.\<close>

definition enum_of_string :: "(string \<times> 'e) list \<Rightarrow> string \<Rightarrow> 'e option" where
  "enum_of_string table s = map_of table s"

definition wire_roundtrip :: "(string \<times> 'e) list \<Rightarrow> ('e \<Rightarrow> nat) \<Rightarrow> bool" where
  "wire_roundtrip table val \<longleftrightarrow>
     (\<forall>v. \<exists>s. enum_to_string table val v = Inr s \<and> enum_of_string table s = Some v) \<and>
     (\<forall>v w. enum_to_string table val v = enum_to_string table val w \<longrightarrow> v = w)"

lemma enum_to_sv_in_table:
  "v \<in> snd ` set table \<Longrightarrow> (enum_to_sv_impl v table, v) \<in> set table"
  by (induction v table rule: enum_to_sv_impl.induct) force+

locale wire_enum =
  fixes table :: "(string \<times> 'e) list"
    and val :: "'e \<Rightarrow> nat"
  assumes names_distinct: "distinct (map fst table)"
    and names_nonempty: "list_all (\<lambda>e. fst e \<noteq> []) table"
    and complete: "v \<in> snd ` set table"
    and values_inject: "distinct (map val (remdups (map snd table)))"
begin

lemma sv_in_table: "(enum_to_sv_impl v table, v) \<in> set table"
  by (rule enum_to_sv_in_table [OF complete])

lemma to_string_Inr: "enum_to_string table val v = Inr (enum_to_sv_impl v table)"
  using names_nonempty sv_in_table [of v] by (force simp: enum_to_string_def list_all_iff Let_def)

lemma of_string_iff: "enum_of_string table s = Some v \<longleftrightarrow> (s, v) \<in> set table"
  by (simp add: enum_of_string_def names_distinct)

lemma of_to_string: "\<exists>s. enum_to_string table val v = Inr s \<and> enum_of_string table s = Some v"
  by (simp add: to_string_Inr of_string_iff sv_in_table)

lemma to_string_inject: "enum_to_string table val v = enum_to_string table val w \<longleftrightarrow> v = w"
  by (metis Inr_inject of_to_string option.inject)

lemma val_inject: "val v = val w \<longleftrightarrow> v = w"
proof -
  have "inj_on val (set (map snd table))" using values_inject by (simp add: distinct_map)
  moreover have "v \<in> set (map snd table)" "w \<in> set (map snd table)" using complete by auto
  ultimately show ?thesis by (auto dest: inj_onD)
qed

lemma roundtrip: "wire_roundtrip table val"
  using of_to_string to_string_inject by (simp add: wire_roundtrip_def)

end

section \<open>The enumerations\<close>

datatype security_type_t =
    Security_type_none
  | Security_type_market_data
  | Security_type_user_stream
  | Security_type_user_data
  | Security_type_trade

fun security_type_t_value :: "security_type_t \<Rightarrow> nat" where
  "security_type_t_value Security_type_none = 0"
| "security_type_t_value Security_type_market_data = 1"
| "security_type_t_value Security_type_user_stream = 2"
| "security_type_t_value Security_type_user_data = 3"
| "security_type_t_value Security_type_trade = 4"

definition security_type_t_table :: "(string \<times> security_type_t) list" where [wire_defs]:
  "security_type_t_table =
     [(''none'', Security_type_none),
      (''market_data'', Security_type_market_data),
      (''user_stream'', Security_type_user_stream),
      (''user_data'', Security_type_user_data),
      (''trade'', Security_type_trade)]"

datatype order_side_t =
    Order_side_buy
  | Order_side_sell

fun order_side_t_value :: "order_side_t \<Rightarrow> nat" where
  "order_side_t_value Order_side_buy = 0"
| "order_side_t_value Order_side_sell = 1"

definition order_side_t_table :: "(string \<times> order_side_t) list" where [wire_defs]:
  "order_side_t_table =
     [(''BUY'', Order_side_buy),
      (''SELL'', Order_side_sell)]"

datatype order_type_t =
    Order_type_limit
  | Order_type_market
  | Order_type_stop
  | Order_type_stop_market
  | Order_type_take_profit
  | Order_type_take_profit_market
  | Order_type_trailing_stop_market

fun order_type_t_value :: "order_type_t \<Rightarrow> nat" where
  "order_type_t_value Order_type_limit = 0"
| "order_type_t_value Order_type_market = 1"
| "order_type_t_value Order_type_stop = 2"
| "order_type_t_value Order_type_stop_market = 3"
| "order_type_t_value Order_type_take_profit = 4"
| "order_type_t_value Order_type_take_profit_market = 5"
| "order_type_t_value Order_type_trailing_stop_market = 6"

definition order_type_t_table :: "(string \<times> order_type_t) list" where [wire_defs]:
  "order_type_t_table =
     [(''LIMIT'', Order_type_limit),
      (''MARKET'', Order_type_market),
      (''STOP'', Order_type_stop),
      (''STOP_MARKET'', Order_type_stop_market),
      (''TAKE_PROFIT'', Order_type_take_profit),
      (''TAKE_PROFIT_MARKET'', Order_type_take_profit_market),
      (''TRAILING_STOP_MARKET'', Order_type_trailing_stop_market)]"

datatype time_in_force_t =
    Time_in_force_gtc
  | Time_in_force_ioc
  | Time_in_force_fok
  | Time_in_force_gtx
  | Time_in_force_gtd
  | Time_in_force_rpi

fun time_in_force_t_value :: "time_in_force_t \<Rightarrow> nat" where
  "time_in_force_t_value Time_in_force_gtc = 0"
| "time_in_force_t_value Time_in_force_ioc = 1"
| "time_in_force_t_value Time_in_force_fok = 2"
| "time_in_force_t_value Time_in_force_gtx = 3"
| "time_in_force_t_value Time_in_force_gtd = 4"
| "time_in_force_t_value Time_in_force_rpi = 5"

definition time_in_force_t_table :: "(string \<times> time_in_force_t) list" where [wire_defs]:
  "time_in_force_t_table =
     [(''GTC'', Time_in_force_gtc),
      (''IOC'', Time_in_force_ioc),
      (''FOK'', Time_in_force_fok),
      (''GTX'', Time_in_force_gtx),
      (''GTD'', Time_in_force_gtd),
      (''RPI'', Time_in_force_rpi)]"

datatype kline_interval_t =
    Kline_interval_m1
  | Kline_interval_m3
  | Kline_interval_m5
  | Kline_interval_m15
  | Kline_interval_m30
  | Kline_interval_h1
  | Kline_interval_h2
  | Kline_interval_h4
  | Kline_interval_h6
  | Kline_interval_h8
  | Kline_interval_h12
  | Kline_interval_d1
  | Kline_interval_d3
  | Kline_interval_w1
  | Kline_interval_mo1

fun kline_interval_t_value :: "kline_interval_t \<Rightarrow> nat" where
  "kline_interval_t_value Kline_interval_m1 = 0"
| "kline_interval_t_value Kline_interval_m3 = 1"
| "kline_interval_t_value Kline_interval_m5 = 2"
| "kline_interval_t_value Kline_interval_m15 = 3"
| "kline_interval_t_value Kline_interval_m30 = 4"
| "kline_interval_t_value Kline_interval_h1 = 5"
| "kline_interval_t_value Kline_interval_h2 = 6"
| "kline_interval_t_value Kline_interval_h4 = 7"
| "kline_interval_t_value Kline_interval_h6 = 8"
| "kline_interval_t_value Kline_interval_h8 = 9"
| "kline_interval_t_value Kline_interval_h12 = 10"
| "kline_interval_t_value Kline_interval_d1 = 11"
| "kline_interval_t_value Kline_interval_d3 = 12"
| "kline_interval_t_value Kline_interval_w1 = 13"
| "kline_interval_t_value Kline_interval_mo1 = 14"

definition kline_interval_t_table :: "(string \<times> kline_interval_t) list" where [wire_defs]:
  "kline_interval_t_table =
     [(''1m'', Kline_interval_m1),
      (''3m'', Kline_interval_m3),
      (''5m'', Kline_interval_m5),
      (''15m'', Kline_interval_m15),
      (''30m'', Kline_interval_m30),
      (''1h'', Kline_interval_h1),
      (''2h'', Kline_interval_h2),
      (''4h'', Kline_interval_h4),
      (''6h'', Kline_interval_h6),
      (''8h'', Kline_interval_h8),
      (''12h'', Kline_interval_h12),
      (''1d'', Kline_interval_d1),
      (''3d'', Kline_interval_d3),
      (''1w'', Kline_interval_w1),
      (''1M'', Kline_interval_mo1)]"

datatype position_side_t =
    Position_side_both
  | Position_side_long_side
  | Position_side_short_side

fun position_side_t_value :: "position_side_t \<Rightarrow> nat" where
  "position_side_t_value Position_side_both = 0"
| "position_side_t_value Position_side_long_side = 1"
| "position_side_t_value Position_side_short_side = 2"

definition position_side_t_table :: "(string \<times> position_side_t) list" where [wire_defs]:
  "position_side_t_table =
     [(''BOTH'', Position_side_both),
      (''LONG'', Position_side_long_side),
      (''SHORT'', Position_side_short_side)]"

datatype working_type_t =
    Working_type_mark_price_t
  | Working_type_contract_price

fun working_type_t_value :: "working_type_t \<Rightarrow> nat" where
  "working_type_t_value Working_type_mark_price_t = 0"
| "working_type_t_value Working_type_contract_price = 1"

definition working_type_t_table :: "(string \<times> working_type_t) list" where [wire_defs]:
  "working_type_t_table =
     [(''MARK_PRICE'', Working_type_mark_price_t),
      (''CONTRACT_PRICE'', Working_type_contract_price)]"

datatype response_type_t =
    Response_type_ack
  | Response_type_result

fun response_type_t_value :: "response_type_t \<Rightarrow> nat" where
  "response_type_t_value Response_type_ack = 0"
| "response_type_t_value Response_type_result = 1"

definition response_type_t_table :: "(string \<times> response_type_t) list" where [wire_defs]:
  "response_type_t_table =
     [(''ACK'', Response_type_ack),
      (''RESULT'', Response_type_result)]"

datatype margin_type_t =
    Margin_type_isolated
  | Margin_type_crossed

fun margin_type_t_value :: "margin_type_t \<Rightarrow> nat" where
  "margin_type_t_value Margin_type_isolated = 0"
| "margin_type_t_value Margin_type_crossed = 1"

definition margin_type_t_table :: "(string \<times> margin_type_t) list" where [wire_defs]:
  "margin_type_t_table =
     [(''ISOLATED'', Margin_type_isolated),
      (''CROSSED'', Margin_type_crossed),
      (''isolated'', Margin_type_isolated),
      (''cross'', Margin_type_crossed)]"

datatype futures_type_t =
    Futures_type_u_margined
  | Futures_type_coin_margined

fun futures_type_t_value :: "futures_type_t \<Rightarrow> nat" where
  "futures_type_t_value Futures_type_u_margined = 0"
| "futures_type_t_value Futures_type_coin_margined = 1"

definition futures_type_t_table :: "(string \<times> futures_type_t) list" where [wire_defs]:
  "futures_type_t_table =
     [(''U_MARGINED'', Futures_type_u_margined),
      (''COIN_MARGINED'', Futures_type_coin_margined)]"

datatype position_control_side_t =
    Position_control_side_none
  | Position_control_side_long_side
  | Position_control_side_short_side
  | Position_control_side_both

fun position_control_side_t_value :: "position_control_side_t \<Rightarrow> nat" where
  "position_control_side_t_value Position_control_side_none = 0"
| "position_control_side_t_value Position_control_side_long_side = 1"
| "position_control_side_t_value Position_control_side_short_side = 2"
| "position_control_side_t_value Position_control_side_both = 3"

definition position_control_side_t_table :: "(string \<times> position_control_side_t) list" where [wire_defs]:
  "position_control_side_t_table =
     [(''NONE'', Position_control_side_none),
      (''LONG'', Position_control_side_long_side),
      (''SHORT'', Position_control_side_short_side),
      (''BOTH'', Position_control_side_both)]"

datatype trading_permission_t =
    Trading_permission_grid
  | Trading_permission_copy
  | Trading_permission_dca
  | Trading_permission_rpi
  | Trading_permission_psb

fun trading_permission_t_value :: "trading_permission_t \<Rightarrow> nat" where
  "trading_permission_t_value Trading_permission_grid = 0"
| "trading_permission_t_value Trading_permission_copy = 1"
| "trading_permission_t_value Trading_permission_dca = 2"
| "trading_permission_t_value Trading_permission_rpi = 3"
| "trading_permission_t_value Trading_permission_psb = 4"

definition trading_permission_t_table :: "(string \<times> trading_permission_t) list" where [wire_defs]:
  "trading_permission_t_table =
     [(''GRID'', Trading_permission_grid),
      (''COPY'', Trading_permission_copy),
      (''DCA'', Trading_permission_dca),
      (''RPI'', Trading_permission_rpi),
      (''PSB'', Trading_permission_psb)]"

datatype contract_type_t =
    Contract_type_perpetual
  | Contract_type_current_month
  | Contract_type_next_month
  | Contract_type_current_quarter
  | Contract_type_next_quarter
  | Contract_type_perpetual_delivering
  | Contract_type_current_quarter_delivering
  | Contract_type_tradifi_perpetual

fun contract_type_t_value :: "contract_type_t \<Rightarrow> nat" where
  "contract_type_t_value Contract_type_perpetual = 0"
| "contract_type_t_value Contract_type_current_month = 1"
| "contract_type_t_value Contract_type_next_month = 2"
| "contract_type_t_value Contract_type_current_quarter = 3"
| "contract_type_t_value Contract_type_next_quarter = 4"
| "contract_type_t_value Contract_type_perpetual_delivering = 5"
| "contract_type_t_value Contract_type_current_quarter_delivering = 6"
| "contract_type_t_value Contract_type_tradifi_perpetual = 7"

definition contract_type_t_table :: "(string \<times> contract_type_t) list" where [wire_defs]:
  "contract_type_t_table =
     [(''PERPETUAL'', Contract_type_perpetual),
      (''CURRENT_MONTH'', Contract_type_current_month),
      (''NEXT_MONTH'', Contract_type_next_month),
      (''CURRENT_QUARTER'', Contract_type_current_quarter),
      (''NEXT_QUARTER'', Contract_type_next_quarter),
      (''PERPETUAL_DELIVERING'', Contract_type_perpetual_delivering),
      (''CURRENT_QUARTER DELIVERING'', Contract_type_current_quarter_delivering),
      (''TRADIFI_PERPETUAL'', Contract_type_tradifi_perpetual)]"

datatype contract_status_t =
    Contract_status_pending_trading
  | Contract_status_trading
  | Contract_status_pre_delivering
  | Contract_status_delivering
  | Contract_status_delivered
  | Contract_status_pre_settle
  | Contract_status_settling
  | Contract_status_close

fun contract_status_t_value :: "contract_status_t \<Rightarrow> nat" where
  "contract_status_t_value Contract_status_pending_trading = 0"
| "contract_status_t_value Contract_status_trading = 1"
| "contract_status_t_value Contract_status_pre_delivering = 2"
| "contract_status_t_value Contract_status_delivering = 3"
| "contract_status_t_value Contract_status_delivered = 4"
| "contract_status_t_value Contract_status_pre_settle = 5"
| "contract_status_t_value Contract_status_settling = 6"
| "contract_status_t_value Contract_status_close = 7"

definition contract_status_t_table :: "(string \<times> contract_status_t) list" where [wire_defs]:
  "contract_status_t_table =
     [(''PENDING_TRADING'', Contract_status_pending_trading),
      (''TRADING'', Contract_status_trading),
      (''PRE_DELIVERING'', Contract_status_pre_delivering),
      (''DELIVERING'', Contract_status_delivering),
      (''DELIVERED'', Contract_status_delivered),
      (''PRE_SETTLE'', Contract_status_pre_settle),
      (''SETTLING'', Contract_status_settling),
      (''CLOSE'', Contract_status_close)]"

datatype order_status_t =
    Order_status_new_order
  | Order_status_partially_filled
  | Order_status_filled
  | Order_status_canceled
  | Order_status_rejected
  | Order_status_expired
  | Order_status_expired_in_match

fun order_status_t_value :: "order_status_t \<Rightarrow> nat" where
  "order_status_t_value Order_status_new_order = 0"
| "order_status_t_value Order_status_partially_filled = 1"
| "order_status_t_value Order_status_filled = 2"
| "order_status_t_value Order_status_canceled = 3"
| "order_status_t_value Order_status_rejected = 4"
| "order_status_t_value Order_status_expired = 5"
| "order_status_t_value Order_status_expired_in_match = 6"

definition order_status_t_table :: "(string \<times> order_status_t) list" where [wire_defs]:
  "order_status_t_table =
     [(''NEW'', Order_status_new_order),
      (''PARTIALLY_FILLED'', Order_status_partially_filled),
      (''FILLED'', Order_status_filled),
      (''CANCELED'', Order_status_canceled),
      (''REJECTED'', Order_status_rejected),
      (''EXPIRED'', Order_status_expired),
      (''EXPIRED_IN_MATCH'', Order_status_expired_in_match)]"

datatype stp_mode_t =
    Stp_mode_none
  | Stp_mode_expire_taker
  | Stp_mode_expire_both
  | Stp_mode_expire_maker

fun stp_mode_t_value :: "stp_mode_t \<Rightarrow> nat" where
  "stp_mode_t_value Stp_mode_none = 0"
| "stp_mode_t_value Stp_mode_expire_taker = 1"
| "stp_mode_t_value Stp_mode_expire_both = 2"
| "stp_mode_t_value Stp_mode_expire_maker = 3"

definition stp_mode_t_table :: "(string \<times> stp_mode_t) list" where [wire_defs]:
  "stp_mode_t_table =
     [(''NONE'', Stp_mode_none),
      (''EXPIRE_TAKER'', Stp_mode_expire_taker),
      (''EXPIRE_BOTH'', Stp_mode_expire_both),
      (''EXPIRE_MAKER'', Stp_mode_expire_maker)]"

datatype price_match_t =
    Price_match_none
  | Price_match_opponent
  | Price_match_opponent_5
  | Price_match_opponent_10
  | Price_match_opponent_20
  | Price_match_queue
  | Price_match_queue_5
  | Price_match_queue_10
  | Price_match_queue_20

fun price_match_t_value :: "price_match_t \<Rightarrow> nat" where
  "price_match_t_value Price_match_none = 0"
| "price_match_t_value Price_match_opponent = 1"
| "price_match_t_value Price_match_opponent_5 = 2"
| "price_match_t_value Price_match_opponent_10 = 3"
| "price_match_t_value Price_match_opponent_20 = 4"
| "price_match_t_value Price_match_queue = 5"
| "price_match_t_value Price_match_queue_5 = 6"
| "price_match_t_value Price_match_queue_10 = 7"
| "price_match_t_value Price_match_queue_20 = 8"

definition price_match_t_table :: "(string \<times> price_match_t) list" where [wire_defs]:
  "price_match_t_table =
     [(''NONE'', Price_match_none),
      (''OPPONENT'', Price_match_opponent),
      (''OPPONENT_5'', Price_match_opponent_5),
      (''OPPONENT_10'', Price_match_opponent_10),
      (''OPPONENT_20'', Price_match_opponent_20),
      (''QUEUE'', Price_match_queue),
      (''QUEUE_5'', Price_match_queue_5),
      (''QUEUE_10'', Price_match_queue_10),
      (''QUEUE_20'', Price_match_queue_20)]"

datatype income_type_t =
    Income_type_transfer
  | Income_type_welcome_bonus
  | Income_type_realized_pnl
  | Income_type_funding_fee
  | Income_type_commission
  | Income_type_insurance_clear
  | Income_type_referral_kickback
  | Income_type_commission_rebate
  | Income_type_api_rebate
  | Income_type_contest_reward
  | Income_type_cross_collateral_transfer
  | Income_type_options_premium_fee
  | Income_type_options_settle_profit
  | Income_type_internal_transfer
  | Income_type_auto_exchange
  | Income_type_delivered_settelment
  | Income_type_coin_swap_deposit
  | Income_type_coin_swap_withdraw
  | Income_type_position_limit_increase_fee

fun income_type_t_value :: "income_type_t \<Rightarrow> nat" where
  "income_type_t_value Income_type_transfer = 0"
| "income_type_t_value Income_type_welcome_bonus = 1"
| "income_type_t_value Income_type_realized_pnl = 2"
| "income_type_t_value Income_type_funding_fee = 3"
| "income_type_t_value Income_type_commission = 4"
| "income_type_t_value Income_type_insurance_clear = 5"
| "income_type_t_value Income_type_referral_kickback = 6"
| "income_type_t_value Income_type_commission_rebate = 7"
| "income_type_t_value Income_type_api_rebate = 8"
| "income_type_t_value Income_type_contest_reward = 9"
| "income_type_t_value Income_type_cross_collateral_transfer = 10"
| "income_type_t_value Income_type_options_premium_fee = 11"
| "income_type_t_value Income_type_options_settle_profit = 12"
| "income_type_t_value Income_type_internal_transfer = 13"
| "income_type_t_value Income_type_auto_exchange = 14"
| "income_type_t_value Income_type_delivered_settelment = 15"
| "income_type_t_value Income_type_coin_swap_deposit = 16"
| "income_type_t_value Income_type_coin_swap_withdraw = 17"
| "income_type_t_value Income_type_position_limit_increase_fee = 18"

definition income_type_t_table :: "(string \<times> income_type_t) list" where [wire_defs]:
  "income_type_t_table =
     [(''TRANSFER'', Income_type_transfer),
      (''WELCOME_BONUS'', Income_type_welcome_bonus),
      (''REALIZED_PNL'', Income_type_realized_pnl),
      (''FUNDING_FEE'', Income_type_funding_fee),
      (''COMMISSION'', Income_type_commission),
      (''INSURANCE_CLEAR'', Income_type_insurance_clear),
      (''REFERRAL_KICKBACK'', Income_type_referral_kickback),
      (''COMMISSION_REBATE'', Income_type_commission_rebate),
      (''API_REBATE'', Income_type_api_rebate),
      (''CONTEST_REWARD'', Income_type_contest_reward),
      (''CROSS_COLLATERAL_TRANSFER'', Income_type_cross_collateral_transfer),
      (''OPTIONS_PREMIUM_FEE'', Income_type_options_premium_fee),
      (''OPTIONS_SETTLE_PROFIT'', Income_type_options_settle_profit),
      (''INTERNAL_TRANSFER'', Income_type_internal_transfer),
      (''AUTO_EXCHANGE'', Income_type_auto_exchange),
      (''DELIVERED_SETTELMENT'', Income_type_delivered_settelment),
      (''COIN_SWAP_DEPOSIT'', Income_type_coin_swap_deposit),
      (''COIN_SWAP_WITHDRAW'', Income_type_coin_swap_withdraw),
      (''POSITION_LIMIT_INCREASE_FEE'', Income_type_position_limit_increase_fee)]"

datatype futures_data_period_t =
    Futures_data_period_m5
  | Futures_data_period_m15
  | Futures_data_period_m30
  | Futures_data_period_h1
  | Futures_data_period_h2
  | Futures_data_period_h4
  | Futures_data_period_h6
  | Futures_data_period_h12
  | Futures_data_period_d1

fun futures_data_period_t_value :: "futures_data_period_t \<Rightarrow> nat" where
  "futures_data_period_t_value Futures_data_period_m5 = 0"
| "futures_data_period_t_value Futures_data_period_m15 = 1"
| "futures_data_period_t_value Futures_data_period_m30 = 2"
| "futures_data_period_t_value Futures_data_period_h1 = 3"
| "futures_data_period_t_value Futures_data_period_h2 = 4"
| "futures_data_period_t_value Futures_data_period_h4 = 5"
| "futures_data_period_t_value Futures_data_period_h6 = 6"
| "futures_data_period_t_value Futures_data_period_h12 = 7"
| "futures_data_period_t_value Futures_data_period_d1 = 8"

definition futures_data_period_t_table :: "(string \<times> futures_data_period_t) list" where [wire_defs]:
  "futures_data_period_t_table =
     [(''5m'', Futures_data_period_m5),
      (''15m'', Futures_data_period_m15),
      (''30m'', Futures_data_period_m30),
      (''1h'', Futures_data_period_h1),
      (''2h'', Futures_data_period_h2),
      (''4h'', Futures_data_period_h4),
      (''6h'', Futures_data_period_h6),
      (''12h'', Futures_data_period_h12),
      (''1d'', Futures_data_period_d1)]"

datatype execution_type_t =
    Execution_type_new_order
  | Execution_type_partial_fill
  | Execution_type_fill
  | Execution_type_canceled
  | Execution_type_rejected
  | Execution_type_expired
  | Execution_type_trade

fun execution_type_t_value :: "execution_type_t \<Rightarrow> nat" where
  "execution_type_t_value Execution_type_new_order = 0"
| "execution_type_t_value Execution_type_partial_fill = 1"
| "execution_type_t_value Execution_type_fill = 2"
| "execution_type_t_value Execution_type_canceled = 3"
| "execution_type_t_value Execution_type_rejected = 4"
| "execution_type_t_value Execution_type_expired = 5"
| "execution_type_t_value Execution_type_trade = 6"

definition execution_type_t_table :: "(string \<times> execution_type_t) list" where [wire_defs]:
  "execution_type_t_table =
     [(''NEW'', Execution_type_new_order),
      (''PARTIAL_FILL'', Execution_type_partial_fill),
      (''FILL'', Execution_type_fill),
      (''CANCELED'', Execution_type_canceled),
      (''REJECTED'', Execution_type_rejected),
      (''EXPIRED'', Execution_type_expired),
      (''TRADE'', Execution_type_trade)]"

datatype rate_limit_type_t =
    Rate_limit_type_request_weight
  | Rate_limit_type_orders
  | Rate_limit_type_orders_1s
  | Rate_limit_type_orders_1m
  | Rate_limit_type_orders_1h
  | Rate_limit_type_orders_1d

fun rate_limit_type_t_value :: "rate_limit_type_t \<Rightarrow> nat" where
  "rate_limit_type_t_value Rate_limit_type_request_weight = 0"
| "rate_limit_type_t_value Rate_limit_type_orders = 1"
| "rate_limit_type_t_value Rate_limit_type_orders_1s = 2"
| "rate_limit_type_t_value Rate_limit_type_orders_1m = 3"
| "rate_limit_type_t_value Rate_limit_type_orders_1h = 4"
| "rate_limit_type_t_value Rate_limit_type_orders_1d = 5"

definition rate_limit_type_t_table :: "(string \<times> rate_limit_type_t) list" where [wire_defs]:
  "rate_limit_type_t_table =
     [(''REQUEST_WEIGHT'', Rate_limit_type_request_weight),
      (''ORDERS'', Rate_limit_type_orders),
      (''ORDERS_1S'', Rate_limit_type_orders_1s),
      (''ORDERS_1M'', Rate_limit_type_orders_1m),
      (''ORDERS_1H'', Rate_limit_type_orders_1h),
      (''ORDERS_1D'', Rate_limit_type_orders_1d)]"

datatype rate_limit_interval_t =
    Rate_limit_interval_second
  | Rate_limit_interval_minute
  | Rate_limit_interval_hour
  | Rate_limit_interval_day

fun rate_limit_interval_t_value :: "rate_limit_interval_t \<Rightarrow> nat" where
  "rate_limit_interval_t_value Rate_limit_interval_second = 0"
| "rate_limit_interval_t_value Rate_limit_interval_minute = 1"
| "rate_limit_interval_t_value Rate_limit_interval_hour = 2"
| "rate_limit_interval_t_value Rate_limit_interval_day = 3"

definition rate_limit_interval_t_table :: "(string \<times> rate_limit_interval_t) list" where [wire_defs]:
  "rate_limit_interval_t_table =
     [(''SECOND'', Rate_limit_interval_second),
      (''MINUTE'', Rate_limit_interval_minute),
      (''HOUR'', Rate_limit_interval_hour),
      (''DAY'', Rate_limit_interval_day)]"

datatype auto_close_type_t =
    Auto_close_type_liquidation
  | Auto_close_type_adl

fun auto_close_type_t_value :: "auto_close_type_t \<Rightarrow> nat" where
  "auto_close_type_t_value Auto_close_type_liquidation = 0"
| "auto_close_type_t_value Auto_close_type_adl = 1"

definition auto_close_type_t_table :: "(string \<times> auto_close_type_t) list" where [wire_defs]:
  "auto_close_type_t_table =
     [(''LIQUIDATION'', Auto_close_type_liquidation),
      (''ADL'', Auto_close_type_adl)]"

datatype delta_type_t =
    Delta_type_add
  | Delta_type_reduce

fun delta_type_t_value :: "delta_type_t \<Rightarrow> nat" where
  "delta_type_t_value Delta_type_add = 1"
| "delta_type_t_value Delta_type_reduce = 2"

definition delta_type_t_table :: "(string \<times> delta_type_t) list" where [wire_defs]:
  "delta_type_t_table =
     [(''1'', Delta_type_add),
      (''2'', Delta_type_reduce)]"

datatype market_event_type_t =
    Market_event_type_agg_trade
  | Market_event_type_mark_price_update
  | Market_event_type_depth_update
  | Market_event_type_mini_ticker_24hr
  | Market_event_type_ticker_24hr
  | Market_event_type_force_order
  | Market_event_type_kline
  | Market_event_type_continuous_kline
  | Market_event_type_composite_index
  | Market_event_type_contract_info
  | Market_event_type_asset_index_update
  | Market_event_type_book_ticker
  | Market_event_type_equity_update
  | Market_event_type_commodity_update
  | Market_event_type_trading_session

fun market_event_type_t_value :: "market_event_type_t \<Rightarrow> nat" where
  "market_event_type_t_value Market_event_type_agg_trade = 0"
| "market_event_type_t_value Market_event_type_mark_price_update = 1"
| "market_event_type_t_value Market_event_type_depth_update = 2"
| "market_event_type_t_value Market_event_type_mini_ticker_24hr = 3"
| "market_event_type_t_value Market_event_type_ticker_24hr = 4"
| "market_event_type_t_value Market_event_type_force_order = 5"
| "market_event_type_t_value Market_event_type_kline = 6"
| "market_event_type_t_value Market_event_type_continuous_kline = 7"
| "market_event_type_t_value Market_event_type_composite_index = 8"
| "market_event_type_t_value Market_event_type_contract_info = 9"
| "market_event_type_t_value Market_event_type_asset_index_update = 10"
| "market_event_type_t_value Market_event_type_book_ticker = 11"
| "market_event_type_t_value Market_event_type_equity_update = 12"
| "market_event_type_t_value Market_event_type_commodity_update = 13"
| "market_event_type_t_value Market_event_type_trading_session = 14"

definition market_event_type_t_table :: "(string \<times> market_event_type_t) list" where [wire_defs]:
  "market_event_type_t_table =
     [(''aggTrade'', Market_event_type_agg_trade),
      (''markPriceUpdate'', Market_event_type_mark_price_update),
      (''depthUpdate'', Market_event_type_depth_update),
      (''24hrMiniTicker'', Market_event_type_mini_ticker_24hr),
      (''24hrTicker'', Market_event_type_ticker_24hr),
      (''forceOrder'', Market_event_type_force_order),
      (''kline'', Market_event_type_kline),
      (''continuous_kline'', Market_event_type_continuous_kline),
      (''compositeIndex'', Market_event_type_composite_index),
      (''contractInfo'', Market_event_type_contract_info),
      (''assetIndexUpdate'', Market_event_type_asset_index_update),
      (''bookTicker'', Market_event_type_book_ticker),
      (''EquityUpdate'', Market_event_type_equity_update),
      (''CommodityUpdate'', Market_event_type_commodity_update),
      (''tradingSession'', Market_event_type_trading_session)]"

datatype user_event_type_t =
    User_event_type_account_update
  | User_event_type_order_trade_update
  | User_event_type_margin_call
  | User_event_type_listen_key_expired
  | User_event_type_account_config_update
  | User_event_type_trade_lite
  | User_event_type_algo_update
  | User_event_type_conditional_order_trigger_reject
  | User_event_type_grid_update
  | User_event_type_strategy_update

fun user_event_type_t_value :: "user_event_type_t \<Rightarrow> nat" where
  "user_event_type_t_value User_event_type_account_update = 0"
| "user_event_type_t_value User_event_type_order_trade_update = 1"
| "user_event_type_t_value User_event_type_margin_call = 2"
| "user_event_type_t_value User_event_type_listen_key_expired = 3"
| "user_event_type_t_value User_event_type_account_config_update = 4"
| "user_event_type_t_value User_event_type_trade_lite = 5"
| "user_event_type_t_value User_event_type_algo_update = 6"
| "user_event_type_t_value User_event_type_conditional_order_trigger_reject = 7"
| "user_event_type_t_value User_event_type_grid_update = 8"
| "user_event_type_t_value User_event_type_strategy_update = 9"

definition user_event_type_t_table :: "(string \<times> user_event_type_t) list" where [wire_defs]:
  "user_event_type_t_table =
     [(''ACCOUNT_UPDATE'', User_event_type_account_update),
      (''ORDER_TRADE_UPDATE'', User_event_type_order_trade_update),
      (''MARGIN_CALL'', User_event_type_margin_call),
      (''listenKeyExpired'', User_event_type_listen_key_expired),
      (''ACCOUNT_CONFIG_UPDATE'', User_event_type_account_config_update),
      (''TRADE_LITE'', User_event_type_trade_lite),
      (''ALGO_UPDATE'', User_event_type_algo_update),
      (''CONDITIONAL_ORDER_TRIGGER_REJECT'', User_event_type_conditional_order_trigger_reject),
      (''GRID_UPDATE'', User_event_type_grid_update),
      (''STRATEGY_UPDATE'', User_event_type_strategy_update)]"

datatype algo_type_t =
    Algo_type_twap
  | Algo_type_vp

fun algo_type_t_value :: "algo_type_t \<Rightarrow> nat" where
  "algo_type_t_value Algo_type_twap = 0"
| "algo_type_t_value Algo_type_vp = 1"

definition algo_type_t_table :: "(string \<times> algo_type_t) list" where [wire_defs]:
  "algo_type_t_table =
     [(''TWAP'', Algo_type_twap),
      (''VP'', Algo_type_vp)]"

datatype algo_status_t =
    Algo_status_working
  | Algo_status_cancelled
  | Algo_status_rejected
  | Algo_status_expired
  | Algo_status_triggered

fun algo_status_t_value :: "algo_status_t \<Rightarrow> nat" where
  "algo_status_t_value Algo_status_working = 0"
| "algo_status_t_value Algo_status_cancelled = 1"
| "algo_status_t_value Algo_status_rejected = 2"
| "algo_status_t_value Algo_status_expired = 3"
| "algo_status_t_value Algo_status_triggered = 4"

definition algo_status_t_table :: "(string \<times> algo_status_t) list" where [wire_defs]:
  "algo_status_t_table =
     [(''WORKING'', Algo_status_working),
      (''CANCELLED'', Algo_status_cancelled),
      (''REJECTED'', Algo_status_rejected),
      (''EXPIRED'', Algo_status_expired),
      (''TRIGGERED'', Algo_status_triggered)]"

datatype reason_type_t =
    Reason_type_deposit
  | Reason_type_withdraw
  | Reason_type_order
  | Reason_type_funding_fee
  | Reason_type_withdraw_reject
  | Reason_type_adjustment
  | Reason_type_insurance_clear
  | Reason_type_admin_deposit
  | Reason_type_admin_withdraw
  | Reason_type_margin_transfer
  | Reason_type_margin_type_change
  | Reason_type_asset_transfer
  | Reason_type_options_premium_fee
  | Reason_type_options_settle_profit
  | Reason_type_auto_exchange
  | Reason_type_coin_swap_deposit
  | Reason_type_coin_swap_withdraw

fun reason_type_t_value :: "reason_type_t \<Rightarrow> nat" where
  "reason_type_t_value Reason_type_deposit = 0"
| "reason_type_t_value Reason_type_withdraw = 1"
| "reason_type_t_value Reason_type_order = 2"
| "reason_type_t_value Reason_type_funding_fee = 3"
| "reason_type_t_value Reason_type_withdraw_reject = 4"
| "reason_type_t_value Reason_type_adjustment = 5"
| "reason_type_t_value Reason_type_insurance_clear = 6"
| "reason_type_t_value Reason_type_admin_deposit = 7"
| "reason_type_t_value Reason_type_admin_withdraw = 8"
| "reason_type_t_value Reason_type_margin_transfer = 9"
| "reason_type_t_value Reason_type_margin_type_change = 10"
| "reason_type_t_value Reason_type_asset_transfer = 11"
| "reason_type_t_value Reason_type_options_premium_fee = 12"
| "reason_type_t_value Reason_type_options_settle_profit = 13"
| "reason_type_t_value Reason_type_auto_exchange = 14"
| "reason_type_t_value Reason_type_coin_swap_deposit = 15"
| "reason_type_t_value Reason_type_coin_swap_withdraw = 16"

definition reason_type_t_table :: "(string \<times> reason_type_t) list" where [wire_defs]:
  "reason_type_t_table =
     [(''DEPOSIT'', Reason_type_deposit),
      (''WITHDRAW'', Reason_type_withdraw),
      (''ORDER'', Reason_type_order),
      (''FUNDING_FEE'', Reason_type_funding_fee),
      (''WITHDRAW_REJECT'', Reason_type_withdraw_reject),
      (''ADJUSTMENT'', Reason_type_adjustment),
      (''INSURANCE_CLEAR'', Reason_type_insurance_clear),
      (''ADMIN_DEPOSIT'', Reason_type_admin_deposit),
      (''ADMIN_WITHDRAW'', Reason_type_admin_withdraw),
      (''MARGIN_TRANSFER'', Reason_type_margin_transfer),
      (''MARGIN_TYPE_CHANGE'', Reason_type_margin_type_change),
      (''ASSET_TRANSFER'', Reason_type_asset_transfer),
      (''OPTIONS_PREMIUM_FEE'', Reason_type_options_premium_fee),
      (''OPTIONS_SETTLE_PROFIT'', Reason_type_options_settle_profit),
      (''AUTO_EXCHANGE'', Reason_type_auto_exchange),
      (''COIN_SWAP_DEPOSIT'', Reason_type_coin_swap_deposit),
      (''COIN_SWAP_WITHDRAW'', Reason_type_coin_swap_withdraw)]"

datatype session_type_t =
    Session_type_pre_market
  | Session_type_regular
  | Session_type_after_market
  | Session_type_overnight
  | Session_type_no_trading

fun session_type_t_value :: "session_type_t \<Rightarrow> nat" where
  "session_type_t_value Session_type_pre_market = 0"
| "session_type_t_value Session_type_regular = 1"
| "session_type_t_value Session_type_after_market = 2"
| "session_type_t_value Session_type_overnight = 3"
| "session_type_t_value Session_type_no_trading = 4"

definition session_type_t_table :: "(string \<times> session_type_t) list" where [wire_defs]:
  "session_type_t_table =
     [(''PRE_MARKET'', Session_type_pre_market),
      (''REGULAR'', Session_type_regular),
      (''AFTER_MARKET'', Session_type_after_market),
      (''OVERNIGHT'', Session_type_overnight),
      (''NO_TRADING'', Session_type_no_trading)]"

datatype strategy_type_t =
    Strategy_type_grid

fun strategy_type_t_value :: "strategy_type_t \<Rightarrow> nat" where
  "strategy_type_t_value Strategy_type_grid = 0"

definition strategy_type_t_table :: "(string \<times> strategy_type_t) list" where [wire_defs]:
  "strategy_type_t_table =
     [(''GRID'', Strategy_type_grid)]"

datatype strategy_status_t =
    Strategy_status_new_strategy
  | Strategy_status_working
  | Strategy_status_cancelled
  | Strategy_status_expired

fun strategy_status_t_value :: "strategy_status_t \<Rightarrow> nat" where
  "strategy_status_t_value Strategy_status_new_strategy = 0"
| "strategy_status_t_value Strategy_status_working = 1"
| "strategy_status_t_value Strategy_status_cancelled = 2"
| "strategy_status_t_value Strategy_status_expired = 3"

definition strategy_status_t_table :: "(string \<times> strategy_status_t) list" where [wire_defs]:
  "strategy_status_t_table =
     [(''NEW'', Strategy_status_new_strategy),
      (''WORKING'', Strategy_status_working),
      (''CANCELLED'', Strategy_status_cancelled),
      (''EXPIRED'', Strategy_status_expired)]"

section \<open>Every table is a wire enumeration\<close>

interpretation security_type_enum: wire_enum security_type_t_table security_type_t_value
proof unfold_locales
  show "v \<in> snd ` set security_type_t_table" for v by (cases v) (simp_all add: wire_defs)
qed (simp_all add: wire_defs)

interpretation order_side_enum: wire_enum order_side_t_table order_side_t_value
proof unfold_locales
  show "v \<in> snd ` set order_side_t_table" for v by (cases v) (simp_all add: wire_defs)
qed (simp_all add: wire_defs)

interpretation order_type_enum: wire_enum order_type_t_table order_type_t_value
proof unfold_locales
  show "v \<in> snd ` set order_type_t_table" for v by (cases v) (simp_all add: wire_defs)
qed (simp_all add: wire_defs)

interpretation time_in_force_enum: wire_enum time_in_force_t_table time_in_force_t_value
proof unfold_locales
  show "v \<in> snd ` set time_in_force_t_table" for v by (cases v) (simp_all add: wire_defs)
qed (simp_all add: wire_defs)

interpretation kline_interval_enum: wire_enum kline_interval_t_table kline_interval_t_value
proof unfold_locales
  show "v \<in> snd ` set kline_interval_t_table" for v by (cases v) (simp_all add: wire_defs)
qed (simp_all add: wire_defs)

interpretation position_side_enum: wire_enum position_side_t_table position_side_t_value
proof unfold_locales
  show "v \<in> snd ` set position_side_t_table" for v by (cases v) (simp_all add: wire_defs)
qed (simp_all add: wire_defs)

interpretation working_type_enum: wire_enum working_type_t_table working_type_t_value
proof unfold_locales
  show "v \<in> snd ` set working_type_t_table" for v by (cases v) (simp_all add: wire_defs)
qed (simp_all add: wire_defs)

interpretation response_type_enum: wire_enum response_type_t_table response_type_t_value
proof unfold_locales
  show "v \<in> snd ` set response_type_t_table" for v by (cases v) (simp_all add: wire_defs)
qed (simp_all add: wire_defs)

interpretation margin_type_enum: wire_enum margin_type_t_table margin_type_t_value
proof unfold_locales
  show "v \<in> snd ` set margin_type_t_table" for v by (cases v) (simp_all add: wire_defs)
qed (simp_all add: wire_defs)

interpretation futures_type_enum: wire_enum futures_type_t_table futures_type_t_value
proof unfold_locales
  show "v \<in> snd ` set futures_type_t_table" for v by (cases v) (simp_all add: wire_defs)
qed (simp_all add: wire_defs)

interpretation position_control_side_enum: wire_enum position_control_side_t_table position_control_side_t_value
proof unfold_locales
  show "v \<in> snd ` set position_control_side_t_table" for v by (cases v) (simp_all add: wire_defs)
qed (simp_all add: wire_defs)

interpretation trading_permission_enum: wire_enum trading_permission_t_table trading_permission_t_value
proof unfold_locales
  show "v \<in> snd ` set trading_permission_t_table" for v by (cases v) (simp_all add: wire_defs)
qed (simp_all add: wire_defs)

interpretation contract_type_enum: wire_enum contract_type_t_table contract_type_t_value
proof unfold_locales
  show "v \<in> snd ` set contract_type_t_table" for v by (cases v) (simp_all add: wire_defs)
qed (simp_all add: wire_defs)

interpretation contract_status_enum: wire_enum contract_status_t_table contract_status_t_value
proof unfold_locales
  show "v \<in> snd ` set contract_status_t_table" for v by (cases v) (simp_all add: wire_defs)
qed (simp_all add: wire_defs)

interpretation order_status_enum: wire_enum order_status_t_table order_status_t_value
proof unfold_locales
  show "v \<in> snd ` set order_status_t_table" for v by (cases v) (simp_all add: wire_defs)
qed (simp_all add: wire_defs)

interpretation stp_mode_enum: wire_enum stp_mode_t_table stp_mode_t_value
proof unfold_locales
  show "v \<in> snd ` set stp_mode_t_table" for v by (cases v) (simp_all add: wire_defs)
qed (simp_all add: wire_defs)

interpretation price_match_enum: wire_enum price_match_t_table price_match_t_value
proof unfold_locales
  show "v \<in> snd ` set price_match_t_table" for v by (cases v) (simp_all add: wire_defs)
qed (simp_all add: wire_defs)

interpretation income_type_enum: wire_enum income_type_t_table income_type_t_value
proof unfold_locales
  show "v \<in> snd ` set income_type_t_table" for v by (cases v) (simp_all add: wire_defs)
qed (simp_all add: wire_defs)

interpretation futures_data_period_enum: wire_enum futures_data_period_t_table futures_data_period_t_value
proof unfold_locales
  show "v \<in> snd ` set futures_data_period_t_table" for v by (cases v) (simp_all add: wire_defs)
qed (simp_all add: wire_defs)

interpretation execution_type_enum: wire_enum execution_type_t_table execution_type_t_value
proof unfold_locales
  show "v \<in> snd ` set execution_type_t_table" for v by (cases v) (simp_all add: wire_defs)
qed (simp_all add: wire_defs)

interpretation rate_limit_type_enum: wire_enum rate_limit_type_t_table rate_limit_type_t_value
proof unfold_locales
  show "v \<in> snd ` set rate_limit_type_t_table" for v by (cases v) (simp_all add: wire_defs)
qed (simp_all add: wire_defs)

interpretation rate_limit_interval_enum: wire_enum rate_limit_interval_t_table rate_limit_interval_t_value
proof unfold_locales
  show "v \<in> snd ` set rate_limit_interval_t_table" for v by (cases v) (simp_all add: wire_defs)
qed (simp_all add: wire_defs)

interpretation auto_close_type_enum: wire_enum auto_close_type_t_table auto_close_type_t_value
proof unfold_locales
  show "v \<in> snd ` set auto_close_type_t_table" for v by (cases v) (simp_all add: wire_defs)
qed (simp_all add: wire_defs)

interpretation delta_type_enum: wire_enum delta_type_t_table delta_type_t_value
proof unfold_locales
  show "v \<in> snd ` set delta_type_t_table" for v by (cases v) (simp_all add: wire_defs)
qed (simp_all add: wire_defs)

interpretation market_event_type_enum: wire_enum market_event_type_t_table market_event_type_t_value
proof unfold_locales
  show "v \<in> snd ` set market_event_type_t_table" for v by (cases v) (simp_all add: wire_defs)
qed (simp_all add: wire_defs)

interpretation user_event_type_enum: wire_enum user_event_type_t_table user_event_type_t_value
proof unfold_locales
  show "v \<in> snd ` set user_event_type_t_table" for v by (cases v) (simp_all add: wire_defs)
qed (simp_all add: wire_defs)

interpretation algo_type_enum: wire_enum algo_type_t_table algo_type_t_value
proof unfold_locales
  show "v \<in> snd ` set algo_type_t_table" for v by (cases v) (simp_all add: wire_defs)
qed (simp_all add: wire_defs)

interpretation algo_status_enum: wire_enum algo_status_t_table algo_status_t_value
proof unfold_locales
  show "v \<in> snd ` set algo_status_t_table" for v by (cases v) (simp_all add: wire_defs)
qed (simp_all add: wire_defs)

interpretation reason_type_enum: wire_enum reason_type_t_table reason_type_t_value
proof unfold_locales
  show "v \<in> snd ` set reason_type_t_table" for v by (cases v) (simp_all add: wire_defs)
qed (simp_all add: wire_defs)

interpretation session_type_enum: wire_enum session_type_t_table session_type_t_value
proof unfold_locales
  show "v \<in> snd ` set session_type_t_table" for v by (cases v) (simp_all add: wire_defs)
qed (simp_all add: wire_defs)

interpretation strategy_type_enum: wire_enum strategy_type_t_table strategy_type_t_value
proof unfold_locales
  show "v \<in> snd ` set strategy_type_t_table" for v by (cases v) (simp_all add: wire_defs)
qed (simp_all add: wire_defs)

interpretation strategy_status_enum: wire_enum strategy_status_t_table strategy_status_t_value
proof unfold_locales
  show "v \<in> snd ` set strategy_status_t_table" for v by (cases v) (simp_all add: wire_defs)
qed (simp_all add: wire_defs)

lemmas enum_roundtrips =
  security_type_enum.roundtrip
  order_side_enum.roundtrip
  order_type_enum.roundtrip
  time_in_force_enum.roundtrip
  kline_interval_enum.roundtrip
  position_side_enum.roundtrip
  working_type_enum.roundtrip
  response_type_enum.roundtrip
  margin_type_enum.roundtrip
  futures_type_enum.roundtrip
  position_control_side_enum.roundtrip
  trading_permission_enum.roundtrip
  contract_type_enum.roundtrip
  contract_status_enum.roundtrip
  order_status_enum.roundtrip
  stp_mode_enum.roundtrip
  price_match_enum.roundtrip
  income_type_enum.roundtrip
  futures_data_period_enum.roundtrip
  execution_type_enum.roundtrip
  rate_limit_type_enum.roundtrip
  rate_limit_interval_enum.roundtrip
  auto_close_type_enum.roundtrip
  delta_type_enum.roundtrip
  market_event_type_enum.roundtrip
  user_event_type_enum.roundtrip
  algo_type_enum.roundtrip
  algo_status_enum.roundtrip
  reason_type_enum.roundtrip
  session_type_enum.roundtrip
  strategy_type_enum.roundtrip
  strategy_status_enum.roundtrip

text \<open>
  For every enumeration of the API, converting a value to its wire name never throws, the
  name reads back as the same value, and two values never share the name they are written with.
\<close>

lemma enums_roundtrip:
  "wire_roundtrip security_type_t_table security_type_t_value \<and>
   wire_roundtrip order_side_t_table order_side_t_value \<and>
   wire_roundtrip order_type_t_table order_type_t_value \<and>
   wire_roundtrip time_in_force_t_table time_in_force_t_value \<and>
   wire_roundtrip kline_interval_t_table kline_interval_t_value \<and>
   wire_roundtrip position_side_t_table position_side_t_value \<and>
   wire_roundtrip working_type_t_table working_type_t_value \<and>
   wire_roundtrip response_type_t_table response_type_t_value \<and>
   wire_roundtrip margin_type_t_table margin_type_t_value \<and>
   wire_roundtrip futures_type_t_table futures_type_t_value \<and>
   wire_roundtrip position_control_side_t_table position_control_side_t_value \<and>
   wire_roundtrip trading_permission_t_table trading_permission_t_value \<and>
   wire_roundtrip contract_type_t_table contract_type_t_value \<and>
   wire_roundtrip contract_status_t_table contract_status_t_value \<and>
   wire_roundtrip order_status_t_table order_status_t_value \<and>
   wire_roundtrip stp_mode_t_table stp_mode_t_value \<and>
   wire_roundtrip price_match_t_table price_match_t_value \<and>
   wire_roundtrip income_type_t_table income_type_t_value \<and>
   wire_roundtrip futures_data_period_t_table futures_data_period_t_value \<and>
   wire_roundtrip execution_type_t_table execution_type_t_value \<and>
   wire_roundtrip rate_limit_type_t_table rate_limit_type_t_value \<and>
   wire_roundtrip rate_limit_interval_t_table rate_limit_interval_t_value \<and>
   wire_roundtrip auto_close_type_t_table auto_close_type_t_value \<and>
   wire_roundtrip delta_type_t_table delta_type_t_value \<and>
   wire_roundtrip market_event_type_t_table market_event_type_t_value \<and>
   wire_roundtrip user_event_type_t_table user_event_type_t_value \<and>
   wire_roundtrip algo_type_t_table algo_type_t_value \<and>
   wire_roundtrip algo_status_t_table algo_status_t_value \<and>
   wire_roundtrip reason_type_t_table reason_type_t_value \<and>
   wire_roundtrip session_type_t_table session_type_t_value \<and>
   wire_roundtrip strategy_type_t_table strategy_type_t_value \<and>
   wire_roundtrip strategy_status_t_table strategy_status_t_value"
  by (intro conjI enum_roundtrips)

end
