(* ===== verification/Enum_Set.thy ===== *)
theory Enum_Set
  imports Enums
begin

text \<open>
  The bitset-backed set of enumerators, \<^verbatim>\<open>types/detail/enum_set.hpp\<close>. The bitset is the
  list of its bits; \<open>val\<close> is the enumeration's integer value and the capacity is the
  number of entries of its table. A failed \<^verbatim>\<open>assert\<close> is an exception of the model. The
  locale \<open>bit_enum\<close> has the compile-time check of the class as its assumption and shows that the
  operations implement a set of enumerators; it is interpreted for the three enumerations the
  sources use in sets.
\<close>

section \<open>The class\<close>

definition enum_capacity :: "(string \<times> 'e) list \<Rightarrow> nat" where
  "enum_capacity table = length table"

definition enum_values_fit :: "(string \<times> 'e) list \<Rightarrow> ('e \<Rightarrow> nat) \<Rightarrow> nat \<Rightarrow> bool" where
  "enum_values_fit table val capacity \<longleftrightarrow> list_all (\<lambda>e. val (snd e) < capacity) table"

type_synonym bits = "bool list"

definition es_empty :: "nat \<Rightarrow> bits" where
  "es_empty capacity = replicate capacity False"

definition es_clear :: "bits \<Rightarrow> bits" where
  "es_clear b = replicate (length b) False"

definition es_contains :: "('e \<Rightarrow> nat) \<Rightarrow> 'e \<Rightarrow> bits \<Rightarrow> bool" where
  "es_contains val e b \<longleftrightarrow> val e < length b \<and> b ! val e"

definition es_add :: "('e \<Rightarrow> nat) \<Rightarrow> 'e \<Rightarrow> bits \<Rightarrow> bits may_throw" where
  "es_add val e b =
     (if val e < length b then Inr (b[val e := True]) else Inl (Runtime_error ''assertion failed''))"

definition es_remove :: "('e \<Rightarrow> nat) \<Rightarrow> 'e \<Rightarrow> bits \<Rightarrow> bits may_throw" where
  "es_remove val e b =
     (if val e < length b then Inr (b[val e := False]) else Inl (Runtime_error ''assertion failed''))"

text \<open>The constructor from an initializer list.\<close>

fun es_init :: "('e \<Rightarrow> nat) \<Rightarrow> 'e list \<Rightarrow> bits \<Rightarrow> bits may_throw" where
  "es_init val [] b = Inr b"
| "es_init val (e # es) b = bind_exn (es_add val e b) (es_init val es)"

definition es_size :: "bits \<Rightarrow> nat" where
  "es_size b = length (filter (\<lambda>x. x) b)"

definition es_is_empty :: "bits \<Rightarrow> bool" where
  "es_is_empty b \<longleftrightarrow> list_all Not b"

text \<open>The iterator: \<open>advance\<close> moves to the next set bit or to the end.\<close>

function advance :: "bits \<Rightarrow> nat \<Rightarrow> nat" where
  "advance b pos = (if pos < length b \<and> \<not> b ! pos then advance b (pos + 1) else pos)"
  by auto
termination
  by (relation "measure (\<lambda>(b, pos). length b - pos)") auto

declare advance.simps [simp del]

lemma advance_ge: "pos \<le> advance b pos"
proof (induction b pos rule: advance.induct)
  case (1 b pos)
  then show ?case by (subst advance.simps) auto
qed

lemma advance_stops: "advance b pos < length b \<Longrightarrow> b ! advance b pos"
proof (induction b pos rule: advance.induct)
  case (1 b pos)
  then show ?case by (subst advance.simps, subst (asm) (2) advance.simps) (auto split: if_splits)
qed

lemma advance_skips: "pos \<le> i \<Longrightarrow> i < advance b pos \<Longrightarrow> i < length b \<and> \<not> b ! i"
proof (induction b pos rule: advance.induct)
  case (1 b pos)
  then show ?case by (subst (asm) (2) advance.simps) (cases "i = pos"; auto split: if_splits)
qed

lemma advance_le: "pos \<le> length b \<Longrightarrow> advance b pos \<le> length b"
proof (induction b pos rule: advance.induct)
  case (1 b pos)
  then show ?case by (subst advance.simps) auto
qed

text \<open>A range-for over the set: the positions visited from \<open>begin()\<close> to \<open>end()\<close>.\<close>

function es_iterate :: "bits \<Rightarrow> nat \<Rightarrow> nat list" where
  "es_iterate b pos = (if pos < length b then pos # es_iterate b (advance b (pos + 1)) else [])"
  by auto
termination
proof (relation "measure (\<lambda>(b, pos). length b - pos)")
  fix b :: bits and pos assume "pos < length b"
  with advance_ge [of "pos + 1" b] show "((b, advance b (pos + 1)), b, pos) \<in> measure (\<lambda>(b, pos). length b - pos)"
    by simp
qed simp

declare es_iterate.simps [simp del]

definition es_elements :: "bits \<Rightarrow> nat list" where
  "es_elements b = es_iterate b (advance b 0)"

section \<open>The iterator visits the set bits in order\<close>

lemma filter_upt_skip:
  assumes "i \<le> j" "\<And>k. i \<le> k \<Longrightarrow> k < j \<Longrightarrow> \<not> P k"
  shows "filter P [i..<n] = filter P [j..<n]"
proof (cases "j \<le> n")
  case True
  then have "[i..<n] = [i..<j] @ [j..<n]" using assms(1) by (metis le_add_diff_inverse upt_add_eq_append)
  moreover have "filter P [i..<j] = []" using assms(2) by (auto simp: filter_empty_conv)
  ultimately show ?thesis by simp
next
  case False
  with assms show ?thesis by (auto simp: filter_empty_conv)
qed

lemma filter_advance: "filter (\<lambda>i. b ! i) [pos..<length b] = filter (\<lambda>i. b ! i) [advance b pos..<length b]"
  using advance_ge advance_skips by (intro filter_upt_skip) blast+

lemma es_iterate_filter:
  "pos < length b \<longrightarrow> b ! pos \<Longrightarrow> es_iterate b pos = filter (\<lambda>i. b ! i) [pos..<length b]"
proof (induction b pos rule: es_iterate.induct)
  case (1 b pos)
  show ?case
  proof (cases "pos < length b")
    case True
    then have "es_iterate b (advance b (pos + 1)) = filter (\<lambda>i. b ! i) [advance b (pos + 1)..<length b]"
      using "1.IH" advance_stops by blast
    with True "1.prems" filter_advance [of b "pos + 1"] show ?thesis
      by (simp add: es_iterate.simps [of b pos] upt_conv_Cons)
  qed (simp add: es_iterate.simps [of b pos])
qed

lemma es_elements_filter: "es_elements b = filter (\<lambda>i. b ! i) [0..<length b]"
  unfolding es_elements_def
  using es_iterate_filter [of "advance b 0" b] advance_stops [of b 0] filter_advance [of b 0] by simp

lemma es_size_elements: "es_size b = length (es_elements b)"
proof -
  have "b = map (\<lambda>i. b ! i) [0..<length b]" by (simp add: map_nth)
  then have "filter (\<lambda>x. x) b = map (\<lambda>i. b ! i) (filter (\<lambda>i. b ! i) [0..<length b])"
    by (metis comp_def filter_map filter_cong)
  then show ?thesis by (simp add: es_size_def es_elements_filter)
qed

section \<open>A set of enumerators\<close>

definition es_set :: "('e \<Rightarrow> nat) \<Rightarrow> bits \<Rightarrow> 'e set" where
  "es_set val b = {e. es_contains val e b}"

definition es_ok :: "(string \<times> 'e) list \<Rightarrow> ('e \<Rightarrow> nat) \<Rightarrow> bits \<Rightarrow> bool" where
  "es_ok table val b \<longleftrightarrow> length b = enum_capacity table \<and> (\<forall>i < length b. b ! i \<longrightarrow> i \<in> range val)"

locale bit_enum = wire_enum table val for table :: "(string \<times> 'e) list" and val :: "'e \<Rightarrow> nat" +
  assumes fit: "enum_values_fit table val (enum_capacity table)"
begin

lemma val_less: "val v < enum_capacity table"
  using fit complete [of v] by (auto simp: enum_values_fit_def list_all_iff)

lemma empty_ok: "es_ok table val (es_empty (enum_capacity table))" "es_set val (es_empty (enum_capacity table)) = {}"
  by (simp_all add: es_ok_def es_empty_def es_set_def es_contains_def)

lemma add_set:
  assumes "es_ok table val b"
  obtains b' where "es_add val v b = Inr b'" "es_ok table val b'" "es_set val b' = insert v (es_set val b)"
proof (rule that [of "b[val v := True]"])
qed (use assms val_less [of v] in
  \<open>auto simp: es_add_def es_ok_def es_set_def es_contains_def nth_list_update val_inject split: if_splits\<close>)

lemma remove_set:
  assumes "es_ok table val b"
  obtains b' where "es_remove val v b = Inr b'" "es_ok table val b'" "es_set val b' = es_set val b - {v}"
proof (rule that [of "b[val v := False]"])
qed (use assms val_less [of v] in
  \<open>auto simp: es_remove_def es_ok_def es_set_def es_contains_def nth_list_update val_inject split: if_splits\<close>)

lemma init_set:
  "es_ok table val b \<Longrightarrow> \<exists>b'. es_init val es b = Inr b' \<and> es_ok table val b' \<and> es_set val b' = set es \<union> es_set val b"
proof (induction es arbitrary: b)
  case (Cons e es)
  obtain b1 where "es_add val e b = Inr b1" "es_ok table val b1" "es_set val b1 = insert e (es_set val b)"
    using add_set [OF Cons.prems] .
  with Cons.IH [of b1] show ?case by auto
qed simp

lemma elements_set: "es_ok table val b \<Longrightarrow> set (es_elements b) = val ` es_set val b"
  by (auto simp: es_elements_filter es_ok_def es_set_def es_contains_def)

lemma elements_sorted: "sorted (es_elements b)" "distinct (es_elements b)"
  by (simp_all add: es_elements_filter sorted_wrt_filter)

lemma size_card: "es_ok table val b \<Longrightarrow> es_size b = card (es_set val b)"
proof -
  assume ok: "es_ok table val b"
  have "es_size b = card (val ` es_set val b)"
    using elements_set [OF ok] elements_sorted(2) [of b] by (metis distinct_card es_size_elements)
  also have "\<dots> = card (es_set val b)" by (intro card_image inj_onI) (simp add: val_inject)
  finally show ?thesis .
qed

lemma init_behaves:
  "\<exists>b. es_init val es (es_empty (enum_capacity table)) = Inr b \<and> es_ok table val b \<and> es_set val b = set es \<and>
     es_size b = card (set es) \<and> es_elements b = sorted_list_of_set (val ` set es)"
proof -
  obtain b where b: "es_init val es (es_empty (enum_capacity table)) = Inr b" "es_ok table val b" "es_set val b = set es"
    using init_set [OF empty_ok(1), of es] empty_ok(2) by auto
  have "es_elements b = sorted_list_of_set (set (es_elements b))"
    using elements_sorted by (simp add: sorted_list_of_set.idem_if_sorted_distinct)
  with b elements_set [OF b(2)] size_card [OF b(2)] show ?thesis by auto
qed

end

interpretation order_type_set: bit_enum order_type_t_table order_type_t_value
  by unfold_locales (simp add: enum_values_fit_def enum_capacity_def wire_defs)

interpretation time_in_force_set: bit_enum time_in_force_t_table time_in_force_t_value
  by unfold_locales (simp add: enum_values_fit_def enum_capacity_def wire_defs)

interpretation trading_permission_set: bit_enum trading_permission_t_table trading_permission_t_value
  by unfold_locales (simp add: enum_values_fit_def enum_capacity_def wire_defs)

text \<open>
  A set of order types behaves as a set. Any list of enumerators can be put into it without
  an assertion failing; it then contains exactly those, its size is their number, iteration
  visits each once in ascending order of value, and adding and removing have the effect on
  the set that their names say (the same laws hold for time-in-force and permission sets).
\<close>

lemma order_type_set_behaves:
  "\<exists>b. es_init order_type_t_value es (es_empty (enum_capacity order_type_t_table)) = Inr b \<and>
     es_set order_type_t_value b = set es \<and> es_size b = card (set es) \<and>
     es_elements b = sorted_list_of_set (order_type_t_value ` set es) \<and>
     (\<exists>b'. es_add order_type_t_value v b = Inr b' \<and> es_set order_type_t_value b' = insert v (set es)) \<and>
     (\<exists>b'. es_remove order_type_t_value v b = Inr b' \<and> es_set order_type_t_value b' = set es - {v})"
  using order_type_set.init_behaves [of es] order_type_set.add_set [of _ v] order_type_set.remove_set [of _ v]
  by metis

end
