(* ===== verification/Signing.thy ===== *)
theory Signing
  imports Ordered_Map Wire_Types "HOL-Library.List_Lexorder" "HOL-Library.Char_ord"
begin

text \<open>
  Request signing: \<^verbatim>\<open>signing.cpp\<close> and the settings of \<^verbatim>\<open>config.hpp\<close>. A query is the
  \<^verbatim>\<open>std::map<std::string, std::string>\<close> of the sources, the ordered list of its entries.
  OpenSSL is the record \<open>openssl\<close> of the functions the code calls; nothing is assumed of it.
  The reader of query strings in the second part is the receiving side's view and serves as the
  specification of the encoder.
\<close>

section \<open>Configuration\<close>

datatype sign_method_t = Sign_ed25519 | Sign_hmac

record config =
  rest_host :: string
  rest_port :: string
  rest_base_path :: string
  websocket_api_host :: string
  websocket_api_port :: string
  websocket_api_target :: string
  stream_host :: string
  stream_port :: string
  stream_base_target :: string
  combined_stream_target :: string
  api_key :: string
  secret_key :: string
  ed25519_private_key_pem :: string
  sign_method :: sign_method_t
  recv_window :: u64
  user_agent :: string
  ca_cert_file :: string
  connect_timeout_seconds :: int
  testnet :: bool

definition default_config :: config where
  "default_config =
     \<lparr>rest_host = ''fapi.binance.com'', rest_port = ''443'', rest_base_path = [],
      websocket_api_host = ''ws-fapi.binance.com'', websocket_api_port = ''443'',
      websocket_api_target = ''/ws-fapi/v1'',
      stream_host = ''fstream.binance.com'', stream_port = ''443'',
      stream_base_target = ''/ws'', combined_stream_target = ''/stream'',
      api_key = [], secret_key = [], ed25519_private_key_pem = [], sign_method = Sign_ed25519,
      recv_window = 5000, user_agent = ''binapi2-fapi/0.1.0'', ca_cert_file = [],
      connect_timeout_seconds = 10, testnet = False\<rparr>"

definition testnet_config :: config where
  "testnet_config =
     default_config\<lparr>rest_host := ''demo-fapi.binance.com'',
       websocket_api_host := ''testnet.binancefuture.com'', websocket_api_target := ''/ws-fapi/v1'',
       stream_host := ''fstream.binancefuture.com'', testnet := True\<rparr>"

section \<open>Encoding\<close>

type_synonym query_map = "(string, string) smap"

definition hex_char :: "nat \<Rightarrow> char" where
  "hex_char n = ''0123456789abcdef'' ! n"

definition to_hex :: "u8 list \<Rightarrow> string" where
  "to_hex data =
     concat (map (\<lambda>b. [hex_char (unat (drop_bit 4 b AND 0x0f)), hex_char (unat (b AND 0x0f))]) data)"

definition is_alnum :: "char \<Rightarrow> bool" where
  "is_alnum c \<longleftrightarrow> is_digit c \<or>
     (65 \<le> (of_char c :: nat) \<and> (of_char c :: nat) \<le> 90) \<or>
     (97 \<le> (of_char c :: nat) \<and> (of_char c :: nat) \<le> 122)"

definition unreserved :: "char \<Rightarrow> bool" where
  "unreserved c \<longleftrightarrow> is_alnum c \<or> c = CHR ''-'' \<or> c = CHR ''_'' \<or> c = CHR ''.'' \<or> c = CHR ''~''"

definition upper_hex_char :: "nat \<Rightarrow> char" where
  "upper_hex_char n = ''0123456789ABCDEF'' ! n"

definition percent_encode :: "string \<Rightarrow> string" where
  "percent_encode s =
     concat (map (\<lambda>ch. if unreserved ch then [ch]
                       else [CHR ''%'', upper_hex_char (of_char ch div 16), upper_hex_char (of_char ch mod 16)]) s)"

definition build_query_string :: "query_map \<Rightarrow> string" where
  "build_query_string query =
     foldl (\<lambda>out (key, v).
       (if out \<noteq> [] then out @ ''&'' else out) @ percent_encode key @ ''='' @ percent_encode v) [] query"

section \<open>Signing\<close>

definition query_put :: "string \<Rightarrow> string \<Rightarrow> query_map \<Rightarrow> query_map" where
  "query_put = map_put (<)"

definition inject_auth_query :: "u64 \<Rightarrow> timestamp_ms_t \<Rightarrow> query_map \<Rightarrow> query_map" where
  "inject_auth_query window timestamp query =
     query_put ''timestamp'' (timestamp_to_string timestamp)
       (query_put ''recvWindow'' (dec_digits (unat window)) query)"

record 'k openssl =
  ossl_hmac :: "string \<Rightarrow> string \<Rightarrow> u8 list"
  ossl_new_bio :: "string \<Rightarrow> bool"
  ossl_read_key :: "string \<Rightarrow> 'k option"
  ossl_new_ctx :: bool
  ossl_sign_size :: "'k \<Rightarrow> string \<Rightarrow> bool"
  ossl_sign :: "'k \<Rightarrow> string \<Rightarrow> u8 list option"
  ossl_base64 :: "u8 list \<Rightarrow> string"

definition hmac_sha256_hex :: "'k openssl \<Rightarrow> string \<Rightarrow> string \<Rightarrow> string" where
  "hmac_sha256_hex ossl key data = to_hex (ossl_hmac ossl key data)"

definition ed25519_sign_base64 :: "'k openssl \<Rightarrow> string \<Rightarrow> string \<Rightarrow> string may_throw" where
  "ed25519_sign_base64 ossl pem data =
     (if \<not> ossl_new_bio ossl pem then Inl (Runtime_error ''ed25519_sign: failed to create BIO'')
      else case ossl_read_key ossl pem of
        None \<Rightarrow> Inl (Runtime_error ''ed25519_sign: failed to parse Ed25519 private key PEM'')
      | Some pkey \<Rightarrow>
          if \<not> ossl_new_ctx ossl then Inl (Runtime_error ''ed25519_sign: failed to create EVP_MD_CTX'')
          else if \<not> ossl_sign_size ossl pkey data
          then Inl (Runtime_error ''ed25519_sign: EVP_DigestSign init failed'')
          else case ossl_sign ossl pkey data of
            None \<Rightarrow> Inl (Runtime_error ''ed25519_sign: EVP_DigestSign failed'')
          | Some sig \<Rightarrow> Inr (ossl_base64 ossl sig))"

definition sign_query_hmac :: "'k openssl \<Rightarrow> string \<Rightarrow> query_map \<Rightarrow> query_map" where
  "sign_query_hmac ossl secret query =
     query_put ''signature'' (hmac_sha256_hex ossl secret (build_query_string query)) query"

definition sign_query :: "'k openssl \<Rightarrow> config \<Rightarrow> query_map \<Rightarrow> query_map may_throw" where
  "sign_query ossl cfg query =
     (let canonical = build_query_string query in
      case sign_method cfg of
        Sign_ed25519 \<Rightarrow>
          bind_exn (ed25519_sign_base64 ossl (ed25519_private_key_pem cfg) canonical)
            (\<lambda>sig. Inr (query_put ''signature'' sig query))
      | Sign_hmac \<Rightarrow>
          Inr (query_put ''signature'' (hmac_sha256_hex ossl (secret_key cfg) canonical) query))"

section \<open>The query map\<close>

interpretation str_less: std_map "(<) :: string \<Rightarrow> string \<Rightarrow> bool"
  by unfold_locales auto

definition query_ok :: "query_map \<Rightarrow> bool" where
  "query_ok = map_ordered (<)"

abbreviation query_get :: "query_map \<Rightarrow> string \<Rightarrow> string option" where
  "query_get \<equiv> map_find (<)"

lemma query_put_ok [simp]: "query_ok q \<Longrightarrow> query_ok (query_put k v q)"
  by (simp add: query_ok_def query_put_def str_less.ordered_put)

lemma query_get_put [simp]: "query_get (query_put k v q) k' = (if k' = k then Some v else query_get q k')"
  by (simp add: query_put_def str_less.find_put_eq)

section \<open>Reading an encoded query back\<close>

definition unhex :: "char \<Rightarrow> nat" where
  "unhex c = (if is_digit c then of_char c - 48 else of_char c - 55)"

fun percent_decode :: "string \<Rightarrow> string" where
  "percent_decode (c # a # b # s) =
     (if c = CHR ''%'' then char_of (16 * unhex a + unhex b) # percent_decode s
      else c # percent_decode (a # b # s))"
| "percent_decode (c # s) = c # percent_decode s"
| "percent_decode [] = []"

lemma percent_decode_plain: "c \<noteq> CHR ''%'' \<Longrightarrow> percent_decode (c # s) = c # percent_decode s"
  by (cases s; cases "tl s") auto

lemma upper_hex_range: "n < 16 \<Longrightarrow> unhex (upper_hex_char n) = n \<and> is_alnum (upper_hex_char n)"
proof -
  have "\<forall>n \<in> set [0..<16]. unhex (upper_hex_char n) = n \<and> is_alnum (upper_hex_char n)" by code_simp
  then show "n < 16 \<Longrightarrow> ?thesis" by simp
qed

lemma unreserved_not_special:
  "unreserved c \<Longrightarrow> c \<noteq> CHR ''%'' \<and> c \<noteq> CHR ''&'' \<and> c \<noteq> CHR ''=''"
  by (auto simp: unreserved_def is_alnum_def is_digit_def)

lemma percent_decode_encode: "percent_decode (percent_encode s @ t) = s @ percent_decode t"
proof (induction s)
  case (Cons c s)
  have "(of_char c :: nat) < 256" by simp
  then have "unhex (upper_hex_char (of_char c div 16)) = of_char c div 16"
    "unhex (upper_hex_char (of_char c mod 16)) = of_char c mod 16"
    using upper_hex_range by (simp_all add: less_mult_imp_div_less)
  with Cons show ?case
    by (cases "unreserved c")
      (simp_all add: percent_encode_def percent_decode_plain unreserved_not_special)
qed (simp add: percent_encode_def)

lemma percent_encode_chars: "c \<in> set (percent_encode s) \<Longrightarrow> unreserved c \<or> c = CHR ''%''"
proof -
  have "upper_hex_char (of_char ch div 16) \<noteq> x \<or> unreserved x" "upper_hex_char (of_char ch mod 16) \<noteq> x \<or> unreserved x"
    for ch x using upper_hex_range [of "of_char ch div 16"] upper_hex_range [of "of_char ch mod 16"]
    by (auto simp: unreserved_def less_mult_imp_div_less)
  then show "c \<in> set (percent_encode s) \<Longrightarrow> ?thesis"
    by (auto simp: percent_encode_def split: if_splits)
qed

text \<open>Splitting a string at a separator, as a receiver does with \<open>&\<close> and \<open>=\<close>.\<close>

fun split_on :: "char \<Rightarrow> string \<Rightarrow> string list" where
  "split_on sep [] = [[]]"
| "split_on sep (c # s) =
     (if c = sep then [] # split_on sep s
      else case split_on sep s of [] \<Rightarrow> [[c]] | p # ps \<Rightarrow> (c # p) # ps)"

definition parse_pair :: "string \<Rightarrow> string \<times> string" where
  "parse_pair s = (percent_decode (takeWhile (\<lambda>c. c \<noteq> CHR ''='') s),
                   percent_decode (tl (dropWhile (\<lambda>c. c \<noteq> CHR ''='') s)))"

definition parse_query :: "string \<Rightarrow> query_map" where
  "parse_query s = (if s = [] then [] else map parse_pair (split_on (CHR ''&'') s))"

definition encode_pair :: "string \<times> string \<Rightarrow> string" where
  "encode_pair e = percent_encode (fst e) @ ''='' @ percent_encode (snd e)"

fun join_amp :: "string list \<Rightarrow> string" where
  "join_amp [] = []"
| "join_amp [s] = s"
| "join_amp (s # t # ss) = s @ ''&'' @ join_amp (t # ss)"

lemma join_amp_snoc: "ss \<noteq> [] \<Longrightarrow> join_amp (ss @ [s]) = join_amp ss @ ''&'' @ s"
  by (induction ss rule: join_amp.induct) auto

lemma encode_pair_not_Nil [simp]: "encode_pair e \<noteq> []"
  by (simp add: encode_pair_def)

lemma join_amp_Nil_iff: "list_all (\<lambda>s. s \<noteq> []) ss \<Longrightarrow> join_amp ss = [] \<longleftrightarrow> ss = []"
  by (induction ss rule: join_amp.induct) auto

lemma build_query_string_join: "build_query_string q = join_amp (map encode_pair q)"
proof (induction q rule: rev_induct)
  case (snoc e q)
  have "join_amp (map encode_pair q) = [] \<longleftrightarrow> q = []"
    using join_amp_Nil_iff [of "map encode_pair q"] by (simp add: list_all_iff)
  moreover have "build_query_string (q @ [e]) =
      (if build_query_string q \<noteq> [] then build_query_string q @ ''&'' else build_query_string q) @ encode_pair e"
    by (cases e) (simp add: build_query_string_def encode_pair_def)
  ultimately show ?case using snoc by (cases "q = []") (simp_all add: join_amp_snoc)
qed (simp add: build_query_string_def)

lemma split_on_no_sep: "sep \<notin> set s \<Longrightarrow> split_on sep s = [s]"
  by (induction s) auto

lemma split_on_append: "sep \<notin> set s \<Longrightarrow> split_on sep (s @ sep # t) = s # split_on sep t"
  by (induction s) auto

lemma encode_no_special: "CHR ''&'' \<notin> set (percent_encode s)" "CHR ''='' \<notin> set (percent_encode s)"
  using percent_encode_chars unreserved_not_special by force+

lemma encode_pair_no_amp: "CHR ''&'' \<notin> set (encode_pair e)"
  by (simp add: encode_pair_def encode_no_special)

lemma split_join: "ss \<noteq> [] \<Longrightarrow> list_all (\<lambda>s. CHR ''&'' \<notin> set s) ss \<Longrightarrow> split_on (CHR ''&'') (join_amp ss) = ss"
  by (induction ss rule: join_amp.induct) (auto simp: split_on_no_sep split_on_append)

lemma parse_encode_pair: "parse_pair (encode_pair e) = e"
proof -
  have no: "\<forall>c \<in> set (percent_encode (fst e)). c \<noteq> CHR ''=''" using encode_no_special(2) by metis
  then have "takeWhile (\<lambda>c. c \<noteq> CHR ''='') (encode_pair e) = percent_encode (fst e)"
    "dropWhile (\<lambda>c. c \<noteq> CHR ''='') (encode_pair e) = ''='' @ percent_encode (snd e)"
    by (auto simp: encode_pair_def takeWhile_append2 dropWhile_append2)
  with percent_decode_encode [of "fst e" "[]"] percent_decode_encode [of "snd e" "[]"] show ?thesis
    by (simp add: parse_pair_def)
qed

lemma parse_build: "parse_query (build_query_string q) = q"
proof (cases "q = []")
  case False
  then have "split_on (CHR ''&'') (build_query_string q) = map encode_pair q"
    unfolding build_query_string_join
    by (intro split_join) (simp_all add: list_all_iff encode_pair_no_amp)
  moreover have "build_query_string q \<noteq> []"
    using False join_amp_Nil_iff [of "map encode_pair q"] by (simp add: build_query_string_join list_all_iff)
  ultimately show ?thesis by (simp add: parse_query_def parse_encode_pair comp_def)
qed (simp add: parse_query_def build_query_string_def)

text \<open>
  C31: the canonical query string is unambiguous: the receiver that splits it at \<open>&\<close> and \<open>=\<close> and
  decodes the percent escapes gets back exactly the parameters, for arbitrary bytes in keys
  and values, so two queries with the same canonical string are the same query.
\<close>

theorem query_string_roundtrip:
  "parse_query (build_query_string q) = q \<and>
   (build_query_string q = build_query_string q' \<longleftrightarrow> q = q') \<and>
   list_all (\<lambda>c. unreserved c \<or> c = CHR ''%'') (percent_encode s) \<and> percent_decode (percent_encode s) = s"
proof (intro conjI)
  show "build_query_string q = build_query_string q' \<longleftrightarrow> q = q'" by (metis parse_build)
  show "list_all (\<lambda>c. unreserved c \<or> c = CHR ''%'') (percent_encode s)"
    by (simp add: list_all_iff percent_encode_chars)
qed (use parse_build percent_decode_encode [of s "[]"] in simp_all)

end
