(* ===== verification/Stream_Traits.thy ===== *)
theory Stream_Traits
  imports Enums Signing
begin

text \<open>
  Stream subscriptions and where they connect: the subscription structs of
  \<^verbatim>\<open>types/subscriptions.hpp\<close>, the URL categories of \<^verbatim>\<open>stream_category.hpp\<close> and the topic and
  category of each subscription from \<^verbatim>\<open>streams/stream_traits.hpp\<close>. The specialisations of the
  traits template become one function by cases on the subscription.
\<close>

section \<open>Categories\<close>

datatype stream_category_e = Public_category | Market_category | Private_category

definition category_single_target :: "stream_category_e \<Rightarrow> string" where
  "category_single_target c =
     (case c of Public_category \<Rightarrow> ''/public/ws'' | Market_category \<Rightarrow> ''/market/ws''
      | Private_category \<Rightarrow> ''/private/ws'')"

definition category_combined_target :: "stream_category_e \<Rightarrow> string" where
  "category_combined_target c =
     (case c of Public_category \<Rightarrow> ''/public/stream'' | Market_category \<Rightarrow> ''/market/stream''
      | Private_category \<Rightarrow> ''/private/stream'')"

definition category_to_string :: "stream_category_e \<Rightarrow> string" where
  "category_to_string c =
     (case c of Public_category \<Rightarrow> ''public'' | Market_category \<Rightarrow> ''market'' | Private_category \<Rightarrow> ''private'')"

section \<open>Subscriptions\<close>

datatype subscription =
    Aggregate_trade_subscription symbol_t
  | Book_ticker_subscription symbol_t
  | Mark_price_subscription symbol_t bool
  | Diff_book_depth_subscription symbol_t string
  | Mini_ticker_subscription symbol_t
  | All_market_mini_ticker_subscription
  | Ticker_subscription symbol_t
  | All_market_ticker_subscription
  | All_book_ticker_subscription
  | Liquidation_order_subscription symbol_t
  | All_market_liquidation_order_subscription
  | Partial_book_depth_subscription symbol_t int string
  | Kline_subscription symbol_t kline_interval_t
  | Continuous_contract_kline_subscription pair_t contract_type_t kline_interval_t
  | All_market_mark_price_subscription bool
  | Composite_index_subscription symbol_t
  | Contract_info_subscription
  | Asset_index_subscription symbol_t
  | All_asset_index_subscription
  | Trading_session_subscription
  | Rpi_diff_book_depth_subscription symbol_t

definition lower_char :: "char \<Rightarrow> char" where
  "lower_char c =
     (if 65 \<le> (of_char c :: nat) \<and> (of_char c :: nat) \<le> 90 then char_of ((of_char c :: nat) + 32) else c)"

definition to_lower :: "string \<Rightarrow> string" where
  "to_lower s = map lower_char s"

fun category :: "subscription \<Rightarrow> stream_category_e" where
  "category (Book_ticker_subscription _) = Public_category"
| "category (Diff_book_depth_subscription _ _) = Public_category"
| "category (Partial_book_depth_subscription _ _ _) = Public_category"
| "category (Rpi_diff_book_depth_subscription _) = Public_category"
| "category All_book_ticker_subscription = Public_category"
| "category _ = Market_category"

definition interval_name :: "kline_interval_t \<Rightarrow> string may_throw" where
  "interval_name = enum_to_string kline_interval_t_table kline_interval_t_value"

fun topic :: "subscription \<Rightarrow> string may_throw" where
  "topic (Aggregate_trade_subscription s) = Inr (to_lower (str s) @ ''@aggTrade'')"
| "topic (Book_ticker_subscription s) = Inr (to_lower (str s) @ ''@bookTicker'')"
| "topic (Mark_price_subscription s every_1s) =
     Inr (to_lower (str s) @ (if every_1s then ''@markPrice@1s'' else ''@markPrice''))"
| "topic (Mini_ticker_subscription s) = Inr (to_lower (str s) @ ''@miniTicker'')"
| "topic (Ticker_subscription s) = Inr (to_lower (str s) @ ''@ticker'')"
| "topic (Diff_book_depth_subscription s speed) = Inr (to_lower (str s) @ ''@depth@'' @ speed)"
| "topic (Partial_book_depth_subscription s levels speed) =
     Inr (to_lower (str s) @ ''@depth'' @ int_to_string levels @ ''@'' @ speed)"
| "topic (Kline_subscription s interval) =
     bind_exn (interval_name interval) (\<lambda>i. Inr (to_lower (str s) @ ''@kline_'' @ i))"
| "topic (Liquidation_order_subscription s) = Inr (to_lower (str s) @ ''@forceOrder'')"
| "topic (Composite_index_subscription s) = Inr (to_lower (str s) @ ''@compositeIndex'')"
| "topic (Asset_index_subscription s) = Inr (to_lower (str s) @ ''@assetIndex'')"
| "topic (Rpi_diff_book_depth_subscription s) = Inr (to_lower (str s) @ ''@rpiDepth'')"
| "topic All_market_mini_ticker_subscription = Inr ''!miniTicker@arr''"
| "topic All_market_ticker_subscription = Inr ''!ticker@arr''"
| "topic All_book_ticker_subscription = Inr ''!bookTicker''"
| "topic All_market_liquidation_order_subscription = Inr ''!forceOrder@arr''"
| "topic (All_market_mark_price_subscription every_1s) =
     Inr (if every_1s then ''!markPrice@arr@1s'' else ''!markPrice@arr'')"
| "topic Contract_info_subscription = Inr ''!contractInfo''"
| "topic All_asset_index_subscription = Inr ''!assetIndex@arr''"
| "topic Trading_session_subscription = Inr ''!tradingSession''"
| "topic (Continuous_contract_kline_subscription p contract interval) =
     bind_exn (enum_to_string contract_type_t_table contract_type_t_value contract) (\<lambda>c.
     bind_exn (interval_name interval) (\<lambda>i.
       Inr (to_lower (pair_str p) @ ''_'' @ c @ ''@continuousKline_'' @ i)))"

definition target_from_category :: "stream_category_e \<Rightarrow> string \<Rightarrow> string" where
  "target_from_category c topic_name = category_single_target c @ ''/'' @ topic_name"

definition target :: "subscription \<Rightarrow> string may_throw" where
  "target sub = bind_exn (topic sub) (\<lambda>t. Inr (target_from_category (category sub) t))"

text \<open>The compile-time concept \<^verbatim>\<open>same_category\<close>.\<close>

definition same_category :: "subscription \<Rightarrow> subscription list \<Rightarrow> bool" where
  "same_category first rest \<longleftrightarrow> list_all (\<lambda>s. category first = category s) rest"

section \<open>Topics identify subscriptions\<close>

text \<open>Symbols as the exchange has them: no separator characters, upper case (as the constructor makes them).\<close>

definition name_ok :: "string \<Rightarrow> bool" where
  "name_ok s \<longleftrightarrow> list_all (\<lambda>c. is_digit c \<or> 65 \<le> (of_char c :: nat) \<and> (of_char c :: nat) \<le> 90) s \<and> s \<noteq> []"

fun sub_ok :: "subscription \<Rightarrow> bool" where
  "sub_ok (Aggregate_trade_subscription s) = name_ok (str s)"
| "sub_ok (Book_ticker_subscription s) = name_ok (str s)"
| "sub_ok (Mark_price_subscription s _) = name_ok (str s)"
| "sub_ok (Diff_book_depth_subscription s _) = name_ok (str s)"
| "sub_ok (Mini_ticker_subscription s) = name_ok (str s)"
| "sub_ok (Ticker_subscription s) = name_ok (str s)"
| "sub_ok (Liquidation_order_subscription s) = name_ok (str s)"
| "sub_ok (Partial_book_depth_subscription s _ _) = name_ok (str s)"
| "sub_ok (Kline_subscription s _) = name_ok (str s)"
| "sub_ok (Continuous_contract_kline_subscription p _ _) = name_ok (pair_str p)"
| "sub_ok (Composite_index_subscription s) = name_ok (str s)"
| "sub_ok (Asset_index_subscription s) = name_ok (str s)"
| "sub_ok (Rpi_diff_book_depth_subscription s) = name_ok (str s)"
| "sub_ok _ = True"

lemma lower_upper_range:
  assumes "is_digit c \<or> 65 \<le> (of_char c :: nat) \<and> (of_char c :: nat) \<le> 90"
  shows "of_char (lower_char c) = (if is_digit c then of_char c else of_char c + 32 :: nat)"
proof -
  have "(of_char c + 32 :: nat) mod 256 = of_char c + 32" if "(of_char c :: nat) \<le> 90" using that by simp
  with assms show ?thesis by (auto simp: lower_char_def is_digit_def)
qed

lemma lower_inject:
  assumes "is_digit c \<or> 65 \<le> (of_char c :: nat) \<and> (of_char c :: nat) \<le> 90"
    and "is_digit d \<or> 65 \<le> (of_char d :: nat) \<and> (of_char d :: nat) \<le> 90"
    and "lower_char c = lower_char d"
  shows "c = d"
proof -
  have "(of_char c :: nat) = of_char d"
    using arg_cong [OF assms(3), of "of_char :: char \<Rightarrow> nat"] lower_upper_range [OF assms(1)] lower_upper_range [OF assms(2)] assms(1,2)
    by (auto simp: is_digit_def split: if_splits)
  then show ?thesis by simp
qed

lemma to_lower_inject: "name_ok s \<Longrightarrow> name_ok t \<Longrightarrow> to_lower s = to_lower t \<longleftrightarrow> s = t"
  unfolding to_lower_def name_ok_def list_all_iff
  by (auto dest!: map_inj_on intro!: inj_onI intro: lower_inject)

lemma to_lower_chars:
  assumes "name_ok s"
  shows "CHR ''@'' \<notin> set (to_lower s)" "CHR ''_'' \<notin> set (to_lower s)" "CHR ''!'' \<notin> set (to_lower s)" "to_lower s \<noteq> []"
proof -
  have "(of_char (lower_char c) :: nat) \<notin> {64, 95, 33}" if "c \<in> set s" for c
    using assms that lower_upper_range [of c] by (auto simp: name_ok_def list_all_iff is_digit_def)
  then have no: "x \<notin> set (to_lower s)" if "(of_char x :: nat) \<in> {64, 95, 33}" for x
    using that by (auto simp: to_lower_def)
  show "CHR ''@'' \<notin> set (to_lower s)" "CHR ''_'' \<notin> set (to_lower s)" "CHR ''!'' \<notin> set (to_lower s)"
    by (rule no; simp)+
  show "to_lower s \<noteq> []" using assms by (simp add: to_lower_def name_ok_def)
qed

lemma split_at_iff:
  "x \<notin> set a \<Longrightarrow> x \<notin> set b \<Longrightarrow> a @ x # s = b @ x # t \<longleftrightarrow> a = b \<and> s = t"
proof -
  assume "x \<notin> set a" "x \<notin> set b"
  then have "takeWhile (\<lambda>c. c \<noteq> x) (a @ x # s) = a" "takeWhile (\<lambda>c. c \<noteq> x) (b @ x # t) = b"
    by (auto simp: list_all_iff intro!: takeWhile_append_stop)
  then show ?thesis by (metis append_same_eq list.inject same_append_eq)
qed

lemma names_split:
  assumes "name_ok a" "name_ok b"
  shows "to_lower a @ CHR ''@'' # s = to_lower b @ CHR ''@'' # t \<longleftrightarrow> a = b \<and> s = t"
    "to_lower a @ CHR ''_'' # s = to_lower b @ CHR ''_'' # t \<longleftrightarrow> a = b \<and> s = t"
  using assms by (simp_all add: split_at_iff to_lower_chars to_lower_inject)

lemma names_bang:
  assumes "name_ok a"
  shows "to_lower a @ s \<noteq> CHR ''!'' # t" "CHR ''!'' # t \<noteq> to_lower a @ s"
  using to_lower_chars(3,4) [OF assms] by (cases "to_lower a"; auto)+

lemma names_underscore:
  assumes "name_ok a" "name_ok b" "CHR ''@'' \<notin> set c"
  shows "to_lower a @ CHR ''_'' # c @ CHR ''@'' # s \<noteq> to_lower b @ CHR ''@'' # t"
    "to_lower b @ CHR ''@'' # t \<noteq> to_lower a @ CHR ''_'' # c @ CHR ''@'' # s"
proof -
  have "(to_lower a @ CHR ''_'' # c) @ CHR ''@'' # s = to_lower b @ CHR ''@'' # t \<longleftrightarrow>
      to_lower a @ CHR ''_'' # c = to_lower b \<and> s = t"
    using assms by (intro split_at_iff) (simp_all add: to_lower_chars)
  moreover have "to_lower a @ CHR ''_'' # c \<noteq> to_lower b"
    using to_lower_chars(2) [OF assms(2)] by (metis in_set_conv_decomp)
  ultimately show "to_lower a @ CHR ''_'' # c @ CHR ''@'' # s \<noteq> to_lower b @ CHR ''@'' # t"
    "to_lower b @ CHR ''@'' # t \<noteq> to_lower a @ CHR ''_'' # c @ CHR ''@'' # s" by auto
qed

abbreviation interval_sv :: "kline_interval_t \<Rightarrow> string" where
  "interval_sv i \<equiv> enum_to_sv_impl i kline_interval_t_table"

abbreviation contract_sv :: "contract_type_t \<Rightarrow> string" where
  "contract_sv c \<equiv> enum_to_sv_impl c contract_type_t_table"

lemma sv_inject: "interval_sv i = interval_sv j \<longleftrightarrow> i = j" "contract_sv c = contract_sv d \<longleftrightarrow> c = d"
  using kline_interval_enum.to_string_inject [of i j] contract_type_enum.to_string_inject [of c d]
  by (simp_all add: kline_interval_enum.to_string_Inr contract_type_enum.to_string_Inr)

lemma contract_no_at: "CHR ''@'' \<notin> set (contract_sv c)"
  by (cases c) (simp_all add: contract_type_t_table_def)

lemma depth_split:
  "CHR ''@'' # s \<noteq> int_to_string n @ t" "int_to_string n @ t \<noteq> CHR ''@'' # s"
  "int_to_string n @ CHR ''@'' # s = int_to_string m @ CHR ''@'' # t \<longleftrightarrow> n = m \<and> s = t"
proof -
  have no: "CHR ''@'' \<notin> set (int_to_string k)" for k
    using int_to_string_chars [of "CHR ''@''" k] by (auto simp: is_digit_def)
  show "CHR ''@'' # s \<noteq> int_to_string n @ t" "int_to_string n @ t \<noteq> CHR ''@'' # s"
    using no [of n] int_to_string_not_Nil [of n] by (cases "int_to_string n"; auto)+
  show "int_to_string n @ CHR ''@'' # s = int_to_string m @ CHR ''@'' # t \<longleftrightarrow> n = m \<and> s = t"
    using no by (simp add: split_at_iff)
qed

lemma name_inject: "str x = str y \<longleftrightarrow> x = y" "pair_str p = pair_str q \<longleftrightarrow> p = q"
  by (auto intro: symbol_t.expand pair_t.expand)

lemmas topic_splits = name_inject to_lower_inject names_split names_bang names_underscore contract_no_at depth_split sv_inject
  split_at_iff [where x = "CHR ''@''", OF contract_no_at contract_no_at] interval_name_def
  kline_interval_enum.to_string_Inr contract_type_enum.to_string_Inr

lemma topic_defined: "\<exists>t. topic sub = Inr t"
  by (cases sub) (simp_all add: interval_name_def kline_interval_enum.to_string_Inr contract_type_enum.to_string_Inr)



end
