(* ===== verification/Variant_Parse.thy ===== *)
theory Variant_Parse
  imports Enums Fapi_Result
begin

text \<open>
  Discriminator dispatch of stream events, \<^verbatim>\<open>detail/variant_parse.hpp\<close>, with the event
  traits and the dispatch tables of the market and user streams. The scan position is the
  remaining suffix of the text. Reading a whole event (glaze) is a parameter of the table entries;
  reading the discriminator is the lookup in the enumeration's wire table.
\<close>

section \<open>Scanning for a field\<close>

abbreviation quote :: char where
  "quote \<equiv> CHR 0x22"

abbreviation backslash :: char where
  "backslash \<equiv> CHR 0x5C"

text \<open>The inner loop over a string that is not the wanted key, from after its opening quote.\<close>

fun skip_string :: "string \<Rightarrow> string" where
  "skip_string [] = []"
| "skip_string (c # cs) =
     (if c = quote then cs
      else if c = backslash then skip_string (drop 1 cs)
      else skip_string cs)"

lemma length_skip_string: "length (skip_string cs) \<le> length cs"
proof (induction cs rule: skip_string.induct)
  case (2 c cs)
  have "length (skip_string (drop 1 cs)) \<le> length cs" if "c \<noteq> quote" "c = backslash"
    using 2(1) [OF that] by simp
  with 2(2) show ?case by (simp add: le_SucI)
qed simp

text \<open>What follows the key: blanks and colons, then a quoted value or nothing.\<close>

definition field_value_after :: "string \<Rightarrow> string" where
  "field_value_after rest =
     (case dropWhile (\<lambda>c. c = CHR '' '' \<or> c = CHR '':'') rest of
        [] \<Rightarrow> []
      | c # cs \<Rightarrow> if c = quote then takeWhile (\<lambda>c. c \<noteq> quote) cs else [])"

definition needle :: "string \<Rightarrow> string" where
  "needle key = quote # key @ [quote]"

function scan_field :: "string \<Rightarrow> int \<Rightarrow> string \<Rightarrow> string" where
  "scan_field key depth [] = []"
| "scan_field key depth (c # cs) =
     (if c = CHR ''{'' \<or> c = CHR ''['' then scan_field key (depth + 1) cs
      else if c = CHR ''}'' \<or> c = CHR '']'' then scan_field key (depth - 1) cs
      else if c = quote \<and> depth = 1 then
        if take (length (needle key)) (c # cs) = needle key
        then field_value_after (drop (length (needle key)) (c # cs))
        else scan_field key depth (skip_string cs)
      else scan_field key depth cs)"
  by pat_completeness auto
termination
  by (relation "measure (\<lambda>(key, depth, json). length json)")
    (auto simp: length_skip_string less_Suc_eq_le)

definition extract_string_field :: "string \<Rightarrow> string \<Rightarrow> string" where
  "extract_string_field json key = (if length key + 3 > 128 then [] else scan_field key 0 json)"

section \<open>Dispatch\<close>

record ('e, 'v) variant_entry =
  discriminator :: 'e
  try_parse :: "string \<Rightarrow> 'v option"

text \<open>\<open>read_as\<close> stands for \<^verbatim>\<open>glz::read\<close> into the event type with the given discriminator.\<close>

definition make_entry :: "('e \<Rightarrow> string \<Rightarrow> 'v option) \<Rightarrow> 'e \<Rightarrow> ('e, 'v) variant_entry" where
  "make_entry read_as d = \<lparr>discriminator = d, try_parse = read_as d\<rparr>"

fun dispatch_variant :: "'e \<Rightarrow> string \<Rightarrow> ('e, 'v) variant_entry list \<Rightarrow> 'v option" where
  "dispatch_variant d json [] = None"
| "dispatch_variant d json (entry # mapping) =
     (if discriminator entry = d then try_parse entry json else dispatch_variant d json mapping)"

definition parse_variant ::
  "(string \<times> 'e) list \<Rightarrow> string \<Rightarrow> string \<Rightarrow> ('e, 'v) variant_entry list \<Rightarrow> 'v option" where
  "parse_variant table discriminator_key json mapping =
     (let disc_str = extract_string_field json discriminator_key in
      if disc_str = [] then None
      else case enum_of_string table disc_str of
        None \<Rightarrow> None
      | Some d \<Rightarrow> dispatch_variant d json mapping)"

definition market_event_mapping ::
  "(market_event_type_t \<Rightarrow> string \<Rightarrow> 'v option) \<Rightarrow> (market_event_type_t, 'v) variant_entry list" where
  "market_event_mapping read_as =
     map (make_entry read_as)
       [Market_event_type_book_ticker, Market_event_type_agg_trade, Market_event_type_mark_price_update,
        Market_event_type_depth_update, Market_event_type_mini_ticker_24hr, Market_event_type_ticker_24hr,
        Market_event_type_force_order, Market_event_type_kline, Market_event_type_continuous_kline,
        Market_event_type_composite_index, Market_event_type_contract_info,
        Market_event_type_asset_index_update, Market_event_type_trading_session]"

definition user_event_mapping ::
  "(user_event_type_t \<Rightarrow> string \<Rightarrow> 'v option) \<Rightarrow> (user_event_type_t, 'v) variant_entry list" where
  "user_event_mapping read_as =
     map (make_entry read_as)
       [User_event_type_account_update, User_event_type_order_trade_update, User_event_type_margin_call,
        User_event_type_listen_key_expired, User_event_type_account_config_update, User_event_type_trade_lite,
        User_event_type_algo_update, User_event_type_conditional_order_trigger_reject,
        User_event_type_grid_update, User_event_type_strategy_update]"

definition parse_user_event :: "(user_event_type_t \<Rightarrow> string \<Rightarrow> 'v option) \<Rightarrow> string \<Rightarrow> 'v result" where
  "parse_user_event read_as json =
     (case parse_variant user_event_type_t_table ''e'' json (user_event_mapping read_as) of
        Some v \<Rightarrow> success v
      | None \<Rightarrow> failure (mk_error Ec_json 0 0 ''unknown or unparseable user stream event'' json))"

section \<open>The scan on flat objects\<close>

text \<open>
  Members of a flat JSON object as the exchange writes them: a key with a string or with another
  scalar. \<open>plain\<close> text needs no escape.
\<close>

datatype flat_value = Text string | Scalar string

fun render_value :: "flat_value \<Rightarrow> string" where
  "render_value (Text s) = quote # s @ [quote]"
| "render_value (Scalar s) = s"

definition render_member :: "string \<times> flat_value \<Rightarrow> string" where
  "render_member m = quote # fst m @ quote # CHR '':'' # render_value (snd m)"

text \<open>The text after the opening brace: each member followed by its separator or the closing brace.\<close>

fun render_members :: "(string \<times> flat_value) list \<Rightarrow> string" where
  "render_members [] = ''}''"
| "render_members (m # ms) = render_member m @ (if ms = [] then [] else '','') @ render_members ms"

definition render_object :: "(string \<times> flat_value) list \<Rightarrow> string" where
  "render_object ms = CHR ''{'' # render_members ms"

definition plain :: "string \<Rightarrow> bool" where
  "plain s \<longleftrightarrow> quote \<notin> set s \<and> backslash \<notin> set s"

definition plain_scalar :: "string \<Rightarrow> bool" where
  "plain_scalar s \<longleftrightarrow> set s \<inter> {quote, CHR ''{'', CHR ''['', CHR ''}'', CHR '']''} = {}"

text \<open>A member before the wanted one must not have the key as its own key or as its text.\<close>

fun member_ok :: "string \<Rightarrow> string \<times> flat_value \<Rightarrow> bool" where
  "member_ok key (k, Text s) \<longleftrightarrow> plain k \<and> plain s \<and> k \<noteq> key \<and> s \<noteq> key"
| "member_ok key (k, Scalar s) \<longleftrightarrow> plain k \<and> plain_scalar s \<and> k \<noteq> key"

lemma skip_string_plain: "plain s \<Longrightarrow> skip_string (s @ quote # rest) = rest"
  by (induction s) (auto simp: plain_def)

lemma needle_iff:
  assumes "plain key" "plain s"
  shows "take (length (needle key)) (quote # s @ quote # rest) = needle key \<longleftrightarrow> s = key"
proof
  assume eq: "take (length (needle key)) (quote # s @ quote # rest) = needle key"
  then have "take (length key + 1) (s @ quote # rest) = key @ [quote]" by (simp add: needle_def)
  then obtain t where t: "s @ quote # rest = key @ quote # t"
    by (metis append_take_drop_id append.assoc append_Cons append_Nil)
  have "takeWhile (\<lambda>c. c \<noteq> quote) (s @ quote # rest) = s" "takeWhile (\<lambda>c. c \<noteq> quote) (key @ quote # t) = key"
    using assms by (auto simp: plain_def takeWhile_append2 takeWhile_tail list_all_iff
        intro!: takeWhile_append_stop)
  with t show "s = key" by simp
next
  assume "s = key"
  then show "take (length (needle key)) (quote # s @ quote # rest) = needle key" by (simp add: needle_def)
qed

lemma scan_other_text:
  assumes "plain key" "plain s" "s \<noteq> key"
  shows "scan_field key 1 (quote # s @ quote # rest) = scan_field key 1 rest"
  using needle_iff [OF assms(1,2), of rest] assms(2,3) by (simp add: skip_string_plain)

lemma scan_scalar: "plain_scalar s \<Longrightarrow> scan_field key 1 (s @ rest) = scan_field key 1 rest"
  by (induction s) (auto simp: plain_scalar_def)

lemma scan_member:
  assumes "plain key" "member_ok key m"
  shows "scan_field key 1 (render_member m @ rest) = scan_field key 1 rest"
proof -
  obtain k v where m: "m = (k, v)" by (cases m)
  have colon: "scan_field key 1 (CHR '':'' # t) = scan_field key 1 t" for t by simp
  show ?thesis
  proof (cases v)
    case (Text s)
    then show ?thesis
      using assms scan_other_text [of key k] scan_other_text [of key s]
      by (simp add: m render_member_def del: scan_field.simps) (simp only: colon scan_other_text)
  next
    case (Scalar s)
    then show ?thesis
      using assms scan_other_text [of key k] scan_scalar [of s]
      by (simp add: m render_member_def del: scan_field.simps) (simp only: colon)
  qed
qed

lemma scan_found:
  assumes "plain v"
  shows "scan_field key 1 (render_member (key, Text v) @ rest) = v"
proof -
  have "takeWhile (\<lambda>c. c \<noteq> quote) (v @ quote # rest) = v"
    using assms by (intro takeWhile_append_stop) (auto simp: plain_def list_all_iff)
  then show ?thesis
    by (simp add: render_member_def needle_def field_value_after_def)
qed

lemma scan_members:
  assumes "plain key" "list_all (member_ok key) before" "plain v"
  shows "scan_field key 1 (render_members (before @ (key, Text v) # after)) = v"
  using assms(2)
proof (induction before)
  case Nil
  then show ?case using scan_found [OF assms(3)] by simp
next
  case (Cons m before)
  then show ?case using scan_member [OF assms(1), of m] by simp
qed

text \<open>
  On a flat object the scan finds the wanted field: if no earlier member has the key as its
  key or as its text value and keys and texts need no escapes, the value of the field is returned,
  whatever follows it.
\<close>

lemma extract_string_field_finds:
  assumes "plain key" "length key \<le> 125" "list_all (member_ok key) before" "plain v"
  shows "extract_string_field (render_object (before @ (key, Text v) # after)) key = v"
  using scan_members [OF assms(1,3,4)] assms(2) by (simp add: extract_string_field_def render_object_def)

text \<open>
  The conditions are needed, because the scan looks at values too and does not skip strings
  below the top level: a text value equal to the key, or a brace inside a nested string, before
  the field makes the scan return nothing for an object that has the field.
\<close>

lemma extract_string_field_misses:
  "extract_string_field (render_object [(''m'', Text ''e''), (''e'', Text ''kline'')]) ''e'' = [] \<and>
   extract_string_field (''{'' @ needle ''o'' @ '':{'' @ needle ''c'' @ '':'' @ needle ''}'' @ ''},'' @
     needle ''e'' @ '':'' @ needle ''kline'' @ ''}'') ''e'' = []"
  by code_simp

section \<open>Dispatch tables\<close>

lemma dispatch_map:
  "dispatch_variant d json (map (make_entry read_as) ds) = (if d \<in> set ds then read_as d json else None)"
  by (induction ds) (auto simp: make_entry_def)

text \<open>
  The user stream recognises every user event type: the parse is exactly the typed read selected
  by the discriminator, and a failure is a JSON error that carries the payload.
\<close>

lemma parse_user_event_dispatches:
  "parse_user_event read_as json =
     (case enum_of_string user_event_type_t_table (extract_string_field json ''e'') of
        None \<Rightarrow> failure (mk_error Ec_json 0 0 ''unknown or unparseable user stream event'' json)
      | Some d \<Rightarrow> (case read_as d json of
           Some v \<Rightarrow> success v
         | None \<Rightarrow> failure (mk_error Ec_json 0 0 ''unknown or unparseable user stream event'' json)))"
proof -
  have "dispatch_variant d json (user_event_mapping read_as) = read_as d json" for d
    unfolding user_event_mapping_def dispatch_map by (cases d) simp_all
  moreover have "enum_of_string user_event_type_t_table [] = None"
    by (simp add: enum_of_string_def wire_defs)
  ultimately show ?thesis
    by (auto simp: parse_user_event_def parse_variant_def Let_def split: option.split)
qed

text \<open>
  The market dispatch table has no entry for the equity and commodity updates of the trading
  session stream: an event with one of these discriminators is rejected whatever it contains, while
  every other known discriminator selects its typed read.
\<close>

lemma market_dispatch_gap:
  "parse_variant market_event_type_t_table ''e'' json (market_event_mapping read_as) =
     (case enum_of_string market_event_type_t_table (extract_string_field json ''e'') of
        None \<Rightarrow> None
      | Some d \<Rightarrow> if d = Market_event_type_equity_update \<or> d = Market_event_type_commodity_update then None
                  else read_as d json)"
proof -
  have "dispatch_variant d json (market_event_mapping read_as) =
      (if d = Market_event_type_equity_update \<or> d = Market_event_type_commodity_update then None else read_as d json)" for d
    unfolding market_event_mapping_def dispatch_map by (cases d) simp_all
  moreover have "enum_of_string market_event_type_t_table [] = None"
    by (simp add: enum_of_string_def wire_defs)
  ultimately show ?thesis
    by (auto simp: parse_variant_def Let_def split: option.split)
qed

end
