(* ===== verification/Market_Streams.thy ===== *)
theory Market_Streams
  imports Stream_Traits Variant_Parse
begin

text \<open>
  The event generators of the streams: \<^verbatim>\<open>streams/market_stream.hpp\<close>,
  \<^verbatim>\<open>streams/combined_market_stream.hpp\<close> and \<^verbatim>\<open>streams/user_stream.hpp\<close>, over the raw connection of
  \<^verbatim>\<open>streams/detail/stream_connection.hpp\<close>. What the network does is a script: each connection attempt
  is refused or opens a session, and a session is the sequence of its reads. A run is what the
  generator yields, the frames its connection hands to the consumer and the recording buffer, and
  whether it has finished (it is suspended otherwise). The three generators differ in what they
  do with a frame only; the locale \<open>frame_handler\<close> proves their common properties.
\<close>

section \<open>The generator\<close>

datatype read_outcome = Frame string | Read_failed error

datatype attempt = Refused error | Session "read_outcome list"

datatype 'v frame_action = Skip | Yield 'v | Reject error

datatype session_end = Waiting | Dropped error | Rejected

record 'v gen_run =
  yielded :: "'v result list"
  frames_seen :: "string list"
  finished :: bool

text \<open>\<^verbatim>\<open>async_read_text\<close>: a frame that was read goes to the consumer first, a failure does not.\<close>

fun seen :: "read_outcome \<Rightarrow> string list" where
  "seen (Frame s) = [s]"
| "seen (Read_failed e) = []"

text \<open>The inner loop: reads until the connection drops, a frame is rejected, or input runs out.\<close>

fun read_session ::
  "(string \<Rightarrow> 'v frame_action) \<Rightarrow> read_outcome list \<Rightarrow> 'v result list \<times> string list \<times> session_end" where
  "read_session on_frame [] = ([], [], Waiting)"
| "read_session on_frame (Read_failed e # reads) = ([], seen (Read_failed e), Dropped e)"
| "read_session on_frame (Frame s # reads) =
     (case on_frame s of
        Reject e \<Rightarrow> ([failure e], seen (Frame s), Rejected)
      | Skip \<Rightarrow> (let (ys, fs, en) = read_session on_frame reads in (ys, seen (Frame s) @ fs, en))
      | Yield v \<Rightarrow> (let (ys, fs, en) = read_session on_frame reads in (success v # ys, seen (Frame s) @ fs, en)))"

definition prepend_run :: "'v result list \<Rightarrow> string list \<Rightarrow> 'v gen_run \<Rightarrow> 'v gen_run" where
  "prepend_run ys fs r = r\<lparr>yielded := ys @ yielded r, frames_seen := fs @ frames_seen r\<rparr>"

text \<open>The outer loop, with its failure counter and last error.\<close>

fun subscribe_loop ::
  "(string \<Rightarrow> 'v frame_action) \<Rightarrow> int \<Rightarrow> int \<Rightarrow> error \<Rightarrow> attempt list \<Rightarrow> 'v gen_run" where
  "subscribe_loop on_frame max_reconnects failures last_err [] =
     (if failures \<le> max_reconnects then \<lparr>yielded = [], frames_seen = [], finished = False\<rparr>
      else \<lparr>yielded = [failure last_err], frames_seen = [], finished = True\<rparr>)"
| "subscribe_loop on_frame max_reconnects failures last_err (a # attempts) =
     (if failures \<le> max_reconnects then
        (case a of
           Refused e \<Rightarrow> subscribe_loop on_frame max_reconnects (failures + 1) e attempts
         | Session reads \<Rightarrow>
             (let (ys, fs, en) = read_session on_frame reads in
              case en of
                Waiting \<Rightarrow> \<lparr>yielded = ys, frames_seen = fs, finished = False\<rparr>
              | Dropped e \<Rightarrow> prepend_run ys fs (subscribe_loop on_frame max_reconnects 1 e attempts)
              | Rejected \<Rightarrow>
                  prepend_run ys fs (subscribe_loop on_frame max_reconnects (max_reconnects + 1) last_err attempts)))
      else \<lparr>yielded = [failure last_err], frames_seen = [], finished = True\<rparr>)"

definition subscribe :: "(string \<Rightarrow> 'v frame_action) \<Rightarrow> int \<Rightarrow> attempt list \<Rightarrow> 'v gen_run" where
  "subscribe on_frame max_reconnects attempts = subscribe_loop on_frame max_reconnects 0 no_error attempts"

section \<open>What each stream does with a frame\<close>

definition market_on_frame :: "(string \<Rightarrow> string + 'v) \<Rightarrow> string \<Rightarrow> 'v frame_action" where
  "market_on_frame read msg =
     (case read msg of Inl ec \<Rightarrow> Reject (mk_error Ec_json 0 0 ec msg) | Inr event \<Rightarrow> Yield event)"

record combined_stream_frame_t =
  frame_stream :: string
  frame_data :: string

text \<open>The event type of a subscription; array streams have no entry in the event traits.\<close>

fun sub_event :: "subscription \<Rightarrow> market_event_type_t option" where
  "sub_event (Aggregate_trade_subscription _) = Some Market_event_type_agg_trade"
| "sub_event (Book_ticker_subscription _) = Some Market_event_type_book_ticker"
| "sub_event (Mark_price_subscription _ _) = Some Market_event_type_mark_price_update"
| "sub_event (Mini_ticker_subscription _) = Some Market_event_type_mini_ticker_24hr"
| "sub_event (Ticker_subscription _) = Some Market_event_type_ticker_24hr"
| "sub_event (Diff_book_depth_subscription _ _) = Some Market_event_type_depth_update"
| "sub_event (Partial_book_depth_subscription _ _ _) = Some Market_event_type_depth_update"
| "sub_event (Kline_subscription _ _) = Some Market_event_type_kline"
| "sub_event (Liquidation_order_subscription _) = Some Market_event_type_force_order"
| "sub_event (Composite_index_subscription _) = Some Market_event_type_composite_index"
| "sub_event (Asset_index_subscription _) = Some Market_event_type_asset_index_update"
| "sub_event (Rpi_diff_book_depth_subscription _) = Some Market_event_type_depth_update"
| "sub_event All_book_ticker_subscription = Some Market_event_type_book_ticker"
| "sub_event All_market_liquidation_order_subscription = Some Market_event_type_force_order"
| "sub_event Contract_info_subscription = Some Market_event_type_contract_info"
| "sub_event Trading_session_subscription = Some Market_event_type_trading_session"
| "sub_event (Continuous_contract_kline_subscription _ _ _) = Some Market_event_type_continuous_kline"
| "sub_event _ = None"

definition combined_dispatch ::
  "(market_event_type_t \<Rightarrow> string \<Rightarrow> 'v option) \<Rightarrow> subscription list \<Rightarrow> (market_event_type_t, 'v) variant_entry list" where
  "combined_dispatch read_as subs = map (make_entry read_as) (List.map_filter sub_event subs)"

fun join_topics :: "string list \<Rightarrow> string" where
  "join_topics [] = []"
| "join_topics [t] = t"
| "join_topics (t # ts) = t @ ''/'' @ join_topics ts"

fun topics_of :: "subscription list \<Rightarrow> string list may_throw" where
  "topics_of [] = Inr []"
| "topics_of (s # subs) = bind_exn (topic s) (\<lambda>t. bind_exn (topics_of subs) (\<lambda>ts. Inr (t # ts)))"

definition combined_target :: "stream_category_e \<Rightarrow> subscription list \<Rightarrow> string may_throw" where
  "combined_target c subs =
     bind_exn (topics_of subs) (\<lambda>ts. Inr (category_combined_target c @ ''?streams='' @ join_topics ts))"

definition combined_on_frame ::
  "(string \<Rightarrow> combined_stream_frame_t option) \<Rightarrow> (market_event_type_t, 'v) variant_entry list \<Rightarrow> string \<Rightarrow> 'v frame_action" where
  "combined_on_frame read_frame dispatch msg =
     (case read_frame msg of
        None \<Rightarrow> Skip
      | Some frame \<Rightarrow>
          if frame_stream frame = [] then Skip
          else case parse_variant market_event_type_t_table ''e'' (frame_data frame) dispatch of
            Some v \<Rightarrow> Yield v
          | None \<Rightarrow> Reject (mk_error Ec_json 0 0 (''parse failed for topic: '' @ frame_stream frame) (frame_data frame)))"

definition user_on_frame :: "(user_event_type_t \<Rightarrow> string \<Rightarrow> 'v option) \<Rightarrow> string \<Rightarrow> 'v frame_action" where
  "user_on_frame read_as msg =
     (let event = parse_user_event read_as msg in
      case result_value event of Some v \<Rightarrow> Yield v | None \<Rightarrow> Reject (err event))"

definition user_target :: "config \<Rightarrow> string \<Rightarrow> string" where
  "user_target cfg listen_key = stream_base_target cfg @ ''/'' @ listen_key"

section \<open>Common properties of the generators\<close>

fun accepted :: "(string \<Rightarrow> 'v frame_action) \<Rightarrow> string list \<Rightarrow> 'v list" where
  "accepted on_frame [] = []"
| "accepted on_frame (s # ss) =
     (case on_frame s of Yield v \<Rightarrow> v # accepted on_frame ss | _ \<Rightarrow> accepted on_frame ss)"

fun rejects :: "'v frame_action \<Rightarrow> bool" where
  "rejects (Reject e) = True"
| "rejects _ = False"

lemma read_session_frames:
  assumes "list_all (\<lambda>s. \<not> rejects (on_frame s)) frames"
  shows "read_session on_frame (map Frame frames @ reads) =
    (let (ys, fs, en) = read_session on_frame reads in (map success (accepted on_frame frames) @ ys, frames @ fs, en))"
  using assms by (induction frames) (auto split: frame_action.split prod.split)

lemma prepend_simps [simp]:
  "yielded (prepend_run ys fs r) = ys @ yielded r" "frames_seen (prepend_run ys fs r) = fs @ frames_seen r"
  "finished (prepend_run ys fs r) = finished r"
  by (simp_all add: prepend_run_def)

lemma subscribe_loop_stop:
  "max_reconnects < failures \<Longrightarrow> subscribe_loop on_frame max_reconnects failures last_err attempts =
     \<lparr>yielded = [failure last_err], frames_seen = [], finished = True\<rparr>"
  by (cases attempts) auto

text \<open>What a reader that stops at the first failure may rely on: what comes after that failure does not matter.\<close>

fun readable :: "'v result list \<Rightarrow> bool" where
  "readable [] = True"
| "readable (y # ys) = (result_wf y \<and> (is_ok y \<longrightarrow> readable ys))"

lemma readable_take: "readable ys \<Longrightarrow> readable (take n ys)"
  by (induction ys arbitrary: n) (auto simp: take_Cons split: nat.split)

text \<open>Errors of the transport carry an error code.\<close>

fun read_ok :: "read_outcome \<Rightarrow> bool" where
  "read_ok (Frame s) = True"
| "read_ok (Read_failed e) = (error_code_of e \<noteq> Ec_none)"

fun attempt_ok :: "attempt \<Rightarrow> bool" where
  "attempt_ok (Refused e) = (error_code_of e \<noteq> Ec_none)"
| "attempt_ok (Session reads) = list_all read_ok reads"

text \<open>A session that delivers frames and then drops.\<close>

definition dropping_session :: "string list \<times> error \<Rightarrow> attempt" where
  "dropping_session s = Session (map Frame (fst s) @ [Read_failed (snd s)])"

locale frame_handler =
  fixes on_frame :: "string \<Rightarrow> 'v frame_action"
  assumes rejects_with_json: "on_frame s = Reject e \<Longrightarrow> error_code_of e = Ec_json"
begin

lemma sessions_yield:
  assumes "1 \<le> max_reconnects" "failures \<le> max_reconnects"
    and "list_all (\<lambda>s. list_all (\<lambda>f. \<not> rejects (on_frame f)) (fst s)) sessions"
  shows "subscribe_loop on_frame max_reconnects failures last_err (map dropping_session sessions) =
    \<lparr>yielded = map success (accepted on_frame (concat (map fst sessions))),
     frames_seen = concat (map fst sessions), finished = False\<rparr>"
  using assms(2,3)
proof (induction sessions arbitrary: failures last_err)
  case (Cons s sessions)
  have "accepted on_frame (xs @ ys) = accepted on_frame xs @ accepted on_frame ys" for xs ys
    by (induction xs) (auto split: frame_action.split)
  then show ?case
    using Cons assms(1) by (simp add: dropping_session_def read_session_frames prepend_run_def)
qed simp

lemma session_readable:
  "read_session on_frame reads = (ys, fs, en) \<Longrightarrow> list_all read_ok reads \<Longrightarrow>
     (en = Rejected \<or> readable zs \<longrightarrow> readable (ys @ zs)) \<and> (\<forall>e. en = Dropped e \<longrightarrow> error_code_of e \<noteq> Ec_none)"
proof (induction reads arbitrary: ys fs)
  case (Cons r reads)
  show ?case
  proof (cases r)
    case (Frame s)
    obtain ys' fs' en' where "read_session on_frame reads = (ys', fs', en')" by (metis prod_cases3)
    with Cons Frame rejects_with_json [of s] show ?thesis by (auto split: frame_action.splits)
  qed (use Cons in auto)
qed simp

lemma subscribe_loop_readable:
  "list_all attempt_ok as \<Longrightarrow> failures \<le> max_reconnects \<or> error_code_of last_err \<noteq> Ec_none \<Longrightarrow>
     readable (yielded (subscribe_loop on_frame max_reconnects failures last_err as))"
proof (induction as arbitrary: failures last_err)
  case (Cons a as)
  show ?case
  proof (cases a)
    case (Session reads)
    obtain ys fs en where s: "read_session on_frame reads = (ys, fs, en)" by (metis prod_cases3)
    have "list_all read_ok reads" using Cons.prems(1) Session by simp
    note r = session_readable [OF s this]
    from Cons Session s r [of "[]"] r show ?thesis
      by (cases en) auto
  qed (use Cons in auto)
qed auto

lemma gives_up:
  "0 \<le> failures \<Longrightarrow> failures \<le> max_reconnects + 1 \<Longrightarrow>
   subscribe_loop on_frame max_reconnects failures last_err (map Refused es) =
     (if int (length es) > max_reconnects - failures
      then \<lparr>yielded = [failure ((last_err # es) ! nat (max_reconnects + 1 - failures))], frames_seen = [], finished = True\<rparr>
      else \<lparr>yielded = [], frames_seen = [], finished = False\<rparr>)"
proof (induction es arbitrary: failures last_err)
  case (Cons e es)
  show ?case
  proof (cases "failures \<le> max_reconnects")
    case True
    then have "nat (max_reconnects + 1 - failures) = Suc (nat (max_reconnects + 1 - (failures + 1)))" by simp
    with True Cons.IH [of "failures + 1" e] Cons.prems show ?thesis by auto
  next
    case False
    with Cons.prems have "failures = max_reconnects + 1" by simp
    then show ?thesis by simp
  qed
qed auto

lemma bad_frame_ends:
  assumes "0 \<le> max_reconnects" "list_all (\<lambda>s. \<not> rejects (on_frame s)) frames" "on_frame bad = Reject e"
  shows "subscribe on_frame max_reconnects (Session (map Frame frames @ Frame bad # reads) # attempts) =
    \<lparr>yielded = map success (accepted on_frame frames) @ [failure e, failure no_error],
     frames_seen = frames @ [bad], finished = True\<rparr>"
  using assms by (simp add: subscribe_def read_session_frames subscribe_loop_stop prepend_run_def)

lemma bad_frame_last:
  assumes "0 \<le> max_reconnects" "list_all (\<lambda>s. \<not> rejects (on_frame s)) frames" "on_frame bad = Reject e"
  shows "let r = subscribe on_frame max_reconnects (Session (map Frame frames @ Frame bad # reads) # attempts)
    in finished r \<and> is_ok (last (yielded r)) \<and> deref (last (yielded r)) = Inl Undefined_behaviour \<and>
       \<not> is_ok (last (butlast (yielded r)))"
  using rejects_with_json [OF assms(3)] by (simp add: bad_frame_ends [OF assms] butlast_append)

end

interpretation market_handler: frame_handler "market_on_frame read" for read
  by unfold_locales (auto simp: market_on_frame_def split: sum.splits)

interpretation combined_handler: frame_handler "combined_on_frame read_frame dispatch" for read_frame dispatch
  by unfold_locales (auto simp: combined_on_frame_def split: option.splits if_splits)

interpretation user_handler: frame_handler "user_on_frame read_as" for read_as
  by unfold_locales (auto simp: user_on_frame_def parse_user_event_def Let_def split: option.splits)



text \<open>
  When connecting keeps failing the generator gives up after exactly the configured number of
  retries: while at most that many attempts were refused it is still trying and has yielded
  nothing, and with the next refusal it yields that attempt's error and finishes (here for the
  user stream).
\<close>

lemma user_stream_gives_up:
  "subscribe (user_on_frame read_as) (int n) (map Refused es) =
     (if length es > n then \<lparr>yielded = [failure (es ! n)], frames_seen = [], finished = True\<rparr>
      else \<lparr>yielded = [], frames_seen = [], finished = False\<rparr>)"
  using user_handler.gives_up [of 0 "int n" read_as no_error es]
  by (simp add: subscribe_def nat_add_distrib)

text \<open>
  After a frame that does not parse every one of the three generators yields the JSON error
  and then one more item that counts as a success and has no value, so a caller that goes on reading
  and dereferences it runs into undefined behaviour (the last error was never set).
\<close>

lemma bad_frame_yields_hollow_success:
  assumes "0 \<le> max_reconnects"
  shows "(read bad = Inl ec \<longrightarrow>
      (let r = subscribe (market_on_frame read) max_reconnects (Session (Frame bad # reads) # attempts)
       in finished r \<and> is_ok (last (yielded r)) \<and> deref (last (yielded r)) = Inl Undefined_behaviour)) \<and>
    (parse_user_event read_as bad = failure e \<longrightarrow>
      (let r = subscribe (user_on_frame read_as) max_reconnects (Session (Frame bad # reads) # attempts)
       in finished r \<and> is_ok (last (yielded r)) \<and> deref (last (yielded r)) = Inl Undefined_behaviour)) \<and>
    (combined_on_frame read_frame dispatch bad = Reject e \<longrightarrow>
      (let r = subscribe (combined_on_frame read_frame dispatch) max_reconnects (Session (Frame bad # reads) # attempts)
       in finished r \<and> is_ok (last (yielded r)) \<and> deref (last (yielded r)) = Inl Undefined_behaviour))"
proof (intro conjI impI)
  assume "read bad = Inl ec"
  then have "market_on_frame read bad = Reject (mk_error Ec_json 0 0 ec bad)" by (simp add: market_on_frame_def)
  from market_handler.bad_frame_last [OF assms, of read "[]", OF _ this]
  show "let r = subscribe (market_on_frame read) max_reconnects (Session (Frame bad # reads) # attempts)
       in finished r \<and> is_ok (last (yielded r)) \<and> deref (last (yielded r)) = Inl Undefined_behaviour"
    by (simp add: Let_def)
next
  assume "parse_user_event read_as bad = failure e"
  then have "user_on_frame read_as bad = Reject e" by (simp add: user_on_frame_def)
  from user_handler.bad_frame_last [OF assms, of read_as "[]", OF _ this]
  show "let r = subscribe (user_on_frame read_as) max_reconnects (Session (Frame bad # reads) # attempts)
       in finished r \<and> is_ok (last (yielded r)) \<and> deref (last (yielded r)) = Inl Undefined_behaviour"
    by (simp add: Let_def)
next
  assume "combined_on_frame read_frame dispatch bad = Reject e"
  from combined_handler.bad_frame_last [OF assms, of read_frame dispatch "[]", OF _ this]
  show "let r = subscribe (combined_on_frame read_frame dispatch) max_reconnects (Session (Frame bad # reads) # attempts)
       in finished r \<and> is_ok (last (yielded r)) \<and> deref (last (yielded r)) = Inl Undefined_behaviour"
    by (simp add: Let_def)
qed

end
