(* ===== verification/Dynamic_Stream.thy ===== *)
theory Dynamic_Stream
  imports Market_Streams
begin

text \<open>
  The dynamic market stream, \<^verbatim>\<open>streams/dynamic_market_stream.hpp\<close>: control messages with their
  request ids on a connection pinned to one URL category, and the classification of incoming
  frames into market events and control responses. JSON writing and reading are parameters; the
  outcome of a write on the socket is an input.
\<close>

section \<open>The stream\<close>

record stream_control_request =
  req_meth :: string
  req_params :: "string list"
  req_id :: u32

record control_response_t =
  control_result :: "string list option"
  control_id :: u32

datatype 'v dynamic_stream_message_t = Market_event 'v | Control_response control_response_t

text \<open>The category and the id counter are the members of the class; \<open>sent\<close> is what was written.\<close>

record dynamic_stream =
  dyn_category :: stream_category_e
  id_counter :: u32
  sent :: "stream_control_request list"

definition new_dynamic_stream :: "stream_category_e \<Rightarrow> dynamic_stream" where
  "new_dynamic_stream c = \<lparr>dyn_category = c, id_counter = 0, sent = []\<rparr>"

definition dynamic_connect_target :: "dynamic_stream \<Rightarrow> string" where
  "dynamic_connect_target d = category_combined_target (dyn_category d)"

definition next_id :: "dynamic_stream \<Rightarrow> u32 \<times> dynamic_stream" where
  "next_id d = (id_counter d + 1, d\<lparr>id_counter := id_counter d + 1\<rparr>)"

definition send_control ::
  "(stream_control_request \<Rightarrow> string option) \<Rightarrow> error \<Rightarrow> string \<Rightarrow> string list \<Rightarrow> u32 \<Rightarrow> dynamic_stream \<Rightarrow> error \<times> dynamic_stream" where
  "send_control write_json write_outcome meth topics i d =
     (let req = \<lparr>req_meth = meth, req_params = topics, req_id = i\<rparr> in
      case write_json req of
        None \<Rightarrow> (void_failure (mk_error Ec_json 0 0 ''failed to serialize control request'' []), d)
      | Some json \<Rightarrow> (write_outcome, d\<lparr>sent := sent d @ [req]\<rparr>))"

definition send_topics ::
  "string \<Rightarrow> string \<Rightarrow> (stream_control_request \<Rightarrow> string option) \<Rightarrow> error \<Rightarrow> subscription \<Rightarrow> subscription list \<Rightarrow>
   dynamic_stream \<Rightarrow> (error \<times> dynamic_stream) may_throw" where
  "send_topics meth mismatch write_json write_outcome first rest d =
     (if category first \<noteq> dyn_category d then
        Inr (void_failure (mk_error Ec_websocket 0 0 mismatch []), d)
      else bind_exn (topics_of (first # rest)) (\<lambda>topics.
        let (i, d) = next_id d in Inr (send_control write_json write_outcome meth topics i d)))"

definition async_subscribe ::
  "(stream_control_request \<Rightarrow> string option) \<Rightarrow> error \<Rightarrow> subscription \<Rightarrow> subscription list \<Rightarrow>
   dynamic_stream \<Rightarrow> (error \<times> dynamic_stream) may_throw" where
  "async_subscribe = send_topics ''SUBSCRIBE'' ''subscribe category mismatch''"

definition async_unsubscribe ::
  "(stream_control_request \<Rightarrow> string option) \<Rightarrow> error \<Rightarrow> subscription \<Rightarrow> subscription list \<Rightarrow>
   dynamic_stream \<Rightarrow> (error \<times> dynamic_stream) may_throw" where
  "async_unsubscribe = send_topics ''UNSUBSCRIBE'' ''unsubscribe category mismatch''"

definition async_list_subscriptions ::
  "(stream_control_request \<Rightarrow> string option) \<Rightarrow> error \<Rightarrow> dynamic_stream \<Rightarrow> error \<times> dynamic_stream" where
  "async_list_subscriptions write_json write_outcome d =
     (let (i, d) = next_id d in send_control write_json write_outcome ''LIST_SUBSCRIPTIONS'' [] i d)"

text \<open>A combined frame counts only when it reads and names a stream.\<close>

definition async_read_event ::
  "(string \<Rightarrow> combined_stream_frame_t option) \<Rightarrow> (string \<Rightarrow> control_response_t option) \<Rightarrow>
   (market_event_type_t \<Rightarrow> string \<Rightarrow> 'v option) \<Rightarrow> read_outcome \<Rightarrow> 'v dynamic_stream_message_t result" where
  "async_read_event read_frame read_control read_as msg =
     (case msg of
        Read_failed e \<Rightarrow> failure e
      | Frame s \<Rightarrow>
          (case (case read_frame s of None \<Rightarrow> None | Some f \<Rightarrow> if frame_stream f = [] then None else Some f) of
             Some frame \<Rightarrow>
               (case parse_variant market_event_type_t_table ''e'' (frame_data frame) (market_event_mapping read_as) of
                  Some v \<Rightarrow> success (Market_event v)
                | None \<Rightarrow> failure (mk_error Ec_json 0 0 (''unknown market event in topic: '' @ frame_stream frame)
                                     (frame_data frame)))
           | None \<Rightarrow>
               (case read_control s of
                  Some ctrl \<Rightarrow> success (Control_response ctrl)
                | None \<Rightarrow> failure (mk_error Ec_json 0 0 ''unrecognized frame'' s))))"

section \<open>Properties\<close>

datatype control_call =
    Subscribe_call subscription "subscription list"
  | Unsubscribe_call subscription "subscription list"
  | List_call

fun run_call ::
  "(stream_control_request \<Rightarrow> string option) \<Rightarrow> control_call \<times> error \<Rightarrow> dynamic_stream \<Rightarrow> (error \<times> dynamic_stream) may_throw" where
  "run_call write_json (Subscribe_call s ss, e) d = async_subscribe write_json e s ss d"
| "run_call write_json (Unsubscribe_call s ss, e) d = async_unsubscribe write_json e s ss d"
| "run_call write_json (List_call, e) d = Inr (async_list_subscriptions write_json e d)"

fun run_calls ::
  "(stream_control_request \<Rightarrow> string option) \<Rightarrow> (control_call \<times> error) list \<Rightarrow> dynamic_stream \<Rightarrow> dynamic_stream may_throw" where
  "run_calls write_json [] d = Inr d"
| "run_calls write_json (c # cs) d = bind_exn (run_call write_json c d) (\<lambda>(_, d). run_calls write_json cs d)"

text \<open>The compile-time constraint of the subscribe calls.\<close>

fun call_compiles :: "control_call \<Rightarrow> bool" where
  "call_compiles (Subscribe_call s ss) = same_category s ss"
| "call_compiles (Unsubscribe_call s ss) = same_category s ss"
| "call_compiles List_call = True"

lemma topics_of_defined: "\<exists>ts. topics_of subs = Inr ts \<and> length ts = length subs \<and>
    (\<forall>i < length subs. topic (subs ! i) = Inr (ts ! i))"
proof (induction subs)
  case (Cons s subs)
  then obtain ts where ts: "topics_of subs = Inr ts" "length ts = length subs"
    "\<forall>i < length subs. topic (subs ! i) = Inr (ts ! i)" by blast
  obtain t where "topic s = Inr t" using topic_defined by blast
  with ts show ?case by (auto simp: nth_Cons split: nat.split)
qed simp

text \<open>What the log of a stream satisfies: ids count up from one, and every topic belongs to the category.\<close>

definition in_category :: "stream_category_e \<Rightarrow> string \<Rightarrow> bool" where
  "in_category c t \<longleftrightarrow> (\<exists>sub. category sub = c \<and> topic sub = Inr t)"

definition dyn_ok :: "dynamic_stream \<Rightarrow> bool" where
  "dyn_ok d \<longleftrightarrow> sorted_wrt (<) (map (\<lambda>r. unat (req_id r)) (sent d)) \<and>
     list_all (\<lambda>r. unat (req_id r) \<le> unat (id_counter d)) (sent d) \<and>
     list_all (\<lambda>r. list_all (in_category (dyn_category d)) (req_params r)) (sent d)"

lemma unat_Suc: "Suc (unat w) < 2 ^ 32 \<Longrightarrow> unat (w + 1 :: u32) = Suc (unat w)"
  by (simp add: unat_word_ariths)

lemma send_control_ok:
  assumes "dyn_ok d" "Suc (unat (id_counter d)) < 2 ^ 32" "list_all (in_category (dyn_category d)) topics"
    and "next_id d = (i, d1)"
  shows "dyn_ok (snd (send_control write_json e meth topics i d1))"
    "id_counter (snd (send_control write_json e meth topics i d1)) = id_counter d + 1"
    "dyn_category (snd (send_control write_json e meth topics i d1)) = dyn_category d"
  using assms unat_Suc [OF assms(2)]
  by (auto simp: next_id_def send_control_def Let_def dyn_ok_def sorted_wrt_append list_all_iff split: option.split
      intro: le_imp_less_Suc) (fastforce intro: le_SucI)+

lemma topics_in_category:
  assumes "same_category s ss" "topics_of (s # ss) = Inr ts"
  shows "list_all (in_category (category s)) ts"
proof -
  obtain us where us: "topics_of (s # ss) = Inr us" "length us = length (s # ss)"
    "\<forall>i < length (s # ss). topic ((s # ss) ! i) = Inr (us ! i)"
    using topics_of_defined [of "s # ss"] by blast
  have "category ((s # ss) ! i) = category s" if "i < length (s # ss)" for i
    using assms(1) that by (cases i) (auto simp: same_category_def list_all_length)
  with us assms(2) show ?thesis by (auto simp: list_all_length in_category_def)
qed

lemma send_topics_ok:
  assumes "dyn_ok d" "Suc (unat (id_counter d)) < 2 ^ 32" "same_category s ss"
  shows "\<exists>e' d'. send_topics meth mis write_json e s ss d = Inr (e', d') \<and> dyn_ok d' \<and>
    dyn_category d' = dyn_category d \<and> id_counter d' \<in> {id_counter d, id_counter d + 1}"
proof (cases "category s = dyn_category d")
  case True
  obtain ts where ts: "topics_of (s # ss) = Inr ts" using topics_of_defined by blast
  obtain i d1 where n: "next_id d = (i, d1)" by (cases "next_id d")
  from send_control_ok [OF assms(1,2) _ n, of ts write_json e meth] topics_in_category [OF assms(3) ts] True ts n
  show ?thesis
    by (cases "send_control write_json e meth ts i d1") (auto simp: send_topics_def simp del: topics_of.simps)
next
  case False
  with assms show ?thesis by (simp add: send_topics_def)
qed

lemma run_call_ok:
  assumes "dyn_ok d" "Suc (unat (id_counter d)) < 2 ^ 32" "call_compiles (fst c)"
  shows "\<exists>e' d'. run_call write_json c d = Inr (e', d') \<and> dyn_ok d' \<and>
    dyn_category d' = dyn_category d \<and> unat (id_counter d') \<le> Suc (unat (id_counter d))"
proof -
  obtain call e where c: "c = (call, e)" by (cases c)
  note Suc = unat_Suc [OF assms(2)]
  show ?thesis
  proof (cases call)
    case (Subscribe_call s ss)
    with send_topics_ok [OF assms(1,2), of s ss] assms(3) Suc show ?thesis
      by (fastforce simp: c async_subscribe_def)
  next
    case (Unsubscribe_call s ss)
    with send_topics_ok [OF assms(1,2), of s ss] assms(3) Suc show ?thesis
      by (fastforce simp: c async_unsubscribe_def)
  next
    case List_call
    obtain i d1 where n: "next_id d = (i, d1)" by (cases "next_id d")
    from send_control_ok [OF assms(1,2) _ n, of "[]" write_json e "''LIST_SUBSCRIPTIONS''"] Suc n List_call show ?thesis
      by (cases "send_control write_json e ''LIST_SUBSCRIPTIONS'' [] i d1") (auto simp: c async_list_subscriptions_def)
  qed
qed

lemma run_calls_ok:
  "dyn_ok d \<Longrightarrow> unat (id_counter d) + length cs < 2 ^ 32 \<Longrightarrow> list_all (\<lambda>c. call_compiles (fst c)) cs \<Longrightarrow>
     \<exists>d'. run_calls write_json cs d = Inr d' \<and> dyn_ok d' \<and> dyn_category d' = dyn_category d"
proof (induction cs arbitrary: d)
  case (Cons c cs)
  obtain e' d1 where d1: "run_call write_json c d = Inr (e', d1)" "dyn_ok d1" "dyn_category d1 = dyn_category d"
    "unat (id_counter d1) \<le> Suc (unat (id_counter d))"
    using run_call_ok [of d c write_json] Cons.prems by auto
  with Cons.IH [OF d1(2)] Cons.prems(2,3) show ?case by auto
qed simp

text \<open>
  On a dynamic stream every control request of a session has its own, increasing id (for up
  to 2^32 - 1 calls, the range of the 32-bit counter), and every topic that is ever subscribed
  belongs to the category of the URL the stream is connected to: a call for another category is
  refused without sending anything.
\<close>

lemma dynamic_stream_requests:
  assumes "length calls < 2 ^ 32" "list_all (\<lambda>c. call_compiles (fst c)) calls"
  shows "\<exists>d. run_calls write_json calls (new_dynamic_stream c) = Inr d \<and>
    sorted_wrt (<) (map (\<lambda>r. unat (req_id r)) (sent d)) \<and>
    list_all (\<lambda>r. list_all (in_category c) (req_params r)) (sent d)"
proof -
  have "dyn_ok (new_dynamic_stream c)" by (simp add: dyn_ok_def new_dynamic_stream_def)
  from run_calls_ok [OF this _ assms(2)] assms(1) show ?thesis
    by (auto simp: dyn_ok_def new_dynamic_stream_def)
qed

end
