(* ===== verification/Http_Client.thy ===== *)
theory Http_Client
  imports Signing
begin

text \<open>
  The HTTP transport, \<^verbatim>\<open>transport/http_client.cpp\<close>: a persistent connection that is
  established by \<open>async_connect\<close>, reused by every request, and replaced once per request when
  the exchange on it fails. The network is an input: how a connection attempt ends and how a
  write-and-read exchange ends. Logging callbacks and the steps inside a connection attempt
  (resolve, TCP, TLS) are not distinguished, since all of them end in the same handler.
\<close>

datatype verb = Verb_get | Verb_post | Verb_put | Verb_delete

text \<open>The request put on the wire; an absent field is one the code does not set.\<close>

record wire_request =
  req_method :: verb
  req_target :: string
  req_host :: string
  req_user_agent :: string
  req_content_type :: "string option"
  req_api_key :: "string option"
  req_body :: string

datatype connect_outcome =
    Connect_ok
  | Sni_failed string
  | Connect_threw string

datatype exchange_outcome =
    Replied http_response
  | Exchange_threw string

text \<open>
  The client: the configuration, whether a stream object exists, the connected flag, and (for
  the specification) every request ever handed to a stream for writing.
\<close>

record http_client =
  client_cfg :: config
  has_stream :: bool
  connected :: bool
  attempts :: "wire_request list"

definition new_http_client :: "config \<Rightarrow> http_client" where
  "new_http_client cfg = \<lparr>client_cfg = cfg, has_stream = False, connected = False, attempts = []\<rparr>"

definition impl_async_connect :: "connect_outcome \<Rightarrow> http_client \<Rightarrow> error \<times> http_client" where
  "impl_async_connect outcome c =
     (let c = c\<lparr>has_stream := True\<rparr> in
      case outcome of
        Sni_failed msg \<Rightarrow> (void_failure (mk_error Ec_transport 0 0 msg []), c)
      | Connect_ok \<Rightarrow> (void_success, c\<lparr>connected := True\<rparr>)
      | Connect_threw what \<Rightarrow> (void_failure (mk_error Ec_transport 0 0 what []), c\<lparr>connected := False\<rparr>))"

definition disconnect :: "http_client \<Rightarrow> http_client" where
  "disconnect c = c\<lparr>has_stream := False, connected := False\<rparr>"

definition make_request :: "config \<Rightarrow> verb \<Rightarrow> string \<Rightarrow> string \<Rightarrow> string \<Rightarrow> string \<Rightarrow> wire_request" where
  "make_request cfg meth tgt bdy content_type key =
     \<lparr>req_method = meth, req_target = tgt, req_host = rest_host cfg, req_user_agent = user_agent cfg,
      req_content_type = (if content_type \<noteq> [] then Some content_type else None),
      req_api_key = (if key \<noteq> [] then Some key else None),
      req_body = (if meth \<noteq> Verb_get \<and> meth \<noteq> Verb_delete then bdy else [])\<rparr>"

text \<open>
  One exchange: undefined when there is no stream to dereference; otherwise the inner sum is the
  thrown \<^verbatim>\<open>system_error\<close> or the response.
\<close>

definition async_send_receive ::
  "exchange_outcome \<Rightarrow> wire_request \<Rightarrow> http_client \<Rightarrow> ((string + http_response) \<times> http_client) may_throw" where
  "async_send_receive outcome req c =
     (if \<not> has_stream c then Inl Undefined_behaviour
      else let c = c\<lparr>attempts := attempts c @ [req]\<rparr> in
        case outcome of
          Replied r \<Rightarrow> Inr (Inr r, c)
        | Exchange_threw what \<Rightarrow> Inr (Inl what, c))"

definition http_async_connect :: "connect_outcome \<Rightarrow> http_client \<Rightarrow> error \<times> http_client" where
  "http_async_connect outcome c =
     (if connected c then (void_success, c) else impl_async_connect outcome c)"

definition not_connected_error :: error where
  "not_connected_error = mk_error Ec_transport 0 0 
     (''not connected '' @ [CHR 0xE2, CHR 0x80, CHR 0x94] @ '' call async_connect() first'') []"

text \<open>What the network does during one request: the first exchange, the reconnect, the second exchange.\<close>

record net_script =
  first_exchange :: exchange_outcome
  reconnect :: connect_outcome
  second_exchange :: exchange_outcome

definition async_request ::
  "net_script \<Rightarrow> verb \<Rightarrow> string \<Rightarrow> string \<Rightarrow> string \<Rightarrow> string \<Rightarrow> http_client \<Rightarrow>
   (http_response result \<times> http_client) may_throw" where
  "async_request net meth tgt bdy content_type key c =
     (if \<not> connected c then Inr (failure not_connected_error, c)
      else
        let req = make_request (client_cfg c) meth tgt bdy content_type key in
        bind_exn (async_send_receive (first_exchange net) req c) (\<lambda>(outcome, c).
          case outcome of
            Inr r \<Rightarrow> Inr (success r, c)
          | Inl _ \<Rightarrow>
              let (conn, c) = impl_async_connect (reconnect net) (disconnect c) in
              if \<not> void_ok conn then Inr (failure conn, c)
              else
                bind_exn (async_send_receive (second_exchange net) req c) (\<lambda>(outcome, c).
                  case outcome of
                    Inr r \<Rightarrow> Inr (success r, c)
                  | Inl what \<Rightarrow> Inr (failure (mk_error Ec_transport 0 0 what []), disconnect c))))"

section \<open>Properties\<close>

definition client_ok :: "http_client \<Rightarrow> bool" where
  "client_ok c \<longleftrightarrow> (connected c \<longrightarrow> has_stream c)"

lemma client_ok_simps [simp]:
  "client_ok (new_http_client cfg)" "client_ok (disconnect c)"
  by (simp_all add: client_ok_def new_http_client_def disconnect_def)

lemma connect_ok [simp]:
  "client_ok (snd (impl_async_connect outcome c))"
  "client_ok c \<Longrightarrow> client_ok (snd (http_async_connect outcome c))"
  by (auto simp: impl_async_connect_def http_async_connect_def client_ok_def Let_def split: connect_outcome.split)

lemma reconnect_keeps:
  "client_cfg (snd (impl_async_connect outcome (disconnect c))) = client_cfg c"
  "attempts (snd (impl_async_connect outcome (disconnect c))) = attempts c"
  "void_ok (fst (impl_async_connect outcome c)) \<longleftrightarrow> outcome = Connect_ok"
  "void_ok (fst (impl_async_connect outcome c)) \<Longrightarrow>
     has_stream (snd (impl_async_connect outcome c)) \<and> connected (snd (impl_async_connect outcome c))"
  "\<not> void_ok (fst (impl_async_connect outcome (disconnect c))) \<Longrightarrow>
     \<not> connected (snd (impl_async_connect outcome (disconnect c)))"
  by (auto simp: impl_async_connect_def disconnect_def void_ok_def void_success_def void_failure_def Let_def
      split: connect_outcome.splits)

text \<open>How a request on a connected client ends, by what the network does.\<close>

lemma async_request_cases:
  assumes "client_ok c" "connected c"
  shows "async_request net meth tgt bdy content_type key c =
    (let req = make_request (client_cfg c) meth tgt bdy content_type key;
         c1 = c\<lparr>attempts := attempts c @ [req]\<rparr>;
         (conn, c2) = impl_async_connect (reconnect net) (disconnect c1)
     in case first_exchange net of
          Replied r \<Rightarrow> Inr (success r, c1)
        | Exchange_threw _ \<Rightarrow>
            if reconnect net \<noteq> Connect_ok then Inr (failure conn, c2)
            else (case second_exchange net of
                    Replied r \<Rightarrow> Inr (success r, c2\<lparr>attempts := attempts c2 @ [req]\<rparr>)
                  | Exchange_threw what \<Rightarrow>
                      Inr (failure (mk_error Ec_transport 0 0 what []),
                           disconnect (c2\<lparr>attempts := attempts c2 @ [req]\<rparr>))))"
proof -
  have "has_stream c" using assms by (simp add: client_ok_def)
  moreover note reconnect_keeps(3,4) [of "reconnect net" "disconnect (c\<lparr>attempts := attempts c @
    [make_request (client_cfg c) meth tgt bdy content_type key]\<rparr>)"]
  ultimately show ?thesis using assms(2)
    by (auto simp: async_request_def async_send_receive_def Let_def
        split: exchange_outcome.split prod.split)
qed

lemma async_request_cfg:
  "async_request net meth tgt bdy content_type key c = Inr p \<Longrightarrow> client_cfg (snd p) = client_cfg c"
  by (auto simp: async_request_def async_send_receive_def impl_async_connect_def disconnect_def Let_def
      split: if_splits exchange_outcome.splits connect_outcome.splits)

lemma async_request_spec:
  assumes "client_ok c"
  shows "\<exists>r c' n. async_request net meth tgt bdy content_type key c = Inr (r, c') \<and>
    client_ok c' \<and> result_wf r \<and> n \<le> 2 \<and>
    attempts c' = attempts c @ replicate n (make_request (client_cfg c) meth tgt bdy content_type key) \<and>
    (n = 0 \<longleftrightarrow> \<not> connected c) \<and> (n = 2 \<longleftrightarrow> connected c \<and> (\<exists>e. first_exchange net = Exchange_threw e) \<and> reconnect net = Connect_ok) \<and>
    (is_ok r \<longleftrightarrow> n > 0 \<and> (\<exists>a. (if n = 1 then first_exchange net else second_exchange net) = Replied a)) \<and>
    (\<forall>a. is_ok r \<and> (if n = 1 then first_exchange net else second_exchange net) = Replied a \<longrightarrow> result_value r = Some a) \<and>
    (is_ok r \<or> (error_code_of (err r) = Ec_transport \<and> connected c' = False)) \<and>
    (is_ok r \<longrightarrow> connected c')"
proof (cases "connected c")
  case False
  with assms show ?thesis
    by (auto simp: async_request_def not_connected_error_def)
next
  case True
  let ?req = "make_request (client_cfg c) meth tgt bdy content_type key"
  let ?c1 = "c\<lparr>attempts := attempts c @ [?req]\<rparr>"
  obtain conn c2 where conn: "impl_async_connect (reconnect net) (disconnect ?c1) = (conn, c2)"
    by (cases "impl_async_connect (reconnect net) (disconnect ?c1)")
  have c2: "attempts c2 = attempts c @ [?req]" "client_ok c2" "has_stream c2"
    "reconnect net = Connect_ok \<longleftrightarrow> connected c2" "connected c2 \<or> error_code_of conn = Ec_transport"
    using conn by (auto simp: impl_async_connect_def disconnect_def Let_def void_failure_def client_ok_def
        split: connect_outcome.splits)
  note eq = async_request_cases [OF assms True, of net meth tgt bdy content_type key, unfolded Let_def conn]
  show ?thesis
  proof (cases "first_exchange net")
    case (Replied r)
    with eq True assms show ?thesis by (intro exI [of _ "success r"] exI [of _ ?c1] exI [of _ 1]) (simp add: client_ok_def)
  next
    case threw: (Exchange_threw e)
    show ?thesis
    proof (cases "reconnect net = Connect_ok")
      case False
      with eq threw c2 True show ?thesis by (intro exI [of _ "failure conn"] exI [of _ c2] exI [of _ 1]) simp
    next
      case ok: True
      let ?c3 = "c2\<lparr>attempts := attempts c2 @ [?req]\<rparr>"
      show ?thesis
      proof (cases "second_exchange net")
        case (Replied r)
        with eq threw ok c2 True show ?thesis
          by (intro exI [of _ "success r"] exI [of _ ?c3] exI [of _ 2]) (simp add: client_ok_def numeral_2_eq_2)
      next
        case (Exchange_threw what)
        with eq threw ok c2 True show ?thesis
          by (intro exI [of _ "failure (mk_error Ec_transport 0 0 what [])"] exI [of _ "disconnect ?c3"] exI [of _ 2])
            (simp add: numeral_2_eq_2, simp add: disconnect_def)
      qed
    qed
  qed
qed

lemma async_request_sends:
  assumes "client_ok c"
  shows "\<exists>r c' n. async_request net meth tgt bdy content_type key c = Inr (r, c') \<and>
    client_ok c' \<and> result_wf r \<and> n \<le> 2 \<and>
    attempts c' = attempts c @ replicate n (make_request (client_cfg c) meth tgt bdy content_type key)"
  using async_request_spec [OF assms, of net meth tgt bdy content_type key] by metis

text \<open>
  C15: a request never touches a missing stream and puts the same request on the wire at most
  twice, the second time only after the first exchange failed and a new connection was made. It
  succeeds exactly when one of these exchanges is answered, with that answer; a failure is always a
  transport error and leaves the client disconnected, and the client stays consistent.
\<close>

theorem async_request_retries_once:
  assumes "client_ok c"
  shows "\<exists>r c' n. async_request net meth tgt bdy content_type key c = Inr (r, c') \<and>
    client_ok c' \<and> result_wf r \<and> n \<le> 2 \<and>
    attempts c' = attempts c @ replicate n (make_request (client_cfg c) meth tgt bdy content_type key) \<and>
    (n = 0 \<longleftrightarrow> \<not> connected c) \<and> (n = 2 \<longleftrightarrow> connected c \<and> (\<exists>e. first_exchange net = Exchange_threw e) \<and> reconnect net = Connect_ok) \<and>
    (is_ok r \<longleftrightarrow> n > 0 \<and> (\<exists>a. (if n = 1 then first_exchange net else second_exchange net) = Replied a)) \<and>
    (\<forall>a. is_ok r \<and> (if n = 1 then first_exchange net else second_exchange net) = Replied a \<longrightarrow> result_value r = Some a) \<and>
    (is_ok r \<or> (error_code_of (err r) = Ec_transport \<and> connected c' = False)) \<and>
    (is_ok r \<longrightarrow> connected c')"
  by (rule async_request_spec [OF assms])

theorem async_request_retries_once_witness:
  "\<exists>r c'. async_request \<lparr>first_exchange = Exchange_threw ''stale'', reconnect = Connect_ok,
        second_exchange = Replied \<lparr>status = 200, body = ''{}''\<rparr>\<rparr> Verb_post ''/fapi/v1/order'' ''a=b'' [] []
        (snd (http_async_connect Connect_ok (new_http_client default_config))) = Inr (r, c') \<and>
     is_ok r \<and> length (attempts c') = 2"
  using async_request_retries_once [of "snd (http_async_connect Connect_ok (new_http_client default_config))"
    "\<lparr>first_exchange = Exchange_threw ''stale'', reconnect = Connect_ok,
      second_exchange = Replied \<lparr>status = 200, body = ''{}''\<rparr>\<rparr>" Verb_post "''/fapi/v1/order''" "''a=b''" "[]" "[]"]
  by (auto simp: http_async_connect_def impl_async_connect_def new_http_client_def client_ok_def)

end
