(* ===== verification/Rest_Pipeline.thy ===== *)
theory Rest_Pipeline
  imports Decimal_Text Enums Http_Client
begin

text \<open>
  From a request struct to the wire and back: the reflection of request fields into query
  parameters (\<^verbatim>\<open>query.hpp\<close>), the REST pipeline (\<^verbatim>\<open>rest/pipeline.hpp\<close>) and the trade
  calls that build their query by hand (\<^verbatim>\<open>rest/trade.cpp\<close>). A request struct appears as
  the list of its reflected fields, key and member; the clock is an argument.
\<close>

section \<open>Fields to parameters\<close>

datatype field_value =
    Fv_string string
  | Fv_symbol symbol_t
  | Fv_decimal decimal_t
  | Fv_bool bool
  | Fv_u64 u64
  | Fv_timestamp timestamp_ms_t
  | Fv_int int
  | Fv_enum "string may_throw"

fun to_query_value :: "field_value \<Rightarrow> string may_throw" where
  "to_query_value (Fv_string s) = Inr s"
| "to_query_value (Fv_symbol s) = Inr (str s)"
| "to_query_value (Fv_decimal d) = to_string d"
| "to_query_value (Fv_bool b) = Inr (if b then ''true'' else ''false'')"
| "to_query_value (Fv_u64 n) = Inr (dec_digits (unat n))"
| "to_query_value (Fv_timestamp t) = Inr (timestamp_to_string t)"
| "to_query_value (Fv_int i) = Inr (int_to_string i)"
| "to_query_value (Fv_enum s) = s"

datatype member = Plain field_value | Optional "field_value option"

definition emit_field :: "string \<Rightarrow> member \<Rightarrow> query_map \<Rightarrow> query_map may_throw" where
  "emit_field key m result =
     (case m of
        Optional None \<Rightarrow> Inr result
      | Optional (Some v) \<Rightarrow> bind_exn (to_query_value v) (\<lambda>s. Inr (map_emplace (<) key s result))
      | Plain v \<Rightarrow> bind_exn (to_query_value v) (\<lambda>s. Inr (map_emplace (<) key s result)))"

type_synonym reflected = "(string \<times> member) list"

fun emit_fields :: "reflected \<Rightarrow> query_map \<Rightarrow> query_map may_throw" where
  "emit_fields [] result = Inr result"
| "emit_fields ((key, m) # fs) result = bind_exn (emit_field key m result) (emit_fields fs)"

definition to_query_map :: "reflected \<Rightarrow> query_map may_throw" where
  "to_query_map request = emit_fields request []"

section \<open>The pipeline\<close>

definition is_query_verb :: "verb \<Rightarrow> bool" where
  "is_query_verb m \<longleftrightarrow> m = Verb_get \<or> m = Verb_delete"

definition authorise ::
  "'k openssl \<Rightarrow> config \<Rightarrow> timestamp_ms_t \<Rightarrow> bool \<Rightarrow> query_map \<Rightarrow> query_map may_throw" where
  "authorise ossl cfg now signed_request query =
     (if signed_request then sign_query ossl cfg (inject_auth_query (recv_window cfg) now query) else Inr query)"

definition place_query :: "config \<Rightarrow> verb \<Rightarrow> string \<Rightarrow> query_map \<Rightarrow> string \<times> string" where
  "place_query cfg meth path final_query =
     (let query_string = build_query_string final_query;
          tgt = rest_base_path cfg @ path
      in if query_string \<noteq> [] then
           if is_query_verb meth then (tgt @ ''?'' @ query_string, []) else (tgt, query_string)
         else (tgt, []))"

definition async_execute ::
  "'k openssl \<Rightarrow> (http_response \<Rightarrow> 'r result) \<Rightarrow> config \<Rightarrow> timestamp_ms_t \<Rightarrow> net_script \<Rightarrow>
   verb \<Rightarrow> string \<Rightarrow> query_map \<Rightarrow> bool \<Rightarrow> http_client \<Rightarrow> ('r result \<times> http_client) may_throw" where
  "async_execute ossl decode cfg now net meth path query signed_request c =
     bind_exn (authorise ossl cfg now signed_request query) (\<lambda>final_query.
       let (tgt, bdy) = place_query cfg meth path final_query in
       bind_exn (async_request net meth tgt bdy ''application/x-www-form-urlencoded'' (api_key cfg) c)
         (\<lambda>(response, c).
            if \<not> is_ok response then Inr (failure (err response), c)
            else bind_exn (deref response) (\<lambda>r. Inr (decode r, c))))"

section \<open>Trade calls with their own serialisation\<close>

record cancel_multiple_orders_request_t =
  cancel_symbol :: symbol_t
  orderIdList :: "u64 list option"
  origClientOrderIdList :: "string list option"

text \<open>The loops that join the identifiers.\<close>

definition join_ids :: "string list \<Rightarrow> string" where
  "join_ids ids = foldl (\<lambda>out s. (if out \<noteq> [] then out @ '','' else out) @ s) [] ids"

definition order_id_list :: "u64 list \<Rightarrow> string" where
  "order_id_list ids = ''['' @ join_ids (map (\<lambda>i. dec_digits (unat i)) ids) @ '']''"

definition client_id_list :: "string list \<Rightarrow> string" where
  "client_id_list ids = ''['' @ join_ids (map (\<lambda>i. CHR 0x22 # i @ [CHR 0x22]) ids) @ '']''"

definition cancel_batch_query :: "cancel_multiple_orders_request_t \<Rightarrow> query_map" where
  "cancel_batch_query request =
     (let query = [(''symbol'', str (cancel_symbol request))];
          query = (case orderIdList request of None \<Rightarrow> query
                   | Some ids \<Rightarrow> query_put ''orderIdList'' (order_id_list ids) query)
      in case origClientOrderIdList request of None \<Rightarrow> query
         | Some ids \<Rightarrow> query_put ''origClientOrderIdList'' (client_id_list ids) query)"

definition modify_batch_query :: "string \<Rightarrow> query_map" where
  "modify_batch_query batchOrders = [(''batchOrders'', batchOrders)]"

section \<open>What reflection produces\<close>

text \<open>The parameter a member contributes, if any.\<close>

definition param :: "member \<Rightarrow> string may_throw option" where
  "param m = (case m of Plain v \<Rightarrow> Some (to_query_value v) | Optional v \<Rightarrow> map_option to_query_value v)"

definition printable :: "reflected \<Rightarrow> bool" where
  "printable fs \<longleftrightarrow> list_all (\<lambda>(k, m). case param m of Some (Inl _) \<Rightarrow> False | _ \<Rightarrow> True) fs"

definition param_text :: "member \<Rightarrow> string option" where
  "param_text m = (case param m of Some (Inr s) \<Rightarrow> Some s | _ \<Rightarrow> None)"

lemma emit_field_eq:
  "(case param m of Some (Inl _) \<Rightarrow> False | _ \<Rightarrow> True) \<Longrightarrow>
     emit_field k m q = Inr (case param_text m of None \<Rightarrow> q | Some s \<Rightarrow> map_emplace (<) k s q)"
  by (auto simp: emit_field_def param_text_def param_def split: member.splits option.splits sum.splits)

lemma emit_field_get:
  "query_get (case param_text m of None \<Rightarrow> q | Some s \<Rightarrow> map_emplace (<) k s q) k' =
     (if k' = k \<and> query_get q k = None then param_text m else query_get q k')"
  by (auto simp: str_less.find_emplace_eq split: option.split)

lemma emit_fields_get:
  assumes "printable fs" "distinct (map fst fs)" "query_ok q" "\<forall>k \<in> fst ` set fs. query_get q k = None"
  shows "\<exists>q'. emit_fields fs q = Inr q' \<and> query_ok q' \<and>
    (\<forall>k. query_get q' k = (case map_of fs k of None \<Rightarrow> query_get q k | Some m \<Rightarrow> param_text m))"
  using assms
proof (induction fs arbitrary: q)
  case (Cons f fs)
  obtain k m where f: "f = (k, m)" by (cases f)
  define q1 where "q1 = (case param_text m of None \<Rightarrow> q | Some s \<Rightarrow> map_emplace (<) k s q)"
  have emit: "emit_field k m q = Inr q1"
    using Cons.prems(1) unfolding q1_def by (intro emit_field_eq) (simp add: printable_def f)
  have q: "query_get q k = None" "k \<notin> fst ` set fs" using Cons.prems by (auto simp: f)
  have get: "query_get q1 k' = (if k' = k then param_text m else query_get q k')" for k'
    using q(1) by (simp add: q1_def emit_field_get)
  have "query_ok q1"
    using Cons.prems(3) by (simp add: q1_def query_ok_def str_less.ordered_emplace split: option.split)
  moreover have "\<forall>k' \<in> fst ` set fs. query_get q1 k' = None"
    using Cons.prems(4) q by (auto simp: get f)
  ultimately obtain q' where q': "emit_fields fs q1 = Inr q'" "query_ok q'"
    "\<forall>k'. query_get q' k' = (case map_of fs k' of None \<Rightarrow> query_get q1 k' | Some m \<Rightarrow> param_text m)"
    using Cons.IH [of q1] Cons.prems(1,2) by (auto simp: printable_def f)
  moreover have "map_of fs k = None" using q(2) by (simp add: map_of_eq_None_iff)
  ultimately show ?case using emit by (auto simp: f get split: option.split)
qed simp

text \<open>
  Reflecting a request whose keys are distinct and whose values print gives an ordered query
  with exactly the fields that are set: each under its key with its text, unset optional
  fields omitted, nothing else.
\<close>

lemma to_query_map_exact:
  assumes "distinct (map fst request)" "printable request"
  shows "\<exists>q. to_query_map request = Inr q \<and> query_ok q \<and>
    (\<forall>k. query_get q k = Option.bind (map_of request k) param_text)"
  using emit_fields_get [OF assms(2,1), of "[]"]
  by (auto simp: to_query_map_def query_ok_def split: option.splits) (metis option.exhaust_sel bind.simps)

section \<open>Signed requests\<close>

text \<open>The signature the configuration calls for, and the receiver's check of a query string.\<close>

definition signature_of :: "'k openssl \<Rightarrow> config \<Rightarrow> string \<Rightarrow> string may_throw" where
  "signature_of ossl cfg canonical =
     (case sign_method cfg of
        Sign_ed25519 \<Rightarrow> ed25519_sign_base64 ossl (ed25519_private_key_pem cfg) canonical
      | Sign_hmac \<Rightarrow> Inr (hmac_sha256_hex ossl (secret_key cfg) canonical))"

definition signature_verifies :: "'k openssl \<Rightarrow> config \<Rightarrow> string \<Rightarrow> bool" where
  "signature_verifies ossl cfg query_string =
     (let p = parse_query query_string in
      case query_get p ''signature'' of
        None \<Rightarrow> False
      | Some sig \<Rightarrow> signature_of ossl cfg (build_query_string (map_erase (<) ''signature'' p)) = Inr sig)"

lemma sign_query_eq:
  "sign_query ossl cfg q =
     bind_exn (signature_of ossl cfg (build_query_string q)) (\<lambda>sig. Inr (query_put ''signature'' sig q))"
  by (simp add: sign_query_def signature_of_def split: sign_method_t.split)

lemma inject_auth_ok [simp]: "query_ok q \<Longrightarrow> query_ok (inject_auth_query w now q)"
  by (simp add: inject_auth_query_def)

lemma inject_auth_get:
  "query_get (inject_auth_query w now q) k =
     (if k = ''timestamp'' then Some (timestamp_to_string now)
      else if k = ''recvWindow'' then Some (dec_digits (unat w)) else query_get q k)"
  by (simp add: inject_auth_query_def)

lemma signed_query_verifies:
  assumes "query_ok q" "query_get q ''signature'' = None" "authorise ossl cfg now True q = Inr final"
  shows "signature_verifies ossl cfg (build_query_string final)"
proof -
  let ?plain = "inject_auth_query (recv_window cfg) now q"
  obtain sig where sig: "signature_of ossl cfg (build_query_string ?plain) = Inr sig"
    "final = query_put ''signature'' sig ?plain"
    using assms(3) by (auto simp: authorise_def sign_query_eq bind_exn_Inr_iff)
  have "map_erase (<) ''signature'' final = ?plain"
    using assms(1,2) inject_auth_ok [of q] unfolding sig(2) query_put_def query_ok_def
    by (intro str_less.erase_put_same) (simp_all add: inject_auth_get)
  then show ?thesis using sig by (simp add: signature_verifies_def parse_build)
qed

lemma authorise_get:
  assumes "authorise ossl cfg now True q = Inr final" "k \<noteq> ''signature''"
  shows "query_get final k = query_get (inject_auth_query (recv_window cfg) now q) k"
  using assms by (auto simp: authorise_def sign_query_eq bind_exn_Inr_iff)

lemma authorise_not_Nil: "authorise ossl cfg now True q = Inr final \<Longrightarrow> build_query_string final \<noteq> []"
proof
  assume "authorise ossl cfg now True q = Inr final" "build_query_string final = []"
  then have "final = []" using parse_build [of final] by (simp add: parse_query_def)
  moreover have "query_get final ''timestamp'' = Some (timestamp_to_string now)"
    using authorise_get [OF \<open>authorise ossl cfg now True q = Inr final\<close>, of "''timestamp''"]
    by (simp add: inject_auth_get)
  ultimately show False by simp
qed

lemma async_execute_sends:
  assumes "client_ok c" "async_execute ossl decode cfg now net meth path q s c = Inr (r, c')"
    "authorise ossl cfg now s q = Inr final" "place_query cfg meth path final = (tgt, bdy)"
  shows "\<exists>n \<le> 2. client_ok c' \<and> attempts c' = attempts c @ replicate n
    (make_request (client_cfg c) meth tgt bdy ''application/x-www-form-urlencoded'' (api_key cfg))"
proof -
  obtain resp c1 n where req: "async_request net meth tgt bdy ''application/x-www-form-urlencoded'' (api_key cfg) c =
      Inr (resp, c1)" "client_ok c1" "n \<le> 2" "attempts c1 = attempts c @ replicate n
      (make_request (client_cfg c) meth tgt bdy ''application/x-www-form-urlencoded'' (api_key cfg))"
    using async_request_sends [OF assms(1)] by blast
  moreover have "c1 = c'"
    using assms(2) req(1) by (auto simp: async_execute_def assms(3,4) bind_exn_Inr_iff split: if_splits)
  ultimately show ?thesis by blast
qed

lemma async_execute_cfg:
  "async_execute ossl decode cfg now net meth path q s c = Inr (r, c') \<Longrightarrow> client_cfg c' = client_cfg c"
  by (auto simp: async_execute_def bind_exn_Inr_iff case_prod_beta Let_def dest!: async_request_cfg split: if_splits)

lemma async_execute_defined:
  assumes "client_ok c" "authorise ossl cfg now s q = Inr final"
  shows "\<exists>r c'. async_execute ossl decode cfg now net meth path q s c = Inr (r, c') \<and> client_ok c' \<and>
    ((\<forall>resp. result_wf (decode resp)) \<longrightarrow> result_wf r)"
proof -
  obtain tgt bdy where place: "place_query cfg meth path final = (tgt, bdy)"
    by (cases "place_query cfg meth path final")
  obtain resp c1 where resp: "async_request net meth tgt bdy ''application/x-www-form-urlencoded'' (api_key cfg) c =
      Inr (resp, c1)" "result_wf resp" "client_ok c1"
    using async_request_sends [OF assms(1)] by blast
  from resp(2) show ?thesis
    by (cases rule: result_wf_cases) (simp_all add: async_execute_def assms(2) place resp(1,3) is_ok_def)
qed

text \<open>
  C4: every signed request that goes out verifies at the receiver. Whatever the parameters (without a
  signature of their own), each copy on the wire carries in its URL (GET, DELETE) or in its body
  (POST, PUT) a query string with the timestamp, the receive window and all parameters, whose
  signature parameter is the configured signature of the string that remains without it.
\<close>

theorem signed_request_verifies:
  assumes "client_ok c" "query_ok q" "query_get q ''signature'' = None"
    and "async_execute ossl decode cfg now net meth path q True c = Inr (r, c')"
  shows "\<exists>qs n. n \<le> 2 \<and>
    attempts c' = attempts c @ replicate n (make_request (client_cfg c) meth
      (rest_base_path cfg @ path @ (if is_query_verb meth then ''?'' @ qs else []))
      (if is_query_verb meth then [] else qs) ''application/x-www-form-urlencoded'' (api_key cfg)) \<and>
    signature_verifies ossl cfg qs \<and>
    query_get (parse_query qs) ''timestamp'' = Some (timestamp_to_string now) \<and>
    query_get (parse_query qs) ''recvWindow'' = Some (dec_digits (unat (recv_window cfg))) \<and>
    (\<forall>k. k \<notin> {''timestamp'', ''recvWindow'', ''signature''} \<longrightarrow> query_get (parse_query qs) k = query_get q k)"
proof -
  obtain final where final: "authorise ossl cfg now True q = Inr final"
    using assms(4) by (auto simp: async_execute_def bind_exn_Inr_iff)
  let ?qs = "build_query_string final"
  have "place_query cfg meth path final =
      (rest_base_path cfg @ path @ (if is_query_verb meth then ''?'' @ ?qs else []), if is_query_verb meth then [] else ?qs)"
    using authorise_not_Nil [OF final] by (simp add: place_query_def)
  from async_execute_sends [OF assms(1,4) final this]
  obtain n where "n \<le> 2" "attempts c' = attempts c @ replicate n (make_request (client_cfg c) meth
      (rest_base_path cfg @ path @ (if is_query_verb meth then ''?'' @ ?qs else []))
      (if is_query_verb meth then [] else ?qs) ''application/x-www-form-urlencoded'' (api_key cfg))"
    by blast
  then show ?thesis
    using signed_query_verifies [OF assms(2,3) final] authorise_get [OF final]
    by (intro exI [of _ ?qs] exI [of _ n]) (simp add: parse_build inject_auth_get)
qed

text \<open>An OpenSSL whose HMAC is one byte, and a client that is connected, for a concrete run.\<close>

definition sample_openssl :: "unit openssl" where
  "sample_openssl =
     \<lparr>ossl_hmac = (\<lambda>key data. [of_nat (length key + length data)]), ossl_new_bio = (\<lambda>_. True),
      ossl_read_key = (\<lambda>_. Some ()), ossl_new_ctx = True, ossl_sign_size = (\<lambda>_ _. True),
      ossl_sign = (\<lambda>_ data. Some [of_nat (length data)]), ossl_base64 = to_hex\<rparr>"

definition sample_client :: http_client where
  "sample_client = \<lparr>client_cfg = default_config, has_stream = True, connected = True, attempts = []\<rparr>"

definition sample_net :: net_script where
  "sample_net = \<lparr>first_exchange = Replied \<lparr>status = 200, body = ''{}''\<rparr>, reconnect = Connect_ok,
     second_exchange = Exchange_threw []\<rparr>"

theorem signed_request_verifies_witness:
  "\<exists>r c' qs n. async_execute sample_openssl success default_config (Timestamp_ms 1) sample_net Verb_post
       ''/fapi/v1/order'' [(''symbol'', ''BTCUSDT'')] True sample_client = Inr (r, c') \<and>
     attempts c' = replicate n (make_request default_config Verb_post ''/fapi/v1/order'' qs
       ''application/x-www-form-urlencoded'' []) \<and>
     signature_verifies sample_openssl default_config qs \<and> query_get (parse_query qs) ''symbol'' = Some ''BTCUSDT''"
proof -
  have ok: "client_ok sample_client" "query_ok [(''symbol'', ''BTCUSDT'')]"
    "query_get [(''symbol'', ''BTCUSDT'')] ''signature'' = None"
    by (simp_all add: client_ok_def sample_client_def query_ok_def map_ordered_def)
  have "\<exists>final. authorise sample_openssl default_config (Timestamp_ms 1) True [(''symbol'', ''BTCUSDT'')] = Inr final"
    by (simp add: authorise_def sign_query_def ed25519_sign_base64_def sample_openssl_def default_config_def Let_def)
  then obtain r c' where run: "async_execute sample_openssl success default_config (Timestamp_ms 1) sample_net Verb_post
       ''/fapi/v1/order'' [(''symbol'', ''BTCUSDT'')] True sample_client = Inr (r, c')"
    using async_execute_defined [OF ok(1)] by blast
  obtain qs n where "attempts c' = attempts sample_client @ replicate n (make_request (client_cfg sample_client) Verb_post
      (rest_base_path default_config @ ''/fapi/v1/order'' @ (if is_query_verb Verb_post then ''?'' @ qs else []))
      (if is_query_verb Verb_post then [] else qs) ''application/x-www-form-urlencoded'' (api_key default_config))"
    and qs: "signature_verifies sample_openssl default_config qs"
      "\<forall>k. k \<notin> {''timestamp'', ''recvWindow'', ''signature''} \<longrightarrow>
         query_get (parse_query qs) k = query_get [(''symbol'', ''BTCUSDT'')] k"
    using signed_request_verifies [OF ok run] by blast
  then have "attempts c' = replicate n (make_request default_config Verb_post ''/fapi/v1/order'' qs
       ''application/x-www-form-urlencoded'' [])"
    by (simp add: is_query_verb_def sample_client_def) (simp add: default_config_def)
  moreover have "query_get (parse_query qs) ''symbol'' = Some ''BTCUSDT''"
    using qs(2) [rule_format, of "''symbol''"] by simp
  ultimately show ?thesis using run qs(1) by (intro exI [of _ r] exI [of _ c'] exI [of _ qs] exI [of _ n]) simp
qed

end
