(* ===== verification/Endpoints.thy ===== *)
theory Endpoints
  imports Rest_Pipeline
begin

text \<open>
  The REST endpoint registry: the metadata constants of \<^verbatim>\<open>rest/generated_endpoints.hpp\<close>, the
  mapping of request types to endpoints, services and response types of
  \<^verbatim>\<open>rest/endpoint_traits.hpp\<close>, and the execution of a request struct through its traits
  (\<^verbatim>\<open>pipeline::async_execute(const Request&)\<close>). Request and response types appear by name.
\<close>

section \<open>The registry\<close>

named_theorems endpoint_defs \<open>the endpoint constants and traits\<close>

record endpoint_metadata =
  ep_name :: string
  ep_verb :: verb
  ep_path :: string
  ep_security :: security_type_t
  ep_signed_request :: bool
  ep_requires_timestamp :: bool
  ep_allows_recv_window :: bool

definition mk_endpoint :: "string \<Rightarrow> verb \<Rightarrow> string \<Rightarrow> security_type_t \<Rightarrow> bool \<Rightarrow> bool \<Rightarrow> bool \<Rightarrow> endpoint_metadata" where [endpoint_defs]:
  "mk_endpoint n v p s sig ts rw =
     \<lparr>ep_name = n, ep_verb = v, ep_path = p, ep_security = s, ep_signed_request = sig,
      ep_requires_timestamp = ts, ep_allows_recv_window = rw\<rparr>"

definition ping_endpoint :: endpoint_metadata where [endpoint_defs]:
  "ping_endpoint = mk_endpoint ''ping'' Verb_get ''/fapi/v1/ping'' Security_type_none False False False"

definition server_time_endpoint :: endpoint_metadata where [endpoint_defs]:
  "server_time_endpoint = mk_endpoint ''server_time'' Verb_get ''/fapi/v1/time'' Security_type_none False False False"

definition exchange_info_endpoint :: endpoint_metadata where [endpoint_defs]:
  "exchange_info_endpoint = mk_endpoint ''exchange_info'' Verb_get ''/fapi/v1/exchangeInfo'' Security_type_none False False False"

definition order_book_endpoint :: endpoint_metadata where [endpoint_defs]:
  "order_book_endpoint = mk_endpoint ''order_book'' Verb_get ''/fapi/v1/depth'' Security_type_none False False False"

definition recent_trades_endpoint :: endpoint_metadata where [endpoint_defs]:
  "recent_trades_endpoint = mk_endpoint ''recent_trades'' Verb_get ''/fapi/v1/trades'' Security_type_none False False False"

definition aggregate_trades_endpoint :: endpoint_metadata where [endpoint_defs]:
  "aggregate_trades_endpoint = mk_endpoint ''aggregate_trades'' Verb_get ''/fapi/v1/aggTrades'' Security_type_none False False False"

definition klines_endpoint :: endpoint_metadata where [endpoint_defs]:
  "klines_endpoint = mk_endpoint ''klines'' Verb_get ''/fapi/v1/klines'' Security_type_none False False False"

definition continuous_klines_endpoint :: endpoint_metadata where [endpoint_defs]:
  "continuous_klines_endpoint = mk_endpoint ''continuous_klines'' Verb_get ''/fapi/v1/continuousKlines'' Security_type_none False False False"

definition index_price_klines_endpoint :: endpoint_metadata where [endpoint_defs]:
  "index_price_klines_endpoint = mk_endpoint ''index_price_klines'' Verb_get ''/fapi/v1/indexPriceKlines'' Security_type_none False False False"

definition mark_price_klines_endpoint :: endpoint_metadata where [endpoint_defs]:
  "mark_price_klines_endpoint = mk_endpoint ''mark_price_klines'' Verb_get ''/fapi/v1/markPriceKlines'' Security_type_none False False False"

definition premium_index_klines_endpoint :: endpoint_metadata where [endpoint_defs]:
  "premium_index_klines_endpoint = mk_endpoint ''premium_index_klines'' Verb_get ''/fapi/v1/premiumIndexKlines'' Security_type_none False False False"

definition book_ticker_endpoint :: endpoint_metadata where [endpoint_defs]:
  "book_ticker_endpoint = mk_endpoint ''book_ticker'' Verb_get ''/fapi/v1/ticker/bookTicker'' Security_type_none False False False"

definition price_ticker_endpoint :: endpoint_metadata where [endpoint_defs]:
  "price_ticker_endpoint = mk_endpoint ''price_ticker'' Verb_get ''/fapi/v1/ticker/price'' Security_type_none False False False"

definition ticker_24hr_endpoint :: endpoint_metadata where [endpoint_defs]:
  "ticker_24hr_endpoint = mk_endpoint ''ticker_24hr'' Verb_get ''/fapi/v1/ticker/24hr'' Security_type_none False False False"

definition mark_price_endpoint :: endpoint_metadata where [endpoint_defs]:
  "mark_price_endpoint = mk_endpoint ''mark_price'' Verb_get ''/fapi/v1/premiumIndex'' Security_type_none False False False"

definition funding_rate_history_endpoint :: endpoint_metadata where [endpoint_defs]:
  "funding_rate_history_endpoint = mk_endpoint ''funding_rate_history'' Verb_get ''/fapi/v1/fundingRate'' Security_type_none False False False"

definition funding_rate_info_endpoint :: endpoint_metadata where [endpoint_defs]:
  "funding_rate_info_endpoint = mk_endpoint ''funding_rate_info'' Verb_get ''/fapi/v1/fundingInfo'' Security_type_none False False False"

definition open_interest_endpoint :: endpoint_metadata where [endpoint_defs]:
  "open_interest_endpoint = mk_endpoint ''open_interest'' Verb_get ''/fapi/v1/openInterest'' Security_type_none False False False"

definition open_interest_statistics_endpoint :: endpoint_metadata where [endpoint_defs]:
  "open_interest_statistics_endpoint = mk_endpoint ''open_interest_statistics'' Verb_get ''/futures/data/openInterestHist'' Security_type_none False False False"

definition top_long_short_account_ratio_endpoint :: endpoint_metadata where [endpoint_defs]:
  "top_long_short_account_ratio_endpoint = mk_endpoint ''top_long_short_account_ratio'' Verb_get ''/futures/data/topLongShortAccountRatio'' Security_type_none False False False"

definition top_trader_long_short_ratio_endpoint :: endpoint_metadata where [endpoint_defs]:
  "top_trader_long_short_ratio_endpoint = mk_endpoint ''top_trader_long_short_ratio'' Verb_get ''/futures/data/topLongShortPositionRatio'' Security_type_none False False False"

definition long_short_ratio_endpoint :: endpoint_metadata where [endpoint_defs]:
  "long_short_ratio_endpoint = mk_endpoint ''long_short_ratio'' Verb_get ''/futures/data/globalLongShortAccountRatio'' Security_type_none False False False"

definition taker_buy_sell_volume_endpoint :: endpoint_metadata where [endpoint_defs]:
  "taker_buy_sell_volume_endpoint = mk_endpoint ''taker_buy_sell_volume'' Verb_get ''/futures/data/takerlongshortRatio'' Security_type_none False False False"

definition historical_trades_endpoint :: endpoint_metadata where [endpoint_defs]:
  "historical_trades_endpoint = mk_endpoint ''historical_trades'' Verb_get ''/fapi/v1/historicalTrades'' Security_type_market_data False False False"

definition account_information_endpoint :: endpoint_metadata where [endpoint_defs]:
  "account_information_endpoint = mk_endpoint ''account_information'' Verb_get ''/fapi/v3/account'' Security_type_user_data True True True"

definition account_balances_endpoint :: endpoint_metadata where [endpoint_defs]:
  "account_balances_endpoint = mk_endpoint ''account_balances'' Verb_get ''/fapi/v3/balance'' Security_type_user_data True True True"

definition position_risk_endpoint :: endpoint_metadata where [endpoint_defs]:
  "position_risk_endpoint = mk_endpoint ''position_risk'' Verb_get ''/fapi/v2/positionRisk'' Security_type_user_data True True True"

definition start_listen_key_endpoint :: endpoint_metadata where [endpoint_defs]:
  "start_listen_key_endpoint = mk_endpoint ''start_listen_key'' Verb_post ''/fapi/v1/listenKey'' Security_type_user_stream False False False"

definition keepalive_listen_key_endpoint :: endpoint_metadata where [endpoint_defs]:
  "keepalive_listen_key_endpoint = mk_endpoint ''keepalive_listen_key'' Verb_put ''/fapi/v1/listenKey'' Security_type_user_stream False False False"

definition close_listen_key_endpoint :: endpoint_metadata where [endpoint_defs]:
  "close_listen_key_endpoint = mk_endpoint ''close_listen_key'' Verb_delete ''/fapi/v1/listenKey'' Security_type_user_stream False False False"

definition new_order_endpoint :: endpoint_metadata where [endpoint_defs]:
  "new_order_endpoint = mk_endpoint ''new_order'' Verb_post ''/fapi/v1/order'' Security_type_trade True True True"

definition modify_order_endpoint :: endpoint_metadata where [endpoint_defs]:
  "modify_order_endpoint = mk_endpoint ''modify_order'' Verb_put ''/fapi/v1/order'' Security_type_trade True True True"

definition cancel_order_endpoint :: endpoint_metadata where [endpoint_defs]:
  "cancel_order_endpoint = mk_endpoint ''cancel_order'' Verb_delete ''/fapi/v1/order'' Security_type_trade True True True"

definition query_order_endpoint :: endpoint_metadata where [endpoint_defs]:
  "query_order_endpoint = mk_endpoint ''query_order'' Verb_get ''/fapi/v1/order'' Security_type_trade True True True"

definition basis_endpoint :: endpoint_metadata where [endpoint_defs]:
  "basis_endpoint = mk_endpoint ''basis'' Verb_get ''/futures/data/basis'' Security_type_none False False False"

definition price_ticker_v2_endpoint :: endpoint_metadata where [endpoint_defs]:
  "price_ticker_v2_endpoint = mk_endpoint ''price_ticker_v2'' Verb_get ''/fapi/v2/ticker/price'' Security_type_none False False False"

definition delivery_price_endpoint :: endpoint_metadata where [endpoint_defs]:
  "delivery_price_endpoint = mk_endpoint ''delivery_price'' Verb_get ''/futures/data/delivery-price'' Security_type_none False False False"

definition composite_index_info_endpoint :: endpoint_metadata where [endpoint_defs]:
  "composite_index_info_endpoint = mk_endpoint ''composite_index_info'' Verb_get ''/fapi/v1/indexInfo'' Security_type_none False False False"

definition index_constituents_endpoint :: endpoint_metadata where [endpoint_defs]:
  "index_constituents_endpoint = mk_endpoint ''index_constituents'' Verb_get ''/fapi/v1/constituents'' Security_type_none False False False"

definition asset_index_endpoint :: endpoint_metadata where [endpoint_defs]:
  "asset_index_endpoint = mk_endpoint ''asset_index'' Verb_get ''/fapi/v1/assetIndex'' Security_type_none False False False"

definition insurance_fund_endpoint :: endpoint_metadata where [endpoint_defs]:
  "insurance_fund_endpoint = mk_endpoint ''insurance_fund'' Verb_get ''/fapi/v1/insuranceBalance'' Security_type_none False False False"

definition adl_risk_endpoint :: endpoint_metadata where [endpoint_defs]:
  "adl_risk_endpoint = mk_endpoint ''adl_risk'' Verb_get ''/fapi/v1/symbolAdlRisk'' Security_type_none False False False"

definition rpi_depth_endpoint :: endpoint_metadata where [endpoint_defs]:
  "rpi_depth_endpoint = mk_endpoint ''rpi_depth'' Verb_get ''/fapi/v1/rpiDepth'' Security_type_none False False False"

definition trading_schedule_endpoint :: endpoint_metadata where [endpoint_defs]:
  "trading_schedule_endpoint = mk_endpoint ''trading_schedule'' Verb_get ''/fapi/v1/tradingSchedule'' Security_type_none False False False"

definition test_order_endpoint :: endpoint_metadata where [endpoint_defs]:
  "test_order_endpoint = mk_endpoint ''test_order'' Verb_post ''/fapi/v1/order/test'' Security_type_trade True True True"

definition batch_orders_endpoint :: endpoint_metadata where [endpoint_defs]:
  "batch_orders_endpoint = mk_endpoint ''batch_orders'' Verb_post ''/fapi/v1/batchOrders'' Security_type_trade True True True"

definition modify_batch_orders_endpoint :: endpoint_metadata where [endpoint_defs]:
  "modify_batch_orders_endpoint = mk_endpoint ''modify_batch_orders'' Verb_put ''/fapi/v1/batchOrders'' Security_type_trade True True True"

definition cancel_batch_orders_endpoint :: endpoint_metadata where [endpoint_defs]:
  "cancel_batch_orders_endpoint = mk_endpoint ''cancel_batch_orders'' Verb_delete ''/fapi/v1/batchOrders'' Security_type_trade True True True"

definition cancel_all_open_orders_endpoint :: endpoint_metadata where [endpoint_defs]:
  "cancel_all_open_orders_endpoint = mk_endpoint ''cancel_all_open_orders'' Verb_delete ''/fapi/v1/allOpenOrders'' Security_type_trade True True True"

definition auto_cancel_endpoint :: endpoint_metadata where [endpoint_defs]:
  "auto_cancel_endpoint = mk_endpoint ''auto_cancel'' Verb_post ''/fapi/v1/countdownCancelAll'' Security_type_trade True True True"

definition query_open_order_endpoint :: endpoint_metadata where [endpoint_defs]:
  "query_open_order_endpoint = mk_endpoint ''query_open_order'' Verb_get ''/fapi/v1/openOrder'' Security_type_user_data True True True"

definition all_open_orders_endpoint :: endpoint_metadata where [endpoint_defs]:
  "all_open_orders_endpoint = mk_endpoint ''all_open_orders'' Verb_get ''/fapi/v1/openOrders'' Security_type_user_data True True True"

definition all_orders_endpoint :: endpoint_metadata where [endpoint_defs]:
  "all_orders_endpoint = mk_endpoint ''all_orders'' Verb_get ''/fapi/v1/allOrders'' Security_type_user_data True True True"

definition position_risk_v3_endpoint :: endpoint_metadata where [endpoint_defs]:
  "position_risk_v3_endpoint = mk_endpoint ''position_risk_v3'' Verb_get ''/fapi/v3/positionRisk'' Security_type_user_data True True True"

definition adl_quantile_endpoint :: endpoint_metadata where [endpoint_defs]:
  "adl_quantile_endpoint = mk_endpoint ''adl_quantile'' Verb_get ''/fapi/v1/adlQuantile'' Security_type_user_data True True True"

definition force_orders_endpoint :: endpoint_metadata where [endpoint_defs]:
  "force_orders_endpoint = mk_endpoint ''force_orders'' Verb_get ''/fapi/v1/forceOrders'' Security_type_user_data True True True"

definition account_trades_endpoint :: endpoint_metadata where [endpoint_defs]:
  "account_trades_endpoint = mk_endpoint ''account_trades'' Verb_get ''/fapi/v1/userTrades'' Security_type_user_data True True True"

definition change_position_mode_endpoint :: endpoint_metadata where [endpoint_defs]:
  "change_position_mode_endpoint = mk_endpoint ''change_position_mode'' Verb_post ''/fapi/v1/positionSide/dual'' Security_type_trade True True True"

definition change_multi_assets_endpoint :: endpoint_metadata where [endpoint_defs]:
  "change_multi_assets_endpoint = mk_endpoint ''change_multi_assets'' Verb_post ''/fapi/v1/multiAssetsMargin'' Security_type_trade True True True"

definition change_leverage_endpoint :: endpoint_metadata where [endpoint_defs]:
  "change_leverage_endpoint = mk_endpoint ''change_leverage'' Verb_post ''/fapi/v1/leverage'' Security_type_trade True True True"

definition change_margin_type_endpoint :: endpoint_metadata where [endpoint_defs]:
  "change_margin_type_endpoint = mk_endpoint ''change_margin_type'' Verb_post ''/fapi/v1/marginType'' Security_type_trade True True True"

definition modify_isolated_margin_endpoint :: endpoint_metadata where [endpoint_defs]:
  "modify_isolated_margin_endpoint = mk_endpoint ''modify_isolated_margin'' Verb_post ''/fapi/v1/positionMargin'' Security_type_trade True True True"

definition position_margin_history_endpoint :: endpoint_metadata where [endpoint_defs]:
  "position_margin_history_endpoint = mk_endpoint ''position_margin_history'' Verb_get ''/fapi/v1/positionMargin/history'' Security_type_user_data True True True"

definition order_modify_history_endpoint :: endpoint_metadata where [endpoint_defs]:
  "order_modify_history_endpoint = mk_endpoint ''order_modify_history'' Verb_get ''/fapi/v1/orderAmendment'' Security_type_user_data True True True"

definition new_algo_order_endpoint :: endpoint_metadata where [endpoint_defs]:
  "new_algo_order_endpoint = mk_endpoint ''new_algo_order'' Verb_post ''/fapi/v1/algoOrder'' Security_type_trade True True True"

definition cancel_algo_order_endpoint :: endpoint_metadata where [endpoint_defs]:
  "cancel_algo_order_endpoint = mk_endpoint ''cancel_algo_order'' Verb_delete ''/fapi/v1/algoOrder'' Security_type_trade True True True"

definition query_algo_order_endpoint :: endpoint_metadata where [endpoint_defs]:
  "query_algo_order_endpoint = mk_endpoint ''query_algo_order'' Verb_get ''/fapi/v1/algoOrder'' Security_type_user_data True True True"

definition all_algo_orders_endpoint :: endpoint_metadata where [endpoint_defs]:
  "all_algo_orders_endpoint = mk_endpoint ''all_algo_orders'' Verb_get ''/fapi/v1/allAlgoOrders'' Security_type_user_data True True True"

definition open_algo_orders_endpoint :: endpoint_metadata where [endpoint_defs]:
  "open_algo_orders_endpoint = mk_endpoint ''open_algo_orders'' Verb_get ''/fapi/v1/openAlgoOrders'' Security_type_user_data True True True"

definition cancel_all_algo_orders_endpoint :: endpoint_metadata where [endpoint_defs]:
  "cancel_all_algo_orders_endpoint = mk_endpoint ''cancel_all_algo_orders'' Verb_delete ''/fapi/v1/algoOpenOrders'' Security_type_trade True True True"

definition account_config_endpoint :: endpoint_metadata where [endpoint_defs]:
  "account_config_endpoint = mk_endpoint ''account_config'' Verb_get ''/fapi/v1/accountConfig'' Security_type_user_data True True True"

definition symbol_config_endpoint :: endpoint_metadata where [endpoint_defs]:
  "symbol_config_endpoint = mk_endpoint ''symbol_config'' Verb_get ''/fapi/v1/symbolConfig'' Security_type_user_data True True True"

definition get_multi_assets_mode_endpoint :: endpoint_metadata where [endpoint_defs]:
  "get_multi_assets_mode_endpoint = mk_endpoint ''get_multi_assets_mode'' Verb_get ''/fapi/v1/multiAssetsMargin'' Security_type_user_data True True True"

definition get_position_mode_endpoint :: endpoint_metadata where [endpoint_defs]:
  "get_position_mode_endpoint = mk_endpoint ''get_position_mode'' Verb_get ''/fapi/v1/positionSide/dual'' Security_type_user_data True True True"

definition income_history_endpoint :: endpoint_metadata where [endpoint_defs]:
  "income_history_endpoint = mk_endpoint ''income_history'' Verb_get ''/fapi/v1/income'' Security_type_user_data True True True"

definition leverage_brackets_endpoint :: endpoint_metadata where [endpoint_defs]:
  "leverage_brackets_endpoint = mk_endpoint ''leverage_brackets'' Verb_get ''/fapi/v1/leverageBracket'' Security_type_user_data True True True"

definition commission_rate_endpoint :: endpoint_metadata where [endpoint_defs]:
  "commission_rate_endpoint = mk_endpoint ''commission_rate'' Verb_get ''/fapi/v1/commissionRate'' Security_type_user_data True True True"

definition rate_limit_order_endpoint :: endpoint_metadata where [endpoint_defs]:
  "rate_limit_order_endpoint = mk_endpoint ''rate_limit_order'' Verb_get ''/fapi/v1/rateLimit/order'' Security_type_user_data True True True"

definition download_id_transaction_endpoint :: endpoint_metadata where [endpoint_defs]:
  "download_id_transaction_endpoint = mk_endpoint ''download_id_transaction'' Verb_get ''/fapi/v1/income/asyn'' Security_type_user_data True True True"

definition download_link_transaction_endpoint :: endpoint_metadata where [endpoint_defs]:
  "download_link_transaction_endpoint = mk_endpoint ''download_link_transaction'' Verb_get ''/fapi/v1/income/asyn/id'' Security_type_user_data True True True"

definition download_id_order_endpoint :: endpoint_metadata where [endpoint_defs]:
  "download_id_order_endpoint = mk_endpoint ''download_id_order'' Verb_get ''/fapi/v1/order/asyn'' Security_type_user_data True True True"

definition download_link_order_endpoint :: endpoint_metadata where [endpoint_defs]:
  "download_link_order_endpoint = mk_endpoint ''download_link_order'' Verb_get ''/fapi/v1/order/asyn/id'' Security_type_user_data True True True"

definition download_id_trade_endpoint :: endpoint_metadata where [endpoint_defs]:
  "download_id_trade_endpoint = mk_endpoint ''download_id_trade'' Verb_get ''/fapi/v1/trade/asyn'' Security_type_user_data True True True"

definition download_link_trade_endpoint :: endpoint_metadata where [endpoint_defs]:
  "download_link_trade_endpoint = mk_endpoint ''download_link_trade'' Verb_get ''/fapi/v1/trade/asyn/id'' Security_type_user_data True True True"

definition get_bnb_burn_endpoint :: endpoint_metadata where [endpoint_defs]:
  "get_bnb_burn_endpoint = mk_endpoint ''get_bnb_burn'' Verb_get ''/fapi/v1/feeBurn'' Security_type_user_data True True True"

definition toggle_bnb_burn_endpoint :: endpoint_metadata where [endpoint_defs]:
  "toggle_bnb_burn_endpoint = mk_endpoint ''toggle_bnb_burn'' Verb_post ''/fapi/v1/feeBurn'' Security_type_trade True True True"

definition quantitative_rules_endpoint :: endpoint_metadata where [endpoint_defs]:
  "quantitative_rules_endpoint = mk_endpoint ''quantitative_rules'' Verb_get ''/fapi/v1/apiTradingStatus'' Security_type_user_data True True True"

definition convert_get_quote_endpoint :: endpoint_metadata where [endpoint_defs]:
  "convert_get_quote_endpoint = mk_endpoint ''convert_get_quote'' Verb_post ''/fapi/v1/convert/getQuote'' Security_type_trade True True True"

definition convert_accept_quote_endpoint :: endpoint_metadata where [endpoint_defs]:
  "convert_accept_quote_endpoint = mk_endpoint ''convert_accept_quote'' Verb_post ''/fapi/v1/convert/acceptQuote'' Security_type_trade True True True"

definition convert_order_status_endpoint :: endpoint_metadata where [endpoint_defs]:
  "convert_order_status_endpoint = mk_endpoint ''convert_order_status'' Verb_get ''/fapi/v1/convert/orderStatus'' Security_type_user_data True True True"

definition pm_account_info_endpoint :: endpoint_metadata where [endpoint_defs]:
  "pm_account_info_endpoint = mk_endpoint ''pm_account_info'' Verb_get ''/fapi/v1/pmAccountInfo'' Security_type_user_data True True True"

definition tradfi_perps_endpoint :: endpoint_metadata where [endpoint_defs]:
  "tradfi_perps_endpoint = mk_endpoint ''tradfi_perps'' Verb_post ''/fapi/v1/stock/contract'' Security_type_trade True True True"

definition all_endpoints :: "endpoint_metadata list" where [endpoint_defs]:
  "all_endpoints =
     [ping_endpoint,
      server_time_endpoint,
      exchange_info_endpoint,
      order_book_endpoint,
      recent_trades_endpoint,
      aggregate_trades_endpoint,
      klines_endpoint,
      continuous_klines_endpoint,
      index_price_klines_endpoint,
      mark_price_klines_endpoint,
      premium_index_klines_endpoint,
      book_ticker_endpoint,
      price_ticker_endpoint,
      ticker_24hr_endpoint,
      mark_price_endpoint,
      funding_rate_history_endpoint,
      funding_rate_info_endpoint,
      open_interest_endpoint,
      open_interest_statistics_endpoint,
      top_long_short_account_ratio_endpoint,
      top_trader_long_short_ratio_endpoint,
      long_short_ratio_endpoint,
      taker_buy_sell_volume_endpoint,
      historical_trades_endpoint,
      account_information_endpoint,
      account_balances_endpoint,
      position_risk_endpoint,
      start_listen_key_endpoint,
      keepalive_listen_key_endpoint,
      close_listen_key_endpoint,
      new_order_endpoint,
      modify_order_endpoint,
      cancel_order_endpoint,
      query_order_endpoint,
      basis_endpoint,
      price_ticker_v2_endpoint,
      delivery_price_endpoint,
      composite_index_info_endpoint,
      index_constituents_endpoint,
      asset_index_endpoint,
      insurance_fund_endpoint,
      adl_risk_endpoint,
      rpi_depth_endpoint,
      trading_schedule_endpoint,
      test_order_endpoint,
      batch_orders_endpoint,
      modify_batch_orders_endpoint,
      cancel_batch_orders_endpoint,
      cancel_all_open_orders_endpoint,
      auto_cancel_endpoint,
      query_open_order_endpoint,
      all_open_orders_endpoint,
      all_orders_endpoint,
      position_risk_v3_endpoint,
      adl_quantile_endpoint,
      force_orders_endpoint,
      account_trades_endpoint,
      change_position_mode_endpoint,
      change_multi_assets_endpoint,
      change_leverage_endpoint,
      change_margin_type_endpoint,
      modify_isolated_margin_endpoint,
      position_margin_history_endpoint,
      order_modify_history_endpoint,
      new_algo_order_endpoint,
      cancel_algo_order_endpoint,
      query_algo_order_endpoint,
      all_algo_orders_endpoint,
      open_algo_orders_endpoint,
      cancel_all_algo_orders_endpoint,
      account_config_endpoint,
      symbol_config_endpoint,
      get_multi_assets_mode_endpoint,
      get_position_mode_endpoint,
      income_history_endpoint,
      leverage_brackets_endpoint,
      commission_rate_endpoint,
      rate_limit_order_endpoint,
      download_id_transaction_endpoint,
      download_link_transaction_endpoint,
      download_id_order_endpoint,
      download_link_order_endpoint,
      download_id_trade_endpoint,
      download_link_trade_endpoint,
      get_bnb_burn_endpoint,
      toggle_bnb_burn_endpoint,
      quantitative_rules_endpoint,
      convert_get_quote_endpoint,
      convert_accept_quote_endpoint,
      convert_order_status_endpoint,
      pm_account_info_endpoint,
      tradfi_perps_endpoint]"

section \<open>Traits\<close>

datatype service_tag = Rest_market_data | Rest_account | Rest_trade | Rest_convert | Rest_user_data_stream

record endpoint_trait =
  trait_response :: string
  trait_service :: service_tag
  trait_endpoint :: endpoint_metadata

definition mk_trait :: "string \<Rightarrow> service_tag \<Rightarrow> endpoint_metadata \<Rightarrow> endpoint_trait" where [endpoint_defs]:
  "mk_trait r s e = \<lparr>trait_response = r, trait_service = s, trait_endpoint = e\<rparr>"

definition endpoint_traits_1 :: "(string \<times> endpoint_trait) list" where [endpoint_defs]:
  "endpoint_traits_1 =
     [(''ping_request_t'', mk_trait ''empty_response_t'' Rest_market_data ping_endpoint),
      (''server_time_request_t'', mk_trait ''server_time_response_t'' Rest_market_data server_time_endpoint),
      (''exchange_info_request_t'', mk_trait ''exchange_info_response_t'' Rest_market_data exchange_info_endpoint),
      (''order_book_request_t'', mk_trait ''order_book_response_t'' Rest_market_data order_book_endpoint),
      (''recent_trades_request_t'', mk_trait ''std::vector<recent_trade_t>'' Rest_market_data recent_trades_endpoint),
      (''aggregate_trades_request_t'', mk_trait ''std::vector<aggregate_trade_t>'' Rest_market_data aggregate_trades_endpoint),
      (''continuous_kline_request_t'', mk_trait ''std::vector<kline_t>'' Rest_market_data continuous_klines_endpoint),
      (''index_price_kline_request_t'', mk_trait ''std::vector<kline_t>'' Rest_market_data index_price_klines_endpoint),
      (''book_ticker_request_t'', mk_trait ''book_ticker_t'' Rest_market_data book_ticker_endpoint),
      (''price_ticker_request_t'', mk_trait ''price_ticker_t'' Rest_market_data price_ticker_endpoint),
      (''ticker_24hr_request_t'', mk_trait ''ticker_24hr_t'' Rest_market_data ticker_24hr_endpoint),
      (''mark_price_request_t'', mk_trait ''mark_price_t'' Rest_market_data mark_price_endpoint),
      (''funding_rate_history_request_t'', mk_trait ''std::vector<funding_rate_history_entry_t>'' Rest_market_data funding_rate_history_endpoint),
      (''open_interest_request_t'', mk_trait ''open_interest_t'' Rest_market_data open_interest_endpoint),
      (''historical_trades_request_t'', mk_trait ''std::vector<recent_trade_t>'' Rest_market_data historical_trades_endpoint)]"

definition endpoint_traits_2 :: "(string \<times> endpoint_trait) list" where [endpoint_defs]:
  "endpoint_traits_2 =
     [(''basis_request_t'', mk_trait ''std::vector<basis_entry_t>'' Rest_market_data basis_endpoint),
      (''price_ticker_v2_request_t'', mk_trait ''price_ticker_t'' Rest_market_data price_ticker_v2_endpoint),
      (''delivery_price_request_t'', mk_trait ''std::vector<delivery_price_entry_t>'' Rest_market_data delivery_price_endpoint),
      (''composite_index_info_request_t'', mk_trait ''std::vector<composite_index_info_t>'' Rest_market_data composite_index_info_endpoint),
      (''index_constituents_request_t'', mk_trait ''index_constituents_response_t'' Rest_market_data index_constituents_endpoint),
      (''asset_index_request_t'', mk_trait ''std::vector<asset_index_t>'' Rest_market_data asset_index_endpoint),
      (''insurance_fund_request_t'', mk_trait ''insurance_fund_response_t'' Rest_market_data insurance_fund_endpoint),
      (''insurance_funds_request_t'', mk_trait ''std::vector<insurance_fund_response_t>'' Rest_market_data insurance_fund_endpoint),
      (''adl_risk_request_t'', mk_trait ''std::vector<adl_risk_entry_t>'' Rest_market_data adl_risk_endpoint),
      (''rpi_depth_request_t'', mk_trait ''order_book_response_t'' Rest_market_data rpi_depth_endpoint),
      (''trading_schedule_request_t'', mk_trait ''trading_schedule_response_t'' Rest_market_data trading_schedule_endpoint),
      (''position_risk_request_t'', mk_trait ''std::vector<position_risk_t>'' Rest_account position_risk_endpoint),
      (''symbol_config_request_t'', mk_trait ''std::vector<symbol_config_entry_t>'' Rest_account symbol_config_endpoint),
      (''income_history_request_t'', mk_trait ''std::vector<income_history_entry_t>'' Rest_account income_history_endpoint),
      (''leverage_bracket_request_t'', mk_trait ''std::vector<symbol_leverage_brackets_t>'' Rest_account leverage_brackets_endpoint)]"

definition endpoint_traits_3 :: "(string \<times> endpoint_trait) list" where [endpoint_defs]:
  "endpoint_traits_3 =
     [(''commission_rate_request_t'', mk_trait ''commission_rate_response_t'' Rest_account commission_rate_endpoint),
      (''toggle_bnb_burn_request_t'', mk_trait ''bnb_burn_status_response_t'' Rest_account toggle_bnb_burn_endpoint),
      (''quantitative_rules_request_t'', mk_trait ''quantitative_rules_response_t'' Rest_account quantitative_rules_endpoint),
      (''pm_account_info_request_t'', mk_trait ''pm_account_info_response_t'' Rest_account pm_account_info_endpoint),
      (''new_order_request_t'', mk_trait ''order_response_t'' Rest_trade new_order_endpoint),
      (''modify_order_request_t'', mk_trait ''order_response_t'' Rest_trade modify_order_endpoint),
      (''cancel_order_request_t'', mk_trait ''order_response_t'' Rest_trade cancel_order_endpoint),
      (''query_order_request_t'', mk_trait ''order_response_t'' Rest_trade query_order_endpoint),
      (''cancel_all_open_orders_request_t'', mk_trait ''code_msg_response_t'' Rest_trade cancel_all_open_orders_endpoint),
      (''auto_cancel_request_t'', mk_trait ''auto_cancel_response_t'' Rest_trade auto_cancel_endpoint),
      (''query_open_order_request_t'', mk_trait ''order_response_t'' Rest_trade query_open_order_endpoint),
      (''all_open_orders_request_t'', mk_trait ''std::vector<order_response_t>'' Rest_trade all_open_orders_endpoint),
      (''all_orders_request_t'', mk_trait ''std::vector<order_response_t>'' Rest_trade all_orders_endpoint),
      (''position_info_v3_request_t'', mk_trait ''std::vector<position_risk_v3_t>'' Rest_trade position_risk_v3_endpoint),
      (''adl_quantile_request_t'', mk_trait ''std::vector<adl_quantile_entry_t>'' Rest_trade adl_quantile_endpoint)]"

definition endpoint_traits_4 :: "(string \<times> endpoint_trait) list" where [endpoint_defs]:
  "endpoint_traits_4 =
     [(''force_orders_request_t'', mk_trait ''std::vector<order_response_t>'' Rest_trade force_orders_endpoint),
      (''account_trade_request_t'', mk_trait ''std::vector<account_trade_entry_t>'' Rest_trade account_trades_endpoint),
      (''change_position_mode_request_t'', mk_trait ''code_msg_response_t'' Rest_trade change_position_mode_endpoint),
      (''change_multi_assets_mode_request_t'', mk_trait ''code_msg_response_t'' Rest_trade change_multi_assets_endpoint),
      (''change_leverage_request_t'', mk_trait ''change_leverage_response_t'' Rest_trade change_leverage_endpoint),
      (''change_margin_type_request_t'', mk_trait ''code_msg_response_t'' Rest_trade change_margin_type_endpoint),
      (''modify_isolated_margin_request_t'', mk_trait ''modify_isolated_margin_response_t'' Rest_trade modify_isolated_margin_endpoint),
      (''position_margin_history_request_t'', mk_trait ''std::vector<position_margin_history_entry_t>'' Rest_trade position_margin_history_endpoint),
      (''order_modify_history_request_t'', mk_trait ''std::vector<order_response_t>'' Rest_trade order_modify_history_endpoint),
      (''new_algo_order_request_t'', mk_trait ''algo_order_response_t'' Rest_trade new_algo_order_endpoint),
      (''cancel_algo_order_request_t'', mk_trait ''code_msg_response_t'' Rest_trade cancel_algo_order_endpoint),
      (''query_algo_order_request_t'', mk_trait ''algo_order_response_t'' Rest_trade query_algo_order_endpoint),
      (''all_algo_orders_request_t'', mk_trait ''std::vector<algo_order_response_t>'' Rest_trade all_algo_orders_endpoint),
      (''convert_quote_request_t'', mk_trait ''convert_quote_response_t'' Rest_convert convert_get_quote_endpoint),
      (''convert_accept_request_t'', mk_trait ''convert_accept_response_t'' Rest_convert convert_accept_quote_endpoint)]"

definition endpoint_traits_5 :: "(string \<times> endpoint_trait) list" where [endpoint_defs]:
  "endpoint_traits_5 =
     [(''convert_order_status_request_t'', mk_trait ''convert_order_status_response_t'' Rest_convert convert_order_status_endpoint),
      (''book_tickers_request_t'', mk_trait ''std::vector<book_ticker_t>'' Rest_market_data book_ticker_endpoint),
      (''price_tickers_request_t'', mk_trait ''std::vector<price_ticker_t>'' Rest_market_data price_ticker_endpoint),
      (''price_tickers_v2_request_t'', mk_trait ''std::vector<price_ticker_t>'' Rest_market_data price_ticker_v2_endpoint),
      (''ticker_24hrs_request_t'', mk_trait ''std::vector<ticker_24hr_t>'' Rest_market_data ticker_24hr_endpoint),
      (''mark_prices_request_t'', mk_trait ''std::vector<mark_price_t>'' Rest_market_data mark_price_endpoint),
      (''funding_rate_info_request_t'', mk_trait ''std::vector<funding_rate_info_t>'' Rest_market_data funding_rate_info_endpoint),
      (''klines_request_t'', mk_trait ''std::vector<kline_t>'' Rest_market_data klines_endpoint),
      (''mark_price_klines_request_t'', mk_trait ''std::vector<kline_t>'' Rest_market_data mark_price_klines_endpoint),
      (''premium_index_klines_request_t'', mk_trait ''std::vector<kline_t>'' Rest_market_data premium_index_klines_endpoint),
      (''open_interest_statistics_request_t'', mk_trait ''std::vector<open_interest_statistics_entry_t>'' Rest_market_data open_interest_statistics_endpoint),
      (''top_long_short_account_ratio_request_t'', mk_trait ''std::vector<long_short_ratio_entry_t>'' Rest_market_data top_long_short_account_ratio_endpoint),
      (''top_trader_long_short_ratio_request_t'', mk_trait ''std::vector<long_short_ratio_entry_t>'' Rest_market_data top_trader_long_short_ratio_endpoint),
      (''long_short_ratio_request_t'', mk_trait ''std::vector<long_short_ratio_entry_t>'' Rest_market_data long_short_ratio_endpoint),
      (''taker_buy_sell_volume_request_t'', mk_trait ''std::vector<taker_buy_sell_volume_entry_t>'' Rest_market_data taker_buy_sell_volume_endpoint),
      (''account_information_request_t'', mk_trait ''account_information_t'' Rest_account account_information_endpoint),
      (''balances_request_t'', mk_trait ''std::vector<futures_account_balance_t>'' Rest_account account_balances_endpoint),
      (''account_config_request_t'', mk_trait ''account_config_response_t'' Rest_account account_config_endpoint),
      (''get_multi_assets_mode_request_t'', mk_trait ''multi_assets_mode_response_t'' Rest_account get_multi_assets_mode_endpoint),
      (''get_position_mode_request_t'', mk_trait ''position_mode_response_t'' Rest_account get_position_mode_endpoint),
      (''rate_limit_order_request_t'', mk_trait ''std::vector<rate_limit_t>'' Rest_account rate_limit_order_endpoint),
      (''get_bnb_burn_request_t'', mk_trait ''bnb_burn_status_response_t'' Rest_account get_bnb_burn_endpoint),
      (''download_id_transaction_request_t'', mk_trait ''download_id_response_t'' Rest_account download_id_transaction_endpoint),
      (''download_link_transaction_request_t'', mk_trait ''download_link_response_t'' Rest_account download_link_transaction_endpoint),
      (''download_id_order_request_t'', mk_trait ''download_id_response_t'' Rest_account download_id_order_endpoint),
      (''download_link_order_request_t'', mk_trait ''download_link_response_t'' Rest_account download_link_order_endpoint),
      (''download_id_trade_request_t'', mk_trait ''download_id_response_t'' Rest_account download_id_trade_endpoint),
      (''download_link_trade_request_t'', mk_trait ''download_link_response_t'' Rest_account download_link_trade_endpoint),
      (''test_order_request_t'', mk_trait ''order_response_t'' Rest_trade test_order_endpoint),
      (''open_algo_orders_request_t'', mk_trait ''std::vector<algo_order_response_t>'' Rest_trade open_algo_orders_endpoint),
      (''cancel_all_algo_orders_request_t'', mk_trait ''code_msg_response_t'' Rest_trade cancel_all_algo_orders_endpoint),
      (''tradfi_perps_request_t'', mk_trait ''code_msg_response_t'' Rest_trade tradfi_perps_endpoint)]"

definition endpoint_traits_6 :: "(string \<times> endpoint_trait) list" where [endpoint_defs]:
  "endpoint_traits_6 =
     [(''start_listen_key_request_t'', mk_trait ''listen_key_response_t'' Rest_user_data_stream start_listen_key_endpoint),
      (''keepalive_listen_key_request_t'', mk_trait ''listen_key_response_t'' Rest_user_data_stream keepalive_listen_key_endpoint),
      (''close_listen_key_request_t'', mk_trait ''empty_response_t'' Rest_user_data_stream close_listen_key_endpoint)]"

definition endpoint_traits :: "(string \<times> endpoint_trait) list" where [endpoint_defs]:
  "endpoint_traits = endpoint_traits_1 @ endpoint_traits_2 @ endpoint_traits_3 @ endpoint_traits_4 @ endpoint_traits_5 @ endpoint_traits_6"

text \<open>Execution through the traits; a type without a specialisation does not compile.\<close>

definition execute_request ::
  "'k openssl \<Rightarrow> (http_response \<Rightarrow> 'r result) \<Rightarrow> config \<Rightarrow> timestamp_ms_t \<Rightarrow> net_script \<Rightarrow>
   endpoint_trait \<Rightarrow> reflected \<Rightarrow> http_client \<Rightarrow> ('r result \<times> http_client) may_throw" where
  "execute_request ossl decode cfg now net trait request c =
     bind_exn (to_query_map request) (\<lambda>q.
       async_execute ossl decode cfg now net (ep_verb (trait_endpoint trait)) (ep_path (trait_endpoint trait)) q
         (ep_signed_request (trait_endpoint trait)) c)"

section \<open>Properties\<close>

definition needs_signature :: "security_type_t \<Rightarrow> bool" where
  "needs_signature s \<longleftrightarrow> s = Security_type_trade \<or> s = Security_type_user_data"

definition endpoint_ok :: "endpoint_metadata \<Rightarrow> bool" where
  "endpoint_ok e \<longleftrightarrow>
     ep_signed_request e = needs_signature (ep_security e) \<and>
     ep_requires_timestamp e = ep_signed_request e \<and> ep_allows_recv_window e = ep_signed_request e \<and>
     ep_path e \<noteq> [] \<and> hd (ep_path e) = CHR ''/''"

definition service_signs :: "service_tag \<Rightarrow> bool" where
  "service_signs t \<longleftrightarrow> t = Rest_account \<or> t = Rest_trade \<or> t = Rest_convert"

text \<open>
  The registry is consistent: every endpoint is signed, timestamped and windowed exactly
  when its security level is trade or user data, no two endpoints share a verb and path or a name, and
  all paths are absolute.
\<close>

lemma endpoints_consistent:
  "list_all endpoint_ok all_endpoints \<and> distinct (map (\<lambda>e. (ep_verb e, ep_path e)) all_endpoints) \<and>
   distinct (map ep_name all_endpoints)"
proof (intro conjI)
  show "list_all endpoint_ok all_endpoints"
    by (simp add: endpoint_defs endpoint_ok_def needs_signature_def)
  show "distinct (map (\<lambda>e. (ep_verb e, ep_path e)) all_endpoints)" by (simp add: endpoint_defs)
  show "distinct (map ep_name all_endpoints)" by (simp add: endpoint_defs)
qed

lemma traits_services:
  "list_all (\<lambda>(r, t). ep_signed_request (trait_endpoint t) = service_signs (trait_service t)) endpoint_traits"
  by (simp add: endpoint_defs service_signs_def)

lemma traits_registered:
  "list_all (\<lambda>(r, t). trait_endpoint t \<in> set all_endpoints) endpoint_traits"
  by (simp add: endpoint_traits_def mk_trait_def all_endpoints_def endpoint_traits_1_def endpoint_traits_2_def endpoint_traits_3_def endpoint_traits_4_def endpoint_traits_5_def endpoint_traits_6_def)

text \<open>
  Which requests are signed is decided by the service they belong to, for every request type with
  traits: account, trade and convert requests are signed, market data and listen-key requests are not;
  and a request type has one specialisation, which names an endpoint of the registry.
\<close>

lemma services_decide_signing:
  "list_all (\<lambda>(r, t). ep_signed_request (trait_endpoint t) = service_signs (trait_service t)) endpoint_traits \<and>
   distinct (map fst endpoint_traits) \<and>
   list_all (\<lambda>(r, t). trait_endpoint t \<in> set all_endpoints) endpoint_traits"
proof (intro conjI)
  show "list_all (\<lambda>(r, t). ep_signed_request (trait_endpoint t) = service_signs (trait_service t)) endpoint_traits"
    by (rule traits_services)
  show "distinct (map fst endpoint_traits)" by (simp add: endpoint_defs)
  show "list_all (\<lambda>(r, t). trait_endpoint t \<in> set all_endpoints) endpoint_traits"
    by (rule traits_registered)
qed

lemma to_query_map_get:
  assumes "distinct (map fst request)" "printable request" "to_query_map request = Inr q"
  shows "query_ok q \<and> query_get q k = Option.bind (map_of request k) param_text"
  using to_query_map_exact [OF assms(1,2)] assms(3) by auto

text \<open>What executing a request with traits puts on the wire.\<close>

lemma trait_requests_wire:
  assumes "(name, t) \<in> set endpoint_traits" "client_ok c"
    and "distinct (map fst request)" "printable request" "''signature'' \<notin> fst ` set request"
    and "execute_request ossl decode cfg now net t request c = Inr (r, c')"
  shows "\<exists>final n. n \<le> 2 \<and>
    attempts c' = attempts c @ replicate n (make_request (client_cfg c) (ep_verb (trait_endpoint t))
      (fst (place_query cfg (ep_verb (trait_endpoint t)) (ep_path (trait_endpoint t)) final))
      (snd (place_query cfg (ep_verb (trait_endpoint t)) (ep_path (trait_endpoint t)) final))
      ''application/x-www-form-urlencoded'' (api_key cfg)) \<and>
    (\<forall>k. k \<notin> {''timestamp'', ''recvWindow'', ''signature''} \<longrightarrow>
       query_get final k = Option.bind (map_of request k) param_text) \<and>
    (if service_signs (trait_service t)
     then signature_verifies ossl cfg (build_query_string final) \<and>
       query_get final ''timestamp'' = Some (timestamp_to_string now) \<and>
       query_get final ''recvWindow'' = Some (dec_digits (unat (recv_window cfg)))
     else query_get final ''signature'' = None)"
proof -
  let ?e = "trait_endpoint t"
  have signed: "ep_signed_request ?e = service_signs (trait_service t)"
    using traits_services assms(1) by (auto simp: list_all_iff)
  obtain q where q: "to_query_map request = Inr q"
    and run: "async_execute ossl decode cfg now net (ep_verb ?e) (ep_path ?e) q (ep_signed_request ?e) c = Inr (r, c')"
    using assms(6) by (auto simp: execute_request_def bind_exn_Inr_iff)
  have get: "query_ok q" "\<And>k. query_get q k = Option.bind (map_of request k) param_text"
    using to_query_map_get [OF assms(3,4) q] by auto
  have nosig: "query_get q ''signature'' = None"
    using assms(5) by (simp add: get(2) map_of_eq_None_iff [THEN iffD2])
  obtain final where final: "authorise ossl cfg now (ep_signed_request ?e) q = Inr final"
    using run by (auto simp: async_execute_def bind_exn_Inr_iff)
  obtain n where "n \<le> 2" "attempts c' = attempts c @ replicate n (make_request (client_cfg c) (ep_verb ?e)
      (fst (place_query cfg (ep_verb ?e) (ep_path ?e) final)) (snd (place_query cfg (ep_verb ?e) (ep_path ?e) final))
      ''application/x-www-form-urlencoded'' (api_key cfg))"
    using async_execute_sends [OF assms(2) run final prod.collapse [symmetric]] by blast
  moreover have "if service_signs (trait_service t)
     then signature_verifies ossl cfg (build_query_string final) \<and>
       query_get final ''timestamp'' = Some (timestamp_to_string now) \<and>
       query_get final ''recvWindow'' = Some (dec_digits (unat (recv_window cfg)))
     else query_get final ''signature'' = None"
    using final signed nosig signed_query_verifies [OF get(1) nosig, of ossl cfg now final] authorise_get [of ossl cfg now q final]
    by (auto simp: inject_auth_get authorise_def [of _ _ _ False])
  moreover have "query_get final k = query_get q k" if "k \<notin> {''timestamp'', ''recvWindow'', ''signature''}" for k
    using final authorise_get [of ossl cfg now q final k] that
    by (cases "ep_signed_request ?e") (auto simp: inject_auth_get authorise_def [of _ _ _ False])
  ultimately show ?thesis using get(2) by (intro exI [of _ final] exI [of _ n]) auto
qed

text \<open>Unsigned requests always get an answer, and what they send is known beforehand.\<close>

lemma unsigned_request_sends:
  assumes "client_ok c" "\<not> ep_signed_request (trait_endpoint t)" "to_query_map request = Inr q"
  shows "\<exists>r c' n. execute_request ossl decode cfg now net t request c = Inr (r, c') \<and> client_ok c' \<and>
    client_cfg c' = client_cfg c \<and> ((\<forall>resp. result_wf (decode resp)) \<longrightarrow> result_wf r) \<and> n \<le> 2 \<and>
    attempts c' = attempts c @ replicate n (make_request (client_cfg c) (ep_verb (trait_endpoint t))
      (fst (place_query cfg (ep_verb (trait_endpoint t)) (ep_path (trait_endpoint t)) q))
      (snd (place_query cfg (ep_verb (trait_endpoint t)) (ep_path (trait_endpoint t)) q))
      ''application/x-www-form-urlencoded'' (api_key cfg))"
proof -
  let ?e = "trait_endpoint t"
  have auth: "authorise ossl cfg now False q = Inr q" by (simp add: authorise_def)
  obtain r c' where run: "async_execute ossl decode cfg now net (ep_verb ?e) (ep_path ?e) q False c = Inr (r, c')"
      and r: "client_ok c'" "(\<forall>resp. result_wf (decode resp)) \<longrightarrow> result_wf r"
    using async_execute_defined [OF assms(1) auth, of decode net "ep_verb ?e" "ep_path ?e"] by auto
  have "execute_request ossl decode cfg now net t request c = Inr (r, c')"
    using run assms(2,3) by (simp add: execute_request_def)
  moreover obtain n where "n \<le> 2" "attempts c' = attempts c @ replicate n (make_request (client_cfg c) (ep_verb ?e)
      (fst (place_query cfg (ep_verb ?e) (ep_path ?e) q)) (snd (place_query cfg (ep_verb ?e) (ep_path ?e) q))
      ''application/x-www-form-urlencoded'' (api_key cfg))"
    using async_execute_sends [OF assms(1) run auth] by (metis prod.collapse)
  ultimately show ?thesis using r async_execute_cfg [OF run] by blast
qed

end
