(* ===== verification/Struct_Types.thy ===== *)
theory Struct_Types
  imports Rest_Pipeline
begin

text \<open>
  Struct types and their reflection. A C++ struct is the list of its members with their types; a
  wire format is what its \<^verbatim>\<open>glz::meta\<close> declares: an object of keys bound to members, an
  array of members, or nothing (\<open>Aggregate\<close>), in which case glaze uses the member names as keys.
  A value of a request struct is the list of its members' values, and reflecting it gives the keys and
  values that \<^verbatim>\<open>to_query_map\<close> sees.
\<close>

named_theorems struct_defs \<open>struct declarations and wire formats\<close>

section \<open>Types\<close>

datatype cpp_type =
    T_string
  | T_symbol
  | T_pair
  | T_decimal
  | T_bool
  | T_int
  | T_u64
  | T_double
  | T_timestamp
  | T_json
  | T_parameter
  | T_enum string
  | T_enum_set string
  | T_struct string
  | T_optional cpp_type
  | T_vector cpp_type
  | T_map cpp_type

type_synonym struct_type = "(string \<times> cpp_type) list"

text \<open>\<open>Custom_bool\<close> is the binding of \<^verbatim>\<open>position_risk_t::isAutoAddMargin\<close> through a pair of functions.\<close>

datatype binding = Member string | Custom_bool string

datatype wire_format = Object "(string \<times> binding) list" | Array "string list" | Aggregate

definition read_auto_add :: "string \<Rightarrow> bool" where
  "read_auto_add v \<longleftrightarrow> v = ''true''"

definition write_auto_add :: "bool \<Rightarrow> string" where
  "write_auto_add b = (if b then ''true'' else ''false'')"

fun bound_member :: "binding \<Rightarrow> string" where
  "bound_member (Member m) = m"
| "bound_member (Custom_bool m) = m"

fun wire_keys :: "struct_type \<Rightarrow> wire_format \<Rightarrow> string list" where
  "wire_keys st (Object bs) = map fst bs"
| "wire_keys st (Array names) = []"
| "wire_keys st Aggregate = map fst st"

fun bound_members :: "struct_type \<Rightarrow> wire_format \<Rightarrow> string list" where
  "bound_members st (Object bs) = map (\<lambda>b. bound_member (snd b)) bs"
| "bound_members st (Array names) = names"
| "bound_members st Aggregate = map fst st"

text \<open>Every member is bound, in the order of declaration, and each under a key of its own.\<close>

definition reflection_ok :: "struct_type \<times> wire_format \<Rightarrow> bool" where
  "reflection_ok s \<longleftrightarrow>
     distinct (map fst (fst s)) \<and> distinct (wire_keys (fst s) (snd s)) \<and>
     bound_members (fst s) (snd s) = map fst (fst s)"

section \<open>Values of request structs\<close>

text \<open>The wire names of the enumerations that occur in requests.\<close>

definition enum_wire_names :: "string \<Rightarrow> string list" where
  "enum_wire_names n =
     (case map_of
        [(''algo_type_t'', map fst algo_type_t_table), (''auto_close_type_t'', map fst auto_close_type_t_table),
         (''contract_type_t'', map fst contract_type_t_table), (''delta_type_t'', map fst delta_type_t_table),
         (''futures_data_period_t'', map fst futures_data_period_t_table),
         (''kline_interval_t'', map fst kline_interval_t_table), (''order_side_t'', map fst order_side_t_table),
         (''order_type_t'', map fst order_type_t_table), (''position_side_t'', map fst position_side_t_table),
         (''price_match_t'', map fst price_match_t_table), (''response_type_t'', map fst response_type_t_table),
         (''stp_mode_t'', map fst stp_mode_t_table), (''time_in_force_t'', map fst time_in_force_t_table),
         (''working_type_t'', map fst working_type_t_table)] n
      of None \<Rightarrow> [] | Some ns \<Rightarrow> ns)"

text \<open>
  Typing of values. A pair converts to its string, an enumerator to its wire name; decimals
  are in their documented range.
\<close>

definition value_has_type :: "cpp_type \<Rightarrow> field_value \<Rightarrow> bool" where
  "value_has_type t v =
     (case v of
        Fv_string s \<Rightarrow> t = T_string \<or> t = T_pair
      | Fv_symbol s \<Rightarrow> t = T_symbol
      | Fv_decimal d \<Rightarrow> t = T_decimal \<and> is_valid d
      | Fv_bool b \<Rightarrow> t = T_bool
      | Fv_u64 n \<Rightarrow> t = T_u64
      | Fv_timestamp n \<Rightarrow> t = T_timestamp
      | Fv_int i \<Rightarrow> t = T_int \<and> - (2 ^ 31) \<le> i \<and> i < 2 ^ 31
      | Fv_enum r \<Rightarrow> (case t of T_enum n \<Rightarrow> (case r of Inl _ \<Rightarrow> False | Inr s \<Rightarrow> s \<in> set (enum_wire_names n)) | _ \<Rightarrow> False))"

definition member_has_type :: "cpp_type \<Rightarrow> member \<Rightarrow> bool" where
  "member_has_type t m =
     (case m of
        Plain v \<Rightarrow> value_has_type t v
      | Optional x \<Rightarrow> (case t of T_optional t \<Rightarrow> (case x of None \<Rightarrow> True | Some v \<Rightarrow> value_has_type t v) | _ \<Rightarrow> False))"

type_synonym struct_value = "(string \<times> member) list"

definition conforms :: "struct_type \<Rightarrow> struct_value \<Rightarrow> bool" where
  "conforms st v \<longleftrightarrow> list_all2 (\<lambda>(m, t) (m', x). m = m' \<and> member_has_type t x) st v"

fun reflect :: "wire_format \<Rightarrow> struct_value \<Rightarrow> reflected" where
  "reflect (Object bs) v =
     List.map_filter (\<lambda>(k, b). map_option (Pair k) (map_of v (bound_member b))) bs"
| "reflect (Array _) v = []"
| "reflect Aggregate v = v"

lemma valid_prints: "is_valid d \<Longrightarrow> \<exists>s. to_string d = Inr s"
  using to_string_shape [of d] by (auto simp: is_valid_def min_raw_def max_raw_def i128_ok_def scale_factor_eq)

lemma value_prints: "value_has_type t v \<Longrightarrow> \<exists>s. to_query_value v = Inr s"
  by (cases v) (auto simp: value_has_type_def intro: valid_prints split: cpp_type.splits sum.splits)

lemma member_prints: "member_has_type t m \<Longrightarrow> (case param m of Some (Inl _) \<Rightarrow> False | _ \<Rightarrow> True)"
  by (auto simp: member_has_type_def param_def dest!: value_prints split: member.splits cpp_type.splits option.splits)

lemma conforms_printable: "conforms st v \<Longrightarrow> map fst v = map fst st \<and> printable v"
  unfolding conforms_def printable_def
  by (induction rule: list_all2_induct) (use member_prints in fastforce)+

lemma reflect_members:
  assumes "conforms st v" "reflection_ok (st, w)" "\<forall>names. w \<noteq> Array names"
  shows "map fst (reflect w v) = wire_keys st w" "printable (reflect w v)"
proof -
  have v: "map fst v = map fst st" "printable v" using conforms_printable [OF assms(1)] by auto
  show "map fst (reflect w v) = wire_keys st w"
  proof (cases w)
    case (Object bs)
    have "\<exists>x. map_of v (bound_member b) = Some x" if "(k, b) \<in> set bs" for k b
    proof -
      have "bound_member b \<in> set (bound_members st w)" using that by (force simp: Object)
      then have "bound_member b \<in> fst ` set v" using assms(2) v(1) by (simp add: reflection_ok_def flip: set_map)
      then show ?thesis using map_of_eq_None_iff by fast
    qed
    then have "map fst (List.map_filter (\<lambda>(k, b). map_option (Pair k) (map_of v (bound_member b))) bs) = map fst bs"
      by (induction bs) (fastforce simp: List.map_filter_simps)+
    then show ?thesis by (simp add: Object)
  qed (use v assms(3) in auto)
  show "printable (reflect w v)"
  proof (cases w)
    case (Object bs)
    have "\<exists>m. (m, x) \<in> set v" if "(k, x) \<in> set (reflect w v)" for k x
      using that by (fastforce simp: Object List.map_filter_def dest: map_of_SomeD)
    then show ?thesis using v(2) by (fastforce simp: printable_def list_all_iff)
  qed (use v assms(3) in auto)
qed

end
