(* ===== verification/Structs_Market.thy ===== *)
theory Structs_Market
  imports Struct_Types
begin

text \<open>
  The common, market data and convert structs of \<^verbatim>\<open>types/common.hpp\<close>, \<^verbatim>\<open>types/market_data.hpp\<close>, \<^verbatim>\<open>types/convert.hpp\<close>: for each
  struct its members with their types, in the order of declaration, and where the header has a
  \<^verbatim>\<open>glz::meta\<close> specialisation, the wire format it declares.
\<close>

section \<open>\<^verbatim>\<open>types/common.hpp\<close>\<close>

definition empty_response_t_struct :: struct_type where [struct_defs]:
  "empty_response_t_struct =
     []"

definition empty_response_t_meta :: wire_format where [struct_defs]:
  "empty_response_t_meta =
     Object []"

definition rate_limit_t_struct :: struct_type where [struct_defs]:
  "rate_limit_t_struct =
     [(''rateLimitType'', T_enum ''rate_limit_type_t''), (''interval'', T_enum ''rate_limit_interval_t''),
      (''intervalNum'', T_int), (''limit'', T_int), (''count'', T_optional T_int)]"

definition rate_limit_t_meta :: wire_format where [struct_defs]:
  "rate_limit_t_meta =
     Object [(''rateLimitType'', Member ''rateLimitType''), (''interval'', Member ''interval''),
             (''intervalNum'', Member ''intervalNum''), (''limit'', Member ''limit''),
             (''count'', Member ''count'')]"

definition server_time_response_t_struct :: struct_type where [struct_defs]:
  "server_time_response_t_struct =
     [(''serverTime'', T_timestamp)]"

definition server_time_response_t_meta :: wire_format where [struct_defs]:
  "server_time_response_t_meta =
     Object [(''serverTime'', Member ''serverTime'')]"

definition binance_error_document_t_struct :: struct_type where [struct_defs]:
  "binance_error_document_t_struct =
     [(''code'', T_int), (''msg'', T_string)]"

definition binance_error_document_t_meta :: wire_format where [struct_defs]:
  "binance_error_document_t_meta =
     Object [(''code'', Member ''code''), (''msg'', Member ''msg'')]"

definition price_level_t_struct :: struct_type where [struct_defs]:
  "price_level_t_struct =
     [(''price'', T_decimal), (''quantity'', T_decimal)]"

definition price_level_t_meta :: wire_format where [struct_defs]:
  "price_level_t_meta =
     Array [''price'', ''quantity'']"

definition exchange_info_asset_t_struct :: struct_type where [struct_defs]:
  "exchange_info_asset_t_struct =
     [(''asset'', T_string), (''marginAvailable'', T_bool), (''autoAssetExchange'', T_optional T_string)]"

definition exchange_info_asset_t_meta :: wire_format where [struct_defs]:
  "exchange_info_asset_t_meta =
     Object [(''asset'', Member ''asset''), (''marginAvailable'', Member ''marginAvailable''),
             (''autoAssetExchange'', Member ''autoAssetExchange'')]"

definition symbol_filter_t_struct :: struct_type where [struct_defs]:
  "symbol_filter_t_struct =
     [(''filterType'', T_string), (''maxPrice'', T_optional T_decimal), (''minPrice'', T_optional T_decimal),
      (''tickSize'', T_optional T_decimal), (''maxQty'', T_optional T_decimal),
      (''minQty'', T_optional T_decimal), (''stepSize'', T_optional T_decimal), (''limit'', T_optional T_int),
      (''notional'', T_optional T_decimal), (''multiplierUp'', T_optional T_decimal),
      (''multiplierDown'', T_optional T_decimal), (''multiplierDecimal'', T_optional T_decimal),
      (''positionControlSide'', T_optional (T_enum ''position_control_side_t''))]"

definition symbol_filter_t_meta :: wire_format where [struct_defs]:
  "symbol_filter_t_meta =
     Object [(''filterType'', Member ''filterType''), (''maxPrice'', Member ''maxPrice''),
             (''minPrice'', Member ''minPrice''), (''tickSize'', Member ''tickSize''),
             (''maxQty'', Member ''maxQty''), (''minQty'', Member ''minQty''),
             (''stepSize'', Member ''stepSize''), (''limit'', Member ''limit''),
             (''notional'', Member ''notional''), (''multiplierUp'', Member ''multiplierUp''),
             (''multiplierDown'', Member ''multiplierDown''),
             (''multiplierDecimal'', Member ''multiplierDecimal''),
             (''positionControlSide'', Member ''positionControlSide'')]"

definition symbol_info_t_struct :: struct_type where [struct_defs]:
  "symbol_info_t_struct =
     [(''symbol'', T_symbol), (''pair'', T_pair), (''contractType'', T_enum ''contract_type_t''),
      (''deliveryDate'', T_timestamp), (''onboardDate'', T_timestamp),
      (''status'', T_enum ''contract_status_t''), (''maintMarginPercent'', T_decimal),
      (''requiredMarginPercent'', T_decimal), (''baseAsset'', T_string), (''quoteAsset'', T_string),
      (''marginAsset'', T_string), (''pricePrecision'', T_int), (''quantityPrecision'', T_int),
      (''baseAssetPrecision'', T_int), (''quotePrecision'', T_int), (''underlyingType'', T_string),
      (''underlyingSubType'', T_vector T_string), (''settlePlan'', T_optional T_int),
      (''triggerProtect'', T_decimal), (''filters'', T_vector (T_struct ''symbol_filter_t'')),
      (''orderTypes'', T_enum_set ''order_type_t''), (''timeInForce'', T_enum_set ''time_in_force_t''),
      (''liquidationFee'', T_decimal), (''marketTakeBound'', T_decimal),
      (''maxMoveOrderLimit'', T_optional T_int), (''permissionSets'', T_enum_set ''trading_permission_t'')]"

definition symbol_info_t_meta :: wire_format where [struct_defs]:
  "symbol_info_t_meta =
     Object [(''symbol'', Member ''symbol''), (''pair'', Member ''pair''),
             (''contractType'', Member ''contractType''), (''deliveryDate'', Member ''deliveryDate''),
             (''onboardDate'', Member ''onboardDate''), (''status'', Member ''status''),
             (''maintMarginPercent'', Member ''maintMarginPercent''),
             (''requiredMarginPercent'', Member ''requiredMarginPercent''),
             (''baseAsset'', Member ''baseAsset''), (''quoteAsset'', Member ''quoteAsset''),
             (''marginAsset'', Member ''marginAsset''), (''pricePrecision'', Member ''pricePrecision''),
             (''quantityPrecision'', Member ''quantityPrecision''),
             (''baseAssetPrecision'', Member ''baseAssetPrecision''),
             (''quotePrecision'', Member ''quotePrecision''), (''underlyingType'', Member ''underlyingType''),
             (''underlyingSubType'', Member ''underlyingSubType''), (''settlePlan'', Member ''settlePlan''),
             (''triggerProtect'', Member ''triggerProtect''), (''filters'', Member ''filters''),
             (''orderTypes'', Member ''orderTypes''), (''timeInForce'', Member ''timeInForce''),
             (''liquidationFee'', Member ''liquidationFee''),
             (''marketTakeBound'', Member ''marketTakeBound''),
             (''maxMoveOrderLimit'', Member ''maxMoveOrderLimit''),
             (''permissionSets'', Member ''permissionSets'')]"

definition exchange_info_response_t_struct :: struct_type where [struct_defs]:
  "exchange_info_response_t_struct =
     [(''timezone'', T_string), (''serverTime'', T_timestamp), (''futuresType'', T_enum ''futures_type_t''),
      (''exchangeFilters'', T_vector T_json), (''rateLimits'', T_vector (T_struct ''rate_limit_t'')),
      (''assets'', T_vector (T_struct ''exchange_info_asset_t'')),
      (''symbols'', T_vector (T_struct ''symbol_info_t''))]"

definition exchange_info_response_t_meta :: wire_format where [struct_defs]:
  "exchange_info_response_t_meta =
     Object [(''timezone'', Member ''timezone''), (''serverTime'', Member ''serverTime''),
             (''futuresType'', Member ''futuresType''), (''exchangeFilters'', Member ''exchangeFilters''),
             (''rateLimits'', Member ''rateLimits''), (''assets'', Member ''assets''),
             (''symbols'', Member ''symbols'')]"

definition listen_key_response_t_struct :: struct_type where [struct_defs]:
  "listen_key_response_t_struct =
     [(''listenKey'', T_string)]"

definition listen_key_response_t_meta :: wire_format where [struct_defs]:
  "listen_key_response_t_meta =
     Object [(''listenKey'', Member ''listenKey'')]"

definition combined_stream_frame_t_struct :: struct_type where [struct_defs]:
  "combined_stream_frame_t_struct =
     [(''stream'', T_string), (''data'', T_json)]"

definition combined_stream_frame_t_meta :: wire_format where [struct_defs]:
  "combined_stream_frame_t_meta =
     Object [(''stream'', Member ''stream''), (''data'', Member ''data'')]"

section \<open>\<^verbatim>\<open>types/market_data.hpp\<close>\<close>

definition ping_request_t_struct :: struct_type where [struct_defs]:
  "ping_request_t_struct =
     []"

definition server_time_request_t_struct :: struct_type where [struct_defs]:
  "server_time_request_t_struct =
     []"

definition exchange_info_request_t_struct :: struct_type where [struct_defs]:
  "exchange_info_request_t_struct =
     [(''symbol'', T_optional T_symbol)]"

definition order_book_request_t_struct :: struct_type where [struct_defs]:
  "order_book_request_t_struct =
     [(''symbol'', T_symbol), (''limit'', T_optional T_int)]"

definition order_book_response_t_struct :: struct_type where [struct_defs]:
  "order_book_response_t_struct =
     [(''lastUpdateId'', T_u64), (''message_output_time'', T_timestamp), (''transaction_time'', T_timestamp),
      (''bids'', T_vector (T_struct ''price_level_t'')), (''asks'', T_vector (T_struct ''price_level_t''))]"

definition order_book_response_t_meta :: wire_format where [struct_defs]:
  "order_book_response_t_meta =
     Object [(''lastUpdateId'', Member ''lastUpdateId''), (''E'', Member ''message_output_time''),
             (''T'', Member ''transaction_time''), (''bids'', Member ''bids''), (''asks'', Member ''asks'')]"

definition recent_trades_request_t_struct :: struct_type where [struct_defs]:
  "recent_trades_request_t_struct =
     [(''symbol'', T_symbol), (''limit'', T_optional T_int)]"

definition recent_trade_t_struct :: struct_type where [struct_defs]:
  "recent_trade_t_struct =
     [(''id'', T_u64), (''price'', T_decimal), (''qty'', T_decimal), (''quoteQty'', T_decimal),
      (''time'', T_timestamp), (''isBuyerMaker'', T_bool), (''isRPITrade'', T_optional T_bool)]"

definition recent_trade_t_meta :: wire_format where [struct_defs]:
  "recent_trade_t_meta =
     Object [(''id'', Member ''id''), (''price'', Member ''price''), (''qty'', Member ''qty''),
             (''quoteQty'', Member ''quoteQty''), (''time'', Member ''time''),
             (''isBuyerMaker'', Member ''isBuyerMaker''), (''isRPITrade'', Member ''isRPITrade'')]"

definition aggregate_trades_request_t_struct :: struct_type where [struct_defs]:
  "aggregate_trades_request_t_struct =
     [(''symbol'', T_symbol), (''fromId'', T_optional T_u64), (''startTime'', T_optional T_timestamp),
      (''endTime'', T_optional T_timestamp), (''limit'', T_optional T_int)]"

definition aggregate_trade_t_struct :: struct_type where [struct_defs]:
  "aggregate_trade_t_struct =
     [(''agg_trade_id'', T_u64), (''price'', T_decimal), (''quantity'', T_decimal),
      (''first_trade_id'', T_u64), (''last_trade_id'', T_u64), (''timestamp'', T_timestamp),
      (''is_buyer_maker'', T_bool)]"

definition aggregate_trade_t_meta :: wire_format where [struct_defs]:
  "aggregate_trade_t_meta =
     Object [(''a'', Member ''agg_trade_id''), (''p'', Member ''price''), (''q'', Member ''quantity''),
             (''f'', Member ''first_trade_id''), (''l'', Member ''last_trade_id''),
             (''T'', Member ''timestamp''), (''m'', Member ''is_buyer_maker'')]"

definition historical_trades_request_t_struct :: struct_type where [struct_defs]:
  "historical_trades_request_t_struct =
     [(''symbol'', T_symbol), (''limit'', T_optional T_int), (''fromId'', T_optional T_u64)]"

definition kline_request_t_struct :: struct_type where [struct_defs]:
  "kline_request_t_struct =
     [(''symbol'', T_symbol), (''interval'', T_enum ''kline_interval_t''),
      (''startTime'', T_optional T_timestamp), (''endTime'', T_optional T_timestamp),
      (''limit'', T_optional T_int)]"

definition continuous_kline_request_t_struct :: struct_type where [struct_defs]:
  "continuous_kline_request_t_struct =
     [(''pair'', T_pair), (''contractType'', T_enum ''contract_type_t''),
      (''interval'', T_enum ''kline_interval_t''), (''startTime'', T_optional T_timestamp),
      (''endTime'', T_optional T_timestamp), (''limit'', T_optional T_int)]"

definition index_price_kline_request_t_struct :: struct_type where [struct_defs]:
  "index_price_kline_request_t_struct =
     [(''pair'', T_pair), (''interval'', T_enum ''kline_interval_t''), (''startTime'', T_optional T_timestamp),
      (''endTime'', T_optional T_timestamp), (''limit'', T_optional T_int)]"

definition kline_t_struct :: struct_type where [struct_defs]:
  "kline_t_struct =
     [(''openTime'', T_timestamp), (''open'', T_decimal), (''high'', T_decimal), (''low'', T_decimal),
      (''close'', T_decimal), (''volume'', T_decimal), (''closeTime'', T_timestamp),
      (''quoteAssetVolume'', T_decimal), (''numberOfTrades'', T_u64), (''takerBuyBaseAssetVolume'', T_decimal),
      (''takerBuyQuoteAssetVolume'', T_decimal), (''ignore'', T_decimal)]"

definition kline_t_meta :: wire_format where [struct_defs]:
  "kline_t_meta =
     Array [''openTime'', ''open'', ''high'', ''low'', ''close'', ''volume'', ''closeTime'',
            ''quoteAssetVolume'', ''numberOfTrades'', ''takerBuyBaseAssetVolume'',
            ''takerBuyQuoteAssetVolume'', ''ignore'']"

definition book_ticker_request_t_struct :: struct_type where [struct_defs]:
  "book_ticker_request_t_struct =
     [(''symbol'', T_optional T_symbol)]"

definition book_ticker_t_struct :: struct_type where [struct_defs]:
  "book_ticker_t_struct =
     [(''symbol'', T_symbol), (''bidPrice'', T_decimal), (''bidQty'', T_decimal), (''askPrice'', T_decimal),
      (''askQty'', T_decimal), (''time'', T_timestamp), (''lastUpdateId'', T_optional T_u64)]"

definition book_ticker_t_meta :: wire_format where [struct_defs]:
  "book_ticker_t_meta =
     Object [(''symbol'', Member ''symbol''), (''bidPrice'', Member ''bidPrice''),
             (''bidQty'', Member ''bidQty''), (''askPrice'', Member ''askPrice''),
             (''askQty'', Member ''askQty''), (''time'', Member ''time''),
             (''lastUpdateId'', Member ''lastUpdateId'')]"

definition price_ticker_request_t_struct :: struct_type where [struct_defs]:
  "price_ticker_request_t_struct =
     [(''symbol'', T_optional T_symbol)]"

definition price_ticker_t_struct :: struct_type where [struct_defs]:
  "price_ticker_t_struct =
     [(''symbol'', T_symbol), (''price'', T_decimal), (''time'', T_timestamp)]"

definition price_ticker_t_meta :: wire_format where [struct_defs]:
  "price_ticker_t_meta =
     Object [(''symbol'', Member ''symbol''), (''price'', Member ''price''), (''time'', Member ''time'')]"

definition ticker_24hr_request_t_struct :: struct_type where [struct_defs]:
  "ticker_24hr_request_t_struct =
     [(''symbol'', T_optional T_symbol)]"

definition ticker_24hr_t_struct :: struct_type where [struct_defs]:
  "ticker_24hr_t_struct =
     [(''symbol'', T_symbol), (''priceChange'', T_decimal), (''priceChangePercent'', T_decimal),
      (''weightedAvgPrice'', T_decimal), (''lastPrice'', T_decimal), (''lastQty'', T_decimal),
      (''openPrice'', T_decimal), (''highPrice'', T_decimal), (''lowPrice'', T_decimal),
      (''volume'', T_decimal), (''quoteVolume'', T_decimal), (''openTime'', T_timestamp),
      (''closeTime'', T_timestamp), (''firstId'', T_u64), (''lastId'', T_u64), (''count'', T_u64)]"

definition ticker_24hr_t_meta :: wire_format where [struct_defs]:
  "ticker_24hr_t_meta =
     Object [(''symbol'', Member ''symbol''), (''priceChange'', Member ''priceChange''),
             (''priceChangePercent'', Member ''priceChangePercent''),
             (''weightedAvgPrice'', Member ''weightedAvgPrice''), (''lastPrice'', Member ''lastPrice''),
             (''lastQty'', Member ''lastQty''), (''openPrice'', Member ''openPrice''),
             (''highPrice'', Member ''highPrice''), (''lowPrice'', Member ''lowPrice''),
             (''volume'', Member ''volume''), (''quoteVolume'', Member ''quoteVolume''),
             (''openTime'', Member ''openTime''), (''closeTime'', Member ''closeTime''),
             (''firstId'', Member ''firstId''), (''lastId'', Member ''lastId''), (''count'', Member ''count'')]"

definition mark_price_request_t_struct :: struct_type where [struct_defs]:
  "mark_price_request_t_struct =
     [(''symbol'', T_optional T_symbol)]"

definition mark_price_t_struct :: struct_type where [struct_defs]:
  "mark_price_t_struct =
     [(''symbol'', T_symbol), (''markPrice'', T_decimal), (''indexPrice'', T_decimal),
      (''estimatedSettlePrice'', T_decimal), (''lastFundingRate'', T_decimal), (''interestRate'', T_decimal),
      (''nextFundingTime'', T_timestamp), (''time'', T_timestamp)]"

definition mark_price_t_meta :: wire_format where [struct_defs]:
  "mark_price_t_meta =
     Object [(''symbol'', Member ''symbol''), (''markPrice'', Member ''markPrice''),
             (''indexPrice'', Member ''indexPrice''),
             (''estimatedSettlePrice'', Member ''estimatedSettlePrice''),
             (''lastFundingRate'', Member ''lastFundingRate''), (''interestRate'', Member ''interestRate''),
             (''nextFundingTime'', Member ''nextFundingTime''), (''time'', Member ''time'')]"

definition funding_rate_history_request_t_struct :: struct_type where [struct_defs]:
  "funding_rate_history_request_t_struct =
     [(''symbol'', T_optional T_symbol), (''startTime'', T_optional T_timestamp),
      (''endTime'', T_optional T_timestamp), (''limit'', T_optional T_int)]"

definition funding_rate_history_entry_t_struct :: struct_type where [struct_defs]:
  "funding_rate_history_entry_t_struct =
     [(''symbol'', T_symbol), (''fundingRate'', T_decimal), (''fundingTime'', T_timestamp),
      (''markPrice'', T_decimal)]"

definition funding_rate_history_entry_t_meta :: wire_format where [struct_defs]:
  "funding_rate_history_entry_t_meta =
     Object [(''symbol'', Member ''symbol''), (''fundingRate'', Member ''fundingRate''),
             (''fundingTime'', Member ''fundingTime''), (''markPrice'', Member ''markPrice'')]"

definition funding_rate_info_t_struct :: struct_type where [struct_defs]:
  "funding_rate_info_t_struct =
     [(''symbol'', T_symbol), (''adjustedFundingRateCap'', T_decimal),
      (''adjustedFundingRateFloor'', T_decimal), (''fundingIntervalHours'', T_int), (''disclaimer'', T_bool)]"

definition funding_rate_info_t_meta :: wire_format where [struct_defs]:
  "funding_rate_info_t_meta =
     Object [(''symbol'', Member ''symbol''), (''adjustedFundingRateCap'', Member ''adjustedFundingRateCap''),
             (''adjustedFundingRateFloor'', Member ''adjustedFundingRateFloor''),
             (''fundingIntervalHours'', Member ''fundingIntervalHours''),
             (''disclaimer'', Member ''disclaimer'')]"

definition open_interest_request_t_struct :: struct_type where [struct_defs]:
  "open_interest_request_t_struct =
     [(''symbol'', T_symbol)]"

definition open_interest_t_struct :: struct_type where [struct_defs]:
  "open_interest_t_struct =
     [(''openInterest'', T_decimal), (''symbol'', T_symbol), (''time'', T_timestamp)]"

definition open_interest_t_meta :: wire_format where [struct_defs]:
  "open_interest_t_meta =
     Object [(''openInterest'', Member ''openInterest''), (''symbol'', Member ''symbol''),
             (''time'', Member ''time'')]"

definition futures_data_request_t_struct :: struct_type where [struct_defs]:
  "futures_data_request_t_struct =
     [(''symbol'', T_symbol), (''period'', T_enum ''futures_data_period_t''), (''limit'', T_optional T_int),
      (''startTime'', T_optional T_timestamp), (''endTime'', T_optional T_timestamp)]"

definition open_interest_statistics_entry_t_struct :: struct_type where [struct_defs]:
  "open_interest_statistics_entry_t_struct =
     [(''symbol'', T_symbol), (''sumOpenInterest'', T_decimal), (''sumOpenInterestValue'', T_decimal),
      (''CMCCirculatingSupply'', T_decimal), (''timestamp'', T_timestamp)]"

definition open_interest_statistics_entry_t_meta :: wire_format where [struct_defs]:
  "open_interest_statistics_entry_t_meta =
     Object [(''symbol'', Member ''symbol''), (''sumOpenInterest'', Member ''sumOpenInterest''),
             (''sumOpenInterestValue'', Member ''sumOpenInterestValue''),
             (''CMCCirculatingSupply'', Member ''CMCCirculatingSupply''), (''timestamp'', Member ''timestamp'')]"

definition long_short_ratio_entry_t_struct :: struct_type where [struct_defs]:
  "long_short_ratio_entry_t_struct =
     [(''symbol'', T_symbol), (''longShortRatio'', T_decimal), (''longAccount'', T_decimal),
      (''shortAccount'', T_decimal), (''timestamp'', T_timestamp)]"

definition long_short_ratio_entry_t_meta :: wire_format where [struct_defs]:
  "long_short_ratio_entry_t_meta =
     Object [(''symbol'', Member ''symbol''), (''longShortRatio'', Member ''longShortRatio''),
             (''longAccount'', Member ''longAccount''), (''shortAccount'', Member ''shortAccount''),
             (''timestamp'', Member ''timestamp'')]"

definition taker_buy_sell_volume_entry_t_struct :: struct_type where [struct_defs]:
  "taker_buy_sell_volume_entry_t_struct =
     [(''buySellRatio'', T_decimal), (''buyVol'', T_decimal), (''sellVol'', T_decimal),
      (''timestamp'', T_timestamp)]"

definition taker_buy_sell_volume_entry_t_meta :: wire_format where [struct_defs]:
  "taker_buy_sell_volume_entry_t_meta =
     Object [(''buySellRatio'', Member ''buySellRatio''), (''buyVol'', Member ''buyVol''),
             (''sellVol'', Member ''sellVol''), (''timestamp'', Member ''timestamp'')]"

definition basis_request_t_struct :: struct_type where [struct_defs]:
  "basis_request_t_struct =
     [(''pair'', T_pair), (''contractType'', T_enum ''contract_type_t''),
      (''period'', T_enum ''futures_data_period_t''), (''limit'', T_optional T_int),
      (''startTime'', T_optional T_timestamp), (''endTime'', T_optional T_timestamp)]"

definition basis_entry_t_struct :: struct_type where [struct_defs]:
  "basis_entry_t_struct =
     [(''pair'', T_pair), (''contractType'', T_enum ''contract_type_t''), (''basis'', T_decimal),
      (''basisRate'', T_decimal), (''futuresPrice'', T_decimal), (''indexPrice'', T_decimal),
      (''annualizedBasisRate'', T_decimal), (''timestamp'', T_timestamp)]"

definition basis_entry_t_meta :: wire_format where [struct_defs]:
  "basis_entry_t_meta =
     Object [(''pair'', Member ''pair''), (''contractType'', Member ''contractType''),
             (''basis'', Member ''basis''), (''basisRate'', Member ''basisRate''),
             (''futuresPrice'', Member ''futuresPrice''), (''indexPrice'', Member ''indexPrice''),
             (''annualizedBasisRate'', Member ''annualizedBasisRate''), (''timestamp'', Member ''timestamp'')]"

definition price_ticker_v2_request_t_struct :: struct_type where [struct_defs]:
  "price_ticker_v2_request_t_struct =
     [(''symbol'', T_optional T_symbol)]"

definition delivery_price_request_t_struct :: struct_type where [struct_defs]:
  "delivery_price_request_t_struct =
     [(''pair'', T_pair)]"

definition delivery_price_entry_t_struct :: struct_type where [struct_defs]:
  "delivery_price_entry_t_struct =
     [(''deliveryTime'', T_timestamp), (''deliveryPrice'', T_decimal)]"

definition delivery_price_entry_t_meta :: wire_format where [struct_defs]:
  "delivery_price_entry_t_meta =
     Object [(''deliveryTime'', Member ''deliveryTime''), (''deliveryPrice'', Member ''deliveryPrice'')]"

definition composite_index_info_request_t_struct :: struct_type where [struct_defs]:
  "composite_index_info_request_t_struct =
     [(''symbol'', T_optional T_symbol)]"

definition composite_index_base_asset_t_struct :: struct_type where [struct_defs]:
  "composite_index_base_asset_t_struct =
     [(''baseAsset'', T_string), (''quoteAsset'', T_string), (''weightInQuantity'', T_decimal),
      (''weightInPercentage'', T_decimal)]"

definition composite_index_base_asset_t_meta :: wire_format where [struct_defs]:
  "composite_index_base_asset_t_meta =
     Object [(''baseAsset'', Member ''baseAsset''), (''quoteAsset'', Member ''quoteAsset''),
             (''weightInQuantity'', Member ''weightInQuantity''),
             (''weightInPercentage'', Member ''weightInPercentage'')]"

definition composite_index_info_t_struct :: struct_type where [struct_defs]:
  "composite_index_info_t_struct =
     [(''symbol'', T_symbol), (''time'', T_timestamp), (''component'', T_string),
      (''baseAssetList'', T_vector (T_struct ''composite_index_base_asset_t''))]"

definition composite_index_info_t_meta :: wire_format where [struct_defs]:
  "composite_index_info_t_meta =
     Object [(''symbol'', Member ''symbol''), (''time'', Member ''time''),
             (''component'', Member ''component''), (''baseAssetList'', Member ''baseAssetList'')]"

definition index_constituents_request_t_struct :: struct_type where [struct_defs]:
  "index_constituents_request_t_struct =
     [(''symbol'', T_symbol)]"

definition index_constituent_t_struct :: struct_type where [struct_defs]:
  "index_constituent_t_struct =
     [(''exchange'', T_string), (''symbol'', T_symbol), (''price'', T_decimal), (''weight'', T_decimal)]"

definition index_constituent_t_meta :: wire_format where [struct_defs]:
  "index_constituent_t_meta =
     Object [(''exchange'', Member ''exchange''), (''symbol'', Member ''symbol''),
             (''price'', Member ''price''), (''weight'', Member ''weight'')]"

definition index_constituents_response_t_struct :: struct_type where [struct_defs]:
  "index_constituents_response_t_struct =
     [(''symbol'', T_symbol), (''time'', T_timestamp),
      (''constituents'', T_vector (T_struct ''index_constituent_t''))]"

definition index_constituents_response_t_meta :: wire_format where [struct_defs]:
  "index_constituents_response_t_meta =
     Object [(''symbol'', Member ''symbol''), (''time'', Member ''time''),
             (''constituents'', Member ''constituents'')]"

definition asset_index_request_t_struct :: struct_type where [struct_defs]:
  "asset_index_request_t_struct =
     [(''symbol'', T_optional T_symbol)]"

definition asset_index_t_struct :: struct_type where [struct_defs]:
  "asset_index_t_struct =
     [(''symbol'', T_symbol), (''time'', T_timestamp), (''index'', T_decimal), (''bidBuffer'', T_decimal),
      (''askBuffer'', T_decimal), (''bidRate'', T_decimal), (''askRate'', T_decimal),
      (''autoExchangeBidBuffer'', T_decimal), (''autoExchangeAskBuffer'', T_decimal),
      (''autoExchangeBidRate'', T_decimal), (''autoExchangeAskRate'', T_decimal)]"

definition asset_index_t_meta :: wire_format where [struct_defs]:
  "asset_index_t_meta =
     Object [(''symbol'', Member ''symbol''), (''time'', Member ''time''), (''index'', Member ''index''),
             (''bidBuffer'', Member ''bidBuffer''), (''askBuffer'', Member ''askBuffer''),
             (''bidRate'', Member ''bidRate''), (''askRate'', Member ''askRate''),
             (''autoExchangeBidBuffer'', Member ''autoExchangeBidBuffer''),
             (''autoExchangeAskBuffer'', Member ''autoExchangeAskBuffer''),
             (''autoExchangeBidRate'', Member ''autoExchangeBidRate''),
             (''autoExchangeAskRate'', Member ''autoExchangeAskRate'')]"

definition insurance_fund_request_t_struct :: struct_type where [struct_defs]:
  "insurance_fund_request_t_struct =
     [(''symbol'', T_symbol)]"

definition insurance_funds_request_t_struct :: struct_type where [struct_defs]:
  "insurance_funds_request_t_struct =
     []"

definition insurance_fund_asset_t_struct :: struct_type where [struct_defs]:
  "insurance_fund_asset_t_struct =
     [(''asset'', T_string), (''marginBalance'', T_decimal), (''updateTime'', T_timestamp)]"

definition insurance_fund_asset_t_meta :: wire_format where [struct_defs]:
  "insurance_fund_asset_t_meta =
     Object [(''asset'', Member ''asset''), (''marginBalance'', Member ''marginBalance''),
             (''updateTime'', Member ''updateTime'')]"

definition insurance_fund_response_t_struct :: struct_type where [struct_defs]:
  "insurance_fund_response_t_struct =
     [(''symbols'', T_vector T_string), (''assets'', T_vector (T_struct ''insurance_fund_asset_t''))]"

definition insurance_fund_response_t_meta :: wire_format where [struct_defs]:
  "insurance_fund_response_t_meta =
     Object [(''symbols'', Member ''symbols''), (''assets'', Member ''assets'')]"

definition adl_risk_request_t_struct :: struct_type where [struct_defs]:
  "adl_risk_request_t_struct =
     [(''symbol'', T_optional T_symbol)]"

definition adl_risk_entry_t_struct :: struct_type where [struct_defs]:
  "adl_risk_entry_t_struct =
     [(''symbol'', T_symbol), (''adlRisk'', T_decimal), (''updateTime'', T_timestamp)]"

definition adl_risk_entry_t_meta :: wire_format where [struct_defs]:
  "adl_risk_entry_t_meta =
     Object [(''symbol'', Member ''symbol''), (''adlRisk'', Member ''adlRisk''),
             (''updateTime'', Member ''updateTime'')]"

definition rpi_depth_request_t_struct :: struct_type where [struct_defs]:
  "rpi_depth_request_t_struct =
     [(''symbol'', T_symbol), (''limit'', T_optional T_int)]"

definition trading_schedule_request_t_struct :: struct_type where [struct_defs]:
  "trading_schedule_request_t_struct =
     []"

definition trading_session_entry_t_struct :: struct_type where [struct_defs]:
  "trading_session_entry_t_struct =
     [(''startTime'', T_timestamp), (''endTime'', T_timestamp), (''type'', T_string)]"

definition trading_session_entry_t_meta :: wire_format where [struct_defs]:
  "trading_session_entry_t_meta =
     Object [(''startTime'', Member ''startTime''), (''endTime'', Member ''endTime''),
             (''type'', Member ''type'')]"

definition market_schedule_t_struct :: struct_type where [struct_defs]:
  "market_schedule_t_struct =
     [(''sessions'', T_vector (T_struct ''trading_session_entry_t''))]"

definition market_schedule_t_meta :: wire_format where [struct_defs]:
  "market_schedule_t_meta =
     Object [(''sessions'', Member ''sessions'')]"

definition trading_schedule_response_t_struct :: struct_type where [struct_defs]:
  "trading_schedule_response_t_struct =
     [(''updateTime'', T_timestamp), (''marketSchedules'', T_map (T_struct ''market_schedule_t''))]"

definition trading_schedule_response_t_meta :: wire_format where [struct_defs]:
  "trading_schedule_response_t_meta =
     Object [(''updateTime'', Member ''updateTime''), (''marketSchedules'', Member ''marketSchedules'')]"

definition book_tickers_request_t_struct :: struct_type where [struct_defs]:
  "book_tickers_request_t_struct =
     []"

definition price_tickers_request_t_struct :: struct_type where [struct_defs]:
  "price_tickers_request_t_struct =
     []"

definition price_tickers_v2_request_t_struct :: struct_type where [struct_defs]:
  "price_tickers_v2_request_t_struct =
     []"

definition ticker_24hrs_request_t_struct :: struct_type where [struct_defs]:
  "ticker_24hrs_request_t_struct =
     []"

definition mark_prices_request_t_struct :: struct_type where [struct_defs]:
  "mark_prices_request_t_struct =
     []"

definition funding_rate_info_request_t_struct :: struct_type where [struct_defs]:
  "funding_rate_info_request_t_struct =
     []"

definition klines_request_t_struct :: struct_type where [struct_defs]:
  "klines_request_t_struct =
     [(''symbol'', T_symbol), (''interval'', T_enum ''kline_interval_t''),
      (''startTime'', T_optional T_timestamp), (''endTime'', T_optional T_timestamp),
      (''limit'', T_optional T_int)]"

definition mark_price_klines_request_t_struct :: struct_type where [struct_defs]:
  "mark_price_klines_request_t_struct =
     [(''symbol'', T_symbol), (''interval'', T_enum ''kline_interval_t''),
      (''startTime'', T_optional T_timestamp), (''endTime'', T_optional T_timestamp),
      (''limit'', T_optional T_int)]"

definition premium_index_klines_request_t_struct :: struct_type where [struct_defs]:
  "premium_index_klines_request_t_struct =
     [(''symbol'', T_symbol), (''interval'', T_enum ''kline_interval_t''),
      (''startTime'', T_optional T_timestamp), (''endTime'', T_optional T_timestamp),
      (''limit'', T_optional T_int)]"

definition open_interest_statistics_request_t_struct :: struct_type where [struct_defs]:
  "open_interest_statistics_request_t_struct =
     [(''symbol'', T_symbol), (''period'', T_enum ''kline_interval_t''), (''limit'', T_optional T_int),
      (''startTime'', T_optional T_timestamp), (''endTime'', T_optional T_timestamp)]"

definition top_long_short_account_ratio_request_t_struct :: struct_type where [struct_defs]:
  "top_long_short_account_ratio_request_t_struct =
     [(''symbol'', T_symbol), (''period'', T_enum ''kline_interval_t''), (''limit'', T_optional T_int),
      (''startTime'', T_optional T_timestamp), (''endTime'', T_optional T_timestamp)]"

definition top_trader_long_short_ratio_request_t_struct :: struct_type where [struct_defs]:
  "top_trader_long_short_ratio_request_t_struct =
     [(''symbol'', T_symbol), (''period'', T_enum ''kline_interval_t''), (''limit'', T_optional T_int),
      (''startTime'', T_optional T_timestamp), (''endTime'', T_optional T_timestamp)]"

definition long_short_ratio_request_t_struct :: struct_type where [struct_defs]:
  "long_short_ratio_request_t_struct =
     [(''symbol'', T_symbol), (''period'', T_enum ''kline_interval_t''), (''limit'', T_optional T_int),
      (''startTime'', T_optional T_timestamp), (''endTime'', T_optional T_timestamp)]"

definition taker_buy_sell_volume_request_t_struct :: struct_type where [struct_defs]:
  "taker_buy_sell_volume_request_t_struct =
     [(''symbol'', T_symbol), (''period'', T_enum ''kline_interval_t''), (''limit'', T_optional T_int),
      (''startTime'', T_optional T_timestamp), (''endTime'', T_optional T_timestamp)]"

section \<open>\<^verbatim>\<open>types/convert.hpp\<close>\<close>

definition convert_quote_request_t_struct :: struct_type where [struct_defs]:
  "convert_quote_request_t_struct =
     [(''fromAsset'', T_string), (''toAsset'', T_string), (''fromAmount'', T_optional T_decimal),
      (''toAmount'', T_optional T_decimal), (''validTime'', T_optional T_string)]"

definition convert_quote_response_t_struct :: struct_type where [struct_defs]:
  "convert_quote_response_t_struct =
     [(''quoteId'', T_string), (''ratio'', T_decimal), (''inverseRatio'', T_decimal),
      (''validTimestamp'', T_timestamp), (''toAmount'', T_decimal), (''fromAmount'', T_decimal)]"

definition convert_quote_response_t_meta :: wire_format where [struct_defs]:
  "convert_quote_response_t_meta =
     Object [(''quoteId'', Member ''quoteId''), (''ratio'', Member ''ratio''),
             (''inverseRatio'', Member ''inverseRatio''), (''validTimestamp'', Member ''validTimestamp''),
             (''toAmount'', Member ''toAmount''), (''fromAmount'', Member ''fromAmount'')]"

definition convert_accept_request_t_struct :: struct_type where [struct_defs]:
  "convert_accept_request_t_struct =
     [(''quoteId'', T_string)]"

definition convert_accept_response_t_struct :: struct_type where [struct_defs]:
  "convert_accept_response_t_struct =
     [(''orderId'', T_string), (''createTime'', T_timestamp), (''orderStatus'', T_string)]"

definition convert_accept_response_t_meta :: wire_format where [struct_defs]:
  "convert_accept_response_t_meta =
     Object [(''orderId'', Member ''orderId''), (''createTime'', Member ''createTime''),
             (''orderStatus'', Member ''orderStatus'')]"

definition convert_order_status_request_t_struct :: struct_type where [struct_defs]:
  "convert_order_status_request_t_struct =
     [(''orderId'', T_optional T_string), (''quoteId'', T_optional T_string)]"

definition convert_order_status_response_t_struct :: struct_type where [struct_defs]:
  "convert_order_status_response_t_struct =
     [(''orderId'', T_string), (''orderStatus'', T_string), (''fromAsset'', T_string),
      (''fromAmount'', T_decimal), (''toAsset'', T_string), (''toAmount'', T_decimal), (''ratio'', T_decimal),
      (''inverseRatio'', T_decimal), (''createTime'', T_timestamp)]"

definition convert_order_status_response_t_meta :: wire_format where [struct_defs]:
  "convert_order_status_response_t_meta =
     Object [(''orderId'', Member ''orderId''), (''orderStatus'', Member ''orderStatus''),
             (''fromAsset'', Member ''fromAsset''), (''fromAmount'', Member ''fromAmount''),
             (''toAsset'', Member ''toAsset''), (''toAmount'', Member ''toAmount''),
             (''ratio'', Member ''ratio''), (''inverseRatio'', Member ''inverseRatio''),
             (''createTime'', Member ''createTime'')]"

section \<open>Registry\<close>

definition market_structs :: "(string \<times> struct_type \<times> wire_format) list" where
  "market_structs =
     [(''empty_response_t'', empty_response_t_struct, empty_response_t_meta),
      (''rate_limit_t'', rate_limit_t_struct, rate_limit_t_meta),
      (''server_time_response_t'', server_time_response_t_struct, server_time_response_t_meta),
      (''binance_error_document_t'', binance_error_document_t_struct, binance_error_document_t_meta),
      (''price_level_t'', price_level_t_struct, price_level_t_meta),
      (''exchange_info_asset_t'', exchange_info_asset_t_struct, exchange_info_asset_t_meta),
      (''symbol_filter_t'', symbol_filter_t_struct, symbol_filter_t_meta),
      (''symbol_info_t'', symbol_info_t_struct, symbol_info_t_meta),
      (''exchange_info_response_t'', exchange_info_response_t_struct, exchange_info_response_t_meta),
      (''listen_key_response_t'', listen_key_response_t_struct, listen_key_response_t_meta),
      (''combined_stream_frame_t'', combined_stream_frame_t_struct, combined_stream_frame_t_meta),
      (''ping_request_t'', ping_request_t_struct, Aggregate),
      (''server_time_request_t'', server_time_request_t_struct, Aggregate),
      (''exchange_info_request_t'', exchange_info_request_t_struct, Aggregate),
      (''order_book_request_t'', order_book_request_t_struct, Aggregate),
      (''order_book_response_t'', order_book_response_t_struct, order_book_response_t_meta),
      (''recent_trades_request_t'', recent_trades_request_t_struct, Aggregate),
      (''recent_trade_t'', recent_trade_t_struct, recent_trade_t_meta),
      (''aggregate_trades_request_t'', aggregate_trades_request_t_struct, Aggregate),
      (''aggregate_trade_t'', aggregate_trade_t_struct, aggregate_trade_t_meta),
      (''historical_trades_request_t'', historical_trades_request_t_struct, Aggregate),
      (''kline_request_t'', kline_request_t_struct, Aggregate),
      (''continuous_kline_request_t'', continuous_kline_request_t_struct, Aggregate),
      (''index_price_kline_request_t'', index_price_kline_request_t_struct, Aggregate),
      (''kline_t'', kline_t_struct, kline_t_meta),
      (''book_ticker_request_t'', book_ticker_request_t_struct, Aggregate),
      (''book_ticker_t'', book_ticker_t_struct, book_ticker_t_meta),
      (''price_ticker_request_t'', price_ticker_request_t_struct, Aggregate),
      (''price_ticker_t'', price_ticker_t_struct, price_ticker_t_meta),
      (''ticker_24hr_request_t'', ticker_24hr_request_t_struct, Aggregate),
      (''ticker_24hr_t'', ticker_24hr_t_struct, ticker_24hr_t_meta),
      (''mark_price_request_t'', mark_price_request_t_struct, Aggregate),
      (''mark_price_t'', mark_price_t_struct, mark_price_t_meta),
      (''funding_rate_history_request_t'', funding_rate_history_request_t_struct, Aggregate),
      (''funding_rate_history_entry_t'', funding_rate_history_entry_t_struct, funding_rate_history_entry_t_meta),
      (''funding_rate_info_t'', funding_rate_info_t_struct, funding_rate_info_t_meta),
      (''open_interest_request_t'', open_interest_request_t_struct, Aggregate),
      (''open_interest_t'', open_interest_t_struct, open_interest_t_meta),
      (''futures_data_request_t'', futures_data_request_t_struct, Aggregate),
      (''open_interest_statistics_entry_t'', open_interest_statistics_entry_t_struct, open_interest_statistics_entry_t_meta),
      (''long_short_ratio_entry_t'', long_short_ratio_entry_t_struct, long_short_ratio_entry_t_meta),
      (''taker_buy_sell_volume_entry_t'', taker_buy_sell_volume_entry_t_struct, taker_buy_sell_volume_entry_t_meta),
      (''basis_request_t'', basis_request_t_struct, Aggregate),
      (''basis_entry_t'', basis_entry_t_struct, basis_entry_t_meta),
      (''price_ticker_v2_request_t'', price_ticker_v2_request_t_struct, Aggregate),
      (''delivery_price_request_t'', delivery_price_request_t_struct, Aggregate),
      (''delivery_price_entry_t'', delivery_price_entry_t_struct, delivery_price_entry_t_meta),
      (''composite_index_info_request_t'', composite_index_info_request_t_struct, Aggregate),
      (''composite_index_base_asset_t'', composite_index_base_asset_t_struct, composite_index_base_asset_t_meta),
      (''composite_index_info_t'', composite_index_info_t_struct, composite_index_info_t_meta),
      (''index_constituents_request_t'', index_constituents_request_t_struct, Aggregate),
      (''index_constituent_t'', index_constituent_t_struct, index_constituent_t_meta),
      (''index_constituents_response_t'', index_constituents_response_t_struct, index_constituents_response_t_meta),
      (''asset_index_request_t'', asset_index_request_t_struct, Aggregate),
      (''asset_index_t'', asset_index_t_struct, asset_index_t_meta),
      (''insurance_fund_request_t'', insurance_fund_request_t_struct, Aggregate),
      (''insurance_funds_request_t'', insurance_funds_request_t_struct, Aggregate),
      (''insurance_fund_asset_t'', insurance_fund_asset_t_struct, insurance_fund_asset_t_meta),
      (''insurance_fund_response_t'', insurance_fund_response_t_struct, insurance_fund_response_t_meta),
      (''adl_risk_request_t'', adl_risk_request_t_struct, Aggregate),
      (''adl_risk_entry_t'', adl_risk_entry_t_struct, adl_risk_entry_t_meta),
      (''rpi_depth_request_t'', rpi_depth_request_t_struct, Aggregate),
      (''trading_schedule_request_t'', trading_schedule_request_t_struct, Aggregate),
      (''trading_session_entry_t'', trading_session_entry_t_struct, trading_session_entry_t_meta),
      (''market_schedule_t'', market_schedule_t_struct, market_schedule_t_meta),
      (''trading_schedule_response_t'', trading_schedule_response_t_struct, trading_schedule_response_t_meta),
      (''book_tickers_request_t'', book_tickers_request_t_struct, Aggregate),
      (''price_tickers_request_t'', price_tickers_request_t_struct, Aggregate),
      (''price_tickers_v2_request_t'', price_tickers_v2_request_t_struct, Aggregate),
      (''ticker_24hrs_request_t'', ticker_24hrs_request_t_struct, Aggregate),
      (''mark_prices_request_t'', mark_prices_request_t_struct, Aggregate),
      (''funding_rate_info_request_t'', funding_rate_info_request_t_struct, Aggregate),
      (''klines_request_t'', klines_request_t_struct, Aggregate),
      (''mark_price_klines_request_t'', mark_price_klines_request_t_struct, Aggregate),
      (''premium_index_klines_request_t'', premium_index_klines_request_t_struct, Aggregate),
      (''open_interest_statistics_request_t'', open_interest_statistics_request_t_struct, Aggregate),
      (''top_long_short_account_ratio_request_t'', top_long_short_account_ratio_request_t_struct, Aggregate),
      (''top_trader_long_short_ratio_request_t'', top_trader_long_short_ratio_request_t_struct, Aggregate),
      (''long_short_ratio_request_t'', long_short_ratio_request_t_struct, Aggregate),
      (''taker_buy_sell_volume_request_t'', taker_buy_sell_volume_request_t_struct, Aggregate),
      (''convert_quote_request_t'', convert_quote_request_t_struct, Aggregate),
      (''convert_quote_response_t'', convert_quote_response_t_struct, convert_quote_response_t_meta),
      (''convert_accept_request_t'', convert_accept_request_t_struct, Aggregate),
      (''convert_accept_response_t'', convert_accept_response_t_struct, convert_accept_response_t_meta),
      (''convert_order_status_request_t'', convert_order_status_request_t_struct, Aggregate),
      (''convert_order_status_response_t'', convert_order_status_response_t_struct, convert_order_status_response_t_meta)]"

end
