(* ===== verification/Structs_Trade.thy ===== *)
theory Structs_Trade
  imports Struct_Types
begin

text \<open>
  The trade, account and WebSocket API structs of \<^verbatim>\<open>types/trade.hpp\<close>, \<^verbatim>\<open>types/account.hpp\<close>, \<^verbatim>\<open>types/websocket_api.hpp\<close>: for each
  struct its members with their types, in the order of declaration, and where the header has a
  \<^verbatim>\<open>glz::meta\<close> specialisation, the wire format it declares.
\<close>

section \<open>\<^verbatim>\<open>types/trade.hpp\<close>\<close>

definition new_order_request_t_struct :: struct_type where [struct_defs]:
  "new_order_request_t_struct =
     [(''symbol'', T_symbol), (''side'', T_enum ''order_side_t''), (''type'', T_enum ''order_type_t''),
      (''timeInForce'', T_optional (T_enum ''time_in_force_t'')), (''quantity'', T_decimal),
      (''price'', T_optional T_decimal), (''newClientOrderId'', T_optional T_string),
      (''stopPrice'', T_optional T_decimal), (''positionSide'', T_optional (T_enum ''position_side_t'')),
      (''reduceOnly'', T_optional T_string), (''closePosition'', T_optional T_string),
      (''activationPrice'', T_optional T_decimal), (''callbackRate'', T_optional T_decimal),
      (''workingType'', T_optional (T_enum ''working_type_t'')), (''priceProtect'', T_optional T_string),
      (''newOrderRespType'', T_optional (T_enum ''response_type_t'')),
      (''priceMatch'', T_optional (T_enum ''price_match_t'')),
      (''selfTradePreventionMode'', T_optional (T_enum ''stp_mode_t'')),
      (''goodTillDate'', T_optional T_timestamp)]"

definition order_response_t_struct :: struct_type where [struct_defs]:
  "order_response_t_struct =
     [(''clientOrderId'', T_string), (''cumQty'', T_optional T_decimal), (''cumQuote'', T_decimal),
      (''executedQty'', T_decimal), (''cumBase'', T_optional T_decimal), (''orderId'', T_u64),
      (''avgPrice'', T_decimal), (''origQty'', T_decimal), (''pair'', T_optional T_pair),
      (''price'', T_decimal), (''reduceOnly'', T_bool), (''side'', T_enum ''order_side_t''),
      (''positionSide'', T_enum ''position_side_t''), (''status'', T_enum ''order_status_t''),
      (''stopPrice'', T_decimal), (''closePosition'', T_bool), (''symbol'', T_symbol),
      (''timeInForce'', T_enum ''time_in_force_t''), (''type'', T_enum ''order_type_t''),
      (''workingType'', T_optional (T_enum ''working_type_t'')), (''priceProtect'', T_optional T_bool),
      (''origType'', T_enum ''order_type_t''), (''priceMatch'', T_optional (T_enum ''price_match_t'')),
      (''selfTradePreventionMode'', T_optional (T_enum ''stp_mode_t'')),
      (''goodTillDate'', T_optional T_timestamp), (''activatePrice'', T_optional T_decimal),
      (''priceRate'', T_optional T_decimal), (''time'', T_optional T_timestamp),
      (''updateTime'', T_optional T_timestamp)]"

definition order_response_t_meta :: wire_format where [struct_defs]:
  "order_response_t_meta =
     Object [(''clientOrderId'', Member ''clientOrderId''), (''cumQty'', Member ''cumQty''),
             (''cumQuote'', Member ''cumQuote''), (''executedQty'', Member ''executedQty''),
             (''cumBase'', Member ''cumBase''), (''orderId'', Member ''orderId''),
             (''avgPrice'', Member ''avgPrice''), (''origQty'', Member ''origQty''),
             (''pair'', Member ''pair''), (''price'', Member ''price''),
             (''reduceOnly'', Member ''reduceOnly''), (''side'', Member ''side''),
             (''positionSide'', Member ''positionSide''), (''status'', Member ''status''),
             (''stopPrice'', Member ''stopPrice''), (''closePosition'', Member ''closePosition''),
             (''symbol'', Member ''symbol''), (''timeInForce'', Member ''timeInForce''),
             (''type'', Member ''type''), (''workingType'', Member ''workingType''),
             (''priceProtect'', Member ''priceProtect''), (''origType'', Member ''origType''),
             (''priceMatch'', Member ''priceMatch''),
             (''selfTradePreventionMode'', Member ''selfTradePreventionMode''),
             (''goodTillDate'', Member ''goodTillDate''), (''activatePrice'', Member ''activatePrice''),
             (''priceRate'', Member ''priceRate''), (''time'', Member ''time''),
             (''updateTime'', Member ''updateTime'')]"

definition modify_order_request_t_struct :: struct_type where [struct_defs]:
  "modify_order_request_t_struct =
     [(''symbol'', T_symbol), (''side'', T_enum ''order_side_t''), (''quantity'', T_decimal),
      (''price'', T_decimal), (''orderId'', T_optional T_u64), (''origClientOrderId'', T_optional T_string),
      (''priceMatch'', T_optional (T_enum ''price_match_t''))]"

definition cancel_order_request_t_struct :: struct_type where [struct_defs]:
  "cancel_order_request_t_struct =
     [(''symbol'', T_symbol), (''orderId'', T_optional T_u64), (''origClientOrderId'', T_optional T_string)]"

definition query_order_request_t_struct :: struct_type where [struct_defs]:
  "query_order_request_t_struct =
     [(''symbol'', T_symbol), (''orderId'', T_optional T_u64), (''origClientOrderId'', T_optional T_string)]"

definition batch_orders_request_t_struct :: struct_type where [struct_defs]:
  "batch_orders_request_t_struct =
     [(''batchOrders'', T_string)]"

definition cancel_multiple_orders_request_t_struct :: struct_type where [struct_defs]:
  "cancel_multiple_orders_request_t_struct =
     [(''symbol'', T_symbol), (''orderIdList'', T_optional (T_vector T_u64)),
      (''origClientOrderIdList'', T_optional (T_vector T_string))]"

definition cancel_all_open_orders_request_t_struct :: struct_type where [struct_defs]:
  "cancel_all_open_orders_request_t_struct =
     [(''symbol'', T_symbol)]"

definition code_msg_response_t_struct :: struct_type where [struct_defs]:
  "code_msg_response_t_struct =
     [(''code'', T_int), (''msg'', T_string)]"

definition code_msg_response_t_meta :: wire_format where [struct_defs]:
  "code_msg_response_t_meta =
     Object [(''code'', Member ''code''), (''msg'', Member ''msg'')]"

definition auto_cancel_request_t_struct :: struct_type where [struct_defs]:
  "auto_cancel_request_t_struct =
     [(''symbol'', T_symbol), (''countdownTime'', T_u64)]"

definition auto_cancel_response_t_struct :: struct_type where [struct_defs]:
  "auto_cancel_response_t_struct =
     [(''symbol'', T_symbol), (''countdownTime'', T_u64)]"

definition auto_cancel_response_t_meta :: wire_format where [struct_defs]:
  "auto_cancel_response_t_meta =
     Object [(''symbol'', Member ''symbol''), (''countdownTime'', Member ''countdownTime'')]"

definition query_open_order_request_t_struct :: struct_type where [struct_defs]:
  "query_open_order_request_t_struct =
     [(''symbol'', T_symbol), (''orderId'', T_optional T_u64), (''origClientOrderId'', T_optional T_string)]"

definition all_open_orders_request_t_struct :: struct_type where [struct_defs]:
  "all_open_orders_request_t_struct =
     [(''symbol'', T_optional T_symbol)]"

definition all_orders_request_t_struct :: struct_type where [struct_defs]:
  "all_orders_request_t_struct =
     [(''symbol'', T_symbol), (''orderId'', T_optional T_u64), (''startTime'', T_optional T_timestamp),
      (''endTime'', T_optional T_timestamp), (''limit'', T_optional T_int)]"

definition position_risk_v3_t_struct :: struct_type where [struct_defs]:
  "position_risk_v3_t_struct =
     [(''symbol'', T_symbol), (''positionSide'', T_enum ''position_side_t''), (''positionAmt'', T_decimal),
      (''entryPrice'', T_decimal), (''breakEvenPrice'', T_decimal), (''markPrice'', T_decimal),
      (''unRealizedProfit'', T_decimal), (''liquidationPrice'', T_decimal), (''isolatedMargin'', T_decimal),
      (''notional'', T_decimal), (''marginAsset'', T_string), (''isolatedWallet'', T_string),
      (''initialMargin'', T_decimal), (''maintMargin'', T_decimal), (''positionInitialMargin'', T_decimal),
      (''openOrderInitialMargin'', T_decimal), (''adl'', T_int), (''bidNotional'', T_decimal),
      (''askNotional'', T_decimal), (''updateTime'', T_timestamp)]"

definition position_risk_v3_t_meta :: wire_format where [struct_defs]:
  "position_risk_v3_t_meta =
     Object [(''symbol'', Member ''symbol''), (''positionSide'', Member ''positionSide''),
             (''positionAmt'', Member ''positionAmt''), (''entryPrice'', Member ''entryPrice''),
             (''breakEvenPrice'', Member ''breakEvenPrice''), (''markPrice'', Member ''markPrice''),
             (''unRealizedProfit'', Member ''unRealizedProfit''),
             (''liquidationPrice'', Member ''liquidationPrice''),
             (''isolatedMargin'', Member ''isolatedMargin''), (''notional'', Member ''notional''),
             (''marginAsset'', Member ''marginAsset''), (''isolatedWallet'', Member ''isolatedWallet''),
             (''initialMargin'', Member ''initialMargin''), (''maintMargin'', Member ''maintMargin''),
             (''positionInitialMargin'', Member ''positionInitialMargin''),
             (''openOrderInitialMargin'', Member ''openOrderInitialMargin''), (''adl'', Member ''adl''),
             (''bidNotional'', Member ''bidNotional''), (''askNotional'', Member ''askNotional''),
             (''updateTime'', Member ''updateTime'')]"

definition position_info_v3_request_t_struct :: struct_type where [struct_defs]:
  "position_info_v3_request_t_struct =
     [(''symbol'', T_optional T_symbol)]"

definition adl_quantile_values_t_struct :: struct_type where [struct_defs]:
  "adl_quantile_values_t_struct =
     [(''LONG'', T_int), (''SHORT'', T_int), (''BOTH'', T_optional T_int), (''HEDGE'', T_optional T_int)]"

definition adl_quantile_values_t_meta :: wire_format where [struct_defs]:
  "adl_quantile_values_t_meta =
     Object [(''LONG'', Member ''LONG''), (''SHORT'', Member ''SHORT''), (''BOTH'', Member ''BOTH''),
             (''HEDGE'', Member ''HEDGE'')]"

definition adl_quantile_entry_t_struct :: struct_type where [struct_defs]:
  "adl_quantile_entry_t_struct =
     [(''symbol'', T_symbol), (''adlQuantile'', T_struct ''adl_quantile_values_t'')]"

definition adl_quantile_entry_t_meta :: wire_format where [struct_defs]:
  "adl_quantile_entry_t_meta =
     Object [(''symbol'', Member ''symbol''), (''adlQuantile'', Member ''adlQuantile'')]"

definition adl_quantile_request_t_struct :: struct_type where [struct_defs]:
  "adl_quantile_request_t_struct =
     [(''symbol'', T_optional T_symbol)]"

definition force_orders_request_t_struct :: struct_type where [struct_defs]:
  "force_orders_request_t_struct =
     [(''symbol'', T_optional T_symbol), (''autoCloseType'', T_optional (T_enum ''auto_close_type_t'')),
      (''startTime'', T_optional T_timestamp), (''endTime'', T_optional T_timestamp),
      (''limit'', T_optional T_int)]"

definition account_trade_request_t_struct :: struct_type where [struct_defs]:
  "account_trade_request_t_struct =
     [(''symbol'', T_symbol), (''orderId'', T_optional T_u64), (''startTime'', T_optional T_timestamp),
      (''endTime'', T_optional T_timestamp), (''fromId'', T_optional T_u64), (''limit'', T_optional T_int)]"

definition account_trade_entry_t_struct :: struct_type where [struct_defs]:
  "account_trade_entry_t_struct =
     [(''id'', T_u64), (''orderId'', T_u64), (''symbol'', T_symbol), (''side'', T_enum ''order_side_t''),
      (''positionSide'', T_enum ''position_side_t''), (''price'', T_decimal), (''qty'', T_decimal),
      (''quoteQty'', T_decimal), (''commission'', T_decimal), (''commissionAsset'', T_string),
      (''time'', T_timestamp), (''buyer'', T_bool), (''maker'', T_bool), (''realizedPnl'', T_decimal)]"

definition account_trade_entry_t_meta :: wire_format where [struct_defs]:
  "account_trade_entry_t_meta =
     Object [(''id'', Member ''id''), (''orderId'', Member ''orderId''), (''symbol'', Member ''symbol''),
             (''side'', Member ''side''), (''positionSide'', Member ''positionSide''),
             (''price'', Member ''price''), (''qty'', Member ''qty''), (''quoteQty'', Member ''quoteQty''),
             (''commission'', Member ''commission''), (''commissionAsset'', Member ''commissionAsset''),
             (''time'', Member ''time''), (''buyer'', Member ''buyer''), (''maker'', Member ''maker''),
             (''realizedPnl'', Member ''realizedPnl'')]"

definition change_position_mode_request_t_struct :: struct_type where [struct_defs]:
  "change_position_mode_request_t_struct =
     [(''dualSidePosition'', T_string)]"

definition change_multi_assets_mode_request_t_struct :: struct_type where [struct_defs]:
  "change_multi_assets_mode_request_t_struct =
     [(''multiAssetsMargin'', T_string)]"

definition change_leverage_request_t_struct :: struct_type where [struct_defs]:
  "change_leverage_request_t_struct =
     [(''symbol'', T_symbol), (''leverage'', T_int)]"

definition change_leverage_response_t_struct :: struct_type where [struct_defs]:
  "change_leverage_response_t_struct =
     [(''leverage'', T_int), (''maxNotionalValue'', T_decimal), (''symbol'', T_symbol)]"

definition change_leverage_response_t_meta :: wire_format where [struct_defs]:
  "change_leverage_response_t_meta =
     Object [(''leverage'', Member ''leverage''), (''maxNotionalValue'', Member ''maxNotionalValue''),
             (''symbol'', Member ''symbol'')]"

definition change_margin_type_request_t_struct :: struct_type where [struct_defs]:
  "change_margin_type_request_t_struct =
     [(''symbol'', T_symbol), (''marginType'', T_string)]"

definition modify_isolated_margin_request_t_struct :: struct_type where [struct_defs]:
  "modify_isolated_margin_request_t_struct =
     [(''symbol'', T_symbol), (''positionSide'', T_optional (T_enum ''position_side_t'')),
      (''amount'', T_decimal), (''type'', T_enum ''delta_type_t'')]"

definition modify_isolated_margin_response_t_struct :: struct_type where [struct_defs]:
  "modify_isolated_margin_response_t_struct =
     [(''code'', T_int), (''msg'', T_string), (''amount'', T_decimal), (''type'', T_int)]"

definition modify_isolated_margin_response_t_meta :: wire_format where [struct_defs]:
  "modify_isolated_margin_response_t_meta =
     Object [(''code'', Member ''code''), (''msg'', Member ''msg''), (''amount'', Member ''amount''),
             (''type'', Member ''type'')]"

definition position_margin_history_request_t_struct :: struct_type where [struct_defs]:
  "position_margin_history_request_t_struct =
     [(''symbol'', T_symbol), (''type'', T_optional T_int), (''startTime'', T_optional T_timestamp),
      (''endTime'', T_optional T_timestamp), (''limit'', T_optional T_int)]"

definition position_margin_history_entry_t_struct :: struct_type where [struct_defs]:
  "position_margin_history_entry_t_struct =
     [(''symbol'', T_symbol), (''type'', T_int), (''deltaType'', T_enum ''delta_type_t''),
      (''amount'', T_decimal), (''asset'', T_string), (''time'', T_timestamp),
      (''positionSide'', T_enum ''position_side_t'')]"

definition position_margin_history_entry_t_meta :: wire_format where [struct_defs]:
  "position_margin_history_entry_t_meta =
     Object [(''symbol'', Member ''symbol''), (''type'', Member ''type''),
             (''deltaType'', Member ''deltaType''), (''amount'', Member ''amount''),
             (''asset'', Member ''asset''), (''time'', Member ''time''),
             (''positionSide'', Member ''positionSide'')]"

definition order_modify_history_request_t_struct :: struct_type where [struct_defs]:
  "order_modify_history_request_t_struct =
     [(''symbol'', T_symbol), (''orderId'', T_optional T_u64), (''origClientOrderId'', T_optional T_string),
      (''startTime'', T_optional T_timestamp), (''endTime'', T_optional T_timestamp),
      (''limit'', T_optional T_int)]"

definition new_algo_order_request_t_struct :: struct_type where [struct_defs]:
  "new_algo_order_request_t_struct =
     [(''symbol'', T_symbol), (''side'', T_enum ''order_side_t''),
      (''positionSide'', T_optional (T_enum ''position_side_t'')), (''type'', T_enum ''order_type_t''),
      (''timeInForce'', T_optional (T_enum ''time_in_force_t'')), (''quantity'', T_decimal),
      (''price'', T_optional T_decimal), (''triggerPrice'', T_optional T_decimal),
      (''workingType'', T_optional (T_enum ''working_type_t'')), (''algoType'', T_enum ''algo_type_t''),
      (''clientAlgoId'', T_optional T_string), (''priceMatch'', T_optional (T_enum ''price_match_t'')),
      (''closePosition'', T_optional T_string), (''priceProtect'', T_optional T_string),
      (''reduceOnly'', T_optional T_string), (''activatePrice'', T_optional T_decimal),
      (''callbackRate'', T_optional T_decimal),
      (''newOrderRespType'', T_optional (T_enum ''response_type_t'')),
      (''selfTradePreventionMode'', T_optional (T_enum ''stp_mode_t'')),
      (''goodTillDate'', T_optional T_timestamp)]"

definition algo_order_response_t_struct :: struct_type where [struct_defs]:
  "algo_order_response_t_struct =
     [(''algoId'', T_u64), (''clientAlgoId'', T_optional T_string), (''algoType'', T_enum ''algo_type_t''),
      (''symbol'', T_symbol), (''side'', T_enum ''order_side_t''),
      (''positionSide'', T_optional (T_enum ''position_side_t'')), (''algoStatus'', T_enum ''algo_status_t''),
      (''orderType'', T_optional (T_enum ''order_type_t'')),
      (''timeInForce'', T_optional (T_enum ''time_in_force_t'')), (''quantity'', T_optional T_decimal),
      (''triggerPrice'', T_optional T_decimal), (''price'', T_optional T_decimal),
      (''icebergQuantity'', T_optional T_decimal),
      (''selfTradePreventionMode'', T_optional (T_enum ''stp_mode_t'')),
      (''workingType'', T_optional (T_enum ''working_type_t'')),
      (''priceMatch'', T_optional (T_enum ''price_match_t'')), (''closePosition'', T_optional T_bool),
      (''priceProtect'', T_optional T_bool), (''reduceOnly'', T_optional T_bool),
      (''activatePrice'', T_optional T_decimal), (''callbackRate'', T_optional T_decimal),
      (''createTime'', T_optional T_timestamp), (''updateTime'', T_optional T_timestamp),
      (''triggerTime'', T_optional T_timestamp), (''goodTillDate'', T_optional T_timestamp)]"

definition algo_order_response_t_meta :: wire_format where [struct_defs]:
  "algo_order_response_t_meta =
     Object [(''algoId'', Member ''algoId''), (''clientAlgoId'', Member ''clientAlgoId''),
             (''algoType'', Member ''algoType''), (''symbol'', Member ''symbol''), (''side'', Member ''side''),
             (''positionSide'', Member ''positionSide''), (''algoStatus'', Member ''algoStatus''),
             (''orderType'', Member ''orderType''), (''timeInForce'', Member ''timeInForce''),
             (''quantity'', Member ''quantity''), (''triggerPrice'', Member ''triggerPrice''),
             (''price'', Member ''price''), (''icebergQuantity'', Member ''icebergQuantity''),
             (''selfTradePreventionMode'', Member ''selfTradePreventionMode''),
             (''workingType'', Member ''workingType''), (''priceMatch'', Member ''priceMatch''),
             (''closePosition'', Member ''closePosition''), (''priceProtect'', Member ''priceProtect''),
             (''reduceOnly'', Member ''reduceOnly''), (''activatePrice'', Member ''activatePrice''),
             (''callbackRate'', Member ''callbackRate''), (''createTime'', Member ''createTime''),
             (''updateTime'', Member ''updateTime''), (''triggerTime'', Member ''triggerTime''),
             (''goodTillDate'', Member ''goodTillDate'')]"

definition cancel_algo_order_request_t_struct :: struct_type where [struct_defs]:
  "cancel_algo_order_request_t_struct =
     [(''algoId'', T_optional T_u64), (''clientAlgoId'', T_optional T_string)]"

definition query_algo_order_request_t_struct :: struct_type where [struct_defs]:
  "query_algo_order_request_t_struct =
     [(''algoId'', T_optional T_u64), (''clientAlgoId'', T_optional T_string)]"

definition all_algo_orders_request_t_struct :: struct_type where [struct_defs]:
  "all_algo_orders_request_t_struct =
     [(''symbol'', T_symbol), (''algoId'', T_optional T_u64), (''startTime'', T_optional T_timestamp),
      (''endTime'', T_optional T_timestamp), (''page'', T_optional T_int), (''limit'', T_optional T_int)]"

definition tradfi_perps_request_t_struct :: struct_type where [struct_defs]:
  "tradfi_perps_request_t_struct =
     []"

definition open_algo_orders_request_t_struct :: struct_type where [struct_defs]:
  "open_algo_orders_request_t_struct =
     []"

definition cancel_all_algo_orders_request_t_struct :: struct_type where [struct_defs]:
  "cancel_all_algo_orders_request_t_struct =
     []"

definition test_order_request_t_struct :: struct_type where [struct_defs]:
  "test_order_request_t_struct =
     [(''symbol'', T_symbol), (''side'', T_enum ''order_side_t''), (''type'', T_enum ''order_type_t''),
      (''timeInForce'', T_optional (T_enum ''time_in_force_t'')), (''quantity'', T_decimal),
      (''price'', T_optional T_decimal), (''newClientOrderId'', T_optional T_string),
      (''stopPrice'', T_optional T_decimal), (''activationPrice'', T_optional T_decimal),
      (''callbackRate'', T_optional T_decimal), (''workingType'', T_optional (T_enum ''working_type_t'')),
      (''reduceOnly'', T_optional T_bool), (''positionSide'', T_optional (T_enum ''position_side_t'')),
      (''closePosition'', T_optional T_bool), (''newOrderRespType'', T_optional (T_enum ''response_type_t'')),
      (''priceProtect'', T_optional T_bool), (''priceMatch'', T_optional (T_enum ''price_match_t'')),
      (''selfTradePreventionMode'', T_optional (T_enum ''stp_mode_t'')),
      (''goodTillDate'', T_optional T_timestamp)]"

section \<open>\<^verbatim>\<open>types/account.hpp\<close>\<close>

definition account_asset_t_struct :: struct_type where [struct_defs]:
  "account_asset_t_struct =
     [(''asset'', T_string), (''walletBalance'', T_decimal), (''unrealizedProfit'', T_decimal),
      (''marginBalance'', T_decimal), (''maintMargin'', T_decimal), (''initialMargin'', T_decimal),
      (''positionInitialMargin'', T_decimal), (''openOrderInitialMargin'', T_decimal),
      (''crossWalletBalance'', T_decimal), (''crossUnPnl'', T_decimal), (''availableBalance'', T_decimal),
      (''maxWithdrawAmount'', T_decimal), (''marginAvailable'', T_optional T_bool),
      (''updateTime'', T_timestamp)]"

definition account_asset_t_meta :: wire_format where [struct_defs]:
  "account_asset_t_meta =
     Object [(''asset'', Member ''asset''), (''walletBalance'', Member ''walletBalance''),
             (''unrealizedProfit'', Member ''unrealizedProfit''),
             (''marginBalance'', Member ''marginBalance''), (''maintMargin'', Member ''maintMargin''),
             (''initialMargin'', Member ''initialMargin''),
             (''positionInitialMargin'', Member ''positionInitialMargin''),
             (''openOrderInitialMargin'', Member ''openOrderInitialMargin''),
             (''crossWalletBalance'', Member ''crossWalletBalance''), (''crossUnPnl'', Member ''crossUnPnl''),
             (''availableBalance'', Member ''availableBalance''),
             (''maxWithdrawAmount'', Member ''maxWithdrawAmount''),
             (''marginAvailable'', Member ''marginAvailable''), (''updateTime'', Member ''updateTime'')]"

definition account_position_t_struct :: struct_type where [struct_defs]:
  "account_position_t_struct =
     [(''symbol'', T_symbol), (''initialMargin'', T_decimal), (''maintMargin'', T_decimal),
      (''unrealizedProfit'', T_decimal), (''positionInitialMargin'', T_optional T_decimal),
      (''openOrderInitialMargin'', T_optional T_decimal), (''leverage'', T_optional T_decimal),
      (''isolated'', T_optional T_bool), (''entryPrice'', T_optional T_decimal),
      (''breakEvenPrice'', T_optional T_decimal), (''maxNotional'', T_optional T_decimal),
      (''bidNotional'', T_optional T_decimal), (''askNotional'', T_optional T_decimal),
      (''positionSide'', T_enum ''position_side_t''), (''positionAmt'', T_decimal),
      (''isolatedMargin'', T_optional T_decimal), (''notional'', T_optional T_decimal),
      (''isolatedWallet'', T_optional T_decimal), (''updateTime'', T_timestamp)]"

definition account_position_t_meta :: wire_format where [struct_defs]:
  "account_position_t_meta =
     Object [(''symbol'', Member ''symbol''), (''initialMargin'', Member ''initialMargin''),
             (''maintMargin'', Member ''maintMargin''), (''unrealizedProfit'', Member ''unrealizedProfit''),
             (''positionInitialMargin'', Member ''positionInitialMargin''),
             (''openOrderInitialMargin'', Member ''openOrderInitialMargin''),
             (''leverage'', Member ''leverage''), (''isolated'', Member ''isolated''),
             (''entryPrice'', Member ''entryPrice''), (''breakEvenPrice'', Member ''breakEvenPrice''),
             (''maxNotional'', Member ''maxNotional''), (''bidNotional'', Member ''bidNotional''),
             (''askNotional'', Member ''askNotional''), (''positionSide'', Member ''positionSide''),
             (''positionAmt'', Member ''positionAmt''), (''isolatedMargin'', Member ''isolatedMargin''),
             (''notional'', Member ''notional''), (''isolatedWallet'', Member ''isolatedWallet''),
             (''updateTime'', Member ''updateTime'')]"

definition account_information_t_struct :: struct_type where [struct_defs]:
  "account_information_t_struct =
     [(''feeTier'', T_optional T_int), (''canTrade'', T_optional T_bool), (''canDeposit'', T_optional T_bool),
      (''canWithdraw'', T_optional T_bool), (''updateTime'', T_optional T_timestamp),
      (''multiAssetsMargin'', T_optional T_bool), (''tradeGroupId'', T_optional T_int),
      (''totalInitialMargin'', T_decimal), (''totalMaintMargin'', T_decimal),
      (''totalWalletBalance'', T_decimal), (''totalUnrealizedProfit'', T_decimal),
      (''totalMarginBalance'', T_decimal), (''totalPositionInitialMargin'', T_decimal),
      (''totalOpenOrderInitialMargin'', T_decimal), (''totalCrossWalletBalance'', T_decimal),
      (''totalCrossUnPnl'', T_decimal), (''availableBalance'', T_decimal), (''maxWithdrawAmount'', T_decimal),
      (''assets'', T_vector (T_struct ''account_asset_t'')),
      (''positions'', T_vector (T_struct ''account_position_t''))]"

definition account_information_t_meta :: wire_format where [struct_defs]:
  "account_information_t_meta =
     Object [(''feeTier'', Member ''feeTier''), (''canTrade'', Member ''canTrade''),
             (''canDeposit'', Member ''canDeposit''), (''canWithdraw'', Member ''canWithdraw''),
             (''updateTime'', Member ''updateTime''), (''multiAssetsMargin'', Member ''multiAssetsMargin''),
             (''tradeGroupId'', Member ''tradeGroupId''),
             (''totalInitialMargin'', Member ''totalInitialMargin''),
             (''totalMaintMargin'', Member ''totalMaintMargin''),
             (''totalWalletBalance'', Member ''totalWalletBalance''),
             (''totalUnrealizedProfit'', Member ''totalUnrealizedProfit''),
             (''totalMarginBalance'', Member ''totalMarginBalance''),
             (''totalPositionInitialMargin'', Member ''totalPositionInitialMargin''),
             (''totalOpenOrderInitialMargin'', Member ''totalOpenOrderInitialMargin''),
             (''totalCrossWalletBalance'', Member ''totalCrossWalletBalance''),
             (''totalCrossUnPnl'', Member ''totalCrossUnPnl''),
             (''availableBalance'', Member ''availableBalance''),
             (''maxWithdrawAmount'', Member ''maxWithdrawAmount''), (''assets'', Member ''assets''),
             (''positions'', Member ''positions'')]"

definition futures_account_balance_t_struct :: struct_type where [struct_defs]:
  "futures_account_balance_t_struct =
     [(''accountAlias'', T_string), (''asset'', T_string), (''balance'', T_decimal),
      (''crossWalletBalance'', T_decimal), (''crossUnPnl'', T_decimal), (''availableBalance'', T_decimal),
      (''maxWithdrawAmount'', T_decimal), (''marginAvailable'', T_bool), (''updateTime'', T_timestamp)]"

definition futures_account_balance_t_meta :: wire_format where [struct_defs]:
  "futures_account_balance_t_meta =
     Object [(''accountAlias'', Member ''accountAlias''), (''asset'', Member ''asset''),
             (''balance'', Member ''balance''), (''crossWalletBalance'', Member ''crossWalletBalance''),
             (''crossUnPnl'', Member ''crossUnPnl''), (''availableBalance'', Member ''availableBalance''),
             (''maxWithdrawAmount'', Member ''maxWithdrawAmount''),
             (''marginAvailable'', Member ''marginAvailable''), (''updateTime'', Member ''updateTime'')]"

definition position_risk_request_t_struct :: struct_type where [struct_defs]:
  "position_risk_request_t_struct =
     [(''symbol'', T_optional T_symbol)]"

definition position_risk_t_struct :: struct_type where [struct_defs]:
  "position_risk_t_struct =
     [(''symbol'', T_symbol), (''positionAmt'', T_decimal), (''entryPrice'', T_decimal),
      (''breakEvenPrice'', T_decimal), (''markPrice'', T_decimal), (''unRealizedProfit'', T_decimal),
      (''liquidationPrice'', T_decimal), (''leverage'', T_decimal), (''maxNotionalValue'', T_decimal),
      (''marginType'', T_enum ''margin_type_t''), (''isolatedMargin'', T_decimal),
      (''isAutoAddMargin'', T_bool), (''positionSide'', T_enum ''position_side_t''), (''notional'', T_decimal),
      (''isolatedWallet'', T_decimal), (''updateTime'', T_timestamp)]"

definition position_risk_t_meta :: wire_format where [struct_defs]:
  "position_risk_t_meta =
     Object [(''symbol'', Member ''symbol''), (''positionAmt'', Member ''positionAmt''),
             (''entryPrice'', Member ''entryPrice''), (''breakEvenPrice'', Member ''breakEvenPrice''),
             (''markPrice'', Member ''markPrice''), (''unRealizedProfit'', Member ''unRealizedProfit''),
             (''liquidationPrice'', Member ''liquidationPrice''), (''leverage'', Member ''leverage''),
             (''maxNotionalValue'', Member ''maxNotionalValue''), (''marginType'', Member ''marginType''),
             (''isolatedMargin'', Member ''isolatedMargin''),
             (''isAutoAddMargin'', Custom_bool ''isAutoAddMargin''),
             (''positionSide'', Member ''positionSide''), (''notional'', Member ''notional''),
             (''isolatedWallet'', Member ''isolatedWallet''), (''updateTime'', Member ''updateTime'')]"

definition account_config_response_t_struct :: struct_type where [struct_defs]:
  "account_config_response_t_struct =
     [(''feeTier'', T_int), (''canTrade'', T_bool), (''canDeposit'', T_bool), (''canWithdraw'', T_bool),
      (''dualSidePosition'', T_bool), (''multiAssetsMargin'', T_bool), (''tradeGroupId'', T_optional T_int),
      (''updateTime'', T_timestamp)]"

definition account_config_response_t_meta :: wire_format where [struct_defs]:
  "account_config_response_t_meta =
     Object [(''feeTier'', Member ''feeTier''), (''canTrade'', Member ''canTrade''),
             (''canDeposit'', Member ''canDeposit''), (''canWithdraw'', Member ''canWithdraw''),
             (''dualSidePosition'', Member ''dualSidePosition''),
             (''multiAssetsMargin'', Member ''multiAssetsMargin''),
             (''tradeGroupId'', Member ''tradeGroupId''), (''updateTime'', Member ''updateTime'')]"

definition symbol_config_request_t_struct :: struct_type where [struct_defs]:
  "symbol_config_request_t_struct =
     [(''symbol'', T_optional T_symbol)]"

definition symbol_config_entry_t_struct :: struct_type where [struct_defs]:
  "symbol_config_entry_t_struct =
     [(''symbol'', T_symbol), (''marginType'', T_enum ''margin_type_t''), (''isAutoAddMargin'', T_bool),
      (''leverage'', T_int), (''maxNotionalValue'', T_decimal)]"

definition symbol_config_entry_t_meta :: wire_format where [struct_defs]:
  "symbol_config_entry_t_meta =
     Object [(''symbol'', Member ''symbol''), (''marginType'', Member ''marginType''),
             (''isAutoAddMargin'', Member ''isAutoAddMargin''), (''leverage'', Member ''leverage''),
             (''maxNotionalValue'', Member ''maxNotionalValue'')]"

definition multi_assets_mode_response_t_struct :: struct_type where [struct_defs]:
  "multi_assets_mode_response_t_struct =
     [(''multiAssetsMargin'', T_bool)]"

definition multi_assets_mode_response_t_meta :: wire_format where [struct_defs]:
  "multi_assets_mode_response_t_meta =
     Object [(''multiAssetsMargin'', Member ''multiAssetsMargin'')]"

definition position_mode_response_t_struct :: struct_type where [struct_defs]:
  "position_mode_response_t_struct =
     [(''dualSidePosition'', T_bool)]"

definition position_mode_response_t_meta :: wire_format where [struct_defs]:
  "position_mode_response_t_meta =
     Object [(''dualSidePosition'', Member ''dualSidePosition'')]"

definition income_history_request_t_struct :: struct_type where [struct_defs]:
  "income_history_request_t_struct =
     [(''symbol'', T_optional T_symbol), (''incomeType'', T_optional T_string),
      (''startTime'', T_optional T_timestamp), (''endTime'', T_optional T_timestamp),
      (''page'', T_optional T_int), (''limit'', T_optional T_int)]"

definition income_history_entry_t_struct :: struct_type where [struct_defs]:
  "income_history_entry_t_struct =
     [(''symbol'', T_symbol), (''incomeType'', T_enum ''income_type_t''), (''income'', T_decimal),
      (''asset'', T_string), (''info'', T_string), (''time'', T_timestamp), (''tranId'', T_u64),
      (''tradeId'', T_string)]"

definition income_history_entry_t_meta :: wire_format where [struct_defs]:
  "income_history_entry_t_meta =
     Object [(''symbol'', Member ''symbol''), (''incomeType'', Member ''incomeType''),
             (''income'', Member ''income''), (''asset'', Member ''asset''), (''info'', Member ''info''),
             (''time'', Member ''time''), (''tranId'', Member ''tranId''), (''tradeId'', Member ''tradeId'')]"

definition leverage_bracket_request_t_struct :: struct_type where [struct_defs]:
  "leverage_bracket_request_t_struct =
     [(''symbol'', T_optional T_symbol)]"

definition leverage_bracket_entry_t_struct :: struct_type where [struct_defs]:
  "leverage_bracket_entry_t_struct =
     [(''bracket'', T_int), (''initialLeverage'', T_int), (''notionalCap'', T_u64), (''notionalFloor'', T_u64),
      (''maintMarginRatio'', T_decimal), (''cum'', T_decimal)]"

definition leverage_bracket_entry_t_meta :: wire_format where [struct_defs]:
  "leverage_bracket_entry_t_meta =
     Object [(''bracket'', Member ''bracket''), (''initialLeverage'', Member ''initialLeverage''),
             (''notionalCap'', Member ''notionalCap''), (''notionalFloor'', Member ''notionalFloor''),
             (''maintMarginRatio'', Member ''maintMarginRatio''), (''cum'', Member ''cum'')]"

definition symbol_leverage_brackets_t_struct :: struct_type where [struct_defs]:
  "symbol_leverage_brackets_t_struct =
     [(''symbol'', T_symbol), (''notionalCoef'', T_optional T_decimal),
      (''brackets'', T_vector (T_struct ''leverage_bracket_entry_t''))]"

definition symbol_leverage_brackets_t_meta :: wire_format where [struct_defs]:
  "symbol_leverage_brackets_t_meta =
     Object [(''symbol'', Member ''symbol''), (''notionalCoef'', Member ''notionalCoef''),
             (''brackets'', Member ''brackets'')]"

definition commission_rate_request_t_struct :: struct_type where [struct_defs]:
  "commission_rate_request_t_struct =
     [(''symbol'', T_symbol)]"

definition commission_rate_response_t_struct :: struct_type where [struct_defs]:
  "commission_rate_response_t_struct =
     [(''symbol'', T_symbol), (''makerCommissionRate'', T_decimal), (''takerCommissionRate'', T_decimal),
      (''rpiCommissionRate'', T_optional T_decimal)]"

definition commission_rate_response_t_meta :: wire_format where [struct_defs]:
  "commission_rate_response_t_meta =
     Object [(''symbol'', Member ''symbol''), (''makerCommissionRate'', Member ''makerCommissionRate''),
             (''takerCommissionRate'', Member ''takerCommissionRate''),
             (''rpiCommissionRate'', Member ''rpiCommissionRate'')]"

definition download_id_request_t_struct :: struct_type where [struct_defs]:
  "download_id_request_t_struct =
     [(''startTime'', T_timestamp), (''endTime'', T_timestamp)]"

definition download_id_response_t_struct :: struct_type where [struct_defs]:
  "download_id_response_t_struct =
     [(''avgCostTimestampOfLast30d'', T_timestamp), (''downloadId'', T_string)]"

definition download_id_response_t_meta :: wire_format where [struct_defs]:
  "download_id_response_t_meta =
     Object [(''avgCostTimestampOfLast30d'', Member ''avgCostTimestampOfLast30d''),
             (''downloadId'', Member ''downloadId'')]"

definition download_link_request_t_struct :: struct_type where [struct_defs]:
  "download_link_request_t_struct =
     [(''downloadId'', T_string)]"

definition download_link_response_t_struct :: struct_type where [struct_defs]:
  "download_link_response_t_struct =
     [(''downloadId'', T_string), (''status'', T_string), (''url'', T_string), (''notified'', T_bool),
      (''expirationTimestamp'', T_timestamp), (''isExpired'', T_bool)]"

definition download_link_response_t_meta :: wire_format where [struct_defs]:
  "download_link_response_t_meta =
     Object [(''downloadId'', Member ''downloadId''), (''status'', Member ''status''),
             (''url'', Member ''url''), (''notified'', Member ''notified''),
             (''expirationTimestamp'', Member ''expirationTimestamp''), (''isExpired'', Member ''isExpired'')]"

definition bnb_burn_status_response_t_struct :: struct_type where [struct_defs]:
  "bnb_burn_status_response_t_struct =
     [(''feeBurn'', T_bool)]"

definition bnb_burn_status_response_t_meta :: wire_format where [struct_defs]:
  "bnb_burn_status_response_t_meta =
     Object [(''feeBurn'', Member ''feeBurn'')]"

definition toggle_bnb_burn_request_t_struct :: struct_type where [struct_defs]:
  "toggle_bnb_burn_request_t_struct =
     [(''feeBurn'', T_string)]"

definition trading_status_indicator_t_struct :: struct_type where [struct_defs]:
  "trading_status_indicator_t_struct =
     [(''isLocked'', T_bool), (''plannedRecoverTime'', T_timestamp), (''indicator'', T_string),
      (''value'', T_double), (''triggerValue'', T_double)]"

definition trading_status_indicator_t_meta :: wire_format where [struct_defs]:
  "trading_status_indicator_t_meta =
     Object [(''isLocked'', Member ''isLocked''), (''plannedRecoverTime'', Member ''plannedRecoverTime''),
             (''indicator'', Member ''indicator''), (''value'', Member ''value''),
             (''triggerValue'', Member ''triggerValue'')]"

definition quantitative_rules_request_t_struct :: struct_type where [struct_defs]:
  "quantitative_rules_request_t_struct =
     [(''symbol'', T_optional T_symbol)]"

definition quantitative_rules_response_t_struct :: struct_type where [struct_defs]:
  "quantitative_rules_response_t_struct =
     [(''indicators'', T_map (T_vector (T_struct ''trading_status_indicator_t''))),
      (''updateTime'', T_timestamp)]"

definition quantitative_rules_response_t_meta :: wire_format where [struct_defs]:
  "quantitative_rules_response_t_meta =
     Object [(''indicators'', Member ''indicators''), (''updateTime'', Member ''updateTime'')]"

definition pm_account_info_request_t_struct :: struct_type where [struct_defs]:
  "pm_account_info_request_t_struct =
     [(''asset'', T_string)]"

definition pm_account_info_response_t_struct :: struct_type where [struct_defs]:
  "pm_account_info_response_t_struct =
     [(''maxWithdrawAmountUSD'', T_decimal), (''asset'', T_string), (''maxWithdrawAmount'', T_decimal)]"

definition pm_account_info_response_t_meta :: wire_format where [struct_defs]:
  "pm_account_info_response_t_meta =
     Object [(''maxWithdrawAmountUSD'', Member ''maxWithdrawAmountUSD''), (''asset'', Member ''asset''),
             (''maxWithdrawAmount'', Member ''maxWithdrawAmount'')]"

definition account_information_request_t_struct :: struct_type where [struct_defs]:
  "account_information_request_t_struct =
     []"

definition balances_request_t_struct :: struct_type where [struct_defs]:
  "balances_request_t_struct =
     []"

definition account_config_request_t_struct :: struct_type where [struct_defs]:
  "account_config_request_t_struct =
     []"

definition get_multi_assets_mode_request_t_struct :: struct_type where [struct_defs]:
  "get_multi_assets_mode_request_t_struct =
     []"

definition get_position_mode_request_t_struct :: struct_type where [struct_defs]:
  "get_position_mode_request_t_struct =
     []"

definition rate_limit_order_request_t_struct :: struct_type where [struct_defs]:
  "rate_limit_order_request_t_struct =
     []"

definition get_bnb_burn_request_t_struct :: struct_type where [struct_defs]:
  "get_bnb_burn_request_t_struct =
     []"

definition download_id_transaction_request_t_struct :: struct_type where [struct_defs]:
  "download_id_transaction_request_t_struct =
     [(''startTime'', T_timestamp), (''endTime'', T_timestamp)]"

definition download_link_transaction_request_t_struct :: struct_type where [struct_defs]:
  "download_link_transaction_request_t_struct =
     [(''downloadId'', T_string)]"

definition download_id_order_request_t_struct :: struct_type where [struct_defs]:
  "download_id_order_request_t_struct =
     [(''startTime'', T_timestamp), (''endTime'', T_timestamp)]"

definition download_link_order_request_t_struct :: struct_type where [struct_defs]:
  "download_link_order_request_t_struct =
     [(''downloadId'', T_string)]"

definition download_id_trade_request_t_struct :: struct_type where [struct_defs]:
  "download_id_trade_request_t_struct =
     [(''startTime'', T_timestamp), (''endTime'', T_timestamp)]"

definition download_link_trade_request_t_struct :: struct_type where [struct_defs]:
  "download_link_trade_request_t_struct =
     [(''downloadId'', T_string)]"

definition start_listen_key_request_t_struct :: struct_type where [struct_defs]:
  "start_listen_key_request_t_struct =
     []"

definition keepalive_listen_key_request_t_struct :: struct_type where [struct_defs]:
  "keepalive_listen_key_request_t_struct =
     []"

definition close_listen_key_request_t_struct :: struct_type where [struct_defs]:
  "close_listen_key_request_t_struct =
     []"

section \<open>\<^verbatim>\<open>types/websocket_api.hpp\<close>\<close>

definition websocket_api_error_t_struct :: struct_type where [struct_defs]:
  "websocket_api_error_t_struct =
     [(''code'', T_int), (''msg'', T_string)]"

definition websocket_api_error_t_meta :: wire_format where [struct_defs]:
  "websocket_api_error_t_meta =
     Object [(''code'', Member ''code''), (''msg'', Member ''msg'')]"

definition session_logon_request_t_struct :: struct_type where [struct_defs]:
  "session_logon_request_t_struct =
     [(''apiKey'', T_string), (''timestamp'', T_u64), (''recvWindow'', T_u64), (''signature'', T_string)]"

definition session_logon_request_t_meta :: wire_format where [struct_defs]:
  "session_logon_request_t_meta =
     Object [(''apiKey'', Member ''apiKey''), (''timestamp'', Member ''timestamp''),
             (''recvWindow'', Member ''recvWindow''), (''signature'', Member ''signature'')]"

definition websocket_api_status_t_struct :: struct_type where [struct_defs]:
  "websocket_api_status_t_struct =
     [(''status'', T_int), (''id'', T_string)]"

definition session_logon_result_t_struct :: struct_type where [struct_defs]:
  "session_logon_result_t_struct =
     [(''apiKey'', T_optional T_string), (''authorizedSince'', T_optional T_timestamp),
      (''connectedSince'', T_optional T_timestamp), (''returnRateLimits'', T_optional T_bool),
      (''serverTime'', T_optional T_timestamp)]"

definition session_logon_result_t_meta :: wire_format where [struct_defs]:
  "session_logon_result_t_meta =
     Object [(''apiKey'', Member ''apiKey''), (''authorizedSince'', Member ''authorizedSince''),
             (''connectedSince'', Member ''connectedSince''),
             (''returnRateLimits'', Member ''returnRateLimits''), (''serverTime'', Member ''serverTime'')]"

definition websocket_api_signed_request_t_struct :: struct_type where [struct_defs]:
  "websocket_api_signed_request_t_struct =
     [(''apiKey'', T_string), (''timestamp'', T_u64), (''recvWindow'', T_optional T_u64),
      (''signature'', T_string)]"

definition websocket_api_signed_request_t_meta :: wire_format where [struct_defs]:
  "websocket_api_signed_request_t_meta =
     Object [(''apiKey'', Member ''apiKey''), (''timestamp'', Member ''timestamp''),
             (''recvWindow'', Member ''recvWindow''), (''signature'', Member ''signature'')]"

definition websocket_api_order_place_request_t_struct :: struct_type where [struct_defs]:
  "websocket_api_order_place_request_t_struct =
     websocket_api_signed_request_t_struct @
     [(''symbol'', T_symbol), (''side'', T_enum ''order_side_t''), (''type'', T_enum ''order_type_t''),
      (''timeInForce'', T_optional (T_enum ''time_in_force_t'')), (''quantity'', T_decimal),
      (''price'', T_optional T_decimal), (''newClientOrderId'', T_optional T_string),
      (''stopPrice'', T_optional T_decimal)]"

definition websocket_api_order_place_request_t_meta :: wire_format where [struct_defs]:
  "websocket_api_order_place_request_t_meta =
     Object [(''apiKey'', Member ''apiKey''), (''timestamp'', Member ''timestamp''),
             (''recvWindow'', Member ''recvWindow''), (''signature'', Member ''signature''),
             (''symbol'', Member ''symbol''), (''side'', Member ''side''), (''type'', Member ''type''),
             (''timeInForce'', Member ''timeInForce''), (''quantity'', Member ''quantity''),
             (''price'', Member ''price''), (''newClientOrderId'', Member ''newClientOrderId''),
             (''stopPrice'', Member ''stopPrice'')]"

definition websocket_api_order_query_request_t_struct :: struct_type where [struct_defs]:
  "websocket_api_order_query_request_t_struct =
     websocket_api_signed_request_t_struct @
     [(''symbol'', T_symbol), (''orderId'', T_optional T_u64), (''origClientOrderId'', T_optional T_string)]"

definition websocket_api_order_query_request_t_meta :: wire_format where [struct_defs]:
  "websocket_api_order_query_request_t_meta =
     Object [(''apiKey'', Member ''apiKey''), (''timestamp'', Member ''timestamp''),
             (''recvWindow'', Member ''recvWindow''), (''signature'', Member ''signature''),
             (''symbol'', Member ''symbol''), (''orderId'', Member ''orderId''),
             (''origClientOrderId'', Member ''origClientOrderId'')]"

definition websocket_api_order_cancel_request_t_struct :: struct_type where [struct_defs]:
  "websocket_api_order_cancel_request_t_struct =
     websocket_api_signed_request_t_struct @
     [(''symbol'', T_symbol), (''orderId'', T_optional T_u64), (''origClientOrderId'', T_optional T_string)]"

definition websocket_api_order_cancel_request_t_meta :: wire_format where [struct_defs]:
  "websocket_api_order_cancel_request_t_meta =
     Object [(''apiKey'', Member ''apiKey''), (''timestamp'', Member ''timestamp''),
             (''recvWindow'', Member ''recvWindow''), (''signature'', Member ''signature''),
             (''symbol'', Member ''symbol''), (''orderId'', Member ''orderId''),
             (''origClientOrderId'', Member ''origClientOrderId'')]"

definition websocket_api_book_ticker_request_t_struct :: struct_type where [struct_defs]:
  "websocket_api_book_ticker_request_t_struct =
     [(''symbol'', T_symbol)]"

definition websocket_api_book_ticker_request_t_meta :: wire_format where [struct_defs]:
  "websocket_api_book_ticker_request_t_meta =
     Object [(''symbol'', Member ''symbol'')]"

definition websocket_api_book_tickers_request_t_struct :: struct_type where [struct_defs]:
  "websocket_api_book_tickers_request_t_struct =
     []"

definition websocket_api_price_ticker_request_t_struct :: struct_type where [struct_defs]:
  "websocket_api_price_ticker_request_t_struct =
     [(''symbol'', T_symbol)]"

definition websocket_api_price_ticker_request_t_meta :: wire_format where [struct_defs]:
  "websocket_api_price_ticker_request_t_meta =
     Object [(''symbol'', Member ''symbol'')]"

definition websocket_api_price_tickers_request_t_struct :: struct_type where [struct_defs]:
  "websocket_api_price_tickers_request_t_struct =
     []"

definition websocket_api_order_modify_request_t_struct :: struct_type where [struct_defs]:
  "websocket_api_order_modify_request_t_struct =
     websocket_api_signed_request_t_struct @
     [(''symbol'', T_symbol), (''orderId'', T_optional T_u64), (''origClientOrderId'', T_optional T_string),
      (''side'', T_enum ''order_side_t''), (''quantity'', T_decimal), (''price'', T_decimal),
      (''priceMatch'', T_optional (T_enum ''price_match_t''))]"

definition websocket_api_order_modify_request_t_meta :: wire_format where [struct_defs]:
  "websocket_api_order_modify_request_t_meta =
     Object [(''apiKey'', Member ''apiKey''), (''timestamp'', Member ''timestamp''),
             (''recvWindow'', Member ''recvWindow''), (''signature'', Member ''signature''),
             (''symbol'', Member ''symbol''), (''orderId'', Member ''orderId''),
             (''origClientOrderId'', Member ''origClientOrderId''), (''side'', Member ''side''),
             (''quantity'', Member ''quantity''), (''price'', Member ''price''),
             (''priceMatch'', Member ''priceMatch'')]"

definition websocket_api_position_request_t_struct :: struct_type where [struct_defs]:
  "websocket_api_position_request_t_struct =
     websocket_api_signed_request_t_struct @
     [(''symbol'', T_optional T_symbol)]"

definition websocket_api_position_request_t_meta :: wire_format where [struct_defs]:
  "websocket_api_position_request_t_meta =
     Object [(''apiKey'', Member ''apiKey''), (''timestamp'', Member ''timestamp''),
             (''recvWindow'', Member ''recvWindow''), (''signature'', Member ''signature''),
             (''symbol'', Member ''symbol'')]"

definition websocket_api_algo_order_place_request_t_struct :: struct_type where [struct_defs]:
  "websocket_api_algo_order_place_request_t_struct =
     websocket_api_signed_request_t_struct @
     [(''symbol'', T_symbol), (''side'', T_enum ''order_side_t''),
      (''positionSide'', T_optional (T_enum ''position_side_t'')), (''type'', T_enum ''order_type_t''),
      (''timeInForce'', T_optional (T_enum ''time_in_force_t'')), (''quantity'', T_decimal),
      (''price'', T_optional T_decimal), (''triggerPrice'', T_optional T_decimal),
      (''algoType'', T_enum ''algo_type_t''), (''workingType'', T_optional T_string),
      (''priceMatch'', T_optional T_string), (''closePosition'', T_optional T_string),
      (''priceProtect'', T_optional T_string), (''reduceOnly'', T_optional T_string),
      (''activationPrice'', T_optional T_decimal), (''callbackRate'', T_optional T_decimal),
      (''clientAlgoId'', T_optional T_string), (''newOrderRespType'', T_optional T_string),
      (''selfTradePreventionMode'', T_optional T_string), (''goodTillDate'', T_optional T_u64)]"

definition websocket_api_algo_order_place_request_t_meta :: wire_format where [struct_defs]:
  "websocket_api_algo_order_place_request_t_meta =
     Object [(''apiKey'', Member ''apiKey''), (''timestamp'', Member ''timestamp''),
             (''recvWindow'', Member ''recvWindow''), (''signature'', Member ''signature''),
             (''symbol'', Member ''symbol''), (''side'', Member ''side''),
             (''positionSide'', Member ''positionSide''), (''type'', Member ''type''),
             (''timeInForce'', Member ''timeInForce''), (''quantity'', Member ''quantity''),
             (''price'', Member ''price''), (''triggerPrice'', Member ''triggerPrice''),
             (''algoType'', Member ''algoType''), (''workingType'', Member ''workingType''),
             (''priceMatch'', Member ''priceMatch''), (''closePosition'', Member ''closePosition''),
             (''priceProtect'', Member ''priceProtect''), (''reduceOnly'', Member ''reduceOnly''),
             (''activatePrice'', Member ''activationPrice''), (''callbackRate'', Member ''callbackRate''),
             (''clientAlgoId'', Member ''clientAlgoId''), (''newOrderRespType'', Member ''newOrderRespType''),
             (''selfTradePreventionMode'', Member ''selfTradePreventionMode''),
             (''goodTillDate'', Member ''goodTillDate'')]"

definition websocket_api_algo_order_cancel_request_t_struct :: struct_type where [struct_defs]:
  "websocket_api_algo_order_cancel_request_t_struct =
     websocket_api_signed_request_t_struct @
     [(''algoId'', T_optional T_u64), (''clientAlgoId'', T_optional T_string)]"

definition websocket_api_algo_order_cancel_request_t_meta :: wire_format where [struct_defs]:
  "websocket_api_algo_order_cancel_request_t_meta =
     Object [(''apiKey'', Member ''apiKey''), (''timestamp'', Member ''timestamp''),
             (''recvWindow'', Member ''recvWindow''), (''signature'', Member ''signature''),
             (''algoId'', Member ''algoId''), (''clientAlgoId'', Member ''clientAlgoId'')]"

definition websocket_api_user_data_stream_request_t_struct :: struct_type where [struct_defs]:
  "websocket_api_user_data_stream_request_t_struct =
     [(''apiKey'', T_string)]"

definition websocket_api_user_data_stream_request_t_meta :: wire_format where [struct_defs]:
  "websocket_api_user_data_stream_request_t_meta =
     Object [(''apiKey'', Member ''apiKey'')]"

definition websocket_api_listen_key_result_t_struct :: struct_type where [struct_defs]:
  "websocket_api_listen_key_result_t_struct =
     [(''listenKey'', T_string)]"

definition websocket_api_listen_key_result_t_meta :: wire_format where [struct_defs]:
  "websocket_api_listen_key_result_t_meta =
     Object [(''listenKey'', Member ''listenKey'')]"

definition websocket_api_response_t_struct :: struct_type where [struct_defs]:
  "websocket_api_response_t_struct =
     [(''id'', T_string), (''status'', T_int), (''result'', T_optional T_parameter),
      (''rateLimits'', T_optional (T_vector (T_struct ''rate_limit_t''))),
      (''error'', T_optional (T_struct ''websocket_api_error_t''))]"

definition websocket_api_response_t_meta :: wire_format where [struct_defs]:
  "websocket_api_response_t_meta =
     Object [(''id'', Member ''id''), (''status'', Member ''status''), (''result'', Member ''result''),
             (''rateLimits'', Member ''rateLimits''), (''error'', Member ''error'')]"

definition ws_account_status_request_t_struct :: struct_type where [struct_defs]:
  "ws_account_status_request_t_struct =
     []"

definition ws_account_status_v2_request_t_struct :: struct_type where [struct_defs]:
  "ws_account_status_v2_request_t_struct =
     []"

definition ws_account_balance_request_t_struct :: struct_type where [struct_defs]:
  "ws_account_balance_request_t_struct =
     []"

definition ws_user_data_stream_start_request_t_struct :: struct_type where [struct_defs]:
  "ws_user_data_stream_start_request_t_struct =
     []"

definition ws_user_data_stream_ping_request_t_struct :: struct_type where [struct_defs]:
  "ws_user_data_stream_ping_request_t_struct =
     []"

definition ws_user_data_stream_stop_request_t_struct :: struct_type where [struct_defs]:
  "ws_user_data_stream_stop_request_t_struct =
     []"

section \<open>Registry\<close>

definition trade_structs :: "(string \<times> struct_type \<times> wire_format) list" where
  "trade_structs =
     [(''new_order_request_t'', new_order_request_t_struct, Aggregate),
      (''order_response_t'', order_response_t_struct, order_response_t_meta),
      (''modify_order_request_t'', modify_order_request_t_struct, Aggregate),
      (''cancel_order_request_t'', cancel_order_request_t_struct, Aggregate),
      (''query_order_request_t'', query_order_request_t_struct, Aggregate),
      (''batch_orders_request_t'', batch_orders_request_t_struct, Aggregate),
      (''cancel_multiple_orders_request_t'', cancel_multiple_orders_request_t_struct, Aggregate),
      (''cancel_all_open_orders_request_t'', cancel_all_open_orders_request_t_struct, Aggregate),
      (''code_msg_response_t'', code_msg_response_t_struct, code_msg_response_t_meta),
      (''auto_cancel_request_t'', auto_cancel_request_t_struct, Aggregate),
      (''auto_cancel_response_t'', auto_cancel_response_t_struct, auto_cancel_response_t_meta),
      (''query_open_order_request_t'', query_open_order_request_t_struct, Aggregate),
      (''all_open_orders_request_t'', all_open_orders_request_t_struct, Aggregate),
      (''all_orders_request_t'', all_orders_request_t_struct, Aggregate),
      (''position_risk_v3_t'', position_risk_v3_t_struct, position_risk_v3_t_meta),
      (''position_info_v3_request_t'', position_info_v3_request_t_struct, Aggregate),
      (''adl_quantile_values_t'', adl_quantile_values_t_struct, adl_quantile_values_t_meta),
      (''adl_quantile_entry_t'', adl_quantile_entry_t_struct, adl_quantile_entry_t_meta),
      (''adl_quantile_request_t'', adl_quantile_request_t_struct, Aggregate),
      (''force_orders_request_t'', force_orders_request_t_struct, Aggregate),
      (''account_trade_request_t'', account_trade_request_t_struct, Aggregate),
      (''account_trade_entry_t'', account_trade_entry_t_struct, account_trade_entry_t_meta),
      (''change_position_mode_request_t'', change_position_mode_request_t_struct, Aggregate),
      (''change_multi_assets_mode_request_t'', change_multi_assets_mode_request_t_struct, Aggregate),
      (''change_leverage_request_t'', change_leverage_request_t_struct, Aggregate),
      (''change_leverage_response_t'', change_leverage_response_t_struct, change_leverage_response_t_meta),
      (''change_margin_type_request_t'', change_margin_type_request_t_struct, Aggregate),
      (''modify_isolated_margin_request_t'', modify_isolated_margin_request_t_struct, Aggregate),
      (''modify_isolated_margin_response_t'', modify_isolated_margin_response_t_struct, modify_isolated_margin_response_t_meta),
      (''position_margin_history_request_t'', position_margin_history_request_t_struct, Aggregate),
      (''position_margin_history_entry_t'', position_margin_history_entry_t_struct, position_margin_history_entry_t_meta),
      (''order_modify_history_request_t'', order_modify_history_request_t_struct, Aggregate),
      (''new_algo_order_request_t'', new_algo_order_request_t_struct, Aggregate),
      (''algo_order_response_t'', algo_order_response_t_struct, algo_order_response_t_meta),
      (''cancel_algo_order_request_t'', cancel_algo_order_request_t_struct, Aggregate),
      (''query_algo_order_request_t'', query_algo_order_request_t_struct, Aggregate),
      (''all_algo_orders_request_t'', all_algo_orders_request_t_struct, Aggregate),
      (''tradfi_perps_request_t'', tradfi_perps_request_t_struct, Aggregate),
      (''open_algo_orders_request_t'', open_algo_orders_request_t_struct, Aggregate),
      (''cancel_all_algo_orders_request_t'', cancel_all_algo_orders_request_t_struct, Aggregate),
      (''test_order_request_t'', test_order_request_t_struct, Aggregate),
      (''account_asset_t'', account_asset_t_struct, account_asset_t_meta),
      (''account_position_t'', account_position_t_struct, account_position_t_meta),
      (''account_information_t'', account_information_t_struct, account_information_t_meta),
      (''futures_account_balance_t'', futures_account_balance_t_struct, futures_account_balance_t_meta),
      (''position_risk_request_t'', position_risk_request_t_struct, Aggregate),
      (''position_risk_t'', position_risk_t_struct, position_risk_t_meta),
      (''account_config_response_t'', account_config_response_t_struct, account_config_response_t_meta),
      (''symbol_config_request_t'', symbol_config_request_t_struct, Aggregate),
      (''symbol_config_entry_t'', symbol_config_entry_t_struct, symbol_config_entry_t_meta),
      (''multi_assets_mode_response_t'', multi_assets_mode_response_t_struct, multi_assets_mode_response_t_meta),
      (''position_mode_response_t'', position_mode_response_t_struct, position_mode_response_t_meta),
      (''income_history_request_t'', income_history_request_t_struct, Aggregate),
      (''income_history_entry_t'', income_history_entry_t_struct, income_history_entry_t_meta),
      (''leverage_bracket_request_t'', leverage_bracket_request_t_struct, Aggregate),
      (''leverage_bracket_entry_t'', leverage_bracket_entry_t_struct, leverage_bracket_entry_t_meta),
      (''symbol_leverage_brackets_t'', symbol_leverage_brackets_t_struct, symbol_leverage_brackets_t_meta),
      (''commission_rate_request_t'', commission_rate_request_t_struct, Aggregate),
      (''commission_rate_response_t'', commission_rate_response_t_struct, commission_rate_response_t_meta),
      (''download_id_request_t'', download_id_request_t_struct, Aggregate),
      (''download_id_response_t'', download_id_response_t_struct, download_id_response_t_meta),
      (''download_link_request_t'', download_link_request_t_struct, Aggregate),
      (''download_link_response_t'', download_link_response_t_struct, download_link_response_t_meta),
      (''bnb_burn_status_response_t'', bnb_burn_status_response_t_struct, bnb_burn_status_response_t_meta),
      (''toggle_bnb_burn_request_t'', toggle_bnb_burn_request_t_struct, Aggregate),
      (''trading_status_indicator_t'', trading_status_indicator_t_struct, trading_status_indicator_t_meta),
      (''quantitative_rules_request_t'', quantitative_rules_request_t_struct, Aggregate),
      (''quantitative_rules_response_t'', quantitative_rules_response_t_struct, quantitative_rules_response_t_meta),
      (''pm_account_info_request_t'', pm_account_info_request_t_struct, Aggregate),
      (''pm_account_info_response_t'', pm_account_info_response_t_struct, pm_account_info_response_t_meta),
      (''account_information_request_t'', account_information_request_t_struct, Aggregate),
      (''balances_request_t'', balances_request_t_struct, Aggregate),
      (''account_config_request_t'', account_config_request_t_struct, Aggregate),
      (''get_multi_assets_mode_request_t'', get_multi_assets_mode_request_t_struct, Aggregate),
      (''get_position_mode_request_t'', get_position_mode_request_t_struct, Aggregate),
      (''rate_limit_order_request_t'', rate_limit_order_request_t_struct, Aggregate),
      (''get_bnb_burn_request_t'', get_bnb_burn_request_t_struct, Aggregate),
      (''download_id_transaction_request_t'', download_id_transaction_request_t_struct, Aggregate),
      (''download_link_transaction_request_t'', download_link_transaction_request_t_struct, Aggregate),
      (''download_id_order_request_t'', download_id_order_request_t_struct, Aggregate),
      (''download_link_order_request_t'', download_link_order_request_t_struct, Aggregate),
      (''download_id_trade_request_t'', download_id_trade_request_t_struct, Aggregate),
      (''download_link_trade_request_t'', download_link_trade_request_t_struct, Aggregate),
      (''start_listen_key_request_t'', start_listen_key_request_t_struct, Aggregate),
      (''keepalive_listen_key_request_t'', keepalive_listen_key_request_t_struct, Aggregate),
      (''close_listen_key_request_t'', close_listen_key_request_t_struct, Aggregate),
      (''websocket_api_error_t'', websocket_api_error_t_struct, websocket_api_error_t_meta),
      (''session_logon_request_t'', session_logon_request_t_struct, session_logon_request_t_meta),
      (''websocket_api_status_t'', websocket_api_status_t_struct, Aggregate),
      (''session_logon_result_t'', session_logon_result_t_struct, session_logon_result_t_meta),
      (''websocket_api_signed_request_t'', websocket_api_signed_request_t_struct, websocket_api_signed_request_t_meta),
      (''websocket_api_order_place_request_t'', websocket_api_order_place_request_t_struct, websocket_api_order_place_request_t_meta),
      (''websocket_api_order_query_request_t'', websocket_api_order_query_request_t_struct, websocket_api_order_query_request_t_meta),
      (''websocket_api_order_cancel_request_t'', websocket_api_order_cancel_request_t_struct, websocket_api_order_cancel_request_t_meta),
      (''websocket_api_book_ticker_request_t'', websocket_api_book_ticker_request_t_struct, websocket_api_book_ticker_request_t_meta),
      (''websocket_api_book_tickers_request_t'', websocket_api_book_tickers_request_t_struct, Aggregate),
      (''websocket_api_price_ticker_request_t'', websocket_api_price_ticker_request_t_struct, websocket_api_price_ticker_request_t_meta),
      (''websocket_api_price_tickers_request_t'', websocket_api_price_tickers_request_t_struct, Aggregate),
      (''websocket_api_order_modify_request_t'', websocket_api_order_modify_request_t_struct, websocket_api_order_modify_request_t_meta),
      (''websocket_api_position_request_t'', websocket_api_position_request_t_struct, websocket_api_position_request_t_meta),
      (''websocket_api_algo_order_place_request_t'', websocket_api_algo_order_place_request_t_struct, websocket_api_algo_order_place_request_t_meta),
      (''websocket_api_algo_order_cancel_request_t'', websocket_api_algo_order_cancel_request_t_struct, websocket_api_algo_order_cancel_request_t_meta),
      (''websocket_api_user_data_stream_request_t'', websocket_api_user_data_stream_request_t_struct, websocket_api_user_data_stream_request_t_meta),
      (''websocket_api_listen_key_result_t'', websocket_api_listen_key_result_t_struct, websocket_api_listen_key_result_t_meta),
      (''websocket_api_response_t'', websocket_api_response_t_struct, websocket_api_response_t_meta),
      (''ws_account_status_request_t'', ws_account_status_request_t_struct, Aggregate),
      (''ws_account_status_v2_request_t'', ws_account_status_v2_request_t_struct, Aggregate),
      (''ws_account_balance_request_t'', ws_account_balance_request_t_struct, Aggregate),
      (''ws_user_data_stream_start_request_t'', ws_user_data_stream_start_request_t_struct, Aggregate),
      (''ws_user_data_stream_ping_request_t'', ws_user_data_stream_ping_request_t_struct, Aggregate),
      (''ws_user_data_stream_stop_request_t'', ws_user_data_stream_stop_request_t_struct, Aggregate)]"

end
