(* ===== verification/Structs_Streams.thy ===== *)
theory Structs_Streams
  imports Struct_Types
begin

text \<open>
  The stream event structs of \<^verbatim>\<open>types/market_stream_events.hpp\<close>, \<^verbatim>\<open>types/user_stream_events.hpp\<close>: for each
  struct its members with their types, in the order of declaration, and where the header has a
  \<^verbatim>\<open>glz::meta\<close> specialisation, the wire format it declares.
\<close>

section \<open>\<^verbatim>\<open>types/market_stream_events.hpp\<close>\<close>

definition book_ticker_stream_event_t_struct :: struct_type where [struct_defs]:
  "book_ticker_stream_event_t_struct =
     [(''update_id'', T_u64), (''symbol'', T_symbol), (''best_bid_price'', T_decimal),
      (''best_bid_qty'', T_decimal), (''best_ask_price'', T_decimal), (''best_ask_qty'', T_decimal),
      (''transaction_time'', T_timestamp), (''event_time'', T_timestamp)]"

definition book_ticker_stream_event_t_meta :: wire_format where [struct_defs]:
  "book_ticker_stream_event_t_meta =
     Object [(''u'', Member ''update_id''), (''s'', Member ''symbol''), (''b'', Member ''best_bid_price''),
             (''B'', Member ''best_bid_qty''), (''a'', Member ''best_ask_price''),
             (''A'', Member ''best_ask_qty''), (''T'', Member ''transaction_time''),
             (''E'', Member ''event_time'')]"

definition aggregate_trade_stream_event_t_struct :: struct_type where [struct_defs]:
  "aggregate_trade_stream_event_t_struct =
     [(''event_time'', T_timestamp), (''symbol'', T_symbol), (''agg_trade_id'', T_u64), (''price'', T_decimal),
      (''quantity'', T_decimal), (''first_trade_id'', T_u64), (''last_trade_id'', T_u64),
      (''trade_time'', T_timestamp), (''is_buyer_maker'', T_bool), (''normal_quantity'', T_optional T_decimal)]"

definition aggregate_trade_stream_event_t_meta :: wire_format where [struct_defs]:
  "aggregate_trade_stream_event_t_meta =
     Object [(''E'', Member ''event_time''), (''s'', Member ''symbol''), (''a'', Member ''agg_trade_id''),
             (''p'', Member ''price''), (''q'', Member ''quantity''), (''f'', Member ''first_trade_id''),
             (''l'', Member ''last_trade_id''), (''T'', Member ''trade_time''),
             (''m'', Member ''is_buyer_maker''), (''nq'', Member ''normal_quantity'')]"

definition mark_price_stream_event_t_struct :: struct_type where [struct_defs]:
  "mark_price_stream_event_t_struct =
     [(''event_time'', T_timestamp), (''symbol'', T_symbol), (''mark_price_t'', T_decimal),
      (''mark_price_avg'', T_optional T_decimal), (''index_price'', T_decimal), (''settle_price'', T_decimal),
      (''funding_rate'', T_decimal), (''next_funding_time'', T_timestamp)]"

definition mark_price_stream_event_t_meta :: wire_format where [struct_defs]:
  "mark_price_stream_event_t_meta =
     Object [(''E'', Member ''event_time''), (''s'', Member ''symbol''), (''p'', Member ''mark_price_t''),
             (''ap'', Member ''mark_price_avg''), (''i'', Member ''index_price''),
             (''P'', Member ''settle_price''), (''r'', Member ''funding_rate''),
             (''T'', Member ''next_funding_time'')]"

definition depth_stream_event_t_struct :: struct_type where [struct_defs]:
  "depth_stream_event_t_struct =
     [(''event_time'', T_timestamp), (''transaction_time'', T_timestamp), (''symbol'', T_symbol),
      (''first_update_id'', T_u64), (''final_update_id'', T_u64), (''prev_final_update_id'', T_u64),
      (''bids'', T_vector (T_struct ''price_level_t'')), (''asks'', T_vector (T_struct ''price_level_t''))]"

definition depth_stream_event_t_meta :: wire_format where [struct_defs]:
  "depth_stream_event_t_meta =
     Object [(''E'', Member ''event_time''), (''T'', Member ''transaction_time''), (''s'', Member ''symbol''),
             (''U'', Member ''first_update_id''), (''u'', Member ''final_update_id''),
             (''pu'', Member ''prev_final_update_id''), (''b'', Member ''bids''), (''a'', Member ''asks'')]"

definition mini_ticker_stream_event_t_struct :: struct_type where [struct_defs]:
  "mini_ticker_stream_event_t_struct =
     [(''event_time'', T_timestamp), (''symbol'', T_symbol), (''close_price'', T_decimal),
      (''open_price'', T_decimal), (''high_price'', T_decimal), (''low_price'', T_decimal),
      (''base_volume'', T_decimal), (''quote_volume'', T_decimal)]"

definition mini_ticker_stream_event_t_meta :: wire_format where [struct_defs]:
  "mini_ticker_stream_event_t_meta =
     Object [(''E'', Member ''event_time''), (''s'', Member ''symbol''), (''c'', Member ''close_price''),
             (''o'', Member ''open_price''), (''h'', Member ''high_price''), (''l'', Member ''low_price''),
             (''v'', Member ''base_volume''), (''q'', Member ''quote_volume'')]"

definition ticker_stream_event_t_struct :: struct_type where [struct_defs]:
  "ticker_stream_event_t_struct =
     [(''event_time'', T_timestamp), (''symbol'', T_symbol), (''price_change'', T_decimal),
      (''price_change_pct'', T_decimal), (''weighted_avg_price'', T_decimal), (''last_price'', T_decimal),
      (''last_quantity'', T_decimal), (''open_price'', T_decimal), (''high_price'', T_decimal),
      (''low_price'', T_decimal), (''base_volume'', T_decimal), (''quote_volume'', T_decimal),
      (''stats_open_time'', T_timestamp), (''stats_close_time'', T_timestamp), (''first_trade_id'', T_u64),
      (''last_trade_id'', T_u64), (''trade_count'', T_u64)]"

definition ticker_stream_event_t_meta :: wire_format where [struct_defs]:
  "ticker_stream_event_t_meta =
     Object [(''E'', Member ''event_time''), (''s'', Member ''symbol''), (''p'', Member ''price_change''),
             (''P'', Member ''price_change_pct''), (''w'', Member ''weighted_avg_price''),
             (''c'', Member ''last_price''), (''Q'', Member ''last_quantity''), (''o'', Member ''open_price''),
             (''h'', Member ''high_price''), (''l'', Member ''low_price''), (''v'', Member ''base_volume''),
             (''q'', Member ''quote_volume''), (''O'', Member ''stats_open_time''),
             (''C'', Member ''stats_close_time''), (''F'', Member ''first_trade_id''),
             (''L'', Member ''last_trade_id''), (''n'', Member ''trade_count'')]"

definition liquidation_order_stream_data_t_struct :: struct_type where [struct_defs]:
  "liquidation_order_stream_data_t_struct =
     [(''symbol'', T_symbol), (''side'', T_enum ''order_side_t''), (''type'', T_enum ''order_type_t''),
      (''tif'', T_enum ''time_in_force_t''), (''original_quantity'', T_decimal), (''price'', T_decimal),
      (''average_price'', T_decimal), (''status'', T_enum ''order_status_t''),
      (''last_filled_qty'', T_decimal), (''filled_accum_qty'', T_decimal), (''trade_time'', T_timestamp)]"

definition liquidation_order_stream_data_t_meta :: wire_format where [struct_defs]:
  "liquidation_order_stream_data_t_meta =
     Object [(''s'', Member ''symbol''), (''S'', Member ''side''), (''o'', Member ''type''),
             (''f'', Member ''tif''), (''q'', Member ''original_quantity''), (''p'', Member ''price''),
             (''ap'', Member ''average_price''), (''X'', Member ''status''),
             (''l'', Member ''last_filled_qty''), (''z'', Member ''filled_accum_qty''),
             (''T'', Member ''trade_time'')]"

definition liquidation_order_stream_event_t_struct :: struct_type where [struct_defs]:
  "liquidation_order_stream_event_t_struct =
     [(''event_time'', T_timestamp), (''order'', T_struct ''liquidation_order_stream_data_t'')]"

definition liquidation_order_stream_event_t_meta :: wire_format where [struct_defs]:
  "liquidation_order_stream_event_t_meta =
     Object [(''E'', Member ''event_time''), (''o'', Member ''order'')]"

definition kline_stream_data_t_struct :: struct_type where [struct_defs]:
  "kline_stream_data_t_struct =
     [(''open_time'', T_timestamp), (''close_time'', T_timestamp), (''symbol'', T_symbol),
      (''interval'', T_enum ''kline_interval_t''), (''first_trade_id'', T_u64), (''last_trade_id'', T_u64),
      (''open_price'', T_decimal), (''close_price'', T_decimal), (''high_price'', T_decimal),
      (''low_price'', T_decimal), (''base_volume'', T_decimal), (''trade_count'', T_u64),
      (''is_closed'', T_bool), (''quote_volume'', T_decimal), (''taker_buy_base_vol'', T_decimal),
      (''taker_buy_quote_vol'', T_decimal), (''ignore'', T_decimal)]"

definition kline_stream_data_t_meta :: wire_format where [struct_defs]:
  "kline_stream_data_t_meta =
     Object [(''t'', Member ''open_time''), (''T'', Member ''close_time''), (''s'', Member ''symbol''),
             (''i'', Member ''interval''), (''f'', Member ''first_trade_id''),
             (''L'', Member ''last_trade_id''), (''o'', Member ''open_price''),
             (''c'', Member ''close_price''), (''h'', Member ''high_price''), (''l'', Member ''low_price''),
             (''v'', Member ''base_volume''), (''n'', Member ''trade_count''), (''x'', Member ''is_closed''),
             (''q'', Member ''quote_volume''), (''V'', Member ''taker_buy_base_vol''),
             (''Q'', Member ''taker_buy_quote_vol''), (''B'', Member ''ignore'')]"

definition kline_stream_event_t_struct :: struct_type where [struct_defs]:
  "kline_stream_event_t_struct =
     [(''event_time'', T_timestamp), (''symbol'', T_symbol), (''kline_t'', T_struct ''kline_stream_data_t'')]"

definition kline_stream_event_t_meta :: wire_format where [struct_defs]:
  "kline_stream_event_t_meta =
     Object [(''E'', Member ''event_time''), (''s'', Member ''symbol''), (''k'', Member ''kline_t'')]"

definition continuous_contract_kline_stream_data_t_struct :: struct_type where [struct_defs]:
  "continuous_contract_kline_stream_data_t_struct =
     [(''open_time'', T_timestamp), (''close_time'', T_timestamp), (''interval'', T_enum ''kline_interval_t''),
      (''first_update_id'', T_u64), (''last_update_id'', T_u64), (''open_price'', T_decimal),
      (''close_price'', T_decimal), (''high_price'', T_decimal), (''low_price'', T_decimal),
      (''volume'', T_decimal), (''trade_count'', T_u64), (''is_closed'', T_bool),
      (''quote_volume'', T_decimal), (''taker_buy_volume'', T_decimal), (''taker_buy_quote_vol'', T_decimal),
      (''ignore'', T_decimal)]"

definition continuous_contract_kline_stream_data_t_meta :: wire_format where [struct_defs]:
  "continuous_contract_kline_stream_data_t_meta =
     Object [(''t'', Member ''open_time''), (''T'', Member ''close_time''), (''i'', Member ''interval''),
             (''f'', Member ''first_update_id''), (''L'', Member ''last_update_id''),
             (''o'', Member ''open_price''), (''c'', Member ''close_price''), (''h'', Member ''high_price''),
             (''l'', Member ''low_price''), (''v'', Member ''volume''), (''n'', Member ''trade_count''),
             (''x'', Member ''is_closed''), (''q'', Member ''quote_volume''),
             (''V'', Member ''taker_buy_volume''), (''Q'', Member ''taker_buy_quote_vol''),
             (''B'', Member ''ignore'')]"

definition continuous_contract_kline_stream_event_t_struct :: struct_type where [struct_defs]:
  "continuous_contract_kline_stream_event_t_struct =
     [(''event_time'', T_timestamp), (''pair'', T_pair), (''contractType'', T_enum ''contract_type_t''),
      (''kline_t'', T_struct ''continuous_contract_kline_stream_data_t'')]"

definition continuous_contract_kline_stream_event_t_meta :: wire_format where [struct_defs]:
  "continuous_contract_kline_stream_event_t_meta =
     Object [(''E'', Member ''event_time''), (''ps'', Member ''pair''), (''ct'', Member ''contractType''),
             (''k'', Member ''kline_t'')]"

definition composite_index_constituent_t_struct :: struct_type where [struct_defs]:
  "composite_index_constituent_t_struct =
     [(''base_asset'', T_string), (''quote_asset'', T_string), (''weight_in_quantity'', T_decimal),
      (''weight_in_pct'', T_decimal), (''index_price'', T_decimal)]"

definition composite_index_constituent_t_meta :: wire_format where [struct_defs]:
  "composite_index_constituent_t_meta =
     Object [(''b'', Member ''base_asset''), (''q'', Member ''quote_asset''),
             (''w'', Member ''weight_in_quantity''), (''W'', Member ''weight_in_pct''),
             (''i'', Member ''index_price'')]"

definition composite_index_stream_event_t_struct :: struct_type where [struct_defs]:
  "composite_index_stream_event_t_struct =
     [(''event_time'', T_timestamp), (''symbol'', T_symbol), (''price'', T_decimal),
      (''base_asset_type'', T_optional T_string),
      (''composition'', T_vector (T_struct ''composite_index_constituent_t''))]"

definition composite_index_stream_event_t_meta :: wire_format where [struct_defs]:
  "composite_index_stream_event_t_meta =
     Object [(''E'', Member ''event_time''), (''s'', Member ''symbol''), (''p'', Member ''price''),
             (''C'', Member ''base_asset_type''), (''c'', Member ''composition'')]"

definition contract_info_bracket_t_struct :: struct_type where [struct_defs]:
  "contract_info_bracket_t_struct =
     [(''notional_bracket'', T_int), (''bracket_floor'', T_double), (''bracket_cap'', T_double),
      (''maint_margin_ratio'', T_double), (''calc_factor'', T_double), (''min_leverage'', T_int),
      (''max_leverage'', T_int)]"

definition contract_info_bracket_t_meta :: wire_format where [struct_defs]:
  "contract_info_bracket_t_meta =
     Object [(''bs'', Member ''notional_bracket''), (''bnf'', Member ''bracket_floor''),
             (''bnc'', Member ''bracket_cap''), (''mmr'', Member ''maint_margin_ratio''),
             (''cf'', Member ''calc_factor''), (''mi'', Member ''min_leverage''),
             (''ma'', Member ''max_leverage'')]"

definition contract_info_stream_event_t_struct :: struct_type where [struct_defs]:
  "contract_info_stream_event_t_struct =
     [(''event_time'', T_timestamp), (''symbol'', T_symbol), (''pair'', T_pair),
      (''contractType'', T_enum ''contract_type_t''), (''delivery_time'', T_timestamp),
      (''onboard_time'', T_timestamp), (''contractStatus'', T_enum ''contract_status_t''),
      (''brackets'', T_optional (T_vector (T_struct ''contract_info_bracket_t'')))]"

definition contract_info_stream_event_t_meta :: wire_format where [struct_defs]:
  "contract_info_stream_event_t_meta =
     Object [(''E'', Member ''event_time''), (''s'', Member ''symbol''), (''ps'', Member ''pair''),
             (''ct'', Member ''contractType''), (''dt'', Member ''delivery_time''),
             (''ot'', Member ''onboard_time''), (''cs'', Member ''contractStatus''),
             (''bks'', Member ''brackets'')]"

definition asset_index_stream_event_t_struct :: struct_type where [struct_defs]:
  "asset_index_stream_event_t_struct =
     [(''event_time'', T_timestamp), (''symbol'', T_symbol), (''index_price'', T_decimal),
      (''bid_buffer'', T_decimal), (''ask_buffer'', T_decimal), (''bid_rate'', T_decimal),
      (''ask_rate'', T_decimal), (''auto_exch_bid_buffer'', T_decimal), (''auto_exch_ask_buffer'', T_decimal),
      (''auto_exch_bid_rate'', T_decimal), (''auto_exch_ask_rate'', T_decimal)]"

definition asset_index_stream_event_t_meta :: wire_format where [struct_defs]:
  "asset_index_stream_event_t_meta =
     Object [(''E'', Member ''event_time''), (''s'', Member ''symbol''), (''i'', Member ''index_price''),
             (''b'', Member ''bid_buffer''), (''a'', Member ''ask_buffer''), (''B'', Member ''bid_rate''),
             (''A'', Member ''ask_rate''), (''q'', Member ''auto_exch_bid_buffer''),
             (''g'', Member ''auto_exch_ask_buffer''), (''Q'', Member ''auto_exch_bid_rate''),
             (''G'', Member ''auto_exch_ask_rate'')]"

definition trading_session_stream_event_t_struct :: struct_type where [struct_defs]:
  "trading_session_stream_event_t_struct =
     [(''event_time'', T_timestamp), (''session_start_time'', T_timestamp),
      (''session_end_time'', T_timestamp), (''session_type'', T_enum ''session_type_t'')]"

definition trading_session_stream_event_t_meta :: wire_format where [struct_defs]:
  "trading_session_stream_event_t_meta =
     Object [(''E'', Member ''event_time''), (''t'', Member ''session_start_time''),
             (''T'', Member ''session_end_time''), (''S'', Member ''session_type'')]"

section \<open>\<^verbatim>\<open>types/user_stream_events.hpp\<close>\<close>

definition account_update_balance_t_struct :: struct_type where [struct_defs]:
  "account_update_balance_t_struct =
     [(''asset'', T_string), (''wallet_balance'', T_decimal), (''cross_wallet_balance'', T_decimal),
      (''balance_change'', T_decimal)]"

definition account_update_balance_t_meta :: wire_format where [struct_defs]:
  "account_update_balance_t_meta =
     Object [(''a'', Member ''asset''), (''wb'', Member ''wallet_balance''),
             (''cw'', Member ''cross_wallet_balance''), (''bc'', Member ''balance_change'')]"

definition account_update_position_t_struct :: struct_type where [struct_defs]:
  "account_update_position_t_struct =
     [(''symbol'', T_symbol), (''position_amount'', T_decimal), (''entry_price'', T_decimal),
      (''accum_realized'', T_decimal), (''unrealized_pnl'', T_decimal), (''margin'', T_enum ''margin_type_t''),
      (''isolated_wallet'', T_decimal), (''pos_side'', T_enum ''position_side_t''),
      (''breakeven_price'', T_decimal)]"

definition account_update_position_t_meta :: wire_format where [struct_defs]:
  "account_update_position_t_meta =
     Object [(''s'', Member ''symbol''), (''pa'', Member ''position_amount''),
             (''ep'', Member ''entry_price''), (''cr'', Member ''accum_realized''),
             (''up'', Member ''unrealized_pnl''), (''mt'', Member ''margin''),
             (''iw'', Member ''isolated_wallet''), (''ps'', Member ''pos_side''),
             (''bep'', Member ''breakeven_price'')]"

definition account_update_data_t_struct :: struct_type where [struct_defs]:
  "account_update_data_t_struct =
     [(''reason_type'', T_enum ''reason_type_t''),
      (''balances'', T_vector (T_struct ''account_update_balance_t'')),
      (''positions'', T_vector (T_struct ''account_update_position_t''))]"

definition account_update_data_t_meta :: wire_format where [struct_defs]:
  "account_update_data_t_meta =
     Object [(''m'', Member ''reason_type''), (''B'', Member ''balances''), (''P'', Member ''positions'')]"

definition account_update_event_t_struct :: struct_type where [struct_defs]:
  "account_update_event_t_struct =
     [(''event_time'', T_timestamp), (''transaction_time'', T_timestamp),
      (''update_data'', T_struct ''account_update_data_t'')]"

definition account_update_event_t_meta :: wire_format where [struct_defs]:
  "account_update_event_t_meta =
     Object [(''E'', Member ''event_time''), (''T'', Member ''transaction_time''),
             (''a'', Member ''update_data'')]"

definition order_trade_update_order_t_struct :: struct_type where [struct_defs]:
  "order_trade_update_order_t_struct =
     [(''symbol'', T_symbol), (''client_order_id'', T_string), (''side'', T_enum ''order_side_t''),
      (''type'', T_enum ''order_type_t''), (''tif'', T_enum ''time_in_force_t''),
      (''original_quantity'', T_decimal), (''original_price'', T_decimal), (''average_price'', T_decimal),
      (''stop_price'', T_decimal), (''exec_type'', T_enum ''execution_type_t''),
      (''status'', T_enum ''order_status_t''), (''order_id'', T_u64), (''last_filled_qty'', T_decimal),
      (''filled_accum_qty'', T_decimal), (''last_filled_price'', T_decimal), (''commission_asset'', T_string),
      (''commission'', T_decimal), (''trade_time'', T_timestamp), (''trade_id'', T_u64),
      (''bids_notional'', T_decimal), (''ask_notional'', T_decimal), (''is_maker'', T_bool),
      (''is_reduce_only'', T_bool), (''work_type'', T_enum ''working_type_t''),
      (''orig_order_type'', T_enum ''order_type_t''), (''pos_side'', T_enum ''position_side_t''),
      (''is_close_all'', T_bool), (''activation_price'', T_optional T_decimal),
      (''callback_rate'', T_optional T_decimal), (''price_protection'', T_bool), (''ignore_si'', T_int),
      (''ignore_ss'', T_int), (''realized_profit'', T_decimal), (''stp'', T_enum ''stp_mode_t''),
      (''price_match_mode'', T_enum ''price_match_t''), (''gtd_auto_cancel'', T_optional T_timestamp),
      (''expiry_reason'', T_optional T_string)]"

definition order_trade_update_order_t_meta :: wire_format where [struct_defs]:
  "order_trade_update_order_t_meta =
     Object [(''s'', Member ''symbol''), (''c'', Member ''client_order_id''), (''S'', Member ''side''),
             (''o'', Member ''type''), (''f'', Member ''tif''), (''q'', Member ''original_quantity''),
             (''p'', Member ''original_price''), (''ap'', Member ''average_price''),
             (''sp'', Member ''stop_price''), (''x'', Member ''exec_type''), (''X'', Member ''status''),
             (''i'', Member ''order_id''), (''l'', Member ''last_filled_qty''),
             (''z'', Member ''filled_accum_qty''), (''L'', Member ''last_filled_price''),
             (''N'', Member ''commission_asset''), (''n'', Member ''commission''),
             (''T'', Member ''trade_time''), (''t'', Member ''trade_id''), (''b'', Member ''bids_notional''),
             (''a'', Member ''ask_notional''), (''m'', Member ''is_maker''),
             (''R'', Member ''is_reduce_only''), (''wt'', Member ''work_type''),
             (''ot'', Member ''orig_order_type''), (''ps'', Member ''pos_side''),
             (''cp'', Member ''is_close_all''), (''AP'', Member ''activation_price''),
             (''cr'', Member ''callback_rate''), (''pP'', Member ''price_protection''),
             (''si'', Member ''ignore_si''), (''ss'', Member ''ignore_ss''),
             (''rp'', Member ''realized_profit''), (''V'', Member ''stp''),
             (''pm'', Member ''price_match_mode''), (''gtd'', Member ''gtd_auto_cancel''),
             (''er'', Member ''expiry_reason'')]"

definition order_trade_update_event_t_struct :: struct_type where [struct_defs]:
  "order_trade_update_event_t_struct =
     [(''event_time'', T_timestamp), (''transaction_time'', T_timestamp),
      (''order'', T_struct ''order_trade_update_order_t'')]"

definition order_trade_update_event_t_meta :: wire_format where [struct_defs]:
  "order_trade_update_event_t_meta =
     Object [(''E'', Member ''event_time''), (''T'', Member ''transaction_time''), (''o'', Member ''order'')]"

definition margin_call_position_t_struct :: struct_type where [struct_defs]:
  "margin_call_position_t_struct =
     [(''symbol'', T_symbol), (''pos_side'', T_enum ''position_side_t''), (''position_amount'', T_decimal),
      (''margin'', T_enum ''margin_type_t''), (''isolated_wallet'', T_decimal), (''mark_price_t'', T_decimal),
      (''unrealized_pnl'', T_decimal), (''maint_margin'', T_decimal)]"

definition margin_call_position_t_meta :: wire_format where [struct_defs]:
  "margin_call_position_t_meta =
     Object [(''s'', Member ''symbol''), (''ps'', Member ''pos_side''), (''pa'', Member ''position_amount''),
             (''mt'', Member ''margin''), (''iw'', Member ''isolated_wallet''),
             (''mp'', Member ''mark_price_t''), (''up'', Member ''unrealized_pnl''),
             (''mm'', Member ''maint_margin'')]"

definition margin_call_event_t_struct :: struct_type where [struct_defs]:
  "margin_call_event_t_struct =
     [(''event_time'', T_timestamp), (''cross_wallet_balance'', T_decimal),
      (''positions'', T_vector (T_struct ''margin_call_position_t''))]"

definition margin_call_event_t_meta :: wire_format where [struct_defs]:
  "margin_call_event_t_meta =
     Object [(''E'', Member ''event_time''), (''cw'', Member ''cross_wallet_balance''),
             (''p'', Member ''positions'')]"

definition listen_key_expired_event_t_struct :: struct_type where [struct_defs]:
  "listen_key_expired_event_t_struct =
     [(''event_time'', T_timestamp), (''transaction_time'', T_timestamp), (''listen_key'', T_string)]"

definition listen_key_expired_event_t_meta :: wire_format where [struct_defs]:
  "listen_key_expired_event_t_meta =
     Object [(''E'', Member ''event_time''), (''T'', Member ''transaction_time''),
             (''listenKey'', Member ''listen_key'')]"

definition account_config_leverage_t_struct :: struct_type where [struct_defs]:
  "account_config_leverage_t_struct =
     [(''symbol'', T_symbol), (''leverage'', T_int)]"

definition account_config_leverage_t_meta :: wire_format where [struct_defs]:
  "account_config_leverage_t_meta =
     Object [(''s'', Member ''symbol''), (''l'', Member ''leverage'')]"

definition account_config_multi_assets_t_struct :: struct_type where [struct_defs]:
  "account_config_multi_assets_t_struct =
     [(''multi_assets_mode'', T_bool)]"

definition account_config_multi_assets_t_meta :: wire_format where [struct_defs]:
  "account_config_multi_assets_t_meta =
     Object [(''j'', Member ''multi_assets_mode'')]"

definition account_config_update_event_t_struct :: struct_type where [struct_defs]:
  "account_config_update_event_t_struct =
     [(''event_time'', T_timestamp), (''transaction_time'', T_timestamp),
      (''leverage_config'', T_optional (T_struct ''account_config_leverage_t'')),
      (''multi_assets_config'', T_optional (T_struct ''account_config_multi_assets_t''))]"

definition account_config_update_event_t_meta :: wire_format where [struct_defs]:
  "account_config_update_event_t_meta =
     Object [(''E'', Member ''event_time''), (''T'', Member ''transaction_time''),
             (''ac'', Member ''leverage_config''), (''ai'', Member ''multi_assets_config'')]"

definition trade_lite_event_t_struct :: struct_type where [struct_defs]:
  "trade_lite_event_t_struct =
     [(''event_time'', T_timestamp), (''transaction_time'', T_timestamp), (''symbol'', T_symbol),
      (''original_quantity'', T_decimal), (''original_price'', T_decimal), (''is_maker'', T_bool),
      (''client_order_id'', T_string), (''side'', T_enum ''order_side_t''), (''last_filled_price'', T_decimal),
      (''last_filled_qty'', T_decimal), (''trade_id'', T_u64), (''order_id'', T_u64)]"

definition trade_lite_event_t_meta :: wire_format where [struct_defs]:
  "trade_lite_event_t_meta =
     Object [(''E'', Member ''event_time''), (''T'', Member ''transaction_time''), (''s'', Member ''symbol''),
             (''q'', Member ''original_quantity''), (''p'', Member ''original_price''),
             (''m'', Member ''is_maker''), (''c'', Member ''client_order_id''), (''S'', Member ''side''),
             (''L'', Member ''last_filled_price''), (''l'', Member ''last_filled_qty''),
             (''t'', Member ''trade_id''), (''i'', Member ''order_id'')]"

definition algo_order_update_data_t_struct :: struct_type where [struct_defs]:
  "algo_order_update_data_t_struct =
     [(''client_algo_id'', T_string), (''algo_id'', T_u64), (''alg_type'', T_enum ''algo_type_t''),
      (''type'', T_enum ''order_type_t''), (''symbol'', T_symbol), (''side'', T_enum ''order_side_t''),
      (''pos_side'', T_enum ''position_side_t''), (''tif'', T_enum ''time_in_force_t''),
      (''quantity'', T_decimal), (''alg_status'', T_enum ''algo_status_t''),
      (''matched_order_id'', T_optional T_string), (''avg_fill_price'', T_optional T_decimal),
      (''executed_quantity'', T_optional T_decimal),
      (''actual_order_type'', T_optional (T_enum ''order_type_t'')), (''trigger_price'', T_optional T_decimal),
      (''order_price'', T_optional T_decimal), (''stp'', T_optional (T_enum ''stp_mode_t'')),
      (''work_type'', T_optional (T_enum ''working_type_t'')),
      (''price_match_mode'', T_optional (T_enum ''price_match_t'')), (''is_close_all'', T_optional T_bool),
      (''price_protection'', T_optional T_bool), (''is_reduce_only'', T_optional T_bool),
      (''trigger_time'', T_optional T_timestamp), (''gtd_cancel_time'', T_optional T_timestamp),
      (''reject_reason'', T_optional T_string)]"

definition algo_order_update_data_t_meta :: wire_format where [struct_defs]:
  "algo_order_update_data_t_meta =
     Object [(''caid'', Member ''client_algo_id''), (''aid'', Member ''algo_id''),
             (''at'', Member ''alg_type''), (''o'', Member ''type''), (''s'', Member ''symbol''),
             (''S'', Member ''side''), (''ps'', Member ''pos_side''), (''f'', Member ''tif''),
             (''q'', Member ''quantity''), (''X'', Member ''alg_status''),
             (''ai'', Member ''matched_order_id''), (''ap'', Member ''avg_fill_price''),
             (''aq'', Member ''executed_quantity''), (''act'', Member ''actual_order_type''),
             (''tp'', Member ''trigger_price''), (''p'', Member ''order_price''), (''V'', Member ''stp''),
             (''wt'', Member ''work_type''), (''pm'', Member ''price_match_mode''),
             (''cp'', Member ''is_close_all''), (''pP'', Member ''price_protection''),
             (''R'', Member ''is_reduce_only''), (''tt'', Member ''trigger_time''),
             (''gtd'', Member ''gtd_cancel_time''), (''rm'', Member ''reject_reason'')]"

definition algo_order_update_event_t_struct :: struct_type where [struct_defs]:
  "algo_order_update_event_t_struct =
     [(''transaction_time'', T_timestamp), (''event_time'', T_timestamp),
      (''order'', T_struct ''algo_order_update_data_t'')]"

definition algo_order_update_event_t_meta :: wire_format where [struct_defs]:
  "algo_order_update_event_t_meta =
     Object [(''T'', Member ''transaction_time''), (''E'', Member ''event_time''), (''o'', Member ''order'')]"

definition conditional_order_reject_data_t_struct :: struct_type where [struct_defs]:
  "conditional_order_reject_data_t_struct =
     [(''symbol'', T_symbol), (''order_id'', T_u64), (''reject_reason'', T_string)]"

definition conditional_order_reject_data_t_meta :: wire_format where [struct_defs]:
  "conditional_order_reject_data_t_meta =
     Object [(''s'', Member ''symbol''), (''i'', Member ''order_id''), (''r'', Member ''reject_reason'')]"

definition conditional_order_trigger_reject_event_t_struct :: struct_type where [struct_defs]:
  "conditional_order_trigger_reject_event_t_struct =
     [(''event_time'', T_timestamp), (''message_send_time'', T_timestamp),
      (''order_reject'', T_struct ''conditional_order_reject_data_t'')]"

definition conditional_order_trigger_reject_event_t_meta :: wire_format where [struct_defs]:
  "conditional_order_trigger_reject_event_t_meta =
     Object [(''E'', Member ''event_time''), (''T'', Member ''message_send_time''),
             (''or'', Member ''order_reject'')]"

definition grid_update_data_t_struct :: struct_type where [struct_defs]:
  "grid_update_data_t_struct =
     [(''strategy_id'', T_u64), (''strategy_type'', T_enum ''strategy_type_t''),
      (''strategy_status'', T_enum ''strategy_status_t''), (''symbol'', T_symbol),
      (''realized_pnl'', T_decimal), (''unmatched_avg_price'', T_decimal), (''unmatched_qty'', T_decimal),
      (''unmatched_fee'', T_decimal), (''matched_pnl'', T_decimal), (''update_time'', T_timestamp)]"

definition grid_update_data_t_meta :: wire_format where [struct_defs]:
  "grid_update_data_t_meta =
     Object [(''si'', Member ''strategy_id''), (''st'', Member ''strategy_type''),
             (''ss'', Member ''strategy_status''), (''s'', Member ''symbol''),
             (''r'', Member ''realized_pnl''), (''up'', Member ''unmatched_avg_price''),
             (''uq'', Member ''unmatched_qty''), (''uf'', Member ''unmatched_fee''),
             (''mp'', Member ''matched_pnl''), (''ut'', Member ''update_time'')]"

definition grid_update_event_t_struct :: struct_type where [struct_defs]:
  "grid_update_event_t_struct =
     [(''transaction_time'', T_timestamp), (''event_time'', T_timestamp),
      (''grid_update'', T_struct ''grid_update_data_t'')]"

definition grid_update_event_t_meta :: wire_format where [struct_defs]:
  "grid_update_event_t_meta =
     Object [(''T'', Member ''transaction_time''), (''E'', Member ''event_time''),
             (''gu'', Member ''grid_update'')]"

definition strategy_update_data_t_struct :: struct_type where [struct_defs]:
  "strategy_update_data_t_struct =
     [(''strategy_id'', T_u64), (''strategy_type'', T_enum ''strategy_type_t''),
      (''strategy_status'', T_enum ''strategy_status_t''), (''symbol'', T_symbol),
      (''update_time'', T_timestamp), (''op_code'', T_int)]"

definition strategy_update_data_t_meta :: wire_format where [struct_defs]:
  "strategy_update_data_t_meta =
     Object [(''si'', Member ''strategy_id''), (''st'', Member ''strategy_type''),
             (''ss'', Member ''strategy_status''), (''s'', Member ''symbol''),
             (''ut'', Member ''update_time''), (''c'', Member ''op_code'')]"

definition strategy_update_event_t_struct :: struct_type where [struct_defs]:
  "strategy_update_event_t_struct =
     [(''transaction_time'', T_timestamp), (''event_time'', T_timestamp),
      (''strategy_update'', T_struct ''strategy_update_data_t'')]"

definition strategy_update_event_t_meta :: wire_format where [struct_defs]:
  "strategy_update_event_t_meta =
     Object [(''T'', Member ''transaction_time''), (''E'', Member ''event_time''),
             (''su'', Member ''strategy_update'')]"

section \<open>Registry\<close>

definition streams_structs :: "(string \<times> struct_type \<times> wire_format) list" where
  "streams_structs =
     [(''book_ticker_stream_event_t'', book_ticker_stream_event_t_struct, book_ticker_stream_event_t_meta),
      (''aggregate_trade_stream_event_t'', aggregate_trade_stream_event_t_struct, aggregate_trade_stream_event_t_meta),
      (''mark_price_stream_event_t'', mark_price_stream_event_t_struct, mark_price_stream_event_t_meta),
      (''depth_stream_event_t'', depth_stream_event_t_struct, depth_stream_event_t_meta),
      (''mini_ticker_stream_event_t'', mini_ticker_stream_event_t_struct, mini_ticker_stream_event_t_meta),
      (''ticker_stream_event_t'', ticker_stream_event_t_struct, ticker_stream_event_t_meta),
      (''liquidation_order_stream_data_t'', liquidation_order_stream_data_t_struct, liquidation_order_stream_data_t_meta),
      (''liquidation_order_stream_event_t'', liquidation_order_stream_event_t_struct, liquidation_order_stream_event_t_meta),
      (''kline_stream_data_t'', kline_stream_data_t_struct, kline_stream_data_t_meta),
      (''kline_stream_event_t'', kline_stream_event_t_struct, kline_stream_event_t_meta),
      (''continuous_contract_kline_stream_data_t'', continuous_contract_kline_stream_data_t_struct, continuous_contract_kline_stream_data_t_meta),
      (''continuous_contract_kline_stream_event_t'', continuous_contract_kline_stream_event_t_struct, continuous_contract_kline_stream_event_t_meta),
      (''composite_index_constituent_t'', composite_index_constituent_t_struct, composite_index_constituent_t_meta),
      (''composite_index_stream_event_t'', composite_index_stream_event_t_struct, composite_index_stream_event_t_meta),
      (''contract_info_bracket_t'', contract_info_bracket_t_struct, contract_info_bracket_t_meta),
      (''contract_info_stream_event_t'', contract_info_stream_event_t_struct, contract_info_stream_event_t_meta),
      (''asset_index_stream_event_t'', asset_index_stream_event_t_struct, asset_index_stream_event_t_meta),
      (''trading_session_stream_event_t'', trading_session_stream_event_t_struct, trading_session_stream_event_t_meta),
      (''account_update_balance_t'', account_update_balance_t_struct, account_update_balance_t_meta),
      (''account_update_position_t'', account_update_position_t_struct, account_update_position_t_meta),
      (''account_update_data_t'', account_update_data_t_struct, account_update_data_t_meta),
      (''account_update_event_t'', account_update_event_t_struct, account_update_event_t_meta),
      (''order_trade_update_order_t'', order_trade_update_order_t_struct, order_trade_update_order_t_meta),
      (''order_trade_update_event_t'', order_trade_update_event_t_struct, order_trade_update_event_t_meta),
      (''margin_call_position_t'', margin_call_position_t_struct, margin_call_position_t_meta),
      (''margin_call_event_t'', margin_call_event_t_struct, margin_call_event_t_meta),
      (''listen_key_expired_event_t'', listen_key_expired_event_t_struct, listen_key_expired_event_t_meta),
      (''account_config_leverage_t'', account_config_leverage_t_struct, account_config_leverage_t_meta),
      (''account_config_multi_assets_t'', account_config_multi_assets_t_struct, account_config_multi_assets_t_meta),
      (''account_config_update_event_t'', account_config_update_event_t_struct, account_config_update_event_t_meta),
      (''trade_lite_event_t'', trade_lite_event_t_struct, trade_lite_event_t_meta),
      (''algo_order_update_data_t'', algo_order_update_data_t_struct, algo_order_update_data_t_meta),
      (''algo_order_update_event_t'', algo_order_update_event_t_struct, algo_order_update_event_t_meta),
      (''conditional_order_reject_data_t'', conditional_order_reject_data_t_struct, conditional_order_reject_data_t_meta),
      (''conditional_order_trigger_reject_event_t'', conditional_order_trigger_reject_event_t_struct, conditional_order_trigger_reject_event_t_meta),
      (''grid_update_data_t'', grid_update_data_t_struct, grid_update_data_t_meta),
      (''grid_update_event_t'', grid_update_event_t_struct, grid_update_event_t_meta),
      (''strategy_update_data_t'', strategy_update_data_t_struct, strategy_update_data_t_meta),
      (''strategy_update_event_t'', strategy_update_event_t_struct, strategy_update_event_t_meta)]"

end
