(* ===== verification/Requests.thy ===== *)
theory Requests
  imports Endpoints Structs_Market Structs_Trade Structs_Streams
begin

text \<open>
  The struct types together with the endpoint registry: the reflection of every struct, and the
  execution of typed requests.
\<close>

section \<open>Reflection of all structs\<close>

definition all_structs :: "(string \<times> struct_type \<times> wire_format) list" where
  "all_structs = market_structs @ trade_structs @ streams_structs"

lemma market_structs_ok: "list_all (\<lambda>s. reflection_ok (snd s)) market_structs"
  unfolding market_structs_def by (simp add: struct_defs reflection_ok_def)

lemma trade_structs_ok: "list_all (\<lambda>s. reflection_ok (snd s)) trade_structs"
  unfolding trade_structs_def by (simp add: struct_defs reflection_ok_def)

lemma streams_structs_ok: "list_all (\<lambda>s. reflection_ok (snd s)) streams_structs"
  unfolding streams_structs_def by (simp add: struct_defs reflection_ok_def)

text \<open>
  C34: in every request, response and event struct of the library each member is bound to the wire
  exactly once, in the order of declaration and under a key no other member of the struct has, so
  no field is dropped or read into two places by the reflection.
\<close>

theorem structs_reflect_faithfully: "list_all (\<lambda>(name, st, w). reflection_ok (st, w)) all_structs"
  using market_structs_ok trade_structs_ok streams_structs_ok
  by (simp add: all_structs_def case_prod_beta')

section \<open>Typed requests\<close>

text \<open>
  The structs of the request types with traits, in the order of the traits. All of them are plain
  aggregates, so their keys are their member names.
\<close>

definition request_structs :: "(string \<times> struct_type) list" where
  "request_structs =
     [(''ping_request_t'', ping_request_t_struct), (''server_time_request_t'', server_time_request_t_struct),
      (''exchange_info_request_t'', exchange_info_request_t_struct),
      (''order_book_request_t'', order_book_request_t_struct),
      (''recent_trades_request_t'', recent_trades_request_t_struct),
      (''aggregate_trades_request_t'', aggregate_trades_request_t_struct),
      (''continuous_kline_request_t'', continuous_kline_request_t_struct),
      (''index_price_kline_request_t'', index_price_kline_request_t_struct),
      (''book_ticker_request_t'', book_ticker_request_t_struct),
      (''price_ticker_request_t'', price_ticker_request_t_struct),
      (''ticker_24hr_request_t'', ticker_24hr_request_t_struct),
      (''mark_price_request_t'', mark_price_request_t_struct),
      (''funding_rate_history_request_t'', funding_rate_history_request_t_struct),
      (''open_interest_request_t'', open_interest_request_t_struct),
      (''historical_trades_request_t'', historical_trades_request_t_struct),
      (''basis_request_t'', basis_request_t_struct),
      (''price_ticker_v2_request_t'', price_ticker_v2_request_t_struct),
      (''delivery_price_request_t'', delivery_price_request_t_struct),
      (''composite_index_info_request_t'', composite_index_info_request_t_struct),
      (''index_constituents_request_t'', index_constituents_request_t_struct),
      (''asset_index_request_t'', asset_index_request_t_struct),
      (''insurance_fund_request_t'', insurance_fund_request_t_struct),
      (''insurance_funds_request_t'', insurance_funds_request_t_struct),
      (''adl_risk_request_t'', adl_risk_request_t_struct),
      (''rpi_depth_request_t'', rpi_depth_request_t_struct),
      (''trading_schedule_request_t'', trading_schedule_request_t_struct),
      (''position_risk_request_t'', position_risk_request_t_struct),
      (''symbol_config_request_t'', symbol_config_request_t_struct),
      (''income_history_request_t'', income_history_request_t_struct),
      (''leverage_bracket_request_t'', leverage_bracket_request_t_struct),
      (''commission_rate_request_t'', commission_rate_request_t_struct),
      (''toggle_bnb_burn_request_t'', toggle_bnb_burn_request_t_struct),
      (''quantitative_rules_request_t'', quantitative_rules_request_t_struct),
      (''pm_account_info_request_t'', pm_account_info_request_t_struct),
      (''new_order_request_t'', new_order_request_t_struct),
      (''modify_order_request_t'', modify_order_request_t_struct),
      (''cancel_order_request_t'', cancel_order_request_t_struct),
      (''query_order_request_t'', query_order_request_t_struct),
      (''cancel_all_open_orders_request_t'', cancel_all_open_orders_request_t_struct),
      (''auto_cancel_request_t'', auto_cancel_request_t_struct),
      (''query_open_order_request_t'', query_open_order_request_t_struct),
      (''all_open_orders_request_t'', all_open_orders_request_t_struct),
      (''all_orders_request_t'', all_orders_request_t_struct),
      (''position_info_v3_request_t'', position_info_v3_request_t_struct),
      (''adl_quantile_request_t'', adl_quantile_request_t_struct),
      (''force_orders_request_t'', force_orders_request_t_struct),
      (''account_trade_request_t'', account_trade_request_t_struct),
      (''change_position_mode_request_t'', change_position_mode_request_t_struct),
      (''change_multi_assets_mode_request_t'', change_multi_assets_mode_request_t_struct),
      (''change_leverage_request_t'', change_leverage_request_t_struct),
      (''change_margin_type_request_t'', change_margin_type_request_t_struct),
      (''modify_isolated_margin_request_t'', modify_isolated_margin_request_t_struct),
      (''position_margin_history_request_t'', position_margin_history_request_t_struct),
      (''order_modify_history_request_t'', order_modify_history_request_t_struct),
      (''new_algo_order_request_t'', new_algo_order_request_t_struct),
      (''cancel_algo_order_request_t'', cancel_algo_order_request_t_struct),
      (''query_algo_order_request_t'', query_algo_order_request_t_struct),
      (''all_algo_orders_request_t'', all_algo_orders_request_t_struct),
      (''convert_quote_request_t'', convert_quote_request_t_struct),
      (''convert_accept_request_t'', convert_accept_request_t_struct),
      (''convert_order_status_request_t'', convert_order_status_request_t_struct),
      (''book_tickers_request_t'', book_tickers_request_t_struct),
      (''price_tickers_request_t'', price_tickers_request_t_struct),
      (''price_tickers_v2_request_t'', price_tickers_v2_request_t_struct),
      (''ticker_24hrs_request_t'', ticker_24hrs_request_t_struct),
      (''mark_prices_request_t'', mark_prices_request_t_struct),
      (''funding_rate_info_request_t'', funding_rate_info_request_t_struct),
      (''klines_request_t'', klines_request_t_struct),
      (''mark_price_klines_request_t'', mark_price_klines_request_t_struct),
      (''premium_index_klines_request_t'', premium_index_klines_request_t_struct),
      (''open_interest_statistics_request_t'', open_interest_statistics_request_t_struct),
      (''top_long_short_account_ratio_request_t'', top_long_short_account_ratio_request_t_struct),
      (''top_trader_long_short_ratio_request_t'', top_trader_long_short_ratio_request_t_struct),
      (''long_short_ratio_request_t'', long_short_ratio_request_t_struct),
      (''taker_buy_sell_volume_request_t'', taker_buy_sell_volume_request_t_struct),
      (''account_information_request_t'', account_information_request_t_struct),
      (''balances_request_t'', balances_request_t_struct),
      (''account_config_request_t'', account_config_request_t_struct),
      (''get_multi_assets_mode_request_t'', get_multi_assets_mode_request_t_struct),
      (''get_position_mode_request_t'', get_position_mode_request_t_struct),
      (''rate_limit_order_request_t'', rate_limit_order_request_t_struct),
      (''get_bnb_burn_request_t'', get_bnb_burn_request_t_struct),
      (''download_id_transaction_request_t'', download_id_transaction_request_t_struct),
      (''download_link_transaction_request_t'', download_link_transaction_request_t_struct),
      (''download_id_order_request_t'', download_id_order_request_t_struct),
      (''download_link_order_request_t'', download_link_order_request_t_struct),
      (''download_id_trade_request_t'', download_id_trade_request_t_struct),
      (''download_link_trade_request_t'', download_link_trade_request_t_struct),
      (''test_order_request_t'', test_order_request_t_struct),
      (''open_algo_orders_request_t'', open_algo_orders_request_t_struct),
      (''cancel_all_algo_orders_request_t'', cancel_all_algo_orders_request_t_struct),
      (''tradfi_perps_request_t'', tradfi_perps_request_t_struct),
      (''start_listen_key_request_t'', start_listen_key_request_t_struct),
      (''keepalive_listen_key_request_t'', keepalive_listen_key_request_t_struct),
      (''close_listen_key_request_t'', close_listen_key_request_t_struct)]"

lemma request_names: "map fst request_structs = map fst endpoint_traits"
  unfolding request_structs_def endpoint_traits_def
  by (simp add: endpoint_traits_1_def endpoint_traits_2_def endpoint_traits_3_def endpoint_traits_4_def
      endpoint_traits_5_def endpoint_traits_6_def)

lemma requests_ok: "list_all (\<lambda>(name, st). distinct (map fst st) \<and> ''signature'' \<notin> set (map fst st)) request_structs"
  unfolding request_structs_def by (simp add: struct_defs)

text \<open>
  C5: requests are sent as their types say. For every request type with traits and every well-typed
  value of its struct, executing it either fails because signing fails, or puts at most two identical
  requests on the wire with the verb and path of its endpoint and exactly the set members as
  parameters; the requests of the account, trade and convert services also carry timestamp and receive
  window and a signature that verifies, the others carry no signature.
\<close>

theorem typed_requests_authorised:
  assumes "(name, t) \<in> set endpoint_traits" "(name, st) \<in> set request_structs" "conforms st v" "client_ok c"
  shows "(\<exists>ex q. service_signs (trait_service t) \<and> sign_query ossl cfg q = Inl ex \<and>
       execute_request ossl decode cfg now net t (reflect Aggregate v) c = Inl ex) \<or>
    (\<exists>r c' final n. execute_request ossl decode cfg now net t (reflect Aggregate v) c = Inr (r, c') \<and> n \<le> 2 \<and>
      attempts c' = attempts c @ replicate n (make_request (client_cfg c) (ep_verb (trait_endpoint t))
        (fst (place_query cfg (ep_verb (trait_endpoint t)) (ep_path (trait_endpoint t)) final))
        (snd (place_query cfg (ep_verb (trait_endpoint t)) (ep_path (trait_endpoint t)) final))
        ''application/x-www-form-urlencoded'' (api_key cfg)) \<and>
      (\<forall>k. k \<notin> {''timestamp'', ''recvWindow'', ''signature''} \<longrightarrow>
         query_get final k = Option.bind (map_of v k) param_text) \<and>
      (if service_signs (trait_service t)
       then signature_verifies ossl cfg (build_query_string final) \<and>
         query_get final ''timestamp'' = Some (timestamp_to_string now) \<and>
         query_get final ''recvWindow'' = Some (dec_digits (unat (recv_window cfg)))
       else query_get final ''signature'' = None))"
proof -
  have v: "map fst v = map fst st" "printable v" using conforms_printable [OF assms(3)] by auto
  have st: "distinct (map fst st)" "''signature'' \<notin> set (map fst st)"
    using requests_ok assms(2) by (auto simp: list_all_iff)
  have keys: "distinct (map fst v)" "''signature'' \<notin> fst ` set v" using st v(1) by (simp_all flip: set_map)
  obtain q where q: "to_query_map v = Inr q"
    using emit_fields_get [OF v(2) keys(1), of "[]"] by (auto simp: to_query_map_def query_ok_def)
  show ?thesis
  proof (cases "authorise ossl cfg now (ep_signed_request (trait_endpoint t)) q")
    case (Inl ex)
    have "ep_signed_request (trait_endpoint t) = service_signs (trait_service t)"
      using traits_services assms(1) by (auto simp: list_all_iff)
    with Inl q show ?thesis
      by (auto simp: execute_request_def async_execute_def authorise_def split: if_splits)
  next
    case (Inr final)
    obtain r c' where run: "execute_request ossl decode cfg now net t v c = Inr (r, c')"
      using async_execute_defined [OF assms(4) Inr] by (fastforce simp: execute_request_def q)
    from trait_requests_wire [OF assms(1,4) keys(1) v(2) keys(2) run] show ?thesis
      unfolding reflect.simps
      by (elim exE) (rule disjI2, rule exI [of _ r], rule exI [of _ c'], rule exI, rule exI, rule conjI [OF run])
  qed
qed

text \<open>A market order of one contract.\<close>

definition sample_order :: struct_value where
  "sample_order =
     [(''symbol'', Plain (Fv_symbol (symbol_of ''btcusdt''))), (''side'', Plain (Fv_enum (Inr ''BUY''))),
      (''type'', Plain (Fv_enum (Inr ''MARKET''))), (''timeInForce'', Optional None),
      (''quantity'', Plain (Fv_decimal (Decimal_t 0))), (''price'', Optional None),
      (''newClientOrderId'', Optional (Some (Fv_string ''a1''))), (''stopPrice'', Optional None),
      (''positionSide'', Optional None), (''reduceOnly'', Optional None), (''closePosition'', Optional None),
      (''activationPrice'', Optional None), (''callbackRate'', Optional None), (''workingType'', Optional None),
      (''priceProtect'', Optional None), (''newOrderRespType'', Optional None), (''priceMatch'', Optional None),
      (''selfTradePreventionMode'', Optional None), (''goodTillDate'', Optional None)]"

lemma sample_order_conforms: "conforms new_order_request_t_struct sample_order"
  by (simp add: conforms_def new_order_request_t_struct_def sample_order_def member_has_type_def value_has_type_def
      enum_wire_names_def order_side_t_table_def order_type_t_table_def is_valid_def min_raw_def max_raw_def
      scale_factor_eq)

theorem typed_requests_authorised_witness:
  "\<exists>r c'. execute_request sample_openssl success default_config (Timestamp_ms 1) sample_net
       (mk_trait ''order_response_t'' Rest_trade new_order_endpoint) sample_order sample_client = Inr (r, c')"
proof -
  let ?t = "mk_trait ''order_response_t'' Rest_trade new_order_endpoint"
  have t: "(''new_order_request_t'', ?t) \<in> set endpoint_traits"
    by (simp add: endpoint_traits_def endpoint_traits_1_def endpoint_traits_2_def endpoint_traits_3_def
        endpoint_traits_4_def endpoint_traits_5_def endpoint_traits_6_def)
  have st: "(''new_order_request_t'', new_order_request_t_struct) \<in> set request_structs"
    by (simp add: request_structs_def)
  have ok: "client_ok sample_client" by (simp add: client_ok_def sample_client_def)
  have sign: "sign_query sample_openssl default_config q \<noteq> Inl ex" for q ex
    by (simp add: sign_query_def ed25519_sign_base64_def sample_openssl_def default_config_def Let_def)
  from typed_requests_authorised [OF t st sample_order_conforms ok, of sample_openssl default_config success
      "Timestamp_ms 1" sample_net] show ?thesis
    unfolding reflect.simps
    by (elim disjE exE conjE) ((rule notE [OF sign], assumption), (intro exI, assumption))
qed

text \<open>
  The request that cancels all open algo orders has no members, so whatever the caller does it
  is sent without the symbol that the exchange requires.
\<close>

lemma cancel_all_algo_has_no_symbol:
  assumes "conforms cancel_all_algo_orders_request_t_struct v"
  shows "to_query_map (reflect Aggregate v) = Inr []"
  using assms by (simp add: conforms_def cancel_all_algo_orders_request_t_struct_def to_query_map_def)

end
