(* ===== verification/Websocket_Client.thy ===== *)
theory Websocket_Client
  imports Market_Streams
begin

text \<open>
  The WebSocket transport, \<^verbatim>\<open>transport/websocket_client.cpp\<close>: a stream object that is created by each
  connect, and the calls that read, write and close it. The four steps of a connect (resolve, TCP,
  TLS, upgrade), its deadline and the outcome of each read and write are inputs; logging and the
  automatic pong are left out. The stream generators run on top: each connect with the reads that
  follow it is one of their attempts.
\<close>

section \<open>Reading numbers\<close>

definition is_space :: "char \<Rightarrow> bool" where
  "is_space c \<longleftrightarrow> of_char c = (32 :: nat) \<or> 9 \<le> (of_char c :: nat) \<and> (of_char c :: nat) \<le> 13"

text \<open>\<^verbatim>\<open>std::stoull\<close> and \<^verbatim>\<open>std::stoul\<close> on this platform: blanks, a sign, then as many digits as there are.\<close>

definition string_to_u64 :: "string \<Rightarrow> string \<Rightarrow> u64 may_throw" where
  "string_to_u64 name s =
     (let s = dropWhile is_space s;
          neg = (s \<noteq> [] \<and> hd s = CHR ''-'');
          ds = takeWhile is_digit (if s \<noteq> [] \<and> (hd s = CHR ''-'' \<or> hd s = CHR ''+'') then tl s else s)
      in if ds = [] then Inl (Invalid_argument name)
         else if digits_val ds \<ge> 2 ^ 64 then Inl (Out_of_range name)
         else Inr (if neg then - of_nat (digits_val ds) else of_nat (digits_val ds)))"

definition stoull :: "string \<Rightarrow> u64 may_throw" where
  "stoull = string_to_u64 ''stoull''"

definition stoul :: "string \<Rightarrow> u64 may_throw" where
  "stoul = string_to_u64 ''stoul''"

lemma string_to_u64_digits: "string_to_u64 name (dec_digits (unat n)) = Inr n"
proof -
  let ?s = "dec_digits (unat n)"
  have digits: "list_all is_digit ?s" "?s \<noteq> []" by simp_all
  then have hd: "is_digit (hd ?s)" by (cases ?s) auto
  have drop: "dropWhile is_space ?s = ?s" using hd digits(2) by (cases ?s) (auto simp: is_digit_def is_space_def)
  have tw: "takeWhile is_digit ?s = ?s" using digits(1) by (simp add: list_all_iff takeWhile_eq_all_conv)
  have sign: "hd ?s \<noteq> CHR ''-''" "hd ?s \<noteq> CHR ''+''" using hd by (auto simp: is_digit_def)
  have "unat n < 2 ^ LENGTH(64)" by (rule unsigned_less)
  then show ?thesis using digits(2) sign by (simp add: string_to_u64_def Let_def drop tw)
qed

lemma stoull_digits: "stoull (dec_digits (unat n)) = Inr n"
  by (simp add: stoull_def string_to_u64_digits)

lemma stoul_digits: "stoul (dec_digits (unat n)) = Inr n"
  by (simp add: stoul_def string_to_u64_digits)

section \<open>The transport\<close>

record ws_transport =
  wst_cfg :: config
  wst_stream :: bool
  wst_connected :: bool
  wst_remote :: string

definition new_ws_transport :: "config \<Rightarrow> ws_transport" where
  "new_ws_transport cfg = \<lparr>wst_cfg = cfg, wst_stream = False, wst_connected = False, wst_remote = []\<rparr>"

text \<open>
  What happens during a connect: whether setting the server name fails, each step with the text of the
  exception it may throw, the address the TCP step reached, and whether the deadline had passed.
\<close>

record connect_script =
  cs_sni_error :: "string option"
  cs_resolve :: "string + unit"
  cs_tcp :: "string + string"
  cs_tls :: "string + unit"
  cs_upgrade :: "string + unit"
  cs_timed_out :: bool

definition ws_error_of :: "string \<Rightarrow> error" where
  "ws_error_of what = mk_error Ec_websocket 0 0 what []"

definition connect_threw :: "connect_script \<Rightarrow> int \<Rightarrow> string \<Rightarrow> string \<Rightarrow> error" where
  "connect_threw sc timeout_secs prefix what =
     (if timeout_secs > 0 \<and> cs_timed_out sc then ws_error_of prefix else ws_error_of what)"

text \<open>The steps both ways of connecting share, from the TCP connect on.\<close>

definition finish_connect :: "connect_script \<Rightarrow> int \<Rightarrow> string \<Rightarrow> ws_transport \<Rightarrow> error \<times> ws_transport" where
  "finish_connect sc timeout_secs prefix t =
     (case cs_tcp sc of
        Inl what \<Rightarrow> (void_failure (connect_threw sc timeout_secs prefix what), t)
      | Inr remote \<Rightarrow>
          let t = t\<lparr>wst_remote := remote\<rparr> in
          (case cs_tls sc of
             Inl what \<Rightarrow> (void_failure (connect_threw sc timeout_secs prefix what), t)
           | Inr _ \<Rightarrow>
               (case cs_upgrade sc of
                  Inl what \<Rightarrow> (void_failure (connect_threw sc timeout_secs prefix what), t)
                | Inr _ \<Rightarrow> (void_success, t\<lparr>wst_connected := True\<rparr>))))"

definition ws_async_connect :: "connect_script \<Rightarrow> string \<Rightarrow> string \<Rightarrow> ws_transport \<Rightarrow> error \<times> ws_transport" where
  "ws_async_connect sc host port t =
     (let timeout_secs = connect_timeout_seconds (wst_cfg t);
          prefix = ''connect timeout ('' @ int_to_string timeout_secs @ ''s): '' @ host @ '':'' @ port;
          t = t\<lparr>wst_stream := True\<rparr>
      in case cs_sni_error sc of
           Some msg \<Rightarrow> (void_failure (ws_error_of msg), t)
         | None \<Rightarrow>
             (case cs_resolve sc of
                Inl what \<Rightarrow> (void_failure (connect_threw sc timeout_secs prefix what), t)
              | Inr _ \<Rightarrow> finish_connect sc timeout_secs prefix t))"

text \<open>
  Connecting to a given address: \<open>parse_ip\<close> is \<^verbatim>\<open>make_address\<close>, with its message on failure. The
  port goes through \<^verbatim>\<open>std::stoul\<close> and is cut to 16 bits.
\<close>

definition port_number :: "string \<Rightarrow> 16 word may_throw" where
  "port_number port = bind_exn (stoul port) (\<lambda>n. Inr (ucast n))"

definition ws_async_connect_to ::
  "(string \<Rightarrow> string + 'ip) \<Rightarrow> connect_script \<Rightarrow> string \<Rightarrow> string \<Rightarrow> ws_transport \<Rightarrow>
   (error \<times> ('ip \<times> 16 word) option \<times> ws_transport) may_throw" where
  "ws_async_connect_to parse_ip sc ip port t =
     (let timeout_secs = connect_timeout_seconds (wst_cfg t);
          prefix = ''connect_to timeout ('' @ int_to_string timeout_secs @ ''s): '' @ ip @ '':'' @ port;
          t = t\<lparr>wst_stream := True\<rparr>
      in case cs_sni_error sc of
           Some msg \<Rightarrow> Inr (void_failure (ws_error_of msg), None, t)
         | None \<Rightarrow>
             (case parse_ip ip of
                Inl msg \<Rightarrow> Inr (void_failure (ws_error_of (''invalid ip '' @ [CHR 0x27] @ ip @ [CHR 0x27] @ '': '' @ msg)), None, t)
              | Inr addr \<Rightarrow> bind_exn (port_number port) (\<lambda>p.
                  let (e, t) = finish_connect sc timeout_secs prefix t in Inr (e, Some (addr, p), t))))"

text \<open>Reading and writing dereference the stream without a check.\<close>

definition ws_async_write :: "string + unit \<Rightarrow> ws_transport \<Rightarrow> error may_throw" where
  "ws_async_write outcome t =
     (if \<not> wst_stream t then Inl Undefined_behaviour
      else case outcome of
        Inl what \<Rightarrow> Inr (void_failure (ws_error_of what))
      | Inr _ \<Rightarrow> Inr void_success)"

definition ws_async_read :: "string + string \<Rightarrow> ws_transport \<Rightarrow> string result may_throw" where
  "ws_async_read outcome t =
     (if \<not> wst_stream t then Inl Undefined_behaviour
      else case outcome of
        Inl what \<Rightarrow> Inr (failure (ws_error_of what))
      | Inr data \<Rightarrow> Inr (success data))"

definition ws_async_close :: "string + unit \<Rightarrow> ws_transport \<Rightarrow> error \<times> ws_transport" where
  "ws_async_close outcome t =
     (if \<not> wst_connected t then (void_success, t)
      else case outcome of
        Inl what \<Rightarrow> (void_failure (ws_error_of what), t\<lparr>wst_connected := False\<rparr>)
      | Inr _ \<Rightarrow> (void_success, t\<lparr>wst_connected := False\<rparr>))"

section \<open>Attempts of the generators\<close>

text \<open>
  A connect with the reads after it, as the generators see it. The reads end at the first failure,
  after which the generator closes.
\<close>

fun read_failed :: "read_outcome \<Rightarrow> bool" where
  "read_failed (Frame _) = False"
| "read_failed (Read_failed _) = True"

fun session_reads :: "(string + string) list \<Rightarrow> ws_transport \<Rightarrow> read_outcome list may_throw" where
  "session_reads [] t = Inr []"
| "session_reads (outcome # reads) t =
     bind_exn (ws_async_read outcome t) (\<lambda>r.
       if is_ok r then bind_exn (deref r) (\<lambda>s. bind_exn (session_reads reads t) (\<lambda>rs. Inr (Frame s # rs)))
       else Inr [Read_failed (err r)])"

type_synonym transport_script = "connect_script \<times> (string + string) list \<times> (string + unit)"

fun transport_attempts ::
  "string \<Rightarrow> string \<Rightarrow> transport_script list \<Rightarrow> ws_transport \<Rightarrow>
   attempt list may_throw" where
  "transport_attempts host port [] t = Inr []"
| "transport_attempts host port ((sc, reads, close) # script) t =
     (let (e, t) = ws_async_connect sc host port t in
      if void_ok e then
        bind_exn (session_reads reads t) (\<lambda>rs.
          let t = (if list_ex read_failed rs then snd (ws_async_close close t) else t) in
          bind_exn (transport_attempts host port script t) (\<lambda>as. Inr (Session rs # as)))
      else bind_exn (transport_attempts host port script t) (\<lambda>as. Inr (Refused e # as)))"

lemma connect_result:
  assumes "ws_async_connect sc host port t = (e, t')"
  shows "wst_stream t'" "void_ok e \<or> error_code_of e = Ec_websocket" "void_ok e \<longrightarrow> wst_connected t'"
  using assms
  by (auto simp: ws_async_connect_def finish_connect_def connect_threw_def ws_error_of_def void_failure_def void_ok_def
      void_success_def Let_def split: option.splits sum.splits if_splits)

lemma session_reads_ok:
  "wst_stream t \<Longrightarrow> \<exists>rs. session_reads reads t = Inr rs \<and> list_all read_ok rs"
proof (induction reads)
  case (Cons r reads)
  then obtain rs where "session_reads reads t = Inr rs" "list_all read_ok rs" by blast
  with Cons.prems show ?case
    by (cases r) (auto simp: ws_async_read_def ws_error_of_def is_ok_def success_def failure_def deref_def)
qed simp

text \<open>The attempts a transport gives rise to always carry error codes, whatever happens on the network.\<close>

lemma transport_attempts_ok:
  "\<exists>as. transport_attempts host port script t = Inr as \<and> list_all attempt_ok as"
proof (induction script arbitrary: t)
  case (Cons s script)
  obtain sc reads close where s: "s = (sc, reads, close)" by (cases s)
  obtain e t1 where e: "ws_async_connect sc host port t = (e, t1)" by (cases "ws_async_connect sc host port t")
  note c = connect_result [OF e]
  obtain rs where rs: "session_reads reads t1 = Inr rs" "list_all read_ok rs" using session_reads_ok [OF c(1)] by blast
  show ?case
  proof (cases "void_ok e")
    case True
    obtain as where "transport_attempts host port script
        (if list_ex read_failed rs then snd (ws_async_close close t1) else t1) = Inr as"
      "list_all attempt_ok as" using Cons.IH by blast
    with True rs e show ?thesis by (simp add: s Let_def)
  next
    case False
    obtain as where "transport_attempts host port script t1 = Inr as" "list_all attempt_ok as" using Cons.IH by blast
    with False c(2) e show ?thesis by (simp add: s Let_def)
  qed
qed simp

section \<open>Safe use of the transport\<close>

datatype ws_op =
    Op_connect connect_script string string
  | Op_write "string + unit"
  | Op_read "string + string"
  | Op_close "string + unit"

fun run_ws_op :: "ws_op \<Rightarrow> ws_transport \<Rightarrow> (error \<times> ws_transport) may_throw" where
  "run_ws_op (Op_connect sc host port) t = Inr (ws_async_connect sc host port t)"
| "run_ws_op (Op_write out) t = bind_exn (ws_async_write out t) (\<lambda>e. Inr (e, t))"
| "run_ws_op (Op_read out) t = bind_exn (ws_async_read out t) (\<lambda>r. Inr (err r, t))"
| "run_ws_op (Op_close out) t = Inr (ws_async_close out t)"

fun run_ws_ops :: "ws_op list \<Rightarrow> ws_transport \<Rightarrow> (error list \<times> ws_transport) may_throw" where
  "run_ws_ops [] t = Inr ([], t)"
| "run_ws_ops (op # ops) t =
     bind_exn (run_ws_op op t) (\<lambda>(e, t). bind_exn (run_ws_ops ops t) (\<lambda>(es, t). Inr (e # es, t)))"

fun is_close :: "ws_op \<Rightarrow> bool" where
  "is_close (Op_close _) = True"
| "is_close _ = False"

fun is_connect :: "ws_op \<Rightarrow> bool" where
  "is_connect (Op_connect _ _ _) = True"
| "is_connect _ = False"

definition ws_good :: "error list \<times> ws_transport \<Rightarrow> bool" where
  "ws_good p \<longleftrightarrow> list_all (\<lambda>e. error_code_of e \<in> {Ec_none, Ec_websocket}) (fst p) \<and>
     (wst_connected (snd p) \<longrightarrow> wst_stream (snd p))"

lemma op_with_stream:
  assumes "wst_stream t"
  shows "\<exists>e t'. run_ws_op op t = Inr (e, t') \<and> error_code_of e \<in> {Ec_none, Ec_websocket} \<and> wst_stream t'"
proof (cases op)
  case (Op_connect sc host port)
  obtain e t' where "ws_async_connect sc host port t = (e, t')" by (cases "ws_async_connect sc host port t")
  with connect_result [OF this] show ?thesis by (auto simp: Op_connect void_ok_def)
qed (use assms in \<open>auto simp: ws_async_write_def ws_async_read_def ws_async_close_def ws_error_of_def void_failure_def
      void_success_def success_def failure_def split: sum.split\<close>)

lemma ops_with_stream:
  "wst_stream t \<Longrightarrow> \<exists>p. run_ws_ops ops t = Inr p \<and> ws_good p"
proof (induction ops arbitrary: t)
  case (Cons op ops)
  obtain e t1 where 1: "run_ws_op op t = Inr (e, t1)" "error_code_of e \<in> {Ec_none, Ec_websocket}" "wst_stream t1"
    using op_with_stream [OF Cons.prems] by blast
  obtain es t2 where "run_ws_ops ops t1 = Inr (es, t2)" "ws_good (es, t2)" using Cons.IH [OF 1(3)] by (metis prod.collapse)
  with 1 show ?case by (simp add: ws_good_def)
qed (simp add: ws_good_def)

lemma ops_without_stream:
  assumes "\<not> wst_stream t" "\<not> wst_connected t"
  shows "case dropWhile is_close ops of
      [] \<Rightarrow> \<exists>p. run_ws_ops ops t = Inr p \<and> ws_good p
    | op # _ \<Rightarrow> if is_connect op then \<exists>p. run_ws_ops ops t = Inr p \<and> ws_good p else run_ws_ops ops t = Inl Undefined_behaviour"
proof (induction ops)
  case (Cons op ops)
  show ?case
  proof (cases op)
    case (Op_connect sc host port)
    obtain e t1 where 1: "ws_async_connect sc host port t = (e, t1)" by (cases "ws_async_connect sc host port t")
    note c = connect_result [OF 1]
    obtain es t2 where "run_ws_ops ops t1 = Inr (es, t2)" "ws_good (es, t2)"
      using ops_with_stream [OF c(1)] by (metis prod.collapse)
    with 1 c(2) show ?thesis by (auto simp: Op_connect ws_good_def void_ok_def)
  next
    case (Op_close out)
    then have run: "run_ws_op op t = Inr (void_success, t)" using assms by (simp add: ws_async_close_def)
    have more: "\<exists>p. run_ws_ops (op # ops) t = Inr p \<and> ws_good p" if "\<exists>p. run_ws_ops ops t = Inr p \<and> ws_good p"
      using that by (auto simp: run ws_good_def void_success_def)
    have undef: "run_ws_ops (op # ops) t = Inl Undefined_behaviour" if "run_ws_ops ops t = Inl Undefined_behaviour"
      using that by (simp add: run)
    have drop: "dropWhile is_close (op # ops) = dropWhile is_close ops" by (simp add: Op_close)
    show ?thesis
    proof (cases "dropWhile is_close ops")
      case Nil
      with Cons.IH show ?thesis unfolding drop Nil list.case by (intro more)
    next
      case (Cons o' os)
      with Cons.IH show ?thesis unfolding drop Cons list.case
        by (cases "is_connect o'") (simp_all only: if_True if_False more undef)
    qed
  qed (use assms in \<open>simp_all add: ws_async_write_def ws_async_read_def\<close>)
qed (use assms in \<open>simp add: ws_good_def\<close>)

text \<open>
  The WebSocket transport is safe to use exactly after a connect has been tried. On a new transport
  a sequence of calls is undefined if and only if, closes apart, it begins with a read or a write;
  otherwise all its calls return, every failure is a WebSocket error, and a transport marked
  connected has a stream.
\<close>

lemma ws_transport_safe_after_connect:
  "case dropWhile is_close ops of
      [] \<Rightarrow> \<exists>p. run_ws_ops ops (new_ws_transport cfg) = Inr p \<and> ws_good p
    | op # _ \<Rightarrow> if is_connect op then \<exists>p. run_ws_ops ops (new_ws_transport cfg) = Inr p \<and> ws_good p
               else run_ws_ops ops (new_ws_transport cfg) = Inl Undefined_behaviour"
  by (rule ops_without_stream) (simp_all add: new_ws_transport_def)

text \<open>
  Connecting to an explicit address does not check its port: one above 65535 is cut to 16 bits
  and connects elsewhere, and one that is no number escapes as an exception instead of a result.
\<close>

lemma connect_to_port_unchecked:
  assumes "cs_sni_error sc = None" "parse_ip ip = Inr addr"
  shows "(\<exists>e t'. ws_async_connect_to parse_ip sc ip (dec_digits (unat (n :: u64))) t = Inr (e, Some (addr, ucast n), t')) \<and>
    ws_async_connect_to parse_ip sc ip ''https'' t = Inl (Invalid_argument ''stoul'')"
proof -
  have "stoul ''https'' = Inl (Invalid_argument ''stoul'')"
    by (simp add: stoul_def string_to_u64_def Let_def is_space_def is_digit_def)
  then show ?thesis
    using assms by (simp add: ws_async_connect_to_def port_number_def stoul_digits Let_def split: prod.split)
qed

definition sample_connect :: connect_script where
  "sample_connect = \<lparr>cs_sni_error = None, cs_resolve = Inr (), cs_tcp = Inr ''10.0.0.1:443'', cs_tls = Inr (),
     cs_upgrade = Inr (), cs_timed_out = False\<rparr>"

end
