(* ===== verification/Websocket_Api.thy ===== *)
theory Websocket_Api
  imports Requests Websocket_Client
begin

text \<open>
  The WebSocket API client: the methods of \<^verbatim>\<open>websocket_api/generated_methods.hpp\<close>, the request traits and
  authentication modes of \<^verbatim>\<open>websocket_api/endpoint_traits.hpp\<close>, and the client of
  \<^verbatim>\<open>websocket_api/client.cpp\<close>. Each call writes one frame with a fresh id and returns what the next frame
  read from the connection decodes to. JSON writing and reading and the outcome of the write and
  the read on the socket are parameters.
\<close>

named_theorems ws_defs \<open>method names and request traits of the WebSocket API\<close>

section \<open>Methods and traits\<close>

definition session_logon_method :: string where [ws_defs]:
  "session_logon_method = ''session.logon''"

definition account_status_method :: string where [ws_defs]:
  "account_status_method = ''account.status''"

definition account_balance_method :: string where [ws_defs]:
  "account_balance_method = ''account.balance''"

definition order_place_method :: string where [ws_defs]:
  "order_place_method = ''order.place''"

definition order_status_method :: string where [ws_defs]:
  "order_status_method = ''order.status''"

definition order_cancel_method :: string where [ws_defs]:
  "order_cancel_method = ''order.cancel''"

definition ticker_book_method :: string where [ws_defs]:
  "ticker_book_method = ''ticker.book''"

definition ticker_price_method :: string where [ws_defs]:
  "ticker_price_method = ''ticker.price''"

definition order_modify_method :: string where [ws_defs]:
  "order_modify_method = ''order.modify''"

definition account_position_method :: string where [ws_defs]:
  "account_position_method = ''account.position''"

definition account_position_v2_method :: string where [ws_defs]:
  "account_position_v2_method = ''v2/account.position''"

definition account_status_v2_method :: string where [ws_defs]:
  "account_status_v2_method = ''v2/account.status''"

definition algo_order_place_method :: string where [ws_defs]:
  "algo_order_place_method = ''algoOrder.place''"

definition algo_order_cancel_method :: string where [ws_defs]:
  "algo_order_cancel_method = ''algoOrder.cancel''"

definition user_data_stream_start_method :: string where [ws_defs]:
  "user_data_stream_start_method = ''userDataStream.start''"

definition user_data_stream_ping_method :: string where [ws_defs]:
  "user_data_stream_ping_method = ''userDataStream.ping''"

definition user_data_stream_stop_method :: string where [ws_defs]:
  "user_data_stream_stop_method = ''userDataStream.stop''"

datatype ws_auth_mode = Inject | No_auth | Signed_base | Api_key_only

text \<open>\<open>wt_auth\<close> is the optional member \<^verbatim>\<open>auth\<close>; \<open>wt_derived\<close> says that the request derives from the signed base.\<close>

record ws_trait =
  wt_struct :: struct_type
  wt_meta :: wire_format
  wt_method :: string
  wt_response :: string
  wt_auth :: "ws_auth_mode option"
  wt_derived :: bool

definition mk_ws_trait :: "struct_type \<Rightarrow> wire_format \<Rightarrow> string \<Rightarrow> string \<Rightarrow> ws_auth_mode option \<Rightarrow> bool \<Rightarrow> ws_trait" where [ws_defs]:
  "mk_ws_trait st w meth resp auth derived =
     \<lparr>wt_struct = st, wt_meta = w, wt_method = meth, wt_response = resp, wt_auth = auth, wt_derived = derived\<rparr>"

definition resolve_auth :: "ws_trait \<Rightarrow> ws_auth_mode" where
  "resolve_auth t =
     (case wt_auth t of
        Some a \<Rightarrow> a
      | None \<Rightarrow> if wt_derived t then Inject else No_auth)"

definition ws_traits :: "(string \<times> ws_trait) list" where [ws_defs]:
  "ws_traits =
     [(''websocket_api_book_ticker_request_t'', mk_ws_trait
         websocket_api_book_ticker_request_t_struct
         websocket_api_book_ticker_request_t_meta ticker_book_method
         ''book_ticker_t'' None False),
      (''websocket_api_book_tickers_request_t'', mk_ws_trait
         websocket_api_book_tickers_request_t_struct
         Aggregate ticker_book_method
         ''std::vector<book_ticker_t>'' None False),
      (''websocket_api_price_ticker_request_t'', mk_ws_trait
         websocket_api_price_ticker_request_t_struct
         websocket_api_price_ticker_request_t_meta ticker_price_method
         ''price_ticker_t'' None False),
      (''websocket_api_price_tickers_request_t'', mk_ws_trait
         websocket_api_price_tickers_request_t_struct
         Aggregate ticker_price_method
         ''std::vector<price_ticker_t>'' None False),
      (''websocket_api_order_place_request_t'', mk_ws_trait
         websocket_api_order_place_request_t_struct
         websocket_api_order_place_request_t_meta order_place_method
         ''order_response_t'' None True),
      (''websocket_api_order_query_request_t'', mk_ws_trait
         websocket_api_order_query_request_t_struct
         websocket_api_order_query_request_t_meta order_status_method
         ''order_response_t'' None True),
      (''websocket_api_order_cancel_request_t'', mk_ws_trait
         websocket_api_order_cancel_request_t_struct
         websocket_api_order_cancel_request_t_meta order_cancel_method
         ''order_response_t'' None True),
      (''websocket_api_order_modify_request_t'', mk_ws_trait
         websocket_api_order_modify_request_t_struct
         websocket_api_order_modify_request_t_meta order_modify_method
         ''order_response_t'' None True),
      (''websocket_api_position_request_t'', mk_ws_trait
         websocket_api_position_request_t_struct
         websocket_api_position_request_t_meta account_position_method
         ''std::vector<position_risk_t>'' None True),
      (''websocket_api_algo_order_place_request_t'', mk_ws_trait
         websocket_api_algo_order_place_request_t_struct
         websocket_api_algo_order_place_request_t_meta algo_order_place_method
         ''algo_order_response_t'' None True),
      (''websocket_api_algo_order_cancel_request_t'', mk_ws_trait
         websocket_api_algo_order_cancel_request_t_struct
         websocket_api_algo_order_cancel_request_t_meta algo_order_cancel_method
         ''code_msg_response_t'' None True),
      (''ws_account_status_request_t'', mk_ws_trait
         ws_account_status_request_t_struct
         Aggregate account_status_method
         ''account_information_t'' (Some Signed_base) False),
      (''ws_account_status_v2_request_t'', mk_ws_trait
         ws_account_status_v2_request_t_struct
         Aggregate account_status_v2_method
         ''account_information_t'' (Some Signed_base) False),
      (''ws_account_balance_request_t'', mk_ws_trait
         ws_account_balance_request_t_struct
         Aggregate account_balance_method
         ''std::vector<futures_account_balance_t>'' (Some Signed_base) False),
      (''ws_user_data_stream_start_request_t'', mk_ws_trait
         ws_user_data_stream_start_request_t_struct
         Aggregate user_data_stream_start_method
         ''websocket_api_listen_key_result_t'' (Some Api_key_only) False),
      (''ws_user_data_stream_ping_request_t'', mk_ws_trait
         ws_user_data_stream_ping_request_t_struct
         Aggregate user_data_stream_ping_method
         ''websocket_api_listen_key_result_t'' (Some Api_key_only) False),
      (''ws_user_data_stream_stop_request_t'', mk_ws_trait
         ws_user_data_stream_stop_request_t_struct
         Aggregate user_data_stream_stop_method
         ''empty_response_t'' (Some Api_key_only) False)]"

section \<open>Authentication\<close>

definition set_member :: "string \<Rightarrow> member \<Rightarrow> struct_value \<Rightarrow> struct_value" where
  "set_member m x v = map (\<lambda>(m', y). (m', if m' = m then x else y)) v"

text \<open>The switch over the signing method.\<close>

definition ws_sign :: "'k openssl \<Rightarrow> config \<Rightarrow> string \<Rightarrow> string may_throw" where
  "ws_sign ossl cfg canonical =
     (case sign_method cfg of
        Sign_ed25519 \<Rightarrow> ed25519_sign_base64 ossl (ed25519_private_key_pem cfg) canonical
      | Sign_hmac \<Rightarrow> Inr (hmac_sha256_hex ossl (secret_key cfg) canonical))"

definition auth_query_of :: "config \<Rightarrow> timestamp_ms_t \<Rightarrow> query_map" where
  "auth_query_of cfg now = query_put ''apiKey'' (api_key cfg) (inject_auth_query (recv_window cfg) now [])"

definition query_at :: "query_map \<Rightarrow> string \<Rightarrow> string" where
  "query_at q k = (case query_get q k of None \<Rightarrow> [] | Some s \<Rightarrow> s)"

definition make_signed_request_base ::
  "'k openssl \<Rightarrow> config \<Rightarrow> timestamp_ms_t \<Rightarrow> struct_value may_throw" where
  "make_signed_request_base ossl cfg now =
     (let auth_query = auth_query_of cfg now in
      bind_exn (ws_sign ossl cfg (build_query_string auth_query)) (\<lambda>sig.
      bind_exn (stoull (query_at auth_query ''timestamp'')) (\<lambda>ts.
      bind_exn (stoull (query_at auth_query ''recvWindow'')) (\<lambda>rw.
        Inr [(''apiKey'', Plain (Fv_string (api_key cfg))), (''timestamp'', Plain (Fv_u64 ts)),
             (''recvWindow'', Optional (Some (Fv_u64 rw))), (''signature'', Plain (Fv_string sig))]))))"

definition inject_auth ::
  "'k openssl \<Rightarrow> config \<Rightarrow> timestamp_ms_t \<Rightarrow> ws_trait \<Rightarrow> struct_value \<Rightarrow> struct_value may_throw" where
  "inject_auth ossl cfg now t request =
     (if wt_derived t then
        let authed = set_member ''recvWindow'' (Optional (Some (Fv_u64 (recv_window cfg))))
              (set_member ''timestamp'' (Plain (Fv_u64 (ms now)))
                (set_member ''apiKey'' (Plain (Fv_string (api_key cfg))) request))
        in bind_exn (to_query_map (reflect (wt_meta t) authed)) (\<lambda>qm.
             bind_exn (ws_sign ossl cfg (build_query_string (map_erase (<) ''signature'' qm))) (\<lambda>sig.
               Inr (set_member ''signature'' (Plain (Fv_string sig)) authed)))
      else Inr request)"

definition session_logon_params ::
  "'k openssl \<Rightarrow> config \<Rightarrow> timestamp_ms_t \<Rightarrow> struct_value may_throw" where
  "session_logon_params ossl cfg now =
     (let auth_query = auth_query_of cfg now in
      bind_exn (ws_sign ossl cfg (build_query_string auth_query)) (\<lambda>sig.
      bind_exn (stoull (query_at auth_query ''timestamp'')) (\<lambda>ts.
      bind_exn (stoull (query_at auth_query ''recvWindow'')) (\<lambda>rw.
        Inr [(''apiKey'', Plain (Fv_string (api_key cfg))), (''timestamp'', Plain (Fv_u64 ts)),
             (''recvWindow'', Plain (Fv_u64 rw)), (''signature'', Plain (Fv_string sig))]))))"

text \<open>The parameters a call sends, by the authentication mode of its request type.\<close>

definition ws_params ::
  "'k openssl \<Rightarrow> config \<Rightarrow> timestamp_ms_t \<Rightarrow> ws_trait \<Rightarrow> struct_value \<Rightarrow> reflected may_throw" where
  "ws_params ossl cfg now t request =
     (case resolve_auth t of
        Signed_base \<Rightarrow> bind_exn (make_signed_request_base ossl cfg now)
                         (\<lambda>v. Inr (reflect websocket_api_signed_request_t_meta v))
      | Api_key_only \<Rightarrow> Inr (reflect websocket_api_user_data_stream_request_t_meta
                              [(''apiKey'', Plain (Fv_string (api_key cfg)))])
      | _ \<Rightarrow> bind_exn (inject_auth ossl cfg now t request) (\<lambda>v. Inr (reflect (wt_meta t) v)))"

section \<open>The client\<close>

record ws_request =
  ws_id :: string
  ws_method :: string
  ws_request_params :: reflected

record ws_error =
  ws_error_code :: int
  ws_error_msg :: string

record 'r ws_response =
  resp_id :: string
  resp_status :: int
  resp_result :: "'r option"
  resp_rate_limits :: "struct_value list option"
  resp_error :: "ws_error option"

text \<open>The transport and the counter of the client, and every request handed to the transport.\<close>

record ws_client =
  ws_cfg :: config
  ws_conn :: ws_transport
  ws_id_counter :: u64
  ws_sent :: "ws_request list"

definition new_ws_client :: "config \<Rightarrow> ws_client" where
  "new_ws_client cfg = \<lparr>ws_cfg = cfg, ws_conn = new_ws_transport cfg, ws_id_counter = 0, ws_sent = []\<rparr>"

definition ws_client_connect :: "connect_script \<Rightarrow> ws_client \<Rightarrow> error \<times> ws_client" where
  "ws_client_connect sc c =
     (let (e, t) = ws_async_connect sc (websocket_api_host (ws_cfg c)) (websocket_api_port (ws_cfg c)) (ws_conn c)
      in (e, c\<lparr>ws_conn := t\<rparr>))"

definition ws_client_close :: "string + unit \<Rightarrow> ws_client \<Rightarrow> error \<times> ws_client" where
  "ws_client_close outcome c = (let (e, t) = ws_async_close outcome (ws_conn c) in (e, c\<lparr>ws_conn := t\<rparr>))"

definition ws_next_id :: "ws_client \<Rightarrow> string \<times> ws_client" where
  "ws_next_id c =
     (let i = ws_id_counter c + 1 in (dec_digits (unat i), c\<lparr>ws_id_counter := i\<rparr>))"

definition decode_rpc_response :: "(string \<Rightarrow> string + 'r ws_response) \<Rightarrow> string \<Rightarrow> 'r ws_response result" where
  "decode_rpc_response read raw =
     (case read raw of
        Inl ec \<Rightarrow> failure (mk_error Ec_json 0 0 ec raw)
      | Inr response \<Rightarrow>
          (case resp_error response of
             Some e \<Rightarrow> failure (mk_error Ec_binance (resp_status response) (ws_error_code e) (ws_error_msg e) raw)
           | None \<Rightarrow> success response))"

definition encode_rpc_request :: "(ws_request \<Rightarrow> string + string) \<Rightarrow> ws_request \<Rightarrow> string result" where
  "encode_rpc_request write_json request =
     (case write_json request of
        Inl ec \<Rightarrow> failure (mk_error Ec_json 0 0 ec [])
      | Inr text \<Rightarrow> success text)"

text \<open>The JSON library, and what the write and the read of one call meet on the network.\<close>

record 'r ws_io =
  io_write_json :: "ws_request \<Rightarrow> string + string"
  io_read_json :: "string \<Rightarrow> string + 'r ws_response"
  io_write :: "string + unit"
  io_read :: "string + string"

definition async_send_rpc ::
  "'r ws_io \<Rightarrow> string \<Rightarrow> reflected \<Rightarrow> ws_client \<Rightarrow> ('r ws_response result \<times> ws_client) may_throw" where
  "async_send_rpc io meth params c =
     (let (i, c) = ws_next_id c;
          request = \<lparr>ws_id = i, ws_method = meth, ws_request_params = params\<rparr>;
          text = encode_rpc_request (io_write_json io) request
      in if \<not> is_ok text then Inr (failure (err text), c)
         else
           let c = c\<lparr>ws_sent := ws_sent c @ [request]\<rparr> in
           bind_exn (ws_async_write (io_write io) (ws_conn c)) (\<lambda>write_result.
             if \<not> void_ok write_result then Inr (failure write_result, c)
             else bind_exn (ws_async_read (io_read io) (ws_conn c)) (\<lambda>raw.
               if \<not> is_ok raw then Inr (failure (err raw), c)
               else bind_exn (deref raw) (\<lambda>frame. Inr (decode_rpc_response (io_read_json io) frame, c)))))"

definition ws_async_execute ::
  "'k openssl \<Rightarrow> timestamp_ms_t \<Rightarrow> 'r ws_io \<Rightarrow> ws_trait \<Rightarrow> struct_value \<Rightarrow> ws_client \<Rightarrow>
   ('r ws_response result \<times> ws_client) may_throw" where
  "ws_async_execute ossl now io t request c =
     bind_exn (ws_params ossl (ws_cfg c) now t request) (\<lambda>params. async_send_rpc io (wt_method t) params c)"

definition async_session_logon ::
  "'k openssl \<Rightarrow> timestamp_ms_t \<Rightarrow> 'r ws_io \<Rightarrow> ws_client \<Rightarrow> ('r ws_response result \<times> ws_client) may_throw" where
  "async_session_logon ossl now io c =
     bind_exn (session_logon_params ossl (ws_cfg c) now) (\<lambda>v.
       async_send_rpc io session_logon_method (reflect session_logon_request_t_meta v) c)"

section \<open>Signatures over all parameters\<close>

text \<open>The receiver's check: the signature parameter signs the canonical string of the others.\<close>

definition params_verify :: "'k openssl \<Rightarrow> config \<Rightarrow> reflected \<Rightarrow> bool" where
  "params_verify ossl cfg ps =
     (case to_query_map ps of
        Inl _ \<Rightarrow> False
      | Inr q \<Rightarrow> (case query_get q ''signature'' of
          None \<Rightarrow> False
        | Some sig \<Rightarrow> signature_of ossl cfg (build_query_string (map_erase (<) ''signature'' q)) = Inr sig))"

lemma ws_sign_eq: "ws_sign = signature_of"
  by (simp add: fun_eq_iff ws_sign_def signature_of_def)

lemma fst_set_member [simp]: "map fst (set_member m x v) = map fst v"
  by (simp add: set_member_def case_prod_beta')

lemma map_of_set_member:
  "map_of (set_member m x v) k = (if k = m then map_option (\<lambda>_. x) (map_of v m) else map_of v k)"
  by (induction v) (auto simp: set_member_def)

lemma conforms_set_member:
  assumes "conforms st v" "distinct (map fst st)" "map_of st m = Some ty" "member_has_type ty x"
  shows "conforms st (set_member m x v)"
  using assms(1-3) unfolding conforms_def
proof (induction st v rule: list_all2_induct)
  case (Cons s st y v)
  have "m \<notin> fst ` set v" if "fst s = m"
  proof -
    have "map fst v = map fst st" using conforms_printable [of st v] Cons.hyps(2) by (simp add: conforms_def)
    then have "fst ` set v = fst ` set st" by (metis set_map)
    then show ?thesis using Cons.prems(1) that by auto
  qed
  moreover have "set_member m x v = v" if "m \<notin> fst ` set v"
    using that by (induction v) (auto simp: set_member_def)
  ultimately show ?case
    using Cons assms(4) by (cases s; cases y) (auto simp: set_member_def case_prod_beta' split: if_splits)
qed (simp add: set_member_def)

lemma reflect_get:
  assumes "fst ` set v = bound_member ` snd ` set bs"
  shows "map_of (reflect (Object bs) v) k = (case map_of bs k of None \<Rightarrow> None | Some b \<Rightarrow> map_of v (bound_member b))"
proof -
  have "\<exists>x. map_of v (bound_member b) = Some x" if "(k, b) \<in> set bs" for k b
    using that assms by (metis image_eqI map_of_eq_None_iff not_None_eq snd_conv)
  then show ?thesis
  proof (induction bs)
    case (Cons b bs)
    then obtain x where "map_of v (bound_member (snd b)) = Some x" by (metis list.set_intros(1) prod.collapse)
    with Cons show ?case by (cases b) (auto simp: List.map_filter_simps)
  qed (simp add: List.map_filter_simps)
qed

definition auth_bindings :: "(string \<times> binding) list" where
  "auth_bindings =
     [(''apiKey'', Member ''apiKey''), (''timestamp'', Member ''timestamp''),
      (''recvWindow'', Member ''recvWindow''), (''signature'', Member ''signature'')]"

text \<open>Requests that derive from the signed base begin with its members, under the same keys; the others have no signature.\<close>

definition ws_trait_ok :: "ws_trait \<Rightarrow> bool" where
  "ws_trait_ok t \<longleftrightarrow> reflection_ok (wt_struct t, wt_meta t) \<and>
     (case wt_meta t of
        Object bs \<Rightarrow> if wt_derived t then take 4 bs = auth_bindings \<and> take 4 (wt_struct t) = websocket_api_signed_request_t_struct
                     else ''signature'' \<notin> set (map fst bs)
      | Array _ \<Rightarrow> False
      | Aggregate \<Rightarrow> \<not> wt_derived t \<and> ''signature'' \<notin> set (map fst (wt_struct t)))"

lemma ws_traits_ok: "list_all (\<lambda>(n, t). ws_trait_ok t) ws_traits"
  by (simp add: ws_defs ws_trait_ok_def reflection_ok_def auth_bindings_def struct_defs)

lemma derived_layout:
  assumes "ws_trait_ok t" "wt_derived t"
  obtains bs ts where "wt_meta t = Object (auth_bindings @ bs)"
    "wt_struct t = websocket_api_signed_request_t_struct @ ts" "reflection_ok (wt_struct t, wt_meta t)"
proof -
  obtain bs where bs: "wt_meta t = Object bs" "take 4 bs = auth_bindings"
    "take 4 (wt_struct t) = websocket_api_signed_request_t_struct" "reflection_ok (wt_struct t, wt_meta t)"
    using assms by (auto simp: ws_trait_ok_def split: wire_format.splits)
  show ?thesis
    using that [of "drop 4 bs" "drop 4 (wt_struct t)"] bs append_take_drop_id [of 4 bs] append_take_drop_id [of 4 "wt_struct t"]
    by simp
qed

lemma to_query_map_defined:
  assumes "distinct (map fst ps)" "printable ps"
  shows "\<exists>q. to_query_map ps = Inr q"
  using emit_fields_get [OF assms(2,1), of "[]"] by (auto simp: to_query_map_def query_ok_def)

abbreviation auth_keys :: "string set" where
  "auth_keys \<equiv> {''apiKey'', ''timestamp'', ''recvWindow'', ''signature''}"

text \<open>Setting an authentication member changes the parameter of that name only.\<close>

lemma auth_parameter:
  assumes t: "wt_meta t = Object (auth_bindings @ bs)" "reflection_ok (wt_struct t, wt_meta t)"
    and v: "conforms (wt_struct t) v" and m: "m \<in> auth_keys"
  shows "map_of (reflect (wt_meta t) (set_member m x v)) k =
      (if k = m then Some x else map_of (reflect (wt_meta t) v) k)"
proof -
  let ?bs = "auth_bindings @ bs"
  have members: "map fst v = bound_members (wt_struct t) (wt_meta t)"
    using conforms_printable [OF v] t(2) by (simp add: reflection_ok_def)
  then have "set (map fst v) = set (map (\<lambda>b. bound_member (snd b)) ?bs)" by (simp only: t(1) bound_members.simps)
  then have keys: "fst ` set v = bound_member ` snd ` set ?bs" by (simp only: set_map image_image)
  have "set (map fst (set_member m x v)) = set (map fst v)" by (simp only: fst_set_member)
  then have keys': "fst ` set (set_member m x v) = bound_member ` snd ` set ?bs"
    by (simp only: set_map keys)
  have dist: "distinct (map (\<lambda>b. bound_member (snd b)) ?bs)"
    using t(2) by (simp add: reflection_ok_def t(1))
  have self: "(m, Member m) \<in> set ?bs" using m by (auto simp: auth_bindings_def)
  have inj: "inj_on (\<lambda>b. bound_member (snd b)) (set ?bs)" using dist by (simp only: distinct_map)
  have other: "bound_member b \<noteq> m" if "map_of ?bs k = Some b" "k \<noteq> m" for b
    using inj_onD [OF inj _ map_of_SomeD [OF that(1)] self] that(2) by auto
  have "m \<in> bound_member ` snd ` set ?bs" using self by force
  then have "map_of v m \<noteq> None" by (simp only: map_of_eq_None_iff keys simp_thms)
  moreover have "map_of ?bs m = Some (Member m)" using m by (auto simp: auth_bindings_def)
  ultimately show ?thesis
    unfolding t(1) reflect_get [OF keys] reflect_get [OF keys']
    using other by (auto simp: map_of_set_member split: option.split)
qed

lemma erase_signature_ext:
  assumes "query_ok p" "query_ok q" "\<And>k. k \<noteq> ''signature'' \<Longrightarrow> query_get p k = query_get q k"
  shows "map_erase (<) ''signature'' p = map_erase (<) ''signature'' q"
  using assms unfolding query_ok_def
  by (intro str_less.ordered_ext) (simp_all add: str_less.ordered_erase str_less.find_erase_eq)

lemma params_verify_iff:
  assumes "distinct (map fst ps)" "printable ps"
  shows "params_verify ossl cfg ps \<longleftrightarrow> (\<exists>q sig. to_query_map ps = Inr q \<and> query_get q ''signature'' = Some sig \<and>
    signature_of ossl cfg (build_query_string (map_erase (<) ''signature'' q)) = Inr sig)"
  using to_query_map_defined [OF assms] by (auto simp: params_verify_def split: option.splits)

lemma inject_auth_cases:
  assumes ok: "ws_trait_ok t" "wt_derived t" and v: "conforms (wt_struct t) v"
  shows "(\<exists>ex canonical. signature_of ossl cfg canonical = Inl ex \<and> inject_auth ossl cfg now t v = Inl ex) \<or>
    (\<exists>v'. inject_auth ossl cfg now t v = Inr v' \<and> params_verify ossl cfg (reflect (wt_meta t) v') \<and>
      (let p = map_of (reflect (wt_meta t) v') in
       p ''apiKey'' = Some (Plain (Fv_string (api_key cfg))) \<and> p ''timestamp'' = Some (Plain (Fv_u64 (ms now))) \<and>
       p ''recvWindow'' = Some (Optional (Some (Fv_u64 (recv_window cfg)))) \<and>
       (\<forall>k. k \<notin> auth_keys \<longrightarrow> p k = map_of (reflect (wt_meta t) v) k)))"
proof -
  obtain bs ts where w: "wt_meta t = Object (auth_bindings @ bs)" and st: "wt_struct t = websocket_api_signed_request_t_struct @ ts"
    and r: "reflection_ok (wt_struct t, wt_meta t)"
    using derived_layout [OF ok] by blast
  note par = auth_parameter [OF w r]
  have dist: "distinct (map fst (wt_struct t))" using r by (simp add: reflection_ok_def)
  note set_ok = conforms_set_member [OF _ dist]
  have ty: "map_of (wt_struct t) ''apiKey'' = Some T_string" "map_of (wt_struct t) ''timestamp'' = Some T_u64"
    "map_of (wt_struct t) ''recvWindow'' = Some (T_optional T_u64)" "map_of (wt_struct t) ''signature'' = Some T_string"
    by (simp_all add: st websocket_api_signed_request_t_struct_def)
  have has: "member_has_type T_string (Plain (Fv_string s))" "member_has_type T_u64 (Plain (Fv_u64 n))"
    "member_has_type (T_optional T_u64) (Optional (Some (Fv_u64 n)))" for s n
    by (simp_all add: member_has_type_def value_has_type_def)
  define v1 where "v1 = set_member ''apiKey'' (Plain (Fv_string (api_key cfg))) v"
  define v2 where "v2 = set_member ''timestamp'' (Plain (Fv_u64 (ms now))) v1"
  define authed where "authed = set_member ''recvWindow'' (Optional (Some (Fv_u64 (recv_window cfg)))) v2"
  have c: "conforms (wt_struct t) v1" "conforms (wt_struct t) v2" "conforms (wt_struct t) authed"
    using v unfolding authed_def v2_def v1_def by (simp_all add: set_ok ty has)
  have keys: "distinct (map fst (reflect (wt_meta t) u))" "printable (reflect (wt_meta t) u)" if "conforms (wt_struct t) u" for u
    using reflect_members [OF that r] r by (simp_all add: w reflection_ok_def)
  obtain q1 where q1: "to_query_map (reflect (wt_meta t) authed) = Inr q1" using to_query_map_defined keys c(3) by blast
  have run: "inject_auth ossl cfg now t v =
      bind_exn (signature_of ossl cfg (build_query_string (map_erase (<) ''signature'' q1)))
        (\<lambda>sig. Inr (set_member ''signature'' (Plain (Fv_string sig)) authed))"
    using ok(2) q1 by (simp add: inject_auth_def ws_sign_eq flip: v1_def v2_def authed_def)
  show ?thesis
  proof (cases "signature_of ossl cfg (build_query_string (map_erase (<) ''signature'' q1))")
    case (Inr sig)
    define v' where "v' = set_member ''signature'' (Plain (Fv_string sig)) authed"
    have c': "conforms (wt_struct t) v'" using c(3) unfolding v'_def by (simp add: set_ok ty has)
    obtain q2 where q2: "to_query_map (reflect (wt_meta t) v') = Inr q2" using to_query_map_defined keys c' by blast
    note get1 = to_query_map_get [OF keys [OF c(3)] q1] and get2 = to_query_map_get [OF keys [OF c'] q2]
    have same: "map_erase (<) ''signature'' q2 = map_erase (<) ''signature'' q1"
      using get1 get2 par [OF c(3), of "''signature''"] by (intro erase_signature_ext) (auto simp: v'_def)
    have "query_get q2 ''signature'' = Some sig"
      using get2 [of "''signature''"] par [OF c(3), of "''signature''" "Plain (Fv_string sig)" "''signature''"]
      by (simp add: v'_def param_text_def param_def)
    then have "params_verify ossl cfg (reflect (wt_meta t) v')"
      using Inr q2 same params_verify_iff [OF keys [OF c']] by auto
    moreover have "inject_auth ossl cfg now t v = Inr v'" by (simp add: run Inr v'_def)
    ultimately show ?thesis
      by (intro disjI2 exI [of _ v']) (simp add: Let_def v'_def authed_def v2_def v1_def par c [unfolded authed_def v2_def v1_def] v)
  qed (use run in auto)
qed

text \<open>The parameterless requests sign key, window and timestamp.\<close>

lemma auth_query_ok: "query_ok (auth_query_of cfg now)"
proof -
  have "query_ok []" by (simp add: query_ok_def)
  then show ?thesis by (simp add: auth_query_of_def)
qed

lemma auth_query_get:
  "query_get (auth_query_of cfg now) k =
     (if k = ''apiKey'' then Some (api_key cfg) else if k = ''timestamp'' then Some (timestamp_to_string now)
      else if k = ''recvWindow'' then Some (dec_digits (unat (recv_window cfg))) else None)"
  by (simp add: auth_query_of_def inject_auth_get)

lemma query_at_auth [simp]:
  "query_at (auth_query_of cfg now) ''timestamp'' = dec_digits (unat (ms now))"
  "query_at (auth_query_of cfg now) ''recvWindow'' = dec_digits (unat (recv_window cfg))"
  by (simp_all add: query_at_def auth_query_get timestamp_to_string_def)

lemma base_eq:
  "make_signed_request_base ossl cfg now =
     bind_exn (signature_of ossl cfg (build_query_string (auth_query_of cfg now))) (\<lambda>sig.
       Inr [(''apiKey'', Plain (Fv_string (api_key cfg))), (''timestamp'', Plain (Fv_u64 (ms now))),
            (''recvWindow'', Optional (Some (Fv_u64 (recv_window cfg)))), (''signature'', Plain (Fv_string sig))])"
  "session_logon_params ossl cfg now =
     bind_exn (signature_of ossl cfg (build_query_string (auth_query_of cfg now))) (\<lambda>sig.
       Inr [(''apiKey'', Plain (Fv_string (api_key cfg))), (''timestamp'', Plain (Fv_u64 (ms now))),
            (''recvWindow'', Plain (Fv_u64 (recv_window cfg))), (''signature'', Plain (Fv_string sig))])"
  by (simp_all add: make_signed_request_base_def session_logon_params_def ws_sign_eq stoull_digits Let_def)

lemma base_params_verify:
  assumes "signature_of ossl cfg (build_query_string (auth_query_of cfg now)) = Inr sig"
    and "param_text rw = Some (dec_digits (unat (recv_window cfg)))" "\<forall>e. param rw \<noteq> Some (Inl e)"
  shows "params_verify ossl cfg
    [(''apiKey'', Plain (Fv_string (api_key cfg))), (''timestamp'', Plain (Fv_u64 (ms now))),
     (''recvWindow'', rw), (''signature'', Plain (Fv_string sig))]"
    (is "params_verify ossl cfg ?ps")
proof -
  have ok: "distinct (map fst ?ps)" "printable ?ps"
    using assms(3) by (auto simp: printable_def param_def split: option.split sum.split)
  then obtain q where q: "to_query_map ?ps = Inr q" using to_query_map_defined by blast
  note get = to_query_map_get [OF ok q]
  have "query_get q k = query_get (auth_query_of cfg now) k" if "k \<noteq> ''signature''" for k
    using get [of k] that assms(2) by (auto simp: auth_query_get param_text_def param_def timestamp_to_string_def)
  then have "map_erase (<) ''signature'' q = map_erase (<) ''signature'' (auth_query_of cfg now)"
    using get auth_query_ok by (intro erase_signature_ext) auto
  also have "\<dots> = auth_query_of cfg now"
    using auth_query_ok [of cfg now] unfolding query_ok_def
    by (intro str_less.ordered_ext) (simp_all add: str_less.ordered_erase str_less.find_erase_eq auth_query_get)
  finally show ?thesis
    using q assms(1) get [of "''signature''"] params_verify_iff [OF ok]
    by (auto simp: param_text_def param_def)
qed

lemma ws_params_cases:
  assumes "(name, t) \<in> set ws_traits" "conforms (wt_struct t) v"
  shows "(\<exists>ex canonical. signature_of ossl cfg canonical = Inl ex \<and> ws_params ossl cfg now t v = Inl ex) \<or>
    (\<exists>ps. ws_params ossl cfg now t v = Inr ps \<and>
      (case resolve_auth t of
         Inject \<Rightarrow> params_verify ossl cfg ps \<and>
           map_of ps ''apiKey'' = Some (Plain (Fv_string (api_key cfg))) \<and>
           map_of ps ''timestamp'' = Some (Plain (Fv_u64 (ms now))) \<and>
           map_of ps ''recvWindow'' = Some (Optional (Some (Fv_u64 (recv_window cfg)))) \<and>
           (\<forall>k. k \<notin> auth_keys \<longrightarrow> map_of ps k = map_of (reflect (wt_meta t) v) k)
       | Signed_base \<Rightarrow> params_verify ossl cfg ps \<and> map fst ps = [''apiKey'', ''timestamp'', ''recvWindow'', ''signature'']
       | Api_key_only \<Rightarrow> ps = [(''apiKey'', Plain (Fv_string (api_key cfg)))]
       | No_auth \<Rightarrow> ps = reflect (wt_meta t) v \<and> map_of ps ''signature'' = None))"
proof -
  have ok: "ws_trait_ok t" using ws_traits_ok assms(1) by (auto simp: list_all_iff)
  have rec: "reflect websocket_api_signed_request_t_meta
      [(''apiKey'', a), (''timestamp'', b), (''recvWindow'', c), (''signature'', d)] =
      [(''apiKey'', a), (''timestamp'', b), (''recvWindow'', c), (''signature'', d)]" for a b c d
    by (simp add: websocket_api_signed_request_t_meta_def List.map_filter_simps)
  show ?thesis
  proof (cases "resolve_auth t")
    case Inject
    then have "wt_derived t" using assms(1) by (auto simp: resolve_auth_def ws_defs split: if_splits)
    from inject_auth_cases [OF ok this assms(2), of ossl cfg now] show ?thesis
      by (elim disjE exE conjE) (auto simp: ws_params_def Inject Let_def)
  next
    case No_auth
    then have nd: "\<not> wt_derived t" using assms(1) by (auto simp: resolve_auth_def ws_defs split: if_splits)
    have "map fst (reflect (wt_meta t) v) = wire_keys (wt_struct t) (wt_meta t)"
    proof (rule reflect_members(1) [OF assms(2)])
      show "reflection_ok (wt_struct t, wt_meta t)" "\<forall>names. wt_meta t \<noteq> Array names"
        using ok by (auto simp: ws_trait_ok_def)
    qed
    moreover have "''signature'' \<notin> set (wire_keys (wt_struct t) (wt_meta t))"
      using ok nd by (auto simp: ws_trait_ok_def split: wire_format.splits)
    ultimately have "''signature'' \<notin> fst ` set (reflect (wt_meta t) v)" by (simp flip: set_map)
    then have "map_of (reflect (wt_meta t) v) ''signature'' = None" by (simp only: map_of_eq_None_iff simp_thms)
    then show ?thesis by (simp add: ws_params_def No_auth inject_auth_def nd)
  next
    case Signed_base
    show ?thesis
    proof (cases "signature_of ossl cfg (build_query_string (auth_query_of cfg now))")
      case (Inl ex)
      then show ?thesis by (auto simp: ws_params_def Signed_base base_eq)
    next
      case (Inr sig)
      with base_params_verify [OF Inr, of "Optional (Some (Fv_u64 (recv_window cfg)))"] show ?thesis
        by (simp add: ws_params_def Signed_base base_eq rec param_text_def param_def)
    qed
  next
    case Api_key_only
    then show ?thesis
      by (simp add: ws_params_def websocket_api_user_data_stream_request_t_meta_def List.map_filter_simps)
  qed
qed

text \<open>
  C6: WebSocket API calls authenticate as their request types say. For every request type with traits
  and every well-typed value, building the parameters either fails because signing fails, or: for
  the trade requests the parameters are those of the request with key, timestamp and window set
  and a signature over all of them that verifies; the parameterless account requests carry exactly
  key, timestamp, window and a signature that verifies; listen-key requests carry the key only; market
  data requests carry their own members and no signature.
\<close>

theorem ws_requests_authorised:
  assumes "(name, t) \<in> set ws_traits" "conforms (wt_struct t) v"
  shows "(\<exists>ex canonical. signature_of ossl cfg canonical = Inl ex \<and> ws_params ossl cfg now t v = Inl ex) \<or>
    (\<exists>ps. ws_params ossl cfg now t v = Inr ps \<and>
      (case resolve_auth t of
         Inject \<Rightarrow> params_verify ossl cfg ps \<and>
           map_of ps ''apiKey'' = Some (Plain (Fv_string (api_key cfg))) \<and>
           map_of ps ''timestamp'' = Some (Plain (Fv_u64 (ms now))) \<and>
           map_of ps ''recvWindow'' = Some (Optional (Some (Fv_u64 (recv_window cfg)))) \<and>
           (\<forall>k. k \<notin> auth_keys \<longrightarrow> map_of ps k = map_of (reflect (wt_meta t) v) k)
       | Signed_base \<Rightarrow> params_verify ossl cfg ps \<and> map fst ps = [''apiKey'', ''timestamp'', ''recvWindow'', ''signature'']
       | Api_key_only \<Rightarrow> ps = [(''apiKey'', Plain (Fv_string (api_key cfg)))]
       | No_auth \<Rightarrow> ps = reflect (wt_meta t) v \<and> map_of ps ''signature'' = None))"
  using assms by (rule ws_params_cases)

theorem ws_requests_authorised_witness:
  "\<exists>ps. ws_params sample_openssl default_config (Timestamp_ms 1)
     (mk_ws_trait ws_account_balance_request_t_struct Aggregate account_balance_method
       ''std::vector<futures_account_balance_t>'' (Some Signed_base) False) [] = Inr ps \<and>
     params_verify sample_openssl default_config ps"
proof -
  let ?t = "mk_ws_trait ws_account_balance_request_t_struct Aggregate account_balance_method
       ''std::vector<futures_account_balance_t>'' (Some Signed_base) False"
  have t: "(''ws_account_balance_request_t'', ?t) \<in> set ws_traits" by (simp add: ws_traits_def)
  have v: "conforms (wt_struct ?t) []"
    by (simp add: conforms_def mk_ws_trait_def ws_account_balance_request_t_struct_def)
  have sign: "signature_of sample_openssl default_config c \<noteq> Inl ex" for c ex
    by (simp add: signature_of_def ed25519_sign_base64_def sample_openssl_def default_config_def Let_def)
  have auth: "resolve_auth ?t = Signed_base" by (simp add: resolve_auth_def mk_ws_trait_def)
  from ws_requests_authorised [OF t v, of sample_openssl default_config "Timestamp_ms 1"] show ?thesis
    using sign unfolding auth by (auto simp del: params_verify_def)
qed

section \<open>A session of calls\<close>

text \<open>Calls one after the other, as the sequential coroutine interface makes them, and what they return.\<close>

datatype 'r ws_call =
    Connect connect_script
  | Close "string + unit"
  | Logon timestamp_ms_t "'r ws_io"
  | Execute ws_trait struct_value timestamp_ms_t "'r ws_io"

datatype 'r ws_answer = Void error | Answer "'r ws_response result"

fun run_ws_call :: "'k openssl \<Rightarrow> 'r ws_call \<Rightarrow> ws_client \<Rightarrow> ('r ws_answer \<times> ws_client) may_throw" where
  "run_ws_call ossl (Connect sc) c = (let (e, c) = ws_client_connect sc c in Inr (Void e, c))"
| "run_ws_call ossl (Close out) c = (let (e, c) = ws_client_close out c in Inr (Void e, c))"
| "run_ws_call ossl (Logon now io) c = bind_exn (async_session_logon ossl now io c) (\<lambda>(r, c). Inr (Answer r, c))"
| "run_ws_call ossl (Execute t v now io) c = bind_exn (ws_async_execute ossl now io t v c) (\<lambda>(r, c). Inr (Answer r, c))"

fun run_ws_calls :: "'k openssl \<Rightarrow> 'r ws_call list \<Rightarrow> ws_client \<Rightarrow> ('r ws_answer list \<times> ws_client) may_throw" where
  "run_ws_calls ossl [] c = Inr ([], c)"
| "run_ws_calls ossl (call # calls) c =
     bind_exn (run_ws_call ossl call c) (\<lambda>(r, c). bind_exn (run_ws_calls ossl calls c) (\<lambda>(rs, c). Inr (r # rs, c)))"

fun call_io :: "'r ws_call \<Rightarrow> 'r ws_io list" where
  "call_io (Logon _ io) = [io]"
| "call_io (Execute _ _ _ io) = [io]"
| "call_io _ = []"

fun rpc_answer :: "'r ws_answer \<Rightarrow> 'r ws_response result list" where
  "rpc_answer (Void _) = []"
| "rpc_answer (Answer r) = [r]"

definition rpc_ios :: "'r ws_call list \<Rightarrow> 'r ws_io list" where
  "rpc_ios calls = concat (map call_io calls)"

definition rpc_answers :: "'r ws_answer list \<Rightarrow> 'r ws_response result list" where
  "rpc_answers rs = concat (map rpc_answer rs)"

text \<open>What a call returns once its frame is written: the next frame, whatever id it carries.\<close>

definition ws_outcome :: "'r ws_io \<Rightarrow> 'r ws_response result" where
  "ws_outcome io =
     (case io_write io of
        Inl what \<Rightarrow> failure (ws_error_of what)
      | Inr _ \<Rightarrow> (case io_read io of
          Inl what \<Rightarrow> failure (ws_error_of what)
        | Inr raw \<Rightarrow> decode_rpc_response (io_read_json io) raw))"

text \<open>Calls with typed requests of the traits, whose JSON can be written.\<close>

definition io_writes :: "'r ws_io \<Rightarrow> bool" where
  "io_writes io \<longleftrightarrow> (\<forall>r. \<exists>text. io_write_json io r = Inr text)"

fun ws_call_ok :: "'r ws_call \<Rightarrow> bool" where
  "ws_call_ok (Logon _ io) = io_writes io"
| "ws_call_ok (Execute t v _ io) = (io_writes io \<and> t \<in> snd ` set ws_traits \<and> conforms (wt_struct t) v)"
| "ws_call_ok _ = True"

lemma async_send_rpc_eq:
  assumes "io_writes io" "wst_stream (ws_conn c)"
  shows "async_send_rpc io meth params c =
     Inr (ws_outcome io, c\<lparr>ws_id_counter := ws_id_counter c + 1,
        ws_sent := ws_sent c @ [\<lparr>ws_id = dec_digits (unat (ws_id_counter c + 1)), ws_method = meth, ws_request_params = params\<rparr>]\<rparr>)"
proof -
  from assms(1) obtain txt_json where "io_write_json io \<lparr>ws_id = dec_digits (unat (ws_id_counter c + 1)), ws_method = meth,
      ws_request_params = params\<rparr> = Inr txt_json" by (auto simp: io_writes_def)
  with assms(2) show ?thesis
    by (simp add: async_send_rpc_def ws_next_id_def encode_rpc_request_def ws_outcome_def ws_async_write_def
        ws_async_read_def ws_error_of_def Let_def void_ok_def void_failure_def void_success_def split: sum.split)
qed

text \<open>Each call keeps the stream; a call that is answered has sent one request with the next id.\<close>

definition call_effect :: "'r ws_call \<Rightarrow> ws_client \<Rightarrow> 'r ws_answer \<times> ws_client \<Rightarrow> bool" where
  "call_effect call c p \<longleftrightarrow> wst_stream (ws_conn (snd p)) \<and> ws_cfg (snd p) = ws_cfg c \<and>
     rpc_answer (fst p) = map ws_outcome (call_io call) \<and>
     ws_id_counter (snd p) = ws_id_counter c + of_nat (length (call_io call)) \<and>
     map ws_id (ws_sent (snd p)) =
       map ws_id (ws_sent c) @ map (\<lambda>_. dec_digits (unat (ws_id_counter c + 1))) (call_io call)"

lemma run_ws_call_cases:
  assumes "ws_call_ok call" "wst_stream (ws_conn c)"
  shows "(\<exists>ex canonical. run_ws_call ossl call c = Inl ex \<and> signature_of ossl (ws_cfg c) canonical = Inl ex) \<or>
    (\<exists>p. run_ws_call ossl call c = Inr p \<and> call_effect call c p)"
proof (cases call)
  case (Connect sc)
  show ?thesis
    using connect_result(1) by (auto simp: Connect ws_client_connect_def call_effect_def split: prod.split)
next
  case (Close out)
  show ?thesis
    using assms(2) by (auto simp: Close ws_client_close_def ws_async_close_def call_effect_def split: prod.split sum.splits if_splits)
next
  case (Logon now io)
  then have io: "io_writes io" using assms(1) by simp
  show ?thesis
    by (cases "signature_of ossl (ws_cfg c) (build_query_string (auth_query_of (ws_cfg c) now))")
      (auto simp: Logon async_session_logon_def base_eq async_send_rpc_eq [OF io assms(2)] call_effect_def assms(2))
next
  case (Execute t v now io)
  then have io: "io_writes io" and t: "t \<in> snd ` set ws_traits" "conforms (wt_struct t) v" using assms(1) by simp_all
  from t(1) obtain name where name: "(name, t) \<in> set ws_traits" by auto
  from ws_params_cases [OF name t(2), of ossl "ws_cfg c" now] show ?thesis
  proof (elim disjE exE conjE)
    fix ex canonical
    assume "signature_of ossl (ws_cfg c) canonical = Inl ex" "ws_params ossl (ws_cfg c) now t v = Inl ex"
    then show ?thesis by (auto simp: Execute ws_async_execute_def)
  next
    fix ps
    assume "ws_params ossl (ws_cfg c) now t v = Inr ps"
    then show ?thesis
      by (simp add: Execute ws_async_execute_def async_send_rpc_eq [OF io assms(2)] call_effect_def assms(2))
  qed
qed

lemma run_ws_calls_cases:
  assumes "list_all ws_call_ok calls" "wst_stream (ws_conn c)" "unat (ws_id_counter c) + length (rpc_ios calls) < 2 ^ 64"
  shows "(\<exists>ex canonical. run_ws_calls ossl calls c = Inl ex \<and> signature_of ossl (ws_cfg c) canonical = Inl ex) \<or>
    (\<exists>rs c'. run_ws_calls ossl calls c = Inr (rs, c') \<and> rpc_answers rs = map ws_outcome (rpc_ios calls) \<and>
      map ws_id (ws_sent c') = map ws_id (ws_sent c) @
        map dec_digits [Suc (unat (ws_id_counter c))..<Suc (unat (ws_id_counter c) + length (rpc_ios calls))])"
  using assms
proof (induction calls arbitrary: c)
  case (Cons call calls)
  have ok: "ws_call_ok call" using Cons.prems(1) by simp
  from run_ws_call_cases [OF ok Cons.prems(2), of ossl] show ?case
  proof (elim disjE exE conjE)
    fix ex canonical
    assume "run_ws_call ossl call c = Inl ex" "signature_of ossl (ws_cfg c) canonical = Inl ex"
    then show ?case by auto
  next
    fix p
    assume p: "run_ws_call ossl call c = Inr p" "call_effect call c p"
    obtain a c1 where ac: "p = (a, c1)" by (cases p)
    have ios: "rpc_ios (call # calls) = call_io call @ rpc_ios calls" by (simp add: rpc_ios_def)
    have short: "call_io call = [] \<or> (\<exists>io. call_io call = [io])" by (cases call) auto
    have counter: "unat (ws_id_counter c1) = unat (ws_id_counter c) + length (call_io call)"
      using short p(2) Cons.prems(3) by (auto simp: ac call_effect_def ios unat_word_ariths)
    have ids: "map ws_id (ws_sent c1) = map ws_id (ws_sent c) @
        map dec_digits [Suc (unat (ws_id_counter c))..<Suc (unat (ws_id_counter c1))]"
      using short p(2) counter by (auto simp: ac call_effect_def)
    have upt: "[Suc (unat (ws_id_counter c))..<Suc (unat (ws_id_counter c) + length (rpc_ios (call # calls)))] =
        [Suc (unat (ws_id_counter c))..<Suc (unat (ws_id_counter c1))] @
        [Suc (unat (ws_id_counter c1))..<Suc (unat (ws_id_counter c1) + length (rpc_ios calls))]"
      using upt_add_eq_append [of "Suc (unat (ws_id_counter c))" "Suc (unat (ws_id_counter c1))" "length (rpc_ios calls)"]
      by (simp add: ios counter add.assoc del: upt_Suc)
    have rest: "list_all ws_call_ok calls" "wst_stream (ws_conn c1)"
      "unat (ws_id_counter c1) + length (rpc_ios calls) < 2 ^ 64"
      using Cons.prems(1,3) p(2) counter by (simp_all add: ac call_effect_def ios)
    from Cons.IH [OF rest] show ?thesis
      using p unfolding upt by (auto simp: ac ids call_effect_def rpc_answers_def rpc_ios_def simp del: upt_Suc)
  qed
qed (simp add: rpc_answers_def rpc_ios_def)

text \<open>
  A session of the WebSocket API client, with connects, closes and calls in any order after a first
  connect, either stops because signing fails or runs to its end without undefined behaviour. The
  requests it sends are numbered 1, 2, 3 and so on, also across reconnects, so their ids are distinct
  (for less than 2^64 calls), and the n-th call returns what the n-th frame read decodes to, whatever
  id that frame carries.
\<close>

lemma ws_session_ids:
  assumes "list_all ws_call_ok calls" "length (rpc_ios calls) < 2 ^ 64"
  shows "case run_ws_calls ossl (Connect sc # calls) (new_ws_client cfg) of
      Inl ex \<Rightarrow> \<exists>canonical. signature_of ossl cfg canonical = Inl ex
    | Inr (rs, c) \<Rightarrow> map ws_id (ws_sent c) = map dec_digits [1..<Suc (length (rpc_ios calls))] \<and>
        distinct (map ws_id (ws_sent c)) \<and> rpc_answers rs = map ws_outcome (rpc_ios calls)"
proof -
  have inj: "inj_on dec_digits A" for A by (simp add: inj_on_def)
  obtain e c1 where c1: "ws_client_connect sc (new_ws_client cfg) = (e, c1)" by (cases "ws_client_connect sc (new_ws_client cfg)")
  then have 1: "wst_stream (ws_conn c1)" "ws_id_counter c1 = 0" "ws_sent c1 = []" "ws_cfg c1 = cfg"
    using connect_result(1) by (auto simp: ws_client_connect_def new_ws_client_def split: prod.splits)
  have distinct: "distinct (map dec_digits [Suc 0..<Suc n])" for n by (simp add: distinct_map inj del: upt_Suc)
  from run_ws_calls_cases [OF assms(1) 1(1), of ossl] show ?thesis
    using c1 1 assms(2) distinct by (auto simp: rpc_answers_def simp del: upt_Suc)
qed

end
