(* ===== verification/Stream_Buffers.thy ===== *)
theory Stream_Buffers
  imports Fapi_Result
begin

text \<open>
  The buffers between stream producers and consumers: the consumer interface of
  \<^verbatim>\<open>detail/stream_buffer_consumer.hpp\<close>, the counters of \<^verbatim>\<open>detail/stream_buffer.hpp\<close> and the cross-thread
  buffer of \<^verbatim>\<open>detail/threadsafe_stream_buffer.hpp\<close>. The channel belongs to a library: what its reads and
  writes return is an input. The cross-thread buffer is a step relation: one producer thread that
  pushes, closes and posts wake-ups, the executor that runs posted wake-ups while the
  forwarder is suspended, and the forwarder coroutine between its suspension points.
\<close>

section \<open>The consumer interface\<close>

datatype 'a chan_read = Read_item 'a | Read_closed

record consumer =
  drained_total :: u64

definition channel_closed :: error where
  "channel_closed = mk_error Ec_websocket 0 0 ''channel closed'' []"

definition buffer_async_read :: "'a chan_read \<Rightarrow> consumer \<Rightarrow> 'a result \<times> consumer" where
  "buffer_async_read r c =
     (case r of
        Read_closed \<Rightarrow> (failure channel_closed, c)
      | Read_item x \<Rightarrow> (success x, c\<lparr>drained_total := drained_total c + 1\<rparr>))"

text \<open>A poll of the batch loop: whether the channel is open, and what a ready read returns.\<close>

datatype 'a chan_poll = Poll_not_ready | Poll_ready "'a chan_read"

fun batch_loop :: "nat \<Rightarrow> (bool \<times> 'a chan_poll) list \<Rightarrow> 'a list \<Rightarrow> consumer \<Rightarrow> 'a list \<times> consumer" where
  "batch_loop max_count [] batch c = (batch, c)"
| "batch_loop max_count ((is_open, poll) # polls) batch c =
     (if length batch < max_count \<and> is_open then
        (case poll of
           Poll_not_ready \<Rightarrow> (batch, c)
         | Poll_ready Read_closed \<Rightarrow> (batch, c)
         | Poll_ready (Read_item x) \<Rightarrow>
             batch_loop max_count polls (batch @ [x]) (c\<lparr>drained_total := drained_total c + 1\<rparr>))
      else (batch, c))"

definition async_read_batch ::
  "nat \<Rightarrow> 'a chan_read \<Rightarrow> (bool \<times> 'a chan_poll) list \<Rightarrow> consumer \<Rightarrow> 'a list result \<times> consumer" where
  "async_read_batch max_count first polls c =
     (case first of
        Read_closed \<Rightarrow> (failure channel_closed, c)
      | Read_item x \<Rightarrow>
          (let (batch, c) = batch_loop max_count polls [x] (c\<lparr>drained_total := drained_total c + 1\<rparr>)
           in (success batch, c)))"

text \<open>The drain loop, as the items handed to the sink so far and whether it has ended.\<close>

fun async_drain :: "'a chan_read list \<Rightarrow> consumer \<Rightarrow> 'a list \<times> bool \<times> consumer" where
  "async_drain [] c = ([], False, c)"
| "async_drain (Read_closed # reads) c = ([], True, c)"
| "async_drain (Read_item x # reads) c =
     (let (sunk, ended, c) = async_drain reads (c\<lparr>drained_total := drained_total c + 1\<rparr>)
      in (x # sunk, ended, c))"

section \<open>The single-executor buffer\<close>

record stream_buffer = consumer +
  sb_capacity :: u64
  pushed_total :: u64
  push_suspends_total :: u64
  high_water :: u64

definition new_stream_buffer :: "u64 \<Rightarrow> stream_buffer" where
  "new_stream_buffer buffer_size =
     \<lparr>drained_total = 0, sb_capacity = buffer_size, pushed_total = 0, push_suspends_total = 0, high_water = 0\<rparr>"

definition occupancy :: "stream_buffer \<Rightarrow> u64" where
  "occupancy b = (if pushed_total b \<ge> drained_total b then pushed_total b - drained_total b else 0)"

text \<open>A push before and after its channel write, which may suspend in between.\<close>

definition push_begin :: "stream_buffer \<Rightarrow> stream_buffer" where
  "push_begin b =
     (if occupancy b \<ge> sb_capacity b then b\<lparr>push_suspends_total := push_suspends_total b + 1\<rparr> else b)"

definition push_end :: "stream_buffer \<Rightarrow> stream_buffer" where
  "push_end b =
     (let b = b\<lparr>pushed_total := pushed_total b + 1\<rparr>; occ = occupancy b
      in if occ > high_water b then b\<lparr>high_water := occ\<rparr> else b)"

section \<open>The cross-thread buffer\<close>

text \<open>Where the forwarder is; \<open>Writing\<close> and \<open>Final_writing\<close> are suspended in a channel write.\<close>

datatype 'a forwarder =
    Not_started
  | Waiting
  | Ready
  | Draining
  | Writing 'a
  | Checking
  | Rearm
  | Final
  | Final_writing 'a
  | Done

text \<open>
  \<open>waking\<close>: the producer is between its queue operation and the post of the wake-up;
  \<open>cancels\<close>: posted wake-ups that have not run. \<open>accepted\<close> and \<open>delivered\<close> are the items pushed
  with result true and the items written to the channel.
\<close>

record 'a tsb =
  spsc :: "'a list"
  tsb_size :: nat
  waking :: bool
  cancels :: nat
  closed :: bool
  forwarder_at :: "'a forwarder"
  accepted :: "'a list"
  delivered :: "'a list"

definition new_tsb :: "nat \<Rightarrow> 'a tsb" where
  "new_tsb n = \<lparr>spsc = [], tsb_size = n, waking = False, cancels = 0, closed = False, forwarder_at = Not_started,
     accepted = [], delivered = []\<rparr>"

definition tsb_push :: "'a \<Rightarrow> 'a tsb \<Rightarrow> bool \<times> 'a tsb" where
  "tsb_push x s =
     (if closed s then (False, s)
      else if length (spsc s) < tsb_size s
      then (True, s\<lparr>spsc := spsc s @ [x], waking := True, accepted := accepted s @ [x]\<rparr>)
      else (False, s))"

definition tsb_close :: "'a tsb \<Rightarrow> 'a tsb" where
  "tsb_close s = s\<lparr>closed := True, waking := True\<rparr>"

definition wake :: "'a tsb \<Rightarrow> 'a tsb" where
  "wake s = s\<lparr>waking := False, cancels := cancels s + 1\<rparr>"

text \<open>Running a posted wake-up cancels the wait if there is one and does nothing otherwise.\<close>

definition run_cancel :: "'a tsb \<Rightarrow> 'a tsb" where
  "run_cancel s =
     s\<lparr>cancels := cancels s - 1, forwarder_at := (if forwarder_at s = Waiting then Ready else forwarder_at s)\<rparr>"

fun suspended :: "'a forwarder \<Rightarrow> bool" where
  "suspended Not_started = True"
| "suspended Waiting = True"
| "suspended Ready = True"
| "suspended (Writing _) = True"
| "suspended (Final_writing _) = True"
| "suspended Done = True"
| "suspended _ = False"

text \<open>One step of \<^verbatim>\<open>async_forward\<close>; there is none while it waits and after it has returned.\<close>

definition forward :: "'a tsb \<Rightarrow> 'a tsb option" where
  "forward s =
     (case forwarder_at s of
        Not_started \<Rightarrow> Some (s\<lparr>forwarder_at := Waiting\<rparr>)
      | Waiting \<Rightarrow> None
      | Ready \<Rightarrow> Some (s\<lparr>forwarder_at := Draining\<rparr>)
      | Draining \<Rightarrow>
          (case spsc s of
             [] \<Rightarrow> Some (s\<lparr>forwarder_at := Checking\<rparr>)
           | x # q \<Rightarrow> Some (s\<lparr>spsc := q, forwarder_at := Writing x\<rparr>))
      | Writing x \<Rightarrow> Some (s\<lparr>delivered := delivered s @ [x], forwarder_at := Draining\<rparr>)
      | Checking \<Rightarrow> Some (s\<lparr>forwarder_at := (if closed s then Final else Rearm)\<rparr>)
      | Rearm \<Rightarrow> Some (s\<lparr>forwarder_at := Waiting\<rparr>)
      | Final \<Rightarrow>
          (case spsc s of
             [] \<Rightarrow> Some (s\<lparr>forwarder_at := Done\<rparr>)
           | x # q \<Rightarrow> Some (s\<lparr>spsc := q, forwarder_at := Final_writing x\<rparr>))
      | Final_writing x \<Rightarrow> Some (s\<lparr>delivered := delivered s @ [x], forwarder_at := Final\<rparr>)
      | Done \<Rightarrow> None)"

text \<open>
  The interleavings. Pushing and closing are calls of the one producer, which finishes a call
  before the next; the other steps happen without further calls.
\<close>

inductive internal_step :: "'a tsb \<Rightarrow> 'a tsb \<Rightarrow> bool" where
  post: "waking s \<Longrightarrow> internal_step s (wake s)"
| cancel: "cancels s > 0 \<Longrightarrow> suspended (forwarder_at s) \<Longrightarrow> internal_step s (run_cancel s)"
| forward: "forward s = Some s' \<Longrightarrow> internal_step s s'"

inductive tsb_step :: "'a tsb \<Rightarrow> 'a tsb \<Rightarrow> bool" where
  internal: "internal_step s s' \<Longrightarrow> tsb_step s s'"
| push: "\<not> waking s \<Longrightarrow> tsb_step s (snd (tsb_push x s))"
| close: "\<not> waking s \<Longrightarrow> tsb_step s (tsb_close s)"

inductive_cases internal_stepE: "internal_step s s'"
inductive_cases tsb_stepE: "tsb_step s s'"

code_pred internal_step .

section \<open>Order and completeness\<close>

fun in_flight :: "'a forwarder \<Rightarrow> 'a list" where
  "in_flight (Writing x) = [x]"
| "in_flight (Final_writing x) = [x]"
| "in_flight _ = []"

fun finishing :: "'a forwarder \<Rightarrow> bool" where
  "finishing Final = True"
| "finishing (Final_writing _) = True"
| "finishing Done = True"
| "finishing _ = False"

definition fifo_inv :: "'a tsb \<Rightarrow> bool" where
  "fifo_inv s \<longleftrightarrow> delivered s @ in_flight (forwarder_at s) @ spsc s = accepted s \<and>
     (finishing (forwarder_at s) \<longrightarrow> closed s) \<and> (forwarder_at s = Done \<longrightarrow> spsc s = []) \<and>
     length (spsc s) \<le> tsb_size s"

lemma forward_fifo: "forward s = Some s' \<Longrightarrow> fifo_inv s \<Longrightarrow> fifo_inv s'"
  by (auto simp: forward_def fifo_inv_def split: forwarder.splits list.splits if_splits)

lemma internal_fifo: "internal_step s s' \<Longrightarrow> fifo_inv s \<Longrightarrow> fifo_inv s'"
proof (induction rule: internal_step.induct)
  case (forward s s')
  then show ?case using forward_fifo by blast
qed (auto simp: fifo_inv_def wake_def run_cancel_def)

lemma step_fifo: "tsb_step s s' \<Longrightarrow> fifo_inv s \<Longrightarrow> fifo_inv s'"
proof (induction rule: tsb_step.induct)
  case (internal s s')
  then show ?case using internal_fifo by blast
qed (auto simp: fifo_inv_def tsb_push_def tsb_close_def)

lemma reach_fifo: "tsb_step\<^sup>*\<^sup>* s s' \<Longrightarrow> fifo_inv s \<Longrightarrow> fifo_inv s'"
  by (induction rule: rtranclp_induct) (auto intro: step_fifo)

lemma new_tsb_fifo: "fifo_inv (new_tsb n)"
  by (simp add: fifo_inv_def new_tsb_def)

text \<open>
  The cross-thread buffer neither loses, duplicates nor reorders. In every state any interleaving
  of producer, executor and forwarder can reach, the items written to the channel, the one being
  written and those in the queue are, in this order, exactly the accepted pushes; and when the
  forwarder returns, every accepted item has been written.
\<close>

lemma tsb_keeps_order:
  assumes "tsb_step\<^sup>*\<^sup>* (new_tsb n) s"
  shows "delivered s @ in_flight (forwarder_at s) @ spsc s = accepted s \<and> length (spsc s) \<le> n \<and>
    (forwarder_at s = Done \<longrightarrow> delivered s = accepted s)"
proof -
  have "tsb_size s = n"
    using assms
  proof (induction rule: rtranclp_induct)
    case (step s s')
    then show ?case
      by (auto elim!: tsb_stepE internal_stepE simp: wake_def run_cancel_def tsb_push_def tsb_close_def forward_def
          split: forwarder.splits list.splits)
  qed (simp add: new_tsb_def)
  with reach_fifo [OF assms new_tsb_fifo] show ?thesis by (auto simp: fifo_inv_def)
qed

section \<open>Wake-ups\<close>

text \<open>Once the forwarder waits, whatever needs it has a wake-up coming.\<close>

definition wake_inv :: "'a tsb \<Rightarrow> bool" where
  "wake_inv s \<longleftrightarrow> forwarder_at s \<noteq> Not_started \<and>
     (forwarder_at s \<in> {Checking, Rearm, Waiting} \<and> spsc s \<noteq> [] \<longrightarrow> waking s \<or> cancels s > 0) \<and>
     (forwarder_at s \<in> {Rearm, Waiting} \<and> closed s \<longrightarrow> waking s \<or> cancels s > 0)"

lemma forward_wake: "forward s = Some s' \<Longrightarrow> wake_inv s \<Longrightarrow> wake_inv s'"
  by (auto simp: forward_def wake_inv_def split: forwarder.splits list.splits if_splits)

lemma internal_wake: "internal_step s s' \<Longrightarrow> wake_inv s \<Longrightarrow> wake_inv s'"
proof (induction rule: internal_step.induct)
  case (cancel s)
  then show ?case by (cases "forwarder_at s") (auto simp: wake_inv_def run_cancel_def)
next
  case (forward s s')
  then show ?case using forward_wake by blast
qed (auto simp: wake_inv_def wake_def)

lemma step_wake: "tsb_step s s' \<Longrightarrow> wake_inv s \<Longrightarrow> wake_inv s'"
proof (induction rule: tsb_step.induct)
  case (internal s s')
  then show ?case using internal_wake by blast
qed (auto simp: wake_inv_def tsb_push_def tsb_close_def)

lemma reach_wake: "tsb_step\<^sup>*\<^sup>* s s' \<Longrightarrow> wake_inv s \<Longrightarrow> wake_inv s'"
  by (induction rule: rtranclp_induct) (auto intro: step_wake)

text \<open>Without further calls the buffer comes to rest: every internal step uses up some of this work.\<close>

fun forwarder_work :: "'a forwarder \<Rightarrow> nat" where
  "forwarder_work Not_started = 5"
| "forwarder_work Waiting = 0"
| "forwarder_work Ready = 4"
| "forwarder_work Draining = 3"
| "forwarder_work (Writing _) = 5"
| "forwarder_work Checking = 2"
| "forwarder_work Rearm = 1"
| "forwarder_work Final = 1"
| "forwarder_work (Final_writing _) = 3"
| "forwarder_work Done = 0"

definition tsb_work :: "'a tsb \<Rightarrow> nat" where
  "tsb_work s = (if waking s then 11 else 0) + 10 * cancels s + 3 * length (spsc s) + forwarder_work (forwarder_at s)"

lemma internal_work: "internal_step s s' \<Longrightarrow> tsb_work s' < tsb_work s"
proof (induction rule: internal_step.induct)
  case (cancel s)
  then show ?case by (cases "forwarder_at s") (auto simp: tsb_work_def run_cancel_def)
next
  case (forward s s')
  then show ?case
    by (auto simp: forward_def tsb_work_def split: forwarder.splits list.splits if_splits)
qed (simp add: tsb_work_def wake_def)

lemma internal_keeps:
  "internal_step s s' \<Longrightarrow> accepted s' = accepted s \<and> closed s' = closed s"
  by (auto elim!: internal_stepE simp: wake_def run_cancel_def forward_def split: forwarder.splits list.splits)

lemma at_rest:
  assumes "\<nexists>s'. internal_step s s'" "wake_inv s" "fifo_inv s"
  shows "delivered s = accepted s" "closed s \<Longrightarrow> forwarder_at s = Done"
proof -
  have quiet: "\<not> waking s" "forward s = None"
    using assms(1) internal_step.post internal_step.forward by (blast, metis option.exhaust)
  then have at: "forwarder_at s = Waiting \<or> forwarder_at s = Done"
    by (auto simp: forward_def split: forwarder.splits list.splits)
  then have "suspended (forwarder_at s)" by auto
  then have "cancels s = 0" using assms(1) internal_step.cancel [of s] by blast
  with quiet(1) assms(2) at have "spsc s = [] \<or> forwarder_at s = Done" "closed s \<longrightarrow> forwarder_at s = Done"
    by (auto simp: wake_inv_def)
  with assms(3) at show "delivered s = accepted s" "closed s \<Longrightarrow> forwarder_at s = Done"
    by (auto simp: fifo_inv_def)
qed

lemma comes_to_rest:
  "\<exists>s'. internal_step\<^sup>*\<^sup>* s s' \<and> (\<nexists>s''. internal_step s' s'')"
proof (induction "tsb_work s" arbitrary: s rule: less_induct)
  case less
  show ?case
  proof (cases "\<exists>s'. internal_step s s'")
    case True
    then obtain s' where "internal_step s s'" by blast
    with less.hyps [OF internal_work] show ?thesis by (meson converse_rtranclp_into_rtranclp)
  qed auto
qed

lemma internal_runs:
  assumes "internal_step\<^sup>*\<^sup>* s s'"
  shows "tsb_step\<^sup>*\<^sup>* s s' \<and> accepted s' = accepted s \<and> closed s' = closed s"
  using assms
proof (induction rule: rtranclp_induct)
  case (step y z)
  then show ?case using internal_keeps tsb_step.internal by (metis rtranclp.rtrancl_into_rtrancl)
qed simp

text \<open>
  C16: a forwarder that waits before the first push loses no wake-up. Whatever interleaving led to
  the present state, every run without further calls comes to rest after boundedly many steps, and
  at rest every accepted item has been written to the channel and, if the buffer was closed, the
  forwarder has returned. (The consumer is taken to keep reading, so that channel writes complete.)
\<close>

theorem tsb_delivers:
  assumes "tsb_step\<^sup>*\<^sup>* (new_tsb n\<lparr>forwarder_at := Waiting\<rparr>) s"
  shows "(\<forall>s' k. (internal_step ^^ k) s s' \<longrightarrow> k \<le> tsb_work s) \<and>
    (\<exists>s'. internal_step\<^sup>*\<^sup>* s s' \<and> (\<nexists>s''. internal_step s' s'')) \<and>
    (\<forall>s'. internal_step\<^sup>*\<^sup>* s s' \<and> (\<nexists>s''. internal_step s' s'') \<longrightarrow>
       delivered s' = accepted s \<and> (closed s \<longrightarrow> forwarder_at s' = Done))"
proof (intro conjI allI impI)
  fix s' k
  show "(internal_step ^^ k) s s' \<Longrightarrow> k \<le> tsb_work s"
  proof (induction k arbitrary: s)
    case (Suc k)
    then obtain t where "internal_step s t" "(internal_step ^^ k) t s'" by (metis relpowp_Suc_D2)
    with Suc.IH [of t] internal_work [of s t] show ?case by simp
  qed simp
next
  fix s'
  assume rest: "internal_step\<^sup>*\<^sup>* s s' \<and> (\<nexists>s''. internal_step s' s'')"
  have start: "fifo_inv (new_tsb n\<lparr>forwarder_at := Waiting\<rparr>)" "wake_inv (new_tsb n\<lparr>forwarder_at := Waiting\<rparr>)"
    by (simp_all add: fifo_inv_def wake_inv_def new_tsb_def)
  have run: "tsb_step\<^sup>*\<^sup>* (new_tsb n\<lparr>forwarder_at := Waiting\<rparr>) s'" "accepted s' = accepted s" "closed s' = closed s"
    using assms internal_runs [OF conjunct1 [OF rest]] by (auto intro: rtranclp_trans)
  note inv = reach_fifo [OF run(1) start(1)] reach_wake [OF run(1) start(2)]
  show "delivered s' = accepted s" "closed s \<Longrightarrow> forwarder_at s' = Done"
    using at_rest [OF _ inv(2,1)] rest run(2,3) by auto
qed (rule comes_to_rest)

theorem tsb_delivers_witness:
  "\<exists>s'. internal_step\<^sup>*\<^sup>* (snd (tsb_push (7 :: int) (new_tsb 4\<lparr>forwarder_at := Waiting\<rparr>))) s' \<and> delivered s' = [7]"
proof -
  let ?s = "snd (tsb_push (7 :: int) (new_tsb 4\<lparr>forwarder_at := Waiting\<rparr>))"
  have "tsb_step (new_tsb 4\<lparr>forwarder_at := Waiting\<rparr>) ?s"
    by (rule tsb_step.push) (simp add: new_tsb_def)
  then have "tsb_step\<^sup>*\<^sup>* (new_tsb 4\<lparr>forwarder_at := Waiting\<rparr>) ?s" by (rule r_into_rtranclp)
  note run = tsb_delivers [OF this]
  then obtain s' where "internal_step\<^sup>*\<^sup>* ?s s'" "\<nexists>s''. internal_step s' s''" by blast
  moreover from this run have "delivered s' = accepted ?s" by blast
  moreover have "accepted ?s = [7]" by (simp add: tsb_push_def new_tsb_def)
  ultimately show ?thesis by auto
qed

text \<open>
  Wake-ups that run before the forwarder has begun its first wait are lost. There is an
  interleaving in which an item was accepted and the buffer closed before that wait, after which
  the forwarder waits for ever: nothing is left to run, further pushes are refused, and the item is
  never delivered.
\<close>

lemma tsb_startup_wakeup_lost:
  "\<exists>s. tsb_step\<^sup>*\<^sup>* (new_tsb 4) s \<and> (\<nexists>s'. internal_step s s') \<and> forwarder_at s = Waiting \<and> closed s \<and>
     accepted s = [x] \<and> delivered s = [] \<and> (\<forall>y. tsb_push y s = (False, s))"
proof -
  define s1 where "s1 = snd (tsb_push x (new_tsb 4))"
  define s2 where "s2 = run_cancel (wake s1)"
  define s3 where "s3 = run_cancel (wake (tsb_close s2))"
  define s4 where "s4 = s3\<lparr>forwarder_at := Waiting\<rparr>"
  note defs = s4_def s3_def s2_def s1_def tsb_push_def tsb_close_def wake_def run_cancel_def new_tsb_def
  have "tsb_step (new_tsb 4) s1" unfolding s1_def by (rule tsb_step.push) (simp add: new_tsb_def)
  moreover have "tsb_step s1 (wake s1)" by (intro tsb_step.internal internal_step.post) (simp add: defs)
  moreover have "tsb_step (wake s1) s2"
    unfolding s2_def by (intro tsb_step.internal internal_step.cancel) (simp_all add: defs)
  moreover have "tsb_step s2 (tsb_close s2)" by (rule tsb_step.close) (simp add: defs)
  moreover have "tsb_step (tsb_close s2) (wake (tsb_close s2))"
    by (intro tsb_step.internal internal_step.post) (simp add: defs)
  moreover have "tsb_step (wake (tsb_close s2)) s3"
    unfolding s3_def by (intro tsb_step.internal internal_step.cancel) (simp_all add: defs)
  moreover have "tsb_step s3 s4"
    by (intro tsb_step.internal internal_step.forward) (simp add: forward_def defs)
  ultimately have "tsb_step\<^sup>*\<^sup>* (new_tsb 4) s4" by (meson converse_rtranclp_into_rtranclp r_into_rtranclp)
  moreover have "\<nexists>s'. internal_step s4 s'"
    by (auto elim!: internal_stepE simp: forward_def defs)
  ultimately show ?thesis by (intro exI [of _ s4]) (simp add: defs)
qed

section \<open>Consumers\<close>

text \<open>The items that polling would return before it stops.\<close>

fun ready_items :: "(bool \<times> 'a chan_poll) list \<Rightarrow> 'a list" where
  "ready_items ((True, Poll_ready (Read_item x)) # polls) = x # ready_items polls"
| "ready_items _ = []"

lemma batch_loop_eq:
  "batch_loop max_count polls batch c =
     (let got = take (max_count - length batch) (ready_items polls)
      in (batch @ got, c\<lparr>drained_total := drained_total c + of_nat (length got)\<rparr>))"
proof (induction polls arbitrary: batch c rule: ready_items.induct)
  case (1 x polls)
  show ?case
  proof (cases "length batch < max_count")
    case True
    then have "max_count - length batch = Suc (max_count - Suc (length batch))" by simp
    with True 1 [of "batch @ [x]"] show ?thesis by (simp add: Let_def add.assoc)
  qed simp
qed (auto split: chan_poll.splits chan_read.splits)

text \<open>
  A batch read returns the item it waited for and, after it, exactly the ready items up to the
  limit, in channel order, and counts them all as drained; with a limit of zero it still returns
  one item. A closed channel gives the channel error and counts nothing.
\<close>

lemma read_batch_takes_ready_items:
  "async_read_batch max_count (Read_item x) polls c =
     (let batch = x # take (max_count - 1) (ready_items polls)
      in (success batch, c\<lparr>drained_total := drained_total c + of_nat (length batch)\<rparr>)) \<and>
   async_read_batch max_count Read_closed polls c = (failure channel_closed, c)"
  by (simp add: async_read_batch_def batch_loop_eq Let_def)

lemma drain_all:
  "async_drain (map Read_item xs @ Read_closed # reads) c =
     (xs, True, c\<lparr>drained_total := drained_total c + of_nat (length xs)\<rparr>)"
  by (induction xs arbitrary: c) (auto simp: Let_def)

lemma push_end_high_water:
  "occupancy (push_end b) \<le> high_water (push_end b)" "high_water b \<le> high_water (push_end b)"
  by (auto simp: push_end_def occupancy_def Let_def)

end
