(* ===== verification/Pipeline_Stages.thy ===== *)
theory Pipeline_Stages
  imports Order_Book Websocket_Client Stream_Buffers "HOL-Library.Sublist"
begin

text \<open>
  What feeds the pipelined order book: the stream connection with its frame consumers
  (\<^verbatim>\<open>streams/detail/stream_connection.hpp\<close>, \<^verbatim>\<open>streams/detail/stream_consumer.hpp\<close>), the parse stage
  (\<^verbatim>\<open>streams/detail/stream_parser.hpp\<close>) and the three concurrent stages of
  \<^verbatim>\<open>pipeline_order_book::async_run\<close> joined by two cross-thread buffers. The stages are a step relation
  whose steps are those of the network, parser and logic threads and of the two forwarders.
\<close>

section \<open>Stream connections and consumers\<close>

text \<open>A buffer with \<^verbatim>\<open>async_push\<close> is the list of frames its pushes have written; a cross-thread buffer is its state.\<close>

datatype stream_consumer =
    Inline_consumer
  | Buffer_consumer "string list"
  | Tsb_consumer "string tsb"
  | Fan_out_consumer "stream_consumer list"

text \<open>The whole call of push, with its wake-up posted.\<close>

definition tsb_push_call :: "'a \<Rightarrow> 'a tsb \<Rightarrow> bool \<times> 'a tsb" where
  "tsb_push_call x s = (let (ok, s) = tsb_push x s in (ok, if ok then wake s else s))"

fun on_frame :: "string \<Rightarrow> stream_consumer \<Rightarrow> stream_consumer" where
  "on_frame frame Inline_consumer = Inline_consumer"
| "on_frame frame (Buffer_consumer written) = Buffer_consumer (written @ [frame])"
| "on_frame frame (Tsb_consumer b) = Tsb_consumer (snd (tsb_push_call frame b))"
| "on_frame frame (Fan_out_consumer cs) = Fan_out_consumer (map (on_frame frame) cs)"

fun consumer_close :: "stream_consumer \<Rightarrow> stream_consumer" where
  "consumer_close Inline_consumer = Inline_consumer"
| "consumer_close (Buffer_consumer written) = Buffer_consumer written"
| "consumer_close (Tsb_consumer b) = Tsb_consumer (wake (tsb_close b))"
| "consumer_close (Fan_out_consumer cs) = Fan_out_consumer (map consumer_close cs)"

record stream_connection =
  sc_transport :: ws_transport
  sc_cfg :: config
  sc_consumer :: stream_consumer
  push_target :: "stream_consumer option"

definition new_stream_connection :: "config \<Rightarrow> stream_consumer \<Rightarrow> stream_connection" where
  "new_stream_connection cfg consumer =
     \<lparr>sc_transport = new_ws_transport cfg, sc_cfg = cfg, sc_consumer = consumer, push_target = None\<rparr>"

definition attach_buffer :: "stream_consumer \<Rightarrow> stream_connection \<Rightarrow> stream_connection" where
  "attach_buffer buf c = c\<lparr>push_target := Some buf\<rparr>"

definition detach_buffer :: "stream_connection \<Rightarrow> stream_connection" where
  "detach_buffer c = c\<lparr>push_target := None\<rparr>"

definition connection_connect :: "connect_script \<Rightarrow> string \<Rightarrow> string \<Rightarrow> stream_connection \<Rightarrow> error \<times> stream_connection" where
  "connection_connect sc host port c =
     (let (e, t) = ws_async_connect sc host port (sc_transport c) in (e, c\<lparr>sc_transport := t\<rparr>))"

definition connection_close :: "string + unit \<Rightarrow> stream_connection \<Rightarrow> error \<times> stream_connection" where
  "connection_close outcome c =
     (let (e, t) = ws_async_close outcome (sc_transport c) in (e, c\<lparr>sc_transport := t\<rparr>))"

definition connection_read ::
  "string + string \<Rightarrow> stream_connection \<Rightarrow> (string result \<times> stream_connection) may_throw" where
  "connection_read outcome c =
     bind_exn (ws_async_read outcome (sc_transport c)) (\<lambda>msg.
       if is_ok msg then
         bind_exn (deref msg) (\<lambda>frame.
           Inr (msg, c\<lparr>sc_consumer := on_frame frame (sc_consumer c),
                       push_target := map_option (on_frame frame) (push_target c)\<rparr>))
       else Inr (msg, c))"

text \<open>
  The network stage: connect once, then read while the flag is set until a read fails; each turn gives
  the flag and the outcome of the read. The consumer is closed at the end; the result says whether
  the stage has returned.
\<close>

fun network_loop ::
  "(bool \<times> (string + string)) list \<Rightarrow> stream_connection \<Rightarrow> (bool \<times> stream_connection) may_throw" where
  "network_loop [] c = Inr (False, c)"
| "network_loop ((running, outcome) # turns) c =
     (if running then
        bind_exn (connection_read outcome c) (\<lambda>(msg, c).
          if is_ok msg then network_loop turns c
          else Inr (True, c\<lparr>sc_consumer := consumer_close (sc_consumer c)\<rparr>))
      else Inr (True, c\<lparr>sc_consumer := consumer_close (sc_consumer c)\<rparr>))"

definition network_task ::
  "connect_script \<Rightarrow> (bool \<times> (string + string)) list \<Rightarrow> stream_connection \<Rightarrow> (bool \<times> stream_connection) may_throw" where
  "network_task sc turns c =
     (let (cr, c) = connection_connect sc (stream_host (sc_cfg c)) (stream_port (sc_cfg c)) c in
      if \<not> void_ok cr then Inr (True, c\<lparr>sc_consumer := consumer_close (sc_consumer c)\<rparr>)
      else network_loop turns c)"

text \<open>Frames read before the network stage ends.\<close>

fun frames_read :: "(bool \<times> (string + string)) list \<Rightarrow> string list" where
  "frames_read ((True, Inr frame) # turns) = frame # frames_read turns"
| "frames_read _ = []"

lemma network_loop_consumer:
  assumes "wst_stream (sc_transport c)"
  shows "\<exists>ended c'. network_loop turns c = Inr (ended, c') \<and>
    sc_consumer c' = (if ended then consumer_close else (\<lambda>x. x)) (fold on_frame (frames_read turns) (sc_consumer c)) \<and>
    push_target c' = map_option (fold on_frame (frames_read turns)) (push_target c) \<and>
    (ended \<longleftrightarrow> length (frames_read turns) < length turns)"
  using assms
proof (induction turns arbitrary: c)
  case (Cons turn turns)
  obtain running outcome where turn: "turn = (running, outcome)" by (cases turn)
  show ?case
  proof (cases "running \<and> (\<exists>frame. outcome = Inr frame)")
    case True
    then obtain frame where t: "turn = (True, Inr frame)" by (auto simp: turn)
    let ?c = "c\<lparr>sc_consumer := on_frame frame (sc_consumer c), push_target := map_option (on_frame frame) (push_target c)\<rparr>"
    have "network_loop (turn # turns) c = network_loop turns ?c"
      using Cons.prems by (simp add: t connection_read_def ws_async_read_def)
    with Cons.IH [of ?c] Cons.prems show ?thesis
      by (auto simp: t option.map_comp comp_def)
  next
    case False
    then have none: "frames_read (turn # turns) = []" by (cases running; cases outcome) (simp_all add: turn)
    have "network_loop (turn # turns) c = Inr (True, c\<lparr>sc_consumer := consumer_close (sc_consumer c)\<rparr>)"
      using False Cons.prems
      by (cases running; cases outcome) (simp_all add: turn connection_read_def ws_async_read_def ws_error_of_def)
    then show ?thesis by (auto simp: none option.map_ident)
  qed
qed (auto simp: option.map_id option.map_ident)

text \<open>What a consumer has been given, whatever other consumers are fanned out to beside it.\<close>

lemma inline_consumer_inert: "fold on_frame frames Inline_consumer = Inline_consumer"
  by (induction frames) auto

lemma buffer_consumer_copies: "fold on_frame frames (Buffer_consumer written) = Buffer_consumer (written @ frames)"
  by (induction frames arbitrary: written) auto

lemma fan_out_independent: "fold on_frame frames (Fan_out_consumer cs) = Fan_out_consumer (map (fold on_frame frames) cs)"
  by (induction frames arbitrary: cs) (auto simp: comp_def)

section \<open>The three stages\<close>

text \<open>The parse function of the order book; its results have a value exactly if they are ok, as the parse stage relies on.\<close>

definition parse_fn :: "(string \<Rightarrow> string + 'e) \<Rightarrow> string \<Rightarrow> 'e result" where
  "parse_fn read json =
     (case read json of
        Inl ec \<Rightarrow> failure (mk_error Ec_json 0 0 ec json)
      | Inr event \<Rightarrow> success event)"

lemma parse_fn_wf: "result_wf (parse_fn read json)"
  by (simp add: parse_fn_def split: sum.split)

text \<open>
  The parser is reading, spinning on a push, or has returned. \<open>parsed\<close> counts the frames it has
  read from the raw channel; \<open>logic_seen\<close> are the events the logic stage has read from the event
  channel. \<open>received\<close> are the frames the network stage has read.
\<close>

datatype 'e parser_at = Parser_reading | Parser_pushing 'e | Parser_done

record 'e pipeline =
  running :: bool
  net_open :: bool
  received :: "string list"
  raw_buf :: "string tsb"
  parser :: "'e parser_at"
  parsed :: nat
  event_buf :: "'e tsb"
  logic_seen :: "'e list"

definition new_pipeline :: "nat \<Rightarrow> 'e pipeline" where
  "new_pipeline buffer_size =
     \<lparr>running = True, net_open = True, received = [], raw_buf = new_tsb buffer_size, parser = Parser_reading, parsed = 0,
      event_buf = new_tsb buffer_size, logic_seen = []\<rparr>"

definition net_frame :: "string \<Rightarrow> 'e pipeline \<Rightarrow> 'e pipeline" where
  "net_frame frame s = s\<lparr>raw_buf := snd (tsb_push frame (raw_buf s)), received := received s @ [frame]\<rparr>"

definition net_end :: "'e pipeline \<Rightarrow> 'e pipeline" where
  "net_end s = s\<lparr>raw_buf := tsb_close (raw_buf s), net_open := False\<rparr>"

definition parser_read :: "(string \<Rightarrow> 'e result) \<Rightarrow> 'e pipeline \<Rightarrow> 'e pipeline" where
  "parser_read parse s =
     s\<lparr>parsed := parsed s + 1,
       parser := (case result_value (parse (delivered (raw_buf s) ! parsed s)) of
                    Some e \<Rightarrow> Parser_pushing e
                  | None \<Rightarrow> Parser_reading)\<rparr>"

definition parser_push :: "'e \<Rightarrow> 'e pipeline \<Rightarrow> 'e pipeline" where
  "parser_push e s =
     (let (ok, b) = tsb_push e (event_buf s)
      in s\<lparr>event_buf := b, parser := (if ok then Parser_reading else Parser_pushing e)\<rparr>)"

definition parser_end :: "'e pipeline \<Rightarrow> 'e pipeline" where
  "parser_end s = s\<lparr>event_buf := tsb_close (event_buf s), parser := Parser_done\<rparr>"

definition logic_read :: "'e pipeline \<Rightarrow> 'e pipeline" where
  "logic_read s = s\<lparr>logic_seen := logic_seen s @ [delivered (event_buf s) ! length (logic_seen s)]\<rparr>"

text \<open>
  Each buffer posts its wake-ups to the executor it was created with: the network thread's for the raw
  buffer, the parser thread's for the event buffer. The forwarders run one thread further on, so a
  posted wake-up may run between any two steps of the forwarder and not only while it is suspended.
\<close>

inductive unsynced_step :: "'a tsb \<Rightarrow> 'a tsb \<Rightarrow> bool" where
  internal: "internal_step s s' \<Longrightarrow> unsynced_step s s'"
| early_cancel: "cancels s > 0 \<Longrightarrow> unsynced_step s (run_cancel s)"

inductive_cases unsynced_stepE: "unsynced_step s s'"

text \<open>Steps that happen without the network; a read of a channel waits for an item or for the channel to be closed.\<close>

inductive stage_step :: "(string \<Rightarrow> 'e result) \<Rightarrow> 'e pipeline \<Rightarrow> 'e pipeline \<Rightarrow> bool" for parse where
  raw: "unsynced_step (raw_buf s) b \<Longrightarrow> stage_step parse s (s\<lparr>raw_buf := b\<rparr>)"
| event: "unsynced_step (event_buf s) b \<Longrightarrow> stage_step parse s (s\<lparr>event_buf := b\<rparr>)"
| parse: "parser s = Parser_reading \<Longrightarrow> parsed s < length (delivered (raw_buf s)) \<Longrightarrow> stage_step parse s (parser_read parse s)"
| push: "parser s = Parser_pushing e \<Longrightarrow> \<not> waking (event_buf s) \<Longrightarrow> stage_step parse s (parser_push e s)"
| parsed: "parser s = Parser_reading \<Longrightarrow> parsed s = length (delivered (raw_buf s)) \<Longrightarrow> forwarder_at (raw_buf s) = Done \<Longrightarrow>
    \<not> waking (event_buf s) \<Longrightarrow> stage_step parse s (parser_end s)"
| logic: "running s \<Longrightarrow> length (logic_seen s) < length (delivered (event_buf s)) \<Longrightarrow> stage_step parse s (logic_read s)"

inductive pipeline_stage_step :: "(string \<Rightarrow> 'e result) \<Rightarrow> 'e pipeline \<Rightarrow> 'e pipeline \<Rightarrow> bool" for parse where
  stage: "stage_step parse s s' \<Longrightarrow> pipeline_stage_step parse s s'"
| frame: "running s \<Longrightarrow> net_open s \<Longrightarrow> \<not> waking (raw_buf s) \<Longrightarrow> pipeline_stage_step parse s (net_frame frame s)"
| net_end: "net_open s \<Longrightarrow> \<not> waking (raw_buf s) \<Longrightarrow> pipeline_stage_step parse s (net_end s)"
| stop: "pipeline_stage_step parse s (s\<lparr>running := False\<rparr>)"

inductive_cases stage_stepE: "stage_step parse s s'"
inductive_cases pipeline_stage_stepE: "pipeline_stage_step parse s s'"

section \<open>What the logic stage gets to see\<close>

definition parsed_events :: "(string \<Rightarrow> 'e result) \<Rightarrow> string list \<Rightarrow> 'e list" where
  "parsed_events parse frames = List.map_filter (\<lambda>frame. result_value (parse frame)) frames"

lemma parsed_events_simps [simp]:
  "parsed_events parse [] = []"
  "parsed_events parse (xs @ [f]) =
     parsed_events parse xs @ (case result_value (parse f) of Some e \<Rightarrow> [e] | None \<Rightarrow> [])"
  by (simp_all add: parsed_events_def List.map_filter_def split: option.split)

fun pushing :: "'e parser_at \<Rightarrow> 'e list" where
  "pushing (Parser_pushing e) = [e]"
| "pushing _ = []"

text \<open>The two buffers keep their own invariants; the parser and the logic stage keep their place in the channels.\<close>

definition parser_inv :: "(string \<Rightarrow> 'e result) \<Rightarrow> 'e pipeline \<Rightarrow> bool" where
  "parser_inv parse s \<longleftrightarrow> parsed s \<le> length (delivered (raw_buf s)) \<and>
     accepted (event_buf s) @ pushing (parser s) = parsed_events parse (take (parsed s) (delivered (raw_buf s))) \<and>
     (closed (event_buf s) \<longleftrightarrow> parser s = Parser_done) \<and>
     (parser s = Parser_done \<longrightarrow> forwarder_at (raw_buf s) = Done \<and> parsed s = length (delivered (raw_buf s)))"

definition pipeline_inv :: "(string \<Rightarrow> 'e result) \<Rightarrow> 'e pipeline \<Rightarrow> bool" where
  "pipeline_inv parse s \<longleftrightarrow> fifo_inv (raw_buf s) \<and> fifo_inv (event_buf s) \<and> parser_inv parse s \<and>
     subseq (accepted (raw_buf s)) (received s) \<and> (closed (raw_buf s) \<longleftrightarrow> \<not> net_open s) \<and>
     prefix (logic_seen s) (delivered (event_buf s))"

lemma unsynced_fifo: "unsynced_step s s' \<Longrightarrow> fifo_inv s \<Longrightarrow> fifo_inv s'"
  by (auto elim!: unsynced_stepE dest: internal_fifo simp: fifo_inv_def run_cancel_def split: if_splits)

lemma unsynced_keeps: "unsynced_step s s' \<Longrightarrow> accepted s' = accepted s \<and> closed s' = closed s"
  by (auto elim!: unsynced_stepE dest: internal_keeps simp: run_cancel_def)

lemma unsynced_delivers:
  assumes "unsynced_step s s'"
  shows "prefix (delivered s) (delivered s')" "forwarder_at s = Done \<Longrightarrow> forwarder_at s' = Done \<and> delivered s' = delivered s"
  using assms by (auto elim!: unsynced_stepE internal_stepE simp: wake_def run_cancel_def forward_def split: forwarder.splits list.splits)

lemma call_fifo:
  "fifo_inv s \<Longrightarrow> fifo_inv (snd (tsb_push x s))" "fifo_inv s \<Longrightarrow> fifo_inv (tsb_close s)"
  by (auto simp: fifo_inv_def tsb_push_def tsb_close_def)

lemma parser_inv_raw:
  assumes "parser_inv parse s" "unsynced_step (raw_buf s) b"
  shows "parser_inv parse (s\<lparr>raw_buf := b\<rparr>)"
proof -
  obtain more where more: "delivered b = delivered (raw_buf s) @ more"
    using unsynced_delivers(1) [OF assms(2)] by (auto simp: prefix_def)
  with assms(1) unsynced_delivers(2) [OF assms(2)] show ?thesis by (auto simp: parser_inv_def)
qed

lemma stage_step_inv: "stage_step parse s s' \<Longrightarrow> pipeline_inv parse s \<Longrightarrow> pipeline_inv parse s'"
proof (induction rule: stage_step.induct)
  case (raw s b)
  with unsynced_fifo [OF raw(1)] parser_inv_raw [OF _ raw(1)] unsynced_keeps [OF raw(1)] show ?case
    by (simp add: pipeline_inv_def)
next
  case (event s b)
  then have "prefix (logic_seen s) (delivered b)"
    using unsynced_delivers(1) prefix_order.trans unfolding pipeline_inv_def by blast
  with event(2) unsynced_fifo [OF event(1)] unsynced_keeps [OF event(1)] show ?case
    by (simp add: pipeline_inv_def parser_inv_def)
next
  case (parse s)
  then have "take (Suc (parsed s)) (delivered (raw_buf s)) =
      take (parsed s) (delivered (raw_buf s)) @ [delivered (raw_buf s) ! parsed s]"
    by (simp add: take_Suc_conv_app_nth)
  with parse show ?case
    by (auto simp: pipeline_inv_def parser_inv_def parser_read_def split: option.split)
next
  case (push s e)
  have "fifo_inv (snd (tsb_push e (event_buf s)))" using push by (simp add: pipeline_inv_def call_fifo)
  with push show ?case
    by (auto simp: pipeline_inv_def parser_inv_def parser_push_def tsb_push_def)
next
  case (parsed s)
  have "fifo_inv (tsb_close (event_buf s))" using parsed by (simp add: pipeline_inv_def call_fifo)
  with parsed show ?case by (auto simp: pipeline_inv_def parser_inv_def parser_end_def tsb_close_def)
next
  case (logic s)
  then have "prefix (logic_seen s @ [delivered (event_buf s) ! length (logic_seen s)]) (delivered (event_buf s))"
    by (auto simp: pipeline_inv_def prefix_def nth_append neq_Nil_conv)
  with logic show ?case by (simp add: pipeline_inv_def parser_inv_def logic_read_def)
qed

lemma pipeline_step_inv: "pipeline_stage_step parse s s' \<Longrightarrow> pipeline_inv parse s \<Longrightarrow> pipeline_inv parse s'"
proof (induction rule: pipeline_stage_step.induct)
  case (stage s s')
  then show ?case using stage_step_inv by blast
next
  case (frame s f)
  have "fifo_inv (snd (tsb_push f (raw_buf s)))" using frame by (simp add: pipeline_inv_def call_fifo)
  moreover have "subseq (accepted (raw_buf s)) (received s @ [f])"
    using frame by (auto simp: pipeline_inv_def intro: subseq_order.trans)
  ultimately show ?case
    using frame by (auto simp: pipeline_inv_def parser_inv_def net_frame_def tsb_push_def)
next
  case (net_end s)
  have "fifo_inv (tsb_close (raw_buf s))" using net_end by (simp add: pipeline_inv_def call_fifo)
  with net_end show ?case by (auto simp: pipeline_inv_def parser_inv_def net_end_def tsb_close_def)
next
  case (stop s)
  then show ?case by (simp add: pipeline_inv_def parser_inv_def)
qed

lemma new_pipeline_inv: "pipeline_inv parse (new_pipeline n)"
  by (simp add: pipeline_inv_def parser_inv_def new_pipeline_def fifo_inv_def new_tsb_def)

lemma reach_pipeline_inv:
  "(pipeline_stage_step parse)\<^sup>*\<^sup>* s s' \<Longrightarrow> pipeline_inv parse s \<Longrightarrow> pipeline_inv parse s'"
  by (induction rule: rtranclp_induct) (auto intro: pipeline_step_inv)

lemma parsed_events_prefix: "prefix xs ys \<Longrightarrow> prefix (parsed_events parse xs) (parsed_events parse ys)"
  by (auto simp: prefix_def parsed_events_def List.map_filter_def)

lemma parser_follows:
  assumes "pipeline_inv parse s"
  shows "prefix (accepted (event_buf s)) (parsed_events parse (accepted (raw_buf s)))"
    and "forwarder_at (event_buf s) = Done \<Longrightarrow> delivered (event_buf s) = parsed_events parse (accepted (raw_buf s))"
proof -
  note inv = assms [unfolded pipeline_inv_def parser_inv_def]
  have raw: "delivered (raw_buf s) @ in_flight (forwarder_at (raw_buf s)) @ spsc (raw_buf s) = accepted (raw_buf s)"
    using inv by (simp add: fifo_inv_def)
  have "prefix (take (parsed s) (delivered (raw_buf s))) (accepted (raw_buf s))"
    using raw take_is_prefix by (metis prefix_prefix)
  from parsed_events_prefix [OF this] show "prefix (accepted (event_buf s)) (parsed_events parse (accepted (raw_buf s)))"
    using inv by (metis append_prefixD)
  assume "forwarder_at (event_buf s) = Done"
  with inv show "delivered (event_buf s) = parsed_events parse (accepted (raw_buf s))"
    using raw by (auto simp: fifo_inv_def)
qed

text \<open>
  C17: whatever the interleaving of network, parser, logic and forwarders, the logic stage of the
  pipelined order book reads, in order and without duplicates, the events of the frames that were
  accepted by the raw buffer and parse; frames are lost only where they are refused by the
  full raw buffer or do not parse, and neither is reported. When the event channel is closed nothing
  that was accepted is missing from it; and on what it reads the logic stage runs without undefined
  behaviour and leaves a well-formed book.
\<close>

theorem pipeline_feeds_parsed_frames:
  assumes "(pipeline_stage_step parse)\<^sup>*\<^sup>* (new_pipeline n) s" "book_wf b" "list_all result_wf rests"
  shows "prefix (logic_seen s) (parsed_events parse (accepted (raw_buf s))) \<and> subseq (accepted (raw_buf s)) (received s) \<and>
    (forwarder_at (event_buf s) = Done \<longrightarrow> delivered (event_buf s) = parsed_events parse (accepted (raw_buf s))) \<and>
    (\<exists>r st. pipeline_async_run callback b (map2 Item (map success (logic_seen s)) rests) = Inr (r, st) \<and> book_wf (book st))"
proof -
  have inv: "pipeline_inv parse s" using reach_pipeline_inv [OF assms(1) new_pipeline_inv] .
  have "prefix (delivered (event_buf s)) (accepted (event_buf s))"
    using inv unfolding pipeline_inv_def fifo_inv_def by (metis prefixI)
  then have "prefix (logic_seen s) (parsed_events parse (accepted (raw_buf s)))"
    using inv parser_follows(1) [OF inv] prefix_order.trans unfolding pipeline_inv_def by blast
  moreover have "items_wf (map2 Item (map success es) rests)" for es
    using assms(3) by (induction es rests rule: list_induct2') (simp_all add: items_wf_def)
  then obtain r st where run: "pipeline_loop (start_sync callback b) (map2 Item (map success (logic_seen s)) rests) = Inr (r, st)"
    using pb.loop_defined by blast
  moreover have "book_wf (book st)" using pb.loop_wf [OF run start_sync_wf [OF assms(2)]] by (simp add: sync_wf_def)
  ultimately show ?thesis
    using parser_follows(2) [OF inv] inv by (auto simp: pipeline_async_run_def pipeline_inv_def)
qed

theorem pipeline_feeds_parsed_frames_witness:
  "let s = net_frame ''{}'' (new_pipeline 4) in
   accepted (raw_buf s) = [''{}''] \<and> prefix (logic_seen s) [sample_event 9 10 11 []] \<and>
   (\<exists>r st. pipeline_async_run True empty_book (map2 Item (map success (logic_seen s)) [sample_response 10 []]) = Inr (r, st))"
proof -
  let ?parse = "\<lambda>_. success (sample_event 9 10 11 [])"
  let ?s = "net_frame ''{}'' (new_pipeline 4)"
  have "pipeline_stage_step ?parse (new_pipeline 4) ?s"
    by (rule pipeline_stage_step.frame) (simp_all add: new_pipeline_def new_tsb_def)
  then have reach: "(pipeline_stage_step ?parse)\<^sup>*\<^sup>* (new_pipeline 4) ?s" by (rule r_into_rtranclp)
  have "list_all result_wf [sample_response 10 []]" by (simp add: sample_response_def)
  note feeds = pipeline_feeds_parsed_frames [OF reach empty_book_wf this, of True]
  have "accepted (raw_buf ?s) = [''{}'']" by (simp add: net_frame_def new_pipeline_def tsb_push_def new_tsb_def)
  with feeds show ?thesis by (auto simp: Let_def parsed_events_def List.map_filter_def success_def)
qed

section \<open>A wake-up between two threads\<close>

text \<open>A closed raw buffer whose forwarder waits with no wake-up left.\<close>

definition hung :: "'e pipeline \<Rightarrow> bool" where
  "hung s \<longleftrightarrow> \<not> net_open s \<and> forwarder_at (raw_buf s) = Waiting \<and> cancels (raw_buf s) = 0 \<and> \<not> waking (raw_buf s) \<and>
     parser s \<noteq> Parser_done"

lemma hung_stays: "pipeline_stage_step parse s s' \<Longrightarrow> hung s \<Longrightarrow> hung s'"
  by (auto elim!: pipeline_stage_stepE stage_stepE unsynced_stepE internal_stepE
      simp: hung_def forward_def parser_read_def parser_push_def parser_end_def logic_read_def
      split: option.splits prod.splits if_splits)

lemma hung_forever: "(pipeline_stage_step parse)\<^sup>*\<^sup>* s s' \<Longrightarrow> hung s \<Longrightarrow> hung s'"
  by (induction rule: rtranclp_induct) (auto intro: hung_stays)

lemma reach_start: "(pipeline_stage_step parse)\<^sup>*\<^sup>* s s" by (rule rtranclp.rtrancl_refl)

lemma reach_more:
  "(pipeline_stage_step parse)\<^sup>*\<^sup>* s s' \<Longrightarrow> pipeline_stage_step parse s' s'' \<Longrightarrow> (pipeline_stage_step parse)\<^sup>*\<^sup>* s s''"
  by (rule rtranclp.rtrancl_into_rtrancl)

definition after_first_frame :: "string \<Rightarrow> string tsb" where
  "after_first_frame frame = (new_tsb 4)\<lparr>forwarder_at := Rearm, accepted := [frame], delivered := [frame]\<rparr>"

lemma first_frame_reached:
  "(pipeline_stage_step parse)\<^sup>*\<^sup>* (new_pipeline 4)
     ((new_pipeline 4)\<lparr>raw_buf := after_first_frame frame, received := [frame]\<rparr>)"
proof -
  let ?p = "\<lambda>b. (new_pipeline 4)\<lparr>raw_buf := b, received := [frame]\<rparr>"
  let ?b = "\<lambda>f q w c d. (new_tsb 4)\<lparr>forwarder_at := f, spsc := q, waking := w, cancels := c, accepted := [frame], delivered := d\<rparr>"
  have raw: "pipeline_stage_step parse (?p b) (?p b')" if "internal_step b b'" for b b'
    using pipeline_stage_step.stage [OF stage_step.raw [OF unsynced_step.internal, of "?p b" b']] that
    by (simp add: new_pipeline_def)
  have fwd: "pipeline_stage_step parse (?p b) (?p b')" if "forward b = Some b'" for b b'
    using raw [OF internal_step.forward [OF that]] .
  have 0: "pipeline_stage_step parse (new_pipeline 4) ((new_pipeline 4)\<lparr>raw_buf := (new_tsb 4)\<lparr>forwarder_at := Waiting\<rparr>\<rparr>)"
    using pipeline_stage_step.stage [OF stage_step.raw [OF unsynced_step.internal [OF internal_step.forward], of "new_pipeline 4" "(new_tsb 4)\<lparr>forwarder_at := Waiting\<rparr>"]]
    by (simp add: new_pipeline_def new_tsb_def forward_def)
  have 1: "pipeline_stage_step parse ((new_pipeline 4)\<lparr>raw_buf := (new_tsb 4)\<lparr>forwarder_at := Waiting\<rparr>\<rparr>) (?p (?b Waiting [frame] True 0 []))"
    using pipeline_stage_step.frame [of "(new_pipeline 4)\<lparr>raw_buf := (new_tsb 4)\<lparr>forwarder_at := Waiting\<rparr>\<rparr>" parse frame]
    by (simp add: net_frame_def new_pipeline_def new_tsb_def tsb_push_def)
  have 2: "pipeline_stage_step parse (?p (?b Waiting [frame] True 0 [])) (?p (?b Waiting [frame] False 1 []))"
    using raw [OF internal_step.post, of "?b Waiting [frame] True 0 []"] by (simp add: wake_def new_tsb_def)
  have 3: "pipeline_stage_step parse (?p (?b Waiting [frame] False 1 [])) (?p (?b Ready [frame] False 0 []))"
    using raw [OF internal_step.cancel, of "?b Waiting [frame] False 1 []"] by (simp add: run_cancel_def new_tsb_def)
  have 4: "pipeline_stage_step parse (?p (?b Ready [frame] False 0 [])) (?p (?b Draining [frame] False 0 []))"
    by (rule fwd) (simp add: forward_def new_tsb_def)
  have 5: "pipeline_stage_step parse (?p (?b Draining [frame] False 0 [])) (?p (?b (Writing frame) [] False 0 []))"
    by (rule fwd) (simp add: forward_def new_tsb_def)
  have 6: "pipeline_stage_step parse (?p (?b (Writing frame) [] False 0 [])) (?p (?b Draining [] False 0 [frame]))"
    by (rule fwd) (simp add: forward_def new_tsb_def)
  have 7: "pipeline_stage_step parse (?p (?b Draining [] False 0 [frame])) (?p (?b Checking [] False 0 [frame]))"
    by (rule fwd) (simp add: forward_def new_tsb_def)
  have 8: "pipeline_stage_step parse (?p (?b Checking [] False 0 [frame])) (?p (?b Rearm [] False 0 [frame]))"
    by (rule fwd) (simp add: forward_def new_tsb_def)
  have "?b Rearm [] False 0 [frame] = after_first_frame frame" by (simp add: after_first_frame_def new_tsb_def)
  with reach_more [OF reach_more [OF reach_more [OF reach_more [OF reach_more [OF reach_more [OF reach_more [OF reach_more
      [OF reach_more [OF reach_start 0] 1] 2] 3] 4] 5] 6] 7] 8]
  show ?thesis by simp
qed

text \<open>
  C18: the stages of the pipelined order book can hang. The wake-up posted by the close of the raw
  buffer may run on the network thread just after the forwarder, on the parser thread, has looked at
  the flag: the pipeline reaches a state, with a frame already handled normally and the network stage
  ended, from which in every continuation the parser and the event buffer never finish, so the run
  of the order book never returns.
\<close>

theorem pipeline_may_hang:
  "\<exists>s. (pipeline_stage_step parse)\<^sup>*\<^sup>* (new_pipeline 4) s \<and> \<not> net_open s \<and> delivered (raw_buf s) = [frame] \<and>
     (\<forall>s'. (pipeline_stage_step parse)\<^sup>*\<^sup>* s s' \<longrightarrow> parser s' \<noteq> Parser_done \<and> forwarder_at (event_buf s') \<noteq> Done)"
proof -
  let ?p = "\<lambda>b. (new_pipeline 4)\<lparr>raw_buf := b, received := [frame], net_open := False\<rparr>"
  let ?b = "\<lambda>f w c. (after_first_frame frame)\<lparr>forwarder_at := f, closed := True, waking := w, cancels := c\<rparr>"
  have raw: "pipeline_stage_step parse (?p b) (?p b')" if "unsynced_step b b'" for b b'
    using pipeline_stage_step.stage [OF stage_step.raw, of "?p b" b'] that by (simp add: new_pipeline_def)
  have 1: "pipeline_stage_step parse ((new_pipeline 4)\<lparr>raw_buf := after_first_frame frame, received := [frame]\<rparr>) (?p (?b Rearm True 0))"
    using pipeline_stage_step.net_end [of "(new_pipeline 4)\<lparr>raw_buf := after_first_frame frame, received := [frame]\<rparr>" parse]
    by (simp add: net_end_def tsb_close_def new_pipeline_def after_first_frame_def new_tsb_def)
  have 2: "pipeline_stage_step parse (?p (?b Rearm True 0)) (?p (?b Rearm False 1))"
    using raw [OF unsynced_step.internal [OF internal_step.post], of "?b Rearm True 0"]
    by (simp add: wake_def after_first_frame_def new_tsb_def)
  have 3: "pipeline_stage_step parse (?p (?b Rearm False 1)) (?p (?b Rearm False 0))"
    using raw [OF unsynced_step.early_cancel, of "?b Rearm False 1"]
    by (simp add: run_cancel_def after_first_frame_def new_tsb_def)
  have 4: "pipeline_stage_step parse (?p (?b Rearm False 0)) (?p (?b Waiting False 0))"
    using raw [OF unsynced_step.internal [OF internal_step.forward], of "?b Rearm False 0" "?b Waiting False 0"]
    by (simp add: forward_def after_first_frame_def new_tsb_def)
  let ?s = "?p (?b Waiting False 0)"
  have reach: "(pipeline_stage_step parse)\<^sup>*\<^sup>* (new_pipeline 4) ?s"
    using reach_more [OF reach_more [OF reach_more [OF reach_more [OF first_frame_reached 1] 2] 3] 4] .
  have hung: "hung ?s" by (simp add: hung_def new_pipeline_def after_first_frame_def new_tsb_def)
  have "parser s' \<noteq> Parser_done \<and> forwarder_at (event_buf s') \<noteq> Done"
    if run: "(pipeline_stage_step parse)\<^sup>*\<^sup>* ?s s'" for s'
  proof -
    have "pipeline_inv parse s'" using reach_pipeline_inv [OF rtranclp_trans [OF reach run] new_pipeline_inv] .
    moreover have "parser s' \<noteq> Parser_done" using hung_forever [OF run hung] by (simp add: hung_def)
    ultimately show ?thesis by (auto simp: pipeline_inv_def parser_inv_def fifo_inv_def)
  qed
  with reach show ?thesis
    by (intro exI [of _ ?s]) (simp add: new_pipeline_def after_first_frame_def)
qed

theorem pipeline_may_hang_witness:
  "\<exists>s. (pipeline_stage_step (\<lambda>_. success (7 :: int)))\<^sup>*\<^sup>* (new_pipeline 4) s \<and> \<not> net_open s \<and>
     delivered (raw_buf s) = [''{}''] \<and> parser s \<noteq> Parser_done"
  using pipeline_may_hang [of "\<lambda>_. success (7 :: int)" "''{}''"] by blast

end
