(* ===== verification/User_Stream.thy ===== *)
theory User_Stream
  imports Requests Pipeline_Stages
begin

text \<open>
  The user data stream apart from its generator, \<^verbatim>\<open>streams/user_stream.hpp\<close>: the calls that connect,
  read and close, and the coroutine that keeps the listen key alive through the REST service. A turn
  of that coroutine gives the flag before and after its wait, whether the wait completed, and the
  clock and the network of the request it may make.
\<close>

record user_stream =
  us_conn :: stream_connection
  keepalive_interval :: int
  keepalive_running :: bool
  keepalive_loops :: nat

definition new_user_stream :: "config \<Rightarrow> stream_consumer \<Rightarrow> user_stream" where
  "new_user_stream cfg consumer =
     \<lparr>us_conn = new_stream_connection cfg consumer, keepalive_interval = 0, keepalive_running = False, keepalive_loops = 0\<rparr>"

text \<open>Enabling spawns a loop each time; stopping clears the flag and then waits for the last loop spawned.\<close>

definition enable_keepalive :: "int \<Rightarrow> user_stream \<Rightarrow> user_stream" where
  "enable_keepalive interval s =
     s\<lparr>keepalive_interval := interval, keepalive_running := True, keepalive_loops := keepalive_loops s + 1\<rparr>"

definition stop_keepalive :: "user_stream \<Rightarrow> user_stream" where
  "stop_keepalive s = s\<lparr>keepalive_running := False\<rparr>"

definition us_async_connect :: "connect_script \<Rightarrow> user_stream \<Rightarrow> error \<times> user_stream" where
  "us_async_connect sc s =
     (let (e, c) = connection_connect sc (stream_host (sc_cfg (us_conn s))) (stream_port (sc_cfg (us_conn s))) (us_conn s)
      in (e, s\<lparr>us_conn := c\<rparr>))"

definition us_async_read_event ::
  "(user_event_type_t \<Rightarrow> string \<Rightarrow> 'v option) \<Rightarrow> string + string \<Rightarrow> user_stream \<Rightarrow> ('v result \<times> user_stream) may_throw" where
  "us_async_read_event read_as outcome s =
     bind_exn (connection_read outcome (us_conn s)) (\<lambda>(msg, c).
       let s = s\<lparr>us_conn := c\<rparr> in
       if \<not> is_ok msg then Inr (failure (err msg), s)
       else bind_exn (deref msg) (\<lambda>frame. Inr (parse_user_event read_as frame, s)))"

definition us_async_close :: "string + unit \<Rightarrow> user_stream \<Rightarrow> error \<times> user_stream" where
  "us_async_close outcome s = (let (e, c) = connection_close outcome (us_conn s) in (e, s\<lparr>us_conn := c\<rparr>))"

record keepalive_turn =
  running_before :: bool
  wait_ok :: bool
  running_after :: bool
  turn_clock :: timestamp_ms_t
  turn_net :: net_script

definition keepalive_trait :: endpoint_trait where
  "keepalive_trait = mk_trait ''listen_key_response_t'' Rest_user_data_stream keepalive_listen_key_endpoint"

fun keepalive_loop ::
  "'k openssl \<Rightarrow> (http_response \<Rightarrow> 'r result) \<Rightarrow> config \<Rightarrow> keepalive_turn list \<Rightarrow> http_client \<Rightarrow> (bool \<times> http_client) may_throw" where
  "keepalive_loop ossl decode cfg [] c = Inr (False, c)"
| "keepalive_loop ossl decode cfg (t # turns) c =
     (if \<not> running_before t then Inr (True, c)
      else if \<not> wait_ok t \<or> \<not> running_after t then Inr (True, c)
      else bind_exn (execute_request ossl decode cfg (turn_clock t) (turn_net t) keepalive_trait [] c)
        (\<lambda>(ignored, c). keepalive_loop ossl decode cfg turns c))"

section \<open>Properties\<close>

definition keepalive_wire_request :: "config \<Rightarrow> config \<Rightarrow> wire_request" where
  "keepalive_wire_request client_config cfg =
     make_request client_config Verb_put (rest_base_path cfg @ ''/fapi/v1/listenKey'') [] ''application/x-www-form-urlencoded'' (api_key cfg)"

lemma keepalive_sends:
  assumes "client_ok c"
  shows "\<exists>r c' n. execute_request ossl decode cfg now net keepalive_trait [] c = Inr (r, c') \<and> client_ok c' \<and>
    client_cfg c' = client_cfg c \<and> n \<le> 2 \<and> attempts c' = attempts c @ replicate n (keepalive_wire_request (client_cfg c) cfg)"
proof -
  let ?e = "trait_endpoint keepalive_trait"
  have e: "ep_verb ?e = Verb_put" "ep_path ?e = ''/fapi/v1/listenKey''" "\<not> ep_signed_request ?e"
    by (simp_all add: keepalive_trait_def mk_trait_def keepalive_listen_key_endpoint_def mk_endpoint_def)
  have q: "to_query_map [] = Inr []" by (simp add: to_query_map_def)
  have "place_query cfg Verb_put ''/fapi/v1/listenKey'' [] = (rest_base_path cfg @ ''/fapi/v1/listenKey'', [])"
    by (simp add: place_query_def build_query_string_def)
  with unsigned_request_sends [OF assms e(3) q, of ossl decode cfg now net] show ?thesis
    by (auto simp: e(1,2) keepalive_wire_request_def)
qed

text \<open>
  The keepalive coroutine only ever sends the unsigned keepalive request, at most twice per
  interval, goes on whatever the answers are, and makes no request after the flag was cleared.
\<close>

lemma keepalive_loop_sends:
  assumes "client_ok c"
  shows "\<exists>ended c' n. keepalive_loop ossl decode cfg turns c = Inr (ended, c') \<and> client_ok c' \<and>
    n \<le> 2 * length (takeWhile (\<lambda>t. running_before t \<and> wait_ok t \<and> running_after t) turns) \<and>
    (ended \<longleftrightarrow> list_ex (\<lambda>t. \<not> (running_before t \<and> wait_ok t \<and> running_after t)) turns) \<and>
    attempts c' = attempts c @ replicate n (keepalive_wire_request (client_cfg c) cfg)"
  using assms
proof (induction turns arbitrary: c)
  case (Cons t turns)
  show ?case
  proof (cases "running_before t \<and> wait_ok t \<and> running_after t")
    case True
    obtain r c1 n where 1: "execute_request ossl decode cfg (turn_clock t) (turn_net t) keepalive_trait [] c = Inr (r, c1)"
      "client_ok c1" "client_cfg c1 = client_cfg c" "n \<le> 2" "attempts c1 = attempts c @ replicate n (keepalive_wire_request (client_cfg c) cfg)"
      using keepalive_sends [OF Cons.prems] by blast
    from Cons.IH [OF 1(2)] obtain ended c' m where "keepalive_loop ossl decode cfg turns c1 = Inr (ended, c')" "client_ok c'"
      "m \<le> 2 * length (takeWhile (\<lambda>t. running_before t \<and> wait_ok t \<and> running_after t) turns)"
      "ended \<longleftrightarrow> list_ex (\<lambda>t. \<not> (running_before t \<and> wait_ok t \<and> running_after t)) turns"
      "attempts c' = attempts c1 @ replicate m (keepalive_wire_request (client_cfg c1) cfg)" by blast
    with True 1 show ?thesis
      by (intro exI [of _ ended] exI [of _ c'] exI [of _ "n + m"]) (simp add: replicate_add)
  qed (use Cons.prems in auto)
qed auto

text \<open>A read of the user stream returns what the generator would yield for the frame, or the read error.\<close>

lemma read_event_eq:
  "wst_stream (sc_transport (us_conn s)) \<Longrightarrow>
   \<exists>s'. us_async_read_event read_as outcome s =
     Inr (case outcome of Inl what \<Rightarrow> failure (ws_error_of what) | Inr frame \<Rightarrow> parse_user_event read_as frame, s')"
  by (cases outcome) (auto simp: us_async_read_event_def connection_read_def ws_async_read_def ws_error_of_def Let_def)

end
