(* ===== verification/Recorders.thy ===== *)
theory Recorders
  imports Stream_Buffers
begin

text \<open>
  The stream recorders and their file sinks: \<^verbatim>\<open>streams/detail/sinks/rotating_file_sink.hpp\<close> and
  \<^verbatim>\<open>file_sink.hpp\<close>, \<^verbatim>\<open>async_stream_recorder.hpp\<close>, \<^verbatim>\<open>threaded_stream_recorder.hpp\<close>. The file system is part
  of the state of a sink: the contents of each path, the segments opened, those synced and closed, and
  those handed to the compressor. The clocks and the outcome of each system call are inputs.
\<close>

section \<open>Segment names\<close>

definition zeros_to :: "nat \<Rightarrow> nat \<Rightarrow> string" where
  "zeros_to width n = replicate (width - length (dec_digits n)) CHR ''0'' @ dec_digits n"

text \<open>\<^verbatim>\<open>snprintf\<close> into a buffer of 16 characters.\<close>

definition zero_pad :: "nat \<Rightarrow> nat \<Rightarrow> string" where
  "zero_pad n width = take 15 (zeros_to width n)"

text \<open>The broken-down time of \<^verbatim>\<open>gmtime_r\<close>, with the milliseconds.\<close>

record utc_time =
  tm_year :: nat
  tm_mon :: nat
  tm_mday :: nat
  tm_hour :: nat
  tm_min :: nat
  tm_sec :: nat
  tm_ms :: nat

definition now_timestamp :: "utc_time \<Rightarrow> string" where
  "now_timestamp tm = take 47
     (zeros_to 4 (tm_year tm + 1900) @ zeros_to 2 (tm_mon tm + 1) @ zeros_to 2 (tm_mday tm) @ ''T'' @
      zeros_to 2 (tm_hour tm) @ zeros_to 2 (tm_min tm) @ zeros_to 2 (tm_sec tm) @ ''.'' @ zeros_to 3 (tm_ms tm) @ ''Z'')"

definition utc_ok :: "utc_time \<Rightarrow> bool" where
  "utc_ok tm \<longleftrightarrow> tm_year tm + 1900 < 10000 \<and> tm_mon tm < 12 \<and> tm_mday tm < 32 \<and> tm_hour tm < 24 \<and>
     tm_min tm < 60 \<and> tm_sec tm \<le> 60 \<and> tm_ms tm < 1000"

section \<open>The rotating file sink\<close>

record rotating_file_sink_config =
  rfs_dir :: string
  rfs_basename :: string
  rfs_extension :: string
  rfs_max_size_bytes :: u64
  rfs_max_seconds :: u64
  rfs_compress :: bool

record rotating_file_sink =
  rs_cfg :: rotating_file_sink_config
  rs_ctx :: bool
  rs_file :: bool
  current_path :: string
  current_bytes :: u64
  segment_open_at :: int
  rotations :: u64
  children :: "int list"
  files :: "string \<rightharpoonup> string"
  opened :: "string list"
  finished_segments :: "string list"
  compressing :: "string list"

text \<open>
  What a call meets: the steady clock in nanoseconds when it is tested and when a segment is opened, the
  time for the name, whether opening succeeds, after how many bytes a write fails, the process id of a compressor that could be
  started, and the children that have exited.
\<close>

record sink_env =
  steady_now :: int
  steady_open :: int
  utc_now :: utc_time
  open_ok :: bool
  write_fails :: "nat option"
  spawned :: "int option"
  exited :: "int list"

text \<open>\<^verbatim>\<open>std::filesystem::path::operator/\<close>: an absolute right operand replaces the left one.\<close>

definition path_prefix :: "string \<Rightarrow> string \<Rightarrow> string" where
  "path_prefix dir name =
     (if name \<noteq> [] \<and> hd name = CHR ''/'' then []
      else if dir = [] \<or> last dir = CHR ''/'' then dir else dir @ ''/'')"

definition segment_path :: "rotating_file_sink_config \<Rightarrow> string \<Rightarrow> nat \<Rightarrow> string" where
  "segment_path cfg stamp n =
     path_prefix (rfs_dir cfg) (rfs_basename cfg) @
     rfs_basename cfg @ ''.'' @ stamp @ ''.'' @ zero_pad n 4 @ rfs_extension cfg"

text \<open>The first component says that an exception was thrown; the state has changed up to that point.\<close>

definition open_new_segment :: "sink_env \<Rightarrow> rotating_file_sink \<Rightarrow> bool \<times> rotating_file_sink" where
  "open_new_segment env s =
     (let path = segment_path (rs_cfg s) (now_timestamp (utc_now env)) (unat (rotations s));
          s = s\<lparr>current_path := path\<rparr>
      in if \<not> open_ok env then (True, s)
         else (False, s\<lparr>rs_file := True, files := (files s)(path \<mapsto> []), opened := opened s @ [path],
                current_bytes := 0, segment_open_at := steady_open env\<rparr>))"

definition spawn_zstd :: "sink_env \<Rightarrow> string \<Rightarrow> rotating_file_sink \<Rightarrow> rotating_file_sink" where
  "spawn_zstd env path s =
     (case spawned env of
        Some pid \<Rightarrow> s\<lparr>children := children s @ [pid], compressing := compressing s @ [path]\<rparr>
      | None \<Rightarrow> s)"

definition reap_children_nonblocking :: "sink_env \<Rightarrow> rotating_file_sink \<Rightarrow> rotating_file_sink" where
  "reap_children_nonblocking env s = s\<lparr>children := filter (\<lambda>pid. pid \<notin> set (exited env)) (children s)\<rparr>"

definition reap_children_blocking :: "rotating_file_sink \<Rightarrow> rotating_file_sink" where
  "reap_children_blocking s = s\<lparr>children := []\<rparr>"

definition should_rotate :: "sink_env \<Rightarrow> u64 \<Rightarrow> rotating_file_sink \<Rightarrow> bool" where
  "should_rotate env pending s \<longleftrightarrow>
     \<not> rs_file s \<or> current_bytes s + pending > rfs_max_size_bytes (rs_cfg s) \<or>
     rfs_max_seconds (rs_cfg s) > 0 \<and>
       word_of_int (cpp_div (steady_now env - segment_open_at s) 1000000000) \<ge> rfs_max_seconds (rs_cfg s)"

definition rotate_sink :: "sink_env \<Rightarrow> rotating_file_sink \<Rightarrow> bool \<times> rotating_file_sink" where
  "rotate_sink env s =
     (let s = (if rs_file s then
                 let path = current_path s;
                     s = s\<lparr>rs_file := False, rotations := rotations s + 1, finished_segments := finished_segments s @ [path]\<rparr>;
                     s = (if rfs_compress (rs_cfg s) then spawn_zstd env path s else s)
                 in reap_children_nonblocking env s
               else s)
      in open_new_segment env s)"

definition line_of :: "string \<Rightarrow> string" where
  "line_of frame = frame @ [CHR 0x0A]"

text \<open>A write that fails has written a part of its bytes.\<close>

definition write_to :: "string \<Rightarrow> nat option \<Rightarrow> string \<Rightarrow> (string \<rightharpoonup> string) \<Rightarrow> bool \<times> (string \<rightharpoonup> string)" where
  "write_to path fails bytes fs =
     (case fails of
        None \<Rightarrow> (False, fs(path \<mapsto> the (fs path) @ bytes))
      | Some k \<Rightarrow> (True, fs(path \<mapsto> the (fs path) @ take k bytes)))"

definition sink_call :: "sink_env \<Rightarrow> string \<Rightarrow> rotating_file_sink \<Rightarrow> bool \<times> rotating_file_sink" where
  "sink_call env frame s =
     (let line = line_of frame;
          (threw, s) = (if should_rotate env (of_nat (length line)) s then rotate_sink env s else (False, s))
      in if threw then (True, s)
         else
           let (threw, fs) = write_to (current_path s) (write_fails env) line (files s);
               s = s\<lparr>files := fs\<rparr>
           in if threw then (True, s) else (False, s\<lparr>current_bytes := current_bytes s + of_nat (length line)\<rparr>))"

definition new_rotating_sink :: "rotating_file_sink_config \<Rightarrow> (string \<rightharpoonup> string) \<Rightarrow> sink_env \<Rightarrow> bool \<times> rotating_file_sink" where
  "new_rotating_sink cfg fs env =
     open_new_segment env
       \<lparr>rs_cfg = cfg, rs_ctx = True, rs_file = False, current_path = [], current_bytes = 0, segment_open_at = 0, rotations = 0,
        children = [], files = fs, opened = [], finished_segments = [], compressing = []\<rparr>"

text \<open>Moving a sink leaves an object whose destructor does nothing.\<close>

definition moved_from :: "rotating_file_sink \<Rightarrow> rotating_file_sink" where
  "moved_from s = s\<lparr>rs_ctx := False, rs_file := False, current_path := [], current_bytes := 0, rotations := 0, children := []\<rparr>"

definition destroy_sink :: "sink_env \<Rightarrow> rotating_file_sink \<Rightarrow> rotating_file_sink" where
  "destroy_sink env s =
     (if \<not> rs_ctx s then s
      else
        let s = (if rs_file s then
                   let s = s\<lparr>rs_file := False, finished_segments := finished_segments s @ [current_path s]\<rparr> in
                   if rfs_compress (rs_cfg s) \<and> current_path s \<noteq> [] \<and> files s (current_path s) \<noteq> None
                   then spawn_zstd env (current_path s) s else s
                 else s)
        in reap_children_blocking s)"

text \<open>The plain file sink: one file, opened at construction.\<close>

record file_sink =
  fs_path :: string
  fs_files :: "string \<rightharpoonup> string"

definition new_file_sink :: "string \<Rightarrow> (string \<rightharpoonup> string) \<Rightarrow> file_sink" where
  "new_file_sink path fs = \<lparr>fs_path = path, fs_files = fs(path \<mapsto> [])\<rparr>"

definition file_sink_call :: "nat option \<Rightarrow> string \<Rightarrow> file_sink \<Rightarrow> bool \<times> file_sink" where
  "file_sink_call fails frame s =
     (let (threw, fs) = write_to (fs_path s) fails (line_of frame) (fs_files s) in (threw, s\<lparr>fs_files := fs\<rparr>))"

section \<open>Recorders\<close>

text \<open>
  Each stream has a buffer and a sink; its drain coroutine reads until the channel is closed and hands
  every frame to the sink. A sink that throws ends its drain. \<open>put\<close> is the call operator of the sink,
  with what it meets beside each read. The result says whether the drain has ended and whether it threw.
\<close>

fun drain_one ::
  "('env \<Rightarrow> string \<Rightarrow> 's \<Rightarrow> bool \<times> 's) \<Rightarrow> ('env \<times> string chan_read) list \<Rightarrow> consumer \<times> 's \<Rightarrow> (bool \<times> bool) \<times> consumer \<times> 's" where
  "drain_one put [] (c, s) = ((False, False), c, s)"
| "drain_one put ((env, r) # reads) (c, s) =
     (let (rv, c) = buffer_async_read r c in
      case result_value rv of
        None \<Rightarrow> ((True, False), c, s)
      | Some frame \<Rightarrow>
          let (threw, s) = put env frame s in
          if threw then ((True, True), c, s) else drain_one put reads (c, s))"

type_synonym 's recorder = "(consumer \<times> 's) list"

definition add_stream :: "'s \<Rightarrow> 's recorder \<Rightarrow> 's recorder" where
  "add_stream sink streams = streams @ [(\<lparr>drained_total = 0\<rparr>, sink)]"

text \<open>The drains of the threaded recorder are spawned apart; none stops another.\<close>

definition run_drains ::
  "('env \<Rightarrow> string \<Rightarrow> 's \<Rightarrow> bool \<times> 's) \<Rightarrow> ('env \<times> string chan_read) list list \<Rightarrow> 's recorder \<Rightarrow>
   ((bool \<times> bool) \<times> consumer \<times> 's) list" where
  "run_drains put reads streams = map2 (drain_one put) reads streams"

text \<open>
  The futures of the spawned coroutines: \<open>None\<close> is one that is no longer valid, \<open>Some\<close> says whether the
  coroutine threw. \<open>f.get()\<close> invalidates the future and rethrows, which leaves the later ones unread.
\<close>

fun stop_futures :: "bool option list \<Rightarrow> bool \<times> bool option list" where
  "stop_futures [] = (False, [])"
| "stop_futures (None # fs) = (let (threw, fs) = stop_futures fs in (threw, None # fs))"
| "stop_futures (Some True # fs) = (True, None # fs)"
| "stop_futures (Some False # fs) = (let (threw, fs) = stop_futures fs in (threw, None # fs))"

text \<open>The destructor calls \<^verbatim>\<open>stop()\<close>; an exception that leaves a destructor ends the program.\<close>

definition destructor_terminates :: "bool option list \<Rightarrow> bool" where
  "destructor_terminates futures = fst (stop_futures futures)"

section \<open>Names are distinct\<close>

lemma digits_val_zeros_to [simp]: "digits_val (zeros_to w n) = n"
  by (simp add: zeros_to_def digits_val_append)

lemma length_zeros_to: "n < 10 ^ w \<Longrightarrow> 0 < w \<Longrightarrow> length (zeros_to w n) = w"
  using length_dec_digits [of n w] by (simp add: zeros_to_def)

lemma zero_pad_inject:
  assumes "m < 10 ^ 15" "n < 10 ^ 15" "zero_pad m 4 = zero_pad n 4"
  shows "m = n"
proof -
  have whole: "zero_pad k 4 = zeros_to 4 k" if "k < 10 ^ 15" for k
    using length_dec_digits [OF that] by (simp add: zero_pad_def zeros_to_def)
  have "digits_val (zeros_to 4 m) = digits_val (zeros_to 4 n)"
    using assms whole by simp
  then show ?thesis by simp
qed

lemma length_now_timestamp: "utc_ok tm \<Longrightarrow> length (now_timestamp tm) = 20"
  by (simp add: utc_ok_def now_timestamp_def length_zeros_to)

lemma segment_path_inject:
  assumes "segment_path cfg st m = segment_path cfg st' n"
    and "length st = 20" "length st' = 20" "m < 10 ^ 15" "n < 10 ^ 15"
  shows "m = n"
  using assms zero_pad_inject [of m n] by (simp add: segment_path_def)

text \<open>The segments of a sink carry their index in their name.\<close>

definition segments_named :: "rotating_file_sink_config \<Rightarrow> string list \<Rightarrow> bool" where
  "segments_named cfg ps \<longleftrightarrow> (\<forall>i<length ps. \<exists>st. length st = 20 \<and> ps ! i = segment_path cfg st i)"

lemma segments_named_snoc:
  "segments_named cfg ps \<Longrightarrow> length st = 20 \<Longrightarrow> segments_named cfg (ps @ [segment_path cfg st (length ps)])"
  by (auto simp: segments_named_def nth_append less_Suc_eq)

lemma segments_named_distinct:
  assumes named: "segments_named cfg ps" and "length ps \<le> 10 ^ 15"
  shows "distinct ps"
  unfolding distinct_conv_nth
proof (intro allI impI notI)
  fix i j
  assume ij: "i < length ps" "j < length ps" "i \<noteq> j" and eq: "ps ! i = ps ! j"
  obtain st st' where "length st = 20" "ps ! i = segment_path cfg st i"
    "length st' = 20" "ps ! j = segment_path cfg st' j"
    using named ij unfolding segments_named_def by blast
  then have "i = j" using eq ij assms(2) segment_path_inject [of cfg st i st' j] by simp
  with ij show False by simp
qed

section \<open>What a sink keeps\<close>

text \<open>
  The contract of a sink as a recorder sees it: after a call that meets no failure the sink holds one
  line more. \<open>holds lines s\<close> relates the lines handed over so far to the state.
\<close>

locale frame_sink =
  fixes put :: "'env \<Rightarrow> string \<Rightarrow> 's \<Rightarrow> bool \<times> 's"
    and holds :: "string list \<Rightarrow> 's \<Rightarrow> bool"
    and fits :: "string list \<Rightarrow> bool"
    and good :: "'env \<Rightarrow> bool"
  assumes put_holds: "holds fr s \<Longrightarrow> fits (fr @ [f]) \<Longrightarrow> good env \<Longrightarrow> \<exists>s'. put env f s = (False, s') \<and> holds (fr @ [f]) s'"
    and fits_prefix: "fits (fr @ fr') \<Longrightarrow> fits fr"
begin

lemma drain_frames:
  assumes "holds fr s" "fits (fr @ map snd calls)" "\<forall>env\<in>fst ` set calls. good env"
  shows "\<exists>s'. drain_one put (map (\<lambda>(env, f). (env, Read_item f)) calls @ [(env, Read_closed)]) (c, s) =
           ((True, False), c\<lparr>drained_total := drained_total c + of_nat (length calls)\<rparr>, s') \<and>
         holds (fr @ map snd calls) s'"
  using assms
proof (induction calls arbitrary: fr s c)
  case Nil
  then show ?case by (simp add: buffer_async_read_def failure_def)
next
  case (Cons call calls)
  obtain e f where call: "call = (e, f)" by (cases call)
  have fits: "fits ((fr @ [f]) @ map snd calls)" using Cons.prems(2) call by simp
  obtain s' where put: "put e f s = (False, s')" and h: "holds (fr @ [f]) s'"
    using put_holds [OF Cons.prems(1) fits_prefix [OF fits], of e] Cons.prems(3) call by auto
  show ?case
    using Cons.IH [OF h fits, of "c\<lparr>drained_total := drained_total c + 1\<rparr>"] Cons.prems(3) call put
    by (simp add: buffer_async_read_def success_def ac_simps)
qed

end

text \<open>The plain file holds every line.\<close>

definition file_holds :: "string list \<Rightarrow> file_sink \<Rightarrow> bool" where
  "file_holds fr s \<longleftrightarrow> fs_files s (fs_path s) = Some (concat (map line_of fr))"

interpretation plain: frame_sink file_sink_call file_holds "\<lambda>_. True" "\<lambda>fails. fails = None"
  by unfold_locales (auto simp: file_sink_call_def write_to_def file_holds_def)

lemma new_file_sink_holds: "file_holds [] (new_file_sink path fs)"
  by (simp add: file_holds_def new_file_sink_def)

text \<open>
  The rotating sink: the segments opened so far hold the lines in order; all but the last are finished;
  names carry the rotation count; no segment exceeds the limit unless it is one line alone.
\<close>

definition segment_data :: "rotating_file_sink \<Rightarrow> string \<Rightarrow> string" where
  "segment_data s p = (case files s p of Some d \<Rightarrow> d | None \<Rightarrow> [])"

definition within_limit :: "rotating_file_sink_config \<Rightarrow> string list \<Rightarrow> string \<Rightarrow> bool" where
  "within_limit cfg fr d \<longleftrightarrow> length d \<le> unat (rfs_max_size_bytes cfg) \<or> d \<in> line_of ` set fr"

definition sink_opened :: "rotating_file_sink_config \<Rightarrow> string list \<Rightarrow> rotating_file_sink \<Rightarrow> bool" where
  "sink_opened cfg fr s \<longleftrightarrow> rs_ctx s \<and> rs_file s \<and> rs_cfg s = cfg \<and>
     length (opened s) = unat (rotations s) + 1 \<and> length (opened s) \<le> length fr + 1 \<and>
     segments_named cfg (opened s) \<and> finished_segments s @ [current_path s] = opened s \<and>
     set (compressing s) \<subseteq> set (finished_segments s)"

definition sink_data :: "rotating_file_sink_config \<Rightarrow> string list \<Rightarrow> rotating_file_sink \<Rightarrow> bool" where
  "sink_data cfg fr s \<longleftrightarrow> set (opened s) \<subseteq> dom (files s) \<and>
     concat (map (segment_data s) (opened s)) = concat (map line_of fr) \<and>
     (\<forall>p\<in>set (opened s). within_limit cfg fr (segment_data s p)) \<and>
     current_bytes s = of_nat (length (segment_data s (current_path s)))"

definition sink_holds :: "rotating_file_sink_config \<Rightarrow> string list \<Rightarrow> rotating_file_sink \<Rightarrow> bool" where
  "sink_holds cfg fr s \<longleftrightarrow> sink_opened cfg fr s \<and> sink_data cfg fr s"

definition sink_fits :: "string list \<Rightarrow> bool" where
  "sink_fits fr \<longleftrightarrow> length (concat (map line_of fr)) < 2 ^ 64 \<and> length fr < 10 ^ 15"

definition sink_good :: "sink_env \<Rightarrow> bool" where
  "sink_good env \<longleftrightarrow> open_ok env \<and> write_fails env = None \<and> utc_ok (utc_now env)"

text \<open>A rotation opens an empty segment under a fresh name.\<close>

lemma rotate_sink_opens:
  assumes good: "sink_good env" and s: "sink_opened cfg fr s" and "length fr < 10 ^ 15 - 1"
  obtains s' path where "rotate_sink env s = (False, s')" "path \<notin> set (opened s)"
    "opened s' = opened s @ [path]" "current_path s' = path" "files s' = (files s)(path \<mapsto> [])"
    "current_bytes s' = 0" "sink_opened cfg (fr @ [f]) s'"
proof -
  define path where "path = segment_path cfg (now_timestamp (utc_now env)) (length (opened s))"
  have len: "length (now_timestamp (utc_now env)) = 20"
    using good by (simp add: sink_good_def length_now_timestamp)
  have n: "unat (rotations s + 1) = length (opened s)"
    using s assms(3) by (auto simp: sink_opened_def unat_word_ariths)
  have named: "segments_named cfg (opened s @ [path])"
    using s len segments_named_snoc [of cfg "opened s"] by (simp add: sink_opened_def path_def del: One_nat_def)
  then have fresh: "path \<notin> set (opened s)"
    using segments_named_distinct [OF named] s assms(3) by (simp add: sink_opened_def)
  have "opened s = finished_segments s @ [current_path s]" using s by (simp add: sink_opened_def)
  then have all: "set (opened s) = insert (current_path s) (set (finished_segments s))" by simp
  define s' where "s' = snd (rotate_sink env s)"
  have facts: "rotate_sink env s = (False, s')" "opened s' = opened s @ [path]" "current_path s' = path"
    "files s' = (files s)(path \<mapsto> [])" "current_bytes s' = 0"
    using good s n
    by (simp_all add: s'_def path_def sink_good_def sink_opened_def rotate_sink_def open_new_segment_def spawn_zstd_def
        reap_children_nonblocking_def Let_def split: option.splits)
  have rest: "rs_ctx s'" "rs_file s'" "rs_cfg s' = cfg" "rotations s' = rotations s + 1"
    "finished_segments s' = opened s" "set (compressing s') \<subseteq> set (finished_segments s')"
    using good s all
    by (auto simp add: s'_def sink_good_def sink_opened_def rotate_sink_def open_new_segment_def spawn_zstd_def
        reap_children_nonblocking_def Let_def split: option.splits)
  have "sink_opened cfg (fr @ [f]) s'"
    using s n named facts rest unfolding sink_opened_def by simp
  then show thesis using that facts fresh by blast
qed

lemma segment_data_upd [simp]:
  "segment_data (s\<lparr>files := (files s)(p \<mapsto> d)\<rparr>) q = (if q = p then d else segment_data s q)"
  by (simp add: segment_data_def)

lemma segment_data_bytes [simp]: "segment_data (s\<lparr>current_bytes := b\<rparr>) = segment_data s"
  by (simp add: segment_data_def fun_eq_iff)

lemma sink_opened_upd [simp]:
  "sink_opened cfg fr (s\<lparr>files := fs\<rparr>) = sink_opened cfg fr s"
  "sink_opened cfg fr (s\<lparr>current_bytes := b\<rparr>) = sink_opened cfg fr s"
  by (simp_all add: sink_opened_def)

lemma sink_opened_more: "sink_opened cfg fr s \<Longrightarrow> sink_opened cfg (fr @ [f]) s"
  by (simp add: sink_opened_def)

lemma within_limit_more: "within_limit cfg fr d \<Longrightarrow> within_limit cfg (fr @ [f]) d"
  by (auto simp: within_limit_def)

lemma current_le_all:
  assumes "sink_opened cfg fr' s" "sink_data cfg fr s"
  shows "length (segment_data s (current_path s)) \<le> length (concat (map line_of fr))"
proof -
  have "opened s = finished_segments s @ [current_path s]" using assms(1) by (simp add: sink_opened_def)
  then have "concat (map line_of fr) =
      concat (map (segment_data s) (finished_segments s)) @ segment_data s (current_path s)"
    using assms(2) by (simp add: sink_data_def)
  then show ?thesis by (metis length_append le_add2)
qed

text \<open>After a rotation that was called for, or when none was, the line fits or the segment is empty.\<close>

definition segment_has_room :: "rotating_file_sink_config \<Rightarrow> nat \<Rightarrow> rotating_file_sink \<Rightarrow> bool" where
  "segment_has_room cfg n s \<longleftrightarrow> segment_data s (current_path s) = [] \<or>
     length (segment_data s (current_path s)) + n \<le> unat (rfs_max_size_bytes cfg)"

lemma sink_rotates:
  assumes o: "sink_opened cfg fr s" and d: "sink_data cfg fr s" and fits: "sink_fits (fr @ [f])" and good: "sink_good env"
  obtains s' where "(if should_rotate env (of_nat (length (line_of f))) s then rotate_sink env s else (False, s)) = (False, s')"
    "sink_opened cfg (fr @ [f]) s'" "sink_data cfg fr s'" "segment_has_room cfg (length (line_of f)) s'"
proof (cases "should_rotate env (of_nat (length (line_of f))) s")
  case True
  have small: "length fr < 10 ^ 15 - 1" using fits by (simp add: sink_fits_def)
  obtain s' path where s': "rotate_sink env s = (False, s')" "path \<notin> set (opened s)"
    "opened s' = opened s @ [path]" "current_path s' = path" "files s' = (files s)(path \<mapsto> [])"
    "current_bytes s' = 0" "sink_opened cfg (fr @ [f]) s'"
    using rotate_sink_opens [OF good o small] by blast
  have same: "segment_data s' p = (if p = path then [] else segment_data s p)" for p
    using s'(5) by (simp add: segment_data_def)
  have old: "map (segment_data s') (opened s) = map (segment_data s) (opened s)"
    using s'(2) by (auto simp: same)
  have "within_limit cfg fr []" by (simp add: within_limit_def)
  moreover have "concat (map (segment_data s') (opened s')) = concat (map line_of fr)"
    using d s'(3) by (simp add: old same sink_data_def)
  ultimately have "sink_data cfg fr s'"
    using d s'(3-6) unfolding sink_data_def by (auto simp: same)
  then show thesis using that True s' by (simp add: segment_has_room_def same)
next
  case False
  let ?d = "segment_data s (current_path s)"
  have bytes: "length ?d + length (line_of f) < 2 ^ 64"
    using current_le_all [OF o d] fits by (simp add: sink_fits_def)
  have "\<not> current_bytes s + of_nat (length (line_of f)) > rfs_max_size_bytes (rs_cfg s)"
    using False by (simp add: should_rotate_def)
  then have "of_nat (length ?d + length (line_of f)) \<le> rfs_max_size_bytes cfg"
    using o d by (simp add: sink_opened_def sink_data_def not_less)
  then have "length ?d + length (line_of f) \<le> unat (rfs_max_size_bytes cfg)"
    using bytes by (simp only: word_le_nat_alt unat_of_nat) simp
  then show thesis using that [of s] False o d by (simp add: segment_has_room_def sink_opened_more)
qed

lemma sink_writes:
  assumes o: "sink_opened cfg (fr @ [f]) s" and d: "sink_data cfg fr s" and room: "segment_has_room cfg (length (line_of f)) s"
    and small: "length fr < 10 ^ 15 - 1"
  shows "sink_data cfg (fr @ [f])
    (s\<lparr>files := (files s)(current_path s \<mapsto> the (files s (current_path s)) @ line_of f),
      current_bytes := current_bytes s + of_nat (length (line_of f))\<rparr>)" (is "sink_data _ _ ?s")
proof -
  let ?p = "current_path s"
  define t where "t = ?s"
  have parts: "opened s = finished_segments s @ [?p]" using o by (auto simp: sink_opened_def)
  then have "?p \<in> dom (files s)" using d by (simp add: sink_data_def)
  then have new: "segment_data t q = (if q = ?p then segment_data s ?p @ line_of f else segment_data s q)" for q
    by (auto simp: t_def segment_data_def)
  have t: "opened t = opened s" "current_path t = ?p" "dom (files s) \<subseteq> dom (files t)"
    "current_bytes t = current_bytes s + of_nat (length (line_of f))"
    by (auto simp: t_def)
  have "distinct (opened s)"
    using o small segments_named_distinct [of cfg "opened s"] by (simp add: sink_opened_def)
  then have "?p \<notin> set (finished_segments s)" by (simp add: parts)
  then have old: "map (segment_data t) (finished_segments s) = map (segment_data s) (finished_segments s)"
    by (auto simp: new)
  have "concat (map (segment_data t) (opened t)) = concat (map line_of (fr @ [f]))"
    using d by (simp add: sink_data_def parts new t(1) old flip: append_assoc)
  moreover have "within_limit cfg (fr @ [f]) (segment_data t q)" if "q \<in> set (opened s)" for q
    using room d that by (auto simp: segment_has_room_def new sink_data_def within_limit_more within_limit_def)
  ultimately have "sink_data cfg (fr @ [f]) t"
    using d t order_trans [of "set (opened s)" "dom (files s)" "dom (files t)"] by (simp add: sink_data_def new)
  then show ?thesis by (simp add: t_def)
qed

lemma sink_call_holds:
  assumes h: "sink_holds cfg fr s" and fits: "sink_fits (fr @ [f])" and good: "sink_good env"
  shows "\<exists>s'. sink_call env f s = (False, s') \<and> sink_holds cfg (fr @ [f]) s'"
proof -
  have o: "sink_opened cfg fr s" and d: "sink_data cfg fr s" using h by (simp_all add: sink_holds_def)
  obtain s' where s': "(if should_rotate env (of_nat (length (line_of f))) s then rotate_sink env s else (False, s)) = (False, s')"
    "sink_opened cfg (fr @ [f]) s'" "sink_data cfg fr s'" "segment_has_room cfg (length (line_of f)) s'"
    using sink_rotates [OF o d fits good] by blast
  have "length fr < 10 ^ 15 - 1" using fits by (simp add: sink_fits_def)
  note w = sink_writes [OF s'(2-4) this]
  show ?thesis
    using s'(2) w good
    by (simp add: sink_call_def s'(1) write_to_def Let_def sink_good_def sink_holds_def del: segment_data_upd)
qed

lemma new_rotating_sink_holds:
  assumes "sink_good env"
  obtains s where "new_rotating_sink cfg fs env = (False, s)" "sink_holds cfg [] s"
proof -
  let ?path = "segment_path cfg (now_timestamp (utc_now env)) 0"
  have "segments_named cfg [?path]"
    using assms segments_named_snoc [of cfg "[]"]
    by (simp add: sink_good_def length_now_timestamp segments_named_def)
  then have "sink_holds cfg [] (snd (new_rotating_sink cfg fs env))" "\<not> fst (new_rotating_sink cfg fs env)"
    using assms
    by (simp_all add: new_rotating_sink_def open_new_segment_def sink_good_def sink_holds_def sink_opened_def sink_data_def
        segment_data_def within_limit_def Let_def)
  then show thesis using that by (metis prod.collapse)
qed

interpretation rotating: frame_sink sink_call "sink_holds cfg" sink_fits sink_good
  using sink_call_holds by unfold_locales (auto simp: sink_fits_def)

lemma sink_holds_contents:
  assumes h: "sink_holds cfg fr s" and small: "length fr < 10 ^ 15"
  shows "concat (map (\<lambda>p. the (files s p)) (opened s)) = concat (map line_of fr)" "distinct (opened s)"
    "p \<in> set (opened s) \<Longrightarrow> length (the (files s p)) \<le> unat (rfs_max_size_bytes cfg) \<or> the (files s p) \<in> line_of ` set fr"
proof -
  have o: "sink_opened cfg fr s" and d: "sink_data cfg fr s" using h by (simp_all add: sink_holds_def)
  have the: "the (files s p) = segment_data s p" if "p \<in> set (opened s)" for p
    using d that by (auto simp: sink_data_def segment_data_def split: option.splits)
  have same: "map (\<lambda>p. the (files s p)) (opened s) = map (segment_data s) (opened s)"
    using the by simp
  show "concat (map (\<lambda>p. the (files s p)) (opened s)) = concat (map line_of fr)"
    unfolding same using d by (simp add: sink_data_def)
  show "distinct (opened s)"
    using o small segments_named_distinct [of cfg "opened s"] by (simp add: sink_opened_def)
  show "p \<in> set (opened s) \<Longrightarrow> length (the (files s p)) \<le> unat (rfs_max_size_bytes cfg) \<or> the (files s p) \<in> line_of ` set fr"
    using d the [of p] by (auto simp: sink_data_def within_limit_def)
qed

lemma destroy_sink_closes:
  assumes "sink_holds cfg fr s"
  shows "let s' = destroy_sink env s in files s' = files s \<and> finished_segments s' = opened s \<and> opened s' = opened s \<and>
    \<not> rs_file s' \<and> children s' = [] \<and> set (compressing s') \<subseteq> set (opened s)"
proof -
  have o: "rs_ctx s" "rs_file s" "opened s = finished_segments s @ [current_path s]"
    "set (compressing s) \<subseteq> set (finished_segments s)"
    using assms by (simp_all add: sink_holds_def sink_opened_def)
  show ?thesis
    unfolding Let_def destroy_sink_def spawn_zstd_def reap_children_blocking_def
    using o by (auto split: option.splits)
qed

text \<open>The plain file sink ends with every frame in its file.\<close>

lemma plain_recorder_keeps_frames:
  "\<exists>s. drain_one file_sink_call (map (\<lambda>f. (None, Read_item f)) frames @ [(None, Read_closed)])
      (\<lparr>drained_total = 0\<rparr>, new_file_sink path fs) = ((True, False), \<lparr>drained_total = of_nat (length frames)\<rparr>, s) \<and>
    fs_files s (fs_path s) = Some (concat (map line_of frames))"
  using plain.drain_frames [OF new_file_sink_holds [of path fs], of "map (Pair None) frames" None "\<lparr>drained_total = 0\<rparr>"]
  by (force simp: file_holds_def comp_def)

text \<open>
  A drain whose sink threw makes \<^verbatim>\<open>stop()\<close> throw, and a recorder destroyed without a \<^verbatim>\<open>stop()\<close> of its own
  ends the program.
\<close>

lemma stop_throws: "fst (stop_futures fs) \<longleftrightarrow> Some True \<in> set fs"
  by (induction fs rule: stop_futures.induct) (auto simp: case_prod_unfold Let_def)

lemma destructor_terminates_iff: "destructor_terminates futures \<longleftrightarrow> Some True \<in> set futures"
  by (simp add: destructor_terminates_def stop_throws)

section \<open>Properties\<close>

text \<open>
  C19: Recording through the rotating file sink loses nothing and writes nothing twice. When no system call
  fails, a recorder stream that is fed frames until its buffer closes ends without an exception, has
  counted every frame, and after the sink is destroyed the segments, in the order they were opened,
  hold exactly the frames, one per line, in order. The segments have distinct names, all of them are
  closed, only closed ones were handed to the compressor, none is larger than the limit unless it is a
  single line, and no child process is left. The bounds are those of the byte counter and of the 16
  byte buffer the rotation count is printed into.
\<close>

theorem rotating_recorder_keeps_frames:
  assumes "sink_good env0" "\<forall>env\<in>fst ` set calls. sink_good env" "sink_fits (map snd calls)"
  shows "\<exists>s0 s. new_rotating_sink cfg fs env0 = (False, s0) \<and>
    drain_one sink_call (map (\<lambda>(env, f). (env, Read_item f)) calls @ [(env, Read_closed)]) (\<lparr>drained_total = 0\<rparr>, s0) =
      ((True, False), \<lparr>drained_total = of_nat (length calls)\<rparr>, s) \<and>
    (let d = destroy_sink env' s in
       concat (map (\<lambda>p. the (files d p)) (opened d)) = concat (map (\<lambda>(env, f). f @ [CHR 0x0A]) calls) \<and>
       distinct (opened d) \<and> finished_segments d = opened d \<and> set (compressing d) \<subseteq> set (finished_segments d) \<and>
       (\<forall>p\<in>set (opened d). length (the (files d p)) \<le> unat (rfs_max_size_bytes cfg) \<or>
          (\<exists>(env, f)\<in>set calls. the (files d p) = f @ [CHR 0x0A])) \<and>
       children d = [] \<and> \<not> rs_file d)"
proof -
  obtain s0 where s0: "new_rotating_sink cfg fs env0 = (False, s0)" "sink_holds cfg [] s0"
    using new_rotating_sink_holds [OF assms(1)] by blast
  obtain s where s: "drain_one sink_call (map (\<lambda>(env, f). (env, Read_item f)) calls @ [(env, Read_closed)]) (\<lparr>drained_total = 0\<rparr>, s0) =
      ((True, False), \<lparr>drained_total = of_nat (length calls)\<rparr>, s)" and h: "sink_holds cfg (map snd calls) s"
    using rotating.drain_frames [OF s0(2), of calls env "\<lparr>drained_total = 0\<rparr>"] assms(2,3) by auto
  have "length (map snd calls) < 10 ^ 15" using assms(3) by (simp add: sink_fits_def)
  note c = sink_holds_contents [OF h this] and d = destroy_sink_closes [OF h, of env', unfolded Let_def]
  have frames: "concat (map (line_of \<circ> snd) calls) = concat (map (\<lambda>(env, f). f @ [CHR 0x0A]) calls)"
    by (simp add: line_of_def case_prod_unfold o_def)
  have limit: "length (the (files s p)) \<le> unat (rfs_max_size_bytes cfg) \<or>
      (\<exists>(env, f)\<in>set calls. the (files s p) = f @ [CHR 0x0A])" if "p \<in> set (opened s)" for p
    using c(3) [OF that] by (force simp: line_of_def)
  show ?thesis
    unfolding Let_def
    by (rule exI [of _ s0], rule exI [of _ s], intro conjI s0(1) s)
      (use d c(1,2) limit in \<open>simp_all add: frames\<close>)
qed

text \<open>Three frames into segments of five bytes: the long one gets a segment of its own.\<close>

theorem rotating_recorder_keeps_frames_witness:
  "\<exists>s0 s. let cfg = \<lparr>rfs_dir = ''/data'', rfs_basename = ''trades'', rfs_extension = ''.jsonl'', rfs_max_size_bytes = 5,
        rfs_max_seconds = 900, rfs_compress = True\<rparr>;
      tm = \<lparr>tm_year = 125, tm_mon = 0, tm_mday = 2, tm_hour = 3, tm_min = 4, tm_sec = 5, tm_ms = 6\<rparr>;
      env = \<lparr>steady_now = 0, steady_open = 0, utc_now = tm, open_ok = True, write_fails = None, spawned = Some 7, exited = []\<rparr>
    in new_rotating_sink cfg Map.empty env = (False, s0) \<and>
      drain_one sink_call [(env, Read_item ''ab''), (env, Read_item ''c''), (env, Read_item ''longer''), (env, Read_closed)]
        (\<lparr>drained_total = 0\<rparr>, s0) = ((True, False), \<lparr>drained_total = 3\<rparr>, s) \<and>
      concat (map (\<lambda>p. the (files (destroy_sink env s) p)) (opened (destroy_sink env s))) =
        ''ab'' @ [CHR 0x0A] @ ''c'' @ [CHR 0x0A] @ ''longer'' @ [CHR 0x0A]"
proof -
  let ?cfg = "\<lparr>rfs_dir = ''/data'', rfs_basename = ''trades'', rfs_extension = ''.jsonl'', rfs_max_size_bytes = 5,
        rfs_max_seconds = 900, rfs_compress = True\<rparr>"
  let ?tm = "\<lparr>tm_year = 125, tm_mon = 0, tm_mday = 2, tm_hour = 3, tm_min = 4, tm_sec = 5, tm_ms = 6\<rparr>"
  let ?env = "\<lparr>steady_now = 0, steady_open = 0, utc_now = ?tm, open_ok = True, write_fails = None, spawned = Some 7, exited = []\<rparr>"
  have good: "sink_good ?env" by (simp add: sink_good_def utc_ok_def)
  have fits: "sink_fits (map snd [(?env, ''ab''), (?env, ''c''), (?env, ''longer'')])"
    by (simp add: sink_fits_def line_of_def)
  show ?thesis
    using rotating_recorder_keeps_frames [OF good _ fits, of ?cfg Map.empty ?env ?env] good
    unfolding Let_def by auto
qed

end
