(* ===== verification/V1_Enums.thy ===== *)
theory V1_Enums
  imports Binapi_Prelude
begin

text \<open>
  The enumerations of the legacy client: \<^verbatim>\<open>binapi/enums.hpp\<close>, \<^verbatim>\<open>binapi/enums.cpp\<close>, and the string hash of
  \<^verbatim>\<open>binapi/fnv1a.hpp\<close> the readers switch on. A reader whose hash matches no label reaches
  \<^verbatim>\<open>assert(!"unreachable")\<close> and then the end of a function without a return, which is undefined: \<open>None\<close>.
\<close>

section \<open>The hash\<close>

text \<open>A character is signed: converting it to 32 bits extends its sign.\<close>

definition char_u32 :: "char \<Rightarrow> 32 word" where
  "char_u32 c = word_of_int (if (of_char c :: int) < 128 then of_char c else of_char c - 256)"

definition fnv1a_step :: "32 word \<Rightarrow> char \<Rightarrow> 32 word" where
  "fnv1a_step seed c = ucast ((ucast (seed XOR char_u32 c) :: 64 word) * 0x01000193)"

definition fnv1a :: "string \<Rightarrow> 32 word" where
  "fnv1a s = foldl fnv1a_step 0x811c9dc5 s"

text \<open>The C string of a pointer ends at its first NUL.\<close>

definition c_str :: "string \<Rightarrow> string" where
  "c_str s = takeWhile (\<lambda>c. c \<noteq> CHR 0x00) s"

text \<open>A switch on the hash of a string with hashed labels.\<close>

fun switch_hash :: "(string \<times> 'e) list \<Rightarrow> 32 word \<Rightarrow> 'e option" where
  "switch_hash [] h = None"
| "switch_hash ((label, e) # cases) h = (if fnv1a label = h then Some e else switch_hash cases h)"

section \<open>The enumerations\<close>

datatype e_side =
    Side_buy
  | Side_sell

definition e_side_from_string :: "string \<Rightarrow> e_side option" where
  "e_side_from_string str =
     switch_hash
       [(''BUY'', Side_buy),
        (''SELL'', Side_sell)]
       (fnv1a (c_str str))"

primrec e_side_to_string :: "e_side \<Rightarrow> string" where
  "e_side_to_string Side_buy = ''BUY''"
| "e_side_to_string Side_sell = ''SELL''"

datatype e_type =
    Type_limit
  | Type_market
  | Type_stop_loss
  | Type_stop_loss_limit
  | Type_take_profit
  | Type_take_profit_limit
  | Type_limit_maker

definition e_type_from_string :: "string \<Rightarrow> e_type option" where
  "e_type_from_string str =
     switch_hash
       [(''LIMIT'', Type_limit),
        (''MARKET'', Type_market),
        (''STOP_LOSS'', Type_stop_loss),
        (''STOP_LOSS_LIMIT'', Type_stop_loss_limit),
        (''TAKE_PROFIT'', Type_take_profit),
        (''TAKE_PROFIT_LIMIT'', Type_take_profit_limit),
        (''LIMIT_MAKER'', Type_limit_maker)]
       (fnv1a (c_str str))"

primrec e_type_to_string :: "e_type \<Rightarrow> string" where
  "e_type_to_string Type_limit = ''LIMIT''"
| "e_type_to_string Type_market = ''MARKET''"
| "e_type_to_string Type_stop_loss = ''STOP_LOSS''"
| "e_type_to_string Type_stop_loss_limit = ''STOP_LOSS_LIMIT''"
| "e_type_to_string Type_take_profit = ''TAKE_PROFIT''"
| "e_type_to_string Type_take_profit_limit = ''TAKE_PROFIT_LIMIT''"
| "e_type_to_string Type_limit_maker = ''LIMIT_MAKER''"

datatype e_time =
    Time_GTC
  | Time_IOC
  | Time_FOK

definition e_time_from_string :: "string \<Rightarrow> e_time option" where
  "e_time_from_string str =
     switch_hash
       [(''GTC'', Time_GTC),
        (''IOC'', Time_IOC),
        (''FOK'', Time_FOK)]
       (fnv1a (c_str str))"

primrec e_time_to_string :: "e_time \<Rightarrow> string" where
  "e_time_to_string Time_GTC = ''GTC''"
| "e_time_to_string Time_IOC = ''IOC''"
| "e_time_to_string Time_FOK = ''FOK''"

datatype e_trade_resp_type =
    Resp_ACK
  | Resp_RESULT
  | Resp_FULL
  | Resp_TEST
  | Resp_UNKNOWN

definition e_trade_resp_type_from_string :: "string \<Rightarrow> e_trade_resp_type option" where
  "e_trade_resp_type_from_string str =
     switch_hash
       [(''ACK'', Resp_ACK),
        (''RESULT'', Resp_RESULT),
        (''FULL'', Resp_FULL),
        (''TEST'', Resp_TEST),
        (''UNKNOWN'', Resp_UNKNOWN)]
       (fnv1a (c_str str))"

primrec e_trade_resp_type_to_string :: "e_trade_resp_type \<Rightarrow> string" where
  "e_trade_resp_type_to_string Resp_ACK = ''ASK''"
| "e_trade_resp_type_to_string Resp_RESULT = ''RESULT''"
| "e_trade_resp_type_to_string Resp_FULL = ''FULL''"
| "e_trade_resp_type_to_string Resp_TEST = ''TEST''"
| "e_trade_resp_type_to_string Resp_UNKNOWN = ''UNKNOWN''"

datatype e_permissions =
    Perm_NONE
  | Perm_SPOT
  | Perm_MARGIN
  | Perm_LEVERAGED
  | Perm_TRD_GRP_002
  | Perm_TRD_GRP_003
  | Perm_TRD_GRP_004
  | Perm_TRD_GRP_005

definition e_permissions_from_string :: "string \<Rightarrow> e_permissions option" where
  "e_permissions_from_string str =
     switch_hash
       [(''NONE'', Perm_NONE),
        (''SPOT'', Perm_SPOT),
        (''MARGIN'', Perm_MARGIN),
        (''LEVERAGED'', Perm_LEVERAGED),
        (''TRD_GRP_002'', Perm_TRD_GRP_002),
        (''TRD_GRP_003'', Perm_TRD_GRP_003),
        (''TRD_GRP_004'', Perm_TRD_GRP_004),
        (''TRD_GRP_005'', Perm_TRD_GRP_005)]
       (fnv1a (c_str str))"

primrec e_permissions_to_string :: "e_permissions \<Rightarrow> string" where
  "e_permissions_to_string Perm_NONE = ''NONE''"
| "e_permissions_to_string Perm_SPOT = ''SPOT''"
| "e_permissions_to_string Perm_MARGIN = ''MARGIN''"
| "e_permissions_to_string Perm_LEVERAGED = ''LEVERAGED''"
| "e_permissions_to_string Perm_TRD_GRP_002 = ''TRD_GRP_002''"
| "e_permissions_to_string Perm_TRD_GRP_003 = ''TRD_GRP_003''"
| "e_permissions_to_string Perm_TRD_GRP_004 = ''TRD_GRP_004''"
| "e_permissions_to_string Perm_TRD_GRP_005 = ''TRD_GRP_005''"

text \<open>Enumerations that are only used for their values.\<close>

datatype e_freq = Freq_100ms | Freq_1000ms

primrec e_freq_value :: "e_freq \<Rightarrow> u64" where
  "e_freq_value Freq_100ms = 100"
| "e_freq_value Freq_1000ms = 1000"

datatype e_levels = Levels_5 | Levels_10 | Levels_20

primrec e_levels_value :: "e_levels \<Rightarrow> u64" where
  "e_levels_value Levels_5 = 5"
| "e_levels_value Levels_10 = 10"
| "e_levels_value Levels_20 = 20"

primrec e_permissions_value :: "e_permissions \<Rightarrow> u64" where
  "e_permissions_value Perm_NONE = push_bit 0 1"
| "e_permissions_value Perm_SPOT = push_bit 1 1"
| "e_permissions_value Perm_MARGIN = push_bit 2 1"
| "e_permissions_value Perm_LEVERAGED = push_bit 3 1"
| "e_permissions_value Perm_TRD_GRP_002 = push_bit 4 1"
| "e_permissions_value Perm_TRD_GRP_003 = push_bit 5 1"
| "e_permissions_value Perm_TRD_GRP_004 = push_bit 6 1"
| "e_permissions_value Perm_TRD_GRP_005 = push_bit 7 1"

section \<open>Properties\<close>

text \<open>The hashes of the labels of each switch are distinct, as the compiler requires of case labels.\<close>

lemma fnv1a_labels [simp]:
  "fnv1a ''ACK'' = 2089197666"
  "fnv1a ''BUY'' = 3934976139"
  "fnv1a ''FOK'' = 3905785771"
  "fnv1a ''FULL'' = 4241195900"
  "fnv1a ''GTC'' = 3691772911"
  "fnv1a ''IOC'' = 331755766"
  "fnv1a ''LEVERAGED'' = 14083666"
  "fnv1a ''LIMIT'' = 2594484756"
  "fnv1a ''LIMIT_MAKER'' = 865551291"
  "fnv1a ''MARGIN'' = 3558420795"
  "fnv1a ''MARKET'' = 3007284977"
  "fnv1a ''NONE'' = 1932136219"
  "fnv1a ''RESULT'' = 2816560868"
  "fnv1a ''SELL'' = 1548537093"
  "fnv1a ''SPOT'' = 1626836797"
  "fnv1a ''STOP_LOSS'' = 2878999169"
  "fnv1a ''STOP_LOSS_LIMIT'' = 1413767689"
  "fnv1a ''TAKE_PROFIT'' = 49973569"
  "fnv1a ''TAKE_PROFIT_LIMIT'' = 2710965449"
  "fnv1a ''TEST'' = 3000449509"
  "fnv1a ''TRD_GRP_002'' = 1655087032"
  "fnv1a ''TRD_GRP_003'' = 1671864651"
  "fnv1a ''TRD_GRP_004'' = 1755752746"
  "fnv1a ''TRD_GRP_005'' = 1772530365"
  "fnv1a ''UNKNOWN'' = 1773669273"
  "fnv1a ''ASK'' = 1554873714"
  by code_simp+

lemma c_str_id [simp]: "CHR 0x00 \<notin> set s \<Longrightarrow> c_str s = s"
  by (auto simp: c_str_def takeWhile_eq_all_conv)

text \<open>What a reader accepts: the strings whose hash is that of a label.\<close>

lemma switch_hash_iff:
  "distinct (map (fnv1a \<circ> fst) cases) \<Longrightarrow>
   switch_hash cases h = Some e \<longleftrightarrow> (\<exists>label. (label, e) \<in> set cases \<and> fnv1a label = h)"
  by (induction cases h rule: switch_hash.induct) force+

lemma switch_hash_None: "switch_hash cases h = None \<longleftrightarrow> h \<notin> (fnv1a \<circ> fst) ` set cases"
  by (induction cases h rule: switch_hash.induct) auto

lemmas v1_readers = e_side_from_string_def e_type_from_string_def e_time_from_string_def
  e_trade_resp_type_from_string_def e_permissions_from_string_def

lemma fnv1a_collision: "fnv1a ''KGVEKNV'' = fnv1a ''BUY''"
  by code_simp

lemma e_side_roundtrip: "e_side_from_string (e_side_to_string e) = Some e"
  by (cases e) (simp_all add: v1_readers)

lemma e_type_roundtrip: "e_type_from_string (e_type_to_string e) = Some e"
  by (cases e) (simp_all add: v1_readers)

lemma e_time_roundtrip: "e_time_from_string (e_time_to_string e) = Some e"
  by (cases e) (simp_all add: v1_readers)

lemma e_permissions_roundtrip: "e_permissions_from_string (e_permissions_to_string e) = Some e"
  by (cases e) (simp_all add: v1_readers)

lemma e_trade_resp_type_roundtrip:
  "e_trade_resp_type_from_string (e_trade_resp_type_to_string e) = (if e = Resp_ACK then None else Some e)"
  by (cases e) (simp_all add: v1_readers)

text \<open>The values of the permissions are distinct bits.\<close>

lemma e_permissions_value_bits: "e_permissions_value p AND e_permissions_value q = (if p = q then e_permissions_value p else 0)"
  by (cases p; cases q) simp_all

text \<open>
  Reading back what the legacy enumerations print gives the enumerator again, with one exception:
  the response type \<^verbatim>\<open>ACK\<close> is printed as \<^verbatim>\<open>"ASK"\<close>, which its reader does not know, so that reading it is
  undefined. The readers compare only 32-bit hashes: the string \<^verbatim>\<open>KGVEKNV\<close> is read as the side \<^verbatim>\<open>BUY\<close>.
\<close>

lemma v1_enums_roundtrip:
  "(\<forall>e. e_side_from_string (e_side_to_string e) = Some e) \<and>
   (\<forall>e. e_type_from_string (e_type_to_string e) = Some e) \<and>
   (\<forall>e. e_time_from_string (e_time_to_string e) = Some e) \<and>
   (\<forall>e. e_permissions_from_string (e_permissions_to_string e) = Some e) \<and>
   (\<forall>e. e_trade_resp_type_from_string (e_trade_resp_type_to_string e) = (if e = Resp_ACK then None else Some e)) \<and>
   e_trade_resp_type_from_string ''ACK'' = Some Resp_ACK \<and> e_side_from_string ''KGVEKNV'' = Some Side_buy"
  using e_side_roundtrip e_type_roundtrip e_time_roundtrip e_permissions_roundtrip e_trade_resp_type_roundtrip
  by (simp add: v1_readers fnv1a_collision)

end
