(* ===== verification/Flatjson.thy ===== *)
theory Flatjson
  imports Binapi_Prelude
begin

text \<open>
  The JSON reader of the legacy client, \<^verbatim>\<open>binapi/flatjson.hpp\<close>: a first pass counts the tokens of a
  document, a second pass writes them into a buffer of that size, and the accessors walk the buffer.
  Pointers into the buffer are indices, pointers into the source are the text they delimit, and the
  position of the parser is the text that is left. A read one past the end meets the terminating NUL.
\<close>

section \<open>Tokens and errors\<close>

datatype e_fj_token_type =
    FJ_TYPE_INVALID
  | FJ_TYPE_STRING
  | FJ_TYPE_NUMBER
  | FJ_TYPE_BOOL
  | FJ_TYPE_NULL
  | FJ_TYPE_OBJECT
  | FJ_TYPE_OBJECT_END
  | FJ_TYPE_ARRAY
  | FJ_TYPE_ARRAY_END

text \<open>\<open>FJ_UNDEFINED\<close> is not of the source: a failed assertion, which is undefined when they are off.\<close>

datatype e_fj_error_code =
    FJ_EC_OK
  | FJ_EC_INVALID
  | FJ_EC_INCOMPLETE
  | FJ_EC_NO_FREE_TOKENS
  | FJ_EC_KLEN_OVERFLOW
  | FJ_EC_VLEN_OVERFLOW
  | FJ_EC_CHILDS_OVERFLOW
  | FJ_UNDEFINED

primrec fj_error_value :: "e_fj_error_code \<Rightarrow> int" where
  "fj_error_value FJ_EC_OK = 0"
| "fj_error_value FJ_EC_INVALID = -1"
| "fj_error_value FJ_EC_INCOMPLETE = -2"
| "fj_error_value FJ_EC_NO_FREE_TOKENS = -3"
| "fj_error_value FJ_EC_KLEN_OVERFLOW = -4"
| "fj_error_value FJ_EC_VLEN_OVERFLOW = -5"
| "fj_error_value FJ_EC_CHILDS_OVERFLOW = -6"
| "fj_error_value FJ_UNDEFINED = -7"

definition fj_error_string :: "e_fj_error_code \<Rightarrow> string" where
  "fj_error_string e =
     (let strs = [''OK'', ''INVALID'', ''INCOMPLETE'', ''NO_FREE_TOKENS'', ''KLEN_OVERFLOW'', ''VLEN_OVERFLOW'', ''CHILDS_OVERFLOW''];
          idx = nat (- fj_error_value e)
      in if idx < length strs then strs ! idx else ''UNKNOWN ERROR'')"

definition fj_is_simple_type :: "e_fj_token_type \<Rightarrow> bool" where
  "fj_is_simple_type t \<longleftrightarrow> t \<in> {FJ_TYPE_STRING, FJ_TYPE_NUMBER, FJ_TYPE_BOOL, FJ_TYPE_NULL}"

record fj_token =
  tk_type :: e_fj_token_type
  tk_key :: string
  tk_val :: string
  tk_parent :: "nat option"
  tk_childs :: "16 word"
  tk_end :: "nat option"

definition new_token :: fj_token where
  "new_token = \<lparr>tk_type = FJ_TYPE_INVALID, tk_key = [], tk_val = [], tk_parent = None, tk_childs = 0, tk_end = None\<rparr>"

section \<open>Characters\<close>

definition fj_is_hex_digit :: "char \<Rightarrow> bool" where
  "fj_is_hex_digit ch \<longleftrightarrow> is_digit ch \<or> (let c = (of_char ch :: nat) in 65 \<le> c \<and> c \<le> 70 \<or> 97 \<le> c \<and> c \<le> 102)"

definition fj_utf8_char_len :: "char \<Rightarrow> nat option" where
  "fj_utf8_char_len ch =
     (let c = (of_char ch :: nat) in
      if c < 128 then Some 1 else if c < 224 then Some 2 else if c < 240 then Some 3 else if c < 255 then Some 4 else None)"

definition is_ws :: "char \<Rightarrow> bool" where
  "is_ws c \<longleftrightarrow> c = CHR '' '' \<or> c = CHR 0x09 \<or> c = CHR 0x0D \<or> c = CHR 0x0A"

definition fj_skip_ws :: "string \<Rightarrow> string" where
  "fj_skip_ws s = dropWhile is_ws s"

text \<open>\<^verbatim>\<open>__FLATJSON__CUR_CHAR\<close> after the white space is skipped: \<^verbatim>\<open>(char)-1\<close> at the end.\<close>

definition cur_char :: "string \<Rightarrow> char" where
  "cur_char s = (case s of [] \<Rightarrow> CHR 0xFF | c # s' \<Rightarrow> c)"

text \<open>The character under the position without a check of the end.\<close>

definition raw_char :: "string \<Rightarrow> char" where
  "raw_char s = (case s of [] \<Rightarrow> CHR 0x00 | c # s' \<Rightarrow> c)"

definition fj_check_and_skip :: "char \<Rightarrow> string \<Rightarrow> e_fj_error_code \<times> string" where
  "fj_check_and_skip expected s =
     (let s = fj_skip_ws s; ch = cur_char s in
      if ch = expected then (FJ_EC_OK, drop 1 s)
      else if ch = CHR 0xFF then (FJ_EC_INCOMPLETE, s)
      else (FJ_EC_INVALID, s))"

text \<open>\<open>s\<close> starts after the backslash, \<open>len\<close> is the length with it.\<close>

definition fj_escape_len :: "string \<Rightarrow> nat \<Rightarrow> e_fj_error_code + nat" where
  "fj_escape_len s len =
     (let c = raw_char s in
      if c = CHR ''u'' then
        (if len < 6 then Inl FJ_EC_INCOMPLETE
         else if list_all fj_is_hex_digit (take 4 (drop 1 s)) then Inr 5 else Inl FJ_EC_INVALID)
      else if c \<in> {CHR 0x22, CHR 0x5C, CHR ''/'', CHR ''b'', CHR ''f'', CHR ''n'', CHR ''r'', CHR ''t''} then
        (if len < 2 then Inl FJ_EC_INCOMPLETE else Inr 1)
      else Inl FJ_EC_INVALID)"

section \<open>Literals, strings and numbers\<close>

definition fj_expect :: "string \<Rightarrow> string \<Rightarrow> e_fj_error_code \<times> string \<times> string" where
  "fj_expect lit s =
     (if length lit > length s then (FJ_EC_INCOMPLETE, [], s)
      else if take (length lit) s \<noteq> lit then (FJ_EC_INVALID, [], s)
      else (FJ_EC_OK, lit, drop (length lit) s))"

text \<open>The loop of \<^verbatim>\<open>fj_parse_string\<close>; \<open>acc\<close> is the text from the opening quote to the position.\<close>

function fj_string_loop :: "string \<Rightarrow> string \<Rightarrow> e_fj_error_code \<times> string \<times> string" where
  "fj_string_loop acc [] = (FJ_EC_INCOMPLETE, [], [])"
| "fj_string_loop acc (ch # s) =
     (case fj_utf8_char_len ch of
        None \<Rightarrow> (FJ_UNDEFINED, [], ch # s)
      | Some len \<Rightarrow>
          if \<not> (32 \<le> (of_char ch :: nat)) then (FJ_EC_INVALID, [], ch # s)
          else if len > length (ch # s) then (FJ_EC_INCOMPLETE, [], ch # s)
          else if ch = CHR 0x5C then
            (case fj_escape_len s (length (ch # s)) of
               Inl ec \<Rightarrow> (ec, [], ch # s)
             | Inr n \<Rightarrow> fj_string_loop (acc @ take (1 + n) (ch # s)) (drop n s))
          else if ch = CHR 0x22 then (FJ_EC_OK, acc, s)
          else fj_string_loop (acc @ take len (ch # s)) (drop (len - 1) s))"
  by pat_completeness auto
termination by (relation "measure (length \<circ> snd)") auto

definition fj_parse_string :: "string \<Rightarrow> e_fj_error_code \<times> string \<times> string" where
  "fj_parse_string s =
     (let (ec, s) = fj_check_and_skip (CHR 0x22) s
      in if ec \<noteq> FJ_EC_OK then (ec, [], s) else fj_string_loop [] s)"

text \<open>A run of at least one digit, after what must not be the end of the text.\<close>

definition number_run :: "(char \<Rightarrow> bool) \<Rightarrow> string \<Rightarrow> e_fj_error_code + string" where
  "number_run digit s =
     (case s of
        [] \<Rightarrow> Inl FJ_EC_INCOMPLETE
      | c # s' \<Rightarrow> if digit c then Inr (dropWhile digit s) else Inl FJ_EC_INVALID)"

definition number_fraction :: "string \<Rightarrow> e_fj_error_code + string" where
  "number_fraction s =
     (case s of
        [] \<Rightarrow> Inr s
      | c # s' \<Rightarrow> if c = CHR ''.'' then number_run is_digit s' else Inr s)"

definition number_exponent :: "string \<Rightarrow> e_fj_error_code + string" where
  "number_exponent s =
     (case s of
        [] \<Rightarrow> Inr s
      | c # s' \<Rightarrow>
          if c = CHR ''e'' \<or> c = CHR ''E'' then
            (case s' of
               [] \<Rightarrow> Inl FJ_EC_INCOMPLETE
             | c' # s'' \<Rightarrow> number_run is_digit (if c' = CHR ''+'' \<or> c' = CHR ''-'' then s'' else s'))
          else Inr s)"

definition number_body :: "string \<Rightarrow> e_fj_error_code + string" where
  "number_body s =
     (if s = [] then Inl FJ_EC_INCOMPLETE
      else if take 2 s = ''0x'' then number_run fj_is_hex_digit (drop 2 s)
      else bind_exn (number_run is_digit s) (\<lambda>s. bind_exn (number_fraction s) number_exponent))"

definition fj_parse_number :: "string \<Rightarrow> e_fj_error_code \<times> string \<times> string" where
  "fj_parse_number s =
     (let start = fj_skip_ws s;
          s' = (if cur_char start = CHR ''-'' then drop 1 start else start)
      in case number_body s' of
           Inl ec \<Rightarrow> (ec, [], s')
         | Inr rest \<Rightarrow>
             let taken = take (length start - length rest) start in
             if length taken > 1 \<and> taken ! 0 = CHR ''0'' \<and> taken ! 1 \<noteq> CHR ''.'' then (FJ_EC_INVALID, [], rest)
             else (FJ_EC_OK, taken, rest))"

section \<open>The parser\<close>

record fj_parser =
  js_cur :: string
  jstok :: "fj_token list"
  jstok_cur :: nat

text \<open>The two modes of the templates.\<close>

datatype parser_mode = Mode_parse | Mode_count_tokens

definition set_tok :: "parser_mode \<Rightarrow> nat \<Rightarrow> (fj_token \<Rightarrow> fj_token) \<Rightarrow> fj_parser \<Rightarrow> fj_parser" where
  "set_tok M i f p = (if M = Mode_parse then p\<lparr>jstok := (jstok p)[i := f (jstok p ! i)]\<rparr> else p)"

definition no_free :: "parser_mode \<Rightarrow> fj_parser \<Rightarrow> bool" where
  "no_free M p \<longleftrightarrow> M = Mode_parse \<and> jstok_cur p = length (jstok p)"

text \<open>\<^verbatim>\<open>__FLATJSON__CHECK_OVERFLOW\<close> on the children of a token, and their increment.\<close>

definition childs_full :: "parser_mode \<Rightarrow> nat \<Rightarrow> fj_parser \<Rightarrow> bool" where
  "childs_full M i p \<longleftrightarrow> M = Mode_parse \<and> tk_childs (jstok p ! i) \<ge> 65535"

definition add_child :: "parser_mode \<Rightarrow> nat \<Rightarrow> fj_parser \<Rightarrow> fj_parser" where
  "add_child M i p = set_tok M i (\<lambda>t. t\<lparr>tk_childs := tk_childs t + 1\<rparr>) p"

definition advance_tok :: "fj_parser \<Rightarrow> fj_parser" where
  "advance_tok p = p\<lparr>jstok_cur := jstok_cur p + 1\<rparr>"

text \<open>The opening token of an object or array.\<close>

definition open_tok :: "parser_mode \<Rightarrow> e_fj_token_type \<Rightarrow> nat option \<Rightarrow> fj_parser \<Rightarrow> e_fj_error_code \<times> fj_parser" where
  "open_tok M t parent p =
     (if no_free M p then (FJ_EC_NO_FREE_TOKENS, p)
      else
        let start = jstok_cur p;
            p = set_tok M start (\<lambda>tok. tok\<lparr>tk_type := t, tk_parent := parent\<rparr>) (advance_tok p)
        in case parent of
             None \<Rightarrow> (FJ_EC_OK, p)
           | Some par \<Rightarrow> if childs_full M par p then (FJ_EC_CHILDS_OVERFLOW, p) else (FJ_EC_OK, add_child M par p))"

text \<open>The closing token.\<close>

definition close_tok :: "parser_mode \<Rightarrow> e_fj_token_type \<Rightarrow> nat \<Rightarrow> fj_parser \<Rightarrow> e_fj_error_code \<times> fj_parser" where
  "close_tok M t start p =
     (if no_free M p then (FJ_EC_NO_FREE_TOKENS, p)
      else
        let e = jstok_cur p;
            p = set_tok M e (\<lambda>tok. tok\<lparr>tk_type := t, tk_parent := Some start\<rparr>) (advance_tok p)
        in if childs_full M start p then (FJ_EC_CHILDS_OVERFLOW, p)
           else (FJ_EC_OK, set_tok M start (\<lambda>tok. tok\<lparr>tk_end := Some e\<rparr>) (add_child M start p)))"

text \<open>A separator: a comma must not be followed directly by the closing bracket; none is required.\<close>

definition separator :: "char \<Rightarrow> fj_parser \<Rightarrow> e_fj_error_code \<times> fj_parser" where
  "separator closing p =
     (let s = fj_skip_ws (js_cur p) in
      if cur_char s = CHR '','' then
        (if raw_char (drop 1 s) = closing then (FJ_EC_INVALID, p\<lparr>js_cur := drop 1 s\<rparr>)
         else (FJ_EC_OK, p\<lparr>js_cur := drop 1 s\<rparr>))
      else (FJ_EC_OK, p\<lparr>js_cur := s\<rparr>))"

text \<open>A simple value; the root token is taken here.\<close>

definition simple_value ::
  "e_fj_token_type \<Rightarrow> e_fj_error_code \<times> string \<times> string \<Rightarrow> fj_parser \<Rightarrow> e_fj_error_code \<times> (string \<times> e_fj_token_type) \<times> fj_parser" where
  "simple_value t r p =
     (case r of (ec, v, s) \<Rightarrow>
        if ec \<noteq> FJ_EC_OK then (ec, ([], FJ_TYPE_INVALID), p\<lparr>js_cur := s\<rparr>)
        else (FJ_EC_OK, (v, t), (if jstok_cur p = 0 then advance_tok p else p)\<lparr>js_cur := s\<rparr>))"

definition starts_number :: "char \<Rightarrow> bool" where
  "starts_number ch \<longleftrightarrow> ch = CHR ''-'' \<or> is_digit ch"

text \<open>
  The parsers call one another. Each is given the parsers it calls; \<open>None\<close> is that fuel ran out. A value
  gives its text and its type, which the caller writes into the token, as the pointers of the source do.
\<close>

type_synonym fj_value_fn =
  "parser_mode \<Rightarrow> nat option \<Rightarrow> fj_parser \<Rightarrow> (e_fj_error_code \<times> (string \<times> e_fj_token_type) \<times> fj_parser) option"
type_synonym fj_nested_fn = "parser_mode \<Rightarrow> nat option \<Rightarrow> fj_parser \<Rightarrow> (e_fj_error_code \<times> fj_parser) option"
type_synonym fj_loop_fn = "parser_mode \<Rightarrow> nat \<Rightarrow> fj_parser \<Rightarrow> (e_fj_error_code \<times> fj_parser) option"

definition value_step :: "fj_nested_fn \<Rightarrow> fj_nested_fn \<Rightarrow> fj_value_fn" where
  "value_step parse_array parse_object M parent p =
     (let s = fj_skip_ws (js_cur p); p = p\<lparr>js_cur := s\<rparr>; ch = cur_char s in
      if ch = CHR ''{'' then map_option (\<lambda>(ec, p). (ec, ([], FJ_TYPE_OBJECT), p)) (parse_object M parent p)
      else if ch = CHR ''['' then map_option (\<lambda>(ec, p). (ec, ([], FJ_TYPE_ARRAY), p)) (parse_array M parent p)
      else if ch = CHR ''n'' then Some (simple_value FJ_TYPE_NULL (fj_expect ''null'' s) p)
      else if ch = CHR ''t'' then Some (simple_value FJ_TYPE_BOOL (fj_expect ''true'' s) p)
      else if ch = CHR ''f'' then Some (simple_value FJ_TYPE_BOOL (fj_expect ''false'' s) p)
      else if starts_number ch then Some (simple_value FJ_TYPE_NUMBER (fj_parse_number s) p)
      else if ch = CHR 0x22 then Some (simple_value FJ_TYPE_STRING (fj_parse_string s) p)
      else if ch = CHR 0xFF then Some (FJ_EC_INCOMPLETE, ([], FJ_TYPE_INVALID), p)
      else Some (FJ_EC_INVALID, ([], FJ_TYPE_INVALID), p))"

text \<open>The early return on an error, after a step and after a value; a step that expects one character.\<close>

definition then_ok ::
  "(e_fj_error_code \<times> fj_parser) option \<Rightarrow> (fj_parser \<Rightarrow> (e_fj_error_code \<times> fj_parser) option) \<Rightarrow> (e_fj_error_code \<times> fj_parser) option" where
  "then_ok r f = (case r of None \<Rightarrow> None | Some (ec, p) \<Rightarrow> if ec \<noteq> FJ_EC_OK then Some (ec, p) else f p)"

definition then_value ::
  "(e_fj_error_code \<times> (string \<times> e_fj_token_type) \<times> fj_parser) option \<Rightarrow>
   (string \<Rightarrow> e_fj_token_type \<Rightarrow> fj_parser \<Rightarrow> (e_fj_error_code \<times> fj_parser) option) \<Rightarrow> (e_fj_error_code \<times> fj_parser) option" where
  "then_value r f = (case r of None \<Rightarrow> None | Some (ec, (v, t), p) \<Rightarrow> if ec \<noteq> FJ_EC_OK then Some (ec, p) else f v t p)"

definition expect_char :: "char \<Rightarrow> fj_parser \<Rightarrow> (e_fj_error_code \<times> fj_parser) option" where
  "expect_char c p = (case fj_check_and_skip c (js_cur p) of (ec, s) \<Rightarrow> Some (ec, p\<lparr>js_cur := s\<rparr>))"

lemma then_ok_simps [simp]:
  "then_ok None f = None"
  "then_ok (Some (ec, p)) f = (if ec \<noteq> FJ_EC_OK then Some (ec, p) else f p)"
  "then_value None g = None"
  "then_value (Some (ec, (v, t), p)) g = (if ec \<noteq> FJ_EC_OK then Some (ec, p) else g v t p)"
  by (simp_all add: then_ok_def then_value_def)

text \<open>The frame of an array or object around the loop over its elements.\<close>

definition nested_step ::
  "char \<Rightarrow> char \<Rightarrow> e_fj_token_type \<Rightarrow> e_fj_token_type \<Rightarrow> fj_loop_fn \<Rightarrow> fj_nested_fn" where
  "nested_step opening closing t t_end loop M parent p =
     then_ok (expect_char opening p) (\<lambda>p.
     then_ok (Some (open_tok M t parent p)) (\<lambda>p1.
     then_ok (loop M (jstok_cur p) p1) (\<lambda>p2.
     then_ok (expect_char closing p2) (\<lambda>p3.
       Some (close_tok M t_end (jstok_cur p) p3)))))"

definition array_step :: "fj_loop_fn \<Rightarrow> fj_nested_fn" where
  "array_step = nested_step (CHR ''['') (CHR '']'') FJ_TYPE_ARRAY FJ_TYPE_ARRAY_END"

definition object_step :: "fj_loop_fn \<Rightarrow> fj_nested_fn" where
  "object_step = nested_step (CHR ''{'') (CHR ''}'') FJ_TYPE_OBJECT FJ_TYPE_OBJECT_END"

definition is_nested :: "char \<Rightarrow> bool" where
  "is_nested ch \<longleftrightarrow> ch = CHR ''{'' \<or> ch = CHR ''[''"

text \<open>One element of an array.\<close>

definition array_element :: "fj_value_fn \<Rightarrow> fj_loop_fn" where
  "array_element parse_value M startarr p =
     (let pair = jstok_cur p; nested = is_nested (cur_char (js_cur p)) in
      if no_free M p then Some (FJ_EC_NO_FREE_TOKENS, p)
      else if \<not> nested \<and> childs_full M startarr p then Some (FJ_EC_CHILDS_OVERFLOW, p)
      else
        then_value
          (parse_value M (Some startarr)
             (if nested then p
              else add_child M startarr (set_tok M pair (\<lambda>t. t\<lparr>tk_parent := Some startarr\<rparr>) (advance_tok p))))
          (\<lambda>v t p.
             if M = Mode_parse \<and> (of_nat (length v) :: u64) \<ge> 4294967295 then Some (FJ_EC_VLEN_OVERFLOW, p)
             else Some (separator (CHR '']'') (set_tok M pair (\<lambda>tok. tok\<lparr>tk_type := t, tk_val := v\<rparr>) p))))"

definition array_loop_step :: "fj_value_fn \<Rightarrow> fj_loop_fn \<Rightarrow> fj_loop_fn" where
  "array_loop_step parse_value loop M startarr p =
     (let s = fj_skip_ws (js_cur p); p = p\<lparr>js_cur := s\<rparr> in
      if cur_char s = CHR '']'' then Some (FJ_EC_OK, p)
      else then_ok (array_element parse_value M startarr p) (loop M startarr))"

text \<open>The key of a member up to its colon, and the value after it.\<close>

definition member_key :: "fj_value_fn \<Rightarrow> fj_loop_fn" where
  "member_key parse_value M startobj p =
     (if no_free M p then Some (FJ_EC_NO_FREE_TOKENS, p)
      else
        then_value (parse_value M (Some startobj) (advance_tok p))
          (\<lambda>k t p1.
             if M = Mode_parse \<and> (of_nat (length k) :: u64) \<ge> 255 then Some (FJ_EC_KLEN_OVERFLOW, p1)
             else expect_char (CHR '':'') (set_tok M (jstok_cur p) (\<lambda>tok. tok\<lparr>tk_type := t, tk_key := k\<rparr>) p1)))"

definition member_value :: "fj_value_fn \<Rightarrow> nat \<Rightarrow> fj_loop_fn" where
  "member_value parse_value pair M startobj p =
     (let s = fj_skip_ws (js_cur p); p = p\<lparr>js_cur := s\<rparr>; nested = is_nested (cur_char s) in
      if \<not> nested \<and> childs_full M startobj p then Some (FJ_EC_CHILDS_OVERFLOW, p)
      else
        then_value
          (parse_value M (Some startobj)
             (if nested then p\<lparr>jstok_cur := jstok_cur p - 1\<rparr>
              else add_child M startobj (set_tok M pair (\<lambda>t. t\<lparr>tk_parent := Some startobj\<rparr>) p)))
          (\<lambda>v t p.
             if M = Mode_parse \<and> \<not> nested \<and> (of_nat (length v) :: u64) \<ge> 4294967295 then Some (FJ_EC_VLEN_OVERFLOW, p)
             else Some (separator (CHR ''}'')
                    (set_tok M pair (\<lambda>tok. if nested then tok\<lparr>tk_type := t\<rparr> else tok\<lparr>tk_type := t, tk_val := v\<rparr>) p))))"

definition object_loop_step :: "fj_value_fn \<Rightarrow> fj_loop_fn \<Rightarrow> fj_loop_fn" where
  "object_loop_step parse_value loop M startobj p =
     (let s = fj_skip_ws (js_cur p); p = p\<lparr>js_cur := s\<rparr>; ch = cur_char s in
      if ch = CHR ''}'' then Some (FJ_EC_OK, p)
      else if ch \<noteq> CHR 0x22 then Some (if ch = CHR 0xFF then FJ_EC_INCOMPLETE else FJ_EC_INVALID, p)
      else
        then_ok (member_key parse_value M startobj p)
          (\<lambda>q. then_ok (member_value parse_value (jstok_cur p) M startobj q) (loop M startobj)))"

text \<open>The parsers with a depth of calls.\<close>

primrec fj_parsers :: "nat \<Rightarrow> fj_value_fn \<times> fj_nested_fn \<times> fj_loop_fn \<times> fj_nested_fn \<times> fj_loop_fn" where
  "fj_parsers 0 = (\<lambda>_ _ _. None, \<lambda>_ _ _. None, \<lambda>_ _ _. None, \<lambda>_ _ _. None, \<lambda>_ _ _. None)"
| "fj_parsers (Suc n) =
     (case fj_parsers n of (parse_value, parse_array, array_loop, parse_object, object_loop) \<Rightarrow>
        (value_step parse_array parse_object, array_step array_loop, array_loop_step parse_value array_loop,
         object_step object_loop, object_loop_step parse_value object_loop))"

definition fj_parse_value :: "nat \<Rightarrow> fj_value_fn" where
  "fj_parse_value n = fst (fj_parsers n)"

definition fj_parse_array :: "nat \<Rightarrow> fj_nested_fn" where
  "fj_parse_array n = fst (snd (fj_parsers n))"

definition fj_array_loop :: "nat \<Rightarrow> fj_loop_fn" where
  "fj_array_loop n = fst (snd (snd (fj_parsers n)))"

definition fj_parse_object :: "nat \<Rightarrow> fj_nested_fn" where
  "fj_parse_object n = fst (snd (snd (snd (fj_parsers n))))"

definition fj_object_loop :: "nat \<Rightarrow> fj_loop_fn" where
  "fj_object_loop n = snd (snd (snd (snd (fj_parsers n))))"

lemmas fj_parser_defs = fj_parse_value_def fj_parse_array_def fj_array_loop_def fj_parse_object_def fj_object_loop_def

lemma fj_parser_simps [simp]:
  "fj_parse_value (Suc n) = value_step (fj_parse_array n) (fj_parse_object n)"
  "fj_parse_array (Suc n) = array_step (fj_array_loop n)"
  "fj_array_loop (Suc n) = array_loop_step (fj_parse_value n) (fj_array_loop n)"
  "fj_parse_object (Suc n) = object_step (fj_object_loop n)"
  "fj_object_loop (Suc n) = object_loop_step (fj_parse_value n) (fj_object_loop n)"
  by (simp_all add: fj_parser_defs case_prod_unfold)

text \<open>Enough fuel for a text: each of its characters is met by at most three nested calls.\<close>

definition parse_fuel :: "string \<Rightarrow> nat" where
  "parse_fuel s = 3 * length s + 1"

section \<open>Loading a document\<close>

text \<open>The counting pass. One character left over is accepted unseen.\<close>

definition fj_num_tokens :: "string \<Rightarrow> (e_fj_error_code \<times> nat) option" where
  "fj_num_tokens s =
     (case fj_parse_value (parse_fuel s) Mode_count_tokens None \<lparr>js_cur = s, jstok = [], jstok_cur = 0\<rparr> of
        None \<Rightarrow> None
      | Some (ec, _, p) \<Rightarrow>
          let ec = (if ec = FJ_EC_OK \<and> length (js_cur p) \<noteq> 1 \<and> fj_skip_ws (js_cur p) \<noteq> [] then FJ_EC_INVALID else ec)
          in Some (ec, jstok_cur p))"

text \<open>The second pass, into a buffer of fresh tokens; the root token gets the value and type.\<close>

definition fj_parse :: "string \<Rightarrow> nat \<Rightarrow> (e_fj_error_code \<times> fj_token list \<times> nat) option" where
  "fj_parse s toksize =
     (case fj_parse_value (parse_fuel s) Mode_parse None
         \<lparr>js_cur = s, jstok = replicate toksize new_token, jstok_cur = 0\<rparr> of
        None \<Rightarrow> None
      | Some (ec, (v, t), p) \<Rightarrow>
          let p = (if ec = FJ_EC_OK then set_tok Mode_parse 0 (\<lambda>tok. tok\<lparr>tk_type := t, tk_val := v\<rparr>) p else p)
          in Some (ec, jstok p, jstok_cur p))"

text \<open>A view of a document: the shared tokens, the first token of the value (or null) and the error.\<close>

record fjson =
  m_storage :: "fj_token list"
  m_beg :: "nat option"
  m_err :: e_fj_error_code

definition fj_load :: "string \<Rightarrow> fjson option" where
  "fj_load s =
     (let empty = \<lparr>m_storage = [], m_beg = None, m_err = FJ_EC_OK\<rparr> in
      if s = [] then Some empty
      else
        case fj_num_tokens s of
          None \<Rightarrow> None
        | Some (ec, toknum) \<Rightarrow>
            if ec \<noteq> FJ_EC_OK then Some (empty\<lparr>m_err := ec\<rparr>)
            else
              case fj_parse s toknum of
                None \<Rightarrow> None
              | Some (ec, toks, toknum) \<Rightarrow>
                  if ec \<noteq> FJ_EC_OK then Some \<lparr>m_storage = toks, m_beg = None, m_err = ec\<rparr>
                  else Some \<lparr>m_storage = take toknum toks, m_beg = Some 0, m_err = FJ_EC_OK\<rparr>)"

section \<open>Accessors\<close>

text \<open>What an accessor throws; \<open>Fj_undefined\<close> is a null pointer followed or a walk off the tokens.\<close>

datatype fj_exn = Fj_logic_error string | Fj_runtime_error string | Fj_out_of_range string | Fj_undefined

type_synonym 'a fj_result = "fj_exn + 'a"

definition fj_tok :: "fjson \<Rightarrow> nat \<Rightarrow> fj_token fj_result" where
  "fj_tok j i = (if i < length (m_storage j) then Inr (m_storage j ! i) else Inl Fj_undefined)"

definition fj_root :: "fjson \<Rightarrow> fj_token fj_result" where
  "fj_root j = (case m_beg j of None \<Rightarrow> Inl Fj_undefined | Some i \<Rightarrow> fj_tok j i)"

definition fj_is_type :: "e_fj_token_type \<Rightarrow> fjson \<Rightarrow> bool fj_result" where
  "fj_is_type t j = bind_exn (fj_root j) (\<lambda>tok. Inr (tk_type tok = t))"

definition fj_size :: "fjson \<Rightarrow> nat fj_result" where
  "fj_size j = bind_exn (fj_root j) (\<lambda>tok. Inr
     (if \<not> fj_is_simple_type (tk_type tok) then unat (ucast (tk_childs tok) - 1 :: u64)
      else 1))"

definition fj_to_sstring :: "fjson \<Rightarrow> string fj_result" where
  "fj_to_sstring j = bind_exn (fj_root j) (\<lambda>tok.
     if fj_is_simple_type (tk_type tok) then Inr (if tk_type tok = FJ_TYPE_NULL then [] else tk_val tok)
     else Inl (Fj_logic_error ''not STRING/NUMBER/BOOL/NULL type''))"

text \<open>The step to the sibling of a token.\<close>

definition fj_next :: "fj_token \<Rightarrow> nat \<Rightarrow> nat fj_result" where
  "fj_next tok i =
     (if fj_is_simple_type (tk_type tok) then Inr (i + 1)
      else case tk_end tok of Some e \<Rightarrow> Inr (e + 1) | None \<Rightarrow> Inl Fj_undefined)"

text \<open>\<^verbatim>\<open>find\<close> by key: the loop, with the tokens left as its bound, then the kind of what it stopped at.\<close>

fun find_key_loop :: "nat \<Rightarrow> fjson \<Rightarrow> string \<Rightarrow> nat \<Rightarrow> nat \<Rightarrow> nat option fj_result" where
  "find_key_loop 0 j key i e = Inl Fj_undefined"
| "find_key_loop (Suc n) j key i e =
     (if i = e then Inr (Some i)
      else bind_exn (fj_tok j i) (\<lambda>tok.
        if tk_type tok = FJ_TYPE_OBJECT_END then Inr None
        else if tk_key tok = key then Inr (Some i)
        else bind_exn (fj_next tok i) (\<lambda>i. find_key_loop n j key i e)))"

definition stopped_at :: "e_fj_token_type \<Rightarrow> fjson \<Rightarrow> nat \<Rightarrow> nat \<Rightarrow> nat option fj_result" where
  "stopped_at t_end j i e = bind_exn (fj_tok j i) (\<lambda>tok.
     if fj_is_simple_type (tk_type tok) \<or> tk_type tok = FJ_TYPE_OBJECT \<or> tk_type tok = FJ_TYPE_ARRAY then Inr (Some i)
     else if i = e \<and> tk_type tok = t_end then Inr None
     else Inl (Fj_logic_error ''unreachable!''))"

definition find_key :: "string \<Rightarrow> fjson \<Rightarrow> nat option fj_result" where
  "find_key key j = bind_exn (fj_root j) (\<lambda>tok.
     if tk_type tok \<noteq> FJ_TYPE_OBJECT then Inl (Fj_logic_error ''not OBJECT type'')
     else case (m_beg j, tk_end tok) of
            (Some b, Some e) \<Rightarrow>
              bind_exn (find_key_loop (length (m_storage j) + 1) j key (b + 1) e)
                (\<lambda>r. case r of None \<Rightarrow> Inr None | Some i \<Rightarrow> stopped_at FJ_TYPE_OBJECT_END j i e)
          | _ \<Rightarrow> Inl Fj_undefined)"

fun find_idx_loop :: "fjson \<Rightarrow> nat \<Rightarrow> nat \<Rightarrow> nat \<Rightarrow> nat fj_result" where
  "find_idx_loop j 0 i e = Inr i"
| "find_idx_loop j (Suc idx) i e =
     (if i = e then Inr i
      else bind_exn (fj_tok j i) (\<lambda>tok. bind_exn (fj_next tok i) (\<lambda>i. find_idx_loop j idx i e)))"

definition find_idx :: "nat \<Rightarrow> fjson \<Rightarrow> nat option fj_result" where
  "find_idx idx j = bind_exn (fj_root j) (\<lambda>tok.
     if tk_type tok \<noteq> FJ_TYPE_ARRAY then Inl (Fj_logic_error ''not ARRAY type'')
     else if idx \<ge> unat (tk_childs tok - 1) then Inr None
     else case (m_beg j, tk_end tok) of
            (Some b, Some e) \<Rightarrow> bind_exn (find_idx_loop j idx (b + 1) e) (\<lambda>i. stopped_at FJ_TYPE_ARRAY_END j i e)
          | _ \<Rightarrow> Inl Fj_undefined)"

definition fj_contains :: "string \<Rightarrow> fjson \<Rightarrow> bool fj_result" where
  "fj_contains key j = bind_exn (find_key key j) (\<lambda>r. Inr (r \<noteq> None))"

definition fj_at :: "string \<Rightarrow> fjson \<Rightarrow> fjson fj_result" where
  "fj_at key j = bind_exn (find_key key j) (\<lambda>r.
     case r of Some i \<Rightarrow> Inr (j\<lparr>m_beg := Some i, m_err := FJ_EC_OK\<rparr>) | None \<Rightarrow> Inl (Fj_runtime_error ''key not found''))"

definition fj_at_idx :: "nat \<Rightarrow> fjson \<Rightarrow> fjson fj_result" where
  "fj_at_idx idx j = bind_exn (find_idx idx j) (\<lambda>r.
     case r of Some i \<Rightarrow> Inr (j\<lparr>m_beg := Some i, m_err := FJ_EC_OK\<rparr>) | None \<Rightarrow> Inl (Fj_out_of_range ''out of range''))"

section \<open>Conversions\<close>

text \<open>The unrolled sum over the digits, for at most twenty of them; the characters are not checked.\<close>

definition conv_digit :: "string \<Rightarrow> nat \<Rightarrow> u64" where
  "conv_digit s k = word_of_int (int (of_char (s ! (length s - k))) - 48) * 10 ^ (k - 1)"

definition conv_to_u64 :: "string \<Rightarrow> u64" where
  "conv_to_u64 s =
     (if 1 \<le> length s \<and> length s \<le> 20 then foldl (\<lambda>v k. v + conv_digit s k) 0 (rev [1..<length s + 1]) else 0)"

definition conv_to_u32 :: "string \<Rightarrow> u32" where
  "conv_to_u32 s = ucast (conv_to_u64 s)"

text \<open>The signed conversion reads the first character before it looks at the length.\<close>

definition conv_to_i32 :: "string \<Rightarrow> u32" where
  "conv_to_i32 s = (if raw_char s = CHR ''-'' then - conv_to_u32 (drop 1 s) else conv_to_u32 s)"

definition conv_to_bool :: "string \<Rightarrow> bool" where
  "conv_to_bool s \<longleftrightarrow> raw_char s = CHR ''t'' \<and> length s = 4"

text \<open>\<^verbatim>\<open>to<T>\<close>. The text of null is a null pointer, which the conversions to a signed number and to bool follow.\<close>

definition fj_to_u64 :: "fjson \<Rightarrow> u64 fj_result" where
  "fj_to_u64 j = bind_exn (fj_to_sstring j) (\<lambda>s. Inr (conv_to_u64 s))"

definition fj_to_int :: "fjson \<Rightarrow> u32 fj_result" where
  "fj_to_int j = bind_exn (fj_is_type FJ_TYPE_NULL j) (\<lambda>null.
     if null then Inl Fj_undefined else bind_exn (fj_to_sstring j) (\<lambda>s. Inr (conv_to_i32 s)))"

definition fj_to_bool :: "fjson \<Rightarrow> bool fj_result" where
  "fj_to_bool j = bind_exn (fj_is_type FJ_TYPE_NULL j) (\<lambda>null.
     if null then Inl Fj_undefined else bind_exn (fj_to_sstring j) (\<lambda>s. Inr (conv_to_bool s)))"

section \<open>Documents\<close>

text \<open>
  What a document means. A simple value carries the text of its token, a string the text between the
  quotes (the reader keeps escapes as they are).
\<close>

datatype json = J_simple e_fj_token_type string | J_array "json list" | J_object "(string \<times> json) list"

fun json_text :: "json \<Rightarrow> string"
  and json_texts :: "json list \<Rightarrow> string"
  and json_members :: "(string \<times> json) list \<Rightarrow> string" where
  "json_text (J_simple t s) = (if t = FJ_TYPE_STRING then [CHR 0x22] @ s @ [CHR 0x22] else s)"
| "json_text (J_array vs) = ''['' @ json_texts vs @ '']''"
| "json_text (J_object ms) = ''{'' @ json_members ms @ ''}''"
| "json_texts [] = []"
| "json_texts (v # vs) = json_text v @ (if vs = [] then [] else '','') @ json_texts vs"
| "json_members [] = []"
| "json_members ((k, v) # ms) =
     [CHR 0x22] @ k @ [CHR 0x22] @ '':'' @ json_text v @ (if ms = [] then [] else '','') @ json_members ms"

text \<open>The tokens of a value from index \<open>i\<close> on.\<close>

fun token_count :: "json \<Rightarrow> nat"
  and token_counts :: "json list \<Rightarrow> nat"
  and member_counts :: "(string \<times> json) list \<Rightarrow> nat" where
  "token_count (J_simple t s) = 1"
| "token_count (J_array vs) = token_counts vs + 2"
| "token_count (J_object ms) = member_counts ms + 2"
| "token_counts [] = 0"
| "token_counts (v # vs) = token_count v + token_counts vs"
| "member_counts [] = 0"
| "member_counts ((k, v) # ms) = token_count v + member_counts ms"

definition start_token :: "e_fj_token_type \<Rightarrow> nat option \<Rightarrow> string \<Rightarrow> nat \<Rightarrow> nat \<Rightarrow> fj_token" where
  "start_token t par key childs e =
     \<lparr>tk_type = t, tk_key = key, tk_val = [], tk_parent = par, tk_childs = of_nat childs, tk_end = Some e\<rparr>"

definition end_token :: "e_fj_token_type \<Rightarrow> nat \<Rightarrow> fj_token" where
  "end_token t start = new_token\<lparr>tk_type := t, tk_parent := Some start\<rparr>"

fun json_tokens :: "nat option \<Rightarrow> nat \<Rightarrow> string \<Rightarrow> json \<Rightarrow> fj_token list"
  and array_tokens :: "nat option \<Rightarrow> nat \<Rightarrow> json list \<Rightarrow> fj_token list"
  and member_tokens :: "nat option \<Rightarrow> nat \<Rightarrow> (string \<times> json) list \<Rightarrow> fj_token list" where
  "json_tokens par i key (J_simple t s) = [new_token\<lparr>tk_type := t, tk_key := key, tk_val := s, tk_parent := par\<rparr>]"
| "json_tokens par i key (J_array vs) =
     start_token FJ_TYPE_ARRAY par key (length vs + 1) (i + 1 + token_counts vs) #
     array_tokens (Some i) (i + 1) vs @ [end_token FJ_TYPE_ARRAY_END i]"
| "json_tokens par i key (J_object ms) =
     start_token FJ_TYPE_OBJECT par key (length ms + 1) (i + 1 + member_counts ms) #
     member_tokens (Some i) (i + 1) ms @ [end_token FJ_TYPE_OBJECT_END i]"
| "array_tokens par i [] = []"
| "array_tokens par i (v # vs) = json_tokens par i [] v @ array_tokens par (i + token_count v) vs"
| "member_tokens par i [] = []"
| "member_tokens par i ((k, v) # ms) = json_tokens par i k v @ member_tokens par (i + token_count v) ms"

end
