(* ===== verification/V1_Types.thy ===== *)
theory V1_Types
  imports V1_Enums Flatjson Ordered_Map "HOL-Library.Char_ord" "HOL-Library.List_Lexorder"
begin

text \<open>
  The reply types of the legacy client, \<^verbatim>\<open>binapi/types.hpp\<close> and \<^verbatim>\<open>binapi/types.cpp\<close>: for every type its
  members, the reading of a JSON value (\<^verbatim>\<open>construct\<close>) and the writing to a stream (\<^verbatim>\<open>operator<<\<close>). The decimal
  numbers are \<^verbatim>\<open>boost::multiprecision\<close> values: what the code uses of them is the parameter
  \<open>double_ops\<close>, with the text a stream gives them. A failed assertion ends the program and is taken together with
  undefined behaviour.
\<close>

section \<open>Reading members\<close>

record 'd double_ops =
  dt_assign :: "string \<Rightarrow> string + 'd"
  dt_show :: "'d \<Rightarrow> string"
  dt_zero :: 'd
  dt_add :: "'d \<Rightarrow> 'd \<Rightarrow> 'd"
  dt_sub :: "'d \<Rightarrow> 'd \<Rightarrow> 'd"
  dt_div_size :: "'d \<Rightarrow> nat \<Rightarrow> 'd"
  dt_less :: "'d \<Rightarrow> 'd \<Rightarrow> bool"

text \<open>\<^verbatim>\<open>v.assign(s)\<close> throws a \<^verbatim>\<open>std::runtime_error\<close> on a text that is no number.\<close>

definition assign_double :: "'d double_ops \<Rightarrow> string \<Rightarrow> 'd fj_result" where
  "assign_double D s = (case dt_assign D s of Inl m \<Rightarrow> Inl (Fj_runtime_error m) | Inr d \<Rightarrow> Inr d)"

definition checked :: "bool \<Rightarrow> unit fj_result" where
  "checked b = (if b then Inr () else Inl Fj_undefined)"

definition fj_is_valid :: "fjson \<Rightarrow> bool" where
  "fj_is_valid json \<longleftrightarrow> m_beg json \<noteq> None \<and> m_storage json \<noteq> [] \<and> m_err json = FJ_EC_OK"

definition expect_type :: "e_fj_token_type \<Rightarrow> fjson \<Rightarrow> unit fj_result" where
  "expect_type t json = bind_exn (fj_is_type t json) checked"

definition get_size :: "string \<Rightarrow> fjson \<Rightarrow> u64 fj_result" where
  "get_size member j = bind_exn (fj_at member j) fj_to_u64"

definition get_bool :: "string \<Rightarrow> fjson \<Rightarrow> bool fj_result" where
  "get_bool member j = bind_exn (fj_at member j) fj_to_bool"

definition get_text :: "string \<Rightarrow> fjson \<Rightarrow> string fj_result" where
  "get_text member j = bind_exn (fj_at member j) (\<lambda>o'. bind_exn (fj_is_type FJ_TYPE_NULL o') (\<lambda>null.
     if null then Inr [] else fj_to_sstring o'))"

definition get_double :: "'d double_ops \<Rightarrow> string \<Rightarrow> fjson \<Rightarrow> 'd fj_result" where
  "get_double D member j = bind_exn (fj_at member j) (\<lambda>o'. bind_exn (fj_to_sstring o') (assign_double D))"

definition double_at :: "'d double_ops \<Rightarrow> nat \<Rightarrow> fjson \<Rightarrow> 'd fj_result" where
  "double_at D i it = bind_exn (fj_at_idx i it) (\<lambda>o'. bind_exn (fj_to_sstring o') (assign_double D))"

definition size_at :: "nat \<Rightarrow> fjson \<Rightarrow> u64 fj_result" where
  "size_at i it = bind_exn (fj_at_idx i it) fj_to_u64"

text \<open>The loops over an array: the elements in order, up to the first that throws.\<close>

fun map_exn :: "('a \<Rightarrow> 'e + 'b) \<Rightarrow> 'a list \<Rightarrow> 'e + 'b list" where
  "map_exn f [] = Inr []"
| "map_exn f (x # xs) = bind_exn (f x) (\<lambda>y. bind_exn (map_exn f xs) (\<lambda>ys. Inr (y # ys)))"

definition read_each :: "(fjson \<Rightarrow> 'a fj_result) \<Rightarrow> fjson \<Rightarrow> 'a list fj_result" where
  "read_each f json = bind_exn (fj_size json) (\<lambda>n. map_exn (\<lambda>idx. bind_exn (fj_at_idx idx json) f) [0..<n])"

definition emplace_all :: "('a \<Rightarrow> string) \<Rightarrow> 'a list \<Rightarrow> (string, 'a) smap" where
  "emplace_all key xs = foldl (\<lambda>m x. map_emplace (<) (key x) x m) [] xs"

section \<open>Writing\<close>

abbreviation qt :: string where "qt \<equiv> [CHR 0x22]"

definition size_text :: "u64 \<Rightarrow> string" where
  "size_text n = dec_digits (unat n)"

definition bool_text :: "bool \<Rightarrow> string" where
  "bool_text b = (if b then ''true'' else ''false'')"

text \<open>A bool written to a stream without \<^verbatim>\<open>std::boolalpha\<close>.\<close>

definition flag_text :: "bool \<Rightarrow> string" where
  "flag_text b = (if b then ''1'' else ''0'')"

text \<open>The writing loops: a comma after each element that has a next one.\<close>

fun commas :: "string list \<Rightarrow> string" where
  "commas [] = []"
| "commas (s # ss) = s @ (if ss = [] then [] else '','') @ commas ss"


section \<open>Status and prices\<close>

record v1_ping_t =
  ping_ok :: bool

definition construct_v1_ping :: "fjson \<Rightarrow> v1_ping_t fj_result" where
  "construct_v1_ping json =
     bind_exn (checked (fj_is_valid json)) (\<lambda>_.
     bind_exn (expect_type FJ_TYPE_OBJECT json) (\<lambda>_.
     bind_exn (fj_size json) (\<lambda>n. Inr \<lparr>ping_ok = (n = 0)\<rparr>)))"

definition print_v1_ping :: "v1_ping_t \<Rightarrow> string" where
  "print_v1_ping x = ''{'' @ qt @ ''ok'' @ qt @ '':'' @ bool_text (ping_ok x) @ ''}''"

record v1_server_time_t =
  srv_serverTime :: u64

definition construct_v1_server_time :: "fjson \<Rightarrow> v1_server_time_t fj_result" where
  "construct_v1_server_time json =
     bind_exn (checked (fj_is_valid json)) (\<lambda>_.
     bind_exn (get_size ''serverTime'' json) (\<lambda>serverTime'.
     Inr \<lparr>srv_serverTime = serverTime'\<rparr>))"

definition print_v1_server_time :: "v1_server_time_t \<Rightarrow> string" where
  "print_v1_server_time x =
     ''{'' @ qt @ ''serverTime'' @ qt @ '':'' @ size_text (srv_serverTime x) @ ''}''"

record 'd v1_avg_price_t =
  avgp_mins :: u64
  avgp_price :: 'd

definition construct_v1_avg_price :: "'d double_ops \<Rightarrow> fjson \<Rightarrow> 'd v1_avg_price_t fj_result" where
  "construct_v1_avg_price D json =
     bind_exn (checked (fj_is_valid json)) (\<lambda>_.
     bind_exn (get_size ''mins'' json) (\<lambda>mins'.
     bind_exn (get_double D ''price'' json) (\<lambda>price'.
     Inr \<lparr>avgp_mins = mins', avgp_price = price'\<rparr>)))"

definition print_v1_avg_price :: "'d double_ops \<Rightarrow> 'd v1_avg_price_t \<Rightarrow> string" where
  "print_v1_avg_price D x =
     ''{'' @ qt @ ''mins'' @ qt @ '':'' @ size_text (avgp_mins x) @ '','' @
     qt @ ''price'' @ qt @ '':'' @ qt @ dt_show D (avgp_price x) @ qt @ ''}''"

record 'd v1_price_t =
  price_symbol :: string
  price_price :: 'd

definition construct_v1_price :: "'d double_ops \<Rightarrow> fjson \<Rightarrow> 'd v1_price_t fj_result" where
  "construct_v1_price D json =
     bind_exn (checked (fj_is_valid json)) (\<lambda>_.
     bind_exn (get_text ''symbol'' json) (\<lambda>symbol'.
     bind_exn (get_double D ''price'' json) (\<lambda>price'.
     Inr \<lparr>price_symbol = symbol', price_price = price'\<rparr>)))"

definition print_v1_price :: "'d double_ops \<Rightarrow> 'd v1_price_t \<Rightarrow> string" where
  "print_v1_price D x =
     ''{'' @ qt @ ''symbol'' @ qt @ '':'' @ qt @ price_symbol x @ qt @ '','' @
     qt @ ''price'' @ qt @ '':'' @ qt @ dt_show D (price_price x) @ qt @ ''}''"

definition read_v1_price :: "'d double_ops \<Rightarrow> fjson \<Rightarrow> 'd v1_price_t fj_result" where
  "read_v1_price D it =
     bind_exn (get_text ''symbol'' it) (\<lambda>symbol'.
     bind_exn (get_double D ''price'' it) (\<lambda>price'.
     Inr \<lparr>price_symbol = symbol', price_price = price'\<rparr>))"

record 'd v1_prices_t =
  prices_prices :: "(string, 'd v1_price_t) smap"

definition construct_v1_prices :: "'d double_ops \<Rightarrow> fjson \<Rightarrow> 'd v1_prices_t fj_result" where
  "construct_v1_prices D json =
     bind_exn (checked (fj_is_valid json)) (\<lambda>_.
     bind_exn (expect_type FJ_TYPE_ARRAY json) (\<lambda>_.
     bind_exn (read_each (read_v1_price D) json) (\<lambda>items.
     Inr \<lparr>prices_prices = emplace_all price_symbol items\<rparr>)))"

definition print_v1_prices :: "'d double_ops \<Rightarrow> 'd v1_prices_t \<Rightarrow> string" where
  "print_v1_prices D x = ''['' @ commas (map (\<lambda>(_, p). print_v1_price D p) (prices_prices x)) @ '']''"

definition prices_is_valid_symbol :: "string \<Rightarrow> 'd v1_prices_t \<Rightarrow> bool" where
  "prices_is_valid_symbol symb x \<longleftrightarrow> map_find (<) (prices_prices x) (c_str symb) \<noteq> None"

definition prices_get_by_symbol :: "string \<Rightarrow> 'd v1_prices_t \<Rightarrow> 'd v1_price_t option" where
  "prices_get_by_symbol symb x = map_find (<) (prices_prices x) (c_str symb)"

record 'd v1_24hrs_ticker_t =
  day_symbol :: string
  day_priceChange :: 'd
  day_priceChangePercent :: 'd
  day_weightedAvgPrice :: 'd
  day_prevClosePrice :: 'd
  day_lastPrice :: 'd
  day_lastQty :: 'd
  day_bidPrice :: 'd
  day_askPrice :: 'd
  day_openPrice :: 'd
  day_highPrice :: 'd
  day_lowPrice :: 'd
  day_volume :: 'd
  day_quoteVolume :: 'd
  day_openTime :: u64
  day_closeTime :: u64
  day_firstId :: u64
  day_lastId :: u64
  day_count :: u64

definition construct_v1_24hrs_ticker :: "'d double_ops \<Rightarrow> fjson \<Rightarrow> 'd v1_24hrs_ticker_t fj_result" where
  "construct_v1_24hrs_ticker D json =
     bind_exn (checked (fj_is_valid json)) (\<lambda>_.
     bind_exn (get_text ''symbol'' json) (\<lambda>symbol'.
     bind_exn (get_double D ''priceChange'' json) (\<lambda>priceChange'.
     bind_exn (get_double D ''priceChangePercent'' json) (\<lambda>priceChangePercent'.
     bind_exn (get_double D ''weightedAvgPrice'' json) (\<lambda>weightedAvgPrice'.
     bind_exn (get_double D ''prevClosePrice'' json) (\<lambda>prevClosePrice'.
     bind_exn (get_double D ''lastPrice'' json) (\<lambda>lastPrice'.
     bind_exn (get_double D ''lastQty'' json) (\<lambda>lastQty'.
     bind_exn (get_double D ''bidPrice'' json) (\<lambda>bidPrice'.
     bind_exn (get_double D ''askPrice'' json) (\<lambda>askPrice'.
     bind_exn (get_double D ''openPrice'' json) (\<lambda>openPrice'.
     bind_exn (get_double D ''highPrice'' json) (\<lambda>highPrice'.
     bind_exn (get_double D ''lowPrice'' json) (\<lambda>lowPrice'.
     bind_exn (get_double D ''volume'' json) (\<lambda>volume'.
     bind_exn (get_double D ''quoteVolume'' json) (\<lambda>quoteVolume'.
     bind_exn (get_size ''openTime'' json) (\<lambda>openTime'.
     bind_exn (get_size ''closeTime'' json) (\<lambda>closeTime'.
     bind_exn (get_size ''firstId'' json) (\<lambda>firstId'.
     bind_exn (get_size ''lastId'' json) (\<lambda>lastId'.
     bind_exn (get_size ''count'' json) (\<lambda>count'.
     Inr \<lparr>day_symbol = symbol', day_priceChange = priceChange', day_priceChangePercent = priceChangePercent', day_weightedAvgPrice = weightedAvgPrice', day_prevClosePrice = prevClosePrice', day_lastPrice = lastPrice', day_lastQty = lastQty', day_bidPrice = bidPrice', day_askPrice = askPrice', day_openPrice = openPrice', day_highPrice = highPrice', day_lowPrice = lowPrice', day_volume = volume', day_quoteVolume = quoteVolume', day_openTime = openTime', day_closeTime = closeTime', day_firstId = firstId', day_lastId = lastId', day_count = count'\<rparr>))))))))))))))))))))"

definition print_v1_24hrs_ticker :: "'d double_ops \<Rightarrow> 'd v1_24hrs_ticker_t \<Rightarrow> string" where
  "print_v1_24hrs_ticker D x =
     ''{'' @ qt @ ''symbol'' @ qt @ '':'' @ qt @ day_symbol x @ qt @ '','' @
     qt @ ''priceChange'' @ qt @ '':'' @ qt @ dt_show D (day_priceChange x) @ qt @ '','' @
     qt @ ''priceChangePercent'' @ qt @ '':'' @ qt @ dt_show D (day_priceChangePercent x) @ qt @ '','' @
     qt @ ''weightedAvgPrice'' @ qt @ '':'' @ qt @ dt_show D (day_weightedAvgPrice x) @ qt @ '','' @
     qt @ ''prevClosePrice'' @ qt @ '':'' @ qt @ dt_show D (day_prevClosePrice x) @ qt @ '','' @
     qt @ ''lastPrice'' @ qt @ '':'' @ qt @ dt_show D (day_lastPrice x) @ qt @ '','' @
     qt @ ''lastQty'' @ qt @ '':'' @ qt @ dt_show D (day_lastQty x) @ qt @ '','' @
     qt @ ''bidPrice'' @ qt @ '':'' @ qt @ dt_show D (day_bidPrice x) @ qt @ '','' @
     qt @ ''askPrice'' @ qt @ '':'' @ qt @ dt_show D (day_askPrice x) @ qt @ '','' @
     qt @ ''openPrice'' @ qt @ '':'' @ qt @ dt_show D (day_openPrice x) @ qt @ '','' @
     qt @ ''highPrice'' @ qt @ '':'' @ qt @ dt_show D (day_highPrice x) @ qt @ '','' @
     qt @ ''lowPrice'' @ qt @ '':'' @ qt @ dt_show D (day_lowPrice x) @ qt @ '','' @
     qt @ ''volume'' @ qt @ '':'' @ qt @ dt_show D (day_volume x) @ qt @ '','' @
     qt @ ''quoteVolume'' @ qt @ '':'' @ qt @ dt_show D (day_quoteVolume x) @ qt @ '','' @
     qt @ ''openTime'' @ qt @ '':'' @ size_text (day_openTime x) @ '','' @
     qt @ ''closeTime'' @ qt @ '':'' @ size_text (day_closeTime x) @ '','' @
     qt @ ''firstId'' @ qt @ '':'' @ size_text (day_firstId x) @ '','' @
     qt @ ''lastId'' @ qt @ '':'' @ size_text (day_lastId x) @ '','' @
     qt @ ''count'' @ qt @ '':'' @ size_text (day_count x) @ ''}''"

record 'd v1_24hrs_tickers_t =
  day_tickers :: "(string, 'd v1_24hrs_ticker_t) smap"

definition construct_v1_24hrs_tickers :: "'d double_ops \<Rightarrow> fjson \<Rightarrow> 'd v1_24hrs_tickers_t fj_result" where
  "construct_v1_24hrs_tickers D json =
     bind_exn (checked (fj_is_valid json)) (\<lambda>_.
     bind_exn (read_each (\<lambda>ji. bind_exn (expect_type FJ_TYPE_OBJECT ji) (\<lambda>_. construct_v1_24hrs_ticker D ji)) json) (\<lambda>items.
     Inr \<lparr>day_tickers = emplace_all day_symbol items\<rparr>))"

definition print_v1_24hrs_tickers :: "'d double_ops \<Rightarrow> 'd v1_24hrs_tickers_t \<Rightarrow> string" where
  "print_v1_24hrs_tickers D x = ''['' @ commas (map (\<lambda>(_, t). print_v1_24hrs_ticker D t) (day_tickers x)) @ '']''"

section \<open>Account\<close>

record 'd v1_balance_t =
  bal_asset :: string
  bal_free :: 'd
  bal_locked :: 'd

definition print_v1_balance :: "'d double_ops \<Rightarrow> 'd v1_balance_t \<Rightarrow> string" where
  "print_v1_balance D x =
     ''{'' @ qt @ ''asset'' @ qt @ '':'' @ qt @ bal_asset x @ qt @ '','' @
     qt @ ''free'' @ qt @ '':'' @ qt @ dt_show D (bal_free x) @ qt @ '','' @
     qt @ ''locked'' @ qt @ '':'' @ qt @ dt_show D (bal_locked x) @ qt @ ''}''"

text \<open>The constructor of a balance ignores the document.\<close>

definition construct_v1_balance :: "'d double_ops \<Rightarrow> fjson \<Rightarrow> 'd v1_balance_t fj_result" where
  "construct_v1_balance D json = Inr \<lparr>bal_asset = [], bal_free = dt_zero D, bal_locked = dt_zero D\<rparr>"

definition read_v1_balance :: "'d double_ops \<Rightarrow> fjson \<Rightarrow> 'd v1_balance_t fj_result" where
  "read_v1_balance D it =
     bind_exn (get_text ''asset'' it) (\<lambda>asset'.
     bind_exn (get_double D ''free'' it) (\<lambda>free'.
     bind_exn (get_double D ''locked'' it) (\<lambda>locked'.
     Inr \<lparr>bal_asset = asset', bal_free = free', bal_locked = locked'\<rparr>)))"

record 'd v1_account_info_t =
  acc_makerCommission :: u64
  acc_takerCommission :: u64
  acc_buyerCommission :: u64
  acc_sellerCommission :: u64
  acc_canTrade :: bool
  acc_canWithdraw :: bool
  acc_canDeposit :: bool
  acc_updateTime :: u64
  acc_balances :: "(string, 'd v1_balance_t) smap"

definition construct_v1_account_info :: "'d double_ops \<Rightarrow> fjson \<Rightarrow> 'd v1_account_info_t fj_result" where
  "construct_v1_account_info D json =
     bind_exn (checked (fj_is_valid json)) (\<lambda>_.
     bind_exn (get_size ''makerCommission'' json) (\<lambda>maker.
     bind_exn (get_size ''takerCommission'' json) (\<lambda>taker.
     bind_exn (get_size ''buyerCommission'' json) (\<lambda>buyer.
     bind_exn (get_size ''sellerCommission'' json) (\<lambda>seller.
     bind_exn (get_bool ''canTrade'' json) (\<lambda>trade.
     bind_exn (get_bool ''canWithdraw'' json) (\<lambda>withdraw.
     bind_exn (get_bool ''canDeposit'' json) (\<lambda>deposit.
     bind_exn (get_size ''updateTime'' json) (\<lambda>upd.
     bind_exn (fj_at ''balances'' json) (\<lambda>arr.
     bind_exn (expect_type FJ_TYPE_ARRAY arr) (\<lambda>_.
     bind_exn (read_each (read_v1_balance D) arr) (\<lambda>items.
     Inr \<lparr>acc_makerCommission = maker, acc_takerCommission = taker, acc_buyerCommission = buyer, acc_sellerCommission = seller,
          acc_canTrade = trade, acc_canWithdraw = withdraw, acc_canDeposit = deposit, acc_updateTime = upd,
          acc_balances = emplace_all bal_asset items\<rparr>))))))))))))"

definition get_balance :: "string \<Rightarrow> 'd v1_account_info_t \<Rightarrow> 'd v1_balance_t option" where
  "get_balance symbol x = map_find (<) (acc_balances x) (c_str symbol)"

definition add_balance :: "'d double_ops \<Rightarrow> string \<Rightarrow> 'd \<Rightarrow> 'd v1_account_info_t \<Rightarrow> ('d \<times> 'd v1_account_info_t) option" where
  "add_balance D symbol amount x =
     (case map_find (<) (acc_balances x) (c_str symbol) of
        None \<Rightarrow> None
      | Some b \<Rightarrow> let free' = dt_add D (bal_free b) amount
          in Some (free', x\<lparr>acc_balances := map_put (<) (c_str symbol) (b\<lparr>bal_free := free'\<rparr>) (acc_balances x)\<rparr>))"

definition sub_balance :: "'d double_ops \<Rightarrow> string \<Rightarrow> 'd \<Rightarrow> 'd v1_account_info_t \<Rightarrow> ('d \<times> 'd v1_account_info_t) option" where
  "sub_balance D symbol amount x =
     (case map_find (<) (acc_balances x) (c_str symbol) of
        None \<Rightarrow> None
      | Some b \<Rightarrow> let free' = dt_sub D (bal_free b) amount
          in Some (free', x\<lparr>acc_balances := map_put (<) (c_str symbol) (b\<lparr>bal_free := free'\<rparr>) (acc_balances x)\<rparr>))"

definition print_v1_account_info :: "'d double_ops \<Rightarrow> 'd v1_account_info_t \<Rightarrow> string" where
  "print_v1_account_info D x =
     ''{'' @ qt @ ''makerCommission'' @ qt @ '':'' @ size_text (acc_makerCommission x) @ '','' @
     qt @ ''takerCommission'' @ qt @ '':'' @ size_text (acc_takerCommission x) @ '','' @
     qt @ ''buyerCommission'' @ qt @ '':'' @ size_text (acc_buyerCommission x) @ '','' @
     qt @ ''sellerCommission'' @ qt @ '':'' @ size_text (acc_sellerCommission x) @ '','' @
     qt @ ''canTrade'' @ qt @ '':'' @ bool_text (acc_canTrade x) @ '','' @
     qt @ ''canWithdraw'' @ qt @ '':'' @ bool_text (acc_canWithdraw x) @ '','' @
     qt @ ''canDeposit'' @ qt @ '':'' @ bool_text (acc_canDeposit x) @ '','' @
     qt @ ''updateTime'' @ qt @ '':'' @ size_text (acc_updateTime x) @ '','' @
     qt @ ''balances'' @ qt @ '':['' @ commas (map (\<lambda>(_, b). print_v1_balance D b) (acc_balances x)) @ '']}''"

section \<open>Exchange information\<close>

record v1_rate_limit_t =
  rl_rateLimitType :: string
  rl_interval :: string
  rl_limit :: u64

definition print_v1_rate_limit :: "v1_rate_limit_t \<Rightarrow> string" where
  "print_v1_rate_limit x =
     ''{'' @ qt @ ''rateLimitType'' @ qt @ '':'' @ qt @ rl_rateLimitType x @ qt @ '','' @
     qt @ ''interval'' @ qt @ '':'' @ qt @ rl_interval x @ qt @ '','' @
     qt @ ''limit'' @ qt @ '':'' @ size_text (rl_limit x) @ ''}''"

definition read_v1_rate_limit :: "fjson \<Rightarrow> v1_rate_limit_t fj_result" where
  "read_v1_rate_limit it =
     bind_exn (get_text ''rateLimitType'' it) (\<lambda>rateLimitType'.
     bind_exn (get_text ''interval'' it) (\<lambda>interval'.
     bind_exn (get_size ''limit'' it) (\<lambda>limit'.
     Inr \<lparr>rl_rateLimitType = rateLimitType', rl_interval = interval', rl_limit = limit'\<rparr>)))"

record 'd v1_price_filter_t =
  pf_minPrice :: 'd
  pf_maxPrice :: 'd
  pf_tickSize :: 'd

definition print_v1_price_filter :: "'d double_ops \<Rightarrow> 'd v1_price_filter_t \<Rightarrow> string" where
  "print_v1_price_filter D x =
     ''{'' @ qt @ ''filterType'' @ qt @ '':'' @ qt @ ''PRICE_FILTER'' @ qt @ '','' @
     qt @ ''minPrice'' @ qt @ '':'' @ qt @ dt_show D (pf_minPrice x) @ qt @ '','' @
     qt @ ''maxPrice'' @ qt @ '':'' @ qt @ dt_show D (pf_maxPrice x) @ qt @ '','' @
     qt @ ''tickSize'' @ qt @ '':'' @ qt @ dt_show D (pf_tickSize x) @ qt @ ''}''"

definition read_v1_price_filter :: "'d double_ops \<Rightarrow> fjson \<Rightarrow> 'd v1_price_filter_t fj_result" where
  "read_v1_price_filter D it =
     bind_exn (get_double D ''minPrice'' it) (\<lambda>minPrice'.
     bind_exn (get_double D ''maxPrice'' it) (\<lambda>maxPrice'.
     bind_exn (get_double D ''tickSize'' it) (\<lambda>tickSize'.
     Inr \<lparr>pf_minPrice = minPrice', pf_maxPrice = maxPrice', pf_tickSize = tickSize'\<rparr>)))"

record 'd v1_percent_price_t =
  pp_multiplierUp :: 'd
  pp_multiplierDown :: 'd
  pp_avgPriceMins :: u64

definition print_v1_percent_price :: "'d double_ops \<Rightarrow> 'd v1_percent_price_t \<Rightarrow> string" where
  "print_v1_percent_price D x =
     ''{'' @ qt @ ''filterType'' @ qt @ '':'' @ qt @ ''PERCENT_PRICE'' @ qt @ '','' @
     qt @ ''multiplierUp'' @ qt @ '':'' @ qt @ dt_show D (pp_multiplierUp x) @ qt @ '','' @
     qt @ ''multiplierDown'' @ qt @ '':'' @ qt @ dt_show D (pp_multiplierDown x) @ qt @ '','' @
     qt @ ''avgPriceMins'' @ qt @ '':'' @ size_text (pp_avgPriceMins x) @ ''}''"

definition read_v1_percent_price :: "'d double_ops \<Rightarrow> fjson \<Rightarrow> 'd v1_percent_price_t fj_result" where
  "read_v1_percent_price D it =
     bind_exn (get_double D ''multiplierUp'' it) (\<lambda>multiplierUp'.
     bind_exn (get_double D ''multiplierDown'' it) (\<lambda>multiplierDown'.
     bind_exn (get_size ''avgPriceMins'' it) (\<lambda>avgPriceMins'.
     Inr \<lparr>pp_multiplierUp = multiplierUp', pp_multiplierDown = multiplierDown', pp_avgPriceMins = avgPriceMins'\<rparr>)))"

record 'd v1_percent_price_by_side_t =
  ps_bidMultiplierUp :: 'd
  ps_bidMultiplierDown :: 'd
  ps_askMultiplierUp :: 'd
  ps_askMultiplierDown :: 'd
  ps_avgPriceMins :: u64

definition print_v1_percent_price_by_side :: "'d double_ops \<Rightarrow> 'd v1_percent_price_by_side_t \<Rightarrow> string" where
  "print_v1_percent_price_by_side D x =
     ''{'' @ qt @ ''filterType'' @ qt @ '':'' @ qt @ ''PERCENT_PRICE_BY_SIDE'' @ qt @ '','' @
     qt @ ''bidMultiplierUp'' @ qt @ '':'' @ qt @ dt_show D (ps_bidMultiplierUp x) @ qt @ '','' @
     qt @ ''bidMultiplierDown'' @ qt @ '':'' @ qt @ dt_show D (ps_bidMultiplierDown x) @ qt @ '','' @
     qt @ ''askMultiplierUp'' @ qt @ '':'' @ qt @ dt_show D (ps_askMultiplierUp x) @ qt @ '','' @
     qt @ ''askMultiplierDown'' @ qt @ '':'' @ qt @ dt_show D (ps_askMultiplierDown x) @ qt @ '','' @
     qt @ ''avgPriceMins'' @ qt @ '':'' @ size_text (ps_avgPriceMins x) @ ''}''"

definition read_v1_percent_price_by_side :: "'d double_ops \<Rightarrow> fjson \<Rightarrow> 'd v1_percent_price_by_side_t fj_result" where
  "read_v1_percent_price_by_side D it =
     bind_exn (get_double D ''bidMultiplierUp'' it) (\<lambda>bidMultiplierUp'.
     bind_exn (get_double D ''bidMultiplierDown'' it) (\<lambda>bidMultiplierDown'.
     bind_exn (get_double D ''askMultiplierUp'' it) (\<lambda>askMultiplierUp'.
     bind_exn (get_double D ''askMultiplierDown'' it) (\<lambda>askMultiplierDown'.
     bind_exn (get_size ''avgPriceMins'' it) (\<lambda>avgPriceMins'.
     Inr \<lparr>ps_bidMultiplierUp = bidMultiplierUp', ps_bidMultiplierDown = bidMultiplierDown', ps_askMultiplierUp = askMultiplierUp', ps_askMultiplierDown = askMultiplierDown', ps_avgPriceMins = avgPriceMins'\<rparr>)))))"

record 'd v1_lot_size_t =
  ls_minQty :: 'd
  ls_maxQty :: 'd
  ls_stepSize :: 'd

definition print_v1_lot_size :: "'d double_ops \<Rightarrow> 'd v1_lot_size_t \<Rightarrow> string" where
  "print_v1_lot_size D x =
     ''{'' @ qt @ ''filterType'' @ qt @ '':'' @ qt @ ''LOT_SIZE'' @ qt @ '','' @
     qt @ ''minQty'' @ qt @ '':'' @ qt @ dt_show D (ls_minQty x) @ qt @ '','' @
     qt @ ''maxQty'' @ qt @ '':'' @ qt @ dt_show D (ls_maxQty x) @ qt @ '','' @
     qt @ ''stepSize'' @ qt @ '':'' @ qt @ dt_show D (ls_stepSize x) @ qt @ ''}''"

definition read_v1_lot_size :: "'d double_ops \<Rightarrow> fjson \<Rightarrow> 'd v1_lot_size_t fj_result" where
  "read_v1_lot_size D it =
     bind_exn (get_double D ''minQty'' it) (\<lambda>minQty'.
     bind_exn (get_double D ''maxQty'' it) (\<lambda>maxQty'.
     bind_exn (get_double D ''stepSize'' it) (\<lambda>stepSize'.
     Inr \<lparr>ls_minQty = minQty', ls_maxQty = maxQty', ls_stepSize = stepSize'\<rparr>)))"

record 'd v1_market_lot_size_t =
  ml_minQty :: 'd
  ml_maxQty :: 'd
  ml_stepSize :: 'd

definition print_v1_market_lot_size :: "'d double_ops \<Rightarrow> 'd v1_market_lot_size_t \<Rightarrow> string" where
  "print_v1_market_lot_size D x =
     ''{'' @ qt @ ''filterType'' @ qt @ '':'' @ qt @ ''MARKET_LOT_SIZE'' @ qt @ '','' @
     qt @ ''minQty'' @ qt @ '':'' @ qt @ dt_show D (ml_minQty x) @ qt @ '','' @
     qt @ ''maxQty'' @ qt @ '':'' @ qt @ dt_show D (ml_maxQty x) @ qt @ '','' @
     qt @ ''stepSize'' @ qt @ '':'' @ qt @ dt_show D (ml_stepSize x) @ qt @ ''}''"

definition read_v1_market_lot_size :: "'d double_ops \<Rightarrow> fjson \<Rightarrow> 'd v1_market_lot_size_t fj_result" where
  "read_v1_market_lot_size D it =
     bind_exn (get_double D ''minQty'' it) (\<lambda>minQty'.
     bind_exn (get_double D ''maxQty'' it) (\<lambda>maxQty'.
     bind_exn (get_double D ''stepSize'' it) (\<lambda>stepSize'.
     Inr \<lparr>ml_minQty = minQty', ml_maxQty = maxQty', ml_stepSize = stepSize'\<rparr>)))"

record 'd v1_min_notional_t =
  mn_minNotional :: 'd

definition print_v1_min_notional :: "'d double_ops \<Rightarrow> 'd v1_min_notional_t \<Rightarrow> string" where
  "print_v1_min_notional D x =
     ''{'' @ qt @ ''filterType'' @ qt @ '':'' @ qt @ ''MIN_NOTIONAL'' @ qt @ '','' @
     qt @ ''minNotional'' @ qt @ '':'' @ qt @ dt_show D (mn_minNotional x) @ qt @ ''}''"

definition read_v1_min_notional :: "'d double_ops \<Rightarrow> fjson \<Rightarrow> 'd v1_min_notional_t fj_result" where
  "read_v1_min_notional D it =
     bind_exn (get_double D ''minNotional'' it) (\<lambda>minNotional'.
     Inr \<lparr>mn_minNotional = minNotional'\<rparr>)"

record v1_iceberg_parts_t =
  ib_limit :: u64

definition print_v1_iceberg_parts :: "v1_iceberg_parts_t \<Rightarrow> string" where
  "print_v1_iceberg_parts x =
     ''{'' @ qt @ ''filterType'' @ qt @ '':'' @ qt @ ''ICEBERG_PARTS'' @ qt @ '','' @
     qt @ ''limit'' @ qt @ '':'' @ size_text (ib_limit x) @ ''}''"

definition read_v1_iceberg_parts :: "fjson \<Rightarrow> v1_iceberg_parts_t fj_result" where
  "read_v1_iceberg_parts it =
     bind_exn (get_size ''limit'' it) (\<lambda>limit'.
     Inr \<lparr>ib_limit = limit'\<rparr>)"

record v1_max_num_orders_t =
  mo_maxNumOrders :: u64

definition print_v1_max_num_orders :: "v1_max_num_orders_t \<Rightarrow> string" where
  "print_v1_max_num_orders x =
     ''{'' @ qt @ ''filterType'' @ qt @ '':'' @ qt @ ''MAX_NUM_ORDERS'' @ qt @ '','' @
     qt @ ''maxNumOrders'' @ qt @ '':'' @ size_text (mo_maxNumOrders x) @ ''}''"

definition read_v1_max_num_orders :: "fjson \<Rightarrow> v1_max_num_orders_t fj_result" where
  "read_v1_max_num_orders it =
     bind_exn (get_size ''maxNumOrders'' it) (\<lambda>maxNumOrders'.
     Inr \<lparr>mo_maxNumOrders = maxNumOrders'\<rparr>)"

record v1_max_num_algo_orders_t =
  ma_maxNumAlgoOrders :: u64

definition print_v1_max_num_algo_orders :: "v1_max_num_algo_orders_t \<Rightarrow> string" where
  "print_v1_max_num_algo_orders x =
     ''{'' @ qt @ ''filterType'' @ qt @ '':'' @ qt @ ''MAX_NUM_ALGO_ORDERS'' @ qt @ '','' @
     qt @ ''maxNumAlgoOrders'' @ qt @ '':'' @ size_text (ma_maxNumAlgoOrders x) @ ''}''"

definition read_v1_max_num_algo_orders :: "fjson \<Rightarrow> v1_max_num_algo_orders_t fj_result" where
  "read_v1_max_num_algo_orders it =
     bind_exn (get_size ''maxNumAlgoOrders'' it) (\<lambda>maxNumAlgoOrders'.
     Inr \<lparr>ma_maxNumAlgoOrders = maxNumAlgoOrders'\<rparr>)"

record 'd v1_max_position_t =
  mp_maxPosition :: 'd

definition print_v1_max_position :: "'d double_ops \<Rightarrow> 'd v1_max_position_t \<Rightarrow> string" where
  "print_v1_max_position D x =
     ''{'' @ qt @ ''filterType'' @ qt @ '':'' @ qt @ ''MAX_POSITION'' @ qt @ '','' @
     qt @ ''maxPosition'' @ qt @ '':'' @ qt @ dt_show D (mp_maxPosition x) @ qt @ ''}''"

definition read_v1_max_position :: "'d double_ops \<Rightarrow> fjson \<Rightarrow> 'd v1_max_position_t fj_result" where
  "read_v1_max_position D it =
     bind_exn (get_double D ''maxPosition'' it) (\<lambda>maxPosition'.
     Inr \<lparr>mp_maxPosition = maxPosition'\<rparr>)"

record v1_trailing_delta_t =
  td_minTrailingAboveDelta :: u64
  td_maxTrailingAboveDelta :: u64
  td_minTrailingBelowDelta :: u64
  td_maxTrailingBelowDelta :: u64

definition print_v1_trailing_delta :: "v1_trailing_delta_t \<Rightarrow> string" where
  "print_v1_trailing_delta x =
     ''{'' @ qt @ ''filterType'' @ qt @ '':'' @ qt @ ''TRAILING_DELTA'' @ qt @ '','' @
     qt @ ''minTrailingAboveDelta'' @ qt @ '':'' @ qt @ size_text (td_minTrailingAboveDelta x) @ qt @ '','' @
     qt @ ''maxTrailingAboveDelta'' @ qt @ '':'' @ qt @ size_text (td_maxTrailingAboveDelta x) @ qt @ '','' @
     qt @ ''minTrailingBelowDelta'' @ qt @ '':'' @ qt @ size_text (td_minTrailingBelowDelta x) @ qt @ '','' @
     qt @ ''maxTrailingBelowDelta'' @ qt @ '':'' @ qt @ size_text (td_maxTrailingBelowDelta x) @ qt @ ''}''"

definition read_v1_trailing_delta :: "fjson \<Rightarrow> v1_trailing_delta_t fj_result" where
  "read_v1_trailing_delta it =
     bind_exn (get_size ''minTrailingAboveDelta'' it) (\<lambda>minTrailingAboveDelta'.
     bind_exn (get_size ''maxTrailingAboveDelta'' it) (\<lambda>maxTrailingAboveDelta'.
     bind_exn (get_size ''minTrailingBelowDelta'' it) (\<lambda>minTrailingBelowDelta'.
     bind_exn (get_size ''maxTrailingBelowDelta'' it) (\<lambda>maxTrailingBelowDelta'.
     Inr \<lparr>td_minTrailingAboveDelta = minTrailingAboveDelta', td_maxTrailingAboveDelta = maxTrailingAboveDelta', td_minTrailingBelowDelta = minTrailingBelowDelta', td_maxTrailingBelowDelta = maxTrailingBelowDelta'\<rparr>))))"

record 'd v1_notional_t =
  no_minNotional :: 'd
  no_applyMinToMarket :: bool
  no_maxNotional :: 'd
  no_applyMaxToMarket :: bool
  no_avgPriceMins :: u64

definition print_v1_notional :: "'d double_ops \<Rightarrow> 'd v1_notional_t \<Rightarrow> string" where
  "print_v1_notional D x =
     ''{'' @ qt @ ''filterType'' @ qt @ '':'' @ qt @ ''NOTIONAL'' @ qt @ '','' @
     qt @ ''minNotional'' @ qt @ '':'' @ qt @ dt_show D (no_minNotional x) @ qt @ '','' @
     qt @ ''applyMinToMarket'' @ qt @ '':'' @ qt @ flag_text (no_applyMinToMarket x) @ qt @ '','' @
     qt @ ''maxNotional'' @ qt @ '':'' @ qt @ dt_show D (no_maxNotional x) @ qt @ '','' @
     qt @ ''applyMaxToMarket'' @ qt @ '':'' @ qt @ flag_text (no_applyMaxToMarket x) @ qt @ '','' @
     qt @ ''avgPriceMins'' @ qt @ '':'' @ qt @ size_text (no_avgPriceMins x) @ qt @ ''}''"

definition read_v1_notional :: "'d double_ops \<Rightarrow> fjson \<Rightarrow> 'd v1_notional_t fj_result" where
  "read_v1_notional D it =
     bind_exn (get_double D ''minNotional'' it) (\<lambda>minNotional'.
     bind_exn (get_bool ''applyMinToMarket'' it) (\<lambda>applyMinToMarket'.
     bind_exn (get_double D ''maxNotional'' it) (\<lambda>maxNotional'.
     bind_exn (get_bool ''applyMaxToMarket'' it) (\<lambda>applyMaxToMarket'.
     bind_exn (get_size ''avgPriceMins'' it) (\<lambda>avgPriceMins'.
     Inr \<lparr>no_minNotional = minNotional', no_applyMinToMarket = applyMinToMarket', no_maxNotional = maxNotional', no_applyMaxToMarket = applyMaxToMarket', no_avgPriceMins = avgPriceMins'\<rparr>)))))"

text \<open>\<^verbatim>\<open>boost::variant\<close> of the filters.\<close>

datatype 'd v1_filter_value =
    Filter_price_filter "'d v1_price_filter_t"
  | Filter_percent_price "'d v1_percent_price_t"
  | Filter_percent_price_by_side "'d v1_percent_price_by_side_t"
  | Filter_lot_size "'d v1_lot_size_t"
  | Filter_market_lot_size "'d v1_market_lot_size_t"
  | Filter_min_notional "'d v1_min_notional_t"
  | Filter_iceberg_parts "v1_iceberg_parts_t"
  | Filter_max_num_orders "v1_max_num_orders_t"
  | Filter_max_num_algo_orders "v1_max_num_algo_orders_t"
  | Filter_max_position "'d v1_max_position_t"
  | Filter_trailing_delta "v1_trailing_delta_t"
  | Filter_notional "'d v1_notional_t"

record 'd v1_filter_t =
  flt_type :: string
  flt_value :: "'d v1_filter_value"

definition filter_readers :: "'d double_ops \<Rightarrow> fjson \<Rightarrow> (string \<times> 'd v1_filter_value fj_result) list" where
  "filter_readers D fit =
     [(''PRICE_FILTER'', bind_exn (read_v1_price_filter D fit) (\<lambda>item. Inr (Filter_price_filter item))),
      (''PERCENT_PRICE'', bind_exn (read_v1_percent_price D fit) (\<lambda>item. Inr (Filter_percent_price item))),
      (''PERCENT_PRICE_BY_SIDE'', bind_exn (read_v1_percent_price_by_side D fit) (\<lambda>item. Inr (Filter_percent_price_by_side item))),
      (''LOT_SIZE'', bind_exn (read_v1_lot_size D fit) (\<lambda>item. Inr (Filter_lot_size item))),
      (''MARKET_LOT_SIZE'', bind_exn (read_v1_market_lot_size D fit) (\<lambda>item. Inr (Filter_market_lot_size item))),
      (''MIN_NOTIONAL'', bind_exn (read_v1_min_notional D fit) (\<lambda>item. Inr (Filter_min_notional item))),
      (''ICEBERG_PARTS'', bind_exn (read_v1_iceberg_parts fit) (\<lambda>item. Inr (Filter_iceberg_parts item))),
      (''MAX_NUM_ORDERS'', bind_exn (read_v1_max_num_orders fit) (\<lambda>item. Inr (Filter_max_num_orders item))),
      (''MAX_NUM_ALGO_ORDERS'', bind_exn (read_v1_max_num_algo_orders fit) (\<lambda>item. Inr (Filter_max_num_algo_orders item))),
      (''MAX_POSITION'', bind_exn (read_v1_max_position D fit) (\<lambda>item. Inr (Filter_max_position item))),
      (''NOTIONAL'', bind_exn (read_v1_notional D fit) (\<lambda>item. Inr (Filter_notional item))),
      (''TRAILING_DELTA'', bind_exn (read_v1_trailing_delta fit) (\<lambda>item. Inr (Filter_trailing_delta item)))]"

definition read_v1_filter :: "'d double_ops \<Rightarrow> fjson \<Rightarrow> 'd v1_filter_t fj_result" where
  "read_v1_filter D fit =
     bind_exn (get_text ''filterType'' fit) (\<lambda>ft.
     bind_exn (case switch_hash (filter_readers D fit) (fnv1a ft) of None \<Rightarrow> Inl Fj_undefined | Some r \<Rightarrow> r) (\<lambda>filter.
     Inr \<lparr>flt_type = ft, flt_value = filter\<rparr>))"

text \<open>The visitor writes to the stream of its first use; here that stream is the one written to.\<close>

definition print_v1_filter :: "'d double_ops \<Rightarrow> 'd v1_filter_t \<Rightarrow> string" where
  "print_v1_filter D x =
     (case flt_value x of
        Filter_price_filter f \<Rightarrow> print_v1_price_filter D f
      | Filter_percent_price f \<Rightarrow> print_v1_percent_price D f
      | Filter_percent_price_by_side f \<Rightarrow> print_v1_percent_price_by_side D f
      | Filter_lot_size f \<Rightarrow> print_v1_lot_size D f
      | Filter_market_lot_size f \<Rightarrow> print_v1_market_lot_size D f
      | Filter_min_notional f \<Rightarrow> print_v1_min_notional D f
      | Filter_iceberg_parts f \<Rightarrow> print_v1_iceberg_parts f
      | Filter_max_num_orders f \<Rightarrow> print_v1_max_num_orders f
      | Filter_max_num_algo_orders f \<Rightarrow> print_v1_max_num_algo_orders f
      | Filter_max_position f \<Rightarrow> print_v1_max_position D f
      | Filter_trailing_delta f \<Rightarrow> print_v1_trailing_delta f
      | Filter_notional f \<Rightarrow> print_v1_notional D f)"

record 'd v1_symbol_t =
  sym_symbol :: string
  sym_status :: string
  sym_baseAsset :: string
  sym_baseAssetPrecision :: u64
  sym_quoteAsset :: string
  sym_quotePrecision :: u64
  sym_orderTypes :: "string list"
  sym_icebergAllowed :: bool
  sym_ocoAllowed :: bool
  sym_quoteOrderQtyMarketAllowed :: bool
  sym_allowTrailingStop :: bool
  sym_cancelReplaceAllowed :: bool
  sym_filters :: "'d v1_filter_t list"

text \<open>The flags that are not read keep the value of the initialisation.\<close>

definition read_v1_symbol :: "'d double_ops \<Rightarrow> fjson \<Rightarrow> 'd v1_symbol_t fj_result" where
  "read_v1_symbol D sit =
     bind_exn (get_text ''symbol'' sit) (\<lambda>symbol.
     bind_exn (get_text ''status'' sit) (\<lambda>status.
     bind_exn (get_text ''baseAsset'' sit) (\<lambda>base.
     bind_exn (get_size ''baseAssetPrecision'' sit) (\<lambda>bprec.
     bind_exn (get_text ''quoteAsset'' sit) (\<lambda>quote.
     bind_exn (get_size ''quotePrecision'' sit) (\<lambda>qprec.
     bind_exn (get_bool ''icebergAllowed'' sit) (\<lambda>iceberg.
     bind_exn (fj_at ''orderTypes'' sit) (\<lambda>types.
     bind_exn (expect_type FJ_TYPE_ARRAY types) (\<lambda>_.
     bind_exn (read_each fj_to_sstring types) (\<lambda>order_types.
     bind_exn (fj_at ''filters'' sit) (\<lambda>filters2.
     bind_exn (expect_type FJ_TYPE_ARRAY filters2) (\<lambda>_.
     bind_exn (read_each (read_v1_filter D) filters2) (\<lambda>filters.
     Inr \<lparr>sym_symbol = symbol, sym_status = status, sym_baseAsset = base, sym_baseAssetPrecision = bprec, sym_quoteAsset = quote,
          sym_quotePrecision = qprec, sym_orderTypes = order_types, sym_icebergAllowed = iceberg, sym_ocoAllowed = False,
          sym_quoteOrderQtyMarketAllowed = False, sym_allowTrailingStop = False, sym_cancelReplaceAllowed = False,
          sym_filters = filters\<rparr>)))))))))))))"

text \<open>
  The flags of a symbol. The reader of a flag takes a C string: it goes on past the value to the end of the
  source. A view keeps only the text of its value, so the source from that value on is an input, \<open>source_from\<close>.
\<close>

definition read_v1_permissions :: "(fjson \<Rightarrow> string) \<Rightarrow> fjson \<Rightarrow> u64 fj_result" where
  "read_v1_permissions source_from sit =
     bind_exn (fj_at ''permissions'' sit) (\<lambda>permissions.
     bind_exn (expect_type FJ_TYPE_ARRAY permissions) (\<lambda>_.
     bind_exn (read_each (\<lambda>p. bind_exn (fj_to_sstring p) (\<lambda>_.
       case e_permissions_from_string (source_from p) of None \<Rightarrow> Inl Fj_undefined | Some e \<Rightarrow> Inr (e_permissions_value e))) permissions) (\<lambda>flags.
     Inr (foldl (OR) 0 flags))))"

definition print_v1_symbol :: "'d double_ops \<Rightarrow> 'd v1_symbol_t \<Rightarrow> string" where
  "print_v1_symbol D x =
     ''{'' @ qt @ ''symbol'' @ qt @ '':'' @ qt @ sym_symbol x @ qt @ '','' @
     qt @ ''status'' @ qt @ '':'' @ qt @ sym_status x @ qt @ '','' @
     qt @ ''baseAsset'' @ qt @ '':'' @ qt @ sym_baseAsset x @ qt @ '','' @
     qt @ ''baseAssetPrecision'' @ qt @ '':'' @ size_text (sym_baseAssetPrecision x) @ '','' @
     qt @ ''quoteAsset'' @ qt @ '':'' @ qt @ sym_quoteAsset x @ qt @ '','' @
     qt @ ''quotePrecision'' @ qt @ '':'' @ size_text (sym_quotePrecision x) @ '','' @
     qt @ ''orderTypes'' @ qt @ '':['' @ commas (map (\<lambda>t. qt @ t @ qt) (sym_orderTypes x)) @ ''],'' @
     qt @ ''icebergAllowed'' @ qt @ '':'' @ bool_text (sym_icebergAllowed x) @ '','' @
     qt @ ''ocoAllowed'' @ qt @ '':'' @ bool_text (sym_ocoAllowed x) @ '','' @
     qt @ ''quoteOrderQtyMarketAllowed'' @ qt @ '':'' @ bool_text (sym_quoteOrderQtyMarketAllowed x) @ '','' @
     qt @ ''allowTrailingStop'' @ qt @ '':'' @ bool_text (sym_allowTrailingStop x) @ '','' @
     qt @ ''cancelReplaceAllowed'' @ qt @ '':'' @ bool_text (sym_cancelReplaceAllowed x) @ '','' @
     qt @ ''filters'' @ qt @ '':['' @ commas (map (print_v1_filter D) (sym_filters x)) @ '']'' @ ''}''"

text \<open>\<^verbatim>\<open>get_filter<T>\<close>: the first filter of the type, selected by \<open>sel\<close>.\<close>

fun get_filter :: "('d v1_filter_value \<Rightarrow> 'f option) \<Rightarrow> 'd v1_filter_t list \<Rightarrow> 'f option" where
  "get_filter sel [] = None"
| "get_filter sel (it # fs) = (case sel (flt_value it) of Some p \<Rightarrow> Some p | None \<Rightarrow> get_filter sel fs)"

definition get_filter_price_filter :: "'d v1_symbol_t \<Rightarrow> 'd v1_price_filter_t option" where
  "get_filter_price_filter x = get_filter (\<lambda>v. case v of Filter_price_filter f \<Rightarrow> Some f | _ \<Rightarrow> None) (sym_filters x)"

definition get_filter_percent_price :: "'d v1_symbol_t \<Rightarrow> 'd v1_percent_price_t option" where
  "get_filter_percent_price x = get_filter (\<lambda>v. case v of Filter_percent_price f \<Rightarrow> Some f | _ \<Rightarrow> None) (sym_filters x)"

definition get_filter_percent_price_by_side :: "'d v1_symbol_t \<Rightarrow> 'd v1_percent_price_by_side_t option" where
  "get_filter_percent_price_by_side x = get_filter (\<lambda>v. case v of Filter_percent_price_by_side f \<Rightarrow> Some f | _ \<Rightarrow> None) (sym_filters x)"

definition get_filter_lot_size :: "'d v1_symbol_t \<Rightarrow> 'd v1_lot_size_t option" where
  "get_filter_lot_size x = get_filter (\<lambda>v. case v of Filter_lot_size f \<Rightarrow> Some f | _ \<Rightarrow> None) (sym_filters x)"

definition get_filter_market_lot_size :: "'d v1_symbol_t \<Rightarrow> 'd v1_market_lot_size_t option" where
  "get_filter_market_lot_size x = get_filter (\<lambda>v. case v of Filter_market_lot_size f \<Rightarrow> Some f | _ \<Rightarrow> None) (sym_filters x)"

definition get_filter_min_notional :: "'d v1_symbol_t \<Rightarrow> 'd v1_min_notional_t option" where
  "get_filter_min_notional x = get_filter (\<lambda>v. case v of Filter_min_notional f \<Rightarrow> Some f | _ \<Rightarrow> None) (sym_filters x)"

definition get_filter_iceberg_parts :: "'d v1_symbol_t \<Rightarrow> v1_iceberg_parts_t option" where
  "get_filter_iceberg_parts x = get_filter (\<lambda>v. case v of Filter_iceberg_parts f \<Rightarrow> Some f | _ \<Rightarrow> None) (sym_filters x)"

definition get_filter_max_num_orders :: "'d v1_symbol_t \<Rightarrow> v1_max_num_orders_t option" where
  "get_filter_max_num_orders x = get_filter (\<lambda>v. case v of Filter_max_num_orders f \<Rightarrow> Some f | _ \<Rightarrow> None) (sym_filters x)"

definition get_filter_max_num_algo_orders :: "'d v1_symbol_t \<Rightarrow> v1_max_num_algo_orders_t option" where
  "get_filter_max_num_algo_orders x = get_filter (\<lambda>v. case v of Filter_max_num_algo_orders f \<Rightarrow> Some f | _ \<Rightarrow> None) (sym_filters x)"

definition get_filter_max_position :: "'d v1_symbol_t \<Rightarrow> 'd v1_max_position_t option" where
  "get_filter_max_position x = get_filter (\<lambda>v. case v of Filter_max_position f \<Rightarrow> Some f | _ \<Rightarrow> None) (sym_filters x)"

definition get_filter_trailing_delta :: "'d v1_symbol_t \<Rightarrow> v1_trailing_delta_t option" where
  "get_filter_trailing_delta x = get_filter (\<lambda>v. case v of Filter_trailing_delta f \<Rightarrow> Some f | _ \<Rightarrow> None) (sym_filters x)"

definition get_filter_notional :: "'d v1_symbol_t \<Rightarrow> 'd v1_notional_t option" where
  "get_filter_notional x = get_filter (\<lambda>v. case v of Filter_notional f \<Rightarrow> Some f | _ \<Rightarrow> None) (sym_filters x)"

record 'd v1_exchange_info_t =
  ex_timezone :: string
  ex_serverTime :: u64
  ex_exchangeFilters :: "string list"
  ex_rateLimits :: "v1_rate_limit_t list"
  ex_symbols :: "(string, 'd v1_symbol_t) smap"
  ex_permissions :: u64

definition exchange_is_valid_symbol :: "string \<Rightarrow> 'd v1_exchange_info_t \<Rightarrow> bool" where
  "exchange_is_valid_symbol symb x \<longleftrightarrow> map_find (<) (ex_symbols x) (c_str symb) \<noteq> None"

definition exchange_get_by_symbol :: "string \<Rightarrow> 'd v1_exchange_info_t \<Rightarrow> 'd v1_symbol_t option" where
  "exchange_get_by_symbol symb x = map_find (<) (ex_symbols x) (c_str symb)"

text \<open>The flags are those of the last symbol: they are cleared for every symbol.\<close>

definition construct_v1_exchange_info ::
  "(fjson \<Rightarrow> string) \<Rightarrow> 'd double_ops \<Rightarrow> fjson \<Rightarrow> 'd v1_exchange_info_t fj_result" where
  "construct_v1_exchange_info source_from D json =
     bind_exn (checked (fj_is_valid json)) (\<lambda>_.
     bind_exn (get_text ''timezone'' json) (\<lambda>tz.
     bind_exn (get_size ''serverTime'' json) (\<lambda>time.
     bind_exn (fj_at ''exchangeFilters'' json) (\<lambda>filters.
     bind_exn (expect_type FJ_TYPE_ARRAY filters) (\<lambda>_.
     bind_exn (read_each fj_to_sstring filters) (\<lambda>efilters.
     bind_exn (fj_at ''rateLimits'' json) (\<lambda>limits.
     bind_exn (expect_type FJ_TYPE_ARRAY limits) (\<lambda>_.
     bind_exn (read_each read_v1_rate_limit limits) (\<lambda>rate_limits.
     bind_exn (fj_at ''symbols'' json) (\<lambda>symbols.
     bind_exn (expect_type FJ_TYPE_ARRAY symbols) (\<lambda>_.
     bind_exn (read_each (\<lambda>sit. bind_exn (read_v1_symbol D sit) (\<lambda>sym.
       bind_exn (read_v1_permissions source_from sit) (\<lambda>flags. Inr (sym, flags)))) symbols) (\<lambda>syms.
     Inr \<lparr>ex_timezone = tz, ex_serverTime = time, ex_exchangeFilters = efilters, ex_rateLimits = rate_limits,
          ex_symbols = emplace_all sym_symbol (map fst syms), ex_permissions = (if syms = [] then 0 else snd (last syms))\<rparr>))))))))))))"

text \<open>The names of the set flags; only the flag of the last name is written without a comma after it.\<close>

definition perms_arr :: "e_permissions list" where
  "perms_arr = [Perm_NONE, Perm_SPOT, Perm_MARGIN, Perm_LEVERAGED, Perm_TRD_GRP_002, Perm_TRD_GRP_003, Perm_TRD_GRP_004, Perm_TRD_GRP_005]"

fun print_flags :: "u64 \<Rightarrow> e_permissions list \<Rightarrow> string" where
  "print_flags p [] = []"
| "print_flags p (e # es) =
     (if p AND e_permissions_value e \<noteq> 0 then qt @ e_permissions_to_string e @ qt @ (if es = [] then [] else '','') else []) @
     print_flags p es"

definition print_v1_exchange_info :: "'d double_ops \<Rightarrow> 'd v1_exchange_info_t \<Rightarrow> string" where
  "print_v1_exchange_info D x =
     ''{'' @ qt @ ''timezone'' @ qt @ '':'' @ qt @ ex_timezone x @ qt @ '','' @
     qt @ ''serverTime'' @ qt @ '':'' @ size_text (ex_serverTime x) @ '','' @
     qt @ ''exchangeFilters'' @ qt @ '':['' @ commas (map (\<lambda>t. qt @ t @ qt) (ex_exchangeFilters x)) @ ''],'' @
     qt @ ''rateLimits'' @ qt @ '':['' @ commas (map print_v1_rate_limit (ex_rateLimits x)) @ ''],'' @
     qt @ ''symbols'' @ qt @ '':['' @ commas (map (\<lambda>(_, s). print_v1_symbol D s) (ex_symbols x)) @ ''],'' @
     qt @ ''permissions'' @ qt @ '':['' @ print_flags (ex_permissions x) perms_arr @ '']'' @ ''}''"

section \<open>Market data\<close>

record 'd v1_depth_t =
  dp_price :: 'd
  dp_amount :: 'd

definition print_v1_depth :: "'d double_ops \<Rightarrow> 'd v1_depth_t \<Rightarrow> string" where
  "print_v1_depth D x = ''['' @ qt @ dt_show D (dp_price x) @ qt @ '','' @ qt @ dt_show D (dp_amount x) @ qt @ '','' @ ''[]'' @ '']''"

definition read_v1_depth :: "'d double_ops \<Rightarrow> fjson \<Rightarrow> 'd v1_depth_t fj_result" where
  "read_v1_depth D it =
     bind_exn (double_at D 0 it) (\<lambda>price. bind_exn (double_at D 1 it) (\<lambda>amount. Inr \<lparr>dp_price = price, dp_amount = amount\<rparr>))"

definition read_v1_level :: "'d double_ops \<Rightarrow> fjson \<Rightarrow> 'd v1_depth_t fj_result" where
  "read_v1_level D it = bind_exn (expect_type FJ_TYPE_ARRAY it) (\<lambda>_. read_v1_depth D it)"

record 'd v1_depths_t =
  dps_lastUpdateId :: u64
  dps_bids :: "'d v1_depth_t list"
  dps_asks :: "'d v1_depth_t list"

definition construct_v1_depths :: "'d double_ops \<Rightarrow> fjson \<Rightarrow> 'd v1_depths_t fj_result" where
  "construct_v1_depths D json =
     bind_exn (checked (fj_is_valid json)) (\<lambda>_.
     bind_exn (get_size ''lastUpdateId'' json) (\<lambda>uid.
     bind_exn (fj_at ''bids'' json) (\<lambda>bids.
     bind_exn (expect_type FJ_TYPE_ARRAY bids) (\<lambda>_.
     bind_exn (read_each (read_v1_level D) bids) (\<lambda>bs.
     bind_exn (fj_at ''asks'' json) (\<lambda>asks.
     bind_exn (expect_type FJ_TYPE_ARRAY asks) (\<lambda>_.
     bind_exn (read_each (read_v1_level D) asks) (\<lambda>as.
     Inr \<lparr>dps_lastUpdateId = uid, dps_bids = bs, dps_asks = as\<rparr>))))))))"

definition print_v1_depths :: "'d double_ops \<Rightarrow> 'd v1_depths_t \<Rightarrow> string" where
  "print_v1_depths D x =
     ''{'' @ qt @ ''lastUpdateId'' @ qt @ '':'' @ size_text (dps_lastUpdateId x) @ '','' @
     qt @ ''bids'' @ qt @ '':['' @ commas (map (print_v1_depth D) (dps_bids x)) @ ''],'' @
     qt @ ''asks'' @ qt @ '':['' @ commas (map (print_v1_depth D) (dps_asks x)) @ '']}''"

record 'd v1_trade_t =
  trd_id :: u64
  trd_price :: 'd
  trd_qty :: 'd
  trd_time :: u64
  trd_isBuyerMaker :: bool
  trd_isBestMatch :: bool

definition construct_v1_trade :: "'d double_ops \<Rightarrow> fjson \<Rightarrow> 'd v1_trade_t fj_result" where
  "construct_v1_trade D json =
     bind_exn (checked (fj_is_valid json)) (\<lambda>_.
     bind_exn (fj_at_idx 0 json) (\<lambda>it.
     bind_exn (get_size ''id'' it) (\<lambda>id'.
     bind_exn (get_double D ''price'' it) (\<lambda>price'.
     bind_exn (get_double D ''qty'' it) (\<lambda>qty'.
     bind_exn (get_size ''time'' it) (\<lambda>time'.
     bind_exn (get_bool ''isBuyerMaker'' it) (\<lambda>isBuyerMaker'.
     bind_exn (get_bool ''isBestMatch'' it) (\<lambda>isBestMatch'.
     Inr \<lparr>trd_id = id', trd_price = price', trd_qty = qty', trd_time = time', trd_isBuyerMaker = isBuyerMaker', trd_isBestMatch = isBestMatch'\<rparr>))))))))"

definition print_v1_trade :: "'d double_ops \<Rightarrow> 'd v1_trade_t \<Rightarrow> string" where
  "print_v1_trade D x =
     ''{'' @ qt @ ''id'' @ qt @ '':'' @ size_text (trd_id x) @ '','' @
     qt @ ''price'' @ qt @ '':'' @ qt @ dt_show D (trd_price x) @ qt @ '','' @
     qt @ ''qty'' @ qt @ '':'' @ qt @ dt_show D (trd_qty x) @ qt @ '','' @
     qt @ ''time'' @ qt @ '':'' @ size_text (trd_time x) @ '','' @
     qt @ ''isBuyerMaker'' @ qt @ '':'' @ bool_text (trd_isBuyerMaker x) @ '','' @
     qt @ ''isBestMatch'' @ qt @ '':'' @ bool_text (trd_isBestMatch x) @ ''}''"

definition read_v1_trade :: "'d double_ops \<Rightarrow> fjson \<Rightarrow> 'd v1_trade_t fj_result" where
  "read_v1_trade D it =
     bind_exn (get_size ''id'' it) (\<lambda>id'.
     bind_exn (get_double D ''price'' it) (\<lambda>price'.
     bind_exn (get_double D ''qty'' it) (\<lambda>qty'.
     bind_exn (get_size ''time'' it) (\<lambda>time'.
     bind_exn (get_bool ''isBuyerMaker'' it) (\<lambda>isBuyerMaker'.
     bind_exn (get_bool ''isBestMatch'' it) (\<lambda>isBestMatch'.
     Inr \<lparr>trd_id = id', trd_price = price', trd_qty = qty', trd_time = time', trd_isBuyerMaker = isBuyerMaker', trd_isBestMatch = isBestMatch'\<rparr>))))))"

record 'd v1_agg_trade_t =
  agg_id :: u64
  agg_price :: 'd
  agg_qty :: 'd
  agg_first_id :: u64
  agg_last_id :: u64
  agg_time :: u64
  agg_isBuyerMaker :: bool
  agg_isBestMatch :: bool

definition construct_v1_agg_trade :: "'d double_ops \<Rightarrow> fjson \<Rightarrow> 'd v1_agg_trade_t fj_result" where
  "construct_v1_agg_trade D json =
     bind_exn (checked (fj_is_valid json)) (\<lambda>_.
     bind_exn (fj_at_idx 0 json) (\<lambda>it.
     bind_exn (get_size ''a'' it) (\<lambda>id'.
     bind_exn (get_double D ''p'' it) (\<lambda>price'.
     bind_exn (get_double D ''q'' it) (\<lambda>qty'.
     bind_exn (get_size ''f'' it) (\<lambda>first_id'.
     bind_exn (get_size ''l'' it) (\<lambda>last_id'.
     bind_exn (get_size ''T'' it) (\<lambda>time'.
     bind_exn (get_bool ''m'' it) (\<lambda>isBuyerMaker'.
     bind_exn (get_bool ''M'' it) (\<lambda>isBestMatch'.
     Inr \<lparr>agg_id = id', agg_price = price', agg_qty = qty', agg_first_id = first_id', agg_last_id = last_id', agg_time = time', agg_isBuyerMaker = isBuyerMaker', agg_isBestMatch = isBestMatch'\<rparr>))))))))))"

definition print_v1_agg_trade :: "'d double_ops \<Rightarrow> 'd v1_agg_trade_t \<Rightarrow> string" where
  "print_v1_agg_trade D x =
     ''{'' @ qt @ ''id'' @ qt @ '':'' @ size_text (agg_id x) @ '','' @
     qt @ ''price'' @ qt @ '':'' @ qt @ dt_show D (agg_price x) @ qt @ '','' @
     qt @ ''qty'' @ qt @ '':'' @ qt @ dt_show D (agg_qty x) @ qt @ '','' @
     qt @ ''first_id'' @ qt @ '':'' @ size_text (agg_first_id x) @ '','' @
     qt @ ''last_id'' @ qt @ '':'' @ size_text (agg_last_id x) @ '','' @
     qt @ ''time'' @ qt @ '':'' @ size_text (agg_time x) @ '','' @
     qt @ ''isBuyerMaker'' @ qt @ '':'' @ bool_text (agg_isBuyerMaker x) @ '','' @
     qt @ ''isBestMatch'' @ qt @ '':'' @ bool_text (agg_isBestMatch x) @ ''}''"

definition read_v1_agg_trade :: "'d double_ops \<Rightarrow> fjson \<Rightarrow> 'd v1_agg_trade_t fj_result" where
  "read_v1_agg_trade D it =
     bind_exn (get_size ''a'' it) (\<lambda>id'.
     bind_exn (get_double D ''p'' it) (\<lambda>price'.
     bind_exn (get_double D ''q'' it) (\<lambda>qty'.
     bind_exn (get_size ''f'' it) (\<lambda>first_id'.
     bind_exn (get_size ''l'' it) (\<lambda>last_id'.
     bind_exn (get_size ''T'' it) (\<lambda>time'.
     bind_exn (get_bool ''m'' it) (\<lambda>isBuyerMaker'.
     bind_exn (get_bool ''M'' it) (\<lambda>isBestMatch'.
     Inr \<lparr>agg_id = id', agg_price = price', agg_qty = qty', agg_first_id = first_id', agg_last_id = last_id', agg_time = time', agg_isBuyerMaker = isBuyerMaker', agg_isBestMatch = isBestMatch'\<rparr>))))))))"

record 'd v1_trades_t =
  trds_trades :: "'d v1_trade_t list"

definition construct_v1_trades :: "'d double_ops \<Rightarrow> fjson \<Rightarrow> 'd v1_trades_t fj_result" where
  "construct_v1_trades D json =
     bind_exn (checked (fj_is_valid json)) (\<lambda>_.
     bind_exn (read_each (read_v1_trade D) json) (\<lambda>items. Inr \<lparr>trds_trades = items\<rparr>))"

definition print_v1_trades :: "'d double_ops \<Rightarrow> 'd v1_trades_t \<Rightarrow> string" where
  "print_v1_trades D x = ''['' @ commas (map (print_v1_trade D) (trds_trades x)) @ '']''"

record 'd v1_agg_trades_t =
  aggs_trades :: "'d v1_agg_trade_t list"

definition construct_v1_agg_trades :: "'d double_ops \<Rightarrow> fjson \<Rightarrow> 'd v1_agg_trades_t fj_result" where
  "construct_v1_agg_trades D json =
     bind_exn (checked (fj_is_valid json)) (\<lambda>_.
     bind_exn (read_each (read_v1_agg_trade D) json) (\<lambda>items. Inr \<lparr>aggs_trades = items\<rparr>))"

definition print_v1_agg_trades :: "'d double_ops \<Rightarrow> 'd v1_agg_trades_t \<Rightarrow> string" where
  "print_v1_agg_trades D x = ''['' @ commas (map (print_v1_agg_trade D) (aggs_trades x)) @ '']''"

record 'd v1_kline_t =
  kl_start_time :: u64
  kl_end_time :: u64
  kl_open :: 'd
  kl_high :: 'd
  kl_low :: 'd
  kl_close :: 'd
  kl_volume :: 'd
  kl_quote_volume :: 'd
  kl_num_trades :: u64
  kl_taker_buy_base_vol :: 'd
  kl_taker_buy_quote_vol :: 'd

definition print_v1_kline :: "'d double_ops \<Rightarrow> 'd v1_kline_t \<Rightarrow> string" where
  "print_v1_kline D x =
     ''['' @ size_text (kl_start_time x) @ '','' @
     qt @ dt_show D (kl_open x) @ qt @ '','' @
     qt @ dt_show D (kl_high x) @ qt @ '','' @
     qt @ dt_show D (kl_low x) @ qt @ '','' @
     qt @ dt_show D (kl_close x) @ qt @ '','' @
     qt @ dt_show D (kl_volume x) @ qt @ '','' @
     size_text (kl_end_time x) @ '','' @
     qt @ dt_show D (kl_quote_volume x) @ qt @ '','' @
     size_text (kl_num_trades x) @ '','' @
     qt @ dt_show D (kl_taker_buy_base_vol x) @ qt @ '','' @
     qt @ dt_show D (kl_taker_buy_quote_vol x) @ qt @ '']''"

definition read_v1_kline :: "'d double_ops \<Rightarrow> fjson \<Rightarrow> 'd v1_kline_t fj_result" where
  "read_v1_kline D it =
     bind_exn (expect_type FJ_TYPE_ARRAY it) (\<lambda>_.
     bind_exn (size_at 0 it) (\<lambda>start_time'.
     bind_exn (double_at D 1 it) (\<lambda>open'.
     bind_exn (double_at D 2 it) (\<lambda>high'.
     bind_exn (double_at D 3 it) (\<lambda>low'.
     bind_exn (double_at D 4 it) (\<lambda>close'.
     bind_exn (double_at D 5 it) (\<lambda>volume'.
     bind_exn (size_at 6 it) (\<lambda>end_time'.
     bind_exn (double_at D 7 it) (\<lambda>quote_volume'.
     bind_exn (size_at 8 it) (\<lambda>num_trades'.
     bind_exn (double_at D 9 it) (\<lambda>base_vol'.
     bind_exn (double_at D 10 it) (\<lambda>quote_vol'.
     Inr \<lparr>kl_start_time = start_time', kl_end_time = end_time', kl_open = open', kl_high = high', kl_low = low', kl_close = close',
          kl_volume = volume', kl_quote_volume = quote_volume', kl_num_trades = num_trades', kl_taker_buy_base_vol = base_vol',
          kl_taker_buy_quote_vol = quote_vol'\<rparr>))))))))))))"

record 'd v1_klines_t =
  kls_klines :: "'d v1_kline_t list"

definition construct_v1_klines :: "'d double_ops \<Rightarrow> fjson \<Rightarrow> 'd v1_klines_t fj_result" where
  "construct_v1_klines D json =
     bind_exn (checked (fj_is_valid json)) (\<lambda>_.
     bind_exn (read_each (read_v1_kline D) json) (\<lambda>items. Inr \<lparr>kls_klines = items\<rparr>))"

definition print_v1_klines :: "'d double_ops \<Rightarrow> 'd v1_klines_t \<Rightarrow> string" where
  "print_v1_klines D x = ''['' @ commas (map (print_v1_kline D) (kls_klines x)) @ '']''"

section \<open>Orders\<close>

record 'd v1_order_info_t =
  oi_symbol :: string
  oi_orderId :: u64
  oi_clientOrderId :: string
  oi_price :: 'd
  oi_origQty :: 'd
  oi_executedQty :: 'd
  oi_cummulativeQuoteQty :: 'd
  oi_status :: string
  oi_timeInForce :: string
  oi_type :: string
  oi_side :: string
  oi_stopPrice :: 'd
  oi_icebergQty :: 'd
  oi_time :: u64
  oi_updateTime :: u64
  oi_isWorking :: bool

definition construct_v1_order_info :: "'d double_ops \<Rightarrow> fjson \<Rightarrow> 'd v1_order_info_t fj_result" where
  "construct_v1_order_info D json =
     bind_exn (checked (fj_is_valid json)) (\<lambda>_.
     bind_exn (get_text ''symbol'' json) (\<lambda>symbol'.
     bind_exn (get_size ''orderId'' json) (\<lambda>orderId'.
     bind_exn (get_text ''clientOrderId'' json) (\<lambda>clientOrderId'.
     bind_exn (get_double D ''price'' json) (\<lambda>price'.
     bind_exn (get_double D ''origQty'' json) (\<lambda>origQty'.
     bind_exn (get_double D ''executedQty'' json) (\<lambda>executedQty'.
     bind_exn (get_double D ''cummulativeQuoteQty'' json) (\<lambda>cummulativeQuoteQty'.
     bind_exn (get_text ''status'' json) (\<lambda>status'.
     bind_exn (get_text ''timeInForce'' json) (\<lambda>timeInForce'.
     bind_exn (get_text ''type'' json) (\<lambda>type'.
     bind_exn (get_text ''side'' json) (\<lambda>side'.
     bind_exn (get_double D ''stopPrice'' json) (\<lambda>stopPrice'.
     bind_exn (get_double D ''icebergQty'' json) (\<lambda>icebergQty'.
     bind_exn (get_size ''time'' json) (\<lambda>time'.
     bind_exn (get_size ''updateTime'' json) (\<lambda>updateTime'.
     bind_exn (get_bool ''isWorking'' json) (\<lambda>isWorking'.
     Inr \<lparr>oi_symbol = symbol', oi_orderId = orderId', oi_clientOrderId = clientOrderId', oi_price = price', oi_origQty = origQty', oi_executedQty = executedQty', oi_cummulativeQuoteQty = cummulativeQuoteQty', oi_status = status', oi_timeInForce = timeInForce', oi_type = type', oi_side = side', oi_stopPrice = stopPrice', oi_icebergQty = icebergQty', oi_time = time', oi_updateTime = updateTime', oi_isWorking = isWorking'\<rparr>)))))))))))))))))"

definition print_v1_order_info :: "'d double_ops \<Rightarrow> 'd v1_order_info_t \<Rightarrow> string" where
  "print_v1_order_info D x =
     ''{'' @ qt @ ''symbol'' @ qt @ '':'' @ qt @ oi_symbol x @ qt @ '','' @
     qt @ ''orderId'' @ qt @ '':'' @ size_text (oi_orderId x) @ '','' @
     qt @ ''clientOrderId'' @ qt @ '':'' @ qt @ oi_clientOrderId x @ qt @ '','' @
     qt @ ''price'' @ qt @ '':'' @ qt @ dt_show D (oi_price x) @ qt @ '','' @
     qt @ ''origQty'' @ qt @ '':'' @ qt @ dt_show D (oi_origQty x) @ qt @ '','' @
     qt @ ''executedQty'' @ qt @ '':'' @ qt @ dt_show D (oi_executedQty x) @ qt @ '','' @
     qt @ ''cummulativeQuoteQty'' @ qt @ '':'' @ qt @ dt_show D (oi_cummulativeQuoteQty x) @ qt @ '','' @
     qt @ ''status'' @ qt @ '':'' @ qt @ oi_status x @ qt @ '','' @
     qt @ ''timeInForce'' @ qt @ '':'' @ qt @ oi_timeInForce x @ qt @ '','' @
     qt @ ''type'' @ qt @ '':'' @ qt @ oi_type x @ qt @ '','' @
     qt @ ''side'' @ qt @ '':'' @ qt @ oi_side x @ qt @ '','' @
     qt @ ''stopPrice'' @ qt @ '':'' @ qt @ dt_show D (oi_stopPrice x) @ qt @ '','' @
     qt @ ''icebergQty'' @ qt @ '':'' @ qt @ dt_show D (oi_icebergQty x) @ qt @ '','' @
     qt @ ''time'' @ qt @ '':'' @ size_text (oi_time x) @ '','' @
     qt @ ''updateTime'' @ qt @ '':'' @ size_text (oi_updateTime x) @ '','' @
     qt @ ''isWorking'' @ qt @ '':'' @ bool_text (oi_isWorking x) @ ''}''"

definition read_v1_order_info :: "'d double_ops \<Rightarrow> fjson \<Rightarrow> 'd v1_order_info_t fj_result" where
  "read_v1_order_info D it =
     bind_exn (get_text ''symbol'' it) (\<lambda>symbol'.
     bind_exn (get_size ''orderId'' it) (\<lambda>orderId'.
     bind_exn (get_text ''clientOrderId'' it) (\<lambda>clientOrderId'.
     bind_exn (get_double D ''price'' it) (\<lambda>price'.
     bind_exn (get_double D ''origQty'' it) (\<lambda>origQty'.
     bind_exn (get_double D ''executedQty'' it) (\<lambda>executedQty'.
     bind_exn (get_double D ''cummulativeQuoteQty'' it) (\<lambda>cummulativeQuoteQty'.
     bind_exn (get_text ''status'' it) (\<lambda>status'.
     bind_exn (get_text ''timeInForce'' it) (\<lambda>timeInForce'.
     bind_exn (get_text ''type'' it) (\<lambda>type'.
     bind_exn (get_text ''side'' it) (\<lambda>side'.
     bind_exn (get_double D ''stopPrice'' it) (\<lambda>stopPrice'.
     bind_exn (get_double D ''icebergQty'' it) (\<lambda>icebergQty'.
     bind_exn (get_size ''time'' it) (\<lambda>time'.
     bind_exn (get_size ''updateTime'' it) (\<lambda>updateTime'.
     bind_exn (get_bool ''isWorking'' it) (\<lambda>isWorking'.
     Inr \<lparr>oi_symbol = symbol', oi_orderId = orderId', oi_clientOrderId = clientOrderId', oi_price = price', oi_origQty = origQty', oi_executedQty = executedQty', oi_cummulativeQuoteQty = cummulativeQuoteQty', oi_status = status', oi_timeInForce = timeInForce', oi_type = type', oi_side = side', oi_stopPrice = stopPrice', oi_icebergQty = icebergQty', oi_time = time', oi_updateTime = updateTime', oi_isWorking = isWorking'\<rparr>))))))))))))))))"

record 'd v1_orders_info_t =
  ois_orders :: "(string, 'd v1_order_info_t list) smap"

definition push_order :: "(string, 'd v1_order_info_t list) smap \<Rightarrow> 'd v1_order_info_t \<Rightarrow> (string, 'd v1_order_info_t list) smap" where
  "push_order m x =
     (let old = (case map_find (<) m (oi_symbol x) of None \<Rightarrow> [] | Some os \<Rightarrow> os) in map_put (<) (oi_symbol x) (old @ [x]) m)"

definition construct_v1_orders_info :: "'d double_ops \<Rightarrow> fjson \<Rightarrow> 'd v1_orders_info_t fj_result" where
  "construct_v1_orders_info D json =
     bind_exn (checked (fj_is_valid json)) (\<lambda>_.
     bind_exn (read_each (read_v1_order_info D) json) (\<lambda>items. Inr \<lparr>ois_orders = foldl push_order [] items\<rparr>))"

text \<open>The comma is put between the orders of one symbol only.\<close>

definition print_v1_orders_info :: "'d double_ops \<Rightarrow> 'd v1_orders_info_t \<Rightarrow> string" where
  "print_v1_orders_info D x =
     ''['' @ concat (map (\<lambda>(_, os). commas (map (print_v1_order_info D) os)) (ois_orders x)) @ '']''"

record v1_new_order_info_ack_t =
  ack_symbol :: string
  ack_orderId :: u64
  ack_clientOrderId :: string
  ack_transactTime :: u64

definition construct_v1_new_order_info_ack :: "fjson \<Rightarrow> v1_new_order_info_ack_t fj_result" where
  "construct_v1_new_order_info_ack json =
     bind_exn (checked (fj_is_valid json)) (\<lambda>_.
     bind_exn (get_text ''symbol'' json) (\<lambda>symbol'.
     bind_exn (get_size ''orderId'' json) (\<lambda>orderId'.
     bind_exn (get_text ''clientOrderId'' json) (\<lambda>clientOrderId'.
     bind_exn (get_size ''transactTime'' json) (\<lambda>transactTime'.
     Inr \<lparr>ack_symbol = symbol', ack_orderId = orderId', ack_clientOrderId = clientOrderId', ack_transactTime = transactTime'\<rparr>)))))"

definition print_v1_new_order_info_ack :: "v1_new_order_info_ack_t \<Rightarrow> string" where
  "print_v1_new_order_info_ack x =
     ''{'' @ qt @ ''symbol'' @ qt @ '':'' @ qt @ ack_symbol x @ qt @ '','' @
     qt @ ''orderId'' @ qt @ '':'' @ size_text (ack_orderId x) @ '','' @
     qt @ ''clientOrderId'' @ qt @ '':'' @ qt @ ack_clientOrderId x @ qt @ '','' @
     qt @ ''transactTime'' @ qt @ '':'' @ size_text (ack_transactTime x) @ ''}''"

record 'd v1_new_order_info_result_t =
  rslt_symbol :: string
  rslt_orderId :: u64
  rslt_clientOrderId :: string
  rslt_transactTime :: u64
  rslt_price :: 'd
  rslt_origQty :: 'd
  rslt_executedQty :: 'd
  rslt_cummulativeQuoteQty :: 'd
  rslt_status :: string
  rslt_timeInForce :: string
  rslt_type :: string
  rslt_side :: string

definition construct_v1_new_order_info_result :: "'d double_ops \<Rightarrow> fjson \<Rightarrow> 'd v1_new_order_info_result_t fj_result" where
  "construct_v1_new_order_info_result D json =
     bind_exn (checked (fj_is_valid json)) (\<lambda>_.
     bind_exn (get_text ''symbol'' json) (\<lambda>symbol'.
     bind_exn (get_size ''orderId'' json) (\<lambda>orderId'.
     bind_exn (get_text ''clientOrderId'' json) (\<lambda>clientOrderId'.
     bind_exn (get_size ''transactTime'' json) (\<lambda>transactTime'.
     bind_exn (get_double D ''price'' json) (\<lambda>price'.
     bind_exn (get_double D ''origQty'' json) (\<lambda>origQty'.
     bind_exn (get_double D ''executedQty'' json) (\<lambda>executedQty'.
     bind_exn (get_double D ''cummulativeQuoteQty'' json) (\<lambda>cummulativeQuoteQty'.
     bind_exn (get_text ''status'' json) (\<lambda>status'.
     bind_exn (get_text ''timeInForce'' json) (\<lambda>timeInForce'.
     bind_exn (get_text ''type'' json) (\<lambda>type'.
     bind_exn (get_text ''side'' json) (\<lambda>side'.
     Inr \<lparr>rslt_symbol = symbol', rslt_orderId = orderId', rslt_clientOrderId = clientOrderId', rslt_transactTime = transactTime', rslt_price = price', rslt_origQty = origQty', rslt_executedQty = executedQty', rslt_cummulativeQuoteQty = cummulativeQuoteQty', rslt_status = status', rslt_timeInForce = timeInForce', rslt_type = type', rslt_side = side'\<rparr>)))))))))))))"

definition print_v1_new_order_info_result :: "'d double_ops \<Rightarrow> 'd v1_new_order_info_result_t \<Rightarrow> string" where
  "print_v1_new_order_info_result D x =
     ''{'' @ qt @ ''symbol'' @ qt @ '':'' @ qt @ rslt_symbol x @ qt @ '','' @
     qt @ ''orderId'' @ qt @ '':'' @ size_text (rslt_orderId x) @ '','' @
     qt @ ''clientOrderId'' @ qt @ '':'' @ qt @ rslt_clientOrderId x @ qt @ '','' @
     qt @ ''transactTime'' @ qt @ '':'' @ size_text (rslt_transactTime x) @ '','' @
     qt @ ''price'' @ qt @ '':'' @ qt @ dt_show D (rslt_price x) @ qt @ '','' @
     qt @ ''origQty'' @ qt @ '':'' @ qt @ dt_show D (rslt_origQty x) @ qt @ '','' @
     qt @ ''executedQty'' @ qt @ '':'' @ qt @ dt_show D (rslt_executedQty x) @ qt @ '','' @
     qt @ ''cummulativeQuoteQty'' @ qt @ '':'' @ qt @ dt_show D (rslt_cummulativeQuoteQty x) @ qt @ '','' @
     qt @ ''status'' @ qt @ '':'' @ qt @ rslt_status x @ qt @ '','' @
     qt @ ''timeInForce'' @ qt @ '':'' @ qt @ rslt_timeInForce x @ qt @ '','' @
     qt @ ''type'' @ qt @ '':'' @ qt @ rslt_type x @ qt @ '','' @
     qt @ ''side'' @ qt @ '':'' @ qt @ rslt_side x @ qt @ ''}''"

record 'd v1_fill_part_t =
  fill_price :: 'd
  fill_qty :: 'd
  fill_commission :: 'd
  fill_commissionAsset :: string

definition read_v1_fill_part :: "'d double_ops \<Rightarrow> fjson \<Rightarrow> 'd v1_fill_part_t fj_result" where
  "read_v1_fill_part D it =
     bind_exn (get_double D ''price'' it) (\<lambda>price'.
     bind_exn (get_double D ''qty'' it) (\<lambda>qty'.
     bind_exn (get_double D ''commission'' it) (\<lambda>commission'.
     bind_exn (get_text ''commissionAsset'' it) (\<lambda>commissionAsset'.
     Inr \<lparr>fill_price = price', fill_qty = qty', fill_commission = commission', fill_commissionAsset = commissionAsset'\<rparr>))))"

record 'd v1_new_order_info_full_t =
  full_symbol :: string
  full_orderId :: u64
  full_clientOrderId :: string
  full_transactTime :: u64
  full_price :: 'd
  full_origQty :: 'd
  full_executedQty :: 'd
  full_cummulativeQuoteQty :: 'd
  full_status :: string
  full_timeInForce :: string
  full_type :: string
  full_side :: string
  full_fills :: "'d v1_fill_part_t list"

definition avg_price :: "'d double_ops \<Rightarrow> 'd v1_fill_part_t list \<Rightarrow> 'd" where
  "avg_price D parts = dt_div_size D (foldl (\<lambda>res it. dt_add D res (fill_price it)) (dt_zero D) parts) (length parts)"

definition max_price :: "'d double_ops \<Rightarrow> 'd v1_fill_part_t list \<Rightarrow> 'd" where
  "max_price D parts = foldl (\<lambda>res it. if dt_less D res (fill_price it) then fill_price it else res) (dt_zero D) parts"

definition sum_amount :: "'d double_ops \<Rightarrow> 'd v1_fill_part_t list \<Rightarrow> 'd" where
  "sum_amount D parts = foldl (\<lambda>res it. dt_add D res (fill_qty it)) (dt_zero D) parts"

definition sum_commission :: "'d double_ops \<Rightarrow> 'd v1_fill_part_t list \<Rightarrow> 'd" where
  "sum_commission D parts = foldl (\<lambda>res it. dt_add D res (fill_commission it)) (dt_zero D) parts"

definition construct_v1_new_order_info_full :: "'d double_ops \<Rightarrow> fjson \<Rightarrow> 'd v1_new_order_info_full_t fj_result" where
  "construct_v1_new_order_info_full D json =
     bind_exn (checked (fj_is_valid json)) (\<lambda>_.
     bind_exn (get_text ''symbol'' json) (\<lambda>symbol'.
     bind_exn (get_size ''orderId'' json) (\<lambda>orderId'.
     bind_exn (get_text ''clientOrderId'' json) (\<lambda>clientOrderId'.
     bind_exn (get_size ''transactTime'' json) (\<lambda>transactTime'.
     bind_exn (get_double D ''price'' json) (\<lambda>price'.
     bind_exn (get_double D ''origQty'' json) (\<lambda>origQty'.
     bind_exn (get_double D ''executedQty'' json) (\<lambda>executedQty'.
     bind_exn (get_double D ''cummulativeQuoteQty'' json) (\<lambda>cummulativeQuoteQty'.
     bind_exn (get_text ''status'' json) (\<lambda>status'.
     bind_exn (get_text ''timeInForce'' json) (\<lambda>timeInForce'.
     bind_exn (get_text ''type'' json) (\<lambda>type'.
     bind_exn (get_text ''side'' json) (\<lambda>side'.
     bind_exn (fj_at ''fills'' json) (\<lambda>fills.
     bind_exn (read_each (read_v1_fill_part D) fills) (\<lambda>fills'.
     Inr \<lparr>full_symbol = symbol', full_orderId = orderId', full_clientOrderId = clientOrderId', full_transactTime = transactTime', full_price = price', full_origQty = origQty', full_executedQty = executedQty', full_cummulativeQuoteQty = cummulativeQuoteQty', full_status = status', full_timeInForce = timeInForce', full_type = type', full_side = side', full_fills = fills'\<rparr>)))))))))))))))"

definition print_v1_fill_part :: "'d double_ops \<Rightarrow> 'd v1_fill_part_t \<Rightarrow> string" where
  "print_v1_fill_part D x =
     ''{'' @ qt @ ''price'' @ qt @ '':'' @ qt @ dt_show D (fill_price x) @ qt @ '','' @
     qt @ ''qty'' @ qt @ '':'' @ qt @ dt_show D (fill_qty x) @ qt @ '','' @
     qt @ ''commission'' @ qt @ '':'' @ qt @ dt_show D (fill_commission x) @ qt @ '','' @
     qt @ ''commissionAsset'' @ qt @ '':'' @ qt @ fill_commissionAsset x @ qt @ ''}''"

definition print_v1_new_order_info_full :: "'d double_ops \<Rightarrow> 'd v1_new_order_info_full_t \<Rightarrow> string" where
  "print_v1_new_order_info_full D x =
     ''{'' @ qt @ ''symbol'' @ qt @ '':'' @ qt @ full_symbol x @ qt @ '','' @
     qt @ ''orderId'' @ qt @ '':'' @ size_text (full_orderId x) @ '','' @
     qt @ ''clientOrderId'' @ qt @ '':'' @ qt @ full_clientOrderId x @ qt @ '','' @
     qt @ ''transactTime'' @ qt @ '':'' @ size_text (full_transactTime x) @ '','' @
     qt @ ''price'' @ qt @ '':'' @ qt @ dt_show D (full_price x) @ qt @ '','' @
     qt @ ''origQty'' @ qt @ '':'' @ qt @ dt_show D (full_origQty x) @ qt @ '','' @
     qt @ ''executedQty'' @ qt @ '':'' @ qt @ dt_show D (full_executedQty x) @ qt @ '','' @
     qt @ ''cummulativeQuoteQty'' @ qt @ '':'' @ qt @ dt_show D (full_cummulativeQuoteQty x) @ qt @ '','' @
     qt @ ''status'' @ qt @ '':'' @ qt @ full_status x @ qt @ '','' @
     qt @ ''timeInForce'' @ qt @ '':'' @ qt @ full_timeInForce x @ qt @ '','' @
     qt @ ''type'' @ qt @ '':'' @ qt @ full_type x @ qt @ '','' @
     qt @ ''side'' @ qt @ '':'' @ qt @ full_side x @ qt @ '','' @
     qt @ ''fills'' @ qt @ '':['' @ commas (map (print_v1_fill_part D) (full_fills x)) @ '']}''"

record v1_new_test_order_info_t =
  test_ok :: bool

definition construct_v1_new_test_order_info :: "fjson \<Rightarrow> v1_new_test_order_info_t fj_result" where
  "construct_v1_new_test_order_info json =
     bind_exn (checked (fj_is_valid json)) (\<lambda>_.
     bind_exn (expect_type FJ_TYPE_OBJECT json) (\<lambda>_.
     bind_exn (fj_size json) (\<lambda>n. Inr \<lparr>test_ok = (n = 0)\<rparr>)))"

definition print_v1_new_test_order_info :: "v1_new_test_order_info_t \<Rightarrow> string" where
  "print_v1_new_test_order_info x = ''{'' @ qt @ ''ok'' @ qt @ '':'' @ bool_text (test_ok x) @ ''}''"

datatype 'd v1_new_order_resp =
    Resp_ack v1_new_order_info_ack_t
  | Resp_result "'d v1_new_order_info_result_t"
  | Resp_full "'d v1_new_order_info_full_t"
  | Resp_test v1_new_test_order_info_t

definition construct_v1_new_order_resp :: "'d double_ops \<Rightarrow> fjson \<Rightarrow> 'd v1_new_order_resp fj_result" where
  "construct_v1_new_order_resp D json =
     bind_exn (checked (fj_is_valid json)) (\<lambda>_.
     bind_exn (fj_contains ''fills'' json) (\<lambda>full.
     if full then bind_exn (construct_v1_new_order_info_full D json) (\<lambda>r. Inr (Resp_full r))
     else bind_exn (fj_contains ''side'' json) (\<lambda>rslt.
     if rslt then bind_exn (construct_v1_new_order_info_result D json) (\<lambda>r. Inr (Resp_result r))
     else bind_exn (fj_contains ''symbol'' json) (\<lambda>ack.
     if ack then bind_exn (construct_v1_new_order_info_ack json) (\<lambda>r. Inr (Resp_ack r))
     else bind_exn (fj_is_type FJ_TYPE_OBJECT json) (\<lambda>obj. bind_exn (fj_size json) (\<lambda>n.
     if obj \<and> n = 0 then bind_exn (construct_v1_new_test_order_info json) (\<lambda>r. Inr (Resp_test r))
     else Inl Fj_undefined))))))"

text \<open>A test order is not one of the writable kinds: the assertion fails.\<close>

definition print_v1_new_order_resp :: "'d double_ops \<Rightarrow> 'd v1_new_order_resp \<Rightarrow> string option" where
  "print_v1_new_order_resp D x =
     (case x of
        Resp_ack r \<Rightarrow> Some (print_v1_new_order_info_ack r)
      | Resp_result r \<Rightarrow> Some (print_v1_new_order_info_result D r)
      | Resp_full r \<Rightarrow> Some (print_v1_new_order_info_full D r)
      | Resp_test r \<Rightarrow> None)"

definition get_response_type :: "'d v1_new_order_resp \<Rightarrow> e_trade_resp_type" where
  "get_response_type x =
     (case x of Resp_ack r \<Rightarrow> Resp_ACK | Resp_result r \<Rightarrow> Resp_RESULT | Resp_full r \<Rightarrow> Resp_FULL | Resp_test r \<Rightarrow> Resp_TEST)"

definition get_response_ack :: "'d v1_new_order_resp \<Rightarrow> v1_new_order_info_ack_t option" where
  "get_response_ack x = (case x of Resp_ack r \<Rightarrow> Some r | _ \<Rightarrow> None)"

definition get_response_result :: "'d v1_new_order_resp \<Rightarrow> 'd v1_new_order_info_result_t option" where
  "get_response_result x = (case x of Resp_result r \<Rightarrow> Some r | _ \<Rightarrow> None)"

definition get_response_full :: "'d v1_new_order_resp \<Rightarrow> 'd v1_new_order_info_full_t option" where
  "get_response_full x = (case x of Resp_full r \<Rightarrow> Some r | _ \<Rightarrow> None)"

definition get_response_test :: "'d v1_new_order_resp \<Rightarrow> v1_new_test_order_info_t option" where
  "get_response_test x = (case x of Resp_test r \<Rightarrow> Some r | _ \<Rightarrow> None)"

definition get_order_id :: "'d v1_new_order_resp \<Rightarrow> u64 option" where
  "get_order_id x =
     (case x of
        Resp_ack r \<Rightarrow> Some (ack_orderId r)
      | Resp_result r \<Rightarrow> Some (rslt_orderId r)
      | Resp_full r \<Rightarrow> Some (full_orderId r)
      | Resp_test r \<Rightarrow> None)"

record 'd v1_cancel_order_info_t =
  can_symbol :: string
  can_orderId :: u64
  can_origClientOrderId :: string
  can_clientOrderId :: string
  can_price :: 'd
  can_origQty :: 'd
  can_executedQty :: 'd
  can_cummulativeQuoteQty :: 'd
  can_status :: string
  can_timeInForce :: string
  can_type :: string
  can_side :: string

definition construct_v1_cancel_order_info :: "'d double_ops \<Rightarrow> fjson \<Rightarrow> 'd v1_cancel_order_info_t fj_result" where
  "construct_v1_cancel_order_info D json =
     bind_exn (checked (fj_is_valid json)) (\<lambda>_.
     bind_exn (get_text ''symbol'' json) (\<lambda>symbol'.
     bind_exn (get_size ''orderId'' json) (\<lambda>orderId'.
     bind_exn (get_text ''origClientOrderId'' json) (\<lambda>origClientOrderId'.
     bind_exn (get_text ''clientOrderId'' json) (\<lambda>clientOrderId'.
     bind_exn (get_double D ''price'' json) (\<lambda>price'.
     bind_exn (get_double D ''origQty'' json) (\<lambda>origQty'.
     bind_exn (get_double D ''executedQty'' json) (\<lambda>executedQty'.
     bind_exn (get_double D ''cummulativeQuoteQty'' json) (\<lambda>cummulativeQuoteQty'.
     bind_exn (get_text ''status'' json) (\<lambda>status'.
     bind_exn (get_text ''timeInForce'' json) (\<lambda>timeInForce'.
     bind_exn (get_text ''type'' json) (\<lambda>type'.
     bind_exn (get_text ''side'' json) (\<lambda>side'.
     Inr \<lparr>can_symbol = symbol', can_orderId = orderId', can_origClientOrderId = origClientOrderId', can_clientOrderId = clientOrderId', can_price = price', can_origQty = origQty', can_executedQty = executedQty', can_cummulativeQuoteQty = cummulativeQuoteQty', can_status = status', can_timeInForce = timeInForce', can_type = type', can_side = side'\<rparr>)))))))))))))"

definition print_v1_cancel_order_info :: "'d double_ops \<Rightarrow> 'd v1_cancel_order_info_t \<Rightarrow> string" where
  "print_v1_cancel_order_info D x =
     ''{'' @ qt @ ''symbol'' @ qt @ '':'' @ qt @ can_symbol x @ qt @ '','' @
     qt @ ''orderId'' @ qt @ '':'' @ size_text (can_orderId x) @ '','' @
     qt @ ''origClientOrderId'' @ qt @ '':'' @ qt @ can_origClientOrderId x @ qt @ '','' @
     qt @ ''clientOrderId'' @ qt @ '':'' @ qt @ can_clientOrderId x @ qt @ '','' @
     qt @ ''price'' @ qt @ '':'' @ qt @ dt_show D (can_price x) @ qt @ '','' @
     qt @ ''origQty'' @ qt @ '':'' @ qt @ dt_show D (can_origQty x) @ qt @ '','' @
     qt @ ''executedQty'' @ qt @ '':'' @ qt @ dt_show D (can_executedQty x) @ qt @ '','' @
     qt @ ''cummulativeQuoteQty'' @ qt @ '':'' @ qt @ dt_show D (can_cummulativeQuoteQty x) @ qt @ '','' @
     qt @ ''status'' @ qt @ '':'' @ qt @ can_status x @ qt @ '','' @
     qt @ ''timeInForce'' @ qt @ '':'' @ qt @ can_timeInForce x @ qt @ '','' @
     qt @ ''type'' @ qt @ '':'' @ qt @ can_type x @ qt @ '','' @
     qt @ ''side'' @ qt @ '':'' @ qt @ can_side x @ qt @ ''}''"

record 'd v1_my_trade_info_t =
  my_symbol :: string
  my_id :: u64
  my_orderId :: u64
  my_price :: 'd
  my_qty :: 'd
  my_commission :: 'd
  my_commissionAsset :: string
  my_time :: u64
  my_isBuyer :: bool
  my_isMaker :: bool
  my_isBestMatch :: bool

definition construct_v1_my_trade_info :: "'d double_ops \<Rightarrow> fjson \<Rightarrow> 'd v1_my_trade_info_t fj_result" where
  "construct_v1_my_trade_info D json =
     bind_exn (get_text ''symbol'' json) (\<lambda>symbol'.
     bind_exn (get_size ''id'' json) (\<lambda>id'.
     bind_exn (get_size ''orderId'' json) (\<lambda>orderId'.
     bind_exn (get_double D ''price'' json) (\<lambda>price'.
     bind_exn (get_double D ''qty'' json) (\<lambda>qty'.
     bind_exn (get_double D ''commission'' json) (\<lambda>commission'.
     bind_exn (get_text ''commissionAsset'' json) (\<lambda>commissionAsset'.
     bind_exn (get_size ''time'' json) (\<lambda>time'.
     bind_exn (get_bool ''isBuyer'' json) (\<lambda>isBuyer'.
     bind_exn (get_bool ''isMaker'' json) (\<lambda>isMaker'.
     bind_exn (get_bool ''isBestMatch'' json) (\<lambda>isBestMatch'.
     Inr \<lparr>my_symbol = symbol', my_id = id', my_orderId = orderId', my_price = price', my_qty = qty', my_commission = commission', my_commissionAsset = commissionAsset', my_time = time', my_isBuyer = isBuyer', my_isMaker = isMaker', my_isBestMatch = isBestMatch'\<rparr>)))))))))))"

definition print_v1_my_trade_info :: "'d double_ops \<Rightarrow> 'd v1_my_trade_info_t \<Rightarrow> string" where
  "print_v1_my_trade_info D x =
     ''{'' @ qt @ ''symbol'' @ qt @ '':'' @ qt @ my_symbol x @ qt @ '','' @
     qt @ ''id'' @ qt @ '':'' @ size_text (my_id x) @ '','' @
     qt @ ''orderId'' @ qt @ '':'' @ size_text (my_orderId x) @ '','' @
     qt @ ''price'' @ qt @ '':'' @ qt @ dt_show D (my_price x) @ qt @ '','' @
     qt @ ''qty'' @ qt @ '':'' @ qt @ dt_show D (my_qty x) @ qt @ '','' @
     qt @ ''commission'' @ qt @ '':'' @ qt @ dt_show D (my_commission x) @ qt @ '','' @
     qt @ ''commissionAsset'' @ qt @ '':'' @ qt @ my_commissionAsset x @ qt @ '','' @
     qt @ ''time'' @ qt @ '':'' @ size_text (my_time x) @ '','' @
     qt @ ''isBuyer'' @ qt @ '':'' @ bool_text (my_isBuyer x) @ '','' @
     qt @ ''isMaker'' @ qt @ '':'' @ bool_text (my_isMaker x) @ '','' @
     qt @ ''isBestMatch'' @ qt @ '':'' @ bool_text (my_isBestMatch x) @ ''}''"

record 'd v1_cancel_all_open_orders_info_t =
  cans_orders :: "'d v1_cancel_order_info_t list"

definition construct_v1_cancel_all_open_orders_info :: "'d double_ops \<Rightarrow> fjson \<Rightarrow> 'd v1_cancel_all_open_orders_info_t fj_result" where
  "construct_v1_cancel_all_open_orders_info D json =
     bind_exn (checked (fj_is_valid json)) (\<lambda>_.
     bind_exn (read_each (\<lambda>it. bind_exn (expect_type FJ_TYPE_OBJECT it) (\<lambda>_. construct_v1_cancel_order_info D it)) json) (\<lambda>items.
     Inr \<lparr>cans_orders = items\<rparr>))"

definition print_v1_cancel_all_open_orders_info :: "'d double_ops \<Rightarrow> 'd v1_cancel_all_open_orders_info_t \<Rightarrow> string" where
  "print_v1_cancel_all_open_orders_info D x = ''['' @ commas (map (print_v1_cancel_order_info D) (cans_orders x)) @ '']''"

record 'd v1_my_trades_info_t =
  mys_trades :: "'d v1_my_trade_info_t list"

definition construct_v1_my_trades_info :: "'d double_ops \<Rightarrow> fjson \<Rightarrow> 'd v1_my_trades_info_t fj_result" where
  "construct_v1_my_trades_info D json =
     bind_exn (checked (fj_is_valid json)) (\<lambda>_.
     bind_exn (read_each (construct_v1_my_trade_info D) json) (\<lambda>items. Inr \<lparr>mys_trades = items\<rparr>))"

definition print_v1_my_trades_info :: "'d double_ops \<Rightarrow> 'd v1_my_trades_info_t \<Rightarrow> string" where
  "print_v1_my_trades_info D x = ''['' @ commas (map (print_v1_my_trade_info D) (mys_trades x)) @ '']''"

record v1_start_user_data_stream_t =
  start_listenKey :: string

definition construct_v1_start_user_data_stream :: "fjson \<Rightarrow> v1_start_user_data_stream_t fj_result" where
  "construct_v1_start_user_data_stream json =
     bind_exn (checked (fj_is_valid json)) (\<lambda>_.
     bind_exn (get_text ''listenKey'' json) (\<lambda>listenKey'.
     Inr \<lparr>start_listenKey = listenKey'\<rparr>))"

definition print_v1_start_user_data_stream :: "v1_start_user_data_stream_t \<Rightarrow> string" where
  "print_v1_start_user_data_stream x =
     ''{'' @ qt @ ''listenKey'' @ qt @ '':'' @ qt @ start_listenKey x @ qt @ ''}''"

record v1_ping_user_data_stream_t =
  pinged_ok :: bool

definition construct_v1_ping_user_data_stream :: "fjson \<Rightarrow> v1_ping_user_data_stream_t fj_result" where
  "construct_v1_ping_user_data_stream json =
     bind_exn (checked (fj_is_valid json)) (\<lambda>_.
     bind_exn (fj_is_type FJ_TYPE_OBJECT json) (\<lambda>obj.
     bind_exn (fj_size json) (\<lambda>n. Inr \<lparr>pinged_ok = (obj \<and> n = 0)\<rparr>)))"

definition print_v1_ping_user_data_stream :: "v1_ping_user_data_stream_t \<Rightarrow> string" where
  "print_v1_ping_user_data_stream x = ''{'' @ qt @ ''ok'' @ qt @ '':'' @ bool_text (pinged_ok x) @ ''}''"

record v1_close_user_data_stream_t =
  closed_ok :: bool

definition construct_v1_close_user_data_stream :: "fjson \<Rightarrow> v1_close_user_data_stream_t fj_result" where
  "construct_v1_close_user_data_stream json =
     bind_exn (checked (fj_is_valid json)) (\<lambda>_.
     bind_exn (fj_is_type FJ_TYPE_OBJECT json) (\<lambda>obj.
     bind_exn (fj_size json) (\<lambda>n. Inr \<lparr>closed_ok = (obj \<and> n = 0)\<rparr>)))"

definition print_v1_close_user_data_stream :: "v1_close_user_data_stream_t \<Rightarrow> string" where
  "print_v1_close_user_data_stream x = ''{'' @ qt @ ''ok'' @ qt @ '':'' @ bool_text (closed_ok x) @ ''}''"

end
