(* ===== verification/V1_Stream_Types.thy ===== *)
theory V1_Stream_Types
  imports V1_Types
begin

text \<open>
  The event types of the legacy streams, \<^verbatim>\<open>binapi::ws\<close> and \<^verbatim>\<open>binapi::userdata\<close> of \<^verbatim>\<open>binapi/types.hpp\<close> and
  \<^verbatim>\<open>binapi/types.cpp\<close>.
\<close>

section \<open>Market events\<close>

record 'd v1_ws_agg_trade_t =
  wagg_e :: string
  wagg_E :: u64
  wagg_s :: string
  wagg_a :: u64
  wagg_p :: 'd
  wagg_q :: 'd
  wagg_f :: u64
  wagg_l :: u64
  wagg_T :: u64
  wagg_m :: bool
  wagg_M :: bool

definition construct_v1_ws_agg_trade :: "'d double_ops \<Rightarrow> fjson \<Rightarrow> 'd v1_ws_agg_trade_t fj_result" where
  "construct_v1_ws_agg_trade D json =
     bind_exn (checked (fj_is_valid json)) (\<lambda>_.
     bind_exn (get_text ''e'' json) (\<lambda>e'.
     bind_exn (get_size ''E'' json) (\<lambda>E'.
     bind_exn (get_text ''s'' json) (\<lambda>s'.
     bind_exn (get_size ''a'' json) (\<lambda>a'.
     bind_exn (get_double D ''p'' json) (\<lambda>p'.
     bind_exn (get_double D ''q'' json) (\<lambda>q'.
     bind_exn (get_size ''f'' json) (\<lambda>f'.
     bind_exn (get_size ''l'' json) (\<lambda>l'.
     bind_exn (get_size ''T'' json) (\<lambda>T'.
     bind_exn (get_bool ''m'' json) (\<lambda>m'.
     bind_exn (get_bool ''M'' json) (\<lambda>M'.
     Inr \<lparr>wagg_e = e', wagg_E = E', wagg_s = s', wagg_a = a', wagg_p = p', wagg_q = q', wagg_f = f', wagg_l = l', wagg_T = T', wagg_m = m', wagg_M = M'\<rparr>))))))))))))"

definition print_v1_ws_agg_trade :: "'d double_ops \<Rightarrow> 'd v1_ws_agg_trade_t \<Rightarrow> string" where
  "print_v1_ws_agg_trade D x =
     ''{'' @ qt @ ''e'' @ qt @ '':'' @ qt @ wagg_e x @ qt @ '','' @
     qt @ ''E'' @ qt @ '':'' @ size_text (wagg_E x) @ '','' @
     qt @ ''s'' @ qt @ '':'' @ qt @ wagg_s x @ qt @ '','' @
     qt @ ''a'' @ qt @ '':'' @ size_text (wagg_a x) @ '','' @
     qt @ ''p'' @ qt @ '':'' @ qt @ dt_show D (wagg_p x) @ qt @ '','' @
     qt @ ''q'' @ qt @ '':'' @ qt @ dt_show D (wagg_q x) @ qt @ '','' @
     qt @ ''f'' @ qt @ '':'' @ size_text (wagg_f x) @ '','' @
     qt @ ''l'' @ qt @ '':'' @ size_text (wagg_l x) @ '','' @
     qt @ ''T'' @ qt @ '':'' @ size_text (wagg_T x) @ '','' @
     qt @ ''m'' @ qt @ '':'' @ bool_text (wagg_m x) @ '','' @
     qt @ ''M'' @ qt @ '':'' @ bool_text (wagg_M x) @ ''}''"

record 'd v1_ws_trade_t =
  wtrd_E :: u64
  wtrd_s :: string
  wtrd_t :: u64
  wtrd_p :: 'd
  wtrd_q :: 'd
  wtrd_T :: u64
  wtrd_m :: bool
  wtrd_M :: bool

definition construct_v1_ws_trade :: "'d double_ops \<Rightarrow> fjson \<Rightarrow> 'd v1_ws_trade_t fj_result" where
  "construct_v1_ws_trade D json =
     bind_exn (checked (fj_is_valid json)) (\<lambda>_.
     bind_exn (get_size ''E'' json) (\<lambda>E'.
     bind_exn (get_text ''s'' json) (\<lambda>s'.
     bind_exn (get_size ''t'' json) (\<lambda>t'.
     bind_exn (get_double D ''p'' json) (\<lambda>p'.
     bind_exn (get_double D ''q'' json) (\<lambda>q'.
     bind_exn (get_size ''T'' json) (\<lambda>T'.
     bind_exn (get_bool ''m'' json) (\<lambda>m'.
     bind_exn (get_bool ''M'' json) (\<lambda>M'.
     Inr \<lparr>wtrd_E = E', wtrd_s = s', wtrd_t = t', wtrd_p = p', wtrd_q = q', wtrd_T = T', wtrd_m = m', wtrd_M = M'\<rparr>)))))))))"

definition print_v1_ws_trade :: "'d double_ops \<Rightarrow> 'd v1_ws_trade_t \<Rightarrow> string" where
  "print_v1_ws_trade D x =
     ''{'' @ qt @ ''E'' @ qt @ '':'' @ size_text (wtrd_E x) @ '','' @
     qt @ ''s'' @ qt @ '':'' @ qt @ wtrd_s x @ qt @ '','' @
     qt @ ''t'' @ qt @ '':'' @ size_text (wtrd_t x) @ '','' @
     qt @ ''p'' @ qt @ '':'' @ qt @ dt_show D (wtrd_p x) @ qt @ '','' @
     qt @ ''q'' @ qt @ '':'' @ qt @ dt_show D (wtrd_q x) @ qt @ '','' @
     qt @ ''T'' @ qt @ '':'' @ size_text (wtrd_T x) @ '','' @
     qt @ ''m'' @ qt @ '':'' @ bool_text (wtrd_m x) @ '','' @
     qt @ ''M'' @ qt @ '':'' @ bool_text (wtrd_M x) @ ''}''"

text \<open>A single level is written as nothing.\<close>

definition print_v1_ws_depth :: "'d double_ops \<Rightarrow> 'd v1_depth_t \<Rightarrow> string" where
  "print_v1_ws_depth D x = []"

definition print_v1_ws_level :: "'d double_ops \<Rightarrow> 'd v1_depth_t \<Rightarrow> string" where
  "print_v1_ws_level D x = ''['' @ qt @ dt_show D (dp_price x) @ qt @ '', '' @ qt @ dt_show D (dp_amount x) @ qt @ '']''"

record 'd v1_part_depths_t =
  pd_a :: "'d v1_depth_t list"
  pd_b :: "'d v1_depth_t list"

definition construct_v1_part_depths :: "'d double_ops \<Rightarrow> fjson \<Rightarrow> 'd v1_part_depths_t fj_result" where
  "construct_v1_part_depths D json =
     bind_exn (checked (fj_is_valid json)) (\<lambda>_.
     bind_exn (fj_at ''asks'' json) (\<lambda>a.
     bind_exn (read_each (read_v1_depth D) a) (\<lambda>as.
     bind_exn (fj_at ''bids'' json) (\<lambda>b.
     bind_exn (read_each (read_v1_depth D) b) (\<lambda>bs.
     Inr \<lparr>pd_a = as, pd_b = bs\<rparr>)))))"

definition print_v1_part_depths :: "'d double_ops \<Rightarrow> 'd v1_part_depths_t \<Rightarrow> string" where
  "print_v1_part_depths D x =
     ''{'' @ qt @ ''asks'' @ qt @ '':['' @ commas (map (print_v1_ws_level D) (pd_a x)) @ ''],'' @
     qt @ ''bids'' @ qt @ '':['' @ commas (map (print_v1_ws_level D) (pd_b x)) @ '']}''"

record 'd v1_diff_depths_t =
  dd_E :: u64
  dd_s :: string
  dd_u :: u64
  dd_U :: u64
  dd_a :: "'d v1_depth_t list"
  dd_b :: "'d v1_depth_t list"

definition construct_v1_diff_depths :: "'d double_ops \<Rightarrow> fjson \<Rightarrow> 'd v1_diff_depths_t fj_result" where
  "construct_v1_diff_depths D json =
     bind_exn (checked (fj_is_valid json)) (\<lambda>_.
     bind_exn (get_size ''E'' json) (\<lambda>E'.
     bind_exn (get_text ''s'' json) (\<lambda>s'.
     bind_exn (get_size ''u'' json) (\<lambda>u'.
     bind_exn (get_size ''U'' json) (\<lambda>U'.
     bind_exn (fj_at ''a'' json) (\<lambda>a.
     bind_exn (read_each (read_v1_depth D) a) (\<lambda>as.
     bind_exn (fj_at ''b'' json) (\<lambda>b.
     bind_exn (read_each (read_v1_depth D) b) (\<lambda>bs.
     Inr \<lparr>dd_E = E', dd_s = s', dd_u = u', dd_U = U', dd_a = as, dd_b = bs\<rparr>)))))))))"

definition print_v1_diff_depths :: "'d double_ops \<Rightarrow> 'd v1_diff_depths_t \<Rightarrow> string" where
  "print_v1_diff_depths D x =
     ''{'' @ qt @ ''E'' @ qt @ '':'' @ size_text (dd_E x) @ '','' @
     qt @ ''s'' @ qt @ '':'' @ qt @ dd_s x @ qt @ '','' @
     qt @ ''u'' @ qt @ '':'' @ size_text (dd_u x) @ '','' @
     qt @ ''U'' @ qt @ '':'' @ size_text (dd_U x) @ '','' @
     qt @ ''a'' @ qt @ '':['' @ commas (map (print_v1_ws_level D) (dd_a x)) @ ''],'' @
     qt @ ''b'' @ qt @ '':['' @ commas (map (print_v1_ws_level D) (dd_b x)) @ '']}''"

record 'd v1_ws_kline_t =
  wkl_E :: u64
  wkl_s :: string
  wkl_t :: u64
  wkl_T :: u64
  wkl_i :: string
  wkl_f :: u64
  wkl_L :: u64
  wkl_o :: 'd
  wkl_c :: 'd
  wkl_h :: 'd
  wkl_l :: 'd
  wkl_v :: 'd
  wkl_n :: u64
  wkl_x :: bool
  wkl_q :: 'd
  wkl_V :: 'd
  wkl_Q :: 'd

definition construct_v1_ws_kline :: "'d double_ops \<Rightarrow> fjson \<Rightarrow> 'd v1_ws_kline_t fj_result" where
  "construct_v1_ws_kline D json =
     bind_exn (checked (fj_is_valid json)) (\<lambda>_.
     bind_exn (get_size ''E'' json) (\<lambda>E'.
     bind_exn (get_text ''s'' json) (\<lambda>s'.
     bind_exn (fj_at ''k'' json) (\<lambda>k.
     bind_exn (get_size ''t'' k) (\<lambda>t'.
     bind_exn (get_size ''T'' k) (\<lambda>T'.
     bind_exn (get_text ''i'' k) (\<lambda>i'.
     bind_exn (get_size ''f'' k) (\<lambda>f'.
     bind_exn (get_size ''L'' k) (\<lambda>L'.
     bind_exn (get_double D ''o'' k) (\<lambda>o'.
     bind_exn (get_double D ''c'' k) (\<lambda>c'.
     bind_exn (get_double D ''h'' k) (\<lambda>h'.
     bind_exn (get_double D ''l'' k) (\<lambda>l'.
     bind_exn (get_double D ''v'' k) (\<lambda>v'.
     bind_exn (get_size ''n'' k) (\<lambda>n'.
     bind_exn (get_bool ''x'' k) (\<lambda>x'.
     bind_exn (get_double D ''q'' k) (\<lambda>q'.
     bind_exn (get_double D ''V'' k) (\<lambda>V'.
     bind_exn (get_double D ''Q'' k) (\<lambda>Q'.
     Inr \<lparr>wkl_E = E', wkl_s = s', wkl_t = t', wkl_T = T', wkl_i = i', wkl_f = f', wkl_L = L', wkl_o = o', wkl_c = c', wkl_h = h', wkl_l = l', wkl_v = v', wkl_n = n', wkl_x = x', wkl_q = q', wkl_V = V', wkl_Q = Q'\<rparr>)))))))))))))))))))"

definition print_v1_ws_kline :: "'d double_ops \<Rightarrow> 'd v1_ws_kline_t \<Rightarrow> string" where
  "print_v1_ws_kline D x =
     ''{'' @ qt @ ''E'' @ qt @ '': '' @ size_text (wkl_E x) @ '','' @
     qt @ ''s'' @ qt @ '': '' @ qt @ wkl_s x @ qt @ '','' @
     qt @ ''t'' @ qt @ '': '' @ size_text (wkl_t x) @ '','' @
     qt @ ''T'' @ qt @ '': '' @ size_text (wkl_T x) @ '','' @
     qt @ ''i'' @ qt @ '': '' @ qt @ wkl_i x @ qt @ '','' @
     qt @ ''f'' @ qt @ '': '' @ size_text (wkl_f x) @ '','' @
     qt @ ''L'' @ qt @ '': '' @ size_text (wkl_L x) @ '','' @
     qt @ ''o'' @ qt @ '': '' @ qt @ dt_show D (wkl_o x) @ qt @ '','' @
     qt @ ''c'' @ qt @ '': '' @ qt @ dt_show D (wkl_c x) @ qt @ '','' @
     qt @ ''h'' @ qt @ '': '' @ qt @ dt_show D (wkl_h x) @ qt @ '','' @
     qt @ ''l'' @ qt @ '': '' @ qt @ dt_show D (wkl_l x) @ qt @ '','' @
     qt @ ''v'' @ qt @ '': '' @ qt @ dt_show D (wkl_v x) @ qt @ '','' @
     qt @ ''n'' @ qt @ '': '' @ size_text (wkl_n x) @ '','' @
     qt @ ''x'' @ qt @ '': '' @ bool_text (wkl_x x) @ '','' @
     qt @ ''q'' @ qt @ '': '' @ qt @ dt_show D (wkl_q x) @ qt @ '','' @
     qt @ ''V'' @ qt @ '': '' @ qt @ dt_show D (wkl_V x) @ qt @ '','' @
     qt @ ''Q'' @ qt @ '': '' @ qt @ dt_show D (wkl_Q x) @ qt @ ''}''"

text \<open>Equality of the decimals is a parameter.\<close>

definition ohlc_equal :: "('d \<Rightarrow> 'd \<Rightarrow> bool) \<Rightarrow> 'd v1_ws_kline_t \<Rightarrow> 'd v1_ws_kline_t \<Rightarrow> bool" where
  "ohlc_equal eq l r \<longleftrightarrow> eq (wkl_o l) (wkl_o r) \<and> eq (wkl_h l) (wkl_h r) \<and> eq (wkl_l l) (wkl_l r) \<and> eq (wkl_c l) (wkl_c r)"

definition ohlc :: "'d double_ops \<Rightarrow> 'd v1_ws_kline_t \<Rightarrow> string" where
  "ohlc D x =
     ''{'' @ qt @ ''o'' @ qt @ '': '' @ qt @ dt_show D (wkl_o x) @ qt @ '','' @
     qt @ ''h'' @ qt @ '': '' @ qt @ dt_show D (wkl_h x) @ qt @ '','' @
     qt @ ''l'' @ qt @ '': '' @ qt @ dt_show D (wkl_l x) @ qt @ '','' @
     qt @ ''c'' @ qt @ '': '' @ qt @ dt_show D (wkl_c x) @ ''}''"

record 'd v1_mini_ticker_t =
  mini_E :: u64
  mini_s :: string
  mini_c :: 'd
  mini_o :: 'd
  mini_h :: 'd
  mini_l :: 'd
  mini_v :: 'd
  mini_q :: 'd

definition construct_v1_mini_ticker :: "'d double_ops \<Rightarrow> fjson \<Rightarrow> 'd v1_mini_ticker_t fj_result" where
  "construct_v1_mini_ticker D json =
     bind_exn (get_size ''E'' json) (\<lambda>E'.
     bind_exn (get_text ''s'' json) (\<lambda>s'.
     bind_exn (get_double D ''c'' json) (\<lambda>c'.
     bind_exn (get_double D ''o'' json) (\<lambda>o'.
     bind_exn (get_double D ''h'' json) (\<lambda>h'.
     bind_exn (get_double D ''l'' json) (\<lambda>l'.
     bind_exn (get_double D ''v'' json) (\<lambda>v'.
     bind_exn (get_double D ''q'' json) (\<lambda>q'.
     Inr \<lparr>mini_E = E', mini_s = s', mini_c = c', mini_o = o', mini_h = h', mini_l = l', mini_v = v', mini_q = q'\<rparr>))))))))"

definition print_v1_mini_ticker :: "'d double_ops \<Rightarrow> 'd v1_mini_ticker_t \<Rightarrow> string" where
  "print_v1_mini_ticker D x =
     ''{'' @ qt @ ''E:'' @ qt @ size_text (mini_E x) @ '','' @
     qt @ ''s'' @ qt @ '':'' @ qt @ mini_s x @ qt @ '','' @
     qt @ ''c'' @ qt @ '':'' @ qt @ dt_show D (mini_c x) @ qt @ '','' @
     qt @ ''o'' @ qt @ '':'' @ qt @ dt_show D (mini_o x) @ qt @ '','' @
     qt @ ''h'' @ qt @ '':'' @ qt @ dt_show D (mini_h x) @ qt @ '','' @
     qt @ ''l'' @ qt @ '':'' @ qt @ dt_show D (mini_l x) @ qt @ '','' @
     qt @ ''v'' @ qt @ '':'' @ qt @ dt_show D (mini_v x) @ qt @ '','' @
     qt @ ''q'' @ qt @ '':'' @ qt @ dt_show D (mini_q x) @ qt @ ''}''"

record 'd v1_mini_tickers_t =
  minis_tickers :: "(string, 'd v1_mini_ticker_t) smap"

definition construct_v1_mini_tickers :: "'d double_ops \<Rightarrow> fjson \<Rightarrow> 'd v1_mini_tickers_t fj_result" where
  "construct_v1_mini_tickers D json =
     bind_exn (expect_type FJ_TYPE_ARRAY json) (\<lambda>_.
     bind_exn (read_each (\<lambda>it. bind_exn (fj_at ''s'' it) (\<lambda>s. bind_exn (fj_to_sstring s) (\<lambda>symbol.
       bind_exn (construct_v1_mini_ticker D it) (\<lambda>item. Inr (symbol, item))))) json) (\<lambda>items.
     Inr \<lparr>minis_tickers = foldl (\<lambda>m (symbol, item). map_emplace (<) symbol item m) [] items\<rparr>))"

definition print_v1_mini_tickers :: "'d double_ops \<Rightarrow> 'd v1_mini_tickers_t \<Rightarrow> string" where
  "print_v1_mini_tickers D x = ''['' @ commas (map (\<lambda>(_, t). print_v1_mini_ticker D t) (minis_tickers x)) @ '']''"

record 'd v1_market_ticker_t =
  mkt_E :: u64
  mkt_s :: string
  mkt_p :: 'd
  mkt_P :: 'd
  mkt_w :: 'd
  mkt_x :: 'd
  mkt_c :: 'd
  mkt_Q :: 'd
  mkt_b :: 'd
  mkt_B :: 'd
  mkt_a :: 'd
  mkt_A :: 'd
  mkt_o :: 'd
  mkt_h :: 'd
  mkt_l :: 'd
  mkt_v :: 'd
  mkt_q :: 'd
  mkt_O :: u64
  mkt_C :: u64
  mkt_F :: u64
  mkt_L :: u64
  mkt_n :: u64

definition construct_v1_market_ticker :: "'d double_ops \<Rightarrow> fjson \<Rightarrow> 'd v1_market_ticker_t fj_result" where
  "construct_v1_market_ticker D json =
     bind_exn (get_size ''E'' json) (\<lambda>E'.
     bind_exn (get_text ''s'' json) (\<lambda>s'.
     bind_exn (get_double D ''p'' json) (\<lambda>p'.
     bind_exn (get_double D ''P'' json) (\<lambda>P'.
     bind_exn (get_double D ''w'' json) (\<lambda>w'.
     bind_exn (get_double D ''x'' json) (\<lambda>x'.
     bind_exn (get_double D ''c'' json) (\<lambda>c'.
     bind_exn (get_double D ''Q'' json) (\<lambda>Q'.
     bind_exn (get_double D ''b'' json) (\<lambda>b'.
     bind_exn (get_double D ''B'' json) (\<lambda>B'.
     bind_exn (get_double D ''a'' json) (\<lambda>a'.
     bind_exn (get_double D ''A'' json) (\<lambda>A'.
     bind_exn (get_double D ''o'' json) (\<lambda>o'.
     bind_exn (get_double D ''h'' json) (\<lambda>h'.
     bind_exn (get_double D ''l'' json) (\<lambda>l'.
     bind_exn (get_double D ''v'' json) (\<lambda>v'.
     bind_exn (get_double D ''q'' json) (\<lambda>q'.
     bind_exn (get_size ''O'' json) (\<lambda>O'.
     bind_exn (get_size ''C'' json) (\<lambda>C'.
     bind_exn (get_size ''F'' json) (\<lambda>F'.
     bind_exn (get_size ''L'' json) (\<lambda>L'.
     bind_exn (get_size ''n'' json) (\<lambda>n'.
     Inr \<lparr>mkt_E = E', mkt_s = s', mkt_p = p', mkt_P = P', mkt_w = w', mkt_x = x', mkt_c = c', mkt_Q = Q', mkt_b = b', mkt_B = B', mkt_a = a', mkt_A = A', mkt_o = o', mkt_h = h', mkt_l = l', mkt_v = v', mkt_q = q', mkt_O = O', mkt_C = C', mkt_F = F', mkt_L = L', mkt_n = n'\<rparr>))))))))))))))))))))))"

definition print_v1_market_ticker :: "'d double_ops \<Rightarrow> 'd v1_market_ticker_t \<Rightarrow> string" where
  "print_v1_market_ticker D x =
     ''{'' @ qt @ ''E'' @ qt @ '':'' @ size_text (mkt_E x) @ '','' @
     qt @ ''s'' @ qt @ '':'' @ qt @ mkt_s x @ qt @ '','' @
     qt @ ''p'' @ qt @ '':'' @ qt @ dt_show D (mkt_p x) @ qt @ '','' @
     qt @ ''P'' @ qt @ '':'' @ qt @ dt_show D (mkt_P x) @ qt @ '','' @
     qt @ ''w'' @ qt @ '':'' @ qt @ dt_show D (mkt_w x) @ qt @ '','' @
     qt @ ''x'' @ qt @ '':'' @ qt @ dt_show D (mkt_x x) @ qt @ '','' @
     qt @ ''c'' @ qt @ '':'' @ qt @ dt_show D (mkt_c x) @ qt @ '','' @
     qt @ ''Q'' @ qt @ '':'' @ qt @ dt_show D (mkt_Q x) @ qt @ '','' @
     qt @ ''b'' @ qt @ '':'' @ qt @ dt_show D (mkt_b x) @ qt @ '','' @
     qt @ ''B'' @ qt @ '':'' @ qt @ dt_show D (mkt_B x) @ qt @ '','' @
     qt @ ''a'' @ qt @ '':'' @ qt @ dt_show D (mkt_a x) @ qt @ '','' @
     qt @ ''A'' @ qt @ '':'' @ qt @ dt_show D (mkt_A x) @ qt @ '','' @
     qt @ ''o'' @ qt @ '':'' @ qt @ dt_show D (mkt_o x) @ qt @ '','' @
     qt @ ''h'' @ qt @ '':'' @ qt @ dt_show D (mkt_h x) @ qt @ '','' @
     qt @ ''l'' @ qt @ '':'' @ qt @ dt_show D (mkt_l x) @ qt @ '','' @
     qt @ ''v'' @ qt @ '':'' @ qt @ dt_show D (mkt_v x) @ qt @ '','' @
     qt @ ''q'' @ qt @ '':'' @ qt @ dt_show D (mkt_q x) @ qt @ '','' @
     qt @ ''O'' @ qt @ '':'' @ size_text (mkt_O x) @ '','' @
     qt @ ''C'' @ qt @ '':'' @ size_text (mkt_C x) @ '','' @
     qt @ ''F'' @ qt @ '':'' @ size_text (mkt_F x) @ '','' @
     qt @ ''L'' @ qt @ '':'' @ size_text (mkt_L x) @ '','' @
     qt @ ''n'' @ qt @ '':'' @ size_text (mkt_n x) @ ''}''"

definition read_v1_market_ticker :: "'d double_ops \<Rightarrow> fjson \<Rightarrow> 'd v1_market_ticker_t fj_result" where
  "read_v1_market_ticker D it =
     bind_exn (get_size ''E'' it) (\<lambda>E'.
     bind_exn (get_text ''s'' it) (\<lambda>s'.
     bind_exn (get_double D ''p'' it) (\<lambda>p'.
     bind_exn (get_double D ''P'' it) (\<lambda>P'.
     bind_exn (get_double D ''w'' it) (\<lambda>w'.
     bind_exn (get_double D ''x'' it) (\<lambda>x'.
     bind_exn (get_double D ''c'' it) (\<lambda>c'.
     bind_exn (get_double D ''Q'' it) (\<lambda>Q'.
     bind_exn (get_double D ''b'' it) (\<lambda>b'.
     bind_exn (get_double D ''B'' it) (\<lambda>B'.
     bind_exn (get_double D ''a'' it) (\<lambda>a'.
     bind_exn (get_double D ''A'' it) (\<lambda>A'.
     bind_exn (get_double D ''o'' it) (\<lambda>o'.
     bind_exn (get_double D ''h'' it) (\<lambda>h'.
     bind_exn (get_double D ''l'' it) (\<lambda>l'.
     bind_exn (get_double D ''v'' it) (\<lambda>v'.
     bind_exn (get_double D ''q'' it) (\<lambda>q'.
     bind_exn (get_size ''O'' it) (\<lambda>O'.
     bind_exn (get_size ''C'' it) (\<lambda>C'.
     bind_exn (get_size ''F'' it) (\<lambda>F'.
     bind_exn (get_size ''L'' it) (\<lambda>L'.
     bind_exn (get_size ''n'' it) (\<lambda>n'.
     Inr \<lparr>mkt_E = E', mkt_s = s', mkt_p = p', mkt_P = P', mkt_w = w', mkt_x = x', mkt_c = c', mkt_Q = Q', mkt_b = b', mkt_B = B', mkt_a = a', mkt_A = A', mkt_o = o', mkt_h = h', mkt_l = l', mkt_v = v', mkt_q = q', mkt_O = O', mkt_C = C', mkt_F = F', mkt_L = L', mkt_n = n'\<rparr>))))))))))))))))))))))"

record 'd v1_markets_tickers_t =
  mkts_tickers :: "(string, 'd v1_market_ticker_t) smap"

definition construct_v1_markets_tickers :: "'d double_ops \<Rightarrow> fjson \<Rightarrow> 'd v1_markets_tickers_t fj_result" where
  "construct_v1_markets_tickers D json =
     bind_exn (expect_type FJ_TYPE_ARRAY json) (\<lambda>_.
     bind_exn (read_each (read_v1_market_ticker D) json) (\<lambda>items. Inr \<lparr>mkts_tickers = emplace_all mkt_s items\<rparr>))"

definition print_v1_markets_tickers :: "'d double_ops \<Rightarrow> 'd v1_markets_tickers_t \<Rightarrow> string" where
  "print_v1_markets_tickers D x = ''['' @ commas (map (\<lambda>(_, t). print_v1_market_ticker D t) (mkts_tickers x)) @ '']''"

record 'd v1_book_ticker_t =
  book_u :: u64
  book_s :: string
  book_b :: 'd
  book_B :: 'd
  book_a :: 'd
  book_A :: 'd

definition construct_v1_book_ticker :: "'d double_ops \<Rightarrow> fjson \<Rightarrow> 'd v1_book_ticker_t fj_result" where
  "construct_v1_book_ticker D json =
     bind_exn (checked (fj_is_valid json)) (\<lambda>_.
     bind_exn (get_size ''u'' json) (\<lambda>u'.
     bind_exn (get_text ''s'' json) (\<lambda>s'.
     bind_exn (get_double D ''b'' json) (\<lambda>b'.
     bind_exn (get_double D ''B'' json) (\<lambda>B'.
     bind_exn (get_double D ''a'' json) (\<lambda>a'.
     bind_exn (get_double D ''A'' json) (\<lambda>A'.
     Inr \<lparr>book_u = u', book_s = s', book_b = b', book_B = B', book_a = a', book_A = A'\<rparr>)))))))"

definition print_v1_book_ticker :: "'d double_ops \<Rightarrow> 'd v1_book_ticker_t \<Rightarrow> string" where
  "print_v1_book_ticker D x =
     ''{'' @ qt @ ''u'' @ qt @ '':'' @ size_text (book_u x) @ '','' @
     qt @ ''s'' @ qt @ '':'' @ qt @ book_s x @ qt @ '','' @
     qt @ ''b'' @ qt @ '':'' @ qt @ dt_show D (book_b x) @ qt @ '','' @
     qt @ ''B'' @ qt @ '':'' @ qt @ dt_show D (book_B x) @ qt @ '','' @
     qt @ ''a'' @ qt @ '':'' @ qt @ dt_show D (book_a x) @ qt @ '','' @
     qt @ ''A'' @ qt @ '':'' @ qt @ dt_show D (book_A x) @ qt @ ''}''"

section \<open>User data events\<close>

record 'd v1_ud_balance_t =
  udb_a :: string
  udb_f :: 'd
  udb_l :: 'd

definition print_v1_ud_balance :: "'d double_ops \<Rightarrow> 'd v1_ud_balance_t \<Rightarrow> string" where
  "print_v1_ud_balance D x =
     ''{'' @ qt @ ''a'' @ qt @ '':'' @ qt @ udb_a x @ qt @ '','' @
     qt @ ''f'' @ qt @ '':'' @ qt @ dt_show D (udb_f x) @ qt @ '','' @
     qt @ ''l'' @ qt @ '':'' @ qt @ dt_show D (udb_l x) @ qt @ ''}''"

definition read_v1_ud_balance :: "'d double_ops \<Rightarrow> fjson \<Rightarrow> 'd v1_ud_balance_t fj_result" where
  "read_v1_ud_balance D it =
     bind_exn (get_text ''a'' it) (\<lambda>a'.
     bind_exn (get_double D ''l'' it) (\<lambda>l'.
     bind_exn (get_double D ''f'' it) (\<lambda>f'.
     Inr \<lparr>udb_a = a', udb_f = f', udb_l = l'\<rparr>)))"

record 'd v1_account_update_t =
  aupd_e :: string
  aupd_E :: u64
  aupd_u :: u64
  aupd_B :: "(string, 'd v1_ud_balance_t) smap"

definition construct_v1_account_update :: "'d double_ops \<Rightarrow> fjson \<Rightarrow> 'd v1_account_update_t fj_result" where
  "construct_v1_account_update D json =
     bind_exn (checked (fj_is_valid json)) (\<lambda>_.
     bind_exn (get_text ''e'' json) (\<lambda>e'.
     bind_exn (get_size ''E'' json) (\<lambda>E'.
     bind_exn (get_size ''u'' json) (\<lambda>u'.
     bind_exn (fj_at ''B'' json) (\<lambda>B.
     bind_exn (read_each (read_v1_ud_balance D) B) (\<lambda>items.
     Inr \<lparr>aupd_e = e', aupd_E = E', aupd_u = u', aupd_B = foldl (\<lambda>m x. map_put (<) (udb_a x) x m) [] items\<rparr>))))))"

definition print_v1_account_update :: "'d double_ops \<Rightarrow> 'd v1_account_update_t \<Rightarrow> string" where
  "print_v1_account_update D x =
     ''{'' @ qt @ ''e'' @ qt @ '':'' @ qt @ aupd_e x @ qt @ '','' @
     qt @ ''E'' @ qt @ '':'' @ size_text (aupd_E x) @ '','' @
     qt @ ''u'' @ qt @ '':'' @ size_text (aupd_u x) @ '','' @
     qt @ ''B'' @ qt @ '':['' @ commas (map (\<lambda>(_, b). print_v1_ud_balance D b) (aupd_B x)) @ '']}''"

record 'd v1_balance_update_t =
  bupd_e :: string
  bupd_E :: u64
  bupd_a :: string
  bupd_d :: 'd
  bupd_T :: u64

definition construct_v1_balance_update :: "'d double_ops \<Rightarrow> fjson \<Rightarrow> 'd v1_balance_update_t fj_result" where
  "construct_v1_balance_update D json =
     bind_exn (checked (fj_is_valid json)) (\<lambda>_.
     bind_exn (get_text ''e'' json) (\<lambda>e'.
     bind_exn (get_size ''E'' json) (\<lambda>E'.
     bind_exn (get_text ''a'' json) (\<lambda>a'.
     bind_exn (get_double D ''d'' json) (\<lambda>d'.
     bind_exn (get_size ''T'' json) (\<lambda>T'.
     Inr \<lparr>bupd_e = e', bupd_E = E', bupd_a = a', bupd_d = d', bupd_T = T'\<rparr>))))))"

definition print_v1_balance_update :: "'d double_ops \<Rightarrow> 'd v1_balance_update_t \<Rightarrow> string" where
  "print_v1_balance_update D x =
     ''{'' @ qt @ ''e'' @ qt @ '':'' @ qt @ bupd_e x @ qt @ '','' @
     qt @ ''E'' @ qt @ '':'' @ size_text (bupd_E x) @ '','' @
     qt @ ''a'' @ qt @ '':'' @ qt @ bupd_a x @ qt @ '','' @
     qt @ ''d'' @ qt @ '':'' @ qt @ dt_show D (bupd_d x) @ qt @ '','' @
     qt @ ''T'' @ qt @ '':'' @ size_text (bupd_T x) @ ''}''"

record 'd v1_order_update_t =
  oupd_e :: string
  oupd_E :: u64
  oupd_s :: string
  oupd_c :: string
  oupd_S :: string
  oupd_o :: string
  oupd_f :: string
  oupd_q :: 'd
  oupd_p :: 'd
  oupd_P :: 'd
  oupd_F :: 'd
  oupd_C :: string
  oupd_x :: string
  oupd_X :: string
  oupd_r :: string
  oupd_i :: u64
  oupd_l :: 'd
  oupd_z :: 'd
  oupd_L :: 'd
  oupd_n :: 'd
  oupd_N :: string
  oupd_T :: u64
  oupd_t :: u64
  oupd_I :: u64
  oupd_w :: bool
  oupd_m :: bool
  oupd_M :: bool
  oupd_O :: u64
  oupd_Z :: 'd

definition construct_v1_order_update :: "'d double_ops \<Rightarrow> fjson \<Rightarrow> 'd v1_order_update_t fj_result" where
  "construct_v1_order_update D json =
     bind_exn (checked (fj_is_valid json)) (\<lambda>_.
     bind_exn (get_text ''e'' json) (\<lambda>e'.
     bind_exn (get_size ''E'' json) (\<lambda>E'.
     bind_exn (get_text ''s'' json) (\<lambda>s'.
     bind_exn (get_text ''c'' json) (\<lambda>c'.
     bind_exn (get_text ''S'' json) (\<lambda>S'.
     bind_exn (get_text ''o'' json) (\<lambda>o'.
     bind_exn (get_text ''f'' json) (\<lambda>f'.
     bind_exn (get_double D ''q'' json) (\<lambda>q'.
     bind_exn (get_double D ''p'' json) (\<lambda>p'.
     bind_exn (get_double D ''P'' json) (\<lambda>P'.
     bind_exn (get_double D ''F'' json) (\<lambda>F'.
     bind_exn (get_text ''C'' json) (\<lambda>C'.
     bind_exn (get_text ''x'' json) (\<lambda>x'.
     bind_exn (get_text ''X'' json) (\<lambda>X'.
     bind_exn (get_text ''r'' json) (\<lambda>r'.
     bind_exn (get_size ''i'' json) (\<lambda>i'.
     bind_exn (get_double D ''l'' json) (\<lambda>l'.
     bind_exn (get_double D ''z'' json) (\<lambda>z'.
     bind_exn (get_double D ''L'' json) (\<lambda>L'.
     bind_exn (get_double D ''n'' json) (\<lambda>n'.
     bind_exn (get_text ''N'' json) (\<lambda>N'.
     bind_exn (get_size ''T'' json) (\<lambda>T'.
     bind_exn (get_size ''t'' json) (\<lambda>t'.
     bind_exn (get_size ''I'' json) (\<lambda>I'.
     bind_exn (get_bool ''w'' json) (\<lambda>w'.
     bind_exn (get_bool ''m'' json) (\<lambda>m'.
     bind_exn (get_bool ''M'' json) (\<lambda>M'.
     bind_exn (get_size ''O'' json) (\<lambda>O'.
     bind_exn (get_double D ''Z'' json) (\<lambda>Z'.
     Inr \<lparr>oupd_e = e', oupd_E = E', oupd_s = s', oupd_c = c', oupd_S = S', oupd_o = o', oupd_f = f', oupd_q = q', oupd_p = p', oupd_P = P', oupd_F = F', oupd_C = C', oupd_x = x', oupd_X = X', oupd_r = r', oupd_i = i', oupd_l = l', oupd_z = z', oupd_L = L', oupd_n = n', oupd_N = N', oupd_T = T', oupd_t = t', oupd_I = I', oupd_w = w', oupd_m = m', oupd_M = M', oupd_O = O', oupd_Z = Z'\<rparr>))))))))))))))))))))))))))))))"

definition print_v1_order_update :: "'d double_ops \<Rightarrow> 'd v1_order_update_t \<Rightarrow> string" where
  "print_v1_order_update D x =
     ''{'' @ qt @ ''e'' @ qt @ '':'' @ qt @ oupd_e x @ qt @ '','' @
     qt @ ''E'' @ qt @ '':'' @ size_text (oupd_E x) @ '','' @
     qt @ ''s'' @ qt @ '':'' @ qt @ oupd_s x @ qt @ '','' @
     qt @ ''c'' @ qt @ '':'' @ qt @ oupd_c x @ qt @ '','' @
     qt @ ''S'' @ qt @ '':'' @ qt @ oupd_S x @ qt @ '','' @
     qt @ ''o'' @ qt @ '':'' @ qt @ oupd_o x @ qt @ '','' @
     qt @ ''f'' @ qt @ '':'' @ qt @ oupd_f x @ qt @ '','' @
     qt @ ''q'' @ qt @ '':'' @ qt @ dt_show D (oupd_q x) @ qt @ '','' @
     qt @ ''p'' @ qt @ '':'' @ qt @ dt_show D (oupd_p x) @ qt @ '','' @
     qt @ ''P'' @ qt @ '':'' @ qt @ dt_show D (oupd_P x) @ qt @ '','' @
     qt @ ''F'' @ qt @ '':'' @ qt @ dt_show D (oupd_F x) @ qt @ '','' @
     qt @ ''C'' @ qt @ '':'' @ qt @ oupd_C x @ qt @ '','' @
     qt @ ''x'' @ qt @ '':'' @ qt @ oupd_x x @ qt @ '','' @
     qt @ ''X'' @ qt @ '':'' @ qt @ oupd_X x @ qt @ '','' @
     qt @ ''r'' @ qt @ '':'' @ qt @ oupd_r x @ qt @ '','' @
     qt @ ''i'' @ qt @ '':'' @ size_text (oupd_i x) @ '','' @
     qt @ ''l'' @ qt @ '':'' @ qt @ dt_show D (oupd_l x) @ qt @ '','' @
     qt @ ''z'' @ qt @ '':'' @ qt @ dt_show D (oupd_z x) @ qt @ '','' @
     qt @ ''L'' @ qt @ '':'' @ qt @ dt_show D (oupd_L x) @ qt @ '','' @
     qt @ ''n'' @ qt @ '':'' @ qt @ dt_show D (oupd_n x) @ qt @ '','' @
     qt @ ''N'' @ qt @ '':'' @ qt @ oupd_N x @ qt @ '','' @
     qt @ ''T'' @ qt @ '':'' @ size_text (oupd_T x) @ '','' @
     qt @ ''t'' @ qt @ '':'' @ size_text (oupd_t x) @ '','' @
     qt @ ''I'' @ qt @ '':'' @ size_text (oupd_I x) @ '','' @
     qt @ ''w'' @ qt @ '':'' @ bool_text (oupd_w x) @ '','' @
     qt @ ''m'' @ qt @ '':'' @ bool_text (oupd_m x) @ '','' @
     qt @ ''M'' @ qt @ '':'' @ bool_text (oupd_M x) @ '','' @
     qt @ ''O'' @ qt @ '':'' @ size_text (oupd_O x) @ '','' @
     qt @ ''Z'' @ qt @ '':'' @ qt @ dt_show D (oupd_Z x) @ qt @ ''}''"

text \<open>The wrapper keeps the source of the document; it is written as nothing.\<close>

record v1_userdata_stream_t =
  uds_data :: string

definition construct_v1_userdata_stream :: "string \<Rightarrow> v1_userdata_stream_t" where
  "construct_v1_userdata_stream source = \<lparr>uds_data = source\<rparr>"

definition print_v1_userdata_stream :: "v1_userdata_stream_t \<Rightarrow> string" where
  "print_v1_userdata_stream x = []"

end
