(* ===== verification/Flatjson_Correct.thy ===== *)
theory Flatjson_Correct
  imports Flatjson
begin

text \<open>
  The legacy JSON reader is correct on documents: every document, written without white space, is read
  into exactly its tokens, and the accessors find in them what the document holds. For arbitrary input
  the parser ends, and its counting pass agrees with the pass that fills the buffer.
\<close>

section \<open>Lexical forms\<close>

text \<open>The text between the quotes of a string: no control characters, no bare quote, complete escapes.\<close>

function string_body :: "string \<Rightarrow> bool" where
  "string_body [] \<longleftrightarrow> True"
| "string_body (c # s) \<longleftrightarrow>
     (if c = CHR 0x5C then
        (case s of
           [] \<Rightarrow> False
         | e # s' \<Rightarrow>
             if e = CHR ''u'' then 4 \<le> length s' \<and> list_all fj_is_hex_digit (take 4 s') \<and> string_body (drop 4 s')
             else e \<in> {CHR 0x22, CHR 0x5C, CHR ''/'', CHR ''b'', CHR ''f'', CHR ''n'', CHR ''r'', CHR ''t''} \<and> string_body s')
      else 32 \<le> (of_char c :: nat) \<and> c \<noteq> CHR 0x22 \<and>
        (case fj_utf8_char_len c of None \<Rightarrow> False | Some n \<Rightarrow> n \<le> length (c # s) \<and> string_body (drop (n - 1) s)))"
  by pat_completeness auto
termination by (relation "measure length") auto

lemma fj_utf8_char_len_pos: "fj_utf8_char_len c = Some n \<Longrightarrow> 0 < n"
  by (auto simp: fj_utf8_char_len_def Let_def split: if_splits)

lemma string_loop_body:
  "string_body s \<Longrightarrow> fj_string_loop acc (s @ CHR 0x22 # rest) = (FJ_EC_OK, acc @ s, rest)"
proof (induction s arbitrary: acc rule: string_body.induct)
  case 1
  then show ?case by (simp add: fj_utf8_char_len_def)
next
  case (2 c s)
  show ?case
  proof (cases "c = CHR 0x5C")
    case True
    then obtain e s' where s: "s = e # s'" using "2.prems" by (auto split: list.splits)
    show ?thesis
    proof (cases "e = CHR ''u''")
      case True
      then have "take 4 (s' @ CHR 0x22 # rest) = take 4 s'" "drop 4 (s' @ CHR 0x22 # rest) = drop 4 s' @ CHR 0x22 # rest"
        "string_body (drop 4 s')" "list_all fj_is_hex_digit (take 4 s')" "4 \<le> length s'"
        using "2.prems" s \<open>c = CHR 0x5C\<close> by simp_all
      then show ?thesis
        using "2.IH"(1) [OF \<open>c = CHR 0x5C\<close> s True, of "acc @ c # e # take 4 s'"] True s \<open>c = CHR 0x5C\<close>
        by (simp add: fj_utf8_char_len_def fj_escape_len_def raw_char_def numeral_eq_Suc)
    next
      case False
      then have "string_body s'" "e \<in> {CHR 0x22, CHR 0x5C, CHR ''/'', CHR ''b'', CHR ''f'', CHR ''n'', CHR ''r'', CHR ''t''}"
        using "2.prems" s \<open>c = CHR 0x5C\<close> by simp_all
      then show ?thesis
        using "2.IH"(2) [OF \<open>c = CHR 0x5C\<close> s False, of "acc @ [c, e]"] False s \<open>c = CHR 0x5C\<close>
        by (auto simp: fj_utf8_char_len_def fj_escape_len_def raw_char_def)
    qed
  next
    case False
    then obtain n where n: "fj_utf8_char_len c = Some n" "n \<le> length (c # s)" "string_body (drop (n - 1) s)"
      "32 \<le> (of_char c :: nat)" "c \<noteq> CHR 0x22"
      using "2.prems" by (auto split: option.splits)
    have "0 < n" using fj_utf8_char_len_pos [OF n(1)] .
    then obtain m where m: "n = Suc m" by (cases n) auto
    show ?thesis
      using "2.IH"(3) [OF False n(1), of "acc @ take n (c # s)"] n False m
      by simp
  qed
qed

text \<open>The decimal numbers the reader takes whole. A lone zero before an exponent is not among them.\<close>

definition digit_string :: "string \<Rightarrow> bool" where
  "digit_string d \<longleftrightarrow> d \<noteq> [] \<and> list_all is_digit d"

definition number_text :: "string \<Rightarrow> bool" where
  "number_text s \<longleftrightarrow> (\<exists>sign int frac expo. s = sign @ int @ frac @ expo \<and> sign \<in> {[], ''-''} \<and> digit_string int \<and>
     (frac = [] \<or> (\<exists>d. digit_string d \<and> frac = CHR ''.'' # d)) \<and>
     (expo = [] \<or> (\<exists>x sg d. digit_string d \<and> x \<in> {CHR ''e'', CHR ''E''} \<and> sg \<in> {[], ''+'', ''-''} \<and> expo = x # sg @ d)) \<and>
     (sign = [] \<and> hd int = CHR ''0'' \<longrightarrow> int = ''0'' \<and> (frac \<noteq> [] \<or> expo = [])))"

text \<open>What may follow a value.\<close>

definition delim :: "string \<Rightarrow> bool" where
  "delim rest \<longleftrightarrow> rest = [] \<or> hd rest \<in> {CHR '','', CHR '']'', CHR ''}''}"

lemma delim_not_digit: "delim rest \<Longrightarrow> rest \<noteq> [] \<Longrightarrow> \<not> is_digit (hd rest)"
  by (auto simp: delim_def is_digit_def)

lemma number_run_digits:
  "digit_string d \<Longrightarrow> rest = [] \<or> \<not> is_digit (hd rest) \<Longrightarrow> number_run is_digit (d @ rest) = Inr rest"
  by (cases d; cases rest) (auto simp: digit_string_def number_run_def list_all_iff dropWhile_append)

lemma number_exponent_text:
  assumes "expo = [] \<or> (\<exists>x sg d. digit_string d \<and> x \<in> {CHR ''e'', CHR ''E''} \<and> sg \<in> {[], ''+'', ''-''} \<and> expo = x # sg @ d)"
    and "delim rest"
  shows "number_exponent (expo @ rest) = Inr rest"
proof (cases "expo = []")
  case True
  then show ?thesis
    using assms(2) by (cases rest) (auto simp: number_exponent_def delim_def)
next
  case False
  then obtain x sg d where e: "digit_string d" "x \<in> {CHR ''e'', CHR ''E''}" "sg \<in> {[], ''+'', ''-''}" "expo = x # sg @ d"
    using assms(1) by auto
  obtain c d' where d: "d = c # d'" "is_digit c" using e(1) by (cases d) (auto simp: digit_string_def)
  have "c \<noteq> CHR ''+''" "c \<noteq> CHR ''-''" using d(2) by (auto simp: is_digit_def)
  moreover have "number_run is_digit (d @ rest) = Inr rest"
    using e(1) assms(2) delim_not_digit by (intro number_run_digits) auto
  ultimately show ?thesis using e d by (auto simp: number_exponent_def)
qed

lemma number_fraction_text:
  assumes "frac = [] \<or> (\<exists>d. digit_string d \<and> frac = CHR ''.'' # d)"
    and "rest = [] \<or> \<not> is_digit (hd rest) \<and> hd rest \<noteq> CHR ''.''"
  shows "number_fraction (frac @ rest) = Inr rest"
  using assms number_run_digits [where rest = rest] number_run_digits [where rest = "[]"]
  by (cases rest) (auto simp: number_fraction_def)

lemma fj_parse_number_text:
  assumes "number_text s" and "delim rest"
  shows "fj_parse_number (s @ rest) = (FJ_EC_OK, s, rest)"
proof -
  obtain sign int frac expo where s: "s = sign @ int @ frac @ expo" "sign \<in> {[], ''-''}" "digit_string int"
    "frac = [] \<or> (\<exists>d. digit_string d \<and> frac = CHR ''.'' # d)"
    "expo = [] \<or> (\<exists>x sg d. digit_string d \<and> x \<in> {CHR ''e'', CHR ''E''} \<and> sg \<in> {[], ''+'', ''-''} \<and> expo = x # sg @ d)"
    "sign = [] \<and> hd int = CHR ''0'' \<longrightarrow> int = ''0'' \<and> (frac \<noteq> [] \<or> expo = [])"
    using assms(1) unfolding number_text_def by blast
  obtain c int' where int: "int = c # int'" "is_digit c" using s(3) by (cases int) (auto simp: digit_string_def)
  have c: "\<not> is_ws c" "c \<noteq> CHR ''-''" using int(2) by (auto simp: is_digit_def is_ws_def)
  have e: "expo @ rest = [] \<or> \<not> is_digit (hd (expo @ rest)) \<and> hd (expo @ rest) \<noteq> CHR ''.''"
    using s(5) assms(2) by (cases "expo = []") (auto simp: delim_def is_digit_def)
  have f: "frac @ expo @ rest = [] \<or> \<not> is_digit (hd (frac @ expo @ rest))"
    using s(4) e by (cases "frac = []") (auto simp: is_digit_def)
  have x: "frac @ expo @ rest = [] \<or> hd (frac @ expo @ rest) \<noteq> CHR ''x''"
    using s(4,5) assms(2) by (cases "frac = []"; cases "expo = []") (auto simp: delim_def)
  have "take 2 (int @ frac @ expo @ rest) \<noteq> ''0x''"
  proof
    assume a: "take 2 (int @ frac @ expo @ rest) = ''0x''"
    show False
    proof (cases int')
      case Nil
      with a int x show False by (cases "frac @ expo @ rest") (auto simp: numeral_2_eq_2)
    next
      case (Cons d ds)
      with s(3) int have "is_digit d" by (simp add: digit_string_def)
      with a Cons int show False by (simp add: numeral_2_eq_2 is_digit_def)
    qed
  qed
  then have body: "number_body (int @ frac @ expo @ rest) = Inr rest"
    using int number_run_digits [OF s(3) f] number_fraction_text [OF s(4) e] number_exponent_text [OF s(5) assms(2)]
    unfolding number_body_def by auto
  have skip: "fj_skip_ws (s @ rest) = s @ rest" using s(1,2) int c by (auto simp: fj_skip_ws_def is_ws_def)
  have minus: "(if cur_char (s @ rest) = CHR ''-'' then drop 1 (s @ rest) else s @ rest) = int @ frac @ expo @ rest"
    using s(1,2) int c by (auto simp: cur_char_def)
  have zero: "\<not> (length s > 1 \<and> s ! 0 = CHR ''0'' \<and> s ! 1 \<noteq> CHR ''.'')"
  proof
    assume a: "length s > 1 \<and> s ! 0 = CHR ''0'' \<and> s ! 1 \<noteq> CHR ''.''"
    then have "sign = []" "c = CHR ''0''" using s(1,2) int by auto
    then have "int = ''0''" "frac \<noteq> [] \<or> expo = []" using s(6) int by auto
    then show False using a s(1,4) \<open>sign = []\<close> by auto
  qed
  show ?thesis
    unfolding fj_parse_number_def Let_def skip minus body using zero by simp
qed

lemma number_text_starts: "number_text s \<Longrightarrow> s \<noteq> [] \<and> starts_number (hd s)"
  by (fastforce simp: number_text_def digit_string_def starts_number_def list_all_iff)

lemma number_text_digits:
  "digit_string s \<Longrightarrow> hd s = CHR ''0'' \<longrightarrow> s = ''0'' \<Longrightarrow> number_text s"
  unfolding number_text_def
  by (rule exI [of _ "[]"], rule exI [of _ s], rule exI [of _ "[]"], rule exI [of _ "[]"]) simp

section \<open>Well-formed documents\<close>

text \<open>Lexically correct, and within the widths of the fields of a token.\<close>

definition simple_ok :: "e_fj_token_type \<Rightarrow> string \<Rightarrow> bool" where
  "simple_ok t s \<longleftrightarrow> length s < 4294967295 \<and>
     (t = FJ_TYPE_STRING \<and> string_body s \<or> t = FJ_TYPE_NUMBER \<and> number_text s \<or>
      t = FJ_TYPE_BOOL \<and> s \<in> {''true'', ''false''} \<or> t = FJ_TYPE_NULL \<and> s = ''null'')"

definition key_ok :: "string \<Rightarrow> bool" where
  "key_ok k \<longleftrightarrow> length k < 255 \<and> string_body k"

fun json_ok :: "json \<Rightarrow> bool" where
  "json_ok (J_simple t s) \<longleftrightarrow> simple_ok t s"
| "json_ok (J_array vs) \<longleftrightarrow> length vs < 65535 \<and> list_all json_ok vs"
| "json_ok (J_object ms) \<longleftrightarrow> length ms < 65535 \<and> list_all (\<lambda>m. key_ok (fst m) \<and> json_ok (snd m)) ms"

lemma simple_parsed:
  assumes ok: "simple_ok t s" and rest: "delim rest"
  shows "fj_parse_value (Suc n) M par \<lparr>js_cur = json_text (J_simple t s) @ rest, jstok = toks, jstok_cur = c\<rparr> =
    Some (FJ_EC_OK, (s, t), \<lparr>js_cur = rest, jstok = toks, jstok_cur = if c = 0 then 1 else c\<rparr>)"
proof -
  consider (str) "t = FJ_TYPE_STRING" "string_body s" | (num) "t = FJ_TYPE_NUMBER" "number_text s"
    | (bool) "t = FJ_TYPE_BOOL" "s \<in> {''true'', ''false''}" | (null) "t = FJ_TYPE_NULL" "s = ''null''"
    using ok by (auto simp: simple_ok_def)
  then show ?thesis
  proof cases
    case str
    then show ?thesis
      by (simp add: value_step_def fj_skip_ws_def is_ws_def cur_char_def starts_number_def is_digit_def fj_parse_string_def
          fj_check_and_skip_def string_loop_body simple_value_def advance_tok_def)
  next
    case num
    then obtain d s' where d: "s = d # s'" "starts_number d"
      using number_text_starts [OF num(2)] by (cases s) auto
    have "\<not> is_ws d" "d \<notin> {CHR ''{'', CHR ''['', CHR ''n'', CHR ''t'', CHR ''f''}"
      using d(2) by (auto simp: starts_number_def is_digit_def is_ws_def)
    then show ?thesis
      using num d fj_parse_number_text [OF num(2) rest]
      by (simp add: value_step_def fj_skip_ws_def cur_char_def simple_value_def advance_tok_def)
  next
    case bool
    then show ?thesis
      by (auto simp: value_step_def fj_skip_ws_def is_ws_def cur_char_def fj_expect_def simple_value_def advance_tok_def)
  next
    case null
    then show ?thesis
      by (auto simp: value_step_def fj_skip_ws_def is_ws_def cur_char_def fj_expect_def simple_value_def advance_tok_def)
  qed
qed

section \<open>The pass that fills the buffer\<close>

definition is_composite :: "json \<Rightarrow> bool" where
  "is_composite v \<longleftrightarrow> (case v of J_simple t s \<Rightarrow> False | _ \<Rightarrow> True)"

lemma is_composite_simps [simp]:
  "\<not> is_composite (J_simple t s)" "is_composite (J_array vs)" "is_composite (J_object ms)"
  by (simp_all add: is_composite_def)

lemma json_text_hd:
  assumes "json_ok v"
  obtains c s where "json_text v = c # s" "\<not> is_ws c" "c \<notin> {CHR '']'', CHR ''}'', CHR '','', CHR 0xFF}" "is_nested c \<longleftrightarrow> is_composite v"
proof (cases v)
  case (J_simple t s)
  show thesis
  proof (cases "t = FJ_TYPE_STRING")
    case True
    with J_simple that show thesis by (simp add: is_ws_def is_nested_def)
  next
    case False
    then consider "number_text s" | "s \<in> {''true'', ''false'', ''null''}"
      using assms J_simple by (auto simp: simple_ok_def)
    then show thesis
    proof cases
      case 1
      then obtain d s' where d: "s = d # s'" "starts_number d" using number_text_starts [OF 1] by (cases s) auto
      have "\<not> is_ws d" "d \<notin> {CHR '']'', CHR ''}'', CHR '','', CHR 0xFF}" "\<not> is_nested d"
        using d(2) by (auto simp: starts_number_def is_digit_def is_ws_def is_nested_def)
      then show thesis using that J_simple False d by simp
    next
      case 2
      then show thesis using that J_simple False by (auto simp: is_ws_def is_nested_def)
    qed
  qed
next
  case (J_array vs)
  with that show thesis by (simp add: is_ws_def is_nested_def)
next
  case (J_object ms)
  with that show thesis by (simp add: is_ws_def is_nested_def)
qed

text \<open>Counting children of the token at \<open>j\<close>; \<open>room\<close> is that the 16-bit counter does not overflow.\<close>

definition childs_add :: "nat \<Rightarrow> nat \<Rightarrow> fj_token list \<Rightarrow> fj_token list" where
  "childs_add j k A = A[j := (A ! j)\<lparr>tk_childs := tk_childs (A ! j) + of_nat k\<rparr>]"

definition room :: "nat \<Rightarrow> nat \<Rightarrow> fj_token list \<Rightarrow> bool" where
  "room j k A \<longleftrightarrow> j < length A \<and> unat (tk_childs (A ! j)) + k \<le> 65535"

lemma length_childs_add [simp]: "length (childs_add j k A) = length A"
  by (simp add: childs_add_def)

lemma childs_add_0 [simp]: "childs_add j 0 A = A"
  by (simp add: childs_add_def)

lemma childs_add_add: "j < length A \<Longrightarrow> childs_add j k (childs_add j l A) = childs_add j (l + k) A"
  by (simp add: childs_add_def add.assoc)

lemma childs_add_append: "j < length A \<Longrightarrow> childs_add j k A @ B = childs_add j k (A @ B)"
  by (simp add: childs_add_def nth_append list_update_append)

lemma unat_add_small: "unat (w :: 16 word) + k \<le> 65535 \<Longrightarrow> unat (w + of_nat k) = unat w + k"
  by (simp add: unat_word_ariths unat_of_nat)

lemma room_childs_add: "room j (l + k) A \<Longrightarrow> room j k (childs_add j l A)"
  using unat_add_small [of "tk_childs (A ! j)" l] by (auto simp: room_def childs_add_def)

lemma room_append: "room j k A \<Longrightarrow> room j k (A @ B)"
  by (simp add: room_def nth_append)

lemma room_mono: "room j k A \<Longrightarrow> l \<le> k \<Longrightarrow> room j l A"
  by (simp add: room_def)

lemma not_childs_full: "room j (Suc k) A \<Longrightarrow> \<not> childs_full M j \<lparr>js_cur = s, jstok = A @ B, jstok_cur = c\<rparr>"
  by (auto simp: room_def childs_full_def nth_append word_le_nat_alt)

lemma add_child_prefix:
  "j < length A \<Longrightarrow> add_child Mode_parse j \<lparr>js_cur = s, jstok = A @ B, jstok_cur = c\<rparr> =
     \<lparr>js_cur = s, jstok = childs_add j 1 A @ B, jstok_cur = c\<rparr>"
  by (simp add: add_child_def set_tok_def childs_add_def nth_append list_update_append)

lemma set_tok_prefix:
  "j < length A \<Longrightarrow> set_tok Mode_parse j f \<lparr>js_cur = s, jstok = A @ B, jstok_cur = c\<rparr> =
     \<lparr>js_cur = s, jstok = A[j := f (A ! j)] @ B, jstok_cur = c\<rparr>"
  by (simp add: set_tok_def nth_append list_update_append)

lemma set_tok_at:
  "set_tok Mode_parse (length A) f \<lparr>js_cur = s, jstok = A @ t # B, jstok_cur = c\<rparr> =
     \<lparr>js_cur = s, jstok = A @ f t # B, jstok_cur = c\<rparr>"
  by (simp add: set_tok_def)

definition bump :: "nat option \<Rightarrow> fj_token list \<Rightarrow> fj_token list" where
  "bump par A = (case par of None \<Rightarrow> A | Some j \<Rightarrow> childs_add j 1 A)"

lemma length_bump [simp]: "length (bump par A) = length A"
  by (simp add: bump_def split: option.split)

definition parent_has_room :: "nat option \<Rightarrow> fj_token list \<Rightarrow> bool" where
  "parent_has_room par A \<longleftrightarrow> (case par of None \<Rightarrow> True | Some j \<Rightarrow> room j 1 A)"

lemma open_tok_ok:
  assumes "parent_has_room par A"
  shows "open_tok Mode_parse t par \<lparr>js_cur = s, jstok = A @ cell # B, jstok_cur = length A\<rparr> =
    (FJ_EC_OK, \<lparr>js_cur = s, jstok = bump par A @ cell\<lparr>tk_type := t, tk_parent := par\<rparr> # B, jstok_cur = length A + 1\<rparr>)"
  using assms not_childs_full [of _ 0 A]
  by (auto simp: open_tok_def no_free_def advance_tok_def set_tok_at parent_has_room_def bump_def Let_def add_child_prefix room_def
      split: option.splits)

lemma close_tok_ok:
  assumes "room start 1 B"
  shows "close_tok Mode_parse t start \<lparr>js_cur = s, jstok = B @ replicate (Suc r) new_token, jstok_cur = length B\<rparr> =
    (FJ_EC_OK, \<lparr>js_cur = s, jstok = (childs_add start 1 B)[start := (childs_add start 1 B ! start)\<lparr>tk_end := Some (length B)\<rparr>] @
       end_token t start # replicate r new_token, jstok_cur = length B + 1\<rparr>)"
  using assms not_childs_full [of start 0 B]
  by (simp add: close_tok_def no_free_def advance_tok_def set_tok_at end_token_def add_child_prefix set_tok_prefix room_def Let_def)

lemma skip_ws_hd: "\<not> is_ws c \<Longrightarrow> fj_skip_ws (c # s) = c # s"
  by (simp add: fj_skip_ws_def)

lemma check_and_skip_hd: "\<not> is_ws c \<Longrightarrow> fj_check_and_skip c (c # s) = (FJ_EC_OK, s)"
  by (simp add: fj_check_and_skip_def skip_ws_hd cur_char_def)

lemma length_json_tokens [simp]:
  "length (json_tokens par i key v) = token_count v"
  "length (array_tokens par i vs) = token_counts vs"
  "length (member_tokens par i ms) = member_counts ms"
  by (induction par i key v and par i vs and par i ms rule: json_tokens_array_tokens_member_tokens.induct) simp_all

lemma token_count_pos [simp]: "0 < token_count v"
  by (cases v) simp_all

definition composite_type :: "json \<Rightarrow> e_fj_token_type" where
  "composite_type v = (case v of J_object ms \<Rightarrow> FJ_TYPE_OBJECT | _ \<Rightarrow> FJ_TYPE_ARRAY)"

text \<open>An array or object is read into its tokens, from a cell that may hold its key already.\<close>

definition parses_as :: "json \<Rightarrow> bool" where
  "parses_as v \<longleftrightarrow> (\<forall>n par A t k r rest.
     3 * length (json_text v @ rest) + 1 \<le> n \<longrightarrow> parent_has_room par A \<longrightarrow> token_count v \<le> Suc r \<longrightarrow>
     fj_parse_value n Mode_parse par
       \<lparr>js_cur = json_text v @ rest, jstok = A @ new_token\<lparr>tk_type := t, tk_key := k\<rparr> # replicate r new_token, jstok_cur = length A\<rparr> =
     Some (FJ_EC_OK, ([], composite_type v),
       \<lparr>js_cur = rest, jstok = bump par A @ json_tokens par (length A) k v @ replicate (Suc r - token_count v) new_token,
        jstok_cur = length A + token_count v\<rparr>))"

lemma set_tok_at':
  "length A = i \<Longrightarrow> set_tok Mode_parse i f \<lparr>js_cur = s, jstok = A @ t # B, jstok_cur = c\<rparr> =
     \<lparr>js_cur = s, jstok = A @ f t # B, jstok_cur = c\<rparr>"
  using set_tok_at by blast

text \<open>The first token of an array or object has its type and no text.\<close>

lemma composite_tokens:
  assumes "is_composite v"
  obtains t ts where "json_tokens par i k v = t # ts" "t\<lparr>tk_type := composite_type v\<rparr> = t" "t\<lparr>tk_val := []\<rparr> = t"
    "t\<lparr>tk_type := composite_type v, tk_val := []\<rparr> = t"
  using assms by (cases v) (simp_all add: start_token_def composite_type_def)

lemma new_token_upd: "new_token\<lparr>tk_type := FJ_TYPE_INVALID, tk_key := []\<rparr> = new_token"
  by (simp add: new_token_def)

lemma element_token:
  "new_token\<lparr>tk_parent := p, tk_type := t, tk_val := x\<rparr> = new_token\<lparr>tk_type := t, tk_key := [], tk_val := x, tk_parent := p\<rparr>"
  by (simp add: new_token_def)

lemma small_len: "length v < 4294967295 \<Longrightarrow> \<not> (of_nat (length v) :: u64) \<ge> 4294967295"
  by (simp add: word_le_nat_alt unat_of_nat)

lemma small_key: "length k < 255 \<Longrightarrow> \<not> (of_nat (length k) :: u64) \<ge> 255"
  by (simp add: word_le_nat_alt unat_of_nat)

lemma array_element_ok:
  assumes ok: "json_ok v" and IH: "is_composite v \<Longrightarrow> parses_as v" and rest: "delim rest"
    and room: "room start 1 A" and r: "token_count v \<le> Suc r" and n: "3 * length (json_text v @ rest) + 1 \<le> n"
  shows "array_element (fj_parse_value n) Mode_parse start
      \<lparr>js_cur = json_text v @ rest, jstok = A @ replicate (Suc r) new_token, jstok_cur = length A\<rparr> =
    Some (separator (CHR '']'')
      \<lparr>js_cur = rest, jstok = childs_add start 1 A @ json_tokens (Some start) (length A) [] v @ replicate (Suc r - token_count v) new_token,
       jstok_cur = length A + token_count v\<rparr>)"
proof -
  obtain c s where c: "json_text v = c # s" "is_nested c \<longleftrightarrow> is_composite v" using json_text_hd [OF ok] by metis
  have cur: "cur_char (json_text v @ rest) = c" using c by (simp add: cur_char_def)
  show ?thesis
  proof (cases "is_composite v")
    case False
    then obtain t x where J_simple: "v = J_simple t x" by (cases v) simp_all
    obtain m where m: "n = Suc m" using n by (cases n) auto
    have len: "length x < 4294967295" using ok J_simple by (simp add: simple_ok_def)
    have start: "start < length A" using room by (simp add: room_def)
    have nested: "\<not> is_nested c" using c J_simple by simp
    note parsed = simple_parsed [of t x rest m Mode_parse "Some start"]
    show ?thesis
      unfolding array_element_def cur fj_parser.simps m Let_def
      using ok rest nested start parsed small_len [OF len] not_childs_full [of start 0 A] room J_simple
      by (simp add: no_free_def advance_tok_def set_tok_at set_tok_at' add_child_prefix element_token)
  next
    case comp: True
    obtain t ts where t: "json_tokens (Some start) (length A) [] v = t # ts" "t\<lparr>tk_type := composite_type v, tk_val := []\<rparr> = t"
      using composite_tokens [OF comp] by metis
    note p = IH [OF comp, unfolded parses_as_def, rule_format, OF n, of "Some start" A r "[]" FJ_TYPE_INVALID]
    show ?thesis
      unfolding array_element_def cur fj_parser.simps Let_def
      using p room r c comp t
      by (simp add: no_free_def parent_has_room_def new_token_upd bump_def set_tok_at')
  qed
qed

lemma separator_comma:
  "raw_char s \<noteq> closing \<Longrightarrow> separator closing \<lparr>js_cur = CHR '','' # s, jstok = ts, jstok_cur = c\<rparr> =
     (FJ_EC_OK, \<lparr>js_cur = s, jstok = ts, jstok_cur = c\<rparr>)"
  by (simp add: separator_def fj_skip_ws_def is_ws_def cur_char_def)

lemma separator_closing:
  "d \<in> {CHR '']'', CHR ''}''} \<Longrightarrow> separator closing \<lparr>js_cur = d # s, jstok = ts, jstok_cur = c\<rparr> =
     (FJ_EC_OK, \<lparr>js_cur = d # s, jstok = ts, jstok_cur = c\<rparr>)"
  by (auto simp: separator_def fj_skip_ws_def is_ws_def cur_char_def)

lemma array_loop_ok:
  assumes "\<forall>v\<in>set vs. json_ok v \<and> (is_composite v \<longrightarrow> parses_as v)"
    and "3 * length (json_texts vs @ CHR '']'' # rest) + 2 \<le> n" and "room start (length vs) A" and "token_counts vs < r"
  shows "fj_array_loop n Mode_parse start \<lparr>js_cur = json_texts vs @ CHR '']'' # rest, jstok = A @ replicate r new_token, jstok_cur = length A\<rparr> =
    Some (FJ_EC_OK, \<lparr>js_cur = CHR '']'' # rest,
      jstok = childs_add start (length vs) A @ array_tokens (Some start) (length A) vs @ replicate (r - token_counts vs) new_token,
      jstok_cur = length A + token_counts vs\<rparr>)"
  using assms
proof (induction vs arbitrary: A r n)
  case Nil
  then obtain m where "n = Suc m" by (cases n) auto
  then show ?case
    by (simp add: array_loop_step_def fj_skip_ws_def is_ws_def cur_char_def)
next
  case (Cons v vs)
  obtain m where m: "n = Suc m" using Cons.prems(2) by (cases n) auto
  have ok: "json_ok v" and IH: "is_composite v \<Longrightarrow> parses_as v" using Cons.prems(1) by auto
  obtain c s where c: "json_text v = c # s" "\<not> is_ws c" "c \<notin> {CHR '']'', CHR ''}'', CHR '','', CHR 0xFF}"
    using json_text_hd [OF ok] by metis
  let ?tail = "(if vs = [] then [] else '','') @ json_texts vs @ CHR '']'' # rest"
  have delim: "delim ?tail" by (simp add: delim_def)
  have next_raw: "raw_char (json_texts vs @ CHR '']'' # rest) \<noteq> CHR '']''" if ne: "vs \<noteq> []"
  proof -
    obtain w ws where w: "vs = w # ws" using ne by (cases vs) auto
    then have "json_ok w" using Cons.prems(1) by simp
    then show ?thesis using w by (cases rule: json_text_hd) (auto simp: raw_char_def)
  qed
  obtain r' where r': "r = Suc r'" using Cons.prems(4) by (cases r) auto
  let ?A = "childs_add start 1 A @ json_tokens (Some start) (length A) [] v"
  have lenA: "length ?A = length A + token_count v" by (simp add:)
  have start: "start < length A" using Cons.prems(3) by (simp add: room_def)
  have elem: "array_element (fj_parse_value m) Mode_parse start
      \<lparr>js_cur = json_text v @ ?tail, jstok = A @ replicate r new_token, jstok_cur = length A\<rparr> =
    Some (FJ_EC_OK, \<lparr>js_cur = json_texts vs @ CHR '']'' # rest, jstok = ?A @ replicate (r - token_count v) new_token,
      jstok_cur = length ?A\<rparr>)"
    using array_element_ok [OF ok IH delim room_mono [OF Cons.prems(3)], of r' m] Cons.prems(2,4) m r' next_raw
    by (cases "vs = []") (simp_all add: separator_comma separator_closing)
  have room': "room start (length vs) ?A"
    using Cons.prems(3) by (intro room_append room_childs_add) simp
  have loop: "fj_array_loop m Mode_parse start
      \<lparr>js_cur = json_texts vs @ CHR '']'' # rest, jstok = ?A @ replicate (r - token_count v) new_token, jstok_cur = length ?A\<rparr> =
    Some (FJ_EC_OK, \<lparr>js_cur = CHR '']'' # rest,
      jstok = childs_add start (length vs) ?A @ array_tokens (Some start) (length ?A) vs @ replicate (r - token_count v - token_counts vs) new_token,
      jstok_cur = length ?A + token_counts vs\<rparr>)"
    using Cons.prems c m by (intro Cons.IH room') auto
  have merge: "childs_add start (length vs) ?A = childs_add start (Suc (length vs)) A @ json_tokens (Some start) (length A) [] v"
    using start by (simp add: childs_add_append [symmetric] childs_add_add)
  show ?case
    using elem loop c merge
    by (simp add: m array_loop_step_def skip_ws_hd cur_char_def add.assoc)
qed

text \<open>The frame around the elements, for arrays and objects alike.\<close>

lemma nested_step_ok:
  assumes B_def: "B = bump par A @ [new_token\<lparr>tk_type := t, tk_key := key, tk_parent := par\<rparr>]"
    and room: "parent_has_room par A" and k: "k < 65535" and ws: "\<not> is_ws opening" "\<not> is_ws closing"
    and loop: "loop Mode_parse (length A) \<lparr>js_cur = body, jstok = B @ replicate r new_token, jstok_cur = length B\<rparr> =
      Some (FJ_EC_OK, \<lparr>js_cur = closing # rest, jstok = childs_add (length A) k B @ ts @ replicate (Suc q) new_token,
        jstok_cur = length B + length ts\<rparr>)"
  shows "nested_step opening closing t t_end loop Mode_parse par
      \<lparr>js_cur = opening # body, jstok = A @ new_token\<lparr>tk_type := t0, tk_key := key\<rparr> # replicate r new_token, jstok_cur = length A\<rparr> =
    Some (FJ_EC_OK, \<lparr>js_cur = rest,
      jstok = bump par A @ (start_token t par key (k + 1) (length A + 1 + length ts) # ts @ [end_token t_end (length A)]) @ replicate q new_token,
      jstok_cur = length A + 2 + length ts\<rparr>)"
proof -
  let ?cell = "new_token\<lparr>tk_type := t, tk_key := key, tk_parent := par\<rparr>"
  have cell: "new_token\<lparr>tk_type := t0, tk_key := key, tk_type := t, tk_parent := par\<rparr> = ?cell"
    by (simp add: new_token_def)
  have opened: "open_tok Mode_parse t par \<lparr>js_cur = body, jstok = A @ new_token\<lparr>tk_type := t0, tk_key := key\<rparr> # replicate r new_token, jstok_cur = length A\<rparr> =
    (FJ_EC_OK, \<lparr>js_cur = body, jstok = B @ replicate r new_token, jstok_cur = length B\<rparr>)"
    using open_tok_ok [OF room, of t body "new_token\<lparr>tk_type := t0, tk_key := key\<rparr>" "replicate r new_token"]
    by (simp add: B_def cell)
  have roomB: "room (length A) (k + 1) B"
    using k by (simp add: room_def nth_append new_token_def B_def)
  let ?C = "childs_add (length A) k B @ ts"
  have lenC: "length ?C = length A + 1 + length ts" by (simp add: B_def)
  have roomC: "room (length A) 1 ?C" using room_append [OF room_childs_add [OF roomB]] .
  have final: "(childs_add (length A) 1 ?C)[length A := (childs_add (length A) 1 ?C ! length A)\<lparr>tk_end := Some (length ?C)\<rparr>] =
    bump par A @ start_token t par key (k + 1) (length A + 1 + length ts) # ts"
    unfolding lenC by (simp add: B_def childs_add_def nth_append list_update_append start_token_def new_token_def)
  have closed: "close_tok Mode_parse t_end (length A) \<lparr>js_cur = rest, jstok = ?C @ replicate (Suc q) new_token, jstok_cur = length ?C\<rparr> =
    (FJ_EC_OK, \<lparr>js_cur = rest, jstok = (bump par A @ start_token t par key (k + 1) (length A + 1 + length ts) # ts) @
       end_token t_end (length A) # replicate q new_token, jstok_cur = length ?C + 1\<rparr>)"
    using close_tok_ok [OF roomC, of t_end rest q] unfolding final .
  have lenB: "length B = length A + 1" by (simp add: B_def)
  show ?thesis
    using opened loop closed ws
    by (simp add: nested_step_def expect_char_def check_and_skip_hd lenC lenB)
qed

lemma array_parsed:
  assumes ok: "json_ok (J_array vs)" and IH: "\<forall>v\<in>set vs. is_composite v \<longrightarrow> parses_as v"
  shows "parses_as (J_array vs)"
  unfolding parses_as_def
proof (intro allI impI)
  fix n par A t k r rest
  assume n: "3 * length (json_text (J_array vs) @ rest) + 1 \<le> n" and room: "parent_has_room par A" and r: "token_count (J_array vs) \<le> Suc r"
  obtain m where m: "n = Suc (Suc m)" using n by (cases n; cases "n - 1") auto
  let ?B = "bump par A @ [new_token\<lparr>tk_type := FJ_TYPE_ARRAY, tk_key := k, tk_parent := par\<rparr>]"
  obtain q where q: "r - token_counts vs = Suc q" using r by (cases "r - token_counts vs") auto
  have roomB: "room (length A) (length vs) ?B"
    using ok by (simp add: room_def nth_append new_token_def)
  have "fj_array_loop m Mode_parse (length A) \<lparr>js_cur = json_texts vs @ CHR '']'' # rest, jstok = ?B @ replicate r new_token, jstok_cur = length ?B\<rparr> =
    Some (FJ_EC_OK, \<lparr>js_cur = CHR '']'' # rest,
      jstok = childs_add (length A) (length vs) ?B @ array_tokens (Some (length A)) (length ?B) vs @ replicate (Suc q) new_token,
      jstok_cur = length ?B + length (array_tokens (Some (length A)) (length ?B) vs)\<rparr>)"
    using array_loop_ok [OF _ _ roomB, of rest m r] ok IH n m r q by (simp add: list_all_iff)
  from nested_step_ok [where loop = "fj_array_loop m" and B = ?B and t = FJ_TYPE_ARRAY and key = k, OF refl room _ _ _ this, of "CHR ''[''" FJ_TYPE_ARRAY_END t] ok
  show "fj_parse_value n Mode_parse par
       \<lparr>js_cur = json_text (J_array vs) @ rest, jstok = A @ new_token\<lparr>tk_type := t, tk_key := k\<rparr> # replicate r new_token, jstok_cur = length A\<rparr> =
     Some (FJ_EC_OK, ([], composite_type (J_array vs)),
       \<lparr>js_cur = rest, jstok = bump par A @ json_tokens par (length A) k (J_array vs) @ replicate (Suc r - token_count (J_array vs)) new_token,
        jstok_cur = length A + token_count (J_array vs)\<rparr>)"
    using q by (simp add: m value_step_def array_step_def skip_ws_hd is_ws_def cur_char_def composite_type_def)
qed

text \<open>Members: the key is read as a string value, then the value after the colon.\<close>

lemma key_simple_ok: "key_ok k \<Longrightarrow> simple_ok FJ_TYPE_STRING k"
  by (simp add: key_ok_def simple_ok_def)

lemma key_parsed:
  assumes "key_ok k"
  shows "fj_parse_value (Suc n) M par \<lparr>js_cur = CHR 0x22 # k @ CHR 0x22 # rest, jstok = toks, jstok_cur = Suc c\<rparr> =
    Some (FJ_EC_OK, (k, FJ_TYPE_STRING), \<lparr>js_cur = rest, jstok = toks, jstok_cur = Suc c\<rparr>)"
  using assms
  by (simp add: key_ok_def value_step_def fj_skip_ws_def is_ws_def cur_char_def starts_number_def is_digit_def fj_parse_string_def
      fj_check_and_skip_def string_loop_body simple_value_def)

lemma member_key_ok:
  assumes "key_ok k" and "0 < n"
  shows "member_key (fj_parse_value n) Mode_parse start
      \<lparr>js_cur = CHR 0x22 # k @ CHR 0x22 # CHR '':'' # rest, jstok = A @ replicate (Suc r) new_token, jstok_cur = length A\<rparr> =
    Some (FJ_EC_OK, \<lparr>js_cur = rest, jstok = A @ new_token\<lparr>tk_type := FJ_TYPE_STRING, tk_key := k\<rparr> # replicate r new_token,
      jstok_cur = length A + 1\<rparr>)"
proof -
  obtain m where "n = Suc m" using assms(2) by (cases n) auto
  then show ?thesis
    using assms(1) small_key [of k] key_parsed [OF assms(1), of m Mode_parse "Some start"]
    by (simp add: member_key_def expect_char_def no_free_def advance_tok_def key_ok_def set_tok_at' check_and_skip_hd is_ws_def)
qed

lemma member_token:
  "new_token\<lparr>tk_key := k, tk_parent := p, tk_type := t, tk_val := x\<rparr> =
   new_token\<lparr>tk_type := t, tk_key := k, tk_val := x, tk_parent := p\<rparr>"
  by (simp add: new_token_def)

lemma member_value_ok:
  assumes ok: "json_ok v" and IH: "is_composite v \<Longrightarrow> parses_as v" and rest: "delim rest"
    and room: "room start 1 A" and r: "token_count v \<le> Suc r" and n: "3 * length (json_text v @ rest) + 1 \<le> n"
  shows "member_value (fj_parse_value n) (length A) Mode_parse start
      \<lparr>js_cur = json_text v @ rest, jstok = A @ new_token\<lparr>tk_type := FJ_TYPE_STRING, tk_key := k\<rparr> # replicate r new_token,
       jstok_cur = length A + 1\<rparr> =
    Some (separator (CHR ''}'')
      \<lparr>js_cur = rest, jstok = childs_add start 1 A @ json_tokens (Some start) (length A) k v @ replicate (Suc r - token_count v) new_token,
       jstok_cur = length A + token_count v\<rparr>)"
proof -
  obtain c s where c: "json_text v = c # s" "\<not> is_ws c" "is_nested c \<longleftrightarrow> is_composite v" using json_text_hd [OF ok] by metis
  have skip: "fj_skip_ws (json_text v @ rest) = json_text v @ rest" and cur: "cur_char (json_text v @ rest) = c"
    using c by (simp_all add: skip_ws_hd cur_char_def)
  show ?thesis
  proof (cases "is_composite v")
    case False
    then obtain t x where J_simple: "v = J_simple t x" by (cases v) simp_all
    obtain m where m: "n = Suc m" using n by (cases n) auto
    have len: "length x < 4294967295" using ok J_simple by (simp add: simple_ok_def)
    have start: "start < length A" using room by (simp add: room_def)
    note parsed = simple_parsed [of t x rest m Mode_parse "Some start"]
    show ?thesis
      unfolding member_value_def fj_parser.simps skip cur m Let_def
      using ok rest False c start parsed small_len [OF len] not_childs_full [of start 0 A] room J_simple
      by (simp add: set_tok_at' add_child_prefix member_token)
  next
    case comp: True
    obtain t ts where t: "json_tokens (Some start) (length A) k v = t # ts" "t\<lparr>tk_type := composite_type v\<rparr> = t"
      using composite_tokens [OF comp] by metis
    note p = IH [OF comp, unfolded parses_as_def, rule_format, OF n, of "Some start" A r k FJ_TYPE_STRING]
    show ?thesis
      unfolding member_value_def fj_parser.simps skip cur Let_def
      using p room r c comp t
      by (simp add: parent_has_room_def bump_def set_tok_at')
  qed
qed

lemma object_loop_ok:
  assumes "\<forall>m\<in>set ms. key_ok (fst m) \<and> json_ok (snd m) \<and> (is_composite (snd m) \<longrightarrow> parses_as (snd m))"
    and "3 * length (json_members ms @ CHR ''}'' # rest) + 2 \<le> n" and "room start (length ms) A" and "member_counts ms < r"
  shows "fj_object_loop n Mode_parse start \<lparr>js_cur = json_members ms @ CHR ''}'' # rest, jstok = A @ replicate r new_token, jstok_cur = length A\<rparr> =
    Some (FJ_EC_OK, \<lparr>js_cur = CHR ''}'' # rest,
      jstok = childs_add start (length ms) A @ member_tokens (Some start) (length A) ms @ replicate (r - member_counts ms) new_token,
      jstok_cur = length A + member_counts ms\<rparr>)"
  using assms
proof (induction ms arbitrary: A r n)
  case Nil
  then obtain m where "n = Suc m" by (cases n) auto
  then show ?case
    by (simp add: object_loop_step_def fj_skip_ws_def is_ws_def cur_char_def)
next
  case (Cons kv ms)
  obtain k v where kv: "kv = (k, v)" by (cases kv)
  obtain m where m: "n = Suc m" "0 < m" using Cons.prems(2) kv by (cases n) auto
  have key: "key_ok k" and ok: "json_ok v" and IH: "is_composite v \<Longrightarrow> parses_as v" using Cons.prems(1) kv by auto
  let ?tail = "(if ms = [] then [] else '','') @ json_members ms @ CHR ''}'' # rest"
  have delim: "delim ?tail" by (simp add: delim_def)
  have next_raw: "raw_char (json_members ms @ CHR ''}'' # rest) \<noteq> CHR ''}''" if ne: "ms \<noteq> []"
    using ne by (cases ms rule: json_members.cases) (auto simp: raw_char_def)
  obtain r' where r': "r = Suc r'" using Cons.prems(4) by (cases r) auto
  let ?A = "childs_add start 1 A @ json_tokens (Some start) (length A) k v"
  have start: "start < length A" using Cons.prems(3) by (simp add: room_def)
  have tv: "token_count v \<le> Suc r'" and fuel: "3 * length (json_text v @ ?tail) + 1 \<le> m"
    using Cons.prems(2,4) kv r' m by simp_all
  have elem: "member_value (fj_parse_value m) (length A) Mode_parse start
      \<lparr>js_cur = json_text v @ ?tail, jstok = A @ new_token\<lparr>tk_type := FJ_TYPE_STRING, tk_key := k\<rparr> # replicate r' new_token,
       jstok_cur = length A + 1\<rparr> =
    Some (FJ_EC_OK, \<lparr>js_cur = json_members ms @ CHR ''}'' # rest, jstok = ?A @ replicate (r - token_count v) new_token,
      jstok_cur = length ?A\<rparr>)"
    using member_value_ok [OF ok IH delim room_mono [OF Cons.prems(3)] tv fuel] r' next_raw
    by (cases "ms = []") (simp_all add: separator_comma separator_closing)
  have room': "room start (length ms) ?A"
    using Cons.prems(3) by (intro room_append room_childs_add) simp
  have loop: "fj_object_loop m Mode_parse start
      \<lparr>js_cur = json_members ms @ CHR ''}'' # rest, jstok = ?A @ replicate (r - token_count v) new_token, jstok_cur = length ?A\<rparr> =
    Some (FJ_EC_OK, \<lparr>js_cur = CHR ''}'' # rest,
      jstok = childs_add start (length ms) ?A @ member_tokens (Some start) (length ?A) ms @ replicate (r - token_count v - member_counts ms) new_token,
      jstok_cur = length ?A + member_counts ms\<rparr>)"
    using Cons.prems kv m by (intro Cons.IH room') auto
  have merge: "childs_add start (length ms) ?A = childs_add start (Suc (length ms)) A @ json_tokens (Some start) (length A) k v"
    using start by (simp add: childs_add_append [symmetric] childs_add_add)
  show ?case
    using elem loop merge member_key_ok [OF key m(2), of start "json_text v @ ?tail" A r'] r'
    by (simp add: kv m(1) object_loop_step_def skip_ws_hd cur_char_def is_ws_def add.assoc)
qed

lemma object_parsed:
  assumes ok: "json_ok (J_object ms)" and IH: "\<forall>m\<in>set ms. is_composite (snd m) \<longrightarrow> parses_as (snd m)"
  shows "parses_as (J_object ms)"
  unfolding parses_as_def
proof (intro allI impI)
  fix n par A t k r rest
  assume n: "3 * length (json_text (J_object ms) @ rest) + 1 \<le> n" and room: "parent_has_room par A" and r: "token_count (J_object ms) \<le> Suc r"
  obtain m where m: "n = Suc (Suc m)" using n by (cases n; cases "n - 1") auto
  let ?B = "bump par A @ [new_token\<lparr>tk_type := FJ_TYPE_OBJECT, tk_key := k, tk_parent := par\<rparr>]"
  obtain q where q: "r - member_counts ms = Suc q" using r by (cases "r - member_counts ms") auto
  have roomB: "room (length A) (length ms) ?B"
    using ok by (simp add: room_def nth_append new_token_def)
  have "fj_object_loop m Mode_parse (length A) \<lparr>js_cur = json_members ms @ CHR ''}'' # rest, jstok = ?B @ replicate r new_token, jstok_cur = length ?B\<rparr> =
    Some (FJ_EC_OK, \<lparr>js_cur = CHR ''}'' # rest,
      jstok = childs_add (length A) (length ms) ?B @ member_tokens (Some (length A)) (length ?B) ms @ replicate (Suc q) new_token,
      jstok_cur = length ?B + length (member_tokens (Some (length A)) (length ?B) ms)\<rparr>)"
    using object_loop_ok [OF _ _ roomB, of rest m r] ok IH n m r q by (simp add: list_all_iff)
  from nested_step_ok [where loop = "fj_object_loop m" and B = ?B and t = FJ_TYPE_OBJECT and key = k, OF refl room _ _ _ this, of "CHR ''{''" FJ_TYPE_OBJECT_END t] ok
  show "fj_parse_value n Mode_parse par
       \<lparr>js_cur = json_text (J_object ms) @ rest, jstok = A @ new_token\<lparr>tk_type := t, tk_key := k\<rparr> # replicate r new_token, jstok_cur = length A\<rparr> =
     Some (FJ_EC_OK, ([], composite_type (J_object ms)),
       \<lparr>js_cur = rest, jstok = bump par A @ json_tokens par (length A) k (J_object ms) @ replicate (Suc r - token_count (J_object ms)) new_token,
        jstok_cur = length A + token_count (J_object ms)\<rparr>)"
    using q by (simp add: m value_step_def object_step_def skip_ws_hd is_ws_def cur_char_def composite_type_def)
qed

lemma composite_parsed: "json_ok v \<Longrightarrow> is_composite v \<Longrightarrow> parses_as v"
proof (induction v)
  case (J_array vs)
  then show ?case by (intro array_parsed) (auto simp: list_all_iff)
next
  case (J_object ms)
  have "\<forall>m\<in>set ms. is_composite (snd m) \<longrightarrow> parses_as (snd m)"
  proof (intro ballI impI)
    fix m assume m: "m \<in> set ms" "is_composite (snd m)"
    have "json_ok (snd m)" using J_object.prems(1) m(1) by (simp add: list_all_iff)
    then show "parses_as (snd m)" using J_object.IH [OF m(1), of "snd m"] m(2) by (cases m) simp
  qed
  then show ?case using J_object.prems(1) by (rule object_parsed [rotated])
qed simp

section \<open>The counting pass\<close>

text \<open>
  On every input the two passes take the same path: the filling pass stops early only for lack of room in
  the buffer or in a field; otherwise both give the same error, position and number of tokens.
\<close>

definition buffer_error :: "e_fj_error_code \<Rightarrow> bool" where
  "buffer_error ec \<longleftrightarrow> ec \<in> {FJ_EC_NO_FREE_TOKENS, FJ_EC_KLEN_OVERFLOW, FJ_EC_VLEN_OVERFLOW, FJ_EC_CHILDS_OVERFLOW}"

definition same :: "fj_parser \<Rightarrow> fj_parser \<Rightarrow> bool" where
  "same p q \<longleftrightarrow> js_cur p = js_cur q \<and> jstok_cur p = jstok_cur q"

definition agree :: "(e_fj_error_code \<times> fj_parser) option \<Rightarrow> (e_fj_error_code \<times> fj_parser) option \<Rightarrow> bool" where
  "agree r r' \<longleftrightarrow> (case r of
     None \<Rightarrow> r' = None
   | Some (ec, p) \<Rightarrow> buffer_error ec \<or> (\<exists>q. r' = Some (ec, q) \<and> same p q))"

definition agree_value ::
  "(e_fj_error_code \<times> (string \<times> e_fj_token_type) \<times> fj_parser) option \<Rightarrow>
   (e_fj_error_code \<times> (string \<times> e_fj_token_type) \<times> fj_parser) option \<Rightarrow> bool" where
  "agree_value r r' \<longleftrightarrow> (case r of
     None \<Rightarrow> r' = None
   | Some (ec, vt, p) \<Rightarrow> buffer_error ec \<or> (\<exists>q. r' = Some (ec, vt, q) \<and> same p q))"

lemma buffer_error_simps [simp]:
  "\<not> buffer_error FJ_EC_OK" "buffer_error FJ_EC_NO_FREE_TOKENS" "buffer_error FJ_EC_KLEN_OVERFLOW"
  "buffer_error FJ_EC_VLEN_OVERFLOW" "buffer_error FJ_EC_CHILDS_OVERFLOW"
  by (simp_all add: buffer_error_def)

lemma same_upd [simp]:
  "same (set_tok M i f p) q = same p q" "same p (set_tok M i f q) = same p q"
  "same (add_child M i p) q = same p q" "same p (add_child M i q) = same p q"
  "same p q \<Longrightarrow> same (p\<lparr>js_cur := s\<rparr>) (q\<lparr>js_cur := s\<rparr>)"
  "same p q \<Longrightarrow> same (p\<lparr>jstok_cur := c\<rparr>) (q\<lparr>jstok_cur := c\<rparr>)"
  "same p q \<Longrightarrow> same (advance_tok p) (advance_tok q)"
  by (simp_all add: same_def set_tok_def add_child_def advance_tok_def)

lemma count_never_full [simp]: "\<not> no_free Mode_count_tokens p" "\<not> childs_full Mode_count_tokens i p"
  by (simp_all add: no_free_def childs_full_def)

lemma agree_open: "same p q \<Longrightarrow> agree (Some (open_tok Mode_parse t par p)) (Some (open_tok Mode_count_tokens t par q))"
  by (auto simp: open_tok_def agree_def Let_def split: option.splits)

lemma agree_close: "same p q \<Longrightarrow> agree (Some (close_tok Mode_parse t i p)) (Some (close_tok Mode_count_tokens t i q))"
  by (auto simp: close_tok_def agree_def Let_def)

lemma agree_separator: "same p q \<Longrightarrow> agree (Some (separator c p)) (Some (separator c q))"
  by (auto simp: separator_def agree_def Let_def same_def)

lemma agree_simple: "same p q \<Longrightarrow> agree_value (Some (simple_value t r p)) (Some (simple_value t r q))"
  by (auto simp: simple_value_def agree_value_def same_def advance_tok_def split: prod.splits)

text \<open>Sequencing: a step that may fail, then the rest.\<close>

lemma agree_then:
  assumes "agree r r'" and "\<And>p q. same p q \<Longrightarrow> agree (f p) (g q)"
  shows "agree (then_ok r f) (then_ok r' g)"
  using assms by (force simp: agree_def then_ok_def split: option.splits prod.splits if_splits)

lemma agree_then_value:
  assumes "agree_value r r'" and "\<And>v t p q. same p q \<Longrightarrow> agree (f v t p) (g v t q)"
  shows "agree (then_value r f) (then_value r' g)"
  using assms by (force simp: agree_def agree_value_def then_value_def split: option.splits prod.splits if_splits)

lemma agree_same: "same p q \<Longrightarrow> agree (Some (ec, p)) (Some (ec, q))"
  by (simp add: agree_def)

lemma agree_expect: "same p q \<Longrightarrow> agree (expect_char c p) (expect_char c q)"
  by (auto simp: expect_char_def same_def agree_def split: prod.split)

lemma same_js_cur: "same p q \<Longrightarrow> js_cur q = js_cur p"
  and same_jstok_cur: "same p q \<Longrightarrow> jstok_cur q = jstok_cur p"
  by (simp_all add: same_def)

definition value_agrees :: "fj_value_fn \<Rightarrow> bool" where
  "value_agrees f \<longleftrightarrow> (\<forall>par p q. same p q \<longrightarrow> agree_value (f Mode_parse par p) (f Mode_count_tokens par q))"

definition passes_agree :: "(parser_mode \<Rightarrow> 'a \<Rightarrow> fj_parser \<Rightarrow> (e_fj_error_code \<times> fj_parser) option) \<Rightarrow> bool" where
  "passes_agree f \<longleftrightarrow> (\<forall>a p q. same p q \<longrightarrow> agree (f Mode_parse a p) (f Mode_count_tokens a q))"

lemma agree_value_map:
  "agree r r' \<Longrightarrow> agree_value (map_option (\<lambda>(ec, p). (ec, vt, p)) r) (map_option (\<lambda>(ec, p). (ec, vt, p)) r')"
  by (force simp: agree_def agree_value_def split: option.splits)

lemma value_step_agrees: "passes_agree a \<Longrightarrow> passes_agree b \<Longrightarrow> value_agrees (value_step a b)"
  unfolding value_agrees_def
proof (intro allI impI)
  fix par p q assume ab: "passes_agree a" "passes_agree b" and "same p q"
  then have s: "same (p\<lparr>js_cur := x\<rparr>) (q\<lparr>js_cur := x\<rparr>)" for x by simp
  show "agree_value (value_step a b Mode_parse par p) (value_step a b Mode_count_tokens par q)"
    unfolding value_step_def Let_def same_js_cur [OF \<open>same p q\<close>]
    using ab s by (auto intro!: agree_value_map agree_simple simp: passes_agree_def) (auto simp: agree_value_def)
qed

lemma nested_step_agrees: "passes_agree loop \<Longrightarrow> passes_agree (nested_step c d t t' loop)"
  unfolding passes_agree_def nested_step_def
  by (intro allI impI agree_then agree_expect agree_open)
    (auto simp: same_jstok_cur intro: agree_close)

lemma array_element_agrees: "value_agrees f \<Longrightarrow> passes_agree (array_element f)"
  unfolding passes_agree_def array_element_def Let_def
  by (auto simp: same_js_cur same_jstok_cur value_agrees_def intro!: agree_then_value agree_separator)
    (auto simp: agree_def)

lemma member_key_agrees: "value_agrees f \<Longrightarrow> passes_agree (member_key f)"
  unfolding passes_agree_def member_key_def
  by (auto simp: same_jstok_cur value_agrees_def intro!: agree_then_value agree_expect)
    (auto simp: agree_def)

lemma member_value_agrees: "value_agrees f \<Longrightarrow> passes_agree (member_value f pair)"
  unfolding passes_agree_def member_value_def Let_def
  by (auto simp: same_js_cur same_jstok_cur value_agrees_def intro!: agree_then_value agree_separator)
    (auto simp: agree_def)

lemma array_loop_step_agrees: "value_agrees f \<Longrightarrow> passes_agree loop \<Longrightarrow> passes_agree (array_loop_step f loop)"
  using array_element_agrees [of f]
  unfolding passes_agree_def array_loop_step_def Let_def
  by (auto simp: same_js_cur intro!: agree_then agree_same)

lemma object_loop_step_agrees: "value_agrees f \<Longrightarrow> passes_agree loop \<Longrightarrow> passes_agree (object_loop_step f loop)"
  using member_key_agrees [of f] member_value_agrees [of f]
  unfolding passes_agree_def object_loop_step_def Let_def
  by (auto simp: same_js_cur same_jstok_cur intro!: agree_then agree_same)

text \<open>The passes agree at every depth of calls.\<close>

lemma parsers_agree:
  "value_agrees (fj_parse_value n) \<and> passes_agree (fj_parse_array n) \<and> passes_agree (fj_array_loop n) \<and>
   passes_agree (fj_parse_object n) \<and> passes_agree (fj_object_loop n)"
proof (induction n)
  case 0
  then show ?case by (simp add: fj_parser_defs value_agrees_def passes_agree_def agree_value_def agree_def)
next
  case (Suc n)
  then show ?case
    by (simp add: value_step_agrees array_step_def object_step_def nested_step_agrees array_loop_step_agrees object_loop_step_agrees)
qed

section \<open>The parser ends on every input\<close>

text \<open>What is left of the text, and that a step which succeeds has used some of it.\<close>

definition left :: "fj_parser \<Rightarrow> nat" where
  "left p = length (js_cur p)"

definition uses :: "nat \<Rightarrow> nat \<Rightarrow> (e_fj_error_code \<times> fj_parser) option \<Rightarrow> bool" where
  "uses k l r \<longleftrightarrow> (\<exists>ec q. r = Some (ec, q) \<and> (ec = FJ_EC_OK \<longrightarrow> left q + k \<le> l))"

definition value_uses :: "nat \<Rightarrow> (e_fj_error_code \<times> (string \<times> e_fj_token_type) \<times> fj_parser) option \<Rightarrow> bool" where
  "value_uses l r \<longleftrightarrow> (\<exists>ec vt q. r = Some (ec, vt, q) \<and> (ec = FJ_EC_OK \<longrightarrow> left q < l))"

lemma left_upd [simp]:
  "left (set_tok M i f p) = left p" "left (add_child M i p) = left p" "left (advance_tok p) = left p"
  "left (p\<lparr>js_cur := s\<rparr>) = length s" "left (p\<lparr>jstok_cur := c\<rparr>) = left p"
  by (simp_all add: left_def set_tok_def add_child_def advance_tok_def)

lemma length_skip_ws: "length (fj_skip_ws s) \<le> length s"
  by (simp add: fj_skip_ws_def length_dropWhile_le)

lemma uses_then:
  assumes "uses k l r" and "\<And>p. left p + k \<le> l \<Longrightarrow> uses k' l' (f p)"
  shows "uses k' l' (then_ok r f)"
  using assms by (force simp: uses_def)

lemma uses_then_value:
  assumes "value_uses l r" and "\<And>v t p. left p < l \<Longrightarrow> uses k' l' (f v t p)"
  shows "uses k' l' (then_value r f)"
proof -
  obtain ec v t q where "r = Some (ec, (v, t), q)" "ec = FJ_EC_OK \<longrightarrow> left q < l"
    using assms(1) by (auto simp: value_uses_def)
  then show ?thesis using assms(2) [of q v t] by (auto simp: uses_def)
qed

lemma uses_error [simp]: "ec \<noteq> FJ_EC_OK \<Longrightarrow> uses k l (Some (ec, p))"
  by (simp add: uses_def)

lemma uses_expect:
  assumes "c \<noteq> CHR 0xFF"
  shows "uses 1 (left p) (expect_char c p)"
proof -
  have "ec = FJ_EC_OK \<longrightarrow> length s' + 1 \<le> left p" if "fj_check_and_skip c (js_cur p) = (ec, s')" for ec s'
    using that assms length_skip_ws [of "js_cur p"]
    by (cases "fj_skip_ws (js_cur p)") (auto simp: fj_check_and_skip_def cur_char_def left_def Let_def split: if_splits)
  then show ?thesis by (auto simp: uses_def expect_char_def split: prod.split)
qed

lemma uses_separator: "uses 0 (left p) (Some (separator c p))"
  using length_skip_ws [of "js_cur p"] by (auto simp: uses_def separator_def Let_def) (auto simp: left_def)

lemma uses_open: "uses 0 (left p) (Some (open_tok M t par p))"
  by (auto simp: uses_def open_tok_def Let_def split: option.splits)

lemma uses_close: "uses 0 (left p) (Some (close_tok M t i p))"
  by (auto simp: uses_def close_tok_def Let_def)

lemma uses_le: "uses k l r \<Longrightarrow> l + k' \<le> l' + k \<Longrightarrow> uses k' l' r"
  by (auto simp: uses_def)

lemma value_uses_simple:
  "(ec = FJ_EC_OK \<longrightarrow> length s < l) \<Longrightarrow> value_uses l (Some (simple_value t (ec, v, s) p))"
  by (auto simp: value_uses_def simple_value_def)

lemma escape_len_error: "fj_escape_len s n \<noteq> Inl FJ_EC_OK"
  by (simp add: fj_escape_len_def Let_def)

lemma string_loop_uses: "fj_string_loop acc s = (FJ_EC_OK, v, s') \<Longrightarrow> length s' < length s"
proof (induction acc s arbitrary: v rule: fj_string_loop.induct)
  case (2 acc ch s)
  obtain len where len: "fj_utf8_char_len ch = Some len" "32 \<le> (of_char ch :: nat)" "\<not> length (ch # s) < len"
    using "2.prems" by (auto split: option.splits if_splits)
  consider (esc) n where "ch = CHR 0x5C" "fj_escape_len s (length (ch # s)) = Inr n"
      "fj_string_loop (acc @ take (1 + n) (ch # s)) (drop n s) = (FJ_EC_OK, v, s')"
    | (quote) "s' = s"
    | (char) "ch \<noteq> CHR 0x5C" "ch \<noteq> CHR 0x22" "fj_string_loop (acc @ take len (ch # s)) (drop (len - 1) s) = (FJ_EC_OK, v, s')"
    using "2.prems" len escape_len_error by (auto split: if_splits sum.splits)
  then show ?case
  proof cases
    case esc
    have "length s' < length (drop n s)" using len esc by (intro "2.IH"(1)) auto
    then show ?thesis by simp
  next
    case char
    have "length s' < length (drop (len - 1) s)" using len char by (intro "2.IH"(2)) auto
    then show ?thesis by simp
  qed simp
qed simp

lemma parse_string_uses:
  assumes "fj_parse_string s = (FJ_EC_OK, v, s')"
  shows "length s' < length s"
proof -
  obtain ec x where x: "fj_check_and_skip (CHR 0x22) s = (ec, x)" by (cases "fj_check_and_skip (CHR 0x22) s")
  then have "length x \<le> length s"
    using length_skip_ws [of s] by (auto simp: fj_check_and_skip_def Let_def split: if_splits)
  moreover have "length s' < length x"
    using assms string_loop_uses [of "[]" x v s'] by (auto simp: fj_parse_string_def x split: if_splits)
  ultimately show ?thesis by simp
qed

lemma number_run_uses: "number_run d s = Inr s' \<Longrightarrow> length s' < length s"
  by (auto simp: number_run_def le_imp_less_Suc length_dropWhile_le split: list.splits if_splits)

lemma number_fraction_uses: "number_fraction s = Inr s' \<Longrightarrow> length s' \<le> length s"
  by (auto simp: number_fraction_def split: list.splits if_splits dest!: number_run_uses)

lemma number_exponent_uses: "number_exponent s = Inr s' \<Longrightarrow> length s' \<le> length s"
  by (auto simp: number_exponent_def split: list.splits if_splits dest!: number_run_uses)

lemma number_body_uses: "number_body s = Inr s' \<Longrightarrow> length s' < length s"
  by (auto simp: number_body_def bind_exn_Inr_iff split: if_splits
      dest!: number_run_uses number_fraction_uses number_exponent_uses)

lemma number_run_error: "number_run d s \<noteq> Inl FJ_EC_OK"
  by (simp add: number_run_def split: list.split)

lemma number_fraction_error: "number_fraction s \<noteq> Inl FJ_EC_OK"
  using number_run_error by (simp add: number_fraction_def split: list.split)

lemma number_exponent_error: "number_exponent s \<noteq> Inl FJ_EC_OK"
  using number_run_error by (simp add: number_exponent_def split: list.split)

lemma bind_exn_error: "m \<noteq> Inl e \<Longrightarrow> (\<And>x. f x \<noteq> Inl e) \<Longrightarrow> bind_exn m f \<noteq> Inl e"
  by (cases m) auto

lemma number_body_error: "number_body s \<noteq> Inl FJ_EC_OK"
  using number_run_error number_fraction_error number_exponent_error
  unfolding number_body_def by (simp add: bind_exn_error)

lemma parse_number_uses:
  assumes "fj_parse_number s = (FJ_EC_OK, v, s')"
  shows "length s' < length s"
proof -
  let ?s = "if cur_char (fj_skip_ws s) = CHR ''-'' then drop 1 (fj_skip_ws s) else fj_skip_ws s"
  have "number_body ?s = Inr s'"
    using assms number_body_error by (auto simp: fj_parse_number_def Let_def split: sum.splits if_splits)
  then have "length s' < length ?s" by (rule number_body_uses)
  then show ?thesis using length_skip_ws [of s] by (auto split: if_splits)
qed

lemma expect_uses: "fj_expect lit s = (FJ_EC_OK, v, s') \<Longrightarrow> lit \<noteq> [] \<Longrightarrow> length s' < length s"
  by (cases s) (auto simp: fj_expect_def split: if_splits)

definition value_ends :: "nat \<Rightarrow> fj_value_fn \<Rightarrow> bool" where
  "value_ends n f \<longleftrightarrow> (\<forall>M par p. 3 * left p + 1 \<le> n \<longrightarrow> value_uses (left p) (f M par p))"

definition nested_ends :: "nat \<Rightarrow> fj_nested_fn \<Rightarrow> bool" where
  "nested_ends n f \<longleftrightarrow> (\<forall>M par p. 0 < left p \<longrightarrow> 3 * left p \<le> n \<longrightarrow> uses 1 (left p) (f M par p))"

definition loop_ends :: "nat \<Rightarrow> fj_loop_fn \<Rightarrow> bool" where
  "loop_ends n f \<longleftrightarrow> (\<forall>M i p. 3 * left p + 2 \<le> n \<longrightarrow> uses 0 (left p) (f M i p))"

lemma value_step_ends:
  assumes "nested_ends n a" "nested_ends n b"
  shows "value_ends (Suc n) (value_step a b)"
  unfolding value_ends_def
proof (intro allI impI)
  fix M par p assume n: "3 * left p + 1 \<le> Suc n"
  let ?s = "fj_skip_ws (js_cur p)" let ?p = "p\<lparr>js_cur := fj_skip_ws (js_cur p)\<rparr>"
  have l: "left ?p \<le> left p" by (simp add: left_def length_skip_ws)
  have nested: "value_uses (left p) (map_option (\<lambda>(ec, p). (ec, vt, p)) (f M par ?p))"
    if f: "nested_ends n f" and ne: "?s \<noteq> []" for f vt
  proof -
    have "0 < left ?p" "3 * left ?p \<le> n" using n ne l by (auto simp: left_def)
    then have "uses 1 (left ?p) (f M par ?p)" using f unfolding nested_ends_def by blast
    then show ?thesis using l by (auto simp: uses_def value_uses_def)
  qed
  have simple: "value_uses (left p) (Some (simple_value t (r ?s) ?p))"
    if "\<And>v s'. r ?s = (FJ_EC_OK, v, s') \<Longrightarrow> length s' < length ?s" for t r
    using that l by (cases "r ?s") (force intro: value_uses_simple simp: left_def)
  have ne: "?s \<noteq> []" if "cur_char ?s = c" "c \<noteq> CHR 0xFF" for c
    using that by (auto simp: cur_char_def)
  show "value_uses (left p) (value_step a b M par p)"
    unfolding value_step_def Let_def
    using assms nested ne simple expect_uses parse_number_uses parse_string_uses
    by (auto simp del: map_option_eq_Some) (auto simp: value_uses_def)
qed

lemma nested_step_ends:
  assumes loop: "loop_ends n loop" and c: "c \<noteq> CHR 0xFF" "d \<noteq> CHR 0xFF"
  shows "nested_ends (Suc n) (nested_step c d t t' loop)"
  unfolding nested_ends_def nested_step_def
proof (intro allI impI)
  fix M par p assume n: "0 < left p" "3 * left p \<le> Suc n"
  show "uses 1 (left p) (then_ok (expect_char c p) (\<lambda>p. then_ok (Some (open_tok M t par p)) (\<lambda>p1.
     then_ok (loop M (jstok_cur p) p1) (\<lambda>p2. then_ok (expect_char d p2) (\<lambda>p3. Some (close_tok M t' (jstok_cur p) p3))))))"
  proof (rule uses_then [OF uses_expect [OF c(1)]], rule uses_then [OF uses_open])
    fix q q1 assume q: "left q + 1 \<le> left p" "left q1 + 0 \<le> left q"
    then have body: "uses 0 (left q1) (loop M (jstok_cur q) q1)" using loop n unfolding loop_ends_def by auto
    show "uses 1 (left p) (then_ok (loop M (jstok_cur q) q1) (\<lambda>p2. then_ok (expect_char d p2) (\<lambda>p3. Some (close_tok M t' (jstok_cur q) p3))))"
    proof (rule uses_then [OF body], rule uses_then [OF uses_expect [OF c(2)]])
      fix q2 q3 assume "left q2 + 0 \<le> left q1" "left q3 + 1 \<le> left q2"
      with q show "uses 1 (left p) (Some (close_tok M t' (jstok_cur q) q3))"
        by (intro uses_le [OF uses_close]) simp
    qed
  qed
qed

lemma array_element_ends:
  assumes "value_ends n f" and n: "3 * left p + 1 \<le> n"
  shows "uses 1 (left p) (array_element f M i p)"
proof -
  have v: "value_uses (left p) (f M (Some i) q)" if "left q = left p" for q
    using assms that unfolding value_ends_def by metis
  show ?thesis
    unfolding array_element_def Let_def
    by (auto intro!: uses_then_value [OF v] uses_le [OF uses_separator])
qed

lemma member_key_ends:
  assumes "value_ends n f" and n: "3 * left p + 1 \<le> n"
  shows "uses 1 (left p) (member_key f M i p)"
proof -
  have v: "value_uses (left p) (f M (Some i) q)" if "left q = left p" for q
    using assms that unfolding value_ends_def by metis
  show ?thesis
    unfolding member_key_def
    by (auto intro!: uses_then_value [OF v] uses_le [OF uses_expect])
qed

lemma member_value_ends:
  assumes "value_ends n f" and n: "3 * left p + 1 \<le> n"
  shows "uses 1 (left p) (member_value f pair M i p)"
proof -
  have l: "length (fj_skip_ws (js_cur p)) \<le> left p" by (simp add: left_def length_skip_ws)
  have v: "value_uses (left p) (f M (Some i) q)" if "left q \<le> left p" for q
  proof -
    have "value_uses (left q) (f M (Some i) q)" using assms that unfolding value_ends_def by auto
    then show ?thesis using that by (auto simp: value_uses_def)
  qed
  show ?thesis
    unfolding member_value_def Let_def
    using l by (auto intro!: uses_then_value [OF v] uses_le [OF uses_separator])
qed

lemma array_loop_step_ends:
  assumes f: "value_ends n f" and loop: "loop_ends n loop"
  shows "loop_ends (Suc n) (array_loop_step f loop)"
  unfolding loop_ends_def
proof (intro allI impI)
  fix M i p assume n: "3 * left p + 2 \<le> Suc n"
  let ?p = "p\<lparr>js_cur := fj_skip_ws (js_cur p)\<rparr>"
  have l: "left ?p \<le> left p" by (simp add: left_def length_skip_ws)
  have "uses 0 (left p) (then_ok (array_element f M i ?p) (loop M i))"
  proof (rule uses_then)
    show "uses 1 (left ?p) (array_element f M i ?p)" using l n by (intro array_element_ends [OF f]) simp
    fix q assume q: "left q + 1 \<le> left ?p"
    then have "uses 0 (left q) (loop M i q)" using loop l n unfolding loop_ends_def by auto
    then show "uses 0 (left p) (loop M i q)" using q l by (auto elim: uses_le)
  qed
  then show "uses 0 (left p) (array_loop_step f loop M i p)"
    using l by (auto simp: array_loop_step_def Let_def uses_def)
qed

lemma object_loop_step_ends:
  assumes f: "value_ends n f" and loop: "loop_ends n loop"
  shows "loop_ends (Suc n) (object_loop_step f loop)"
  unfolding loop_ends_def
proof (intro allI impI)
  fix M i p assume n: "3 * left p + 2 \<le> Suc n"
  let ?p = "p\<lparr>js_cur := fj_skip_ws (js_cur p)\<rparr>"
  have l: "left ?p \<le> left p" by (simp add: left_def length_skip_ws)
  have key: "uses 1 (left ?p) (member_key f M i ?p)" using l n by (intro member_key_ends [OF f]) simp
  have "uses 0 (left p) (then_ok (member_key f M i ?p) (\<lambda>q. then_ok (member_value f c M i q) (loop M i)))" for c
  proof (rule uses_then [OF key])
    fix q assume q: "left q + 1 \<le> left ?p"
    have v: "uses 1 (left q) (member_value f c M i q)" using q l n by (intro member_value_ends [OF f]) simp
    show "uses 0 (left p) (then_ok (member_value f c M i q) (loop M i))"
    proof (rule uses_then [OF v])
      fix q' assume q': "left q' + 1 \<le> left q"
      then have "uses 0 (left q') (loop M i q')" using loop q l n unfolding loop_ends_def by auto
      then show "uses 0 (left p) (loop M i q')" using q q' l by (auto elim: uses_le)
    qed
  qed
  then show "uses 0 (left p) (object_loop_step f loop M i p)"
    using l by (auto simp: object_loop_step_def Let_def uses_def)
qed

lemma parsers_end:
  "value_ends n (fj_parse_value n) \<and> nested_ends n (fj_parse_array n) \<and> loop_ends n (fj_array_loop n) \<and>
   nested_ends n (fj_parse_object n) \<and> loop_ends n (fj_object_loop n)"
proof (induction n)
  case 0
  then show ?case by (simp add: value_ends_def nested_ends_def loop_ends_def)
next
  case (Suc n)
  then show ?case
    by (simp add: value_step_ends array_step_def object_step_def nested_step_ends array_loop_step_ends object_loop_step_ends)
qed

lemma parse_value_ends: "\<exists>ec vt q. fj_parse_value (parse_fuel (js_cur p)) M par p = Some (ec, vt, q)"
proof -
  have "value_ends (parse_fuel (js_cur p)) (fj_parse_value (parse_fuel (js_cur p)))" using parsers_end by blast
  moreover have "3 * left p + 1 \<le> parse_fuel (js_cur p)" by (simp add: parse_fuel_def left_def)
  ultimately have "value_uses (left p) (fj_parse_value (parse_fuel (js_cur p)) M par p)" unfolding value_ends_def by blast
  then show ?thesis unfolding value_uses_def by blast
qed

lemma load_ends: "\<exists>j. fj_load s = Some j"
proof -
  have c: "\<exists>r. fj_num_tokens s = Some r"
    using parse_value_ends [of "\<lparr>js_cur = s, jstok = [], jstok_cur = 0\<rparr>" Mode_count_tokens None]
    by (auto simp: fj_num_tokens_def Let_def)
  have p: "\<exists>r. fj_parse s n = Some r" for n
    using parse_value_ends [of "\<lparr>js_cur = s, jstok = replicate n new_token, jstok_cur = 0\<rparr>" Mode_parse None]
    by (auto simp: fj_parse_def Let_def)
  show ?thesis using c p by (auto simp: fj_load_def Let_def split: option.splits) (metis option.distinct(1))+
qed

section \<open>Loading a document\<close>

lemma parse_document:
  assumes ok: "json_ok v"
  shows "fj_parse (json_text v) (token_count v) = Some (FJ_EC_OK, json_tokens None 0 [] v, token_count v)"
proof (cases "is_composite v")
  case True
  obtain r where r: "token_count v = Suc r" using token_count_pos [of v] by (cases "token_count v") auto
  have fuel: "3 * length (json_text v @ []) + 1 \<le> parse_fuel (json_text v)" by (simp add: parse_fuel_def)
  obtain t ts where t: "json_tokens None 0 [] v = t # ts" "t\<lparr>tk_type := composite_type v, tk_val := []\<rparr> = t"
    using composite_tokens [OF True] by metis
  show ?thesis
    using composite_parsed [OF ok True, unfolded parses_as_def, rule_format, OF fuel, of None "[]" r "[]" FJ_TYPE_INVALID] r t
    by (simp add: fj_parse_def parent_has_room_def bump_def new_token_upd set_tok_def)
next
  case False
  then obtain t s where v: "v = J_simple t s" by (cases v) simp_all
  have "simple_ok t s" "delim []" using ok v by (simp_all add: delim_def)
  from simple_parsed [OF this, of "3 * length (json_text v)" Mode_parse None "[new_token]" 0]
  show ?thesis by (simp add: fj_parse_def parse_fuel_def v set_tok_def new_token_def)
qed

lemma count_document:
  assumes ok: "json_ok v"
  shows "fj_num_tokens (json_text v) = Some (FJ_EC_OK, token_count v)"
proof -
  let ?n = "parse_fuel (json_text v)"
  let ?p = "\<lparr>js_cur = json_text v, jstok = replicate (token_count v) new_token, jstok_cur = 0\<rparr>"
  let ?q = "\<lparr>js_cur = json_text v, jstok = [], jstok_cur = 0\<rparr>"
  obtain vt p where p: "fj_parse_value ?n Mode_parse None ?p = Some (FJ_EC_OK, vt, p)" "jstok_cur p = token_count v"
    using parse_document [OF ok] by (auto simp: fj_parse_def set_tok_def Let_def split: option.splits if_splits)
  have left: "js_cur p = []"
  proof (cases "is_composite v")
    case True
    obtain r where r: "token_count v = Suc r" using token_count_pos [of v] by (cases "token_count v") auto
    have fuel: "3 * length (json_text v @ []) + 1 \<le> ?n" by (simp add: parse_fuel_def)
    show ?thesis
      using composite_parsed [OF ok True, unfolded parses_as_def, rule_format, OF fuel, of None "[]" r "[]" FJ_TYPE_INVALID] r p
      by (auto simp: parent_has_room_def new_token_upd)
  next
    case False
    then obtain t s where v: "v = J_simple t s" by (cases v) simp_all
    have "simple_ok t s" "delim []" using ok v by (simp_all add: delim_def)
    from simple_parsed [OF this, of "3 * length (json_text v)" Mode_parse None "[new_token]" 0] p
    show ?thesis by (auto simp: parse_fuel_def v)
  qed
  have "agree_value (fj_parse_value ?n Mode_parse None ?p) (fj_parse_value ?n Mode_count_tokens None ?q)"
    using parsers_agree [of ?n] unfolding value_agrees_def by (simp add: same_def)
  then obtain q where "fj_parse_value ?n Mode_count_tokens None ?q = Some (FJ_EC_OK, vt, q)" "same p q"
    using p by (auto simp: agree_value_def)
  then show ?thesis using p left by (simp add: fj_num_tokens_def same_def fj_skip_ws_def)
qed

lemma json_text_not_Nil: "json_ok v \<Longrightarrow> json_text v \<noteq> []"
  by (cases rule: json_text_hd) auto

lemma load_document:
  assumes "json_ok v"
  shows "fj_load (json_text v) = Some \<lparr>m_storage = json_tokens None 0 [] v, m_beg = Some 0, m_err = FJ_EC_OK\<rparr>"
  using json_text_not_Nil [OF assms]
  by (simp add: fj_load_def count_document [OF assms] parse_document [OF assms])

section \<open>Accessors on a document\<close>

text \<open>A view of a value: its tokens stand in the buffer from the first token of the view on.\<close>

definition represents :: "fjson \<Rightarrow> json \<Rightarrow> bool" where
  "represents j v \<longleftrightarrow> json_ok v \<and> m_err j = FJ_EC_OK \<and>
     (\<exists>pre par key post. m_beg j = Some (length pre) \<and> m_storage j = pre @ json_tokens par (length pre) key v @ post)"

lemma represents_document:
  "json_ok v \<Longrightarrow> represents \<lparr>m_storage = json_tokens None 0 [] v, m_beg = Some 0, m_err = FJ_EC_OK\<rparr> v"
  unfolding represents_def
  by (intro conjI exI [of _ "[] :: fj_token list"] exI [of _ "None :: nat option"] exI [of _ "[] :: string"]) simp_all

definition json_type :: "json \<Rightarrow> e_fj_token_type" where
  "json_type v = (case v of J_simple t s \<Rightarrow> t | J_array vs \<Rightarrow> FJ_TYPE_ARRAY | J_object ms \<Rightarrow> FJ_TYPE_OBJECT)"

lemma json_tokens_hd:
  obtains t ts where "json_tokens par i key v = t # ts" "tk_type t = json_type v" "tk_key t = key"
    "fj_next t i = Inr (i + token_count v) \<or> \<not> json_ok v"
  by (cases v) (auto simp: json_type_def start_token_def fj_next_def fj_is_simple_type_def simple_ok_def new_token_def)

lemma root_type:
  assumes "represents j v"
  obtains t where "fj_root j = Inr t" "tk_type t = json_type v"
proof -
  obtain pre par key post where j: "m_beg j = Some (length pre)" "m_storage j = pre @ json_tokens par (length pre) key v @ post"
    using assms unfolding represents_def by blast
  obtain t ts where "json_tokens par (length pre) key v = t # ts" "tk_type t = json_type v" by (rule json_tokens_hd)
  then show thesis using that j by (simp add: fj_root_def fj_tok_def)
qed

lemma is_type_represents: "represents j v \<Longrightarrow> fj_is_type t j = Inr (json_type v = t)"
  by (erule root_type) (simp add: fj_is_type_def)

lemma to_sstring_represents:
  assumes "represents j (J_simple t s)"
  shows "fj_to_sstring j = Inr (if t = FJ_TYPE_NULL then [] else s)"
proof -
  obtain pre par key post where "m_beg j = Some (length pre)" "m_storage j = pre @ json_tokens par (length pre) key (J_simple t s) @ post"
    "simple_ok t s"
    using assms unfolding represents_def by auto
  then show ?thesis
    by (auto simp: fj_to_sstring_def fj_root_def fj_tok_def fj_is_simple_type_def simple_ok_def)
qed

lemma to_sstring_composite: "represents j v \<Longrightarrow> is_composite v \<Longrightarrow> \<exists>m. fj_to_sstring j = Inl (Fj_logic_error m)"
  by (erule root_type) (cases v, auto simp: fj_to_sstring_def json_type_def fj_is_simple_type_def)

lemma unat_count: "n < 65535 \<Longrightarrow> unat (of_nat (n + 1) :: 16 word) = n + 1"
  by (simp only: unat_of_nat) simp

text \<open>Finding a member: the loop steps over whole members.\<close>

lemma array_tokens_append:
  "array_tokens par i (vs @ vs') = array_tokens par i vs @ array_tokens par (i + token_counts vs) vs'"
  by (induction vs arbitrary: i) (simp_all add: add.assoc)

lemma member_tokens_append:
  "member_tokens par i (ms @ ms') = member_tokens par i ms @ member_tokens par (i + member_counts ms) ms'"
  by (induction ms arbitrary: i) (auto simp: add.assoc)

lemma token_counts_append [simp]:
  "token_counts (vs @ vs') = token_counts vs + token_counts vs'"
  "member_counts (ms @ ms') = member_counts ms + member_counts ms'"
proof -
  show "token_counts (vs @ vs') = token_counts vs + token_counts vs'" by (induction vs) simp_all
  show "member_counts (ms @ ms') = member_counts ms + member_counts ms'" by (induction ms) auto
qed

lemma find_key_loop_steps:
  assumes "m_storage j = pre @ member_tokens par (length pre) ms @ post" and "\<forall>m\<in>set ms. fst m \<noteq> key \<and> json_ok (snd m)"
    and "length pre + member_counts ms \<le> e"
  shows "find_key_loop (length ms + n) j key (length pre) e = find_key_loop n j key (length pre + member_counts ms) e"
  using assms
proof (induction ms arbitrary: pre)
  case Nil
  then show ?case by simp
next
  case (Cons m ms)
  obtain k v where m: "m = (k, v)" by (cases m)
  obtain t ts where t: "json_tokens par (length pre) k v = t # ts" "tk_type t = json_type v" "tk_key t = k"
    "fj_next t (length pre) = Inr (length pre + token_count v) \<or> \<not> json_ok v"
    by (rule json_tokens_hd)
  have ok: "json_ok v" "k \<noteq> key" using Cons.prems(2) m by auto
  have "json_type v \<noteq> FJ_TYPE_OBJECT_END" using ok by (cases v) (auto simp: json_type_def simple_ok_def)
  moreover have "fj_tok j (length pre) = Inr t" using Cons.prems(1) m t by (simp add: fj_tok_def)
  moreover have "length pre \<noteq> e" using Cons.prems(3) token_count_pos [of v] unfolding m member_counts.simps by linarith
  ultimately have "find_key_loop (length (m # ms) + n) j key (length pre) e = find_key_loop (length ms + n) j key (length pre + token_count v) e"
    using t ok by simp
  also have "\<dots> = find_key_loop n j key (length pre + member_counts (m # ms)) e"
    using Cons.IH [of "pre @ json_tokens par (length pre) k v"] Cons.prems m by (simp add: add.assoc)
  finally show ?case .
qed

lemma member_split:
  assumes "map_of ms key = Some v"
  obtains us ws where "ms = us @ (key, v) # ws" "\<forall>m\<in>set us. fst m \<noteq> key"
  using assms
proof (induction ms arbitrary: thesis)
  case (Cons m ms)
  show ?case
  proof (cases "fst m = key")
    case True
    then show ?thesis using Cons.prems(1) [of "[]" ms] Cons.prems(2) by (cases m) auto
  next
    case False
    then obtain us ws where "ms = us @ (key, v) # ws" "\<forall>m\<in>set us. fst m \<noteq> key"
      using Cons.IH Cons.prems(2) by (cases m) auto
    then show ?thesis using Cons.prems(1) [of "m # us" ws] False by simp
  qed
qed simp

lemma member_counts_ge: "length ms \<le> member_counts ms"
proof (induction ms)
  case (Cons m ms)
  obtain k v where "m = (k, v)" by (cases m)
  then show ?case using Cons token_count_pos [of v] unfolding \<open>m = (k, v)\<close> member_counts.simps by (simp del: token_count_pos)
qed simp

text \<open>A view of an object, taken apart.\<close>

lemma object_view:
  assumes "represents j (J_object ms)"
  obtains pre par post t where "m_beg j = Some (length pre)" "m_err j = FJ_EC_OK"
    "m_storage j = pre @ t # member_tokens (Some (length pre)) (length pre + 1) ms @ end_token FJ_TYPE_OBJECT_END (length pre) # post"
    "tk_type t = FJ_TYPE_OBJECT" "tk_end t = Some (length pre + 1 + member_counts ms)" "tk_childs t = of_nat (length ms + 1)"
    "fj_root j = Inr t"
proof -
  obtain pre par key post where "m_beg j = Some (length pre)" "m_err j = FJ_EC_OK"
    "m_storage j = pre @ json_tokens par (length pre) key (J_object ms) @ post"
    using assms unfolding represents_def by blast
  then show thesis
    using that [of pre "start_token FJ_TYPE_OBJECT par key (length ms + 1) (length pre + 1 + member_counts ms)" post]
    by (simp add: start_token_def fj_root_def fj_tok_def)
qed

lemma at_member:
  assumes rep: "represents j (J_object ms)" and "map_of ms key = Some v"
  shows "\<exists>j'. fj_at key j = Inr j' \<and> represents j' v" "fj_contains key j = Inr True"
proof -
  obtain us ws where ms: "ms = us @ (key, v) # ws" "\<forall>m\<in>set us. fst m \<noteq> key" using member_split [OF assms(2)] .
  obtain pre post t where j: "m_beg j = Some (length pre)" "m_err j = FJ_EC_OK"
    "m_storage j = pre @ t # member_tokens (Some (length pre)) (length pre + 1) ms @ end_token FJ_TYPE_OBJECT_END (length pre) # post"
    "tk_type t = FJ_TYPE_OBJECT" "tk_end t = Some (length pre + 1 + member_counts ms)" "fj_root j = Inr t"
    using object_view [OF rep] by metis
  have oks: "json_ok v" "\<forall>m\<in>set us. json_ok (snd m)" using rep ms by (auto simp: represents_def list_all_iff)
  define i where "i = length pre + 1 + member_counts us"
  let ?e = "length pre + 1 + member_counts ms"
  let ?pre = "pre @ t # member_tokens (Some (length pre)) (length pre + 1) us"
  have storage: "m_storage j = ?pre @ json_tokens (Some (length pre)) i key v @
      member_tokens (Some (length pre)) (i + token_count v) ws @ end_token FJ_TYPE_OBJECT_END (length pre) # post"
    using j(3) ms by (simp add: member_tokens_append i_def)
  have len: "length ?pre = i" by (simp add: i_def)
  obtain tok ts where tok: "json_tokens (Some (length pre)) i key v = tok # ts" "tk_type tok = json_type v" "tk_key tok = key"
    using json_tokens_hd by metis
  have at_i: "fj_tok j i = Inr tok" using storage tok len [symmetric] by (simp add: fj_tok_def nth_append)
  have type: "json_type v \<noteq> FJ_TYPE_OBJECT_END" "fj_is_simple_type (json_type v) \<or> json_type v = FJ_TYPE_OBJECT \<or> json_type v = FJ_TYPE_ARRAY"
    using oks(1) by (cases v; auto simp: json_type_def simple_ok_def fj_is_simple_type_def)+
  have "i \<noteq> ?e" using token_count_pos [of v] unfolding i_def ms member_counts.simps token_counts_append by linarith
  then have stop: "find_key_loop (Suc n) j key i ?e = Inr (Some i)" for n
    using at_i tok type by simp
  have "length us \<le> length (m_storage j)" using member_counts_ge [of us] j(3) ms by simp
  then obtain n where n: "length (m_storage j) + 1 = length us + Suc n" by (metis Suc_eq_plus1 add_Suc_right le_Suc_ex)
  have "find_key_loop (length us + Suc n) j key (length (pre @ [t])) ?e = Inr (Some i)"
    using find_key_loop_steps [of j "pre @ [t]" "Some (length pre)" us _ key ?e "Suc n"] storage oks ms stop [of n]
    by (simp add: i_def)
  then have found: "find_key key j = Inr (Some i)"
    using j at_i tok type unfolding find_key_def n [symmetric]
    by (simp add: stopped_at_def)
  then show "fj_contains key j = Inr True" by (simp add: fj_contains_def)
  have "represents (j\<lparr>m_beg := Some i, m_err := FJ_EC_OK\<rparr>) v"
    unfolding represents_def
  proof (intro conjI exI)
    show "m_beg (j\<lparr>m_beg := Some i, m_err := FJ_EC_OK\<rparr>) = Some (length ?pre)" by (simp add: len [symmetric])
    show "m_storage (j\<lparr>m_beg := Some i, m_err := FJ_EC_OK\<rparr>) = ?pre @ json_tokens (Some (length pre)) (length ?pre) key v @
      member_tokens (Some (length pre)) (i + token_count v) ws @ end_token FJ_TYPE_OBJECT_END (length pre) # post"
      using storage len by simp
  qed (simp_all add: oks)
  then show "\<exists>j'. fj_at key j = Inr j' \<and> represents j' v" using found by (auto simp: fj_at_def)
qed

lemma at_missing:
  assumes rep: "represents j (J_object ms)" and "map_of ms key = None"
  shows "fj_at key j = Inl (Fj_runtime_error ''key not found'')" "fj_contains key j = Inr False"
proof -
  obtain pre post t where j: "m_beg j = Some (length pre)"
    "m_storage j = pre @ t # member_tokens (Some (length pre)) (length pre + 1) ms @ end_token FJ_TYPE_OBJECT_END (length pre) # post"
    "tk_type t = FJ_TYPE_OBJECT" "tk_end t = Some (length pre + 1 + member_counts ms)" "fj_root j = Inr t"
    using object_view [OF rep] by metis
  let ?e = "length pre + 1 + member_counts ms"
  have ne: "\<forall>m\<in>set ms. fst m \<noteq> key \<and> json_ok (snd m)"
    using assms by (auto simp: represents_def list_all_iff map_of_eq_None_iff)
  have "length ms \<le> length (m_storage j)" using member_counts_ge [of ms] j(2) by simp
  then obtain n where n: "length (m_storage j) + 1 = length ms + Suc n" by (metis Suc_eq_plus1 add_Suc_right le_Suc_ex)
  have "find_key_loop (length ms + Suc n) j key (length (pre @ [t])) ?e = Inr (Some ?e)"
    using find_key_loop_steps [of j "pre @ [t]" "Some (length pre)" ms _ key ?e "Suc n"] j(2) ne by simp
  moreover have "fj_tok j ?e = Inr (end_token FJ_TYPE_OBJECT_END (length pre))"
    using j(2) by (simp add: fj_tok_def nth_append)
  ultimately have "find_key key j = Inr None"
    using j unfolding find_key_def n [symmetric] by (simp add: stopped_at_def end_token_def fj_is_simple_type_def)
  then show "fj_at key j = Inl (Fj_runtime_error ''key not found'')" "fj_contains key j = Inr False"
    by (simp_all add: fj_at_def fj_contains_def)
qed

lemma array_view:
  assumes "represents j (J_array vs)"
  obtains pre post t where "m_beg j = Some (length pre)" "m_err j = FJ_EC_OK"
    "m_storage j = pre @ t # array_tokens (Some (length pre)) (length pre + 1) vs @ end_token FJ_TYPE_ARRAY_END (length pre) # post"
    "tk_type t = FJ_TYPE_ARRAY" "tk_end t = Some (length pre + 1 + token_counts vs)" "tk_childs t = of_nat (length vs + 1)"
    "fj_root j = Inr t"
proof -
  obtain pre par key post where "m_beg j = Some (length pre)" "m_err j = FJ_EC_OK"
    "m_storage j = pre @ json_tokens par (length pre) key (J_array vs) @ post"
    using assms unfolding represents_def by blast
  then show thesis
    using that [of pre "start_token FJ_TYPE_ARRAY par key (length vs + 1) (length pre + 1 + token_counts vs)" post]
    by (simp add: start_token_def fj_root_def fj_tok_def)
qed

lemma find_idx_loop_steps:
  assumes "m_storage j = pre @ array_tokens par (length pre) vs @ post" and "list_all json_ok vs"
    and "length pre + token_counts vs \<le> e"
  shows "find_idx_loop j (length vs) (length pre) e = Inr (length pre + token_counts vs)"
  using assms
proof (induction vs arbitrary: pre)
  case (Cons v vs)
  obtain t ts where t: "json_tokens par (length pre) [] v = t # ts"
    "fj_next t (length pre) = Inr (length pre + token_count v) \<or> \<not> json_ok v"
    using json_tokens_hd by metis
  have "length pre \<noteq> e" using Cons.prems(3) token_count_pos [of v] unfolding token_counts.simps by linarith
  moreover have "fj_tok j (length pre) = Inr t" using Cons.prems(1) t by (simp add: fj_tok_def)
  ultimately have "find_idx_loop j (length (v # vs)) (length pre) e = find_idx_loop j (length vs) (length pre + token_count v) e"
    using Cons.prems(2) t(2) by simp
  then show ?case
    using Cons.IH [of "pre @ json_tokens par (length pre) [] v"] Cons.prems by (simp add: add.assoc)
qed simp

lemma at_index:
  assumes rep: "represents j (J_array vs)" and i: "i < length vs"
  shows "\<exists>j'. fj_at_idx i j = Inr j' \<and> represents j' (vs ! i)"
proof -
  define us ws where "us = take i vs" and "ws = drop (Suc i) vs"
  have vs: "vs = us @ vs ! i # ws" and us: "length us = i" using i by (simp_all add: us_def ws_def id_take_nth_drop)
  obtain pre post t where j: "m_beg j = Some (length pre)" "m_err j = FJ_EC_OK"
    "m_storage j = pre @ t # array_tokens (Some (length pre)) (length pre + 1) vs @ end_token FJ_TYPE_ARRAY_END (length pre) # post"
    "tk_type t = FJ_TYPE_ARRAY" "tk_end t = Some (length pre + 1 + token_counts vs)" "tk_childs t = of_nat (length vs + 1)"
    "fj_root j = Inr t"
    using array_view [OF rep] .
  have ok: "list_all json_ok vs" "length vs < 65535" using rep by (simp_all add: represents_def)
  then have oks: "list_all json_ok us" "json_ok (vs ! i)" using i by (simp_all add: us_def list_all_length)
  define k where "k = length pre + 1 + token_counts us"
  let ?pre = "pre @ t # array_tokens (Some (length pre)) (length pre + 1) us"
  have storage: "m_storage j = ?pre @ json_tokens (Some (length pre)) k [] (vs ! i) @
      array_tokens (Some (length pre)) (k + token_count (vs ! i)) ws @ end_token FJ_TYPE_ARRAY_END (length pre) # post"
    unfolding j(3) by (subst vs) (simp add: array_tokens_append k_def)
  have len: "length ?pre = k" by (simp add: k_def)
  have counts: "token_counts vs = token_counts us + token_count (vs ! i) + token_counts ws" by (subst vs) simp
  have loop: "find_idx_loop j i (length pre + 1) (length pre + 1 + token_counts vs) = Inr k"
    using find_idx_loop_steps [of j "pre @ [t]" "Some (length pre)" us _ "length pre + 1 + token_counts vs"] storage oks us counts
    by (simp add: k_def)
  have "tk_childs t - 1 = of_nat (length vs)" using j(6) by simp
  then have small: "\<not> unat (tk_childs t - 1) \<le> i" using i ok(2) by (simp add: unat_of_nat)
  obtain tok ts where tok: "json_tokens (Some (length pre)) k [] (vs ! i) = tok # ts" "tk_type tok = json_type (vs ! i)"
    using json_tokens_hd by metis
  have at_k: "fj_tok j k = Inr tok" using storage tok len [symmetric] by (simp add: fj_tok_def nth_append)
  have type: "fj_is_simple_type (json_type (vs ! i)) \<or> json_type (vs ! i) = FJ_TYPE_OBJECT \<or> json_type (vs ! i) = FJ_TYPE_ARRAY"
    using oks(2) by (cases "vs ! i") (auto simp: json_type_def simple_ok_def fj_is_simple_type_def)
  have found: "find_idx i j = Inr (Some k)"
    using j small loop at_k tok type by (simp add: find_idx_def stopped_at_def)
  have "represents (j\<lparr>m_beg := Some k, m_err := FJ_EC_OK\<rparr>) (vs ! i)"
    unfolding represents_def
  proof (intro conjI exI)
    show "m_beg (j\<lparr>m_beg := Some k, m_err := FJ_EC_OK\<rparr>) = Some (length ?pre)" by (simp add: len [symmetric])
    show "m_storage (j\<lparr>m_beg := Some k, m_err := FJ_EC_OK\<rparr>) = ?pre @ json_tokens (Some (length pre)) (length ?pre) [] (vs ! i) @
      array_tokens (Some (length pre)) (k + token_count (vs ! i)) ws @ end_token FJ_TYPE_ARRAY_END (length pre) # post"
      using storage len by simp
  qed (simp_all add: oks)
  then show ?thesis using found by (auto simp: fj_at_idx_def)
qed

lemma at_index_out:
  assumes rep: "represents j (J_array vs)" and i: "length vs \<le> i"
  shows "fj_at_idx i j = Inl (Fj_out_of_range ''out of range'')"
proof -
  obtain t where t: "tk_type t = FJ_TYPE_ARRAY" "tk_childs t = of_nat (length vs + 1)" "fj_root j = Inr t"
    using array_view [OF rep] by metis
  have "length vs < 65535" using rep by (simp add: represents_def)
  moreover have "tk_childs t - 1 = of_nat (length vs)" using t by simp
  ultimately have "unat (tk_childs t - 1) \<le> i" using i by (simp add: unat_of_nat)
  then show ?thesis using t by (simp add: fj_at_idx_def find_idx_def)
qed

lemma size_of_count:
  assumes "n < 65535"
  shows "unat (ucast (of_nat (n + 1) :: 16 word) - 1 :: u64) = n"
proof -
  have "(ucast (of_nat (n + 1) :: 16 word) :: u64) = of_nat (n + 1)"
    using unat_count [OF assms] by (metis of_nat_unat)
  then have "(ucast (of_nat (n + 1) :: 16 word) - 1 :: u64) = of_nat n" by simp
  then show ?thesis using assms by (simp add: unat_of_nat)
qed

lemma size_represents:
  "represents j (J_object ms) \<Longrightarrow> fj_size j = Inr (length ms)"
  "represents j (J_array vs) \<Longrightarrow> fj_size j = Inr (length vs)"
proof -
  assume rep: "represents j (J_object ms)"
  obtain t where "tk_type t = FJ_TYPE_OBJECT" "tk_childs t = of_nat (length ms + 1)" "fj_root j = Inr t"
    using object_view [OF rep] by metis
  moreover have "length ms < 65535" using rep by (simp add: represents_def)
  ultimately show "fj_size j = Inr (length ms)" using size_of_count by (simp add: fj_size_def fj_is_simple_type_def del: of_nat_add)
next
  assume rep: "represents j (J_array vs)"
  obtain t where "tk_type t = FJ_TYPE_ARRAY" "tk_childs t = of_nat (length vs + 1)" "fj_root j = Inr t"
    using array_view [OF rep] by metis
  moreover have "length vs < 65535" using rep by (simp add: represents_def)
  ultimately show "fj_size j = Inr (length vs)" using size_of_count by (simp add: fj_size_def fj_is_simple_type_def del: of_nat_add)
qed

text \<open>The unrolled conversion is the value of the digits, modulo the width of the result.\<close>

lemma conv_digit_Cons: "k \<in> {1..length s} \<Longrightarrow> conv_digit (c # s) k = conv_digit s k"
  by (auto simp: conv_digit_def Suc_diff_le)

lemma conv_digit_hd:
  assumes "is_digit c"
  shows "conv_digit (c # s) (Suc (length s)) = of_nat (digit_val c * 10 ^ length s)"
proof -
  have "(word_of_int (int (of_char c) - 48) :: u64) = of_nat (digit_val c)"
    using assms by (simp add: is_digit_def digit_val_def of_nat_diff)
  then show ?thesis by (simp add: conv_digit_def)
qed

lemma conv_sum:
  "list_all is_digit s \<Longrightarrow>
   foldl (\<lambda>v k. v + conv_digit s k) a (rev [1..<length s + 1]) = a + of_nat (digits_val s)"
proof (induction s arbitrary: a)
  case (Cons c s)
  have rev: "rev [1..<length (c # s) + 1] = Suc (length s) # rev [1..<length s + 1]" by simp
  have "foldl (\<lambda>v k. v + conv_digit (c # s) k) b (rev [1..<length s + 1]) = foldl (\<lambda>v k. v + conv_digit s k) b (rev [1..<length s + 1])" for b
    by (rule foldl_cong) (auto intro: conv_digit_Cons)
  then show ?case
    unfolding rev using Cons conv_digit_hd [of c s] by (simp add: digits_val_Cons)
qed simp

lemma conv_to_u64_digits:
  assumes "digit_string s" "length s \<le> 20"
  shows "conv_to_u64 s = of_nat (digits_val s)"
proof -
  have "1 \<le> length s" using assms by (cases s) (auto simp: digit_string_def)
  then show ?thesis
    using assms conv_sum [of s 0] by (simp add: conv_to_u64_def digit_string_def)
qed

lemma to_u64_represents:
  "represents j (J_simple FJ_TYPE_NUMBER s) \<Longrightarrow> digit_string s \<Longrightarrow> length s \<le> 20 \<Longrightarrow> fj_to_u64 j = Inr (of_nat (digits_val s))"
  by (simp add: fj_to_u64_def to_sstring_represents conv_to_u64_digits)

lemma digit_string_dec_digits: "digit_string (dec_digits n)"
  by (simp add: digit_string_def)

text \<open>A decimal number that fits 32 bits is read with its sign; the conversion to bool asks for the text \<open>true\<close>.\<close>

lemma conv_to_u32_digits:
  assumes "n < 2 ^ 64"
  shows "conv_to_u32 (dec_digits n) = of_nat n"
proof -
  have "length (dec_digits n) \<le> 20" using assms by (intro length_dec_digits) simp_all
  then have "conv_to_u64 (dec_digits n) = of_nat n" by (simp add: conv_to_u64_digits digit_string_dec_digits)
  then show ?thesis using assms by (simp add: conv_to_u32_def ucast_eq uint_nat unat_of_nat word_of_int_eq_iff)
qed

lemma dec_digits_sign: "raw_char (dec_digits n) \<noteq> CHR ''-''"
proof -
  have "is_digit (hd (dec_digits n))" using digit_string_dec_digits [of n] by (cases "dec_digits n") (auto simp: digit_string_def)
  then show ?thesis
    using digit_string_dec_digits [of n] by (cases "dec_digits n") (auto simp: raw_char_def digit_string_def is_digit_def)
qed

lemma sint_of_int_32: "- (2 ^ 31) \<le> i \<Longrightarrow> i < 2 ^ 31 \<Longrightarrow> sint (word_of_int i :: u32) = i"
  by (simp only: signed_of_int) (simp add: signed_take_bit_int_eq_self)

lemma conv_to_i32_text:
  "n < 2 ^ 31 \<Longrightarrow> sint (conv_to_i32 (dec_digits n)) = int n"
  "n \<le> 2 ^ 31 \<Longrightarrow> sint (conv_to_i32 (CHR ''-'' # dec_digits n)) = - int n"
proof -
  assume n: "n < 2 ^ 31"
  then have "conv_to_i32 (dec_digits n) = word_of_int (int n)" by (simp add: conv_to_i32_def dec_digits_sign conv_to_u32_digits)
  then show "sint (conv_to_i32 (dec_digits n)) = int n" using sint_of_int_32 [of "int n"] n by simp
next
  assume n: "n \<le> 2 ^ 31"
  then have "conv_to_i32 (CHR ''-'' # dec_digits n) = word_of_int (- int n)" by (simp add: conv_to_i32_def raw_char_def conv_to_u32_digits)
  then show "sint (conv_to_i32 (CHR ''-'' # dec_digits n)) = - int n" using sint_of_int_32 [of "- int n"] n by simp
qed

lemma to_int_represents:
  "represents j (J_simple t s) \<Longrightarrow> fj_to_int j = (if t = FJ_TYPE_NULL then Inl Fj_undefined else Inr (conv_to_i32 s))"
  "represents j (J_simple t s) \<Longrightarrow> fj_to_bool j = (if t = FJ_TYPE_NULL then Inl Fj_undefined else Inr (conv_to_bool s))"
  by (simp_all add: fj_to_int_def fj_to_bool_def is_type_represents to_sstring_represents json_type_def)

text \<open>Evaluation of the parser on given texts: the calls are unfolded only where they are applied.\<close>

lemma fj_apply:
  "fj_parse_value (numeral k) M par p = value_step (fj_parse_array (pred_numeral k)) (fj_parse_object (pred_numeral k)) M par p"
  "fj_parse_array (numeral k) M par p = array_step (fj_array_loop (pred_numeral k)) M par p"
  "fj_array_loop (numeral k) M i p = array_loop_step (fj_parse_value (pred_numeral k)) (fj_array_loop (pred_numeral k)) M i p"
  "fj_parse_object (numeral k) M par p = object_step (fj_object_loop (pred_numeral k)) M par p"
  "fj_object_loop (numeral k) M i p = object_loop_step (fj_parse_value (pred_numeral k)) (fj_object_loop (pred_numeral k)) M i p"
  by (simp_all add: numeral_eq_Suc)

lemma below_limits: "\<not> (65535 :: 16 word) \<le> 1" "\<not> (4294967295 :: u64) \<le> 1"
  by (simp_all add: word_le_nat_alt)

lemmas fj_eval = fj_apply below_limits parse_fuel_def value_step_def array_step_def object_step_def nested_step_def array_loop_step_def
  object_loop_step_def array_element_def member_key_def member_value_def expect_char_def fj_check_and_skip_def
  fj_skip_ws_def is_ws_def cur_char_def raw_char_def is_nested_def starts_number_def is_digit_def simple_value_def
  fj_parse_number_def number_body_def number_run_def number_fraction_def number_exponent_def bind_exn_def
  open_tok_def close_tok_def separator_def no_free_def childs_full_def add_child_def advance_tok_def set_tok_def new_token_def
  fj_is_type_def fj_root_def Let_def fj_load_def fj_num_tokens_def fj_parse_def fj_expect_def

section \<open>Properties\<close>

text \<open>
  C8: The legacy JSON reader reads compact documents. A document written without white space, of nested arrays and
  objects over strings, decimal numbers, booleans and null, is loaded without an error into exactly its tokens, with
  their parents, child counts and end markers, and both passes succeed. Its strings hold no control characters, complete
  escapes and complete UTF-8 sequences; its numbers are those of JSON but an unsigned lone zero directly before an exponent, which the
  reader refuses, and may have leading zeros after a minus sign; keys are shorter than 255 bytes, values shorter than
  \<open>2 ^ 32 - 1\<close> bytes, and no array or object has more than 65534 members. White space is not covered.
\<close>

theorem flatjson_reads_documents:
  assumes "json_ok v"
  shows "fj_num_tokens (json_text v) = Some (FJ_EC_OK, token_count v) \<and>
    fj_load (json_text v) = Some \<lparr>m_storage = json_tokens None 0 [] v, m_beg = Some 0, m_err = FJ_EC_OK\<rparr> \<and>
    represents \<lparr>m_storage = json_tokens None 0 [] v, m_beg = Some 0, m_err = FJ_EC_OK\<rparr> v"
  using count_document [OF assms] load_document [OF assms] represents_document [OF assms] by blast

theorem flatjson_reads_documents_witness:
  "let v = J_object [(''code'', J_simple FJ_TYPE_NUMBER ''-1121''), (''fills'', J_array [J_simple FJ_TYPE_STRING ''0.5'', J_object []])]
   in json_text v = ''{'' @ [CHR 0x22] @ ''code'' @ [CHR 0x22] @ '':-1121,'' @ [CHR 0x22] @ ''fills'' @ [CHR 0x22] @ '':['' @
          [CHR 0x22] @ ''0.5'' @ [CHR 0x22] @ '',{}]}'' \<and>
      fj_num_tokens (json_text v) = Some (FJ_EC_OK, 8)"
proof -
  let ?v = "J_object [(''code'', J_simple FJ_TYPE_NUMBER ''-1121''), (''fills'', J_array [J_simple FJ_TYPE_STRING ''0.5'', J_object []])]"
  have "number_text ''-1121''"
    unfolding number_text_def
    by (rule exI [of _ "''-''"], rule exI [of _ "''1121''"], rule exI [of _ "[]"], rule exI [of _ "[]"])
      (simp add: digit_string_def is_digit_def)
  then have "json_ok ?v" by (simp add: simple_ok_def key_ok_def fj_utf8_char_len_def)
  from flatjson_reads_documents [OF this] show ?thesis by simp
qed

text \<open>
  C9: The accessors of the legacy reader refine lookup in the document. On a view of an object \<^verbatim>\<open>at\<close> gives a
  view of the first member with the key, and throws when there is none; \<^verbatim>\<open>contains\<close> and \<^verbatim>\<open>size\<close> agree; on a view
  of an array the elements are found by index and an index past the end throws; the text of a simple
  value is its token, empty for null, and a composite value has none. The type of any value is that of the document.
  A natural number below \<open>2 ^ 64\<close> written in digits converts to its value, a signed one of 32 bits to its signed value,
  and the two texts of a boolean to it; for null the conversions to a signed number and to a boolean follow a null
  pointer. Fractions and exponents, which the conversions do not understand, are not covered.
\<close>

theorem flatjson_accessors_refine:
  assumes "represents j v"
  shows "(\<forall>t. fj_is_type t j =
     Inr (t = (case v of J_object ms \<Rightarrow> FJ_TYPE_OBJECT | J_array vs \<Rightarrow> FJ_TYPE_ARRAY | J_simple t' s \<Rightarrow> t'))) \<and>
   (case v of
     J_object ms \<Rightarrow> fj_size j = Inr (length ms) \<and> (\<exists>m. fj_to_sstring j = Inl (Fj_logic_error m)) \<and>
       (\<forall>key. case map_of ms key of
          Some w \<Rightarrow> fj_contains key j = Inr True \<and> (\<exists>j'. fj_at key j = Inr j' \<and> represents j' w)
        | None \<Rightarrow> fj_contains key j = Inr False \<and> fj_at key j = Inl (Fj_runtime_error ''key not found''))
   | J_array vs \<Rightarrow> fj_size j = Inr (length vs) \<and> (\<exists>m. fj_to_sstring j = Inl (Fj_logic_error m)) \<and>
       (\<forall>i. if i < length vs then (\<exists>j'. fj_at_idx i j = Inr j' \<and> represents j' (vs ! i))
            else fj_at_idx i j = Inl (Fj_out_of_range ''out of range''))
   | J_simple t s \<Rightarrow> fj_to_sstring j = Inr (if t = FJ_TYPE_NULL then [] else s) \<and>
       (t = FJ_TYPE_NUMBER \<longrightarrow>
         (\<forall>n < 2 ^ 64. s = dec_digits n \<longrightarrow> fj_to_u64 j = Inr (of_nat n)) \<and>
         (\<forall>n < 2 ^ 31. s = dec_digits n \<longrightarrow> (\<exists>w. fj_to_int j = Inr w \<and> sint w = int n)) \<and>
         (\<forall>n \<le> 2 ^ 31. s = CHR ''-'' # dec_digits n \<longrightarrow> (\<exists>w. fj_to_int j = Inr w \<and> sint w = - int n))) \<and>
       (t = FJ_TYPE_BOOL \<longrightarrow> fj_to_bool j = Inr (s = ''true'')) \<and>
       (t = FJ_TYPE_NULL \<longrightarrow> fj_to_int j = Inl Fj_undefined \<and> fj_to_bool j = Inl Fj_undefined))"
proof (cases v)
  case (J_simple t s)
  then have rep: "represents j (J_simple t s)" using assms by simp
  have len: "length (dec_digits n) \<le> 20" if "n < 2 ^ 64" for n
    using that by (intro length_dec_digits) simp_all
  have "conv_to_bool s = (s = ''true'')" if "t = FJ_TYPE_BOOL"
    using rep that by (auto simp: represents_def simple_ok_def conv_to_bool_def raw_char_def)
  moreover have "fj_to_u64 j = Inr (of_nat n)" if "t = FJ_TYPE_NUMBER" "n < 2 ^ 64" "s = dec_digits n" for n
    using to_u64_represents [of j s] rep that len [OF that(2)] digit_string_dec_digits [of n] by simp
  ultimately show ?thesis
    unfolding J_simple json.case
    using is_type_represents [OF rep] to_sstring_represents [OF rep] to_int_represents [OF rep] conv_to_i32_text
    by (auto simp: json_type_def)
next
  case (J_array vs)
  then have rep: "represents j (J_array vs)" using assms by simp
  show ?thesis
    unfolding J_array json.case
    using is_type_represents [OF rep] to_sstring_composite [OF rep] size_represents(2) [OF rep] at_index [OF rep] at_index_out [OF rep]
    by (auto simp: json_type_def)
next
  case (J_object ms)
  then have rep: "represents j (J_object ms)" using assms by simp
  show ?thesis
    unfolding J_object json.case
    using is_type_represents [OF rep] to_sstring_composite [OF rep] size_represents(1) [OF rep] at_member [OF rep] at_missing [OF rep]
    by (auto simp: json_type_def split: option.split)
qed

theorem flatjson_accessors_refine_witness:
  "let v = J_object [(''a'', J_array [J_simple FJ_TYPE_NUMBER ''7'']), (''b'', J_simple FJ_TYPE_NULL ''null'')];
       j = \<lparr>m_storage = json_tokens None 0 [] v, m_beg = Some 0, m_err = FJ_EC_OK\<rparr>
   in represents j v \<and> fj_size j = Inr 2 \<and> fj_contains ''b'' j = Inr True \<and>
      fj_at ''c'' j = Inl (Fj_runtime_error ''key not found'')"
proof -
  let ?v = "J_object [(''a'', J_array [J_simple FJ_TYPE_NUMBER ''7'']), (''b'', J_simple FJ_TYPE_NULL ''null'')]"
  let ?j = "\<lparr>m_storage = json_tokens None 0 [] ?v, m_beg = Some 0, m_err = FJ_EC_OK\<rparr>"
  have "number_text ''7''" by (rule number_text_digits) (simp_all add: digit_string_def is_digit_def)
  then have "json_ok ?v" by (simp add: simple_ok_def key_ok_def fj_utf8_char_len_def)
  then have rep: "represents ?j ?v" by (rule represents_document)
  note obj = flatjson_accessors_refine [OF rep, unfolded json.case, THEN conjunct2]
  show ?thesis
    unfolding Let_def
    using rep obj [THEN conjunct1] obj [THEN conjunct2, THEN conjunct2, rule_format, of "''b''"]
      obj [THEN conjunct2, THEN conjunct2, rule_format, of "''c''"]
    by simp
qed

text \<open>
  C37: Loading ends on every text: the parser follows at most three nested calls for a character of it, so
  the fuel of the model is never used up.
\<close>

theorem flatjson_load_ends: "\<exists>j. fj_load s = Some j"
  by (rule load_ends)

lemma load_errors:
  "map_option m_err (fj_load ''{}x'') = Some FJ_EC_OK"
  "map_option m_err (fj_load ''{}xy'') = Some FJ_EC_INVALID"
  "map_option m_err (fj_load ''[1 2]'') = Some FJ_EC_OK"
  "map_option m_err (fj_load ''[1, ]'') = Some FJ_EC_OK"
  "map_option m_err (fj_load ''[-012]'') = Some FJ_EC_OK"
  "map_option m_err (fj_load ''0e1'') = Some FJ_EC_INVALID"
  subgoal by (simp add: fj_eval del: fj_parser_simps)
  subgoal by (simp add: fj_eval del: fj_parser_simps)
  subgoal by (simp add: fj_eval del: fj_parser_simps)
  subgoal by (simp add: fj_eval del: fj_parser_simps)
  subgoal by (simp add: fj_eval del: fj_parser_simps)
  subgoal by (simp add: fj_eval del: fj_parser_simps)
  done

text \<open>
  What the legacy reader lets through. An empty text is no error, but the view has no first token, so
  that asking for its type follows a null pointer. One stray character after the document is accepted,
  elements need no comma between them, a comma may stand before the closing bracket after a space, and a
  number may have leading zeros behind a minus; the JSON number \<^verbatim>\<open>0e1\<close> is refused.
\<close>

lemma flatjson_accepts_malformed:
  "fj_load [] = Some \<lparr>m_storage = [], m_beg = None, m_err = FJ_EC_OK\<rparr> \<and>
   fj_is_type FJ_TYPE_OBJECT \<lparr>m_storage = [], m_beg = None, m_err = FJ_EC_OK\<rparr> = Inl Fj_undefined \<and>
   map_option m_err (fj_load ''{}x'') = Some FJ_EC_OK \<and> map_option m_err (fj_load ''{}xy'') = Some FJ_EC_INVALID \<and>
   map_option m_err (fj_load ''[1 2]'') = Some FJ_EC_OK \<and> map_option m_err (fj_load ''[1, ]'') = Some FJ_EC_OK \<and>
   map_option m_err (fj_load ''[-012]'') = Some FJ_EC_OK \<and> map_option m_err (fj_load ''0e1'') = Some FJ_EC_INVALID"
  using load_errors by (simp add: fj_load_def fj_is_type_def fj_root_def)

end
