(* ===== verification/V1_Requests.thy ===== *)
theory V1_Requests
  imports V1_Enums Flatjson_Correct Http_Client
begin

text \<open>
  The requests of the legacy client: its error codes (\<^verbatim>\<open>binapi/errors.hpp\<close>, \<^verbatim>\<open>errors.cpp\<close>), the assembly of the
  parameters of a request with its signature (\<^verbatim>\<open>api::impl::post\<close> of \<^verbatim>\<open>binapi/api.cpp\<close>) and the methods of
  \<^verbatim>\<open>api\<close>, each with its path, verb and parameters. The HMAC of OpenSSL is the parameter it is for the newer
  client.
\<close>

section \<open>Errors\<close>

datatype e_error =
    E_OK
  | E_UNKNOWN
  | E_DISCONNECTED
  | E_UNAUTHORIZED
  | E_TOO_MANY_REQUESTS
  | E_UNEXPECTED_RESP
  | E_TIMEOUT
  | E_UNKNOWN_ORDER_COMPOSITION
  | E_TOO_MANY_ORDERS
  | E_SERVICE_SHUTTING_DOWN
  | E_UNSUPPORTED_OPERATION
  | E_INVALID_TIMESTAMP
  | E_INVALID_SIGNATURE
  | E_ILLEGAL_CHARS
  | E_TOO_MANY_PARAMETERS
  | E_MANDATORY_PARAM_EMPTY_OR_MALFORMED
  | E_UNKNOWN_PARAM
  | E_UNREAD_PARAMETERS
  | E_PARAM_EMPTY
  | E_PARAM_NOT_REQUIRED
  | E_BAD_PRECISION
  | E_NO_DEPTH
  | E_TIF_NOT_REQUIRED
  | E_INVALID_TIF
  | E_INVALID_ORDER_TYPE
  | E_INVALID_SIDE
  | E_EMPTY_NEW_CL_ORD_ID
  | E_EMPTY_ORG_CL_ORD_ID
  | E_BAD_INTERVAL
  | E_BAD_SYMBOL
  | E_INVALID_LISTEN_KEY
  | E_MORE_THAN_XX_HOURS
  | E_OPTIONAL_PARAMS_BAD_COMBO
  | E_INVALID_PARAMETER
  | E_NEW_ORDER_REJECTED
  | E_CANCEL_REJECTED
  | E_NO_SUCH_ORDER
  | E_BAD_API_KEY_FMT
  | E_REJECTED_MBX_KEY
  | E_NO_TRADING_WINDOW

primrec e_error_value :: "e_error \<Rightarrow> int" where
  "e_error_value E_OK = 0"
| "e_error_value E_UNKNOWN = - 1000"
| "e_error_value E_DISCONNECTED = - 1001"
| "e_error_value E_UNAUTHORIZED = - 1002"
| "e_error_value E_TOO_MANY_REQUESTS = - 1003"
| "e_error_value E_UNEXPECTED_RESP = - 1006"
| "e_error_value E_TIMEOUT = - 1007"
| "e_error_value E_UNKNOWN_ORDER_COMPOSITION = - 1014"
| "e_error_value E_TOO_MANY_ORDERS = - 1015"
| "e_error_value E_SERVICE_SHUTTING_DOWN = - 1016"
| "e_error_value E_UNSUPPORTED_OPERATION = - 1020"
| "e_error_value E_INVALID_TIMESTAMP = - 1021"
| "e_error_value E_INVALID_SIGNATURE = - 1022"
| "e_error_value E_ILLEGAL_CHARS = - 1100"
| "e_error_value E_TOO_MANY_PARAMETERS = - 1101"
| "e_error_value E_MANDATORY_PARAM_EMPTY_OR_MALFORMED = - 1102"
| "e_error_value E_UNKNOWN_PARAM = - 1103"
| "e_error_value E_UNREAD_PARAMETERS = - 1104"
| "e_error_value E_PARAM_EMPTY = - 1105"
| "e_error_value E_PARAM_NOT_REQUIRED = - 1106"
| "e_error_value E_BAD_PRECISION = - 1111"
| "e_error_value E_NO_DEPTH = - 1112"
| "e_error_value E_TIF_NOT_REQUIRED = - 1114"
| "e_error_value E_INVALID_TIF = - 1115"
| "e_error_value E_INVALID_ORDER_TYPE = - 1116"
| "e_error_value E_INVALID_SIDE = - 1117"
| "e_error_value E_EMPTY_NEW_CL_ORD_ID = - 1118"
| "e_error_value E_EMPTY_ORG_CL_ORD_ID = - 1119"
| "e_error_value E_BAD_INTERVAL = - 1120"
| "e_error_value E_BAD_SYMBOL = - 1121"
| "e_error_value E_INVALID_LISTEN_KEY = - 1125"
| "e_error_value E_MORE_THAN_XX_HOURS = - 1127"
| "e_error_value E_OPTIONAL_PARAMS_BAD_COMBO = - 1128"
| "e_error_value E_INVALID_PARAMETER = - 1130"
| "e_error_value E_NEW_ORDER_REJECTED = - 2010"
| "e_error_value E_CANCEL_REJECTED = - 2011"
| "e_error_value E_NO_SUCH_ORDER = - 2013"
| "e_error_value E_BAD_API_KEY_FMT = - 2014"
| "e_error_value E_REJECTED_MBX_KEY = - 2015"
| "e_error_value E_NO_TRADING_WINDOW = - 2016"

primrec e_error_to_string :: "e_error \<Rightarrow> string" where
  "e_error_to_string E_OK = ''OK''"
| "e_error_to_string E_UNKNOWN = ''UNKNOWN''"
| "e_error_to_string E_DISCONNECTED = ''DISCONNECTED''"
| "e_error_to_string E_UNAUTHORIZED = ''UNAUTHORIZED''"
| "e_error_to_string E_TOO_MANY_REQUESTS = ''TOO_MANY_REQUESTS''"
| "e_error_to_string E_UNEXPECTED_RESP = ''UNEXPECTED_RESP''"
| "e_error_to_string E_TIMEOUT = ''TIMEOUT''"
| "e_error_to_string E_UNKNOWN_ORDER_COMPOSITION = ''UNKNOWN_ORDER_COMPOSITION''"
| "e_error_to_string E_TOO_MANY_ORDERS = ''TOO_MANY_ORDERS''"
| "e_error_to_string E_SERVICE_SHUTTING_DOWN = ''SERVICE_SHUTTING_DOWN''"
| "e_error_to_string E_UNSUPPORTED_OPERATION = ''UNSUPPORTED_OPERATION''"
| "e_error_to_string E_INVALID_TIMESTAMP = ''INVALID_TIMESTAMP''"
| "e_error_to_string E_INVALID_SIGNATURE = ''INVALID_SIGNATURE''"
| "e_error_to_string E_ILLEGAL_CHARS = ''ILLEGAL_CHARS''"
| "e_error_to_string E_TOO_MANY_PARAMETERS = ''TOO_MANY_PARAMETERS''"
| "e_error_to_string E_MANDATORY_PARAM_EMPTY_OR_MALFORMED = ''MANDATORY_PARAM_EMPTY_OR_MALFORMED''"
| "e_error_to_string E_UNKNOWN_PARAM = ''UNKNOWN_PARAM''"
| "e_error_to_string E_UNREAD_PARAMETERS = ''UNREAD_PARAMETERS''"
| "e_error_to_string E_PARAM_EMPTY = ''PARAM_EMPTY''"
| "e_error_to_string E_PARAM_NOT_REQUIRED = ''PARAM_NOT_REQUIRED''"
| "e_error_to_string E_BAD_PRECISION = ''BAD_PRECISION''"
| "e_error_to_string E_NO_DEPTH = ''NO_DEPTH''"
| "e_error_to_string E_TIF_NOT_REQUIRED = ''TIF_NOT_REQUIRED''"
| "e_error_to_string E_INVALID_TIF = ''INVALID_TIF''"
| "e_error_to_string E_INVALID_ORDER_TYPE = ''INVALID_ORDER_TYPE''"
| "e_error_to_string E_INVALID_SIDE = ''INVALID_SIDE''"
| "e_error_to_string E_EMPTY_NEW_CL_ORD_ID = ''EMPTY_NEW_CL_ORD_ID''"
| "e_error_to_string E_EMPTY_ORG_CL_ORD_ID = ''EMPTY_ORG_CL_ORD_ID''"
| "e_error_to_string E_BAD_INTERVAL = ''BAD_INTERVAL''"
| "e_error_to_string E_BAD_SYMBOL = ''BAD_SYMBOL''"
| "e_error_to_string E_INVALID_LISTEN_KEY = ''INVALID_LISTEN_KEY''"
| "e_error_to_string E_MORE_THAN_XX_HOURS = ''MORE_THAN_XX_HOURS''"
| "e_error_to_string E_OPTIONAL_PARAMS_BAD_COMBO = ''OPTIONAL_PARAMS_BAD_COMBO''"
| "e_error_to_string E_INVALID_PARAMETER = ''INVALID_PARAMETER''"
| "e_error_to_string E_NEW_ORDER_REJECTED = ''NEW_ORDER_REJECTED''"
| "e_error_to_string E_CANCEL_REJECTED = ''CANCEL_REJECTED''"
| "e_error_to_string E_NO_SUCH_ORDER = ''NO_SUCH_ORDER''"
| "e_error_to_string E_BAD_API_KEY_FMT = ''BAD_API_KEY_FMT''"
| "e_error_to_string E_REJECTED_MBX_KEY = ''REJECTED_MBX_KEY''"
| "e_error_to_string E_NO_TRADING_WINDOW = ''NO_TRADING_WINDOW''"

definition e_errors :: "e_error list" where
  "e_errors =
     [E_OK, E_UNKNOWN, E_DISCONNECTED, E_UNAUTHORIZED, E_TOO_MANY_REQUESTS, E_UNEXPECTED_RESP,
      E_TIMEOUT, E_UNKNOWN_ORDER_COMPOSITION, E_TOO_MANY_ORDERS, E_SERVICE_SHUTTING_DOWN, E_UNSUPPORTED_OPERATION, E_INVALID_TIMESTAMP,
      E_INVALID_SIGNATURE, E_ILLEGAL_CHARS, E_TOO_MANY_PARAMETERS, E_MANDATORY_PARAM_EMPTY_OR_MALFORMED, E_UNKNOWN_PARAM, E_UNREAD_PARAMETERS,
      E_PARAM_EMPTY, E_PARAM_NOT_REQUIRED, E_BAD_PRECISION, E_NO_DEPTH, E_TIF_NOT_REQUIRED, E_INVALID_TIF,
      E_INVALID_ORDER_TYPE, E_INVALID_SIDE, E_EMPTY_NEW_CL_ORD_ID, E_EMPTY_ORG_CL_ORD_ID, E_BAD_INTERVAL, E_BAD_SYMBOL,
      E_INVALID_LISTEN_KEY, E_MORE_THAN_XX_HOURS, E_OPTIONAL_PARAMS_BAD_COMBO, E_INVALID_PARAMETER, E_NEW_ORDER_REJECTED, E_CANCEL_REJECTED,
      E_NO_SUCH_ORDER, E_BAD_API_KEY_FMT, E_REJECTED_MBX_KEY, E_NO_TRADING_WINDOW]"

text \<open>An integer is cast to the enumeration; a value outside it reaches the end of the switch.\<close>

definition e_error_to_string_int :: "int \<Rightarrow> string" where
  "e_error_to_string_int v =
     (case find (\<lambda>e. e_error_value e = v) e_errors of Some e \<Rightarrow> e_error_to_string e | None \<Rightarrow> ''UNKNOWN_ERROR'')"

definition e_error_equal :: "int \<Rightarrow> e_error \<Rightarrow> bool" where
  "e_error_equal v e \<longleftrightarrow> v = e_error_value e"

definition is_api_error :: "fjson \<Rightarrow> bool fj_result" where
  "is_api_error json = bind_exn (fj_contains ''code'' json) (\<lambda>c. if c then fj_contains ''msg'' json else Inr False)"

definition construct_error :: "fjson \<Rightarrow> (int \<times> string) fj_result" where
  "construct_error json =
     bind_exn (fj_at ''code'' json) (\<lambda>c. bind_exn (fj_to_int c) (\<lambda>ec.
     bind_exn (fj_at ''msg'' json) (\<lambda>m. bind_exn (fj_to_sstring m) (\<lambda>msg. Inr (sint ec, msg)))))"

section \<open>Parameters and signature\<close>

definition b2a_hex :: "u8 list \<Rightarrow> string" where
  "b2a_hex p = foldl (\<lambda>res v. res @ [''0123456789abcdef'' ! unat (drop_bit 4 v AND 0x0F)] @ [''0123456789abcdef'' ! unat (v AND 0x0F)]) [] p"

definition hmac_sha256 :: "'k openssl \<Rightarrow> string \<Rightarrow> string \<Rightarrow> string" where
  "hmac_sha256 ossl key data = b2a_hex (ossl_hmac ossl key data)"

text \<open>\<^verbatim>\<open>boost::variant<std::size_t, const char*>\<close>; a null pointer is \<open>None\<close>.\<close>

datatype val_type = Val_size u64 | Val_str "string option"

definition is_valid_value :: "val_type \<Rightarrow> bool" where
  "is_valid_value v = (case v of Val_str p \<Rightarrow> p \<noteq> None | Val_size p \<Rightarrow> p \<noteq> 0)"

definition val_to_string :: "val_type \<Rightarrow> string" where
  "val_to_string v = (case v of Val_str p \<Rightarrow> the p | Val_size p \<Rightarrow> dec_digits (unat p))"

definition append_param :: "string \<Rightarrow> string \<times> val_type \<Rightarrow> string" where
  "append_param data it =
     (if is_valid_value (snd it)
      then (if data \<noteq> [] then data @ ''&'' else data) @ fst it @ ''='' @ val_to_string (snd it)
      else data)"

text \<open>What the client object holds for its requests.\<close>

record v1_config =
  m_host :: string
  m_port :: string
  m_pk :: string
  m_sk :: string
  m_timeout :: u64
  m_client_api_string :: string

definition sign_data :: "'k openssl \<Rightarrow> v1_config \<Rightarrow> u64 \<Rightarrow> string \<Rightarrow> string" where
  "sign_data ossl cfg now data =
     (let data = (if data \<noteq> [] then data @ ''&'' else data) @ ''timestamp='' @ dec_digits (unat now) @
                 ''&recvWindow='' @ dec_digits (unat (m_timeout cfg));
          signature = hmac_sha256 ossl (m_sk cfg) data
      in data @ ''&signature='' @ signature)"

text \<open>A call of \<^verbatim>\<open>post\<close>: signed or not, the path, the verb and the parameters.\<close>

record v1_call =
  vc_signed :: bool
  vc_target :: string
  vc_action :: verb
  vc_map :: "(string \<times> val_type) list"

text \<open>The target and the body; \<open>None\<close> is the failed assertion that the keys are set.\<close>

definition post_data :: "'k openssl \<Rightarrow> v1_config \<Rightarrow> u64 \<Rightarrow> v1_call \<Rightarrow> (string \<times> string) option" where
  "post_data ossl cfg now c =
     (let data = foldl append_param [] (vc_map c) in
      if vc_signed c \<and> (m_pk cfg = [] \<or> m_sk cfg = []) then None
      else
        let data = (if vc_signed c then sign_data ossl cfg now data else data);
            get_delete = (vc_action c = Verb_get \<or> vc_action c = Verb_delete)
        in Some (if get_delete \<and> data \<noteq> [] then (vc_target c @ ''?'' @ data, []) else (vc_target c, data)))"

text \<open>The HTTP request, built alike for synchronous and asynchronous calls.\<close>

record v1_http_request =
  hr_version :: nat
  hr_method :: verb
  hr_target :: string
  hr_body :: string
  hr_headers :: "(string \<times> string) list"

definition v1_make_request :: "v1_config \<Rightarrow> string \<Rightarrow> verb \<Rightarrow> string \<Rightarrow> v1_http_request" where
  "v1_make_request cfg target action data =
     \<lparr>hr_version = 11, hr_method = action, hr_target = target, hr_body = (if action \<noteq> Verb_get then data else []),
      hr_headers =
        (if action \<noteq> Verb_get then [(''Content-Length'', dec_digits (length data))] else []) @
        [(''X-MBX-APIKEY'', m_pk cfg), (''Host'', m_host cfg), (''User-Agent'', m_client_api_string cfg),
         (''Content-Type'', ''application/x-www-form-urlencoded'')]\<rparr>"

section \<open>The methods of the client\<close>

text \<open>A character pointer may be null: such a parameter is left out, as is a number that is zero.\<close>

definition v1_get :: "bool \<Rightarrow> string \<Rightarrow> (string \<times> val_type) list \<Rightarrow> v1_call" where
  "v1_get with_auth target m = \<lparr>vc_signed = with_auth, vc_target = target, vc_action = Verb_get, vc_map = m\<rparr>"

definition v1_ping :: "v1_call" where
  "v1_ping =
     v1_get False ''/api/v3/ping'' []"

definition v1_server_time :: "v1_call" where
  "v1_server_time =
     v1_get False ''/api/v3/time'' []"

definition v1_price :: "string option \<Rightarrow> v1_call" where
  "v1_price symbol =
     v1_get False ''/api/v3/ticker/price'' [(''symbol'', Val_str symbol)]"

definition v1_prices :: "v1_call" where
  "v1_prices =
     v1_get False ''/api/v3/ticker/price'' []"

definition v1_avg_price :: "string option \<Rightarrow> v1_call" where
  "v1_avg_price symbol =
     v1_get False ''/api/v3/avgPrice'' [(''symbol'', Val_str symbol)]"

definition v1_24hrs_ticker :: "string option \<Rightarrow> v1_call" where
  "v1_24hrs_ticker symbol =
     v1_get False ''/api/v3/ticker/24hr'' [(''symbol'', Val_str symbol)]"

definition v1_24hrs_tickers :: "v1_call" where
  "v1_24hrs_tickers =
     v1_get False ''/api/v3/ticker/24hr'' []"

definition v1_exchange_info_all :: "v1_call" where
  "v1_exchange_info_all =
     v1_get False ''/api/v3/exchangeInfo'' []"

definition v1_exchange_info :: "string option \<Rightarrow> v1_call" where
  "v1_exchange_info symbol =
     v1_get False ''/api/v3/exchangeInfo'' [(''symbol'', Val_str symbol)]"

fun symbols_text :: "string list \<Rightarrow> string" where
  "symbols_text [] = []"
| "symbols_text (s # ss) = [CHR 0x22] @ s @ [CHR 0x22] @ (if ss \<noteq> [] then '','' else []) @ symbols_text ss"

definition v1_exchange_info_symbols :: "string list \<Rightarrow> v1_call" where
  "v1_exchange_info_symbols symbols =
     v1_get False ''/api/v3/exchangeInfo'' [(''symbols'', Val_str (Some (''['' @ symbols_text symbols @ '']'')))]"

definition v1_depths :: "string option \<Rightarrow> u64 \<Rightarrow> v1_call" where
  "v1_depths symbol limit =
     v1_get False ''/api/v3/depth'' [(''symbol'', Val_str symbol), (''limit'', Val_size limit)]"

definition v1_trade :: "string option \<Rightarrow> v1_call" where
  "v1_trade symbol =
     v1_get False ''/api/v3/trades'' [(''symbol'', Val_str symbol), (''limit'', Val_size 1)]"

definition v1_trades :: "string option \<Rightarrow> u64 \<Rightarrow> v1_call" where
  "v1_trades symbol limit =
     v1_get False ''/api/v3/trades'' [(''symbol'', Val_str symbol), (''limit'', Val_size limit)]"

definition v1_agg_trade :: "string option \<Rightarrow> v1_call" where
  "v1_agg_trade symbol =
     v1_get False ''/api/v3/aggTrades'' [(''symbol'', Val_str symbol), (''limit'', Val_size 1)]"

definition v1_agg_trades :: "string option \<Rightarrow> u64 \<Rightarrow> v1_call" where
  "v1_agg_trades symbol limit =
     v1_get False ''/api/v3/aggTrades'' [(''symbol'', Val_str symbol), (''limit'', Val_size limit)]"

definition v1_klines :: "string option \<Rightarrow> string option \<Rightarrow> u64 \<Rightarrow> v1_call" where
  "v1_klines symbol interval limit =
     v1_get False ''/api/v3/klines'' [(''symbol'', Val_str symbol), (''limit'', Val_size limit), (''interval'', Val_str interval)]"

definition v1_account_info :: "v1_call" where
  "v1_account_info =
     v1_get True ''/api/v3/account'' []"

definition v1_order_info :: "string option \<Rightarrow> u64 \<Rightarrow> string option \<Rightarrow> v1_call" where
  "v1_order_info symbol orderid client_orderid =
     v1_get True ''/api/v3/order'' [(''symbol'', Val_str symbol), (''orderId'', Val_size orderid), (''origClientOrderId'', Val_str client_orderid)]"

definition v1_open_orders :: "string option \<Rightarrow> v1_call" where
  "v1_open_orders symbol =
     v1_get True ''/api/v3/openOrders'' [(''symbol'', Val_str symbol)]"

definition v1_all_orders :: "string option \<Rightarrow> u64 \<Rightarrow> u64 \<Rightarrow> u64 \<Rightarrow> u64 \<Rightarrow> v1_call" where
  "v1_all_orders symbol orderid start_time end_time limit =
     v1_get True ''/api/v3/allOrders''
       [(''symbol'', Val_str symbol), (''orderId'', Val_size orderid), (''startTime'', Val_size start_time), (''endTime'', Val_size end_time), (''limit'', Val_size limit)]"

text \<open>The parameters of an order, the same for a real and a test order.\<close>

record v1_order =
  od_symbol :: "string option"
  od_side :: e_side
  od_type :: e_type
  od_time :: e_time
  od_resp :: e_trade_resp_type
  od_amount :: "string option"
  od_price :: "string option"
  od_client_order_id :: "string option"
  od_stop_price :: "string option"
  od_iceberg_amount :: "string option"

definition order_params :: "v1_order \<Rightarrow> (string \<times> val_type) list" where
  "order_params od =
     (let time_str = (if od_type od = Type_market then None else Some (e_time_to_string (od_time od))) in
      [(''symbol'', Val_str (od_symbol od)), (''side'', Val_str (Some (e_side_to_string (od_side od)))),
       (''type'', Val_str (Some (e_type_to_string (od_type od)))), (''timeInForce'', Val_str time_str),
       (''quantity'', Val_str (od_amount od)), (''price'', Val_str (od_price od)),
       (''newClientOrderId'', Val_str (od_client_order_id od)), (''stopPrice'', Val_str (od_stop_price od)),
       (''icebergQty'', Val_str (od_iceberg_amount od)),
       (''newOrderRespType'', Val_str (Some (e_trade_resp_type_to_string (od_resp od))))])"

definition v1_new_order :: "v1_order \<Rightarrow> v1_call" where
  "v1_new_order od =
     \<lparr>vc_signed = True, vc_target = ''/api/v3/order'', vc_action = Verb_post, vc_map = order_params od\<rparr>"

definition v1_new_test_order :: "v1_order \<Rightarrow> v1_call" where
  "v1_new_test_order od =
     \<lparr>vc_signed = True, vc_target = ''/api/v3/order/test'', vc_action = Verb_post, vc_map = order_params od\<rparr>"

definition v1_cancel_order :: "string option \<Rightarrow> u64 \<Rightarrow> string option \<Rightarrow> string option \<Rightarrow> v1_call" where
  "v1_cancel_order symbol order_id client_order_id new_client_order_id =
     \<lparr>vc_signed = True, vc_target = ''/api/v3/order'', vc_action = Verb_delete, vc_map = 
       [(''symbol'', Val_str symbol), (''orderId'', Val_size order_id), (''origClientOrderId'', Val_str client_order_id), (''newClientOrderId'', Val_str new_client_order_id)]\<rparr>"

definition v1_cancel_all_open_orders :: "string option \<Rightarrow> v1_call" where
  "v1_cancel_all_open_orders symbol =
     \<lparr>vc_signed = True, vc_target = ''/api/v3/openOrders'', vc_action = Verb_delete, vc_map = [(''symbol'', Val_str symbol)]\<rparr>"

definition v1_my_trades :: "string option \<Rightarrow> u64 \<Rightarrow> u64 \<Rightarrow> u64 \<Rightarrow> u64 \<Rightarrow> v1_call" where
  "v1_my_trades symbol start_time end_time from_id limit =
     v1_get True ''/api/v3/myTrades''
       [(''symbol'', Val_str symbol), (''startTime'', Val_size start_time), (''endTime'', Val_size end_time), (''fromId'', Val_size from_id), (''limit'', Val_size limit)]"

definition v1_start_user_data_stream :: "v1_call" where
  "v1_start_user_data_stream =
     \<lparr>vc_signed = False, vc_target = ''/api/v3/userDataStream'', vc_action = Verb_post, vc_map = []\<rparr>"

definition v1_ping_user_data_stream :: "string option \<Rightarrow> v1_call" where
  "v1_ping_user_data_stream listen_key =
     \<lparr>vc_signed = False, vc_target = ''/api/v3/userDataStream'', vc_action = Verb_put, vc_map = [(''listenKey'', Val_str listen_key)]\<rparr>"

definition v1_close_user_data_stream :: "string option \<Rightarrow> v1_call" where
  "v1_close_user_data_stream listen_key =
     \<lparr>vc_signed = False, vc_target = ''/api/v3/userDataStream'', vc_action = Verb_delete, vc_map = [(''listenKey'', Val_str listen_key)]\<rparr>"

section \<open>Properties\<close>

lemma e_error_to_string_value: "e_error_to_string_int (e_error_value e) = e_error_to_string e"
  by (cases e) (simp_all add: e_error_to_string_int_def e_errors_def)

lemma e_error_to_string_int_unknown: "v \<notin> range e_error_value \<Longrightarrow> e_error_to_string_int v = ''UNKNOWN_ERROR''"
  by (auto simp: e_error_to_string_int_def find_None_iff2 split: option.split dest!: find_Some_iff [THEN iffD1])

text \<open>The hexadecimal rendering is the one of the newer client.\<close>

lemma b2a_hex_eq: "b2a_hex p = to_hex p"
proof -
  have "foldl (\<lambda>res v. res @ [''0123456789abcdef'' ! unat (drop_bit 4 v AND 0x0F)] @ [''0123456789abcdef'' ! unat (v AND 0x0F)]) acc p = acc @ to_hex p" for acc
    by (induction p arbitrary: acc) (simp_all add: to_hex_def hex_char_def)
  from this [of "[]"] show ?thesis by (simp add: b2a_hex_def)
qed

text \<open>
  The parameters that are sent: a null pointer and the number zero are left out, a text goes as it is, a number
  in decimal digits.
\<close>

fun sent_params :: "(string \<times> val_type) list \<Rightarrow> (string \<times> string) list" where
  "sent_params [] = []"
| "sent_params ((k, Val_str None) # m) = sent_params m"
| "sent_params ((k, Val_str (Some t)) # m) = (k, t) # sent_params m"
| "sent_params ((k, Val_size n) # m) = (if n = 0 then sent_params m else (k, dec_digits (unat n)) # sent_params m)"

definition v1_param_text :: "string \<times> string \<Rightarrow> string" where
  "v1_param_text it = fst it @ ''='' @ snd it"

lemma join_amp_Nil: "join_amp (map v1_param_text ps) = [] \<longleftrightarrow> ps = []"
  by (cases ps; cases "tl ps") (auto simp: v1_param_text_def)

lemma append_param_join:
  "append_param (join_amp (map v1_param_text ps)) (k, v) = join_amp (map v1_param_text (ps @ sent_params [(k, v)]))"
  using join_amp_Nil [of ps] join_amp_snoc [of "map v1_param_text ps"]
  by (cases "[(k, v)]" rule: sent_params.cases)
    (auto simp: append_param_def v1_param_text_def is_valid_value_def val_to_string_def)

lemma sent_params_Cons: "sent_params (it # m) = sent_params [it] @ sent_params m"
  by (cases "it # m" rule: sent_params.cases) simp_all

lemma foldl_append_param:
  "foldl append_param (join_amp (map v1_param_text ps)) m = join_amp (map v1_param_text (ps @ sent_params m))"
proof (induction m arbitrary: ps)
  case (Cons it m)
  then show ?case
    using append_param_join [of ps "fst it" "snd it"] Cons.IH [of "ps @ sent_params [it]"] sent_params_Cons [of it m] by simp
qed simp

text \<open>The parameters of authentication, the signature over everything before it.\<close>

definition auth_params :: "'k openssl \<Rightarrow> v1_config \<Rightarrow> u64 \<Rightarrow> (string \<times> string) list \<Rightarrow> (string \<times> string) list" where
  "auth_params ossl cfg now ps =
     (let ps = ps @ [(''timestamp'', dec_digits (unat now)), (''recvWindow'', dec_digits (unat (m_timeout cfg)))]
      in ps @ [(''signature'', to_hex (ossl_hmac ossl (m_sk cfg) (join_amp (map v1_param_text ps))))])"

lemma sign_data_params:
  "sign_data ossl cfg now (join_amp (map v1_param_text ps)) = join_amp (map v1_param_text (auth_params ossl cfg now ps))"
proof -
  have "(if join_amp (map v1_param_text ps) \<noteq> [] then join_amp (map v1_param_text ps) @ ''&'' else join_amp (map v1_param_text ps)) @
      ''timestamp='' @ dec_digits (unat now) @ ''&recvWindow='' @ dec_digits (unat (m_timeout cfg)) =
    join_amp (map v1_param_text (ps @ [(''timestamp'', dec_digits (unat now)), (''recvWindow'', dec_digits (unat (m_timeout cfg)))]))"
    using join_amp_Nil [of ps] join_amp_snoc [of "map v1_param_text ps"]
      join_amp_snoc [of "map v1_param_text ps @ [v1_param_text (''timestamp'', dec_digits (unat now))]"]
    by (cases "ps = []") (simp_all add: v1_param_text_def)
  then show ?thesis
    unfolding sign_data_def auth_params_def Let_def hmac_sha256_def b2a_hex_eq
    using join_amp_snoc [of "map v1_param_text (ps @ [(''timestamp'', dec_digits (unat now)), (''recvWindow'', dec_digits (unat (m_timeout cfg)))])"]
    by (simp add: v1_param_text_def)
qed

text \<open>Parameter values are not encoded: an ampersand in one reads as further parameters.\<close>

lemma v1_parameters_collide:
  "foldl append_param [] [(''newClientOrderId'', Val_str (Some ''a&stopPrice=1'')), (''stopPrice'', Val_str None)] =
   foldl append_param [] [(''newClientOrderId'', Val_str (Some ''a'')), (''stopPrice'', Val_str (Some ''1''))]"
  by (simp add: append_param_def is_valid_value_def val_to_string_def)

text \<open>What a reader of the parameters that splits at the ampersands and at the first equals sign of each finds.\<close>

definition read_params :: "string \<Rightarrow> (string \<times> string) list" where
  "read_params s = map (\<lambda>p. (takeWhile (\<lambda>c. c \<noteq> CHR ''='') p, drop 1 (dropWhile (\<lambda>c. c \<noteq> CHR ''='') p))) (split_on (CHR ''&'') s)"

definition plain_params :: "(string \<times> string) list \<Rightarrow> bool" where
  "plain_params ps \<longleftrightarrow> (\<forall>(k, t)\<in>set ps. CHR ''&'' \<notin> set k \<and> CHR ''='' \<notin> set k \<and> CHR ''&'' \<notin> set t)"

lemma split_at_equals:
  "CHR ''='' \<notin> set k \<Longrightarrow> takeWhile (\<lambda>c. c \<noteq> CHR ''='') (k @ CHR ''='' # t) = k \<and>
     dropWhile (\<lambda>c. c \<noteq> CHR ''='') (k @ CHR ''='' # t) = CHR ''='' # t"
  by (induction k) auto

lemma read_params_join:
  assumes "plain_params ps" "ps \<noteq> []"
  shows "read_params (join_amp (map v1_param_text ps)) = ps"
proof -
  have "list_all (\<lambda>s. CHR ''&'' \<notin> set s) (map v1_param_text ps)"
    using assms(1) by (auto simp: plain_params_def list_all_iff v1_param_text_def)
  then have "split_on (CHR ''&'') (join_amp (map v1_param_text ps)) = map v1_param_text ps"
    using assms(2) by (intro split_join) simp_all
  moreover have "map (\<lambda>p. (takeWhile (\<lambda>c. c \<noteq> CHR ''='') p, drop 1 (dropWhile (\<lambda>c. c \<noteq> CHR ''='') p))) (map v1_param_text ps) = ps"
    unfolding map_map
    by (rule map_idI) (use assms(1) split_at_equals in \<open>auto simp: plain_params_def v1_param_text_def\<close>)
  ultimately show ?thesis by (simp add: read_params_def)
qed

lemma digits_no_amp: "CHR ''&'' \<notin> set (dec_digits n)"
  using is_digit_dec_digits [of n] by (auto simp: list_all_iff is_digit_def)

lemma to_hex_no_amp: "CHR ''&'' \<notin> set (to_hex bs)"
proof
  assume "CHR ''&'' \<in> set (to_hex bs)"
  then obtain b where "CHR ''&'' = hex_char (unat (drop_bit 4 b AND 0x0f)) \<or> CHR ''&'' = hex_char (unat (b AND (0x0f::u8)))"
    by (auto simp: to_hex_def)
  moreover have "hex_char k \<noteq> CHR ''&''" if "k < 16" for k
  proof -
    from that have "k \<in> set [0..<16]" by simp
    then show ?thesis by (auto simp: hex_char_def upt_rec numeral_eq_Suc)
  qed
  moreover have "unat (x AND (0x0f::u8)) < 16" for x
    using word_and_le1 [of x "0x0f"] by (simp add: word_le_nat_alt)
  ultimately show False by metis
qed

lemma plain_auth_params: "plain_params ps \<Longrightarrow> plain_params (auth_params ossl cfg now ps)"
  by (auto simp: plain_params_def auth_params_def Let_def digits_no_amp to_hex_no_amp)

text \<open>
  C35: What a request of the legacy client carries. Its parameters are those that are set, in the order of the
  call, joined by ampersands: a text that is not a null pointer as it is, and a number that is not zero in
  decimal digits. A signed request adds the time and the receive window, and then the signature, which is the HMAC
  under the secret key of everything before it. \<^verbatim>\<open>GET\<close> and \<^verbatim>\<open>DELETE\<close> put the parameters after a question mark in the
  target and send no body, other verbs put them in the body. Signed requests need both keys. Where no text holds an
  ampersand, the receiver that splits at ampersands and equals signs reads exactly these parameters.
\<close>

theorem v1_post_data_signs:
  "let params = (if vc_signed c then auth_params ossl cfg now (sent_params (vc_map c)) else sent_params (vc_map c));
       payload = join_amp (map v1_param_text params)
   in post_data ossl cfg now c =
       (if vc_signed c \<and> (m_pk cfg = [] \<or> m_sk cfg = []) then None
        else Some (if vc_action c \<in> {Verb_get, Verb_delete} then (if payload = [] then vc_target c else vc_target c @ ''?'' @ payload, [])
                   else (vc_target c, payload))) \<and>
      (plain_params (sent_params (vc_map c)) \<longrightarrow> params \<noteq> [] \<longrightarrow> read_params payload = params)"
proof -
  have "read_params (join_amp (map v1_param_text ps)) = ps"
    if "plain_params (sent_params (vc_map c))" "ps \<noteq> []" "ps = auth_params ossl cfg now (sent_params (vc_map c)) \<or> ps = sent_params (vc_map c)" for ps
    using that plain_auth_params by (intro read_params_join) auto
  then show ?thesis
    using foldl_append_param [of "[]" "vc_map c"] sign_data_params [of ossl cfg now "sent_params (vc_map c)"]
    by (auto simp: post_data_def Let_def)
qed

theorem v1_post_data_signs_witness:
  "let cfg = \<lparr>m_host = [], m_port = [], m_pk = ''p'', m_sk = ''s'', m_timeout = 5000, m_client_api_string = []\<rparr>;
       ossl = \<lparr>ossl_hmac = \<lambda>k d. [0x1f], ossl_new_bio = \<lambda>b. True, ossl_read_key = \<lambda>k. Some (), ossl_new_ctx = True,
         ossl_sign_size = \<lambda>k d. True, ossl_sign = \<lambda>k d. None, ossl_base64 = \<lambda>b. []\<rparr>;
       params = auth_params ossl cfg 7 [(''symbol'', ''BTCUSDT''), (''orderId'', ''42'')];
       payload = join_amp (map v1_param_text params)
   in post_data ossl cfg 7 (v1_order_info (Some ''BTCUSDT'') 42 None) = Some (''/api/v3/order?'' @ payload, []) \<and>
      read_params payload = params"
proof -
  let ?cfg = "\<lparr>m_host = [], m_port = [], m_pk = ''p'', m_sk = ''s'', m_timeout = 5000, m_client_api_string = []\<rparr>"
  let ?ossl = "\<lparr>ossl_hmac = \<lambda>k d. [0x1f], ossl_new_bio = \<lambda>b. True, ossl_read_key = \<lambda>k. Some (), ossl_new_ctx = True,
    ossl_sign_size = \<lambda>k d. True, ossl_sign = \<lambda>k d. None, ossl_base64 = \<lambda>b. []\<rparr>"
  let ?c = "v1_order_info (Some ''BTCUSDT'') 42 None"
  let ?ps = "auth_params ?ossl ?cfg 7 [(''symbol'', ''BTCUSDT''), (''orderId'', ''42'')]"
  have "dec_digits 42 = ''42''" by code_simp
  then have sent: "sent_params (vc_map ?c) = [(''symbol'', ''BTCUSDT''), (''orderId'', ''42'')]"
    by (simp add: v1_order_info_def v1_get_def)
  have call: "vc_signed ?c" "vc_target ?c = ''/api/v3/order''" "vc_action ?c = Verb_get" by (simp_all add: v1_order_info_def v1_get_def)
  have some: "?ps \<noteq> []" by (simp add: auth_params_def Let_def)
  moreover have "plain_params (sent_params (vc_map ?c))" by (simp add: sent plain_params_def)
  ultimately have "read_params (join_amp (map v1_param_text ?ps)) = ?ps"
    using v1_post_data_signs [where ossl = ?ossl and cfg = ?cfg and now = 7 and c = ?c] by (simp add: Let_def call sent)
  moreover have "post_data ?ossl ?cfg 7 ?c = Some (''/api/v3/order'' @ ''?'' @ join_amp (map v1_param_text ?ps), [])"
    using v1_post_data_signs [where ossl = ?ossl and cfg = ?cfg and now = 7 and c = ?c] some by (simp add: Let_def call sent join_amp_Nil)
  ultimately show ?thesis by (simp add: Let_def)
qed

end
