(* ===== verification/V1_Types_Correct.thy ===== *)
theory V1_Types_Correct
  imports V1_Stream_Types V1_Requests
begin

text \<open>
  What the legacy types read and write. A value of most types, written to a stream and loaded again by
  \<^verbatim>\<open>flatjson.hpp\<close>, is read back as it was; the locale \<open>printed_type\<close> says what is needed and is interpreted on
  every type that provides it. The remaining printers are shown to fail.
\<close>

section \<open>Documents of members\<close>

definition j_size :: "u64 \<Rightarrow> json" where
  "j_size n = J_simple FJ_TYPE_NUMBER (size_text n)"

definition j_bool :: "bool \<Rightarrow> json" where
  "j_bool b = J_simple FJ_TYPE_BOOL (bool_text b)"

definition j_text :: "string \<Rightarrow> json" where
  "j_text s = J_simple FJ_TYPE_STRING s"

text \<open>The decimal is one whose text reads back as itself; a stream rounds others to its precision.\<close>

definition reads_back :: "'d double_ops \<Rightarrow> 'd \<Rightarrow> bool" where
  "reads_back D d \<longleftrightarrow> dt_assign D (dt_show D d) = Inr d"

named_theorems doc_simps

lemma json_text_members [doc_simps]:
  "json_text (j_size n) = size_text n" "json_text (j_bool b) = bool_text b" "json_text (j_text s) = qt @ s @ qt"
  by (simp_all add: j_size_def j_bool_def j_text_def)

lemma size_text_length: "length (size_text n) \<le> 20"
proof -
  have "unat n < 2 ^ 64" using unsigned_less [of n, where ?'a = nat] by simp
  then show ?thesis unfolding size_text_def by (intro length_dec_digits) simp_all
qed

lemma conv_size_text: "conv_to_u64 (size_text n) = n"
  using conv_to_u64_digits [of "size_text n"] size_text_length [of n]
  by (simp add: size_text_def digit_string_dec_digits)

lemma conv_bool_text: "conv_to_bool (bool_text b) = b"
  by (simp add: conv_to_bool_def bool_text_def raw_char_def)

lemma valid_represents [simp]:
  assumes "represents j v"
  shows "fj_is_valid j"
proof -
  obtain t where t: "fj_root j = Inr t" using root_type [OF assms] by metis
  then have "m_beg j \<noteq> None" "m_storage j \<noteq> []"
    by (auto simp: fj_root_def fj_tok_def split: option.splits if_splits)
  then show ?thesis using assms by (simp add: fj_is_valid_def represents_def)
qed

lemma checked_simps [simp]: "checked True = Inr ()" "checked False = Inl Fj_undefined"
  by (simp_all add: checked_def)

lemma expect_represents: "represents j v \<Longrightarrow> json_type v = t \<Longrightarrow> expect_type t j = Inr ()"
  by (simp add: expect_type_def is_type_represents)

text \<open>The reads of a value that is represented.\<close>

lemma to_u64_size: "represents j (j_size n) \<Longrightarrow> fj_to_u64 j = Inr n"
  by (simp add: j_size_def fj_to_u64_def to_sstring_represents conv_size_text)

lemma to_u64_quoted: "represents j (j_text (size_text n)) \<Longrightarrow> fj_to_u64 j = Inr n"
  by (simp add: j_text_def fj_to_u64_def to_sstring_represents conv_size_text)

lemma to_bool_bool: "represents j (j_bool b) \<Longrightarrow> fj_to_bool j = Inr b"
  by (simp add: j_bool_def fj_to_bool_def to_sstring_represents is_type_represents json_type_def conv_bool_text)

lemma to_sstring_text: "represents j (j_text s) \<Longrightarrow> fj_to_sstring j = Inr s"
  by (simp add: j_text_def to_sstring_represents)

lemma not_null_text: "represents j (j_text s) \<Longrightarrow> fj_is_type FJ_TYPE_NULL j = Inr False"
  by (simp add: j_text_def is_type_represents json_type_def)

lemma assign_shown: "reads_back D d \<Longrightarrow> assign_double D (dt_show D d) = Inr d"
  by (simp add: reads_back_def assign_double_def)

text \<open>The reads of a member.\<close>

lemma get_size_member [doc_simps]:
  assumes "represents j (J_object mems)" "map_of mems k = Some (j_size n)"
  shows "get_size k j = Inr n"
  using at_member(1) [OF assms] to_u64_size by (auto simp: get_size_def)

lemma get_size_quoted [doc_simps]:
  assumes "represents j (J_object mems)" "map_of mems k = Some (j_text (size_text n))"
  shows "get_size k j = Inr n"
  using at_member(1) [OF assms] to_u64_quoted by (auto simp: get_size_def)

lemma get_bool_member [doc_simps]:
  assumes "represents j (J_object mems)" "map_of mems k = Some (j_bool b)"
  shows "get_bool k j = Inr b"
  using at_member(1) [OF assms] to_bool_bool by (auto simp: get_bool_def)

lemma get_bool_flag [doc_simps]:
  assumes "represents j (J_object mems)" "map_of mems k = Some (j_text (flag_text b))"
  shows "get_bool k j = Inr False"
proof -
  obtain j' where j': "fj_at k j = Inr j'" "represents j' (j_text (flag_text b))" using at_member(1) [OF assms] by blast
  then have "fj_to_bool j' = Inr False"
    using not_null_text [OF j'(2)] to_sstring_text [OF j'(2)] by (simp add: fj_to_bool_def conv_to_bool_def flag_text_def)
  then show ?thesis using j'(1) by (simp add: get_bool_def)
qed

lemma get_text_member [doc_simps]:
  assumes "represents j (J_object mems)" "map_of mems k = Some (j_text s)"
  shows "get_text k j = Inr s"
  using at_member(1) [OF assms] to_sstring_text not_null_text by (auto simp: get_text_def)

lemma get_double_member [doc_simps]:
  assumes "represents j (J_object mems)" "map_of mems k = Some (j_text (dt_show D d))" "reads_back D d"
  shows "get_double D k j = Inr d"
  using at_member(1) [OF assms(1,2)] to_sstring_text assign_shown [OF assms(3)] by (auto simp: get_double_def)

text \<open>The reads of an element.\<close>

lemma size_at_element [doc_simps]:
  assumes "represents j (J_array vs)" "i < length vs" "vs ! i = j_size n"
  shows "size_at i j = Inr n"
  using at_index [OF assms(1,2)] assms(3) to_u64_size by (auto simp: size_at_def)

lemma double_at_element [doc_simps]:
  assumes "represents j (J_array vs)" "i < length vs" "vs ! i = j_text (dt_show D d)" "reads_back D d"
  shows "double_at D i j = Inr d"
  using at_index [OF assms(1,2)] assms(3) to_sstring_text assign_shown [OF assms(4)] by (auto simp: double_at_def)

lemma map_exn_all:
  "length ys = length xs \<Longrightarrow> (\<And>i. i < length xs \<Longrightarrow> f (xs ! i) = Inr (ys ! i)) \<Longrightarrow> map_exn f xs = Inr ys"
proof (induction xs arbitrary: ys)
  case (Cons x xs)
  obtain y ys' where ys: "ys = y # ys'" using Cons.prems(1) by (cases ys) auto
  have "map_exn f xs = Inr ys'"
    using Cons.prems(1) Cons.prems(2) [of "Suc _"] by (intro Cons.IH) (simp_all add: ys)
  then show ?case using Cons.prems(2) [of 0] by (simp add: ys)
qed simp

lemma read_each_array:
  assumes "represents j (J_array (map doc xs))" "\<And>x j'. x \<in> set xs \<Longrightarrow> represents j' (doc x) \<Longrightarrow> f j' = Inr x"
  shows "read_each f j = Inr xs"
proof -
  have "map_exn (\<lambda>idx. bind_exn (fj_at_idx idx j) f) [0..<length xs] = Inr xs"
  proof (rule map_exn_all)
    fix i
    assume "i < length [0..<length xs]"
    then have i: "i < length xs" by simp
    then obtain j' where "fj_at_idx i j = Inr j'" "represents j' (doc (xs ! i))"
      using at_index [OF assms(1), of i] by auto
    then show "bind_exn (fj_at_idx ([0..<length xs] ! i) j) f = Inr (xs ! i)"
      using assms(2) [of "xs ! i" j'] i by simp
  qed simp
  then show ?thesis using size_represents(2) [OF assms(1)] by (simp add: read_each_def)
qed

lemma json_texts_commas: "json_texts vs = commas (map json_text vs)"
  by (induction vs) simp_all

section \<open>Types that read back what they write\<close>

locale printed_type =
  fixes print :: "'a \<Rightarrow> string"
    and construct :: "fjson \<Rightarrow> 'a fj_result"
    and doc :: "'a \<Rightarrow> json"
    and fine :: "'a \<Rightarrow> bool"
  assumes print_doc: "print x = json_text (doc x)"
    and read_doc: "fine x \<Longrightarrow> represents j (doc x) \<Longrightarrow> construct j = Inr x"
begin

lemma read_back:
  assumes "fine x" "json_ok (doc x)"
  shows "\<exists>j. fj_load (print x) = Some j \<and> construct j = Inr x"
  using load_document [OF assms(2)] read_doc [OF assms(1) represents_document [OF assms(2)]] by (simp add: print_doc)

lemma commas_print: "commas (map print xs) = json_texts (map doc xs)"
proof -
  have "print = (\<lambda>x. json_text (doc x))" by (simp add: fun_eq_iff print_doc)
  then show ?thesis by (simp add: json_texts_commas comp_def)
qed

lemma print_all: "''['' @ commas (map print xs) @ '']'' = json_text (J_array (map doc xs))"
  by (simp add: commas_print)

lemma read_all: "represents j (J_array (map doc xs)) \<Longrightarrow> list_all fine xs \<Longrightarrow> read_each construct j = Inr xs"
  by (rule read_each_array) (auto simp: list_all_iff intro: read_doc)

lemma read_member:
  assumes "represents j (J_object mems)" "map_of mems k = Some (J_array (map doc xs))" "list_all fine xs"
  shows "\<exists>a. fj_at k j = Inr a \<and> expect_type FJ_TYPE_ARRAY a = Inr () \<and> read_each construct a = Inr xs"
  using at_member(1) [OF assms(1,2)] read_all assms(3) expect_represents by (fastforce simp: json_type_def)

end

text \<open>A map written in its order is built again by its insertions.\<close>

lemma map_emplace_last: "\<forall>e\<in>set m. fst e < (k :: string) \<Longrightarrow> map_emplace (<) k v m = m @ [(k, v)]"
  by (induction m) (auto simp: less_not_sym)

lemma map_put_last: "\<forall>e\<in>set m. fst e < (k :: string) \<Longrightarrow> map_put (<) k v m = m @ [(k, v)]"
  by (induction m) (auto simp: less_not_sym)

definition keyed :: "('a \<Rightarrow> string) \<Rightarrow> (string, 'a) smap \<Rightarrow> bool" where
  "keyed key m \<longleftrightarrow> map_ordered (<) m \<and> (\<forall>e\<in>set m. key (snd e) = fst e)"

lemma ordered_snoc:
  "map_ordered (<) (m @ [(k :: string, v)]) \<Longrightarrow> map_ordered (<) m \<and> (\<forall>e\<in>set m. fst e < k)"
  by (auto simp: map_ordered_def sorted_wrt_append)

lemma emplace_keyed: "keyed key m \<Longrightarrow> emplace_all key (map snd m) = m"
proof (induction m rule: rev_induct)
  case (snoc e m)
  obtain k v where e: "e = (k, v)" by (cases e)
  have "keyed key m" "key v = k" "\<forall>e\<in>set m. fst e < k" using snoc.prems ordered_snoc [of m k v] by (auto simp: keyed_def e)
  then show ?case using snoc.IH by (simp add: e emplace_all_def map_emplace_last)
qed (simp add: emplace_all_def)

lemma put_keyed: "keyed key m \<Longrightarrow> foldl (\<lambda>m x. map_put (<) (key x) x m) [] (map snd m) = m"
proof (induction m rule: rev_induct)
  case (snoc e m)
  obtain k v where e: "e = (k, v)" by (cases e)
  have "keyed key m" "key v = k" "\<forall>e\<in>set m. fst e < k" using snoc.prems ordered_snoc [of m k v] by (auto simp: keyed_def e)
  then show ?case using snoc.IH by (simp add: e map_put_last)
qed simp

section \<open>The types\<close>

definition doc_v1_server_time :: "v1_server_time_t \<Rightarrow> json" where
  "doc_v1_server_time x = J_object
     [(''serverTime'', j_size (srv_serverTime x))]"

interpretation server_time: printed_type print_v1_server_time construct_v1_server_time doc_v1_server_time "\<lambda>_. True"
  by unfold_locales (simp_all add: print_v1_server_time_def construct_v1_server_time_def doc_v1_server_time_def doc_simps)

definition doc_v1_avg_price :: "'d double_ops \<Rightarrow> 'd v1_avg_price_t \<Rightarrow> json" where
  "doc_v1_avg_price D x = J_object
     [(''mins'', j_size (avgp_mins x)),
      (''price'', j_text (dt_show D (avgp_price x)))]"

definition fine_v1_avg_price :: "'d double_ops \<Rightarrow> 'd v1_avg_price_t \<Rightarrow> bool" where
  "fine_v1_avg_price D x \<longleftrightarrow> reads_back D (avgp_price x)"

interpretation avg_price: printed_type "print_v1_avg_price D" "construct_v1_avg_price D" "doc_v1_avg_price D" "fine_v1_avg_price D" for D
  by unfold_locales (simp_all add: print_v1_avg_price_def construct_v1_avg_price_def doc_v1_avg_price_def fine_v1_avg_price_def doc_simps)

definition doc_v1_price :: "'d double_ops \<Rightarrow> 'd v1_price_t \<Rightarrow> json" where
  "doc_v1_price D x = J_object
     [(''symbol'', j_text (price_symbol x)),
      (''price'', j_text (dt_show D (price_price x)))]"

definition fine_v1_price :: "'d double_ops \<Rightarrow> 'd v1_price_t \<Rightarrow> bool" where
  "fine_v1_price D x \<longleftrightarrow> reads_back D (price_price x)"

interpretation price: printed_type "print_v1_price D" "construct_v1_price D" "doc_v1_price D" "fine_v1_price D" for D
  by unfold_locales (simp_all add: print_v1_price_def construct_v1_price_def doc_v1_price_def fine_v1_price_def doc_simps)

interpretation price_item: printed_type "print_v1_price D" "read_v1_price D" "doc_v1_price D" "fine_v1_price D" for D
  by unfold_locales (simp_all add: print_v1_price_def read_v1_price_def doc_v1_price_def fine_v1_price_def doc_simps)

definition doc_v1_24hrs_ticker :: "'d double_ops \<Rightarrow> 'd v1_24hrs_ticker_t \<Rightarrow> json" where
  "doc_v1_24hrs_ticker D x = J_object
     [(''symbol'', j_text (day_symbol x)),
      (''priceChange'', j_text (dt_show D (day_priceChange x))),
      (''priceChangePercent'', j_text (dt_show D (day_priceChangePercent x))),
      (''weightedAvgPrice'', j_text (dt_show D (day_weightedAvgPrice x))),
      (''prevClosePrice'', j_text (dt_show D (day_prevClosePrice x))),
      (''lastPrice'', j_text (dt_show D (day_lastPrice x))),
      (''lastQty'', j_text (dt_show D (day_lastQty x))),
      (''bidPrice'', j_text (dt_show D (day_bidPrice x))),
      (''askPrice'', j_text (dt_show D (day_askPrice x))),
      (''openPrice'', j_text (dt_show D (day_openPrice x))),
      (''highPrice'', j_text (dt_show D (day_highPrice x))),
      (''lowPrice'', j_text (dt_show D (day_lowPrice x))),
      (''volume'', j_text (dt_show D (day_volume x))),
      (''quoteVolume'', j_text (dt_show D (day_quoteVolume x))),
      (''openTime'', j_size (day_openTime x)),
      (''closeTime'', j_size (day_closeTime x)),
      (''firstId'', j_size (day_firstId x)),
      (''lastId'', j_size (day_lastId x)),
      (''count'', j_size (day_count x))]"

definition fine_v1_24hrs_ticker :: "'d double_ops \<Rightarrow> 'd v1_24hrs_ticker_t \<Rightarrow> bool" where
  "fine_v1_24hrs_ticker D x \<longleftrightarrow> reads_back D (day_priceChange x) \<and> reads_back D (day_priceChangePercent x) \<and> reads_back D (day_weightedAvgPrice x) \<and> reads_back D (day_prevClosePrice x) \<and> reads_back D (day_lastPrice x) \<and> reads_back D (day_lastQty x) \<and> reads_back D (day_bidPrice x) \<and> reads_back D (day_askPrice x) \<and> reads_back D (day_openPrice x) \<and> reads_back D (day_highPrice x) \<and> reads_back D (day_lowPrice x) \<and> reads_back D (day_volume x) \<and> reads_back D (day_quoteVolume x)"

interpretation day_ticker: printed_type "print_v1_24hrs_ticker D" "construct_v1_24hrs_ticker D" "doc_v1_24hrs_ticker D" "fine_v1_24hrs_ticker D" for D
  by unfold_locales (simp_all add: print_v1_24hrs_ticker_def construct_v1_24hrs_ticker_def doc_v1_24hrs_ticker_def fine_v1_24hrs_ticker_def doc_simps)

definition doc_v1_balance :: "'d double_ops \<Rightarrow> 'd v1_balance_t \<Rightarrow> json" where
  "doc_v1_balance D x = J_object
     [(''asset'', j_text (bal_asset x)),
      (''free'', j_text (dt_show D (bal_free x))),
      (''locked'', j_text (dt_show D (bal_locked x)))]"

definition fine_v1_balance :: "'d double_ops \<Rightarrow> 'd v1_balance_t \<Rightarrow> bool" where
  "fine_v1_balance D x \<longleftrightarrow> reads_back D (bal_free x) \<and> reads_back D (bal_locked x)"

interpretation balance_item: printed_type "print_v1_balance D" "read_v1_balance D" "doc_v1_balance D" "fine_v1_balance D" for D
  by unfold_locales (simp_all add: print_v1_balance_def read_v1_balance_def doc_v1_balance_def fine_v1_balance_def doc_simps)

definition doc_v1_rate_limit :: "v1_rate_limit_t \<Rightarrow> json" where
  "doc_v1_rate_limit x = J_object
     [(''rateLimitType'', j_text (rl_rateLimitType x)),
      (''interval'', j_text (rl_interval x)),
      (''limit'', j_size (rl_limit x))]"

interpretation rate_limit_item: printed_type print_v1_rate_limit read_v1_rate_limit doc_v1_rate_limit "\<lambda>_. True"
  by unfold_locales (simp_all add: print_v1_rate_limit_def read_v1_rate_limit_def doc_v1_rate_limit_def doc_simps)

definition doc_v1_trade :: "'d double_ops \<Rightarrow> 'd v1_trade_t \<Rightarrow> json" where
  "doc_v1_trade D x = J_object
     [(''id'', j_size (trd_id x)),
      (''price'', j_text (dt_show D (trd_price x))),
      (''qty'', j_text (dt_show D (trd_qty x))),
      (''time'', j_size (trd_time x)),
      (''isBuyerMaker'', j_bool (trd_isBuyerMaker x)),
      (''isBestMatch'', j_bool (trd_isBestMatch x))]"

definition fine_v1_trade :: "'d double_ops \<Rightarrow> 'd v1_trade_t \<Rightarrow> bool" where
  "fine_v1_trade D x \<longleftrightarrow> reads_back D (trd_price x) \<and> reads_back D (trd_qty x)"

interpretation trade_item: printed_type "print_v1_trade D" "read_v1_trade D" "doc_v1_trade D" "fine_v1_trade D" for D
  by unfold_locales (simp_all add: print_v1_trade_def read_v1_trade_def doc_v1_trade_def fine_v1_trade_def doc_simps)

definition doc_v1_order_info :: "'d double_ops \<Rightarrow> 'd v1_order_info_t \<Rightarrow> json" where
  "doc_v1_order_info D x = J_object
     [(''symbol'', j_text (oi_symbol x)),
      (''orderId'', j_size (oi_orderId x)),
      (''clientOrderId'', j_text (oi_clientOrderId x)),
      (''price'', j_text (dt_show D (oi_price x))),
      (''origQty'', j_text (dt_show D (oi_origQty x))),
      (''executedQty'', j_text (dt_show D (oi_executedQty x))),
      (''cummulativeQuoteQty'', j_text (dt_show D (oi_cummulativeQuoteQty x))),
      (''status'', j_text (oi_status x)),
      (''timeInForce'', j_text (oi_timeInForce x)),
      (''type'', j_text (oi_type x)),
      (''side'', j_text (oi_side x)),
      (''stopPrice'', j_text (dt_show D (oi_stopPrice x))),
      (''icebergQty'', j_text (dt_show D (oi_icebergQty x))),
      (''time'', j_size (oi_time x)),
      (''updateTime'', j_size (oi_updateTime x)),
      (''isWorking'', j_bool (oi_isWorking x))]"

definition fine_v1_order_info :: "'d double_ops \<Rightarrow> 'd v1_order_info_t \<Rightarrow> bool" where
  "fine_v1_order_info D x \<longleftrightarrow> reads_back D (oi_price x) \<and> reads_back D (oi_origQty x) \<and> reads_back D (oi_executedQty x) \<and> reads_back D (oi_cummulativeQuoteQty x) \<and> reads_back D (oi_stopPrice x) \<and> reads_back D (oi_icebergQty x)"

interpretation order_info: printed_type "print_v1_order_info D" "construct_v1_order_info D" "doc_v1_order_info D" "fine_v1_order_info D" for D
  by unfold_locales (simp_all add: print_v1_order_info_def construct_v1_order_info_def doc_v1_order_info_def fine_v1_order_info_def doc_simps)

interpretation order_info_item: printed_type "print_v1_order_info D" "read_v1_order_info D" "doc_v1_order_info D" "fine_v1_order_info D" for D
  by unfold_locales (simp_all add: print_v1_order_info_def read_v1_order_info_def doc_v1_order_info_def fine_v1_order_info_def doc_simps)

definition doc_v1_new_order_info_ack :: "v1_new_order_info_ack_t \<Rightarrow> json" where
  "doc_v1_new_order_info_ack x = J_object
     [(''symbol'', j_text (ack_symbol x)),
      (''orderId'', j_size (ack_orderId x)),
      (''clientOrderId'', j_text (ack_clientOrderId x)),
      (''transactTime'', j_size (ack_transactTime x))]"

interpretation new_order_info_ack: printed_type print_v1_new_order_info_ack construct_v1_new_order_info_ack doc_v1_new_order_info_ack "\<lambda>_. True"
  by unfold_locales (simp_all add: print_v1_new_order_info_ack_def construct_v1_new_order_info_ack_def doc_v1_new_order_info_ack_def doc_simps)

definition doc_v1_new_order_info_result :: "'d double_ops \<Rightarrow> 'd v1_new_order_info_result_t \<Rightarrow> json" where
  "doc_v1_new_order_info_result D x = J_object
     [(''symbol'', j_text (rslt_symbol x)),
      (''orderId'', j_size (rslt_orderId x)),
      (''clientOrderId'', j_text (rslt_clientOrderId x)),
      (''transactTime'', j_size (rslt_transactTime x)),
      (''price'', j_text (dt_show D (rslt_price x))),
      (''origQty'', j_text (dt_show D (rslt_origQty x))),
      (''executedQty'', j_text (dt_show D (rslt_executedQty x))),
      (''cummulativeQuoteQty'', j_text (dt_show D (rslt_cummulativeQuoteQty x))),
      (''status'', j_text (rslt_status x)),
      (''timeInForce'', j_text (rslt_timeInForce x)),
      (''type'', j_text (rslt_type x)),
      (''side'', j_text (rslt_side x))]"

definition fine_v1_new_order_info_result :: "'d double_ops \<Rightarrow> 'd v1_new_order_info_result_t \<Rightarrow> bool" where
  "fine_v1_new_order_info_result D x \<longleftrightarrow> reads_back D (rslt_price x) \<and> reads_back D (rslt_origQty x) \<and> reads_back D (rslt_executedQty x) \<and> reads_back D (rslt_cummulativeQuoteQty x)"

interpretation new_order_info_result: printed_type "print_v1_new_order_info_result D" "construct_v1_new_order_info_result D" "doc_v1_new_order_info_result D" "fine_v1_new_order_info_result D" for D
  by unfold_locales (simp_all add: print_v1_new_order_info_result_def construct_v1_new_order_info_result_def doc_v1_new_order_info_result_def fine_v1_new_order_info_result_def doc_simps)

definition doc_v1_fill_part :: "'d double_ops \<Rightarrow> 'd v1_fill_part_t \<Rightarrow> json" where
  "doc_v1_fill_part D x = J_object
     [(''price'', j_text (dt_show D (fill_price x))),
      (''qty'', j_text (dt_show D (fill_qty x))),
      (''commission'', j_text (dt_show D (fill_commission x))),
      (''commissionAsset'', j_text (fill_commissionAsset x))]"

definition fine_v1_fill_part :: "'d double_ops \<Rightarrow> 'd v1_fill_part_t \<Rightarrow> bool" where
  "fine_v1_fill_part D x \<longleftrightarrow> reads_back D (fill_price x) \<and> reads_back D (fill_qty x) \<and> reads_back D (fill_commission x)"

interpretation fill_part_item: printed_type "print_v1_fill_part D" "read_v1_fill_part D" "doc_v1_fill_part D" "fine_v1_fill_part D" for D
  by unfold_locales (simp_all add: print_v1_fill_part_def read_v1_fill_part_def doc_v1_fill_part_def fine_v1_fill_part_def doc_simps)

definition doc_v1_cancel_order_info :: "'d double_ops \<Rightarrow> 'd v1_cancel_order_info_t \<Rightarrow> json" where
  "doc_v1_cancel_order_info D x = J_object
     [(''symbol'', j_text (can_symbol x)),
      (''orderId'', j_size (can_orderId x)),
      (''origClientOrderId'', j_text (can_origClientOrderId x)),
      (''clientOrderId'', j_text (can_clientOrderId x)),
      (''price'', j_text (dt_show D (can_price x))),
      (''origQty'', j_text (dt_show D (can_origQty x))),
      (''executedQty'', j_text (dt_show D (can_executedQty x))),
      (''cummulativeQuoteQty'', j_text (dt_show D (can_cummulativeQuoteQty x))),
      (''status'', j_text (can_status x)),
      (''timeInForce'', j_text (can_timeInForce x)),
      (''type'', j_text (can_type x)),
      (''side'', j_text (can_side x))]"

definition fine_v1_cancel_order_info :: "'d double_ops \<Rightarrow> 'd v1_cancel_order_info_t \<Rightarrow> bool" where
  "fine_v1_cancel_order_info D x \<longleftrightarrow> reads_back D (can_price x) \<and> reads_back D (can_origQty x) \<and> reads_back D (can_executedQty x) \<and> reads_back D (can_cummulativeQuoteQty x)"

interpretation cancel_order_info: printed_type "print_v1_cancel_order_info D" "construct_v1_cancel_order_info D" "doc_v1_cancel_order_info D" "fine_v1_cancel_order_info D" for D
  by unfold_locales (simp_all add: print_v1_cancel_order_info_def construct_v1_cancel_order_info_def doc_v1_cancel_order_info_def fine_v1_cancel_order_info_def doc_simps)

definition doc_v1_my_trade_info :: "'d double_ops \<Rightarrow> 'd v1_my_trade_info_t \<Rightarrow> json" where
  "doc_v1_my_trade_info D x = J_object
     [(''symbol'', j_text (my_symbol x)),
      (''id'', j_size (my_id x)),
      (''orderId'', j_size (my_orderId x)),
      (''price'', j_text (dt_show D (my_price x))),
      (''qty'', j_text (dt_show D (my_qty x))),
      (''commission'', j_text (dt_show D (my_commission x))),
      (''commissionAsset'', j_text (my_commissionAsset x)),
      (''time'', j_size (my_time x)),
      (''isBuyer'', j_bool (my_isBuyer x)),
      (''isMaker'', j_bool (my_isMaker x)),
      (''isBestMatch'', j_bool (my_isBestMatch x))]"

definition fine_v1_my_trade_info :: "'d double_ops \<Rightarrow> 'd v1_my_trade_info_t \<Rightarrow> bool" where
  "fine_v1_my_trade_info D x \<longleftrightarrow> reads_back D (my_price x) \<and> reads_back D (my_qty x) \<and> reads_back D (my_commission x)"

interpretation my_trade_info: printed_type "print_v1_my_trade_info D" "construct_v1_my_trade_info D" "doc_v1_my_trade_info D" "fine_v1_my_trade_info D" for D
  by unfold_locales (simp_all add: print_v1_my_trade_info_def construct_v1_my_trade_info_def doc_v1_my_trade_info_def fine_v1_my_trade_info_def doc_simps)

definition doc_v1_start_user_data_stream :: "v1_start_user_data_stream_t \<Rightarrow> json" where
  "doc_v1_start_user_data_stream x = J_object
     [(''listenKey'', j_text (start_listenKey x))]"

interpretation start_user_data_stream: printed_type print_v1_start_user_data_stream construct_v1_start_user_data_stream doc_v1_start_user_data_stream "\<lambda>_. True"
  by unfold_locales (simp_all add: print_v1_start_user_data_stream_def construct_v1_start_user_data_stream_def doc_v1_start_user_data_stream_def doc_simps)

definition doc_v1_ws_agg_trade :: "'d double_ops \<Rightarrow> 'd v1_ws_agg_trade_t \<Rightarrow> json" where
  "doc_v1_ws_agg_trade D x = J_object
     [(''e'', j_text (wagg_e x)),
      (''E'', j_size (wagg_E x)),
      (''s'', j_text (wagg_s x)),
      (''a'', j_size (wagg_a x)),
      (''p'', j_text (dt_show D (wagg_p x))),
      (''q'', j_text (dt_show D (wagg_q x))),
      (''f'', j_size (wagg_f x)),
      (''l'', j_size (wagg_l x)),
      (''T'', j_size (wagg_T x)),
      (''m'', j_bool (wagg_m x)),
      (''M'', j_bool (wagg_M x))]"

definition fine_v1_ws_agg_trade :: "'d double_ops \<Rightarrow> 'd v1_ws_agg_trade_t \<Rightarrow> bool" where
  "fine_v1_ws_agg_trade D x \<longleftrightarrow> reads_back D (wagg_p x) \<and> reads_back D (wagg_q x)"

interpretation ws_agg_trade: printed_type "print_v1_ws_agg_trade D" "construct_v1_ws_agg_trade D" "doc_v1_ws_agg_trade D" "fine_v1_ws_agg_trade D" for D
  by unfold_locales (simp_all add: print_v1_ws_agg_trade_def construct_v1_ws_agg_trade_def doc_v1_ws_agg_trade_def fine_v1_ws_agg_trade_def doc_simps)

definition doc_v1_ws_trade :: "'d double_ops \<Rightarrow> 'd v1_ws_trade_t \<Rightarrow> json" where
  "doc_v1_ws_trade D x = J_object
     [(''E'', j_size (wtrd_E x)),
      (''s'', j_text (wtrd_s x)),
      (''t'', j_size (wtrd_t x)),
      (''p'', j_text (dt_show D (wtrd_p x))),
      (''q'', j_text (dt_show D (wtrd_q x))),
      (''T'', j_size (wtrd_T x)),
      (''m'', j_bool (wtrd_m x)),
      (''M'', j_bool (wtrd_M x))]"

definition fine_v1_ws_trade :: "'d double_ops \<Rightarrow> 'd v1_ws_trade_t \<Rightarrow> bool" where
  "fine_v1_ws_trade D x \<longleftrightarrow> reads_back D (wtrd_p x) \<and> reads_back D (wtrd_q x)"

interpretation ws_trade: printed_type "print_v1_ws_trade D" "construct_v1_ws_trade D" "doc_v1_ws_trade D" "fine_v1_ws_trade D" for D
  by unfold_locales (simp_all add: print_v1_ws_trade_def construct_v1_ws_trade_def doc_v1_ws_trade_def fine_v1_ws_trade_def doc_simps)

definition doc_v1_market_ticker :: "'d double_ops \<Rightarrow> 'd v1_market_ticker_t \<Rightarrow> json" where
  "doc_v1_market_ticker D x = J_object
     [(''E'', j_size (mkt_E x)),
      (''s'', j_text (mkt_s x)),
      (''p'', j_text (dt_show D (mkt_p x))),
      (''P'', j_text (dt_show D (mkt_P x))),
      (''w'', j_text (dt_show D (mkt_w x))),
      (''x'', j_text (dt_show D (mkt_x x))),
      (''c'', j_text (dt_show D (mkt_c x))),
      (''Q'', j_text (dt_show D (mkt_Q x))),
      (''b'', j_text (dt_show D (mkt_b x))),
      (''B'', j_text (dt_show D (mkt_B x))),
      (''a'', j_text (dt_show D (mkt_a x))),
      (''A'', j_text (dt_show D (mkt_A x))),
      (''o'', j_text (dt_show D (mkt_o x))),
      (''h'', j_text (dt_show D (mkt_h x))),
      (''l'', j_text (dt_show D (mkt_l x))),
      (''v'', j_text (dt_show D (mkt_v x))),
      (''q'', j_text (dt_show D (mkt_q x))),
      (''O'', j_size (mkt_O x)),
      (''C'', j_size (mkt_C x)),
      (''F'', j_size (mkt_F x)),
      (''L'', j_size (mkt_L x)),
      (''n'', j_size (mkt_n x))]"

definition fine_v1_market_ticker :: "'d double_ops \<Rightarrow> 'd v1_market_ticker_t \<Rightarrow> bool" where
  "fine_v1_market_ticker D x \<longleftrightarrow> reads_back D (mkt_p x) \<and> reads_back D (mkt_P x) \<and> reads_back D (mkt_w x) \<and> reads_back D (mkt_x x) \<and> reads_back D (mkt_c x) \<and> reads_back D (mkt_Q x) \<and> reads_back D (mkt_b x) \<and> reads_back D (mkt_B x) \<and> reads_back D (mkt_a x) \<and> reads_back D (mkt_A x) \<and> reads_back D (mkt_o x) \<and> reads_back D (mkt_h x) \<and> reads_back D (mkt_l x) \<and> reads_back D (mkt_v x) \<and> reads_back D (mkt_q x)"

interpretation market_ticker: printed_type "print_v1_market_ticker D" "construct_v1_market_ticker D" "doc_v1_market_ticker D" "fine_v1_market_ticker D" for D
  by unfold_locales (simp_all add: print_v1_market_ticker_def construct_v1_market_ticker_def doc_v1_market_ticker_def fine_v1_market_ticker_def doc_simps)

interpretation market_ticker_item: printed_type "print_v1_market_ticker D" "read_v1_market_ticker D" "doc_v1_market_ticker D" "fine_v1_market_ticker D" for D
  by unfold_locales (simp_all add: print_v1_market_ticker_def read_v1_market_ticker_def doc_v1_market_ticker_def fine_v1_market_ticker_def doc_simps)

definition doc_v1_book_ticker :: "'d double_ops \<Rightarrow> 'd v1_book_ticker_t \<Rightarrow> json" where
  "doc_v1_book_ticker D x = J_object
     [(''u'', j_size (book_u x)),
      (''s'', j_text (book_s x)),
      (''b'', j_text (dt_show D (book_b x))),
      (''B'', j_text (dt_show D (book_B x))),
      (''a'', j_text (dt_show D (book_a x))),
      (''A'', j_text (dt_show D (book_A x)))]"

definition fine_v1_book_ticker :: "'d double_ops \<Rightarrow> 'd v1_book_ticker_t \<Rightarrow> bool" where
  "fine_v1_book_ticker D x \<longleftrightarrow> reads_back D (book_b x) \<and> reads_back D (book_B x) \<and> reads_back D (book_a x) \<and> reads_back D (book_A x)"

interpretation book_ticker: printed_type "print_v1_book_ticker D" "construct_v1_book_ticker D" "doc_v1_book_ticker D" "fine_v1_book_ticker D" for D
  by unfold_locales (simp_all add: print_v1_book_ticker_def construct_v1_book_ticker_def doc_v1_book_ticker_def fine_v1_book_ticker_def doc_simps)

definition doc_v1_ud_balance :: "'d double_ops \<Rightarrow> 'd v1_ud_balance_t \<Rightarrow> json" where
  "doc_v1_ud_balance D x = J_object
     [(''a'', j_text (udb_a x)),
      (''f'', j_text (dt_show D (udb_f x))),
      (''l'', j_text (dt_show D (udb_l x)))]"

definition fine_v1_ud_balance :: "'d double_ops \<Rightarrow> 'd v1_ud_balance_t \<Rightarrow> bool" where
  "fine_v1_ud_balance D x \<longleftrightarrow> reads_back D (udb_f x) \<and> reads_back D (udb_l x)"

interpretation ud_balance_item: printed_type "print_v1_ud_balance D" "read_v1_ud_balance D" "doc_v1_ud_balance D" "fine_v1_ud_balance D" for D
  by unfold_locales (simp_all add: print_v1_ud_balance_def read_v1_ud_balance_def doc_v1_ud_balance_def fine_v1_ud_balance_def doc_simps)

definition doc_v1_balance_update :: "'d double_ops \<Rightarrow> 'd v1_balance_update_t \<Rightarrow> json" where
  "doc_v1_balance_update D x = J_object
     [(''e'', j_text (bupd_e x)),
      (''E'', j_size (bupd_E x)),
      (''a'', j_text (bupd_a x)),
      (''d'', j_text (dt_show D (bupd_d x))),
      (''T'', j_size (bupd_T x))]"

definition fine_v1_balance_update :: "'d double_ops \<Rightarrow> 'd v1_balance_update_t \<Rightarrow> bool" where
  "fine_v1_balance_update D x \<longleftrightarrow> reads_back D (bupd_d x)"

interpretation balance_update: printed_type "print_v1_balance_update D" "construct_v1_balance_update D" "doc_v1_balance_update D" "fine_v1_balance_update D" for D
  by unfold_locales (simp_all add: print_v1_balance_update_def construct_v1_balance_update_def doc_v1_balance_update_def fine_v1_balance_update_def doc_simps)

definition doc_v1_order_update :: "'d double_ops \<Rightarrow> 'd v1_order_update_t \<Rightarrow> json" where
  "doc_v1_order_update D x = J_object
     [(''e'', j_text (oupd_e x)),
      (''E'', j_size (oupd_E x)),
      (''s'', j_text (oupd_s x)),
      (''c'', j_text (oupd_c x)),
      (''S'', j_text (oupd_S x)),
      (''o'', j_text (oupd_o x)),
      (''f'', j_text (oupd_f x)),
      (''q'', j_text (dt_show D (oupd_q x))),
      (''p'', j_text (dt_show D (oupd_p x))),
      (''P'', j_text (dt_show D (oupd_P x))),
      (''F'', j_text (dt_show D (oupd_F x))),
      (''C'', j_text (oupd_C x)),
      (''x'', j_text (oupd_x x)),
      (''X'', j_text (oupd_X x)),
      (''r'', j_text (oupd_r x)),
      (''i'', j_size (oupd_i x)),
      (''l'', j_text (dt_show D (oupd_l x))),
      (''z'', j_text (dt_show D (oupd_z x))),
      (''L'', j_text (dt_show D (oupd_L x))),
      (''n'', j_text (dt_show D (oupd_n x))),
      (''N'', j_text (oupd_N x)),
      (''T'', j_size (oupd_T x)),
      (''t'', j_size (oupd_t x)),
      (''I'', j_size (oupd_I x)),
      (''w'', j_bool (oupd_w x)),
      (''m'', j_bool (oupd_m x)),
      (''M'', j_bool (oupd_M x)),
      (''O'', j_size (oupd_O x)),
      (''Z'', j_text (dt_show D (oupd_Z x)))]"

definition fine_v1_order_update :: "'d double_ops \<Rightarrow> 'd v1_order_update_t \<Rightarrow> bool" where
  "fine_v1_order_update D x \<longleftrightarrow> reads_back D (oupd_q x) \<and> reads_back D (oupd_p x) \<and> reads_back D (oupd_P x) \<and> reads_back D (oupd_F x) \<and> reads_back D (oupd_l x) \<and> reads_back D (oupd_z x) \<and> reads_back D (oupd_L x) \<and> reads_back D (oupd_n x) \<and> reads_back D (oupd_Z x)"

interpretation order_update: printed_type "print_v1_order_update D" "construct_v1_order_update D" "doc_v1_order_update D" "fine_v1_order_update D" for D
  by unfold_locales (simp_all add: print_v1_order_update_def construct_v1_order_update_def doc_v1_order_update_def fine_v1_order_update_def doc_simps)

text \<open>The filters of a symbol. Two of them write numbers or flags as strings.\<close>

definition doc_v1_price_filter :: "'d double_ops \<Rightarrow> 'd v1_price_filter_t \<Rightarrow> json" where
  "doc_v1_price_filter D x = J_object
     [(''filterType'', j_text ''PRICE_FILTER''),
      (''minPrice'', j_text (dt_show D (pf_minPrice x))),
      (''maxPrice'', j_text (dt_show D (pf_maxPrice x))),
      (''tickSize'', j_text (dt_show D (pf_tickSize x)))]"

definition fine_v1_price_filter :: "'d double_ops \<Rightarrow> 'd v1_price_filter_t \<Rightarrow> bool" where
  "fine_v1_price_filter D x \<longleftrightarrow> reads_back D (pf_minPrice x) \<and> reads_back D (pf_maxPrice x) \<and> reads_back D (pf_tickSize x)"

interpretation price_filter: printed_type "print_v1_price_filter D" "read_v1_price_filter D" "doc_v1_price_filter D" "fine_v1_price_filter D" for D
  by unfold_locales (simp_all add: print_v1_price_filter_def read_v1_price_filter_def doc_v1_price_filter_def fine_v1_price_filter_def doc_simps)

definition doc_v1_percent_price :: "'d double_ops \<Rightarrow> 'd v1_percent_price_t \<Rightarrow> json" where
  "doc_v1_percent_price D x = J_object
     [(''filterType'', j_text ''PERCENT_PRICE''),
      (''multiplierUp'', j_text (dt_show D (pp_multiplierUp x))),
      (''multiplierDown'', j_text (dt_show D (pp_multiplierDown x))),
      (''avgPriceMins'', j_size (pp_avgPriceMins x))]"

definition fine_v1_percent_price :: "'d double_ops \<Rightarrow> 'd v1_percent_price_t \<Rightarrow> bool" where
  "fine_v1_percent_price D x \<longleftrightarrow> reads_back D (pp_multiplierUp x) \<and> reads_back D (pp_multiplierDown x)"

interpretation percent_price: printed_type "print_v1_percent_price D" "read_v1_percent_price D" "doc_v1_percent_price D" "fine_v1_percent_price D" for D
  by unfold_locales (simp_all add: print_v1_percent_price_def read_v1_percent_price_def doc_v1_percent_price_def fine_v1_percent_price_def doc_simps)

definition doc_v1_percent_price_by_side :: "'d double_ops \<Rightarrow> 'd v1_percent_price_by_side_t \<Rightarrow> json" where
  "doc_v1_percent_price_by_side D x = J_object
     [(''filterType'', j_text ''PERCENT_PRICE_BY_SIDE''),
      (''bidMultiplierUp'', j_text (dt_show D (ps_bidMultiplierUp x))),
      (''bidMultiplierDown'', j_text (dt_show D (ps_bidMultiplierDown x))),
      (''askMultiplierUp'', j_text (dt_show D (ps_askMultiplierUp x))),
      (''askMultiplierDown'', j_text (dt_show D (ps_askMultiplierDown x))),
      (''avgPriceMins'', j_size (ps_avgPriceMins x))]"

definition fine_v1_percent_price_by_side :: "'d double_ops \<Rightarrow> 'd v1_percent_price_by_side_t \<Rightarrow> bool" where
  "fine_v1_percent_price_by_side D x \<longleftrightarrow> reads_back D (ps_bidMultiplierUp x) \<and> reads_back D (ps_bidMultiplierDown x) \<and> reads_back D (ps_askMultiplierUp x) \<and> reads_back D (ps_askMultiplierDown x)"

interpretation percent_price_by_side: printed_type "print_v1_percent_price_by_side D" "read_v1_percent_price_by_side D" "doc_v1_percent_price_by_side D" "fine_v1_percent_price_by_side D" for D
  by unfold_locales (simp_all add: print_v1_percent_price_by_side_def read_v1_percent_price_by_side_def doc_v1_percent_price_by_side_def fine_v1_percent_price_by_side_def doc_simps)

definition doc_v1_lot_size :: "'d double_ops \<Rightarrow> 'd v1_lot_size_t \<Rightarrow> json" where
  "doc_v1_lot_size D x = J_object
     [(''filterType'', j_text ''LOT_SIZE''),
      (''minQty'', j_text (dt_show D (ls_minQty x))),
      (''maxQty'', j_text (dt_show D (ls_maxQty x))),
      (''stepSize'', j_text (dt_show D (ls_stepSize x)))]"

definition fine_v1_lot_size :: "'d double_ops \<Rightarrow> 'd v1_lot_size_t \<Rightarrow> bool" where
  "fine_v1_lot_size D x \<longleftrightarrow> reads_back D (ls_minQty x) \<and> reads_back D (ls_maxQty x) \<and> reads_back D (ls_stepSize x)"

interpretation lot_size: printed_type "print_v1_lot_size D" "read_v1_lot_size D" "doc_v1_lot_size D" "fine_v1_lot_size D" for D
  by unfold_locales (simp_all add: print_v1_lot_size_def read_v1_lot_size_def doc_v1_lot_size_def fine_v1_lot_size_def doc_simps)

definition doc_v1_market_lot_size :: "'d double_ops \<Rightarrow> 'd v1_market_lot_size_t \<Rightarrow> json" where
  "doc_v1_market_lot_size D x = J_object
     [(''filterType'', j_text ''MARKET_LOT_SIZE''),
      (''minQty'', j_text (dt_show D (ml_minQty x))),
      (''maxQty'', j_text (dt_show D (ml_maxQty x))),
      (''stepSize'', j_text (dt_show D (ml_stepSize x)))]"

definition fine_v1_market_lot_size :: "'d double_ops \<Rightarrow> 'd v1_market_lot_size_t \<Rightarrow> bool" where
  "fine_v1_market_lot_size D x \<longleftrightarrow> reads_back D (ml_minQty x) \<and> reads_back D (ml_maxQty x) \<and> reads_back D (ml_stepSize x)"

interpretation market_lot_size: printed_type "print_v1_market_lot_size D" "read_v1_market_lot_size D" "doc_v1_market_lot_size D" "fine_v1_market_lot_size D" for D
  by unfold_locales (simp_all add: print_v1_market_lot_size_def read_v1_market_lot_size_def doc_v1_market_lot_size_def fine_v1_market_lot_size_def doc_simps)

definition doc_v1_min_notional :: "'d double_ops \<Rightarrow> 'd v1_min_notional_t \<Rightarrow> json" where
  "doc_v1_min_notional D x = J_object
     [(''filterType'', j_text ''MIN_NOTIONAL''),
      (''minNotional'', j_text (dt_show D (mn_minNotional x)))]"

definition fine_v1_min_notional :: "'d double_ops \<Rightarrow> 'd v1_min_notional_t \<Rightarrow> bool" where
  "fine_v1_min_notional D x \<longleftrightarrow> reads_back D (mn_minNotional x)"

interpretation min_notional: printed_type "print_v1_min_notional D" "read_v1_min_notional D" "doc_v1_min_notional D" "fine_v1_min_notional D" for D
  by unfold_locales (simp_all add: print_v1_min_notional_def read_v1_min_notional_def doc_v1_min_notional_def fine_v1_min_notional_def doc_simps)

definition doc_v1_iceberg_parts :: "v1_iceberg_parts_t \<Rightarrow> json" where
  "doc_v1_iceberg_parts x = J_object
     [(''filterType'', j_text ''ICEBERG_PARTS''),
      (''limit'', j_size (ib_limit x))]"

interpretation iceberg_parts: printed_type print_v1_iceberg_parts read_v1_iceberg_parts doc_v1_iceberg_parts "\<lambda>_. True"
  by unfold_locales (simp_all add: print_v1_iceberg_parts_def read_v1_iceberg_parts_def doc_v1_iceberg_parts_def doc_simps)

definition doc_v1_max_num_orders :: "v1_max_num_orders_t \<Rightarrow> json" where
  "doc_v1_max_num_orders x = J_object
     [(''filterType'', j_text ''MAX_NUM_ORDERS''),
      (''maxNumOrders'', j_size (mo_maxNumOrders x))]"

interpretation max_num_orders: printed_type print_v1_max_num_orders read_v1_max_num_orders doc_v1_max_num_orders "\<lambda>_. True"
  by unfold_locales (simp_all add: print_v1_max_num_orders_def read_v1_max_num_orders_def doc_v1_max_num_orders_def doc_simps)

definition doc_v1_max_num_algo_orders :: "v1_max_num_algo_orders_t \<Rightarrow> json" where
  "doc_v1_max_num_algo_orders x = J_object
     [(''filterType'', j_text ''MAX_NUM_ALGO_ORDERS''),
      (''maxNumAlgoOrders'', j_size (ma_maxNumAlgoOrders x))]"

interpretation max_num_algo_orders: printed_type print_v1_max_num_algo_orders read_v1_max_num_algo_orders doc_v1_max_num_algo_orders "\<lambda>_. True"
  by unfold_locales (simp_all add: print_v1_max_num_algo_orders_def read_v1_max_num_algo_orders_def doc_v1_max_num_algo_orders_def doc_simps)

definition doc_v1_max_position :: "'d double_ops \<Rightarrow> 'd v1_max_position_t \<Rightarrow> json" where
  "doc_v1_max_position D x = J_object
     [(''filterType'', j_text ''MAX_POSITION''),
      (''maxPosition'', j_text (dt_show D (mp_maxPosition x)))]"

definition fine_v1_max_position :: "'d double_ops \<Rightarrow> 'd v1_max_position_t \<Rightarrow> bool" where
  "fine_v1_max_position D x \<longleftrightarrow> reads_back D (mp_maxPosition x)"

interpretation max_position: printed_type "print_v1_max_position D" "read_v1_max_position D" "doc_v1_max_position D" "fine_v1_max_position D" for D
  by unfold_locales (simp_all add: print_v1_max_position_def read_v1_max_position_def doc_v1_max_position_def fine_v1_max_position_def doc_simps)

definition doc_v1_trailing_delta :: "v1_trailing_delta_t \<Rightarrow> json" where
  "doc_v1_trailing_delta x = J_object
     [(''filterType'', j_text ''TRAILING_DELTA''),
      (''minTrailingAboveDelta'', j_text (size_text (td_minTrailingAboveDelta x))),
      (''maxTrailingAboveDelta'', j_text (size_text (td_maxTrailingAboveDelta x))),
      (''minTrailingBelowDelta'', j_text (size_text (td_minTrailingBelowDelta x))),
      (''maxTrailingBelowDelta'', j_text (size_text (td_maxTrailingBelowDelta x)))]"

interpretation trailing_delta: printed_type print_v1_trailing_delta read_v1_trailing_delta doc_v1_trailing_delta "\<lambda>_. True"
  by unfold_locales (simp_all add: print_v1_trailing_delta_def read_v1_trailing_delta_def doc_v1_trailing_delta_def doc_simps)

definition doc_v1_notional :: "'d double_ops \<Rightarrow> 'd v1_notional_t \<Rightarrow> json" where
  "doc_v1_notional D x = J_object
     [(''filterType'', j_text ''NOTIONAL''),
      (''minNotional'', j_text (dt_show D (no_minNotional x))),
      (''applyMinToMarket'', j_text (flag_text (no_applyMinToMarket x))),
      (''maxNotional'', j_text (dt_show D (no_maxNotional x))),
      (''applyMaxToMarket'', j_text (flag_text (no_applyMaxToMarket x))),
      (''avgPriceMins'', j_text (size_text (no_avgPriceMins x)))]"

definition fine_v1_notional :: "'d double_ops \<Rightarrow> 'd v1_notional_t \<Rightarrow> bool" where
  "fine_v1_notional D x \<longleftrightarrow> \<not> no_applyMinToMarket x \<and> \<not> no_applyMaxToMarket x \<and> reads_back D (no_minNotional x) \<and> reads_back D (no_maxNotional x)"

interpretation notional: printed_type "print_v1_notional D" "read_v1_notional D" "doc_v1_notional D" "fine_v1_notional D" for D
  by unfold_locales (simp_all add: print_v1_notional_def read_v1_notional_def doc_v1_notional_def fine_v1_notional_def doc_simps)

definition doc_v1_filter :: "'d double_ops \<Rightarrow> 'd v1_filter_t \<Rightarrow> json" where
  "doc_v1_filter D x =
     (case flt_value x of
        Filter_price_filter f \<Rightarrow> doc_v1_price_filter D f
      | Filter_percent_price f \<Rightarrow> doc_v1_percent_price D f
      | Filter_percent_price_by_side f \<Rightarrow> doc_v1_percent_price_by_side D f
      | Filter_lot_size f \<Rightarrow> doc_v1_lot_size D f
      | Filter_market_lot_size f \<Rightarrow> doc_v1_market_lot_size D f
      | Filter_min_notional f \<Rightarrow> doc_v1_min_notional D f
      | Filter_iceberg_parts f \<Rightarrow> doc_v1_iceberg_parts f
      | Filter_max_num_orders f \<Rightarrow> doc_v1_max_num_orders f
      | Filter_max_num_algo_orders f \<Rightarrow> doc_v1_max_num_algo_orders f
      | Filter_max_position f \<Rightarrow> doc_v1_max_position D f
      | Filter_trailing_delta f \<Rightarrow> doc_v1_trailing_delta f
      | Filter_notional f \<Rightarrow> doc_v1_notional D f)"

definition filter_label :: "'d v1_filter_value \<Rightarrow> string" where
  "filter_label v =
     (case v of
        Filter_price_filter f \<Rightarrow> ''PRICE_FILTER''
      | Filter_percent_price f \<Rightarrow> ''PERCENT_PRICE''
      | Filter_percent_price_by_side f \<Rightarrow> ''PERCENT_PRICE_BY_SIDE''
      | Filter_lot_size f \<Rightarrow> ''LOT_SIZE''
      | Filter_market_lot_size f \<Rightarrow> ''MARKET_LOT_SIZE''
      | Filter_min_notional f \<Rightarrow> ''MIN_NOTIONAL''
      | Filter_iceberg_parts f \<Rightarrow> ''ICEBERG_PARTS''
      | Filter_max_num_orders f \<Rightarrow> ''MAX_NUM_ORDERS''
      | Filter_max_num_algo_orders f \<Rightarrow> ''MAX_NUM_ALGO_ORDERS''
      | Filter_max_position f \<Rightarrow> ''MAX_POSITION''
      | Filter_trailing_delta f \<Rightarrow> ''TRAILING_DELTA''
      | Filter_notional f \<Rightarrow> ''NOTIONAL'')"

definition fine_v1_filter :: "'d double_ops \<Rightarrow> 'd v1_filter_t \<Rightarrow> bool" where
  "fine_v1_filter D x \<longleftrightarrow> flt_type x = filter_label (flt_value x) \<and>
     (case flt_value x of
        Filter_price_filter f \<Rightarrow> fine_v1_price_filter D f
      | Filter_percent_price f \<Rightarrow> fine_v1_percent_price D f
      | Filter_percent_price_by_side f \<Rightarrow> fine_v1_percent_price_by_side D f
      | Filter_lot_size f \<Rightarrow> fine_v1_lot_size D f
      | Filter_market_lot_size f \<Rightarrow> fine_v1_market_lot_size D f
      | Filter_min_notional f \<Rightarrow> fine_v1_min_notional D f
      | Filter_iceberg_parts f \<Rightarrow> True
      | Filter_max_num_orders f \<Rightarrow> True
      | Filter_max_num_algo_orders f \<Rightarrow> True
      | Filter_max_position f \<Rightarrow> fine_v1_max_position D f
      | Filter_trailing_delta f \<Rightarrow> True
      | Filter_notional f \<Rightarrow> fine_v1_notional D f)"

lemma filter_hashes:
  "fnv1a ''PRICE_FILTER'' = 2170142057"
  "fnv1a ''PERCENT_PRICE'' = 3053042136"
  "fnv1a ''PERCENT_PRICE_BY_SIDE'' = 3114148570"
  "fnv1a ''LOT_SIZE'' = 3382909228"
  "fnv1a ''MARKET_LOT_SIZE'' = 422591275"
  "fnv1a ''MIN_NOTIONAL'' = 4169764684"
  "fnv1a ''ICEBERG_PARTS'' = 3791888747"
  "fnv1a ''MAX_NUM_ORDERS'' = 3195765574"
  "fnv1a ''MAX_NUM_ALGO_ORDERS'' = 876649140"
  "fnv1a ''MAX_POSITION'' = 3704136941"
  "fnv1a ''TRAILING_DELTA'' = 4103802968"
  "fnv1a ''NOTIONAL'' = 289566633"
  by (simp_all add: fnv1a_def fnv1a_step_def char_u32_def)

lemma print_v1_filter_doc: "print_v1_filter D x = json_text (doc_v1_filter D x)"
  by (cases "flt_value x")
    (simp_all add: print_v1_filter_def doc_v1_filter_def price_filter.print_doc percent_price.print_doc percent_price_by_side.print_doc lot_size.print_doc market_lot_size.print_doc min_notional.print_doc iceberg_parts.print_doc max_num_orders.print_doc max_num_algo_orders.print_doc max_position.print_doc trailing_delta.print_doc notional.print_doc)

lemma filter_type_member: "represents j (J_object ((''filterType'', j_text s) # mems)) \<Longrightarrow> get_text ''filterType'' j = Inr s"
  by (rule get_text_member, assumption) simp

lemma filter_types:
  "represents j (doc_v1_price_filter D f0) \<Longrightarrow> get_text ''filterType'' j = Inr ''PRICE_FILTER''"
  "represents j (doc_v1_percent_price D f1) \<Longrightarrow> get_text ''filterType'' j = Inr ''PERCENT_PRICE''"
  "represents j (doc_v1_percent_price_by_side D f2) \<Longrightarrow> get_text ''filterType'' j = Inr ''PERCENT_PRICE_BY_SIDE''"
  "represents j (doc_v1_lot_size D f3) \<Longrightarrow> get_text ''filterType'' j = Inr ''LOT_SIZE''"
  "represents j (doc_v1_market_lot_size D f4) \<Longrightarrow> get_text ''filterType'' j = Inr ''MARKET_LOT_SIZE''"
  "represents j (doc_v1_min_notional D f5) \<Longrightarrow> get_text ''filterType'' j = Inr ''MIN_NOTIONAL''"
  "represents j (doc_v1_iceberg_parts f6) \<Longrightarrow> get_text ''filterType'' j = Inr ''ICEBERG_PARTS''"
  "represents j (doc_v1_max_num_orders f7) \<Longrightarrow> get_text ''filterType'' j = Inr ''MAX_NUM_ORDERS''"
  "represents j (doc_v1_max_num_algo_orders f8) \<Longrightarrow> get_text ''filterType'' j = Inr ''MAX_NUM_ALGO_ORDERS''"
  "represents j (doc_v1_max_position D f9) \<Longrightarrow> get_text ''filterType'' j = Inr ''MAX_POSITION''"
  "represents j (doc_v1_trailing_delta f10) \<Longrightarrow> get_text ''filterType'' j = Inr ''TRAILING_DELTA''"
  "represents j (doc_v1_notional D f11) \<Longrightarrow> get_text ''filterType'' j = Inr ''NOTIONAL''"
  by (simp_all add: filter_type_member doc_v1_price_filter_def doc_v1_percent_price_def doc_v1_percent_price_by_side_def doc_v1_lot_size_def doc_v1_market_lot_size_def doc_v1_min_notional_def doc_v1_iceberg_parts_def doc_v1_max_num_orders_def doc_v1_max_num_algo_orders_def doc_v1_max_position_def doc_v1_trailing_delta_def doc_v1_notional_def)

lemmas filter_defs = read_v1_filter_def filter_readers_def filter_hashes filter_types doc_v1_filter_def fine_v1_filter_def filter_label_def

lemma read_v1_filter_doc:
  assumes "fine_v1_filter D x" "represents j (doc_v1_filter D x)"
  shows "read_v1_filter D j = Inr x"
proof (cases "flt_value x")
  case (Filter_price_filter f)
  then show ?thesis using assms price_filter.read_doc [where x = f and j = j] by (simp add: filter_defs)
next
  case (Filter_percent_price f)
  then show ?thesis using assms percent_price.read_doc [where x = f and j = j] by (simp add: filter_defs)
next
  case (Filter_percent_price_by_side f)
  then show ?thesis using assms percent_price_by_side.read_doc [where x = f and j = j] by (simp add: filter_defs)
next
  case (Filter_lot_size f)
  then show ?thesis using assms lot_size.read_doc [where x = f and j = j] by (simp add: filter_defs)
next
  case (Filter_market_lot_size f)
  then show ?thesis using assms market_lot_size.read_doc [where x = f and j = j] by (simp add: filter_defs)
next
  case (Filter_min_notional f)
  then show ?thesis using assms min_notional.read_doc [where x = f and j = j] by (simp add: filter_defs)
next
  case (Filter_iceberg_parts f)
  then show ?thesis using assms iceberg_parts.read_doc [where x = f and j = j] by (simp add: filter_defs)
next
  case (Filter_max_num_orders f)
  then show ?thesis using assms max_num_orders.read_doc [where x = f and j = j] by (simp add: filter_defs)
next
  case (Filter_max_num_algo_orders f)
  then show ?thesis using assms max_num_algo_orders.read_doc [where x = f and j = j] by (simp add: filter_defs)
next
  case (Filter_max_position f)
  then show ?thesis using assms max_position.read_doc [where x = f and j = j] by (simp add: filter_defs)
next
  case (Filter_trailing_delta f)
  then show ?thesis using assms trailing_delta.read_doc [where x = f and j = j] by (simp add: filter_defs)
next
  case (Filter_notional f)
  then show ?thesis using assms notional.read_doc [where x = f and j = j] by (simp add: filter_defs)
qed

interpretation symbol_filter: printed_type "print_v1_filter D" "read_v1_filter D" "doc_v1_filter D" "fine_v1_filter D" for D
  by unfold_locales (simp_all add: print_v1_filter_doc read_v1_filter_doc)

section \<open>Arrays and maps of them\<close>

lemma commas_map_snd: "commas (map (\<lambda>(_, p). f p) m) = commas (map f (map snd m))"
  by (simp add: case_prod_beta' comp_def)

interpretation day_ticker_item: printed_type "print_v1_24hrs_ticker D"
  "\<lambda>ji. bind_exn (expect_type FJ_TYPE_OBJECT ji) (\<lambda>_. construct_v1_24hrs_ticker D ji)" "doc_v1_24hrs_ticker D" "fine_v1_24hrs_ticker D" for D
proof unfold_locales
  fix x j
  assume a: "fine_v1_24hrs_ticker D x" "represents j (doc_v1_24hrs_ticker D x)"
  have "expect_type FJ_TYPE_OBJECT j = Inr ()"
    using a(2) by (rule expect_represents) (simp add: doc_v1_24hrs_ticker_def json_type_def)
  then show "bind_exn (expect_type FJ_TYPE_OBJECT j) (\<lambda>_. construct_v1_24hrs_ticker D j) = Inr x"
    by (simp add: day_ticker.read_doc [OF a])
qed (rule day_ticker.print_doc)

interpretation cancelled_item: printed_type "print_v1_cancel_order_info D"
  "\<lambda>it. bind_exn (expect_type FJ_TYPE_OBJECT it) (\<lambda>_. construct_v1_cancel_order_info D it)" "doc_v1_cancel_order_info D" "fine_v1_cancel_order_info D" for D
proof unfold_locales
  fix x j
  assume a: "fine_v1_cancel_order_info D x" "represents j (doc_v1_cancel_order_info D x)"
  have "expect_type FJ_TYPE_OBJECT j = Inr ()"
    using a(2) by (rule expect_represents) (simp add: doc_v1_cancel_order_info_def json_type_def)
  then show "bind_exn (expect_type FJ_TYPE_OBJECT j) (\<lambda>_. construct_v1_cancel_order_info D j) = Inr x"
    by (simp add: cancel_order_info.read_doc [OF a])
qed (rule cancel_order_info.print_doc)

definition doc_v1_depth :: "'d double_ops \<Rightarrow> 'd v1_depth_t \<Rightarrow> json" where
  "doc_v1_depth D x = J_array [j_text (dt_show D (dp_price x)), j_text (dt_show D (dp_amount x)), J_array []]"

definition fine_v1_depth :: "'d double_ops \<Rightarrow> 'd v1_depth_t \<Rightarrow> bool" where
  "fine_v1_depth D x \<longleftrightarrow> reads_back D (dp_price x) \<and> reads_back D (dp_amount x)"

interpretation level: printed_type "print_v1_depth D" "read_v1_level D" "doc_v1_depth D" "fine_v1_depth D" for D
  by unfold_locales
    (simp_all add: print_v1_depth_def read_v1_level_def read_v1_depth_def doc_v1_depth_def fine_v1_depth_def
      expect_represents json_type_def doc_simps)

definition doc_v1_kline :: "'d double_ops \<Rightarrow> 'd v1_kline_t \<Rightarrow> json" where
  "doc_v1_kline D x = J_array
     [j_size (kl_start_time x), j_text (dt_show D (kl_open x)), j_text (dt_show D (kl_high x)), j_text (dt_show D (kl_low x)),
      j_text (dt_show D (kl_close x)), j_text (dt_show D (kl_volume x)), j_size (kl_end_time x), j_text (dt_show D (kl_quote_volume x)),
      j_size (kl_num_trades x), j_text (dt_show D (kl_taker_buy_base_vol x)), j_text (dt_show D (kl_taker_buy_quote_vol x))]"

definition fine_v1_kline :: "'d double_ops \<Rightarrow> 'd v1_kline_t \<Rightarrow> bool" where
  "fine_v1_kline D x \<longleftrightarrow> reads_back D (kl_open x) \<and> reads_back D (kl_high x) \<and> reads_back D (kl_low x) \<and> reads_back D (kl_close x) \<and>
     reads_back D (kl_volume x) \<and> reads_back D (kl_quote_volume x) \<and> reads_back D (kl_taker_buy_base_vol x) \<and>
     reads_back D (kl_taker_buy_quote_vol x)"

interpretation kline_item: printed_type "print_v1_kline D" "read_v1_kline D" "doc_v1_kline D" "fine_v1_kline D" for D
  by unfold_locales
    (simp_all add: print_v1_kline_def read_v1_kline_def doc_v1_kline_def fine_v1_kline_def expect_represents json_type_def doc_simps)

lemma is_array: "represents j (J_array vs) \<Longrightarrow> expect_type FJ_TYPE_ARRAY j = Inr ()"
  by (simp add: expect_represents json_type_def)

text \<open>The types that are an array.\<close>

interpretation prices: printed_type "print_v1_prices D" "construct_v1_prices D"
  "\<lambda>x. J_array (map (doc_v1_price D) (map snd (prices_prices x)))"
  "\<lambda>x. keyed price_symbol (prices_prices x) \<and> list_all (fine_v1_price D) (map snd (prices_prices x))" for D :: "'d double_ops"
proof unfold_locales
  show "print_v1_prices D x = json_text (J_array (map (doc_v1_price D) (map snd (prices_prices x))))" for x
    unfolding print_v1_prices_def commas_map_snd by (rule price_item.print_all)
next
  fix x :: "'d v1_prices_t" and j
  assume f: "keyed price_symbol (prices_prices x) \<and> list_all (fine_v1_price D) (map snd (prices_prices x))"
    and rep: "represents j (J_array (map (doc_v1_price D) (map snd (prices_prices x))))"
  show "construct_v1_prices D j = Inr x"
    using price_item.read_all [OF rep] f valid_represents [OF rep] is_array [OF rep]
    by (simp add: construct_v1_prices_def emplace_keyed)
qed

interpretation day_tickers: printed_type "print_v1_24hrs_tickers D" "construct_v1_24hrs_tickers D"
  "\<lambda>x. J_array (map (doc_v1_24hrs_ticker D) (map snd (day_tickers x)))"
  "\<lambda>x. keyed day_symbol (day_tickers x) \<and> list_all (fine_v1_24hrs_ticker D) (map snd (day_tickers x))" for D :: "'d double_ops"
proof unfold_locales
  show "print_v1_24hrs_tickers D x = json_text (J_array (map (doc_v1_24hrs_ticker D) (map snd (day_tickers x))))" for x
    unfolding print_v1_24hrs_tickers_def commas_map_snd by (rule day_ticker.print_all)
next
  fix x :: "'d v1_24hrs_tickers_t" and j
  assume f: "keyed day_symbol (day_tickers x) \<and> list_all (fine_v1_24hrs_ticker D) (map snd (day_tickers x))"
    and rep: "represents j (J_array (map (doc_v1_24hrs_ticker D) (map snd (day_tickers x))))"
  show "construct_v1_24hrs_tickers D j = Inr x"
    using day_ticker_item.read_all [OF rep] f valid_represents [OF rep]
    by (simp add: construct_v1_24hrs_tickers_def emplace_keyed)
qed

interpretation markets_tickers: printed_type "print_v1_markets_tickers D" "construct_v1_markets_tickers D"
  "\<lambda>x. J_array (map (doc_v1_market_ticker D) (map snd (mkts_tickers x)))"
  "\<lambda>x. keyed mkt_s (mkts_tickers x) \<and> list_all (fine_v1_market_ticker D) (map snd (mkts_tickers x))" for D :: "'d double_ops"
proof unfold_locales
  show "print_v1_markets_tickers D x = json_text (J_array (map (doc_v1_market_ticker D) (map snd (mkts_tickers x))))" for x
    unfolding print_v1_markets_tickers_def commas_map_snd by (rule market_ticker.print_all)
next
  fix x :: "'d v1_markets_tickers_t" and j
  assume f: "keyed mkt_s (mkts_tickers x) \<and> list_all (fine_v1_market_ticker D) (map snd (mkts_tickers x))"
    and rep: "represents j (J_array (map (doc_v1_market_ticker D) (map snd (mkts_tickers x))))"
  show "construct_v1_markets_tickers D j = Inr x"
    using market_ticker_item.read_all [OF rep] f is_array [OF rep]
    by (simp add: construct_v1_markets_tickers_def emplace_keyed)
qed

interpretation trades: printed_type "print_v1_trades D" "construct_v1_trades D"
  "\<lambda>x. J_array (map (doc_v1_trade D) (trds_trades x))" "\<lambda>x. list_all (fine_v1_trade D) (trds_trades x)" for D
  by unfold_locales (unfold print_v1_trades_def, rule trade_item.print_all, simp add: construct_v1_trades_def trade_item.read_all)

interpretation klines: printed_type "print_v1_klines D" "construct_v1_klines D"
  "\<lambda>x. J_array (map (doc_v1_kline D) (kls_klines x))" "\<lambda>x. list_all (fine_v1_kline D) (kls_klines x)" for D
  by unfold_locales (unfold print_v1_klines_def, rule kline_item.print_all, simp add: construct_v1_klines_def kline_item.read_all)

interpretation cancel_all_open_orders_info: printed_type "print_v1_cancel_all_open_orders_info D" "construct_v1_cancel_all_open_orders_info D"
  "\<lambda>x. J_array (map (doc_v1_cancel_order_info D) (cans_orders x))" "\<lambda>x. list_all (fine_v1_cancel_order_info D) (cans_orders x)" for D
  by unfold_locales (unfold print_v1_cancel_all_open_orders_info_def, rule cancelled_item.print_all, simp add: construct_v1_cancel_all_open_orders_info_def cancelled_item.read_all)

interpretation my_trades_info: printed_type "print_v1_my_trades_info D" "construct_v1_my_trades_info D"
  "\<lambda>x. J_array (map (doc_v1_my_trade_info D) (mys_trades x))" "\<lambda>x. list_all (fine_v1_my_trade_info D) (mys_trades x)" for D
  by unfold_locales (unfold print_v1_my_trades_info_def, rule my_trade_info.print_all, simp add: construct_v1_my_trades_info_def my_trade_info.read_all)

section \<open>Composite types\<close>

interpretation text_item: printed_type "\<lambda>s. qt @ s @ qt" fj_to_sstring j_text "\<lambda>_. True"
  by unfold_locales (simp_all add: to_sstring_text doc_simps)

definition doc_v1_account_info :: "'d double_ops \<Rightarrow> 'd v1_account_info_t \<Rightarrow> json" where
  "doc_v1_account_info D x = J_object
     [(''makerCommission'', j_size (acc_makerCommission x)),
      (''takerCommission'', j_size (acc_takerCommission x)),
      (''buyerCommission'', j_size (acc_buyerCommission x)),
      (''sellerCommission'', j_size (acc_sellerCommission x)),
      (''canTrade'', j_bool (acc_canTrade x)),
      (''canWithdraw'', j_bool (acc_canWithdraw x)),
      (''canDeposit'', j_bool (acc_canDeposit x)),
      (''updateTime'', j_size (acc_updateTime x)),
      (''balances'', J_array (map (doc_v1_balance D) (map snd (acc_balances x))))]"

definition fine_v1_account_info :: "'d double_ops \<Rightarrow> 'd v1_account_info_t \<Rightarrow> bool" where
  "fine_v1_account_info D x \<longleftrightarrow> keyed bal_asset (acc_balances x) \<and> list_all (fine_v1_balance D) (map snd (acc_balances x))"

interpretation account_info: printed_type "print_v1_account_info D" "construct_v1_account_info D" "doc_v1_account_info D"
  "fine_v1_account_info D" for D :: "'d double_ops"
proof unfold_locales
  show "print_v1_account_info D x = json_text (doc_v1_account_info D x)" for x
    unfolding print_v1_account_info_def commas_map_snd balance_item.commas_print doc_v1_account_info_def by (simp add: doc_simps)
next
  fix x :: "'d v1_account_info_t" and j
  assume f: "fine_v1_account_info D x" and rep: "represents j (doc_v1_account_info D x)"
  note rep = rep [unfolded doc_v1_account_info_def]
  obtain a where "fj_at ''balances'' j = Inr a" "expect_type FJ_TYPE_ARRAY a = Inr ()"
    "read_each (read_v1_balance D) a = Inr (map snd (acc_balances x))"
    using balance_item.read_member [OF rep, where k = "''balances''" and xs = "map snd (acc_balances x)"] f
    by (auto simp: fine_v1_account_info_def)
  then show "construct_v1_account_info D j = Inr x"
    using f rep by (simp add: construct_v1_account_info_def fine_v1_account_info_def emplace_keyed doc_simps)
qed

definition doc_v1_depths :: "'d double_ops \<Rightarrow> 'd v1_depths_t \<Rightarrow> json" where
  "doc_v1_depths D x = J_object
     [(''lastUpdateId'', j_size (dps_lastUpdateId x)),
      (''bids'', J_array (map (doc_v1_depth D) (dps_bids x))),
      (''asks'', J_array (map (doc_v1_depth D) (dps_asks x)))]"

definition fine_v1_depths :: "'d double_ops \<Rightarrow> 'd v1_depths_t \<Rightarrow> bool" where
  "fine_v1_depths D x \<longleftrightarrow> list_all (fine_v1_depth D) (dps_bids x) \<and> list_all (fine_v1_depth D) (dps_asks x)"

interpretation depths: printed_type "print_v1_depths D" "construct_v1_depths D" "doc_v1_depths D" "fine_v1_depths D" for D :: "'d double_ops"
proof unfold_locales
  show "print_v1_depths D x = json_text (doc_v1_depths D x)" for x
    unfolding print_v1_depths_def level.commas_print doc_v1_depths_def by (simp add: doc_simps)
next
  fix x :: "'d v1_depths_t" and j
  assume f: "fine_v1_depths D x" and rep: "represents j (doc_v1_depths D x)"
  note rep = rep [unfolded doc_v1_depths_def]
  obtain b where "fj_at ''bids'' j = Inr b" "expect_type FJ_TYPE_ARRAY b = Inr ()" "read_each (read_v1_level D) b = Inr (dps_bids x)"
    using level.read_member [OF rep, where k = "''bids''" and xs = "dps_bids x"] f by (auto simp: fine_v1_depths_def)
  moreover obtain a where "fj_at ''asks'' j = Inr a" "expect_type FJ_TYPE_ARRAY a = Inr ()" "read_each (read_v1_level D) a = Inr (dps_asks x)"
    using level.read_member [OF rep, where k = "''asks''" and xs = "dps_asks x"] f by (auto simp: fine_v1_depths_def)
  ultimately show "construct_v1_depths D j = Inr x"
    using rep by (simp add: construct_v1_depths_def doc_simps)
qed

definition doc_v1_new_order_info_full :: "'d double_ops \<Rightarrow> 'd v1_new_order_info_full_t \<Rightarrow> json" where
  "doc_v1_new_order_info_full D x = J_object
     [(''symbol'', j_text (full_symbol x)),
      (''orderId'', j_size (full_orderId x)),
      (''clientOrderId'', j_text (full_clientOrderId x)),
      (''transactTime'', j_size (full_transactTime x)),
      (''price'', j_text (dt_show D (full_price x))),
      (''origQty'', j_text (dt_show D (full_origQty x))),
      (''executedQty'', j_text (dt_show D (full_executedQty x))),
      (''cummulativeQuoteQty'', j_text (dt_show D (full_cummulativeQuoteQty x))),
      (''status'', j_text (full_status x)),
      (''timeInForce'', j_text (full_timeInForce x)),
      (''type'', j_text (full_type x)),
      (''side'', j_text (full_side x)),
      (''fills'', J_array (map (doc_v1_fill_part D) (full_fills x)))]"

definition fine_v1_new_order_info_full :: "'d double_ops \<Rightarrow> 'd v1_new_order_info_full_t \<Rightarrow> bool" where
  "fine_v1_new_order_info_full D x \<longleftrightarrow> reads_back D (full_price x) \<and> reads_back D (full_origQty x) \<and>
     reads_back D (full_executedQty x) \<and> reads_back D (full_cummulativeQuoteQty x) \<and> list_all (fine_v1_fill_part D) (full_fills x)"

interpretation new_order_info_full: printed_type "print_v1_new_order_info_full D" "construct_v1_new_order_info_full D"
  "doc_v1_new_order_info_full D" "fine_v1_new_order_info_full D" for D :: "'d double_ops"
proof unfold_locales
  show "print_v1_new_order_info_full D x = json_text (doc_v1_new_order_info_full D x)" for x
    unfolding print_v1_new_order_info_full_def fill_part_item.commas_print doc_v1_new_order_info_full_def by (simp add: doc_simps)
next
  fix x :: "'d v1_new_order_info_full_t" and j
  assume f: "fine_v1_new_order_info_full D x" and rep: "represents j (doc_v1_new_order_info_full D x)"
  note rep = rep [unfolded doc_v1_new_order_info_full_def]
  obtain a where "fj_at ''fills'' j = Inr a" "read_each (read_v1_fill_part D) a = Inr (full_fills x)"
    using fill_part_item.read_member [OF rep, where k = "''fills''" and xs = "full_fills x"] f
    by (auto simp: fine_v1_new_order_info_full_def)
  then show "construct_v1_new_order_info_full D j = Inr x"
    using f rep by (simp add: construct_v1_new_order_info_full_def fine_v1_new_order_info_full_def doc_simps)
qed

definition doc_v1_account_update :: "'d double_ops \<Rightarrow> 'd v1_account_update_t \<Rightarrow> json" where
  "doc_v1_account_update D x = J_object
     [(''e'', j_text (aupd_e x)),
      (''E'', j_size (aupd_E x)),
      (''u'', j_size (aupd_u x)),
      (''B'', J_array (map (doc_v1_ud_balance D) (map snd (aupd_B x))))]"

definition fine_v1_account_update :: "'d double_ops \<Rightarrow> 'd v1_account_update_t \<Rightarrow> bool" where
  "fine_v1_account_update D x \<longleftrightarrow> keyed udb_a (aupd_B x) \<and> list_all (fine_v1_ud_balance D) (map snd (aupd_B x))"

interpretation account_update: printed_type "print_v1_account_update D" "construct_v1_account_update D" "doc_v1_account_update D"
  "fine_v1_account_update D" for D :: "'d double_ops"
proof unfold_locales
  show "print_v1_account_update D x = json_text (doc_v1_account_update D x)" for x
    unfolding print_v1_account_update_def commas_map_snd ud_balance_item.commas_print doc_v1_account_update_def by (simp add: doc_simps)
next
  fix x :: "'d v1_account_update_t" and j
  assume f: "fine_v1_account_update D x" and rep: "represents j (doc_v1_account_update D x)"
  note rep = rep [unfolded doc_v1_account_update_def]
  obtain a where "fj_at ''B'' j = Inr a" "read_each (read_v1_ud_balance D) a = Inr (map snd (aupd_B x))"
    using ud_balance_item.read_member [OF rep, where k = "''B''" and xs = "map snd (aupd_B x)"] f
    by (auto simp: fine_v1_account_update_def)
  then show "construct_v1_account_update D j = Inr x"
    using f rep put_keyed [of udb_a "aupd_B x"]
    by (simp add: construct_v1_account_update_def fine_v1_account_update_def doc_simps)
qed

text \<open>The reply to a new order: its kind is found by the members of the document.\<close>

definition doc_v1_new_order_resp :: "'d double_ops \<Rightarrow> 'd v1_new_order_resp \<Rightarrow> json" where
  "doc_v1_new_order_resp D x =
     (case x of
        Resp_ack r \<Rightarrow> doc_v1_new_order_info_ack r
      | Resp_result r \<Rightarrow> doc_v1_new_order_info_result D r
      | Resp_full r \<Rightarrow> doc_v1_new_order_info_full D r
      | Resp_test r \<Rightarrow> J_object [])"

definition fine_v1_new_order_resp :: "'d double_ops \<Rightarrow> 'd v1_new_order_resp \<Rightarrow> bool" where
  "fine_v1_new_order_resp D x \<longleftrightarrow>
     (case x of
        Resp_ack r \<Rightarrow> True
      | Resp_result r \<Rightarrow> fine_v1_new_order_info_result D r
      | Resp_full r \<Rightarrow> fine_v1_new_order_info_full D r
      | Resp_test r \<Rightarrow> test_ok r)"

lemma contains_iff: "represents j (J_object mems) \<Longrightarrow> fj_contains k j = Inr (map_of mems k \<noteq> None)"
  using at_member(2) [of j mems k] at_missing(2) [of j mems k] by (cases "map_of mems k") auto

lemma new_order_resp_read:
  assumes "fine_v1_new_order_resp D x" "represents j (doc_v1_new_order_resp D x)"
  shows "construct_v1_new_order_resp D j = Inr x"
proof (cases x)
  case (Resp_ack r)
  then have rep: "represents j (doc_v1_new_order_info_ack r)" using assms by (simp add: doc_v1_new_order_resp_def)
  show ?thesis
    using new_order_info_ack.read_doc [OF TrueI rep] contains_iff [OF rep [unfolded doc_v1_new_order_info_ack_def]] valid_represents [OF rep]
    by (simp add: construct_v1_new_order_resp_def Resp_ack)
next
  case (Resp_result r)
  then have rep: "represents j (doc_v1_new_order_info_result D r)" and f: "fine_v1_new_order_info_result D r"
    using assms by (simp_all add: doc_v1_new_order_resp_def fine_v1_new_order_resp_def)
  show ?thesis
    using new_order_info_result.read_doc [OF f rep] contains_iff [OF rep [unfolded doc_v1_new_order_info_result_def]] valid_represents [OF rep]
    by (simp add: construct_v1_new_order_resp_def Resp_result)
next
  case (Resp_full r)
  then have rep: "represents j (doc_v1_new_order_info_full D r)" and f: "fine_v1_new_order_info_full D r"
    using assms by (simp_all add: doc_v1_new_order_resp_def fine_v1_new_order_resp_def)
  show ?thesis
    using new_order_info_full.read_doc [OF f rep] contains_iff [OF rep [unfolded doc_v1_new_order_info_full_def]] valid_represents [OF rep]
    by (simp add: construct_v1_new_order_resp_def Resp_full)
next
  case (Resp_test r)
  then have rep: "represents j (J_object [])" and "test_ok r"
    using assms by (simp_all add: doc_v1_new_order_resp_def fine_v1_new_order_resp_def)
  then show ?thesis
    using contains_iff [OF rep] valid_represents [OF rep] is_type_represents [OF rep] size_represents(1) [OF rep]
    by (simp add: construct_v1_new_order_resp_def construct_v1_new_test_order_info_def expect_type_def json_type_def Resp_test)
qed

lemma new_order_resp_print: "print_v1_new_order_resp D x = Some s \<Longrightarrow> s = json_text (doc_v1_new_order_resp D x)"
  by (cases x) (auto simp: print_v1_new_order_resp_def doc_v1_new_order_resp_def
      new_order_info_ack.print_doc new_order_info_result.print_doc new_order_info_full.print_doc)

text \<open>The exchange information, when no flag is set.\<close>

definition doc_v1_symbol :: "'d double_ops \<Rightarrow> 'd v1_symbol_t \<Rightarrow> json" where
  "doc_v1_symbol D x = J_object
     [(''symbol'', j_text (sym_symbol x)),
      (''status'', j_text (sym_status x)),
      (''baseAsset'', j_text (sym_baseAsset x)),
      (''baseAssetPrecision'', j_size (sym_baseAssetPrecision x)),
      (''quoteAsset'', j_text (sym_quoteAsset x)),
      (''quotePrecision'', j_size (sym_quotePrecision x)),
      (''orderTypes'', J_array (map j_text (sym_orderTypes x))),
      (''icebergAllowed'', j_bool (sym_icebergAllowed x)),
      (''ocoAllowed'', j_bool (sym_ocoAllowed x)),
      (''quoteOrderQtyMarketAllowed'', j_bool (sym_quoteOrderQtyMarketAllowed x)),
      (''allowTrailingStop'', j_bool (sym_allowTrailingStop x)),
      (''cancelReplaceAllowed'', j_bool (sym_cancelReplaceAllowed x)),
      (''filters'', J_array (map (doc_v1_filter D) (sym_filters x)))]"

definition fine_v1_symbol :: "'d double_ops \<Rightarrow> 'd v1_symbol_t \<Rightarrow> bool" where
  "fine_v1_symbol D x \<longleftrightarrow> \<not> sym_ocoAllowed x \<and> \<not> sym_quoteOrderQtyMarketAllowed x \<and> \<not> sym_allowTrailingStop x \<and>
     \<not> sym_cancelReplaceAllowed x \<and> list_all (fine_v1_filter D) (sym_filters x)"

interpretation exchange_symbol: printed_type "print_v1_symbol D" "read_v1_symbol D" "doc_v1_symbol D" "fine_v1_symbol D" for D :: "'d double_ops"
proof unfold_locales
  show "print_v1_symbol D x = json_text (doc_v1_symbol D x)" for x
    unfolding print_v1_symbol_def symbol_filter.commas_print text_item.commas_print doc_v1_symbol_def by (simp add: doc_simps)
next
  fix x :: "'d v1_symbol_t" and j
  assume f: "fine_v1_symbol D x" and rep: "represents j (doc_v1_symbol D x)"
  note rep = rep [unfolded doc_v1_symbol_def]
  obtain a where "fj_at ''orderTypes'' j = Inr a" "expect_type FJ_TYPE_ARRAY a = Inr ()" "read_each fj_to_sstring a = Inr (sym_orderTypes x)"
    using text_item.read_member [OF rep, where k = "''orderTypes''" and xs = "sym_orderTypes x"] by (auto simp: list_all_iff)
  moreover obtain b where "fj_at ''filters'' j = Inr b" "expect_type FJ_TYPE_ARRAY b = Inr ()"
    "read_each (read_v1_filter D) b = Inr (sym_filters x)"
    using symbol_filter.read_member [OF rep, where k = "''filters''" and xs = "sym_filters x"] f by (auto simp: fine_v1_symbol_def)
  ultimately show "read_v1_symbol D j = Inr x"
    using f rep by (simp add: read_v1_symbol_def fine_v1_symbol_def doc_simps)
qed

definition doc_v1_exchange_info :: "'d double_ops \<Rightarrow> 'd v1_exchange_info_t \<Rightarrow> json" where
  "doc_v1_exchange_info D x = J_object
     [(''timezone'', j_text (ex_timezone x)),
      (''serverTime'', j_size (ex_serverTime x)),
      (''exchangeFilters'', J_array (map j_text (ex_exchangeFilters x))),
      (''rateLimits'', J_array (map doc_v1_rate_limit (ex_rateLimits x))),
      (''symbols'', J_array (map (doc_v1_symbol D) (map snd (ex_symbols x)))),
      (''permissions'', J_array [])]"

lemma print_v1_exchange_info_doc: "ex_permissions x = 0 \<Longrightarrow> print_v1_exchange_info D x = json_text (doc_v1_exchange_info D x)"
  unfolding print_v1_exchange_info_def text_item.commas_print rate_limit_item.commas_print commas_map_snd exchange_symbol.commas_print
    doc_v1_exchange_info_def
  by (simp add: doc_simps perms_arr_def)

text \<open>A symbol is written without its flags, which the reader asks for.\<close>

lemma no_permissions: "represents j (doc_v1_symbol D x) \<Longrightarrow> read_v1_permissions src j = Inl (Fj_runtime_error ''key not found'')"
  unfolding doc_v1_symbol_def by (drule at_missing(1) [where key = "''permissions''"]) (simp_all add: read_v1_permissions_def)

lemma read_each_first:
  assumes "represents j (J_array (v # vs))" "read_each f j = Inr ys"
  obtains j' y where "represents j' v" "f j' = Inr y"
proof -
  obtain j' where j': "fj_at_idx 0 j = Inr j'" "represents j' v" using at_index [OF assms(1), of 0] by auto
  have "[0..<length (v # vs)] = 0 # [1..<length (v # vs)]" by (subst upt_conv_Cons) simp_all
  then obtain y where "f j' = Inr y"
    using assms(2) size_represents(2) [OF assms(1)] j'(1) by (auto simp: read_each_def bind_exn_Inr_iff simp del: upt_Suc)
  then show thesis using that j'(2) by blast
qed

lemma exchange_info_not_read:
  assumes rep: "represents j (doc_v1_exchange_info D x)" and "ex_symbols x \<noteq> []"
  shows "construct_v1_exchange_info src D j \<noteq> Inr y"
proof
  assume c: "construct_v1_exchange_info src D j = Inr y"
  let ?read = "\<lambda>sit. bind_exn (read_v1_symbol D sit) (\<lambda>s. bind_exn (read_v1_permissions src sit) (\<lambda>flags. Inr (s, flags)))"
  obtain k s m where m: "ex_symbols x = (k, s) # m" using assms(2) by (cases "ex_symbols x") auto
  obtain syms where syms: "fj_at ''symbols'' j = Inr syms" "represents syms (J_array (map (doc_v1_symbol D) (map snd (ex_symbols x))))"
    using at_member(1) [OF rep [unfolded doc_v1_exchange_info_def], of "''symbols''"] by auto
  obtain r where "read_each ?read syms = Inr r"
    using c syms(1) unfolding construct_v1_exchange_info_def bind_exn_Inr_iff by auto
  then obtain j' z where "represents j' (doc_v1_symbol D s)" "?read j' = Inr z"
    using read_each_first [of syms "doc_v1_symbol D s" "map (doc_v1_symbol D) (map snd m)" ?read r] syms(2)
    unfolding m list.map snd_conv by blast
  then show False using no_permissions [of j' D s src] by (auto simp: bind_exn_Inr_iff)
qed

lemma conv_flag_lost: "conv_to_bool (flag_text b) = False"
  by (simp add: conv_to_bool_def flag_text_def)

definition doc_v1_agg_trade :: "'d double_ops \<Rightarrow> 'd v1_agg_trade_t \<Rightarrow> json" where
  "doc_v1_agg_trade D x = J_object
     [(''id'', j_size (agg_id x)),
      (''price'', j_text (dt_show D (agg_price x))),
      (''qty'', j_text (dt_show D (agg_qty x))),
      (''first_id'', j_size (agg_first_id x)),
      (''last_id'', j_size (agg_last_id x)),
      (''time'', j_size (agg_time x)),
      (''isBuyerMaker'', j_bool (agg_isBuyerMaker x)),
      (''isBestMatch'', j_bool (agg_isBestMatch x))]"

lemma print_v1_agg_trade_doc: "print_v1_agg_trade D = (\<lambda>x. json_text (doc_v1_agg_trade D x))"
  by (simp add: fun_eq_iff print_v1_agg_trade_def doc_v1_agg_trade_def doc_simps)

lemma agg_trade_not_read:
  assumes "represents j (doc_v1_agg_trade D x)"
  shows "read_v1_agg_trade D j = Inl (Fj_runtime_error ''key not found'')"
  using at_missing(1) [OF assms [unfolded doc_v1_agg_trade_def], of "''a''"] by (simp add: read_v1_agg_trade_def get_size_def)

lemma agg_trades_not_read:
  assumes "represents j (J_array (map (doc_v1_agg_trade D) (aggs_trades x)))" "aggs_trades x \<noteq> []"
  shows "construct_v1_agg_trades D j \<noteq> Inr y"
proof
  assume c: "construct_v1_agg_trades D j = Inr y"
  obtain t ts where t: "aggs_trades x = t # ts" using assms(2) by (cases "aggs_trades x") auto
  obtain r where "read_each (read_v1_agg_trade D) j = Inr r"
    using c unfolding construct_v1_agg_trades_def bind_exn_Inr_iff by auto
  then obtain j' z where "represents j' (doc_v1_agg_trade D t)" "read_v1_agg_trade D j' = Inr z"
    using read_each_first [of j "doc_v1_agg_trade D t" "map (doc_v1_agg_trade D) ts" "read_v1_agg_trade D" r] assms(1)
    unfolding t list.map by blast
  then show False using agg_trade_not_read [of j' D t] by simp
qed

lemma trade_not_read:
  assumes "represents j (doc_v1_trade D x)"
  shows "construct_v1_trade D j = Inl (Fj_logic_error ''not ARRAY type'')"
proof -
  obtain t where "fj_root j = Inr t" "tk_type t = FJ_TYPE_OBJECT"
    using root_type [OF assms] by (auto simp: doc_v1_trade_def json_type_def)
  then show ?thesis using valid_represents [OF assms] by (simp add: construct_v1_trade_def fj_at_idx_def find_idx_def)
qed

section \<open>Properties\<close>

text \<open>The text, loaded, is read as the value.\<close>

definition restores :: "string \<Rightarrow> (fjson \<Rightarrow> 'a fj_result) \<Rightarrow> 'a \<Rightarrow> bool" where
  "restores s construct x \<longleftrightarrow> (\<exists>j. fj_load s = Some j \<and> construct j = Inr x)"

lemma new_order_resp_restores:
  assumes "fine_v1_new_order_resp D r" "json_ok (doc_v1_new_order_resp D r)" "print_v1_new_order_resp D r = Some s"
  shows "restores s (construct_v1_new_order_resp D) r"
  using new_order_resp_print [OF assms(3)] new_order_resp_read [OF assms(1) represents_document [OF assms(2)]] load_document [OF assms(2)]
  by (simp add: restores_def)

text \<open>
  C11: Most types of the legacy client read back what they write: a value written to a stream, loaded as JSON and
  constructed again is the same value, for times, prices, tickers, the account, order books, trades, candles,
  orders, cancellations, listen keys and the events of the streams. The strings must need no escaping and
  fit the tokens, the decimals be ones whose text reads back, and the keys of a map be those of its elements.
  The reply to a new order is recognised as the kind it was.
\<close>

theorem v1_types_roundtrip:
  "(fine_v1_book_ticker D vr \<longrightarrow> json_ok (doc_v1_book_ticker D vr) \<longrightarrow> restores (print_v1_book_ticker D vr) (construct_v1_book_ticker D) vr) \<and>
   (json_ok (doc_v1_server_time va) \<longrightarrow> restores (print_v1_server_time va) construct_v1_server_time va) \<and>
   (fine_v1_avg_price D vb \<longrightarrow> json_ok (doc_v1_avg_price D vb) \<longrightarrow> restores (print_v1_avg_price D vb) (construct_v1_avg_price D) vb) \<and>
   (fine_v1_price D vc \<longrightarrow> json_ok (doc_v1_price D vc) \<longrightarrow> restores (print_v1_price D vc) (construct_v1_price D) vc) \<and>
   (keyed price_symbol (prices_prices vd) \<and> list_all (fine_v1_price D) (map snd (prices_prices vd)) \<longrightarrow> json_ok (J_array (map (doc_v1_price D) (map snd (prices_prices vd)))) \<longrightarrow> restores (print_v1_prices D vd) (construct_v1_prices D) vd) \<and>
   (keyed day_symbol (day_tickers ve) \<and> list_all (fine_v1_24hrs_ticker D) (map snd (day_tickers ve)) \<longrightarrow> json_ok (J_array (map (doc_v1_24hrs_ticker D) (map snd (day_tickers ve)))) \<longrightarrow> restores (print_v1_24hrs_tickers D ve) (construct_v1_24hrs_tickers D) ve) \<and>
   (fine_v1_account_info D vf \<longrightarrow> json_ok (doc_v1_account_info D vf) \<longrightarrow> restores (print_v1_account_info D vf) (construct_v1_account_info D) vf) \<and>
   (fine_v1_depths D vg \<longrightarrow> json_ok (doc_v1_depths D vg) \<longrightarrow> restores (print_v1_depths D vg) (construct_v1_depths D) vg) \<and>
   (list_all (fine_v1_trade D) (trds_trades vh) \<longrightarrow> json_ok (J_array (map (doc_v1_trade D) (trds_trades vh))) \<longrightarrow> restores (print_v1_trades D vh) (construct_v1_trades D) vh) \<and>
   (list_all (fine_v1_kline D) (kls_klines vi) \<longrightarrow> json_ok (J_array (map (doc_v1_kline D) (kls_klines vi))) \<longrightarrow> restores (print_v1_klines D vi) (construct_v1_klines D) vi) \<and>
   (fine_v1_order_info D vj \<longrightarrow> json_ok (doc_v1_order_info D vj) \<longrightarrow> restores (print_v1_order_info D vj) (construct_v1_order_info D) vj) \<and>
   (list_all (fine_v1_cancel_order_info D) (cans_orders vk) \<longrightarrow> json_ok (J_array (map (doc_v1_cancel_order_info D) (cans_orders vk))) \<longrightarrow> restores (print_v1_cancel_all_open_orders_info D vk) (construct_v1_cancel_all_open_orders_info D) vk) \<and>
   (list_all (fine_v1_my_trade_info D) (mys_trades vl) \<longrightarrow> json_ok (J_array (map (doc_v1_my_trade_info D) (mys_trades vl))) \<longrightarrow> restores (print_v1_my_trades_info D vl) (construct_v1_my_trades_info D) vl) \<and>
   (json_ok (doc_v1_start_user_data_stream vm) \<longrightarrow> restores (print_v1_start_user_data_stream vm) construct_v1_start_user_data_stream vm) \<and>
   (fine_v1_ws_agg_trade D vn \<longrightarrow> json_ok (doc_v1_ws_agg_trade D vn) \<longrightarrow> restores (print_v1_ws_agg_trade D vn) (construct_v1_ws_agg_trade D) vn) \<and>
   (fine_v1_ws_trade D vo \<longrightarrow> json_ok (doc_v1_ws_trade D vo) \<longrightarrow> restores (print_v1_ws_trade D vo) (construct_v1_ws_trade D) vo) \<and>
   (keyed mkt_s (mkts_tickers vp) \<and> list_all (fine_v1_market_ticker D) (map snd (mkts_tickers vp)) \<longrightarrow> json_ok (J_array (map (doc_v1_market_ticker D) (map snd (mkts_tickers vp)))) \<longrightarrow> restores (print_v1_markets_tickers D vp) (construct_v1_markets_tickers D) vp) \<and>
   (fine_v1_market_ticker D vq \<longrightarrow> json_ok (doc_v1_market_ticker D vq) \<longrightarrow> restores (print_v1_market_ticker D vq) (construct_v1_market_ticker D) vq) \<and>
   (fine_v1_account_update D vs \<longrightarrow> json_ok (doc_v1_account_update D vs) \<longrightarrow> restores (print_v1_account_update D vs) (construct_v1_account_update D) vs) \<and>
   (fine_v1_balance_update D vt \<longrightarrow> json_ok (doc_v1_balance_update D vt) \<longrightarrow> restores (print_v1_balance_update D vt) (construct_v1_balance_update D) vt) \<and>
   (fine_v1_order_update D vu \<longrightarrow> json_ok (doc_v1_order_update D vu) \<longrightarrow> restores (print_v1_order_update D vu) (construct_v1_order_update D) vu) \<and>
   (fine_v1_new_order_resp D r \<longrightarrow> json_ok (doc_v1_new_order_resp D r) \<longrightarrow> print_v1_new_order_resp D r = Some s \<longrightarrow>
      restores s (construct_v1_new_order_resp D) r)"
  unfolding restores_def
  by (intro conjI impI server_time.read_back avg_price.read_back price.read_back prices.read_back day_tickers.read_back
      account_info.read_back depths.read_back trades.read_back klines.read_back order_info.read_back
      cancel_all_open_orders_info.read_back my_trades_info.read_back start_user_data_stream.read_back ws_agg_trade.read_back ws_trade.read_back
      markets_tickers.read_back market_ticker.read_back book_ticker.read_back account_update.read_back balance_update.read_back
      order_update.read_back
      new_order_resp_restores [unfolded restores_def] TrueI; assumption?; simp?)

text \<open>Decimals as their texts, for examples.\<close>

definition text_ops :: "string double_ops" where
  "text_ops = \<lparr>dt_assign = Inr, dt_show = (\<lambda>d. d), dt_zero = ''0'', dt_add = (\<lambda>a b. a), dt_sub = (\<lambda>a b. a),
     dt_div_size = (\<lambda>a n. a), dt_less = (\<lambda>a b. False)\<rparr>"

theorem v1_types_roundtrip_witness:
  "let x = \<lparr>book_u = 7, book_s = ''BNBUSDT'', book_b = ''25.35'', book_B = ''31.2'', book_a = ''25.36'', book_A = ''40.6''\<rparr>
   in restores (print_v1_book_ticker text_ops x) (construct_v1_book_ticker text_ops) x"
proof -
  let ?x = "\<lparr>book_u = 7, book_s = ''BNBUSDT'', book_b = ''25.35'', book_B = ''31.2'', book_a = ''25.36'', book_A = ''40.6''\<rparr>"
  have "size_text 7 = ''7''" by code_simp
  moreover have "number_text ''7''" by (rule number_text_digits) (simp_all add: digit_string_def is_digit_def)
  ultimately have "fine_v1_book_ticker text_ops ?x" "json_ok (doc_v1_book_ticker text_ops ?x)"
    by (simp_all add: fine_v1_book_ticker_def reads_back_def text_ops_def doc_v1_book_ticker_def j_size_def j_text_def
        simple_ok_def key_ok_def fj_utf8_char_len_def)
  moreover have "fine_v1_book_ticker text_ops ?x \<longrightarrow> json_ok (doc_v1_book_ticker text_ops ?x) \<longrightarrow>
      restores (print_v1_book_ticker text_ops ?x) (construct_v1_book_ticker text_ops) ?x"
    by (rule v1_types_roundtrip [where D = text_ops and vr = ?x, THEN conjunct1])
  ultimately show ?thesis by simp
qed

lemma key_without_colon:
  assumes "is_digit c"
  shows "\<exists>j. fj_load (CHR ''{'' # CHR 0x22 # CHR ''E'' # CHR '':'' # CHR 0x22 # c # rest) = Some j \<and> m_err j \<noteq> FJ_EC_OK"
proof -
  let ?s = "CHR ''{'' # CHR 0x22 # CHR ''E'' # CHR '':'' # CHR 0x22 # c # rest"
  obtain n where n: "parse_fuel ?s = Suc (Suc (Suc (Suc n)))" by (simp add: parse_fuel_def)
  have c: "c \<noteq> CHR '':''" "\<not> is_ws c" "c \<noteq> CHR 0xFF" using assms by (auto simp: is_digit_def is_ws_def)
  have key: "fj_parse_string (CHR 0x22 # CHR ''E'' # CHR '':'' # CHR 0x22 # c # rest) = (FJ_EC_OK, ''E:'', c # rest)"
    by (simp add: fj_parse_string_def fj_check_and_skip_def fj_skip_ws_def is_ws_def cur_char_def fj_utf8_char_len_def)
  have "fj_num_tokens ?s = Some (FJ_EC_INVALID, 2)"
    unfolding fj_num_tokens_def n
    using key c
    by (simp add: value_step_def object_step_def nested_step_def object_loop_step_def member_key_def expect_char_def
        fj_check_and_skip_def fj_skip_ws_def is_ws_def cur_char_def starts_number_def is_digit_def simple_value_def
        open_tok_def advance_tok_def set_tok_def no_free_def Let_def)
  then show ?thesis by (simp add: fj_load_def)
qed

lemma mini_ticker_malformed: "\<exists>j. fj_load (print_v1_mini_ticker D x) = Some j \<and> m_err j \<noteq> FJ_EC_OK"
proof -
  have digits: "list_all is_digit (size_text (mini_E x))" by (simp add: size_text_def)
  obtain c ds where c: "size_text (mini_E x) = c # ds"
    using digit_string_dec_digits [of "unat (mini_E x)"] by (cases "size_text (mini_E x)") (simp_all add: size_text_def digit_string_def)
  have "is_digit c" using digits by (simp add: c)
  then show ?thesis using key_without_colon [of c] c by (simp add: print_v1_mini_ticker_def)
qed

text \<open>
  C40: Where the legacy types do not read back what they write. The constructor of a single trade asks its object
  for an array element and throws; a list of aggregate trades that is not empty is written under other names than it is read
  by; exchange information with at least one symbol and no permission flags is written without the permissions that
  are then asked of each symbol, so it is never read again; the flags of a notional filter are written as digits in quotes
  and come back cleared, whatever they were; the reply to a test order cannot be written at all; and a mini
  ticker is not written as JSON, so no mini ticker can be loaded. The documents are assumed to fit the fields of
  the reader's tokens.
\<close>

theorem v1_types_do_not_read_back:
  "(json_ok (doc_v1_trade D t) \<longrightarrow> (\<exists>j. fj_load (print_v1_trade D t) = Some j \<and>
      construct_v1_trade D j = Inl (Fj_logic_error ''not ARRAY type''))) \<and>
   (aggs_trades a \<noteq> [] \<longrightarrow> json_ok (J_array (map (doc_v1_agg_trade D) (aggs_trades a))) \<longrightarrow>
      \<not> restores (print_v1_agg_trades D a) (construct_v1_agg_trades D) a') \<and>
   (ex_symbols e \<noteq> [] \<longrightarrow> ex_permissions e = 0 \<longrightarrow> json_ok (doc_v1_exchange_info D e) \<longrightarrow>
      \<not> restores (print_v1_exchange_info D e) (construct_v1_exchange_info src D) e') \<and>
   (reads_back D (no_minNotional n) \<longrightarrow> reads_back D (no_maxNotional n) \<longrightarrow> json_ok (doc_v1_notional D n) \<longrightarrow>
      restores (print_v1_notional D n) (read_v1_notional D) (n\<lparr>no_applyMinToMarket := False, no_applyMaxToMarket := False\<rparr>)) \<and>
   print_v1_new_order_resp D (Resp_test r) = None \<and>
   (\<exists>j. fj_load (print_v1_mini_ticker D x) = Some j \<and> m_err j \<noteq> FJ_EC_OK)"
proof (intro conjI impI)
  assume ok: "json_ok (doc_v1_trade D t)"
  show "\<exists>j. fj_load (print_v1_trade D t) = Some j \<and> construct_v1_trade D j = Inl (Fj_logic_error ''not ARRAY type'')"
    using load_document [OF ok] trade_not_read [OF represents_document [OF ok]] by (simp add: trade_item.print_doc)
next
  assume a: "aggs_trades a \<noteq> []" and ok: "json_ok (J_array (map (doc_v1_agg_trade D) (aggs_trades a)))"
  have "print_v1_agg_trades D a = json_text (J_array (map (doc_v1_agg_trade D) (aggs_trades a)))"
    by (simp add: print_v1_agg_trades_def print_v1_agg_trade_doc json_texts_commas comp_def)
  then show "\<not> restores (print_v1_agg_trades D a) (construct_v1_agg_trades D) a'"
    using load_document [OF ok] agg_trades_not_read [OF represents_document [OF ok] a] by (simp add: restores_def)
next
  assume e: "ex_symbols e \<noteq> []" "ex_permissions e = 0" and ok: "json_ok (doc_v1_exchange_info D e)"
  show "\<not> restores (print_v1_exchange_info D e) (construct_v1_exchange_info src D) e'"
    using load_document [OF ok] exchange_info_not_read [OF represents_document [OF ok] e(1)]
    by (simp add: restores_def print_v1_exchange_info_doc [OF e(2)])
next
  assume f: "reads_back D (no_minNotional n)" "reads_back D (no_maxNotional n)" and ok: "json_ok (doc_v1_notional D n)"
  show "restores (print_v1_notional D n) (read_v1_notional D) (n\<lparr>no_applyMinToMarket := False, no_applyMaxToMarket := False\<rparr>)"
    using load_document [OF ok] represents_document [OF ok] f
    by (simp add: restores_def notional.print_doc) (simp add: read_v1_notional_def doc_v1_notional_def doc_simps)
qed (simp add: print_v1_new_order_resp_def, rule mini_ticker_malformed)

theorem v1_types_do_not_read_back_witness:
  "let t = \<lparr>trd_id = 7, trd_price = ''25.35'', trd_qty = ''3'', trd_time = 7, trd_isBuyerMaker = True, trd_isBestMatch = False\<rparr>;
       n = \<lparr>no_minNotional = ''5'', no_applyMinToMarket = True, no_maxNotional = ''9'', no_applyMaxToMarket = True, no_avgPriceMins = 7\<rparr>
   in (\<exists>j. fj_load (print_v1_trade text_ops t) = Some j \<and> construct_v1_trade text_ops j = Inl (Fj_logic_error ''not ARRAY type'')) \<and>
      restores (print_v1_notional text_ops n) (read_v1_notional text_ops) (n\<lparr>no_applyMinToMarket := False, no_applyMaxToMarket := False\<rparr>)"
proof -
  let ?t = "\<lparr>trd_id = 7, trd_price = ''25.35'', trd_qty = ''3'', trd_time = 7, trd_isBuyerMaker = True, trd_isBestMatch = False\<rparr>"
  let ?n = "\<lparr>no_minNotional = ''5'', no_applyMinToMarket = True, no_maxNotional = ''9'', no_applyMaxToMarket = True, no_avgPriceMins = 7\<rparr>"
  have seven: "size_text 7 = ''7''" by code_simp
  have "number_text ''7''" by (rule number_text_digits) (simp_all add: digit_string_def is_digit_def)
  then have "json_ok (doc_v1_trade text_ops ?t)" "json_ok (doc_v1_notional text_ops ?n)"
    by (simp_all add: text_ops_def doc_v1_trade_def doc_v1_notional_def j_size_def j_text_def j_bool_def bool_text_def flag_text_def
        seven simple_ok_def key_ok_def fj_utf8_char_len_def)
  moreover have "reads_back text_ops (no_minNotional ?n)" "reads_back text_ops (no_maxNotional ?n)"
    by (simp_all add: reads_back_def text_ops_def)
  moreover have "json_ok (doc_v1_trade text_ops ?t) \<longrightarrow> (\<exists>j. fj_load (print_v1_trade text_ops ?t) = Some j \<and>
      construct_v1_trade text_ops j = Inl (Fj_logic_error ''not ARRAY type''))"
    using v1_types_do_not_read_back [where D = text_ops and t = ?t] by blast
  moreover have "reads_back text_ops (no_minNotional ?n) \<longrightarrow> reads_back text_ops (no_maxNotional ?n) \<longrightarrow>
      json_ok (doc_v1_notional text_ops ?n) \<longrightarrow>
      restores (print_v1_notional text_ops ?n) (read_v1_notional text_ops) (?n\<lparr>no_applyMinToMarket := False, no_applyMaxToMarket := False\<rparr>)"
    using v1_types_do_not_read_back [where D = text_ops and n = ?n] by blast
  ultimately show ?thesis unfolding Let_def by blast
qed
end
