(* ===== verification/V1_Pairs.thy ===== *)
theory V1_Pairs
  imports V1_Types
begin

text \<open>
  The lists of trading pairs of the legacy client, \<^verbatim>\<open>binapi/pairslist.cpp\<close>, and the string helpers of
  \<^verbatim>\<open>binapi/tools.cpp\<close>. A \<^verbatim>\<open>std::set\<close> of names is a set; \<open>None\<close> is a failed assertion or the first character of an
  empty entry, which is undefined.
\<close>

section \<open>Strings\<close>

text \<open>\<^verbatim>\<open>boost::algorithm::split\<close> with \<^verbatim>\<open>is_any_of(sep)\<close>, without merging separators.\<close>

fun split_any :: "string \<Rightarrow> string \<Rightarrow> string list" where
  "split_any sep [] = [[]]"
| "split_any sep (c # s) =
     (if c \<in> set sep then [] # split_any sep s
      else case split_any sep s of [] \<Rightarrow> [[c]] | w # ws \<Rightarrow> (c # w) # ws)"

definition is_blank :: "char \<Rightarrow> bool" where
  "is_blank c \<longleftrightarrow> c \<in> {CHR 0x20, CHR 0x09, CHR 0x0A, CHR 0x0B, CHR 0x0C, CHR 0x0D}"

definition trim :: "string \<Rightarrow> string" where
  "trim s = dropWhile is_blank (rev (dropWhile is_blank (rev s)))"

definition split_string :: "string \<Rightarrow> string \<Rightarrow> string list" where
  "split_string str sep = map trim (split_any sep str)"

fun join_string :: "string list \<Rightarrow> string \<Rightarrow> string" where
  "join_string [] sep = []"
| "join_string (v # vec) sep = v @ (if vec = [] then [] else sep) @ join_string vec sep"

definition starts_with :: "string \<Rightarrow> string \<Rightarrow> bool" where
  "starts_with s t \<longleftrightarrow> take (length t) s = t"

definition ends_with :: "string \<Rightarrow> string \<Rightarrow> bool" where
  "ends_with s t \<longleftrightarrow> length t \<le> length s \<and> drop (length s - length t) s = t"

text \<open>\<^verbatim>\<open>is_my_orderid\<close>: the part of the C string before its first hyphen is one of the names of its length.\<close>

definition is_my_orderid :: "string \<Rightarrow> bool" where
  "is_my_orderid client_order_id =
     (let start = c_str client_order_id; len = length (takeWhile (\<lambda>c. c \<noteq> CHR ''-'') start); same = starts_with start
      in if CHR ''-'' \<notin> set start then False
         else if len = 3 then same ''FIX''
         else if len = 4 then same ''SRSI''
         else if len = 5 then same ''AROON'' \<or> same ''SLOSS'' \<or> same ''TAKEP''
         else if len = 6 then same ''SRSI_U'' \<or> same ''SRSI_D'' \<or> same ''SRSI_C''
         else if len = 7 then same ''HOLEBUY'' \<or> same ''INASELL''
         else if len = 8 then same ''CYCLEBUY'' \<or> same ''SPREDBUY'' \<or> same ''SLOSSBUY''
         else False)"

section \<open>The lists\<close>

definition symbol_names :: "'d v1_exchange_info_t \<Rightarrow> string set" where
  "symbol_names exinfo = set (map fst (ex_symbols exinfo))"

definition names_where :: "(string \<times> 'd v1_symbol_t \<Rightarrow> bool) \<Rightarrow> 'd v1_exchange_info_t \<Rightarrow> string set" where
  "names_where P exinfo = set (map fst (filter P (ex_symbols exinfo)))"

fun white_entry :: "'d v1_exchange_info_t \<Rightarrow> string \<Rightarrow> string set \<Rightarrow> string set option" where
  "white_entry exinfo [] res = None"
| "white_entry exinfo (c # s) res =
     (if c = CHR ''*'' then Some (res \<union> names_where (\<lambda>sit. sym_quoteAsset (snd sit) = s) exinfo)
      else if last (c # s) = CHR ''*'' then Some (res \<union> names_where (\<lambda>sit. sym_baseAsset (snd sit) = butlast (c # s)) exinfo)
      else if c # s \<in> symbol_names exinfo then Some (insert (c # s) res)
      else None)"

fun white_entries :: "'d v1_exchange_info_t \<Rightarrow> string list \<Rightarrow> string set \<Rightarrow> string set option" where
  "white_entries exinfo [] res = Some res"
| "white_entries exinfo (pit # p) res =
     (case white_entry exinfo pit res of None \<Rightarrow> None | Some res \<Rightarrow> white_entries exinfo p res)"

definition apply_whitelist :: "string \<Rightarrow> 'd v1_exchange_info_t \<Rightarrow> string set option" where
  "apply_whitelist whitelist exinfo =
     (let p = split_string whitelist '','' in
      if p = [''*''] then Some (symbol_names exinfo) else white_entries exinfo p {})"

fun black_entry :: "'d v1_exchange_info_t \<Rightarrow> string \<Rightarrow> string set \<Rightarrow> string set option" where
  "black_entry exinfo [] res = None"
| "black_entry exinfo (c # s) res =
     (if c = CHR ''*'' then Some {sit \<in> res. \<not> ends_with sit s}
      else if last (c # s) = CHR ''*'' then Some {sit \<in> res. \<not> starts_with sit (butlast (c # s))}
      else if c # s \<in> symbol_names exinfo then Some {sit \<in> res. c # s \<noteq> sit}
      else None)"

fun black_entries :: "'d v1_exchange_info_t \<Rightarrow> string list \<Rightarrow> string set \<Rightarrow> string set option" where
  "black_entries exinfo [] res = Some res"
| "black_entries exinfo (pit # p) res =
     (case black_entry exinfo pit res of None \<Rightarrow> None | Some res \<Rightarrow> black_entries exinfo p res)"

text \<open>The branch without a white list: every entry inserts the names it does not match.\<close>

fun rest_entry :: "'d v1_exchange_info_t \<Rightarrow> string \<Rightarrow> string set \<Rightarrow> string set option" where
  "rest_entry exinfo [] res = None"
| "rest_entry exinfo (c # s) res =
     (if c = CHR ''*'' then Some (res \<union> names_where (\<lambda>sit. \<not> ends_with (fst sit) s) exinfo)
      else if last (c # s) = CHR ''*'' then Some (res \<union> names_where (\<lambda>sit. \<not> starts_with (fst sit) (butlast (c # s))) exinfo)
      else Some (res \<union> names_where (\<lambda>sit. c # s \<noteq> fst sit) exinfo))"

fun rest_entries :: "'d v1_exchange_info_t \<Rightarrow> string list \<Rightarrow> string set \<Rightarrow> string set option" where
  "rest_entries exinfo [] res = Some res"
| "rest_entries exinfo (pit # p) res =
     (case rest_entry exinfo pit res of None \<Rightarrow> None | Some res \<Rightarrow> rest_entries exinfo p res)"

definition process_pairs :: "string \<Rightarrow> string \<Rightarrow> 'd v1_exchange_info_t \<Rightarrow> string set option" where
  "process_pairs whitelist blacklist exinfo =
     (if whitelist = [] then None
      else
        case apply_whitelist whitelist exinfo of
          None \<Rightarrow> None
        | Some res \<Rightarrow>
            if res \<noteq> {} \<and> blacklist \<noteq> []
            then let p = split_string blacklist '','' in if p = [''*''] then Some {} else black_entries exinfo p res
            else if blacklist \<noteq> [] then rest_entries exinfo (split_string blacklist '','') res
            else Some res)"

definition pair_in_pairs :: "string set \<Rightarrow> string \<Rightarrow> bool" where
  "pair_in_pairs pairs pair \<longleftrightarrow> pair \<in> pairs"

section \<open>What an entry matches\<close>

text \<open>A white list compares assets, a black list the ends of the name.\<close>

definition white_matches :: "string \<Rightarrow> string \<times> 'd v1_symbol_t \<Rightarrow> bool" where
  "white_matches e sit \<longleftrightarrow>
     (if hd e = CHR ''*'' then sym_quoteAsset (snd sit) = tl e
      else if last e = CHR ''*'' then sym_baseAsset (snd sit) = butlast e else fst sit = e)"

definition black_matches :: "string \<Rightarrow> string \<Rightarrow> bool" where
  "black_matches e name \<longleftrightarrow>
     (if hd e = CHR ''*'' then ends_with name (tl e)
      else if last e = CHR ''*'' then starts_with name (butlast e) else name = e)"

text \<open>An entry the code accepts: a pattern, or the name of a symbol.\<close>

definition entry_ok :: "'d v1_exchange_info_t \<Rightarrow> string \<Rightarrow> bool" where
  "entry_ok exinfo e \<longleftrightarrow> e \<noteq> [] \<and> (hd e = CHR ''*'' \<or> last e = CHR ''*'' \<or> e \<in> symbol_names exinfo)"

definition whitelisted :: "string \<Rightarrow> 'd v1_exchange_info_t \<Rightarrow> string set" where
  "whitelisted whitelist exinfo =
     (let p = split_string whitelist '','' in
      if p = [''*''] then symbol_names exinfo
      else names_where (\<lambda>sit. \<exists>e\<in>set p. white_matches e sit) exinfo)"

lemma white_entry_eq:
  "entry_ok exinfo e \<Longrightarrow> white_entry exinfo e res = Some (res \<union> names_where (white_matches e) exinfo)"
  by (cases e) (auto simp: entry_ok_def white_matches_def names_where_def symbol_names_def)

lemma white_entries_eq:
  "list_all (entry_ok exinfo) p \<Longrightarrow>
   white_entries exinfo p res = Some (res \<union> names_where (\<lambda>sit. \<exists>e\<in>set p. white_matches e sit) exinfo)"
proof (induction p arbitrary: res)
  case (Cons e p)
  then show ?case by (auto simp: white_entry_eq names_where_def)
qed (simp add: names_where_def)

lemma apply_whitelist_eq:
  assumes "list_all (entry_ok exinfo) (split_string whitelist '','')"
  shows "apply_whitelist whitelist exinfo = Some (whitelisted whitelist exinfo)"
  using white_entries_eq [OF assms, of "{}"]
  by (simp add: apply_whitelist_def whitelisted_def Let_def)

lemma black_entry_eq: "entry_ok exinfo e \<Longrightarrow> black_entry exinfo e res = Some {name \<in> res. \<not> black_matches e name}"
  by (cases e) (auto simp: entry_ok_def black_matches_def)

lemma black_entries_eq:
  "list_all (entry_ok exinfo) p \<Longrightarrow> black_entries exinfo p res = Some {name \<in> res. \<forall>e\<in>set p. \<not> black_matches e name}"
proof (induction p arbitrary: res)
  case (Cons e p)
  then show ?case by (auto simp: black_entry_eq)
qed simp

lemma rest_entry_eq:
  "e \<noteq> [] \<Longrightarrow> rest_entry exinfo e res = Some (res \<union> {name \<in> symbol_names exinfo. \<not> black_matches e name})"
  by (cases e) (auto simp: black_matches_def names_where_def symbol_names_def)

lemma rest_entries_eq:
  "list_all (\<lambda>e. e \<noteq> []) p \<Longrightarrow>
   rest_entries exinfo p res = Some (res \<union> {name \<in> symbol_names exinfo. \<exists>e\<in>set p. \<not> black_matches e name})"
proof (induction p arbitrary: res)
  case (Cons e p)
  then show ?case by (auto simp: rest_entry_eq)
qed simp

lemma entries_not_empty: "list_all (entry_ok exinfo) p \<Longrightarrow> list_all (\<lambda>e. e \<noteq> []) p"
  by (auto simp: list_all_iff entry_ok_def)

lemma split_any_not_Nil: "split_any sep s \<noteq> []"
  by (induction s) (auto split: list.splits)

text \<open>Joining undoes splitting when the parts hold no separator and no space at their ends.\<close>

lemma split_any_append: "c \<in> set sep \<Longrightarrow> set v \<inter> set sep = {} \<Longrightarrow> split_any sep (v @ c # s) = v # split_any sep s"
  by (induction v) (auto split: list.splits)

lemma split_any_single: "set v \<inter> set sep = {} \<Longrightarrow> split_any sep v = [v]"
  by (induction v) auto

lemma split_join_string:
  "vec \<noteq> [] \<Longrightarrow> list_all (\<lambda>v. CHR '','' \<notin> set v \<and> trim v = v) vec \<Longrightarrow> split_string (join_string vec '','') '','' = vec"
  unfolding split_string_def
proof (induction vec)
  case (Cons v vec)
  then show ?case
    by (cases "vec = []") (simp_all add: split_any_append split_any_single)
qed simp

text \<open>An order identifier of the program is a known name, a hyphen and anything.\<close>

definition my_names :: "string set" where
  "my_names = {''FIX'', ''SRSI'', ''AROON'', ''SLOSS'', ''TAKEP'', ''SRSI_U'', ''SRSI_D'', ''SRSI_C'', ''HOLEBUY'', ''INASELL'', ''CYCLEBUY'',
     ''SPREDBUY'', ''SLOSSBUY''}"

lemma my_names_no_hyphen: "name \<in> my_names \<Longrightarrow> CHR ''-'' \<notin> set name"
  by (auto simp: my_names_def)

lemma name_before_hyphen:
  assumes "CHR ''-'' \<notin> set name"
  shows "CHR ''-'' \<in> set s \<and> length (takeWhile (\<lambda>c. c \<noteq> CHR ''-'') s) = length name \<and> starts_with s name \<longleftrightarrow>
    (\<exists>rest. s = name @ ''-'' @ rest)"
proof
  assume a: "CHR ''-'' \<in> set s \<and> length (takeWhile (\<lambda>c. c \<noteq> CHR ''-'') s) = length name \<and> starts_with s name"
  then obtain ys zs where s: "s = ys @ CHR ''-'' # zs" "CHR ''-'' \<notin> set ys" using split_list_first by fastforce
  have "takeWhile (\<lambda>c. c \<noteq> CHR ''-'') s = ys" unfolding s(1) using s(2) by (subst takeWhile_append2) auto
  then have "length ys = length name" "take (length name) s = name" using a by (simp_all add: starts_with_def)
  then have "ys = name" using s(1) by (metis append_eq_conv_conj)
  then show "\<exists>rest. s = name @ ''-'' @ rest" using s(1) by simp
next
  assume "\<exists>rest. s = name @ ''-'' @ rest"
  then obtain rest where "s = name @ ''-'' @ rest" by blast
  moreover have "takeWhile (\<lambda>c. c \<noteq> CHR ''-'') (name @ ''-'' @ rest) = name"
    using assms by (subst takeWhile_append2) auto
  ultimately show "CHR ''-'' \<in> set s \<and> length (takeWhile (\<lambda>c. c \<noteq> CHR ''-'') s) = length name \<and> starts_with s name"
    by (simp add: starts_with_def)
qed

lemma is_my_orderid_iff: "is_my_orderid s \<longleftrightarrow> (\<exists>name\<in>my_names. \<exists>rest. c_str s = name @ ''-'' @ rest)"
proof -
  have by_length: "(if \<not> h then False else if n = 3 then same ''FIX'' else if n = 4 then same ''SRSI''
      else if n = 5 then same ''AROON'' \<or> same ''SLOSS'' \<or> same ''TAKEP''
      else if n = 6 then same ''SRSI_U'' \<or> same ''SRSI_D'' \<or> same ''SRSI_C'' else if n = 7 then same ''HOLEBUY'' \<or> same ''INASELL''
      else if n = 8 then same ''CYCLEBUY'' \<or> same ''SPREDBUY'' \<or> same ''SLOSSBUY'' else False) \<longleftrightarrow>
    (\<exists>name\<in>my_names. h \<and> n = length name \<and> same name)" for h and n :: nat and same :: "string \<Rightarrow> bool"
  proof -
    consider "\<not> h" | "h" "n = 3" | "h" "n = 4" | "h" "n = 5" | "h" "n = 6" | "h" "n = 7" | "h" "n = 8"
      | "h" "n \<notin> {3, 4, 5, 6, 7, 8}" by blast
    then show ?thesis by cases (auto simp: my_names_def)
  qed
  have "is_my_orderid s \<longleftrightarrow> (\<exists>name\<in>my_names. CHR ''-'' \<in> set (c_str s) \<and>
      length (takeWhile (\<lambda>c. c \<noteq> CHR ''-'') (c_str s)) = length name \<and> starts_with (c_str s) name)"
    unfolding is_my_orderid_def Let_def by (rule by_length)
  also have "\<dots> \<longleftrightarrow> (\<exists>name\<in>my_names. \<exists>rest. c_str s = name @ ''-'' @ rest)"
    by (rule bex_cong [OF refl], rule name_before_hyphen, rule my_names_no_hyphen)
  finally show ?thesis .
qed

section \<open>Properties\<close>

text \<open>
  What the lists of pairs select, for lists whose entries are patterns or names of symbols. When the white list
  matches some symbol, exactly the matched symbols that no entry of the black list matches are selected. But when
  it matches none, it is as if there were no white list: every symbol is selected that some entry of the black list does
  not match, so that two entries with nothing in common exclude nothing.
\<close>

lemma process_pairs_selects:
  assumes "whitelist \<noteq> []" "list_all (entry_ok exinfo) (split_string whitelist '','')"
    and "blacklist = [] \<or> list_all (entry_ok exinfo) (split_string blacklist '','')" "split_string blacklist '','' \<noteq> [''*'']"
  shows "process_pairs whitelist blacklist exinfo = Some
    (let W = whitelisted whitelist exinfo; B = (if blacklist = [] then {} else set (split_string blacklist '',''))
     in if W \<noteq> {} then {name \<in> W. \<forall>e\<in>B. \<not> black_matches e name}
        else {name \<in> symbol_names exinfo. \<exists>e\<in>B. \<not> black_matches e name})"
proof (cases "blacklist = []")
  case True
  then show ?thesis using assms(1) by (auto simp: process_pairs_def apply_whitelist_eq [OF assms(2)] Let_def)
next
  case False
  then have ok: "list_all (entry_ok exinfo) (split_string blacklist '','')" using assms(3) by simp
  show ?thesis
    using False assms(1,4)
    by (simp add: process_pairs_def apply_whitelist_eq [OF assms(2)] black_entries_eq [OF ok] rest_entries_eq [OF entries_not_empty [OF ok]])
qed

text \<open>The symbols of the code's own check.\<close>

definition pair_symbol :: "string \<Rightarrow> string \<Rightarrow> string \<times> unit v1_symbol_t" where
  "pair_symbol base quoted = (base @ quoted,
     \<lparr>sym_symbol = base @ quoted, sym_status = [], sym_baseAsset = base, sym_baseAssetPrecision = 0, sym_quoteAsset = quoted,
      sym_quotePrecision = 0, sym_orderTypes = [], sym_icebergAllowed = False, sym_ocoAllowed = False,
      sym_quoteOrderQtyMarketAllowed = False, sym_allowTrailingStop = False, sym_cancelReplaceAllowed = False, sym_filters = []\<rparr>)"

definition pair_exinfo :: "unit v1_exchange_info_t" where
  "pair_exinfo =
     \<lparr>ex_timezone = [], ex_serverTime = 0, ex_exchangeFilters = [], ex_rateLimits = [],
      ex_symbols = [pair_symbol ''ADA'' ''BNB'', pair_symbol ''ADA'' ''BTC'', pair_symbol ''BNB'' ''ADA'', pair_symbol ''BTC'' ''ADA''],
      ex_permissions = 0\<rparr>"

end
