(* ===== verification/V1_Api.thy ===== *)
theory V1_Api
  imports V1_Requests
begin

text \<open>
  The legacy REST client in operation: the synchronous call and its result (\<^verbatim>\<open>api::impl::post\<close>, \<^verbatim>\<open>sync_post\<close>), the
  callbacks of asynchronous calls (\<^verbatim>\<open>binapi/invoker.hpp\<close>) and the queue of asynchronous requests with its
  chain of handlers (\<^verbatim>\<open>async_post\<close> to \<^verbatim>\<open>process_reply\<close>, \<^verbatim>\<open>binapi/api.cpp\<close>). What the network answers to each operation is an
  input; reading a reply into its type is a parameter over the JSON reader of \<^verbatim>\<open>flatjson.hpp\<close>.
\<close>

section \<open>Results\<close>

record 'v v1_result =
  vr_ec :: int
  vr_errmsg :: string
  vr_reply :: string
  vr_v :: 'v

definition new_v1_result :: "'v \<Rightarrow> 'v v1_result" where
  "new_v1_result dflt = \<lparr>vr_ec = 0, vr_errmsg = [], vr_reply = [], vr_v = dflt\<rparr>"

text \<open>\<^verbatim>\<open>operator bool\<close>: false when there is an error message.\<close>

definition v1_ok :: "'v v1_result \<Rightarrow> bool" where
  "v1_ok r \<longleftrightarrow> vr_errmsg r = []"

text \<open>\<^verbatim>\<open>__MAKE_ERRMSG\<close>: the file and line, then the message.\<close>

definition make_errmsg :: "nat \<Rightarrow> string \<Rightarrow> string" where
  "make_errmsg line msg = ''api.cpp('' @ dec_digits line @ '')'' @ '': '' @ msg"

section \<open>The synchronous call\<close>

text \<open>The outcome of each network operation: \<open>None\<close> is success, or the message of its error.\<close>

record v1_net =
  net_sni :: "string option"
  net_resolve :: "string option"
  net_connect :: "string option"
  net_handshake :: "string option"
  net_write :: "string option"
  net_read :: "string + string"

definition sync_post :: "v1_config \<Rightarrow> v1_net \<Rightarrow> string \<Rightarrow> verb \<Rightarrow> string \<Rightarrow> v1_http_request option \<times> string v1_result" where
  "sync_post cfg net target action data =
     (let res = new_v1_result []; req = v1_make_request cfg target action data;
          fail = (\<lambda>line msg. res\<lparr>vr_errmsg := make_errmsg line msg\<rparr>)
      in case net_sni net of Some msg \<Rightarrow> (None, fail 349 msg) | None \<Rightarrow>
         case net_resolve net of Some msg \<Rightarrow> (None, fail 358 msg) | None \<Rightarrow>
         case net_connect net of Some msg \<Rightarrow> (None, fail 366 msg) | None \<Rightarrow>
         case net_handshake net of Some msg \<Rightarrow> (None, fail 374 msg) | None \<Rightarrow>
         case net_write net of Some msg \<Rightarrow> (None, fail 397 msg) | None \<Rightarrow>
         case net_read net of Inl msg \<Rightarrow> (Some req, fail 408 msg) | Inr content \<Rightarrow> (Some req, res\<lparr>vr_v := content\<rparr>))"

text \<open>\<^verbatim>\<open>std::strstr\<close> on the C string.\<close>

fun has_substring :: "string \<Rightarrow> string \<Rightarrow> bool" where
  "has_substring pat [] \<longleftrightarrow> pat = []"
| "has_substring pat (c # s) \<longleftrightarrow> take (length pat) (c # s) = pat \<or> has_substring pat s"

definition is_html :: "string \<Rightarrow> bool" where
  "is_html p \<longleftrightarrow> has_substring ''<HTML>'' (c_str p) \<or> has_substring ''<HEAD>'' (c_str p) \<or> has_substring ''<BODY>'' (c_str p)"

text \<open>Whether the reply is an object that reports an error; anything else is not asked for members.\<close>

definition reports_error :: "fjson \<Rightarrow> bool fj_result" where
  "reports_error json = bind_exn (fj_is_type FJ_TYPE_OBJECT json) (\<lambda>obj. if obj then is_api_error json else Inr False)"

text \<open>\<^verbatim>\<open>what()\<close> of the exceptions of the reader.\<close>

definition exn_what :: "fj_exn \<Rightarrow> string" where
  "exn_what e = (case e of Fj_logic_error m \<Rightarrow> m | Fj_runtime_error m \<Rightarrow> m | Fj_out_of_range m \<Rightarrow> m | Fj_undefined \<Rightarrow> [])"

text \<open>What a synchronous call gives: a result, or undefined behaviour.\<close>

definition post_reply ::
  "(fjson \<Rightarrow> 'v fj_result) \<Rightarrow> 'v \<Rightarrow> string v1_result \<Rightarrow> 'v v1_result option" where
  "post_reply construct dflt r =
     (let res = new_v1_result dflt in
      if vr_v r \<noteq> [] \<and> is_html (vr_v r) then Some res
      else
        case fj_load (vr_v r) of
          None \<Rightarrow> None
        | Some json \<Rightarrow>
            if m_err json \<noteq> FJ_EC_OK
            then Some (res\<lparr>vr_ec := fj_error_value (m_err json), vr_errmsg := make_errmsg 306 (fj_error_string (m_err json))\<rparr>)
            else
              let outcome = bind_exn (reports_error json) (\<lambda>err.
                    if err then bind_exn (construct_error json) (\<lambda>(ec, msg).
                      Inr (res\<lparr>vr_ec := ec, vr_errmsg := make_errmsg 315 msg\<rparr>))
                    else bind_exn (construct json) (\<lambda>v. Inr (res\<lparr>vr_v := v\<rparr>)))
              in case outcome of
                   Inr res \<Rightarrow> Some res
                 | Inl Fj_undefined \<Rightarrow> None
                 | Inl e \<Rightarrow> Some (res\<lparr>vr_errmsg := make_errmsg 324 (exn_what e)\<rparr>))"

definition post_sync ::
  "'k openssl \<Rightarrow> v1_config \<Rightarrow> v1_net \<Rightarrow> u64 \<Rightarrow> (fjson \<Rightarrow> 'v fj_result) \<Rightarrow> 'v \<Rightarrow> v1_call \<Rightarrow> 'v v1_result option" where
  "post_sync ossl cfg net now construct dflt c =
     (case post_data ossl cfg now c of
        None \<Rightarrow> None
      | Some (starget, data) \<Rightarrow> post_reply construct dflt (snd (sync_post cfg net starget (vc_action c) data)))"

section \<open>Callbacks\<close>

text \<open>
  What \<^verbatim>\<open>invoker::invoke\<close> does with a reply: the call of the callback with its arguments, or none when reading
  the reply throws, or undefined behaviour.
\<close>

datatype 'v cb_call = Cb_called int string 'v | Cb_not_called | Cb_undefined

definition invoke :: "(fjson \<Rightarrow> 'v fj_result) \<Rightarrow> 'v \<Rightarrow> int \<Rightarrow> string \<Rightarrow> string \<Rightarrow> 'v cb_call" where
  "invoke construct dflt ec errmsg content =
     (if content = [] \<or> ec \<noteq> 0 then Cb_called ec errmsg dflt
      else
        case fj_load content of
          None \<Rightarrow> Cb_undefined
        | Some json \<Rightarrow>
            if m_err json \<noteq> FJ_EC_OK then Cb_called (fj_error_value (m_err json)) (fj_error_string (m_err json)) dflt
            else
              let outcome = bind_exn (reports_error json) (\<lambda>err.
                    if err then bind_exn (construct_error json) (\<lambda>(ec, msg). Inr (Cb_called ec msg dflt))
                    else bind_exn (construct json) (\<lambda>v. Inr (Cb_called 0 errmsg v)))
              in case outcome of Inr call \<Rightarrow> call | Inl Fj_undefined \<Rightarrow> Cb_undefined | Inl _ \<Rightarrow> Cb_not_called)"

section \<open>The queue of asynchronous requests\<close>

record 'c async_req_item =
  it_target :: string
  it_action :: verb
  it_data :: string
  it_invoker :: 'c

text \<open>The operation the chain of handlers waits for; \<open>Nothing\<close> when no operation is under way.\<close>

datatype flight =
    Nothing
  | Resolving v1_http_request
  | Connecting v1_http_request
  | Handshaking v1_http_request
  | Writing_request v1_http_request
  | Reading_response
  | Shutting_down string

text \<open>
  The state of \<^verbatim>\<open>api::impl\<close>. Beside it, for the statements: the callbacks in the order of their posts, the
  requests started, and the replies handed to callbacks.
\<close>

record 'c api_impl =
  api_cfg :: v1_config
  m_write_in_process :: bool
  m_async_requests :: "'c async_req_item list"
  in_flight :: flight
  posted :: "'c list"
  started :: "('c \<times> v1_http_request) list"
  replies :: "('c \<times> int \<times> string \<times> string) list"

definition new_api_impl :: "v1_config \<Rightarrow> 'c api_impl" where
  "new_api_impl cfg =
     \<lparr>api_cfg = cfg, m_write_in_process = False, m_async_requests = [], in_flight = Nothing, posted = [], started = [], replies = []\<rparr>"

text \<open>The data of the front item is moved into the request.\<close>

definition async_post :: "'c api_impl \<Rightarrow> 'c api_impl" where
  "async_post s =
     (if m_write_in_process s then s
      else
        case m_async_requests s of
          [] \<Rightarrow> s
        | front # rest \<Rightarrow>
            let req = v1_make_request (api_cfg s) (it_target front) (it_action front) (it_data front)
            in s\<lparr>m_write_in_process := True, m_async_requests := front\<lparr>it_data := []\<rparr> # rest, in_flight := Resolving req,
                 started := started s @ [(it_invoker front, req)]\<rparr>)"

definition post_async :: "'c async_req_item \<Rightarrow> 'c api_impl \<Rightarrow> 'c api_impl" where
  "post_async item s =
     async_post (s\<lparr>m_async_requests := m_async_requests s @ [item], posted := posted s @ [it_invoker item]\<rparr>)"

text \<open>The front item is taken off the queue before its callback runs; the callback may post \<open>posts\<close>.\<close>

definition process_reply :: "int \<Rightarrow> string \<Rightarrow> string \<Rightarrow> 'c async_req_item list \<Rightarrow> 'c api_impl \<Rightarrow> 'c api_impl" where
  "process_reply ec errmsg content posts s =
     (case m_async_requests s of
        [] \<Rightarrow> s
      | item # rest \<Rightarrow>
          foldl (\<lambda>s it. post_async it s)
            (s\<lparr>m_async_requests := rest, replies := replies s @ [(it_invoker item, ec, errmsg, content)]\<rparr>) posts)"

text \<open>An error in a handler: the flag is cleared first, then the reply is processed.\<close>

definition handler_error :: "int \<times> string \<Rightarrow> 'c async_req_item list \<Rightarrow> 'c api_impl \<Rightarrow> 'c api_impl" where
  "handler_error e posts s =
     process_reply (fst e) (snd e) [] posts (s\<lparr>in_flight := Nothing, m_write_in_process := False\<rparr>)"

definition on_resolve :: "(int \<times> string) option \<Rightarrow> bool \<Rightarrow> v1_http_request \<Rightarrow> 'c async_req_item list \<Rightarrow> 'c api_impl \<Rightarrow> 'c api_impl" where
  "on_resolve ec sni_ok req posts s =
     (case ec of
        Some e \<Rightarrow> handler_error e posts s
      | None \<Rightarrow> if \<not> sni_ok then s\<lparr>in_flight := Nothing\<rparr> else s\<lparr>in_flight := Connecting req\<rparr>)"

definition on_connect :: "(int \<times> string) option \<Rightarrow> v1_http_request \<Rightarrow> 'c async_req_item list \<Rightarrow> 'c api_impl \<Rightarrow> 'c api_impl" where
  "on_connect ec req posts s = (case ec of Some e \<Rightarrow> handler_error e posts s | None \<Rightarrow> s\<lparr>in_flight := Handshaking req\<rparr>)"

definition on_handshake :: "(int \<times> string) option \<Rightarrow> v1_http_request \<Rightarrow> 'c async_req_item list \<Rightarrow> 'c api_impl \<Rightarrow> 'c api_impl" where
  "on_handshake ec req posts s = (case ec of Some e \<Rightarrow> handler_error e posts s | None \<Rightarrow> s\<lparr>in_flight := Writing_request req\<rparr>)"

definition on_write :: "(int \<times> string) option \<Rightarrow> 'c async_req_item list \<Rightarrow> 'c api_impl \<Rightarrow> 'c api_impl" where
  "on_write ec posts s = (case ec of Some e \<Rightarrow> handler_error e posts s | None \<Rightarrow> s\<lparr>in_flight := Reading_response\<rparr>)"

definition on_read :: "(int \<times> string) option \<Rightarrow> string \<Rightarrow> 'c async_req_item list \<Rightarrow> 'c api_impl \<Rightarrow> 'c api_impl" where
  "on_read ec content posts s = (case ec of Some e \<Rightarrow> handler_error e posts s | None \<Rightarrow> s\<lparr>in_flight := Shutting_down content\<rparr>)"

text \<open>The error of the shutdown is ignored; here the reply is processed before the flag is cleared.\<close>

definition on_shutdown :: "string \<Rightarrow> 'c async_req_item list \<Rightarrow> 'c api_impl \<Rightarrow> 'c api_impl" where
  "on_shutdown content posts s =
     (let s = process_reply 0 [] content posts (s\<lparr>in_flight := Nothing\<rparr>);
          s = s\<lparr>m_write_in_process := False\<rparr>
      in if m_async_requests s \<noteq> [] then async_post s else s)"

text \<open>
  The completion of the operation under way: its error, for a resolution whether the server name could be
  set, for a read the content, and what the callback posts.
\<close>

record 'c completion =
  cp_ec :: "(int \<times> string) option"
  cp_sni_ok :: bool
  cp_body :: string
  cp_posts :: "'c async_req_item list"

definition complete :: "'c completion \<Rightarrow> 'c api_impl \<Rightarrow> 'c api_impl option" where
  "complete c s =
     (case in_flight s of
        Nothing \<Rightarrow> None
      | Resolving req \<Rightarrow> Some (on_resolve (cp_ec c) (cp_sni_ok c) req (cp_posts c) s)
      | Connecting req \<Rightarrow> Some (on_connect (cp_ec c) req (cp_posts c) s)
      | Handshaking req \<Rightarrow> Some (on_handshake (cp_ec c) req (cp_posts c) s)
      | Writing_request req \<Rightarrow> Some (on_write (cp_ec c) (cp_posts c) s)
      | Reading_response \<Rightarrow> Some (on_read (cp_ec c) (cp_body c) (cp_posts c) s)
      | Shutting_down content \<Rightarrow> Some (on_shutdown content (cp_posts c) s))"

text \<open>The runs of a client: posts from outside and completions.\<close>

inductive api_step :: "'c api_impl \<Rightarrow> 'c api_impl \<Rightarrow> bool" where
  step_post: "api_step s (post_async item s)"
| step_complete: "complete c s = Some s' \<Longrightarrow> api_step s s'"

inductive api_run :: "'c api_impl \<Rightarrow> 'c api_impl \<Rightarrow> bool" where
  run_refl: "api_run s s"
| run_step: "api_run s s' \<Longrightarrow> api_step s' s'' \<Longrightarrow> api_run s s''"

section \<open>The queue\<close>

inductive_cases api_stepE: "api_step s s'"

text \<open>Replies come in the order of the posts, and requests are started once, in that order.\<close>

definition queue_inv :: "'c api_impl \<Rightarrow> bool" where
  "queue_inv s \<longleftrightarrow> map fst (replies s) @ map it_invoker (m_async_requests s) = posted s \<and>
     map fst (started s) = take (length (replies s) + (if m_write_in_process s then 1 else 0)) (posted s) \<and>
     (m_write_in_process s \<longrightarrow> m_async_requests s \<noteq> []) \<and> (in_flight s \<noteq> Nothing \<longrightarrow> m_write_in_process s)"

lemma new_api_impl_inv: "queue_inv (new_api_impl cfg)"
  by (simp add: queue_inv_def new_api_impl_def)

lemma async_post_inv:
  assumes "queue_inv s"
  shows "queue_inv (async_post s)"
proof (cases "m_write_in_process s \<or> m_async_requests s = []")
  case True
  then show ?thesis using assms by (auto simp: async_post_def)
next
  case False
  then obtain front rest where q: "m_async_requests s = front # rest" "\<not> m_write_in_process s" by (cases "m_async_requests s") auto
  have p: "posted s = map fst (replies s) @ it_invoker front # map it_invoker rest" and st: "map fst (started s) = take (length (replies s)) (posted s)"
    using assms q by (simp_all add: queue_inv_def)
  have "take (length (replies s) + 1) (posted s) = take (length (replies s)) (posted s) @ [it_invoker front]"
    by (simp add: p)
  then show ?thesis using p q st by (simp add: queue_inv_def async_post_def Let_def)
qed

text \<open>Items that are only put into the queue.\<close>

definition enqueue :: "'c async_req_item list \<Rightarrow> 'c api_impl \<Rightarrow> 'c api_impl" where
  "enqueue items s = s\<lparr>m_async_requests := m_async_requests s @ items, posted := posted s @ map it_invoker items\<rparr>"

lemma enqueue_inv:
  assumes inv: "queue_inv s"
  shows "queue_inv (enqueue items s)"
proof -
  have "length (posted s) = length (replies s) + length (m_async_requests s)"
    using inv unfolding queue_inv_def by (metis length_append length_map)
  then have "length (replies s) + (if m_write_in_process s then 1 else 0) \<le> length (posted s)"
    using inv by (cases "m_async_requests s") (auto simp: queue_inv_def)
  then show ?thesis using inv by (simp add: queue_inv_def enqueue_def flip: append_assoc)
qed

lemma post_async_enqueue: "post_async item s = async_post (enqueue [item] s)"
  by (simp add: post_async_def enqueue_def)

lemma post_async_inv: "queue_inv s \<Longrightarrow> queue_inv (post_async item s)"
  by (simp add: post_async_enqueue async_post_inv enqueue_inv)

lemma posts_inv: "queue_inv s \<Longrightarrow> queue_inv (foldl (\<lambda>s it. post_async it s) s posts)"
  by (induction posts arbitrary: s) (simp_all add: post_async_inv)

lemma posts_while_busy:
  "m_write_in_process s \<Longrightarrow> foldl (\<lambda>s it. post_async it s) s posts = enqueue posts s"
proof (induction posts arbitrary: s)
  case (Cons it posts)
  have "post_async it s = enqueue [it] s" using Cons.prems by (simp add: post_async_enqueue async_post_def enqueue_def)
  then show ?case using Cons.IH [of "enqueue [it] s"] Cons.prems by (simp add: enqueue_def)
qed (simp add: enqueue_def)

text \<open>The state after the front item is taken off with the flag cleared.\<close>

definition answer_front :: "int \<times> string \<times> string \<Rightarrow> 'c api_impl \<Rightarrow> 'c api_impl" where
  "answer_front r s =
     s\<lparr>in_flight := Nothing, m_write_in_process := False, m_async_requests := tl (m_async_requests s),
       replies := replies s @ [(it_invoker (hd (m_async_requests s)), r)]\<rparr>"

lemma answer_front_inv: "queue_inv s \<Longrightarrow> m_write_in_process s \<Longrightarrow> queue_inv (answer_front r s)"
  by (cases "m_async_requests s") (auto simp: queue_inv_def answer_front_def)

lemma handler_error_eq:
  "m_async_requests s \<noteq> [] \<Longrightarrow>
   handler_error e posts s = foldl (\<lambda>s it. post_async it s) (answer_front (fst e, snd e, []) s) posts"
  by (cases "m_async_requests s") (simp_all add: handler_error_def process_reply_def answer_front_def)

lemma on_shutdown_eq:
  assumes "m_async_requests s \<noteq> []" "m_write_in_process s"
  shows "on_shutdown content posts s =
    (let s = enqueue posts (answer_front (0, [], content) s) in if m_async_requests s \<noteq> [] then async_post s else s)"
proof -
  obtain item rest where q: "m_async_requests s = item # rest" using assms(1) by (cases "m_async_requests s") auto
  have "process_reply 0 [] content posts (s\<lparr>in_flight := Nothing\<rparr>) =
      enqueue posts (s\<lparr>in_flight := Nothing, m_async_requests := rest, replies := replies s @ [(it_invoker item, 0, [], content)]\<rparr>)"
    using assms(2) q by (simp add: process_reply_def posts_while_busy)
  then show ?thesis
    using q by (simp add: on_shutdown_def answer_front_def enqueue_def Let_def)
      (auto intro!: arg_cong [of _ _ async_post] api_impl.equality)
qed

lemma complete_inv:
  assumes inv: "queue_inv s" and c: "complete c s = Some s'"
  shows "queue_inv s'"
proof -
  have busy: "m_write_in_process s" "m_async_requests s \<noteq> []" "in_flight s \<noteq> Nothing"
    using inv c by (auto simp: queue_inv_def complete_def)
  have flight: "queue_inv (s\<lparr>in_flight := f\<rparr>)" for f using inv busy by (simp add: queue_inv_def)
  have err: "queue_inv (handler_error e posts s)" for e posts
    using busy answer_front_inv [OF inv busy(1)] by (simp add: handler_error_eq posts_inv)
  have down: "queue_inv (on_shutdown content posts s)" for content posts
    using busy answer_front_inv [OF inv busy(1)] by (simp add: on_shutdown_eq Let_def enqueue_inv async_post_inv)
  show ?thesis
    using c flight err down
    by (cases "in_flight s")
      (auto simp: complete_def on_resolve_def on_connect_def on_handshake_def on_write_def on_read_def split: option.splits if_splits)
qed

lemma step_inv: "api_step s s' \<Longrightarrow> queue_inv s \<Longrightarrow> queue_inv s'"
  by (erule api_stepE) (simp_all add: post_async_inv complete_inv)

lemma run_inv: "api_run s s' \<Longrightarrow> queue_inv s \<Longrightarrow> queue_inv s'"
  by (induction rule: api_run.induct) (simp_all add: step_inv)

text \<open>A client whose server name could not be set holds the flag with nothing under way.\<close>

definition wedged :: "'c api_impl \<Rightarrow> bool" where
  "wedged s \<longleftrightarrow> m_write_in_process s \<and> in_flight s = Nothing"

lemma wedged_step:
  assumes "api_step s s'" "wedged s"
  shows "wedged s' \<and> replies s' = replies s \<and> started s' = started s"
  using assms(1)
proof (cases rule: api_step.cases)
  case (step_post item)
  then show ?thesis using assms(2) by (simp add: wedged_def post_async_def async_post_def)
next
  case (step_complete c)
  then show ?thesis using assms(2) by (simp add: wedged_def complete_def)
qed

lemma wedged_run: "api_run s s' \<Longrightarrow> wedged s \<Longrightarrow> wedged s' \<and> replies s' = replies s \<and> started s' = started s"
  by (induction rule: api_run.induct) (auto dest: wedged_step)

section \<open>Replies\<close>

definition transport_fails :: "v1_net \<Rightarrow> bool" where
  "transport_fails net \<longleftrightarrow> net_sni net \<noteq> None \<or> net_resolve net \<noteq> None \<or> net_connect net \<noteq> None \<or>
     net_handshake net \<noteq> None \<or> net_write net \<noteq> None \<or> (\<exists>msg. net_read net = Inl msg)"

lemma sync_post_fails: "transport_fails net \<Longrightarrow> vr_v (snd (sync_post cfg net target action data)) = []"
  by (auto simp: transport_fails_def sync_post_def new_v1_result_def Let_def split: option.splits sum.splits)

lemma sync_post_reads:
  "\<not> transport_fails net \<Longrightarrow> \<exists>content. net_read net = Inr content \<and>
     sync_post cfg net target action data = (Some (v1_make_request cfg target action data), (new_v1_result [])\<lparr>vr_v := content\<rparr>)"
  by (cases "net_read net") (auto simp: transport_fails_def sync_post_def Let_def)

lemma post_reply_empty: "vr_v r = [] \<Longrightarrow> post_reply construct dflt r = None"
  by (simp add: post_reply_def fj_load_def reports_error_def fj_is_type_def fj_root_def Let_def)

lemma conv_to_i32_negative: "n < 2 ^ 31 \<Longrightarrow> sint (conv_to_i32 (CHR ''-'' # dec_digits n)) = - int n"
  by (rule conv_to_i32_text(2)) simp

text \<open>Whether a document reports an error of the exchange.\<close>

definition error_document :: "json \<Rightarrow> bool" where
  "error_document v \<longleftrightarrow> (case v of J_object mems \<Rightarrow> map_of mems ''code'' \<noteq> None \<and> map_of mems ''msg'' \<noteq> None | _ \<Rightarrow> False)"

lemma reports_error_document:
  assumes "represents j v"
  shows "reports_error j = Inr (error_document v)"
proof (cases v)
  case (J_object mems)
  have contains: "fj_contains key j = Inr (map_of mems key \<noteq> None)" for key
    using assms J_object at_member(2) [of j mems key] at_missing(2) [of j mems key] by (cases "map_of mems key") auto
  show ?thesis
    using is_type_represents [OF assms, of FJ_TYPE_OBJECT] J_object
    by (simp add: reports_error_def is_api_error_def contains error_document_def json_type_def)
next
  case (J_simple t s)
  have "simple_ok t s" using assms J_simple by (simp add: represents_def)
  then show ?thesis
    using is_type_represents [OF assms, of FJ_TYPE_OBJECT] J_simple
    by (auto simp: reports_error_def error_document_def json_type_def simple_ok_def)
next
  case (J_array vs)
  then show ?thesis
    using is_type_represents [OF assms, of FJ_TYPE_OBJECT] by (simp add: reports_error_def error_document_def json_type_def)
qed

lemma construct_error_document:
  assumes rep: "represents j (J_object mems)" and "map_of mems ''code'' = Some (J_simple FJ_TYPE_NUMBER (CHR ''-'' # dec_digits n))"
    and "map_of mems ''msg'' = Some (J_simple FJ_TYPE_STRING m)" and "n < 2 ^ 31"
  shows "construct_error j = Inr (- int n, m)"
proof -
  obtain c where c: "fj_at ''code'' j = Inr c" "represents c (J_simple FJ_TYPE_NUMBER (CHR ''-'' # dec_digits n))"
    using at_member(1) [OF rep assms(2)] by blast
  obtain d where d: "fj_at ''msg'' j = Inr d" "represents d (J_simple FJ_TYPE_STRING m)"
    using at_member(1) [OF rep assms(3)] by blast
  have "fj_to_int c = Inr (conv_to_i32 (CHR ''-'' # dec_digits n))"
    using is_type_represents [OF c(2), of FJ_TYPE_NULL] to_sstring_represents [OF c(2)] by (simp add: fj_to_int_def json_type_def)
  then show ?thesis
    using c(1) d(1) to_sstring_represents [OF d(2)] conv_to_i32_negative [OF assms(4)] by (simp add: construct_error_def)
qed

text \<open>A configuration for examples.\<close>

definition cfg_example :: v1_config where
  "cfg_example = \<lparr>m_host = ''api.binance.com'', m_port = ''443'', m_pk = ''pk'', m_sk = ''sk'', m_timeout = 5000,
     m_client_api_string = ''binapi''\<rparr>"

section \<open>Properties\<close>

text \<open>
  A synchronous call of the legacy client fails badly. Whenever a network operation fails (setting the
  server name, resolving, connecting, the handshake, writing, reading), its error message is dropped and the
  empty reply is inspected, which follows a null pointer: the call has undefined behaviour. And when the
  server answers with an HTML page the call reports success, with a default value.
\<close>

lemma v1_sync_failures:
  "(transport_fails net \<longrightarrow> post_sync ossl cfg net now construct dflt c = None) \<and>
   (\<not> transport_fails net \<longrightarrow> post_data ossl cfg now c \<noteq> None \<longrightarrow> net_read net = Inr page \<longrightarrow> page \<noteq> [] \<longrightarrow> is_html page \<longrightarrow>
      (\<exists>r. post_sync ossl cfg net now construct dflt c = Some r \<and> v1_ok r \<and> vr_ec r = 0 \<and> vr_v r = dflt))"
proof (intro conjI impI)
  assume "transport_fails net"
  then show "post_sync ossl cfg net now construct dflt c = None"
    by (cases "post_data ossl cfg now c") (auto simp: post_sync_def post_reply_empty sync_post_fails)
next
  assume a: "\<not> transport_fails net" "post_data ossl cfg now c \<noteq> None" "net_read net = Inr page" "page \<noteq> []" "is_html page"
  obtain t d where td: "post_data ossl cfg now c = Some (t, d)" using a(2) by auto
  show "\<exists>r. post_sync ossl cfg net now construct dflt c = Some r \<and> v1_ok r \<and> vr_ec r = 0 \<and> vr_v r = dflt"
    using sync_post_reads [OF a(1), of cfg t "vc_action c" d] a(3-5)
    by (auto simp: post_sync_def td post_reply_def v1_ok_def new_v1_result_def)
qed

text \<open>
  What a callback of an asynchronous legacy call gets. A reply that reports an error of the exchange is
  passed on with its code and message; any other document is read into the type of the call, and when that
  reading throws the callback is not called at all, so that the caller never learns of the reply.
\<close>

lemma v1_callbacks_get_replies:
  assumes "json_ok v"
  shows "\<exists>j. represents j v \<and>
    invoke construct dflt 0 errmsg (json_text v) =
      (if error_document v then
         (case construct_error j of Inr (ec, msg) \<Rightarrow> Cb_called ec msg dflt | Inl Fj_undefined \<Rightarrow> Cb_undefined | Inl _ \<Rightarrow> Cb_not_called)
       else (case construct j of Inr x \<Rightarrow> Cb_called 0 errmsg x | Inl Fj_undefined \<Rightarrow> Cb_undefined | Inl _ \<Rightarrow> Cb_not_called)) \<and>
    (\<forall>mems n m. v = J_object mems \<longrightarrow> map_of mems ''code'' = Some (J_simple FJ_TYPE_NUMBER (CHR ''-'' # dec_digits n)) \<longrightarrow>
       map_of mems ''msg'' = Some (J_simple FJ_TYPE_STRING m) \<longrightarrow> n < 2 ^ 31 \<longrightarrow>
       invoke construct dflt 0 errmsg (json_text v) = Cb_called (- int n) m dflt)"
proof -
  define j where "j = \<lparr>m_storage = json_tokens None 0 [] v, m_beg = Some 0, m_err = FJ_EC_OK\<rparr>"
  have rep: "represents j v" and load: "fj_load (json_text v) = Some j" and err: "m_err j = FJ_EC_OK"
    using represents_document [OF assms] load_document [OF assms] by (simp_all add: j_def)
  have eq: "invoke construct dflt 0 errmsg (json_text v) =
      (if error_document v then
         (case construct_error j of Inr (ec, msg) \<Rightarrow> Cb_called ec msg dflt | Inl Fj_undefined \<Rightarrow> Cb_undefined | Inl _ \<Rightarrow> Cb_not_called)
       else (case construct j of Inr x \<Rightarrow> Cb_called 0 errmsg x | Inl Fj_undefined \<Rightarrow> Cb_undefined | Inl _ \<Rightarrow> Cb_not_called))"
    using json_text_not_Nil [OF assms] load err reports_error_document [OF rep]
    by (auto simp: invoke_def bind_exn_def Let_def split: sum.splits prod.splits)
  show ?thesis
  proof (intro exI [of _ j] conjI allI impI rep eq)
    fix mems n m
    assume mems: "v = J_object mems" "map_of mems ''code'' = Some (J_simple FJ_TYPE_NUMBER (CHR ''-'' # dec_digits n))"
      "map_of mems ''msg'' = Some (J_simple FJ_TYPE_STRING m)" "n < 2 ^ 31"
    have "construct_error j = Inr (- int n, m)" using construct_error_document [OF rep [unfolded mems(1)] mems(2-4)] .
    then show "invoke construct dflt 0 errmsg (json_text v) = Cb_called (- int n) m dflt"
      unfolding eq using mems by (simp add: error_document_def)
  qed
qed

text \<open>
  C12: The asynchronous requests of the legacy client are answered in the order they were posted: in every state
  a run can reach, the replies handed to callbacks followed by the requests that wait are the posts, in
  order; every request is started once and in that order, at most one ahead of the replies; and whenever
  an operation is under way the flag that keeps further requests back is set.
\<close>

theorem v1_queue_fifo:
  assumes "api_run (new_api_impl cfg) s"
  shows "map fst (replies s) @ map it_invoker (m_async_requests s) = posted s \<and>
    map fst (started s) = take (length (replies s) + (if m_write_in_process s then 1 else 0)) (posted s) \<and>
    (in_flight s \<noteq> Nothing \<longrightarrow> m_write_in_process s \<and> m_async_requests s \<noteq> [])"
  using run_inv [OF assms new_api_impl_inv] by (auto simp: queue_inv_def)

theorem v1_queue_fifo_witness:
  "let item = (\<lambda>n. \<lparr>it_target = ''/api/v3/ping'', it_action = Verb_get, it_data = [], it_invoker = n\<rparr>);
      s = post_async (item (2::nat)) (post_async (item 1) (new_api_impl cfg_example))
   in posted s = [1, 2] \<and> map fst (started s) = [1] \<and> in_flight s \<noteq> Nothing"
proof -
  let ?item = "\<lambda>n::nat. \<lparr>it_target = ''/api/v3/ping'', it_action = Verb_get, it_data = [], it_invoker = n\<rparr>"
  let ?s = "post_async (?item 2) (post_async (?item 1) (new_api_impl cfg_example))"
  have "api_run (new_api_impl cfg_example) ?s" by (blast intro: api_run.intros api_step.intros)
  from v1_queue_fifo [OF this] show ?thesis
    by (simp add: post_async_def async_post_def new_api_impl_def Let_def)
qed

text \<open>
  C38: The queue of the legacy client can stop. After an error of the network whose callback posts nothing,
  requests that wait are not started: no operation is under way, and none will be until the next post.
  Worse, when the server name of a connection cannot be set, the handler returns without clearing the flag
  or answering: from then on no run, whatever is posted, starts or answers any request.
\<close>

theorem v1_queue_stalls:
  assumes "api_run (new_api_impl cfg) s"
  shows "(complete c s = Some s' \<longrightarrow> cp_ec c \<noteq> None \<longrightarrow> cp_posts c = [] \<longrightarrow> (\<forall>content. in_flight s \<noteq> Shutting_down content) \<longrightarrow>
      m_async_requests s' = tl (m_async_requests s) \<and> length (replies s') = length (replies s) + 1 \<and>
      (\<forall>c'. complete c' s' = None)) \<and>
    (in_flight s = Resolving req \<longrightarrow> cp_ec c = None \<longrightarrow> \<not> cp_sni_ok c \<longrightarrow> complete c s = Some s' \<longrightarrow> api_run s' s'' \<longrightarrow>
      replies s'' = replies s \<and> started s'' = started s)"
proof (intro conjI impI)
  assume c: "complete c s = Some s'" "cp_ec c \<noteq> None" "cp_posts c = []" "\<forall>content. in_flight s \<noteq> Shutting_down content"
  obtain e where e: "cp_ec c = Some e" using c(2) by auto
  have busy: "m_async_requests s \<noteq> []"
    using run_inv [OF assms new_api_impl_inv] c(1) by (auto simp: queue_inv_def complete_def)
  have "s' = handler_error e [] s"
    using c e by (cases "in_flight s")
      (auto simp: complete_def on_resolve_def on_connect_def on_handshake_def on_write_def on_read_def)
  then have "s' = answer_front (fst e, snd e, []) s" using busy by (simp add: handler_error_eq)
  then show "m_async_requests s' = tl (m_async_requests s)" "length (replies s') = length (replies s) + 1" "\<forall>c'. complete c' s' = None"
    by (simp_all add: answer_front_def complete_def)
next
  assume a: "in_flight s = Resolving req" "cp_ec c = None" "\<not> cp_sni_ok c" "complete c s = Some s'" "api_run s' s''"
  have "m_write_in_process s" using run_inv [OF assms new_api_impl_inv] a(1) by (simp add: queue_inv_def)
  then have s': "wedged s'" "replies s' = replies s" "started s' = started s"
    using a(1-4) by (auto simp: complete_def on_resolve_def wedged_def)
  show "replies s'' = replies s" "started s'' = started s"
    using wedged_run [OF a(5) s'(1)] s' by simp_all
qed

theorem v1_queue_stalls_witness:
  "let item = (\<lambda>n. \<lparr>it_target = ''/api/v3/ping'', it_action = Verb_get, it_data = [], it_invoker = n\<rparr>);
      s = post_async (item (2::nat)) (post_async (item 1) (new_api_impl cfg_example));
      lost = \<lparr>cp_ec = Some (110, ''timed out''), cp_sni_ok = True, cp_body = [], cp_posts = []\<rparr>;
      unnamed = lost\<lparr>cp_ec := None, cp_sni_ok := False\<rparr>
   in (\<exists>s'. complete lost s = Some s' \<and> map it_invoker (m_async_requests s') = [2] \<and> (\<forall>c. complete c s' = None)) \<and>
      (\<exists>s'. complete unnamed s = Some s' \<and> (\<forall>s''. api_run s' s'' \<longrightarrow> replies s'' = []))"
proof -
  let ?item = "\<lambda>n::nat. \<lparr>it_target = ''/api/v3/ping'', it_action = Verb_get, it_data = [], it_invoker = n\<rparr>"
  let ?s = "post_async (?item 2) (post_async (?item 1) (new_api_impl cfg_example))"
  let ?lost = "\<lparr>cp_ec = Some (110, ''timed out''), cp_sni_ok = True, cp_body = [], cp_posts = []\<rparr>"
  let ?unnamed = "?lost\<lparr>cp_ec := None, cp_sni_ok := False\<rparr>"
  let ?req = "v1_make_request cfg_example ''/api/v3/ping'' Verb_get []"
  have run: "api_run (new_api_impl cfg_example) ?s" by (blast intro: api_run.intros api_step.intros)
  have st: "in_flight ?s = Resolving ?req" "map it_invoker (tl (m_async_requests ?s)) = [2]" "replies ?s = []"
    by (simp_all add: post_async_def async_post_def new_api_impl_def Let_def)
  obtain s1 where s1: "complete ?lost ?s = Some s1" using st(1) by (simp add: complete_def)
  obtain s2 where s2: "complete ?unnamed ?s = Some s2" using st(1) by (simp add: complete_def)
  have "map it_invoker (m_async_requests s1) = [2] \<and> (\<forall>c. complete c s1 = None)"
    using v1_queue_stalls [OF run, of ?lost s1] s1 st by simp
  moreover have "\<forall>s''. api_run s2 s'' \<longrightarrow> replies s'' = []"
    using v1_queue_stalls [OF run, of ?unnamed s2 ?req] s2 st by auto
  ultimately show ?thesis
    unfolding Let_def by (intro conjI exI [of _ s1] exI [of _ s2] s1 s2) simp_all
qed

end
