(* ===== verification/V1_Websocket.thy ===== *)
theory V1_Websocket
  imports V1_Stream_Types V1_Api
begin

text \<open>
  The streams of the legacy client, \<^verbatim>\<open>binapi/websocket.cpp\<close>: the names of the channels, the callback put between a
  connection and its user, the life of a connection from the resolution of the host to its last read, and the set of
  open channels with unsubscription. The outcome of every network operation is an event; a callback of the user
  is a function of the calls made so far, \<open>None\<close> when it throws.
\<close>

section \<open>Names\<close>

text \<open>\<^verbatim>\<open>boost::algorithm::to_lower\<close> in the classic locale.\<close>

definition v1_lower :: "char \<Rightarrow> char" where
  "v1_lower c = (if 65 \<le> (of_char c :: nat) \<and> (of_char c :: nat) \<le> 90 then char_of ((of_char c :: nat) + 32) else c)"

definition make_channel_name :: "string option \<Rightarrow> string \<Rightarrow> string" where
  "make_channel_name pair channel =
     (case pair of
        None \<Rightarrow> ''/ws/'' @ channel
      | Some p \<Rightarrow>
          (if take 1 p \<noteq> ''!'' then map v1_lower (''/ws/'' @ p) else ''/ws/'' @ p) @ ''@'' @ channel)"

definition part_depth_channel :: "string \<Rightarrow> e_levels \<Rightarrow> e_freq \<Rightarrow> string" where
  "part_depth_channel pair level freq =
     make_channel_name (Some pair)
       (''depth'' @ dec_digits (unat (e_levels_value level)) @ ''@'' @ dec_digits (unat (e_freq_value freq)) @ ''ms'')"

definition diff_depth_channel :: "string \<Rightarrow> e_freq \<Rightarrow> string" where
  "diff_depth_channel pair freq = make_channel_name (Some pair) (''depth@'' @ dec_digits (unat (e_freq_value freq)) @ ''ms'')"

text \<open>The switch on the hash of the interval; an unknown interval fails the assertion.\<close>

definition kline_intervals :: "string list" where
  "kline_intervals =
     [''1s'', ''1m'', ''3m'', ''5m'', ''15m'', ''30m'', ''1h'', ''2h'', ''4h'', ''6h'', ''8h'', ''12h'', ''1d'', ''3d'', ''1w'', ''1M'']"

definition klines_channel :: "string \<Rightarrow> string \<Rightarrow> string option" where
  "klines_channel pair interval =
     (case switch_hash (map (\<lambda>i. (i, ''kline_'' @ i)) kline_intervals) (fnv1a (c_str interval)) of
        None \<Rightarrow> None
      | Some p \<Rightarrow> Some (make_channel_name (Some pair) p))"

definition trade_channel :: "string \<Rightarrow> string" where
  "trade_channel pair = make_channel_name (Some pair) ''trade''"

definition agg_trade_channel :: "string \<Rightarrow> string" where
  "agg_trade_channel pair = make_channel_name (Some pair) ''aggTrade''"

definition mini_ticker_channel :: "string \<Rightarrow> string" where
  "mini_ticker_channel pair = make_channel_name (Some pair) ''miniTicker''"

definition mini_tickers_channel :: string where
  "mini_tickers_channel = make_channel_name (Some ''!miniTicker'') ''arr''"

definition market_channel :: "string \<Rightarrow> string" where
  "market_channel pair = make_channel_name (Some pair) ''ticker''"

definition markets_channel :: string where
  "markets_channel = make_channel_name (Some ''!ticker'') ''arr''"

definition book_channel :: "string \<Rightarrow> string" where
  "book_channel pair = make_channel_name (Some pair) ''bookTicker''"

definition userdata_channel :: "string \<Rightarrow> string" where
  "userdata_channel lkey = make_channel_name None lkey"

section \<open>The callback of a channel\<close>

text \<open>A frame handed on as it came, or a call of the user with an error code, its message and the value.\<close>

datatype 'm feed_call = Raw_call string | User_call int string 'm

record 'm ws_user =
  wu_raw :: bool
  wu_answer :: "'m feed_call list \<Rightarrow> bool option"
  wu_construct :: "fjson \<Rightarrow> 'm fj_result"
  wu_default :: 'm

text \<open>What the callback does: it returns, an exception leaves it, or the behaviour is undefined.\<close>

datatype feed_outcome = Ws_returns bool | Ws_escapes | Ws_undefined

definition deliver_message :: "'m ws_user \<Rightarrow> fjson \<Rightarrow> 'm feed_call list \<Rightarrow> 'm feed_call list \<times> feed_outcome" where
  "deliver_message u json calls =
     (case wu_construct u json of
        Inl Fj_undefined \<Rightarrow> (calls, Ws_undefined)
      | Inl _ \<Rightarrow> (calls, Ws_returns False)
      | Inr m \<Rightarrow>
          let calls = calls @ [User_call 0 [] m]
          in (calls, Ws_returns (case wu_answer u calls of Some b \<Rightarrow> b | None \<Rightarrow> False)))"

definition pass_on :: "'m ws_user \<Rightarrow> string \<Rightarrow> fjson \<Rightarrow> 'm feed_call list \<Rightarrow> 'm feed_call list \<times> feed_outcome" where
  "pass_on u frame json calls = deliver_message u json (if wu_raw u then calls @ [Raw_call frame] else calls)"

definition wscb_error :: "'m ws_user \<Rightarrow> int \<times> string \<Rightarrow> 'm feed_call list \<Rightarrow> 'm feed_call list" where
  "wscb_error u e calls = calls @ [User_call (fst e) (snd e) (wu_default u)]"

text \<open>The error of the document is not asked for: a frame that is not JSON has no root to look at.\<close>

definition wscb_frame :: "'m ws_user \<Rightarrow> string \<Rightarrow> 'm feed_call list \<Rightarrow> 'm feed_call list \<times> feed_outcome" where
  "wscb_frame u frame calls =
     (case fj_load frame of
        None \<Rightarrow> (calls, Ws_undefined)
      | Some json \<Rightarrow>
          case reports_error json of
            Inl Fj_undefined \<Rightarrow> (calls, Ws_undefined)
          | Inl _ \<Rightarrow> (calls, Ws_escapes)
          | Inr False \<Rightarrow> pass_on u frame json calls
          | Inr True \<Rightarrow>
              case construct_error json of
                Inl Fj_undefined \<Rightarrow> (calls, Ws_undefined)
              | Inl _ \<Rightarrow> (calls, Ws_escapes)
              | Inr e \<Rightarrow>
                  let calls = wscb_error u e calls
                  in case wu_answer u calls of Some b \<Rightarrow> (calls, Ws_returns b) | None \<Rightarrow> pass_on u frame json calls)"

section \<open>A connection\<close>

datatype ws_stage = Ws_resolving | Ws_connecting | Ws_securing | Ws_handshaking | Ws_reading | Ws_finished | Ws_crashed

text \<open>\<open>ws_open\<close> is the state of the TCP socket, \<open>ws_close_sent\<close> that a close was issued on it.\<close>

record 'm websocket =
  m_target :: string
  m_stop_requested :: bool
  ws_open :: bool
  ws_close_sent :: bool
  ws_stage :: ws_stage
  ws_calls :: "'m feed_call list"

text \<open>The socket is opened by the connection attempt, after the resolution.\<close>

definition async_start :: "string \<Rightarrow> 'm websocket" where
  "async_start target =
     \<lparr>m_target = target, m_stop_requested = False, ws_open = False, ws_close_sent = False, ws_stage = Ws_resolving, ws_calls = []\<rparr>"

text \<open>\<^verbatim>\<open>stop\<close> and \<^verbatim>\<open>async_stop\<close>: without an open socket only the flag is set.\<close>

definition ws_stop :: "'m websocket \<Rightarrow> 'm websocket" where
  "ws_stop w = w\<lparr>m_stop_requested := True, ws_close_sent := (ws_close_sent w \<or> ws_open w)\<rparr>"

definition ws_report :: "'m ws_user \<Rightarrow> int \<times> string \<Rightarrow> 'm websocket \<Rightarrow> 'm websocket" where
  "ws_report u e w = (if m_stop_requested w then w else w\<lparr>ws_calls := wscb_error u e (ws_calls w)\<rparr>)"

definition ws_end :: "'m websocket \<Rightarrow> 'm websocket" where
  "ws_end w = w\<lparr>ws_stage := Ws_finished\<rparr>"

text \<open>The completion of an operation; the server name is set before the connection attempt.\<close>

datatype ws_event = Ev_done | Ev_no_server_name "int \<times> string" | Ev_failed "int \<times> string" | Ev_frame string

definition on_resolved :: "'m ws_user \<Rightarrow> ws_event \<Rightarrow> 'm websocket \<Rightarrow> 'm websocket" where
  "on_resolved u ev w =
     (case ev of
        Ev_failed e \<Rightarrow> ws_end (ws_report u e w)
      | Ev_no_server_name e \<Rightarrow> ws_end (w\<lparr>ws_calls := wscb_error u e (ws_calls w)\<rparr>)
      | _ \<Rightarrow> w\<lparr>ws_open := True, ws_stage := Ws_connecting\<rparr>)"

definition on_connected :: "'m ws_user \<Rightarrow> ws_event \<Rightarrow> 'm websocket \<Rightarrow> 'm websocket" where
  "on_connected u ev w = (case ev of Ev_failed e \<Rightarrow> ws_end (ws_report u e w) | _ \<Rightarrow> w\<lparr>ws_stage := Ws_securing\<rparr>)"

definition on_async_ssl_handshake :: "'m ws_user \<Rightarrow> ws_event \<Rightarrow> 'm websocket \<Rightarrow> 'm websocket" where
  "on_async_ssl_handshake u ev w = (case ev of Ev_failed e \<Rightarrow> ws_end (ws_report u e w) | _ \<Rightarrow> w\<lparr>ws_stage := Ws_handshaking\<rparr>)"

definition start_read :: "'m ws_user \<Rightarrow> ws_event \<Rightarrow> 'm websocket \<Rightarrow> 'm websocket" where
  "start_read u ev w = (case ev of Ev_failed e \<Rightarrow> ws_end (ws_stop (ws_report u e w)) | _ \<Rightarrow> w\<lparr>ws_stage := Ws_reading\<rparr>)"

definition ws_on_read :: "'m ws_user \<Rightarrow> ws_event \<Rightarrow> 'm websocket \<Rightarrow> 'm websocket" where
  "ws_on_read u ev w =
     (case ev of
        Ev_failed e \<Rightarrow> ws_end (ws_stop (ws_report u e w))
      | Ev_frame frame \<Rightarrow>
          (case wscb_frame u frame (ws_calls w) of
             (calls, Ws_returns True) \<Rightarrow> start_read u Ev_done (w\<lparr>ws_calls := calls\<rparr>)
           | (calls, Ws_returns False) \<Rightarrow> ws_end (ws_stop (w\<lparr>ws_calls := calls\<rparr>))
           | (calls, Ws_escapes) \<Rightarrow> ws_end (w\<lparr>ws_calls := calls\<rparr>)
           | (calls, Ws_undefined) \<Rightarrow> w\<lparr>ws_calls := calls, ws_stage := Ws_crashed\<rparr>)
      | _ \<Rightarrow> w)"

definition ws_handle :: "'m ws_user \<Rightarrow> ws_event \<Rightarrow> 'm websocket \<Rightarrow> 'm websocket" where
  "ws_handle u ev w =
     (case ws_stage w of
        Ws_resolving \<Rightarrow> on_resolved u ev w
      | Ws_connecting \<Rightarrow> on_connected u ev w
      | Ws_securing \<Rightarrow> on_async_ssl_handshake u ev w
      | Ws_handshaking \<Rightarrow> start_read u ev w
      | Ws_reading \<Rightarrow> ws_on_read u ev w
      | _ \<Rightarrow> w)"

definition ws_events :: "'m ws_user \<Rightarrow> ws_event list \<Rightarrow> 'm websocket \<Rightarrow> 'm websocket" where
  "ws_events u evs w = foldl (\<lambda>w ev. ws_handle u ev w) w evs"

section \<open>The channels\<close>

text \<open>The connections in the order of their creation, a handle being an index, and the set of the subscribed ones.\<close>

record 'm websockets =
  ws_users :: "'m ws_user list"
  ws_socks :: "'m websocket list"
  m_set :: "nat set"

definition start_channel :: "'m ws_user \<Rightarrow> string \<Rightarrow> 'm websockets \<Rightarrow> nat \<times> 'm websockets" where
  "start_channel u schannel s =
     (let h = length (ws_socks s)
      in (h, s\<lparr>ws_users := ws_users s @ [u], ws_socks := ws_socks s @ [async_start schannel], m_set := insert h (m_set s)\<rparr>))"

definition stop_channel :: "nat \<Rightarrow> 'm websockets \<Rightarrow> 'm websockets" where
  "stop_channel h s =
     (if h \<notin> m_set s then s
      else s\<lparr>ws_socks := (ws_socks s)[h := ws_stop (ws_socks s ! h)], m_set := m_set s - {h}\<rparr>)"

definition unsubscribe_all :: "'m websockets \<Rightarrow> 'm websockets" where
  "unsubscribe_all s =
     s\<lparr>ws_socks := map (\<lambda>h. if h \<in> m_set s then ws_stop (ws_socks s ! h) else ws_socks s ! h) [0..<length (ws_socks s)], m_set := {}\<rparr>"

text \<open>An event of a connection; the end of its handlers destroys it, and the deleter takes it out of the set.\<close>

definition channel_event :: "nat \<Rightarrow> ws_event \<Rightarrow> 'm websockets \<Rightarrow> 'm websockets" where
  "channel_event h ev s =
     (let w = ws_handle (ws_users s ! h) ev (ws_socks s ! h)
      in s\<lparr>ws_socks := (ws_socks s)[h := w], m_set := (if ws_stage w = Ws_finished then m_set s - {h} else m_set s)\<rparr>)"

section \<open>User data\<close>

text \<open>A call of one of the three callbacks of a user data channel.\<close>

datatype 'd ud_call =
    Ud_account int string "'d v1_account_update_t"
  | Ud_balance int string "'d v1_balance_update_t"
  | Ud_order int string "'d v1_order_update_t"

record 'd ud_user =
  ud_ops :: "'d double_ops"
  ud_answer :: "'d ud_call list \<Rightarrow> bool option"
  ud_no_account :: "'d v1_account_update_t"
  ud_no_balance :: "'d v1_balance_update_t"
  ud_no_order :: "'d v1_order_update_t"

definition ud_deliver :: "'d ud_user \<Rightarrow> 'd ud_call fj_result \<Rightarrow> 'd ud_call list \<Rightarrow> 'd ud_call list \<times> feed_outcome" where
  "ud_deliver u c calls =
     (case c of
        Inl Fj_undefined \<Rightarrow> (calls, Ws_undefined)
      | Inl _ \<Rightarrow> (calls, Ws_escapes)
      | Inr c \<Rightarrow> (calls @ [c], case ud_answer u (calls @ [c]) of Some b \<Rightarrow> Ws_returns b | None \<Rightarrow> Ws_escapes))"

text \<open>The event is chosen by the hash of its name; the event of an order list and unknown ones fail an assertion.\<close>

definition ud_event :: "'d ud_user \<Rightarrow> fjson \<Rightarrow> 'd ud_call fj_result" where
  "ud_event u json =
     bind_exn (fj_contains ''e'' json) (\<lambda>has.
     bind_exn (checked has) (\<lambda>_.
     bind_exn (fj_at ''e'' json) (\<lambda>e.
     bind_exn (fj_to_sstring e) (\<lambda>es.
     case switch_hash
       [(''outboundAccountPosition'', bind_exn (construct_v1_account_update (ud_ops u) json) (\<lambda>r. Inr (Ud_account 0 [] r))),
        (''balanceUpdate'', bind_exn (construct_v1_balance_update (ud_ops u) json) (\<lambda>r. Inr (Ud_balance 0 [] r))),
        (''executionReport'', bind_exn (construct_v1_order_update (ud_ops u) json) (\<lambda>r. Inr (Ud_order 0 [] r))),
        (''listStatus'', Inl Fj_undefined)] (fnv1a es) of
       None \<Rightarrow> Inl Fj_undefined
     | Some c \<Rightarrow> c))))"

definition userdata_cb ::
  "'d ud_user \<Rightarrow> int \<Rightarrow> string \<Rightarrow> v1_userdata_stream_t \<Rightarrow> 'd ud_call list \<Rightarrow> 'd ud_call list \<times> feed_outcome" where
  "userdata_cb u ec errmsg msg calls =
     (if ec \<noteq> 0
      then (calls @ [Ud_account ec errmsg (ud_no_account u), Ud_balance ec errmsg (ud_no_balance u), Ud_order ec errmsg (ud_no_order u)],
            Ws_returns False)
      else
        case fj_load (uds_data msg) of
          None \<Rightarrow> (calls, Ws_undefined)
        | Some json \<Rightarrow> ud_deliver u (ud_event u json) calls)"

section \<open>Frames\<close>

text \<open>A frame that is a document and no error of the exchange is passed to the user.\<close>

lemma wscb_document:
  assumes "json_ok v" "\<not> error_document v"
  shows "\<exists>j. represents j v \<and> wscb_frame u (json_text v) calls = pass_on u (json_text v) j calls"
proof -
  let ?j = "\<lparr>m_storage = json_tokens None 0 [] v, m_beg = Some 0, m_err = FJ_EC_OK\<rparr>"
  have rep: "represents ?j v" by (rule represents_document [OF assms(1)])
  show ?thesis
    using load_document [OF assms(1)] reports_error_document [OF rep] assms(2) rep by (intro exI [of _ ?j]) (simp add: wscb_frame_def)
qed

lemma load_error_no_root: "fj_load s = Some j \<Longrightarrow> m_err j \<noteq> FJ_EC_OK \<Longrightarrow> m_beg j = None"
  by (auto simp: fj_load_def Let_def split: if_splits option.splits)

lemma wscb_not_json:
  assumes "fj_load frame = Some j" "m_beg j = None"
  shows "wscb_frame u frame calls = (calls, Ws_undefined)"
  using assms by (simp add: wscb_frame_def reports_error_def fj_is_type_def fj_root_def)

lemma ws_events_simps [simp]:
  "ws_events u [] w = w" "ws_events u (ev # evs) w = ws_events u evs (ws_handle u ev w)"
  "ws_events u (evs @ evs') w = ws_events u evs' (ws_events u evs w)"
  by (simp_all add: ws_events_def)

text \<open>Frames, the value each stands for, and a user who takes every one.\<close>

definition good_frames :: "'m ws_user \<Rightarrow> (json \<times> 'm) list \<Rightarrow> bool" where
  "good_frames u fs \<longleftrightarrow> \<not> wu_raw u \<and> (\<forall>calls. wu_answer u calls = Some True) \<and>
     (\<forall>(v, m)\<in>set fs. json_ok v \<and> \<not> error_document v \<and> (\<forall>j. represents j v \<longrightarrow> wu_construct u j = Inr m))"

definition frame_events :: "(json \<times> 'm) list \<Rightarrow> ws_event list" where
  "frame_events fs = map (\<lambda>(v, m). Ev_frame (json_text v)) fs"

definition frame_calls :: "(json \<times> 'm) list \<Rightarrow> 'm feed_call list" where
  "frame_calls fs = map (\<lambda>(v, m). User_call 0 [] m) fs"

lemma frames_delivered:
  "ws_stage w = Ws_reading \<Longrightarrow> good_frames u fs \<Longrightarrow> ws_events u (frame_events fs) w = w\<lparr>ws_calls := ws_calls w @ frame_calls fs\<rparr>"
proof (induction fs arbitrary: w)
  case (Cons f fs)
  obtain v m where f: "f = (v, m)" by (cases f)
  have v: "json_ok v" "\<not> error_document v" "\<And>j. represents j v \<Longrightarrow> wu_construct u j = Inr m" and
    u: "\<not> wu_raw u" "\<And>calls. wu_answer u calls = Some True" and rest: "good_frames u fs"
    using Cons.prems(2) by (auto simp: good_frames_def f)
  have "wscb_frame u (json_text v) (ws_calls w) = (ws_calls w @ [User_call 0 [] m], Ws_returns True)"
    using wscb_document [OF v(1,2), of u "ws_calls w"] v(3) u by (auto simp: pass_on_def deliver_message_def)
  then have "ws_handle u (Ev_frame (json_text v)) w = w\<lparr>ws_calls := ws_calls w @ [User_call 0 [] m]\<rparr>"
    using Cons.prems(1) by (simp add: ws_handle_def ws_on_read_def start_read_def)
  then show ?case
    using Cons.IH [OF _ rest, of "w\<lparr>ws_calls := ws_calls w @ [User_call 0 [] m]\<rparr>"] Cons.prems(1)
    by (simp add: f frame_events_def frame_calls_def)
qed (simp add: frame_events_def frame_calls_def)

lemma connects: "ws_stage w = Ws_resolving \<Longrightarrow>
  ws_events u [Ev_done, Ev_done, Ev_done, Ev_done] w = w\<lparr>ws_open := True, ws_stage := Ws_reading\<rparr>"
  by (simp add: ws_handle_def on_resolved_def on_connected_def on_async_ssl_handshake_def start_read_def)

lemma connects_and_delivers:
  assumes "ws_stage w = Ws_resolving" "good_frames u fs"
  shows "ws_events u ([Ev_done, Ev_done, Ev_done, Ev_done] @ frame_events fs) w =
    w\<lparr>ws_open := True, ws_stage := Ws_reading, ws_calls := ws_calls w @ frame_calls fs\<rparr>"
  unfolding ws_events_simps(3) connects [OF assms(1)]
  using frames_delivered [OF _ assms(2), of "w\<lparr>ws_open := True, ws_stage := Ws_reading\<rparr>"] by simp

text \<open>After a stop, an error is not reported.\<close>

definition no_frame :: "ws_event \<Rightarrow> bool" where
  "no_frame ev \<longleftrightarrow> (case ev of Ev_done \<Rightarrow> True | Ev_failed e \<Rightarrow> True | _ \<Rightarrow> False)"

lemma stopped_event:
  "m_stop_requested w \<Longrightarrow> no_frame ev \<Longrightarrow> m_stop_requested (ws_handle u ev w) \<and> ws_calls (ws_handle u ev w) = ws_calls w"
  by (cases "ws_stage w"; cases ev)
    (simp_all add: no_frame_def ws_handle_def on_resolved_def on_connected_def on_async_ssl_handshake_def start_read_def ws_on_read_def
      ws_report_def ws_end_def ws_stop_def)

lemma stopped_events:
  "m_stop_requested w \<Longrightarrow> list_all no_frame evs \<Longrightarrow> ws_calls (ws_events u evs w) = ws_calls w"
proof (induction evs arbitrary: w)
  case (Cons ev evs)
  then show ?case using stopped_event [of w ev u] by simp
qed simp

text \<open>A user of symbols, for examples.\<close>

definition example_user :: "string ws_user" where
  "example_user = \<lparr>wu_raw = False, wu_answer = (\<lambda>_. Some True), wu_construct = get_text ''s'', wu_default = []\<rparr>"

lemma example_frames: "good_frames example_user [(J_object [(''s'', J_simple FJ_TYPE_STRING ''BTCUSDT'')], ''BTCUSDT'')]"
proof -
  have "get_text ''s'' j = Inr ''BTCUSDT''" if rep: "represents j (J_object [(''s'', J_simple FJ_TYPE_STRING ''BTCUSDT'')])" for j
  proof -
    obtain j' where j': "fj_at ''s'' j = Inr j'" "represents j' (J_simple FJ_TYPE_STRING ''BTCUSDT'')"
      using at_member(1) [OF rep, of "''s''"] by auto
    then show ?thesis
      using is_type_represents [OF j'(2), of FJ_TYPE_NULL] to_sstring_represents [OF j'(2)] by (simp add: get_text_def json_type_def)
  qed
  then show ?thesis
    by (simp add: good_frames_def example_user_def error_document_def simple_ok_def key_ok_def fj_utf8_char_len_def)
qed

section \<open>Properties\<close>

text \<open>
  C36: A legacy channel delivers the frames it reads. From its start, through resolution, connection and both
  handshakes, every frame that is a document of the expected type and not an error of the exchange reaches the
  callback as its value, in order and once, for as long as the callback accepts.
\<close>

theorem v1_ws_delivers_in_order:
  assumes "good_frames u fs"
  shows "ws_calls (ws_events u ([Ev_done, Ev_done, Ev_done, Ev_done] @ frame_events fs) (async_start target)) = frame_calls fs"
  using connects_and_delivers [OF _ assms, of "async_start target"] by (simp add: async_start_def del: ws_events_simps append_Cons append_Nil)

theorem v1_ws_delivers_in_order_witness:
  "ws_calls (ws_events example_user ([Ev_done, Ev_done, Ev_done, Ev_done] @
      frame_events [(J_object [(''s'', J_simple FJ_TYPE_STRING ''BTCUSDT'')], ''BTCUSDT'')]) (async_start (trade_channel ''BTCUSDT''))) =
   [User_call 0 [] ''BTCUSDT'']"
  using v1_ws_delivers_in_order [OF example_frames] by (simp add: frame_calls_def)

text \<open>
  C39: Unsubscribing a legacy channel. It stops the reports of errors: whatever operations complete or fail
  afterwards, the callback hears nothing of them. But unsubscribed while the host is still being resolved, a channel
  is not stopped: no close is ever issued, it connects, and delivers its frames as if subscribed, while it is gone from
  the set of channels, so that neither a second unsubscription nor unsubscribing all changes it.
\<close>

theorem v1_ws_unsubscribe_lost:
  assumes "h < length (ws_socks s)" "h \<in> m_set s"
  shows "(list_all no_frame evs \<longrightarrow>
      ws_calls (ws_events u evs (ws_socks (stop_channel h s) ! h)) = ws_calls (ws_socks s ! h)) \<and>
    (ws_socks s ! h = async_start target \<longrightarrow> good_frames u fs \<longrightarrow>
      (let s' = stop_channel h s; w = ws_events u ([Ev_done, Ev_done, Ev_done, Ev_done] @ frame_events fs) (ws_socks s' ! h)
       in \<not> ws_close_sent w \<and> ws_stage w = Ws_reading \<and> ws_calls w = frame_calls fs \<and>
          stop_channel h s' = s' \<and> ws_socks (unsubscribe_all s') ! h = ws_socks s' ! h))"
proof (intro conjI impI)
  assume evs: "list_all no_frame evs"
  have "ws_socks (stop_channel h s) ! h = ws_stop (ws_socks s ! h)" using assms by (simp add: stop_channel_def)
  then show "ws_calls (ws_events u evs (ws_socks (stop_channel h s) ! h)) = ws_calls (ws_socks s ! h)"
    using stopped_events [OF _ evs, of "ws_stop (ws_socks s ! h)"] by (simp add: ws_stop_def)
next
  assume start: "ws_socks s ! h = async_start target" and fs: "good_frames u fs"
  define w where "w = ws_stop (async_start target :: 'a websocket)"
  have sock: "ws_socks (stop_channel h s) ! h = w" using assms start by (simp add: stop_channel_def w_def)
  have "ws_events u ([Ev_done, Ev_done, Ev_done, Ev_done] @ frame_events fs) w =
      w\<lparr>ws_open := True, ws_stage := Ws_reading, ws_calls := frame_calls fs\<rparr>"
    using connects_and_delivers [OF _ fs, of w] by (simp add: w_def ws_stop_def async_start_def del: ws_events_simps append_Cons append_Nil)
  moreover have "\<not> ws_close_sent w" by (simp add: w_def ws_stop_def async_start_def)
  moreover have "h \<notin> m_set (stop_channel h s)" "h < length (ws_socks (stop_channel h s))" using assms by (simp_all add: stop_channel_def)
  ultimately show "let s' = stop_channel h s; w = ws_events u ([Ev_done, Ev_done, Ev_done, Ev_done] @ frame_events fs) (ws_socks s' ! h)
       in \<not> ws_close_sent w \<and> ws_stage w = Ws_reading \<and> ws_calls w = frame_calls fs \<and>
          stop_channel h s' = s' \<and> ws_socks (unsubscribe_all s') ! h = ws_socks s' ! h"
    unfolding Let_def sock by (simp add: stop_channel_def [of h "stop_channel h s"] unsubscribe_all_def sock)
qed

theorem v1_ws_unsubscribe_lost_witness:
  "let (h, s) = start_channel example_user (trade_channel ''BTCUSDT'') \<lparr>ws_users = [], ws_socks = [], m_set = {}\<rparr>;
       s' = stop_channel h s;
       w = ws_events example_user ([Ev_done, Ev_done, Ev_done, Ev_done] @
         frame_events [(J_object [(''s'', J_simple FJ_TYPE_STRING ''BTCUSDT'')], ''BTCUSDT'')]) (ws_socks s' ! h)
   in h = 0 \<and> stop_channel h s' = s' \<and> ws_calls w = [User_call 0 [] ''BTCUSDT'']"
proof -
  let ?s = "snd (start_channel example_user (trade_channel ''BTCUSDT'') \<lparr>ws_users = [], ws_socks = [], m_set = {}\<rparr>)"
  have "0 < length (ws_socks ?s)" "0 \<in> m_set ?s" "ws_socks ?s ! 0 = async_start (trade_channel ''BTCUSDT'')"
    by (simp_all add: start_channel_def)
  with v1_ws_unsubscribe_lost [of 0 ?s "[]" example_user "trade_channel ''BTCUSDT''"
      "[(J_object [(''s'', J_simple FJ_TYPE_STRING ''BTCUSDT'')], ''BTCUSDT'')]"] example_frames
  show ?thesis
    by (simp add: Let_def start_channel_def frame_calls_def del: ws_events_simps append_Cons append_Nil)
qed

text \<open>
  What a frame of the exchange can do to a legacy channel. A frame that is not JSON, or an empty one, is looked at
  through a null pointer: the behaviour is undefined and the user is told nothing. An event of a user data channel
  whose name is \<^verbatim>\<open>listStatus\<close>, which the exchange sends for order lists, or any event without a name, fails an
  assertion.
\<close>

lemma v1_ws_frames_crash:
  "(ws_stage w = Ws_reading \<longrightarrow> fj_load frame = Some j \<longrightarrow> m_err j \<noteq> FJ_EC_OK \<or> frame = [] \<longrightarrow>
      ws_handle u (Ev_frame frame) w = w\<lparr>ws_stage := Ws_crashed\<rparr>) \<and>
   (json_ok (J_object mems) \<longrightarrow> map_of mems ''e'' = None \<or> map_of mems ''e'' = Some (J_simple FJ_TYPE_STRING ''listStatus'') \<longrightarrow>
      userdata_cb v 0 [] \<lparr>uds_data = json_text (J_object mems)\<rparr> calls = (calls, Ws_undefined))"
proof (intro conjI impI)
  assume a: "ws_stage w = Ws_reading" "fj_load frame = Some j" "m_err j \<noteq> FJ_EC_OK \<or> frame = []"
  have "m_beg j = None" using a(2,3) load_error_no_root [OF a(2)] by (auto simp: fj_load_def)
  then show "ws_handle u (Ev_frame frame) w = w\<lparr>ws_stage := Ws_crashed\<rparr>"
    using a(1) wscb_not_json [OF a(2), of u "ws_calls w"] by (simp add: ws_handle_def ws_on_read_def)
next
  assume ok: "json_ok (J_object mems)"
    and e: "map_of mems ''e'' = None \<or> map_of mems ''e'' = Some (J_simple FJ_TYPE_STRING ''listStatus'')"
  let ?j = "\<lparr>m_storage = json_tokens None 0 [] (J_object mems), m_beg = Some 0, m_err = FJ_EC_OK\<rparr>"
  have rep: "represents ?j (J_object mems)" by (rule represents_document [OF ok])
  have hashes: "fnv1a ''outboundAccountPosition'' \<noteq> fnv1a ''listStatus''" "fnv1a ''balanceUpdate'' \<noteq> fnv1a ''listStatus''"
    "fnv1a ''executionReport'' \<noteq> fnv1a ''listStatus''"
    by (simp_all add: fnv1a_def fnv1a_step_def char_u32_def)
  have "ud_event v ?j = Inl Fj_undefined"
  proof (cases "map_of mems ''e''")
    case None
    then show ?thesis using at_missing(2) [OF rep None] by (simp add: ud_event_def checked_def)
  next
    case (Some x)
    then have x: "map_of mems ''e'' = Some (J_simple FJ_TYPE_STRING ''listStatus'')" using e by simp
    obtain j' where j': "fj_at ''e'' ?j = Inr j'" "represents j' (J_simple FJ_TYPE_STRING ''listStatus'')"
      using at_member(1) [OF rep x] by blast
    then show ?thesis
      using at_member(2) [OF rep x] to_sstring_represents [OF j'(2)] hashes by (simp add: ud_event_def checked_def)
  qed
  then show "userdata_cb v 0 [] \<lparr>uds_data = json_text (J_object mems)\<rparr> calls = (calls, Ws_undefined)"
    using load_document [OF ok] by (simp add: userdata_cb_def ud_deliver_def)
qed

end
