(* ===== verification/Decimal_Float.thy ===== *)
theory Decimal_Float
  imports Decimal
begin

text \<open>
  Binary floating point as the sources use it. What \<^verbatim>\<open>double\<close> arithmetic gives is a parameter, the record
  \<open>fp\<close>: no theorem depends on how it rounds. What is modelled exactly is the conversion of integers, to the nearest
  number of 53 (or, for \<^verbatim>\<open>long double\<close>, 64) significant bits with ties to even, because \<^verbatim>\<open>decimal_t::to_double\<close>
  decides by it whether a value fits.
\<close>

section \<open>Arithmetic\<close>

record 'd fp =
  fp_of_int :: "int \<Rightarrow> 'd"
  fp_half :: 'd
  fp_add :: "'d \<Rightarrow> 'd \<Rightarrow> 'd"
  fp_sub :: "'d \<Rightarrow> 'd \<Rightarrow> 'd"
  fp_mul :: "'d \<Rightarrow> 'd \<Rightarrow> 'd"
  fp_div :: "'d \<Rightarrow> 'd \<Rightarrow> 'd"
  fp_neg :: "'d \<Rightarrow> 'd"
  fp_abs :: "'d \<Rightarrow> 'd"
  fp_less :: "'d \<Rightarrow> 'd \<Rightarrow> bool"
  fp_le :: "'d \<Rightarrow> 'd \<Rightarrow> bool"

abbreviation fp_zero :: "('d, 'x) fp_scheme \<Rightarrow> 'd" where
  "fp_zero fp \<equiv> fp_of_int fp 0"

section \<open>Integers in few bits\<close>

text \<open>The number of bits of a natural number, and a quotient rounded to nearest, ties to even.\<close>

fun bit_length :: "nat \<Rightarrow> nat" where
  "bit_length n = (if n = 0 then 0 else Suc (bit_length (n div 2)))"

declare bit_length.simps [simp del]

definition round_half_even :: "nat \<Rightarrow> nat \<Rightarrow> nat" where
  "round_half_even n m =
     (let q = n div m; r = n mod m
      in if 2 * r < m \<or> 2 * r = m \<and> even q then q else q + 1)"

text \<open>The nearest number of at most \<open>p\<close> significant bits.\<close>

definition round_to_bits :: "nat \<Rightarrow> nat \<Rightarrow> nat" where
  "round_to_bits p n = (let e = bit_length n - p in round_half_even n (2 ^ e) * 2 ^ e)"

section \<open>Conversion of decimals\<close>

definition to_float :: "nat \<Rightarrow> 'd fp \<Rightarrow> decimal_t \<Rightarrow> ('d \<times> bool) may_throw" where
  "to_float p fp v =
     (let negative = raw_value v < 0 in
      bind_exn (if negative then i128 (- raw_value v) else Inr (raw_value v)) (\<lambda>abs_val.
      let int_part = cpp_div abs_val scale_factor;
          frac_part = abs_val - int_part * scale_factor;
          d = fp_add fp (fp_of_int fp int_part) (fp_div fp (fp_of_int fp frac_part) (fp_of_int fp scale_factor));
          d = (if negative then fp_neg fp d else d);
          uval = nat abs_val
      in Inr (d, round_to_bits p uval = uval)))"

definition to_double :: "'d fp \<Rightarrow> decimal_t \<Rightarrow> ('d \<times> bool) may_throw" where
  "to_double = to_float 53"

definition to_long_double :: "'d fp \<Rightarrow> decimal_t \<Rightarrow> ('d \<times> bool) may_throw" where
  "to_long_double = to_float 64"

section \<open>When a value fits\<close>

lemma bit_length_bounds: "0 < n \<Longrightarrow> 2 ^ (bit_length n - 1) \<le> n \<and> n < 2 ^ bit_length n \<and> 0 < bit_length n"
proof (induction n rule: bit_length.induct)
  case (1 n)
  show ?case
  proof (cases "n div 2 = 0")
    case True
    then have "n = 1" using 1(2) by linarith
    then show ?thesis by (simp add: bit_length.simps)
  next
    case False
    then have IH: "2 ^ (bit_length (n div 2) - 1) \<le> n div 2" "n div 2 < 2 ^ bit_length (n div 2)" "0 < bit_length (n div 2)"
      using 1 by auto
    moreover have "2 ^ bit_length (n div 2) = 2 * (2::nat) ^ (bit_length (n div 2) - 1)"
      using IH(3) by (cases "bit_length (n div 2)") simp_all
    ultimately show ?thesis
      using 1(2) by (simp add: bit_length.simps [of n]) linarith
  qed
qed

lemma round_half_even_exact: "0 < m \<Longrightarrow> round_half_even n m * m = n \<longleftrightarrow> m dvd n"
proof -
  assume m: "0 < m"
  have n: "n = n div m * m + n mod m" by simp
  have "n mod m < m" using m by simp
  then have "(n div m + 1) * m = n \<longleftrightarrow> False"
    using n by (metis add.commute add_less_cancel_left distrib_right mult_1 nat_less_le)
  then show ?thesis
    using m by (auto simp: round_half_even_def Let_def dvd_div_mult_self) (metis dvd_triv_right)+
qed

text \<open>A positive number is representable exactly if the bits beyond the leading ones are zero.\<close>

lemma round_to_bits_exact: "round_to_bits p n = n \<longleftrightarrow> 2 ^ (bit_length n - p) dvd n"
  unfolding round_to_bits_def Let_def by (rule round_half_even_exact) simp

lemma round_to_bits_iff:
  assumes "0 < p"
  shows "round_to_bits p n = n \<longleftrightarrow> (\<exists>m e. n = m * 2 ^ e \<and> m < 2 ^ p)"
proof (cases "n = 0")
  case True
  then show ?thesis by (auto simp: round_to_bits_exact intro!: exI [of _ 0])
next
  case False
  then have b: "2 ^ (bit_length n - 1) \<le> n" "n < 2 ^ bit_length n" "0 < bit_length n"
    using bit_length_bounds [of n] by auto
  show ?thesis
  proof
    assume "round_to_bits p n = n"
    then obtain m where m: "n = m * 2 ^ (bit_length n - p)"
      by (auto simp: round_to_bits_exact dvd_def mult.commute)
    have "m < 2 ^ p"
    proof (rule ccontr)
      assume "\<not> m < 2 ^ p"
      then have "2 ^ p * 2 ^ (bit_length n - p) \<le> n" by (subst m) (simp only: mult_le_mono1 not_less)
      moreover have "(2::nat) ^ bit_length n \<le> 2 ^ p * 2 ^ (bit_length n - p)"
        by (simp only: power_add [symmetric]) (rule power_increasing; simp)
      ultimately show False using b(2) by linarith
    qed
    with m show "\<exists>m e. n = m * 2 ^ e \<and> m < 2 ^ p" by blast
  next
    assume "\<exists>m e. n = m * 2 ^ e \<and> m < 2 ^ p"
    then obtain m e where n: "n = m * 2 ^ e" "m < 2 ^ p" by blast
    then have "n < 2 ^ (p + e)" by (simp add: power_add)
    with b(1) have "(2::nat) ^ (bit_length n - 1) < 2 ^ (p + e)" by linarith
    then have "bit_length n - p \<le> e" using b(3) by (simp add: power_strict_increasing_iff)
    then show "round_to_bits p n = n"
      unfolding round_to_bits_exact n(1) [symmetric] by (subst n(1)) (simp add: le_imp_power_dvd dvd_mult)
  qed
qed

text \<open>
  What the flag of \<^verbatim>\<open>to_double\<close> says: not that the value is near a \<^verbatim>\<open>double\<close>, but that its raw integer, the
  value times 10 to the 18, has at most 53 significant bits.
\<close>

lemma to_double_fits:
  assumes "raw_value v \<noteq> - (2 ^ 127)" "i128_ok (raw_value v)"
  shows "\<exists>d. to_double fp v = Inr (d, \<exists>m e. nat \<bar>raw_value v\<bar> = m * 2 ^ e \<and> m < 2 ^ 53)"
proof -
  have "i128_ok (- raw_value v)" using assms by (auto simp: i128_ok_def)
  then show ?thesis
    using round_to_bits_iff [of 53 "nat \<bar>raw_value v\<bar>"]
    by (cases "raw_value v < 0") (simp_all add: to_double_def to_float_def Let_def)
qed

end
