(* ===== verification/Aggregates.thy ===== *)
theory Aggregates
  imports Decimal_Float Wire_Types
begin

text \<open>
  The per-symbol statistics of the recorder application, \<^verbatim>\<open>async-recorder/aggregates.hpp\<close>, and how the screener feeds
  them, the \<^verbatim>\<open>update_aggregates\<close> functions of \<^verbatim>\<open>async-recorder/screener.cpp\<close>: rolling windows of volume and trades,
  one-minute bars, the ring of true ranges and the volatility computed from it. A time point of the steady clock is
  its count of nanoseconds, and arithmetic is that of the parameter \<open>fp\<close>.
\<close>

section \<open>Rolling windows\<close>

record 'd bucket =
  bucket_vol :: 'd
  bucket_trades :: 'd

definition empty_bucket :: "'d fp \<Rightarrow> 'd bucket" where
  "empty_bucket fp = \<lparr>bucket_vol = fp_zero fp, bucket_trades = fp_zero fp\<rparr>"

record 'd tf_window =
  bucket_seconds :: int
  buckets :: "'d bucket list"
  tf_head :: nat
  head_time :: int

definition new_tf_window :: "'d fp \<Rightarrow> nat \<Rightarrow> int \<Rightarrow> 'd tf_window" where
  "new_tf_window fp n_buckets bucket_size =
     \<lparr>bucket_seconds = bucket_size, buckets = replicate n_buckets (empty_bucket fp), tf_head = 0, head_time = 0\<rparr>"

fun clear_buckets :: "'d fp \<Rightarrow> nat \<Rightarrow> 'd tf_window \<Rightarrow> 'd tf_window" where
  "clear_buckets fp 0 w = w"
| "clear_buckets fp (Suc effective) w =
     (let h = (tf_head w + 1) mod length (buckets w)
      in clear_buckets fp effective (w\<lparr>tf_head := h, buckets := (buckets w)[h := empty_bucket fp]\<rparr>))"

definition advance_to :: "'d fp \<Rightarrow> int \<Rightarrow> 'd tf_window \<Rightarrow> 'd tf_window" where
  "advance_to fp now w =
     (if head_time w = 0 then w\<lparr>head_time := now\<rparr>
      else if now \<le> head_time w then w
      else
        let delta_secs = cpp_div (now - head_time w) 1000000000;
            steps = cpp_div delta_secs (bucket_seconds w)
        in if steps \<le> 0 then w
           else let effective = min steps (int (length (buckets w)))
                in (clear_buckets fp (nat effective) w)\<lparr>head_time := head_time w + steps * bucket_seconds w * 1000000000\<rparr>)"

definition tf_update :: "'d fp \<Rightarrow> int \<Rightarrow> 'd \<Rightarrow> 'd \<Rightarrow> 'd tf_window \<Rightarrow> 'd tf_window" where
  "tf_update fp now dv dt w =
     (let w = advance_to fp now w; b = buckets w ! tf_head w
      in w\<lparr>buckets := (buckets w)[tf_head w :=
             \<lparr>bucket_vol = fp_add fp (bucket_vol b) dv, bucket_trades = fp_add fp (bucket_trades b) dt\<rparr>]\<rparr>)"

definition vol_sum :: "'d fp \<Rightarrow> 'd tf_window \<Rightarrow> 'd" where
  "vol_sum fp w = foldl (fp_add fp) (fp_zero fp) (map bucket_vol (buckets w))"

definition trades_sum :: "'d fp \<Rightarrow> 'd tf_window \<Rightarrow> 'd" where
  "trades_sum fp w = foldl (fp_add fp) (fp_zero fp) (map bucket_trades (buckets w))"

section \<open>Bars\<close>

record 'd bar_1m =
  minute_index :: u64
  bar_open :: 'd
  bar_high :: 'd
  bar_low :: 'd
  bar_close :: 'd
  bar_primed :: bool

definition new_bar :: "'d fp \<Rightarrow> 'd bar_1m" where
  "new_bar fp = \<lparr>minute_index = 0, bar_open = fp_zero fp, bar_high = fp_zero fp, bar_low = fp_zero fp, bar_close = fp_zero fp, bar_primed = False\<rparr>"

definition reopen :: "u64 \<Rightarrow> 'd \<Rightarrow> 'd bar_1m" where
  "reopen minute px =
     \<lparr>minute_index = minute, bar_open = px, bar_high = px, bar_low = px, bar_close = px, bar_primed = True\<rparr>"

definition extend_range :: "'d fp \<Rightarrow> 'd \<Rightarrow> 'd bar_1m \<Rightarrow> 'd bar_1m" where
  "extend_range fp px b =
     (let b = (if fp_less fp (bar_high b) px then b\<lparr>bar_high := px\<rparr> else b)
      in if fp_less fp px (bar_low b) then b\<lparr>bar_low := px\<rparr> else b)"

definition update_from_trade :: "'d fp \<Rightarrow> 'd \<Rightarrow> 'd bar_1m \<Rightarrow> 'd bar_1m" where
  "update_from_trade fp px b = extend_range fp px (b\<lparr>bar_close := px\<rparr>)"

section \<open>True ranges\<close>

record 'd tr_window =
  tr_slots :: "'d list"
  tr_head :: nat
  tr_count :: nat

definition new_tr_window :: "'d fp \<Rightarrow> nat \<Rightarrow> 'd tr_window" where
  "new_tr_window fp n = \<lparr>tr_slots = replicate n (fp_zero fp), tr_head = 0, tr_count = 0\<rparr>"

definition tr_push :: "'d \<Rightarrow> 'd tr_window \<Rightarrow> 'd tr_window" where
  "tr_push tr w =
     w\<lparr>tr_slots := (tr_slots w)[tr_head w := tr],
       tr_head := (tr_head w + 1) mod length (tr_slots w),
       tr_count := (if tr_count w < length (tr_slots w) then tr_count w + 1 else tr_count w)\<rparr>"

definition tr_primed :: "'d tr_window \<Rightarrow> bool" where
  "tr_primed w \<longleftrightarrow> tr_count w = length (tr_slots w)"

definition atr :: "'d fp \<Rightarrow> 'd tr_window \<Rightarrow> 'd" where
  "atr fp w =
     (if tr_count w = 0 then fp_zero fp
      else fp_div fp (foldl (fp_add fp) (fp_zero fp) (take (tr_count w) (tr_slots w))) (fp_of_int fp (int (tr_count w))))"

section \<open>The statistics of a symbol\<close>

record 'd symbol_agg =
  events_total :: u64
  last_quote_volume :: 'd
  last_trade_count :: u64
  agg_primed :: bool
  win_1m :: "'d tf_window"
  win_5m :: "'d tf_window"
  win_1h :: "'d tf_window"
  current_bar :: "'d bar_1m"
  prev_close :: 'd
  trw :: "'d tr_window"
  natr :: 'd

definition new_symbol_agg :: "'d fp \<Rightarrow> 'd symbol_agg" where
  "new_symbol_agg fp =
     \<lparr>events_total = 0, last_quote_volume = fp_zero fp, last_trade_count = 0, agg_primed = False,
      win_1m = new_tf_window fp 60 1, win_5m = new_tf_window fp 60 5, win_1h = new_tf_window fp 60 60,
      current_bar = new_bar fp, prev_close = fp_zero fp, trw = new_tr_window fp 14, natr = fp_zero fp\<rparr>"

text \<open>\<^verbatim>\<open>std::max\<close> of a list is its first largest element.\<close>

definition fp_max3 :: "'d fp \<Rightarrow> 'd \<Rightarrow> 'd \<Rightarrow> 'd \<Rightarrow> 'd" where
  "fp_max3 fp a b c = (let m = (if fp_less fp a b then b else a) in if fp_less fp m c then c else m)"

definition close_bar_and_open_next :: "'d fp \<Rightarrow> u64 \<Rightarrow> 'd \<Rightarrow> 'd symbol_agg \<Rightarrow> 'd symbol_agg" where
  "close_bar_and_open_next fp next_minute_index next_price a =
     (let a =
        (if bar_primed (current_bar a) then
           let b = current_bar a;
               range = fp_sub fp (bar_high b) (bar_low b);
               hi_gap = (if fp_less fp (fp_zero fp) (prev_close a) then fp_abs fp (fp_sub fp (bar_high b) (prev_close a)) else fp_zero fp);
               lo_gap = (if fp_less fp (fp_zero fp) (prev_close a) then fp_abs fp (fp_sub fp (bar_low b) (prev_close a)) else fp_zero fp);
               tr = fp_max3 fp range hi_gap lo_gap;
               a = a\<lparr>trw := tr_push tr (trw a), prev_close := bar_close b\<rparr>;
               t = atr fp (trw a)
           in a\<lparr>natr := (if fp_less fp (fp_zero fp) (bar_close b) \<and> fp_less fp (fp_zero fp) t
                        then fp_mul fp (fp_div fp t (bar_close b)) (fp_of_int fp 100) else fp_zero fp)\<rparr>
         else a)
      in a\<lparr>current_bar := reopen next_minute_index next_price\<rparr>)"

section \<open>The screener\<close>

text \<open>The map of all symbols, and the fields of the two events the screener reads.\<close>

type_synonym 'd aggregates_map = "string \<rightharpoonup> 'd symbol_agg"

definition agg_at :: "'d fp \<Rightarrow> 'd aggregates_map \<Rightarrow> string \<Rightarrow> 'd symbol_agg" where
  "agg_at fp aggs s = (case aggs s of Some a \<Rightarrow> a | None \<Rightarrow> new_symbol_agg fp)"

record book_ticker_event =
  bt_symbol :: string
  bt_bid :: decimal_t
  bt_ask :: decimal_t

record ticker_event =
  tk_symbol :: string
  tk_quote_volume :: decimal_t
  tk_trade_count :: u64
  tk_last_price :: decimal_t
  tk_event_time :: timestamp_ms_t

definition update_book_ticker :: "'d fp \<Rightarrow> 'd aggregates_map \<Rightarrow> book_ticker_event \<Rightarrow> 'd aggregates_map may_throw" where
  "update_book_ticker fp aggs ev =
     (let agg = agg_at fp aggs (bt_symbol ev); agg = agg\<lparr>events_total := events_total agg + 1\<rparr>
      in if \<not> bar_primed (current_bar agg) then Inr (aggs(bt_symbol ev \<mapsto> agg))
         else
           bind_exn (to_double fp (bt_bid ev)) (\<lambda>(bid, bid_ok).
           bind_exn (to_double fp (bt_ask ev)) (\<lambda>(ask, ask_ok).
           if \<not> bid_ok \<or> \<not> ask_ok \<or> fp_le fp bid (fp_zero fp) \<or> fp_le fp ask (fp_zero fp) then Inr (aggs(bt_symbol ev \<mapsto> agg))
           else
             let mid = fp_mul fp (fp_half fp) (fp_add fp bid ask)
             in Inr (aggs(bt_symbol ev \<mapsto> agg\<lparr>current_bar := extend_range fp mid (current_bar agg)\<rparr>)))))"

text \<open>One entry of the ticker array: the totals, then the bar.\<close>

definition credit_totals :: "'d fp \<Rightarrow> int \<Rightarrow> 'd \<Rightarrow> u64 \<Rightarrow> 'd symbol_agg \<Rightarrow> 'd symbol_agg" where
  "credit_totals fp steady_now new_vol new_trades agg =
     (if \<not> agg_primed agg then agg\<lparr>last_quote_volume := new_vol, last_trade_count := new_trades, agg_primed := True\<rparr>
      else
        let dv = (if fp_less fp new_vol (last_quote_volume agg) then new_vol else fp_sub fp new_vol (last_quote_volume agg));
            dt = (if new_trades < last_trade_count agg then fp_of_int fp (uint new_trades)
                  else fp_of_int fp (uint (new_trades - last_trade_count agg)))
        in agg\<lparr>last_quote_volume := new_vol, last_trade_count := new_trades,
               win_1m := tf_update fp steady_now dv dt (win_1m agg),
               win_5m := tf_update fp steady_now dv dt (win_5m agg),
               win_1h := tf_update fp steady_now dv dt (win_1h agg)\<rparr>)"

definition sample_bar :: "'d fp \<Rightarrow> 'd \<Rightarrow> bool \<Rightarrow> u64 \<Rightarrow> 'd symbol_agg \<Rightarrow> 'd symbol_agg" where
  "sample_bar fp lp lp_fits event_ms agg =
     (if \<not> lp_fits \<or> fp_le fp lp (fp_zero fp) then agg
      else if event_ms = 0 then agg
      else
        let minute_idx = event_ms div 60000
        in if \<not> bar_primed (current_bar agg) then agg\<lparr>current_bar := reopen minute_idx lp\<rparr>
           else if minute_idx \<noteq> minute_index (current_bar agg) then close_bar_and_open_next fp minute_idx lp agg
           else agg\<lparr>current_bar := update_from_trade fp lp (current_bar agg)\<rparr>)"

definition update_ticker :: "'d fp \<Rightarrow> int \<Rightarrow> 'd aggregates_map \<Rightarrow> ticker_event \<Rightarrow> 'd aggregates_map may_throw" where
  "update_ticker fp steady_now aggs ev =
     bind_exn (to_double fp (tk_quote_volume ev)) (\<lambda>(vol_d, vol_fits).
     let agg = credit_totals fp steady_now (if vol_fits then vol_d else fp_zero fp) (tk_trade_count ev) (agg_at fp aggs (tk_symbol ev))
     in bind_exn (to_double fp (tk_last_price ev)) (\<lambda>(lp, lp_fits).
        Inr (aggs(tk_symbol ev \<mapsto> sample_bar fp lp lp_fits (ms (tk_event_time ev)) agg))))"

fun update_tickers :: "'d fp \<Rightarrow> int \<Rightarrow> 'd aggregates_map \<Rightarrow> ticker_event list \<Rightarrow> 'd aggregates_map may_throw" where
  "update_tickers fp steady_now aggs [] = Inr aggs"
| "update_tickers fp steady_now aggs (ev # arr) =
     bind_exn (update_ticker fp steady_now aggs ev) (\<lambda>aggs. update_tickers fp steady_now aggs arr)"

section \<open>Windows and the updates they were given\<close>

text \<open>A ring read backwards from its head, and what moving the head and writing there does to it.\<close>

definition ring_at :: "nat \<Rightarrow> 'a list \<Rightarrow> nat \<Rightarrow> 'a" where
  "ring_at h xs j = xs ! ((h + length xs - j) mod length xs)"

lemma ring_at_0: "h < length xs \<Longrightarrow> ring_at h xs 0 = xs ! h"
  by (simp add: ring_at_def)

lemma ring_index_inj:
  assumes "h < n" "j < n" "(h + n - j) mod n = h"
  shows "j = (0::nat)"
proof (rule ccontr)
  assume "j \<noteq> 0"
  show False
  proof (cases "j \<le> h")
    case True
    then have "(h + n - j) mod n = h - j" using assms(1) by (simp add: mod_if)
    then show False using assms(3) True \<open>j \<noteq> 0\<close> by linarith
  next
    case False
    then have "(h + n - j) mod n = h + n - j" using assms(2) by simp
    then show False using assms False by linarith
  qed
qed

lemma ring_at_write: "h < length xs \<Longrightarrow> j < length xs \<Longrightarrow> ring_at h (xs[h := x]) j = (if j = 0 then x else ring_at h xs j)"
  using ring_index_inj [of h "length xs" j] by (auto simp: ring_at_def nth_list_update)

lemma ring_index_Suc:
  assumes "h < n" "Suc j < n"
  shows "((h + 1) mod n + n - Suc j) mod n = (h + n - j) mod n"
proof (cases "h + 1 = n")
  case True
  then have "(h + n - j) mod n = h - j" using assms by (simp add: mod_if)
  moreover have "((h + 1) mod n + n - Suc j) mod n = n - Suc j" using True assms by simp
  ultimately show ?thesis using True by simp
next
  case False
  then show ?thesis using assms by simp
qed

lemma ring_at_advance: "h < length xs \<Longrightarrow> Suc j < length xs \<Longrightarrow> ring_at ((h + 1) mod length xs) xs (Suc j) = ring_at h xs j"
  by (simp only: ring_at_def ring_index_Suc)

lemma ring_at_push:
  assumes "h < length xs" "j < length xs"
  shows "ring_at ((h + 1) mod length xs) (xs[(h + 1) mod length xs := x]) j = (case j of 0 \<Rightarrow> x | Suc i \<Rightarrow> ring_at h xs i)"
proof -
  have "(h + 1) mod length xs < length xs" using assms(1) by (intro mod_less_divisor) linarith
  then show ?thesis
    using assms ring_at_write [of "(h + 1) mod length xs" xs j x] ring_at_advance [OF assms(1)] by (cases j) simp_all
qed

text \<open>Clearing moves the head on and leaves zeros behind it.\<close>

lemma clear_buckets_simps [simp]:
  "length (buckets (clear_buckets fp e w)) = length (buckets w)"
  "bucket_seconds (clear_buckets fp e w) = bucket_seconds w"
  "head_time (clear_buckets fp e w) = head_time w"
  by (induction e arbitrary: w) (simp_all add: Let_def)

lemma clear_buckets_ring:
  assumes "tf_head w < length (buckets w)"
  shows "tf_head (clear_buckets fp e w) < length (buckets w) \<and>
    (\<forall>j<length (buckets w). ring_at (tf_head (clear_buckets fp e w)) (buckets (clear_buckets fp e w)) j =
       (if j < e then empty_bucket fp else ring_at (tf_head w) (buckets w) (j - e)))"
  using assms
proof (induction e arbitrary: w)
  case (Suc e)
  let ?h = "(tf_head w + 1) mod length (buckets w)"
  let ?w = "w\<lparr>tf_head := ?h, buckets := (buckets w)[?h := empty_bucket fp]\<rparr>"
  have h: "?h < length (buckets w)" using Suc.prems by (intro mod_less_divisor) linarith
  have ring: "ring_at ?h ((buckets w)[?h := empty_bucket fp]) j =
      (case j of 0 \<Rightarrow> empty_bucket fp | Suc i \<Rightarrow> ring_at (tf_head w) (buckets w) i)" if "j < length (buckets w)" for j
    using ring_at_push [OF Suc.prems that] .
  have IH: "tf_head (clear_buckets fp e ?w) < length (buckets w) \<and>
    (\<forall>j<length (buckets w). ring_at (tf_head (clear_buckets fp e ?w)) (buckets (clear_buckets fp e ?w)) j =
       (if j < e then empty_bucket fp else ring_at ?h ((buckets w)[?h := empty_bucket fp]) (j - e)))"
    using Suc.IH [of ?w] h by simp
  have later: "ring_at ?h ((buckets w)[?h := empty_bucket fp]) (j - e) =
      (if j < Suc e then empty_bucket fp else ring_at (tf_head w) (buckets w) (j - Suc e))"
    if "j < length (buckets w)" "\<not> j < e" for j
  proof (cases "j = e")
    case False
    then have "j - e = Suc (j - Suc e)" "\<not> j < Suc e" using that by simp_all
    then show ?thesis using ring [of "j - e"] that False by simp
  next
    case True
    have "0 < length (buckets w)" using that by linarith
    from ring [OF this] show ?thesis using True by simp
  qed
  have eq: "clear_buckets fp (Suc e) w = clear_buckets fp e ?w" by (simp add: Let_def)
  show ?case unfolding eq
  proof (intro conjI allI impI)
    show "tf_head (clear_buckets fp e ?w) < length (buckets w)" using IH by blast
  next
    fix j assume j: "j < length (buckets w)"
    show "ring_at (tf_head (clear_buckets fp e ?w)) (buckets (clear_buckets fp e ?w)) j =
        (if j < Suc e then empty_bucket fp else ring_at (tf_head w) (buckets w) (j - Suc e))"
    proof (cases "j < e")
      case True
      then show ?thesis using IH j by auto
    next
      case False
      then show ?thesis using IH j later [OF j False] by auto
    qed
  qed
qed simp

text \<open>
  The reference: each update is numbered with the bucket its time falls into, counted from the first update, or the
  latest so far when the clock stands behind it; a bucket is the sum, in order, of its updates.
\<close>

definition bucket_number :: "int \<Rightarrow> int \<Rightarrow> int \<Rightarrow> nat" where
  "bucket_number start B now = nat ((now - start) div (B * 1000000000))"

fun numbered :: "int \<Rightarrow> int \<Rightarrow> nat \<Rightarrow> (int \<times> 'd \<times> 'd) list \<Rightarrow> (nat \<times> 'd \<times> 'd) list" where
  "numbered start B k [] = []"
| "numbered start B k ((now, dv, dt) # us) =
     (let k = max k (bucket_number start B now) in (k, dv, dt) # numbered start B k us)"

definition add_delta :: "'d fp \<Rightarrow> 'd bucket \<Rightarrow> 'd \<times> 'd \<Rightarrow> 'd bucket" where
  "add_delta fp b d = \<lparr>bucket_vol = fp_add fp (bucket_vol b) (fst d), bucket_trades = fp_add fp (bucket_trades b) (snd d)\<rparr>"

definition bucket_of :: "'d fp \<Rightarrow> (nat \<times> 'd \<times> 'd) list \<Rightarrow> int \<Rightarrow> 'd bucket" where
  "bucket_of fp log i = foldl (add_delta fp) (empty_bucket fp) (map snd (filter (\<lambda>u. int (fst u) = i) log))"

definition holds_log :: "'d fp \<Rightarrow> int \<Rightarrow> nat \<Rightarrow> (nat \<times> 'd \<times> 'd) list \<Rightarrow> 'd tf_window \<Rightarrow> bool" where
  "holds_log fp start k log w \<longleftrightarrow>
     tf_head w < length (buckets w) \<and> 0 < bucket_seconds w \<and> 0 < start \<and>
     head_time w = start + int k * bucket_seconds w * 1000000000 \<and>
     (\<forall>u\<in>set log. fst u \<le> k) \<and>
     (\<forall>j<length (buckets w). ring_at (tf_head w) (buckets w) j = bucket_of fp log (int k - int j))"

lemma bucket_of_none: "\<forall>u\<in>set log. int (fst u) \<noteq> i \<Longrightarrow> bucket_of fp log i = empty_bucket fp"
  by (auto simp: bucket_of_def filter_empty_conv)

lemma bucket_of_snoc:
  "bucket_of fp (log @ [(k, d)]) i = (if i = int k then add_delta fp (bucket_of fp log i) d else bucket_of fp log i)"
  by (simp add: bucket_of_def)

lemma steps_number:
  assumes "0 < B" "0 \<le> now - start - int k * B * 1000000000"
  shows "cpp_div (cpp_div (now - (start + int k * B * 1000000000)) 1000000000) B = int (bucket_number start B now) - int k"
proof -
  let ?D = "now - start - int k * B * 1000000000"
  have "cpp_div (cpp_div ?D 1000000000) B = ?D div 1000000000 div B"
    using assms by (simp add: cpp_div_nonneg pos_imp_zdiv_nonneg_iff)
  also have "\<dots> = ?D div (1000000000 * B)" by (rule zdiv_zmult2_eq [symmetric]) (use assms in simp)
  also have "1000000000 * B = B * 1000000000" by simp
  also have "?D = (now - start) + (- int k) * (B * 1000000000)" by simp
  also have "\<dots> div (B * 1000000000) = - int k + (now - start) div (B * 1000000000)"
    using assms(1) by (subst div_mult_self1) simp_all
  also have "(now - start) div (B * 1000000000) = int (bucket_number start B now)"
  proof -
    have "0 \<le> int k * B * 1000000000" using assms(1) by simp
    then have "0 \<le> now - start" using assms(2) by linarith
    then show ?thesis using assms(1) by (simp add: bucket_number_def pos_imp_zdiv_nonneg_iff)
  qed
  finally show ?thesis by (simp add: algebra_simps)
qed

text \<open>An update keeps the window in step with the log.\<close>

lemma advance_to_log:
  assumes "holds_log fp start k log w"
  shows "holds_log fp start (max k (bucket_number start (bucket_seconds w) now)) log (advance_to fp now w)"
proof -
  let ?B = "bucket_seconds w" and ?n = "bucket_number start (bucket_seconds w) now"
  note h = assms [unfolded holds_log_def]
  have B: "0 < ?B" and start: "0 < start" and ht: "head_time w = start + int k * ?B * 1000000000" using h by auto
  have pos: "head_time w \<noteq> 0" using B start ht by (smt (verit) mult_nonneg_nonneg of_nat_0_le_iff)
  show ?thesis
  proof (cases "now \<le> head_time w")
    case True
    have "(now - start) div (?B * 1000000000) \<le> int k"
    proof (rule ccontr)
      assume "\<not> (now - start) div (?B * 1000000000) \<le> int k"
      then have "int k + 1 \<le> (now - start) div (?B * 1000000000)" by simp
      then have "(int k + 1) * (?B * 1000000000) \<le> (now - start) div (?B * 1000000000) * (?B * 1000000000)"
        using B by (intro mult_right_mono) simp_all
      also have "\<dots> \<le> now - start" using B by (simp add: minus_mod_eq_div_mult [symmetric])
      finally show False using True ht B by (simp add: algebra_simps)
    qed
    then have "?n \<le> k" by (simp add: bucket_number_def)
    then have "max k ?n = k" by simp
    then show ?thesis using assms pos True by (simp add: advance_to_def)
  next
    case False
    then have steps: "cpp_div (cpp_div (now - head_time w) 1000000000) ?B = int ?n - int k"
      using steps_number [OF B, of now start k] ht by simp
    show ?thesis
    proof (cases "?n \<le> k")
      case True
      then have "max k ?n = k" by simp
      then show ?thesis using assms pos False steps True by (simp add: advance_to_def Let_def)
    next
      case less: False
      let ?e = "nat (min (int ?n - int k) (int (length (buckets w))))"
      let ?w = "clear_buckets fp ?e w"
      have adv: "advance_to fp now w = ?w\<lparr>head_time := head_time w + (int ?n - int k) * ?B * 1000000000\<rparr>"
        using pos False steps less by (simp add: advance_to_def Let_def)
      have ring: "tf_head ?w < length (buckets w)" "\<And>j. j < length (buckets w) \<Longrightarrow> ring_at (tf_head ?w) (buckets ?w) j =
          (if j < ?e then empty_bucket fp else ring_at (tf_head w) (buckets w) (j - ?e))"
        using clear_buckets_ring [of w fp ?e] h by auto
      have "ring_at (tf_head ?w) (buckets ?w) j = bucket_of fp log (int ?n - int j)" if j: "j < length (buckets w)" for j
      proof (cases "j < ?e")
        case True
        then have "int k < int ?n - int j" using less by linarith
        then have "bucket_of fp log (int ?n - int j) = empty_bucket fp" using h by (intro bucket_of_none) force
        then show ?thesis using ring(2) [OF j] True by simp
      next
        case False
        then have e: "?e = ?n - k" using j less by linarith
        then have i: "int k - int (j - ?e) = int ?n - int j" using False less by linarith
        have "ring_at (tf_head w) (buckets w) (j - ?e) = bucket_of fp log (int k - int (j - ?e))"
          using h j by (meson less_imp_diff_less)
        then show ?thesis unfolding ring(2) [OF j] if_not_P [OF False] i .
      qed
      then show ?thesis
        using h ring(1) less ht unfolding adv holds_log_def by (auto simp: algebra_simps max_def)
    qed
  qed
qed

lemma tf_update_log:
  assumes "holds_log fp start k log w"
  shows "let k' = max k (bucket_number start (bucket_seconds w) now)
    in holds_log fp start k' (log @ [(k', dv, dt)]) (tf_update fp now dv dt w)"
proof -
  let ?k = "max k (bucket_number start (bucket_seconds w) now)" and ?w = "advance_to fp now w"
  have h: "holds_log fp start ?k log ?w" by (rule advance_to_log [OF assms])
  then have hd: "tf_head ?w < length (buckets ?w)" by (simp add: holds_log_def)
  let ?b = "add_delta fp (buckets ?w ! tf_head ?w) (dv, dt)"
  have w: "tf_update fp now dv dt w = ?w\<lparr>buckets := (buckets ?w)[tf_head ?w := ?b]\<rparr>"
    by (simp add: tf_update_def Let_def add_delta_def)
  have "0 < length (buckets ?w)" using hd by linarith
  then have "ring_at (tf_head ?w) (buckets ?w) 0 = bucket_of fp log (int ?k - int 0)"
    using h unfolding holds_log_def by blast
  moreover have "int ?k - int 0 = int ?k" by simp
  ultimately have b: "buckets ?w ! tf_head ?w = bucket_of fp log (int ?k)"
    unfolding ring_at_0 [OF hd] by (simp only:)
  have "ring_at (tf_head ?w) ((buckets ?w)[tf_head ?w := ?b]) j = bucket_of fp (log @ [(?k, dv, dt)]) (int ?k - int j)"
    if "j < length (buckets ?w)" for j
  proof -
    have "ring_at (tf_head ?w) (buckets ?w) j = bucket_of fp log (int ?k - int j)" using h that by (simp only: holds_log_def)
    then show ?thesis unfolding ring_at_write [OF hd that] bucket_of_snoc b by (cases "j = 0") simp_all
  qed
  then have ring: "\<forall>j<length (buckets ?w). ring_at (tf_head ?w) ((buckets ?w)[tf_head ?w := ?b]) j = bucket_of fp (log @ [(?k, dv, dt)]) (int ?k - int j)"
    by blast
  have "\<forall>u\<in>set (log @ [(?k, dv, dt)]). fst u \<le> ?k" using h by (simp add: holds_log_def)
  then show ?thesis using h ring unfolding w Let_def holds_log_def by simp
qed

lemma tf_update_seconds [simp]:
  "bucket_seconds (tf_update fp now dv dt w) = bucket_seconds w" "length (buckets (tf_update fp now dv dt w)) = length (buckets w)"
  by (simp_all add: tf_update_def advance_to_def Let_def)

definition tf_updates :: "'d fp \<Rightarrow> (int \<times> 'd \<times> 'd) list \<Rightarrow> 'd tf_window \<Rightarrow> 'd tf_window" where
  "tf_updates fp us w = foldl (\<lambda>w (now, dv, dt). tf_update fp now dv dt w) w us"

lemma tf_updates_log:
  assumes "holds_log fp start k log w"
  shows "\<exists>k'. holds_log fp start k' (log @ numbered start (bucket_seconds w) k us) (tf_updates fp us w) \<and>
    k' = last (k # map fst (numbered start (bucket_seconds w) k us))"
  using assms
proof (induction us arbitrary: k log w)
  case (Cons u us)
  obtain now dv dt where u: "u = (now, dv, dt)" by (cases u) auto
  let ?k = "max k (bucket_number start (bucket_seconds w) now)"
  have "holds_log fp start ?k (log @ [(?k, dv, dt)]) (tf_update fp now dv dt w)"
    using tf_update_log [OF Cons.prems] by (simp add: Let_def)
  from Cons.IH [OF this] show ?case by (auto simp: u tf_updates_def Let_def)
qed (simp add: tf_updates_def)

lemma first_update_log:
  assumes "0 < n" "0 < B" "0 < now"
  shows "holds_log fp now 0 [(0, dv, dt)] (tf_update fp now dv dt (new_tf_window fp n B))"
proof -
  let ?w = "(new_tf_window fp n B)\<lparr>head_time := now\<rparr>"
  have "holds_log fp now 0 [] ?w"
    using assms by (auto simp: holds_log_def new_tf_window_def ring_at_def bucket_of_def)
  from tf_update_log [OF this, of now dv dt] have "holds_log fp now 0 [(0, dv, dt)] (tf_update fp now dv dt ?w)"
    by (simp add: bucket_number_def Let_def)
  moreover have "tf_update fp now dv dt (new_tf_window fp n B) = tf_update fp now dv dt ?w"
    using assms(3) by (simp add: tf_update_def advance_to_def new_tf_window_def Let_def)
  ultimately show ?thesis by simp
qed

section \<open>Properties\<close>

text \<open>
  C25: A rolling window holds the last buckets of its updates. After any updates, whatever their times and the
  gaps between them, the buckets, read backwards from the head, are those of a log that numbers each update by
  the bucket its time falls into: the current bucket, the one before it, and so on as far as the window reaches, each the
  sum in order of its updates and zero if it had none.
\<close>

theorem window_refines_log:
  assumes "0 < n" "0 < B" "0 < start" "us = (start, d) # us'"
  shows "let w = tf_updates fp us (new_tf_window fp n B); log = numbered start B 0 us; k = fst (last log) in
    length (buckets w) = n \<and> tf_head w < n \<and>
    (\<forall>j<n. buckets w ! ((tf_head w + n - j) mod n) = bucket_of fp log (int k - int j))"
proof -
  obtain dv dt where d: "d = (dv, dt)" by (cases d) auto
  let ?w = "tf_update fp start dv dt (new_tf_window fp n B)"
  have first: "holds_log fp start 0 [(0, dv, dt)] ?w" by (rule first_update_log [OF assms(1-3)])
  have B: "bucket_seconds ?w = B" and n: "length (buckets ?w) = n" by (simp_all add: new_tf_window_def)
  have log: "numbered start B 0 us = [(0, dv, dt)] @ numbered start B 0 us'"
    using assms(4) by (simp add: d bucket_number_def Let_def)
  have run: "tf_updates fp us (new_tf_window fp n B) = tf_updates fp us' ?w" using assms(4) by (simp add: tf_updates_def d)
  have len: "length (buckets (tf_updates fp vs w)) = length (buckets w)" for vs w
    unfolding tf_updates_def by (induction vs arbitrary: w) (auto split: prod.split)
  have "last (0 # map fst (numbered start B 0 us')) = fst (last (numbered start B 0 us))"
    unfolding log by (cases "numbered start B 0 us'") (simp_all add: last_map)
  then have k: "holds_log fp start (fst (last (numbered start B 0 us))) (numbered start B 0 us) (tf_updates fp us' ?w)"
    using tf_updates_log [OF first, of us'] unfolding B log by simp
  then show ?thesis
    using len [of us' ?w] n unfolding run Let_def by (auto simp: holds_log_def ring_at_def)
qed

text \<open>The odd part of a number needs as many bits as the number.\<close>

definition needs_54_bits :: "nat \<Rightarrow> bool" where
  "needs_54_bits n \<longleftrightarrow> (\<forall>m e. n = m * 2 ^ e \<longrightarrow> 2 ^ 53 \<le> m)"

lemma odd_part_needs:
  assumes "odd (t::nat)" "2 ^ 53 \<le> t"
  shows "needs_54_bits (t * 2 ^ k)"
  unfolding needs_54_bits_def
proof (intro allI impI)
  fix m e assume m: "t * 2 ^ k = m * 2 ^ e"
  have "e \<le> k"
  proof (rule ccontr)
    assume "\<not> e \<le> k"
    then have "(2::nat) ^ e = 2 * 2 ^ (e - Suc k) * 2 ^ k" by (simp flip: power_add power_Suc)
    then have "t = 2 * (m * 2 ^ (e - Suc k))" using m by simp
    then have "even t" by (rule dvdI)
    then show False using assms(1) by simp
  qed
  then have "(2::nat) ^ k = 2 ^ (k - e) * 2 ^ e" by (simp flip: power_add)
  then have "t * 2 ^ (k - e) = m" using m by simp
  moreover have "t * 1 \<le> t * 2 ^ (k - e)" by (rule mult_le_mono2) simp
  ultimately show "2 ^ 53 \<le> m" using assms(2) by linarith
qed

lemma to_double_needs:
  assumes "i128_ok (raw_value v)" "raw_value v \<noteq> - (2 ^ 127)"
  obtains d where "to_double fp v = Inr (d, \<not> needs_54_bits (nat \<bar>raw_value v\<bar>))"
proof -
  have "(\<exists>m e. nat \<bar>raw_value v\<bar> = m * 2 ^ e \<and> m < 2 ^ 53) = (\<not> needs_54_bits (nat \<bar>raw_value v\<bar>))"
    unfolding needs_54_bits_def not_less [symmetric] by blast
  with to_double_fits [OF assms(2,1), of fp] that show thesis by auto
qed

lemma sample_bar_volume: "last_quote_volume (sample_bar fp lp fits t a) = last_quote_volume a"
  by (simp add: sample_bar_def close_bar_and_open_next_def Let_def)

lemma credit_totals_fields:
  "current_bar (credit_totals fp now v n a) = current_bar a" "trw (credit_totals fp now v n a) = trw a"
  "natr (credit_totals fp now v n a) = natr a" "last_quote_volume (credit_totals fp now v n a) = v"
  by (simp_all add: credit_totals_def Let_def)

text \<open>
  C26: The screener looks at few prices. It uses a price or a volume only if \<^verbatim>\<open>to_double\<close> calls it exact, which asks whether
  the value times 10 to the 18 can be written as \<open>m * 2 ^ e\<close> with \<open>m\<close> below \<open>2 ^ 53\<close>. A price that cannot, such as 65000.1 or
  65000.2, is ignored: neither the bar nor the volatility of the symbol changes. A volume that cannot counts as zero,
  whatever the price; any other volume is the total the next one is compared with. Other symbols are not touched.
\<close>

theorem screener_ignores_inexact:
  assumes "i128_ok (raw_value (tk_quote_volume ev))" "raw_value (tk_quote_volume ev) \<noteq> - (2 ^ 127)"
    and "i128_ok (raw_value (tk_last_price ev))" "raw_value (tk_last_price ev) \<noteq> - (2 ^ 127)"
  shows "\<exists>aggs'. update_ticker fp now aggs ev = Inr aggs' \<and>
    (let a = agg_at fp aggs (tk_symbol ev); a' = agg_at fp aggs' (tk_symbol ev)
     in ((\<forall>m e. nat \<bar>raw_value (tk_last_price ev)\<bar> = m * 2 ^ e \<longrightarrow> 2 ^ 53 \<le> m) \<longrightarrow>
          current_bar a' = current_bar a \<and> trw a' = trw a \<and> natr a' = natr a) \<and>
        (if \<forall>m e. nat \<bar>raw_value (tk_quote_volume ev)\<bar> = m * 2 ^ e \<longrightarrow> 2 ^ 53 \<le> m
         then last_quote_volume a' = fp_zero fp
         else to_double fp (tk_quote_volume ev) = Inr (last_quote_volume a', True))) \<and>
    (\<forall>s. s \<noteq> tk_symbol ev \<longrightarrow> aggs' s = aggs s)"
  unfolding needs_54_bits_def [symmetric]
proof -
  obtain lp where lp: "to_double fp (tk_last_price ev) = Inr (lp, \<not> needs_54_bits (nat \<bar>raw_value (tk_last_price ev)\<bar>))"
    using to_double_needs [OF assms(3,4)] by blast
  obtain vol where vol: "to_double fp (tk_quote_volume ev) = Inr (vol, \<not> needs_54_bits (nat \<bar>raw_value (tk_quote_volume ev)\<bar>))"
    using to_double_needs [OF assms(1,2)] by blast
  let ?v = "if needs_54_bits (nat \<bar>raw_value (tk_quote_volume ev)\<bar>) then fp_zero fp else vol"
  let ?a = "credit_totals fp now ?v (tk_trade_count ev) (agg_at fp aggs (tk_symbol ev))"
  let ?b = "sample_bar fp lp (\<not> needs_54_bits (nat \<bar>raw_value (tk_last_price ev)\<bar>)) (ms (tk_event_time ev)) ?a"
  have result: "update_ticker fp now aggs ev = Inr (aggs(tk_symbol ev \<mapsto> ?b))"
    by (simp add: update_ticker_def lp vol Let_def if_not_P)
  have at: "agg_at fp (aggs(tk_symbol ev \<mapsto> ?b)) (tk_symbol ev) = ?b" by (simp add: agg_at_def)
  have price: "?b = ?a" if "needs_54_bits (nat \<bar>raw_value (tk_last_price ev)\<bar>)" using that by (simp add: sample_bar_def)
  have volume: "last_quote_volume ?b = ?v" by (simp add: sample_bar_volume credit_totals_fields)
  show "\<exists>aggs'. update_ticker fp now aggs ev = Inr aggs' \<and>
    (let a = agg_at fp aggs (tk_symbol ev); a' = agg_at fp aggs' (tk_symbol ev)
     in (needs_54_bits (nat \<bar>raw_value (tk_last_price ev)\<bar>) \<longrightarrow>
          current_bar a' = current_bar a \<and> trw a' = trw a \<and> natr a' = natr a) \<and>
        (if needs_54_bits (nat \<bar>raw_value (tk_quote_volume ev)\<bar>)
         then last_quote_volume a' = fp_zero fp
         else to_double fp (tk_quote_volume ev) = Inr (last_quote_volume a', True))) \<and>
    (\<forall>s. s \<noteq> tk_symbol ev \<longrightarrow> aggs' s = aggs s)"
    unfolding Let_def
  proof (intro exI conjI)
    show "update_ticker fp now aggs ev = Inr (aggs(tk_symbol ev \<mapsto> ?b))" by (rule result)
    show "needs_54_bits (nat \<bar>raw_value (tk_last_price ev)\<bar>) \<longrightarrow>
        current_bar (agg_at fp (aggs(tk_symbol ev \<mapsto> ?b)) (tk_symbol ev)) = current_bar (agg_at fp aggs (tk_symbol ev)) \<and>
        trw (agg_at fp (aggs(tk_symbol ev \<mapsto> ?b)) (tk_symbol ev)) = trw (agg_at fp aggs (tk_symbol ev)) \<and>
        natr (agg_at fp (aggs(tk_symbol ev \<mapsto> ?b)) (tk_symbol ev)) = natr (agg_at fp aggs (tk_symbol ev))"
      unfolding at using price by (simp add: credit_totals_fields)
    show "if needs_54_bits (nat \<bar>raw_value (tk_quote_volume ev)\<bar>)
        then last_quote_volume (agg_at fp (aggs(tk_symbol ev \<mapsto> ?b)) (tk_symbol ev)) = fp_zero fp
        else to_double fp (tk_quote_volume ev) = Inr (last_quote_volume (agg_at fp (aggs(tk_symbol ev \<mapsto> ?b)) (tk_symbol ev)), True)"
      unfolding at volume vol by simp
  qed simp
qed

text \<open>65000.2 is an odd number of units of \<open>2 ^ 18\<close> too large for 53 bits.\<close>

lemma example_price: "\<forall>m e. nat \<bar>raw_value (Decimal_t 65000200000000000000000)\<bar> = m * 2 ^ e \<longrightarrow> 2 ^ 53 \<le> m"
proof -
  have "nat \<bar>raw_value (Decimal_t 65000200000000000000000)\<bar> = 247956085205078125 * 2 ^ 18" by simp
  moreover have "needs_54_bits (247956085205078125 * 2 ^ 18)" by (rule odd_part_needs) simp_all
  ultimately show ?thesis unfolding needs_54_bits_def [symmetric] by (simp only:)
qed

theorem screener_ignores_inexact_witness:
  "let fp = \<lparr>fp_of_int = id, fp_half = 0, fp_add = (+), fp_sub = (-), fp_mul = (*), fp_div = (div), fp_neg = uminus, fp_abs = abs,
         fp_less = (<), fp_le = (\<le>)\<rparr> :: int fp;
       ev = \<lparr>tk_symbol = ''BTCUSDT'', tk_quote_volume = Decimal_t 65000200000000000000000, tk_trade_count = 1,
         tk_last_price = Decimal_t 65000200000000000000000, tk_event_time = Timestamp_ms 60000\<rparr>
   in \<exists>aggs'. update_ticker fp 1 Map.empty ev = Inr aggs' \<and>
      current_bar (agg_at fp aggs' ''BTCUSDT'') = current_bar (agg_at fp Map.empty ''BTCUSDT'') \<and>
      last_quote_volume (agg_at fp aggs' ''BTCUSDT'') = 0"
  using screener_ignores_inexact [of "\<lparr>tk_symbol = ''BTCUSDT'', tk_quote_volume = Decimal_t 65000200000000000000000, tk_trade_count = 1,
       tk_last_price = Decimal_t 65000200000000000000000, tk_event_time = Timestamp_ms 60000\<rparr>"
     "\<lparr>fp_of_int = id, fp_half = 0, fp_add = (+), fp_sub = (-), fp_mul = (*), fp_div = (div), fp_neg = uminus, fp_abs = abs,
         fp_less = (<), fp_le = (\<le>)\<rparr>" 1 Map.empty] example_price
  unfolding Let_def needs_54_bits_def [symmetric]
  by (simp add: i128_ok_def del: decimal_t.sel) auto

theorem window_refines_log_witness:
  "let us = [(7, 1, 0), (3000000007, 2, 0), (2000000007, 4, 0), (99000000007, 8::int, 0)];
       fp = \<lparr>fp_of_int = id, fp_half = 0, fp_add = (+), fp_sub = (-), fp_mul = (*), fp_div = (div), fp_neg = uminus, fp_abs = abs, fp_less = (<), fp_le = (\<le>)\<rparr>;
       w = tf_updates fp us (new_tf_window fp 60 1)
   in length (buckets w) = 60 \<and> tf_head w < 60"
  using window_refines_log [of 60 1 7 "[(7, 1, 0), (3000000007, 2, 0), (2000000007, 4, 0), (99000000007, 8::int, 0)]" "(1, 0)"]
  by (simp add: Let_def)

end
