(* ===== verification/Selector.thy ===== *)
theory Selector
  imports Aggregates Recorders "HOL-Library.Multiset"
begin

text \<open>
  The selector of the recorder application, \<^verbatim>\<open>async-recorder/selector.cpp\<close>: it scores the statistics of all symbols and
  decides, tick by tick, which symbols are recorded in detail, with hysteresis, a minimal time of holding, a cooling
  time, bounds and mandatory symbols. The order in which an unordered container is walked and the
  arrangement \<^verbatim>\<open>std::sort\<close> makes of equal scores are inputs of a tick, like its clocks.
\<close>

section \<open>Configuration and state\<close>

datatype selector_action = Action_add | Action_remove

record 'd selector_event =
  se_ts :: int
  se_symbol :: string
  se_action :: selector_action
  se_score :: 'd
  se_reason :: string

record 'd selector_config =
  w_volume :: 'd
  w_trades :: 'd
  w_range :: 'd
  w_natr :: 'd
  add_score :: 'd
  remove_score :: 'd
  min_hold_seconds :: u64
  cooloff_seconds :: u64
  min_active :: u64
  max_active :: u64
  mandatory :: "string list"

definition default_selector_config :: "'d fp \<Rightarrow> 'd selector_config" where
  "default_selector_config fp =
     \<lparr>w_volume = fp_of_int fp 1, w_trades = fp_of_int fp 1, w_range = fp_of_int fp 1, w_natr = fp_of_int fp 1,
      add_score = fp_of_int fp 1, remove_score = fp_half fp, min_hold_seconds = 1800, cooloff_seconds = 600,
      min_active = 5, max_active = 25, mandatory = [''BTCUSDT'', ''ETHUSDT'']\<rparr>"

record 'd symbol_state =
  st_active :: bool
  last_score :: 'd
  admitted_at :: int
  below_since :: "int option"

definition new_symbol_state :: "'d fp \<Rightarrow> 'd symbol_state" where
  "new_symbol_state fp = \<lparr>st_active = False, last_score = fp_zero fp, admitted_at = 0, below_since = None\<rparr>"

record 'd selector =
  sel_cfg :: "'d selector_config"
  sel_state :: "string \<rightharpoonup> 'd symbol_state"
  sel_active :: "string set"

text \<open>\<^verbatim>\<open>operator[]\<close> of the map of states.\<close>

definition state_at :: "'d fp \<Rightarrow> 'd selector \<Rightarrow> string \<Rightarrow> 'd symbol_state" where
  "state_at fp sel s = (case sel_state sel s of Some st \<Rightarrow> st | None \<Rightarrow> new_symbol_state fp)"

definition put_state :: "string \<Rightarrow> 'd symbol_state \<Rightarrow> 'd selector \<Rightarrow> 'd selector" where
  "put_state s st sel = sel\<lparr>sel_state := (sel_state sel)(s \<mapsto> st)\<rparr>"

definition new_selector :: "'d fp \<Rightarrow> 'd selector_config \<Rightarrow> 'd selector" where
  "new_selector fp cfg =
     foldl (\<lambda>sel s. let sel = put_state s ((state_at fp sel s)\<lparr>st_active := True\<rparr>) sel in sel\<lparr>sel_active := insert s (sel_active sel)\<rparr>)
       \<lparr>sel_cfg = cfg, sel_state = Map.empty, sel_active = {}\<rparr> (mandatory cfg)"

section \<open>A tick\<close>

definition score_symbol :: "'d fp \<Rightarrow> 'd selector_config \<Rightarrow> 'd symbol_agg \<Rightarrow> 'd" where
  "score_symbol fp cfg agg =
     (let vol_score = fp_mul fp (w_volume cfg)
            (fp_add fp (fp_add fp (vol_sum fp (win_1m agg)) (vol_sum fp (win_5m agg))) (vol_sum fp (win_1h agg)));
          trade_score = fp_mul fp (w_trades cfg)
            (fp_add fp (fp_add fp (trades_sum fp (win_1m agg)) (trades_sum fp (win_5m agg))) (trades_sum fp (win_1h agg)));
          natr_score = fp_mul fp (w_natr cfg) (natr agg);
          liveness = fp_mul fp (w_volume cfg) (fp_of_int fp (uint (events_total agg)))
      in fp_add fp (fp_add fp (fp_add fp vol_score trade_score) natr_score) liveness)"

text \<open>
  What a tick meets: the steady clock in nanoseconds, the readings of the wall clock for its events, the order in
  which the statistics and the active set are walked, and the outcome of the sort.
\<close>

record 'd tick_env =
  tk_now :: int
  tk_wall :: "nat \<Rightarrow> int"
  tk_known :: "string list"
  tk_walk :: "string list"
  tk_sort :: "(string \<times> 'd) list \<Rightarrow> (string \<times> 'd) list"

definition held_seconds :: "int \<Rightarrow> int \<Rightarrow> u64" where
  "held_seconds now since = word_of_int (cpp_div (now - since) 1000000000)"

text \<open>The scores, in the order of the walk, stored with the states.\<close>

definition score_all :: "'d fp \<Rightarrow> 'd tick_env \<Rightarrow> 'd aggregates_map \<Rightarrow> 'd selector \<Rightarrow> (string \<times> 'd) list \<times> 'd selector" where
  "score_all fp env aggs sel =
     foldl (\<lambda>(scored, sel) s.
         let score = score_symbol fp (sel_cfg sel) (the (aggs s))
         in (scored @ [(s, score)], put_state s ((state_at fp sel s)\<lparr>last_score := score\<rparr>) sel))
       ([], sel) (tk_known env)"

definition evict_check :: "'d fp \<Rightarrow> int \<Rightarrow> string \<Rightarrow> string list \<times> 'd selector \<Rightarrow> string list \<times> 'd selector" where
  "evict_check fp now s acc =
     (case acc of (to_evict, sel) \<Rightarrow>
        if s \<in> set (mandatory (sel_cfg sel)) then (to_evict, sel)
        else
          let st = state_at fp sel s in
          if held_seconds now (admitted_at st) < min_hold_seconds (sel_cfg sel) then (to_evict, put_state s st sel)
          else if fp_le fp (remove_score (sel_cfg sel)) (last_score st)
          then (to_evict, put_state s (st\<lparr>below_since := None\<rparr>) sel)
          else
            let b = (case below_since st of None \<Rightarrow> now | Some b \<Rightarrow> b);
                sel' = put_state s (st\<lparr>below_since := Some b\<rparr>) sel
            in if held_seconds now b \<ge> cooloff_seconds (sel_cfg sel) then (to_evict @ [s], sel') else (to_evict, sel'))"

definition evict :: "'d fp \<Rightarrow> (nat \<Rightarrow> int) \<Rightarrow> string \<Rightarrow> 'd selector_event list \<times> 'd selector \<Rightarrow> 'd selector_event list \<times> 'd selector" where
  "evict fp wall s acc =
     (case acc of (diffs, sel) \<Rightarrow>
        let st = state_at fp sel s;
            sel = put_state s (st\<lparr>st_active := False, below_since := None\<rparr>) (sel\<lparr>sel_active := sel_active sel - {s}\<rparr>)
        in (diffs @ [\<lparr>se_ts = wall (length diffs), se_symbol = s, se_action = Action_remove, se_score = last_score st,
                      se_reason = ''score<remove_score for cooloff''\<rparr>], sel))"

definition admit :: "'d fp \<Rightarrow> 'd tick_env \<Rightarrow> string \<Rightarrow> string \<times> 'd \<Rightarrow> 'd selector_event list \<times> 'd selector \<Rightarrow> 'd selector_event list \<times> 'd selector" where
  "admit fp env reason scored acc =
     (case (scored, acc) of ((s, score), (diffs, sel)) \<Rightarrow>
        let sel = sel\<lparr>sel_active := insert s (sel_active sel)\<rparr>;
            st = state_at fp sel s
        in (diffs @ [\<lparr>se_ts = tk_wall env (length diffs), se_symbol = s, se_action = Action_add, se_score = score, se_reason = reason\<rparr>],
            put_state s (st\<lparr>st_active := True, admitted_at := tk_now env, below_since := None\<rparr>) sel))"

fun admit_scored :: "'d fp \<Rightarrow> 'd tick_env \<Rightarrow> (string \<times> 'd) list \<Rightarrow> 'd selector_event list \<times> 'd selector \<Rightarrow> 'd selector_event list \<times> 'd selector" where
  "admit_scored fp env [] acc = acc"
| "admit_scored fp env (x # rest) acc =
     (if card (sel_active (snd acc)) \<ge> unat (max_active (sel_cfg (snd acc))) then acc
      else if fst x \<in> sel_active (snd acc) then admit_scored fp env rest acc
      else if fp_less fp (snd x) (add_score (sel_cfg (snd acc))) then acc
      else admit_scored fp env rest (admit fp env ''score>=add_score'' x acc))"

fun fill_active :: "'d fp \<Rightarrow> 'd tick_env \<Rightarrow> (string \<times> 'd) list \<Rightarrow> 'd selector_event list \<times> 'd selector \<Rightarrow> 'd selector_event list \<times> 'd selector" where
  "fill_active fp env [] acc = acc"
| "fill_active fp env (x # rest) acc =
     (if card (sel_active (snd acc)) \<ge> unat (min_active (sel_cfg (snd acc))) then acc
      else if fst x \<in> sel_active (snd acc) then fill_active fp env rest acc
      else fill_active fp env rest (admit fp env ''min_active floor'' x acc))"

definition tick :: "'d fp \<Rightarrow> 'd tick_env \<Rightarrow> 'd aggregates_map \<Rightarrow> 'd selector \<Rightarrow> 'd selector_event list \<times> 'd selector" where
  "tick fp env aggs sel =
     (let (scored, sel) = score_all fp env aggs sel;
          scored = tk_sort env scored;
          (to_evict, sel) = foldl (\<lambda>acc s. evict_check fp (tk_now env) s acc) ([], sel) (tk_walk env);
          acc = foldl (\<lambda>acc s. evict fp (tk_wall env) s acc) ([], sel) to_evict;
          acc = admit_scored fp env scored acc
      in fill_active fp env scored acc)"

section \<open>The signals file\<close>

definition action_str :: "selector_action \<Rightarrow> string" where
  "action_str a = (case a of Action_add \<Rightarrow> ''add'' | Action_remove \<Rightarrow> ''remove'')"

definition to_iso :: "utc_time \<Rightarrow> string" where
  "to_iso tm = take 79
     (zeros_to 4 (tm_year tm + 1900) @ ''-'' @ zeros_to 2 (tm_mon tm + 1) @ ''-'' @ zeros_to 2 (tm_mday tm) @ ''T'' @
      zeros_to 2 (tm_hour tm) @ '':'' @ zeros_to 2 (tm_min tm) @ '':'' @ zeros_to 2 (tm_sec tm) @ ''.'' @ zeros_to 3 (tm_ms tm) @ ''Z'')"

definition escape_char :: "char \<Rightarrow> string" where
  "escape_char c =
     (if c = CHR 0x22 then [CHR 0x5C, CHR 0x22]
      else if c = CHR 0x5C then [CHR 0x5C, CHR 0x5C]
      else if c = CHR 0x0A then [CHR 0x5C, CHR ''n'']
      else if c = CHR 0x0D then [CHR 0x5C, CHR ''r'']
      else if c = CHR 0x09 then [CHR 0x5C, CHR ''t'']
      else [c])"

definition escape_json :: "string \<Rightarrow> string" where
  "escape_json s = concat (map escape_char s)"

text \<open>The writer: whether its file is open, what was appended, and the lines counted.\<close>

record signals_writer =
  sw_open :: bool
  sw_text :: string
  sw_lines :: u64

definition new_signals_writer :: "bool \<Rightarrow> signals_writer" where
  "new_signals_writer opens = \<lparr>sw_open = opens, sw_text = [], sw_lines = 0\<rparr>"

definition signal_line :: "(int \<Rightarrow> utc_time) \<Rightarrow> ('d \<Rightarrow> string) \<Rightarrow> 'd selector_event \<Rightarrow> string" where
  "signal_line gmtime show_score ev =
     ''{'' @ [CHR 0x22] @ ''ts'' @ [CHR 0x22] @ '':'' @ [CHR 0x22] @ to_iso (gmtime (se_ts ev)) @ [CHR 0x22] @
     '','' @ [CHR 0x22] @ ''symbol'' @ [CHR 0x22] @ '':'' @ [CHR 0x22] @ escape_json (se_symbol ev) @ [CHR 0x22] @
     '','' @ [CHR 0x22] @ ''action'' @ [CHR 0x22] @ '':'' @ [CHR 0x22] @ action_str (se_action ev) @ [CHR 0x22] @
     '','' @ [CHR 0x22] @ ''score'' @ [CHR 0x22] @ '':'' @ show_score (se_score ev) @
     '','' @ [CHR 0x22] @ ''reason'' @ [CHR 0x22] @ '':'' @ [CHR 0x22] @ escape_json (se_reason ev) @ [CHR 0x22] @ ''}'' @ [CHR 0x0A]"

definition write_signal :: "(int \<Rightarrow> utc_time) \<Rightarrow> ('d \<Rightarrow> string) \<Rightarrow> 'd selector_event \<Rightarrow> signals_writer \<Rightarrow> signals_writer" where
  "write_signal gmtime show_score ev w =
     (if \<not> sw_open w then w
      else w\<lparr>sw_text := sw_text w @ signal_line gmtime show_score ev, sw_lines := sw_lines w + 1\<rparr>)"

text \<open>The coroutine of the selector: ticks until its timer is cancelled, each tick on the statistics as they then stand.\<close>

fun selector_run ::
  "'d fp \<Rightarrow> (int \<Rightarrow> utc_time) \<Rightarrow> ('d \<Rightarrow> string) \<Rightarrow> ('d tick_env \<times> 'd aggregates_map) list \<Rightarrow> 'd selector \<times> signals_writer \<Rightarrow>
   'd selector \<times> signals_writer" where
  "selector_run fp gmtime show_score [] s = s"
| "selector_run fp gmtime show_score ((env, aggs) # ticks) (sel, w) =
     (let (diffs, sel) = tick fp env aggs sel
      in selector_run fp gmtime show_score ticks (sel, foldl (\<lambda>w ev. write_signal gmtime show_score ev w) w diffs))"

section \<open>What the phases of a tick do\<close>

lemma state_at_put [simp]: "state_at fp (put_state s st sel) s' = (if s' = s then st else state_at fp sel s')"
  by (simp add: state_at_def put_state_def)

lemma put_state_simps [simp]:
  "sel_cfg (put_state s st sel) = sel_cfg sel" "sel_active (put_state s st sel) = sel_active sel"
  by (simp_all add: put_state_def)

lemma state_at_active [simp]: "state_at fp (sel\<lparr>sel_active := A\<rparr>) s = state_at fp sel s"
  by (simp add: state_at_def)

definition known_score :: "'d fp \<Rightarrow> 'd aggregates_map \<Rightarrow> 'd selector \<Rightarrow> string \<Rightarrow> 'd" where
  "known_score fp aggs sel s = score_symbol fp (sel_cfg sel) (the (aggs s))"

lemma score_all_fold:
  "foldl (\<lambda>(scored, sel) s. let score = score_symbol fp (sel_cfg sel) (the (aggs s))
       in (scored @ [(s, score)], put_state s ((state_at fp sel s)\<lparr>last_score := score\<rparr>) sel)) (xs, sel) ss = (ys, sel') \<Longrightarrow>
   ys = xs @ map (\<lambda>s. (s, known_score fp aggs sel s)) ss \<and> sel_cfg sel' = sel_cfg sel \<and> sel_active sel' = sel_active sel \<and>
   (\<forall>s. state_at fp sel' s = (if s \<in> set ss then (state_at fp sel s)\<lparr>last_score := known_score fp aggs sel s\<rparr> else state_at fp sel s))"
proof (induction ss arbitrary: xs sel)
  case (Cons s ss)
  let ?c = "score_symbol fp (sel_cfg sel) (the (aggs s))"
  let ?sel = "put_state s ((state_at fp sel s)\<lparr>last_score := ?c\<rparr>) sel"
  have k: "known_score fp aggs ?sel = known_score fp aggs sel" by (simp add: known_score_def fun_eq_iff)
  from Cons.IH [of "xs @ [(s, ?c)]" ?sel] Cons.prems show ?case
    by (auto simp: k known_score_def Let_def)
qed auto

lemma score_all_eq:
  assumes "score_all fp env aggs sel = (scored, sel')"
  shows "scored = map (\<lambda>s. (s, known_score fp aggs sel s)) (tk_known env)"
    "sel_cfg sel' = sel_cfg sel" "sel_active sel' = sel_active sel"
    "state_at fp sel' s = (if s \<in> set (tk_known env) then (state_at fp sel s)\<lparr>last_score := known_score fp aggs sel s\<rparr> else state_at fp sel s)"
  using score_all_fold [OF assms [unfolded score_all_def]] by simp_all

text \<open>The scan as a change of the state of one symbol, and the test whether it is to go.\<close>

definition cooled :: "'d fp \<Rightarrow> 'd selector_config \<Rightarrow> int \<Rightarrow> 'd symbol_state \<Rightarrow> 'd symbol_state" where
  "cooled fp cfg now st =
     (if held_seconds now (admitted_at st) < min_hold_seconds cfg then st
      else if fp_le fp (remove_score cfg) (last_score st) then st\<lparr>below_since := None\<rparr>
      else st\<lparr>below_since := Some (case below_since st of None \<Rightarrow> now | Some b \<Rightarrow> b)\<rparr>)"

definition due :: "'d fp \<Rightarrow> 'd selector_config \<Rightarrow> int \<Rightarrow> 'd symbol_state \<Rightarrow> bool" where
  "due fp cfg now st \<longleftrightarrow> min_hold_seconds cfg \<le> held_seconds now (admitted_at st) \<and> \<not> fp_le fp (remove_score cfg) (last_score st) \<and>
     cooloff_seconds cfg \<le> held_seconds now (case below_since st of None \<Rightarrow> now | Some b \<Rightarrow> b)"

lemma evict_check_eq:
  "evict_check fp now s (ev, sel) =
     (if s \<in> set (mandatory (sel_cfg sel)) then (ev, sel)
      else (if due fp (sel_cfg sel) now (state_at fp sel s) then ev @ [s] else ev,
            put_state s (cooled fp (sel_cfg sel) now (state_at fp sel s)) sel))"
  by (auto simp: evict_check_def cooled_def due_def Let_def not_less)

lemma evict_scan:
  assumes "distinct walk" "foldl (\<lambda>acc s. evict_check fp now s acc) (ev, sel) walk = (ev', sel')"
  shows "ev' = ev @ filter (\<lambda>s. s \<notin> set (mandatory (sel_cfg sel)) \<and> due fp (sel_cfg sel) now (state_at fp sel s)) walk \<and>
    sel_cfg sel' = sel_cfg sel \<and> sel_active sel' = sel_active sel \<and>
    (\<forall>s. state_at fp sel' s = (if s \<in> set walk \<and> s \<notin> set (mandatory (sel_cfg sel)) then cooled fp (sel_cfg sel) now (state_at fp sel s)
      else state_at fp sel s))"
  using assms
proof (induction walk arbitrary: ev sel)
  case (Cons w walk)
  let ?m = "set (mandatory (sel_cfg sel))" and ?d = "due fp (sel_cfg sel) now (state_at fp sel w)"
  let ?sel = "if w \<in> ?m then sel else put_state w (cooled fp (sel_cfg sel) now (state_at fp sel w)) sel"
  have "foldl (\<lambda>acc s. evict_check fp now s acc) (if w \<notin> ?m \<and> ?d then ev @ [w] else ev, ?sel) walk = (ev', sel')"
    using Cons.prems(2) by (simp add: evict_check_eq split: if_splits)
  from Cons.IH [OF _ this] Cons.prems(1)
  have IH: "ev' = (if w \<notin> ?m \<and> ?d then ev @ [w] else ev) @ filter (\<lambda>s. s \<notin> ?m \<and> due fp (sel_cfg sel) now (state_at fp ?sel s)) walk"
    "sel_cfg sel' = sel_cfg sel" "sel_active sel' = sel_active sel"
    "\<And>s. state_at fp sel' s = (if s \<in> set walk \<and> s \<notin> ?m then cooled fp (sel_cfg sel) now (state_at fp ?sel s) else state_at fp ?sel s)"
    by (simp_all split: if_splits)
  have "filter (\<lambda>s. s \<notin> ?m \<and> due fp (sel_cfg sel) now (state_at fp ?sel s)) walk = filter (\<lambda>s. s \<notin> ?m \<and> due fp (sel_cfg sel) now (state_at fp sel s)) walk"
    using Cons.prems(1) by (intro filter_cong) auto
  then show ?case using IH Cons.prems(1) by auto
qed auto

text \<open>Events without their times.\<close>

definition signal :: "'d selector_event \<Rightarrow> string \<times> selector_action \<times> 'd" where
  "signal ev = (se_symbol ev, se_action ev, se_score ev)"

lemma evict_all:
  assumes "distinct ev" "foldl (\<lambda>acc s. evict fp wall s acc) (diffs, sel) ev = (diffs', sel')"
  shows "map signal diffs' = map signal diffs @ map (\<lambda>s. (s, Action_remove, last_score (state_at fp sel s))) ev \<and>
    sel_cfg sel' = sel_cfg sel \<and> sel_active sel' = sel_active sel - set ev \<and>
    (\<forall>s. state_at fp sel' s = (if s \<in> set ev then (state_at fp sel s)\<lparr>st_active := False, below_since := None\<rparr> else state_at fp sel s))"
  using assms
proof (induction ev arbitrary: diffs sel)
  case (Cons e ev)
  let ?sel = "put_state e ((state_at fp sel e)\<lparr>st_active := False, below_since := None\<rparr>) (sel\<lparr>sel_active := sel_active sel - {e}\<rparr>)"
  obtain d where d: "evict fp wall e (diffs, sel) = (diffs @ [d], ?sel)" "signal d = (e, Action_remove, last_score (state_at fp sel e))"
    by (simp add: evict_def Let_def signal_def)
  have "foldl (\<lambda>acc s. evict fp wall s acc) (diffs @ [d], ?sel) ev = (diffs', sel')" using Cons.prems(2) by (simp add: d(1))
  from Cons.IH [OF _ this] Cons.prems(1) show ?case by (auto simp: d(2))
qed auto

lemma stopped_Cons:
  assumes "b \<le> c \<or> (\<forall>y\<in>set rest. fst y \<in> A) \<or> (\<exists>pre z post. rest = pre @ z # post \<and> U z \<and> (\<forall>y\<in>set pre. fst y \<in> A))"
    and "fst x \<in> A"
  shows "(b::nat) \<le> c \<or> (\<forall>y\<in>set (x # rest). fst y \<in> A) \<or> (\<exists>pre z post. x # rest = pre @ z # post \<and> U z \<and> (\<forall>y\<in>set pre. fst y \<in> A))"
  using assms(1)
proof (elim disjE exE conjE)
  fix pre z post assume "rest = pre @ z # post" "U z" "\<forall>y\<in>set pre. fst y \<in> A"
  then have "x # rest = (x # pre) @ z # post \<and> U z \<and> (\<forall>y\<in>set (x # pre). fst y \<in> A)" using assms(2) by simp
  then show ?thesis by blast
qed (use assms(2) in simp_all)

text \<open>
  Both admission loops walk the scored symbols, stop at a bound on the size of the active set or at a symbol that
  does not qualify, pass over active symbols and admit the others.
\<close>

locale admission =
  fixes fp :: "'d fp" and env :: "'d tick_env" and reason :: string
    and bound :: "'d selector_config \<Rightarrow> nat" and unfit :: "'d selector_config \<Rightarrow> 'd \<Rightarrow> bool"
    and loop :: "(string \<times> 'd) list \<Rightarrow> 'd selector_event list \<times> 'd selector \<Rightarrow> 'd selector_event list \<times> 'd selector"
  assumes loop_Nil: "loop [] acc = acc"
    and loop_Cons: "loop (x # rest) acc =
      (if card (sel_active (snd acc)) \<ge> bound (sel_cfg (snd acc)) then acc
       else if fst x \<in> sel_active (snd acc) then loop rest acc
       else if unfit (sel_cfg (snd acc)) (snd x) then acc
       else loop rest (admit fp env reason x acc))"
begin

lemma admits:
  assumes "loop scored (diffs, sel) = (diffs', sel')" "finite (sel_active sel)" "distinct (map fst scored)"
  shows "\<exists>xs. set xs \<subseteq> set scored \<and> distinct (map fst xs) \<and> (\<forall>x\<in>set xs. fst x \<notin> sel_active sel \<and> \<not> unfit (sel_cfg sel) (snd x)) \<and>
    map signal diffs' = map signal diffs @ map (\<lambda>x. (fst x, Action_add, snd x)) xs \<and>
    sel_cfg sel' = sel_cfg sel \<and> sel_active sel' = sel_active sel \<union> fst ` set xs \<and>
    (\<forall>s. state_at fp sel' s = (if s \<in> fst ` set xs then (state_at fp sel s)\<lparr>st_active := True, admitted_at := tk_now env, below_since := None\<rparr>
       else state_at fp sel s)) \<and>
    card (sel_active sel') \<le> max (card (sel_active sel)) (bound (sel_cfg sel)) \<and>
    (bound (sel_cfg sel) \<le> card (sel_active sel') \<or> (\<forall>x\<in>set scored. fst x \<in> sel_active sel') \<or>
     (\<exists>pre x post. scored = pre @ x # post \<and> unfit (sel_cfg sel) (snd x) \<and> (\<forall>y\<in>set pre. fst y \<in> sel_active sel'))) \<and>
    (\<forall>pre x post. scored = pre @ x # post \<longrightarrow> x \<in> set xs \<longrightarrow> (\<forall>y\<in>set pre. fst y \<in> sel_active sel'))"
  using assms
proof (induction scored arbitrary: diffs sel)
  case Nil
  then show ?case by (intro exI [of _ "[]"]) (simp add: loop_Nil)
next
  case (Cons x rest)
  let ?A = "sel_active sel" and ?cfg = "sel_cfg sel"
  have d: "distinct (map fst rest)" using Cons.prems(3) by simp
  show ?case
  proof (cases "bound ?cfg \<le> card ?A \<or> fst x \<notin> ?A \<and> unfit ?cfg (snd x)")
    case True
    then have "loop (x # rest) (diffs, sel) = (diffs, sel)" by (auto simp: loop_Cons)
    then have eq: "diffs' = diffs" "sel' = sel" using Cons.prems(1) by simp_all
    have "bound ?cfg \<le> card ?A \<or> (\<exists>pre z post. x # rest = pre @ z # post \<and> unfit ?cfg (snd z) \<and> (\<forall>y\<in>set pre. fst y \<in> ?A))"
    proof (cases "bound ?cfg \<le> card ?A")
      case False
      then have "x # rest = [] @ x # rest \<and> unfit ?cfg (snd x) \<and> (\<forall>y\<in>set []. fst y \<in> ?A)" using True by simp
      then show ?thesis by blast
    qed simp
    then show ?thesis unfolding eq by (intro exI [of _ "[]"]) (simp, blast)
  next
    case go: False
    show ?thesis
    proof (cases "fst x \<in> ?A")
      case True
      then have "loop rest (diffs, sel) = (diffs', sel')" using Cons.prems(1) go by (simp add: loop_Cons)
      from Cons.IH [OF this Cons.prems(2) d] obtain xs where xs: "set xs \<subseteq> set rest" "distinct (map fst xs)"
        "\<forall>x\<in>set xs. fst x \<notin> ?A \<and> \<not> unfit ?cfg (snd x)"
        "map signal diffs' = map signal diffs @ map (\<lambda>x. (fst x, Action_add, snd x)) xs"
        "sel_cfg sel' = ?cfg" "sel_active sel' = ?A \<union> fst ` set xs"
        "\<forall>s. state_at fp sel' s = (if s \<in> fst ` set xs then (state_at fp sel s)\<lparr>st_active := True, admitted_at := tk_now env, below_since := None\<rparr>
           else state_at fp sel s)"
        "card (sel_active sel') \<le> max (card ?A) (bound ?cfg)"
        "bound ?cfg \<le> card (sel_active sel') \<or> (\<forall>x\<in>set rest. fst x \<in> sel_active sel') \<or>
         (\<exists>pre x post. rest = pre @ x # post \<and> unfit ?cfg (snd x) \<and> (\<forall>y\<in>set pre. fst y \<in> sel_active sel'))"
        "\<forall>pre x post. rest = pre @ x # post \<longrightarrow> x \<in> set xs \<longrightarrow> (\<forall>y\<in>set pre. fst y \<in> sel_active sel')"
        by blast
      have here: "fst x \<in> sel_active sel'" using True xs(6) by simp
      have stop: "bound ?cfg \<le> card (sel_active sel') \<or> (\<forall>y\<in>set (x # rest). fst y \<in> sel_active sel') \<or>
         (\<exists>pre z post. x # rest = pre @ z # post \<and> unfit ?cfg (snd z) \<and> (\<forall>y\<in>set pre. fst y \<in> sel_active sel'))"
        by (rule stopped_Cons [OF xs(9) here])
      have before: "fst y \<in> sel_active sel'" if "x # rest = pre @ z # post" "z \<in> set xs" "y \<in> set pre" for pre z post y
      proof (cases pre)
        case (Cons w pre')
        then have w: "w = x" "rest = pre' @ z # post" using that(1) by simp_all
        then have "\<forall>y\<in>set pre'. fst y \<in> sel_active sel'" using xs(10) that(2) by blast
        then show ?thesis using that(3) here by (auto simp: Cons w(1))
      qed (use that in simp)
      show ?thesis
        by (intro exI [of _ xs] conjI)
          (rule subset_trans [OF xs(1)], force, fact xs(2), fact xs(3), fact xs(4), fact xs(5), fact xs(6), fact xs(7), fact xs(8),
           fact stop, use before in blast)
    next
      case False
      let ?sel = "snd (admit fp env reason x (diffs, sel))" and ?d = "fst (admit fp env reason x (diffs, sel))"
      have run: "loop rest (?d, ?sel) = (diffs', sel')" using Cons.prems(1) go False by (simp add: loop_Cons)
      have sel: "sel_cfg ?sel = ?cfg" "sel_active ?sel = insert (fst x) ?A"
        "\<And>s. state_at fp ?sel s = (if s = fst x then (state_at fp sel s)\<lparr>st_active := True, admitted_at := tk_now env, below_since := None\<rparr> else state_at fp sel s)"
        "map signal ?d = map signal diffs @ [(fst x, Action_add, snd x)]"
        by (auto simp: admit_def Let_def signal_def split: prod.split)
      have "finite (sel_active ?sel)" using Cons.prems(2) sel(2) by simp
      from Cons.IH [OF run this d] obtain xs where xs: "set xs \<subseteq> set rest" "distinct (map fst xs)"
        "\<forall>x\<in>set xs. fst x \<notin> sel_active ?sel \<and> \<not> unfit ?cfg (snd x)"
        "map signal diffs' = map signal ?d @ map (\<lambda>x. (fst x, Action_add, snd x)) xs"
        "sel_cfg sel' = ?cfg" "sel_active sel' = sel_active ?sel \<union> fst ` set xs"
        "\<forall>s. state_at fp sel' s = (if s \<in> fst ` set xs then (state_at fp ?sel s)\<lparr>st_active := True, admitted_at := tk_now env, below_since := None\<rparr>
           else state_at fp ?sel s)"
        "card (sel_active sel') \<le> max (card (sel_active ?sel)) (bound ?cfg)"
        "bound ?cfg \<le> card (sel_active sel') \<or> (\<forall>x\<in>set rest. fst x \<in> sel_active sel') \<or>
         (\<exists>pre x post. rest = pre @ x # post \<and> unfit ?cfg (snd x) \<and> (\<forall>y\<in>set pre. fst y \<in> sel_active sel'))"
        "\<forall>pre x post. rest = pre @ x # post \<longrightarrow> x \<in> set xs \<longrightarrow> (\<forall>y\<in>set pre. fst y \<in> sel_active sel')"
        unfolding sel(1) by blast
      have here: "fst x \<in> sel_active sel'" using xs(6) sel(2) by simp
      have fresh: "fst x \<notin> fst ` set xs" using xs(3) sel(2) by auto
      have card: "card (sel_active sel') \<le> max (card ?A) (bound ?cfg)"
        using xs(8) sel(2) go False Cons.prems(2) by simp
      have stop: "bound ?cfg \<le> card (sel_active sel') \<or> (\<forall>y\<in>set (x # rest). fst y \<in> sel_active sel') \<or>
         (\<exists>pre z post. x # rest = pre @ z # post \<and> unfit ?cfg (snd z) \<and> (\<forall>y\<in>set pre. fst y \<in> sel_active sel'))"
        by (rule stopped_Cons [OF xs(9) here])
      have before: "fst y \<in> sel_active sel'" if "x # rest = pre @ z # post" "z \<in> set (x # xs)" "y \<in> set pre" for pre z post y
      proof (cases pre)
        case (Cons w pre')
        then have w: "w = x" "rest = pre' @ z # post" using that(1) by simp_all
        then have "z \<noteq> x" using Cons.prems(3) by auto
        then have "z \<in> set xs" using that(2) by simp
        then have "\<forall>y\<in>set pre'. fst y \<in> sel_active sel'" using xs(10) w(2) by blast
        then show ?thesis using that(3) here by (auto simp: Cons w(1))
      qed (use that in simp)
      have "\<forall>s. state_at fp sel' s = (if s \<in> fst ` set (x # xs)
          then (state_at fp sel s)\<lparr>st_active := True, admitted_at := tk_now env, below_since := None\<rparr> else state_at fp sel s)"
        using xs(7) sel(3) fresh by auto
      then show ?thesis
        using xs(1-6) sel(2,4) fresh card stop before False go
        by (intro exI [of _ "x # xs"] conjI) (auto; fail)+
    qed
  qed
qed

end

interpretation scored: admission fp env "''score>=add_score''" "\<lambda>cfg. unat (max_active cfg)"
    "\<lambda>cfg score. fp_less fp score (add_score cfg)" "admit_scored fp env" for fp env
  by unfold_locales simp_all

interpretation filled: admission fp env "''min_active floor''" "\<lambda>cfg. unat (min_active cfg)" "\<lambda>_ _. False" "fill_active fp env" for fp env
  by unfold_locales simp_all

section \<open>A tick as a whole\<close>

text \<open>What the containers and the sort of the standard library promise.\<close>

definition tick_ok :: "'d fp \<Rightarrow> 'd tick_env \<Rightarrow> 'd aggregates_map \<Rightarrow> 'd selector \<Rightarrow> bool" where
  "tick_ok fp env aggs sel \<longleftrightarrow>
     distinct (tk_known env) \<and> set (tk_known env) = dom aggs \<and> distinct (tk_walk env) \<and> set (tk_walk env) = sel_active sel \<and>
     (let xs = map (\<lambda>s. (s, known_score fp aggs sel s)) (tk_known env)
      in mset (tk_sort env xs) = mset xs \<and> sorted_wrt (\<lambda>a b. \<not> fp_less fp (snd a) (snd b)) (tk_sort env xs))"

definition scored_state :: "'d fp \<Rightarrow> 'd aggregates_map \<Rightarrow> 'd selector \<Rightarrow> string \<Rightarrow> 'd symbol_state" where
  "scored_state fp aggs sel s =
     (if s \<in> dom aggs then (state_at fp sel s)\<lparr>last_score := known_score fp aggs sel s\<rparr> else state_at fp sel s)"

definition evicted :: "'d fp \<Rightarrow> int \<Rightarrow> 'd aggregates_map \<Rightarrow> 'd selector \<Rightarrow> string \<Rightarrow> bool" where
  "evicted fp now aggs sel s \<longleftrightarrow> s \<in> sel_active sel \<and> s \<notin> set (mandatory (sel_cfg sel)) \<and> due fp (sel_cfg sel) now (scored_state fp aggs sel s)"

text \<open>The effect of a tick, with the symbols evicted, those admitted by score and those admitted to fill the set.\<close>

definition tick_effect ::
  "'d fp \<Rightarrow> 'd tick_env \<Rightarrow> 'd aggregates_map \<Rightarrow> 'd selector \<Rightarrow> 'd selector_event list \<Rightarrow> 'd selector \<Rightarrow>
   string list \<Rightarrow> (string \<times> 'd) list \<Rightarrow> (string \<times> 'd) list \<Rightarrow> bool" where
  "tick_effect fp env aggs sel diffs sel' ev xs ys \<longleftrightarrow>
     (let cfg = sel_cfg sel; now = tk_now env; A = sel_active sel; A' = sel_active sel'; k = known_score fp aggs sel in
      distinct ev \<and> set ev = {s. evicted fp now aggs sel s} \<and> distinct (map fst xs) \<and> distinct (map fst ys) \<and>
      (\<forall>x\<in>set xs. fst x \<notin> A - set ev \<and> \<not> fp_less fp (snd x) (add_score cfg)) \<and>
      (\<forall>x\<in>set ys. fst x \<notin> (A - set ev) \<union> fst ` set xs) \<and>
      (\<forall>x\<in>set xs \<union> set ys. fst x \<in> dom aggs \<and> snd x = k (fst x)) \<and>
      map signal diffs = map (\<lambda>s. (s, Action_remove, last_score (scored_state fp aggs sel s))) ev @
        map (\<lambda>x. (fst x, Action_add, snd x)) (xs @ ys) \<and>
      sel_cfg sel' = cfg \<and> A' = (A - set ev) \<union> fst ` set (xs @ ys) \<and>
      (\<forall>s. state_at fp sel' s =
        (let st = scored_state fp aggs sel s;
             st = (if s \<in> A \<and> s \<notin> set (mandatory cfg) then cooled fp cfg now st else st);
             st = (if s \<in> set ev then st\<lparr>st_active := False, below_since := None\<rparr> else st)
         in if s \<in> fst ` set (xs @ ys) then st\<lparr>st_active := True, admitted_at := now, below_since := None\<rparr> else st)) \<and>
      card A' \<le> max (card A) (max (unat (max_active cfg)) (unat (min_active cfg))) \<and>
      (unat (min_active cfg) \<le> card A' \<or> dom aggs \<subseteq> A') \<and>
      (unat (max_active cfg) \<le> card A' \<or>
        (\<forall>s\<in>dom aggs - A'. \<exists>t\<in>dom aggs. (s = t \<or> \<not> fp_less fp (k t) (k s)) \<and> fp_less fp (k t) (add_score cfg))) \<and>
      (\<forall>s\<in>dom aggs - A'. \<forall>x\<in>set xs \<union> set ys. \<not> fp_less fp (snd x) (k s)))"

lemma tick_effects:
  assumes "tick fp env aggs sel = (diffs, sel')" "tick_ok fp env aggs sel" "finite (sel_active sel)"
  shows "\<exists>ev xs ys. tick_effect fp env aggs sel diffs sel' ev xs ys"
proof -
  let ?cfg = "sel_cfg sel" and ?now = "tk_now env" and ?k = "known_score fp aggs sel"
  let ?m = "set (mandatory ?cfg)"
  note ok = assms(2) [unfolded tick_ok_def]
  obtain sc s1 where 1: "score_all fp env aggs sel = (sc, s1)" by (cases "score_all fp env aggs sel")
  obtain ev s2 where 2: "foldl (\<lambda>acc s. evict_check fp ?now s acc) ([], s1) (tk_walk env) = (ev, s2)"
    by (cases "foldl (\<lambda>acc s. evict_check fp ?now s acc) ([], s1) (tk_walk env)")
  obtain d3 s3 where 3: "foldl (\<lambda>acc s. evict fp (tk_wall env) s acc) ([], s2) ev = (d3, s3)"
    by (cases "foldl (\<lambda>acc s. evict fp (tk_wall env) s acc) ([], s2) ev")
  obtain d4 s4 where 4: "admit_scored fp env (tk_sort env sc) (d3, s3) = (d4, s4)"
    by (cases "admit_scored fp env (tk_sort env sc) (d3, s3)")
  have 5: "fill_active fp env (tk_sort env sc) (d4, s4) = (diffs, sel')"
    using assms(1) by (simp add: tick_def 1 2 3 4 Let_def)
  have s1: "sc = map (\<lambda>s. (s, ?k s)) (tk_known env)" "sel_cfg s1 = ?cfg" "sel_active s1 = sel_active sel"
    "\<And>s. state_at fp s1 s = scored_state fp aggs sel s"
    using score_all_eq [OF 1] ok by (simp_all add: scored_state_def)
  have s2: "ev = filter (\<lambda>s. s \<notin> ?m \<and> due fp ?cfg ?now (scored_state fp aggs sel s)) (tk_walk env)"
    "sel_cfg s2 = ?cfg" "sel_active s2 = sel_active sel"
    "\<And>s. state_at fp s2 s = (if s \<in> sel_active sel \<and> s \<notin> ?m then cooled fp ?cfg ?now (scored_state fp aggs sel s) else scored_state fp aggs sel s)"
    using evict_scan [OF _ 2] ok s1 by simp_all
  have ev: "distinct ev" "set ev = {s. evicted fp ?now aggs sel s}"
    using ok by (auto simp: s2(1) evicted_def)
  have s3: "map signal d3 = map (\<lambda>s. (s, Action_remove, last_score (state_at fp s2 s))) ev" "sel_cfg s3 = ?cfg"
    "sel_active s3 = sel_active sel - set ev"
    "\<And>s. state_at fp s3 s = (if s \<in> set ev then (state_at fp s2 s)\<lparr>st_active := False, below_since := None\<rparr> else state_at fp s2 s)"
    using evict_all [OF ev(1) 3] s2 by simp_all
  have last: "last_score (state_at fp s2 s) = last_score (scored_state fp aggs sel s)" for s
    by (simp add: s2(4) cooled_def)
  have fin3: "finite (sel_active s3)" using assms(3) s3(3) by simp
  have "mset (tk_sort env sc) = mset sc" using ok by (simp add: s1(1) Let_def)
  then have "mset (map fst (tk_sort env sc)) = mset (map fst sc)" by simp
  moreover have "map fst sc = tk_known env" by (simp add: s1(1) comp_def)
  ultimately have names: "distinct (map fst (tk_sort env sc))" using ok by (metis mset_eq_imp_distinct_iff)
  obtain xs where xs:
    "set xs \<subseteq> set (tk_sort env sc)" "distinct (map fst xs)" "\<forall>x\<in>set xs. fst x \<notin> sel_active s3 \<and> \<not> fp_less fp (snd x) (add_score ?cfg)"
    "map signal d4 = map signal d3 @ map (\<lambda>x. (fst x, Action_add, snd x)) xs" "sel_cfg s4 = ?cfg"
    "sel_active s4 = sel_active s3 \<union> fst ` set xs"
    "\<forall>s. state_at fp s4 s = (if s \<in> fst ` set xs then (state_at fp s3 s)\<lparr>st_active := True, admitted_at := ?now, below_since := None\<rparr> else state_at fp s3 s)"
    "card (sel_active s4) \<le> max (card (sel_active s3)) (unat (max_active ?cfg))"
    "unat (max_active ?cfg) \<le> card (sel_active s4) \<or> (\<forall>x\<in>set (tk_sort env sc). fst x \<in> sel_active s4) \<or>
     (\<exists>pre x post. tk_sort env sc = pre @ x # post \<and> fp_less fp (snd x) (add_score ?cfg) \<and> (\<forall>y\<in>set pre. fst y \<in> sel_active s4))"
    "\<forall>pre x post. tk_sort env sc = pre @ x # post \<longrightarrow> x \<in> set xs \<longrightarrow> (\<forall>y\<in>set pre. fst y \<in> sel_active s4)"
    using scored.admits [OF 4 fin3 names] unfolding s3(2) by (elim exE conjE) (rule that)
  have fin4: "finite (sel_active s4)" using fin3 xs(6) by simp
  obtain ys where ys:
    "set ys \<subseteq> set (tk_sort env sc)" "distinct (map fst ys)" "\<forall>x\<in>set ys. fst x \<notin> sel_active s4"
    "map signal diffs = map signal d4 @ map (\<lambda>x. (fst x, Action_add, snd x)) ys" "sel_cfg sel' = ?cfg"
    "sel_active sel' = sel_active s4 \<union> fst ` set ys"
    "\<forall>s. state_at fp sel' s = (if s \<in> fst ` set ys then (state_at fp s4 s)\<lparr>st_active := True, admitted_at := ?now, below_since := None\<rparr> else state_at fp s4 s)"
    "card (sel_active sel') \<le> max (card (sel_active s4)) (unat (min_active ?cfg))"
    "unat (min_active ?cfg) \<le> card (sel_active sel') \<or> (\<forall>x\<in>set (tk_sort env sc). fst x \<in> sel_active sel')"
    "\<forall>pre x post. tk_sort env sc = pre @ x # post \<longrightarrow> x \<in> set ys \<longrightarrow> (\<forall>y\<in>set pre. fst y \<in> sel_active sel')"
    using filled.admits [OF 5 fin4 names] unfolding xs(5) by (elim exE conjE) (rule that; simp)
  have sort: "set (tk_sort env sc) = (\<lambda>s. (s, ?k s)) ` dom aggs" "sorted_wrt (\<lambda>a b. \<not> fp_less fp (snd a) (snd b)) (tk_sort env sc)"
    using ok mset_eq_setD [of "tk_sort env sc" sc] by (auto simp: s1(1) Let_def)
  have grow: "sel_active s4 \<subseteq> sel_active sel'" "card (sel_active s4) \<le> card (sel_active sel')"
    using ys(6) fin4 by (auto intro!: card_mono)
  have later: "\<not> fp_less fp (snd x) (?k s)"
    if "tk_sort env sc = pre @ x # post" "s \<in> dom aggs" "s \<notin> sel_active sel'" "\<forall>y\<in>set pre. fst y \<in> sel_active sel'" "(s, ?k s) \<noteq> x" for pre x post s
  proof -
    have "(s, ?k s) \<in> set (tk_sort env sc)" "(s, ?k s) \<notin> set pre" using sort(1) that by auto
    then have "(s, ?k s) \<in> set post" using that(1,5) by auto
    then show ?thesis using sort(2) that(1) by (auto simp: sorted_wrt_append)
  qed
  have "tick_effect fp env aggs sel diffs sel' ev xs ys"
    unfolding tick_effect_def Let_def [of "sel_cfg sel"] Let_def [of "tk_now env"] Let_def [of "sel_active _"] Let_def [of "known_score fp aggs sel"]
  proof (intro conjI)
    show "distinct ev" "set ev = {s. evicted fp ?now aggs sel s}" "distinct (map fst xs)" "distinct (map fst ys)" using ev xs(2) ys(2) by simp_all
    show "\<forall>x\<in>set xs. fst x \<notin> sel_active sel - set ev \<and> \<not> fp_less fp (snd x) (add_score ?cfg)" using xs(3) s3(3) by simp
    show "\<forall>x\<in>set ys. fst x \<notin> (sel_active sel - set ev) \<union> fst ` set xs" using ys(3) xs(6) s3(3) by auto
    show "\<forall>x\<in>set xs \<union> set ys. fst x \<in> dom aggs \<and> snd x = ?k (fst x)" using xs(1) ys(1) sort(1) by auto
    show "map signal diffs = map (\<lambda>s. (s, Action_remove, last_score (scored_state fp aggs sel s))) ev @
       map (\<lambda>x. (fst x, Action_add, snd x)) (xs @ ys)" by (simp add: ys(4) xs(4) s3(1) last)
    show "sel_cfg sel' = ?cfg" by (rule ys(5))
    show "sel_active sel' = (sel_active sel - set ev) \<union> fst ` set (xs @ ys)" using ys(6) xs(6) s3(3) by auto
    show "\<forall>s. state_at fp sel' s =
       (let st = scored_state fp aggs sel s;
            st = (if s \<in> sel_active sel \<and> s \<notin> ?m then cooled fp ?cfg ?now st else st);
            st = (if s \<in> set ev then st\<lparr>st_active := False, below_since := None\<rparr> else st)
        in if s \<in> fst ` set (xs @ ys) then st\<lparr>st_active := True, admitted_at := ?now, below_since := None\<rparr> else st)"
      unfolding Let_def using ys(7) xs(7) by (auto simp: s3(4) s2(4))
    have "card (sel_active s3) \<le> card (sel_active sel)" using assms(3) s3(3) by (auto intro: card_mono)
    then show "card (sel_active sel') \<le> max (card (sel_active sel)) (max (unat (max_active ?cfg)) (unat (min_active ?cfg)))"
      using xs(8) ys(8) by linarith
    show "unat (min_active ?cfg) \<le> card (sel_active sel') \<or> dom aggs \<subseteq> sel_active sel'" using ys(9) sort(1) by auto
    show "unat (max_active ?cfg) \<le> card (sel_active sel') \<or>
       (\<forall>s\<in>dom aggs - sel_active sel'. \<exists>t\<in>dom aggs. (s = t \<or> \<not> fp_less fp (?k t) (?k s)) \<and> fp_less fp (?k t) (add_score ?cfg))"
      using xs(9)
    proof (elim disjE exE conjE)
      show ?thesis if "unat (max_active ?cfg) \<le> card (sel_active s4)" using that grow(2) by linarith
      show ?thesis if "\<forall>x\<in>set (tk_sort env sc). fst x \<in> sel_active s4" using that grow(1) sort(1) by auto
      fix pre x post assume x: "tk_sort env sc = pre @ x # post" "fp_less fp (snd x) (add_score ?cfg)" "\<forall>y\<in>set pre. fst y \<in> sel_active s4"
      have "x \<in> (\<lambda>s. (s, ?k s)) ` dom aggs" using x(1) sort(1) by (metis in_set_conv_decomp)
      then have t: "x = (fst x, ?k (fst x))" "fst x \<in> dom aggs" by force+
      have "s = fst x \<or> \<not> fp_less fp (?k (fst x)) (?k s)" if "s \<in> dom aggs - sel_active sel'" for s
        using later [OF x(1), of s] that x(3) grow(1) t(1) by (metis DiffD1 DiffD2 fst_conv snd_conv subsetD)
      moreover have "fp_less fp (?k (fst x)) (add_score ?cfg)" using x(2) t(1) by (metis snd_conv)
      ultimately show ?thesis using t(2) by blast
    qed
    show "\<forall>s\<in>dom aggs - sel_active sel'. \<forall>x\<in>set xs \<union> set ys. \<not> fp_less fp (snd x) (?k s)"
    proof (intro ballI)
      fix s x assume s: "s \<in> dom aggs - sel_active sel'" and x: "x \<in> set xs \<union> set ys"
      then have "x \<in> set (tk_sort env sc)" "fst x \<in> sel_active sel'" using xs(1,6) ys(1,6) by auto
      then obtain pre post where p: "tk_sort env sc = pre @ x # post" "(s, ?k s) \<noteq> x" using s by (metis DiffD2 fst_conv split_list)
      have "\<forall>y\<in>set pre. fst y \<in> sel_active sel'" using x p(1) xs(10) ys(10) grow(1) by blast
      then show "\<not> fp_less fp (snd x) (?k s)" using later p s by simp
    qed
  qed
  then show ?thesis by blast
qed

lemma tick_effectD:
  assumes "tick_effect fp env aggs sel diffs sel' ev xs ys"
  shows "distinct ev" "set ev = {s. evicted fp (tk_now env) aggs sel s}" "distinct (map fst xs)" "distinct (map fst ys)"
    "\<forall>x\<in>set xs. fst x \<notin> sel_active sel - set ev \<and> \<not> fp_less fp (snd x) (add_score (sel_cfg sel))"
    "\<forall>x\<in>set ys. fst x \<notin> (sel_active sel - set ev) \<union> fst ` set xs"
    "\<forall>x\<in>set xs \<union> set ys. fst x \<in> dom aggs \<and> snd x = known_score fp aggs sel (fst x)"
    "map signal diffs = map (\<lambda>s. (s, Action_remove, last_score (scored_state fp aggs sel s))) ev @
        map (\<lambda>x. (fst x, Action_add, snd x)) (xs @ ys)"
    "sel_cfg sel' = sel_cfg sel" "sel_active sel' = (sel_active sel - set ev) \<union> fst ` set (xs @ ys)"
    "card (sel_active sel') \<le> max (card (sel_active sel)) (max (unat (max_active (sel_cfg sel))) (unat (min_active (sel_cfg sel))))"
    "unat (min_active (sel_cfg sel)) \<le> card (sel_active sel') \<or> dom aggs \<subseteq> sel_active sel'"
    "unat (max_active (sel_cfg sel)) \<le> card (sel_active sel') \<or>
        (\<forall>s\<in>dom aggs - sel_active sel'. \<exists>t\<in>dom aggs. (s = t \<or> \<not> fp_less fp (known_score fp aggs sel t) (known_score fp aggs sel s)) \<and>
           fp_less fp (known_score fp aggs sel t) (add_score (sel_cfg sel)))"
    "\<forall>s\<in>dom aggs - sel_active sel'. \<forall>x\<in>set xs \<union> set ys. \<not> fp_less fp (snd x) (known_score fp aggs sel s)"
    "state_at fp sel' s =
        (let st = scored_state fp aggs sel s;
             st = (if s \<in> sel_active sel \<and> s \<notin> set (mandatory (sel_cfg sel)) then cooled fp (sel_cfg sel) (tk_now env) st else st);
             st = (if s \<in> set ev then st\<lparr>st_active := False, below_since := None\<rparr> else st)
         in if s \<in> fst ` set (xs @ ys) then st\<lparr>st_active := True, admitted_at := tk_now env, below_since := None\<rparr> else st)"
  using assms unfolding tick_effect_def Let_def by blast+

section \<open>Runs of the selector\<close>

text \<open>What a run shows: the time of each tick, its events, and the scores it left.\<close>

record 'd tick_log =
  lg_now :: int
  lg_diffs :: "'d selector_event list"
  lg_score :: "string \<Rightarrow> 'd"

text \<open>Ticks one after the other, on any statistics; the steady clock does not go back.\<close>

inductive selector_runs :: "'d fp \<Rightarrow> 'd selector_config \<Rightarrow> 'd tick_log list \<Rightarrow> 'd selector \<Rightarrow> bool"
  for fp :: "'d fp" and cfg :: "'d selector_config" where
  start: "selector_runs fp cfg [] (new_selector fp cfg)"
| ticked: "selector_runs fp cfg tr sel \<Longrightarrow> tick_ok fp env aggs sel \<Longrightarrow> tick fp env aggs sel = (diffs, sel') \<Longrightarrow>
    \<forall>l\<in>set tr. lg_now l \<le> tk_now env \<Longrightarrow> 0 \<le> tk_now env \<Longrightarrow> tk_now env < 2 ^ 63 \<Longrightarrow>
    selector_runs fp cfg (tr @ [\<lparr>lg_now = tk_now env, lg_diffs = diffs, lg_score = \<lambda>s. last_score (state_at fp sel' s)\<rparr>]) sel'"

text \<open>Reading the events back: an addition of an absent symbol, a removal of a present one.\<close>

fun replays :: "string set \<Rightarrow> (string \<times> selector_action \<times> 'd) list \<Rightarrow> string set option" where
  "replays A [] = Some A"
| "replays A ((s, Action_add, _) # evs) = (if s \<in> A then None else replays (insert s A) evs)"
| "replays A ((s, Action_remove, _) # evs) = (if s \<in> A then replays (A - {s}) evs else None)"

lemma replays_append: "replays A (evs @ evs') = Option.bind (replays A evs) (\<lambda>A. replays A evs')"
  by (induction A evs rule: replays.induct) auto

lemma replays_removals: "distinct ev \<Longrightarrow> set ev \<subseteq> A \<Longrightarrow> replays A (map (\<lambda>s. (s, Action_remove, f s)) ev) = Some (A - set ev)"
proof (induction ev arbitrary: A)
  case (Cons e ev)
  then have "set ev \<subseteq> A - {e}" by auto
  moreover have "A - {e} - set ev = A - set (e # ev)" by auto
  ultimately show ?case using Cons by simp
qed simp

lemma replays_additions:
  "distinct (map fst xs) \<Longrightarrow> \<forall>x\<in>set xs. fst x \<notin> A \<Longrightarrow> replays A (map (\<lambda>x. (fst x, Action_add, snd x)) xs) = Some (A \<union> fst ` set xs)"
proof (induction xs arbitrary: A)
  case (Cons x xs)
  have "\<forall>y\<in>set xs. fst y \<notin> insert (fst x) A"
  proof
    fix y assume y: "y \<in> set xs"
    then have "fst y \<in> set (map fst xs)" by simp
    then have "fst y \<noteq> fst x" using Cons.prems(1) by (metis distinct.simps(2) list.map(2))
    then show "fst y \<notin> insert (fst x) A" using Cons.prems(2) y by simp
  qed
  moreover have "distinct (map fst xs)" "fst x \<notin> A" using Cons.prems by simp_all
  ultimately show ?case using Cons.IH [of "insert (fst x) A"] by simp
qed simp

definition active_bound :: "'d selector_config \<Rightarrow> nat" where
  "active_bound cfg = max (card (set (mandatory cfg))) (max (unat (max_active cfg)) (unat (min_active cfg)))"

definition sel_inv :: "'d fp \<Rightarrow> 'd selector_config \<Rightarrow> 'd selector \<Rightarrow> bool" where
  "sel_inv fp cfg sel \<longleftrightarrow> sel_cfg sel = cfg \<and> finite (sel_active sel) \<and> set (mandatory cfg) \<subseteq> sel_active sel \<and>
     card (sel_active sel) \<le> active_bound cfg \<and> (\<forall>s. st_active (state_at fp sel s) \<longleftrightarrow> s \<in> sel_active sel)"

lemma new_selector_fold:
  fixes fp :: "'d fp" and sel :: "'d selector"
  defines "f \<equiv> foldl (\<lambda>sel s. let sel = put_state s ((state_at fp sel s)\<lparr>st_active := True\<rparr>) sel in sel\<lparr>sel_active := insert s (sel_active sel)\<rparr>)"
  shows "sel_cfg (f sel ss) = sel_cfg sel \<and> sel_active (f sel ss) = sel_active sel \<union> set ss \<and>
    (\<forall>s. state_at fp (f sel ss) s = (if s \<in> set ss then (state_at fp sel s)\<lparr>st_active := True\<rparr> else state_at fp sel s))"
  unfolding f_def by (induction ss arbitrary: sel) (auto simp: Let_def)

lemma new_selector_simps:
  "sel_cfg (new_selector fp cfg) = cfg" "sel_active (new_selector fp cfg) = set (mandatory cfg)"
  "state_at fp (new_selector fp cfg) s =
     (if s \<in> set (mandatory cfg) then (new_symbol_state fp)\<lparr>st_active := True\<rparr> else new_symbol_state fp)"
  using new_selector_fold [of fp "\<lparr>sel_cfg = cfg, sel_state = Map.empty, sel_active = {}\<rparr>" "mandatory cfg"]
  by (simp_all add: new_selector_def state_at_def [of fp "\<lparr>sel_cfg = cfg, sel_state = Map.empty, sel_active = {}\<rparr>"])

lemma new_selector_inv: "sel_inv fp cfg (new_selector fp cfg)"
  by (auto simp: sel_inv_def new_selector_simps active_bound_def new_symbol_state_def)

lemma cooled_simps [simp]: "st_active (cooled fp cfg now st) = st_active st" "admitted_at (cooled fp cfg now st) = admitted_at st"
  "last_score (cooled fp cfg now st) = last_score st"
  by (simp_all add: cooled_def)

lemma scored_state_simps [simp]: "st_active (scored_state fp aggs sel s) = st_active (state_at fp sel s)"
  "admitted_at (scored_state fp aggs sel s) = admitted_at (state_at fp sel s)" "below_since (scored_state fp aggs sel s) = below_since (state_at fp sel s)"
  by (simp_all add: scored_state_def)

lemma tick_inv:
  assumes "sel_inv fp cfg sel" "tick_ok fp env aggs sel" "tick fp env aggs sel = (diffs, sel')"
  shows "sel_inv fp cfg sel' \<and> replays (sel_active sel) (map signal diffs) = Some (sel_active sel')"
proof -
  note i = assms(1) [unfolded sel_inv_def]
  then have cfg: "sel_cfg sel = cfg" and fin: "finite (sel_active sel)" by auto
  from tick_effects [OF assms(3,2) fin] obtain ev xs ys where "tick_effect fp env aggs sel diffs sel' ev xs ys" by blast
  note p = tick_effectD [OF this, unfolded cfg]
  have ev: "set ev \<subseteq> sel_active sel" "set ev \<inter> set (mandatory cfg) = {}" using p(2) cfg by (auto simp: evicted_def)
  have "fst ` set xs \<inter> fst ` set ys = {}"
  proof (rule equals0I)
    fix a assume "a \<in> fst ` set xs \<inter> fst ` set ys"
    then obtain y where "y \<in> set ys" "fst y \<in> fst ` set xs" by (elim IntE imageE) simp
    then show False using p(6) by (meson UnI2)
  qed
  then have names: "distinct (map fst (xs @ ys))" using p(3,4) by simp
  have fresh: "\<forall>x\<in>set (xs @ ys). fst x \<notin> sel_active sel - set ev" using p(5,6) by auto
  note A = p(10)
  have "card (sel_active sel') \<le> max (card (sel_active sel)) (max (unat (max_active cfg)) (unat (min_active cfg)))" "sel_cfg sel' = cfg"
    using p(9,11) by simp_all
  then have "card (sel_active sel') \<le> active_bound cfg" "sel_cfg sel' = cfg" using i by (auto simp: active_bound_def)
  moreover have "st_active (state_at fp sel' s) \<longleftrightarrow> s \<in> sel_active sel'" for s
    using i p(15) [of s] ev(1) by (auto simp: A Let_def)
  moreover have "set (mandatory cfg) \<subseteq> sel_active sel'" "finite (sel_active sel')" using i ev(2) by (auto simp: A)
  ultimately have "sel_inv fp cfg sel'" by (simp add: sel_inv_def)
  moreover have "replays (sel_active sel) (map signal diffs) = Some (sel_active sel')"
    unfolding p(8) replays_append replays_removals [OF p(1) ev(1)] using replays_additions [OF names fresh] by (simp add: A)
  ultimately show ?thesis ..
qed

lemma runs_inv: "selector_runs fp cfg tr sel \<Longrightarrow>
  sel_inv fp cfg sel \<and> replays (set (mandatory cfg)) (map signal (concat (map lg_diffs tr))) = Some (sel_active sel)"
proof (induction rule: selector_runs.induct)
  case start
  then show ?case by (simp add: new_selector_inv new_selector_simps)
next
  case (ticked tr sel env aggs diffs sel')
  then show ?case using tick_inv [of fp cfg sel env aggs diffs sel'] by (simp add: replays_append)
qed

section \<open>Hysteresis\<close>

lemma held_seconds_ge:
  assumes "a \<le> t" "0 \<le> a" "t < 2 ^ 63"
  shows "m \<le> held_seconds t a \<longleftrightarrow> uint m \<le> (t - a) div 1000000000"
proof -
  have d: "0 \<le> (t - a) div 1000000000" using assms by (simp add: pos_imp_zdiv_nonneg_iff)
  have "(2::int) ^ 63 < 2 ^ 64" by simp
  then have "t - a < 2 ^ 64" using assms by linarith
  then have "(t - a) div 1000000000 < 2 ^ 64"
    using assms by (intro le_less_trans [OF zdiv_mono2 [of "t - a" 1 1000000000, simplified]]) simp_all
  note d = d this
  have "uint (held_seconds t a) = (t - a) div 1000000000"
    using assms d by (simp add: held_seconds_def cpp_div_nonneg uint_word_of_int take_bit_eq_mod)
  then show ?thesis by (simp add: word_le_def)
qed

lemma runs_times: "selector_runs fp cfg tr sel \<Longrightarrow> sorted (map lg_now tr) \<and> (\<forall>l\<in>set tr. 0 \<le> lg_now l \<and> lg_now l < 2 ^ 63)"
  by (induction rule: selector_runs.induct) (auto simp: sorted_append)

definition concerns :: "'d selector_event list \<Rightarrow> string \<Rightarrow> selector_action \<Rightarrow> bool" where
  "concerns diffs s a \<longleftrightarrow> (\<exists>e\<in>set diffs. se_symbol e = s \<and> se_action e = a)"

lemma tick_concerns:
  assumes "tick_effect fp env aggs sel diffs sel' ev xs ys"
  shows "concerns diffs s Action_add \<longleftrightarrow> s \<in> fst ` set (xs @ ys)" "concerns diffs s Action_remove \<longleftrightarrow> s \<in> set ev"
proof -
  have "concerns diffs s a \<longleftrightarrow> (s, a) \<in> (\<lambda>(s, a, _). (s, a)) ` set (map signal diffs)" for a
    by (auto simp: concerns_def signal_def image_image image_iff)
  then have c: "concerns diffs s a \<longleftrightarrow> (s, a) \<in> (\<lambda>s. (s, Action_remove)) ` set ev \<union> (\<lambda>x. (fst x, Action_add)) ` set (xs @ ys)" for a
    unfolding tick_effectD(8) [OF assms] by (simp add: image_Un image_image)
  show "concerns diffs s Action_add \<longleftrightarrow> s \<in> fst ` set (xs @ ys)" "concerns diffs s Action_remove \<longleftrightarrow> s \<in> set ev"
    unfolding c by (auto simp: image_iff)
qed

text \<open>
  What the states remember of the run: when a symbol was admitted, that it has stayed since, and, when a cooling time
  runs, since when its score was low.
\<close>

definition low_since :: "'d fp \<Rightarrow> 'd selector_config \<Rightarrow> 'd tick_log list \<Rightarrow> string \<Rightarrow> nat \<Rightarrow> nat \<Rightarrow> bool" where
  "low_since fp cfg tr s i k \<longleftrightarrow> i < k \<and> k < length tr \<and>
     uint (min_hold_seconds cfg) \<le> (lg_now (tr ! k) - lg_now (tr ! i)) div 1000000000 \<and>
     (\<forall>j. k \<le> j \<and> j < length tr \<longrightarrow> \<not> fp_le fp (remove_score cfg) (lg_score (tr ! j) s))"

definition held_since :: "'d tick_log list \<Rightarrow> string \<Rightarrow> nat \<Rightarrow> bool" where
  "held_since tr s i \<longleftrightarrow> i < length tr \<and> concerns (lg_diffs (tr ! i)) s Action_add \<and>
     (\<forall>j. i < j \<and> j < length tr \<longrightarrow> \<not> concerns (lg_diffs (tr ! j)) s Action_add \<and> \<not> concerns (lg_diffs (tr ! j)) s Action_remove)"

definition remembers :: "'d fp \<Rightarrow> 'd selector_config \<Rightarrow> 'd tick_log list \<Rightarrow> 'd selector \<Rightarrow> bool" where
  "remembers fp cfg tr sel \<longleftrightarrow>
     (\<forall>s\<in>sel_active sel - set (mandatory cfg). \<exists>i. held_since tr s i \<and> admitted_at (state_at fp sel s) = lg_now (tr ! i) \<and>
        (\<forall>b. below_since (state_at fp sel s) = Some b \<longrightarrow> (\<exists>k. low_since fp cfg tr s i k \<and> lg_now (tr ! k) = b)))"

lemma low_since_more:
  assumes "low_since fp cfg tr s i k" "\<not> fp_le fp (remove_score cfg) (lg_score l s)"
  shows "low_since fp cfg (tr @ [l]) s i k"
  using assms by (auto simp: low_since_def nth_append)

lemma held_since_more:
  assumes "held_since tr s i" "\<not> concerns (lg_diffs l) s Action_add" "\<not> concerns (lg_diffs l) s Action_remove"
  shows "held_since (tr @ [l]) s i"
  using assms by (auto simp: held_since_def nth_append less_Suc_eq)

lemma low_from_now:
  assumes "i < length tr" "uint (min_hold_seconds cfg) \<le> (lg_now l - lg_now (tr ! i)) div 1000000000"
    "\<not> fp_le fp (remove_score cfg) (lg_score l s)"
  shows "low_since fp cfg (tr @ [l]) s i (length tr)"
  using assms by (auto simp: low_since_def nth_append less_Suc_eq)

text \<open>A symbol that stays, and one that is due, each after a tick.\<close>

lemma cooling_kept:
  assumes tr: "sorted (map lg_now (tr @ [l]))" "\<forall>l\<in>set (tr @ [l]). 0 \<le> lg_now l \<and> lg_now l < 2 ^ 63"
    and mem: "i < length tr" "admitted_at st = lg_now (tr ! i)"
      "\<And>b. below_since st = Some b \<Longrightarrow> \<exists>k. low_since fp cfg tr s i k \<and> lg_now (tr ! k) = b"
    and score: "lg_score l s = last_score st"
    and b: "below_since (cooled fp cfg (lg_now l) st) = Some b"
  shows "\<exists>k. low_since fp cfg (tr @ [l]) s i k \<and> lg_now ((tr @ [l]) ! k) = b"
proof -
  have times: "lg_now (tr ! j) \<le> lg_now l" "0 \<le> lg_now (tr ! j)" if "j < length tr" for j
    using that tr by (auto simp: sorted_append)
  have held: "m \<le> held_seconds (lg_now l) (admitted_at st) \<longleftrightarrow> uint m \<le> (lg_now l - lg_now (tr ! i)) div 1000000000" for m
    using held_seconds_ge [OF times(1) times(2)] mem(1,2) tr(2) by simp
  have late: "min_hold_seconds cfg \<le> held_seconds (lg_now l) (admitted_at st)" if k: "low_since fp cfg tr s i k" for k
  proof -
    have "(lg_now (tr ! k) - lg_now (tr ! i)) div 1000000000 \<le> (lg_now l - lg_now (tr ! i)) div 1000000000"
      using times(1) [of k] k by (intro zdiv_mono1) (auto simp: low_since_def)
    then show ?thesis using k held by (simp add: low_since_def)
  qed
  show ?thesis
  proof (cases "held_seconds (lg_now l) (admitted_at st) < min_hold_seconds cfg")
    case True
    then have "below_since st = Some b" using b by (simp add: cooled_def)
    then show ?thesis using mem(3) late True by (meson leD)
  next
    case False
    then have low: "\<not> fp_le fp (remove_score cfg) (lg_score l s)" using b score by (auto simp: cooled_def split: if_splits)
    show ?thesis
    proof (cases "below_since st")
      case None
      then have "b = lg_now l" using b False low score by (simp add: cooled_def)
      moreover have "low_since fp cfg (tr @ [l]) s i (length tr)"
        using low_from_now [OF mem(1) _ low] held False by (simp add: not_less)
      ultimately show ?thesis by (intro exI [of _ "length tr"]) simp
    next
      case (Some b')
      then have "b' = b" using b False low score by (simp add: cooled_def)
      then obtain k where "low_since fp cfg tr s i k" "lg_now (tr ! k) = b" using mem(3) Some by blast
      moreover from this have "k < length tr" by (simp add: low_since_def)
      ultimately show ?thesis using low_since_more [OF _ low] by (intro exI [of _ k]) (simp add: nth_append)
    qed
  qed
qed

lemma runs_remember: "selector_runs fp cfg tr sel \<Longrightarrow> remembers fp cfg tr sel"
proof (induction rule: selector_runs.induct)
  case start
  then show ?case by (simp add: remembers_def new_selector_simps)
next
  case (ticked tr sel env aggs diffs sel')
  let ?l = "\<lparr>lg_now = tk_now env, lg_diffs = diffs, lg_score = \<lambda>s. last_score (state_at fp sel' s)\<rparr>"
  have cfg: "sel_cfg sel = cfg" and fin: "finite (sel_active sel)" using runs_inv [OF ticked(1)] by (simp_all add: sel_inv_def)
  obtain ev xs ys where e: "tick_effect fp env aggs sel diffs sel' ev xs ys" using tick_effects [OF ticked(3,2) fin] by blast
  note p = tick_effectD [OF e, unfolded cfg]
  have run: "selector_runs fp cfg (tr @ [?l]) sel'" by (rule selector_runs.ticked [OF ticked(1-6)])
  note times = runs_times [OF run]
  show ?case unfolding remembers_def
  proof
    fix s assume s: "s \<in> sel_active sel' - set (mandatory cfg)"
    show "\<exists>i. held_since (tr @ [?l]) s i \<and> admitted_at (state_at fp sel' s) = lg_now ((tr @ [?l]) ! i) \<and>
        (\<forall>b. below_since (state_at fp sel' s) = Some b \<longrightarrow> (\<exists>k. low_since fp cfg (tr @ [?l]) s i k \<and> lg_now ((tr @ [?l]) ! k) = b))"
    proof (cases "s \<in> fst ` set (xs @ ys)")
      case True
      then have "concerns diffs s Action_add" using tick_concerns(1) [OF e] by simp
      then have "held_since (tr @ [?l]) s (length tr)" by (auto simp: held_since_def)
      then show ?thesis using True p(15) [of s] by (intro exI [of _ "length tr"]) (simp add: Let_def)
    next
      case False
      then have old: "s \<in> sel_active sel" "s \<notin> set ev" using s p(10) by auto
      let ?st = "scored_state fp aggs sel s"
      have st: "state_at fp sel' s = cooled fp cfg (tk_now env) ?st" using False old s p(15) [of s] by (simp add: Let_def)
      obtain i where i: "held_since tr s i" "admitted_at (state_at fp sel s) = lg_now (tr ! i)"
          "\<And>b. below_since (state_at fp sel s) = Some b \<Longrightarrow> \<exists>k. low_since fp cfg tr s i k \<and> lg_now (tr ! k) = b"
        using ticked.IH [unfolded remembers_def, THEN bspec, of s] old(1) s by blast
      have len: "i < length tr" using i(1) by (simp add: held_since_def)
      have "held_since (tr @ [?l]) s i"
        using held_since_more [OF i(1), of ?l] False old tick_concerns [OF e] by simp
      moreover have "admitted_at (state_at fp sel' s) = lg_now ((tr @ [?l]) ! i)" using st i(2) len by (simp add: nth_append)
      moreover have "\<exists>k. low_since fp cfg (tr @ [?l]) s i k \<and> lg_now ((tr @ [?l]) ! k) = b" if "below_since (state_at fp sel' s) = Some b" for b
        by (rule cooling_kept [where st = ?st]) (use times len i that st in simp_all)
      ultimately show ?thesis by blast
    qed
  qed
qed

section \<open>Properties of the selector\<close>

text \<open>
  C20: The active set of the selector. After any ticks on any statistics it contains the mandatory symbols, its size
  keeps to the largest of its bounds and the number of mandatory symbols, the state of every symbol agrees with it, and it is
  what one gets by replaying the emitted events, each addition of an absent symbol and each removal of a
  present one, from the mandatory symbols.
\<close>

theorem selector_active_set:
  assumes "selector_runs fp cfg tr sel"
  shows "set (mandatory cfg) \<subseteq> sel_active sel \<and>
    card (sel_active sel) \<le> max (card (set (mandatory cfg))) (max (unat (max_active cfg)) (unat (min_active cfg))) \<and>
    (\<forall>s. st_active (state_at fp sel s) \<longleftrightarrow> s \<in> sel_active sel) \<and>
    replays (set (mandatory cfg)) (map signal (concat (map lg_diffs tr))) = Some (sel_active sel)"
  using runs_inv [OF assms] by (simp add: sel_inv_def active_bound_def)

text \<open>
  C21: Hysteresis. A symbol is removed only if it is not mandatory, was admitted by an earlier tick and untouched since, at least the
  minimal holding time ago, and if its score was below the removal score at every tick, this one
  included, since a tick at least the cooling time ago that came after the holding time.
\<close>

theorem selector_hysteresis:
  assumes "selector_runs fp cfg (tr @ [l]) sel" "concerns (lg_diffs l) s Action_remove"
  shows "s \<notin> set (mandatory cfg) \<and>
    (\<exists>i k. held_since tr s i \<and> low_since fp cfg (tr @ [l]) s i k \<and>
       uint (cooloff_seconds cfg) \<le> (lg_now l - lg_now ((tr @ [l]) ! k)) div 1000000000)"
  using assms(1)
proof (cases rule: selector_runs.cases)
  case (ticked tr' sel0 env aggs diffs)
  have cfg: "sel_cfg sel0 = cfg" and fin: "finite (sel_active sel0)" using runs_inv [OF ticked(2)] by (simp_all add: sel_inv_def)
  obtain ev xs ys where e: "tick_effect fp env aggs sel0 diffs sel ev xs ys" using tick_effects [OF ticked(4,3) fin] by blast
  note p = tick_effectD [OF e, unfolded cfg]
  have tr: "tr' = tr" and l: "l = \<lparr>lg_now = tk_now env, lg_diffs = diffs, lg_score = \<lambda>s. last_score (state_at fp sel s)\<rparr>"
    using ticked(1) by simp_all
  note times = runs_times [OF assms(1)]
  let ?st = "scored_state fp aggs sel0 s"
  have "s \<in> set ev" using assms(2) tick_concerns(2) [OF e] by (simp add: l)
  then have gone: "s \<in> sel_active sel0" "s \<notin> set (mandatory cfg)" "due fp cfg (tk_now env) ?st"
    using p(2) cfg by (auto simp: evicted_def)
  then obtain i where i: "held_since tr s i" "admitted_at (state_at fp sel0 s) = lg_now (tr ! i)"
      "\<And>b. below_since (state_at fp sel0 s) = Some b \<Longrightarrow> \<exists>k. low_since fp cfg tr s i k \<and> lg_now (tr ! k) = b"
    using runs_remember [OF ticked(2), unfolded remembers_def tr, THEN bspec, of s] by blast
  have len: "i < length tr" using i(1) by (simp add: held_since_def)
  define b where "b = (case below_since ?st of None \<Rightarrow> tk_now env | Some b \<Rightarrow> b)"
  have "below_since (cooled fp cfg (tk_now env) ?st) = Some b"
    using gone(3) leD unfolding due_def cooled_def b_def by auto
  moreover have "last_score ?st = lg_score l s" using p(15) [of s] by (simp add: l Let_def)
  ultimately obtain k where k: "low_since fp cfg (tr @ [l]) s i k" "lg_now ((tr @ [l]) ! k) = b"
    using cooling_kept [of tr l i ?st fp cfg s b] times len i by (auto simp: l)
  have "k \<le> length tr" using k(1) by (simp add: low_since_def)
  then have "b \<le> lg_now l" "0 \<le> b" "lg_now l < 2 ^ 63"
    using times k(2) by (auto simp: sorted_append nth_append split: if_splits)
  moreover have "cooloff_seconds cfg \<le> held_seconds (lg_now l) b" using gone(3) by (simp add: due_def b_def l)
  ultimately have "uint (cooloff_seconds cfg) \<le> (lg_now l - b) div 1000000000" using held_seconds_ge by blast
  then show ?thesis using gone(2) i(1) k by blast
qed simp

text \<open>
  C22: Admission. Where scores compare as a weak order, a tick leaves out no symbol it should admit: if the active set stays
  below its maximum, every known symbol outside it scores below the admission score, if it stays below its
  minimum there is none, and no symbol left out scores more than one that was admitted.
\<close>

theorem selector_admits_best:
  assumes "tick fp env aggs sel = (diffs, sel')" "tick_ok fp env aggs sel" "finite (sel_active sel)"
    and "\<forall>x y z. fp_less fp x z \<longrightarrow> fp_less fp x y \<or> fp_less fp y z"
  shows "(card (sel_active sel') < unat (max_active (sel_cfg sel)) \<longrightarrow>
      (\<forall>s\<in>dom aggs - sel_active sel'. fp_less fp (known_score fp aggs sel s) (add_score (sel_cfg sel)))) \<and>
    (card (sel_active sel') < unat (min_active (sel_cfg sel)) \<longrightarrow> dom aggs \<subseteq> sel_active sel') \<and>
    (\<forall>s\<in>dom aggs - sel_active sel'. \<forall>t. concerns diffs t Action_add \<longrightarrow>
       \<not> fp_less fp (known_score fp aggs sel t) (known_score fp aggs sel s))"
proof -
  obtain ev xs ys where e: "tick_effect fp env aggs sel diffs sel' ev xs ys" using tick_effects [OF assms(1-3)] by blast
  note p = tick_effectD [OF e]
  have low: "fp_less fp (known_score fp aggs sel s) (add_score (sel_cfg sel))"
    if "card (sel_active sel') < unat (max_active (sel_cfg sel))" "s \<in> dom aggs - sel_active sel'" for s
    using p(13) that assms(4) by (metis leD)
  have best: "\<not> fp_less fp (known_score fp aggs sel t) (known_score fp aggs sel s)"
    if "concerns diffs t Action_add" "s \<in> dom aggs - sel_active sel'" for s t
  proof -
    from that(1) obtain x where "x \<in> set xs \<union> set ys" "t = fst x" using tick_concerns(1) [OF e] by auto
    then show ?thesis using p(7,14) that(2) by metis
  qed
  show ?thesis using low best p(12) by (metis leD)
qed

section \<open>An example\<close>

text \<open>Whole numbers, one symbol besides the mandatory one, and two ticks: it is admitted, its score falls, it is removed.\<close>

definition example_fp :: "int fp" where
  "example_fp = \<lparr>fp_of_int = \<lambda>i. i, fp_half = 0, fp_add = (+), fp_sub = (-), fp_mul = (*), fp_div = (div), fp_neg = uminus,
     fp_abs = abs, fp_less = (<), fp_le = (\<le>)\<rparr>"

definition example_cfg :: "int selector_config" where
  "example_cfg = (default_selector_config example_fp)\<lparr>add_score := 100, remove_score := 50, min_hold_seconds := 60, cooloff_seconds := 0,
     min_active := 1, max_active := 5, mandatory := [''BTCUSDT'']\<rparr>"

definition example_aggs :: "u64 \<Rightarrow> int aggregates_map" where
  "example_aggs n = [''SOLUSDT'' \<mapsto> (new_symbol_agg example_fp)\<lparr>events_total := n,
     win_1m := new_tf_window example_fp 1 1, win_5m := new_tf_window example_fp 1 5, win_1h := new_tf_window example_fp 1 60\<rparr>]"

definition example_env :: "int \<Rightarrow> string list \<Rightarrow> int tick_env" where
  "example_env now walk = \<lparr>tk_now = now, tk_wall = \<lambda>_. now, tk_known = [''SOLUSDT''], tk_walk = walk, tk_sort = \<lambda>xs. xs\<rparr>"

definition example_tick :: "int \<Rightarrow> string list \<Rightarrow> u64 \<Rightarrow> int selector \<Rightarrow> int selector_event list \<times> int selector" where
  "example_tick now walk n sel = tick example_fp (example_env now walk) (example_aggs n) sel"

definition example_sel1 :: "int selector" where
  "example_sel1 = snd (example_tick 0 [''BTCUSDT''] 150 (new_selector example_fp example_cfg))"

lemma example_active: "sel_active example_sel1 = {''SOLUSDT'', ''BTCUSDT''}"
  by code_simp

lemma example_tick_ok: "set walk = sel_active sel \<Longrightarrow> distinct walk \<Longrightarrow> tick_ok example_fp (example_env now walk) (example_aggs n) sel"
  by (simp add: tick_ok_def example_env_def example_aggs_def)

definition example_log :: "int \<Rightarrow> string list \<Rightarrow> u64 \<Rightarrow> int selector \<Rightarrow> int tick_log" where
  "example_log now walk n sel =
     \<lparr>lg_now = now, lg_diffs = fst (example_tick now walk n sel),
      lg_score = \<lambda>s. last_score (state_at example_fp (snd (example_tick now walk n sel)) s)\<rparr>"

definition example_run :: "int tick_log list" where
  "example_run = [example_log 0 [''BTCUSDT''] 150 (new_selector example_fp example_cfg)]"

definition example_last :: "int tick_log" where
  "example_last = example_log 100000000000 [''BTCUSDT'', ''SOLUSDT''] 10 example_sel1"

lemma example_step:
  assumes "selector_runs example_fp cfg tr sel" "set walk = sel_active sel" "distinct walk" "\<forall>l\<in>set tr. lg_now l \<le> now" "0 \<le> now" "now < 2 ^ 63"
  shows "selector_runs example_fp cfg (tr @ [example_log now walk n sel]) (snd (example_tick now walk n sel))"
proof -
  have now: "tk_now (example_env now walk) = now" by (simp add: example_env_def)
  have "tick example_fp (example_env now walk) (example_aggs n) sel =
      (fst (example_tick now walk n sel), snd (example_tick now walk n sel))" by (simp add: example_tick_def)
  from selector_runs.ticked [OF assms(1) example_tick_ok [OF assms(2,3)] this] assms(4-6) show ?thesis
    by (simp add: example_log_def now)
qed

lemma example_runs: "selector_runs example_fp example_cfg (example_run @ [example_last])
    (snd (example_tick 100000000000 [''BTCUSDT'', ''SOLUSDT''] 10 example_sel1))"
proof -
  have "set [''BTCUSDT''] = sel_active (new_selector example_fp example_cfg)" by (simp add: new_selector_simps example_cfg_def)
  from example_step [OF selector_runs.start this, of 0 150]
  have "selector_runs example_fp example_cfg example_run example_sel1" by (simp add: example_run_def example_sel1_def)
  moreover have "set [''BTCUSDT'', ''SOLUSDT''] = sel_active example_sel1" unfolding example_active by (simp add: insert_commute)
  ultimately show ?thesis
    unfolding example_last_def by (rule example_step) (simp_all add: example_run_def example_log_def)
qed

theorem selector_active_set_witness:
  "let sel = snd (example_tick 100000000000 [''BTCUSDT'', ''SOLUSDT''] 10 example_sel1)
   in ''BTCUSDT'' \<in> sel_active sel \<and> card (sel_active sel) \<le> 5"
  using selector_active_set [OF example_runs] by (simp add: Let_def example_cfg_def)

theorem selector_hysteresis_witness:
  "concerns (lg_diffs example_last) ''SOLUSDT'' Action_remove \<and>
   (\<exists>i k. held_since example_run ''SOLUSDT'' i \<and> low_since example_fp example_cfg (example_run @ [example_last]) ''SOLUSDT'' i k)"
proof -
  have "concerns (lg_diffs example_last) ''SOLUSDT'' Action_remove" by code_simp
  from this selector_hysteresis [OF example_runs this] show ?thesis by blast
qed

theorem selector_admits_best_witness:
  "sel_active (snd (example_tick 0 [''BTCUSDT''] 10 (new_selector example_fp example_cfg))) = {''BTCUSDT''} \<and>
   fp_less example_fp (known_score example_fp (example_aggs 10) (new_selector example_fp example_cfg) ''SOLUSDT'') 100"
proof -
  let ?sel = "new_selector example_fp example_cfg" and ?env = "example_env 0 [''BTCUSDT'']"
  let ?sel' = "snd (example_tick 0 [''BTCUSDT''] 10 ?sel)"
  have active: "sel_active ?sel' = {''BTCUSDT''}" by code_simp
  have "tick example_fp ?env (example_aggs 10) ?sel = (fst (example_tick 0 [''BTCUSDT''] 10 ?sel), ?sel')"
    by (simp add: example_tick_def)
  moreover have "tick_ok example_fp ?env (example_aggs 10) ?sel"
    by (rule example_tick_ok) (simp_all add: new_selector_simps example_cfg_def)
  moreover have "finite (sel_active ?sel)" by (simp add: new_selector_simps)
  moreover have "\<forall>x y z. fp_less example_fp x z \<longrightarrow> fp_less example_fp x y \<or> fp_less example_fp y z" by (auto simp: example_fp_def)
  ultimately have "card (sel_active ?sel') < unat (max_active (sel_cfg ?sel)) \<longrightarrow>
      (\<forall>s\<in>dom (example_aggs 10) - sel_active ?sel'.
         fp_less example_fp (known_score example_fp (example_aggs 10) ?sel s) (add_score (sel_cfg ?sel)))"
    using selector_admits_best by blast
  then show ?thesis unfolding active by (simp add: new_selector_simps example_cfg_def example_aggs_def)
qed

end
