(* ===== verification/Detail_Monitor.thy ===== *)
theory Detail_Monitor
  imports Selector Dynamic_Stream
begin

text \<open>
  The detail monitor of the recorder application, \<^verbatim>\<open>async-recorder/detail\<close>: it subscribes the streams of every symbol
  the selector has chosen, over two connections, and routes the frames of both to the files of the symbols.
  Two coroutines share its state on one executor, the drain loop and the manager. Each is a machine that advances when
  what it waits for completes: the drain waits for frames and for the write of a frame to its file, the manager for its
  timer, for REST replies and for the writes of its control messages. While the drain waits for a write it keeps a reference
  to the sink, which the manager may destroy meanwhile. That \<^verbatim>\<open>join\<close> cancels one of them when the other throws is
  not modelled; what they may do includes what they do when cancelled. A sink sees the part of the file system that lies in its own directory.
\<close>

section \<open>Configuration\<close>

datatype depth_mode_t = Depth_partial | Depth_full

record 'd recorder_config =
  root_dir :: string
  selector_yaml :: string
  rotation_size_bytes :: u64
  rotation_seconds :: u64
  depth_mode :: depth_mode_t
  depth_levels :: int
  depth_resnap_seconds :: u64
  with_depth :: bool
  with_klines :: bool
  debug_stream :: string
  stats_interval_seconds :: u64
  loglevel :: string
  logfile :: string
  use_testnet :: bool
  rec_selector :: "'d selector_config"

definition default_recorder_config :: "'d fp \<Rightarrow> 'd recorder_config" where
  "default_recorder_config fp =
     \<lparr>root_dir = ''./data'', selector_yaml = [], rotation_size_bytes = 100 * 1024 * 1024, rotation_seconds = 15 * 60,
      depth_mode = Depth_partial, depth_levels = 20, depth_resnap_seconds = 600, with_depth = False, with_klines = True,
      debug_stream = [], stats_interval_seconds = 10, loglevel = ''trace'', logfile = [], use_testnet = True,
      rec_selector = default_selector_config fp\<rparr>"

definition partial_depth :: "'d recorder_config \<Rightarrow> bool" where
  "partial_depth cfg \<longleftrightarrow> with_depth cfg \<and> depth_mode cfg = Depth_partial"

definition full_depth :: "'d recorder_config \<Rightarrow> bool" where
  "full_depth cfg \<longleftrightarrow> with_depth cfg \<and> depth_mode cfg = Depth_full"

section \<open>Helpers\<close>

definition path_join :: "string \<Rightarrow> string \<Rightarrow> string" where
  "path_join a b = path_prefix a b @ b"

definition make_detail_rfs_cfg :: "'d recorder_config \<Rightarrow> string \<Rightarrow> string \<Rightarrow> rotating_file_sink_config" where
  "make_detail_rfs_cfg cfg symbol_upper stream_type =
     \<lparr>rfs_dir = path_join (path_join (path_join (root_dir cfg) ''detail'') symbol_upper) stream_type,
      rfs_basename = stream_type, rfs_extension = ''.jsonl'', rfs_max_size_bytes = rotation_size_bytes cfg,
      rfs_max_seconds = rotation_seconds cfg, rfs_compress = True\<rparr>"

text \<open>\<^verbatim>\<open>string_view::find\<close>.\<close>

fun find_sub :: "string \<Rightarrow> string \<Rightarrow> nat option" where
  "find_sub pat [] = (if pat = [] then Some 0 else None)"
| "find_sub pat (c # s) = (if take (length pat) (c # s) = pat then Some 0 else map_option Suc (find_sub pat s))"

definition stream_key :: string where
  "stream_key = CHR 0x22 # ''stream'' @ [CHR 0x22, CHR '':'', CHR 0x22]"

definition parse_stream_header :: "string \<Rightarrow> (string \<times> string) option" where
  "parse_stream_header frame =
     (case find_sub stream_key frame of
        None \<Rightarrow> None
      | Some k \<Rightarrow>
          let from_begin = drop (k + length stream_key) frame in
          case find_sub [CHR 0x22] from_begin of
            None \<Rightarrow> None
          | Some n \<Rightarrow>
              let name = take n from_begin in
              case find_sub ''@'' name of
                None \<Rightarrow> None
              | Some at \<Rightarrow> Some (take at name, drop (at + 1) name))"

definition to_upper_copy :: "string \<Rightarrow> string" where
  "to_upper_copy s = map upper_char s"

definition now_filename_ts :: "utc_time \<Rightarrow> string" where
  "now_filename_ts tm = take 79
     (zeros_to 4 (tm_year tm + 1900) @ zeros_to 2 (tm_mon tm + 1) @ zeros_to 2 (tm_mday tm) @ ''T'' @
      zeros_to 2 (tm_hour tm) @ zeros_to 2 (tm_min tm) @ zeros_to 2 (tm_sec tm) @ ''Z'')"

section \<open>State\<close>

datatype sink_slot = Slot_agg_trade | Slot_book_ticker | Slot_mark_price | Slot_force_order | Slot_depth

record per_symbol_sinks =
  agg_trade :: "rotating_file_sink option"
  book_ticker :: "rotating_file_sink option"
  mark_price :: "rotating_file_sink option"
  force_order :: "rotating_file_sink option"
  depth_sink :: "rotating_file_sink option"
  frames_routed :: u64
  next_resnap_at :: "int option"

fun slot_sink :: "sink_slot \<Rightarrow> per_symbol_sinks \<Rightarrow> rotating_file_sink option" where
  "slot_sink Slot_agg_trade p = agg_trade p"
| "slot_sink Slot_book_ticker p = book_ticker p"
| "slot_sink Slot_mark_price p = mark_price p"
| "slot_sink Slot_force_order p = force_order p"
| "slot_sink Slot_depth p = depth_sink p"

fun set_slot :: "sink_slot \<Rightarrow> rotating_file_sink \<Rightarrow> per_symbol_sinks \<Rightarrow> per_symbol_sinks" where
  "set_slot Slot_agg_trade s p = p\<lparr>agg_trade := Some s\<rparr>"
| "set_slot Slot_book_ticker s p = p\<lparr>book_ticker := Some s\<rparr>"
| "set_slot Slot_mark_price s p = p\<lparr>mark_price := Some s\<rparr>"
| "set_slot Slot_force_order s p = p\<lparr>force_order := Some s\<rparr>"
| "set_slot Slot_depth s p = p\<lparr>depth_sink := Some s\<rparr>"

text \<open>
  Where the drain is: waiting for a frame; waiting for the write of a frame to the sink of a symbol; waiting for a write whose
  sink has been destroyed; ended with the buffer, by an exception, or by undefined behaviour.
\<close>

datatype drain_at =
    Drain_reading
  | Drain_writing string sink_slot string
  | Drain_dangling
  | Drain_ended
  | Drain_threw
  | Drain_undefined

text \<open>
  \<open>snapshot_files\<close> is the part of the file system the snapshots are written to; \<open>retired\<close> are the sinks destroyed so far,
  of which the files remain.
\<close>

record detail_state =
  record_buf :: consumer
  buf_closed :: bool
  ds_sinks :: "string \<rightharpoonup> per_symbol_sinks"
  retired :: "rotating_file_sink list"
  subscribed :: "string set"
  snaps_ok :: u64
  snaps_err :: u64
  ds_closed :: bool
  snapshot_files :: "string \<rightharpoonup> string"
  drain_at :: drain_at

definition new_detail_state :: "(string \<rightharpoonup> string) \<Rightarrow> detail_state" where
  "new_detail_state fs = \<lparr>record_buf = \<lparr>drained_total = 0\<rparr>, buf_closed = False, ds_sinks = Map.empty, retired = [], subscribed = {},
     snaps_ok = 0, snaps_err = 0, ds_closed = False, snapshot_files = fs, drain_at = Drain_reading\<rparr>"

definition at_slot :: "detail_state \<Rightarrow> string \<Rightarrow> sink_slot \<Rightarrow> rotating_file_sink option" where
  "at_slot st s slot = (case ds_sinks st s of None \<Rightarrow> None | Some p \<Rightarrow> slot_sink slot p)"

definition put_slot :: "string \<Rightarrow> sink_slot \<Rightarrow> rotating_file_sink \<Rightarrow> detail_state \<Rightarrow> detail_state" where
  "put_slot s slot x st = st\<lparr>ds_sinks := (ds_sinks st)(s := map_option (set_slot slot x) (ds_sinks st s))\<rparr>"

section \<open>A call of a sink in two halves\<close>

text \<open>
  The call of a sink suspends while its line is being written. Before that it rotates if it must; after it
  the bytes are counted. \<open>fails\<close> is after how many bytes the write failed, if it did.
\<close>

definition sink_begin :: "sink_env \<Rightarrow> string \<Rightarrow> rotating_file_sink \<Rightarrow> bool \<times> rotating_file_sink" where
  "sink_begin env frame x =
     (if should_rotate env (of_nat (length (line_of frame))) x then rotate_sink env x else (False, x))"

definition sink_end :: "nat option \<Rightarrow> string \<Rightarrow> rotating_file_sink \<Rightarrow> bool \<times> rotating_file_sink" where
  "sink_end fails frame x =
     (let (threw, fs) = write_to (current_path x) fails (line_of frame) (files x);
          x = x\<lparr>files := fs\<rparr>
      in if threw then (True, x) else (False, x\<lparr>current_bytes := current_bytes x + of_nat (length (line_of frame))\<rparr>))"

lemma sink_call_halves:
  "sink_call env frame x = (let (threw, x) = sink_begin env frame x in if threw then (True, x) else sink_end (write_fails env) frame x)"
  by (auto simp: sink_call_def sink_begin_def sink_end_def Let_def split: prod.splits)

text \<open>What has reached the file of a write that is cut off.\<close>

definition sink_part :: "nat \<Rightarrow> string \<Rightarrow> rotating_file_sink \<Rightarrow> rotating_file_sink" where
  "sink_part written frame x = x\<lparr>files := snd (write_to (current_path x) (Some written) (line_of frame) (files x))\<rparr>"

text \<open>
  \<^verbatim>\<open>sinks.erase\<close> destroys the sinks of a symbol, whether or not the drain is still writing to one of them. \<open>written\<close> is how much of
  that write had reached the file.
\<close>

definition erase_sinks :: "sink_env \<Rightarrow> nat \<Rightarrow> string \<Rightarrow> detail_state \<Rightarrow> detail_state" where
  "erase_sinks env written s st =
     (case ds_sinks st s of
        None \<Rightarrow> st
      | Some p \<Rightarrow>
          let (p, at) =
            (case drain_at st of
               Drain_writing s' slot frame \<Rightarrow>
                 if s' = s then (set_slot slot (sink_part written frame (the (slot_sink slot p))) p, Drain_dangling) else (p, drain_at st)
             | _ \<Rightarrow> (p, drain_at st))
          in st\<lparr>ds_sinks := (ds_sinks st)(s := None),
                retired := retired st @ map (destroy_sink env)
                  (List.map_filter (\<lambda>slot. slot_sink slot p) [Slot_agg_trade, Slot_book_ticker, Slot_mark_price, Slot_force_order, Slot_depth]),
                drain_at := at\<rparr>)"

lemma erase_sinks_simps [simp]:
  "ds_sinks (erase_sinks env written s st) = (ds_sinks st)(s := None)" "subscribed (erase_sinks env written s st) = subscribed st"
  by (auto simp: erase_sinks_def Let_def fun_eq_iff split: option.split prod.split)

lemma erase_sinks_at:
  "drain_at (erase_sinks env written s st) =
     (case drain_at st of
        Drain_writing s' slot frame \<Rightarrow> if s' = s \<and> ds_sinks st s \<noteq> None then Drain_dangling else drain_at st
      | _ \<Rightarrow> drain_at st)"
  by (auto simp: erase_sinks_def Let_def split: option.split prod.split drain_at.split)

section \<open>The drain loop\<close>

definition select_slot :: "string \<Rightarrow> per_symbol_sinks \<Rightarrow> sink_slot option" where
  "select_slot type p =
     (if type = ''aggTrade'' \<and> agg_trade p \<noteq> None then Some Slot_agg_trade
      else if type = ''bookTicker'' \<and> book_ticker p \<noteq> None then Some Slot_book_ticker
      else if take 9 type = ''markPrice'' \<and> mark_price p \<noteq> None then Some Slot_mark_price
      else if type = ''forceOrder'' \<and> force_order p \<noteq> None then Some Slot_force_order
      else if take 5 type = ''depth'' \<and> depth_sink p \<noteq> None then Some Slot_depth
      else None)"

text \<open>The symbol and the sink a frame is for.\<close>

definition route_target :: "detail_state \<Rightarrow> string \<Rightarrow> (string \<times> sink_slot) option" where
  "route_target st frame =
     (case parse_stream_header frame of
        None \<Rightarrow> None
      | Some (sym_lower, type) \<Rightarrow>
          (case ds_sinks st (to_upper_copy sym_lower) of
             None \<Rightarrow> None
           | Some p \<Rightarrow> map_option (Pair (to_upper_copy sym_lower)) (select_slot type p)))"

text \<open>A frame has been read: find its sink, rotate it if it must, and start the write.\<close>

definition route_frame :: "sink_env \<Rightarrow> string \<Rightarrow> detail_state \<Rightarrow> detail_state" where
  "route_frame env frame st =
     (case route_target st frame of
        None \<Rightarrow> st\<lparr>drain_at := Drain_reading\<rparr>
      | Some (s, slot) \<Rightarrow>
          (case sink_begin env frame (the (at_slot st s slot)) of
             (threw, x) \<Rightarrow> (put_slot s slot x st)\<lparr>drain_at := (if threw then Drain_threw else Drain_writing s slot frame)\<rparr>))"

text \<open>The drain loop: a read, and the return from a write, each up to the next suspension.\<close>

definition drain_read :: "sink_env \<Rightarrow> string chan_read \<Rightarrow> detail_state \<Rightarrow> detail_state" where
  "drain_read env r st =
     (let (rv, c) = buffer_async_read r (record_buf st); st = st\<lparr>record_buf := c\<rparr> in
      case result_value rv of
        None \<Rightarrow> st\<lparr>drain_at := Drain_ended\<rparr>
      | Some frame \<Rightarrow> route_frame env frame st)"

text \<open>
  The write has completed. If the sink has been destroyed meanwhile, a write cut off by that throws; a write that had
  gone through counts its bytes in the destroyed sink, which is undefined.
\<close>

definition drain_written :: "nat option \<Rightarrow> detail_state \<Rightarrow> detail_state" where
  "drain_written fails st =
     (case drain_at st of
        Drain_writing s slot frame \<Rightarrow>
          (case sink_end fails frame (the (at_slot st s slot)) of
             (threw, x) \<Rightarrow>
               let st = put_slot s slot x st in
               if threw then st\<lparr>drain_at := Drain_threw\<rparr>
               else st\<lparr>ds_sinks := (ds_sinks st)(s := map_option (\<lambda>p. p\<lparr>frames_routed := frames_routed p + 1\<rparr>) (ds_sinks st s)),
                       drain_at := Drain_reading\<rparr>)
      | Drain_dangling \<Rightarrow> st\<lparr>drain_at := (if fails = None then Drain_undefined else Drain_threw)\<rparr>
      | _ \<Rightarrow> st)"

section \<open>Snapshots\<close>

text \<open>What a snapshot meets: the REST service, whether its file opens, and the two readings of the clock.\<close>

record snap_env =
  sn_rest :: "symbol_t \<times> int \<Rightarrow> order_book_response_t result"
  sn_open :: bool
  sn_iso :: utc_time
  sn_file :: utc_time

definition fetch_depth_snapshot ::
  "(order_book_response_t \<Rightarrow> string option) \<Rightarrow> snap_env \<Rightarrow> string \<Rightarrow> string \<Rightarrow> string \<Rightarrow> (string \<rightharpoonup> string) \<Rightarrow>
   (bool \<times> (string \<rightharpoonup> string)) may_throw" where
  "fetch_depth_snapshot write_json env root symbol_upper tag fs =
     (let r = sn_rest env (symbol_of symbol_upper, 1000) in
      if \<not> is_ok r then Inr (False, fs)
      else bind_exn (deref r) (\<lambda>book.
        case write_json book of
          None \<Rightarrow> Inr (False, fs)
        | Some json \<Rightarrow>
            let dir = path_join (path_join (path_join root ''detail'') symbol_upper) ''depth_snapshot'';
                path = path_join dir (tag @ ''.'' @ now_filename_ts (sn_file env) @ ''.json'')
            in if \<not> sn_open env then Inr (False, fs)
               else Inr (True, fs(path \<mapsto>
                 ''{'' @ [CHR 0x22] @ ''t'' @ [CHR 0x22] @ '':'' @ [CHR 0x22] @ to_iso (sn_iso env) @ [CHR 0x22] @
                 '','' @ [CHR 0x22] @ ''d'' @ [CHR 0x22] @ '':'' @ json @ ''}'' @ [CHR 0x0A]))))"

definition count_snapshot :: "bool \<Rightarrow> detail_state \<Rightarrow> detail_state" where
  "count_snapshot ok st = (if ok then st\<lparr>snaps_ok := snaps_ok st + 1\<rparr> else st\<lparr>snaps_err := snaps_err st + 1\<rparr>)"

section \<open>Sinks and subscriptions of a symbol\<close>

text \<open>What opening the sinks meets: each its own environment and directory. No value is a sink that threw.\<close>

record open_env =
  oe_sink :: "sink_slot \<Rightarrow> sink_env"
  oe_files :: "sink_slot \<Rightarrow> string \<rightharpoonup> string"
  oe_now :: int

definition open_sink :: "'d recorder_config \<Rightarrow> open_env \<Rightarrow> string \<Rightarrow> sink_slot \<Rightarrow> string \<Rightarrow> rotating_file_sink option" where
  "open_sink cfg env s slot stream_type =
     (case new_rotating_sink (make_detail_rfs_cfg cfg s stream_type) (oe_files env slot) (oe_sink env slot) of
        (threw, sink) \<Rightarrow> if threw then None else Some sink)"

definition open_sinks :: "'d recorder_config \<Rightarrow> open_env \<Rightarrow> string \<Rightarrow> per_symbol_sinks option" where
  "open_sinks cfg env s =
     Option.bind (open_sink cfg env s Slot_agg_trade ''aggTrade'') (\<lambda>a.
     Option.bind (open_sink cfg env s Slot_book_ticker ''bookTicker'') (\<lambda>b.
     Option.bind (open_sink cfg env s Slot_mark_price ''markPrice'') (\<lambda>m.
     Option.bind (open_sink cfg env s Slot_force_order ''forceOrder'') (\<lambda>f.
       let p = \<lparr>agg_trade = Some a, book_ticker = Some b, mark_price = Some m, force_order = Some f, depth_sink = None,
                frames_routed = 0, next_resnap_at = None\<rparr> in
       if partial_depth cfg then
         Option.bind (open_sink cfg env s Slot_depth (''depth'' @ int_to_string (depth_levels cfg)))
           (\<lambda>d. Some (p\<lparr>depth_sink := Some d\<rparr>))
       else if full_depth cfg then
         Option.bind (open_sink cfg env s Slot_depth ''depth_diff'')
           (\<lambda>d. Some (p\<lparr>depth_sink := Some d, next_resnap_at := Some (oe_now env + uint (depth_resnap_seconds cfg) * 1000000000)\<rparr>))
       else Some p))))"

definition public_subs :: "'d recorder_config \<Rightarrow> string \<Rightarrow> subscription \<times> subscription list" where
  "public_subs cfg s =
     (Book_ticker_subscription (symbol_of s),
      if partial_depth cfg then [Partial_book_depth_subscription (symbol_of s) (depth_levels cfg) ''100ms'']
      else if full_depth cfg then [Diff_book_depth_subscription (symbol_of s) ''100ms'']
      else [])"

definition market_subs :: "string \<Rightarrow> subscription \<times> subscription list" where
  "market_subs s =
     (Aggregate_trade_subscription (symbol_of s),
      [Mark_price_subscription (symbol_of s) True, Liquidation_order_subscription (symbol_of s)])"

section \<open>The manager\<close>

text \<open>
  Where the manager is suspended, with the symbols it has still to add and to remove in this cycle, and the result of the
  public connection while it waits for the other.
\<close>

datatype manager_at =
    Mgr_timer
  | Mgr_snapshot string "string list" "string list"
  | Mgr_sub_public string "string list" "string list"
  | Mgr_sub_market string "string list" "string list" error
  | Mgr_unsub_public string "string list"
  | Mgr_unsub_market string "string list"
  | Mgr_resnap_begin
  | Mgr_resnap string "string list"
  | Mgr_exited
  | Mgr_threw

record monitor =
  mgr_at :: manager_at
  mon_st :: detail_state
  dyn_pub :: dynamic_stream
  dyn_mkt :: dynamic_stream
  pub_lost :: bool
  mkt_lost :: bool

definition new_monitor :: "(string \<rightharpoonup> string) \<Rightarrow> monitor" where
  "new_monitor fs = \<lparr>mgr_at = Mgr_timer, mon_st = new_detail_state fs, dyn_pub = new_dynamic_stream Public_category,
     dyn_mkt = new_dynamic_stream Market_category, pub_lost = False, mkt_lost = False\<rparr>"

text \<open>
  The read loops of the connections. A frame that is read goes into the buffer on the way; at the first error
  the loop ends, and nothing reads from the connection any more.
\<close>

definition on_read_public :: "string result \<Rightarrow> monitor \<Rightarrow> monitor" where
  "on_read_public r m = (if \<not> is_ok r then m\<lparr>pub_lost := True\<rparr> else m)"

definition on_read_market :: "string result \<Rightarrow> monitor \<Rightarrow> monitor" where
  "on_read_market r m = (if \<not> is_ok r then m\<lparr>mkt_lost := True\<rparr> else m)"

definition exit_manager :: "monitor \<Rightarrow> monitor" where
  "exit_manager m = m\<lparr>mgr_at := Mgr_exited, mon_st := (mon_st m)\<lparr>ds_closed := True, buf_closed := True\<rparr>\<rparr>"

text \<open>The top of the loop, and the next symbol of the two inner loops.\<close>

definition next_cycle :: "monitor \<Rightarrow> monitor" where
  "next_cycle m = (if ds_closed (mon_st m) then exit_manager m else m\<lparr>mgr_at := Mgr_timer\<rparr>)"

definition next_removal :: "string list \<Rightarrow> monitor \<Rightarrow> monitor" where
  "next_removal to_remove m =
     m\<lparr>mgr_at := (case to_remove of s # rest \<Rightarrow> Mgr_unsub_public s rest | [] \<Rightarrow> Mgr_resnap_begin)\<rparr>"

definition next_addition :: "string list \<Rightarrow> string list \<Rightarrow> monitor \<Rightarrow> monitor" where
  "next_addition to_add to_remove m =
     (case to_add of s # rest \<Rightarrow> m\<lparr>mgr_at := Mgr_snapshot s rest to_remove\<rparr> | [] \<Rightarrow> next_removal to_remove m)"

text \<open>
  The timer: \<open>wanted\<close> is the selector's active set, in the order in which it is walked; \<open>walk\<close> is the
  walk of the subscribed symbols.
\<close>

definition on_timer :: "bool \<Rightarrow> string list \<Rightarrow> string list \<Rightarrow> monitor \<Rightarrow> monitor" where
  "on_timer cancelled wanted walk m =
     (if cancelled then exit_manager m
      else next_addition (filter (\<lambda>s. s \<notin> subscribed (mon_st m)) wanted) (filter (\<lambda>s. s \<notin> set wanted) walk) m)"

text \<open>The snapshot has been fetched: count it, open the sinks, enter them and send the first message.\<close>

definition on_snapshot ::
  "'d recorder_config \<Rightarrow> (order_book_response_t \<Rightarrow> string option) \<Rightarrow> snap_env \<Rightarrow> open_env \<Rightarrow> string \<Rightarrow> string list \<Rightarrow> string list \<Rightarrow>
   monitor \<Rightarrow> monitor may_throw" where
  "on_snapshot cfg write_book snap env s to_add to_remove m =
     bind_exn (fetch_depth_snapshot write_book snap (root_dir cfg) s ''startup'' (snapshot_files (mon_st m))) (\<lambda>(ok, fs).
     let st = count_snapshot ok (mon_st m\<lparr>snapshot_files := fs\<rparr>) in
     case open_sinks cfg env s of
       None \<Rightarrow> Inr (m\<lparr>mon_st := st, mgr_at := Mgr_threw\<rparr>)
     | Some p \<Rightarrow>
         let st = (if ds_sinks st s = None then st\<lparr>ds_sinks := (ds_sinks st)(s \<mapsto> p)\<rparr> else st)
         in Inr (m\<lparr>mon_st := st, mgr_at := Mgr_sub_public s to_add to_remove\<rparr>))"

definition on_sub_public ::
  "'d recorder_config \<Rightarrow> (stream_control_request \<Rightarrow> string option) \<Rightarrow> error \<Rightarrow> string \<Rightarrow> string list \<Rightarrow> string list \<Rightarrow> monitor \<Rightarrow> monitor may_throw" where
  "on_sub_public cfg write_json outcome s to_add to_remove m =
     bind_exn (async_subscribe write_json outcome (fst (public_subs cfg s)) (snd (public_subs cfg s)) (dyn_pub m)) (\<lambda>(r, d).
     Inr (m\<lparr>dyn_pub := d, mgr_at := Mgr_sub_market s to_add to_remove r\<rparr>))"

definition on_sub_market ::
  "(stream_control_request \<Rightarrow> string option) \<Rightarrow> sink_env \<Rightarrow> nat \<Rightarrow> error \<Rightarrow> string \<Rightarrow> string list \<Rightarrow> string list \<Rightarrow> error \<Rightarrow> monitor \<Rightarrow> monitor may_throw" where
  "on_sub_market write_json env written outcome s to_add to_remove r_pub m =
     bind_exn (async_subscribe write_json outcome (fst (market_subs s)) (snd (market_subs s)) (dyn_mkt m)) (\<lambda>(r_mkt, d).
     let st = mon_st m;
         st = (if \<not> void_ok r_pub \<or> \<not> void_ok r_mkt then erase_sinks env written s st
               else st\<lparr>subscribed := insert s (subscribed st)\<rparr>)
     in Inr (next_addition to_add to_remove (m\<lparr>dyn_mkt := d, mon_st := st\<rparr>)))"

definition on_unsub_public ::
  "'d recorder_config \<Rightarrow> (stream_control_request \<Rightarrow> string option) \<Rightarrow> error \<Rightarrow> string \<Rightarrow> string list \<Rightarrow> monitor \<Rightarrow> monitor may_throw" where
  "on_unsub_public cfg write_json outcome s to_remove m =
     bind_exn (async_unsubscribe write_json outcome (fst (public_subs cfg s)) (snd (public_subs cfg s)) (dyn_pub m)) (\<lambda>(r, d).
     Inr (m\<lparr>dyn_pub := d, mgr_at := Mgr_unsub_market s to_remove\<rparr>))"

definition on_unsub_market ::
  "(stream_control_request \<Rightarrow> string option) \<Rightarrow> sink_env \<Rightarrow> nat \<Rightarrow> error \<Rightarrow> string \<Rightarrow> string list \<Rightarrow> monitor \<Rightarrow> monitor may_throw" where
  "on_unsub_market write_json env written outcome s to_remove m =
     bind_exn (async_unsubscribe write_json outcome (fst (market_subs s)) (snd (market_subs s)) (dyn_mkt m)) (\<lambda>(r, d).
     let st = erase_sinks env written s (mon_st m); st = st\<lparr>subscribed := subscribed st - {s}\<rparr>
     in Inr (next_removal to_remove (m\<lparr>dyn_mkt := d, mon_st := st\<rparr>)))"

text \<open>The due snapshots of the full-depth mode, in the order in which the sinks are walked.\<close>

definition next_resnap :: "string list \<Rightarrow> monitor \<Rightarrow> monitor" where
  "next_resnap due_syms m = (case due_syms of s # rest \<Rightarrow> m\<lparr>mgr_at := Mgr_resnap s rest\<rparr> | [] \<Rightarrow> next_cycle m)"

definition resnap_due :: "int \<Rightarrow> detail_state \<Rightarrow> string \<Rightarrow> bool" where
  "resnap_due now st s = (case ds_sinks st s of None \<Rightarrow> False | Some p \<Rightarrow> (case next_resnap_at p of None \<Rightarrow> False | Some t \<Rightarrow> \<not> now < t))"

definition on_resnap_begin :: "'d recorder_config \<Rightarrow> int \<Rightarrow> string list \<Rightarrow> monitor \<Rightarrow> monitor" where
  "on_resnap_begin cfg now walk m =
     (if full_depth cfg then next_resnap (filter (resnap_due now (mon_st m)) walk) m else next_cycle m)"

definition on_resnap ::
  "'d recorder_config \<Rightarrow> (order_book_response_t \<Rightarrow> string option) \<Rightarrow> snap_env \<Rightarrow> int \<Rightarrow> string \<Rightarrow> string list \<Rightarrow> monitor \<Rightarrow> monitor may_throw" where
  "on_resnap cfg write_book snap now s rest m =
     bind_exn (fetch_depth_snapshot write_book snap (root_dir cfg) s ''resnap'' (snapshot_files (mon_st m))) (\<lambda>(ok, fs).
     let st = count_snapshot ok (mon_st m\<lparr>snapshot_files := fs\<rparr>);
         st = (case ds_sinks st s of
                 None \<Rightarrow> st
               | Some p \<Rightarrow> st\<lparr>ds_sinks := (ds_sinks st)(s \<mapsto> p\<lparr>next_resnap_at := Some (now + uint (depth_resnap_seconds cfg) * 1000000000)\<rparr>)\<rparr>)
     in Inr (next_resnap rest (m\<lparr>mon_st := st\<rparr>)))"

section \<open>What routing a frame changes\<close>

lemma slot_sink_set [simp]: "slot_sink slot' (set_slot slot x p) = (if slot' = slot then Some x else slot_sink slot' p)"
  by (cases slot; cases slot') simp_all

lemma slot_sink_frames [simp]: "slot_sink slot (p\<lparr>frames_routed := n\<rparr>) = slot_sink slot p"
  by (cases slot) simp_all

lemma slot_sink_resnap [simp]: "slot_sink slot (p\<lparr>next_resnap_at := t\<rparr>) = slot_sink slot p"
  by (cases slot) simp_all

lemma select_slot_sink: "select_slot type p = Some slot \<Longrightarrow> slot_sink slot p \<noteq> None"
  by (auto simp: select_slot_def split: if_splits)

lemma select_slot_cong:
  "(\<And>slot. slot_sink slot p = None \<longleftrightarrow> slot_sink slot q = None) \<Longrightarrow> select_slot type p = select_slot type q"
proof -
  assume same: "\<And>slot. slot_sink slot p = None \<longleftrightarrow> slot_sink slot q = None"
  show ?thesis
    using same [of Slot_agg_trade] same [of Slot_book_ticker] same [of Slot_mark_price] same [of Slot_force_order] same [of Slot_depth]
    by (simp add: select_slot_def)
qed

lemma at_slot_put:
  assumes "at_slot st s slot \<noteq> None"
  shows "at_slot (put_slot s slot x st) s' slot' = (if s' = s \<and> slot' = slot then Some x else at_slot st s' slot')"
  using assms by (auto simp: at_slot_def put_slot_def split: option.splits)

lemma put_slot_keeps [simp]:
  "subscribed (put_slot s slot x st) = subscribed st" "ds_closed (put_slot s slot x st) = ds_closed st"
  "drain_at (put_slot s slot x st) = drain_at st" "dom (ds_sinks (put_slot s slot x st)) = dom (ds_sinks st)"
  by (auto simp: put_slot_def dom_def)

lemma at_slot_drain_at [simp]: "at_slot (st\<lparr>drain_at := a\<rparr>) = at_slot st"
  by (intro ext) (simp add: at_slot_def)

lemma at_slot_buf [simp]: "at_slot (st\<lparr>record_buf := c\<rparr>) = at_slot st"
  by (intro ext) (simp add: at_slot_def)

lemma at_slot_routed:
  "at_slot (st\<lparr>ds_sinks := (ds_sinks st)(s := map_option (\<lambda>p. p\<lparr>frames_routed := frames_routed p + 1\<rparr>) (ds_sinks st s))\<rparr>) = at_slot st"
  by (intro ext) (auto simp: at_slot_def split: option.split)

lemma route_target_slot: "route_target st f = Some (s, slot) \<Longrightarrow> at_slot st s slot \<noteq> None"
  by (auto simp: route_target_def at_slot_def dest: select_slot_sink split: option.splits)

lemma route_target_fields [simp]:
  "route_target (st\<lparr>record_buf := c\<rparr>) f = route_target st f" "route_target (st\<lparr>drain_at := a\<rparr>) f = route_target st f"
  by (auto simp: route_target_def split: option.splits)

text \<open>No step of the drain changes which sinks a symbol has.\<close>

definition same_slots :: "detail_state \<Rightarrow> detail_state \<Rightarrow> bool" where
  "same_slots st st' \<longleftrightarrow> dom (ds_sinks st') = dom (ds_sinks st) \<and>
     (\<forall>s slot. at_slot st' s slot = None \<longleftrightarrow> at_slot st s slot = None)"

lemma same_slots_target:
  assumes "same_slots st st'"
  shows "route_target st' f = route_target st f"
proof -
  have "map_option (Pair s) (select_slot type p) = map_option (Pair s) (select_slot type q)"
    if "ds_sinks st' s = Some p" "ds_sinks st s = Some q" for s type p q
    using assms that select_slot_cong [of p q type] by (simp add: same_slots_def at_slot_def split: option.splits)
  moreover have "ds_sinks st' s = None \<longleftrightarrow> ds_sinks st s = None" for s
    using assms unfolding same_slots_def by (metis domIff)
  ultimately have "(case ds_sinks st' s of None \<Rightarrow> None | Some p \<Rightarrow> map_option (Pair s) (select_slot type p)) =
      (case ds_sinks st s of None \<Rightarrow> None | Some p \<Rightarrow> map_option (Pair s) (select_slot type p))" for s type
    by (cases "ds_sinks st s"; cases "ds_sinks st' s") (metis option.distinct(1) option.case)+
  then show ?thesis by (simp add: route_target_def split: option.split prod.split)
qed

lemma same_slots_put: "at_slot st s slot \<noteq> None \<Longrightarrow> same_slots st (put_slot s slot x st)"
  by (simp add: same_slots_def at_slot_put)

lemma same_slots_refl [simp]: "same_slots st st"
  by (simp add: same_slots_def)

lemma same_slots_trans: "same_slots st st' \<Longrightarrow> same_slots st' st'' \<Longrightarrow> same_slots st st''"
  by (simp add: same_slots_def)

lemma same_slots_fields [simp]:
  "same_slots st (st'\<lparr>record_buf := c\<rparr>) = same_slots st st'" "same_slots (st\<lparr>record_buf := c\<rparr>) st' = same_slots st st'"
  "same_slots st (st'\<lparr>drain_at := a\<rparr>) = same_slots st st'"
  by (simp_all add: same_slots_def)

text \<open>What the drain keeps: the sinks there are, the subscriptions, and that a sink being written to is there.\<close>

definition write_ok :: "detail_state \<Rightarrow> bool" where
  "write_ok st \<longleftrightarrow> (\<forall>s slot f. drain_at st = Drain_writing s slot f \<longrightarrow> at_slot st s slot \<noteq> None)"

lemma at_slot_fields [simp]:
  "at_slot (st\<lparr>ds_closed := b\<rparr>) = at_slot st" "at_slot (st\<lparr>buf_closed := b\<rparr>) = at_slot st" "at_slot (st\<lparr>subscribed := S\<rparr>) = at_slot st"
  "at_slot (st\<lparr>snapshot_files := fs\<rparr>) = at_slot st" "at_slot (count_snapshot ok st) = at_slot st"
  by (intro ext, simp add: at_slot_def count_snapshot_def)+

lemma write_ok_fields [simp]:
  "write_ok (st\<lparr>ds_closed := b\<rparr>) = write_ok st" "write_ok (st\<lparr>buf_closed := b\<rparr>) = write_ok st"
  "write_ok (st\<lparr>subscribed := S\<rparr>) = write_ok st" "write_ok (st\<lparr>snapshot_files := fs\<rparr>) = write_ok st"
  "write_ok (count_snapshot ok st) = write_ok st"
  by (simp_all add: write_ok_def) (simp add: count_snapshot_def)

definition drain_keeps :: "detail_state \<Rightarrow> detail_state \<Rightarrow> bool" where
  "drain_keeps st st' \<longleftrightarrow> same_slots st st' \<and> subscribed st' = subscribed st \<and> ds_closed st' = ds_closed st \<and> write_ok st'"

lemma route_frame_keeps: "drain_keeps st (route_frame env f st)"
proof (cases "route_target st f")
  case None
  then show ?thesis by (simp add: drain_keeps_def route_frame_def write_ok_def)
next
  case (Some d)
  obtain s slot where d: "d = (s, slot)" by (cases d)
  have at: "at_slot st s slot \<noteq> None" using route_target_slot Some d by simp
  then have "same_slots st (put_slot s slot x st)" "at_slot (put_slot s slot x st) s slot \<noteq> None" for x
    by (simp_all add: same_slots_put at_slot_put)
  then show ?thesis by (auto simp: drain_keeps_def route_frame_def Some d write_ok_def split: prod.split)
qed

lemma drain_read_keeps: "drain_keeps st (drain_read env r st)"
proof (cases r)
  case (Read_item f)
  let ?st = "st\<lparr>record_buf := (record_buf st)\<lparr>drained_total := drained_total (record_buf st) + 1\<rparr>\<rparr>"
  show ?thesis
    using route_frame_keeps [of ?st env f] by (simp add: drain_keeps_def drain_read_def buffer_async_read_def Let_def Read_item)
next
  case Read_closed
  then show ?thesis by (simp add: drain_keeps_def drain_read_def buffer_async_read_def Let_def failure_def write_ok_def)
qed

lemma drain_written_keeps:
  assumes "write_ok st"
  shows "drain_keeps st (drain_written fails st)"
proof (cases "drain_at st")
  case (Drain_writing s slot f)
  then have at: "at_slot st s slot \<noteq> None" using assms by (simp add: write_ok_def)
  have same: "same_slots st (put_slot s slot x st)" for x by (rule same_slots_put [OF at])
  have routed: "same_slots st (st'\<lparr>ds_sinks := (ds_sinks st')(s := map_option (\<lambda>p. p\<lparr>frames_routed := frames_routed p + 1\<rparr>) (ds_sinks st' s))\<rparr>)" if "same_slots st st'" for st'
    using that at_slot_routed [of st' s] unfolding same_slots_def by (auto simp: dom_def)
  show ?thesis
    by (cases "sink_end fails f (the (at_slot st s slot))")
       (auto simp: drain_written_def Drain_writing drain_keeps_def write_ok_def Let_def same routed)
qed (simp_all add: drain_written_def drain_keeps_def write_ok_def)

section \<open>Streams and files\<close>

text \<open>Symbols as the exchange spells them: upper case, without the characters that end a name in a header.\<close>

definition sym_ok :: "string \<Rightarrow> bool" where
  "sym_ok s \<longleftrightarrow> to_upper s = s \<and> CHR ''@'' \<notin> set s \<and> CHR 0x22 \<notin> set s"

lemma upper_lower_char [simp]: "upper_char (lower_char c) = upper_char c"
proof (cases "65 \<le> (of_char c :: nat) \<and> (of_char c :: nat) \<le> 90")
  case True
  then have "(of_char (char_of ((of_char c :: nat) + 32) :: char) :: nat) = of_char c + 32" by simp
  with True show ?thesis by (simp add: lower_char_def upper_char_def)
qed (auto simp: lower_char_def)

lemma upper_of_lower: "to_upper_copy (to_lower s) = to_upper s"
  by (simp add: to_upper_copy_def to_lower_def to_upper_def)

lemma lower_char_plain: "lower_char c = d \<Longrightarrow> (of_char d :: nat) < 97 \<Longrightarrow> c = d"
proof (cases "65 \<le> (of_char c :: nat) \<and> (of_char c :: nat) \<le> 90")
  case True
  assume "lower_char c = d" "(of_char d :: nat) < 97"
  moreover have "(of_char (char_of ((of_char c :: nat) + 32) :: char) :: nat) = of_char c + 32" using True by simp
  ultimately show ?thesis using True by (auto simp: lower_char_def)
qed (auto simp: lower_char_def)

lemma to_lower_plain: "d \<notin> set s \<Longrightarrow> (of_char d :: nat) < 97 \<Longrightarrow> d \<notin> set (to_lower s)"
  unfolding to_lower_def using lower_char_plain [of _ d] by (metis imageE list.set_map)

lemma sym_ok_lower:
  assumes "sym_ok s"
  shows "str (symbol_of s) = s" "CHR ''@'' \<notin> set (to_lower s)" "CHR 0x22 \<notin> set (to_lower s)" "to_upper_copy (to_lower s) = s"
  using assms by (simp_all add: sym_ok_def symbol_of_def to_lower_plain upper_of_lower)

text \<open>The frame of a combined stream, and what the scan finds in it.\<close>

definition stream_member :: string where
  "stream_member = CHR 0x22 # ''stream'' @ [CHR 0x22, CHR '':'', CHR 0x22]"

definition combined_frame :: "string \<Rightarrow> string \<Rightarrow> string" where
  "combined_frame name rest = CHR ''{'' # stream_member @ name @ CHR 0x22 # rest"

lemma find_sub_here: "find_sub pat (pat @ s) = Some 0"
proof (cases "pat @ s")
  case (Cons c t)
  then have "take (length pat) (c # t) = pat" by (metis append_eq_conv_conj)
  then show ?thesis unfolding Cons by simp
qed simp

lemma find_sub_char: "c \<notin> set s \<Longrightarrow> find_sub [c] (s @ c # t) = Some (length s)"
  by (induction s) auto

lemma parse_combined:
  assumes "CHR ''@'' \<notin> set l" "CHR 0x22 \<notin> set l" "CHR 0x22 \<notin> set type"
  shows "parse_stream_header (combined_frame (l @ CHR ''@'' # type) rest) = Some (l, type)"
proof -
  have key: "find_sub stream_key (combined_frame n rest) = Some 1" for n
    using find_sub_here [of stream_key "n @ CHR 0x22 # rest"] by (simp add: combined_frame_def stream_key_def stream_member_def)
  have "find_sub [CHR 0x22] ((l @ CHR ''@'' # type) @ CHR 0x22 # rest) = Some (length (l @ CHR ''@'' # type))"
    by (rule find_sub_char) (use assms in simp)
  moreover have "drop (1 + length stream_key) (combined_frame (l @ CHR ''@'' # type) rest) = (l @ CHR ''@'' # type) @ CHR 0x22 # rest"
    by (simp add: combined_frame_def stream_member_def stream_key_def)
  ultimately show ?thesis
    using find_sub_char [OF assms(1), of type] by (simp add: parse_stream_header_def key Let_def)
qed

text \<open>The sinks of an admitted symbol, the slot of each of its subscriptions, and the type in its topic.\<close>

definition slots_ok :: "'d recorder_config \<Rightarrow> per_symbol_sinks \<Rightarrow> bool" where
  "slots_ok cfg p \<longleftrightarrow> agg_trade p \<noteq> None \<and> book_ticker p \<noteq> None \<and> mark_price p \<noteq> None \<and> force_order p \<noteq> None \<and>
     (depth_sink p \<noteq> None \<longleftrightarrow> with_depth cfg)"

definition subs_of :: "'d recorder_config \<Rightarrow> string \<Rightarrow> (sink_slot \<times> subscription) list" where
  "subs_of cfg s =
     [(Slot_book_ticker, Book_ticker_subscription (symbol_of s)), (Slot_agg_trade, Aggregate_trade_subscription (symbol_of s)),
      (Slot_mark_price, Mark_price_subscription (symbol_of s) True), (Slot_force_order, Liquidation_order_subscription (symbol_of s))] @
     map (Pair Slot_depth) (snd (public_subs cfg s))"

lemma depth_modes: "with_depth cfg \<longleftrightarrow> partial_depth cfg \<or> full_depth cfg" "\<not> (partial_depth cfg \<and> full_depth cfg)"
  by (cases "depth_mode cfg"; simp add: partial_depth_def full_depth_def)+

lemma subs_topic:
  assumes "sym_ok s" "(slot, sub) \<in> set (subs_of cfg s)" "slots_ok cfg p"
  obtains type where "topic sub = Inr (to_lower s @ CHR ''@'' # type)" "CHR 0x22 \<notin> set type" "select_slot type p = Some slot"
proof -
  have no_quote: "CHR 0x22 \<notin> set (int_to_string i)" for i
    using int_to_string_chars [of "CHR 0x22" i] by (auto simp: is_digit_def)
  show thesis
    using assms(2,3) that sym_ok_lower(1) [OF assms(1)] depth_modes [of cfg] no_quote
    by (auto simp: subs_of_def public_subs_def slots_ok_def select_slot_def split: if_splits)
qed

lemma subscription_destination:
  assumes "sym_ok s" "(slot, sub) \<in> set (subs_of cfg s)" "ds_sinks st s = Some p" "slots_ok cfg p" "topic sub = Inr name"
  shows "route_target st (combined_frame name rest) = Some (s, slot)"
proof -
  obtain type where t: "topic sub = Inr (to_lower s @ CHR ''@'' # type)" "CHR 0x22 \<notin> set type" "select_slot type p = Some slot"
    using subs_topic [OF assms(1,2,4)] by blast
  with assms(5) have "name = to_lower s @ CHR ''@'' # type" by simp
  then show ?thesis
    using parse_combined [OF sym_ok_lower(2,3) [OF assms(1)] t(2), of rest] t(3) assms(3) sym_ok_lower(4) [OF assms(1)]
    by (simp add: route_target_def)
qed

section \<open>The monitor as a machine\<close>

text \<open>A step of the manager. The active set is any set of names of symbols.\<close>

inductive manager_step ::
  "'d recorder_config \<Rightarrow> (order_book_response_t \<Rightarrow> string option) \<Rightarrow> (stream_control_request \<Rightarrow> string option) \<Rightarrow> monitor \<Rightarrow> monitor \<Rightarrow> bool"
  for cfg write_book write_json where
  timer: "mgr_at m = Mgr_timer \<Longrightarrow> distinct wanted \<Longrightarrow> list_all sym_ok wanted \<Longrightarrow> distinct walk \<Longrightarrow> set walk = subscribed (mon_st m) \<Longrightarrow>
    manager_step cfg write_book write_json m (on_timer cancelled wanted walk m)"
| snapshot: "mgr_at m = Mgr_snapshot s a r \<Longrightarrow> on_snapshot cfg write_book snap env s a r m = Inr m' \<Longrightarrow>
    manager_step cfg write_book write_json m m'"
| sub_public: "mgr_at m = Mgr_sub_public s a r \<Longrightarrow> on_sub_public cfg write_json outcome s a r m = Inr m' \<Longrightarrow>
    manager_step cfg write_book write_json m m'"
| sub_market: "mgr_at m = Mgr_sub_market s a r r_pub \<Longrightarrow> on_sub_market write_json env written outcome s a r r_pub m = Inr m' \<Longrightarrow>
    manager_step cfg write_book write_json m m'"
| unsub_public: "mgr_at m = Mgr_unsub_public s r \<Longrightarrow> on_unsub_public cfg write_json outcome s r m = Inr m' \<Longrightarrow>
    manager_step cfg write_book write_json m m'"
| unsub_market: "mgr_at m = Mgr_unsub_market s r \<Longrightarrow> on_unsub_market write_json env written outcome s r m = Inr m' \<Longrightarrow>
    manager_step cfg write_book write_json m m'"
| resnap_begin: "mgr_at m = Mgr_resnap_begin \<Longrightarrow> distinct walk \<Longrightarrow> set walk = dom (ds_sinks (mon_st m)) \<Longrightarrow>
    manager_step cfg write_book write_json m (on_resnap_begin cfg now walk m)"
| resnap: "mgr_at m = Mgr_resnap s rest \<Longrightarrow> on_resnap cfg write_book snap now s rest m = Inr m' \<Longrightarrow>
    manager_step cfg write_book write_json m m'"

text \<open>
  A step of the monitor: of the drain, which suspends at every write, of the read loop of a connection, which may find
  the connection lost, or of the manager. Nothing is said of what follows undefined behaviour.
\<close>

inductive monitor_step ::
  "'d recorder_config \<Rightarrow> (order_book_response_t \<Rightarrow> string option) \<Rightarrow> (stream_control_request \<Rightarrow> string option) \<Rightarrow> monitor \<Rightarrow> monitor \<Rightarrow> bool"
  for cfg write_book write_json where
  drain_read: "drain_at (mon_st m) = Drain_reading \<Longrightarrow>
    monitor_step cfg write_book write_json m (m\<lparr>mon_st := drain_read env r (mon_st m)\<rparr>)"
| drain_written: "drain_at (mon_st m) = Drain_writing s slot f \<or> drain_at (mon_st m) = Drain_dangling \<Longrightarrow>
    monitor_step cfg write_book write_json m (m\<lparr>mon_st := drain_written fails (mon_st m)\<rparr>)"
| read_public: "\<not> pub_lost m \<Longrightarrow> monitor_step cfg write_book write_json m (on_read_public r m)"
| read_market: "\<not> mkt_lost m \<Longrightarrow> monitor_step cfg write_book write_json m (on_read_market r m)"
| manager: "drain_at (mon_st m) \<noteq> Drain_undefined \<Longrightarrow> manager_step cfg write_book write_json m m' \<Longrightarrow>
    monitor_step cfg write_book write_json m m'"

inductive monitor_reachable ::
  "'d recorder_config \<Rightarrow> (order_book_response_t \<Rightarrow> string option) \<Rightarrow> (stream_control_request \<Rightarrow> string option) \<Rightarrow> monitor \<Rightarrow> bool"
  for cfg write_book write_json where
  start: "monitor_reachable cfg write_book write_json (new_monitor fs)"
| step: "monitor_reachable cfg write_book write_json m \<Longrightarrow> monitor_step cfg write_book write_json m m' \<Longrightarrow>
    monitor_reachable cfg write_book write_json m'"

text \<open>The topics asked for on a connection by its control messages, and those that are live as long as it is not lost.\<close>

definition apply_control :: "string set \<Rightarrow> stream_control_request \<Rightarrow> string set" where
  "apply_control L req =
     (if req_meth req = ''SUBSCRIBE'' then L \<union> set (req_params req)
      else if req_meth req = ''UNSUBSCRIBE'' then L - set (req_params req) else L)"

definition requested_topics :: "dynamic_stream \<Rightarrow> string set" where
  "requested_topics d = foldl apply_control {} (sent d)"

definition live_public :: "monitor \<Rightarrow> string set" where
  "live_public m = (if pub_lost m then {} else requested_topics (dyn_pub m))"

definition live_market :: "monitor \<Rightarrow> string set" where
  "live_market m = (if mkt_lost m then {} else requested_topics (dyn_mkt m))"

definition topic_set :: "subscription \<times> subscription list \<Rightarrow> string set" where
  "topic_set subs = (case topics_of (fst subs # snd subs) of Inl _ \<Rightarrow> {} | Inr ts \<Rightarrow> set ts)"

lemma requested_topics_snoc: "sent d' = sent d @ [req] \<Longrightarrow> requested_topics d' = apply_control (requested_topics d) req"
  by (simp add: requested_topics_def)

lemma subscribe_live:
  assumes "async_subscribe write_json outcome f r d = Inr (e, d')" "category f = dyn_category d"
  shows "dyn_category d' = dyn_category d \<and> requested_topics d \<subseteq> requested_topics d' \<and>
    (void_ok e \<longrightarrow> topic_set (f, r) \<subseteq> requested_topics d')"
proof -
  obtain ts where ts: "topics_of (f # r) = Inr ts" using topics_of_defined by blast
  let ?req = "\<lparr>req_meth = ''SUBSCRIBE'', req_params = ts, req_id = id_counter d + 1\<rparr>"
  have same: "requested_topics (d\<lparr>id_counter := n\<rparr>) = requested_topics d" for n by (simp add: requested_topics_def)
  have e: "(e, d') = (case write_json ?req of None \<Rightarrow> (void_failure (mk_error Ec_json 0 0 ''failed to serialize control request'' []), d\<lparr>id_counter := id_counter d + 1\<rparr>)
      | Some json \<Rightarrow> (outcome, d\<lparr>id_counter := id_counter d + 1, sent := sent d @ [?req]\<rparr>))"
    using assms by (simp add: async_subscribe_def send_topics_def ts next_id_def send_control_def Let_def del: topics_of.simps split: option.splits)
  show ?thesis
  proof (cases "write_json ?req")
    case None
    then show ?thesis using e by (simp add: void_ok_def void_failure_def same)
  next
    case (Some json)
    then have d': "d' = d\<lparr>id_counter := id_counter d + 1, sent := sent d @ [?req]\<rparr>" using e by simp
    then have "requested_topics d' = apply_control (requested_topics d) ?req" by (intro requested_topics_snoc) simp
    then show ?thesis by (auto simp: d' apply_control_def topic_set_def ts simp del: topics_of.simps)
  qed
qed

lemma unsubscribe_live:
  assumes "async_unsubscribe write_json outcome f r d = Inr (e, d')" "category f = dyn_category d"
  shows "dyn_category d' = dyn_category d \<and> requested_topics d - topic_set (f, r) \<subseteq> requested_topics d'"
proof -
  obtain ts where ts: "topics_of (f # r) = Inr ts" using topics_of_defined by blast
  let ?req = "\<lparr>req_meth = ''UNSUBSCRIBE'', req_params = ts, req_id = id_counter d + 1\<rparr>"
  have same: "requested_topics (d\<lparr>id_counter := n\<rparr>) = requested_topics d" for n by (simp add: requested_topics_def)
  have e: "(e, d') = (case write_json ?req of None \<Rightarrow> (void_failure (mk_error Ec_json 0 0 ''failed to serialize control request'' []), d\<lparr>id_counter := id_counter d + 1\<rparr>)
      | Some json \<Rightarrow> (outcome, d\<lparr>id_counter := id_counter d + 1, sent := sent d @ [?req]\<rparr>))"
    using assms by (simp add: async_unsubscribe_def send_topics_def ts next_id_def send_control_def Let_def del: topics_of.simps split: option.splits)
  show ?thesis
  proof (cases "write_json ?req")
    case None
    then show ?thesis using e by (auto simp: same)
  next
    case (Some json)
    then have d': "d' = d\<lparr>id_counter := id_counter d + 1, sent := sent d @ [?req]\<rparr>" using e by simp
    then have "requested_topics d' = apply_control (requested_topics d) ?req" by (intro requested_topics_snoc) simp
    then show ?thesis by (simp add: d' apply_control_def topic_set_def ts del: topics_of.simps)
  qed
qed

text \<open>The topics of different symbols are different.\<close>

lemma topic_set_prefix:
  assumes "sym_ok s"
  shows "t \<in> topic_set (public_subs cfg s) \<Longrightarrow> \<exists>u. t = to_lower s @ CHR ''@'' # u"
    "t \<in> topic_set (market_subs s) \<Longrightarrow> \<exists>u. t = to_lower s @ CHR ''@'' # u"
  using sym_ok_lower(1) [OF assms]
  by (auto simp: topic_set_def public_subs_def market_subs_def split: if_splits)

lemma prefixes_differ:
  assumes "sym_ok s" "sym_ok s'" "to_lower s @ CHR ''@'' # u = to_lower s' @ CHR ''@'' # u'"
  shows "s = s'"
proof -
  have "to_lower s = to_lower s'"
    using assms(3) split_at_iff [OF sym_ok_lower(2) [OF assms(1)] sym_ok_lower(2) [OF assms(2)]] by blast
  then show ?thesis using sym_ok_lower(4) [OF assms(1)] sym_ok_lower(4) [OF assms(2)] by metis
qed

lemma topics_disjoint:
  assumes "sym_ok s" "sym_ok s'" "s \<noteq> s'"
  shows "topic_set (public_subs cfg s) \<inter> topic_set (public_subs cfg s') = {}"
    "topic_set (market_subs s) \<inter> topic_set (market_subs s') = {}"
proof -
  have no: False if "\<exists>u. t = to_lower s @ CHR ''@'' # u" "\<exists>u. t = to_lower s' @ CHR ''@'' # u" for t
    using that prefixes_differ [OF assms(1,2)] assms(3) by blast
  show "topic_set (public_subs cfg s) \<inter> topic_set (public_subs cfg s') = {}"
    using no [OF topic_set_prefix(1) [OF assms(1)] topic_set_prefix(1) [OF assms(2)]] by blast
  show "topic_set (market_subs s) \<inter> topic_set (market_subs s') = {}"
    using no [OF topic_set_prefix(2) [OF assms(1)] topic_set_prefix(2) [OF assms(2)]] by blast
qed

section \<open>What the monitor maintains\<close>

fun pending :: "manager_at \<Rightarrow> string set" where
  "pending (Mgr_sub_public s a r) = {s}"
| "pending (Mgr_sub_market s a r e) = {s}"
| "pending _ = {}"

fun leaving :: "manager_at \<Rightarrow> string set" where
  "leaving (Mgr_unsub_market s r) = {s}"
| "leaving _ = {}"

definition removes_ok :: "detail_state \<Rightarrow> string list \<Rightarrow> bool" where
  "removes_ok st r \<longleftrightarrow> distinct r \<and> set r \<subseteq> subscribed st"

definition adds_ok :: "detail_state \<Rightarrow> string list \<Rightarrow> string list \<Rightarrow> bool" where
  "adds_ok st a r \<longleftrightarrow> distinct a \<and> set a \<inter> subscribed st = {} \<and> list_all sym_ok a \<and> removes_ok st r"

fun at_ok :: "detail_state \<Rightarrow> manager_at \<Rightarrow> bool" where
  "at_ok st (Mgr_snapshot s a r) = adds_ok st (s # a) r"
| "at_ok st (Mgr_sub_public s a r) = adds_ok st (s # a) r"
| "at_ok st (Mgr_sub_market s a r e) = adds_ok st (s # a) r"
| "at_ok st (Mgr_unsub_public s r) = removes_ok st (s # r)"
| "at_ok st (Mgr_unsub_market s r) = removes_ok st (s # r)"
| "at_ok st _ = True"

text \<open>The invariant with the symbol being added and the symbol being removed.\<close>

definition core_inv :: "'d recorder_config \<Rightarrow> string set \<Rightarrow> string set \<Rightarrow> monitor \<Rightarrow> bool" where
  "core_inv cfg coming going m \<longleftrightarrow>
     dom (ds_sinks (mon_st m)) = subscribed (mon_st m) \<union> coming \<and>
     (\<forall>s p. ds_sinks (mon_st m) s = Some p \<longrightarrow> slots_ok cfg p) \<and>
     (\<forall>s\<in>subscribed (mon_st m). sym_ok s) \<and> write_ok (mon_st m) \<and>
     dyn_category (dyn_pub m) = Public_category \<and> dyn_category (dyn_mkt m) = Market_category \<and>
     (\<forall>s\<in>subscribed (mon_st m) - going. topic_set (public_subs cfg s) \<subseteq> requested_topics (dyn_pub m)) \<and>
     (\<forall>s\<in>subscribed (mon_st m). topic_set (market_subs s) \<subseteq> requested_topics (dyn_mkt m))"

definition pub_done :: "'d recorder_config \<Rightarrow> monitor \<Rightarrow> bool" where
  "pub_done cfg m \<longleftrightarrow> (\<forall>s a r e. mgr_at m = Mgr_sub_market s a r e \<longrightarrow> void_ok e \<longrightarrow> topic_set (public_subs cfg s) \<subseteq> requested_topics (dyn_pub m))"

definition mon_inv :: "'d recorder_config \<Rightarrow> monitor \<Rightarrow> bool" where
  "mon_inv cfg m \<longleftrightarrow> core_inv cfg (pending (mgr_at m)) (leaving (mgr_at m)) m \<and> at_ok (mon_st m) (mgr_at m) \<and> pub_done cfg m"

lemma core_inv_at [simp]: "core_inv cfg A B (m\<lparr>mgr_at := x\<rparr>) = core_inv cfg A B m"
  by (simp add: core_inv_def)

lemma inv_exit: "core_inv cfg {} {} m \<Longrightarrow> mon_inv cfg (exit_manager m)"
  by (simp add: mon_inv_def exit_manager_def core_inv_def pub_done_def)

lemma inv_cycle: "core_inv cfg {} {} m \<Longrightarrow> mon_inv cfg (next_cycle m)"
  by (cases "ds_closed (mon_st m)") (simp add: next_cycle_def inv_exit, simp add: next_cycle_def mon_inv_def pub_done_def)

lemma inv_removal: "core_inv cfg {} {} m \<Longrightarrow> removes_ok (mon_st m) r \<Longrightarrow> mon_inv cfg (next_removal r m)"
  by (cases r) (simp_all add: next_removal_def mon_inv_def pub_done_def)

lemma inv_addition: "core_inv cfg {} {} m \<Longrightarrow> adds_ok (mon_st m) a r \<Longrightarrow> mon_inv cfg (next_addition a r m)"
  by (cases a) (simp add: next_addition_def inv_removal adds_ok_def, simp add: next_addition_def mon_inv_def pub_done_def)

lemma inv_resnap: "core_inv cfg {} {} m \<Longrightarrow> mon_inv cfg (next_resnap due_syms m)"
  by (cases due_syms) (simp add: next_resnap_def inv_cycle, simp add: next_resnap_def mon_inv_def pub_done_def)

lemma slots_at: "slots_ok cfg p \<longleftrightarrow> (\<forall>slot. slot_sink slot p \<noteq> None \<longleftrightarrow> slot \<noteq> Slot_depth \<or> with_depth cfg)"
proof
  assume p: "slots_ok cfg p"
  show "\<forall>slot. slot_sink slot p \<noteq> None \<longleftrightarrow> slot \<noteq> Slot_depth \<or> with_depth cfg"
  proof
    fix slot show "slot_sink slot p \<noteq> None \<longleftrightarrow> slot \<noteq> Slot_depth \<or> with_depth cfg"
      using p by (cases slot) (simp_all add: slots_ok_def)
  qed
next
  assume p: "\<forall>slot. slot_sink slot p \<noteq> None \<longleftrightarrow> slot \<noteq> Slot_depth \<or> with_depth cfg"
  show "slots_ok cfg p"
    using spec [OF p, of Slot_agg_trade] spec [OF p, of Slot_book_ticker] spec [OF p, of Slot_mark_price]
      spec [OF p, of Slot_force_order] spec [OF p, of Slot_depth]
    by (simp add: slots_ok_def)
qed

lemma same_slots_ok:
  assumes "same_slots st st'" "\<forall>s p. ds_sinks st s = Some p \<longrightarrow> slots_ok cfg p" "ds_sinks st' s = Some q"
  shows "slots_ok cfg q"
proof -
  obtain p where p: "ds_sinks st s = Some p" using assms(1,3) unfolding same_slots_def by (metis domD domI)
  then have "slot_sink slot q = None \<longleftrightarrow> slot_sink slot p = None" for slot
    using assms(1,3) unfolding same_slots_def at_slot_def by (metis option.simps(5))
  then show ?thesis using assms(2) p unfolding slots_at by metis
qed

lemma inv_drain:
  assumes "mon_inv cfg m" "drain_keeps (mon_st m) st"
  shows "mon_inv cfg (m\<lparr>mon_st := st\<rparr>)"
proof -
  have keeps: "same_slots (mon_st m) st" "subscribed st = subscribed (mon_st m)" "write_ok st"
    using assms(2) by (simp_all add: drain_keeps_def)
  then have dom: "dom (ds_sinks st) = dom (ds_sinks (mon_st m))" by (simp add: same_slots_def)
  have "removes_ok st r \<longleftrightarrow> removes_ok (mon_st m) r" "adds_ok st a r \<longleftrightarrow> adds_ok (mon_st m) a r" for a r
    by (simp_all add: removes_ok_def adds_ok_def keeps(2))
  then have "at_ok st (mgr_at m)" using assms(1) by (cases "mgr_at m") (simp_all add: mon_inv_def)
  moreover have "\<forall>s q. ds_sinks st s = Some q \<longrightarrow> slots_ok cfg q"
    using same_slots_ok [OF keeps(1)] assms(1) unfolding mon_inv_def core_inv_def by blast
  ultimately show ?thesis using assms(1) by (simp add: mon_inv_def core_inv_def keeps(2,3) dom pub_done_def)
qed

text \<open>The manager takes the sink from a write only by destroying it, and then the write is left dangling.\<close>

lemma at_slot_add: "ds_sinks st s = None \<Longrightarrow> at_slot st s' slot \<noteq> None \<Longrightarrow>
    at_slot (st\<lparr>ds_sinks := (ds_sinks st)(s \<mapsto> p)\<rparr>) s' slot = at_slot st s' slot"
  by (auto simp: at_slot_def)

lemma write_ok_same:
  assumes "drain_at st' = drain_at st" "\<forall>s slot. at_slot st s slot \<noteq> None \<longrightarrow> at_slot st' s slot \<noteq> None"
  shows "write_ok st \<Longrightarrow> write_ok st'"
  using assms by (simp add: write_ok_def)

lemma write_ok_add:
  assumes "ds_sinks st s = None" "write_ok st"
  shows "write_ok (st\<lparr>ds_sinks := (ds_sinks st)(s \<mapsto> p)\<rparr>)"
proof (rule write_ok_same [OF _ _ assms(2)])
  show "\<forall>s' slot. at_slot st s' slot \<noteq> None \<longrightarrow> at_slot (st\<lparr>ds_sinks := (ds_sinks st)(s \<mapsto> p)\<rparr>) s' slot \<noteq> None"
    using at_slot_add [OF assms(1)] by metis
qed simp

lemma erase_sinks_none: "ds_sinks st s = None \<Longrightarrow> erase_sinks env written s st = st"
  by (simp add: erase_sinks_def)

lemma at_slot_erase: "at_slot (erase_sinks env written s st) s' slot = (if s' = s then None else at_slot st s' slot)"
  by (simp add: at_slot_def)

lemma write_ok_erase:
  assumes "write_ok st"
  shows "write_ok (erase_sinks env written s st)"
proof (cases "ds_sinks st s")
  case None
  then show ?thesis using assms by (simp add: erase_sinks_none)
next
  case (Some p)
  then show ?thesis
    using assms by (auto simp: write_ok_def erase_sinks_at at_slot_erase split: drain_at.splits if_splits)
qed

lemma at_slot_resnap:
  "at_slot (st\<lparr>ds_sinks := (ds_sinks st)(s := map_option (\<lambda>p. p\<lparr>next_resnap_at := t\<rparr>) (ds_sinks st s))\<rparr>) = at_slot st"
  by (intro ext) (auto simp: at_slot_def split: option.split)

lemma inv_timer:
  assumes "mon_inv cfg m" "mgr_at m = Mgr_timer" "distinct wanted" "list_all sym_ok wanted" "distinct walk" "set walk = subscribed (mon_st m)"
  shows "mon_inv cfg (on_timer cancelled wanted walk m)"
proof -
  have core: "core_inv cfg {} {} m" using assms(1,2) by (simp add: mon_inv_def)
  have "adds_ok (mon_st m) (filter (\<lambda>s. s \<notin> subscribed (mon_st m)) wanted) (filter (\<lambda>s. s \<notin> set wanted) walk)"
    using assms by (auto simp: adds_ok_def removes_ok_def list_all_iff)
  then show ?thesis using core by (simp add: on_timer_def inv_exit inv_addition)
qed

lemma open_sinks_ok: "open_sinks cfg env s = Some p \<Longrightarrow> slots_ok cfg p"
  using depth_modes [of cfg]
  by (auto simp: open_sinks_def slots_ok_def Let_def bind_eq_Some_conv split: if_splits)

lemma inv_snapshot:
  assumes "mon_inv cfg m" "mgr_at m = Mgr_snapshot s a r" "on_snapshot cfg write_book snap env s a r m = Inr m'"
  shows "mon_inv cfg m'"
proof -
  obtain ok fs where fs: "fetch_depth_snapshot write_book snap (root_dir cfg) s ''startup'' (snapshot_files (mon_st m)) = Inr (ok, fs)"
    using assms(3) by (auto simp: on_snapshot_def bind_exn_def split: sum.splits)
  define st where "st = count_snapshot ok (mon_st m\<lparr>snapshot_files := fs\<rparr>)"
  have st: "ds_sinks st = ds_sinks (mon_st m)" "subscribed st = subscribed (mon_st m)" "write_ok st = write_ok (mon_st m)"
    by (simp_all add: st_def) (simp_all add: count_snapshot_def)
  have core: "core_inv cfg {} {} m" and adds: "adds_ok (mon_st m) (s # a) r" using assms(1,2) by (simp_all add: mon_inv_def)
  show ?thesis
  proof (cases "open_sinks cfg env s")
    case None
    then have "m' = m\<lparr>mon_st := st, mgr_at := Mgr_threw\<rparr>"
      using assms(3) by (simp add: on_snapshot_def fs st_def Let_def)
    then show ?thesis using core by (simp add: mon_inv_def core_inv_def st pub_done_def)
  next
    case (Some p)
    have new: "ds_sinks st s = None" "sym_ok s"
      using core adds by (auto simp: core_inv_def adds_ok_def st dom_def)
    then have m': "m' = m\<lparr>mon_st := st\<lparr>ds_sinks := (ds_sinks st)(s \<mapsto> p)\<rparr>, mgr_at := Mgr_sub_public s a r\<rparr>"
      using assms(3) Some by (simp add: on_snapshot_def fs st_def Let_def)
    have "write_ok (st\<lparr>ds_sinks := (ds_sinks st)(s \<mapsto> p)\<rparr>)"
      using core by (intro write_ok_add new(1)) (simp add: core_inv_def st)
    then show ?thesis
      using core adds open_sinks_ok [OF Some]
      by (simp add: m' mon_inv_def core_inv_def st pub_done_def adds_ok_def removes_ok_def)
  qed
qed

lemma inv_sub_public:
  assumes "mon_inv cfg m" "mgr_at m = Mgr_sub_public s a r" "on_sub_public cfg write_json outcome s a r m = Inr m'"
  shows "mon_inv cfg m'"
proof -
  obtain e d where d: "async_subscribe write_json outcome (fst (public_subs cfg s)) (snd (public_subs cfg s)) (dyn_pub m) = Inr (e, d)"
    and m': "m' = m\<lparr>dyn_pub := d, mgr_at := Mgr_sub_market s a r e\<rparr>"
    using assms(3) by (auto simp: on_sub_public_def bind_exn_def split: sum.splits)
  have "category (fst (public_subs cfg s)) = dyn_category (dyn_pub m)"
    using assms(1) by (simp add: mon_inv_def core_inv_def public_subs_def)
  note live = subscribe_live [OF d this, simplified]
  have core: "core_inv cfg {s} {} m" and adds: "adds_ok (mon_st m) (s # a) r" using assms(1,2) by (simp_all add: mon_inv_def)
  then have "\<forall>t\<in>subscribed (mon_st m). topic_set (public_subs cfg t) \<subseteq> requested_topics d"
    using live unfolding core_inv_def by blast
  then show ?thesis using core adds live by (simp add: m' mon_inv_def core_inv_def pub_done_def)
qed

lemma inv_sub_market:
  assumes "mon_inv cfg m" "mgr_at m = Mgr_sub_market s a r e" "on_sub_market write_json env written outcome s a r e m = Inr m'"
  shows "mon_inv cfg m'"
proof -
  obtain e' d where d: "async_subscribe write_json outcome (fst (market_subs s)) (snd (market_subs s)) (dyn_mkt m) = Inr (e', d)"
    using assms(3) by (auto simp: on_sub_market_def bind_exn_def split: sum.splits)
  define st where "st = (if \<not> void_ok e \<or> \<not> void_ok e' then erase_sinks env written s (mon_st m)
      else (mon_st m)\<lparr>subscribed := insert s (subscribed (mon_st m))\<rparr>)"
  have m': "m' = next_addition a r (m\<lparr>dyn_mkt := d, mon_st := st\<rparr>)"
    using assms(3) by (simp add: on_sub_market_def d st_def Let_def)
  have core: "core_inv cfg {s} {} m" and adds: "adds_ok (mon_st m) (s # a) r"
    and pub: "void_ok e \<Longrightarrow> topic_set (public_subs cfg s) \<subseteq> requested_topics (dyn_pub m)"
    using assms(1,2) by (simp_all add: mon_inv_def pub_done_def)
  have "category (fst (market_subs s)) = dyn_category (dyn_mkt m)"
    using core by (simp add: core_inv_def market_subs_def)
  note live = subscribe_live [OF d this, simplified]
  have s: "s \<notin> subscribed (mon_st m)" "sym_ok s" using adds by (simp_all add: adds_ok_def)
  have mkt: "\<forall>t\<in>subscribed (mon_st m). topic_set (market_subs t) \<subseteq> requested_topics d" using core live unfolding core_inv_def by blast
  have "core_inv cfg {} {} (m\<lparr>dyn_mkt := d, mon_st := st\<rparr>)"
  proof (cases "void_ok e \<and> void_ok e'")
    case True
    then have st: "st = (mon_st m)\<lparr>subscribed := insert s (subscribed (mon_st m))\<rparr>" by (simp add: st_def)
    show ?thesis using core s mkt live pub True by (simp add: core_inv_def st)
  next
    case False
    then have st: "st = erase_sinks env written s (mon_st m)" by (auto simp: st_def)
    have "dom ((ds_sinks (mon_st m))(s := None)) = subscribed (mon_st m)" using core s by (auto simp: core_inv_def)
    then show ?thesis using core mkt live by (simp add: core_inv_def st write_ok_erase)
  qed
  moreover have "adds_ok st a r" using adds by (auto simp: st_def adds_ok_def removes_ok_def)
  ultimately show ?thesis unfolding m' by (intro inv_addition) simp_all
qed

lemma inv_unsub_public:
  assumes "mon_inv cfg m" "mgr_at m = Mgr_unsub_public s r" "on_unsub_public cfg write_json outcome s r m = Inr m'"
  shows "mon_inv cfg m'"
proof -
  obtain e d where d: "async_unsubscribe write_json outcome (fst (public_subs cfg s)) (snd (public_subs cfg s)) (dyn_pub m) = Inr (e, d)"
    and m': "m' = m\<lparr>dyn_pub := d, mgr_at := Mgr_unsub_market s r\<rparr>"
    using assms(3) by (auto simp: on_unsub_public_def bind_exn_def split: sum.splits)
  have core: "core_inv cfg {} {} m" and rem: "removes_ok (mon_st m) (s # r)"
    using assms(1,2) by (simp_all add: mon_inv_def)
  have "category (fst (public_subs cfg s)) = dyn_category (dyn_pub m)" using core by (simp add: core_inv_def public_subs_def)
  note live = unsubscribe_live [OF d this, simplified]
  have "topic_set (public_subs cfg t) \<subseteq> requested_topics d" if "t \<in> subscribed (mon_st m)" "t \<noteq> s" for t
  proof -
    have "sym_ok t" "sym_ok s" "topic_set (public_subs cfg t) \<subseteq> requested_topics (dyn_pub m)"
      using core rem that by (auto simp: core_inv_def removes_ok_def)
    then show ?thesis using live topics_disjoint(1) [of t s cfg] that by blast
  qed
  then show ?thesis
    using core rem live by (simp add: m' mon_inv_def core_inv_def pub_done_def)
qed

lemma inv_unsub_market:
  assumes "mon_inv cfg m" "mgr_at m = Mgr_unsub_market s r" "on_unsub_market write_json env written outcome s r m = Inr m'"
  shows "mon_inv cfg m'"
proof -
  obtain e d where d: "async_unsubscribe write_json outcome (fst (market_subs s)) (snd (market_subs s)) (dyn_mkt m) = Inr (e, d)"
    and m': "m' = next_removal r (m\<lparr>dyn_mkt := d, mon_st := (erase_sinks env written s (mon_st m))\<lparr>subscribed := subscribed (mon_st m) - {s}\<rparr>\<rparr>)"
    using assms(3) by (auto simp: on_unsub_market_def bind_exn_def Let_def split: sum.splits)
  have core: "core_inv cfg {} {s} m" and rem: "removes_ok (mon_st m) (s # r)"
    using assms(1,2) by (simp_all add: mon_inv_def)
  have "category (fst (market_subs s)) = dyn_category (dyn_mkt m)" using core by (simp add: core_inv_def market_subs_def)
  note live = unsubscribe_live [OF d this, simplified]
  have mkt: "topic_set (market_subs t) \<subseteq> requested_topics d" if "t \<in> subscribed (mon_st m)" "t \<noteq> s" for t
  proof -
    have "sym_ok t" "sym_ok s" "topic_set (market_subs t) \<subseteq> requested_topics (dyn_mkt m)"
      using core rem that by (auto simp: core_inv_def removes_ok_def)
    then show ?thesis using live topics_disjoint(2) [of t s] that by blast
  qed
  show ?thesis
    unfolding m'
  proof (rule inv_removal)
    show "core_inv cfg {} {} (m\<lparr>dyn_mkt := d, mon_st := (erase_sinks env written s (mon_st m))\<lparr>subscribed := subscribed (mon_st m) - {s}\<rparr>\<rparr>)"
      using core mkt live by (auto simp: core_inv_def write_ok_erase split: if_splits)
  qed (use rem in \<open>auto simp: removes_ok_def\<close>)
qed

lemma inv_resnap_done:
  assumes "mon_inv cfg m" "mgr_at m = Mgr_resnap s rest" "on_resnap cfg write_book snap now s rest m = Inr m'"
  shows "mon_inv cfg m'"
proof -
  obtain ok fs where fs: "fetch_depth_snapshot write_book snap (root_dir cfg) s ''resnap'' (snapshot_files (mon_st m)) = Inr (ok, fs)"
    using assms(3) by (auto simp: on_resnap_def bind_exn_def split: sum.splits)
  define st where "st = count_snapshot ok (mon_st m\<lparr>snapshot_files := fs\<rparr>)"
  have st: "ds_sinks st = ds_sinks (mon_st m)" "subscribed st = subscribed (mon_st m)" "write_ok st = write_ok (mon_st m)"
    by (simp_all add: st_def) (simp_all add: count_snapshot_def)
  have core: "core_inv cfg {} {} m" using assms(1,2) by (simp add: mon_inv_def)
  let ?st = "case ds_sinks st s of None \<Rightarrow> st
    | Some p \<Rightarrow> st\<lparr>ds_sinks := (ds_sinks st)(s \<mapsto> p\<lparr>next_resnap_at := Some (now + uint (depth_resnap_seconds cfg) * 1000000000)\<rparr>)\<rparr>"
  have m': "m' = next_resnap rest (m\<lparr>mon_st := ?st\<rparr>)" 
    using assms(3) by (cases "ds_sinks st s") (simp_all add: on_resnap_def fs Let_def flip: st_def)
  have "slots_ok cfg (p\<lparr>next_resnap_at := t\<rparr>) = slots_ok cfg p" for p t by (simp add: slots_ok_def)
  moreover have "insert s (subscribed (mon_st m)) = subscribed (mon_st m)" if "ds_sinks st s = Some p" for p
    using core that by (auto simp: core_inv_def st)
  moreover have "write_ok ?st"
  proof (cases "ds_sinks st s")
    case (Some p)
    then show ?thesis
      using core write_ok_same [of ?st st] at_slot_resnap [of st s "Some (now + uint (depth_resnap_seconds cfg) * 1000000000)"]
      by (simp add: core_inv_def st)
  qed (use core in \<open>simp add: core_inv_def st\<close>)
  ultimately have "core_inv cfg {} {} (m\<lparr>mon_st := ?st\<rparr>)"
    using core by (cases "ds_sinks st s") (simp_all add: core_inv_def st)
  then show ?thesis unfolding m' by (rule inv_resnap)
qed

lemma inv_manager: "manager_step cfg write_book write_json m m' \<Longrightarrow> mon_inv cfg m \<Longrightarrow> mon_inv cfg m'"
proof (induction rule: manager_step.induct)
  case (resnap_begin m walk now)
  then have "core_inv cfg {} {} m" by (simp add: mon_inv_def)
  then show ?case by (simp add: on_resnap_begin_def inv_resnap inv_cycle)
qed (auto intro: inv_timer inv_snapshot inv_sub_public inv_sub_market inv_unsub_public inv_unsub_market inv_resnap_done)

lemma inv_reads: "mon_inv cfg m \<Longrightarrow> mon_inv cfg (on_read_public r m)" "mon_inv cfg m \<Longrightarrow> mon_inv cfg (on_read_market r m)"
  by (simp_all add: on_read_public_def on_read_market_def mon_inv_def core_inv_def pub_done_def)

lemma inv_step: "monitor_step cfg write_book write_json m m' \<Longrightarrow> mon_inv cfg m \<Longrightarrow> mon_inv cfg m'"
proof (induction rule: monitor_step.induct)
  case (drain_read m env r)
  then show ?case by (intro inv_drain drain_read_keeps)
next
  case (drain_written m s slot f fails)
  then show ?case by (intro inv_drain drain_written_keeps) (simp_all add: mon_inv_def core_inv_def)
qed (auto intro: inv_reads inv_manager)

lemma inv_reachable: "monitor_reachable cfg write_book write_json m \<Longrightarrow> mon_inv cfg m"
proof (induction rule: monitor_reachable.induct)
  case (start fs)
  show ?case by (simp add: new_monitor_def mon_inv_def core_inv_def pub_done_def new_detail_state_def new_dynamic_stream_def write_ok_def)
qed (rule inv_step)

section \<open>What the drain records\<close>

text \<open>
  What may arrive: a frame of a stream of a symbol, with the sink the stream belongs to, or text that is not a frame of a
  combined stream, such as the answer to a control message.
\<close>

datatype arrival = Stream_frame string sink_slot string string | Other_text string

fun arrival_text :: "arrival \<Rightarrow> string" where
  "arrival_text (Stream_frame s slot name rest) = combined_frame name rest"
| "arrival_text (Other_text f) = f"

fun arrival_ok :: "'d recorder_config \<Rightarrow> arrival \<Rightarrow> bool" where
  "arrival_ok cfg (Stream_frame s slot name rest) \<longleftrightarrow> sym_ok s \<and> (\<exists>sub. (slot, sub) \<in> set (subs_of cfg s) \<and> topic sub = Inr name)"
| "arrival_ok cfg (Other_text f) \<longleftrightarrow> (\<nexists>a b. f = a @ stream_member @ b)"

fun arrives_for :: "string \<Rightarrow> sink_slot \<Rightarrow> arrival \<Rightarrow> bool" where
  "arrives_for s slot (Stream_frame s' slot' name rest) \<longleftrightarrow> s' = s \<and> slot' = slot"
| "arrives_for s slot (Other_text f) \<longleftrightarrow> False"

definition arrivals_for :: "string \<Rightarrow> sink_slot \<Rightarrow> arrival list \<Rightarrow> string list" where
  "arrivals_for s slot as = map arrival_text (filter (arrives_for s slot) as)"

text \<open>
  A run in which the symbol \<open>s\<close> stays admitted and no system call fails, with what the drain has read. The manager and the
  read loops advance at any point, also while a write is under way.
\<close>

inductive drain_run ::
  "'d recorder_config \<Rightarrow> (order_book_response_t \<Rightarrow> string option) \<Rightarrow> (stream_control_request \<Rightarrow> string option) \<Rightarrow> string \<Rightarrow>
   monitor \<Rightarrow> arrival list \<Rightarrow> monitor \<Rightarrow> bool"
  for cfg write_book write_json s m where
  start: "drain_run cfg write_book write_json s m [] m"
| read: "drain_run cfg write_book write_json s m as m' \<Longrightarrow> drain_at (mon_st m') = Drain_reading \<Longrightarrow> sink_good env \<Longrightarrow>
    drain_run cfg write_book write_json s m (as @ [a]) (m'\<lparr>mon_st := drain_read env (Read_item (arrival_text a)) (mon_st m')\<rparr>)"
| written: "drain_run cfg write_book write_json s m as m' \<Longrightarrow> drain_at (mon_st m') = Drain_writing s' slot f \<Longrightarrow>
    drain_run cfg write_book write_json s m as (m'\<lparr>mon_st := drain_written None (mon_st m')\<rparr>)"
| read_public: "drain_run cfg write_book write_json s m as m' \<Longrightarrow> drain_run cfg write_book write_json s m as (on_read_public r m')"
| read_market: "drain_run cfg write_book write_json s m as m' \<Longrightarrow> drain_run cfg write_book write_json s m as (on_read_market r m')"
| manager: "drain_run cfg write_book write_json s m as m' \<Longrightarrow> manager_step cfg write_book write_json m' m'' \<Longrightarrow>
    ds_sinks (mon_st m'') s \<noteq> None \<Longrightarrow> drain_run cfg write_book write_json s m as m''"

text \<open>What a sink holds once the write to it that is under way, if there is one, has gone through.\<close>

definition writing :: "string \<Rightarrow> sink_slot \<Rightarrow> detail_state \<Rightarrow> string option" where
  "writing s slot st = (case drain_at st of Drain_writing s' slot' f \<Rightarrow> if s' = s \<and> slot' = slot then Some f else None | _ \<Rightarrow> None)"

definition recorded :: "rotating_file_sink_config \<Rightarrow> string list \<Rightarrow> string \<Rightarrow> sink_slot \<Rightarrow> detail_state \<Rightarrow> bool" where
  "recorded c fr s slot st \<longleftrightarrow> (\<exists>x. at_slot st s slot = Some x \<and>
     (case writing s slot st of
        None \<Rightarrow> sink_holds c fr x
      | Some f \<Rightarrow> \<exists>x'. sink_end None f x = (False, x') \<and> sink_holds c fr x'))"

lemma recorded_same:
  "at_slot st' s slot = at_slot st s slot \<Longrightarrow> writing s slot st' = writing s slot st \<Longrightarrow> recorded c fr s slot st' = recorded c fr s slot st"
  by (simp add: recorded_def)

lemma sink_halves_hold:
  assumes "sink_holds c fr x" "sink_fits (fr @ [f])" "sink_good env"
  obtains x1 x' where "sink_begin env f x = (False, x1)" "sink_end None f x1 = (False, x')" "sink_holds c (fr @ [f]) x'"
proof -
  obtain x' where x': "sink_call env f x = (False, x')" "sink_holds c (fr @ [f]) x'"
    using sink_call_holds [OF assms] by blast
  obtain t x1 where b: "sink_begin env f x = (t, x1)" by (cases "sink_begin env f x")
  have "write_fails env = None" using assms(3) by (simp add: sink_good_def)
  then show thesis using that [of x1 x'] x' b by (cases t) (simp_all add: sink_call_halves)
qed

lemma find_sub_Some: "find_sub pat s = Some k \<Longrightarrow> \<exists>a b. s = a @ pat @ b"
proof (induction s arbitrary: k)
  case (Cons c s)
  show ?case
  proof (cases "take (length pat) (c # s) = pat")
    case True
    then have "c # s = [] @ pat @ drop (length pat) (c # s)" by (metis append_Nil append_take_drop_id)
    then show ?thesis by blast
  next
    case False
    then obtain k' where "find_sub pat s = Some k'" using Cons.prems by auto
    from Cons.IH [OF this] obtain a b where "s = a @ pat @ b" by blast
    then have "c # s = (c # a) @ pat @ b" by simp
    then show ?thesis by blast
  qed
qed (simp split: if_splits)

lemma other_target: "arrival_ok cfg (Other_text f) \<Longrightarrow> route_target st f = None"
proof -
  assume "arrival_ok cfg (Other_text f)"
  moreover have "stream_key = stream_member" by (simp add: stream_key_def stream_member_def)
  ultimately have "find_sub stream_key f = None" using find_sub_Some [of stream_key f] by (cases "find_sub stream_key f") auto
  then show ?thesis by (simp add: route_target_def parse_stream_header_def)
qed

lemma stream_target:
  assumes "arrival_ok cfg (Stream_frame s slot name rest)" "\<forall>s p. ds_sinks st s = Some p \<longrightarrow> slots_ok cfg p"
  shows "route_target st (combined_frame name rest) = (if ds_sinks st s = None then None else Some (s, slot))"
proof -
  obtain sub where sub: "sym_ok s" "(slot, sub) \<in> set (subs_of cfg s)" "topic sub = Inr name" using assms(1) by auto
  show ?thesis
  proof (cases "ds_sinks st s")
    case None
    obtain q where q: "slots_ok cfg q"
    proof -
      have "slots_ok cfg \<lparr>agg_trade = Some undefined, book_ticker = Some undefined, mark_price = Some undefined, force_order = Some undefined,
          depth_sink = (if with_depth cfg then Some undefined else None), frames_routed = 0, next_resnap_at = None\<rparr>"
        by (simp add: slots_ok_def)
      then show thesis by (rule that)
    qed
    obtain type where "name = to_lower s @ CHR ''@'' # type" "CHR 0x22 \<notin> set type"
      using subs_topic [OF sub(1,2) q] sub(3) by (metis sum.inject(2))
    then show ?thesis
      using parse_combined [OF sym_ok_lower(2,3) [OF sub(1)]] sym_ok_lower(4) [OF sub(1)] None by (simp add: route_target_def)
  next
    case (Some p)
    then show ?thesis using subscription_destination [OF sub(1,2) Some _ sub(3)] assms(2) by simp
  qed
qed

lemma recorded_read:
  assumes rec: "recorded c fr s slot st" and at: "drain_at st = Drain_reading" and env: "sink_good env"
    and ok: "arrival_ok cfg a" and slots: "\<forall>s p. ds_sinks st s = Some p \<longrightarrow> slots_ok cfg p"
    and fits: "sink_fits (fr @ arrivals_for s slot [a])"
  shows "recorded c (fr @ arrivals_for s slot [a]) s slot (drain_read env (Read_item (arrival_text a)) st)"
proof -
  let ?st = "st\<lparr>record_buf := (record_buf st)\<lparr>drained_total := drained_total (record_buf st) + 1\<rparr>\<rparr>" and ?f = "arrival_text a"
  have read: "drain_read env (Read_item ?f) st = route_frame env ?f ?st"
    by (simp add: drain_read_def buffer_async_read_def Let_def)
  obtain x where x: "at_slot st s slot = Some x" "sink_holds c fr x"
    using rec by (auto simp: recorded_def writing_def at)
  have there: "ds_sinks st s \<noteq> None" using x(1) by (auto simp: at_slot_def split: option.splits)
  show ?thesis
  proof (cases "route_target st ?f")
    case None
    then have "\<not> arrives_for s slot a"
      using stream_target [OF _ slots] ok there by (cases a) (auto split: if_splits)
    then show ?thesis using x by (simp add: read route_frame_def None recorded_def writing_def arrivals_for_def)
  next
    case (Some d)
    obtain s1 slot1 name rest where a: "a = Stream_frame s1 slot1 name rest" and d: "d = (s1, slot1)"
      using Some ok other_target [of cfg _ st] stream_target [OF _ slots] by (cases a) (auto split: if_splits)
    have at1: "at_slot ?st s1 slot1 \<noteq> None" using route_target_slot [OF Some [unfolded d]] by simp
    show ?thesis
    proof (cases "s1 = s \<and> slot1 = slot")
      case True
      then have arr: "arrivals_for s slot [a] = [?f]" by (simp add: a arrivals_for_def)
      obtain x1 x' where h: "sink_begin env ?f x = (False, x1)" "sink_end None ?f x1 = (False, x')" "sink_holds c (fr @ [?f]) x'"
        using sink_halves_hold [OF x(2) fits [unfolded arr] env] by blast
      have "route_frame env ?f ?st = (put_slot s slot x1 ?st)\<lparr>drain_at := Drain_writing s slot ?f\<rparr>"
        using Some h(1) True x(1) by (simp add: route_frame_def d)
      moreover have "at_slot (put_slot s slot x1 ?st) s slot = Some x1" using at_slot_put [of ?st s slot x1 s slot] x(1) by simp
      ultimately show ?thesis using h(2,3) by (simp add: read recorded_def writing_def arr)
    next
      case False
      then have arr: "arrivals_for s slot [a] = []" by (auto simp: a arrivals_for_def)
      obtain t x1 where b: "sink_begin env ?f (the (at_slot ?st s1 slot1)) = (t, x1)" by (cases "sink_begin env ?f (the (at_slot ?st s1 slot1))")
      have "route_frame env ?f ?st = (put_slot s1 slot1 x1 ?st)\<lparr>drain_at := (if t then Drain_threw else Drain_writing s1 slot1 ?f)\<rparr>"
        using Some b by (simp add: route_frame_def d)
      moreover have "at_slot (put_slot s1 slot1 x1 ?st) s slot = Some x" using at_slot_put [OF at1, of x1 s slot] False x(1) by auto
      ultimately show ?thesis using x(2) False by (auto simp: read recorded_def writing_def arr)
    qed
  qed
qed

lemma recorded_written:
  assumes rec: "recorded c fr s slot st" and at: "drain_at st = Drain_writing s1 slot1 f" and ok: "write_ok st"
  shows "recorded c fr s slot (drain_written None st)"
proof -
  have at1: "at_slot st s1 slot1 \<noteq> None" using ok at by (simp add: write_ok_def)
  obtain t x1 where e: "sink_end None f (the (at_slot st s1 slot1)) = (t, x1)" by (cases "sink_end None f (the (at_slot st s1 slot1))")
  have same: "at_slot (drain_written None st) = at_slot (put_slot s1 slot1 x1 st)"
    by (simp add: drain_written_def at e Let_def at_slot_routed)
  have "writing s slot (drain_written None st) = None" by (simp add: drain_written_def at e Let_def writing_def)
  moreover have "\<exists>x. at_slot (put_slot s1 slot1 x1 st) s slot = Some x \<and> sink_holds c fr x"
    using rec e at_slot_put [OF at1, of x1 s slot] by (auto simp: recorded_def writing_def at split: if_splits)
  ultimately show ?thesis by (simp add: recorded_def same)
qed

text \<open>As long as the symbol stays admitted the manager touches neither its sinks nor a write to one of them.\<close>

lemma next_steps_st [simp]:
  "mon_st (next_removal r m) = mon_st m" "mon_st (next_addition a r m) = mon_st m"
  by (simp_all add: next_removal_def next_addition_def split: list.split)

lemma exit_manager_keeps [simp]:
  "at_slot (mon_st (exit_manager m)) = at_slot (mon_st m)" "drain_at (mon_st (exit_manager m)) = drain_at (mon_st m)"
  by (simp_all add: exit_manager_def)

lemma next_cycle_keeps [simp]:
  "at_slot (mon_st (next_cycle m)) = at_slot (mon_st m)" "drain_at (mon_st (next_cycle m)) = drain_at (mon_st m)"
  by (simp_all add: next_cycle_def)

lemma next_resnap_keeps [simp]:
  "at_slot (mon_st (next_resnap r m)) = at_slot (mon_st m)" "drain_at (mon_st (next_resnap r m)) = drain_at (mon_st m)"
  by (simp_all add: next_resnap_def split: list.split)

lemma count_snapshot_keeps [simp]: "drain_at (count_snapshot ok st) = drain_at st" "ds_sinks (count_snapshot ok st) = ds_sinks st"
  by (simp_all add: count_snapshot_def)

lemma erase_keeps:
  assumes "s' \<noteq> s"
  shows "at_slot (erase_sinks env written s' st) s slot = at_slot st s slot"
    "writing s slot (erase_sinks env written s' st) = writing s slot st"
  using assms by (auto simp: at_slot_erase writing_def erase_sinks_at split: drain_at.split)

lemma manager_keeps:
  assumes "manager_step cfg write_book write_json m m'" "at_slot (mon_st m) s slot \<noteq> None" "ds_sinks (mon_st m') s \<noteq> None"
  shows "at_slot (mon_st m') s slot = at_slot (mon_st m) s slot \<and> writing s slot (mon_st m') = writing s slot (mon_st m)"
  using assms
proof (cases rule: manager_step.cases)
  case (timer wanted walk cancelled)
  then show ?thesis by (simp add: on_timer_def writing_def)
next
  case (snapshot s' a r snap env)
  obtain ok fs where fs: "fetch_depth_snapshot write_book snap (root_dir cfg) s' ''startup'' (snapshot_files (mon_st m)) = Inr (ok, fs)"
    using snapshot by (auto simp: on_snapshot_def bind_exn_def split: sum.splits)
  show ?thesis
  proof (cases "open_sinks cfg env s'")
    case None
    then have "m' = m\<lparr>mon_st := count_snapshot ok (mon_st m\<lparr>snapshot_files := fs\<rparr>), mgr_at := Mgr_threw\<rparr>"
      using snapshot by (simp add: on_snapshot_def fs Let_def)
    then show ?thesis by (simp add: writing_def)
  next
    case (Some p)
    define st where "st = count_snapshot ok (mon_st m\<lparr>snapshot_files := fs\<rparr>)"
    have st: "at_slot st = at_slot (mon_st m)" "drain_at st = drain_at (mon_st m)" by (simp_all add: st_def)
    have "mon_st m' = (if ds_sinks st s' = None then st\<lparr>ds_sinks := (ds_sinks st)(s' \<mapsto> p)\<rparr> else st)"
      using snapshot Some by (auto simp: on_snapshot_def fs Let_def st_def)
    then show ?thesis using at_slot_add [of st s' s slot p] assms(2) by (auto simp: st writing_def)
  qed
next
  case (sub_public s' a r outcome)
  then show ?thesis by (auto simp: on_sub_public_def bind_exn_def split: sum.splits)
next
  case (sub_market s' a r r_pub env written outcome)
  then have "mon_st m' = erase_sinks env written s' (mon_st m) \<or> mon_st m' = (mon_st m)\<lparr>subscribed := insert s' (subscribed (mon_st m))\<rparr>"
    by (auto simp: on_sub_market_def bind_exn_def Let_def split: sum.splits)
  then show ?thesis
  proof
    assume st: "mon_st m' = erase_sinks env written s' (mon_st m)"
    then have "s' \<noteq> s" using assms(3) by auto
    then show ?thesis unfolding st by (simp add: erase_keeps)
  qed (simp add: writing_def)
next
  case (unsub_public s' r outcome)
  then show ?thesis by (auto simp: on_unsub_public_def bind_exn_def split: sum.splits)
next
  case (unsub_market s' r env written outcome)
  then have "mon_st m' = (erase_sinks env written s' (mon_st m))\<lparr>subscribed := subscribed (mon_st m) - {s'}\<rparr>"
    by (auto simp: on_unsub_market_def bind_exn_def Let_def split: sum.splits)
  moreover from this have "s' \<noteq> s" using assms(3) by auto
  then have "writing s slot (erase_sinks env written s' (mon_st m)) = writing s slot (mon_st m)" by (rule erase_keeps)
  ultimately show ?thesis using \<open>s' \<noteq> s\<close> by (simp add: erase_keeps(1)) (simp add: writing_def)
next
  case (resnap_begin walk now)
  then show ?thesis by (simp add: on_resnap_begin_def writing_def)
next
  case (resnap s' rest snap now)
  obtain ok fs where fs: "fetch_depth_snapshot write_book snap (root_dir cfg) s' ''resnap'' (snapshot_files (mon_st m)) = Inr (ok, fs)"
    using resnap by (auto simp: on_resnap_def bind_exn_def split: sum.splits)
  define st where "st = count_snapshot ok (mon_st m\<lparr>snapshot_files := fs\<rparr>)"
  have st: "at_slot st = at_slot (mon_st m)" "drain_at st = drain_at (mon_st m)" by (simp_all add: st_def)
  show ?thesis
  proof (cases "ds_sinks st s'")
    case None
    then have "m' = next_resnap rest (m\<lparr>mon_st := st\<rparr>)" using resnap by (simp add: on_resnap_def fs Let_def st_def)
    then show ?thesis by (simp add: st writing_def)
  next
    case (Some p)
    let ?t = "Some (now + uint (depth_resnap_seconds cfg) * 1000000000)"
    have "m' = next_resnap rest (m\<lparr>mon_st := st\<lparr>ds_sinks := (ds_sinks st)(s' \<mapsto> p\<lparr>next_resnap_at := ?t\<rparr>)\<rparr>\<rparr>)"
      using resnap Some by (simp add: on_resnap_def fs Let_def st_def)
    then show ?thesis using at_slot_resnap [of st s' ?t] Some by (simp add: st writing_def)
  qed
qed

lemma drain_run_inv: "drain_run cfg write_book write_json s m as m' \<Longrightarrow> mon_inv cfg m \<Longrightarrow> mon_inv cfg m'"
proof (induction rule: drain_run.induct)
  case (read as m' env a)
  then show ?case by (intro inv_drain drain_read_keeps) simp
next
  case (written as m' s' slot f)
  then have "mon_inv cfg m'" by simp
  then show ?case by (intro inv_drain drain_written_keeps) (simp_all add: mon_inv_def core_inv_def)
next
  case (manager as m' m'')
  then have "mon_inv cfg m'" by simp
  with manager.hyps(2) show ?case by (rule inv_manager)
qed (simp_all add: inv_reads)

lemma arrivals_for_append: "arrivals_for s slot (as @ bs) = arrivals_for s slot as @ arrivals_for s slot bs"
  by (simp add: arrivals_for_def)

lemma drain_run_recorded:
  assumes "drain_run cfg write_book write_json s m as m'" "mon_inv cfg m" "recorded c fr s slot (mon_st m)"
    "list_all (arrival_ok cfg) as" "sink_fits (fr @ arrivals_for s slot as)"
  shows "recorded c (fr @ arrivals_for s slot as) s slot (mon_st m')"
  using assms
proof (induction rule: drain_run.induct)
  case start
  then show ?case by (simp add: arrivals_for_def)
next
  case (read as m' env a)
  have fits: "sink_fits ((fr @ arrivals_for s slot as) @ arrivals_for s slot [a])" using read.prems(4) by (simp add: arrivals_for_append)
  have "recorded c (fr @ arrivals_for s slot as) s slot (mon_st m')"
    by (rule read.IH [OF read.prems(1,2) _ rotating.fits_prefix [OF fits]]) (use read.prems(3) in simp)
  moreover have "\<forall>s p. ds_sinks (mon_st m') s = Some p \<longrightarrow> slots_ok cfg p"
    using drain_run_inv [OF read.hyps(1) read.prems(1)] by (simp add: mon_inv_def core_inv_def)
  ultimately show ?case
    using recorded_read [where cfg = cfg, OF _ read.hyps(2,3) _ _ fits] read.prems(3) by (simp add: arrivals_for_append)
next
  case (written as m' s' slot' f)
  have "write_ok (mon_st m')" using drain_run_inv [OF written.hyps(1) written.prems(1)] by (simp add: mon_inv_def core_inv_def)
  with written show ?case by (simp add: recorded_written)
next
  case (read_public as m' r)
  then show ?case by (simp add: on_read_public_def)
next
  case (read_market as m' r)
  then show ?case by (simp add: on_read_market_def)
next
  case (manager as m' m'')
  then have rec: "recorded c (fr @ arrivals_for s slot as) s slot (mon_st m')" by blast
  then have "at_slot (mon_st m') s slot \<noteq> None" by (auto simp: recorded_def)
  from manager_keeps [OF manager.hyps(2) this manager.hyps(3)]
  have "recorded c (fr @ arrivals_for s slot as) s slot (mon_st m'') = recorded c (fr @ arrivals_for s slot as) s slot (mon_st m')"
    by (elim conjE) (rule recorded_same)
  with rec show ?case by (rule iffD2 [rotated])
qed

lemma unsubscribe_returns: "\<exists>e d'. async_unsubscribe write_json outcome f r d = Inr (e, d')"
proof -
  obtain ts where "topics_of (f # r) = Inr ts" using topics_of_defined by blast
  then show ?thesis
    by (simp add: async_unsubscribe_def send_topics_def next_id_def send_control_def Let_def del: topics_of.simps split: option.split)
qed

text \<open>Destroying a sink under a write, and the write going through.\<close>

lemma erased_under_write:
  assumes "drain_at (mon_st m) = Drain_writing s slot f" "at_slot (mon_st m) s slot \<noteq> None" "mgr_at m = Mgr_unsub_market s r"
  shows "\<exists>m1 m2. monitor_step cfg write_book write_json m m1 \<and> monitor_step cfg write_book write_json m1 m2 \<and>
    drain_at (mon_st m2) = Drain_undefined"
proof -
  obtain e d where d: "async_unsubscribe write_json void_success (fst (market_subs s)) (snd (market_subs s)) (dyn_mkt m) = Inr (e, d)"
    using unsubscribe_returns by blast
  define env :: sink_env where "env = undefined"
  obtain m1 where m1: "on_unsub_market write_json env 0 void_success s r m = Inr m1" "drain_at (mon_st m1) = drain_at (erase_sinks env 0 s (mon_st m))"
    by (simp add: on_unsub_market_def d Let_def)
  have "ds_sinks (mon_st m) s \<noteq> None" using assms(2) by (auto simp: at_slot_def split: option.splits)
  then have dangling: "drain_at (mon_st m1) = Drain_dangling" by (simp add: m1(2) erase_sinks_at assms(1))
  have step: "monitor_step cfg write_book write_json m m1"
    by (rule monitor_step.manager [OF _ manager_step.unsub_market [OF assms(3) m1(1)]]) (simp add: assms(1))
  have "monitor_step cfg write_book write_json m1 (m1\<lparr>mon_st := drain_written None (mon_st m1)\<rparr>)"
    by (rule monitor_step.drain_written) (simp add: dangling)
  moreover have "drain_at (mon_st (m1\<lparr>mon_st := drain_written None (mon_st m1)\<rparr>)) = Drain_undefined"
    by (simp add: drain_written_def dangling)
  ultimately show ?thesis using step by blast
qed

text \<open>
  C23: What the detail monitor maintains, however its coroutines, which suspend at every write, and the losses of its
  connections interleave, and whatever fails. Every subscribed symbol has its sinks, and between cycles there are no other
  sinks. As long as a connection is not lost, every topic of a subscribed symbol that belongs to it has been asked for and not
  withdrawn, except on the public connection for the symbol whose unsubscription is under way. A frame of any stream of a
  subscribed symbol is routed to the sink of that stream of that symbol. A sink to which the drain is writing exists, but the
  manager does not wait for the write: if it is about to remove that symbol, it destroys the sink, and if the write goes through
  the drain then uses freed memory.
\<close>

theorem detail_monitor_consistent:
  assumes "monitor_reachable cfg write_book write_json m"
  shows "subscribed (mon_st m) \<subseteq> dom (ds_sinks (mon_st m)) \<and>
    (mgr_at m = Mgr_timer \<longrightarrow> dom (ds_sinks (mon_st m)) = subscribed (mon_st m)) \<and>
    (\<forall>s\<in>subscribed (mon_st m).
       (\<not> pub_lost m \<longrightarrow> s \<notin> leaving (mgr_at m) \<longrightarrow> topic_set (public_subs cfg s) \<subseteq> live_public m) \<and>
       (\<not> mkt_lost m \<longrightarrow> topic_set (market_subs s) \<subseteq> live_market m) \<and>
       (\<forall>(slot, sub)\<in>set (subs_of cfg s). \<forall>name rest. topic sub = Inr name \<longrightarrow>
          route_target (mon_st m) (combined_frame name rest) = Some (s, slot))) \<and>
    (\<forall>s slot f. drain_at (mon_st m) = Drain_writing s slot f \<longrightarrow>
       at_slot (mon_st m) s slot \<noteq> None \<and>
       (\<forall>r. mgr_at m = Mgr_unsub_market s r \<longrightarrow>
          (\<exists>m1 m2. monitor_step cfg write_book write_json m m1 \<and> monitor_step cfg write_book write_json m1 m2 \<and>
             drain_at (mon_st m2) = Drain_undefined)))"
proof -
  have inv: "core_inv cfg (pending (mgr_at m)) (leaving (mgr_at m)) m" using inv_reachable [OF assms] by (simp add: mon_inv_def)
  then have ok: "write_ok (mon_st m)" by (simp add: core_inv_def)
  have target: "route_target (mon_st m) (combined_frame name rest) = Some (s, slot)"
    if "s \<in> subscribed (mon_st m)" "(slot, sub) \<in> set (subs_of cfg s)" "topic sub = Inr name" for s slot sub name rest
  proof -
    have "s \<in> dom (ds_sinks (mon_st m))" using inv that(1) by (simp add: core_inv_def)
    then obtain p where "ds_sinks (mon_st m) s = Some p" by blast
    then have p: "ds_sinks (mon_st m) s = Some p" "slots_ok cfg p" "sym_ok s" using inv that(1) by (simp_all add: core_inv_def)
    then show ?thesis using subscription_destination that(2,3) by blast
  qed
  have here: "at_slot (mon_st m) s slot \<noteq> None" if "drain_at (mon_st m) = Drain_writing s slot f" for s slot f
    using ok that by (simp add: write_ok_def)
  show ?thesis
  proof (intro conjI)
    show "\<forall>s\<in>subscribed (mon_st m).
       (\<not> pub_lost m \<longrightarrow> s \<notin> leaving (mgr_at m) \<longrightarrow> topic_set (public_subs cfg s) \<subseteq> live_public m) \<and>
       (\<not> mkt_lost m \<longrightarrow> topic_set (market_subs s) \<subseteq> live_market m) \<and>
       (\<forall>(slot, sub)\<in>set (subs_of cfg s). \<forall>name rest. topic sub = Inr name \<longrightarrow>
          route_target (mon_st m) (combined_frame name rest) = Some (s, slot))"
      using inv target by (auto simp: core_inv_def live_public_def live_market_def)
    show "\<forall>s slot f. drain_at (mon_st m) = Drain_writing s slot f \<longrightarrow> at_slot (mon_st m) s slot \<noteq> None \<and>
       (\<forall>r. mgr_at m = Mgr_unsub_market s r \<longrightarrow>
          (\<exists>m1 m2. monitor_step cfg write_book write_json m m1 \<and> monitor_step cfg write_book write_json m1 m2 \<and>
             drain_at (mon_st m2) = Drain_undefined))"
      using here erased_under_write by (intro allI impI conjI) blast+
  qed (use inv in \<open>auto simp: core_inv_def\<close>)
qed

text \<open>
  C24: The drain loses, duplicates and misplaces no frame of a symbol that stays admitted, however the manager and the losses of
  connections interleave with it. When no system call fails, the sink of each stream of the symbol holds what it held before
  followed by, in order, exactly the frames of that stream that have been read: those whose stream name is the topic the stream
  was subscribed with. If the last of them is still being written, this holds once the write has gone through.
\<close>

theorem drain_partitions_frames:
  assumes "monitor_reachable cfg write_book write_json m" "drain_at (mon_st m) = Drain_reading"
    and "at_slot (mon_st m) s slot = Some x" "sink_holds c H x"
    and "drain_run cfg write_book write_json s m as m'" "list_all (arrival_ok cfg) as"
    and "sink_fits (H @ arrivals_for s slot as)"
  shows "\<exists>x'. at_slot (mon_st m') s slot = Some x' \<and>
    ((\<forall>f. drain_at (mon_st m') \<noteq> Drain_writing s slot f) \<longrightarrow> sink_holds c (H @ arrivals_for s slot as) x') \<and>
    (\<forall>f. drain_at (mon_st m') = Drain_writing s slot f \<longrightarrow>
       (\<exists>x''. sink_end None f x' = (False, x'') \<and> sink_holds c (H @ arrivals_for s slot as) x''))"
proof -
  have "recorded c H s slot (mon_st m)" using assms(2-4) by (simp add: recorded_def writing_def)
  then have rec: "recorded c (H @ arrivals_for s slot as) s slot (mon_st m')"
    using drain_run_recorded [OF assms(5) inv_reachable [OF assms(1)] _ assms(6,7)] by blast
  then obtain x' where x': "at_slot (mon_st m') s slot = Some x'"
    "case writing s slot (mon_st m') of None \<Rightarrow> sink_holds c (H @ arrivals_for s slot as) x'
     | Some f \<Rightarrow> \<exists>x''. sink_end None f x' = (False, x'') \<and> sink_holds c (H @ arrivals_for s slot as) x''"
    unfolding recorded_def by blast
  have no: "writing s slot (mon_st m') = None" if "\<forall>f. drain_at (mon_st m') \<noteq> Drain_writing s slot f"
    using that by (auto simp: writing_def split: drain_at.split)
  have yes: "writing s slot (mon_st m') = Some f" if "drain_at (mon_st m') = Drain_writing s slot f" for f
    using that by (simp add: writing_def)
  show ?thesis
  proof (rule exI [of _ x'], intro conjI impI allI)
    assume "\<forall>f. drain_at (mon_st m') \<noteq> Drain_writing s slot f"
    from x'(2) [unfolded no [OF this]] show "sink_holds c (H @ arrivals_for s slot as) x'" by simp
  next
    fix f assume "drain_at (mon_st m') = Drain_writing s slot f"
    from x'(2) [unfolded yes [OF this]]
    show "\<exists>x''. sink_end None f x' = (False, x'') \<and> sink_holds c (H @ arrivals_for s slot as) x''" by simp
  qed (rule x'(1))
qed

section \<open>An example\<close>

definition example_sink_env :: sink_env where
  "example_sink_env = \<lparr>steady_now = 0, steady_open = 0, utc_now = \<lparr>tm_year = 125, tm_mon = 0, tm_mday = 2, tm_hour = 3, tm_min = 4,
     tm_sec = 5, tm_ms = 6\<rparr>, open_ok = True, write_fails = None, spawned = None, exited = []\<rparr>"

lemma example_sink_good: "sink_good example_sink_env"
  by (simp add: sink_good_def utc_ok_def example_sink_env_def)

definition example_arrival :: arrival where
  "example_arrival = Stream_frame ''BTCUSDT'' Slot_agg_trade ''btcusdt@aggTrade'' ''}''"

lemma example_arrival_ok: "arrival_ok (default_recorder_config fp) example_arrival"
proof -
  have "topic (Aggregate_trade_subscription (symbol_of ''BTCUSDT'')) = Inr ''btcusdt@aggTrade''" "sym_ok ''BTCUSDT''" by code_simp+
  then show ?thesis by (auto simp: example_arrival_def subs_of_def)
qed

lemma example_fits: "sink_fits [arrival_text example_arrival]"
proof -
  have "length (arrival_text example_arrival) < 50" by code_simp
  then show ?thesis by (simp add: sink_fits_def line_of_def)
qed

text \<open>A frame read for a sink that is there starts a write to it.\<close>

lemma read_starts_write:
  assumes "arrival_ok cfg (Stream_frame s slot name rest)" "\<forall>s p. ds_sinks st s = Some p \<longrightarrow> slots_ok cfg p"
    "at_slot st s slot = Some x" "sink_holds c fr x" "sink_fits (fr @ [combined_frame name rest])" "sink_good env"
  shows "drain_at (drain_read env (Read_item (combined_frame name rest)) st) = Drain_writing s slot (combined_frame name rest)"
proof -
  obtain x1 where "sink_begin env (combined_frame name rest) x = (False, x1)"
    using sink_halves_hold [OF assms(4-6)] by metis
  moreover have "ds_sinks st s \<noteq> None" using assms(3) by (auto simp: at_slot_def split: option.splits)
  ultimately show ?thesis
    using stream_target [OF assms(1,2), of] assms(3)
    by (simp add: drain_read_def buffer_async_read_def Let_def route_frame_def)
qed

lemma subscribe_outcome:
  assumes "category f = dyn_category d"
  shows "\<exists>d'. async_subscribe (\<lambda>_. Some json) outcome f r d = Inr (outcome, d')"
proof -
  obtain ts where "topics_of (f # r) = Inr ts" using topics_of_defined by blast
  with assms show ?thesis
    by (simp add: async_subscribe_def send_topics_def next_id_def send_control_def Let_def del: topics_of.simps)
qed

lemma example_reachable:
  obtains m a where "monitor_reachable (default_recorder_config example_fp) (\<lambda>_. None) (\<lambda>_. Some []) m"
    "subscribed (mon_st m) = {''BTCUSDT''}" "mgr_at m = Mgr_timer" "drain_at (mon_st m) = Drain_reading"
    "at_slot (mon_st m) ''BTCUSDT'' Slot_agg_trade = Some a"
    "sink_holds (make_detail_rfs_cfg (default_recorder_config example_fp) ''BTCUSDT'' ''aggTrade'') [] a"
proof -
  let ?cfg = "default_recorder_config example_fp" and ?s = "''BTCUSDT''"
  let ?reach = "monitor_reachable ?cfg (\<lambda>_. None) (\<lambda>_. Some [])"
  define m0 where "m0 = new_monitor Map.empty"
  define m1 where "m1 = on_timer False [?s] [] m0"
  have m1: "m1 = m0\<lparr>mgr_at := Mgr_snapshot ?s [] []\<rparr>"
    by (simp add: m1_def m0_def on_timer_def new_monitor_def new_detail_state_def next_addition_def)
  have "sym_ok ?s" by code_simp
  then have "monitor_step ?cfg (\<lambda>_. None) (\<lambda>_. Some []) m0 m1"
    unfolding m1_def
    by (intro monitor_step.manager manager_step.timer) (simp_all add: m0_def new_monitor_def new_detail_state_def)
  moreover have "?reach m0" unfolding m0_def by (rule monitor_reachable.start)
  ultimately have r1: "?reach m1" by (rule monitor_reachable.step [rotated])
  define snap where "snap = \<lparr>sn_rest = \<lambda>_. failure (mk_error Ec_transport 0 0 [] []), sn_open = True, sn_iso = utc_now example_sink_env, sn_file = utc_now example_sink_env\<rparr>"
  define env where "env = \<lparr>oe_sink = \<lambda>_. example_sink_env, oe_files = \<lambda>_. Map.empty, oe_now = 0\<rparr>"
  have opens: "\<exists>x. open_sink ?cfg env ?s slot t = Some x \<and> sink_holds (make_detail_rfs_cfg ?cfg ?s t) [] x" for slot t
  proof -
    obtain x where "new_rotating_sink (make_detail_rfs_cfg ?cfg ?s t) Map.empty example_sink_env = (False, x)"
      "sink_holds (make_detail_rfs_cfg ?cfg ?s t) [] x"
      using new_rotating_sink_holds [OF example_sink_good] by blast
    then show ?thesis by (simp add: open_sink_def env_def)
  qed
  obtain a where a: "open_sink ?cfg env ?s Slot_agg_trade ''aggTrade'' = Some a" "sink_holds (make_detail_rfs_cfg ?cfg ?s ''aggTrade'') [] a"
    using opens by blast
  obtain b where b: "open_sink ?cfg env ?s Slot_book_ticker ''bookTicker'' = Some b" using opens by blast
  obtain c where c: "open_sink ?cfg env ?s Slot_mark_price ''markPrice'' = Some c" using opens by blast
  obtain f where f: "open_sink ?cfg env ?s Slot_force_order ''forceOrder'' = Some f" using opens by blast
  from a(1) b c f have p: "open_sinks ?cfg env ?s = Some \<lparr>agg_trade = Some a, book_ticker = Some b, mark_price = Some c, force_order = Some f,
      depth_sink = None, frames_routed = 0, next_resnap_at = None\<rparr>"
    by (simp add: open_sinks_def partial_depth_def full_depth_def default_recorder_config_def)
  obtain m2 where m2: "on_snapshot ?cfg (\<lambda>_. None) snap env ?s [] [] m1 = Inr m2" "mgr_at m2 = Mgr_sub_public ?s [] []"
      "subscribed (mon_st m2) = {}" "dyn_pub m2 = new_dynamic_stream Public_category" "dyn_mkt m2 = new_dynamic_stream Market_category"
      "drain_at (mon_st m2) = Drain_reading" "at_slot (mon_st m2) ?s Slot_agg_trade = Some a" "ds_closed (mon_st m2) = False"
    by (simp add: on_snapshot_def at_slot_def fetch_depth_snapshot_def snap_def p count_snapshot_def m1 m0_def new_monitor_def new_detail_state_def
        is_ok_def failure_def Let_def)
  have r2: "?reach m2" by (rule monitor_reachable.step [OF r1 monitor_step.manager [OF _ manager_step.snapshot [OF _ m2(1)]]])
      (simp_all add: m1 m0_def new_monitor_def new_detail_state_def)
  obtain d where d: "async_subscribe (\<lambda>_. Some []) void_success (fst (public_subs ?cfg ?s)) (snd (public_subs ?cfg ?s)) (dyn_pub m2) = Inr (void_success, d)"
  proof -
    have "category (fst (public_subs ?cfg ?s)) = dyn_category (dyn_pub m2)" by (simp add: public_subs_def m2(4) new_dynamic_stream_def)
    from subscribe_outcome [OF this] show thesis using that by blast
  qed
  define m3 where "m3 = m2\<lparr>dyn_pub := d, mgr_at := Mgr_sub_market ?s [] [] void_success\<rparr>"
  have "on_sub_public ?cfg (\<lambda>_. Some []) void_success ?s [] [] m2 = Inr m3" by (simp add: on_sub_public_def d m3_def)
  from monitor_step.manager [OF _ manager_step.sub_public [OF m2(2) this]]
  have r3: "?reach m3" by (intro monitor_reachable.step [OF r2]) (simp add: m2(6))
  obtain d' where d': "async_subscribe (\<lambda>_. Some []) void_success (fst (market_subs ?s)) (snd (market_subs ?s)) (dyn_mkt m3) = Inr (void_success, d')"
  proof -
    have "category (fst (market_subs ?s)) = dyn_category (dyn_mkt m3)" by (simp add: market_subs_def m3_def m2(5) new_dynamic_stream_def)
    from subscribe_outcome [OF this] show thesis using that by blast
  qed
  obtain m4 where m4: "on_sub_market (\<lambda>_. Some []) example_sink_env 0 void_success ?s [] [] void_success m3 = Inr m4" "subscribed (mon_st m4) = {?s}"
    "mgr_at m4 = Mgr_resnap_begin" "drain_at (mon_st m4) = Drain_reading" "at_slot (mon_st m4) ?s Slot_agg_trade = Some a"
    "ds_closed (mon_st m4) = False" "dom (ds_sinks (mon_st m4)) = {?s}"
  proof -
    have "subscribed (mon_st m3) = {}" "void_ok void_success" by (simp_all add: m3_def m2(3) void_ok_def void_success_def)
    moreover have "dom (ds_sinks (mon_st m3)) = {?s}"
      using inv_reachable [OF r3] by (simp add: mon_inv_def core_inv_def m3_def m2(3))
    moreover have "drain_at (mon_st m3) = Drain_reading" "at_slot (mon_st m3) ?s Slot_agg_trade = Some a" "ds_closed (mon_st m3) = False"
      by (simp_all add: m3_def m2)
    ultimately show thesis using that by (simp add: on_sub_market_def d' next_addition_def next_removal_def Let_def)
  qed
  have "mgr_at m3 = Mgr_sub_market ?s [] [] void_success" by (simp add: m3_def)
  then have "monitor_step ?cfg (\<lambda>_. None) (\<lambda>_. Some []) m3 m4"
    by (intro monitor_step.manager manager_step.sub_market [OF _ m4(1)]) (simp_all add: m3_def m2(6))
  with r3 have r4: "?reach m4" by (rule monitor_reachable.step)
  define m5 where "m5 = m4\<lparr>mgr_at := Mgr_timer\<rparr>"
  have "on_resnap_begin ?cfg 0 [?s] m4 = m5"
    by (simp add: on_resnap_begin_def full_depth_def default_recorder_config_def next_cycle_def m4(6) m5_def)
  moreover have "manager_step ?cfg (\<lambda>_. None) (\<lambda>_. Some []) m4 (on_resnap_begin ?cfg 0 [?s] m4)"
    by (rule manager_step.resnap_begin) (simp_all add: m4)
  ultimately have "monitor_step ?cfg (\<lambda>_. None) (\<lambda>_. Some []) m4 m5"
    by (intro monitor_step.manager) (simp_all add: m4(4))
  with r4 have "?reach m5" by (rule monitor_reachable.step)
  then show thesis using that [of m5 a] a(2) by (simp add: m5_def m4)
qed

lemma example_slots:
  "monitor_reachable cfg write_book write_json m \<Longrightarrow> \<forall>s p. ds_sinks (mon_st m) s = Some p \<longrightarrow> slots_ok cfg p"
  by (drule inv_reachable) (simp add: mon_inv_def core_inv_def)

text \<open>A frame arrives while the unsubscription of its symbol is under way.\<close>

theorem detail_monitor_consistent_witness:
  "\<exists>m. monitor_reachable (default_recorder_config example_fp) (\<lambda>_. None) (\<lambda>_. Some []) m \<and> drain_at (mon_st m) = Drain_undefined"
proof -
  let ?cfg = "default_recorder_config example_fp" and ?s = "''BTCUSDT''" and ?f = "arrival_text example_arrival"
  let ?reach = "monitor_reachable ?cfg (\<lambda>_. None) (\<lambda>_. Some [])" and ?step = "monitor_step ?cfg (\<lambda>_. None) (\<lambda>_. Some [])"
  obtain m a where m: "?reach m" "subscribed (mon_st m) = {?s}" "mgr_at m = Mgr_timer" "drain_at (mon_st m) = Drain_reading"
    "at_slot (mon_st m) ?s Slot_agg_trade = Some a" "sink_holds (make_detail_rfs_cfg ?cfg ?s ''aggTrade'') [] a"
    by (rule example_reachable)
  define m6 where "m6 = m\<lparr>mgr_at := Mgr_unsub_public ?s []\<rparr>"
  have "on_timer False [] [?s] m = m6" by (simp add: on_timer_def next_addition_def next_removal_def m6_def)
  moreover have "manager_step ?cfg (\<lambda>_. None) (\<lambda>_. Some []) m (on_timer False [] [?s] m)"
    by (rule manager_step.timer) (simp_all add: m)
  ultimately have "?step m m6" by (intro monitor_step.manager) (simp_all add: m(4))
  with m(1) have r6: "?reach m6" by (rule monitor_reachable.step)
  obtain e d where d: "async_unsubscribe (\<lambda>_. Some []) void_success (fst (public_subs ?cfg ?s)) (snd (public_subs ?cfg ?s)) (dyn_pub m6) = Inr (e, d)"
    using unsubscribe_returns by blast
  define m7 where "m7 = m6\<lparr>dyn_pub := d, mgr_at := Mgr_unsub_market ?s []\<rparr>"
  have "on_unsub_public ?cfg (\<lambda>_. Some []) void_success ?s [] m6 = Inr m7" by (simp add: on_unsub_public_def d m7_def)
  then have "?step m6 m7"
    by (intro monitor_step.manager manager_step.unsub_public [of m6 ?s "[]"]) (simp_all add: m6_def m(4))
  with r6 have r7: "?reach m7" by (rule monitor_reachable.step)
  have st: "mon_st m7 = mon_st m" by (simp add: m7_def m6_def)
  define m8 where "m8 = m7\<lparr>mon_st := drain_read example_sink_env (Read_item ?f) (mon_st m7)\<rparr>"
  have "?step m7 m8" unfolding m8_def by (rule monitor_step.drain_read) (simp add: st m(4))
  with r7 have r8: "?reach m8" by (rule monitor_reachable.step)
  have "drain_at (mon_st m8) = Drain_writing ?s Slot_agg_trade ?f"
    using read_starts_write [OF example_arrival_ok [unfolded example_arrival_def] example_slots [OF m(1)] m(5,6) _ example_sink_good]
      example_fits by (simp add: m8_def st example_arrival_def)
  moreover have "mgr_at m8 = Mgr_unsub_market ?s []" by (simp add: m8_def m7_def)
  ultimately obtain m9 m10 where "?step m8 m9" "?step m9 m10" "drain_at (mon_st m10) = Drain_undefined"
    using detail_monitor_consistent [OF r8] by blast
  with r8 show ?thesis using monitor_reachable.step by blast
qed

theorem drain_partitions_frames_witness:
  "\<exists>m m' x. drain_run (default_recorder_config example_fp) (\<lambda>_. None) (\<lambda>_. Some []) ''BTCUSDT'' m [example_arrival] m' \<and>
    at_slot (mon_st m') ''BTCUSDT'' Slot_agg_trade = Some x \<and>
    sink_holds (make_detail_rfs_cfg (default_recorder_config example_fp) ''BTCUSDT'' ''aggTrade'') [arrival_text example_arrival] x"
proof -
  let ?cfg = "default_recorder_config example_fp" and ?s = "''BTCUSDT''" and ?f = "arrival_text example_arrival"
  let ?run = "drain_run ?cfg (\<lambda>_. None) (\<lambda>_. Some []) ?s"
  obtain m a where m: "monitor_reachable ?cfg (\<lambda>_. None) (\<lambda>_. Some []) m" "subscribed (mon_st m) = {?s}" "mgr_at m = Mgr_timer"
    "drain_at (mon_st m) = Drain_reading"
    "at_slot (mon_st m) ?s Slot_agg_trade = Some a" "sink_holds (make_detail_rfs_cfg ?cfg ?s ''aggTrade'') [] a"
    by (rule example_reachable)
  define m1 where "m1 = m\<lparr>mon_st := drain_read example_sink_env (Read_item ?f) (mon_st m)\<rparr>"
  define m2 where "m2 = m1\<lparr>mon_st := drain_written None (mon_st m1)\<rparr>"
  have "?run m ([] @ [example_arrival]) m1" unfolding m1_def by (rule drain_run.read [OF drain_run.start m(4) example_sink_good])
  then have "?run m [example_arrival] m1" by simp
  moreover have "drain_at (mon_st m1) = Drain_writing ?s Slot_agg_trade ?f"
    using read_starts_write [OF example_arrival_ok [unfolded example_arrival_def] example_slots [OF m(1)] m(5,6) _ example_sink_good]
      example_fits by (simp add: m1_def example_arrival_def)
  ultimately have run: "?run m [example_arrival] m2" unfolding m2_def by (rule drain_run.written)
  have done_ok: "\<forall>f. drain_at (mon_st m2) \<noteq> Drain_writing ?s Slot_agg_trade f"
    by (auto simp: m2_def drain_written_def Let_def \<open>drain_at (mon_st m1) = _\<close> split: prod.split)
  have frames: "arrivals_for ?s Slot_agg_trade [example_arrival] = [?f]" by (simp add: arrivals_for_def example_arrival_def)
  have "list_all (arrival_ok ?cfg) [example_arrival]" using example_arrival_ok by simp
  from drain_partitions_frames [OF m(1,4-6) run this] frames example_fits done_ok
  show ?thesis using run by auto
qed

end
