(* ===== verification/Spec2Isabelle.thy ===== *)
theory Spec2Isabelle
  imports Order_Book Decimal_Text Enum_Set Dynamic_Stream Requests Websocket_Api User_Stream Recorders V1_Types_Correct V1_Pairs V1_Websocket Detail_Monitor
begin

text \<open>
  A verification library for \<^verbatim>\<open>binapi2::fapi\<close>, the USD-M futures client of this repository, and for
  the legacy client \<^verbatim>\<open>binapi\<close> it grew from. The program turns typed request structs into signed HTTP
  requests, typed subscriptions into WebSocket streams of events, keeps local order books synchronised
  from both, and records streams to files. The legacy client has its own JSON reader, reply types,
  request queue and channels. The recorder application, \<^verbatim>\<open>async-recorder\<close>, builds on the first: it
  screens all symbols, selects some and records those in detail.

  \<^bold>\<open>Parts and theories.\<close> Sources are named relative to \<^verbatim>\<open>include/binapi2/fapi\<close> and
  \<^verbatim>\<open>src/binapi2/fapi\<close>, those of the legacy client to \<^verbatim>\<open>include/binapi\<close> and \<^verbatim>\<open>src/binapi\<close>.

  \<^item> \<open>Binapi_Prelude\<close>: the outcome type of code that may throw or be undefined (\<open>may_throw\<close>,
    \<open>bind_exn\<close>), fixed-width integers and their digits, list lemmas.
  \<^item> \<open>Ordered_Map\<close>: \<^verbatim>\<open>std::map\<close> as an association list under a strict order; its laws are the
    locale \<open>std_map\<close>, interpreted for prices in both directions and for parameter names.
  \<^item> \<open>Decimal\<close>, \<open>Decimal_Text\<close>: \<^verbatim>\<open>types/detail/decimal.hpp\<close> and \<^verbatim>\<open>decimal.cpp\<close>; 128-bit values at
    scale 10^18, 256-bit multiplication and division, parsing and printing.
  \<^item> \<open>Fapi_Result\<close>: \<^verbatim>\<open>error.hpp\<close>, \<^verbatim>\<open>result.hpp\<close>, \<^verbatim>\<open>detail/decode.hpp\<close>.
  \<^item> \<open>Wire_Types\<close>, \<open>Enums\<close>, \<open>Enum_Set\<close>: value types, all wire enumerations with their tables, and
    \<^verbatim>\<open>types/detail/enum_set.hpp\<close>; the locale \<open>wire_enum\<close> is interpreted once per enumeration.
  \<^item> \<open>Signing\<close>, \<open>Http_Client\<close>, \<open>Rest_Pipeline\<close>, \<open>Endpoints\<close>: \<^verbatim>\<open>signing.cpp\<close>, \<^verbatim>\<open>transport/http_client.cpp\<close>,
    \<^verbatim>\<open>query.hpp\<close>, \<^verbatim>\<open>rest/pipeline.hpp\<close>, \<^verbatim>\<open>rest/trade.cpp\<close>, \<^verbatim>\<open>rest/generated_endpoints.hpp\<close>,
    \<^verbatim>\<open>rest/endpoint_traits.hpp\<close>: from a request struct to the bytes on the wire.
  \<^item> \<open>Variant_Parse\<close>, \<open>Stream_Traits\<close>, \<open>Market_Streams\<close>, \<open>Dynamic_Stream\<close>: \<^verbatim>\<open>detail/variant_parse.hpp\<close>,
    \<^verbatim>\<open>streams/stream_traits.hpp\<close> and the four stream classes of \<^verbatim>\<open>streams/\<close>; what the three
    generators share is the locale \<open>frame_handler\<close>.
  \<^item> \<open>Order_Book\<close>: \<^verbatim>\<open>order_book/local_order_book.cpp\<close> and the logic stage of
    \<^verbatim>\<open>order_book/pipeline_order_book.cpp\<close>; both loops refine the step relation \<open>sync_step\<close>, and their
    common properties are proved once in the locale \<open>book_sync\<close>.
  \<^item> This theory composes stream, order book and REST service.
  \<^item> \<open>Struct_Types\<close>, \<open>Structs_Market\<close>, \<open>Structs_Trade\<close>, \<open>Structs_Streams\<close>, \<open>Requests\<close>: the structs of
    \<^verbatim>\<open>types/\<close> with their members and glaze metadata, and REST requests as values of these types.
  \<^item> \<open>Websocket_Client\<close>, \<open>Websocket_Api\<close>: \<^verbatim>\<open>transport/websocket_client.cpp\<close>, whose connects are the
    attempts of the stream generators, and \<^verbatim>\<open>websocket_api/client.cpp\<close> with its traits and methods.
  \<^item> \<open>Stream_Buffers\<close>: \<^verbatim>\<open>detail/stream_buffer_consumer.hpp\<close>, \<^verbatim>\<open>detail/stream_buffer.hpp\<close> and
    \<^verbatim>\<open>detail/threadsafe_stream_buffer.hpp\<close>; the cross-thread buffer is a step relation over producer,
    posted wake-ups and forwarder.
  \<^item> \<open>Pipeline_Stages\<close>, \<open>User_Stream\<close>: \<^verbatim>\<open>streams/detail/stream_connection.hpp\<close>, \<^verbatim>\<open>stream_consumer.hpp\<close>,
    \<^verbatim>\<open>stream_parser.hpp\<close>, the concurrent stages of \<^verbatim>\<open>order_book/pipeline_order_book.cpp\<close> as a step
    relation, and the rest of \<^verbatim>\<open>streams/user_stream.hpp\<close> with the keepalive coroutine.
  \<^item> \<open>Recorders\<close>: \<^verbatim>\<open>streams/detail/sinks\<close> and the drain loops of \<^verbatim>\<open>async_stream_recorder.hpp\<close>,
    \<^verbatim>\<open>threaded_stream_recorder.hpp\<close>; files, system calls and child processes are the state and inputs of the
    sink, and the consumer contract of the drain loop is the locale \<open>frame_sink\<close>.
  \<^item> \<open>V1_Enums\<close>: \<^verbatim>\<open>enums.cpp\<close> and \<^verbatim>\<open>fnv1a.hpp\<close> of the legacy client.
  \<^item> \<open>Flatjson\<close>, \<open>Flatjson_Correct\<close>: \<^verbatim>\<open>flatjson.hpp\<close>, both passes of the parser over one token buffer, and
    its correctness against abstract documents.
  \<^item> \<open>V1_Requests\<close>, \<open>V1_Api\<close>: \<^verbatim>\<open>errors.cpp\<close>, \<^verbatim>\<open>api.cpp\<close> and \<^verbatim>\<open>invoker.hpp\<close>; the asynchronous queue is a step relation
    over posts and completions.
  \<^item> \<open>V1_Types\<close>, \<open>V1_Stream_Types\<close>, \<open>V1_Types_Correct\<close>: \<^verbatim>\<open>types.cpp\<close>; construction and printing of each type, and
    the locale \<open>printed_type\<close>, interpreted once per type, of what is read back.
  \<^item> \<open>V1_Pairs\<close>, \<open>V1_Websocket\<close>: \<^verbatim>\<open>pairslist.cpp\<close>, \<^verbatim>\<open>tools.cpp\<close> and \<^verbatim>\<open>websocket.cpp\<close>.
  \<^item> \<open>Decimal_Float\<close>, \<open>Aggregates\<close>, \<open>Selector\<close>: \<^verbatim>\<open>to_double\<close> of \<^verbatim>\<open>decimal.cpp\<close>, and
    \<^verbatim>\<open>aggregates.hpp\<close>, \<^verbatim>\<open>screener.cpp\<close>, \<^verbatim>\<open>selector.cpp\<close>, \<^verbatim>\<open>selector_run.cpp\<close> of
    \<^verbatim>\<open>examples/binapi2/fapi/async-recorder\<close>; both admission loops of the selector are interpretations of the
    locale \<open>admission\<close>.
  \<^item> \<open>Detail_Monitor\<close>: \<^verbatim>\<open>subs.cpp\<close>, \<^verbatim>\<open>drain.cpp\<close>, \<^verbatim>\<open>helpers.cpp\<close>, \<^verbatim>\<open>snapshot.cpp\<close> and \<^verbatim>\<open>types.hpp\<close> of
    \<^verbatim>\<open>async-recorder/detail\<close>; the manager of subscriptions, the drain, which suspends at
    each write, and the losses of the connections are the steps of one relation, over the selector's active set, the sinks of \<open>Recorders\<close> and the streams of \<open>Dynamic_Stream\<close>.

  \<^bold>\<open>Conventions.\<close> Functions that can throw or hit undefined behaviour return \<open>may_throw\<close>; a
  \<^verbatim>\<open>result<T>\<close> keeps its error and its optional value apart, as in the code, so an inconsistent
  result can be expressed. Member variables are records that are passed and returned. The network,
  the clock, OpenSSL and glaze (JSON) are parameters or inputs: outcomes of connects, reads and
  writes are scripts over which the theorems quantify. Loops that wait for input are recursions over
  the list of inputs delivered so far, and report when they are still waiting; the only bounded
  recursion of the code is the 256-step long division. Fuel is used for the mutually recursive
  legacy JSON parser: three calls per character and one more, which \<open>flatjson_load_ends\<close> shows to be
  enough for every text; and for the lookup loops of its views, one step per token of the buffer.
  The multiprecision decimals of the legacy client are a parameter of its types, and the arithmetic
  of \<^verbatim>\<open>double\<close> one of the recorder application, where the order in which unordered containers are
  walked is an input.

  \<^bold>\<open>What is shown.\<close> Decimal arithmetic is exact with its documented truncation and overflow;
  decimal text, query strings and enumerations round-trip; every request type goes out with the
  verb, path, fields and signature its traits call for, written at most twice; streams yield exactly
  the events received and end as their retry limit says; topics identify subscriptions; a
  synchronised book equals the exchange's book, the two order books agree while synchronised, and
  the order book over arbitrary network behaviour is free of undefined behaviour; WebSocket API calls
  are signed as their types say and numbered; the cross-thread buffer keeps order and delivers
  everything once its forwarder waits; the stages of the pipelined book pass on, in order, what was
  accepted and parsed; a rotating recorder keeps every frame; the rolling windows of the recorder
  application hold the sums of their buckets of time, and its selector keeps its active set within
  bounds, removes symbols only after their holding and cooling times, and admits the best; its detail
  monitor keeps subscriptions, sinks and routing together and gives each sink its own frames.
  The legacy JSON reader reads every
  compact document it is meant for into its tokens and its accessors refine lookup in the document; most legacy types read
  back what they print, requests are signed over all they carry, queued requests are answered in
  order, and channels deliver their frames in order. Some theorems describe defects of the code: the pipelined book
  never recovers from a gap, a gap inside the buffered events goes unnoticed, generators yield a
  hollow success after a bad frame, the discriminator scan can miss a field, the 8-bit digit counter
  wraps, two market events have no dispatch entry, a wake-up before the forwarder's first wait is
  lost, the pipelined order book can hang when its stages close, and using the WebSocket transport
  before a connect is undefined; the recorder's screener ignores most prices, and its detail monitor can use a
  sink after freeing it; in the legacy client errors stall the request queue, an early
  unsubscription is lost, frames that are not JSON are undefined behaviour, several types do not read
  back what they print, and black lists of two entries exclude nothing.

  \<^bold>\<open>Not modelled.\<close> Threads and executors beyond the cross-thread buffer and the pipeline, the
  hopping buffer, the cancellation of joined recorder drains, TLS and sockets below the transport
  interfaces; rounding of floating point arithmetic and the arithmetic helpers over multiprecision
  decimals; logging; the start-up and the REST synchronisation of the recorder application,
  the terminal and demo applications; of the legacy client the console reports, date
  formatting, and dumping and insertion of JSON tokens. JSON parsing of the fapi client belongs to
  glaze.
\<close>

section \<open>The snapshot service\<close>

text \<open>
  The order book asks for its snapshots through \<^verbatim>\<open>market_data_service::async_execute\<close>, with the
  traits of \<^verbatim>\<open>order_book_request_t\<close>.
\<close>

definition order_book_trait :: endpoint_trait where
  "order_book_trait = mk_trait ''order_book_response_t'' Rest_market_data order_book_endpoint"

definition depth_request :: "symbol_t \<Rightarrow> int \<Rightarrow> reflected" where
  "depth_request symbol limit = [(''symbol'', Plain (Fv_symbol symbol)), (''limit'', Optional (Some (Fv_int limit)))]"

definition fetch_snapshot ::
  "'k openssl \<Rightarrow> (string \<Rightarrow> string + binance_error_document_t) \<Rightarrow> (string \<Rightarrow> string + order_book_response_t) \<Rightarrow>
   config \<Rightarrow> symbol_t \<Rightarrow> int \<Rightarrow> timestamp_ms_t \<Rightarrow> net_script \<Rightarrow> http_client \<Rightarrow>
   (order_book_response_t result \<times> http_client) may_throw" where
  "fetch_snapshot ossl read_doc read_book cfg symbol limit now net c =
     execute_request ossl (decode_response read_doc None read_book) cfg now net order_book_trait
       (depth_request symbol limit) c"

text \<open>The request the service puts on the wire.\<close>

definition depth_wire_request :: "config \<Rightarrow> config \<Rightarrow> symbol_t \<Rightarrow> int \<Rightarrow> wire_request" where
  "depth_wire_request client_config cfg symbol limit =
     make_request client_config Verb_get
       (rest_base_path cfg @ ''/fapi/v1/depth?limit='' @ percent_encode (int_to_string limit) @
        ''&symbol='' @ percent_encode (str symbol)) [] ''application/x-www-form-urlencoded'' (api_key cfg)"

lemma depth_query:
  "to_query_map (depth_request symbol limit) = Inr [(''limit'', int_to_string limit), (''symbol'', str symbol)]"
proof -
  have "(''limit'' :: string) < ''symbol''" by code_simp
  then show ?thesis by (simp add: to_query_map_def depth_request_def emit_field_def)
qed

lemma fetch_snapshot_sends:
  assumes "client_ok c"
  shows "\<exists>r c' n. fetch_snapshot ossl read_doc read_book cfg symbol limit now net c = Inr (r, c') \<and>
    client_ok c' \<and> client_cfg c' = client_cfg c \<and> result_wf r \<and> n \<le> 2 \<and>
    attempts c' = attempts c @ replicate n (depth_wire_request (client_cfg c) cfg symbol limit)"
proof -
  let ?q = "[(''limit'', int_to_string limit), (''symbol'', str symbol)]"
  let ?e = "trait_endpoint order_book_trait"
  have e: "ep_verb ?e = Verb_get" "ep_path ?e = ''/fapi/v1/depth''" "\<not> ep_signed_request ?e"
    by (simp_all add: order_book_trait_def mk_trait_def order_book_endpoint_def mk_endpoint_def)
  have "place_query cfg Verb_get ''/fapi/v1/depth'' ?q =
      (rest_base_path cfg @ ''/fapi/v1/depth?limit='' @ percent_encode (int_to_string limit) @
        ''&symbol='' @ percent_encode (str symbol), [])"
    by (simp add: place_query_def build_query_string_def is_query_verb_def) (simp add: percent_encode_def unreserved_def is_alnum_def)
  then show ?thesis
    using unsigned_request_sends [OF assms e(3) depth_query, of ossl "decode_response read_doc None read_book" cfg now net symbol limit]
    unfolding fetch_snapshot_def by (simp add: e(1,2) depth_wire_request_def)
qed

section \<open>The order book over stream and REST\<close>

text \<open>
  \<^verbatim>\<open>local_order_book::async_run\<close> with its collaborators: the items come from the generator of
  the diff-depth subscription, and only the turns that ask for a snapshot make the REST call, on
  the one HTTP client. Each turn carries the clock and the network script of a call it may make.
  The stream side is driven by what happens at each connect of the WebSocket transport.
\<close>

definition book_subscription :: "symbol_t \<Rightarrow> subscription" where
  "book_subscription symbol = Diff_book_depth_subscription symbol ''100ms''"

definition asks_rest :: "sync_state \<Rightarrow> bool" where
  "asks_rest st \<longleftrightarrow> \<not> synced st \<and> events_until_snap st = 0"

fun book_loop ::
  "(timestamp_ms_t \<Rightarrow> net_script \<Rightarrow> http_client \<Rightarrow> (order_book_response_t result \<times> http_client) may_throw) \<Rightarrow>
   sync_state \<Rightarrow> http_client \<Rightarrow> (depth_stream_event_t result \<times> timestamp_ms_t \<times> net_script) list \<Rightarrow>
   (error option \<times> sync_state \<times> http_client) may_throw" where
  "book_loop fetch st c [] = Inr (None, st, c)"
| "book_loop fetch st c ((ev_result, now, net) # turns) =
     (if \<not> is_ok ev_result then Inr (Some (void_failure (err ev_result)), st, c)
      else bind_exn (deref ev_result) (\<lambda>event.
        if asks_rest st then
          bind_exn (fetch now net c) (\<lambda>(rest, c).
            bind_exn (local_step rest event st) (\<lambda>st. book_loop fetch st c turns))
        else bind_exn (local_step (failure no_error) event st) (\<lambda>st. book_loop fetch st c turns)))"

definition stream_attempts :: "config \<Rightarrow> transport_script list \<Rightarrow> attempt list may_throw" where
  "stream_attempts cfg script = transport_attempts (stream_host cfg) (stream_port cfg) script (new_ws_transport cfg)"

definition run_book ::
  "'k openssl \<Rightarrow> (string \<Rightarrow> string + binance_error_document_t) \<Rightarrow> (string \<Rightarrow> string + order_book_response_t) \<Rightarrow>
   (string \<Rightarrow> string + depth_stream_event_t) \<Rightarrow> config \<Rightarrow> symbol_t \<Rightarrow> int \<Rightarrow> int \<Rightarrow> transport_script list \<Rightarrow>
   (timestamp_ms_t \<times> net_script) list \<Rightarrow> bool \<Rightarrow> order_book_snapshot \<Rightarrow> http_client \<Rightarrow>
   (error option \<times> sync_state \<times> http_client) may_throw" where
  "run_book ossl read_doc read_book read_event cfg symbol limit max_reconnects script calls callback b c =
     bind_exn (stream_attempts cfg script) (\<lambda>net_attempts.
       book_loop (fetch_snapshot ossl read_doc read_book cfg symbol limit) (start_sync callback b) c
         (zip (yielded (subscribe (market_on_frame read_event) max_reconnects net_attempts)) calls))"

text \<open>A turn that does not ask for a snapshot does not depend on the answer.\<close>

lemma local_step_ignores: "\<not> asks_rest st \<Longrightarrow> local_step rest ev st = local_step rest' ev st"
  by (auto simp: local_step_def asks_rest_def Let_def)

lemma book_loop_run:
  assumes "client_ok c" "readable (map fst turns)"
    and "\<And>c now net. client_ok c \<Longrightarrow> \<exists>r c' n. fetch now net c = Inr (r, c') \<and> client_ok c' \<and>
      client_cfg c' = client_cfg c \<and> result_wf r \<and> n \<le> (2 :: nat) \<and> attempts c' = attempts c @ replicate n (wire (client_cfg c))"
  shows "\<exists>r st' c' n rests. book_loop fetch st c turns = Inr (r, st', c') \<and> client_ok c' \<and>
    n \<le> 2 * length turns \<and> attempts c' = attempts c @ replicate n (wire (client_cfg c)) \<and>
    length rests = length turns \<and> local_loop st (map2 Item (map fst turns) rests) = Inr (r, st')"
  using assms(1,2)
proof (induction turns arbitrary: st c)
  case (Cons t turns)
  obtain y now net where t: "t = (y, now, net)" by (cases t)
  from Cons.prems(2) have "result_wf y" by (simp add: t)
  then show ?case
  proof (cases rule: result_wf_cases)
    case (ok event)
    obtain rest c1 n1 where rest: "client_ok c1" "client_cfg c1 = client_cfg c" "result_wf rest" "n1 \<le> 2"
        "attempts c1 = attempts c @ replicate n1 (wire (client_cfg c))"
      and run: "book_loop fetch st c (t # turns) = bind_exn (local_step rest event st) (\<lambda>st. book_loop fetch st c1 turns)"
    proof (cases "asks_rest st")
      case True
      with assms(3) [OF Cons.prems(1), of now net] that ok t show ?thesis by fastforce
    next
      case False
      then have "local_step (failure no_error) event st = local_step (failure not_connected_error) event st"
        by (rule local_step_ignores)
      with that [of c "failure not_connected_error" 0] False Cons.prems(1) ok t show ?thesis
        by (simp add: not_connected_error_def)
    qed
    obtain st1 where st1: "local_step rest event st = Inr st1" using lb.step_total [OF rest(3)] by blast
    obtain r st' c' n rests where "book_loop fetch st1 c1 turns = Inr (r, st', c')" "client_ok c'"
      "n \<le> 2 * length turns" "attempts c' = attempts c1 @ replicate n (wire (client_cfg c1))"
      "length rests = length turns" "local_loop st1 (map2 Item (map fst turns) rests) = Inr (r, st')"
      using Cons.IH [OF rest(1), of st1] Cons.prems(2) ok by (auto simp: t)
    with rest run st1 ok show ?thesis
      by (intro exI [of _ r] exI [of _ st'] exI [of _ c'] exI [of _ "n1 + n"] exI [of _ "rest # rests"])
        (simp add: t replicate_add)
  next
    case failed
    then show ?thesis using Cons.prems(1)
      by (intro exI [of _ "Some (void_failure (err y))"] exI [of _ st] exI [of _ c] exI [of _ 0]
          exI [of _ "replicate (length (t # turns)) (failure no_error)"]) (simp add: t)
  qed
qed simp



end
